(* ===== verification/Prelude.thy ===== *)
theory Prelude
  imports Main "HOL-Library.Word" "HOL-Library.Char_ord" "HOL-Library.List_Lexorder"
begin

text \<open>
  Shared vocabulary of the development: exceptions as values of a sum type, the
  error monad every TypeScript function that can throw is written in, byte strings,
  decimal rendering, and the generic lemmas on them that the component theories use.
\<close>

section \<open>Exceptions and the error monad\<close>

text \<open>
  A thrown value is either the verifier package's \<open>CardProtocolError\<close> (its \<open>code\<close>
  and \<open>message\<close>), an \<open>Error\<close> that the press tagged with a \<open>pressCode\<close>, an HTTP
  error that a route of a service answers with (its status and message), an error of the
  database with its SQLSTATE, or any other error, of which the code only ever uses the text
  \<open>String(e)\<close>.
\<close>

datatype exn =
    CardProtocolError string string
  | PressFailure string string
  | HttpError int string
  | DbError string string
  | JsError string

type_synonym 'a res = "exn + 'a"

type_synonym byte = "8 word"

type_synonym bytes = "byte list"

text \<open>\<open>String(e)\<close> for every kind of error.\<close>

fun exn_string :: "exn \<Rightarrow> string" where
  "exn_string (CardProtocolError code msg) = ''CardProtocolError: '' @ msg"
| "exn_string (PressFailure code msg) = ''Error: '' @ msg"
| "exn_string (HttpError status msg) = ''Error: '' @ msg"
| "exn_string (DbError state msg) = ''error: '' @ msg"
| "exn_string (JsError s) = s"

primrec bindE :: "'a res \<Rightarrow> ('a \<Rightarrow> 'b res) \<Rightarrow> 'b res" where
  "bindE (Inl e) f = Inl e"
| "bindE (Inr x) f = f x"

text \<open>A \<open>try\<close> block whose \<open>catch\<close> turns the exception into a value.\<close>

primrec catchE :: "'a res \<Rightarrow> (exn \<Rightarrow> 'a res) \<Rightarrow> 'a res" where
  "catchE (Inl e) h = h e"
| "catchE (Inr x) h = Inr x"

text \<open>An array \<open>map\<close> (or a \<open>Promise.all\<close> over one) whose body may throw: the first throw wins.\<close>

fun mapE :: "('a \<Rightarrow> 'b res) \<Rightarrow> 'a list \<Rightarrow> 'b list res" where
  "mapE f [] = Inr []"
| "mapE f (x # xs) = bindE (f x) (\<lambda>y. bindE (mapE f xs) (\<lambda>ys. Inr (y # ys)))"

named_theorems res_simps "equations that read a result off the error monad"

lemma bindE_eq_Inr [res_simps]: "bindE m f = Inr y \<longleftrightarrow> (\<exists>x. m = Inr x \<and> f x = Inr y)"
  by (cases m) auto

lemma bindE_eq_Inl [res_simps]: "bindE m f = Inl e \<longleftrightarrow> m = Inl e \<or> (\<exists>x. m = Inr x \<and> f x = Inl e)"
  by (cases m) auto

lemma catchE_eq_Inr [res_simps]: "catchE m h = Inr y \<longleftrightarrow> m = Inr y \<or> (\<exists>e. m = Inl e \<and> h e = Inr y)"
  by (cases m) auto

lemma case_sum_eq [res_simps]:
  "(case m of Inl e \<Rightarrow> f e | Inr x \<Rightarrow> g x) = r \<longleftrightarrow>
     (\<exists>e. m = Inl e \<and> f e = r) \<or> (\<exists>x. m = Inr x \<and> g x = r)"
  by (cases m) auto

lemma case_option_eq [res_simps]:
  "(case m of None \<Rightarrow> f | Some x \<Rightarrow> g x) = r \<longleftrightarrow> m = None \<and> f = r \<or> (\<exists>x. m = Some x \<and> g x = r)"
  by (cases m) auto

lemma if_eq [res_simps]: "(if b then x else y) = r \<longleftrightarrow> b \<and> x = r \<or> \<not> b \<and> y = r"
  by auto

lemma bindE_cong [fundef_cong]:
  "m = m' \<Longrightarrow> (\<And>x. m' = Inr x \<Longrightarrow> f x = g x) \<Longrightarrow> bindE m f = bindE m' g"
  by (cases m') auto

lemma mapE_cong [fundef_cong]:
  "xs = ys \<Longrightarrow> (\<And>x. x \<in> set ys \<Longrightarrow> f x = g x) \<Longrightarrow> mapE f xs = mapE g ys"
proof (induction ys arbitrary: xs)
  case (Cons y ys)
  have "mapE f ys = mapE g ys"
    by (rule Cons.IH [OF refl]) (use Cons.prems in auto)
  then show ?case
    using Cons.prems by simp
qed simp

lemma mapE_Cons_Inr [res_simps]:
  "mapE f (x # xs) = Inr zs \<longleftrightarrow> (\<exists>y ys. zs = y # ys \<and> f x = Inr y \<and> mapE f xs = Inr ys)"
  by (auto simp: bindE_eq_Inr)

lemma mapE_length: "mapE f xs = Inr ys \<Longrightarrow> length ys = length xs"
  by (induction xs arbitrary: ys) (auto simp: bindE_eq_Inr)

lemma mapE_nth: "mapE f xs = Inr ys \<Longrightarrow> i < length xs \<Longrightarrow> f (xs ! i) = Inr (ys ! i)"
proof (induction xs arbitrary: ys i)
  case (Cons x xs)
  then show ?case by (cases i) (auto simp: bindE_eq_Inr)
qed simp

lemma mapE_in_set: "mapE f xs = Inr ys \<Longrightarrow> y \<in> set ys \<Longrightarrow> \<exists>x \<in> set xs. f x = Inr y"
  by (induction xs arbitrary: ys) (auto simp: bindE_eq_Inr)

lemma mapE_total: "(\<And>x. x \<in> set xs \<Longrightarrow> f x = Inr (g x)) \<Longrightarrow> mapE f xs = Inr (map g xs)"
  by (induction xs) auto

lemma mapE_cases_Inl: "mapE f xs = Inl e \<Longrightarrow> \<exists>x \<in> set xs. f x = Inl e"
  by (induction xs) (auto simp: bindE_eq_Inl)

section \<open>Decimal rendering of integers\<close>

definition digit_char :: "nat \<Rightarrow> char" where
  "digit_char d = char_of (48 + d)"

fun nat_str :: "nat \<Rightarrow> string" where
  "nat_str n = (if n < 10 then [digit_char n] else nat_str (n div 10) @ [digit_char (n mod 10)])"

declare nat_str.simps [simp del]

definition int_str :: "int \<Rightarrow> string" where
  "int_str i = (if i < 0 then ''-'' @ nat_str (nat (- i)) else nat_str (nat i))"

definition is_digit :: "char \<Rightarrow> bool" where
  "is_digit c \<longleftrightarrow> 48 \<le> (of_char c :: nat) \<and> (of_char c :: nat) \<le> 57"

lemma of_char_digit [simp]: "d < 10 \<Longrightarrow> (of_char (digit_char d) :: nat) = 48 + d"
  by (simp add: digit_char_def)

lemma digit_char_is_digit [simp]: "d < 10 \<Longrightarrow> is_digit (digit_char d)"
  by (simp add: is_digit_def)

lemma digit_char_inject: "a < 10 \<Longrightarrow> b < 10 \<Longrightarrow> digit_char a = digit_char b \<longleftrightarrow> a = b"
  by (metis add_left_cancel of_char_digit)

lemma nat_str_digits: "c \<in> set (nat_str n) \<Longrightarrow> is_digit c"
proof (induction n rule: nat_str.induct)
  case (1 n)
  then show ?case
    by (cases "n < 10") (auto simp: nat_str.simps [of n])
qed

lemma nat_str_nonempty [simp]: "nat_str n \<noteq> []"
  by (simp add: nat_str.simps [of n])

lemma nat_str_inject: "nat_str m = nat_str n \<Longrightarrow> m = n"
proof (induction m arbitrary: n rule: nat_str.induct)
  case (1 m)
  show ?case
  proof (cases "m < 10")
    case True
    then show ?thesis
      using "1.prems" nat_str_nonempty [of "n div 10"]
      by (cases "n < 10") (auto simp: nat_str.simps [of m] nat_str.simps [of n] digit_char_inject
          simp del: nat_str_nonempty)
  next
    case False
    then have n: "\<not> n < 10"
      using "1.prems" by (auto simp: nat_str.simps [of m] nat_str.simps [of n])
    then have eqs: "nat_str (m div 10) = nat_str (n div 10)" "m mod 10 = n mod 10"
      using False "1.prems" by (auto simp: nat_str.simps [of m] nat_str.simps [of n] digit_char_inject)
    then have "m div 10 = n div 10"
      using "1.IH" False by simp
    with eqs(2) show ?thesis by (metis div_mod_decomp)
  qed
qed

lemma int_str_nonempty [simp]: "int_str i \<noteq> []"
  by (simp add: int_str_def)

lemma minus_not_digit [simp]: "\<not> is_digit (CHR ''-'')"
  by (simp add: is_digit_def)

lemma int_str_chars: "c \<in> set (int_str i) \<Longrightarrow> is_digit c \<or> c = CHR ''-''"
  by (auto simp: int_str_def nat_str_digits split: if_splits)

lemma int_str_inject: "int_str i = int_str j \<Longrightarrow> i = j"
proof -
  assume eq: "int_str i = int_str j"
  have hd_nat: "nat_str n = CHR ''-'' # xs \<Longrightarrow> False" for n xs
    using nat_str_digits [of "CHR ''-''" n] by (simp add: is_digit_def)
  show "i = j"
    using eq by (auto simp: int_str_def dest: nat_str_inject hd_nat sym [THEN hd_nat] split: if_splits)
qed

section \<open>Lists\<close>

text \<open>The code's \<open>parts.join(",")\<close>.\<close>

fun join_comma :: "string list \<Rightarrow> string" where
  "join_comma [] = []"
| "join_comma [s] = s"
| "join_comma (s # t # ss) = s @ '','' @ join_comma (t # ss)"

lemma find_Some_in: "List.find P xs = Some x \<Longrightarrow> x \<in> set xs \<and> P x"
  by (auto simp: find_Some_iff)

end
