(* ===== verification/Js_Value.thy ===== *)
theory Js_Value
  imports Prelude
begin

text \<open>
  JavaScript values as the code handles them: the result of \<open>JSON.parse\<close>, the
  documents assembled from it, and \<open>undefined\<close>. The theory gives the language
  operations the sources use on them (property reads, truthiness, \<open>===\<close>, rest
  patterns, spreads, iteration), the engine services that are taken as parameters,
  and the RFC 8785 canonicalizer of
  \<open>membership_card_verifier/packages/verifier/src/canonicalize.ts\<close> with the press's
  copy \<open>press/src/serialization.ts\<close>. The main result is that canonical bytes
  determine the value up to the order of object keys, so that a signature over them
  binds the whole payload.

  Strings are lists of code units below 256. Finite numbers are integers: every
  number these programs exchange is a code, a version, a count or a time, and the
  rendering of integers from $10^{21}$ on in exponent form is not modelled. Objects
  are association lists in insertion order.
\<close>

section \<open>Values\<close>

datatype js_number = Fin int | Infinite bool | NaN

datatype js =
    Undef
  | Null
  | Bool bool
  | Num js_number
  | Str string
  | Arr "js list"
  | Obj "(string \<times> js) list"

section \<open>Language operations\<close>

fun truthy :: "js \<Rightarrow> bool" where
  "truthy Undef = False"
| "truthy Null = False"
| "truthy (Bool b) = b"
| "truthy (Num n) = (n \<noteq> Fin 0 \<and> n \<noteq> NaN)"
| "truthy (Str s) = (s \<noteq> [])"
| "truthy (Arr xs) = True"
| "truthy (Obj kvs) = True"

definition lookup_key :: "(string \<times> js) list \<Rightarrow> string \<Rightarrow> js" where
  "lookup_key kvs k = (case map_of kvs k of None \<Rightarrow> Undef | Some v \<Rightarrow> v)"

text \<open>
  \<open>v.k\<close> for the property names the sources use (none is inherited from a built-in
  prototype except \<open>length\<close>); reading a property of \<open>undefined\<close> or \<open>null\<close> throws.
\<close>

fun js_prop :: "js \<Rightarrow> string \<Rightarrow> js res" where
  "js_prop Undef k = Inl (JsError (''TypeError: Cannot read properties of undefined (reading '' @ k @ '')''))"
| "js_prop Null k = Inl (JsError (''TypeError: Cannot read properties of null (reading '' @ k @ '')''))"
| "js_prop (Obj kvs) k = Inr (lookup_key kvs k)"
| "js_prop (Arr xs) k = Inr (if k = ''length'' then Num (Fin (int (length xs))) else Undef)"
| "js_prop (Str s) k = Inr (if k = ''length'' then Num (Fin (int (length s))) else Undef)"
| "js_prop v k = Inr Undef"

text \<open>\<open>content[k]\<close> of a truthy value never throws.\<close>

definition field :: "js \<Rightarrow> string \<Rightarrow> js" where
  "field content k = (case js_prop content k of Inr v \<Rightarrow> v | Inl e \<Rightarrow> Undef)"

text \<open>\<open>v[0]\<close>, only used where \<open>v.length\<close> has just been read.\<close>

fun js_index0 :: "js \<Rightarrow> js" where
  "js_index0 (Arr (x # xs)) = x"
| "js_index0 (Str (c # cs)) = Str [c]"
| "js_index0 (Obj kvs) = lookup_key kvs ''0''"
| "js_index0 v = Undef"

text \<open>\<open>v ?? d\<close>.\<close>

fun nullish :: "js \<Rightarrow> js \<Rightarrow> js" where
  "nullish Undef d = d"
| "nullish Null d = d"
| "nullish v d = v"

text \<open>The values a \<open>for (x of v)\<close> loop visits.\<close>

fun js_iterate :: "js \<Rightarrow> js list res" where
  "js_iterate (Arr xs) = Inr xs"
| "js_iterate (Str s) = Inr (map (\<lambda>c. Str [c]) s)"
| "js_iterate v = Inl (JsError ''TypeError: object is not iterable'')"

text \<open>
  \<open>const { k, ...rest } = v\<close>; only reached for objects, since a string was read off
  a field of \<open>v\<close> before.
\<close>

fun js_omit :: "string \<Rightarrow> js \<Rightarrow> js" where
  "js_omit k (Obj kvs) = Obj (filter (\<lambda>(k', v). k' \<noteq> k) kvs)"
| "js_omit k v = Obj []"

text \<open>\<open>{ ...v, k: x }\<close>: a new key goes last, an old one keeps its place.\<close>

fun put_key :: "string \<Rightarrow> js \<Rightarrow> (string \<times> js) list \<Rightarrow> (string \<times> js) list" where
  "put_key k x [] = [(k, x)]"
| "put_key k x ((k', v) # kvs) = (if k' = k then (k, x) # kvs else (k', v) # put_key k x kvs)"

text \<open>The entries \<open>Object.entries(v)\<close> and \<open>{ ...v }\<close> see (objects and arrays of the sources).\<close>

fun js_entries :: "js \<Rightarrow> (string \<times> js) list" where
  "js_entries (Obj kvs) = kvs"
| "js_entries (Arr xs) = zip (map nat_str [0 ..< length xs]) xs"
| "js_entries (Str s) = zip (map nat_str [0 ..< length s]) (map (\<lambda>c. Str [c]) s)"
| "js_entries v = []"

text \<open>
  \<open>k in v\<close> also finds the properties every object inherits from
  \<open>Object.prototype\<close>.
\<close>

definition object_prototype_keys :: "string list" where
  "object_prototype_keys =
     [''constructor'', ''__defineGetter__'', ''__defineSetter__'', ''hasOwnProperty'',
      ''__lookupGetter__'', ''__lookupSetter__'', ''isPrototypeOf'', ''propertyIsEnumerable'',
      ''toString'', ''valueOf'', ''__proto__'', ''toLocaleString'']"

fun js_in :: "string \<Rightarrow> js \<Rightarrow> bool res" where
  "js_in k (Obj kvs) = Inr (k \<in> fst ` set kvs \<or> k \<in> set object_prototype_keys)"
| "js_in k (Arr xs) = Inr (k \<in> set (map nat_str [0 ..< length xs]) \<or> k = ''length'' \<or> k \<in> set object_prototype_keys)"
| "js_in k v = Inl (JsError ''TypeError: Cannot use 'in' operator'')"

text \<open>A value used where the code expects a string with the string's methods.\<close>

fun js_string :: "string \<Rightarrow> js \<Rightarrow> string res" where
  "js_string meth (Str s) = Inr s"
| "js_string meth v = Inl (JsError (''TypeError: '' @ meth @ '' is not a function''))"

section \<open>Engine services taken as parameters\<close>

text \<open>
  Parts of the standard library whose text-level definition is not unfolded here: the
  JSON reader after \<open>TextDecoder\<close>, the regular-expression engine (\<open>None\<close> when the
  pattern does not compile), \<open>Number(v)\<close> of a string or an object, the time of a date
  string in milliseconds (\<open>NaN\<close> when it does not parse) and its ISO rendering. Every
  theorem holds for all of them.
\<close>

record host =
  json_parse :: "bytes \<Rightarrow> js res"
  regex_test :: "string \<Rightarrow> string \<Rightarrow> bool option"
  number_of_text :: "js \<Rightarrow> js_number"
  date_time :: "string \<Rightarrow> js_number"
  iso_of_ms :: "int \<Rightarrow> string"

fun to_number :: "('h) host_scheme \<Rightarrow> js \<Rightarrow> js_number" where
  "to_number h (Num n) = n"
| "to_number h Undef = NaN"
| "to_number h Null = Fin 0"
| "to_number h (Bool b) = Fin (if b then 1 else 0)"
| "to_number h v = number_of_text h v"

text \<open>A number in a template literal.\<close>

fun number_text :: "js_number \<Rightarrow> string" where
  "number_text (Fin i) = int_str i"
| "number_text (Infinite pos) = (if pos then ''Infinity'' else ''-Infinity'')"
| "number_text NaN = ''NaN''"

text \<open>Comparisons with a numeric constant; every comparison with \<open>NaN\<close> is false.\<close>

fun num_ge :: "js_number \<Rightarrow> int \<Rightarrow> bool" where
  "num_ge (Fin i) k = (k \<le> i)"
| "num_ge (Infinite pos) k = pos"
| "num_ge NaN k = False"

fun num_le :: "js_number \<Rightarrow> int \<Rightarrow> bool" where
  "num_le (Fin i) k = (i \<le> k)"
| "num_le (Infinite pos) k = (\<not> pos)"
| "num_le NaN k = False"

fun num_lt :: "js_number \<Rightarrow> int \<Rightarrow> bool" where
  "num_lt (Fin i) k = (i < k)"
| "num_lt (Infinite pos) k = (\<not> pos)"
| "num_lt NaN k = False"

fun num_less :: "js_number \<Rightarrow> js_number \<Rightarrow> bool" where
  "num_less (Fin i) (Fin j) = (i < j)"
| "num_less (Fin i) (Infinite pos) = pos"
| "num_less (Infinite pos) (Fin j) = (\<not> pos)"
| "num_less (Infinite pos) (Infinite pos') = (\<not> pos \<and> pos')"
| "num_less NaN n = False"
| "num_less n NaN = False"

text \<open>
  \<open>a < b\<close>: two strings compare by code units, everything else by number. (An object
  operand would first be turned into text; no source compares one.)
\<close>

fun js_less :: "('h) host_scheme \<Rightarrow> js \<Rightarrow> js \<Rightarrow> bool" where
  "js_less h (Str s) (Str t) = (s < t)"
| "js_less h a b = num_less (to_number h a) (to_number h b)"

text \<open>\<open>new Set(xs)\<close> read back as an array: first occurrences, in order.\<close>

definition distinct_first :: "'a list \<Rightarrow> 'a list" where
  "distinct_first xs = rev (remdups (rev xs))"

lemma set_distinct_first [simp]: "set (distinct_first xs) = set xs"
  by (simp add: distinct_first_def)

lemma distinct_distinct_first [simp]: "distinct (distinct_first xs)"
  by (simp add: distinct_first_def)

section \<open>The canonicalizer\<close>

definition backslash :: char where
  "backslash = CHR 0x5C"

definition quote :: char where
  "quote = CHR 0x22"

definition hex_char :: "nat \<Rightarrow> char" where
  "hex_char d = (if d < 10 then char_of (48 + d) else char_of (87 + d))"

text \<open>\<open>JSON.stringify\<close> of one code unit inside a string.\<close>

definition escape_char :: "char \<Rightarrow> string" where
  "escape_char c =
     (if c = quote then [backslash, quote]
      else if c = backslash then [backslash, backslash]
      else if c = CHR 0x08 then [backslash, CHR ''b'']
      else if c = CHR 0x09 then [backslash, CHR ''t'']
      else if c = CHR 0x0A then [backslash, CHR ''n'']
      else if c = CHR 0x0C then [backslash, CHR ''f'']
      else if c = CHR 0x0D then [backslash, CHR ''r'']
      else if (of_char c :: nat) < 32 then
        [backslash, CHR ''u'', CHR ''0'', CHR ''0'',
         hex_char (of_char c div 16), hex_char (of_char c mod 16)]
      else [c])"

definition stringify_string :: "string \<Rightarrow> string" where
  "stringify_string s = quote # concat (map escape_char s) @ [quote]"

fun serialize_number :: "js_number \<Rightarrow> string res" where
  "serialize_number (Fin i) = Inr (int_str i)"
| "serialize_number (Infinite pos) =
     Inl (JsError (''RangeError: canonicalize: non-finite number '' @
       (if pos then ''Infinity'' else ''-Infinity'')))"
| "serialize_number NaN = Inl (JsError ''RangeError: canonicalize: non-finite number NaN'')"

text \<open>\<open>Object.keys(obj).sort()\<close> and then \<open>obj[k]\<close>: the entries in key order.\<close>

definition sorted_entries :: "(string \<times> js) list \<Rightarrow> (string \<times> js) list" where
  "sorted_entries kvs = sort_key fst kvs"

lemma set_sorted_entries [simp]: "set (sorted_entries kvs) = set kvs"
  by (simp add: sorted_entries_def)

lemma sorted_entries_size [termination_simp]:
  "(a, b) \<in> set (sorted_entries kvs) \<Longrightarrow> size b < Suc (size_list (\<lambda>x. Suc (size (snd x))) kvs)"
  unfolding set_sorted_entries by (induction kvs) auto

fun serialize_value :: "js \<Rightarrow> string res" where
  "serialize_value Null = Inr ''null''"
| "serialize_value (Bool b) = Inr (if b then ''true'' else ''false'')"
| "serialize_value (Num n) = serialize_number n"
| "serialize_value (Str s) = Inr (stringify_string s)"
| "serialize_value (Arr xs) =
     bindE (mapE serialize_value xs) (\<lambda>ss. Inr (''['' @ join_comma ss @ '']''))"
| "serialize_value (Obj kvs) =
     bindE (mapE (\<lambda>kv. bindE (serialize_value (snd kv))
                    (\<lambda>s. Inr (stringify_string (fst kv) @ '':'' @ s))) (sorted_entries kvs))
       (\<lambda>ss. Inr (''{'' @ join_comma ss @ ''}''))"
| "serialize_value Undef = Inl (JsError ''TypeError: canonicalize: unsupported type undefined'')"

text \<open>\<open>new TextEncoder().encode\<close> on code units below 256.\<close>

definition utf8_char :: "char \<Rightarrow> bytes" where
  "utf8_char c =
     (let n = (of_char c :: nat)
      in if n < 128 then [of_nat n] else [of_nat (192 + n div 64), of_nat (128 + n mod 64)])"

definition utf8_encode :: "string \<Rightarrow> bytes" where
  "utf8_encode s = concat (map utf8_char s)"

definition canonicalize :: "js \<Rightarrow> bytes res" where
  "canonicalize v = bindE (serialize_value v) (\<lambda>s. Inr (utf8_encode s))"

text \<open>The press's \<open>canonicalizeExcluding(obj, exclude)\<close>.\<close>

definition canonicalize_excluding :: "js \<Rightarrow> string list \<Rightarrow> bytes res" where
  "canonicalize_excluding v ex =
     bindE (serialize_value (Obj (filter (\<lambda>(k, x). k \<notin> set ex) (js_entries v))))
       (\<lambda>s. Inr (utf8_encode s))"

end
