(* ===== verification/Canonical.thy ===== *)
theory Canonical
  imports Js_Value
begin

text \<open>
  Unique readability of the canonical form: the text \<open>serialize_value\<close> produces can be
  read back in one way only, so equal canonical bytes come from values that differ at
  most in the order in which object keys were inserted.
\<close>

section \<open>Normal form: keys sorted at every level\<close>

fun sort_keys :: "js \<Rightarrow> js" where
  "sort_keys (Arr xs) = Arr (map sort_keys xs)"
| "sort_keys (Obj kvs) = Obj (map (\<lambda>kv. (fst kv, sort_keys (snd kv))) (sorted_entries kvs))"
| "sort_keys v = v"

section \<open>Strings\<close>

lemma hex_char_inject: "a < 16 \<Longrightarrow> b < 16 \<Longrightarrow> hex_char a = hex_char b \<Longrightarrow> a = b"
proof -
  assume ab: "a < 16" "b < 16" and eq: "hex_char a = hex_char b"
  have val: "d < 16 \<Longrightarrow> (of_char (hex_char d) :: nat) = (if d < 10 then 48 + d else 87 + d)" for d
    by (simp add: hex_char_def)
  from ab have "(if a < 10 then 48 + a else 87 + a) = (if b < 10 then 48 + b else 87 + b)"
    using val eq by metis
  with ab show "a = b" by (auto split: if_splits)
qed

lemma escape_char_nonempty [simp]: "escape_char c \<noteq> []"
  by (simp add: escape_char_def)

lemma escape_char_not_quote: "escape_char c @ x = quote # y \<Longrightarrow> False"
  by (auto simp: escape_char_def quote_def backslash_def split: if_splits)

lemma hex_pair_inject:
  assumes "m < (32::nat)" "n < 32" "hex_char (m div 16) = hex_char (n div 16)"
    "hex_char (m mod 16) = hex_char (n mod 16)"
  shows "m = n"
proof -
  from assms have "m div 16 = n div 16"
    by (intro hex_char_inject) (auto simp: less_mult_imp_div_less)
  moreover from assms have "m mod 16 = n mod 16"
    by (intro hex_char_inject) auto
  ultimately show ?thesis by (metis div_mod_decomp)
qed

lemma escape_char_prefix: "escape_char a @ x = escape_char b @ y \<Longrightarrow> a = b \<and> x = y"
  unfolding escape_char_def quote_def backslash_def
  by (auto split: if_splits dest: hex_pair_inject)

lemma escaped_string_prefix:
  "concat (map escape_char s) @ quote # x = concat (map escape_char t) @ quote # y \<Longrightarrow> s = t \<and> x = y"
proof (induction s arbitrary: t)
  case Nil
  show ?case
  proof (cases t)
    case (Cons d t')
    with Nil have "escape_char d @ (concat (map escape_char t') @ quote # y) = quote # x" by simp
    then show ?thesis by (blast dest: escape_char_not_quote)
  qed (use Nil in simp)
next
  case (Cons c s)
  note outer = Cons
  show ?case
  proof (cases t)
    case Nil
    with outer have "escape_char c @ (concat (map escape_char s) @ quote # x) = quote # y" by simp
    then show ?thesis by (blast dest: escape_char_not_quote)
  next
    case (Cons d t')
    with outer have "escape_char c @ (concat (map escape_char s) @ quote # x)
        = escape_char d @ (concat (map escape_char t') @ quote # y)" by simp
    from escape_char_prefix [OF this] outer(1) [of t'] Cons show ?thesis by simp
  qed
qed

lemma stringify_string_prefix:
  "stringify_string s @ x = stringify_string t @ y \<Longrightarrow> s = t \<and> x = y"
  unfolding stringify_string_def append_Cons append_assoc append_Nil list.inject
  by (blast dest: escaped_string_prefix)

section \<open>Delimited texts\<close>

text \<open>What may follow a value inside a larger text.\<close>

definition closes :: "string \<Rightarrow> bool" where
  "closes x \<longleftrightarrow> x = [] \<or> hd x = CHR '','' \<or> hd x = CHR '']'' \<or> hd x = CHR ''}''"

definition number_char :: "char \<Rightarrow> bool" where
  "number_char c \<longleftrightarrow> is_digit c \<or> c = CHR ''-''"

lemma closes_not_number: "closes x \<Longrightarrow> takeWhile number_char x = []"
  by (cases x) (auto simp: closes_def number_char_def is_digit_def)

lemma int_str_prefix:
  assumes "int_str i @ x = int_str j @ y" "closes x" "closes y"
  shows "i = j \<and> x = y"
proof -
  have take: "closes z \<Longrightarrow> takeWhile number_char (int_str k @ z) = int_str k" for k z
    using int_str_chars [of _ k] closes_not_number [of z]
    by (subst takeWhile_append2) (auto simp: number_char_def)
  have "int_str i = int_str j"
    using take [of x i] take [of y j] assms by metis
  with assms(1) show ?thesis by (simp add: int_str_inject)
qed

text \<open>How the text of a value can start.\<close>

definition value_start :: "char \<Rightarrow> bool" where
  "value_start c \<longleftrightarrow> c \<noteq> CHR '','' \<and> c \<noteq> CHR '']'' \<and> c \<noteq> CHR ''}''"

lemma int_str_hd: "number_char (hd (int_str i))"
  using int_str_chars [of "hd (int_str i)" i] by (simp add: number_char_def)

lemma number_char_start: "number_char c \<Longrightarrow> value_start c"
  by (auto simp: number_char_def is_digit_def value_start_def)

lemma serialize_start: "serialize_value v = Inr s \<Longrightarrow> s \<noteq> [] \<and> value_start (hd s)"
proof (cases v)
  case (Num n)
  moreover assume "serialize_value v = Inr s"
  ultimately show ?thesis
    using int_str_hd number_char_start by (cases n) auto
qed (auto simp: value_start_def bindE_eq_Inr stringify_string_def quote_def split: if_splits)

section \<open>Unique readability\<close>

text \<open>
  An element code can be read off the front of a text whenever what follows closes it.
  \<open>reads enc nf v\<close> says so for one value \<open>v\<close>, up to the normal form \<open>nf\<close>.
\<close>

definition reads :: "('a \<Rightarrow> string res) \<Rightarrow> ('a \<Rightarrow> 'b) \<Rightarrow> 'a \<Rightarrow> bool" where
  "reads enc nf v \<longleftrightarrow>
     (\<forall>w s t x y. enc v = Inr s \<longrightarrow> enc w = Inr t \<longrightarrow> s @ x = t @ y \<longrightarrow> closes x \<longrightarrow> closes y
        \<longrightarrow> nf v = nf w \<and> x = y)"

lemma readsD:
  "reads enc nf v \<Longrightarrow> enc v = Inr s \<Longrightarrow> enc w = Inr t \<Longrightarrow> s @ x = t @ y \<Longrightarrow> closes x \<Longrightarrow> closes y
    \<Longrightarrow> nf v = nf w \<and> x = y"
  unfolding reads_def by blast

text \<open>Comma-separated lists of such elements are readable up to their closing bracket.\<close>

lemma join_comma_Cons: "join_comma (s # ss) = s @ (if ss = [] then [] else '','' @ join_comma ss)"
  by (cases ss) auto

lemma closes_tail: "closes ((if ss = [] then [] else '','' @ join_comma ss) @ c # z)"
  if "c = CHR '']'' \<or> c = CHR ''}''"
  using that by (auto simp: closes_def)

lemma mapE_Nil_iff: "mapE f xs = Inr [] \<longleftrightarrow> xs = []"
  by (cases xs) (auto simp: bindE_eq_Inr)

lemma join_comma_reads:
  assumes "\<And>v. v \<in> set vs \<Longrightarrow> reads enc nf v"
    and start: "\<And>v s. enc v = Inr s \<Longrightarrow> s \<noteq> [] \<and> value_start (hd s)"
    and c: "c = CHR '']'' \<or> c = CHR ''}''"
    and "mapE enc vs = Inr ss" "mapE enc ws = Inr ts"
    and "join_comma ss @ c # x = join_comma ts @ c # y"
  shows "map nf vs = map nf ws \<and> x = y"
  using assms(1,4-)
proof (induction vs arbitrary: ws ss ts)
  case Nil
  show ?case
  proof (cases ws)
    case (Cons w ws')
    with Nil.prems(3) obtain t ts' where t: "ts = t # ts'" "enc w = Inr t"
      by (auto simp: bindE_eq_Inr)
    from Nil.prems(2,4) t(1) have "c # x = t @ ((if ts' = [] then [] else '','' @ join_comma ts') @ c # y)"
      by (simp add: join_comma_Cons)
    then have "hd t = c" using start [OF t(2)] by (metis hd_append2 list.sel(1))
    with start [OF t(2)] c show ?thesis by (auto simp: value_start_def)
  qed (use Nil in auto)
next
  case (Cons v vs)
  from Cons.prems(2) obtain s ss' where ss: "ss = s # ss'" "enc v = Inr s" "mapE enc vs = Inr ss'"
    by (auto simp: bindE_eq_Inr)
  show ?case
  proof (cases ws)
    case Nil
    with Cons.prems(3,4) ss(1) have "s @ ((if ss' = [] then [] else '','' @ join_comma ss') @ c # x) = c # y"
      by (simp add: join_comma_Cons)
    then have "hd s = c" using start [OF ss(2)] by (metis hd_append2 list.sel(1))
    with start [OF ss(2)] c show ?thesis by (auto simp: value_start_def)
  next
    case (Cons w ws')
    with Cons.prems(3) obtain t ts' where ts: "ts = t # ts'" "enc w = Inr t" "mapE enc ws' = Inr ts'"
      by (auto simp: bindE_eq_Inr)
    have eq: "s @ ((if ss' = [] then [] else '','' @ join_comma ss') @ c # x)
        = t @ ((if ts' = [] then [] else '','' @ join_comma ts') @ c # y)"
      using Cons.prems(4) unfolding ss(1) ts(1) join_comma_Cons append_assoc .
    have rv: "reads enc nf v" using Cons.prems(1) by simp
    have step: "nf v = nf w \<and> (if ss' = [] then [] else '','' @ join_comma ss') @ c # x
        = (if ts' = [] then [] else '','' @ join_comma ts') @ c # y"
      by (rule readsD [OF rv ss(2) ts(2) eq closes_tail [OF c] closes_tail [OF c]])
    then have "join_comma ss' @ c # x = join_comma ts' @ c # y"
      using c by (cases "ss' = []"; cases "ts' = []") auto
    from Cons.IH [OF _ ss(3) ts(3) this] Cons.prems(1) step show ?thesis
      by (simp add: Cons)
  qed
qed

abbreviation serialize_entry :: "string \<times> js \<Rightarrow> string res" where
  "serialize_entry kv \<equiv>
     bindE (serialize_value (snd kv)) (\<lambda>s. Inr (stringify_string (fst kv) @ '':'' @ s))"

lemma entry_reads:
  assumes "reads serialize_value sort_keys (snd kv)"
  shows "reads serialize_entry (\<lambda>kv. (fst kv, sort_keys (snd kv))) kv"
  unfolding reads_def
proof (intro allI impI)
  fix kw s t x y
  assume "serialize_entry kv = Inr s" "serialize_entry kw = Inr t" "s @ x = t @ y" "closes x" "closes y"
  then obtain s' t' where st: "serialize_value (snd kv) = Inr s'" "serialize_value (snd kw) = Inr t'"
    and eq: "stringify_string (fst kv) @ ('':'' @ s' @ x) = stringify_string (fst kw) @ ('':'' @ t' @ y)"
    by (auto simp: bindE_eq_Inr)
  from stringify_string_prefix [OF eq] have "fst kv = fst kw" "s' @ x = t' @ y" by auto
  with readsD [OF assms st this(2)] show "(fst kv, sort_keys (snd kv)) = (fst kw, sort_keys (snd kw)) \<and> x = y"
    using \<open>closes x\<close> \<open>closes y\<close> by simp
qed

lemma entry_start: "serialize_entry kv = Inr s \<Longrightarrow> s \<noteq> [] \<and> value_start (hd s)"
  by (auto simp: bindE_eq_Inr stringify_string_def value_start_def quote_def)

lemma stringify_hd: "stringify_string s @ x = c # y \<Longrightarrow> c = quote"
  by (simp add: stringify_string_def)

lemma int_str_no_hd: "int_str i @ x = c # y \<Longrightarrow> number_char c"
  using int_str_hd [of i] int_str_nonempty [of i] by (cases "int_str i") auto

lemma number_char_distinct [simp]:
  "\<not> number_char (CHR ''n'')" "\<not> number_char (CHR ''t'')" "\<not> number_char (CHR ''f'')"
  "\<not> number_char (CHR ''['')" "\<not> number_char (CHR ''{'')" "\<not> number_char quote"
  by (auto simp: number_char_def is_digit_def quote_def)

lemma quote_distinct [simp]:
  "quote \<noteq> CHR ''n''" "quote \<noteq> CHR ''t''" "quote \<noteq> CHR ''f''" "quote \<noteq> CHR ''[''" "quote \<noteq> CHR ''{''"
  by (auto simp: quote_def)

text \<open>The first character tells the kind of value.\<close>

fun kind_char :: "js \<Rightarrow> char \<Rightarrow> bool" where
  "kind_char Null c = (c = CHR ''n'')"
| "kind_char (Bool b) c = (c = (if b then CHR ''t'' else CHR ''f''))"
| "kind_char (Num n) c = number_char c"
| "kind_char (Str s) c = (c = quote)"
| "kind_char (Arr xs) c = (c = CHR ''['')"
| "kind_char (Obj kvs) c = (c = CHR ''{'')"
| "kind_char Undef c = False"

lemma serialize_kind: "serialize_value v = Inr s \<Longrightarrow> s \<noteq> [] \<and> kind_char v (hd s)"
proof (cases v)
  case (Num n)
  moreover assume "serialize_value v = Inr s"
  ultimately show ?thesis
    using int_str_hd by (cases n) auto
qed (auto simp: bindE_eq_Inr stringify_string_def split: if_splits)

lemma reads_by_kind:
  assumes "\<And>w s t x y. serialize_value v = Inr s \<Longrightarrow> serialize_value w = Inr t \<Longrightarrow> s @ x = t @ y
      \<Longrightarrow> closes x \<Longrightarrow> closes y \<Longrightarrow> kind_char v (hd s) \<Longrightarrow> kind_char w (hd s)
      \<Longrightarrow> sort_keys v = sort_keys w \<and> x = y"
  shows "reads serialize_value sort_keys v"
  unfolding reads_def
proof (intro allI impI)
  fix w s t x y
  assume eqs: "serialize_value v = Inr s" "serialize_value w = Inr t" "s @ x = t @ y" "closes x" "closes y"
  have "hd s = hd t"
    using serialize_kind [OF eqs(1)] serialize_kind [OF eqs(2)] eqs(3) by (metis hd_append2)
  then show "sort_keys v = sort_keys w \<and> x = y"
    using assms [OF eqs] serialize_kind [OF eqs(1)] serialize_kind [OF eqs(2)] by simp
qed

lemma serialize_reads: "reads serialize_value sort_keys v"
proof (induction v)
  case (Num n)
  show ?case
  proof (rule reads_by_kind)
    fix w s t x y
    assume a: "serialize_value (Num n) = Inr s" "serialize_value w = Inr t" "s @ x = t @ y"
      "closes x" "closes y" "kind_char (Num n) (hd s)" "kind_char w (hd s)"
    then obtain m where w: "w = Num m"
      by (cases w) (auto split: if_splits)
    with a show "sort_keys (Num n) = sort_keys w \<and> x = y"
      by (cases n; cases m) (auto dest: int_str_prefix)
  qed
next
  case (Str u)
  show ?case
  proof (rule reads_by_kind)
    fix w s t x y
    assume a: "serialize_value (Str u) = Inr s" "serialize_value w = Inr t" "s @ x = t @ y"
      "kind_char (Str u) (hd s)" "kind_char w (hd s)"
    then obtain r where w: "w = Str r"
      by (cases w) (auto split: if_splits simp: quote_def number_char_def is_digit_def)
    with a show "sort_keys (Str u) = sort_keys w \<and> x = y"
      by (auto dest: stringify_string_prefix)
  qed
next
  case (Arr vs)
  show ?case
  proof (rule reads_by_kind)
    fix w s t x y
    assume a: "serialize_value (Arr vs) = Inr s" "serialize_value w = Inr t" "s @ x = t @ y"
      "kind_char (Arr vs) (hd s)" "kind_char w (hd s)"
    then obtain ws where w: "w = Arr ws"
      by (cases w) (auto split: if_splits simp: quote_def number_char_def is_digit_def)
    with a obtain ss ts where st: "mapE serialize_value vs = Inr ss" "mapE serialize_value ws = Inr ts"
        "join_comma ss @ CHR '']'' # x = join_comma ts @ CHR '']'' # y"
      by (auto simp: bindE_eq_Inr)
    have "map sort_keys vs = map sort_keys ws \<and> x = y"
      by (rule join_comma_reads [OF _ serialize_start _ st]) (use Arr in auto)
    with w show "sort_keys (Arr vs) = sort_keys w \<and> x = y" by simp
  qed
next
  case (Obj kvs)
  show ?case
  proof (rule reads_by_kind)
    fix w s t x y
    assume a: "serialize_value (Obj kvs) = Inr s" "serialize_value w = Inr t" "s @ x = t @ y"
      "kind_char (Obj kvs) (hd s)" "kind_char w (hd s)"
    then obtain kws where w: "w = Obj kws"
      by (cases w) (auto split: if_splits simp: quote_def number_char_def is_digit_def)
    with a obtain ss ts where st: "mapE serialize_entry (sorted_entries kvs) = Inr ss"
        "mapE serialize_entry (sorted_entries kws) = Inr ts"
        "join_comma ss @ CHR ''}'' # x = join_comma ts @ CHR ''}'' # y"
      by (auto simp: bindE_eq_Inr)
    have "reads serialize_entry (\<lambda>kv. (fst kv, sort_keys (snd kv))) kv"
      if "kv \<in> set (sorted_entries kvs)" for kv
      using that Obj [of kv "snd kv"] by (intro entry_reads) (cases kv, simp add: prod_set_simps)
    then have "map (\<lambda>kv. (fst kv, sort_keys (snd kv))) (sorted_entries kvs)
        = map (\<lambda>kv. (fst kv, sort_keys (snd kv))) (sorted_entries kws) \<and> x = y"
      by (intro join_comma_reads [OF _ entry_start _ st]) simp_all
    with w show "sort_keys (Obj kvs) = sort_keys w \<and> x = y" by simp
  qed
qed (rule reads_by_kind; case_tac w; auto split: if_splits simp: quote_def number_char_def is_digit_def)+

section \<open>UTF-8\<close>

text \<open>Below 256 a code point takes one byte below 128, or a lead byte 194 or 195 and a tail byte.\<close>

lemma unat_of_nat_byte: "n < 256 \<Longrightarrow> unat (of_nat n :: byte) = n"
  by (simp add: unat_of_nat take_bit_eq_mod)

lemma utf8_char_unat:
  "map unat (utf8_char c) = (let n = (of_char c :: nat)
     in if n < 128 then [n] else [192 + n div 64, 128 + n mod 64])"
proof -
  have "(of_char c :: nat) < 256" by simp
  then have "(of_char c :: nat) div 64 < 4" by linarith
  then have "192 + (of_char c :: nat) div 64 < 256" "128 + (of_char c :: nat) mod 64 < 256"
    using mod_less_divisor [of 64 "of_char c :: nat"] by linarith+
  then show ?thesis
    by (simp add: utf8_char_def Let_def unat_of_nat_byte del: of_nat_add)
qed

lemma utf8_char_nonempty [simp]: "utf8_char c \<noteq> []"
  by (simp add: utf8_char_def Let_def)

lemma utf8_char_prefix:
  assumes "utf8_char a @ x = utf8_char b @ y"
  shows "a = b \<and> x = y"
proof -
  have eq: "map unat (utf8_char a) @ map unat x = map unat (utf8_char b) @ map unat y"
    using assms by (metis map_append)
  have parts: "m div 64 = n div 64 \<Longrightarrow> m mod 64 = n mod 64 \<Longrightarrow> m = n" for m n :: nat
    by (metis div_mod_decomp)
  have "(of_char a :: nat) = of_char b"
    using eq unfolding utf8_char_unat Let_def
    by (simp del: of_char_eq_iff split: if_splits) (rule parts, auto)
  then have "a = b" by simp
  with assms show ?thesis by simp
qed

lemma utf8_encode_inject: "utf8_encode s = utf8_encode t \<Longrightarrow> s = t"
  unfolding utf8_encode_def
proof (induction s arbitrary: t)
  case Nil
  then show ?case by (cases t) auto
next
  case (Cons c s)
  note outer = Cons
  show ?case
  proof (cases t)
    case Nil
    then show ?thesis using outer(2) by simp
  next
    case (Cons d t')
    with outer have "utf8_char c @ concat (map utf8_char s) = utf8_char d @ concat (map utf8_char t')"
      by simp
    from utf8_char_prefix [OF this] outer(1) [of t'] Cons show ?thesis by simp
  qed
qed

section \<open>Canonical bytes determine the value\<close>

lemma serialize_inject:
  "serialize_value v = Inr s \<Longrightarrow> serialize_value w = Inr s \<Longrightarrow> sort_keys v = sort_keys w"
  using readsD [OF serialize_reads, of v s w s "[]" "[]"] by (simp add: closes_def)

lemma canonicalize_binds:
  "canonicalize v = Inr b \<Longrightarrow> canonicalize w = Inr b \<Longrightarrow> sort_keys v = sort_keys w"
  unfolding canonicalize_def bindE_eq_Inr by (auto dest: utf8_encode_inject serialize_inject)

section \<open>What can be serialized, and key order\<close>

text \<open>JSON values: no \<open>undefined\<close> and no non-finite number at any depth.\<close>

fun json_value :: "js \<Rightarrow> bool" where
  "json_value Undef = False"
| "json_value (Num n) = (\<exists>i. n = Fin i)"
| "json_value (Arr xs) = (\<forall>x \<in> set xs. json_value x)"
| "json_value (Obj kvs) = (\<forall>kv \<in> set kvs. json_value (snd kv))"
| "json_value v = True"

lemma mapE_Inr_iff: "(\<exists>ys. mapE f xs = Inr ys) \<longleftrightarrow> (\<forall>x \<in> set xs. \<exists>y. f x = Inr y)"
  by (induction xs) (auto simp: bindE_eq_Inr)

lemma serialize_iff: "(\<exists>s. serialize_value v = Inr s) \<longleftrightarrow> json_value v"
proof (induction v)
  case (Num n)
  then show ?case by (cases n) auto
next
  case (Arr xs)
  have "(\<exists>s. serialize_value (Arr xs) = Inr s) \<longleftrightarrow> (\<exists>ss. mapE serialize_value xs = Inr ss)"
    by (auto simp: bindE_eq_Inr)
  with Arr show ?case by (simp add: mapE_Inr_iff)
next
  case (Obj kvs)
  have "(\<exists>s. serialize_value (Obj kvs) = Inr s) \<longleftrightarrow>
      (\<exists>ss. mapE serialize_entry (sorted_entries kvs) = Inr ss)"
    by (auto simp: bindE_eq_Inr)
  also have "\<dots> \<longleftrightarrow> (\<forall>kv \<in> set kvs. \<exists>s. serialize_value (snd kv) = Inr s)"
    unfolding mapE_Inr_iff set_sorted_entries by (auto simp: bindE_eq_Inr)
  also have "\<dots> \<longleftrightarrow> (\<forall>kv \<in> set kvs. json_value (snd kv))"
    by (rule ball_cong [OF refl]) (rule Obj, auto simp: snds.simps)
  finally show ?case by simp
qed auto

lemma mapE_map: "mapE f (map g xs) = mapE (\<lambda>x. f (g x)) xs"
  by (induction xs) auto

lemma sorted_entries_sort_keys:
  "sorted_entries (map (\<lambda>kv. (fst kv, f (snd kv))) (sorted_entries kvs))
     = map (\<lambda>kv. (fst kv, f (snd kv))) (sorted_entries kvs)"
  unfolding sorted_entries_def by (rule sort_key_id_if_sorted) (simp add: comp_def)

lemma serialize_sort_keys: "serialize_value (sort_keys v) = serialize_value v"
proof (induction v)
  case (Arr xs)
  then have "mapE (\<lambda>x. serialize_value (sort_keys x)) xs = mapE serialize_value xs"
    by (intro mapE_cong) auto
  then show ?case by (simp add: mapE_map)
next
  case (Obj kvs)
  then have "mapE (\<lambda>kv. serialize_entry (fst kv, sort_keys (snd kv))) (sorted_entries kvs)
      = mapE serialize_entry (sorted_entries kvs)"
    by (intro mapE_cong) (auto simp: prod_set_simps)
  then show ?case by (simp add: sorted_entries_sort_keys mapE_map)
qed auto

lemma canonicalize_sort_keys: "canonicalize (sort_keys v) = canonicalize v"
  by (simp add: canonicalize_def serialize_sort_keys)

lemma canonicalize_iff: "(\<exists>b. canonicalize v = Inr b) \<longleftrightarrow> json_value v"
  using serialize_iff [of v] by (auto simp: canonicalize_def bindE_eq_Inr)

end
