(* ===== verification/Base64.thy ===== *)
theory Base64
  imports Prelude
begin

unbundle bit_operations_syntax

text \<open>
  The hand-written base64url codec of
  \<open>membership_card_verifier/packages/verifier/src/crypto.ts\<close>
  (\<open>bytesToBase64Url\<close>, \<open>base64UrlToBytes\<close>) on JavaScript's 32-bit integers: the
  decoder's \<open>buffer\<close> is shifted left by six for every character and never masked, so it
  overflows; the round trip shows that the bits it loses are never read. The theory also
  states the contract of an encoder with a decoder as a locale.
\<close>

section \<open>Encoders with a decoder\<close>

locale codec =
  fixes enc :: "'a \<Rightarrow> 'b" and dec :: "'b \<Rightarrow> 'a"
  assumes dec_enc: "dec (enc x) = x"
begin

lemma enc_inject: "enc x = enc y \<longleftrightarrow> x = y"
  by (metis dec_enc)

lemma dec_onto: "\<exists>s. dec s = x"
  using dec_enc by blast

lemma enc_dec_canonical: "s \<in> range enc \<Longrightarrow> enc (dec s) = s"
  using dec_enc by auto

end

section \<open>The two functions\<close>

type_synonym int32 = "32 word"

definition standard_alphabet :: string where
  "standard_alphabet = ''ABCDEFGHIJKLMNOPQRSTUVWXYZabcdefghijklmnopqrstuvwxyz0123456789+/''"

definition base64url_chars :: string where
  "base64url_chars = ''ABCDEFGHIJKLMNOPQRSTUVWXYZabcdefghijklmnopqrstuvwxyz0123456789-_''"

definition url_char :: "int32 \<Rightarrow> char" where
  "url_char v = base64url_chars ! unat v"

text \<open>The four six-bit indices of a group; a missing byte counts as zero bits.\<close>

definition sextet1 :: "byte \<Rightarrow> int32" where
  "sextet1 b0 = drop_bit 2 (ucast b0)"

definition sextet2 :: "byte \<Rightarrow> byte option \<Rightarrow> int32" where
  "sextet2 b0 b1 = push_bit 4 (ucast b0 AND 3) OR (case b1 of None \<Rightarrow> 0 | Some b \<Rightarrow> drop_bit 4 (ucast b))"

definition sextet3 :: "byte \<Rightarrow> byte option \<Rightarrow> int32" where
  "sextet3 b1 b2 = push_bit 2 (ucast b1 AND 15) OR (case b2 of None \<Rightarrow> 0 | Some b \<Rightarrow> drop_bit 6 (ucast b))"

definition sextet4 :: "byte \<Rightarrow> int32" where
  "sextet4 b2 = ucast b2 AND 63"

fun bytes_to_base64url :: "bytes \<Rightarrow> string" where
  "bytes_to_base64url [] = []"
| "bytes_to_base64url [b0] = [url_char (sextet1 b0), url_char (sextet2 b0 None)]"
| "bytes_to_base64url [b0, b1] =
     [url_char (sextet1 b0), url_char (sextet2 b0 (Some b1)), url_char (sextet3 b1 None)]"
| "bytes_to_base64url (b0 # b1 # b2 # bs) =
     url_char (sextet1 b0) # url_char (sextet2 b0 (Some b1)) # url_char (sextet3 b1 (Some b2)) #
     url_char (sextet4 b2) # bytes_to_base64url bs"

text \<open>\<open>input.replace(/-/g, "+").replace(/_/g, "/")\<close>, one character at a time.\<close>

definition to_standard :: "char \<Rightarrow> char" where
  "to_standard c = (if c = CHR ''-'' then CHR ''+'' else if c = CHR ''_'' then CHR ''/'' else c)"

fun index_of :: "string \<Rightarrow> char \<Rightarrow> nat option" where
  "index_of [] c = None"
| "index_of (a # as) c = (if a = c then Some 0 else map_option Suc (index_of as c))"

text \<open>One round of the decoding loop: the buffer, the bits collected and the bytes so far.\<close>

fun decode_char :: "int32 \<times> nat \<times> bytes \<Rightarrow> char \<Rightarrow> int32 \<times> nat \<times> bytes" where
  "decode_char (buffer, bits, out) c =
     (case index_of standard_alphabet c of
        None \<Rightarrow> (buffer, bits, out)
      | Some value \<Rightarrow>
          (let buffer' = push_bit 6 buffer OR of_nat value; bits' = bits + 6
           in if 8 \<le> bits'
              then (buffer', bits' - 8,
                    out @ [ucast (signed_drop_bit (bits' - 8) buffer' AND 255)])
              else (buffer', bits', out)))"

definition base64url_to_bytes :: "string \<Rightarrow> bytes" where
  "base64url_to_bytes s = snd (snd (foldl decode_char (0, 0, []) (map to_standard s)))"

section \<open>Round trip\<close>

lemma alphabet_round_trip:
  "list_all (\<lambda>v. index_of standard_alphabet (to_standard (base64url_chars ! v)) = Some v) [0 ..< 64]"
  by code_simp

lemma index_of_url_char:
  "unat v < 64 \<Longrightarrow> index_of standard_alphabet (to_standard (url_char v)) = Some (unat v)"
  using alphabet_round_trip unfolding list_all_iff url_char_def by simp

lemma int32_masks:
  "(255 :: int32) = mask 8" "(3 :: int32) = mask 2" "(15 :: int32) = mask 4" "(63 :: int32) = mask 6"
  by (simp_all add: mask_eq_exp_minus_1)

lemma bit_byte_high: "8 \<le> n \<Longrightarrow> \<not> bit (b :: byte) n"
  using bit_imp_le_length [of b n] by auto

lemma bit_byte_low: "bit (b :: byte) n \<Longrightarrow> n < 8"
  using bit_imp_le_length [of b n] by simp

lemma byte_eqI: "(\<And>n. n < 8 \<Longrightarrow> bit a n = bit b n) \<Longrightarrow> a = (b :: byte)"
  by (rule bit_eqI) simp

lemma sextetI: "v = take_bit 6 v \<Longrightarrow> unat (v :: int32) < 64"
proof -
  assume "v = take_bit 6 v"
  then have "unat v = take_bit 6 (unat v)"
    by (metis unsigned_take_bit_eq)
  then show ?thesis
    using take_bit_nat_less_exp [of 6 "unat v"] by simp
qed

lemma sextet_bounds [simp]:
  "unat (sextet1 b) < 64" "unat (sextet2 b c) < 64" "unat (sextet3 b c) < 64" "unat (sextet4 b) < 64"
  unfolding sextet1_def sextet2_def sextet3_def sextet4_def int32_masks
  by (rule sextetI, rule bit_eqI, force simp: bit_simps dest: bit_byte_low split: option.splits)+

lemma decode_char_url:
  assumes "unat v < 64"
  shows "decode_char (buffer, bits, out) (to_standard (url_char v)) =
     (let buffer' = push_bit 6 buffer OR v
      in if 2 \<le> bits
         then (buffer', bits - 2, out @ [ucast (signed_drop_bit (bits - 2) buffer' AND 255)])
         else (buffer', bits + 6, out))"
  using assms by (simp add: index_of_url_char Let_def)

text \<open>The byte the decoder emits after the second, third and fourth character of a group.\<close>

lemma shift_back [simp]:
  "2 \<le> n \<Longrightarrow> Suc (Suc (n - 2)) = n" "4 \<le> n \<Longrightarrow> 4 + (n - 4) = n" "6 \<le> n \<Longrightarrow> 6 + (n - 6) = n"
  by auto

lemma emitted_first:
  "ucast (signed_drop_bit 4 (push_bit 6 (push_bit 6 buf OR sextet1 b0) OR sextet2 b0 b1) AND 255) = b0"
  unfolding int32_masks sextet1_def sextet2_def
  by (rule byte_eqI) (auto simp: bit_simps bit_byte_high split: option.split)

lemma emitted_second:
  "ucast (signed_drop_bit 2 (push_bit 6 (push_bit 6 buf OR sextet2 b0 (Some b1)) OR sextet3 b1 b2) AND 255) = b1"
  unfolding int32_masks sextet2_def sextet3_def
  by (rule byte_eqI) (auto simp: bit_simps bit_byte_high split: option.split)

lemma emitted_third:
  "ucast ((push_bit 6 (push_bit 6 buf OR sextet3 b1 (Some b2)) OR sextet4 b2) AND 255) = b2"
  unfolding int32_masks sextet3_def sextet4_def
  by (rule byte_eqI) (auto simp: bit_simps bit_byte_high)

lemmas group_simps = decode_char_url emitted_first emitted_second emitted_third Let_def

lemma decode_encoded:
  "\<exists>buffer bits. foldl decode_char (buf, 0, out) (map to_standard (bytes_to_base64url bs))
     = (buffer, bits, out @ bs)"
proof (induction bs arbitrary: buf out rule: bytes_to_base64url.induct)
  case (4 b0 b1 b2 bs)
  from "4.IH" [of _ "out @ [b0, b1, b2]"] show ?case
    by (simp add: group_simps del: decode_char.simps push_bit_or push_bit_push_bit)
qed (simp_all add: group_simps del: decode_char.simps push_bit_or push_bit_push_bit)

lemma base64url_round_trip: "base64url_to_bytes (bytes_to_base64url bs) = bs"
  using decode_encoded [of 0 "[]" bs] by (auto simp: base64url_to_bytes_def)

interpretation b64: codec bytes_to_base64url base64url_to_bytes
  by unfold_locales (rule base64url_round_trip)

section \<open>Characters outside the alphabet are skipped\<close>

definition in_alphabet :: "char \<Rightarrow> bool" where
  "in_alphabet c \<longleftrightarrow> index_of standard_alphabet (to_standard c) \<noteq> None"

lemma decode_skips:
  "foldl decode_char st (map to_standard (filter in_alphabet s)) = foldl decode_char st (map to_standard s)"
proof (induction s arbitrary: st)
  case (Cons c s)
  show ?case
  proof (cases "in_alphabet c")
    case False
    then have "decode_char st (to_standard c) = st"
      by (cases st) (simp add: in_alphabet_def)
    with False Cons show ?thesis by simp
  qed (use Cons in simp)
qed simp

lemma base64url_to_bytes_filter: "base64url_to_bytes (filter in_alphabet s) = base64url_to_bytes s"
  by (simp add: base64url_to_bytes_def decode_skips)

end
