(* ===== verification/Verifier_Types.thy ===== *)
theory Verifier_Types
  imports Canonical Base64
begin

text \<open>
  The data of the verifier package
  (\<open>membership_card_verifier/packages/verifier/src/types.ts\<close>), its constants and
  version check, and the cryptographic wrappers of \<open>crypto.ts\<close> over the third-party
  primitives, which are the fields of \<open>crypto\<close>. Providers are records of functions that
  may throw: within one verification every query has one answer.
\<close>

section \<open>On-chain registry types and providers\<close>

record card_entry =
  ce_log_head_cid :: string
  ce_policy_address :: string
  ce_last_press_address :: string
  ce_forward_to :: "string option"
  ce_exists :: bool

record press_auth_entry =
  pa_press_public_key :: string
  pa_mldsa44_key_hash :: string
  pa_active :: bool
  pa_authorized_at :: string
  pa_revoked_at :: "string option"

record sub_card_entry =
  sc_master_card_address :: string
  sc_registration_log_head :: string
  sc_sub_card_doc_cid :: string
  sc_active :: bool
  sc_registered_at :: string
  sc_deregistered_at :: "string option"

record card_chain_event =
  ev_cid :: string
  ev_timestamp :: string

record eas_attestation =
  at_uid :: string
  at_attester :: string
  at_cid :: string
  at_update_code :: int
  at_effective_date :: string

record rpc_provider =
  get_card_entry :: "string \<Rightarrow> card_entry option res"
  is_policy_authorizer :: "string \<Rightarrow> bool res"
  get_press_authorization :: "string \<Rightarrow> string \<Rightarrow> press_auth_entry option res"
  get_sub_card_entry :: "string \<Rightarrow> sub_card_entry option res"
  get_card_event_log :: "string \<Rightarrow> card_chain_event list res"
  get_eas_annotations :: "string \<Rightarrow> string list \<Rightarrow> eas_attestation list res"

record ipfs_provider =
  ipfs_fetch :: "string \<Rightarrow> bytes res"

section \<open>Policy matching and configuration\<close>

record chain_link =
  cl_card_address :: string
  cl_public_key :: string
  cl_card_content :: js

datatype field_matcher = Exact string | Regex string

record policy_match_conditions =
  pc_policy_id :: string
  pc_field_match :: "(string \<times> field_matcher) list option"

datatype mismatch_reason = No_Policy_Match | Field_Mismatch

record policy_match_result =
  pm_matched :: bool
  pm_reason :: "mismatch_reason option"

text \<open>The caller's \<open>VerifierConfig\<close>: every field the code may default is optional.\<close>

record verifier_config =
  vc_rpc :: "rpc_provider option"
  vc_ipfs :: "ipfs_provider option"
  vc_appCertificationRoot :: "string option"
  vc_trustedRoots :: "string list option"
  vc_revocationFreshnessWindowSeconds :: "js_number option"
  vc_rejectStaleRevocation :: "bool option"
  vc_maxChainDepth :: "int option"
  vc_registryEndpoint :: "string option"
  vc_fetchAnnotations :: "bool option"
  vc_additionalAnnotators :: "string list option"
  vc_returnChain :: "bool option"
  vc_conditions :: "policy_match_conditions option"

text \<open>The configuration the constructor stores, with the defaults filled in.\<close>

record config =
  rpc :: rpc_provider
  ipfs :: ipfs_provider
  appCertificationRoot :: "string option"
  trustedRoots :: "string list"
  revocationFreshnessWindowSeconds :: js_number
  rejectStaleRevocation :: bool
  maxChainDepth :: int
  registryEndpoint :: "string option"
  fetchAnnotations :: bool
  additionalAnnotators :: "string list"
  returnChain :: bool
  conditions :: "policy_match_conditions option"

section \<open>Envelopes and results\<close>

record signature_entry =
  se_key_scheme :: "string option"
  se_public_key :: string
  se_signature :: string

text \<open>
  An envelope as received: its payload (an object) and its signature entries. A missing
  \<open>key_scheme\<close> is \<open>None\<close>.
\<close>

record envelope =
  en_payload :: js
  en_signatures :: "signature_entry list"

text \<open>\<open>boolean | "skipped"\<close> and \<open>boolean | null | "skipped"\<close>.\<close>

datatype flag = Flag bool | Skipped

datatype compliance = Compliant bool | Unknown_Compliance | Skipped_Compliance

datatype revocation_kind = Not_Revoked | Revoked | Loud_Revocation | Unknown_Revocation

record revocation_status =
  rs_status :: revocation_kind
  rs_code :: "js_number option"
  rs_effective_date :: js
  rs_data_freshness_seconds :: int

record log_update =
  lu_card_address :: string
  lu_update_code :: js_number
  lu_cid :: string
  lu_effective_date :: string

record verification_error =
  ve_stage :: nat
  ve_code :: string
  ve_message :: string

record eas_annotation =
  an_eas_uid :: string
  an_annotator_card :: string
  an_annotator_chain_trusted :: bool
  an_is_recommended_annotator :: bool
  an_update_code :: int
  an_cid :: string
  an_content :: js
  an_effective_date :: string

record signature_result =
  sr_signer_card :: string
  sr_signature_valid :: "bool option"
  sr_scope_clean :: flag
  sr_chain_reaches_trusted_root :: flag
  sr_chain_card_addresses :: "string list"
  sr_app_card_chain_valid :: flag
  sr_revocation :: revocation_status
  sr_was_valid_at_signing_time :: flag
  sr_is_currently_valid :: flag
  sr_log_updates :: "log_update list"
  sr_policy_compliant :: compliance
  sr_policy_match :: "policy_match_result option"
  sr_press_subsequently_revoked :: bool
  sr_non_compliance_reported :: bool
  sr_addressed_to_verifier :: bool
  sr_errors :: "verification_error list"
  sr_annotations :: "eas_annotation list"
  sr_chain :: "chain_link list option"

record envelope_result =
  er_envelope_id :: string
  er_verified_at :: string
  er_protocol_version :: string
  er_signatures :: "signature_result list"
  er_policy_match :: "policy_match_result option"

datatype check_kind = FIELD_POLICY_VIOLATION | NO_PRESS_AUTHORIZATION

record failed_check =
  fc_check :: check_kind
  fc_field :: "string option"
  fc_detail :: string

record non_compliance_report =
  nr_card_address :: string
  nr_press_address :: string
  nr_ipfs_card_document :: string
  nr_ipfs_cid :: string
  nr_failed_checks :: "failed_check list"
  nr_verified_at :: string

definition verr :: "nat \<Rightarrow> string \<Rightarrow> string \<Rightarrow> verification_error" where
  "verr stage code msg = \<lparr>ve_stage = stage, ve_code = code, ve_message = msg\<rparr>"

lemma verr_sel [simp]: "ve_stage (verr s c m) = s" "ve_code (verr s c m) = c" "ve_message (verr s c m) = m"
  by (simp_all add: verr_def)

section \<open>The platform: cryptography, time and HTTP\<close>

text \<open>
  The primitives the packages import: hashes and HKDF, ML-DSA-44 and P-256 verification
  (both may throw on malformed input) and the Web Crypto AES-GCM opening of a ciphertext
  with its tag under a key and a nonce.
\<close>

record crypto =
  keccak_256 :: "bytes \<Rightarrow> bytes"
  sha_256 :: "bytes \<Rightarrow> bytes"
  hkdf_sha3_256 :: "bytes \<Rightarrow> bytes \<Rightarrow> nat \<Rightarrow> bytes"
  aes_gcm_open :: "bytes \<Rightarrow> bytes \<Rightarrow> bytes \<Rightarrow> bytes res"
  ml_dsa44_verify :: "bytes \<Rightarrow> bytes \<Rightarrow> bytes \<Rightarrow> bool res"
  p256_verify :: "bytes \<Rightarrow> bytes \<Rightarrow> bytes \<Rightarrow> bool res"

record http_response =
  ok :: bool
  status :: int
  body_json :: "string list res"

text \<open>
  What one verification reads from its surroundings: the clock when Stage 4 starts its
  queries and when they are done (milliseconds), the ISO rendering of the current time,
  and the answers of the HTTP endpoints (the body of the annotators endpoint is read as
  the array of addresses the code casts it to).
\<close>

record env = host + crypto_ops :: crypto
  fetched_at :: int
  checked_at :: int
  now_iso :: string
  http_post_report :: "string \<Rightarrow> non_compliance_report \<Rightarrow> http_response res"
  http_get :: "string \<Rightarrow> http_response res"

section \<open>Constants and version check\<close>

definition PRESS_REGISTRY_BODY_ENDPOINT :: string where
  "PRESS_REGISTRY_BODY_ENDPOINT = ''PRESS_REGISTRY_BODY_ENDPOINT_PLACEHOLDER''"

definition RECOMMENDED_ANNOTATORS_ENDPOINT :: string where
  "RECOMMENDED_ANNOTATORS_ENDPOINT = ''RECOMMENDED_ANNOTATORS_ENDPOINT_PLACEHOLDER''"

definition PROTOCOL_VERSION_0_1 :: string where
  "PROTOCOL_VERSION_0_1 = ''0.1''"

definition KNOWN_PROTOCOL_VERSIONS :: "string list" where
  "KNOWN_PROTOCOL_VERSIONS = [''0.1'']"

fun join_with :: "string \<Rightarrow> string list \<Rightarrow> string" where
  "join_with sep [] = []"
| "join_with sep [s] = s"
| "join_with sep (s # t # ss) = s @ sep @ join_with sep (t # ss)"

definition extract_protocol_version :: "js \<Rightarrow> string res" where
  "extract_protocol_version doc =
     bindE (js_prop doc ''protocol_version'') (\<lambda>v. case v of
       Str s \<Rightarrow>
         (if s \<in> set KNOWN_PROTOCOL_VERSIONS then Inr s
          else Inl (CardProtocolError ''UNKNOWN_PROTOCOL_VERSION''
            (''Unrecognized protocol version: '' @ [quote] @ s @ [quote] @
             ''. Known versions: '' @ join_with '', '' KNOWN_PROTOCOL_VERSIONS)))
     | _ \<Rightarrow> Inl (CardProtocolError ''MISSING_PROTOCOL_VERSION''
            ''protocol_version field is missing or not a string''))"

section \<open>The cryptographic wrappers\<close>

definition bytes_hex :: "bytes \<Rightarrow> string" where
  "bytes_hex bs = concat (map (\<lambda>b. [hex_char (unat b div 16), hex_char (unat b mod 16)]) bs)"

text \<open>\<open>keccak256\<close>: the lower-case hex address of a key.\<close>

definition keccak256 :: "('e) env_scheme \<Rightarrow> bytes \<Rightarrow> string" where
  "keccak256 e input = bytes_hex (keccak_256 (crypto_ops e) input)"

definition hkdfSha3256 :: "('e) env_scheme \<Rightarrow> bytes \<Rightarrow> string \<Rightarrow> bytes" where
  "hkdfSha3256 e ikm info = hkdf_sha3_256 (crypto_ops e) ikm (utf8_encode info) 32"

definition aes256gcmDecrypt :: "('e) env_scheme \<Rightarrow> bytes \<Rightarrow> bytes \<Rightarrow> bytes res" where
  "aes256gcmDecrypt e key data =
     (if length data < 12 + 16 then
        Inl (CardProtocolError ''DECRYPTION_FAILED''
          ''Encrypted payload too short to contain nonce and GCM tag'')
      else catchE (aes_gcm_open (crypto_ops e) key (take 12 data) (drop 12 data))
        (\<lambda>_. Inl (CardProtocolError ''DECRYPTION_FAILED'' ''AES-256-GCM authentication failure'')))"

definition mlDsa44Verify :: "('e) env_scheme \<Rightarrow> bytes \<Rightarrow> bytes \<Rightarrow> bytes \<Rightarrow> bool res" where
  "mlDsa44Verify e publicKey message signature =
     ml_dsa44_verify (crypto_ops e) signature message publicKey"

definition secp256r1Phase1Verify :: "('e) env_scheme \<Rightarrow> bytes \<Rightarrow> bytes \<Rightarrow> bytes \<Rightarrow> bool res" where
  "secp256r1Phase1Verify e publicKey message signature =
     (if 64 < length publicKey then Inl (JsError ''RangeError: offset is out of bounds'')
      else let uncompressed = 4 # publicKey @ replicate (64 - length publicKey) 0 in
        catchE (p256_verify (crypto_ops e) signature (sha_256 (crypto_ops e) message) uncompressed)
          (\<lambda>_. Inr False))"

text \<open>\<open>base64UrlToBytes(v)\<close> of a value that should be a string: \<open>v.replace\<close> throws otherwise.\<close>

definition js_base64 :: "js \<Rightarrow> bytes res" where
  "js_base64 v = bindE (js_string ''input.replace'' v) (\<lambda>s. Inr (base64url_to_bytes s))"

text \<open>
  The block repeated in Stages 2 and 3 and in \<open>verifyCard\<close>: fetch the object a card's
  head points to, decrypt it under the card's content key and parse it.
\<close>

definition open_document :: "('e) env_scheme \<Rightarrow> ipfs_provider \<Rightarrow> bytes \<Rightarrow> string \<Rightarrow> js res" where
  "open_document e ip contentKey cid =
     bindE (ipfs_fetch ip cid) (\<lambda>encrypted.
     bindE (aes256gcmDecrypt e contentKey encrypted) (\<lambda>decrypted.
       json_parse e decrypted))"

definition content_key :: "('e) env_scheme \<Rightarrow> bytes \<Rightarrow> bytes" where
  "content_key e pubkey = hkdfSha3256 e pubkey ''card-content-v1''"

text \<open>The error a \<open>catch\<close> of that block records.\<close>

fun open_error_code :: "exn \<Rightarrow> string" where
  "open_error_code (CardProtocolError code msg) = code"
| "open_error_code e = ''DECRYPTION_FAILED''"

definition open_error :: "nat \<Rightarrow> exn \<Rightarrow> verification_error" where
  "open_error stage e = verr stage (open_error_code e) (exn_string e)"

end
