(* ===== verification/Verifier_Stage1.thy ===== *)
theory Verifier_Stage1
  imports Verifier_Types
begin

text \<open>
  Stage 1, \<open>stages/stage1.ts\<close>: decode the signature entry, check the lengths of key and
  signature for its scheme, and verify the signature over the canonical payload.
\<close>

record stage1_result =
  s1_signature_valid :: bool
  s1_public_key_bytes :: bytes

definition verifyStage1MlDsa44 :: "('e) env_scheme \<Rightarrow> signature_entry \<Rightarrow> js \<Rightarrow> stage1_result res" where
  "verifyStage1MlDsa44 e entry payload =
     (let publicKeyBytes = base64url_to_bytes (se_public_key entry) in
      if length publicKeyBytes \<noteq> 1312 then
        Inl (CardProtocolError ''INVALID_PUBLIC_KEY_LENGTH''
          (''mldsa44 public_key must be 1312 bytes after base64url decode, got '' @
           nat_str (length publicKeyBytes)))
      else let signatureBytes = base64url_to_bytes (se_signature entry) in
      if length signatureBytes \<noteq> 2420 then
        Inl (CardProtocolError ''INVALID_SIGNATURE_LENGTH''
          (''mldsa44 signature must be 2420 bytes after base64url decode, got '' @
           nat_str (length signatureBytes)))
      else
        bindE (canonicalize payload) (\<lambda>canonicalPayload.
        bindE (mlDsa44Verify e publicKeyBytes canonicalPayload signatureBytes) (\<lambda>valid.
          Inr \<lparr>s1_signature_valid = valid, s1_public_key_bytes = publicKeyBytes\<rparr>)))"

definition verifyStage1Secp256r1Phase1 :: "('e) env_scheme \<Rightarrow> signature_entry \<Rightarrow> js \<Rightarrow> stage1_result res" where
  "verifyStage1Secp256r1Phase1 e entry payload =
     (let publicKeyBytes = base64url_to_bytes (se_public_key entry) in
      if length publicKeyBytes \<noteq> 64 then
        Inl (CardProtocolError ''INVALID_PUBLIC_KEY_LENGTH''
          (''secp256r1_phase1 public_key must be 64 bytes (x||y) after base64url decode, got '' @
           nat_str (length publicKeyBytes)))
      else let signatureBytes = base64url_to_bytes (se_signature entry) in
      if length signatureBytes \<noteq> 64 then
        Inl (CardProtocolError ''INVALID_SIGNATURE_LENGTH''
          (''secp256r1_phase1 signature must be 64 bytes (r||s) after base64url decode, got '' @
           nat_str (length signatureBytes)))
      else
        bindE (canonicalize payload) (\<lambda>canonicalPayload.
        bindE (secp256r1Phase1Verify e publicKeyBytes canonicalPayload signatureBytes) (\<lambda>valid.
          Inr \<lparr>s1_signature_valid = valid, s1_public_key_bytes = publicKeyBytes\<rparr>)))"

definition verifyStage1 :: "('e) env_scheme \<Rightarrow> signature_entry \<Rightarrow> js \<Rightarrow> stage1_result res" where
  "verifyStage1 e entry payload =
     (let scheme = (case se_key_scheme entry of None \<Rightarrow> ''mldsa44'' | Some s \<Rightarrow> s) in
      if scheme = ''secp256r1_phase1'' then verifyStage1Secp256r1Phase1 e entry payload
      else verifyStage1MlDsa44 e entry payload)"

section \<open>What a result says\<close>

lemma verifyStage1_Inr:
  "verifyStage1 e entry payload = Inr r \<Longrightarrow>
     s1_public_key_bytes r = base64url_to_bytes (se_public_key entry) \<and>
     length (s1_public_key_bytes r) \<in> {64, 1312} \<and>
     (\<exists>b. canonicalize payload = Inr b \<and>
       (if se_key_scheme entry = Some ''secp256r1_phase1''
        then secp256r1Phase1Verify e (s1_public_key_bytes r) b (base64url_to_bytes (se_signature entry))
             = Inr (s1_signature_valid r)
        else mlDsa44Verify e (s1_public_key_bytes r) b (base64url_to_bytes (se_signature entry))
             = Inr (s1_signature_valid r)))"
  by (auto simp: verifyStage1_def verifyStage1MlDsa44_def verifyStage1Secp256r1Phase1_def
      Let_def res_simps split: option.splits if_splits)

section \<open>Stage 2\<close>

text \<open>
  Stage 2, \<open>stages/stage2.ts\<close>: the signer must be a sub-card that its master card's
  holder and the app both signed, that is active on chain and listed by the master card,
  and whose app card chains to the configured certification root. Every check that fails
  ends the stage with one error; calls outside a \<open>try\<close> may throw.
\<close>

record stage2_result =
  s2_scope_clean :: flag
  s2_signer_card :: string
  s2_master_card_doc :: "js option"
  s2_master_card_pubkey :: "bytes option"
  s2_app_card_chain_valid :: flag
  s2_errors :: "verification_error list"

definition stage2_reject :: "string \<Rightarrow> verification_error \<Rightarrow> stage2_result" where
  "stage2_reject signerCard err =
     \<lparr>s2_scope_clean = Flag False, s2_signer_card = signerCard, s2_master_card_doc = None,
      s2_master_card_pubkey = None, s2_app_card_chain_valid = Flag False, s2_errors = [err]\<rparr>"

definition stage2_accept :: "string \<Rightarrow> js \<Rightarrow> bytes \<Rightarrow> stage2_result" where
  "stage2_accept signerCard masterDoc holderKey =
     \<lparr>s2_scope_clean = Flag True, s2_signer_card = signerCard, s2_master_card_doc = Some masterDoc,
      s2_master_card_pubkey = Some holderKey, s2_app_card_chain_valid = Flag True, s2_errors = []\<rparr>"

lemma stage2_accept_not_reject [simp]: "stage2_reject s err \<noteq> stage2_accept s' m h"
  by (simp add: stage2_reject_def stage2_accept_def)

text \<open>\<open>!cardEntry || !cardEntry.exists\<close> is the test that rejects.\<close>

definition live_entry :: "card_entry option \<Rightarrow> card_entry option" where
  "live_entry ce = (case ce of None \<Rightarrow> None | Some c \<Rightarrow> if ce_exists c then Some c else None)"

section \<open>The app card's ancestry walk\<close>

text \<open>
  What the loops of Stages 2 and 3 read off the current document: its list of ancestor
  keys is empty, or its first entry is falsy (the loop breaks), or it is the parent's key
  as given and as bytes. A document without the field makes the read throw.
\<close>

datatype ancestor = No_Ancestors | Falsy_Ancestor | Ancestor js bytes

definition first_ancestor :: "js \<Rightarrow> ancestor res" where
  "first_ancestor currentDoc =
     bindE (js_prop currentDoc ''ancestry_pubkeys'') (\<lambda>ancestry.
     bindE (js_prop ancestry ''length'') (\<lambda>len.
       if len = Num (Fin 0) then Inr No_Ancestors
       else let nextPubkeyB64 = js_index0 ancestry in
         if \<not> truthy nextPubkeyB64 then Inr Falsy_Ancestor
         else bindE (js_base64 nextPubkeyB64) (\<lambda>b. Inr (Ancestor nextPubkeyB64 b))))"

datatype walk_end = Walk_Stops bool | Walk_Rejects verification_error

lemma walk_end_case_eq [res_simps]:
  "(case w of Walk_Stops b \<Rightarrow> f b | Walk_Rejects err \<Rightarrow> g err) = r \<longleftrightarrow>
     (\<exists>b. w = Walk_Stops b \<and> f b = r) \<or> (\<exists>err. w = Walk_Rejects err \<and> g err = r)"
  by (cases w) auto

lemma ancestor_case_eq [res_simps]:
  "(case a of No_Ancestors \<Rightarrow> x | Falsy_Ancestor \<Rightarrow> y | Ancestor b pk \<Rightarrow> z b pk) = r \<longleftrightarrow>
     a = No_Ancestors \<and> x = r \<or> a = Falsy_Ancestor \<and> y = r \<or> (\<exists>b pk. a = Ancestor b pk \<and> z b pk = r)"
  by (cases a) auto

text \<open>
  The loop of Step 15: \<open>fuel\<close> is the number of rounds left, so the whole loop starts with
  \<open>maxChainDepth\<close>. It is entered only while the chain has not reached the root.
\<close>

fun app_chain_walk ::
    "('e) env_scheme \<Rightarrow> rpc_provider \<Rightarrow> ipfs_provider \<Rightarrow> string \<Rightarrow> nat \<Rightarrow> js \<Rightarrow> string \<Rightarrow> walk_end res"
  where
  "app_chain_walk e rp ip root 0 currentDoc currentAddress = Inr (Walk_Stops False)"
| "app_chain_walk e rp ip root (Suc fuel) currentDoc currentAddress =
     bindE (first_ancestor currentDoc) (\<lambda>anc. case anc of
       No_Ancestors \<Rightarrow> Inr (Walk_Stops (currentAddress = root))
     | Falsy_Ancestor \<Rightarrow> Inr (Walk_Stops False)
     | Ancestor nextPubkeyB64 nextPubkeyBytes \<Rightarrow>
         (let nextAddress = keccak256 e nextPubkeyBytes in
          if nextAddress = root then Inr (Walk_Stops True)
          else bindE (get_card_entry rp nextAddress) (\<lambda>nextEntry.
            case live_entry nextEntry of
              None \<Rightarrow> Inr (Walk_Rejects (verr 2 ''APP_CARD_CHAIN_NOT_TRUSTED''
                        (''Ancestor app card not found on-chain: '' @ nextAddress)))
            | Some ne \<Rightarrow>
                (case open_document e ip (content_key e nextPubkeyBytes) (ce_log_head_cid ne) of
                   Inl err \<Rightarrow> Inr (Walk_Rejects (open_error 2 err))
                 | Inr nextDoc \<Rightarrow> app_chain_walk e rp ip root fuel nextDoc nextAddress))))"

definition stage2_app_chain ::
    "('e) env_scheme \<Rightarrow> rpc_provider \<Rightarrow> ipfs_provider \<Rightarrow> string \<Rightarrow> int
      \<Rightarrow> string \<Rightarrow> bytes \<Rightarrow> js \<Rightarrow> bytes \<Rightarrow> stage2_result res" where
  "stage2_app_chain e rp ip appCertRoot maxDepth signerCard appPubkeyBytes masterCardDoc holderPubkeyBytes =
     (let appCardAddress = keccak256 e appPubkeyBytes;
          reject = (\<lambda>err. Inr (stage2_reject signerCard err)) in
      bindE (get_card_entry rp appCardAddress) (\<lambda>appCardEntry.
        case live_entry appCardEntry of
          None \<Rightarrow> reject (verr 2 ''APP_CARD_CHAIN_NOT_TRUSTED''
                    (''app_card '' @ appCardAddress @ '' not found on-chain''))
        | Some ae \<Rightarrow>
            (case open_document e ip (content_key e appPubkeyBytes) (ce_log_head_cid ae) of
               Inl err \<Rightarrow> reject (open_error 2 err)
             | Inr appCardDoc \<Rightarrow>
                 bindE (if appCardAddress = appCertRoot then Inr (Walk_Stops True)
                        else app_chain_walk e rp ip appCertRoot (nat maxDepth) appCardDoc appCardAddress)
                   (\<lambda>outcome. case outcome of
                      Walk_Rejects err \<Rightarrow> reject err
                    | Walk_Stops chainReached \<Rightarrow>
                        if \<not> chainReached then
                          reject (verr 2 ''APP_CARD_CHAIN_NOT_TRUSTED''
                            (''app_card chain for '' @ appCardAddress @
                             '' does not reach appCertificationRoot ('' @ appCertRoot @ '')''))
                        else Inr (stage2_accept signerCard masterCardDoc holderPubkeyBytes)))))"

section \<open>Registration: on-chain link and the two signatures\<close>

definition stage2_registration ::
    "('e) env_scheme \<Rightarrow> rpc_provider \<Rightarrow> ipfs_provider \<Rightarrow> string option \<Rightarrow> int
      \<Rightarrow> string \<Rightarrow> js \<Rightarrow> bytes \<Rightarrow> bytes \<Rightarrow> js \<Rightarrow> stage2_result res" where
  "stage2_registration e rp ip root maxDepth signerCard subCardDoc holderPubkeyBytes appPubkeyBytes masterCardDoc =
     (let holderCardAddress = keccak256 e holderPubkeyBytes;
          reject = (\<lambda>err. Inr (stage2_reject signerCard err)) in
      bindE (get_sub_card_entry rp signerCard) (\<lambda>subCardEntry.
        case subCardEntry of
          None \<Rightarrow> reject (verr 2 ''ADDRESS_BINDING_MISMATCH''
                    ''Sub-card on-chain entry does not link to expected master card'')
        | Some se \<Rightarrow>
            if sc_master_card_address se \<noteq> holderCardAddress then
              reject (verr 2 ''ADDRESS_BINDING_MISMATCH''
                ''Sub-card on-chain entry does not link to expected master card'')
            else
              bindE (bindE (js_prop subCardDoc ''holder_signature'') js_base64) (\<lambda>holderSigBytes.
              bindE (canonicalize (js_omit ''holder_signature'' subCardDoc)) (\<lambda>subCardCanonical.
              bindE (mlDsa44Verify e holderPubkeyBytes subCardCanonical holderSigBytes) (\<lambda>holderSigValid.
                if \<not> holderSigValid then
                  reject (verr 2 ''INVALID_HOLDER_SIGNATURE'' ''Holder signature on sub-card document is invalid'')
                else if \<not> sc_active se then
                  reject (verr 2 ''SUB_CARD_INACTIVE'' ''Sub-card is not active on-chain'')
                else
                  bindE (bindE (js_prop subCardDoc ''app_signature'') js_base64) (\<lambda>appSigBytes.
                  bindE (canonicalize (js_omit ''app_signature'' (js_omit ''holder_signature'' subCardDoc)))
                    (\<lambda>appSigCanonical.
                  bindE (mlDsa44Verify e appPubkeyBytes appSigCanonical appSigBytes) (\<lambda>appSigValid.
                    if \<not> appSigValid then
                      reject (verr 2 ''INVALID_APP_SIGNATURE'' ''App signature on sub-card document is invalid'')
                    else (case root of
                      None \<Rightarrow> reject (verr 2 ''APP_CERTIFICATION_ROOT_NOT_CONFIGURED''
                        ''Sub-card signature encountered but VerifierConfig.appCertificationRoot is not configured on this verifier instance'')
                    | Some appCertRoot \<Rightarrow>
                        if appCertRoot = [] then
                          reject (verr 2 ''APP_CERTIFICATION_ROOT_NOT_CONFIGURED''
                            ''Sub-card signature encountered but VerifierConfig.appCertificationRoot is not configured on this verifier instance'')
                        else stage2_app_chain e rp ip appCertRoot maxDepth signerCard appPubkeyBytes
                               masterCardDoc holderPubkeyBytes)))))))))"

section \<open>The master card and its directory of active sub-cards\<close>

text \<open>An entry that does not decode is ignored, as the loop's inner \<open>catch\<close> does.\<close>

definition lists_subcard :: "('e) env_scheme \<Rightarrow> string \<Rightarrow> js list \<Rightarrow> bool" where
  "lists_subcard e signerCard entries =
     list_ex (\<lambda>b64. case js_base64 b64 of Inl err \<Rightarrow> False | Inr pk \<Rightarrow> keccak256 e pk = signerCard) entries"

definition stage2_master ::
    "('e) env_scheme \<Rightarrow> rpc_provider \<Rightarrow> ipfs_provider \<Rightarrow> string option \<Rightarrow> int
      \<Rightarrow> string \<Rightarrow> js \<Rightarrow> bytes \<Rightarrow> bytes \<Rightarrow> stage2_result res" where
  "stage2_master e rp ip root maxDepth signerCard subCardDoc holderPubkeyBytes appPubkeyBytes =
     (let holderCardAddress = keccak256 e holderPubkeyBytes;
          reject = (\<lambda>err. Inr (stage2_reject signerCard err)) in
      bindE (get_card_entry rp holderCardAddress) (\<lambda>masterCardEntry.
        case live_entry masterCardEntry of
          None \<Rightarrow> reject (verr 2 ''CARD_NOT_FOUND'' (''Master card not found: '' @ holderCardAddress))
        | Some me \<Rightarrow>
            (case open_document e ip (content_key e holderPubkeyBytes) (ce_log_head_cid me) of
               Inl err \<Rightarrow> reject (open_error 2 err)
             | Inr masterCardDoc \<Rightarrow>
                 bindE (js_prop masterCardDoc ''active_subcards'') (\<lambda>active.
                 bindE (js_iterate (nullish active (Arr []))) (\<lambda>entries.
                   if \<not> lists_subcard e signerCard entries then
                     reject (verr 2 ''SUB_CARD_NOT_IN_ACTIVE_DIRECTORY''
                       (''Sub-card '' @ signerCard @ '' not found in master card's active_subcards directory''))
                   else stage2_registration e rp ip root maxDepth signerCard subCardDoc
                          holderPubkeyBytes appPubkeyBytes masterCardDoc)))))"

section \<open>The stage\<close>

definition stage2_bindings ::
    "('e) env_scheme \<Rightarrow> rpc_provider \<Rightarrow> ipfs_provider \<Rightarrow> string option \<Rightarrow> int
      \<Rightarrow> string \<Rightarrow> js \<Rightarrow> stage2_result res" where
  "stage2_bindings e rp ip root maxDepth signerCard subCardDoc =
     (let reject = (\<lambda>err. Inr (stage2_reject signerCard err)) in
      bindE (bindE (js_prop subCardDoc ''holder_primary_card_pubkey'') js_base64) (\<lambda>holderPubkeyBytes.
      bindE (js_prop subCardDoc ''holder_primary_card'') (\<lambda>holderPointer.
        if Str (keccak256 e holderPubkeyBytes) \<noteq> holderPointer then
          reject (verr 2 ''ADDRESS_BINDING_MISMATCH''
            ''keccak256(holder_primary_card_pubkey) does not match holder_primary_card pointer'')
        else
          bindE (bindE (js_prop subCardDoc ''app_card_pubkey'') js_base64) (\<lambda>appPubkeyBytes.
          bindE (js_prop subCardDoc ''app_card'') (\<lambda>appPointer.
            if Str (keccak256 e appPubkeyBytes) \<noteq> appPointer then
              reject (verr 2 ''ADDRESS_BINDING_MISMATCH''
                ''keccak256(app_card_pubkey) does not match app_card pointer'')
            else stage2_master e rp ip root maxDepth signerCard subCardDoc
                   holderPubkeyBytes appPubkeyBytes)))))"

definition verifyStage2 ::
    "('e) env_scheme \<Rightarrow> bytes \<Rightarrow> rpc_provider \<Rightarrow> ipfs_provider \<Rightarrow> string option \<Rightarrow> int
      \<Rightarrow> stage2_result res" where
  "verifyStage2 e publicKeyBytes rp ip root maxDepth =
     (let signerCard = keccak256 e publicKeyBytes;
          reject = (\<lambda>err. Inr (stage2_reject signerCard err)) in
      bindE (get_card_entry rp signerCard) (\<lambda>cardEntry.
        case live_entry cardEntry of
          None \<Rightarrow> reject (verr 2 ''CARD_NOT_FOUND'' (''No card entry for '' @ signerCard))
        | Some ce \<Rightarrow>
            (case open_document e ip (content_key e publicKeyBytes) (ce_log_head_cid ce) of
               Inl err \<Rightarrow> reject (open_error 2 err)
             | Inr subCardDoc \<Rightarrow> stage2_bindings e rp ip root maxDepth signerCard subCardDoc)))"

section \<open>Certified app cards\<close>

text \<open>A live card whose head opens under its key, to the document \<open>doc\<close>.\<close>

definition displays :: "('e) env_scheme \<Rightarrow> rpc_provider \<Rightarrow> ipfs_provider \<Rightarrow> bytes \<Rightarrow> js \<Rightarrow> bool" where
  "displays e rp ip pk doc \<longleftrightarrow>
     (\<exists>entry ce. get_card_entry rp (keccak256 e pk) = Inr entry \<and> live_entry entry = Some ce \<and>
        open_document e ip (content_key e pk) (ce_log_head_cid ce) = Inr doc)"

inductive certified ::
    "('e) env_scheme \<Rightarrow> rpc_provider \<Rightarrow> ipfs_provider \<Rightarrow> string \<Rightarrow> nat \<Rightarrow> js \<Rightarrow> string \<Rightarrow> bool"
  for e :: "('e) env_scheme" and rp ip root where
  is_root: "first_ancestor doc = Inr No_Ancestors \<Longrightarrow> addr = root \<Longrightarrow> certified e rp ip root 0 doc addr"
| parent_root: "first_ancestor doc = Inr (Ancestor b pk) \<Longrightarrow> keccak256 e pk = root \<Longrightarrow>
    certified e rp ip root 0 doc addr"
| by_parent: "first_ancestor doc = Inr (Ancestor b pk) \<Longrightarrow> keccak256 e pk \<noteq> root \<Longrightarrow> displays e rp ip pk doc' \<Longrightarrow>
    certified e rp ip root n doc' (keccak256 e pk) \<Longrightarrow> certified e rp ip root (Suc n) doc addr"

inductive_cases certified_zeroE: "certified e rp ip root 0 doc addr"
inductive_cases certified_SucE: "certified e rp ip root (Suc n) doc addr"

lemma displays_unique: "displays e rp ip pk doc \<Longrightarrow> displays e rp ip pk doc' \<Longrightarrow> doc = doc'"
  by (auto simp: displays_def)

lemma app_chain_walk_sound:
  "app_chain_walk e rp ip root fuel doc addr = Inr (Walk_Stops True) \<Longrightarrow>
     \<exists>n < fuel. certified e rp ip root n doc addr"
proof (induction fuel arbitrary: doc addr)
  case (Suc fuel)
  from Suc.prems obtain anc where anc: "first_ancestor doc = Inr anc"
    by (auto simp: bindE_eq_Inr)
  show ?case
  proof (cases anc)
    case (Ancestor b pk)
    show ?thesis
    proof (cases "keccak256 e pk = root")
      case False
      with Suc.prems anc Ancestor obtain doc' where d: "displays e rp ip pk doc'"
        "app_chain_walk e rp ip root fuel doc' (keccak256 e pk) = Inr (Walk_Stops True)"
        by (auto simp: res_simps Let_def displays_def)
      from Suc.IH [OF d(2)] anc Ancestor False d(1) show ?thesis
        by (metis certified.by_parent Suc_less_eq)
    qed (use anc Ancestor in \<open>auto intro: certified.intros\<close>)
  qed (use Suc.prems anc in \<open>auto intro: certified.intros\<close>)
qed simp

lemma app_chain_walk_complete:
  "certified e rp ip root n doc addr \<Longrightarrow> n < fuel \<Longrightarrow>
     app_chain_walk e rp ip root fuel doc addr = Inr (Walk_Stops True)"
proof (induction arbitrary: fuel rule: certified.induct)
  case (by_parent doc b pk doc' n addr)
  from by_parent.prems obtain fuel' where "fuel = Suc fuel'" "n < fuel'" by (cases fuel) auto
  with by_parent show ?case by (auto simp: displays_def Let_def)
qed (auto simp: gr0_conv_Suc Let_def)

lemma app_chain_walk_iff:
  "app_chain_walk e rp ip root fuel doc addr = Inr (Walk_Stops True) \<longleftrightarrow>
     (\<exists>n < fuel. certified e rp ip root n doc addr)"
  using app_chain_walk_sound app_chain_walk_complete by blast

section \<open>What acceptance means\<close>

text \<open>The app card's own chain: the root itself, or certified within the depth allowed.\<close>

definition app_certified ::
    "('e) env_scheme \<Rightarrow> rpc_provider \<Rightarrow> ipfs_provider \<Rightarrow> string option \<Rightarrow> int \<Rightarrow> bytes \<Rightarrow> bool" where
  "app_certified e rp ip root maxDepth appKey \<longleftrightarrow>
     (\<exists>r appDoc. root = Some r \<and> r \<noteq> [] \<and> displays e rp ip appKey appDoc \<and>
        (keccak256 e appKey = r \<or>
         (\<exists>n < nat maxDepth. certified e rp ip r n appDoc (keccak256 e appKey))))"

text \<open>The signature in field \<open>name\<close> of a document verifies over the rest \<open>body\<close> of it.\<close>

definition signed_by :: "('e) env_scheme \<Rightarrow> bytes \<Rightarrow> js \<Rightarrow> string \<Rightarrow> js \<Rightarrow> bool" where
  "signed_by e pk doc name body \<longleftrightarrow>
     (\<exists>sig_js sig b. js_prop doc name = Inr sig_js \<and> js_base64 sig_js = Inr sig \<and>
        canonicalize body = Inr b \<and> mlDsa44Verify e pk b sig = Inr True)"

text \<open>A key field and the address field it must hash to.\<close>

definition bound_key :: "('e) env_scheme \<Rightarrow> js \<Rightarrow> string \<Rightarrow> string \<Rightarrow> bytes \<Rightarrow> bool" where
  "bound_key e doc key_field address_field pk \<longleftrightarrow>
     (\<exists>v. js_prop doc key_field = Inr v \<and> js_base64 v = Inr pk) \<and>
     js_prop doc address_field = Inr (Str (keccak256 e pk))"

definition directory_lists :: "('e) env_scheme \<Rightarrow> js \<Rightarrow> string \<Rightarrow> bool" where
  "directory_lists e masterDoc signer \<longleftrightarrow>
     (\<exists>v entries. js_prop masterDoc ''active_subcards'' = Inr v \<and>
        js_iterate (nullish v (Arr [])) = Inr entries \<and> lists_subcard e signer entries)"

definition registered_under :: "rpc_provider \<Rightarrow> string \<Rightarrow> string \<Rightarrow> bool" where
  "registered_under rp signer master \<longleftrightarrow>
     (\<exists>se. get_sub_card_entry rp signer = Inr (Some se) \<and> sc_master_card_address se = master \<and> sc_active se)"

lemma stage2_accept_inject [simp]:
  "stage2_accept s m h = stage2_accept s' m' h' \<longleftrightarrow> s = s' \<and> m = m' \<and> h = h'"
  by (auto simp: stage2_accept_def)

lemma stage2_app_chain_accepts:
  assumes "r \<noteq> []"
  shows "stage2_app_chain e rp ip r maxDepth signer appKey masterDoc holderKey = Inr (stage2_accept s m h) \<longleftrightarrow>
     app_certified e rp ip (Some r) maxDepth appKey \<and> s = signer \<and> m = masterDoc \<and> h = holderKey"
    (is "?l \<longleftrightarrow> ?r")
proof
  assume ?l
  with assms show ?r
    by (auto simp: stage2_app_chain_def app_certified_def displays_def Let_def res_simps
        app_chain_walk_iff)
next
  assume ?r
  with assms show ?l
    by (auto simp: stage2_app_chain_def app_certified_def displays_def Let_def
        app_chain_walk_complete)
qed

lemma app_certified_root: "app_certified e rp ip root d appKey \<Longrightarrow> \<exists>r. root = Some r \<and> r \<noteq> []"
  by (auto simp: app_certified_def)

lemma stage2_registration_accepts:
  "stage2_registration e rp ip root maxDepth signer doc holderKey appKey masterDoc = Inr (stage2_accept s m h) \<longleftrightarrow>
     registered_under rp signer (keccak256 e holderKey) \<and>
     signed_by e holderKey doc ''holder_signature'' (js_omit ''holder_signature'' doc) \<and>
     signed_by e appKey doc ''app_signature'' (js_omit ''app_signature'' (js_omit ''holder_signature'' doc)) \<and>
     app_certified e rp ip root maxDepth appKey \<and> s = signer \<and> m = masterDoc \<and> h = holderKey"
  (is "?l \<longleftrightarrow> ?r")
proof
  assume ?l
  then show ?r
    by (auto simp: stage2_registration_def Let_def bindE_eq_Inr registered_under_def signed_by_def
        stage2_app_chain_accepts split: option.splits if_splits)
next
  assume r: ?r
  with app_certified_root [of e rp ip root maxDepth appKey] show ?l
    by (auto simp: stage2_registration_def Let_def registered_under_def signed_by_def
        stage2_app_chain_accepts)
qed

lemma stage2_master_accepts:
  "stage2_master e rp ip root maxDepth signer doc holderKey appKey = Inr (stage2_accept s m h) \<longleftrightarrow>
     displays e rp ip holderKey m \<and> directory_lists e m signer \<and>
     stage2_registration e rp ip root maxDepth signer doc holderKey appKey m = Inr (stage2_accept s m h)"
  (is "?l \<longleftrightarrow> ?r")
proof
  assume ?l
  then show ?r
    by (auto simp: stage2_master_def Let_def res_simps displays_def directory_lists_def
        stage2_registration_accepts)
next
  assume ?r
  then show ?l
    by (auto simp: stage2_master_def Let_def displays_def directory_lists_def)
qed

lemma stage2_bindings_accepts:
  "stage2_bindings e rp ip root maxDepth signer doc = Inr (stage2_accept s m h) \<longleftrightarrow>
     bound_key e doc ''holder_primary_card_pubkey'' ''holder_primary_card'' h \<and>
     (\<exists>appKey. bound_key e doc ''app_card_pubkey'' ''app_card'' appKey \<and>
        stage2_master e rp ip root maxDepth signer doc h appKey = Inr (stage2_accept s m h))"
  (is "?l \<longleftrightarrow> ?r")
proof
  assume ?l
  then show ?r
    by (auto simp: stage2_bindings_def Let_def res_simps bound_key_def stage2_master_accepts
        stage2_registration_accepts)
next
  assume ?r
  then show ?l
    by (auto simp: stage2_bindings_def Let_def bound_key_def)
qed

lemma verifyStage2_accepts:
  "verifyStage2 e pk rp ip root maxDepth = Inr (stage2_accept s m h) \<longleftrightarrow>
     (\<exists>doc. displays e rp ip pk doc \<and>
        stage2_bindings e rp ip root maxDepth (keccak256 e pk) doc = Inr (stage2_accept s m h))"
  (is "?l \<longleftrightarrow> ?r")
proof
  assume ?l
  then show ?r
    by (auto simp: verifyStage2_def Let_def res_simps displays_def)
next
  assume ?r
  then show ?l
    by (auto simp: verifyStage2_def Let_def displays_def)
qed

text \<open>
  A genuine sub-card: its document, opened under its key, names the keys of a master card
  and of an app card; the master card's document lists it and its on-chain entry points to
  the master and is active; both parties signed the document; the app is certified.
\<close>

definition genuine_subcard ::
    "('e) env_scheme \<Rightarrow> rpc_provider \<Rightarrow> ipfs_provider \<Rightarrow> string option \<Rightarrow> int \<Rightarrow> bytes \<Rightarrow> js \<Rightarrow> bytes \<Rightarrow> bool" where
  "genuine_subcard e rp ip root maxDepth pk masterDoc holderKey \<longleftrightarrow>
     (\<exists>doc appKey. displays e rp ip pk doc \<and>
        bound_key e doc ''holder_primary_card_pubkey'' ''holder_primary_card'' holderKey \<and>
        bound_key e doc ''app_card_pubkey'' ''app_card'' appKey \<and>
        displays e rp ip holderKey masterDoc \<and> directory_lists e masterDoc (keccak256 e pk) \<and>
        registered_under rp (keccak256 e pk) (keccak256 e holderKey) \<and>
        signed_by e holderKey doc ''holder_signature'' (js_omit ''holder_signature'' doc) \<and>
        signed_by e appKey doc ''app_signature'' (js_omit ''app_signature'' (js_omit ''holder_signature'' doc)) \<and>
        app_certified e rp ip root maxDepth appKey)"

lemma verifyStage2_genuine:
  "verifyStage2 e pk rp ip root maxDepth = Inr (stage2_accept s m h) \<longleftrightarrow>
     s = keccak256 e pk \<and> genuine_subcard e rp ip root maxDepth pk m h"
  unfolding verifyStage2_accepts stage2_bindings_accepts stage2_master_accepts
    stage2_registration_accepts genuine_subcard_def
  by auto

text \<open>There are no other verdicts than acceptance and rejection with one error.\<close>

definition stage2_verdict :: "string \<Rightarrow> stage2_result \<Rightarrow> bool" where
  "stage2_verdict signer r \<longleftrightarrow>
     (\<exists>m h. r = stage2_accept signer m h) \<or> (\<exists>err. r = stage2_reject signer err \<and> ve_stage err = 2)"

lemma stage2_verdict_intros [intro, simp]:
  "stage2_verdict s (stage2_accept s m h)" "stage2_verdict s (stage2_reject s (verr 2 c msg))"
  "stage2_verdict s (stage2_reject s (open_error 2 x))"
  "ve_stage err = 2 \<Longrightarrow> stage2_verdict s (stage2_reject s err)"
  by (auto simp: stage2_verdict_def open_error_def)

lemma app_chain_walk_rejects:
  "app_chain_walk e rp ip root fuel doc addr = Inr (Walk_Rejects err) \<Longrightarrow> ve_stage err = 2"
proof (induction fuel arbitrary: doc addr)
  case (Suc fuel)
  then show ?case
    by (auto simp: res_simps Let_def open_error_def)
qed simp

lemma stage2_app_chain_verdict:
  "stage2_app_chain e rp ip rt d signer a m h = Inr r \<Longrightarrow> stage2_verdict signer r"
  by (auto simp: stage2_app_chain_def Let_def res_simps dest: app_chain_walk_rejects)
 
lemma stage2_registration_verdict:
  "stage2_registration e rp ip rt d signer doc h a m = Inr r \<Longrightarrow> stage2_verdict signer r"
  by (auto simp: stage2_registration_def Let_def res_simps dest: stage2_app_chain_verdict)

lemma verifyStage2_verdict:
  "verifyStage2 e pk rp ip root d = Inr r \<Longrightarrow> stage2_verdict (keccak256 e pk) r"
  by (auto simp: verifyStage2_def stage2_bindings_def stage2_master_def Let_def res_simps
      dest: stage2_registration_verdict)

end
