(* ===== verification/Verifier_Stage3.thy ===== *)
theory Verifier_Stage3
  imports Verifier_Stage1
begin

text \<open>
  Stage 3, \<open>stages/stage3.ts\<close>: walk from a card's document along the first entry of
  \<open>ancestry_pubkeys\<close> to a trusted root, opening every ancestor's document under the key
  derived from its public key, at most \<open>maxChainDepth\<close> hops far.
\<close>

record stage3_result =
  s3_chain_reaches_trusted_root :: flag
  s3_chain_card_addresses :: "string list"
  s3_chain :: "chain_link list"
  s3_errors :: "verification_error list"

definition stage3_result :: "bool \<Rightarrow> string list \<Rightarrow> chain_link list \<Rightarrow> verification_error list \<Rightarrow> stage3_result" where
  "stage3_result reaches addrs chain errs =
     \<lparr>s3_chain_reaches_trusted_root = Flag reaches, s3_chain_card_addresses = addrs,
      s3_chain = chain, s3_errors = errs\<rparr>"

text \<open>\<open>trustedRoots.includes(a) || (await rpc.isPolicyAuthorizer(a))\<close>.\<close>

definition trusted_root :: "rpc_provider \<Rightarrow> string list \<Rightarrow> string \<Rightarrow> bool res" where
  "trusted_root rp roots a = (if a \<in> set roots then Inr True else is_policy_authorizer rp a)"

definition depth_exceeded :: "int \<Rightarrow> verification_error" where
  "depth_exceeded maxDepth =
     verr 3 ''CHAIN_DEPTH_EXCEEDED'' (''Chain walk exceeded maxChainDepth ('' @ int_str maxDepth @ '')'')"

text \<open>The text of a key taken from a document (a string, or the decoding would have thrown).\<close>

fun js_text :: "js \<Rightarrow> string" where
  "js_text (Str s) = s"
| "js_text v = []"

fun stage3_walk ::
    "('e) env_scheme \<Rightarrow> rpc_provider \<Rightarrow> ipfs_provider \<Rightarrow> string list \<Rightarrow> int \<Rightarrow> nat
      \<Rightarrow> string list \<Rightarrow> chain_link list \<Rightarrow> js \<Rightarrow> string \<Rightarrow> stage3_result res" where
  "stage3_walk e rp ip roots maxDepth 0 addrs chain currentDoc currentAddress =
     Inr (stage3_result False addrs chain [depth_exceeded maxDepth])"
| "stage3_walk e rp ip roots maxDepth (Suc fuel) addrs chain currentDoc currentAddress =
     bindE (first_ancestor currentDoc) (\<lambda>anc. case anc of
       No_Ancestors \<Rightarrow>
         bindE (trusted_root rp roots currentAddress) (\<lambda>isRoot.
           Inr (stage3_result isRoot addrs chain []))
     | Falsy_Ancestor \<Rightarrow> Inr (stage3_result False addrs chain [depth_exceeded maxDepth])
     | Ancestor nextPubkeyB64 nextPubkeyBytes \<Rightarrow>
         (let nextAddress = keccak256 e nextPubkeyBytes in
          bindE (trusted_root rp roots nextAddress) (\<lambda>isNextRoot.
            if isNextRoot then Inr (stage3_result True (addrs @ [nextAddress]) chain [])
            else bindE (get_card_entry rp nextAddress) (\<lambda>cardEntry.
              case live_entry cardEntry of
                None \<Rightarrow> Inr (stage3_result False addrs chain
                          [verr 3 ''CARD_NOT_FOUND'' (''Ancestor card not found: '' @ nextAddress)])
              | Some ce \<Rightarrow>
                  (case open_document e ip (content_key e nextPubkeyBytes) (ce_log_head_cid ce) of
                     Inl err \<Rightarrow> Inr (stage3_result False addrs chain [open_error 3 err])
                   | Inr ancestorDoc \<Rightarrow>
                       stage3_walk e rp ip roots maxDepth fuel (addrs @ [nextAddress])
                         (chain @ [\<lparr>cl_card_address = nextAddress, cl_public_key = js_text nextPubkeyB64,
                                    cl_card_content = ancestorDoc\<rparr>])
                         ancestorDoc nextAddress)))))"

definition verifyStage3 ::
    "('e) env_scheme \<Rightarrow> js \<Rightarrow> string \<Rightarrow> rpc_provider \<Rightarrow> ipfs_provider \<Rightarrow> string list \<Rightarrow> int
      \<Rightarrow> bytes option \<Rightarrow> stage3_result res" where
  "verifyStage3 e startCardDoc startCardAddress rp ip roots maxDepth startCardPubkey =
     stage3_walk e rp ip roots maxDepth (nat maxDepth) [startCardAddress]
       [\<lparr>cl_card_address = startCardAddress,
         cl_public_key = (case startCardPubkey of None \<Rightarrow> [] | Some pk \<Rightarrow> bytes_to_base64url pk),
         cl_card_content = startCardDoc\<rparr>]
       startCardDoc startCardAddress"

definition start_link :: "string \<Rightarrow> js \<Rightarrow> bytes option \<Rightarrow> chain_link" where
  "start_link addr doc pk = \<lparr>cl_card_address = addr,
     cl_public_key = (case pk of None \<Rightarrow> [] | Some k \<Rightarrow> bytes_to_base64url k), cl_card_content = doc\<rparr>"

section \<open>Chains\<close>

text \<open>
  One hop of a genuine ancestry: the next card is the one the first ancestor key of the
  current document hashes to; it shows its document under that key.
\<close>

definition hop :: "('e) env_scheme \<Rightarrow> rpc_provider \<Rightarrow> ipfs_provider \<Rightarrow> js \<Rightarrow> chain_link \<Rightarrow> bool" where
  "hop e rp ip doc l \<longleftrightarrow>
     (\<exists>b64 pk. first_ancestor doc = Inr (Ancestor b64 pk) \<and> cl_card_address l = keccak256 e pk \<and>
        cl_public_key l = js_text b64 \<and> displays e rp ip pk (cl_card_content l))"

fun linked :: "('e) env_scheme \<Rightarrow> rpc_provider \<Rightarrow> ipfs_provider \<Rightarrow> js \<Rightarrow> chain_link list \<Rightarrow> bool" where
  "linked e rp ip doc [] = True"
| "linked e rp ip doc (l # ls) = (hop e rp ip doc l \<and> linked e rp ip (cl_card_content l) ls)"

text \<open>No card on the way is itself a root: the walk stops at the first one.\<close>

definition no_root_before :: "rpc_provider \<Rightarrow> string list \<Rightarrow> chain_link list \<Rightarrow> bool" where
  "no_root_before rp roots ls \<longleftrightarrow> (\<forall>l \<in> set ls. trusted_root rp roots (cl_card_address l) = Inr False)"

text \<open>The document and address the walk stands on after a list of links.\<close>

definition tip :: "js \<times> string \<Rightarrow> chain_link list \<Rightarrow> js \<times> string" where
  "tip start ls = (if ls = [] then start else (cl_card_content (last ls), cl_card_address (last ls)))"

text \<open>Either the last card is a root without ancestors, or its parent is a root.\<close>

definition rooted :: "('e) env_scheme \<Rightarrow> rpc_provider \<Rightarrow> string list \<Rightarrow> js \<times> string \<Rightarrow> string list \<Rightarrow> bool" where
  "rooted e rp roots end_point extra \<longleftrightarrow>
     (first_ancestor (fst end_point) = Inr No_Ancestors \<and>
        trusted_root rp roots (snd end_point) = Inr True \<and> extra = []) \<or>
     (\<exists>b64 pk. first_ancestor (fst end_point) = Inr (Ancestor b64 pk) \<and>
        trusted_root rp roots (keccak256 e pk) = Inr True \<and> extra = [keccak256 e pk])"

lemma tip_Nil [simp]: "tip start [] = start"
  by (simp add: tip_def)

lemma tip_Cons [simp]: "tip start (l # ls) = tip (cl_card_content l, cl_card_address l) ls"
  by (simp add: tip_def)

lemma stage3_result_inject [simp]:
  "stage3_result b as ls es = stage3_result b' as' ls' es' \<longleftrightarrow> b = b' \<and> as = as' \<and> ls = ls' \<and> es = es'"
  by (auto simp: stage3_result_def)

text \<open>
  A round that returns either ends the walk, with a root found or an error, or hops to the
  ancestor and goes on.
\<close>

lemma stage3_round:
  assumes "stage3_walk e rp ip roots maxDepth (Suc fuel) addrs chain doc addr = Inr r"
  obtains
    (root) extra where "r = stage3_result True (addrs @ extra) chain []" "rooted e rp roots (doc, addr) extra"
  | (fails) errs where "r = stage3_result False addrs chain errs"
  | (hops) l where "hop e rp ip doc l" "trusted_root rp roots (cl_card_address l) = Inr False"
      "stage3_walk e rp ip roots maxDepth fuel (addrs @ [cl_card_address l]) (chain @ [l])
         (cl_card_content l) (cl_card_address l) = Inr r"
proof -
  from assms obtain anc where anc: "first_ancestor doc = Inr anc"
    by (auto simp: bindE_eq_Inr)
  show ?thesis
  proof (cases anc)
    case No_Ancestors
    with assms anc obtain b where "trusted_root rp roots addr = Inr b" "r = stage3_result b addrs chain []"
      by (auto simp: bindE_eq_Inr)
    with No_Ancestors anc root [of "[]"] fails show ?thesis
      by (cases b) (auto simp: rooted_def)
  next
    case (Ancestor b64 pk)
    let ?a = "keccak256 e pk"
    from assms anc Ancestor obtain isRoot where isRoot: "trusted_root rp roots ?a = Inr isRoot"
      by (auto simp: bindE_eq_Inr Let_def)
    show ?thesis
    proof (cases isRoot)
      case True
      with assms anc Ancestor isRoot root [of "[?a]"] show ?thesis
        by (auto simp: rooted_def)
    next
      case False
      with assms anc Ancestor isRoot obtain entry where entry: "get_card_entry rp ?a = Inr entry"
        by (auto simp: bindE_eq_Inr Let_def)
      show ?thesis
      proof (cases "\<exists>ce doc'. live_entry entry = Some ce \<and>
          open_document e ip (content_key e pk) (ce_log_head_cid ce) = Inr doc'")
        case True
        then obtain ce doc' where found: "live_entry entry = Some ce"
            "open_document e ip (content_key e pk) (ce_log_head_cid ce) = Inr doc'"
          by blast
        show ?thesis
          by (rule hops [of "\<lparr>cl_card_address = ?a, cl_public_key = js_text b64, cl_card_content = doc'\<rparr>"])
            (use assms anc Ancestor isRoot False entry found in \<open>auto simp: Let_def hop_def displays_def\<close>)
      next
        case none: False
        with assms anc Ancestor isRoot False entry show ?thesis
          by (cases "live_entry entry"; cases "open_document e ip (content_key e pk)
              (ce_log_head_cid (the (live_entry entry)))") (auto simp: Let_def intro: fails)
      qed
    qed
  qed (use assms anc fails in auto)
qed

text \<open>What a walk that returns has done, whatever its verdict.\<close>

lemma stage3_walk_chain:
  "stage3_walk e rp ip roots maxDepth fuel addrs chain doc addr = Inr r \<Longrightarrow>
     \<exists>ls. linked e rp ip doc ls \<and> no_root_before rp roots ls \<and> length ls \<le> fuel \<and>
       ((\<exists>extra. r = stage3_result True (addrs @ map cl_card_address ls @ extra) (chain @ ls) [] \<and>
           rooted e rp roots (tip (doc, addr) ls) extra \<and> length ls < fuel) \<or>
        (\<exists>errs. r = stage3_result False (addrs @ map cl_card_address ls) (chain @ ls) errs))"
proof (induction fuel arbitrary: addrs chain doc addr)
  case 0
  then show ?case by (intro exI [of _ "[]"]) (auto simp: no_root_before_def)
next
  case (Suc fuel)
  from Suc.prems show ?case
  proof (cases rule: stage3_round)
    case (hops l)
    from Suc.IH [OF hops(3)] obtain ls where
      "linked e rp ip (cl_card_content l) ls" "no_root_before rp roots ls" "length ls \<le> fuel"
      "(\<exists>extra. r = stage3_result True ((addrs @ [cl_card_address l]) @ map cl_card_address ls @ extra) ((chain @ [l]) @ ls) [] \<and>
           rooted e rp roots (tip (cl_card_content l, cl_card_address l) ls) extra \<and> length ls < fuel) \<or>
        (\<exists>errs. r = stage3_result False ((addrs @ [cl_card_address l]) @ map cl_card_address ls) ((chain @ [l]) @ ls) errs)"
      by blast
    with hops(1,2) show ?thesis
      by (intro exI [of _ "l # ls"]) (auto simp: no_root_before_def)
  qed (intro exI [of _ "[]"], auto simp: no_root_before_def)+
qed

text \<open>The walk follows a genuine chain as far as its depth allows.\<close>

lemma stage3_walk_follows:
  "linked e rp ip doc ls \<Longrightarrow> no_root_before rp roots ls \<Longrightarrow> length ls \<le> fuel \<Longrightarrow>
     stage3_walk e rp ip roots maxDepth fuel addrs chain doc addr =
       stage3_walk e rp ip roots maxDepth (fuel - length ls) (addrs @ map cl_card_address ls) (chain @ ls)
         (fst (tip (doc, addr) ls)) (snd (tip (doc, addr) ls))"
proof (induction ls arbitrary: fuel addrs chain doc addr)
  case (Cons l ls)
  then obtain fuel' where fuel: "fuel = Suc fuel'" "length ls \<le> fuel'" by (cases fuel) auto
  from Cons.prems(1) obtain b64 pk entry ce where
    l: "first_ancestor doc = Inr (Ancestor b64 pk)" "cl_card_address l = keccak256 e pk"
      "cl_public_key l = js_text b64" "get_card_entry rp (keccak256 e pk) = Inr entry"
      "live_entry entry = Some ce"
      "open_document e ip (content_key e pk) (ce_log_head_cid ce) = Inr (cl_card_content l)"
    by (auto simp: hop_def displays_def)
  obtain d where rec: "l = \<lparr>cl_card_address = keccak256 e pk, cl_public_key = js_text b64, cl_card_content = d\<rparr>"
    using l(2,3) by (cases l) simp
  have "stage3_walk e rp ip roots maxDepth fuel' (addrs @ [keccak256 e pk]) (chain @ [l]) d (keccak256 e pk)
      = stage3_walk e rp ip roots maxDepth (fuel' - length ls) (addrs @ map cl_card_address (l # ls)) (chain @ l # ls)
          (fst (tip (doc, addr) (l # ls))) (snd (tip (doc, addr) (l # ls)))"
    using Cons.IH [of d fuel' "addrs @ [keccak256 e pk]" "chain @ [l]" "keccak256 e pk"] Cons.prems fuel
    by (simp add: rec no_root_before_def)
  with Cons.prems(2) l fuel show ?case
    by (simp add: rec Let_def no_root_before_def)
qed simp

text \<open>So a chain to a root is found, and a document that cannot be read ends the walk with its error.\<close>

lemma stage3_walk_complete:
  assumes "linked e rp ip doc ls" "no_root_before rp roots ls" "length ls < fuel"
    and rooted: "rooted e rp roots (tip (doc, addr) ls) extra"
  shows "stage3_walk e rp ip roots maxDepth fuel addrs chain doc addr =
       Inr (stage3_result True (addrs @ map cl_card_address ls @ extra) (chain @ ls) [])"
proof -
  from assms obtain left where "fuel - length ls = Suc left" by (metis Suc_diff_Suc)
  with assms rooted show ?thesis
    by (subst stage3_walk_follows) (auto simp: rooted_def Let_def)
qed

lemma stage3_walk_throws:
  assumes "linked e rp ip doc ls" "no_root_before rp roots ls" "length ls < fuel"
    and unreadable: "first_ancestor (fst (tip (doc, addr) ls)) = Inl err"
  shows "stage3_walk e rp ip roots maxDepth fuel addrs chain doc addr = Inl err"
proof -
  from assms obtain left where "fuel - length ls = Suc left" by (metis Suc_diff_Suc)
  with assms unreadable show ?thesis
    by (subst stage3_walk_follows) auto
qed

end
