(* ===== verification/Verifier_Stage4.thy ===== *)
theory Verifier_Stage4
  imports Verifier_Types
begin

text \<open>
  Stage 4, \<open>stages/stage4.ts\<close>: the revocation check over a walked chain. For every card
  the decrypted head content says what the current state is and the on-chain event replay
  says since when; the earliest revocation of the chain decides.
\<close>

record stage4_result =
  s4_revocation :: revocation_status
  s4_was_valid_at_signing_time :: flag
  s4_is_currently_valid :: flag
  s4_log_updates :: "log_update list"
  s4_errors :: "verification_error list"

text \<open>The loop's variables.\<close>

record stage4_acc =
  a4_earliest :: "(js_number \<times> js) option"
  a4_available :: bool
  a4_unavailable :: bool
  a4_updates :: "log_update list"
  a4_errors :: "verification_error list"

definition acc0 :: stage4_acc where
  "acc0 = \<lparr>a4_earliest = None, a4_available = False, a4_unavailable = False,
     a4_updates = [], a4_errors = []\<rparr>"

section \<open>One card of the chain\<close>

definition has_content :: "js \<Rightarrow> bool" where
  "has_content content \<longleftrightarrow> truthy content \<and> js_entries content \<noteq> []"

text \<open>The self-reported history with the head appended equals the on-chain replay.\<close>

definition history_matches :: "js list \<Rightarrow> string \<Rightarrow> card_chain_event list \<Rightarrow> bool" where
  "history_matches history headCid eventLog \<longleftrightarrow> history @ [Str headCid] = map (\<lambda>ev. Str (ev_cid ev)) eventLog"

definition history_errors :: "string \<Rightarrow> js \<Rightarrow> string option \<Rightarrow> card_chain_event list \<Rightarrow> verification_error list" where
  "history_errors addr content headCid eventLog =
     (case (field content ''history'', headCid) of
        (Arr history, Some h) \<Rightarrow>
          if h \<noteq> [] \<and> \<not> history_matches history h eventLog
          then [verr 4 ''HISTORY_MISMATCH''
                 (''On-chain event log does not match self-reported history for '' @ addr)]
          else []
      | _ \<Rightarrow> [])"

definition head_event :: "string option \<Rightarrow> card_chain_event list \<Rightarrow> card_chain_event option" where
  "head_event headCid eventLog =
     (case headCid of None \<Rightarrow> None
      | Some h \<Rightarrow> if h = [] then None else List.find (\<lambda>ev. ev_cid ev = h) eventLog)"

text \<open>The date a revocation takes effect: the on-chain one, else the reported one.\<close>

definition reported_date :: "js \<Rightarrow> js" where
  "reported_date content =
     (case field content ''revocation'' of
        Undef \<Rightarrow> Null
      | Null \<Rightarrow> Null
      | v \<Rightarrow> nullish (field v ''effective_date'') Null)"

definition effective_date :: "js \<Rightarrow> card_chain_event option \<Rightarrow> js" where
  "effective_date content ev = (case ev of None \<Rightarrow> reported_date content | Some x \<Rightarrow> Str (ev_timestamp x))"

text \<open>Keep the earlier of the revocation seen so far and a new one.\<close>

definition earlier ::
    "('h) host_scheme \<Rightarrow> (js_number \<times> js) option \<Rightarrow> js_number \<Rightarrow> js \<Rightarrow> (js_number \<times> js) option" where
  "earlier h old code date =
     (if \<not> truthy date then old
      else case old of None \<Rightarrow> Some (code, date)
        | Some (c, d) \<Rightarrow> if js_less h date d then Some (code, date) else old)"

definition stage4_card ::
    "('h) host_scheme \<Rightarrow> stage4_acc \<Rightarrow> chain_link \<times> card_entry option \<times> card_chain_event list \<Rightarrow> stage4_acc" where
  "stage4_card h acc queried =
     (case queried of (link, cardEntry, eventLog) \<Rightarrow>
       (let addr = cl_card_address link; content = cl_card_content link;
            headCid = map_option ce_log_head_cid cardEntry in
        if \<not> has_content content then acc\<lparr>a4_unavailable := True\<rparr>
        else
          (let entryType = field content ''entry_type'';
               isLogEntry = (entryType = Str ''field_update'' \<or> entryType = Str ''revocation'');
               errs = (if isLogEntry then history_errors addr content headCid eventLog else []);
               headEvent = head_event headCid eventLog;
               acc' = acc\<lparr>a4_available := True, a4_errors := a4_errors acc @ errs\<rparr> in
           if entryType = Str ''revocation'' then
             acc'\<lparr>a4_errors := a4_errors acc' @
                 (if headEvent = None
                  then [verr 4 ''NO_ONCHAIN_EVENT_FOR_HEAD''
                         (''No on-chain event found matching head CID for '' @ addr @
                          ''; falling back to self-reported effective_date'')] else []),
               a4_earliest := earlier h (a4_earliest acc') (to_number h (field content ''code''))
                 (effective_date content headEvent)\<rparr>
           else if entryType = Str ''field_update'' then
             acc'\<lparr>a4_updates := a4_updates acc' @
               [\<lparr>lu_card_address = addr, lu_update_code = to_number h (field content ''code''),
                 lu_cid = (case headCid of None \<Rightarrow> [] | Some c \<Rightarrow> c),
                 lu_effective_date = (case headEvent of None \<Rightarrow> [] | Some ev \<Rightarrow> ev_timestamp ev)\<rparr>]\<rparr>
           else acc')))"

section \<open>The verdict\<close>

definition stage4_verdict ::
    "('e) env_scheme \<Rightarrow> js \<Rightarrow> js_number \<Rightarrow> bool \<Rightarrow> stage4_acc \<Rightarrow> stage4_result" where
  "stage4_verdict e signingTimestamp freshnessWindow rejectStale acc =
     (let dataFreshness = (checked_at e - fetched_at e) div 1000;
          isStale = num_less freshnessWindow (Fin dataFreshness);
          errors = a4_errors acc @
            (if isStale then [verr 4 ''STALE_REVOCATION_DATA''
               (''Revocation data is '' @ int_str dataFreshness @ ''s old (limit: '' @
                number_text freshnessWindow @ ''s)'')] else []);
          result = (\<lambda>st code date was cur.
            \<lparr>s4_revocation = \<lparr>rs_status = st, rs_code = code, rs_effective_date = date,
               rs_data_freshness_seconds = dataFreshness\<rparr>,
             s4_was_valid_at_signing_time = was, s4_is_currently_valid = cur,
             s4_log_updates = a4_updates acc, s4_errors = errors\<rparr>) in
      if \<not> a4_available acc \<and> a4_unavailable acc then
        result Unknown_Revocation None Null Skipped Skipped
      else (case a4_earliest acc of
        None \<Rightarrow> result Not_Revoked None Null (Flag True) (Flag (\<not> (isStale \<and> rejectStale)))
      | Some (code, date) \<Rightarrow>
          result (if num_ge code 800 \<and> num_le code 899 then Revoked else Loud_Revocation)
            (Some code) date
            (Flag (js_less e signingTimestamp date))
            (Flag (if isStale \<and> rejectStale then False else js_less e (Str (now_iso e)) date))))"

definition stage4_queries ::
    "rpc_provider \<Rightarrow> chain_link list \<Rightarrow> (chain_link \<times> card_entry option \<times> card_chain_event list) list res" where
  "stage4_queries rp chain =
     mapE (\<lambda>link. bindE (get_card_entry rp (cl_card_address link)) (\<lambda>cardEntry.
                  bindE (get_card_event_log rp (cl_card_address link)) (\<lambda>eventLog.
                    Inr (link, cardEntry, eventLog)))) chain"

definition verifyStage4 ::
    "('e) env_scheme \<Rightarrow> chain_link list \<Rightarrow> js \<Rightarrow> rpc_provider \<Rightarrow> js_number \<Rightarrow> bool \<Rightarrow> stage4_result res" where
  "verifyStage4 e chain signingTimestamp rp freshnessWindow rejectStale =
     bindE (stage4_queries rp chain) (\<lambda>perCard.
       Inr (stage4_verdict e signingTimestamp freshnessWindow rejectStale
              (foldl (stage4_card e) acc0 perCard)))"

section \<open>The loop as a whole\<close>

text \<open>A card of the chain whose head is a revocation with a date, on chain or reported.\<close>

definition dated_revocation ::
    "('h) host_scheme \<Rightarrow> chain_link \<times> card_entry option \<times> card_chain_event list \<Rightarrow> (js_number \<times> js) option" where
  "dated_revocation h queried =
     (case queried of (link, cardEntry, eventLog) \<Rightarrow>
       (let content = cl_card_content link;
            date = effective_date content (head_event (map_option ce_log_head_cid cardEntry) eventLog) in
        if has_content content \<and> field content ''entry_type'' = Str ''revocation'' \<and> truthy date
        then Some (to_number h (field content ''code''), date) else None))"

definition dated_revocations ::
    "('h) host_scheme \<Rightarrow> (chain_link \<times> card_entry option \<times> card_chain_event list) list \<Rightarrow> (js_number \<times> js) list" where
  "dated_revocations h qs = List.map_filter (dated_revocation h) qs"

abbreviation keep_earlier :: "('h) host_scheme \<Rightarrow> (js_number \<times> js) option \<Rightarrow> js_number \<times> js \<Rightarrow> (js_number \<times> js) option" where
  "keep_earlier h old r \<equiv> earlier h old (fst r) (snd r)"

lemma stage4_card_earliest:
  "a4_earliest (stage4_card h acc q) =
     (case dated_revocation h q of None \<Rightarrow> a4_earliest acc | Some r \<Rightarrow> keep_earlier h (a4_earliest acc) r)"
  by (auto simp: stage4_card_def dated_revocation_def Let_def earlier_def split: prod.splits)

lemma stage4_card_available:
  "a4_available (stage4_card h acc q) \<longleftrightarrow> a4_available acc \<or> has_content (cl_card_content (fst q))"
  "a4_unavailable (stage4_card h acc q) \<longleftrightarrow> a4_unavailable acc \<or> \<not> has_content (cl_card_content (fst q))"
  by (auto simp: stage4_card_def Let_def split: prod.splits)

lemma stage4_fold:
  "a4_earliest (foldl (stage4_card h) acc qs) = foldl (keep_earlier h) (a4_earliest acc) (dated_revocations h qs)"
  "a4_available (foldl (stage4_card h) acc qs) \<longleftrightarrow>
     a4_available acc \<or> (\<exists>q \<in> set qs. has_content (cl_card_content (fst q)))"
  "a4_unavailable (foldl (stage4_card h) acc qs) \<longleftrightarrow>
     a4_unavailable acc \<or> (\<exists>q \<in> set qs. \<not> has_content (cl_card_content (fst q)))"
  by (induction qs arbitrary: acc)
    (auto simp: stage4_card_earliest stage4_card_available dated_revocations_def map_filter_simps split: option.splits)

lemma stage4_queries_links:
  "stage4_queries rp chain = Inr qs \<Longrightarrow> map fst qs = chain"
  unfolding stage4_queries_def by (induction chain arbitrary: qs) (auto simp: res_simps)

lemma in_dated_revocations:
  "r \<in> set (dated_revocations h qs) \<longleftrightarrow> (\<exists>q \<in> set qs. dated_revocation h q = Some r)"
  unfolding dated_revocations_def by (induction qs) (auto simp: map_filter_simps split: option.splits)

lemma dated_revocations_truthy: "r \<in> set (dated_revocations h qs) \<Longrightarrow> truthy (snd r)"
  by (auto simp: in_dated_revocations dated_revocation_def Let_def split: if_splits)

text \<open>With string dates the fold finds a minimum.\<close>

lemma keep_earlier_minimum:
  assumes "\<forall>r \<in> set rs. \<exists>s. snd r = Str s \<and> s \<noteq> []" "snd r0 = Str s0"
  shows "\<exists>r s. foldl (keep_earlier h) (Some r0) rs = Some r \<and> r \<in> set (r0 # rs) \<and> snd r = Str s \<and>
     (\<forall>r' s'. r' \<in> set (r0 # rs) \<longrightarrow> snd r' = Str s' \<longrightarrow> s \<le> s')"
  using assms
proof (induction rs arbitrary: r0 s0)
  case (Cons a rs)
  then obtain t where t: "snd a = Str t" "t \<noteq> []" by auto
  let ?r1 = "if t < s0 then a else r0" and ?s1 = "if t < s0 then t else s0"
  have step: "keep_earlier h (Some r0) a = Some ?r1"
    using t Cons.prems(2) by (cases r0; cases a) (auto simp: earlier_def)
  have rest: "\<forall>r \<in> set rs. \<exists>s. snd r = Str s \<and> s \<noteq> []" and s1: "snd ?r1 = Str ?s1"
    using Cons.prems t by auto
  from Cons.IH [OF rest s1] obtain r s where
    r: "foldl (keep_earlier h) (Some ?r1) rs = Some r" "r \<in> set (?r1 # rs)" "snd r = Str s"
      "\<And>r' s'. r' \<in> set (?r1 # rs) \<Longrightarrow> snd r' = Str s' \<Longrightarrow> s \<le> s'"
    by blast
  have "s \<le> ?s1" using r(4) [of ?r1 ?s1] t Cons.prems(2) by auto
  then have "s \<le> t" "s \<le> s0" by (auto split: if_splits)
  moreover have "s \<le> s'" if "r' \<in> set rs" "snd r' = Str s'" for r' s'
    using r(4) [of r' s'] that by simp
  ultimately have "\<forall>r' s'. r' \<in> set (r0 # a # rs) \<longrightarrow> snd r' = Str s' \<longrightarrow> s \<le> s'"
    using t(1) Cons.prems(2) by (simp del: split_paired_All) (metis js.inject(3))
  with r(1-3) show ?case
    unfolding foldl_Cons step by (intro exI [of _ r] exI [of _ s]) (auto split: if_splits)
qed auto

lemma earliest_of_dated:
  assumes "\<forall>r \<in> set (dated_revocations h qs). \<exists>s. snd r = Str s"
    and "foldl (keep_earlier h) None (dated_revocations h qs) = e"
  shows "case e of None \<Rightarrow> dated_revocations h qs = []
     | Some r \<Rightarrow> r \<in> set (dated_revocations h qs) \<and> (\<exists>s. snd r = Str s \<and>
         (\<forall>r' s'. r' \<in> set (dated_revocations h qs) \<longrightarrow> snd r' = Str s' \<longrightarrow> s \<le> s'))"
proof (cases "dated_revocations h qs")
  case (Cons r rs)
  have all: "\<exists>s. snd r' = Str s \<and> s \<noteq> []" if "r' \<in> set (r # rs)" for r'
    using assms(1) dated_revocations_truthy [of r' h qs] that Cons by auto
  from all [of r] obtain s where s: "snd r = Str s" by auto
  have first: "keep_earlier h None r = Some r"
    using all [of r] by (cases r) (auto simp: earlier_def)
  have rest: "\<forall>r' \<in> set rs. \<exists>s. snd r' = Str s \<and> s \<noteq> []" using all by auto
  from keep_earlier_minimum [OF rest s, of h] assms(2) show ?thesis
    unfolding Cons foldl_Cons first by auto
qed (use assms in auto)

end
