(* ===== verification/Verifier_Stage5.thy ===== *)
theory Verifier_Stage5
  imports Verifier_Types Verifier_Stage3
begin

text \<open>
  Stage 5, \<open>stages/stage5.ts\<close>: the card's fields against its policy snapshot, the press
  authorization on chain, and the report sent when a check fails.
\<close>

record stage5_result =
  s5_policy_compliant :: compliance
  s5_policy_match :: "bool option"
  s5_press_subsequently_revoked :: bool
  s5_non_compliance_reported :: bool
  s5_errors :: "verification_error list"

text \<open>Step 1: the policy document (a policy id that is not a string cannot be fetched).\<close>

definition fetch_policy :: "('e) env_scheme \<Rightarrow> ipfs_provider \<Rightarrow> js \<Rightarrow> js res" where
  "fetch_policy e ip cardDoc =
     bindE (bindE (js_prop cardDoc ''policy_id'') (js_string ''fetch'')) (\<lambda>cid.
     bindE (ipfs_fetch ip cid) (\<lambda>policyBytes. json_parse e policyBytes))"

text \<open>Step 2: required fields that the card does not have.\<close>

definition field_violation :: "js \<Rightarrow> string \<times> js \<Rightarrow> failed_check list res" where
  "field_violation cardDoc entry =
     (case entry of (fieldName, def) \<Rightarrow>
       bindE (js_prop def ''required'') (\<lambda>required.
         if \<not> truthy required then Inr []
         else bindE (js_in fieldName cardDoc) (\<lambda>present.
           if present then Inr []
           else Inr [\<lparr>fc_check = FIELD_POLICY_VIOLATION, fc_field = Some fieldName,
                      fc_detail = ''Required field '' @ [quote] @ fieldName @ [quote] @ '' is missing''\<rparr>])))"

definition field_violations :: "js \<Rightarrow> js \<Rightarrow> failed_check list res" where
  "field_violations policyDoc cardDoc =
     bindE (js_prop policyDoc ''field_definitions'') (\<lambda>defs.
       if \<not> truthy defs then Inr []
       else bindE (mapE (field_violation cardDoc) (js_entries defs)) (\<lambda>fss. Inr (concat fss)))"

text \<open>Step 3: the press authorization.\<close>

definition press_check :: "card_entry \<Rightarrow> press_auth_entry option \<Rightarrow> failed_check list" where
  "press_check cardEntry pressEntry =
     (case pressEntry of
        None \<Rightarrow> [\<lparr>fc_check = NO_PRESS_AUTHORIZATION, fc_field = None,
                  fc_detail = ''No press authorization found for policy='' @ ce_policy_address cardEntry @
                    '' press='' @ ce_last_press_address cardEntry\<rparr>]
      | Some pe \<Rightarrow> [])"

definition press_revoked_later :: "press_auth_entry option \<Rightarrow> bool" where
  "press_revoked_later pressEntry = (case pressEntry of None \<Rightarrow> False | Some pe \<Rightarrow> \<not> pa_active pe)"

text \<open>Step 5: report a non-compliant card; returns whether it was accepted, and the errors.\<close>

definition send_report ::
    "('e) env_scheme \<Rightarrow> string option \<Rightarrow> non_compliance_report \<Rightarrow> bool \<times> verification_error list" where
  "send_report e registryEnd report =
     (let endpoint = (case registryEnd of None \<Rightarrow> PRESS_REGISTRY_BODY_ENDPOINT | Some u \<Rightarrow> u) in
      case http_post_report e (endpoint @ ''/non-compliance'') report of
        Inl err \<Rightarrow> (False, [verr 5 ''NON_COMPLIANCE_REPORT_FAILED''
                   (''Failed to POST non-compliance report: '' @ exn_string err)])
      | Inr res \<Rightarrow> (ok res, if ok res then [] else
                   [verr 5 ''NON_COMPLIANCE_REPORT_FAILED''
                     (''Registry Body returned HTTP '' @ int_str (status res))]))"

definition verifyStage5 ::
    "('e) env_scheme \<Rightarrow> js \<Rightarrow> card_entry \<Rightarrow> string \<Rightarrow> string \<Rightarrow> bytes \<Rightarrow> rpc_provider \<Rightarrow> ipfs_provider
      \<Rightarrow> string option \<Rightarrow> stage5_result res" where
  "verifyStage5 e cardDoc cardEntry cardAddress cardCid rawCardBytes rp ip registryEnd =
     (case fetch_policy e ip cardDoc of
        Inl err \<Rightarrow> Inr \<lparr>s5_policy_compliant = Unknown_Compliance, s5_policy_match = None,
            s5_press_subsequently_revoked = False, s5_non_compliance_reported = False,
            s5_errors = [verr 5 ''POLICY_FETCH_FAILED'' ''Could not fetch policy snapshot'']\<rparr>
      | Inr policyDoc \<Rightarrow>
          bindE (field_violations policyDoc cardDoc) (\<lambda>fieldChecks.
          bindE (get_press_authorization rp (ce_policy_address cardEntry) (ce_last_press_address cardEntry))
            (\<lambda>pressEntry.
            let failedChecks = fieldChecks @ press_check cardEntry pressEntry;
                policyCompliant = (failedChecks = []);
                (reported, errors) =
                  (if policyCompliant then (False, [])
                   else send_report e registryEnd
                     \<lparr>nr_card_address = cardAddress, nr_press_address = ce_last_press_address cardEntry,
                      nr_ipfs_card_document = bytes_to_base64url rawCardBytes, nr_ipfs_cid = cardCid,
                      nr_failed_checks = failedChecks, nr_verified_at = now_iso e\<rparr>) in
            Inr \<lparr>s5_policy_compliant = Compliant policyCompliant, s5_policy_match = None,
                 s5_press_subsequently_revoked = press_revoked_later pressEntry,
                 s5_non_compliance_reported = reported, s5_errors = errors\<rparr>)))"

section \<open>Stage 6\<close>

text \<open>
  Stage 6, \<open>stages/stage6.ts\<close>: EAS annotations of the cards of a chain by the
  recommended and the configured annotators.
\<close>

record stage6_result =
  s6_annotations :: "eas_annotation list"
  s6_errors :: "verification_error list"

text \<open>Step 1: the recommended annotators, or an empty list and an error.\<close>

definition recommended_annotators :: "('e) env_scheme \<Rightarrow> string list \<times> verification_error list" where
  "recommended_annotators e =
     (case bindE (http_get e RECOMMENDED_ANNOTATORS_ENDPOINT) (\<lambda>res.
             if ok res then bindE (body_json res) (\<lambda>as. Inr (as, []))
             else Inr ([], [verr 6 ''RECOMMENDED_ANNOTATORS_FETCH_FAILED''
                     (''Annotators endpoint returned HTTP '' @ int_str (status res))])) of
        Inr r \<Rightarrow> r
      | Inl err \<Rightarrow> ([], [verr 6 ''RECOMMENDED_ANNOTATORS_FETCH_FAILED''
                   (''Failed to fetch recommended annotators: '' @ exn_string err)]))"

text \<open>Step 4: one attestation gives an annotation or, if its content cannot be read, an error.\<close>

definition annotator_trusted :: "rpc_provider \<Rightarrow> string list \<Rightarrow> string \<Rightarrow> bool res" where
  "annotator_trusted rp roots attester =
     bindE (get_card_entry rp attester) (\<lambda>entry. case live_entry entry of
       None \<Rightarrow> Inr False
     | Some ae \<Rightarrow> trusted_root rp roots attester)"

definition annotate ::
    "('e) env_scheme \<Rightarrow> rpc_provider \<Rightarrow> ipfs_provider \<Rightarrow> string list \<Rightarrow> string list \<Rightarrow> eas_attestation
      \<Rightarrow> eas_annotation list \<times> verification_error list" where
  "annotate e rp ip roots recommended attest =
     (case bindE (ipfs_fetch ip (at_cid attest)) (json_parse e) of
        Inl err \<Rightarrow> ([], [verr 6 ''ANNOTATION_FETCH_FAILED''
                   (''Failed to fetch annotation '' @ at_uid attest @ '': '' @ exn_string err)])
      | Inr content \<Rightarrow>
          (let (trusted, errs) =
             (case annotator_trusted rp roots (at_attester attest) of
                Inr b \<Rightarrow> (b, [])
              | Inl err \<Rightarrow> (False, [verr 6 ''ANNOTATOR_CHAIN_WALK_FAILED''
                   (''Failed to walk annotator chain for '' @ at_attester attest @ '': '' @ exn_string err)])) in
           ([\<lparr>an_eas_uid = at_uid attest, an_annotator_card = at_attester attest,
              an_annotator_chain_trusted = trusted,
              an_is_recommended_annotator = (at_attester attest \<in> set recommended),
              an_update_code = at_update_code attest, an_cid = at_cid attest,
              an_content = content, an_effective_date = at_effective_date attest\<rparr>], errs)))"

definition verifyStage6 ::
    "('e) env_scheme \<Rightarrow> string list \<Rightarrow> rpc_provider \<Rightarrow> ipfs_provider \<Rightarrow> bool \<Rightarrow> string list \<Rightarrow> string list
      \<Rightarrow> stage6_result res" where
  "verifyStage6 e chainCardAddresses rp ip fetchAnn additional roots =
     (if \<not> fetchAnn then Inr \<lparr>s6_annotations = [], s6_errors = []\<rparr>
      else
        (let (recommended, errors) = recommended_annotators e;
             activeAnnotatorSet = distinct_first (recommended @ additional) in
         if activeAnnotatorSet = [] then Inr \<lparr>s6_annotations = [], s6_errors = errors\<rparr>
         else
           bindE (mapE (\<lambda>addr. get_eas_annotations rp addr activeAnnotatorSet) chainCardAddresses)
             (\<lambda>allAttestations.
               let results = map (annotate e rp ip roots recommended) (concat allAttestations) in
               Inr \<lparr>s6_annotations = concat (map fst results),
                    s6_errors = errors @ concat (map snd results)\<rparr>)))"

end
