(* ===== verification/Policy_Match.thy ===== *)
theory Policy_Match
  imports Verifier_Types
begin

text \<open>
  \<open>policy-match.ts\<close>: does a walked chain hold a card issued under the wanted policy whose
  matchers satisfy every matcher?
\<close>

fun fieldValueMatches :: "('h) host_scheme \<Rightarrow> js \<Rightarrow> field_matcher \<Rightarrow> bool" where
  "fieldValueMatches h value (Exact s) = (value = Str s)"
| "fieldValueMatches h (Str v) (Regex r) = (case regex_test h r v of Some b \<Rightarrow> b | None \<Rightarrow> False)"
| "fieldValueMatches h value (Regex r) = False"

definition all_fields_match :: "('h) host_scheme \<Rightarrow> js \<Rightarrow> (string \<times> field_matcher) list \<Rightarrow> bool res" where
  "all_fields_match h content matchers =
     bindE (mapE (\<lambda>(name, matcher). bindE (js_prop content name)
              (\<lambda>v. Inr (fieldValueMatches h v matcher))) matchers)
       (\<lambda>bs. Inr (\<forall>b \<in> set bs. b))"

text \<open>The loop, with its flag \<open>sawPolicyIdMatch\<close>.\<close>

fun policy_loop ::
    "('h) host_scheme \<Rightarrow> policy_match_conditions \<Rightarrow> bool \<Rightarrow> chain_link list \<Rightarrow> policy_match_result res" where
  "policy_loop h c saw [] =
     Inr \<lparr>pm_matched = False, pm_reason = Some (if saw then Field_Mismatch else No_Policy_Match)\<rparr>"
| "policy_loop h c saw (link # links) =
     bindE (js_prop (cl_card_content link) ''policy_id'') (\<lambda>pid.
       if pid \<noteq> Str (pc_policy_id c) then policy_loop h c saw links
       else (case pc_field_match c of
         None \<Rightarrow> Inr \<lparr>pm_matched = True, pm_reason = None\<rparr>
       | Some matchers \<Rightarrow>
           bindE (all_fields_match h (cl_card_content link) matchers) (\<lambda>allFieldsMatch.
             if allFieldsMatch then Inr \<lparr>pm_matched = True, pm_reason = None\<rparr>
             else policy_loop h c True links)))"

definition evaluatePolicyMatch ::
    "('h) host_scheme \<Rightarrow> chain_link list \<Rightarrow> policy_match_conditions option
      \<Rightarrow> policy_match_result option res" where
  "evaluatePolicyMatch h chain conds =
     (case conds of None \<Rightarrow> Inr None
      | Some c \<Rightarrow> bindE (policy_loop h c False chain) (\<lambda>r. Inr (Some r)))"

section \<open>What the answer means\<close>

definition issued_under :: "policy_match_conditions \<Rightarrow> chain_link \<Rightarrow> bool" where
  "issued_under c link \<longleftrightarrow> js_prop (cl_card_content link) ''policy_id'' = Inr (Str (pc_policy_id c))"

definition satisfies :: "('h) host_scheme \<Rightarrow> policy_match_conditions \<Rightarrow> chain_link \<Rightarrow> bool" where
  "satisfies h c link \<longleftrightarrow> issued_under c link \<and>
     (\<forall>matchers. pc_field_match c = Some matchers \<longrightarrow>
        (\<forall>(field, m) \<in> set matchers. \<exists>v. js_prop (cl_card_content link) field = Inr v \<and> fieldValueMatches h v m))"

lemma mapE_field_values:
  "mapE (\<lambda>(field, m). bindE (js_prop c field) (\<lambda>v. Inr (fieldValueMatches h v m))) matchers = Inr bs \<Longrightarrow>
     (\<forall>b \<in> set bs. b) \<longleftrightarrow>
     (\<forall>(field, m) \<in> set matchers. \<exists>v. js_prop c field = Inr v \<and> fieldValueMatches h v m)"
  by (induction matchers arbitrary: bs) (auto simp: bindE_eq_Inr)

lemma all_fields_match_iff:
  "all_fields_match h c matchers = Inr b \<Longrightarrow>
     b \<longleftrightarrow> (\<forall>(field, m) \<in> set matchers. \<exists>v. js_prop c field = Inr v \<and> fieldValueMatches h v m)"
  by (auto simp: all_fields_match_def bindE_eq_Inr dest!: mapE_field_values)

lemma policy_loop_spec:
  "policy_loop h c saw links = Inr r \<Longrightarrow>
     (pm_matched r \<longleftrightarrow> (\<exists>l \<in> set links. satisfies h c l)) \<and>
     (pm_reason r = (if pm_matched r then None
        else if saw \<or> (\<exists>l \<in> set links. issued_under c l) then Some Field_Mismatch
        else Some No_Policy_Match))"
proof (induction links arbitrary: saw)
  case (Cons link links)
  from Cons.prems obtain pid where pid: "js_prop (cl_card_content link) ''policy_id'' = Inr pid"
    by (auto simp: bindE_eq_Inr)
  show ?case
  proof (cases "issued_under c link")
    case False
    with pid Cons.prems have "policy_loop h c saw links = Inr r"
      by (auto simp: issued_under_def)
    from Cons.IH [OF this] False show ?thesis by (auto simp: satisfies_def)
  next
    case issued: True
    show ?thesis
    proof (cases "pc_field_match c")
      case None
      with issued Cons.prems show ?thesis by (auto simp: issued_under_def satisfies_def)
    next
      case (Some matchers)
      with issued Cons.prems obtain b where
        b: "all_fields_match h (cl_card_content link) matchers = Inr b"
        by (auto simp: issued_under_def bindE_eq_Inr)
      have sat: "satisfies h c link \<longleftrightarrow> b"
        using all_fields_match_iff [OF b] issued Some by (simp add: satisfies_def)
      show ?thesis
      proof (cases b)
        case True
        with issued Some b Cons.prems sat show ?thesis by (auto simp: issued_under_def)
      next
        case False
        with issued Some b Cons.prems have "policy_loop h c True links = Inr r"
          by (auto simp: issued_under_def)
        from Cons.IH [OF this] False sat issued show ?thesis by auto
      qed
    qed
  qed
qed auto

lemma evaluatePolicyMatch_None [simp]: "evaluatePolicyMatch h chain None = Inr None"
  by (simp add: evaluatePolicyMatch_def)

lemma evaluatePolicyMatch_Nil [simp]:
  "evaluatePolicyMatch h [] (Some c) = Inr (Some \<lparr>pm_matched = False, pm_reason = Some No_Policy_Match\<rparr>)"
  by (simp add: evaluatePolicyMatch_def)

end
