(* ===== verification/Card_Verifier.thy ===== *)
theory Card_Verifier
  imports Verifier_Stage3 Verifier_Stage4 Verifier_Stage5 Policy_Match
begin

text \<open>
  The class \<open>CardVerifier\<close> of \<open>CardVerifier.ts\<close>: the constructor's defaults, the
  verification of one signature entry through the six stages, of a whole envelope, and of
  a card given by its address.
\<close>

section \<open>Construction\<close>

definition default_to :: "'a \<Rightarrow> 'a option \<Rightarrow> 'a" where
  "default_to d x = (case x of None \<Rightarrow> d | Some v \<Rightarrow> v)"

definition new_card_verifier :: "verifier_config \<Rightarrow> config res" where
  "new_card_verifier c =
     (case vc_rpc c of
        None \<Rightarrow> Inl (CardProtocolError ''MISSING_RPC_PROVIDER'' ''VerifierConfig.rpc is required'')
      | Some rp \<Rightarrow>
          (case vc_ipfs c of
             None \<Rightarrow> Inl (CardProtocolError ''MISSING_IPFS_PROVIDER'' ''VerifierConfig.ipfs is required'')
           | Some ip \<Rightarrow> Inr \<lparr>rpc = rp, ipfs = ip,
               appCertificationRoot = vc_appCertificationRoot c,
               trustedRoots = default_to [] (vc_trustedRoots c),
               revocationFreshnessWindowSeconds = default_to (Fin 300) (vc_revocationFreshnessWindowSeconds c),
               rejectStaleRevocation = default_to True (vc_rejectStaleRevocation c),
               maxChainDepth = default_to 64 (vc_maxChainDepth c),
               registryEndpoint = vc_registryEndpoint c,
               fetchAnnotations = default_to False (vc_fetchAnnotations c),
               additionalAnnotators = default_to [] (vc_additionalAnnotators c),
               returnChain = default_to False (vc_returnChain c),
               conditions = vc_conditions c\<rparr>))"

section \<open>Result assembly\<close>

definition unknown_revocation :: revocation_status where
  "unknown_revocation = \<lparr>rs_status = Unknown_Revocation, rs_code = None, rs_effective_date = Null,
     rs_data_freshness_seconds = 0\<rparr>"

definition exposed_chain :: "config \<Rightarrow> chain_link list \<Rightarrow> chain_link list option" where
  "exposed_chain cfg chain = (if returnChain cfg then Some chain else None)"

text \<open>\<open>#buildResult\<close> with the overrides both hard rejections pass.\<close>

definition buildResult ::
    "('e) env_scheme \<Rightarrow> config \<Rightarrow> string \<Rightarrow> bool \<Rightarrow> flag \<Rightarrow> flag \<Rightarrow> flag \<Rightarrow> verification_error list
      \<Rightarrow> chain_link list \<Rightarrow> signature_result res" where
  "buildResult e cfg signerCard signatureValid scopeClean chainReaches appChainValid errors chain =
     bindE (evaluatePolicyMatch e chain (conditions cfg)) (\<lambda>pm.
       Inr \<lparr>sr_signer_card = signerCard, sr_signature_valid = Some signatureValid,
            sr_scope_clean = scopeClean, sr_chain_reaches_trusted_root = chainReaches,
            sr_chain_card_addresses = map cl_card_address chain,
            sr_app_card_chain_valid = appChainValid, sr_revocation = unknown_revocation,
            sr_was_valid_at_signing_time = Skipped, sr_is_currently_valid = Skipped,
            sr_log_updates = [], sr_policy_compliant = Skipped_Compliance, sr_policy_match = pm,
            sr_press_subsequently_revoked = False, sr_non_compliance_reported = False,
            sr_addressed_to_verifier = False, sr_errors = errors, sr_annotations = [],
            sr_chain = exposed_chain cfg chain\<rparr>)"

definition aggregateEnvelopePolicyMatch :: "config \<Rightarrow> signature_result list \<Rightarrow> policy_match_result option" where
  "aggregateEnvelopePolicyMatch cfg signatures =
     (case conditions cfg of
        None \<Rightarrow> None
      | Some c \<Rightarrow>
          if list_ex (\<lambda>s. map_option pm_matched (sr_policy_match s) = Some True) signatures
          then Some \<lparr>pm_matched = True, pm_reason = None\<rparr>
          else Some \<lparr>pm_matched = False,
            pm_reason = Some (if list_ex (\<lambda>s. Option.bind (sr_policy_match s) pm_reason = Some Field_Mismatch) signatures
                              then Field_Mismatch else No_Policy_Match)\<rparr>)"

section \<open>One signature entry\<close>

text \<open>Stage 5 is only run when the signer's own card entry exists on chain.\<close>

definition run_stage5 ::
    "('e) env_scheme \<Rightarrow> config \<Rightarrow> js \<Rightarrow> string \<Rightarrow> stage5_result res" where
  "run_stage5 e cfg startDoc signerCard =
     bindE (get_card_entry (rpc cfg) signerCard) (\<lambda>cardEntry. case live_entry cardEntry of
       None \<Rightarrow> Inr \<lparr>s5_policy_compliant = Skipped_Compliance, s5_policy_match = None,
                s5_press_subsequently_revoked = False, s5_non_compliance_reported = False, s5_errors = []\<rparr>
     | Some ce \<Rightarrow>
         bindE (ipfs_fetch (ipfs cfg) (ce_log_head_cid ce)) (\<lambda>rawBytes.
           verifyStage5 e startDoc ce signerCard (ce_log_head_cid ce) rawBytes (rpc cfg) (ipfs cfg)
             (registryEndpoint cfg)))"

text \<open>Stages 4 to 6 on a walked chain, and the full result.\<close>

definition finish_signature ::
    "('e) env_scheme \<Rightarrow> config \<Rightarrow> string \<Rightarrow> bool \<Rightarrow> js \<Rightarrow> js \<Rightarrow> stage2_result \<Rightarrow> stage3_result
      \<Rightarrow> signature_result res" where
  "finish_signature e cfg signerCard signatureValid signingTimestamp startDoc stage2 stage3 =
     bindE (verifyStage4 e (s3_chain stage3) signingTimestamp (rpc cfg)
              (revocationFreshnessWindowSeconds cfg) (rejectStaleRevocation cfg)) (\<lambda>stage4.
     bindE (run_stage5 e cfg startDoc signerCard) (\<lambda>stage5.
     bindE (evaluatePolicyMatch e (s3_chain stage3) (conditions cfg)) (\<lambda>policyMatch.
     bindE (verifyStage6 e (s3_chain_card_addresses stage3) (rpc cfg) (ipfs cfg)
              (fetchAnnotations cfg) (additionalAnnotators cfg) (trustedRoots cfg)) (\<lambda>stage6.
       Inr \<lparr>sr_signer_card = signerCard, sr_signature_valid = Some signatureValid,
            sr_scope_clean = s2_scope_clean stage2,
            sr_chain_reaches_trusted_root = s3_chain_reaches_trusted_root stage3,
            sr_chain_card_addresses = s3_chain_card_addresses stage3,
            sr_app_card_chain_valid = s2_app_card_chain_valid stage2,
            sr_revocation = s4_revocation stage4,
            sr_was_valid_at_signing_time = s4_was_valid_at_signing_time stage4,
            sr_is_currently_valid = s4_is_currently_valid stage4,
            sr_log_updates = s4_log_updates stage4,
            sr_policy_compliant = s5_policy_compliant stage5, sr_policy_match = policyMatch,
            sr_press_subsequently_revoked = s5_press_subsequently_revoked stage5,
            sr_non_compliance_reported = s5_non_compliance_reported stage5,
            sr_addressed_to_verifier = False,
            sr_errors = s2_errors stage2 @ s3_errors stage3 @ s4_errors stage4 @ s5_errors stage5 @
              s6_errors stage6,
            sr_annotations = s6_annotations stage6,
            sr_chain = exposed_chain cfg (s3_chain stage3)\<rparr>))))"

definition hard_chain_error :: "verification_error \<Rightarrow> bool" where
  "hard_chain_error err \<longleftrightarrow> ve_code err = ''DECRYPTION_FAILED'' \<or> ve_code err = ''ADDRESS_BINDING_MISMATCH''"

text \<open>
  \<open>stage2.master_card_doc!\<close> and \<open>stage2.master_card_pubkey!\<close>: with neither set the
  assertion operator passes \<open>undefined\<close> on, and hashing it throws.
\<close>

definition verifySignatureEntry ::
    "('e) env_scheme \<Rightarrow> config \<Rightarrow> signature_entry \<Rightarrow> js \<Rightarrow> js \<Rightarrow> signature_result res" where
  "verifySignatureEntry e cfg entry payload signingTimestamp =
     bindE (verifyStage1 e entry payload) (\<lambda>s1.
     let publicKeyBytes = s1_public_key_bytes s1; signatureValid = s1_signature_valid s1;
         signerCard = keccak256 e publicKeyBytes in
     bindE (verifyStage2 e publicKeyBytes (rpc cfg) (ipfs cfg) (appCertificationRoot cfg) (maxChainDepth cfg))
       (\<lambda>stage2.
       if s2_scope_clean stage2 = Flag False \<and> s2_master_card_doc stage2 = None then
         buildResult e cfg signerCard signatureValid (s2_scope_clean stage2) Skipped
           (s2_app_card_chain_valid stage2) (s2_errors stage2) []
       else (case (s2_master_card_doc stage2, s2_master_card_pubkey stage2) of
         (Some startDoc, Some startPubkey) \<Rightarrow>
           bindE (verifyStage3 e startDoc (keccak256 e startPubkey) (rpc cfg) (ipfs cfg)
                    (trustedRoots cfg) (maxChainDepth cfg) (Some startPubkey)) (\<lambda>stage3.
             if s3_chain_reaches_trusted_root stage3 = Flag False \<and>
                list_ex hard_chain_error (s3_errors stage3) then
               buildResult e cfg signerCard signatureValid (s2_scope_clean stage2)
                 (s3_chain_reaches_trusted_root stage3) (s2_app_card_chain_valid stage2)
                 (s2_errors stage2 @ s3_errors stage3) (s3_chain stage3)
             else finish_signature e cfg signerCard signatureValid signingTimestamp startDoc stage2 stage3)
       | _ \<Rightarrow> Inl (JsError ''TypeError: master card is undefined''))))"

section \<open>Envelopes\<close>

definition entry_js :: "signature_entry \<Rightarrow> js" where
  "entry_js entry = Obj ((case se_key_scheme entry of None \<Rightarrow> [] | Some s \<Rightarrow> [(''key_scheme'', Str s)]) @
     [(''public_key'', Str (se_public_key entry)), (''signature'', Str (se_signature entry))])"

definition envelope_js :: "envelope \<Rightarrow> js" where
  "envelope_js en = Obj [(''payload'', en_payload en), (''signatures'', Arr (map entry_js (en_signatures en)))]"

text \<open>The result of an envelope whose protocol version is missing or unknown.\<close>

definition early_result :: "('e) env_scheme \<Rightarrow> config \<Rightarrow> string \<Rightarrow> string \<Rightarrow> signature_result res" where
  "early_result e cfg code msg =
     bindE (evaluatePolicyMatch e [] (conditions cfg)) (\<lambda>pm.
       Inr \<lparr>sr_signer_card = [], sr_signature_valid = Some False, sr_scope_clean = Skipped,
            sr_chain_reaches_trusted_root = Skipped, sr_chain_card_addresses = [],
            sr_app_card_chain_valid = Skipped, sr_revocation = unknown_revocation,
            sr_was_valid_at_signing_time = Skipped, sr_is_currently_valid = Skipped,
            sr_log_updates = [], sr_policy_compliant = Skipped_Compliance, sr_policy_match = pm,
            sr_press_subsequently_revoked = False, sr_non_compliance_reported = False,
            sr_addressed_to_verifier = False, sr_errors = [verr 1 code msg], sr_annotations = [],
            sr_chain = exposed_chain cfg []\<rparr>)"

definition verifyEnvelope :: "('e) env_scheme \<Rightarrow> config \<Rightarrow> envelope \<Rightarrow> envelope_result res" where
  "verifyEnvelope e cfg en =
     (case extract_protocol_version (en_payload en) of
        Inl (CardProtocolError code msg) \<Rightarrow>
          bindE (js_prop (en_payload en) ''protocol_version'') (\<lambda>raw.
          bindE (early_result e cfg code msg) (\<lambda>early.
            Inr \<lparr>er_envelope_id = [], er_verified_at = now_iso e,
                 er_protocol_version = (case raw of Str s \<Rightarrow> s | _ \<Rightarrow> ''unknown''),
                 er_signatures = [early],
                 er_policy_match = aggregateEnvelopePolicyMatch cfg [early]\<rparr>))
      | Inl err \<Rightarrow> Inl err
      | Inr protocol_version \<Rightarrow>
          bindE (canonicalize (envelope_js en)) (\<lambda>canonicalEnvelope.
          bindE (js_prop (en_payload en) ''timestamp'') (\<lambda>timestamp.
          bindE (mapE (\<lambda>entry. verifySignatureEntry e cfg entry (en_payload en) timestamp) (en_signatures en))
            (\<lambda>signatures.
            Inr \<lparr>er_envelope_id = bytes_hex (sha_256 (crypto_ops e) canonicalEnvelope),
                 er_verified_at = now_iso e, er_protocol_version = protocol_version,
                 er_signatures = signatures,
                 er_policy_match = aggregateEnvelopePolicyMatch cfg signatures\<rparr>))))"

section \<open>Cards given by address\<close>

record card_result = signature_result +
  cr_protocol_version :: string

record verify_card_options =
  vo_asOf :: "string option"
  vo_pubkey :: "string option"

definition skippedResult ::
    "('e) env_scheme \<Rightarrow> config \<Rightarrow> string \<Rightarrow> verification_error list \<Rightarrow> card_result res" where
  "skippedResult e cfg cardAddress errors =
     bindE (evaluatePolicyMatch e [] (conditions cfg)) (\<lambda>pm.
       Inr \<lparr>sr_signer_card = cardAddress, sr_signature_valid = None, sr_scope_clean = Skipped,
            sr_chain_reaches_trusted_root = Skipped, sr_chain_card_addresses = [],
            sr_app_card_chain_valid = Skipped, sr_revocation = unknown_revocation,
            sr_was_valid_at_signing_time = Skipped, sr_is_currently_valid = Skipped,
            sr_log_updates = [], sr_policy_compliant = Skipped_Compliance, sr_policy_match = pm,
            sr_press_subsequently_revoked = False, sr_non_compliance_reported = False,
            sr_addressed_to_verifier = False, sr_errors = errors, sr_annotations = [],
            sr_chain = exposed_chain cfg [], cr_protocol_version = PROTOCOL_VERSION_0_1\<rparr>)"

text \<open>
  The branch with a supplied public key: walk the real chain, or record why it could not be
  walked and keep the answer known without it (no chain, the address alone).
\<close>

definition card_chain ::
    "('e) env_scheme \<Rightarrow> config \<Rightarrow> string \<Rightarrow> card_entry \<Rightarrow> bool \<Rightarrow> string option
      \<Rightarrow> flag \<times> string list \<times> chain_link list \<times> verification_error list" where
  "card_chain e cfg cardAddress cardEntry isTrustedRoot pubkey =
     (let fallback = (\<lambda>errs. (Flag isTrustedRoot, [cardAddress], [], errs)) in
      case pubkey of
        None \<Rightarrow> fallback []
      | Some b64 \<Rightarrow>
          if b64 = [] then fallback []
          else let pubkeyBytes = base64url_to_bytes b64 in
          if keccak256 e pubkeyBytes \<noteq> cardAddress then
            fallback [verr 3 ''ADDRESS_BINDING_MISMATCH''
              (''Supplied pubkey does not correspond to cardAddress: '' @ cardAddress)]
          else (case bindE (open_document e (ipfs cfg) (content_key e pubkeyBytes) (ce_log_head_cid cardEntry))
                  (\<lambda>cardDoc. verifyStage3 e cardDoc cardAddress (rpc cfg) (ipfs cfg) (trustedRoots cfg)
                     (maxChainDepth cfg) (Some pubkeyBytes)) of
            Inl err \<Rightarrow> fallback [open_error 3 err]
          | Inr stage3 \<Rightarrow> (s3_chain_reaches_trusted_root stage3, s3_chain_card_addresses stage3,
              s3_chain stage3, s3_errors stage3)))"

definition verifyCard ::
    "('e) env_scheme \<Rightarrow> config \<Rightarrow> string \<Rightarrow> verify_card_options option \<Rightarrow> card_result res" where
  "verifyCard e cfg cardAddress options =
     (let signingTimestamp = default_to (now_iso e) (Option.bind options vo_asOf) in
      bindE (get_card_entry (rpc cfg) cardAddress) (\<lambda>cardEntry. case live_entry cardEntry of
        None \<Rightarrow> skippedResult e cfg cardAddress
                  [verr 2 ''CARD_NOT_FOUND'' (''Card not found: '' @ cardAddress)]
      | Some ce \<Rightarrow>
          bindE (trusted_root (rpc cfg) (trustedRoots cfg) cardAddress) (\<lambda>isTrustedRoot.
          case card_chain e cfg cardAddress ce isTrustedRoot (Option.bind options vo_pubkey) of
            (reaches, addresses, chain, stage3Errors) \<Rightarrow>
            bindE (verifyStage4 e
                (if chain \<noteq> [] then chain
                 else [\<lparr>cl_card_address = cardAddress, cl_public_key = [], cl_card_content = Obj []\<rparr>])
                (Str signingTimestamp) (rpc cfg)
                (revocationFreshnessWindowSeconds cfg) (rejectStaleRevocation cfg)) (\<lambda>stage4.
            bindE (verifyStage6 e [cardAddress] (rpc cfg) (ipfs cfg) (fetchAnnotations cfg)
                (additionalAnnotators cfg) (trustedRoots cfg)) (\<lambda>stage6.
            bindE (evaluatePolicyMatch e chain (conditions cfg)) (\<lambda>pm.
              Inr \<lparr>sr_signer_card = cardAddress, sr_signature_valid = None, sr_scope_clean = Skipped,
                   sr_chain_reaches_trusted_root = reaches, sr_chain_card_addresses = addresses,
                   sr_app_card_chain_valid = Skipped, sr_revocation = s4_revocation stage4,
                   sr_was_valid_at_signing_time = s4_was_valid_at_signing_time stage4,
                   sr_is_currently_valid = s4_is_currently_valid stage4,
                   sr_log_updates = s4_log_updates stage4, sr_policy_compliant = Skipped_Compliance,
                   sr_policy_match = pm, sr_press_subsequently_revoked = False,
                   sr_non_compliance_reported = False, sr_addressed_to_verifier = False,
                   sr_errors = stage3Errors @ s4_errors stage4 @ s6_errors stage6,
                   sr_annotations = s6_annotations stage6, sr_chain = exposed_chain cfg chain,
                   cr_protocol_version = PROTOCOL_VERSION_0_1\<rparr>))))))"

section \<open>Cards without a key\<close>

text \<open>Without a public key the verdict is that of the address alone.\<close>

lemma verifyCard_keyless:
  assumes "verifyCard e cfg a options = Inr r" and "Option.bind options vo_pubkey = None"
  shows "sr_is_currently_valid r = Skipped \<and> sr_was_valid_at_signing_time r = Skipped \<and>
     rs_status (sr_revocation r) = Unknown_Revocation \<and>
     (sr_chain_reaches_trusted_root r = Flag True \<longrightarrow>
        trusted_root (rpc cfg) (trustedRoots cfg) a = Inr True \<and>
        (\<exists>entry ce. get_card_entry (rpc cfg) a = Inr entry \<and> live_entry entry = Some ce) \<and>
        rs_data_freshness_seconds (sr_revocation r) = (checked_at e - fetched_at e) div 1000)"
proof -
  from assms(1) obtain entry where entry: "get_card_entry (rpc cfg) a = Inr entry"
    by (auto simp: verifyCard_def Let_def bindE_eq_Inr)
  show ?thesis
  proof (cases "live_entry entry")
    case None
    with assms(1) entry show ?thesis
      by (auto simp: verifyCard_def Let_def skippedResult_def bindE_eq_Inr unknown_revocation_def)
  next
    case (Some ce)
    with assms entry obtain s4 isRoot where
      s4: "verifyStage4 e [\<lparr>cl_card_address = a, cl_public_key = [], cl_card_content = Obj []\<rparr>]
        (Str (default_to (now_iso e) (Option.bind options vo_asOf))) (rpc cfg)
        (revocationFreshnessWindowSeconds cfg) (rejectStaleRevocation cfg) = Inr s4"
      and root: "trusted_root (rpc cfg) (trustedRoots cfg) a = Inr isRoot"
      and r: "sr_is_currently_valid r = s4_is_currently_valid s4" "sr_revocation r = s4_revocation s4"
        "sr_was_valid_at_signing_time r = s4_was_valid_at_signing_time s4"
        "sr_chain_reaches_trusted_root r = Flag isRoot"
      by (auto simp: verifyCard_def card_chain_def Let_def bindE_eq_Inr)
    have "s4_is_currently_valid s4 = Skipped \<and> s4_was_valid_at_signing_time s4 = Skipped \<and>
        rs_status (s4_revocation s4) = Unknown_Revocation \<and>
        rs_data_freshness_seconds (s4_revocation s4) = (checked_at e - fetched_at e) div 1000"
      using s4 by (auto simp: verifyStage4_def stage4_queries_def bindE_eq_Inr stage4_card_def has_content_def
          stage4_verdict_def acc0_def Let_def)
    with r root entry Some show ?thesis by simp
  qed
qed

end
