(* ===== verification/Example_World.thy ===== *)
theory Example_World
  imports Card_Verifier
begin

text \<open>
  A small concrete world for the witnesses: six cards whose addresses are the hex
  renderings of one byte, toy primitives (the hash of a key is its first byte, a
  ciphertext opens under the key that is its first byte, every signature verifies) and a
  document per card. Card 1 is a sub-card of card 2 made by app card 3, whose parent is
  card 4; the parent of card 2 is card 5 and the parent of card 5 is card 6.
\<close>

definition ex_address :: "nat \<Rightarrow> string" where
  "ex_address n = [CHR ''0'', digit_char n]"

definition ex_key :: "byte \<Rightarrow> bytes" where
  "ex_key b = replicate 1312 b"

definition ex_b64 :: "byte \<Rightarrow> string" where
  "ex_b64 b = bytes_to_base64url (ex_key b)"

definition ex_signature :: string where
  "ex_signature = bytes_to_base64url (replicate 2420 0)"

section \<open>Documents\<close>

definition ex_ancestry :: "byte list \<Rightarrow> string \<times> js" where
  "ex_ancestry ks = (''ancestry_pubkeys'', Arr (map (\<lambda>k. Str (ex_b64 k)) ks))"

definition ex_subcard_doc :: js where
  "ex_subcard_doc = Obj [(''holder_primary_card'', Str ''02''), (''holder_primary_card_pubkey'', Str (ex_b64 2)),
     (''app_card'', Str ''03''), (''app_card_pubkey'', Str (ex_b64 3)),
     (''app_signature'', Str ''''), (''holder_signature'', Str '''')]"

definition ex_master_doc :: js where
  "ex_master_doc = Obj [ex_ancestry [5], (''policy_id'', Str ''p''),
     (''active_subcards'', Arr [Str (ex_b64 1)])]"

definition ex_app_doc :: js where
  "ex_app_doc = Obj [ex_ancestry [4]]"

definition ex_root_doc :: js where
  "ex_root_doc = Obj [ex_ancestry []]"

definition ex_parent_doc :: js where
  "ex_parent_doc = Obj [ex_ancestry [6], (''policy_id'', Str ''q''), (''level'', Str ''gold'')]"

definition ex_policy_doc :: js where
  "ex_policy_doc = Obj [(''field_definitions'',
     Obj [(''policy_id'', Obj [(''required'', Bool True)]), (''toString'', Obj [(''required'', Bool True)])])]"

text \<open>The head of a card that was updated once: a log entry.\<close>

definition ex_log_entry :: js where
  "ex_log_entry = Obj [(''version'', Num (Fin 1)), (''code'', Num (Fin 100)),
     (''entry_type'', Str ''field_update'')]"

definition ex_revoked_doc :: "int \<Rightarrow> js" where
  "ex_revoked_doc code = Obj [(''entry_type'', Str ''revocation''), (''code'', Num (Fin code))]"

text \<open>Document number \<open>n\<close>: 1 to 6 are the cards', then a policy, a log entry and two revocations.\<close>

definition ex_doc :: "nat \<Rightarrow> js" where
  "ex_doc n = (if n = 1 then ex_subcard_doc else if n = 2 then ex_master_doc
     else if n = 3 then ex_app_doc else if n = 4 then ex_root_doc else if n = 5 then ex_parent_doc
     else if n = 6 then ex_root_doc else if n = 7 then ex_policy_doc else if n = 8 then ex_log_entry
     else ex_revoked_doc (if n = 9 then 850 else 900))"

section \<open>Primitives and providers\<close>

definition ex_crypto :: crypto where
  "ex_crypto = \<lparr>keccak_256 = take 1, sha_256 = take 1,
     hkdf_sha3_256 = (\<lambda>ikm info n. take 1 ikm),
     aes_gcm_open = (\<lambda>key nonce ct. if take 1 ct = key then Inr (drop 1 ct) else Inl (JsError ''bad tag'')),
     ml_dsa44_verify = (\<lambda>sig msg pk. Inr True), p256_verify = (\<lambda>sig msg pk. Inr True)\<rparr>"

definition ex_env :: env where
  "ex_env = \<lparr>json_parse = (\<lambda>bs. Inr (ex_doc (unat (hd bs)))),
     regex_test = (\<lambda>r s. Some (r = s)), number_of_text = (\<lambda>v. NaN),
     date_time = (\<lambda>s. NaN), iso_of_ms = int_str, crypto_ops = ex_crypto,
     fetched_at = 0, checked_at = 0, now_iso = ''2026'',
     http_post_report = (\<lambda>u r. Inr \<lparr>ok = True, status = 200, body_json = Inr []\<rparr>),
     http_get = (\<lambda>u. Inr \<lparr>ok = False, status = 404, body_json = Inr []\<rparr>)\<rparr>"

text \<open>The object a content identifier names: nonce, key byte, document number and tag.\<close>

definition ex_object :: "byte \<Rightarrow> byte \<Rightarrow> bytes" where
  "ex_object key doc = replicate 12 0 @ [key, doc] @ replicate 16 0"

definition ex_fetch :: "string \<Rightarrow> bytes res" where
  "ex_fetch cid = (case cid of
       [c, n] \<Rightarrow> Inr (ex_object (of_char n - 48) (of_char c - 48))
     | [c] \<Rightarrow> Inr [7]
     | _ \<Rightarrow> Inl (JsError ''Error: not found''))"

text \<open>The head identifier of card \<open>n\<close> showing document \<open>d\<close>.\<close>

definition ex_entry :: "nat \<Rightarrow> nat \<Rightarrow> card_entry" where
  "ex_entry n d = \<lparr>ce_log_head_cid = [digit_char d, digit_char n], ce_policy_address = ''p'',
     ce_last_press_address = ''press'', ce_forward_to = None, ce_exists = True\<rparr>"

definition ex_rpc :: "(string \<Rightarrow> card_entry option) \<Rightarrow> rpc_provider" where
  "ex_rpc entries = \<lparr>get_card_entry = (\<lambda>a. Inr (entries a)),
     is_policy_authorizer = (\<lambda>a. Inr False),
     get_press_authorization = (\<lambda>a b. Inr (Some \<lparr>pa_press_public_key = '''', pa_mldsa44_key_hash = '''',
        pa_active = False, pa_authorized_at = ''0'', pa_revoked_at = Some ''1''\<rparr>)),
     get_sub_card_entry = (\<lambda>a. Inr (Some \<lparr>sc_master_card_address = ''02'', sc_registration_log_head = '''',
        sc_sub_card_doc_cid = '''', sc_active = True, sc_registered_at = ''0'', sc_deregistered_at = None\<rparr>)),
     get_card_event_log = (\<lambda>a. Inr (map (\<lambda>ce. \<lparr>ev_cid = ce_log_head_cid ce, ev_timestamp = ''2025''\<rparr>)
        (case entries a of None \<Rightarrow> [] | Some ce \<Rightarrow> [ce]))),
     get_eas_annotations = (\<lambda>a as. Inr [])\<rparr>"

text \<open>Every card shows its own document.\<close>

definition ex_entries :: "string \<Rightarrow> card_entry option" where
  "ex_entries a = (if a = ''01'' then Some (ex_entry 1 1) else if a = ''02'' then Some (ex_entry 2 2)
     else if a = ''03'' then Some (ex_entry 3 3) else if a = ''04'' then Some (ex_entry 4 4)
     else if a = ''05'' then Some (ex_entry 5 5) else if a = ''06'' then Some (ex_entry 6 6) else None)"

definition ex_ipfs :: ipfs_provider where
  "ex_ipfs = \<lparr>ipfs_fetch = ex_fetch\<rparr>"

definition ex_config :: "(string \<Rightarrow> card_entry option) \<Rightarrow> config" where
  "ex_config entries = \<lparr>rpc = ex_rpc entries, ipfs = ex_ipfs, appCertificationRoot = Some ''04'',
     trustedRoots = [''06''], revocationFreshnessWindowSeconds = Fin 300, rejectStaleRevocation = True,
     maxChainDepth = 3, registryEndpoint = None, fetchAnnotations = False, additionalAnnotators = [],
     returnChain = True, conditions = Some \<lparr>pc_policy_id = ''q'',
       pc_field_match = Some [(''level'', Exact ''gold'')]\<rparr>\<rparr>"

definition ex_signed :: signature_entry where
  "ex_signed = \<lparr>se_key_scheme = None, se_public_key = ex_b64 1, se_signature = ex_signature\<rparr>"

definition ex_payload :: js where
  "ex_payload = Obj [(''timestamp'', Str ''2024''), (''protocol_version'', Str ''0.1'')]"

section \<open>Evaluation rules\<close>

lemma ex_key_facts [simp]:
  "length (ex_key b) = 1312" "take 1 (ex_key b) = [b]" "take (Suc 0) (ex_key b) = [b]" "ex_key b \<noteq> []"
  using replicate_Suc [of 1311 b] by (simp_all add: ex_key_def del: replicate_Suc)

lemma ex_b64_decodes [simp]: "base64url_to_bytes (ex_b64 b) = ex_key b"
  by (simp add: ex_b64_def base64url_round_trip)

lemma ex_b64_nonempty [simp]: "ex_b64 b \<noteq> []"
proof
  assume "ex_b64 b = []"
  then have "base64url_to_bytes (ex_b64 b) = []"
    by (simp add: base64url_to_bytes_def)
  then show False by simp
qed

lemma ex_signature_decodes [simp]: "base64url_to_bytes ex_signature = replicate 2420 0"
  by (simp add: ex_signature_def base64url_round_trip)

lemma ex_env_sel [simp]:
  "json_parse ex_env = (\<lambda>bs. Inr (ex_doc (unat (hd bs))))" "crypto_ops ex_env = ex_crypto"
  "now_iso ex_env = ''2026''" "fetched_at ex_env = 0" "checked_at ex_env = 0"
  "http_post_report ex_env u r = Inr \<lparr>ok = True, status = 200, body_json = Inr []\<rparr>"
  "regex_test ex_env pat s = Some (pat = s)" "number_of_text ex_env v = NaN"
  "http_get ex_env u = Inr \<lparr>ok = False, status = 404, body_json = Inr []\<rparr>"
  by (simp_all add: ex_env_def)

lemma ex_keccak [simp]: "keccak256 ex_env bs = bytes_hex (take 1 bs)"
  by (simp add: keccak256_def ex_crypto_def)

lemma ex_content_key [simp]: "content_key ex_env (ex_key b) = [b]"
  by (simp add: content_key_def hkdfSha3256_def ex_crypto_def)

lemma ex_verify [simp]: "mlDsa44Verify ex_env pk m s = Inr True"
  by (simp add: mlDsa44Verify_def ex_crypto_def)

lemma ex_fetch_entry:
  assumes "n < 10" "d < 10"
  shows "ipfs_fetch ex_ipfs (ce_log_head_cid (ex_entry n d)) = Inr (ex_object (of_nat n) (of_nat d))"
proof -
  have "(of_char (digit_char k) :: byte) = 48 + of_nat k" if "k < 10" for k
  proof -
    have "(of_char (digit_char k) :: byte) = of_nat (of_char (digit_char k))"
      by (simp only: of_nat_of_char)
    also have "\<dots> = of_nat (48 + k)" using that by (simp only: of_char_digit)
    finally show ?thesis by simp
  qed
  with assms show ?thesis
    by (simp add: ex_ipfs_def ex_fetch_def ex_entry_def)
qed

lemma ex_open:
  assumes "n < 10" "d < 10"
  shows "open_document ex_env ex_ipfs [of_nat n] (ce_log_head_cid (ex_entry n d)) = Inr (ex_doc d)"
  using assms
  by (simp add: open_document_def ex_fetch_entry ex_object_def aes256gcmDecrypt_def ex_crypto_def
      unat_of_nat_byte)

lemma ex_exists [simp]: "live_entry (Some (ex_entry n d)) = Some (ex_entry n d)"
  by (simp add: live_entry_def ex_entry_def)

lemmas ex_opens [simp] =
  ex_open [of 1 1, simplified] ex_open [of 2 2, simplified] ex_open [of 3 3, simplified]
  ex_open [of 4 4, simplified] ex_open [of 5 5, simplified] ex_open [of 6 6, simplified]
  ex_open [of 2 8, simplified] ex_open [of 5 8, simplified] ex_open [of 5 9, simplified]

lemma ex_hex [simp]:
  "bytes_hex [1] = ''01''" "bytes_hex [2] = ''02''" "bytes_hex [3] = ''03''" "bytes_hex [4] = ''04''"
  "bytes_hex [5] = ''05''" "bytes_hex [6] = ''06''"
  by code_simp+

lemma ex_rpc_sel [simp]:
  "get_card_entry (ex_rpc en) a = Inr (en a)" "is_policy_authorizer (ex_rpc en) a = Inr False"
  by (simp_all add: ex_rpc_def)

lemma ex_config_sel [simp]:
  "rpc (ex_config en) = ex_rpc en" "ipfs (ex_config en) = ex_ipfs"
  "appCertificationRoot (ex_config en) = Some ''04''" "trustedRoots (ex_config en) = [''06'']"
  "revocationFreshnessWindowSeconds (ex_config en) = Fin 300" "rejectStaleRevocation (ex_config en)"
  "maxChainDepth (ex_config en) = 3" "registryEndpoint (ex_config en) = None"
  "\<not> fetchAnnotations (ex_config en)" "additionalAnnotators (ex_config en) = []" "returnChain (ex_config en)"
  by (simp_all add: ex_config_def)

lemma ex_doc_simps [simp]:
  "ex_doc 1 = ex_subcard_doc" "ex_doc (Suc 0) = ex_subcard_doc" "ex_doc 2 = ex_master_doc" "ex_doc 3 = ex_app_doc"
  "ex_doc 4 = ex_root_doc" "ex_doc 5 = ex_parent_doc" "ex_doc 6 = ex_root_doc"
  "ex_doc 7 = ex_policy_doc" "ex_doc 8 = ex_log_entry" "ex_doc 9 = ex_revoked_doc 850"
  by (simp_all add: ex_doc_def)

lemma ex_fuel [simp]:
  "stage3_walk e rp ip roots m 3 as ls d a = stage3_walk e rp ip roots m (Suc (Suc (Suc 0))) as ls d a"
  "app_chain_walk e rp ip rt 3 d a = app_chain_walk e rp ip rt (Suc (Suc (Suc 0))) d a"
  by (simp_all only: numeral_3_eq_3)

lemma ex_entries_simps [simp]:
  "ex_entries ''01'' = Some (ex_entry 1 1)" "ex_entries ''02'' = Some (ex_entry 2 2)"
  "ex_entries ''03'' = Some (ex_entry 3 3)" "ex_entries ''04'' = Some (ex_entry 4 4)"
  "ex_entries ''05'' = Some (ex_entry 5 5)" "ex_entries ''06'' = Some (ex_entry 6 6)"
  by (simp_all add: ex_entries_def)

lemma ex_ancestors [simp]:
  "first_ancestor ex_master_doc = Inr (Ancestor (Str (ex_b64 5)) (ex_key 5))"
  "first_ancestor ex_parent_doc = Inr (Ancestor (Str (ex_b64 6)) (ex_key 6))"
  "first_ancestor ex_app_doc = Inr (Ancestor (Str (ex_b64 4)) (ex_key 4))"
  "first_ancestor ex_root_doc = Inr No_Ancestors"
  by (simp_all add: first_ancestor_def ex_master_doc_def ex_parent_doc_def ex_app_doc_def
      ex_root_doc_def ex_ancestry_def lookup_key_def js_base64_def Let_def)

lemma canonicalize_json: "json_value v \<Longrightarrow> \<exists>b. canonicalize v = Inr b"
  by (simp add: canonicalize_iff)

end
