(* ===== verification/Verifier_Properties.thy ===== *)
theory Verifier_Properties
  imports Example_World
begin

text \<open>
  The properties of the serialization, of the codec and of Stages 1 to 3, each followed by
  a witness that applies it in the example world.
\<close>

section \<open>Canonical bytes and the codec\<close>

text \<open>
  C16. Canonical bytes bind a value: two values have the same canonical bytes exactly when
  they are equal up to the order in which object keys were inserted, so a signature over
  the bytes is a signature over the value.
\<close>

theorem canonical_bytes_bind:
  assumes "canonicalize v = Inr b"
  shows "canonicalize w = Inr b \<longleftrightarrow> sort_keys w = sort_keys v"
  using assms canonicalize_binds [of v b w] canonicalize_sort_keys [of v] canonicalize_sort_keys [of w]
  by auto

theorem canonical_bytes_bind_witness:
  "canonicalize (Obj [(''a'', Null), (''b'', Bool True)])
     = canonicalize (Obj [(''b'', Bool True), (''a'', Null)])"
proof -
  have run: "canonicalize (Obj [(''b'', Bool True), (''a'', Null)]) = Inr (utf8_encode
      [CHR ''{'', quote, CHR ''a'', quote, CHR '':'', CHR ''n'', CHR ''u'', CHR ''l'', CHR ''l'', CHR '','',
       quote, CHR ''b'', quote, CHR '':'', CHR ''t'', CHR ''r'', CHR ''u'', CHR ''e'', CHR ''}''])"
    by code_simp
  have keys: "sort_keys (Obj [(''a'', Null), (''b'', Bool True)]) = sort_keys (Obj [(''b'', Bool True), (''a'', Null)])"
    by code_simp
  from canonical_bytes_bind [OF run, THEN iffD2, OF keys] run show ?thesis
    by (simp only:)
qed

text \<open>
  The canonicalizer throws exactly on the values that are not JSON: an
  \<open>undefined\<close> or a non-finite number at any depth; it is total on all others.
\<close>

theorem canonicalize_total_on_json: "(\<exists>b. canonicalize v = Inr b) \<longleftrightarrow> json_value v"
  by (rule canonicalize_iff)

lemma url_char_in: "unat v < 64 \<Longrightarrow> url_char v \<in> set base64url_chars"
  unfolding url_char_def by (rule nth_mem) (simp add: base64url_chars_def)

lemma encoded_shape:
  "length (bytes_to_base64url bs) = (4 * length bs + 2) div 3 \<and>
   set (bytes_to_base64url bs) \<subseteq> set base64url_chars"
  by (induction bs rule: bytes_to_base64url.induct) (simp_all add: url_char_in)

text \<open>
  The base64url codec is a round trip on all byte strings although the decoder's 32-bit
  buffer overflows on inputs of more than five characters, and the encoder emits only
  URL-safe characters, without padding, four for every three bytes.
\<close>

theorem base64url_codec_correct:
  "base64url_to_bytes (bytes_to_base64url bs) = bs \<and>
   length (bytes_to_base64url bs) = (4 * length bs + 2) div 3 \<and>
   set (bytes_to_base64url bs) \<subseteq> set base64url_chars"
  using encoded_shape b64.dec_enc by blast

section \<open>Stage 1\<close>

text \<open>
  A signature entry that Stage 1 reports as valid carries a key and a signature of the
  exact lengths of its scheme, and the scheme's primitive accepted that signature over the
  canonical bytes of the payload; every other payload those bytes could stand for differs
  from it only in key order.
\<close>

theorem stage1_valid_signature:
  assumes "verifyStage1 e entry payload = Inr r" and "s1_signature_valid r"
  shows "\<exists>pk sig b. s1_public_key_bytes r = pk \<and> base64url_to_bytes (se_public_key entry) = pk \<and>
     base64url_to_bytes (se_signature entry) = sig \<and> canonicalize payload = Inr b \<and>
     (if se_key_scheme entry = Some ''secp256r1_phase1''
      then length pk = 64 \<and> length sig = 64 \<and>
           p256_verify (crypto_ops e) sig (sha_256 (crypto_ops e) b) (4 # pk) = Inr True
      else length pk = 1312 \<and> length sig = 2420 \<and> ml_dsa44_verify (crypto_ops e) sig b pk = Inr True) \<and>
     (\<forall>payload'. canonicalize payload' = Inr b \<longrightarrow> sort_keys payload' = sort_keys payload)"
  using assms
  by (auto simp: verifyStage1_def verifyStage1MlDsa44_def verifyStage1Secp256r1Phase1_def
      mlDsa44Verify_def secp256r1Phase1Verify_def Let_def res_simps dest: canonicalize_binds)

theorem stage1_valid_signature_witness:
  "\<exists>r. verifyStage1 ex_env ex_signed ex_payload = Inr r \<and> s1_public_key_bytes r = ex_key 1 \<and>
     length (ex_key 1) = 1312"
proof -
  obtain b where b: "canonicalize ex_payload = Inr b"
    using canonicalize_json [of ex_payload] by (auto simp: ex_payload_def)
  then have run: "verifyStage1 ex_env ex_signed ex_payload
      = Inr \<lparr>s1_signature_valid = True, s1_public_key_bytes = ex_key 1\<rparr>"
    by (simp add: verifyStage1_def verifyStage1MlDsa44_def ex_signed_def)
  from stage1_valid_signature [OF run] show ?thesis
    using run by (simp add: ex_signed_def)
qed

text \<open>The lengths of key and signature each scheme prescribes.\<close>

definition scheme_lengths :: "signature_entry \<Rightarrow> nat \<times> nat" where
  "scheme_lengths entry = (if se_key_scheme entry = Some ''secp256r1_phase1'' then (64, 64) else (1312, 2420))"

text \<open>
  A key or a signature of the wrong length never reaches the primitive: the entry is
  refused with the error of the first wrong length, whatever the payload is.
\<close>

theorem stage1_length_errors:
  assumes "(length (base64url_to_bytes (se_public_key entry)), length (base64url_to_bytes (se_signature entry)))
     \<noteq> scheme_lengths entry"
  shows "\<exists>msg. verifyStage1 e entry payload = Inl (CardProtocolError
     (if length (base64url_to_bytes (se_public_key entry)) \<noteq> fst (scheme_lengths entry)
      then ''INVALID_PUBLIC_KEY_LENGTH'' else ''INVALID_SIGNATURE_LENGTH'') msg)"
  using assms
  by (cases "se_key_scheme entry = Some ''secp256r1_phase1''"; cases "se_key_scheme entry")
    (simp_all add: scheme_lengths_def verifyStage1_def verifyStage1MlDsa44_def
      verifyStage1Secp256r1Phase1_def Let_def)

theorem stage1_length_errors_witness:
  "\<exists>msg. verifyStage1 ex_env \<lparr>se_key_scheme = Some ''secp256r1_phase1'', se_public_key = [], se_signature = []\<rparr> Null
     = Inl (CardProtocolError ''INVALID_PUBLIC_KEY_LENGTH'' msg)"
  using stage1_length_errors [of "\<lparr>se_key_scheme = Some ''secp256r1_phase1'', se_public_key = [], se_signature = []\<rparr>" ex_env Null]
  by (simp add: base64url_to_bytes_def scheme_lengths_def)

section \<open>Stage 2\<close>

text \<open>
  C10. Stage 2 accepts exactly the genuine sub-cards: the signer's document opens under its
  key, both keys it names hash to the addresses it names, the master card's document lists
  the signer, the on-chain entry links it to the master card and is active, the holder and
  the app signed the document, and the app card chains to the configured root within
  \<open>maxChainDepth\<close> steps.
\<close>

theorem stage2_accepts_genuine_subcards:
  "verifyStage2 e pk rp ip root maxDepth = Inr (stage2_accept s m h) \<longleftrightarrow>
     s = keccak256 e pk \<and> genuine_subcard e rp ip root maxDepth pk m h"
  by (rule verifyStage2_genuine)

text \<open>
  C31. Stage 2 has two verdicts only: it accepts with the master card and its key and no
  error, or it rejects with no master card and exactly one error, of stage 2.
\<close>

theorem stage2_two_verdicts:
  assumes "verifyStage2 e pk rp ip root maxDepth = Inr r"
  shows "s2_signer_card r = keccak256 e pk \<and>
    (s2_scope_clean r = Flag True \<and> s2_app_card_chain_valid r = Flag True \<and> s2_errors r = [] \<and>
       (\<exists>m h. s2_master_card_doc r = Some m \<and> s2_master_card_pubkey r = Some h \<and>
          genuine_subcard e rp ip root maxDepth pk m h)
     \<or> s2_scope_clean r = Flag False \<and> s2_app_card_chain_valid r = Flag False \<and>
       s2_master_card_doc r = None \<and> s2_master_card_pubkey r = None \<and>
       (\<exists>err. s2_errors r = [err] \<and> ve_stage err = 2))"
proof -
  from verifyStage2_verdict [OF assms] consider
    (accepts) m h where "r = stage2_accept (keccak256 e pk) m h"
  | (rejects) err where "r = stage2_reject (keccak256 e pk) err" "ve_stage err = 2"
    unfolding stage2_verdict_def by blast
  then show ?thesis
  proof cases
    case accepts
    with assms have "genuine_subcard e rp ip root maxDepth pk m h"
      using verifyStage2_genuine by blast
    with accepts show ?thesis by (simp add: stage2_accept_def)
  qed (simp add: stage2_reject_def)
qed

lemma ex_subcard_genuine:
  "genuine_subcard ex_env (ex_rpc ex_entries) ex_ipfs (Some ''04'') 3 (ex_key 1) ex_master_doc (ex_key 2)"
proof -
  have "displays ex_env (ex_rpc ex_entries) ex_ipfs (ex_key 1) ex_subcard_doc"
    "displays ex_env (ex_rpc ex_entries) ex_ipfs (ex_key 2) ex_master_doc"
    "displays ex_env (ex_rpc ex_entries) ex_ipfs (ex_key 3) ex_app_doc"
    by (simp_all add: displays_def)
  moreover have "bound_key ex_env ex_subcard_doc ''holder_primary_card_pubkey'' ''holder_primary_card'' (ex_key 2)"
    "bound_key ex_env ex_subcard_doc ''app_card_pubkey'' ''app_card'' (ex_key 3)"
    by (simp_all add: bound_key_def ex_subcard_doc_def lookup_key_def js_base64_def)
  moreover have "directory_lists ex_env ex_master_doc ''01''"
    by (simp add: directory_lists_def ex_master_doc_def ex_ancestry_def lookup_key_def lists_subcard_def js_base64_def)
  moreover have "registered_under (ex_rpc ex_entries) ''01'' ''02''"
    by (simp add: registered_under_def ex_rpc_def)
  moreover have "signed_by ex_env (ex_key 2) ex_subcard_doc ''holder_signature'' (js_omit ''holder_signature'' ex_subcard_doc)"
    "signed_by ex_env (ex_key 3) ex_subcard_doc ''app_signature''
      (js_omit ''app_signature'' (js_omit ''holder_signature'' ex_subcard_doc))"
    by (simp_all add: signed_by_def ex_subcard_doc_def lookup_key_def js_base64_def canonicalize_iff)
  moreover have "certified ex_env (ex_rpc ex_entries) ex_ipfs ''04'' 0 ex_app_doc ''03''"
    by (rule certified.parent_root [where b = "Str (ex_b64 4)" and pk = "ex_key 4"]) simp_all
  then have "app_certified ex_env (ex_rpc ex_entries) ex_ipfs (Some ''04'') 3 (ex_key 3)"
    unfolding app_certified_def using \<open>displays ex_env _ _ (ex_key 3) ex_app_doc\<close>
    by (intro exI [of _ "''04''"] exI [of _ ex_app_doc] conjI disjI2 exI [of _ 0]) simp_all
  ultimately show ?thesis
    unfolding genuine_subcard_def by (intro exI [of _ ex_subcard_doc] exI [of _ "ex_key 3"]) simp
qed

lemma ex_stage2:
  "verifyStage2 ex_env (ex_key 1) (ex_rpc ex_entries) ex_ipfs (Some ''04'') 3
     = Inr (stage2_accept ''01'' ex_master_doc (ex_key 2))"
  using ex_subcard_genuine by (simp add: verifyStage2_genuine)

theorem stage2_two_verdicts_witness:
  "\<exists>r m h. verifyStage2 ex_env (ex_key 1) (ex_rpc ex_entries) ex_ipfs (Some ''04'') 3 = Inr r \<and>
     s2_master_card_doc r = Some m \<and> s2_master_card_pubkey r = Some h"
  using stage2_two_verdicts [OF ex_stage2] ex_stage2 by (auto simp: stage2_accept_def)

section \<open>Stage 3\<close>

text \<open>
  C11. Stage 3 trusts a card exactly when a genuine chain leads from its document to a
  trusted root: every link is the card that the previous document's first ancestor key
  hashes to, shows its document under that key and is not a root itself, the last card is
  a root or has a root as its parent, and there are fewer than \<open>maxChainDepth\<close> hops. The
  result then lists exactly these cards.
\<close>

theorem stage3_trusts_rooted_chains:
  "(verifyStage3 e doc addr rp ip roots maxDepth pk = Inr r \<and> s3_chain_reaches_trusted_root r = Flag True) \<longleftrightarrow>
   (\<exists>ls extra. linked e rp ip doc ls \<and> no_root_before rp roots ls \<and>
      rooted e rp roots (tip (doc, addr) ls) extra \<and> length ls < nat maxDepth \<and>
      r = stage3_result True (addr # map cl_card_address ls @ extra) (start_link addr doc pk # ls) [])"
  (is "?l \<longleftrightarrow> ?r")
proof
  assume ?l
  then show ?r
    unfolding verifyStage3_def
    by (auto simp: start_link_def stage3_result_def dest!: stage3_walk_chain)
next
  assume ?r
  then obtain ls extra where chain: "linked e rp ip doc ls" "no_root_before rp roots ls"
      "length ls < nat maxDepth" "rooted e rp roots (tip (doc, addr) ls) extra"
    and r: "r = stage3_result True (addr # map cl_card_address ls @ extra) (start_link addr doc pk # ls) []"
    by blast
  then show ?l
    unfolding verifyStage3_def stage3_walk_complete [OF chain]
    by (simp add: start_link_def stage3_result_def)
qed

text \<open>
  Whatever Stage 3 answers, the cards it lists form a genuine chain that starts with the
  given card, has at most \<open>maxChainDepth\<close> hops, and passes no root; a positive answer comes
  without errors.
\<close>

theorem stage3_lists_genuine_chain:
  assumes "verifyStage3 e doc addr rp ip roots maxDepth pk = Inr r"
  shows "\<exists>ls. s3_chain r = start_link addr doc pk # ls \<and> linked e rp ip doc ls \<and>
     no_root_before rp roots ls \<and> length ls \<le> nat maxDepth \<and>
     (s3_chain_reaches_trusted_root r = Flag True \<and> s3_errors r = [] \<or>
      s3_chain_reaches_trusted_root r = Flag False \<and>
        s3_chain_card_addresses r = map cl_card_address (s3_chain r))"
  using stage3_walk_chain [OF assms [unfolded verifyStage3_def]]
  by (auto simp: start_link_def stage3_result_def)

lemma ex_stage3:
  "verifyStage3 ex_env ex_master_doc ''02'' (ex_rpc ex_entries) ex_ipfs [''06''] 3 (Some (ex_key 2)) =
     Inr (stage3_result True [''02'', ''05'', ''06'']
       [start_link ''02'' ex_master_doc (Some (ex_key 2)),
        \<lparr>cl_card_address = ''05'', cl_public_key = ex_b64 5, cl_card_content = ex_parent_doc\<rparr>] [])"
  by (simp add: verifyStage3_def start_link_def Let_def trusted_root_def)

theorem stage3_lists_genuine_chain_witness:
  "\<exists>l. linked ex_env (ex_rpc ex_entries) ex_ipfs ex_master_doc [l] \<and> cl_card_address l = ''05''"
  using stage3_lists_genuine_chain [OF ex_stage3] by (auto simp: stage3_result_def)

text \<open>
  A card whose head was moved to a log entry breaks every chain through it: a log entry
  has no \<open>ancestry_pubkeys\<close>, and as soon as a walk of permitted length reaches a document
  without that field, Stage 3 does not return a verdict but throws a \<open>TypeError\<close>.
\<close>

theorem stage3_throws_on_documents_without_ancestry:
  assumes "linked e rp ip doc ls" "no_root_before rp roots ls" "length ls < nat maxDepth"
    and "fst (tip (doc, addr) ls) = Obj kvs" "\<forall>(k, v) \<in> set kvs. k \<noteq> ''ancestry_pubkeys''"
  shows "verifyStage3 e doc addr rp ip roots maxDepth pk =
     Inl (JsError ''TypeError: Cannot read properties of undefined (reading length)'')"
proof -
  have "map_of kvs ''ancestry_pubkeys'' = None"
    using assms(5) by (auto simp: map_of_eq_None_iff)
  then have "first_ancestor (Obj kvs) =
      Inl (JsError ''TypeError: Cannot read properties of undefined (reading length)'')"
    by (simp add: first_ancestor_def lookup_key_def)
  with assms show ?thesis
    unfolding verifyStage3_def by (intro stage3_walk_throws) auto
qed

text \<open>The parent, card 5, was updated: its head is a log entry.\<close>

definition ex_updated :: "string \<Rightarrow> card_entry option" where
  "ex_updated a = (if a = ''05'' then Some (ex_entry 5 8) else ex_entries a)"

theorem stage3_throws_on_documents_without_ancestry_witness:
  "\<exists>msg. verifyStage3 ex_env ex_master_doc ''02'' (ex_rpc ex_updated) ex_ipfs [''06''] 3 None = Inl (JsError msg)"
proof -
  let ?l = "\<lparr>cl_card_address = ''05'', cl_public_key = ex_b64 5, cl_card_content = ex_log_entry\<rparr>"
  have "linked ex_env (ex_rpc ex_updated) ex_ipfs ex_master_doc [?l]"
    "no_root_before (ex_rpc ex_updated) [''06''] [?l]"
    by (simp_all add: hop_def displays_def ex_updated_def no_root_before_def trusted_root_def)
  then show ?thesis
    using stage3_throws_on_documents_without_ancestry
      [of ex_env "ex_rpc ex_updated" ex_ipfs ex_master_doc "[?l]" "[''06'']" 3 "''02''" _ None]
    by (simp add: ex_log_entry_def)
qed

end
