(* ===== verification/Envelope_Properties.thy ===== *)
theory Envelope_Properties
  imports Verifier_Properties
begin

text \<open>
  The properties of the policy match and of Stages 4 to 6, and what the verdicts of
  \<open>verifyEnvelope\<close> and \<open>verifyCard\<close> mean.
\<close>

section \<open>Policy match\<close>

text \<open>
  The policy match answers the question it is asked: it is a match exactly when some
  card of the chain was issued under the wanted policy and satisfies every matcher; the
  reason for a mismatch tells whether any card was issued under that policy at all.
\<close>

theorem policy_match_correct:
  assumes "evaluatePolicyMatch h chain (Some c) = Inr (Some r)"
  shows "(pm_matched r \<longleftrightarrow> (\<exists>l \<in> set chain. satisfies h c l)) \<and>
     pm_reason r = (if pm_matched r then None
       else if \<exists>l \<in> set chain. issued_under c l then Some Field_Mismatch else Some No_Policy_Match)"
  using assms policy_loop_spec [of h c False chain r] by (auto simp: evaluatePolicyMatch_def bindE_eq_Inr)

lemma ex_policy_match:
  "evaluatePolicyMatch ex_env
     [start_link ''02'' ex_master_doc (Some (ex_key 2)),
      \<lparr>cl_card_address = ''05'', cl_public_key = ex_b64 5, cl_card_content = ex_parent_doc\<rparr>]
     (Some \<lparr>pc_policy_id = ''q'', pc_field_match = Some [(''level'', Exact ''gold'')]\<rparr>)
   = Inr (Some \<lparr>pm_matched = True, pm_reason = None\<rparr>)"
  by (simp add: evaluatePolicyMatch_def start_link_def ex_master_doc_def ex_parent_doc_def
      ex_ancestry_def lookup_key_def all_fields_match_def)

theorem policy_match_correct_witness:
  "\<exists>l \<in> set [start_link ''02'' ex_master_doc (Some (ex_key 2)),
      \<lparr>cl_card_address = ''05'', cl_public_key = ex_b64 5, cl_card_content = ex_parent_doc\<rparr>].
     satisfies ex_env \<lparr>pc_policy_id = ''q'', pc_field_match = Some [(''level'', Exact ''gold'')]\<rparr> l"
  using policy_match_correct [OF ex_policy_match] by simp

section \<open>Stage 4\<close>

definition stale :: "('e) env_scheme \<Rightarrow> js_number \<Rightarrow> bool" where
  "stale e freshnessWindow \<longleftrightarrow> num_less freshnessWindow (Fin ((checked_at e - fetched_at e) div 1000))"

lemma stage4_run:
  assumes "stage4_queries rp chain = Inr qs"
  shows "verifyStage4 e chain ts rp w rej = Inr (stage4_verdict e ts w rej (foldl (stage4_card e) acc0 qs))"
  using assms by (simp add: verifyStage4_def)

lemma stage4_availability:
  assumes "stage4_queries rp chain = Inr qs"
  shows "a4_available (foldl (stage4_card e) acc0 qs) \<longleftrightarrow> (\<exists>l \<in> set chain. has_content (cl_card_content l))"
    "a4_unavailable (foldl (stage4_card e) acc0 qs) \<longleftrightarrow> (\<exists>l \<in> set chain. \<not> has_content (cl_card_content l))"
  unfolding stage4_fold stage4_queries_links [OF assms, symmetric] by (auto simp: acc0_def)

text \<open>
  C29. The earliest revocation of the chain decides. When some card's content is known, the
  status is \<open>not_revoked\<close> exactly when no head is a dated revocation; otherwise the code and
  date are those of a head that no other head precedes, 8xx codes are quiet revocations and
  all others loud, the signature was valid if it was made before that date, and the card is
  valid now if that date is still to come and the data is not refused as stale.
\<close>

theorem stage4_earliest_revocation_decides:
  assumes run: "verifyStage4 e chain ts rp w rej = Inr r" "stage4_queries rp chain = Inr qs"
    and known: "\<exists>l \<in> set chain. has_content (cl_card_content l)"
    and dates: "\<forall>d \<in> set (dated_revocations e qs). \<exists>s. snd d = Str s"
  shows "if dated_revocations e qs = [] then
       rs_status (s4_revocation r) = Not_Revoked \<and> s4_was_valid_at_signing_time r = Flag True \<and>
       s4_is_currently_valid r = Flag (\<not> (stale e w \<and> rej))
     else \<exists>code s. (code, Str s) \<in> set (dated_revocations e qs) \<and>
       (\<forall>code' s'. (code', Str s') \<in> set (dated_revocations e qs) \<longrightarrow> s \<le> s') \<and>
       rs_code (s4_revocation r) = Some code \<and> rs_effective_date (s4_revocation r) = Str s \<and>
       rs_status (s4_revocation r) = (if num_ge code 800 \<and> num_le code 899 then Revoked else Loud_Revocation) \<and>
       s4_was_valid_at_signing_time r = Flag (js_less e ts (Str s)) \<and>
       s4_is_currently_valid r = Flag (now_iso e < s \<and> \<not> (stale e w \<and> rej))"
proof -
  let ?acc = "foldl (stage4_card e) acc0 qs"
  have r: "r = stage4_verdict e ts w rej ?acc"
    using run by (simp add: stage4_run)
  have avail: "a4_available ?acc"
    using known by (simp add: stage4_availability [OF run(2)])
  have early: "a4_earliest ?acc = foldl (keep_earlier e) None (dated_revocations e qs)"
    by (simp add: stage4_fold acc0_def)
  show ?thesis
  proof (cases "a4_earliest ?acc")
    case None
    with earliest_of_dated [OF dates early [symmetric]] have "dated_revocations e qs = []" by simp
    with None r avail show ?thesis by (simp add: stage4_verdict_def Let_def stale_def)
  next
    case (Some m)
    obtain code date where m: "m = (code, date)" by (cases m)
    from Some earliest_of_dated [OF dates early [symmetric]] obtain s where
      s: "m \<in> set (dated_revocations e qs)" "snd m = Str s"
        "\<forall>r' s'. r' \<in> set (dated_revocations e qs) \<longrightarrow> snd r' = Str s' \<longrightarrow> s \<le> s'"
      by auto
    then have "(code, Str s) \<in> set (dated_revocations e qs)"
      "\<forall>code' s'. (code', Str s') \<in> set (dated_revocations e qs) \<longrightarrow> s \<le> s'"
      using m by (auto simp del: split_paired_All)
    with Some r avail s(2) m show ?thesis
      by (auto simp: stage4_verdict_def Let_def stale_def)
  qed
qed

definition ex_revoked :: "string \<Rightarrow> card_entry option" where
  "ex_revoked a = (if a = ''05'' then Some (ex_entry 5 9) else ex_entries a)"

definition ex_revoked_chain :: "chain_link list" where
  "ex_revoked_chain = [\<lparr>cl_card_address = ''02'', cl_public_key = ex_b64 2, cl_card_content = ex_master_doc\<rparr>,
     \<lparr>cl_card_address = ''05'', cl_public_key = ex_b64 5, cl_card_content = ex_revoked_doc 850\<rparr>]"

lemma ex_stage4_queries:
  "stage4_queries (ex_rpc ex_revoked) ex_revoked_chain = Inr
     [(\<lparr>cl_card_address = ''02'', cl_public_key = ex_b64 2, cl_card_content = ex_master_doc\<rparr>, Some (ex_entry 2 2),
         [\<lparr>ev_cid = ce_log_head_cid (ex_entry 2 2), ev_timestamp = ''2025''\<rparr>]),
      (\<lparr>cl_card_address = ''05'', cl_public_key = ex_b64 5, cl_card_content = ex_revoked_doc 850\<rparr>, Some (ex_entry 5 9),
         [\<lparr>ev_cid = ce_log_head_cid (ex_entry 5 9), ev_timestamp = ''2025''\<rparr>])]"
  by (simp add: stage4_queries_def ex_revoked_chain_def ex_rpc_def ex_revoked_def)

lemma ex_dated_revocations:
  "stage4_queries (ex_rpc ex_revoked) ex_revoked_chain = Inr qs \<Longrightarrow>
     dated_revocations ex_env qs = [(Fin 850, Str ''2025'')]"
  by (auto simp: ex_stage4_queries dated_revocations_def dated_revocation_def map_filter_simps Let_def
      has_content_def field_def ex_master_doc_def ex_ancestry_def lookup_key_def ex_revoked_doc_def
      head_event_def effective_date_def ex_entry_def)

theorem stage4_earliest_revocation_decides_witness:
  "\<exists>r. verifyStage4 ex_env ex_revoked_chain (Str ''2024'') (ex_rpc ex_revoked) (Fin 300) True = Inr r \<and>
     rs_status (s4_revocation r) = Revoked \<and> s4_was_valid_at_signing_time r = Flag True \<and>
     s4_is_currently_valid r = Flag False"
proof -
  obtain qs where qs: "stage4_queries (ex_rpc ex_revoked) ex_revoked_chain = Inr qs"
    using ex_stage4_queries by blast
  obtain r where r: "verifyStage4 ex_env ex_revoked_chain (Str ''2024'') (ex_rpc ex_revoked) (Fin 300) True = Inr r"
    using stage4_run [OF qs] by blast
  have known: "\<exists>l \<in> set ex_revoked_chain. has_content (cl_card_content l)"
    by (simp add: ex_revoked_chain_def has_content_def ex_master_doc_def)
  have dates: "\<forall>d \<in> set (dated_revocations ex_env qs). \<exists>s. snd d = Str s"
    by (simp add: ex_dated_revocations [OF qs])
  from stage4_earliest_revocation_decides [OF r qs known dates] r show ?thesis
    by (auto simp: ex_dated_revocations [OF qs])
qed

text \<open>
  The status is unknown, and both validity answers are skipped, exactly when the chain
  is not empty and no card of it has any content.
\<close>

theorem stage4_unknown_without_content:
  assumes "verifyStage4 e chain ts rp w rej = Inr r"
  shows "(rs_status (s4_revocation r) = Unknown_Revocation \<longleftrightarrow>
       chain \<noteq> [] \<and> (\<forall>l \<in> set chain. \<not> has_content (cl_card_content l))) \<and>
     (s4_was_valid_at_signing_time r = Skipped \<longleftrightarrow> rs_status (s4_revocation r) = Unknown_Revocation) \<and>
     (s4_is_currently_valid r = Skipped \<longleftrightarrow> rs_status (s4_revocation r) = Unknown_Revocation)"
proof -
  from assms obtain qs where qs: "stage4_queries rp chain = Inr qs"
    by (auto simp: verifyStage4_def bindE_eq_Inr)
  let ?acc = "foldl (stage4_card e) acc0 qs"
  have r: "r = stage4_verdict e ts w rej ?acc"
    using assms by (simp add: stage4_run [OF qs])
  have "\<not> a4_available ?acc \<and> a4_unavailable ?acc \<longleftrightarrow>
      chain \<noteq> [] \<and> (\<forall>l \<in> set chain. \<not> has_content (cl_card_content l))"
    unfolding stage4_availability [OF qs] by (cases chain) auto
  then show ?thesis
    unfolding r by (auto simp: stage4_verdict_def Let_def split: option.splits)
qed

theorem stage4_unknown_without_content_witness:
  "\<exists>r. verifyStage4 ex_env [\<lparr>cl_card_address = ''05'', cl_public_key = [], cl_card_content = Obj []\<rparr>]
      Null (ex_rpc ex_entries) (Fin 300) True = Inr r \<and> s4_is_currently_valid r = Skipped"
proof -
  let ?c = "[\<lparr>cl_card_address = ''05'', cl_public_key = [], cl_card_content = Obj []\<rparr>]"
  have "\<exists>qs. stage4_queries (ex_rpc ex_entries) ?c = Inr qs"
    by (simp add: stage4_queries_def ex_rpc_def)
  then obtain r where r: "verifyStage4 ex_env ?c Null (ex_rpc ex_entries) (Fin 300) True = Inr r"
    using stage4_run by blast
  from stage4_unknown_without_content [OF r] r show ?thesis by (simp add: has_content_def)
qed

text \<open>
  A revocation without a date is overlooked: when every revocation head of the chain has
  neither an on-chain event nor a reported date, Stage 4 answers \<open>not_revoked\<close> and valid.
\<close>

theorem stage4_overlooks_undated_revocations:
  assumes "verifyStage4 e chain ts rp w rej = Inr r" "stage4_queries rp chain = Inr qs"
    and known: "\<exists>l \<in> set chain. has_content (cl_card_content l)"
    and undated: "\<forall>(l, ce, evs) \<in> set qs. field (cl_card_content l) ''entry_type'' = Str ''revocation'' \<longrightarrow>
      head_event (map_option ce_log_head_cid ce) evs = None \<and> \<not> truthy (reported_date (cl_card_content l))"
  shows "rs_status (s4_revocation r) = Not_Revoked \<and> s4_was_valid_at_signing_time r = Flag True \<and>
     s4_is_currently_valid r = Flag (\<not> (stale e w \<and> rej))"
proof -
  have "dated_revocation e q = None" if "q \<in> set qs" for q
    using undated that by (auto simp: dated_revocation_def effective_date_def Let_def split: prod.splits)
  then have "d \<notin> set (dated_revocations e qs)" for d
    unfolding in_dated_revocations by auto
  then have "dated_revocations e qs = []"
    by (metis list.set_intros(1) neq_Nil_conv)
  then have "a4_earliest (foldl (stage4_card e) acc0 qs) = None"
    by (simp add: stage4_fold acc0_def)
  moreover have "a4_available (foldl (stage4_card e) acc0 qs)"
    using known by (simp add: stage4_availability [OF assms(2)])
  moreover have "r = stage4_verdict e ts w rej (foldl (stage4_card e) acc0 qs)"
    using assms(1) by (simp add: stage4_run [OF assms(2)])
  ultimately show ?thesis
    by (simp add: stage4_verdict_def Let_def stale_def)
qed

text \<open>Card 5 is revoked, but the event log the provider returns is empty.\<close>

definition ex_no_events :: rpc_provider where
  "ex_no_events = (ex_rpc ex_revoked)\<lparr>get_card_event_log := (\<lambda>a. Inr [])\<rparr>"

theorem stage4_overlooks_undated_revocations_witness:
  "\<exists>r. verifyStage4 ex_env [\<lparr>cl_card_address = ''05'', cl_public_key = ex_b64 5, cl_card_content = ex_revoked_doc 850\<rparr>]
      (Str ''2024'') ex_no_events (Fin 300) True = Inr r \<and> rs_status (s4_revocation r) = Not_Revoked"
proof -
  let ?l = "\<lparr>cl_card_address = ''05'', cl_public_key = ex_b64 5, cl_card_content = ex_revoked_doc 850\<rparr>"
  have qs: "stage4_queries ex_no_events [?l] = Inr [(?l, Some (ex_entry 5 9), [])]"
    by (simp add: stage4_queries_def ex_no_events_def ex_rpc_def ex_revoked_def)
  obtain r where r: "verifyStage4 ex_env [?l] (Str ''2024'') ex_no_events (Fin 300) True = Inr r"
    using stage4_run [OF qs] by blast
  from stage4_overlooks_undated_revocations [OF r qs] r show ?thesis
    by (simp add: has_content_def ex_revoked_doc_def head_event_def reported_date_def field_def lookup_key_def)
qed

section \<open>Stage 5\<close>

text \<open>The required fields of a policy.\<close>

definition required_fields :: "(string \<times> js) list \<Rightarrow> string set" where
  "required_fields defs = {f. \<exists>def v. (f, def) \<in> set defs \<and> js_prop def ''required'' = Inr v \<and> truthy v}"

lemma field_violation_Obj:
  "field_violation (Obj kvs) (f, def) = Inr fs \<Longrightarrow>
     (fs = [] \<longleftrightarrow> (\<forall>v. js_prop def ''required'' = Inr v \<longrightarrow> truthy v \<longrightarrow>
        f \<in> fst ` set kvs \<or> f \<in> set object_prototype_keys))"
  by (auto simp: field_violation_def res_simps)

lemma field_violations_spec:
  assumes "lookup_key p ''field_definitions'' = Obj defs"
    and "field_violations (Obj p) (Obj kvs) = Inr checks"
  shows "checks = [] \<longleftrightarrow> required_fields defs \<subseteq> fst ` set kvs \<union> set object_prototype_keys"
proof -
  from assms obtain fss where fss: "mapE (field_violation (Obj kvs)) defs = Inr fss" "checks = concat fss"
    by (auto simp: field_violations_def res_simps)
  have "(\<forall>fs \<in> set fss. fs = []) \<longleftrightarrow> (\<forall>(f, def) \<in> set defs. \<forall>v. js_prop def ''required'' = Inr v \<longrightarrow> truthy v \<longrightarrow>
        f \<in> fst ` set kvs \<or> f \<in> set object_prototype_keys)"
    using fss(1)
  proof (induction defs arbitrary: fss)
    case (Cons d defs)
    then obtain fs fss' where "fss = fs # fss'" "field_violation (Obj kvs) d = Inr fs"
      "mapE (field_violation (Obj kvs)) defs = Inr fss'"
      by (auto simp: res_simps)
    with Cons.IH [of fss'] field_violation_Obj [of kvs "fst d" "snd d" fs] show ?case
      by (cases d) auto
  qed simp
  with fss(2) show ?thesis
    unfolding required_fields_def by (simp add: concat_eq_Nil_conv) blast
qed

text \<open>
  Stage 5 on a card and a policy that are objects: the card is compliant exactly when
  the press authorization was found and every required field of the policy is a field of
  the card or is named like a property of \<open>Object.prototype\<close> (so a required field called
  \<open>toString\<close> or \<open>constructor\<close> is never missed); a report is sent exactly for the
  other cards, and the press's later revocation is told apart from a missing authorization.
\<close>

theorem stage5_compliance:
  assumes "verifyStage5 e (Obj kvs) ce addr cid raw rp ip reg = Inr r"
    and "fetch_policy e ip (Obj kvs) = Inr (Obj p)" "lookup_key p ''field_definitions'' = Obj defs"
  shows "\<exists>pressEntry. get_press_authorization rp (ce_policy_address ce) (ce_last_press_address ce) = Inr pressEntry \<and>
     (let compliant = (pressEntry \<noteq> None \<and>
            required_fields defs \<subseteq> fst ` set kvs \<union> set object_prototype_keys) in
      s5_policy_compliant r = Compliant compliant \<and>
      s5_press_subsequently_revoked r = press_revoked_later pressEntry \<and>
      (compliant \<longrightarrow> \<not> s5_non_compliance_reported r \<and> s5_errors r = []) \<and>
      (\<not> compliant \<longrightarrow> (s5_non_compliance_reported r \<longleftrightarrow> s5_errors r = [])))"
proof -
  from assms(1,2) obtain checks pressEntry where
    run: "field_violations (Obj p) (Obj kvs) = Inr checks"
      "get_press_authorization rp (ce_policy_address ce) (ce_last_press_address ce) = Inr pressEntry"
    by (auto simp: verifyStage5_def res_simps)
  have compliant: "checks @ press_check ce pressEntry = [] \<longleftrightarrow>
      pressEntry \<noteq> None \<and> required_fields defs \<subseteq> fst ` set kvs \<union> set object_prototype_keys"
    using field_violations_spec [OF assms(3) run(1)] by (auto simp: press_check_def split: option.splits)
  have report: "fst (send_report e reg rep) \<longleftrightarrow> snd (send_report e reg rep) = []" for rep
    by (simp add: send_report_def Let_def split: sum.split)
  show ?thesis
  proof (cases "checks @ press_check ce pressEntry = []")
    case True
    with assms(1) run compliant show ?thesis
      unfolding verifyStage5_def assms(2) by (auto simp: Let_def)
  next
    case False
    with compliant have not_compliant: "\<not> (pressEntry \<noteq> None \<and>
        required_fields defs \<subseteq> fst ` set kvs \<union> set object_prototype_keys)" by simp
    from False assms(1) obtain rep where
      "s5_policy_compliant r = Compliant False" "s5_press_subsequently_revoked r = press_revoked_later pressEntry"
      "s5_non_compliance_reported r = fst (send_report e reg rep)" "s5_errors r = snd (send_report e reg rep)"
      unfolding verifyStage5_def assms(2) sum.case run bindE.simps Let_def
      by (auto simp: prod.case_eq_if)
    with run(2) not_compliant report show ?thesis
      by (intro exI [of _ pressEntry]) (simp only: Let_def simp_thms)
  qed
qed

lemma ex_policy_fetch: "fetch_policy ex_env ex_ipfs ex_master_doc = Inr ex_policy_doc"
  by (simp add: fetch_policy_def ex_master_doc_def ex_ancestry_def lookup_key_def ex_ipfs_def ex_fetch_def)

text \<open>The master card has no field \<open>toString\<close>, which its policy requires.\<close>

theorem stage5_compliance_witness:
  "\<exists>r. verifyStage5 ex_env ex_master_doc (ex_entry 2 2) ''02'' ''22'' [] (ex_rpc ex_entries) ex_ipfs None = Inr r \<and>
     s5_policy_compliant r = Compliant True \<and> s5_press_subsequently_revoked r"
proof -
  obtain kvs where m: "ex_master_doc = Obj kvs" "''policy_id'' \<in> fst ` set kvs"
    by (simp add: ex_master_doc_def)
  obtain p defs where p: "ex_policy_doc = Obj p" "lookup_key p ''field_definitions'' = Obj defs"
    "defs = [(''policy_id'', Obj [(''required'', Bool True)]), (''toString'', Obj [(''required'', Bool True)])]"
    by (simp add: ex_policy_doc_def lookup_key_def)
  have "field_violations ex_policy_doc ex_master_doc = Inr []"
    unfolding m(1) using m(2)
    by (simp add: ex_policy_doc_def field_violations_def field_violation_def lookup_key_def object_prototype_keys_def)
  then obtain r where r: "verifyStage5 ex_env ex_master_doc (ex_entry 2 2) ''02'' ''22'' [] (ex_rpc ex_entries) ex_ipfs None = Inr r"
    by (simp add: verifyStage5_def ex_policy_fetch ex_rpc_def Let_def prod.case_eq_if)
  have req: "required_fields defs = {''policy_id'', ''toString''}"
    by (auto simp: p required_fields_def lookup_key_def)
  have "''toString'' \<in> set object_prototype_keys" by (simp add: object_prototype_keys_def)
  with stage5_compliance [OF r [unfolded m] ex_policy_fetch [unfolded m p] p(2)] r m(2) show ?thesis
    by (auto simp: req ex_rpc_def press_revoked_later_def)
qed

section \<open>Stage 6\<close>

lemma annotate_counts:
  "length (fst (annotate e rp ip roots rec a)) +
     length (filter (\<lambda>err. ve_code err = ''ANNOTATION_FETCH_FAILED'') (snd (annotate e rp ip roots rec a))) = 1"
  by (auto simp: annotate_def Let_def split: sum.split)

lemma annotate_sound:
  "an \<in> set (fst (annotate e rp ip roots rec a)) \<Longrightarrow>
     an_eas_uid an = at_uid a \<and> an_annotator_card an = at_attester a \<and>
     (an_is_recommended_annotator an \<longleftrightarrow> at_attester a \<in> set rec) \<and>
     (an_annotator_chain_trusted an \<longleftrightarrow> annotator_trusted rp roots (at_attester a) = Inr True)"
  by (auto simp: annotate_def Let_def split: sum.splits)

text \<open>
  Without \<open>fetchAnnotations\<close> Stage 6 asks nobody and returns nothing. With it, every
  annotation stems from an attestation that the provider returned for a card of the chain
  and the set of recommended and configured annotators, is marked as recommended and as
  trusted only if its attester is, and every attestation gives exactly one annotation or
  one fetch error.
\<close>

theorem stage6_annotations:
  assumes "verifyStage6 e addrs rp ip fetchAnn additional roots = Inr r"
  defines "annotators \<equiv> distinct_first (fst (recommended_annotators e) @ additional)"
  shows "if \<not> fetchAnn then s6_annotations r = [] \<and> s6_errors r = []
     else if annotators = [] then s6_annotations r = []
     else \<exists>atts. mapE (\<lambda>a. get_eas_annotations rp a annotators) addrs = Inr atts \<and>
       (\<forall>an \<in> set (s6_annotations r). \<exists>a \<in> set (concat atts).
          an_eas_uid an = at_uid a \<and> an_annotator_card an = at_attester a \<and>
          (an_is_recommended_annotator an \<longleftrightarrow> at_attester a \<in> set (fst (recommended_annotators e))) \<and>
          (an_annotator_chain_trusted an \<longleftrightarrow> annotator_trusted rp roots (at_attester a) = Inr True)) \<and>
       length (s6_annotations r) +
         length (filter (\<lambda>err. ve_code err = ''ANNOTATION_FETCH_FAILED'') (s6_errors r)) = length (concat atts)"
proof -
  obtain rec errs where rec: "recommended_annotators e = (rec, errs)" by fastforce
  have no_fetch: "filter (\<lambda>err. ve_code err = ''ANNOTATION_FETCH_FAILED'') errs = []"
    using rec by (auto simp: recommended_annotators_def res_simps)
  show ?thesis
  proof (cases "fetchAnn \<and> annotators \<noteq> []")
    case True
    with assms(1) rec obtain atts where atts: "mapE (\<lambda>a. get_eas_annotations rp a annotators) addrs = Inr atts"
      and r: "r = (let results = map (annotate e rp ip roots rec) (concat atts) in
         \<lparr>s6_annotations = concat (map fst results), s6_errors = errs @ concat (map snd results)\<rparr>)"
      by (auto simp: verifyStage6_def annotators_def bindE_eq_Inr Let_def)
    have count: "length (concat (map (\<lambda>a. fst (annotate e rp ip roots rec a)) as)) +
        length (filter (\<lambda>err. ve_code err = ''ANNOTATION_FETCH_FAILED'')
          (concat (map (\<lambda>a. snd (annotate e rp ip roots rec a)) as))) = length as" for as
    proof (induction as)
      case (Cons a as)
      with annotate_counts [of e rp ip roots rec a] show ?case by simp
    qed simp
    have "\<forall>an \<in> set (s6_annotations r). \<exists>a \<in> set (concat atts). an \<in> set (fst (annotate e rp ip roots rec a))"
      by (auto simp: r Let_def)
    with annotate_sound [of _ e rp ip roots rec] True atts rec count [of "concat atts"] no_fetch show ?thesis
      by (auto simp: r Let_def comp_def annotators_def)
  qed (use assms(1) rec in \<open>auto simp: verifyStage6_def annotators_def Let_def\<close>)
qed

text \<open>Card 6 annotates every card it is asked about.\<close>

definition ex_annotated :: rpc_provider where
  "ex_annotated = (ex_rpc ex_entries)\<lparr>get_eas_annotations := (\<lambda>a as.
     Inr [\<lparr>at_uid = a, at_attester = ''06'', at_cid = ''p'', at_update_code = 700, at_effective_date = ''2025''\<rparr>])\<rparr>"

theorem stage6_annotations_witness:
  "\<exists>r. verifyStage6 ex_env [''02''] ex_annotated ex_ipfs True [''06''] [''06''] = Inr r \<and>
     length (s6_annotations r) = 1 \<and> (\<forall>an \<in> set (s6_annotations r). an_annotator_chain_trusted an)"
proof -
  have rec: "fst (recommended_annotators ex_env) = []"
    by (simp add: recommended_annotators_def)
  have trusted: "annotator_trusted ex_annotated [''06''] ''06'' = Inr True"
    by (simp add: annotator_trusted_def ex_annotated_def ex_rpc_def trusted_root_def)
  obtain r where r: "verifyStage6 ex_env [''02''] ex_annotated ex_ipfs True [''06''] [''06''] = Inr r"
    and fetched: "filter (\<lambda>err. ve_code err = ''ANNOTATION_FETCH_FAILED'') (s6_errors r) = []"
    by (auto simp: verifyStage6_def recommended_annotators_def distinct_first_def ex_annotated_def
        annotate_def ex_ipfs_def ex_fetch_def trusted [unfolded ex_annotated_def] Let_def)
  from stage6_annotations [OF r] r trusted fetched show ?thesis
    by (auto simp: rec distinct_first_def) (auto simp: ex_annotated_def)
qed

end
