(* ===== verification/Verdict_Properties.thy ===== *)
theory Verdict_Properties
  imports Envelope_Properties
begin

text \<open>
  What the results of \<open>verifyEnvelope\<close> and \<open>verifyCard\<close> guarantee when the six stages
  are composed.
\<close>

section \<open>One signature entry\<close>

text \<open>The signature primitive of an entry's scheme accepted it over the payload's canonical bytes.\<close>

definition payload_signed :: "('e) env_scheme \<Rightarrow> signature_entry \<Rightarrow> bytes \<Rightarrow> js \<Rightarrow> bool" where
  "payload_signed e entry pk payload \<longleftrightarrow>
     (\<exists>b. canonicalize payload = Inr b \<and>
       (if se_key_scheme entry = Some ''secp256r1_phase1''
        then secp256r1Phase1Verify e pk b (base64url_to_bytes (se_signature entry)) = Inr True
        else mlDsa44Verify e pk b (base64url_to_bytes (se_signature entry)) = Inr True))"

lemma buildResult_fields:
  "buildResult e cfg signer valid sc ch ap errs chain = Inr r \<Longrightarrow>
     sr_signer_card r = signer \<and> sr_signature_valid r = Some valid \<and> sr_scope_clean r = sc \<and>
     sr_chain_reaches_trusted_root r = ch \<and> sr_errors r = errs \<and>
     sr_chain_card_addresses r = map cl_card_address chain"
  by (auto simp: buildResult_def bindE_eq_Inr)

lemma finish_signature_fields:
  "finish_signature e cfg signer valid ts doc s2 s3 = Inr r \<Longrightarrow>
     sr_signer_card r = signer \<and> sr_signature_valid r = Some valid \<and>
     sr_scope_clean r = s2_scope_clean s2 \<and>
     sr_chain_reaches_trusted_root r = s3_chain_reaches_trusted_root s3 \<and>
     sr_chain_card_addresses r = s3_chain_card_addresses s3 \<and>
     (\<exists>s4. verifyStage4 e (s3_chain s3) ts (rpc cfg) (revocationFreshnessWindowSeconds cfg)
        (rejectStaleRevocation cfg) = Inr s4 \<and> sr_revocation r = s4_revocation s4 \<and>
        sr_was_valid_at_signing_time r = s4_was_valid_at_signing_time s4 \<and>
        sr_is_currently_valid r = s4_is_currently_valid s4)"
  by (auto simp: finish_signature_def bindE_eq_Inr)

text \<open>How a returned result came about.\<close>

lemma verifySignatureEntry_cases:
  assumes "verifySignatureEntry e cfg entry payload ts = Inr r"
  obtains s1 s2 where "verifyStage1 e entry payload = Inr s1"
    "verifyStage2 e (s1_public_key_bytes s1) (rpc cfg) (ipfs cfg) (appCertificationRoot cfg) (maxChainDepth cfg) = Inr s2"
    "sr_signer_card r = keccak256 e (s1_public_key_bytes s1)"
    "sr_signature_valid r = Some (s1_signature_valid s1)" "sr_scope_clean r = s2_scope_clean s2"
    "s2_scope_clean s2 = Flag False \<Longrightarrow> sr_chain_reaches_trusted_root r = Skipped \<and> sr_errors r = s2_errors s2"
    "\<And>m h. s2 = stage2_accept (keccak256 e (s1_public_key_bytes s1)) m h \<Longrightarrow>
       \<exists>s3. verifyStage3 e m (keccak256 e h) (rpc cfg) (ipfs cfg) (trustedRoots cfg) (maxChainDepth cfg) (Some h) = Inr s3 \<and>
         sr_chain_reaches_trusted_root r = s3_chain_reaches_trusted_root s3 \<and>
         (s3_chain_reaches_trusted_root s3 = Flag True \<longrightarrow>
            finish_signature e cfg (keccak256 e (s1_public_key_bytes s1)) (s1_signature_valid s1) ts m s2 s3 = Inr r)"
proof -
  from assms obtain s1 s2 where s: "verifyStage1 e entry payload = Inr s1"
    "verifyStage2 e (s1_public_key_bytes s1) (rpc cfg) (ipfs cfg) (appCertificationRoot cfg) (maxChainDepth cfg) = Inr s2"
    by (auto simp: verifySignatureEntry_def Let_def bindE_eq_Inr)
  from verifyStage2_verdict [OF s(2)] consider
    (accepts) m h where "s2 = stage2_accept (keccak256 e (s1_public_key_bytes s1)) m h"
  | (rejects) err where "s2 = stage2_reject (keccak256 e (s1_public_key_bytes s1)) err"
    unfolding stage2_verdict_def by blast
  then show ?thesis
  proof cases
    case accepts
    with assms s obtain s3 where s3:
      "verifyStage3 e m (keccak256 e h) (rpc cfg) (ipfs cfg) (trustedRoots cfg) (maxChainDepth cfg) (Some h) = Inr s3"
      by (auto simp: verifySignatureEntry_def Let_def bindE_eq_Inr stage2_accept_def)
    show ?thesis
    proof (cases "s3_chain_reaches_trusted_root s3 = Flag False \<and> list_ex hard_chain_error (s3_errors s3)")
      case True
      with assms s accepts s3 have "buildResult e cfg (keccak256 e (s1_public_key_bytes s1)) (s1_signature_valid s1)
          (Flag True) (Flag False) (Flag True) (s3_errors s3) (s3_chain s3) = Inr r"
        by (auto simp: verifySignatureEntry_def Let_def stage2_accept_def)
      from buildResult_fields [OF this] that [OF s] accepts s3 True show ?thesis
        by (auto simp: stage2_accept_def)
    next
      case False
      with assms s accepts s3 have
        fin: "finish_signature e cfg (keccak256 e (s1_public_key_bytes s1)) (s1_signature_valid s1) ts m s2 s3 = Inr r"
        by (auto simp: verifySignatureEntry_def Let_def stage2_accept_def split: if_splits)
      from finish_signature_fields [OF fin] that [OF s] accepts s3 fin show ?thesis
        by (auto simp: stage2_accept_def)
    qed
  next
    case rejects
    with assms s have "buildResult e cfg (keccak256 e (s1_public_key_bytes s1)) (s1_signature_valid s1)
        (Flag False) Skipped (Flag False) (s2_errors s2) [] = Inr r"
      by (auto simp: verifySignatureEntry_def Let_def stage2_reject_def)
    moreover have "s2_scope_clean s2 = Flag False" "s2_errors s2 = [err]" "s2 \<noteq> stage2_accept k m h" for k m h
      using rejects by (simp_all add: stage2_reject_def stage2_accept_def)
    ultimately show ?thesis
      using buildResult_fields that [OF s] by metis
  qed
qed

text \<open>
  C1. What a fully positive signature result guarantees. If the signature is valid, the
  scope clean and the chain trusted, then the key in the entry signed the canonical
  payload, it belongs to a genuine sub-card of a master card \<open>h\<close>, and a genuine chain of
  fewer than \<open>maxChainDepth\<close> hops leads from the master card's document to a trusted root.
\<close>

theorem accepted_signature_guarantees:
  assumes "verifySignatureEntry e cfg entry payload ts = Inr r"
    and "sr_signature_valid r = Some True" "sr_scope_clean r = Flag True"
    and "sr_chain_reaches_trusted_root r = Flag True"
  shows "\<exists>pk m h ls extra. pk = base64url_to_bytes (se_public_key entry) \<and>
     sr_signer_card r = keccak256 e pk \<and> payload_signed e entry pk payload \<and>
     genuine_subcard e (rpc cfg) (ipfs cfg) (appCertificationRoot cfg) (maxChainDepth cfg) pk m h \<and>
     linked e (rpc cfg) (ipfs cfg) m ls \<and> length ls < nat (maxChainDepth cfg) \<and>
     rooted e (rpc cfg) (trustedRoots cfg) (tip (m, keccak256 e h) ls) extra \<and>
     sr_chain_card_addresses r = keccak256 e h # map cl_card_address ls @ extra"
  using assms(1)
proof (cases rule: verifySignatureEntry_cases)
  case (1 s1 s2)
  from verifyStage1_Inr [OF 1(1)] 1(4) assms(2) have
    key: "s1_public_key_bytes s1 = base64url_to_bytes (se_public_key entry)"
      "payload_signed e entry (s1_public_key_bytes s1) payload"
    by (auto simp: payload_signed_def split: if_splits)
  from verifyStage2_verdict [OF 1(2)] 1(5) assms(3) obtain m h where
    s2: "s2 = stage2_accept (keccak256 e (s1_public_key_bytes s1)) m h"
    by (auto simp: stage2_verdict_def stage2_reject_def)
  with 1(2) have genuine: "genuine_subcard e (rpc cfg) (ipfs cfg) (appCertificationRoot cfg) (maxChainDepth cfg)
      (s1_public_key_bytes s1) m h"
    using verifyStage2_genuine by blast
  from 1(7) [OF s2] assms(4) obtain s3 where s3:
    "verifyStage3 e m (keccak256 e h) (rpc cfg) (ipfs cfg) (trustedRoots cfg) (maxChainDepth cfg) (Some h) = Inr s3"
    "s3_chain_reaches_trusted_root s3 = Flag True"
    "finish_signature e cfg (keccak256 e (s1_public_key_bytes s1)) (s1_signature_valid s1) ts m s2 s3 = Inr r"
    by auto
  from stage3_walk_chain [OF s3(1) [unfolded verifyStage3_def]] s3(2) obtain ls extra where
    "linked e (rpc cfg) (ipfs cfg) m ls" "length ls < nat (maxChainDepth cfg)"
    "rooted e (rpc cfg) (trustedRoots cfg) (tip (m, keccak256 e h) ls) extra"
    "s3_chain_card_addresses s3 = keccak256 e h # map cl_card_address ls @ extra"
    by (auto simp: stage3_result_def)
  with key genuine 1(3) finish_signature_fields [OF s3(3)] show ?thesis by metis
qed

lemma ex_finish:
  "\<exists>r. finish_signature ex_env (ex_config ex_entries) ''01'' True ts ex_master_doc
     (stage2_accept ''01'' ex_master_doc (ex_key 2))
     (stage3_result True [''02'', ''05'', ''06'']
       [start_link ''02'' ex_master_doc (Some (ex_key 2)),
        \<lparr>cl_card_address = ''05'', cl_public_key = ex_b64 5, cl_card_content = ex_parent_doc\<rparr>] []) = Inr r"
proof -
  have s4: "\<exists>s4. verifyStage4 ex_env [start_link ''02'' ex_master_doc (Some (ex_key 2)),
      \<lparr>cl_card_address = ''05'', cl_public_key = ex_b64 5, cl_card_content = ex_parent_doc\<rparr>] ts
      (ex_rpc ex_entries) (Fin 300) True = Inr s4"
    by (simp add: verifyStage4_def stage4_queries_def ex_rpc_def start_link_def)
  have bytes: "\<exists>b. ipfs_fetch ex_ipfs (ce_log_head_cid (ex_entry 1 1)) = Inr b"
    using ex_fetch_entry [of 1 1] by simp
  have "field_violations ex_policy_doc ex_master_doc = Inr []"
    by (simp add: ex_policy_doc_def ex_master_doc_def ex_ancestry_def field_violations_def field_violation_def
        lookup_key_def object_prototype_keys_def)
  then have s5: "\<exists>s5. run_stage5 ex_env (ex_config ex_entries) ex_master_doc ''01'' = Inr s5"
    using bytes by (auto simp: run_stage5_def verifyStage5_def ex_policy_fetch Let_def prod.case_eq_if) (auto simp: ex_rpc_def)
  have pm: "conditions (ex_config ex_entries) = Some \<lparr>pc_policy_id = ''q'', pc_field_match = Some [(''level'', Exact ''gold'')]\<rparr>"
    by (simp add: ex_config_def)
  from s4 s5 show ?thesis
    by (auto simp: finish_signature_def stage3_result_def pm ex_policy_match verifyStage6_def)
qed

lemma ex_signature_accepted:
  "\<exists>r. verifySignatureEntry ex_env (ex_config ex_entries) ex_signed ex_payload (Str ''2024'') = Inr r \<and>
     sr_signature_valid r = Some True \<and> sr_scope_clean r = Flag True \<and>
     sr_chain_reaches_trusted_root r = Flag True"
proof -
  obtain b where "canonicalize ex_payload = Inr b"
    using canonicalize_json [of ex_payload] by (auto simp: ex_payload_def)
  then have s1: "verifyStage1 ex_env ex_signed ex_payload
      = Inr \<lparr>s1_signature_valid = True, s1_public_key_bytes = ex_key 1\<rparr>"
    by (simp add: verifyStage1_def verifyStage1MlDsa44_def ex_signed_def)
  from ex_finish [of "Str ''2024''"] obtain r where fin:
    "finish_signature ex_env (ex_config ex_entries) ''01'' True (Str ''2024'') ex_master_doc
     (stage2_accept ''01'' ex_master_doc (ex_key 2))
     (stage3_result True [''02'', ''05'', ''06'']
       [start_link ''02'' ex_master_doc (Some (ex_key 2)),
        \<lparr>cl_card_address = ''05'', cl_public_key = ex_b64 5, cl_card_content = ex_parent_doc\<rparr>] []) = Inr r"
    by blast
  have "verifySignatureEntry ex_env (ex_config ex_entries) ex_signed ex_payload (Str ''2024'') = Inr r"
    using fin s1 ex_stage2 ex_stage3
    by (simp add: verifySignatureEntry_def Let_def stage2_accept_def stage3_result_def)
  with finish_signature_fields [OF fin] show ?thesis
    by (auto simp: stage2_accept_def stage3_result_def)
qed

theorem accepted_signature_guarantees_witness:
  "\<exists>r m h. verifySignatureEntry ex_env (ex_config ex_entries) ex_signed ex_payload (Str ''2024'') = Inr r \<and>
     genuine_subcard ex_env (ex_rpc ex_entries) ex_ipfs (Some ''04'') 3 (ex_key 1) m h"
proof -
  obtain r where r: "verifySignatureEntry ex_env (ex_config ex_entries) ex_signed ex_payload (Str ''2024'') = Inr r"
      "sr_signature_valid r = Some True" "sr_scope_clean r = Flag True" "sr_chain_reaches_trusted_root r = Flag True"
    using ex_signature_accepted by blast
  from accepted_signature_guarantees [OF r] r(1) show ?thesis
    by (auto simp: ex_signed_def)
qed

section \<open>Envelopes\<close>

text \<open>
  The version gate: an envelope whose protocol version is missing or unknown is answered
  with a single negative result that carries the version error, whatever it contains and
  whoever signed it; no stage is run and the envelope gets no id.
\<close>

theorem unknown_version_rejected:
  assumes "extract_protocol_version (en_payload en) = Inl (CardProtocolError code msg)"
    and "verifyEnvelope e cfg en = Inr r"
  shows "er_envelope_id r = [] \<and>
     (\<exists>s. er_signatures r = [s] \<and> sr_signature_valid s = Some False \<and> sr_scope_clean s = Skipped \<and>
        sr_chain_reaches_trusted_root s = Skipped \<and> sr_errors s = [verr 1 code msg] \<and>
        sr_is_currently_valid s = Skipped)"
  using assms by (auto simp: verifyEnvelope_def early_result_def bindE_eq_Inr)

theorem unknown_version_rejected_witness:
  "\<exists>r. verifyEnvelope ex_env (ex_config ex_entries) \<lparr>en_payload = Obj [(''protocol_version'', Str ''9'')],
      en_signatures = [ex_signed]\<rparr> = Inr r \<and> length (er_signatures r) = 1"
proof -
  let ?en = "\<lparr>en_payload = Obj [(''protocol_version'', Str ''9'')], en_signatures = [ex_signed]\<rparr>"
  obtain msg where v: "extract_protocol_version (en_payload ?en) = Inl (CardProtocolError ''UNKNOWN_PROTOCOL_VERSION'' msg)"
    by (simp add: extract_protocol_version_def lookup_key_def KNOWN_PROTOCOL_VERSIONS_def)
  obtain r where r: "verifyEnvelope ex_env (ex_config ex_entries) ?en = Inr r"
    using v by (simp add: verifyEnvelope_def early_result_def evaluatePolicyMatch_def ex_config_def lookup_key_def)
  from unknown_version_rejected [OF v r] r show ?thesis by auto
qed

lemma aggregate_matched:
  "aggregateEnvelopePolicyMatch cfg sigs =
     (case conditions cfg of None \<Rightarrow> None | Some c \<Rightarrow>
        Some (if \<exists>s \<in> set sigs. \<exists>m. sr_policy_match s = Some m \<and> pm_matched m
              then \<lparr>pm_matched = True, pm_reason = None\<rparr>
              else \<lparr>pm_matched = False, pm_reason = Some
                (if \<exists>s \<in> set sigs. \<exists>m. sr_policy_match s = Some m \<and> pm_reason m = Some Field_Mismatch
                 then Field_Mismatch else No_Policy_Match)\<rparr>))"
  by (auto simp: aggregateEnvelopePolicyMatch_def list_ex_iff bind_eq_Some_conv split: option.split)

text \<open>
  An envelope of a known version is answered entry by entry: the \<open>i\<close>-th result is the
  verification of the \<open>i\<close>-th signature entry over the shared payload and its timestamp, none is
  dropped or added; the envelope matches the policy exactly when one of its signatures does;
  and the id is the digest of the canonical envelope.
\<close>

theorem envelope_verified_entrywise:
  assumes "extract_protocol_version (en_payload en) = Inr v" "verifyEnvelope e cfg en = Inr r"
  shows "\<exists>ts b. js_prop (en_payload en) ''timestamp'' = Inr ts \<and> canonicalize (envelope_js en) = Inr b \<and>
     er_envelope_id r = bytes_hex (sha_256 (crypto_ops e) b) \<and> er_protocol_version r = v \<and>
     length (er_signatures r) = length (en_signatures en) \<and>
     (\<forall>i < length (en_signatures en).
        verifySignatureEntry e cfg (en_signatures en ! i) (en_payload en) ts = Inr (er_signatures r ! i)) \<and>
     (conditions cfg \<noteq> None \<longrightarrow>
        (\<exists>m. er_policy_match r = Some m \<and>
          (pm_matched m \<longleftrightarrow> (\<exists>s \<in> set (er_signatures r). \<exists>n. sr_policy_match s = Some n \<and> pm_matched n))))"
proof -
  from assms obtain ts b sigs where run: "js_prop (en_payload en) ''timestamp'' = Inr ts"
    "canonicalize (envelope_js en) = Inr b"
    "mapE (\<lambda>entry. verifySignatureEntry e cfg entry (en_payload en) ts) (en_signatures en) = Inr sigs"
    and r: "er_envelope_id r = bytes_hex (sha_256 (crypto_ops e) b)" "er_protocol_version r = v"
      "er_signatures r = sigs" "er_policy_match r = aggregateEnvelopePolicyMatch cfg sigs"
    by (auto simp: verifyEnvelope_def bindE_eq_Inr)
  with mapE_length [OF run(3)] mapE_nth [OF run(3)] show ?thesis
    by (intro exI [of _ ts] exI [of _ b]) (auto simp: aggregate_matched)
qed

lemma ex_envelope:
  "\<exists>r. verifyEnvelope ex_env (ex_config ex_entries) \<lparr>en_payload = ex_payload, en_signatures = [ex_signed]\<rparr> = Inr r"
proof -
  let ?en = "\<lparr>en_payload = ex_payload, en_signatures = [ex_signed]\<rparr>"
  have "json_value (envelope_js ?en)"
    by (simp add: envelope_js_def entry_js_def ex_signed_def ex_payload_def)
  then obtain b where b: "canonicalize (envelope_js ?en) = Inr b"
    using canonicalize_json by blast
  from ex_signature_accepted obtain s where
    s: "verifySignatureEntry ex_env (ex_config ex_entries) ex_signed ex_payload (Str ''2024'') = Inr s"
    by blast
  have p: "extract_protocol_version ex_payload = Inr ''0.1''" "js_prop ex_payload ''timestamp'' = Inr (Str ''2024'')"
    by (simp_all add: extract_protocol_version_def ex_payload_def lookup_key_def KNOWN_PROTOCOL_VERSIONS_def)
  then show ?thesis
    using b s by (simp add: verifyEnvelope_def)
qed

theorem envelope_verified_entrywise_witness:
  "\<exists>r. verifyEnvelope ex_env (ex_config ex_entries) \<lparr>en_payload = ex_payload, en_signatures = [ex_signed]\<rparr> = Inr r \<and>
     length (er_signatures r) = 1"
proof -
  let ?en = "\<lparr>en_payload = ex_payload, en_signatures = [ex_signed]\<rparr>"
  from ex_envelope obtain r where r: "verifyEnvelope ex_env (ex_config ex_entries) ?en = Inr r" by blast
  have "extract_protocol_version (en_payload ?en) = Inr ''0.1''"
    by (simp add: extract_protocol_version_def ex_payload_def lookup_key_def KNOWN_PROTOCOL_VERSIONS_def)
  from envelope_verified_entrywise [OF this r] r show ?thesis by auto
qed

text \<open>
  One malformed entry spoils the envelope: if the verification of any signature entry
  throws, as it does for a key of the wrong length, \<open>verifyEnvelope\<close> throws too and the results
  of all the other entries are lost.
\<close>

theorem throwing_entry_spoils_envelope:
  assumes "extract_protocol_version (en_payload en) = Inr v" and "entry \<in> set (en_signatures en)"
    and "length (base64url_to_bytes (se_public_key entry)) \<notin> {64, 1312}"
  shows "\<exists>err. verifyEnvelope e cfg en = Inl err"
proof (cases "verifyEnvelope e cfg en")
  case (Inr r)
  with assms(1) obtain ts sigs where
    all: "mapE (\<lambda>entry. verifySignatureEntry e cfg entry (en_payload en) ts) (en_signatures en) = Inr sigs"
    by (auto simp: verifyEnvelope_def bindE_eq_Inr)
  from assms(2) obtain i where "i < length (en_signatures en)" "entry = en_signatures en ! i"
    by (auto simp: in_set_conv_nth)
  with mapE_nth [OF all] have "verifySignatureEntry e cfg entry (en_payload en) ts = Inr (sigs ! i)"
    by simp
  then obtain s1 where s1: "verifyStage1 e entry (en_payload en) = Inr s1"
    by (auto simp: verifySignatureEntry_def bindE_eq_Inr)
  from verifyStage1_Inr [OF s1] assms(3) show ?thesis by auto
qed simp

theorem throwing_entry_spoils_envelope_witness:
  "\<exists>err. verifyEnvelope ex_env (ex_config ex_entries) \<lparr>en_payload = ex_payload,
     en_signatures = [ex_signed, \<lparr>se_key_scheme = None, se_public_key = [], se_signature = []\<rparr>]\<rparr> = Inl err"
  by (rule throwing_entry_spoils_envelope [of _ "''0.1''" "\<lparr>se_key_scheme = None, se_public_key = [], se_signature = []\<rparr>"])
    (simp_all add: extract_protocol_version_def ex_payload_def lookup_key_def KNOWN_PROTOCOL_VERSIONS_def
      base64url_to_bytes_def)

section \<open>Cards given by address\<close>

text \<open>
  Without a public key \<open>verifyCard\<close> walks no chain: a card that exists is trusted exactly
  when its own address is a root, and its revocation is always unknown, so that
  \<open>is_currently_valid\<close> is never \<open>false\<close>, whatever the card's log says.
\<close>

theorem verifyCard_without_key:
  assumes "verifyCard e cfg a options = Inr r" and "Option.bind options vo_pubkey = None"
  shows "sr_is_currently_valid r = Skipped \<and> sr_was_valid_at_signing_time r = Skipped \<and>
     rs_status (sr_revocation r) = Unknown_Revocation \<and>
     (sr_chain_reaches_trusted_root r = Flag True \<longrightarrow> trusted_root (rpc cfg) (trustedRoots cfg) a = Inr True)"
  using verifyCard_keyless [OF assms] by auto

text \<open>The address of a revoked card that is itself a root.\<close>

definition ex_revoked_root :: config where
  "ex_revoked_root = (ex_config ex_revoked)\<lparr>trustedRoots := [''05'']\<rparr>"

theorem verifyCard_without_key_witness:
  "\<exists>r. verifyCard ex_env ex_revoked_root ''05'' None = Inr r \<and>
     sr_chain_reaches_trusted_root r = Flag True \<and> sr_is_currently_valid r = Skipped"
proof -
  obtain r where r: "verifyCard ex_env ex_revoked_root ''05'' None = Inr r"
    "sr_chain_reaches_trusted_root r = Flag True"
    by (simp add: verifyCard_def ex_revoked_root_def ex_config_def ex_revoked_def trusted_root_def card_chain_def
        verifyStage4_def stage4_queries_def ex_rpc_def verifyStage6_def evaluatePolicyMatch_def Let_def)
  from verifyCard_without_key [OF r(1)] r show ?thesis by simp
qed

text \<open>
  With a public key \<open>verifyCard\<close> trusts a card that is not a root itself only if the
  key hashes to its address, the card's head opens under that key, and a genuine chain of
  permitted length leads from the opened document to a root.
\<close>

theorem verifyCard_with_key_sound:
  assumes "verifyCard e cfg a options = Inr r" and "sr_chain_reaches_trusted_root r = Flag True"
    and "trusted_root (rpc cfg) (trustedRoots cfg) a = Inr False"
  shows "\<exists>b64 doc ls extra. Option.bind options vo_pubkey = Some b64 \<and>
     keccak256 e (base64url_to_bytes b64) = a \<and>
     displays e (rpc cfg) (ipfs cfg) (base64url_to_bytes b64) doc \<and>
     linked e (rpc cfg) (ipfs cfg) doc ls \<and> length ls < nat (maxChainDepth cfg) \<and>
     rooted e (rpc cfg) (trustedRoots cfg) (tip (doc, a) ls) extra"
proof -
  from assms(1) obtain entry where entry: "get_card_entry (rpc cfg) a = Inr entry"
    by (auto simp: verifyCard_def Let_def bindE_eq_Inr)
  show ?thesis
  proof (cases "live_entry entry")
    case None
    with assms entry show ?thesis
      by (auto simp: verifyCard_def Let_def skippedResult_def bindE_eq_Inr)
  next
    case (Some ce)
    let ?chain = "card_chain e cfg a ce False (Option.bind options vo_pubkey)"
    from assms Some entry have reaches: "fst ?chain = Flag True"
      by (auto simp: verifyCard_def Let_def bindE_eq_Inr split: prod.splits)
    then obtain b64 s3 doc where b64: "Option.bind options vo_pubkey = Some b64"
      and bound: "keccak256 e (base64url_to_bytes b64) = a"
      and doc: "open_document e (ipfs cfg) (content_key e (base64url_to_bytes b64)) (ce_log_head_cid ce) = Inr doc"
      and s3: "verifyStage3 e doc a (rpc cfg) (ipfs cfg) (trustedRoots cfg) (maxChainDepth cfg)
        (Some (base64url_to_bytes b64)) = Inr s3" "s3_chain_reaches_trusted_root s3 = Flag True"
      by (auto simp: card_chain_def Let_def res_simps split: option.splits if_splits sum.splits)
    from stage3_walk_chain [OF s3(1) [unfolded verifyStage3_def]] s3(2) b64 bound doc entry Some show ?thesis
      by (auto simp: stage3_result_def displays_def)
  qed
qed

theorem verifyCard_with_key_sound_witness:
  "\<exists>r doc. verifyCard ex_env (ex_config ex_entries) ''02'' (Some \<lparr>vo_asOf = None, vo_pubkey = Some (ex_b64 2)\<rparr>) = Inr r \<and>
     displays ex_env (ex_rpc ex_entries) ex_ipfs (ex_key 2) doc"
proof -
  let ?opt = "Some \<lparr>vo_asOf = None, vo_pubkey = Some (ex_b64 2)\<rparr>"
  have chain: "card_chain ex_env (ex_config ex_entries) ''02'' (ex_entry 2 2) False (Some (ex_b64 2)) =
      (Flag True, [''02'', ''05'', ''06''], [start_link ''02'' ex_master_doc (Some (ex_key 2)),
        \<lparr>cl_card_address = ''05'', cl_public_key = ex_b64 5, cl_card_content = ex_parent_doc\<rparr>], [])"
    using ex_stage3 by (simp add: card_chain_def Let_def stage3_result_def)
  have pm: "conditions (ex_config ex_entries) = Some \<lparr>pc_policy_id = ''q'', pc_field_match = Some [(''level'', Exact ''gold'')]\<rparr>"
    by (simp add: ex_config_def)
  obtain r where r: "verifyCard ex_env (ex_config ex_entries) ''02'' ?opt = Inr r"
    "sr_chain_reaches_trusted_root r = Flag True"
    using chain ex_policy_match
    by (simp add: verifyCard_def trusted_root_def verifyStage4_def stage4_queries_def verifyStage6_def
        start_link_def Let_def pm) (auto simp: ex_rpc_def)
  have "trusted_root (rpc (ex_config ex_entries)) (trustedRoots (ex_config ex_entries)) ''02'' = Inr False"
    by (simp add: trusted_root_def)
  from verifyCard_with_key_sound [OF r this] r(1) show ?thesis by auto
qed

end
