(* ===== verification/Programs.thy ===== *)
theory Programs
  imports Prelude
begin

text \<open>
  Programs that read and change a state and may throw: an \<open>async\<close> function of the source is
  a function from the state to a result and the state it leaves behind. What a program did
  before it threw stays done. The press and the wallet service are written in these
  combinators, each over its own state.
\<close>

section \<open>Combinators\<close>

type_synonym ('w, 'a) prog = "'w \<Rightarrow> 'a res \<times> 'w"

definition retA :: "'a \<Rightarrow> ('w, 'a) prog" where
  "retA a = (\<lambda>w. (Inr a, w))"

definition throwA :: "exn \<Rightarrow> ('w, 'a) prog" where
  "throwA e = (\<lambda>w. (Inl e, w))"

definition bindA :: "('w, 'a) prog \<Rightarrow> ('a \<Rightarrow> ('w, 'b) prog) \<Rightarrow> ('w, 'b) prog" where
  "bindA m f = (\<lambda>w. case m w of (Inl e, w') \<Rightarrow> (Inl e, w') | (Inr a, w') \<Rightarrow> f a w')"

definition catchA :: "('w, 'a) prog \<Rightarrow> (exn \<Rightarrow> ('w, 'a) prog) \<Rightarrow> ('w, 'a) prog" where
  "catchA m h = (\<lambda>w. case m w of (Inl e, w') \<Rightarrow> h e w' | (Inr a, w') \<Rightarrow> (Inr a, w'))"

definition liftA :: "'a res \<Rightarrow> ('w, 'a) prog" where
  "liftA r = (\<lambda>w. (r, w))"

text \<open>Look at the state.\<close>

definition readA :: "('w \<Rightarrow> 'a res) \<Rightarrow> ('w, 'a) prog" where
  "readA q = (\<lambda>w. (q w, w))"

text \<open>Throw \<open>err\<close> unless the condition holds.\<close>

definition guardA :: "bool \<Rightarrow> exn \<Rightarrow> ('w, unit) prog" where
  "guardA b err = (if b then retA () else throwA err)"

text \<open>A \<open>try\<close> block whose outcome is looked at.\<close>

definition caught :: "('w, 'a) prog \<Rightarrow> ('w, 'a res) prog" where
  "caught m = catchA (bindA m (\<lambda>a. retA (Inr a))) (\<lambda>e. retA (Inl e))"

text \<open>\<open>await\<close> of every element in order, and the loop that only has effects.\<close>

fun mapA :: "('a \<Rightarrow> ('w, 'b) prog) \<Rightarrow> 'a list \<Rightarrow> ('w, 'b list) prog" where
  "mapA f [] = retA []"
| "mapA f (a # as) = bindA (f a) (\<lambda>b. bindA (mapA f as) (\<lambda>bs. retA (b # bs)))"

fun forA :: "('a \<Rightarrow> ('w, unit) prog) \<Rightarrow> 'a list \<Rightarrow> ('w, unit) prog" where
  "forA f [] = retA ()"
| "forA f (a # as) = bindA (f a) (\<lambda>_. forA f as)"

named_theorems act_simps "equations that run programs"

lemma retA_run [act_simps]: "retA a w = (Inr a, w)"
  by (simp add: retA_def)

lemma throwA_run [act_simps]: "throwA e w = (Inl e, w)"
  by (simp add: throwA_def)

lemma liftA_run [act_simps]: "liftA r w = (r, w)"
  by (simp add: liftA_def)

lemma readA_run [act_simps]: "readA q w = (q w, w)"
  by (simp add: readA_def)

lemma guardA_run [act_simps]: "guardA b err w = (if b then Inr () else Inl err, w)"
  by (simp add: guardA_def retA_def throwA_def)

lemma bindA_eq [act_simps]:
  "bindA m f w = (r, w') \<longleftrightarrow>
     (\<exists>e. m w = (Inl e, w') \<and> r = Inl e) \<or> (\<exists>a w1. m w = (Inr a, w1) \<and> f a w1 = (r, w'))"
  by (cases "m w"; cases "fst (m w)") (auto simp: bindA_def)

lemma catchA_eq [act_simps]:
  "catchA m h w = (r, w') \<longleftrightarrow>
     (\<exists>a. m w = (Inr a, w') \<and> r = Inr a) \<or> (\<exists>e w1. m w = (Inl e, w1) \<and> h e w1 = (r, w'))"
  by (cases "m w"; cases "fst (m w)") (auto simp: catchA_def)

lemma bindA_Inr: "bindA m f w = (Inr b, w') \<longleftrightarrow> (\<exists>a w1. m w = (Inr a, w1) \<and> f a w1 = (Inr b, w'))"
  by (auto simp: bindA_eq)

text \<open>Running a program whose first step is known.\<close>

lemma bindA_step: "m w = (Inr a, w1) \<Longrightarrow> bindA m f w = f a w1"
  by (simp add: bindA_def)

lemma bindA_throw: "m w = (Inl e, w1) \<Longrightarrow> bindA m f w = (Inl e, w1)"
  by (simp add: bindA_def)

lemma catchA_step: "m w = (Inr a, w1) \<Longrightarrow> catchA m h w = (Inr a, w1)"
  by (simp add: catchA_def)

lemma catchA_throw: "m w = (Inl e, w1) \<Longrightarrow> catchA m h w = h e w1"
  by (simp add: catchA_def)

lemma case_prod_eq [act_simps]: "(case p of (a, b) \<Rightarrow> f a b) = r \<longleftrightarrow> (\<exists>a b. p = (a, b) \<and> f a b = r)"
  by (cases p) auto

lemma caught_eq: "caught m w = (Inr (fst (m w)), snd (m w))"
  by (simp add: caught_def catchA_def bindA_def retA_def split: prod.split sum.split)

lemma bindA_retA [simp]: "bindA (retA a) f = f a"
  by (simp add: bindA_def retA_def)

lemma bindA_retA_right [simp]: "bindA m retA = m"
  by (rule ext) (simp add: bindA_def retA_def split: prod.split sum.split)

lemma bindA_unit_right: "bindA m (\<lambda>_. retA ()) = (m :: ('w, unit) prog)"
  by (rule ext) (simp add: bindA_def retA_def split: prod.split sum.split)

lemma bindA_assoc: "bindA (bindA m f) g = bindA m (\<lambda>a. bindA (f a) g)"
  by (rule ext) (simp add: bindA_def split: prod.split sum.split)

lemma forA_append: "forA f (xs @ ys) = bindA (forA f xs) (\<lambda>_. forA f ys)"
  by (induction xs) (simp_all add: bindA_assoc)

text \<open>What a program leaves alone: the part \<open>f\<close> of the state.\<close>

definition keeps :: "('w \<Rightarrow> 'c) \<Rightarrow> ('w, 'a) prog \<Rightarrow> bool" where
  "keeps f m \<longleftrightarrow> (\<forall>w r w'. m w = (r, w') \<longrightarrow> f w' = f w)"

named_theorems keeps_intros "programs that leave a part of the world alone"

lemma keepsD: "keeps f m \<Longrightarrow> m w = (r, w') \<Longrightarrow> f w' = f w"
  by (auto simp: keeps_def)

lemma keeps_basic [keeps_intros]:
  "keeps f (retA a)" "keeps f (throwA e)" "keeps f (liftA r)" "keeps f (guardA b e)"
  by (auto simp: keeps_def act_simps)

lemma keeps_bindA [keeps_intros]: "keeps f m \<Longrightarrow> (\<And>a. keeps f (g a)) \<Longrightarrow> keeps f (bindA m g)"
  unfolding keeps_def bindA_eq by metis

lemma keeps_catchA [keeps_intros]: "keeps f m \<Longrightarrow> (\<And>e. keeps f (h e)) \<Longrightarrow> keeps f (catchA m h)"
  unfolding keeps_def catchA_eq by metis

lemma keeps_mapA [keeps_intros]: "(\<And>a. keeps f (g a)) \<Longrightarrow> keeps f (mapA g as)"
  by (induction as) (auto intro!: keeps_intros)

lemma keeps_forA [keeps_intros]: "(\<And>a. keeps f (g a)) \<Longrightarrow> keeps f (forA g as)"
  by (induction as) (auto intro!: keeps_intros)

lemma keeps_readA [keeps_intros]: "keeps f (readA q)"
  by (auto simp: keeps_def act_simps)

lemma keeps_case_sum [keeps_intros]:
  "(\<And>e. keeps f (g e)) \<Longrightarrow> (\<And>a. keeps f (h a)) \<Longrightarrow> keeps f (case r of Inl e \<Rightarrow> g e | Inr a \<Rightarrow> h a)"
  by (cases r) auto

lemma keeps_if [keeps_intros]: "keeps f m \<Longrightarrow> keeps f m' \<Longrightarrow> keeps f (if b then m else m')"
  by simp

text \<open>What a successful run went through.\<close>

lemma guardA_Inr: "guardA b err w = (Inr u, w') \<longleftrightarrow> b \<and> w' = w"
  by (auto simp: guardA_run)

section \<open>What programs do to the state\<close>

text \<open>
  \<open>obeys R m\<close>: whatever \<open>m\<close> does, and however it ends, its effect on the state is a step of
  the relation \<open>R\<close>. For a reflexive and transitive relation this is closed under the
  combinators, so that it is proved once for every statement.
\<close>

definition obeys :: "('w \<Rightarrow> 'w \<Rightarrow> bool) \<Rightarrow> ('w, 'a) prog \<Rightarrow> bool" where
  "obeys R m \<longleftrightarrow> (\<forall>w r w'. m w = (r, w') \<longrightarrow> R w w')"

lemma obeysD: "obeys R m \<Longrightarrow> m w = (r, w') \<Longrightarrow> R w w'"
  by (auto simp: obeys_def)

locale step_order =
  fixes R :: "'w \<Rightarrow> 'w \<Rightarrow> bool"
  assumes refl: "R w w" and trans: "R u v \<Longrightarrow> R v w \<Longrightarrow> R u w"
begin

lemma obeys_basic: "obeys R (retA a)" "obeys R (throwA e)" "obeys R (liftA r)" "obeys R (guardA b e)" "obeys R (readA q)"
  by (auto simp: obeys_def act_simps refl)

lemma obeys_bindA: "obeys R m \<Longrightarrow> (\<And>a. obeys R (g a)) \<Longrightarrow> obeys R (bindA m g)"
  unfolding obeys_def bindA_eq by (metis trans)

lemma obeys_catchA: "obeys R m \<Longrightarrow> (\<And>e. obeys R (h e)) \<Longrightarrow> obeys R (catchA m h)"
  unfolding obeys_def catchA_eq by (metis trans)

lemma obeys_mapA: "(\<And>a. obeys R (g a)) \<Longrightarrow> obeys R (mapA g as)"
  by (induction as) (auto intro!: obeys_basic obeys_bindA)

lemma obeys_forA: "(\<And>a. obeys R (g a)) \<Longrightarrow> obeys R (forA g as)"
  by (induction as) (auto intro!: obeys_basic obeys_bindA)

end

lemma obeys_cases:
  "(\<And>e. obeys R (g e)) \<Longrightarrow> (\<And>a. obeys R (h a)) \<Longrightarrow> obeys R (case r of Inl e \<Rightarrow> g e | Inr a \<Rightarrow> h a)"
  "obeys R m \<Longrightarrow> (\<And>b. obeys R (k b)) \<Longrightarrow> obeys R (case q of None \<Rightarrow> m | Some b \<Rightarrow> k b)"
  "(\<And>a b. obeys R (l a b)) \<Longrightarrow> obeys R (case pr of (a, b) \<Rightarrow> l a b)"
  "obeys R m \<Longrightarrow> obeys R m' \<Longrightarrow> obeys R (if c then m else m')"
  by (auto split: sum.split option.split prod.split)

end
