(* ===== verification/Js_Runtime.thy ===== *)
theory Js_Runtime
  imports Verifier_Types
begin

text \<open>
  What the services share of the JavaScript runtime: template literals, \<open>toLowerCase\<close>,
  \<open>Buffer.from\<close>, dates, \<open>BigInt\<close>, optional chaining and spread on request values.
\<close>

section \<open>Parameters\<close>

text \<open>
  The primitives of the libraries the services import (signing and sealing), decoding of
  bytes to text (\<open>TextDecoder\<close>), \<open>String(v)\<close> of values that are not strings,
  \<open>Buffer.from\<close> of objects, and \<open>BigInt\<close> of texts that are not decimal.
\<close>

record runtime = env +
  ml_dsa44_sign :: "bytes \<Rightarrow> bytes \<Rightarrow> bytes"
  ml_dsa44_public_key :: "bytes \<Rightarrow> bytes"
  aes_gcm_seal :: "bytes \<Rightarrow> bytes \<Rightarrow> bytes \<Rightarrow> bytes"
  utf8_decode :: "bytes \<Rightarrow> string"
  text_of :: "js \<Rightarrow> string"
  bigint_of_literal :: "string \<Rightarrow> int res"
  buffer_from_object :: "(string \<times> js) list \<Rightarrow> bytes res"

section \<open>Text and bytes\<close>

text \<open>\<open>toLowerCase\<close> on code units below 256.\<close>

definition lower_char :: "char \<Rightarrow> char" where
  "lower_char c = (let n = (of_char c :: nat) in
     if 65 \<le> n \<and> n \<le> 90 \<or> 192 \<le> n \<and> n \<le> 222 \<and> n \<noteq> 215 then char_of (n + 32) else c)"

definition to_lower :: "string \<Rightarrow> string" where
  "to_lower s = map lower_char s"

definition starts_with_0x :: "string \<Rightarrow> bool" where
  "starts_with_0x s \<longleftrightarrow> take 2 s = ''0x''"

text \<open>\<open>normalizeHex\<close> and the removal of a prefix.\<close>

definition normalizeHex :: "string \<Rightarrow> string" where
  "normalizeHex hex = (if starts_with_0x hex then hex else ''0x'' @ hex)"

definition strip_0x :: "string \<Rightarrow> string" where
  "strip_0x hex = (if starts_with_0x hex then drop 2 hex else hex)"

text \<open>White space and \<open>trim\<close>.\<close>

definition is_space :: "char \<Rightarrow> bool" where
  "is_space c = (let n = (of_char c :: nat) in 9 \<le> n \<and> n \<le> 13 \<or> n = 32 \<or> n = 160)"

definition trim :: "string \<Rightarrow> string" where
  "trim s = rev (dropWhile is_space (rev (dropWhile is_space s)))"

text \<open>\<open>parseInt(s, 10)\<close>.\<close>

definition digits_value :: "string \<Rightarrow> nat" where
  "digits_value ds = foldl (\<lambda>n c. 10 * n + (of_char c - 48)) 0 ds"

definition parse_int :: "string \<Rightarrow> js_number" where
  "parse_int s =
     (let s' = dropWhile is_space s;
          negative = (take 1 s' = ''-'');
          ds = takeWhile is_digit (if take 1 s' = ''-'' \<or> take 1 s' = ''+'' then drop 1 s' else s') in
      if ds = [] then NaN
      else Fin (if negative then - int (digits_value ds) else int (digits_value ds)))"

text \<open>A value in a template literal.\<close>

fun literal :: "('r) runtime_scheme \<Rightarrow> js \<Rightarrow> string" where
  "literal p (Str s) = s"
| "literal p v = text_of p v"

section \<open>JavaScript values in requests\<close>

text \<open>\<open>fromBase64url\<close>: \<open>Buffer.from(v, "base64url")\<close> skips characters outside the alphabet.\<close>

definition to_uint8 :: "('r) runtime_scheme \<Rightarrow> js \<Rightarrow> byte" where
  "to_uint8 p v = (case to_number p v of Fin i \<Rightarrow> of_int i | _ \<Rightarrow> 0)"

fun fromBase64url :: "('r) runtime_scheme \<Rightarrow> js \<Rightarrow> bytes res" where
  "fromBase64url p (Str s) = Inr (base64url_to_bytes s)"
| "fromBase64url p (Arr xs) = Inr (map (to_uint8 p) xs)"
| "fromBase64url p (Obj kvs) = buffer_from_object p kvs"
| "fromBase64url p v = Inl (JsError ''TypeError: The first argument must be of type string'')"

text \<open>\<open>new Date(v).getTime()\<close>, \<open>now - t\<close> and \<open>n * k\<close>.\<close>

definition time_clip :: "int \<Rightarrow> js_number" where
  "time_clip i = (if \<bar>i\<bar> \<le> 8640000000000000 then Fin i else NaN)"

fun date_ms :: "('r) runtime_scheme \<Rightarrow> js \<Rightarrow> js_number" where
  "date_ms p (Str s) = date_time p s"
| "date_ms p (Num (Fin i)) = time_clip i"
| "date_ms p (Num n) = NaN"
| "date_ms p (Bool b) = Fin (if b then 1 else 0)"
| "date_ms p Null = Fin 0"
| "date_ms p Undef = NaN"
| "date_ms p v = date_time p (text_of p v)"

fun minus_num :: "int \<Rightarrow> js_number \<Rightarrow> js_number" where
  "minus_num a (Fin i) = Fin (a - i)"
| "minus_num a (Infinite pos) = Infinite (\<not> pos)"
| "minus_num a NaN = NaN"

fun times_num :: "int \<Rightarrow> js_number \<Rightarrow> js_number" where
  "times_num k (Fin i) = Fin (k * i)"
| "times_num k n = n"

text \<open>\<open>v.includes(s)\<close> of an array or a string.\<close>

fun infix_of :: "string \<Rightarrow> string \<Rightarrow> bool" where
  "infix_of s [] = (s = [])"
| "infix_of s (c # t) = (take (length s) (c # t) = s \<or> infix_of s t)"

fun js_includes :: "js \<Rightarrow> string \<Rightarrow> bool res" where
  "js_includes (Arr xs) s = Inr (Str s \<in> set xs)"
| "js_includes (Str t) s = Inr (infix_of s t)"
| "js_includes v s = Inl (JsError ''TypeError: includes is not a function'')"

text \<open>\<open>BigInt(v)\<close>.\<close>

definition decimal_value :: "string \<Rightarrow> int option" where
  "decimal_value s =
     (let negative = (take 1 s = ''-'');
          ds = (if take 1 s = ''-'' \<or> take 1 s = ''+'' then drop 1 s else s) in
      if ds \<noteq> [] \<and> list_all is_digit ds
      then Some (if negative then - int (digits_value ds) else int (digits_value ds)) else None)"

fun to_bigint :: "('r) runtime_scheme \<Rightarrow> js \<Rightarrow> int res" where
  "to_bigint p (Str s) =
     (if trim s = [] then Inr 0
      else case decimal_value (trim s) of Some i \<Rightarrow> Inr i | None \<Rightarrow> bigint_of_literal p (trim s))"
| "to_bigint p (Num (Fin i)) = Inr i"
| "to_bigint p (Num n) = Inl (JsError ''RangeError: not an integer'')"
| "to_bigint p (Bool b) = Inr (if b then 1 else 0)"
| "to_bigint p Null = Inl (JsError ''TypeError: Cannot convert null to a BigInt'')"
| "to_bigint p Undef = Inl (JsError ''TypeError: Cannot convert undefined to a BigInt'')"
| "to_bigint p v = bigint_of_literal p (text_of p v)"

text \<open>\<open>v?.k\<close>.\<close>

fun opt_prop :: "js \<Rightarrow> string \<Rightarrow> js res" where
  "opt_prop Undef k = Inr Undef"
| "opt_prop Null k = Inr Undef"
| "opt_prop v k = js_prop v k"

text \<open>\<open>{ ...v, k: x, ... }\<close>.\<close>

definition js_spread :: "js \<Rightarrow> (string \<times> js) list \<Rightarrow> js" where
  "js_spread v kvs = Obj (foldl (\<lambda>acc (k, x). put_key k x acc) (js_entries v) kvs)"

lemma digits_value_append: "digits_value (s @ [c]) = 10 * digits_value s + (of_char c - 48)"
  by (simp add: digits_value_def)

lemma digits_value_nat_str: "digits_value (nat_str n) = n"
proof (induction n rule: nat_str.induct)
  case (1 n)
  show ?case
  proof (cases "n < 10")
    case True
    then show ?thesis by (simp add: nat_str.simps [of n] digits_value_def)
  next
    case False
    with 1 show ?thesis
      by (simp add: nat_str.simps [of n] digits_value_append)
  qed
qed

lemma digit_not_space: "is_digit c \<Longrightarrow> \<not> is_space c"
  by (auto simp: is_digit_def is_space_def Let_def)

lemma minus_not_space: "\<not> is_space CHR ''-''"
  by (simp add: is_space_def)

lemma dropWhile_none: "list_all (\<lambda>c. \<not> P c) s \<Longrightarrow> dropWhile P s = s"
  by (cases s) auto

lemma trim_none: "list_all (\<lambda>c. \<not> is_space c) s \<Longrightarrow> trim s = s"
  by (simp add: trim_def dropWhile_none)

lemma nat_str_all_digits: "list_all is_digit (nat_str n)"
  by (simp add: list_all_iff nat_str_digits)

lemma decimal_value_int_str: "decimal_value (int_str i) = Some i"
proof -
  have first: "take 1 (nat_str n) \<noteq> ''-''" "take 1 (nat_str n) \<noteq> ''+''" for n
    using nat_str_all_digits [of n] by (cases "nat_str n"; auto simp: is_digit_def)+
  then show ?thesis
    by (auto simp: decimal_value_def int_str_def Let_def nat_str_all_digits digits_value_nat_str)
qed

lemma to_bigint_int_str [simp]: "to_bigint p (Str (int_str i)) = Inr i"
proof -
  have "list_all (\<lambda>c. \<not> is_space c) (int_str i)"
    using int_str_chars [of _ i] digit_not_space minus_not_space by (auto simp: list_all_iff)
  then show ?thesis
    by (simp add: trim_none decimal_value_int_str)
qed

text \<open>\<open>a + delta\<close> of a stored value: an addition of numbers, else a concatenation of texts.\<close>

fun js_plus :: "('r) runtime_scheme \<Rightarrow> js \<Rightarrow> int \<Rightarrow> js" where
  "js_plus p (Num (Fin i)) d = Num (Fin (i + d))"
| "js_plus p (Num n) d = Num n"
| "js_plus p (Bool b) d = Num (Fin ((if b then 1 else 0) + d))"
| "js_plus p Null d = Num (Fin d)"
| "js_plus p Undef d = Num NaN"
| "js_plus p v d = Str (literal p v @ int_str d)"

section \<open>Texts\<close>

text \<open>
  Texts the services take apart: hexadecimal digits, version 4 UUIDs, the segments of a path, and JSON.
\<close>

definition hex_digit :: "char \<Rightarrow> bool" where
  "hex_digit c = (let n = (of_char c :: nat) in 48 \<le> n \<and> n \<le> 57 \<or> 65 \<le> n \<and> n \<le> 70 \<or> 97 \<le> n \<and> n \<le> 102)"

text \<open>The pattern of a version 4 UUID, in either case.\<close>

definition is_uuid_v4 :: "string \<Rightarrow> bool" where
  "is_uuid_v4 s \<longleftrightarrow> length s = 36 \<and>
     list_all (\<lambda>(i, c). if i \<in> {8, 13, 18, 23} then c = CHR ''-''
        else if i = 14 then c = CHR ''4''
        else if i = 19 then c \<in> set ''89abAB'' else hex_digit c) (zip [0..<36] s)"

fun split_slash :: "string \<Rightarrow> string list" where
  "split_slash [] = [[]]"
| "split_slash (c # s) =
     (if c = CHR ''/'' then [] # split_slash s else case split_slash s of [] \<Rightarrow> [[c]] | w # ws \<Rightarrow> (c # w) # ws)"

text \<open>The segments of a path: a pattern \<open>[^/]+\<close> is one segment that is not empty.\<close>

definition path_segments :: "string \<Rightarrow> string list" where
  "path_segments path = (case split_slash path of [] # segs \<Rightarrow> segs | _ \<Rightarrow> [])"

text \<open>\<open>JSON.stringify\<close>.\<close>

fun json_stringify :: "js \<Rightarrow> string" where
  "json_stringify Null = ''null''"
| "json_stringify Undef = ''null''"
| "json_stringify (Bool b) = (if b then ''true'' else ''false'')"
| "json_stringify (Num (Fin i)) = int_str i"
| "json_stringify (Num n) = ''null''"
| "json_stringify (Str s) = stringify_string s"
| "json_stringify (Arr xs) = ''['' @ join_comma (map json_stringify xs) @ '']''"
| "json_stringify (Obj kvs) = ''{'' @ join_comma (map (\<lambda>kv. stringify_string (fst kv) @ '':'' @ json_stringify (snd kv))
     (filter (\<lambda>kv. snd kv \<noteq> Undef) kvs)) @ ''}''"

end
