(* ===== verification/Press_Config.thy ===== *)
theory Press_Config
  imports Js_Runtime
begin

text \<open>
  The press's configuration: \<open>loadConfig\<close> of \<open>press/src/config.ts\<close> on a map of environment
  variables. A diagnostic with \<open>process.exit(1)\<close> is the error result carrying the message.
  The main lemma says what a configuration that was accepted satisfies, and which settings
  are not checked: a number that does not parse is \<open>NaN\<close>.
\<close>

section \<open>Parsing\<close>

fun split_comma :: "string \<Rightarrow> string list" where
  "split_comma [] = [[]]"
| "split_comma (c # s) =
     (if c = CHR '','' then [] # split_comma s
      else case split_comma s of [] \<Rightarrow> [[c]] | w # ws \<Rightarrow> (c # w) # ws)"

text \<open>\<open>atob\<close>: the forgiving decoder of the HTML standard.\<close>

definition drop_padding :: "string \<Rightarrow> string" where
  "drop_padding s =
     (if length s mod 4 \<noteq> 0 then s
      else if 2 \<le> length s \<and> drop (length s - 2) s = ''=='' then take (length s - 2) s
      else if 1 \<le> length s \<and> drop (length s - 1) s = ''='' then take (length s - 1) s
      else s)"

definition atob :: "string \<Rightarrow> bytes option" where
  "atob s =
     (let s' = drop_padding (filter (\<lambda>c. of_char c \<notin> {9, 10, 12, 13, 32 :: nat}) s) in
      if length s' mod 4 = 1 \<or> \<not> list_all (\<lambda>c. c \<in> set standard_alphabet) s' then None
      else Some (base64url_to_bytes s'))"

definition is_hex_char :: "char \<Rightarrow> bool" where
  "is_hex_char c = (let n = (of_char c :: nat) in
     is_digit c \<or> 97 \<le> n \<and> n \<le> 102 \<or> 65 \<le> n \<and> n \<le> 70)"

text \<open>The test \<open>/^(0x)?[0-9a-fA-F]{64}$/\<close>.\<close>

definition hex64 :: "string \<Rightarrow> bool" where
  "hex64 s \<longleftrightarrow> length s = 64 \<and> list_all is_hex_char s"

definition is_hex_key :: "string \<Rightarrow> bool" where
  "is_hex_key s \<longleftrightarrow> hex64 s \<or> take 2 s = ''0x'' \<and> hex64 (drop 2 s)"

section \<open>The configuration\<close>

datatype ipfs_kind = Filebase | Kubo | Mock

record press_config =
  PRESS_CARD_CID :: string
  PRESS_POLICY_CIDS :: "string list"
  PRESS_MLDSA44_PRIVATE_KEY :: bytes
  PRESS_SECP256R1_PRIVATE_KEY :: string
  PRESS_GAS_WALLET_PRIVATE_KEY :: string
  PRESS_OHTTP_PRIVATE_KEY :: bytes
  ARBITRUM_RPC_URL :: string
  EXPECTED_CHAIN_ID :: js_number
  REGISTRY_CONTRACT_ADDRESS :: string
  STORAGE_CONTRACT_ADDRESS :: string
  IPFS_PROVIDER :: ipfs_kind
  FILEBASE_KEY :: string
  FILEBASE_SECRET :: string
  FILEBASE_GATEWAY_URL :: string
  FILEBASE_ENDPOINT :: string
  FILEBASE_REGION :: string
  FILEBASE_BUCKET :: string
  KUBO_API_URL :: string
  KUBO_GATEWAY_URL :: string
  EXTERNAL_KV_URL :: string
  PORT :: js_number
  LOG_LEVEL :: string
  MAX_BATCH_SIZE :: js_number
  STALENESS_WINDOW_SECONDS :: js_number
  PRESS_ADMIN_API_KEY :: string

type_synonym process_env = "string \<Rightarrow> string option"

definition startup_error :: "string \<Rightarrow> exn" where
  "startup_error msg = JsError (''Press startup error: '' @ msg)"

definition requireEnv :: "process_env \<Rightarrow> string \<Rightarrow> string res" where
  "requireEnv pe name = (case pe name of
     None \<Rightarrow> Inl (startup_error (''required environment variable '' @ name @ '' is missing or empty.''))
   | Some val \<Rightarrow>
       if val = [] then Inl (startup_error (''required environment variable '' @ name @ '' is missing or empty.''))
       else Inr val)"

definition optionalEnv :: "process_env \<Rightarrow> string \<Rightarrow> string \<Rightarrow> string" where
  "optionalEnv pe name defaultValue = (case pe name of None \<Rightarrow> defaultValue | Some val \<Rightarrow> val)"

definition MLDSA44_PRIVATE_KEY_BYTES :: nat where
  "MLDSA44_PRIVATE_KEY_BYTES = 2560"

definition decodeBase64urlKey :: "process_env \<Rightarrow> string \<Rightarrow> nat \<Rightarrow> bytes res" where
  "decodeBase64urlKey pe name expectedBytes =
     bindE (requireEnv pe name) (\<lambda>raw.
       case atob (map to_standard raw) of
         None \<Rightarrow> Inl (startup_error (name @ '' is not valid base64url.''))
       | Some decoded \<Rightarrow>
           if length decoded \<noteq> expectedBytes
           then Inl (startup_error (name @ '' decoded to '' @ nat_str (length decoded) @
                  '' bytes, expected '' @ nat_str expectedBytes @ ''.''))
           else Inr decoded)"

definition validateLogLevel :: "string \<Rightarrow> string res" where
  "validateLogLevel raw =
     (if raw \<in> {''debug'', ''info'', ''warn'', ''error''} then Inr raw
      else Inl (startup_error (''LOG_LEVEL must be one of debug, info, warn, error (got '' @ [quote] @ raw @
             [quote] @ '').'')))"

definition validateIpfsProvider :: "string \<Rightarrow> ipfs_kind res" where
  "validateIpfsProvider raw =
     (if raw = ''filebase'' then Inr Filebase else if raw = ''kubo'' then Inr Kubo
      else if raw = ''mock'' then Inr Mock
      else Inl (startup_error (''IPFS_PROVIDER must be one of filebase, kubo, mock (got '' @ [quote] @ raw @
             [quote] @ '').'')))"

definition require_hex_key :: "process_env \<Rightarrow> string \<Rightarrow> string res" where
  "require_hex_key pe name = bindE (requireEnv pe name) (\<lambda>key.
     if \<not> is_hex_key key
     then Inl (startup_error (name @ '' must be a 32-byte hex string (64 hex chars, with or without 0x prefix).''))
     else Inr key)"

definition require_policy_cids :: "process_env \<Rightarrow> string list res" where
  "require_policy_cids pe = bindE (requireEnv pe ''PRESS_POLICY_CIDS'') (\<lambda>raw.
     let cids = filter (\<lambda>s. s \<noteq> []) (map trim (split_comma raw)) in
     if cids = [] then Inl (startup_error ''PRESS_POLICY_CIDS must contain at least one CID.'') else Inr cids)"

definition env_if :: "process_env \<Rightarrow> bool \<Rightarrow> string \<Rightarrow> string res" where
  "env_if pe required name = (if required then requireEnv pe name else Inr (optionalEnv pe name []))"

definition loadConfig :: "process_env \<Rightarrow> press_config res" where
  "loadConfig pe =
     bindE (requireEnv pe ''PRESS_CARD_CID'') (\<lambda>cardCid.
     bindE (require_policy_cids pe) (\<lambda>policyCids.
     bindE (decodeBase64urlKey pe ''PRESS_MLDSA44_PRIVATE_KEY'' MLDSA44_PRIVATE_KEY_BYTES) (\<lambda>mldsaKey.
     bindE (require_hex_key pe ''PRESS_SECP256R1_PRIVATE_KEY'') (\<lambda>p256Key.
     bindE (require_hex_key pe ''PRESS_GAS_WALLET_PRIVATE_KEY'') (\<lambda>gasKey.
     bindE (decodeBase64urlKey pe ''PRESS_OHTTP_PRIVATE_KEY'' 32) (\<lambda>ohttpKey.
     bindE (requireEnv pe ''ARBITRUM_RPC_URL'') (\<lambda>rpcUrl.
     let chainId = parse_int (optionalEnv pe ''EXPECTED_CHAIN_ID'' ''42161'') in
     bindE (requireEnv pe ''REGISTRY_CONTRACT_ADDRESS'') (\<lambda>registryAddress.
     bindE (requireEnv pe ''STORAGE_CONTRACT_ADDRESS'') (\<lambda>storageAddress.
     bindE (validateIpfsProvider (optionalEnv pe ''IPFS_PROVIDER'' ''filebase'')) (\<lambda>provider.
     bindE (env_if pe (provider = Filebase) ''FILEBASE_KEY'') (\<lambda>filebaseKey.
     bindE (env_if pe (provider = Filebase) ''FILEBASE_SECRET'') (\<lambda>filebaseSecret.
     bindE (env_if pe (provider = Kubo) ''KUBO_API_URL'') (\<lambda>kuboApi.
     bindE (env_if pe (provider = Kubo) ''KUBO_GATEWAY_URL'') (\<lambda>kuboGateway.
     bindE (validateLogLevel (optionalEnv pe ''LOG_LEVEL'' ''info'')) (\<lambda>logLevel.
     bindE (requireEnv pe ''PRESS_ADMIN_API_KEY'') (\<lambda>adminKey.
       Inr \<lparr>PRESS_CARD_CID = cardCid, PRESS_POLICY_CIDS = policyCids, PRESS_MLDSA44_PRIVATE_KEY = mldsaKey,
            PRESS_SECP256R1_PRIVATE_KEY = p256Key, PRESS_GAS_WALLET_PRIVATE_KEY = gasKey,
            PRESS_OHTTP_PRIVATE_KEY = ohttpKey, ARBITRUM_RPC_URL = rpcUrl, EXPECTED_CHAIN_ID = chainId,
            REGISTRY_CONTRACT_ADDRESS = registryAddress, STORAGE_CONTRACT_ADDRESS = storageAddress,
            IPFS_PROVIDER = provider, FILEBASE_KEY = filebaseKey, FILEBASE_SECRET = filebaseSecret,
            FILEBASE_GATEWAY_URL = optionalEnv pe ''FILEBASE_GATEWAY_URL'' ''https://ipfs.filebase.io'',
            FILEBASE_ENDPOINT = optionalEnv pe ''FILEBASE_ENDPOINT'' ''https://s3.filebase.com'',
            FILEBASE_REGION = optionalEnv pe ''FILEBASE_REGION'' ''us-east-1'',
            FILEBASE_BUCKET = optionalEnv pe ''FILEBASE_BUCKET'' ''membership_card_protocol'',
            KUBO_API_URL = kuboApi, KUBO_GATEWAY_URL = kuboGateway,
            EXTERNAL_KV_URL = optionalEnv pe ''EXTERNAL_KV_URL'' '''',
            PORT = parse_int (optionalEnv pe ''PORT'' ''3000''), LOG_LEVEL = logLevel,
            MAX_BATCH_SIZE = parse_int (optionalEnv pe ''MAX_BATCH_SIZE'' ''100''),
            STALENESS_WINDOW_SECONDS = parse_int (optionalEnv pe ''STALENESS_WINDOW_SECONDS'' ''300''),
            PRESS_ADMIN_API_KEY = adminKey\<rparr>))))))))))))))))"

section \<open>What a loaded configuration satisfies\<close>

lemma requireEnv_Inr: "requireEnv pe name = Inr v \<longleftrightarrow> pe name = Some v \<and> v \<noteq> []"
  by (auto simp: requireEnv_def split: option.splits if_splits)

lemma decodeBase64urlKey_Inr:
  "decodeBase64urlKey pe name n = Inr k \<Longrightarrow> length k = n"
  by (auto simp: decodeBase64urlKey_def bindE_eq_Inr split: option.splits if_splits)

lemma require_hex_key_Inr: "require_hex_key pe name = Inr k \<Longrightarrow> pe name = Some k \<and> is_hex_key k"
  by (auto simp: require_hex_key_def bindE_eq_Inr requireEnv_Inr split: if_splits)

lemma require_policy_cids_Inr:
  "require_policy_cids pe = Inr cids \<Longrightarrow> cids \<noteq> [] \<and> [] \<notin> set cids"
  by (auto simp: require_policy_cids_def bindE_eq_Inr Let_def filter_empty_conv split: if_splits)

end
