(* ===== verification/Press_Base.thy ===== *)
theory Press_Base
  imports Programs Js_Runtime Card_Verifier Press_Config
begin

text \<open>
  The ground the press (\<open>press/src\<close>) stands on: programs that read and change its state and
  may throw, the outside world they talk to, the key-value store of \<open>kv.ts\<close> with its
  contract as a locale, and the small text and byte helpers.

  A press program is a function from the world to a result and the world it leaves behind;
  what it did before a throw stays done. The world consists of the press's own key-value
  store, the map of the in-memory pinning provider, and everything outside (chain, IPFS, other services, clock), whose state has an
  arbitrary type \<open>'x\<close>: the operations on it are parameters collected in \<open>platform\<close>.
\<close>

section \<open>Programs\<close>

record 'x world =
  kv :: "string \<Rightarrow> js option"
  pins :: "string \<Rightarrow> bytes option"
  ext :: 'x

type_synonym ('x, 'a) act = "('x world, 'a) prog"

text \<open>Look at, and act on, the outside.\<close>

definition askA :: "('x \<Rightarrow> 'a res) \<Rightarrow> ('x, 'a) act" where
  "askA q = (\<lambda>w. (q (ext w), w))"

definition outA :: "('x \<Rightarrow> 'a res \<times> 'x) \<Rightarrow> ('x, 'a) act" where
  "outA f = (\<lambda>w. case f (ext w) of (r, x) \<Rightarrow> (r, w\<lparr>ext := x\<rparr>))"

lemma askA_run [act_simps]: "askA q w = (q (ext w), w)"
  by (simp add: askA_def)

lemma outA_run [act_simps]: "outA f w = (fst (f (ext w)), w\<lparr>ext := snd (f (ext w))\<rparr>)"
  by (simp add: outA_def split: prod.split)

lemma keeps_askA [keeps_intros]: "keeps f (askA q)"
  by (auto simp: keeps_def act_simps)

lemma keeps_outA [keeps_intros]: "keeps kv (outA g)" "keeps pins (outA g)" "keeps (\<lambda>w. kv w k) (outA g)"
  by (auto simp: keeps_def act_simps)

lemma keeps_kv_at: "keeps kv m \<Longrightarrow> keeps (\<lambda>w. kv w k) m"
  by (auto simp: keeps_def)

section \<open>The outside world\<close>

text \<open>Records of the registry contract as \<open>chain/registry.ts\<close> decodes them.\<close>

record reg_card_entry =
  rc_log_head_cid :: bytes
  rc_policy_address :: string
  rc_last_press_address :: string
  rc_forward_to :: string
  rc_exists :: bool

record reg_press_auth =
  ra_press_public_key :: bytes
  ra_mldsa44_key_hash :: string
  ra_key_scheme :: int
  ra_active :: bool
  ra_next_sequence :: int
  ra_authorized_at :: int
  ra_revoked_at :: int

record reg_sub_card_entry =
  rs_master_card_address :: string
  rs_registration_log_head :: bytes
  rs_sub_card_doc_cid :: bytes
  rs_active :: bool
  rs_registered_at :: int
  rs_deregistered_at :: int

text \<open>A decoded event log of the contract, and a transaction of a block (an input is hex text).\<close>

record chain_log =
  lg_cid :: string
  lg_timestamp :: int
  lg_block :: "int option"
  lg_index :: "int option"

record transaction =
  tx_to :: "string option"
  tx_value :: int
  tx_input :: string

text \<open>Responses of a Kubo node's \<open>add\<close>, of the S3 API of Filebase, and of an IPFS gateway.\<close>

record kubo_response =
  ka_ok :: bool
  ka_status :: int
  ka_hash :: "string option res"

record s3_response =
  s3_ok :: bool
  s3_status :: int
  s3_cid :: "string option"

record gateway_response =
  gw_ok :: bool
  gw_status :: int
  gw_body :: bytes

text \<open>An argument of a contract call.\<close>

datatype call_arg = Word_Arg string | Bytes_Arg bytes | Int_Arg int | Words_Arg "string list" | Bytess_Arg "bytes list"

text \<open>
  What the press calls but does not define, beside the runtime: P-256 signatures, the
  Ethereum address of a private key, the clock, random
  nonces, HTTP posts (the response's status), the RPC node (contract reads, event logs,
  submitting a contract call, waiting for its receipt, gas price, balances, blocks) and the
  IPFS pinning backend. Reads do not change the outside; \<open>verify_clock\<close> gives the clock
  readings of a verification that runs now.
\<close>

record 'x platform = runtime +
  p256_sign :: "string \<Rightarrow> bytes \<Rightarrow> bytes"
  p256_public_key :: "string \<Rightarrow> bytes"
  eth_address :: "string \<Rightarrow> string"
  clock_now :: "'x \<Rightarrow> int \<times> 'x"
  random_nonce :: "'x \<Rightarrow> bytes \<times> 'x"
  verify_clock :: "'x \<Rightarrow> int \<times> int \<times> string"
  http_post :: "string \<Rightarrow> js \<Rightarrow> 'x \<Rightarrow> int res \<times> 'x"
  kubo_add :: "string \<Rightarrow> bytes \<Rightarrow> 'x \<Rightarrow> kubo_response res \<times> 'x"
  s3_request :: "string \<Rightarrow> string \<Rightarrow> bytes \<Rightarrow> 'x \<Rightarrow> s3_response res \<times> 'x"
  gateway_get :: "string \<Rightarrow> 'x \<Rightarrow> gateway_response res"
  read_card_entry :: "string \<Rightarrow> 'x \<Rightarrow> reg_card_entry res"
  read_press_auth :: "string \<Rightarrow> string \<Rightarrow> 'x \<Rightarrow> reg_press_auth res"
  read_sub_card_entry :: "string \<Rightarrow> 'x \<Rightarrow> reg_sub_card_entry res"
  read_open_offer_count :: "string \<Rightarrow> 'x \<Rightarrow> int res"
  read_policy_exists :: "string \<Rightarrow> 'x \<Rightarrow> bool res"
  read_protocol_version :: "'x \<Rightarrow> string res"
  read_registered_logs :: "string \<Rightarrow> 'x \<Rightarrow> chain_log list res"
  read_head_updated_logs :: "string \<Rightarrow> 'x \<Rightarrow> chain_log list res"
  write_contract :: "string \<Rightarrow> call_arg list \<Rightarrow> 'x \<Rightarrow> string res \<times> 'x"
  wait_receipt :: "string \<Rightarrow> 'x \<Rightarrow> unit res \<times> 'x"
  gas_price :: "'x \<Rightarrow> int res"
  wallet_balance :: "'x \<Rightarrow> int res"
  block_number :: "'x \<Rightarrow> int res"
  block_transactions :: "int \<Rightarrow> 'x \<Rightarrow> transaction list res"

section \<open>Time and errors\<close>

text \<open>\<open>Math.floor(a / b)\<close> of integers is \<open>div\<close>; \<open>Math.floor(Date.now() / 1000)\<close>.\<close>

definition nowA :: "('x, 'z) platform_scheme \<Rightarrow> ('x, int) act" where
  "nowA p = outA (\<lambda>x. case clock_now p x of (t, x') \<Rightarrow> (Inr t, x'))"

lemma keeps_nowA [keeps_intros]: "keeps (\<lambda>w. kv w k) (nowA p)"
  unfolding nowA_def by (rule keeps_intros)

definition press_error :: "string \<Rightarrow> string \<Rightarrow> exn" where
  "press_error code msg = PressFailure code msg"

lemma press_error_inject [simp]: "press_error c m = press_error c' m' \<longleftrightarrow> c = c' \<and> m = m'"
  by (simp add: press_error_def)

text \<open>The \<open>pressCode\<close> of an error, if it has one.\<close>

fun press_code :: "exn \<Rightarrow> string option" where
  "press_code (PressFailure c m) = Some c"
| "press_code e = None"

lemma press_code_error [simp]: "press_code (press_error c m) = Some c"
  by (simp add: press_error_def)

section \<open>The key-value store\<close>

text \<open>The contract of \<open>KvStore\<close>: what a read returns after each operation.\<close>

locale kv_store =
  fixes getItem :: "string \<Rightarrow> 's \<Rightarrow> js"
    and setItem :: "string \<Rightarrow> js \<Rightarrow> 's \<Rightarrow> 's"
    and removeItem :: "string \<Rightarrow> 's \<Rightarrow> 's"
  assumes get_set: "getItem k (setItem k v s) = nullish v Null"
    and get_set_other: "k' \<noteq> k \<Longrightarrow> getItem k' (setItem k v s) = getItem k' s"
    and get_remove: "getItem k (removeItem k s) = Null"
    and get_remove_other: "k' \<noteq> k \<Longrightarrow> getItem k' (removeItem k s) = getItem k' s"
begin

lemma get_set_if: "getItem k' (setItem k v s) = (if k' = k then nullish v Null else getItem k' s)"
  by (simp add: get_set get_set_other)

lemma set_twice: "getItem k' (setItem k v (setItem k u s)) = getItem k' (setItem k v s)"
  by (simp add: get_set_if)

lemma set_commute: "k \<noteq> l \<Longrightarrow> getItem k' (setItem k v (setItem l u s)) = getItem k' (setItem l u (setItem k v s))"
  by (simp add: get_set_if)

lemma remove_set: "k' \<noteq> k \<Longrightarrow> getItem k' (removeItem k (setItem k v s)) = getItem k' s"
  by (simp add: get_remove_other get_set_other)

end

text \<open>\<open>createInMemoryKv\<close>.\<close>

definition kv_get :: "string \<Rightarrow> (string \<Rightarrow> js option) \<Rightarrow> js" where
  "kv_get k s = (case s k of None \<Rightarrow> Null | Some v \<Rightarrow> nullish v Null)"

definition kv_set :: "string \<Rightarrow> js \<Rightarrow> (string \<Rightarrow> js option) \<Rightarrow> string \<Rightarrow> js option" where
  "kv_set k v s = s(k \<mapsto> v)"

definition kv_remove :: "string \<Rightarrow> (string \<Rightarrow> js option) \<Rightarrow> string \<Rightarrow> js option" where
  "kv_remove k s = s(k := None)"

interpretation kvs: kv_store kv_get kv_set kv_remove
  by unfold_locales (simp_all add: kv_get_def kv_set_def kv_remove_def)

definition kv_increment :: "('x, 'z) platform_scheme \<Rightarrow> string \<Rightarrow> int \<Rightarrow> (string \<Rightarrow> js option) \<Rightarrow> js \<times> (string \<Rightarrow> js option)" where
  "kv_increment p k delta s =
     (let next = js_plus p (nullish (case s k of None \<Rightarrow> Undef | Some v \<Rightarrow> v) (Num (Fin 0))) delta
      in (next, kv_set k next s))"

lemma kv_increment_count:
  "kv_get k s = Num (Fin n) \<Longrightarrow> kv_increment p k d s = (Num (Fin (n + d)), kv_set k (Num (Fin (n + d))) s)"
  "kv_get k s = Null \<Longrightarrow> kv_increment p k d s = (Num (Fin d), kv_set k (Num (Fin d)) s)"
  by (auto simp: kv_increment_def kv_get_def Let_def split: option.splits js.splits)
    (metis js.distinct nullish.simps js_plus.simps(1) add_0 js.exhaust)+

text \<open>The store inside the world.\<close>

definition getItem :: "string \<Rightarrow> ('x, js) act" where
  "getItem k = (\<lambda>w. (Inr (kv_get k (kv w)), w))"

definition setItem :: "string \<Rightarrow> js \<Rightarrow> ('x, unit) act" where
  "setItem k v = (\<lambda>w. (Inr (), w\<lparr>kv := kv_set k v (kv w)\<rparr>))"

definition incrementItem :: "('x, 'z) platform_scheme \<Rightarrow> string \<Rightarrow> ('x, js) act" where
  "incrementItem p k = (\<lambda>w. case kv_increment p k 1 (kv w) of (n, s) \<Rightarrow> (Inr n, w\<lparr>kv := s\<rparr>))"

lemma getItem_run [act_simps]: "getItem k w = (Inr (kv_get k (kv w)), w)"
  by (simp add: getItem_def)

lemma setItem_run [act_simps]: "setItem k v w = (Inr (), w\<lparr>kv := kv_set k v (kv w)\<rparr>)"
  by (simp add: setItem_def)

lemma incrementItem_run [act_simps]:
  "incrementItem p k w = (Inr (fst (kv_increment p k 1 (kv w))), w\<lparr>kv := snd (kv_increment p k 1 (kv w))\<rparr>)"
  by (simp add: incrementItem_def split: prod.split)

lemma keeps_getItem [keeps_intros]: "keeps f (getItem k)"
  by (simp add: keeps_def act_simps)

lemma keeps_setItem [keeps_intros]: "k' \<noteq> k \<Longrightarrow> keeps (\<lambda>w. kv w k') (setItem k v)"
  by (auto simp: keeps_def act_simps kv_set_def)

lemma keeps_incrementItem [keeps_intros]: "k' \<noteq> k \<Longrightarrow> keeps (\<lambda>w. kv w k') (incrementItem p k)"
  by (auto simp: keeps_def act_simps kv_set_def kv_increment_def Let_def)

text \<open>What a successful run went through.\<close>

lemmas run_Inr = bindA_Inr guardA_Inr retA_run throwA_run liftA_run askA_run readA_run outA_run
  getItem_run setItem_run

section \<open>Keys\<close>

definition logHeadKey :: "string \<Rightarrow> string" where
  "logHeadKey policyCid = ''press:log_head:'' @ policyCid"

definition offerKey :: "string \<Rightarrow> string" where
  "offerKey offerCid = ''press:offer:'' @ offerCid"

definition rateEntityKey :: "string \<Rightarrow> string \<Rightarrow> string \<Rightarrow> string \<Rightarrow> int \<Rightarrow> string" where
  "rateEntityKey entityAddress entityType operation policyAddress windowStart =
     ''press:rate:'' @ entityAddress @ '':'' @ entityType @ '':'' @ operation @ '':'' @ policyAddress @
     '':'' @ int_str windowStart"

definition policyWritesKey :: "string \<Rightarrow> int \<Rightarrow> string" where
  "policyWritesKey policyAddress windowStart =
     ''press:policy_writes:'' @ policyAddress @ '':'' @ int_str windowStart"

definition appGasKey :: "string \<Rightarrow> string" where
  "appGasKey appCardAddress = ''press:app_gas:'' @ appCardAddress"

definition reconcileLastBlockKey :: string where
  "reconcileLastBlockKey = ''press:reconcile:last_block''"

definition trustedRootKey :: "string \<Rightarrow> string" where
  "trustedRootKey address = ''press:trusted_root:'' @ address"

text \<open>Keys of different kinds never meet.\<close>

lemma keys_disjoint [simp]:
  "offerKey a \<noteq> rateEntityKey b c d e f" "offerKey a \<noteq> policyWritesKey b f" "offerKey a \<noteq> appGasKey b"
  "appGasKey a \<noteq> rateEntityKey b c d e f" "appGasKey a \<noteq> policyWritesKey b f" "appGasKey a \<noteq> offerKey b"
  "trustedRootKey a \<noteq> rateEntityKey b c d e f" "trustedRootKey a \<noteq> policyWritesKey b f"
  "rateEntityKey b c d e f \<noteq> policyWritesKey b' f'" "policyWritesKey b' f' \<noteq> rateEntityKey b c d e f"
  "rateEntityKey b c d e f \<noteq> offerKey a" "policyWritesKey b f \<noteq> offerKey a"
  "offerKey a @ s \<noteq> rateEntityKey b c d e f" "offerKey a @ s \<noteq> policyWritesKey b f"
  by (simp_all add: offerKey_def rateEntityKey_def policyWritesKey_def appGasKey_def trustedRootKey_def)

lemma keys_inject [simp]:
  "offerKey a = offerKey b \<longleftrightarrow> a = b" "appGasKey a = appGasKey b \<longleftrightarrow> a = b"
  by (simp_all add: offerKey_def appGasKey_def)

end
