(* ===== verification/Press_Ipfs.thy ===== *)
theory Press_Ipfs
  imports Press_Base
begin

text \<open>
  The pinning providers of \<open>press/src/ipfs\<close>: the interface \<open>IpfsPinningProvider\<close> as a
  locale whose law is that a pinned content is read back under its identifier, and its three
  implementations: \<open>mock.ts\<close> (a map), \<open>kubo.ts\<close> and \<open>filebase.ts\<close>, which upload and then
  fetch the content again before they answer. The factory of \<open>index.ts\<close> chooses by the
  configuration.
\<close>

section \<open>The interface\<close>

locale pinning =
  fixes pin :: "bytes \<Rightarrow> 's \<Rightarrow> string res \<times> 's"
    and fetch :: "string \<Rightarrow> 's \<Rightarrow> bytes res"
  assumes pin_fetch: "pin c s = (Inr cid, s') \<Longrightarrow> fetch cid s' = Inr c"
begin

lemma pinned_unique: "pin c s = (Inr cid, s') \<Longrightarrow> fetch cid s' = Inr c' \<Longrightarrow> c' = c"
  by (simp add: pin_fetch)

lemma pin_content: "pin c s = (Inr cid, s') \<Longrightarrow> pin c' t = (Inr cid, s') \<Longrightarrow> c = c'"
  by (metis pin_fetch sum.inject(2))

end

section \<open>Shared steps of the remote providers\<close>

definition drop_slash :: "string \<Rightarrow> string" where
  "drop_slash url = (if url \<noteq> [] \<and> last url = CHR ''/'' then butlast url else url)"

definition fetchByCid :: "('x, 'z) platform_scheme \<Rightarrow> string \<Rightarrow> string \<Rightarrow> 'x \<Rightarrow> bytes res" where
  "fetchByCid p gatewayUrl cid x =
     bindE (gateway_get p (gatewayUrl @ ''/ipfs/'' @ cid) x) (\<lambda>res.
       if \<not> gw_ok res
       then Inl (JsError (''Error: IPFS gateway fetch failed: '' @ cid @ '' -> HTTP '' @ int_str (gw_status res)))
       else Inr (gw_body res))"

fun bytesEqual_from :: "nat \<Rightarrow> bytes \<Rightarrow> bytes \<Rightarrow> bool" where
  "bytesEqual_from 0 a b = True"
| "bytesEqual_from (Suc n) a b = (hd a = hd b \<and> bytesEqual_from n (tl a) (tl b))"

definition bytesEqual :: "bytes \<Rightarrow> bytes \<Rightarrow> bool" where
  "bytesEqual a b = (if length a \<noteq> length b then False else bytesEqual_from (length a) a b)"

lemma bytesEqual_from_iff:
  "length a = n \<Longrightarrow> length b = n \<Longrightarrow> bytesEqual_from n a b \<longleftrightarrow> a = b"
proof (induction n arbitrary: a b)
  case (Suc n)
  then show ?case by (cases a; cases b) simp_all
qed simp

lemma bytesEqual_iff [simp]: "bytesEqual a b \<longleftrightarrow> a = b"
  by (auto simp: bytesEqual_def bytesEqual_from_iff)

text \<open>Fetch the new content again and compare it (the P-10 guard).\<close>

definition validated_cid ::
    "('x, 'z) platform_scheme \<Rightarrow> string \<Rightarrow> bytes \<Rightarrow> string \<Rightarrow> ('x, string) act" where
  "validated_cid p gatewayUrl content cid =
     bindA (catchA (askA (fetchByCid p gatewayUrl cid)) (\<lambda>err. throwA (press_error ''P-10''
              (''CID validation fetch failed after upload: '' @ exn_string err)))) (\<lambda>fetched.
       if \<not> bytesEqual content fetched
       then throwA (press_error ''P-10''
              (''P-10: CID content mismatch - fetched bytes differ from uploaded bytes for CID '' @ cid))
       else retA cid)"

lemma validated_cid_Inr:
  "validated_cid p g c cid w = (Inr r, w') \<longleftrightarrow> r = cid \<and> w' = w \<and> fetchByCid p g cid (ext w) = Inr c"
  unfolding validated_cid_def
  by (auto simp: bindA_Inr act_simps split: if_splits)

section \<open>Kubo\<close>

definition kubo_pinToIPFS :: "('x, 'z) platform_scheme \<Rightarrow> press_config \<Rightarrow> bytes \<Rightarrow> ('x, string) act" where
  "kubo_pinToIPFS p cfg content =
     bindA (catchA (outA (kubo_add p (drop_slash (KUBO_API_URL cfg) @ ''/api/v0/add?cid-version=1&pin=true'') content))
              (\<lambda>err. throwA (press_error ''P-24'' (''Kubo add failed: '' @ exn_string err)))) (\<lambda>res.
     if \<not> ka_ok res then throwA (press_error ''P-24'' (''Kubo add failed: HTTP '' @ int_str (ka_status res)))
     else bindA (liftA (ka_hash res)) (\<lambda>hash. case hash of
         None \<Rightarrow> throwA (press_error ''P-24'' ''Kubo add response did not include a Hash (CID)'')
       | Some cid \<Rightarrow>
           if cid = [] then throwA (press_error ''P-24'' ''Kubo add response did not include a Hash (CID)'')
           else validated_cid p (drop_slash (KUBO_GATEWAY_URL cfg)) content cid))"

definition kubo_fetchFromIPFS :: "('x, 'z) platform_scheme \<Rightarrow> press_config \<Rightarrow> string \<Rightarrow> 'x world \<Rightarrow> bytes res" where
  "kubo_fetchFromIPFS p cfg cid w = fetchByCid p (drop_slash (KUBO_GATEWAY_URL cfg)) cid (ext w)"

definition http_ok :: "int \<Rightarrow> bool" where
  "http_ok st \<longleftrightarrow> 200 \<le> st \<and> st \<le> 299"

definition kubo_checkHealth :: "('x, 'z) platform_scheme \<Rightarrow> press_config \<Rightarrow> ('x, unit) act" where
  "kubo_checkHealth p cfg =
     bindA (catchA (outA (http_post p (drop_slash (KUBO_API_URL cfg) @ ''/api/v0/id'') Undef))
              (\<lambda>err. throwA (JsError (''Error: Kubo health check failed: '' @ exn_string err)))) (\<lambda>st.
       guardA (http_ok st) (JsError (''Error: Kubo health check failed: HTTP '' @ int_str st)))"

section \<open>Filebase\<close>

text \<open>\<open>encodeURIComponent\<close>.\<close>

definition uri_unreserved :: "char \<Rightarrow> bool" where
  "uri_unreserved c \<longleftrightarrow> is_digit c \<or> c \<in> set ''ABCDEFGHIJKLMNOPQRSTUVWXYZabcdefghijklmnopqrstuvwxyz-_.!~*()''
     \<or> c = CHR 0x27"

definition upper_hex :: "nat \<Rightarrow> char" where
  "upper_hex d = (if d < 10 then char_of (48 + d) else char_of (55 + d))"

definition encodeURIComponent :: "string \<Rightarrow> string" where
  "encodeURIComponent s = concat (map (\<lambda>c. if uri_unreserved c then [c]
     else concat (map (\<lambda>b. [CHR ''%'', upper_hex (unat b div 16), upper_hex (unat b mod 16)]) (utf8_char c))) s)"

definition objectUrl :: "press_config \<Rightarrow> string \<Rightarrow> string" where
  "objectUrl cfg key =
     drop_slash (FILEBASE_ENDPOINT cfg) @ ''/'' @ FILEBASE_BUCKET cfg @ ''/'' @ encodeURIComponent key"

definition sha256Hex :: "('e) env_scheme \<Rightarrow> bytes \<Rightarrow> string" where
  "sha256Hex e data = bytes_hex (sha_256 (crypto_ops e) data)"

definition uploadAndCaptureCid :: "('x, 'z) platform_scheme \<Rightarrow> string \<Rightarrow> bytes \<Rightarrow> ('x, string) act" where
  "uploadAndCaptureCid p url content =
     bindA (outA (s3_request p ''PUT'' url content)) (\<lambda>putRes.
     if \<not> s3_ok putRes then throwA (JsError (''Error: PUT '' @ url @ '' failed: HTTP '' @ int_str (s3_status putRes)))
     else bindA (outA (s3_request p ''HEAD'' url [])) (\<lambda>headRes.
       if \<not> s3_ok headRes then throwA (JsError (''Error: HEAD '' @ url @ '' failed: HTTP '' @ int_str (s3_status headRes)))
       else case s3_cid headRes of
           None \<Rightarrow> throwA (JsError (''Error: Filebase did not return an IPFS CID for object '' @ url))
         | Some cid \<Rightarrow>
             if cid = [] then throwA (JsError (''Error: Filebase did not return an IPFS CID for object '' @ url))
             else retA cid))"

definition filebase_pinToIPFS :: "('x, 'z) platform_scheme \<Rightarrow> press_config \<Rightarrow> bytes \<Rightarrow> ('x, string) act" where
  "filebase_pinToIPFS p cfg content =
     (let key = ''press/'' @ take 32 (sha256Hex p content) in
      bindA (catchA (uploadAndCaptureCid p (objectUrl cfg key) content)
               (\<lambda>err. throwA (press_error ''P-24'' (''Filebase upload failed: '' @ exn_string err)))) (\<lambda>cid.
        validated_cid p (FILEBASE_GATEWAY_URL cfg) content cid))"

definition filebase_fetchFromIPFS :: "('x, 'z) platform_scheme \<Rightarrow> press_config \<Rightarrow> string \<Rightarrow> 'x world \<Rightarrow> bytes res" where
  "filebase_fetchFromIPFS p cfg cid w = fetchByCid p (FILEBASE_GATEWAY_URL cfg) cid (ext w)"

definition filebase_checkHealth :: "('x, 'z) platform_scheme \<Rightarrow> press_config \<Rightarrow> ('x, unit) act" where
  "filebase_checkHealth p cfg =
     (let failed = (\<lambda>why. JsError (''Error: Filebase health check failed for bucket '' @ [quote] @
            FILEBASE_BUCKET cfg @ [quote] @ '': '' @ why)) in
      bindA (catchA (outA (s3_request p ''HEAD'' (objectUrl cfg ''__health_check__'') []))
               (\<lambda>err. throwA (failed (exn_string err)))) (\<lambda>res.
        if s3_status res = 404 \<or> s3_ok res then retA ()
        else throwA (failed (''HTTP '' @ int_str (s3_status res)))))"

section \<open>In memory\<close>

definition mock_cid :: "('e) env_scheme \<Rightarrow> bytes \<Rightarrow> string" where
  "mock_cid e content = ''mockcid'' @ take 32 (bytes_hex (sha_256 (crypto_ops e) content))"

definition mock_pinToIPFS :: "('x, 'z) platform_scheme \<Rightarrow> bytes \<Rightarrow> ('x, string) act" where
  "mock_pinToIPFS p content = (\<lambda>w.
     (Inr (mock_cid p content), w\<lparr>pins := (pins w)(mock_cid p content \<mapsto> content)\<rparr>))"

definition mock_fetchFromIPFS :: "string \<Rightarrow> 'x world \<Rightarrow> bytes res" where
  "mock_fetchFromIPFS cid w = (case pins w cid of
     None \<Rightarrow> Inl (JsError (''Error: mock IPFS: no content pinned for CID '' @ cid))
   | Some bs \<Rightarrow> Inr bs)"

section \<open>The provider the configuration selects\<close>

definition pinToIPFS :: "('x, 'z) platform_scheme \<Rightarrow> press_config \<Rightarrow> bytes \<Rightarrow> ('x, string) act" where
  "pinToIPFS p cfg content = (case IPFS_PROVIDER cfg of
     Filebase \<Rightarrow> filebase_pinToIPFS p cfg content
   | Kubo \<Rightarrow> kubo_pinToIPFS p cfg content
   | Mock \<Rightarrow> mock_pinToIPFS p content)"

definition fetchFromIPFS :: "('x, 'z) platform_scheme \<Rightarrow> press_config \<Rightarrow> string \<Rightarrow> 'x world \<Rightarrow> bytes res" where
  "fetchFromIPFS p cfg cid w = (case IPFS_PROVIDER cfg of
     Filebase \<Rightarrow> filebase_fetchFromIPFS p cfg cid w
   | Kubo \<Rightarrow> kubo_fetchFromIPFS p cfg cid w
   | Mock \<Rightarrow> mock_fetchFromIPFS cid w)"

definition checkHealth :: "('x, 'z) platform_scheme \<Rightarrow> press_config \<Rightarrow> ('x, unit) act" where
  "checkHealth p cfg = (case IPFS_PROVIDER cfg of
     Filebase \<Rightarrow> filebase_checkHealth p cfg
   | Kubo \<Rightarrow> kubo_checkHealth p cfg
   | Mock \<Rightarrow> retA ())"

text \<open>Fetch for an identifier read from a request.\<close>

fun fetch_js :: "('x, 'z) platform_scheme \<Rightarrow> press_config \<Rightarrow> js \<Rightarrow> 'x world \<Rightarrow> bytes res" where
  "fetch_js p cfg (Str cid) w = fetchFromIPFS p cfg cid w"
| "fetch_js p cfg v w =
     (if IPFS_PROVIDER cfg = Mock
      then Inl (JsError (''Error: mock IPFS: no content pinned for CID '' @ literal p v))
      else fetchFromIPFS p cfg (literal p v) w)"

section \<open>The implementations keep the contract\<close>

interpretation kubo: pinning "kubo_pinToIPFS p cfg" "kubo_fetchFromIPFS p cfg"
  by unfold_locales
    (auto simp: kubo_pinToIPFS_def kubo_fetchFromIPFS_def bindA_Inr validated_cid_Inr throwA_def
      split: if_splits option.splits)

interpretation filebase: pinning "filebase_pinToIPFS p cfg" "filebase_fetchFromIPFS p cfg"
  by unfold_locales
    (auto simp: filebase_pinToIPFS_def filebase_fetchFromIPFS_def Let_def bindA_Inr validated_cid_Inr)

interpretation mock: pinning "mock_pinToIPFS p" mock_fetchFromIPFS
  by unfold_locales (auto simp: mock_pinToIPFS_def mock_fetchFromIPFS_def)

interpretation ipfs: pinning "pinToIPFS p cfg" "fetchFromIPFS p cfg"
  by unfold_locales
    (auto simp: pinToIPFS_def fetchFromIPFS_def split: ipfs_kind.splits
      intro: kubo.pin_fetch filebase.pin_fetch mock.pin_fetch)

text \<open>Pinning leaves the press's key-value store alone.\<close>

lemma keeps_validated_cid [keeps_intros]: "keeps f (validated_cid p g c cid)"
  unfolding validated_cid_def by (intro keeps_intros)

lemma keeps_pinToIPFS [keeps_intros]: "keeps (\<lambda>w. kv w k) (pinToIPFS p cfg c)"
  unfolding pinToIPFS_def
  by (auto split: ipfs_kind.split option.split
      simp: kubo_pinToIPFS_def filebase_pinToIPFS_def uploadAndCaptureCid_def Let_def
        mock_pinToIPFS_def keeps_def [of _ "\<lambda>w. (Inr x, f w)" for x f]
      intro!: keeps_intros)

end
