(* ===== verification/Press_Crypto.thy ===== *)
theory Press_Crypto
  imports Press_Ipfs
begin

text \<open>
  \<open>press/src/functions/crypto.ts\<close>: the press's signing and sealing functions over the
  third-party primitives, with the contract of authenticated encryption as a locale.
\<close>

section \<open>Functions\<close>

definition mlDsa44Sign :: "('x, 'z) platform_scheme \<Rightarrow> bytes \<Rightarrow> bytes \<Rightarrow> bytes" where
  "mlDsa44Sign p privateKey message = ml_dsa44_sign p message privateKey"

definition secp256r1Sign :: "('x, 'z) platform_scheme \<Rightarrow> string \<Rightarrow> bytes \<Rightarrow> bytes" where
  "secp256r1Sign p privateKeyHex messageHash = p256_sign p (strip_0x privateKeyHex) messageHash"

text \<open>The uncompressed point without its first byte.\<close>

definition secp256r1PublicKeyFromPrivate :: "('x, 'z) platform_scheme \<Rightarrow> string \<Rightarrow> bytes" where
  "secp256r1PublicKeyFromPrivate p privateKeyHex = drop 1 (p256_public_key p (strip_0x privateKeyHex))"

definition keccak256_digest :: "('e) env_scheme \<Rightarrow> bytes \<Rightarrow> bytes" where
  "keccak256_digest e input = keccak_256 (crypto_ops e) input"

text \<open>\<open>Buffer.from(keccak256(bytes)).toString("hex")\<close>.\<close>

definition address_of :: "('e) env_scheme \<Rightarrow> bytes \<Rightarrow> string" where
  "address_of e pubkey = bytes_hex (keccak256_digest e pubkey)"

lemma address_of_keccak256: "address_of e pubkey = keccak256 e pubkey"
  by (simp add: address_of_def keccak256_digest_def keccak256_def)

definition deriveContentKey :: "('e) env_scheme \<Rightarrow> bytes \<Rightarrow> bytes" where
  "deriveContentKey e recipientPubkey = hkdfSha3256 e recipientPubkey ''card-content-v1''"

definition aes256gcmEncrypt :: "('x, 'z) platform_scheme \<Rightarrow> bytes \<Rightarrow> bytes \<Rightarrow> ('x, bytes) act" where
  "aes256gcmEncrypt p key plaintext =
     bindA (outA (\<lambda>x. case random_nonce p x of (n, x') \<Rightarrow> (Inr n, x'))) (\<lambda>nonce.
       retA (nonce @ aes_gcm_seal p key nonce plaintext))"

definition press_aes256gcmDecrypt :: "('e) env_scheme \<Rightarrow> bytes \<Rightarrow> bytes \<Rightarrow> bytes res" where
  "press_aes256gcmDecrypt e key data =
     (if length data < 12 + 16
      then Inl (JsError ''Error: aes256gcmDecrypt: payload too short to contain nonce and GCM tag'')
      else aes_gcm_open (crypto_ops e) key (take 12 data) (drop 12 data))"

definition toBase64url :: "bytes \<Rightarrow> string" where
  "toBase64url bs = bytes_to_base64url bs"

definition pressAddressFromMlDsaPubkey :: "('e) env_scheme \<Rightarrow> bytes \<Rightarrow> bytes" where
  "pressAddressFromMlDsaPubkey e pubkey = keccak256_digest e pubkey"

definition mlDsa44PublicKeyFromPrivate :: "('x, 'z) platform_scheme \<Rightarrow> bytes \<Rightarrow> bytes res" where
  "mlDsa44PublicKeyFromPrivate p privateKey =
     (if length privateKey \<noteq> 2560
      then Inl (JsError (''TypeError: Expected 2560-byte ML-DSA-44 private key, got '' @ nat_str (length privateKey)))
      else Inr (ml_dsa44_public_key p privateKey))"

section \<open>Sealing\<close>

text \<open>
  Authenticated encryption as a client sees it: what was sealed opens under the same key to
  the same content. The press seals, the verifier and the press open.
\<close>

locale sealing =
  fixes seal :: "'k \<Rightarrow> 'n \<Rightarrow> bytes \<Rightarrow> bytes" and open_sealed :: "'k \<Rightarrow> bytes \<Rightarrow> bytes res" and nonce_ok :: "'n \<Rightarrow> bool"
  assumes opens: "nonce_ok n \<Longrightarrow> open_sealed k (seal k n m) = Inr m"
begin

lemma sealed_content: "nonce_ok n \<Longrightarrow> nonce_ok n' \<Longrightarrow> seal k n m = seal k n' m' \<Longrightarrow> m = m'"
  by (metis opens sum.inject(2))

end

text \<open>
  What the code relies on of Web Crypto's AES-GCM: opening inverts sealing under the same key
  and nonce, and the tag is 16 bytes long.
\<close>

definition gcm_ok :: "('x, 'z) platform_scheme \<Rightarrow> bool" where
  "gcm_ok p \<longleftrightarrow> (\<forall>k n m. aes_gcm_open (crypto_ops p) k n (aes_gcm_seal p k n m) = Inr m \<and>
                        16 \<le> length (aes_gcm_seal p k n m))"

definition sealed :: "('x, 'z) platform_scheme \<Rightarrow> bytes \<Rightarrow> bytes \<Rightarrow> bytes \<Rightarrow> bytes" where
  "sealed p key nonce plaintext = nonce @ aes_gcm_seal p key nonce plaintext"

lemma sealed_length: "gcm_ok p \<Longrightarrow> length n = 12 \<Longrightarrow> 28 \<le> length (sealed p k n m)"
proof -
  assume ok: "gcm_ok p" "length n = 12"
  then have "16 \<le> length (aes_gcm_seal p k n m)"
    by (simp add: gcm_ok_def)
  with ok show ?thesis
    by (simp add: sealed_def)
qed

lemma sealed_short: "gcm_ok p \<Longrightarrow> length n = 12 \<Longrightarrow> length (sealed p k n m) < 28 \<longleftrightarrow> False"
  using sealed_length [of p n k m] by simp

lemma gcm_opens: "gcm_ok p \<Longrightarrow> aes_gcm_open (crypto_ops p) k n (aes_gcm_seal p k n m) = Inr m"
  by (simp add: gcm_ok_def)

interpretation press_sealing: sealing "sealed p" "press_aes256gcmDecrypt p" "\<lambda>n. gcm_ok p \<and> length n = 12"
  by unfold_locales (auto simp: press_aes256gcmDecrypt_def sealed_short gcm_opens, simp add: sealed_def gcm_opens)

interpretation verifier_sealing: sealing "sealed p" "aes256gcmDecrypt p" "\<lambda>n. gcm_ok p \<and> length n = 12"
  by unfold_locales (auto simp: aes256gcmDecrypt_def sealed_short gcm_opens, simp add: sealed_def gcm_opens)

lemma aes256gcmEncrypt_run:
  "aes256gcmEncrypt p key m w =
     (Inr (sealed p key (fst (random_nonce p (ext w))) m), w\<lparr>ext := snd (random_nonce p (ext w))\<rparr>)"
  by (simp add: aes256gcmEncrypt_def bindA_def outA_def retA_def sealed_def split: prod.split)

lemma keeps_aes256gcmEncrypt [keeps_intros]: "keeps (\<lambda>w. kv w k) (aes256gcmEncrypt p key m)"
  unfolding aes256gcmEncrypt_def by (intro keeps_intros)

end
