(* ===== verification/Press_Registry.thy ===== *)
theory Press_Registry
  imports Press_Crypto "HOL-Library.Multiset"
begin

text \<open>
  The registry contract client of \<open>press/src/chain/registry.ts\<close>: reads, the event log of a
  card, and the six signed writes with their retries. The main lemmas say what a write that
  succeeded has submitted: a payload for the sequence number the contract reported last,
  signed by the press, in a call whose receipt was awaited.

  Sequence numbers are the contract's 64-bit counters; \<open>Number(sequence)\<close> is exact below
  $2^{53}$, and its rounding above is not modelled.
\<close>

section \<open>Addresses\<close>

definition parse_hex :: "string \<Rightarrow> js_number" where
  "parse_hex s =
     (let s1 = dropWhile is_space s;
          negative = (take 1 s1 = ''-'');
          s2 = (if take 1 s1 = ''-'' \<or> take 1 s1 = ''+'' then drop 1 s1 else s1);
          s3 = (if take 2 s2 = ''0x'' \<or> take 2 s2 = ''0X'' then drop 2 s2 else s2);
          ds = takeWhile is_hex_char s3;
          value = foldl (\<lambda>n c. 16 * n + (let d = (of_char c :: nat) in
                    if d \<le> 57 then d - 48 else if d \<le> 70 then d - 55 else d - 87)) 0 ds in
      if ds = [] then NaN else Fin (if negative then - int value else int value))"

fun byte_of_number :: "js_number \<Rightarrow> byte" where
  "byte_of_number (Fin i) = of_int i"
| "byte_of_number n = 0"

fun hex_pairs :: "string \<Rightarrow> bytes" where
  "hex_pairs (a # b # s) = byte_of_number (parse_hex [a, b]) # hex_pairs s"
| "hex_pairs s = []"

definition hexToBytes :: "string \<Rightarrow> bytes" where
  "hexToBytes hex = hex_pairs (strip_0x hex)"

text \<open>\<open>toBase64url(hexToBytes(address))\<close> in a payload.\<close>

definition address_field :: "string \<Rightarrow> js" where
  "address_field hex = Str (toBase64url (hexToBytes hex))"

definition bytes_field :: "bytes \<Rightarrow> js" where
  "bytes_field bs = Str (toBase64url bs)"

text \<open>The press's on-chain key: the hash of its P-256 public key.\<close>

definition gas_address :: "('x, 'z) platform_scheme \<Rightarrow> press_config \<Rightarrow> string" where
  "gas_address p cfg =
     ''0x'' @ address_of p (secp256r1PublicKeyFromPrivate p (PRESS_SECP256R1_PRIVATE_KEY cfg))"

section \<open>Reads\<close>

definition getCardEntry :: "('x, 'z) platform_scheme \<Rightarrow> string \<Rightarrow> 'x \<Rightarrow> reg_card_entry res" where
  "getCardEntry p cardAddress = read_card_entry p (normalizeHex cardAddress)"

definition getPressAuthorization :: "('x, 'z) platform_scheme \<Rightarrow> string \<Rightarrow> string \<Rightarrow> 'x \<Rightarrow> reg_press_auth res" where
  "getPressAuthorization p policyAddress forPressAddress =
     read_press_auth p (normalizeHex policyAddress) (normalizeHex forPressAddress)"

definition getNextSequence :: "('x, 'z) platform_scheme \<Rightarrow> press_config \<Rightarrow> string \<Rightarrow> 'x \<Rightarrow> int res" where
  "getNextSequence p cfg policyAddress x =
     bindE (getPressAuthorization p policyAddress (gas_address p cfg) x) (\<lambda>auth. Inr (ra_next_sequence auth))"

definition getOpenOfferUseCount :: "('x, 'z) platform_scheme \<Rightarrow> string \<Rightarrow> 'x \<Rightarrow> int res" where
  "getOpenOfferUseCount p offerId = read_open_offer_count p (normalizeHex offerId)"

definition isPolicyAuthorizer :: "('x, 'z) platform_scheme \<Rightarrow> string \<Rightarrow> 'x \<Rightarrow> bool res" where
  "isPolicyAuthorizer p address = read_policy_exists p (normalizeHex address)"

definition getProtocolVersion :: "('x, 'z) platform_scheme \<Rightarrow> 'x \<Rightarrow> string res" where
  "getProtocolVersion p = read_protocol_version p"

definition getSubCardEntry :: "('x, 'z) platform_scheme \<Rightarrow> string \<Rightarrow> 'x \<Rightarrow> reg_sub_card_entry res" where
  "getSubCardEntry p subCardAddress = read_sub_card_entry p (normalizeHex subCardAddress)"

definition getPressEthBalance :: "('x, 'z) platform_scheme \<Rightarrow> 'x \<Rightarrow> int res" where
  "getPressEthBalance p = wallet_balance p"

section \<open>The event log\<close>

record chain_event =
  ce_cid :: bytes
  ce_timestamp :: int
  ce_block :: int
  ce_index :: int

definition chain_event_of :: "chain_log \<Rightarrow> chain_event" where
  "chain_event_of lg = \<lparr>ce_cid = hexToBytes (lg_cid lg), ce_timestamp = lg_timestamp lg,
     ce_block = (case lg_block lg of None \<Rightarrow> 0 | Some b \<Rightarrow> b),
     ce_index = (case lg_index lg of None \<Rightarrow> 0 | Some i \<Rightarrow> i)\<rparr>"

text \<open>The comparator; the sort is stable, as the language requires.\<close>

definition event_compare :: "chain_event \<Rightarrow> chain_event \<Rightarrow> int" where
  "event_compare a b =
     (if ce_block a = ce_block b then ce_index a - ce_index b else ce_block a - ce_block b)"

fun insert_event :: "chain_event \<Rightarrow> chain_event list \<Rightarrow> chain_event list" where
  "insert_event a [] = [a]"
| "insert_event a (b # es) = (if event_compare a b \<le> 0 then a # b # es else b # insert_event a es)"

definition sort_events :: "chain_event list \<Rightarrow> chain_event list" where
  "sort_events es = foldr insert_event es []"

definition getCardEventLog :: "('x, 'z) platform_scheme \<Rightarrow> string \<Rightarrow> 'x \<Rightarrow> (bytes \<times> int) list res" where
  "getCardEventLog p cardAddress x =
     bindE (read_registered_logs p (normalizeHex cardAddress) x) (\<lambda>registeredLogs.
     bindE (read_head_updated_logs p (normalizeHex cardAddress) x) (\<lambda>headUpdatedLogs.
       Inr (map (\<lambda>ev. (ce_cid ev, ce_timestamp ev))
              (sort_events (map chain_event_of registeredLogs @ map chain_event_of headUpdatedLogs)))))"

text \<open>Blocks ascend, and inside a block log indices do.\<close>

definition in_chain_order :: "chain_event \<Rightarrow> chain_event \<Rightarrow> bool" where
  "in_chain_order a b \<longleftrightarrow> ce_block a < ce_block b \<or> ce_block a = ce_block b \<and> ce_index a \<le> ce_index b"

lemma event_compare_order: "event_compare a b \<le> 0 \<longleftrightarrow> in_chain_order a b"
  by (auto simp: event_compare_def in_chain_order_def)

lemma set_insert_event [simp]: "set (insert_event a es) = insert a (set es)"
  by (induction es) auto

lemma sorted_insert_event:
  "sorted_wrt in_chain_order es \<Longrightarrow> sorted_wrt in_chain_order (insert_event a es)"
  by (induction es) (auto simp: event_compare_order, auto simp: in_chain_order_def)

lemma mset_insert_event: "mset (insert_event a es) = add_mset a (mset es)"
  by (induction es) auto

lemma sort_events_sorted: "sorted_wrt in_chain_order (sort_events es)"
  by (induction es) (auto simp: sort_events_def sorted_insert_event)

lemma sort_events_mset: "mset (sort_events es) = mset es"
  by (induction es) (auto simp: sort_events_def mset_insert_event)

lemma sort_events_stable:
  "filter (\<lambda>e. ce_block e = b \<and> ce_index e = i) (sort_events es) =
   filter (\<lambda>e. ce_block e = b \<and> ce_index e = i) es"
proof (induction es)
  case (Cons a es)
  have "filter P (insert_event a xs) = (if P a then a # filter P xs else filter P xs)"
    if "P = (\<lambda>e. ce_block e = b \<and> ce_index e = i)" for xs P
    unfolding that by (induction xs) (auto simp: event_compare_def)
  with Cons show ?case
    by (simp add: sort_events_def)
qed (simp add: sort_events_def)

section \<open>Writes\<close>

text \<open>
  The payload and its signature: the operation, its fields, the press's key, the sequence
  number and the time.
\<close>

definition signed_payload :: "('x, 'z) platform_scheme \<Rightarrow> press_config \<Rightarrow> string \<Rightarrow> (string \<times> js) list \<Rightarrow> int \<Rightarrow> int \<Rightarrow> js" where
  "signed_payload p cfg opn flds seqno now =
     Obj ((''op'', Str opn) # flds @
       [(''press_address'', address_field (gas_address p cfg)), (''sequence'', Num (Fin seqno)),
        (''timestamp'', Str (iso_of_ms p now))])"

definition press_signature :: "('x, 'z) platform_scheme \<Rightarrow> press_config \<Rightarrow> bytes \<Rightarrow> bytes" where
  "press_signature p cfg payloadBytes =
     secp256r1Sign p (PRESS_SECP256R1_PRIVATE_KEY cfg) (keccak256_digest p payloadBytes)"

definition buildAndSignPayload ::
    "('x, 'z) platform_scheme \<Rightarrow> press_config \<Rightarrow> string \<Rightarrow> (string \<times> js) list \<Rightarrow> int \<Rightarrow> ('x, bytes \<times> bytes) act" where
  "buildAndSignPayload p cfg opn flds seqno =
     bindA (nowA p) (\<lambda>now.
     bindA (liftA (canonicalize (signed_payload p cfg opn flds seqno now))) (\<lambda>payloadBytes.
       retA (payloadBytes, press_signature p cfg payloadBytes)))"

text \<open>
  A loop of attempts that re-reads its input when an attempt failed with a certain error, used
  with the sequence number (\<open>submitWithRetry\<close>) and with the card's head (\<open>updateCardHead\<close>);
  \<open>final\<close> is the error thrown after the last attempt.
\<close>

fun retrying ::
    "(exn \<Rightarrow> bool) \<Rightarrow> (exn \<Rightarrow> exn) \<Rightarrow> ('x, 'q) act \<Rightarrow> ('q \<Rightarrow> ('x, 'r) act) \<Rightarrow> nat \<Rightarrow> 'q \<Rightarrow> ('x, 'r) act" where
  "retrying again final refresh attempt 0 q = catchA (attempt q) (\<lambda>err. throwA (final err))"
| "retrying again final refresh attempt (Suc n) q =
     catchA (attempt q) (\<lambda>err.
       if again err then bindA refresh (\<lambda>q'. retrying again final refresh attempt n q')
       else throwA err)"

definition E07_SEQUENCE_MISMATCH :: string where
  "E07_SEQUENCE_MISMATCH = ''SEQUENCE_MISMATCH''"

definition E08_STALE_PREV_CID :: string where
  "E08_STALE_PREV_CID = ''STALE_PREV_CID''"

definition mentions :: "string \<Rightarrow> exn \<Rightarrow> bool" where
  "mentions code err \<longleftrightarrow> infix_of code (exn_string err)"

definition submit_once ::
    "('x, 'z) platform_scheme \<Rightarrow> string \<Rightarrow> (int \<Rightarrow> ('x, call_arg list) act) \<Rightarrow> int \<Rightarrow> ('x, string) act" where
  "submit_once p functionName buildArgs seqno =
     bindA (buildArgs seqno) (\<lambda>args.
     bindA (outA (write_contract p functionName args)) (\<lambda>hash.
     bindA (outA (wait_receipt p hash)) (\<lambda>_. retA hash)))"

definition submitWithRetry ::
    "('x, 'z) platform_scheme \<Rightarrow> press_config \<Rightarrow> string \<Rightarrow> (int \<Rightarrow> ('x, call_arg list) act) \<Rightarrow> string \<Rightarrow> ('x, string) act" where
  "submitWithRetry p cfg functionName buildArgs policyAddress =
     bindA (askA (getNextSequence p cfg policyAddress)) (\<lambda>seqno.
       retrying (mentions E07_SEQUENCE_MISMATCH) id (askA (getNextSequence p cfg policyAddress))
         (submit_once p functionName buildArgs) 1 seqno)"

text \<open>Every write: a signed payload for \<open>flds\<close>, and the arguments made from it.\<close>

definition signed_write ::
    "('x, 'z) platform_scheme \<Rightarrow> press_config \<Rightarrow> string \<Rightarrow> string \<Rightarrow> (string \<times> js) list
      \<Rightarrow> (bytes \<Rightarrow> bytes \<Rightarrow> call_arg list) \<Rightarrow> string \<Rightarrow> ('x, string) act" where
  "signed_write p cfg functionName opn flds args policyAddress =
     submitWithRetry p cfg functionName
       (\<lambda>seqno. bindA (buildAndSignPayload p cfg opn flds seqno) (\<lambda>(payloadBytes, sig). retA (args payloadBytes sig)))
       policyAddress"

definition registerCard ::
    "('x, 'z) platform_scheme \<Rightarrow> press_config \<Rightarrow> string \<Rightarrow> bytes \<Rightarrow> string \<Rightarrow> ('x, string) act" where
  "registerCard p cfg cardAddress initialLogCid policyAddress =
     (let cardHex = normalizeHex cardAddress; policy = normalizeHex policyAddress in
      signed_write p cfg ''registerCard'' ''register_card''
        [(''card_address'', address_field cardHex), (''initial_log_cid'', bytes_field initialLogCid),
         (''policy_address'', address_field policy)]
        (\<lambda>payload sig. [Word_Arg cardHex, Bytes_Arg initialLogCid, Word_Arg policy, Word_Arg (gas_address p cfg),
           Bytes_Arg payload, Bytes_Arg sig])
        policy)"

definition submit_head ::
    "('x, 'z) platform_scheme \<Rightarrow> press_config \<Rightarrow> string \<Rightarrow> bytes \<Rightarrow> string \<Rightarrow> bytes \<Rightarrow> ('x, string) act" where
  "submit_head p cfg cardHex newLogCid policy prevLogCid =
     signed_write p cfg ''updateCardHead'' ''update_card_head''
       [(''card_address'', address_field cardHex), (''prev_log_cid'', bytes_field prevLogCid),
        (''new_log_cid'', bytes_field newLogCid)]
       (\<lambda>payload sig. [Word_Arg cardHex, Bytes_Arg newLogCid, Bytes_Arg prevLogCid, Word_Arg (gas_address p cfg),
          Bytes_Arg payload, Bytes_Arg sig])
       policy"

definition stale_head_error :: exn where
  "stale_head_error = press_error ''P-12'' ''P-12: STALE_PREV_CID on retry - concurrent log head conflict''"

definition updateCardHead ::
    "('x, 'z) platform_scheme \<Rightarrow> press_config \<Rightarrow> string \<Rightarrow> bytes \<Rightarrow> bytes \<Rightarrow> ('x, string) act" where
  "updateCardHead p cfg cardAddress prevLogCid newLogCid =
     (let cardHex = normalizeHex cardAddress in
      bindA (askA (getCardEntry p cardHex)) (\<lambda>entry.
        retrying (mentions E08_STALE_PREV_CID)
          (\<lambda>err. if mentions E08_STALE_PREV_CID err then stale_head_error else err)
          (askA (\<lambda>x. bindE (getCardEntry p cardHex x) (\<lambda>refreshed. Inr (rc_log_head_cid refreshed))))
          (submit_head p cfg cardHex newLogCid (rc_policy_address entry)) 1 prevLogCid))"

definition claimOpenOffer ::
    "('x, 'z) platform_scheme \<Rightarrow> press_config \<Rightarrow> string \<Rightarrow> int \<Rightarrow> int \<Rightarrow> string \<Rightarrow> bytes \<Rightarrow> string \<Rightarrow> ('x, string) act" where
  "claimOpenOffer p cfg offerId maxAcceptances expiresAt cardAddress initialLogCid policyAddress =
     (let offer = normalizeHex offerId; cardHex = normalizeHex cardAddress; policy = normalizeHex policyAddress in
      signed_write p cfg ''claimOpenOffer'' ''claim_open_offer''
        [(''offer_id'', address_field offer), (''card_address'', address_field cardHex),
         (''initial_log_cid'', bytes_field initialLogCid), (''policy_address'', address_field policy)]
        (\<lambda>payload sig. [Word_Arg offer, Int_Arg maxAcceptances, Int_Arg expiresAt, Word_Arg cardHex,
           Bytes_Arg initialLogCid, Word_Arg policy, Word_Arg (gas_address p cfg),
           Bytes_Arg payload, Bytes_Arg sig])
        policy)"

definition ZERO_ADMIN_SECP_SIGNATURE :: bytes where
  "ZERO_ADMIN_SECP_SIGNATURE = replicate 64 0"

definition registerSubCard ::
    "('x, 'z) platform_scheme \<Rightarrow> press_config \<Rightarrow> string \<Rightarrow> string \<Rightarrow> bytes \<Rightarrow> bytes \<Rightarrow> bytes option
      \<Rightarrow> bytes option \<Rightarrow> ('x, string) act" where
  "registerSubCard p cfg subCardAddress masterCardAddress registrationLogHead subCardDocCid
      adminSecpPayload adminSecpSignature =
     (let sub = normalizeHex subCardAddress; master = normalizeHex masterCardAddress in
      bindA (askA (getCardEntry p master)) (\<lambda>masterEntry.
        signed_write p cfg ''registerSubCard'' ''register_sub_card''
          [(''sub_card_address'', address_field sub), (''master_card_address'', address_field master),
           (''registration_log_head'', bytes_field registrationLogHead),
           (''sub_card_doc_cid'', bytes_field subCardDocCid)]
          (\<lambda>payload sig. [Word_Arg sub, Word_Arg master, Bytes_Arg registrationLogHead, Bytes_Arg subCardDocCid,
             Word_Arg (gas_address p cfg), Bytes_Arg payload, Bytes_Arg sig,
             Bytes_Arg (case adminSecpPayload of None \<Rightarrow> [] | Some b \<Rightarrow> b),
             Bytes_Arg (case adminSecpSignature of None \<Rightarrow> ZERO_ADMIN_SECP_SIGNATURE | Some b \<Rightarrow> b)])
          (rc_policy_address masterEntry)))"

definition deregisterSubCard ::
    "('x, 'z) platform_scheme \<Rightarrow> press_config \<Rightarrow> string \<Rightarrow> bytes \<Rightarrow> bytes \<Rightarrow> ('x, string) act" where
  "deregisterSubCard p cfg subCardAddress sigPayload sig =
     (let sub = normalizeHex subCardAddress in
      bindA (askA (getSubCardEntry p sub)) (\<lambda>subEntry.
      bindA (askA (getCardEntry p (rs_master_card_address subEntry))) (\<lambda>masterEntry.
        signed_write p cfg ''deregisterSubCard'' ''deregister_sub_card''
          [(''sub_card_address'', address_field sub)]
          (\<lambda>payload psig. [Word_Arg sub, Word_Arg (gas_address p cfg), Bytes_Arg payload, Bytes_Arg psig,
             Bytes_Arg sigPayload, Bytes_Arg sig])
          (rc_policy_address masterEntry))))"

record batch_update =
  bu_card_address :: string
  bu_prev_log_cid :: bytes
  bu_new_log_cid :: bytes

definition batchUpdateCardHeads ::
    "('x, 'z) platform_scheme \<Rightarrow> press_config \<Rightarrow> string \<Rightarrow> batch_update list \<Rightarrow> ('x, string) act" where
  "batchUpdateCardHeads p cfg policyAddress updates =
     (if updates = [] \<or> num_less (MAX_BATCH_SIZE cfg) (Fin (int (length updates)))
      then throwA (JsError (''Error: BatchUpdateCardHeads: update count '' @ nat_str (length updates) @
             '' out of range [1, '' @ number_text (MAX_BATCH_SIZE cfg) @ '']''))
      else let policy = normalizeHex policyAddress;
               us = map (\<lambda>u. u\<lparr>bu_card_address := normalizeHex (bu_card_address u)\<rparr>) updates in
        signed_write p cfg ''batchUpdateCardHeads'' ''batch_update_card_heads''
          [(''policy_address'', address_field policy),
           (''updates'', Arr (map (\<lambda>u. Obj [(''card_address'', address_field (bu_card_address u)),
              (''prev_log_cid'', bytes_field (bu_prev_log_cid u)), (''new_log_cid'', bytes_field (bu_new_log_cid u))]) us))]
          (\<lambda>payload sig. [Word_Arg policy, Word_Arg (gas_address p cfg), Words_Arg (map bu_card_address us),
             Bytess_Arg (map bu_prev_log_cid us), Bytess_Arg (map bu_new_log_cid us), Bytes_Arg payload, Bytes_Arg sig])
          policy)"

section \<open>What the loop of attempts does\<close>

lemma retrying_Inr:
  "retrying again final refresh attempt n q w = (Inr r, w') \<Longrightarrow>
     \<exists>q' w1. attempt q' w1 = (Inr r, w') \<and>
       (q' = q \<and> w1 = w \<or>
        (\<exists>w0 q0 w2 err. attempt q0 w0 = (Inl err, w2) \<and> again err \<and> refresh w2 = (Inr q', w1)))"
proof (induction n arbitrary: q w)
  case (Suc n)
  from Suc.prems consider (first) "attempt q w = (Inr r, w')"
    | (again) err w2 q1 w3 where "attempt q w = (Inl err, w2)" "again err" "refresh w2 = (Inr q1, w3)"
        "retrying again final refresh attempt n q1 w3 = (Inr r, w')"
    by (auto simp: act_simps split: if_splits)
  then show ?case
  proof cases
    case again
    with Suc.IH [OF again(4)] show ?thesis by blast
  qed blast
qed (auto simp: act_simps)

lemma keeps_retrying [keeps_intros]:
  assumes "keeps f refresh" "\<And>q. keeps f (attempt q)"
  shows "keeps f (retrying again final refresh attempt n q)"
  using assms by (induction n arbitrary: q) (auto intro!: keeps_intros)

text \<open>At most one more attempt than the number of retries is made: the last error is final.\<close>

lemma retrying_zero: "retrying again final refresh attempt 0 q w = (Inl err, w') \<longleftrightarrow>
    (\<exists>e. attempt q w = (Inl e, w') \<and> err = final e)"
  by (auto simp: act_simps)

lemma retrying_once_Inl:
  assumes "retrying again final refresh attempt 1 q w = (Inl err, w')"
  obtains (first) "attempt q w = (Inl err, w')" "\<not> again err"
    | (refresh) e w1 where "attempt q w = (Inl e, w1)" "again e" "refresh w1 = (Inl err, w')"
    | (second) e w1 q' w2 e' where "attempt q w = (Inl e, w1)" "again e" "refresh w1 = (Inr q', w2)"
        "attempt q' w2 = (Inl e', w')" "err = final e'"
proof -
  from assms obtain e w1 where e: "attempt q w = (Inl e, w1)"
    and rest: "(if again e then bindA refresh (retrying again final refresh attempt 0) else throwA e) w1 = (Inl err, w')"
    by (auto simp: catchA_eq)
  show thesis
  proof (cases "again e")
    case True
    then consider "refresh w1 = (Inl err, w')"
      | q' w2 where "refresh w1 = (Inr q', w2)" "retrying again final refresh attempt 0 q' w2 = (Inl err, w')"
      using rest by (auto simp: bindA_eq)
    then show thesis
      by cases (use e True refresh second retrying_zero [of again final refresh attempt] in blast)+
  qed (use e rest first in \<open>simp add: throwA_run\<close>)
qed

section \<open>What a successful write submitted\<close>

text \<open>
  The call as the chain saw it: in state \<open>x0\<close> the contract reported a sequence number, and
  the payload made for it then was signed, submitted and confirmed.
\<close>

definition submitted ::
    "('x, 'z) platform_scheme \<Rightarrow> press_config \<Rightarrow> string \<Rightarrow> string \<Rightarrow> (string \<times> js) list
      \<Rightarrow> (bytes \<Rightarrow> bytes \<Rightarrow> call_arg list) \<Rightarrow> string \<Rightarrow> 'x \<Rightarrow> string \<Rightarrow> 'x \<Rightarrow> bool" where
  "submitted p cfg functionName opn flds args policyAddress x0 hash x' \<longleftrightarrow>
     (\<exists>seqno now x1 payload x2.
        getNextSequence p cfg policyAddress x0 = Inr seqno \<and> clock_now p x0 = (now, x1) \<and>
        canonicalize (signed_payload p cfg opn flds seqno now) = Inr payload \<and>
        write_contract p functionName (args payload (press_signature p cfg payload)) x1 = (Inr hash, x2) \<and>
        wait_receipt p hash x2 = (Inr (), x'))"

lemma submit_once_Inr:
  assumes "submit_once p functionName
     (\<lambda>seqno. bindA (buildAndSignPayload p cfg opn flds seqno) (\<lambda>(payloadBytes, sig). retA (args payloadBytes sig)))
     seqno w = (Inr hash, w')"
    and "getNextSequence p cfg policyAddress (ext w) = Inr seqno"
  shows "submitted p cfg functionName opn flds args policyAddress (ext w) hash (ext w')"
  using assms unfolding submit_once_def buildAndSignPayload_def nowA_def
  by (fastforce simp: bindA_Inr act_simps submitted_def split: prod.splits intro: prod_eqI)

lemma signed_write_Inr:
  assumes "signed_write p cfg functionName opn flds args policyAddress w = (Inr hash, w')"
  shows "\<exists>x0. submitted p cfg functionName opn flds args policyAddress x0 hash (ext w')"
proof -
  let ?attempt = "submit_once p functionName (\<lambda>seqno. bindA (buildAndSignPayload p cfg opn flds seqno)
    (\<lambda>(payloadBytes, sig). retA (args payloadBytes sig)))"
  from assms obtain seqno where seqno: "getNextSequence p cfg policyAddress (ext w) = Inr seqno"
    and run: "retrying (mentions E07_SEQUENCE_MISMATCH) id (askA (getNextSequence p cfg policyAddress)) ?attempt 1 seqno w = (Inr hash, w')"
    unfolding signed_write_def submitWithRetry_def by (auto simp: bindA_Inr act_simps)
  from retrying_Inr [OF run] obtain q w1 where att: "?attempt q w1 = (Inr hash, w')"
    and src: "q = seqno \<and> w1 = w \<or> (\<exists>w2. askA (getNextSequence p cfg policyAddress) w2 = (Inr q, w1))"
    by blast
  from src seqno have "getNextSequence p cfg policyAddress (ext w1) = Inr q"
    by (auto simp: act_simps)
  with submit_once_Inr [OF att] show ?thesis by blast
qed

lemma keeps_signed_write [keeps_intros]:
  "keeps kv (signed_write p cfg functionName opn flds args policyAddress)"
  "keeps pins (signed_write p cfg functionName opn flds args policyAddress)"
  unfolding signed_write_def submitWithRetry_def submit_once_def buildAndSignPayload_def nowA_def
  by (auto intro!: keeps_intros split: prod.splits)

lemma keeps_writes [keeps_intros]:
  "keeps kv (registerCard p cfg a b c)" "keeps pins (registerCard p cfg a b c)"
  "keeps kv (updateCardHead p cfg a b d)" "keeps pins (updateCardHead p cfg a b d)"
  "keeps kv (claimOpenOffer p cfg o1 i j a b c)" "keeps pins (claimOpenOffer p cfg o1 i j a b c)"
  "keeps kv (registerSubCard p cfg a c b d e g)" "keeps pins (registerSubCard p cfg a c b d e g)"
  "keeps kv (deregisterSubCard p cfg a b d)" "keeps pins (deregisterSubCard p cfg a b d)"
  "keeps kv (batchUpdateCardHeads p cfg a us)" "keeps pins (batchUpdateCardHeads p cfg a us)"
  unfolding registerCard_def updateCardHead_def submit_head_def claimOpenOffer_def registerSubCard_def
    deregisterSubCard_def batchUpdateCardHeads_def Let_def
  by (auto intro!: keeps_intros)

end
