(* ===== verification/Press_Gas.thy ===== *)
theory Press_Gas
  imports Press_Registry
begin

text \<open>
  The gas manager of \<open>press/src/chain/gas.ts\<close>: the balance check before a write, the
  pre-funded accounts of apps in the key-value store, and the scan of the chain for transfers
  that fund them. The lemmas give the accounts' arithmetic and show that scanning in batches
  of a hundred blocks visits every block once, in order.
\<close>

section \<open>Costs and checks\<close>

definition GAS_ESTIMATES :: "string \<Rightarrow> int option" where
  "GAS_ESTIMATES = map_of [(''RegisterCard'', 200000), (''UpdateCardHead'', 80000), (''ClaimOpenOffer'', 220000),
     (''RegisterSubCard'', 150000), (''DeregisterSubCard'', 100000), (''BatchUpdateCardHeads'', 500000)]"

definition estimatedCostWei :: "('x, 'z) platform_scheme \<Rightarrow> string \<Rightarrow> 'x \<Rightarrow> int res" where
  "estimatedCostWei p operation x =
     bindE (gas_price p x) (\<lambda>gasPrice.
       Inr ((case GAS_ESTIMATES operation of None \<Rightarrow> 200000 | Some u \<Rightarrow> u) * gasPrice))"

definition checkGasBalance :: "('x, 'z) platform_scheme \<Rightarrow> string \<Rightarrow> ('x, unit) act" where
  "checkGasBalance p operation =
     bindA (askA (getPressEthBalance p)) (\<lambda>balance.
     bindA (askA (estimatedCostWei p operation)) (\<lambda>cost.
       if balance < cost
       then throwA (press_error ''P-20'' (''P-20: Insufficient ETH balance for '' @ operation @ ''. Have '' @
              int_str balance @ '' wei, need ~'' @ int_str cost @ '' wei.''))
       else retA ()))"

record gas_check =
  sufficient :: bool
  sponsor :: bool

text \<open>\<open>record ? BigInt(record.balance_wei) : 0n\<close>.\<close>

definition record_balance :: "('x, 'z) platform_scheme \<Rightarrow> js \<Rightarrow> int res" where
  "record_balance p stored =
     (if truthy stored then bindE (js_prop stored ''balance_wei'') (to_bigint p) else Inr 0)"

definition checkAppGasBalance :: "('x, 'z) platform_scheme \<Rightarrow> string \<Rightarrow> string \<Rightarrow> ('x, gas_check) act" where
  "checkAppGasBalance p appCardAddress operation =
     bindA (getItem (appGasKey appCardAddress)) (\<lambda>stored.
     bindA (liftA (record_balance p stored)) (\<lambda>balance.
       if operation = ''DeregisterSubCard'' \<and> balance = 0 then retA \<lparr>sufficient = False, sponsor = True\<rparr>
       else bindA (askA (estimatedCostWei p operation)) (\<lambda>cost.
              retA \<lparr>sufficient = (cost \<le> balance), sponsor = False\<rparr>)))"

section \<open>Accounts\<close>

definition gas_record :: "int \<Rightarrow> js \<Rightarrow> js \<Rightarrow> js" where
  "gas_record balance funded debited =
     Obj [(''balance_wei'', Str (int_str balance)), (''last_funded_at'', funded), (''last_debited_at'', debited)]"

definition creditAppGasAccount :: "('x, 'z) platform_scheme \<Rightarrow> string \<Rightarrow> int \<Rightarrow> ('x, unit) act" where
  "creditAppGasAccount p appCardAddress weiAmount =
     bindA (getItem (appGasKey appCardAddress)) (\<lambda>existing.
     bindA (liftA (record_balance p existing)) (\<lambda>current.
     bindA (nowA p) (\<lambda>now.
     bindA (liftA (opt_prop existing ''last_debited_at'')) (\<lambda>debited.
       setItem (appGasKey appCardAddress)
         (gas_record (current + weiAmount) (Num (Fin (now div 1000))) (nullish debited Null))))))"

definition debitAppGasAccount :: "('x, 'z) platform_scheme \<Rightarrow> string \<Rightarrow> int \<Rightarrow> ('x, unit) act" where
  "debitAppGasAccount p appCardAddress weiSpent =
     bindA (getItem (appGasKey appCardAddress)) (\<lambda>existing.
     bindA (liftA (record_balance p existing)) (\<lambda>current.
     bindA (liftA (opt_prop existing ''last_funded_at'')) (\<lambda>funded.
     bindA (nowA p) (\<lambda>now.
       setItem (appGasKey appCardAddress)
         (gas_record (if current > weiSpent then current - weiSpent else 0) (nullish funded Null)
            (Num (Fin (now div 1000))))))))"

section \<open>Transfers\<close>

definition extractAppCardFromCalldata :: "string \<Rightarrow> string option" where
  "extractAppCardFromCalldata calldata =
     (let raw = strip_0x calldata in
      if hex64 raw then Some (''0x'' @ to_lower raw) else None)"

text \<open>The account a transaction funds, if it is a transfer to the press with an app's address.\<close>

definition funded_account :: "('x, 'z) platform_scheme \<Rightarrow> press_config \<Rightarrow> transaction \<Rightarrow> string option" where
  "funded_account p cfg tx =
     (if map_option to_lower (tx_to tx) \<noteq> Some (to_lower (eth_address p (normalizeHex (PRESS_SECP256R1_PRIVATE_KEY cfg))))
      then None
      else if tx_value tx = 0 then None
      else extractAppCardFromCalldata (tx_input tx))"

definition credit_transaction :: "('x, 'z) platform_scheme \<Rightarrow> press_config \<Rightarrow> transaction \<Rightarrow> ('x, unit) act" where
  "credit_transaction p cfg tx =
     (case funded_account p cfg tx of
        None \<Rightarrow> retA ()
      | Some appAddr \<Rightarrow> creditAppGasAccount p appAddr (tx_value tx))"

text \<open>One block; whatever is thrown while it is read or credited is logged and forgotten.\<close>

definition poll_block :: "('x, 'z) platform_scheme \<Rightarrow> press_config \<Rightarrow> int \<Rightarrow> ('x, unit) act" where
  "poll_block p cfg n =
     catchA (bindA (askA (block_transactions p n)) (\<lambda>txs.
             forA (credit_transaction p cfg) txs))
       (\<lambda>err. retA ())"

definition BATCH :: int where
  "BATCH = 100"

function poll_batches :: "('x, 'z) platform_scheme \<Rightarrow> press_config \<Rightarrow> int \<Rightarrow> int \<Rightarrow> ('x, unit) act" where
  "poll_batches p cfg latestBlock cursor =
     (if cursor \<le> latestBlock then
        let to = (if cursor + BATCH - 1 < latestBlock then cursor + BATCH - 1 else latestBlock) in
        bindA (forA (poll_block p cfg) [cursor .. to]) (\<lambda>_. poll_batches p cfg latestBlock (to + 1))
      else retA ())"
  by pat_completeness auto

termination
  by (relation "measure (\<lambda>(p, cfg, latest, cursor). nat (latest + 1 - cursor))") (auto simp: BATCH_def)

declare poll_batches.simps [simp del]

definition pollEthTransfers :: "('x, 'z) platform_scheme \<Rightarrow> press_config \<Rightarrow> int \<Rightarrow> ('x, int) act" where
  "pollEthTransfers p cfg fromBlock =
     bindA (askA (block_number p)) (\<lambda>latestBlock.
       if fromBlock > latestBlock then retA latestBlock
       else bindA (poll_batches p cfg latestBlock fromBlock) (\<lambda>_. retA latestBlock))"

section \<open>Batches are invisible\<close>

lemma upto_split_at: "i \<le> m + 1 \<Longrightarrow> m \<le> j \<Longrightarrow> [i .. j] = [i .. m] @ [m + 1 .. j :: int]"
  using upto_split2 [of i m j] by (cases "i = m + 1") auto

lemma poll_batches_all: "poll_batches p cfg latest cursor = forA (poll_block p cfg) [cursor .. latest]"
proof (induction p cfg latest cursor rule: poll_batches.induct)
  case (1 p cfg latest cursor)
  show ?case
  proof (cases "cursor \<le> latest")
    case True
    define to where "to = (if cursor + BATCH - 1 < latest then cursor + BATCH - 1 else latest)"
    have "[cursor .. latest] = [cursor .. to] @ [to + 1 .. latest]"
      using True by (intro upto_split_at) (auto simp: to_def BATCH_def)
    moreover have "poll_batches p cfg latest cursor =
        bindA (forA (poll_block p cfg) [cursor .. to]) (\<lambda>_. poll_batches p cfg latest (to + 1))"
      using True by (simp add: poll_batches.simps [of p cfg latest cursor] to_def Let_def)
    ultimately show ?thesis
      using 1 [OF True to_def] by (simp add: forA_append)
  qed (simp add: poll_batches.simps [of p cfg latest cursor])
qed

section \<open>The arithmetic of accounts\<close>

definition app_balance :: "('x, 'z) platform_scheme \<Rightarrow> 'x world \<Rightarrow> string \<Rightarrow> int res" where
  "app_balance p w app = record_balance p (kv_get (appGasKey app) (kv w))"

lemma record_balance_gas_record [simp]: "record_balance p (gas_record b f d) = Inr b"
  by (simp add: record_balance_def gas_record_def lookup_key_def del: to_bigint.simps)

lemma nullish_gas_record [simp]: "nullish (gas_record b f d) v = gas_record b f d"
  by (simp add: gas_record_def)

lemma opt_prop_total: "\<exists>v. opt_prop s k = Inr v"
  by (cases s) auto

lemma app_balance_set:
  "app_balance p (w\<lparr>ext := x, kv := kv_set (appGasKey a) (gas_record b f d) s\<rparr>) c =
     (if c = a then Inr b else record_balance p (kv_get (appGasKey c) s))"
  by (simp add: app_balance_def kvs.get_set_if)

lemma credit_run:
  assumes "app_balance p w a = Inr b"
  shows "\<exists>w'. creditAppGasAccount p a v w = (Inr (), w') \<and> ext w' = snd (clock_now p (ext w)) \<and>
     (\<forall>c. app_balance p w' c = (if c = a then Inr (b + v) else app_balance p w c)) \<and>
     (\<forall>k. k \<noteq> appGasKey a \<longrightarrow> kv w' k = kv w k)"
proof -
  obtain d where d: "opt_prop (kv_get (appGasKey a) (kv w)) ''last_debited_at'' = Inr d"
    using opt_prop_total by blast
  have "creditAppGasAccount p a v w = (Inr (), w\<lparr>ext := snd (clock_now p (ext w)),
      kv := kv_set (appGasKey a) (gas_record (b + v) (Num (Fin (fst (clock_now p (ext w)) div 1000))) (nullish d Null)) (kv w)\<rparr>)"
    using assms d unfolding creditAppGasAccount_def nowA_def app_balance_def
    by (simp add: bindA_def act_simps split: prod.split)
  then show ?thesis
    by (auto simp: app_balance_set, auto simp: app_balance_def kv_set_def)
qed

lemma debit_run:
  assumes "app_balance p w a = Inr b"
  shows "\<exists>w'. debitAppGasAccount p a v w = (Inr (), w') \<and>
     (\<forall>c. app_balance p w' c = (if c = a then Inr (max 0 (b - v)) else app_balance p w c)) \<and>
     (\<forall>k. k \<noteq> appGasKey a \<longrightarrow> kv w' k = kv w k)"
proof -
  obtain f where f: "opt_prop (kv_get (appGasKey a) (kv w)) ''last_funded_at'' = Inr f"
    using opt_prop_total by blast
  have "debitAppGasAccount p a v w = (Inr (), w\<lparr>ext := snd (clock_now p (ext w)),
      kv := kv_set (appGasKey a) (gas_record (max 0 (b - v)) (nullish f Null)
        (Num (Fin (fst (clock_now p (ext w)) div 1000)))) (kv w)\<rparr>)"
    using assms f unfolding debitAppGasAccount_def nowA_def app_balance_def
    by (simp add: bindA_def act_simps split: prod.split)
  then show ?thesis
    by (auto simp: app_balance_set, auto simp: app_balance_def kv_set_def)
qed

text \<open>What the transactions of a list add to an account.\<close>

definition credited :: "('x, 'z) platform_scheme \<Rightarrow> press_config \<Rightarrow> string \<Rightarrow> transaction list \<Rightarrow> int" where
  "credited p cfg app txs = sum_list (map tx_value (filter (\<lambda>tx. funded_account p cfg tx = Some app) txs))"

lemma credited_simps [simp]:
  "credited p cfg app [] = 0"
  "credited p cfg app (tx # txs) = (if funded_account p cfg tx = Some app then tx_value tx else 0) + credited p cfg app txs"
  "credited p cfg app (txs @ txs') = credited p cfg app txs + credited p cfg app txs'"
  by (simp_all add: credited_def)

text \<open>Only the clock runs on while transfers are credited, and blocks do not change with it.\<close>

definition blocks_immutable :: "('x, 'z) platform_scheme \<Rightarrow> bool" where
  "blocks_immutable p \<longleftrightarrow> (\<forall>x n. block_transactions p n (snd (clock_now p x)) = block_transactions p n x)"

definition same_blocks :: "('x, 'z) platform_scheme \<Rightarrow> 'x world \<Rightarrow> 'x world \<Rightarrow> bool" where
  "same_blocks p w w' \<longleftrightarrow> (\<forall>n. block_transactions p n (ext w') = block_transactions p n (ext w))"

lemma credit_transactions_run:
  assumes "blocks_immutable p" "\<And>app. app_balance p w app = Inr (b app)"
  shows "\<exists>w'. forA (credit_transaction p cfg) txs w = (Inr (), w') \<and> same_blocks p w w' \<and>
     (\<forall>app. app_balance p w' app = Inr (b app + credited p cfg app txs)) \<and>
     (\<forall>k. (\<forall>app. k \<noteq> appGasKey app) \<longrightarrow> kv w' k = kv w k)"
  using assms(2)
proof (induction txs arbitrary: w b)
  case (Cons tx txs)
  let ?add = "\<lambda>app. if funded_account p cfg tx = Some app then tx_value tx else 0"
  obtain w1 where w1: "credit_transaction p cfg tx w = (Inr (), w1)" "same_blocks p w w1"
      "\<And>app. app_balance p w1 app = Inr (b app + ?add app)"
      "\<And>k. (\<forall>app. k \<noteq> appGasKey app) \<Longrightarrow> kv w1 k = kv w k"
  proof (cases "funded_account p cfg tx")
    case None
    with Cons.prems show thesis
      by (intro that [of w]) (simp_all add: credit_transaction_def retA_def same_blocks_def)
  next
    case (Some a)
    from credit_run [OF Cons.prems [of a], of "tx_value tx"] obtain w1 where
      "creditAppGasAccount p a (tx_value tx) w = (Inr (), w1)" "ext w1 = snd (clock_now p (ext w))"
      "\<And>c. app_balance p w1 c = (if c = a then Inr (b a + tx_value tx) else app_balance p w c)"
      "\<And>k. k \<noteq> appGasKey a \<Longrightarrow> kv w1 k = kv w k" by blast
    with Some Cons.prems assms(1) show thesis
      by (intro that [of w1]) (simp_all add: credit_transaction_def same_blocks_def blocks_immutable_def)
  qed
  from Cons.IH [of w1, OF w1(3)] obtain w2 where w2: "forA (credit_transaction p cfg) txs w1 = (Inr (), w2)"
      "same_blocks p w1 w2" "\<And>app. app_balance p w2 app = Inr (b app + ?add app + credited p cfg app txs)"
      "\<And>k. (\<forall>app. k \<noteq> appGasKey app) \<Longrightarrow> kv w2 k = kv w1 k"
    by blast
  have "forA (credit_transaction p cfg) (tx # txs) w = (Inr (), w2)"
    using w1(1) w2(1) by (simp add: bindA_def)
  with w1 w2 show ?case
    by (intro exI [of _ w2]) (simp add: same_blocks_def add.assoc)
qed (simp add: retA_def same_blocks_def)

text \<open>The transactions a scan sees: none in a block that cannot be read.\<close>

definition seen_transactions :: "('x, 'z) platform_scheme \<Rightarrow> 'x \<Rightarrow> int list \<Rightarrow> transaction list" where
  "seen_transactions p x ns =
     concat (map (\<lambda>n. case block_transactions p n x of Inl e \<Rightarrow> [] | Inr txs \<Rightarrow> txs) ns)"

lemma seen_transactions_same: "same_blocks p w w' \<Longrightarrow> seen_transactions p (ext w') ns = seen_transactions p (ext w) ns"
  by (simp add: seen_transactions_def same_blocks_def)

lemma poll_blocks_run:
  assumes "blocks_immutable p" "\<And>app. app_balance p w app = Inr (b app)"
  shows "\<exists>w'. forA (poll_block p cfg) ns w = (Inr (), w') \<and> same_blocks p w w' \<and>
     (\<forall>app. app_balance p w' app = Inr (b app + credited p cfg app (seen_transactions p (ext w) ns))) \<and>
     (\<forall>k. (\<forall>app. k \<noteq> appGasKey app) \<longrightarrow> kv w' k = kv w k)"
  using assms(2)
proof (induction ns arbitrary: w b)
  case (Cons n ns)
  let ?txs = "case block_transactions p n (ext w) of Inl e \<Rightarrow> [] | Inr txs \<Rightarrow> txs"
  from credit_transactions_run [OF assms(1) Cons.prems, of cfg ?txs] obtain w1 where
    w1: "forA (credit_transaction p cfg) ?txs w = (Inr (), w1)" "same_blocks p w w1"
      "\<And>app. app_balance p w1 app = Inr (b app + credited p cfg app ?txs)"
      "\<And>k. (\<forall>app. k \<noteq> appGasKey app) \<Longrightarrow> kv w1 k = kv w k" by blast
  have block: "poll_block p cfg n w = (Inr (), w1)"
    using w1(1) by (cases "block_transactions p n (ext w)")
      (simp_all add: poll_block_def catchA_def bindA_def askA_def retA_def)
  from Cons.IH [of w1, OF w1(3)] obtain w2 where w2: "forA (poll_block p cfg) ns w1 = (Inr (), w2)"
      "same_blocks p w1 w2"
      "\<And>app. app_balance p w2 app = Inr (b app + credited p cfg app ?txs + credited p cfg app (seen_transactions p (ext w1) ns))"
      "\<And>k. (\<forall>app. k \<noteq> appGasKey app) \<Longrightarrow> kv w2 k = kv w1 k" by blast
  have "forA (poll_block p cfg) (n # ns) w = (Inr (), w2)"
    using block w2(1) by (simp add: bindA_def)
  with w1(2,4) w2(2-4) show ?case
    by (intro exI [of _ w2]) (simp add: seen_transactions_same [OF w1(2)], simp add: same_blocks_def seen_transactions_def)
qed (simp add: retA_def same_blocks_def seen_transactions_def)

end
