(* ===== verification/Press_Context.thy ===== *)
theory Press_Context
  imports Press_Gas
begin

text \<open>
  \<open>press/src/context.ts\<close>: the adapter that presents the registry client and the trusted
  roots of the key-value store as the verifier's \<open>RpcProvider\<close>, and the verifier the press
  builds on it. The press only calls \<open>verifyCard\<close> without a public key; the last lemma says
  what such a call can answer here.
\<close>

section \<open>The adapter\<close>

definition cid_char :: "char \<Rightarrow> bool" where
  "cid_char c \<longleftrightarrow> c \<in> set base64url_chars \<or> c = CHR ''+'' \<or> c = CHR ''/'' \<or> c = CHR ''=''"

text \<open>The test \<open>/^[a-zA-Z0-9+/=_-]+$/\<close> and more than ten characters.\<close>

definition cidBytesToString :: "('x, 'z) platform_scheme \<Rightarrow> bytes \<Rightarrow> string" where
  "cidBytesToString p bs =
     (if bs = [] then []
      else let str = utf8_decode p bs in
        if list_all cid_char str \<and> 10 < length str then str else toBase64url bs)"

definition zero_bytes32 :: string where
  "zero_bytes32 = ''0x'' @ replicate 64 (CHR ''0'')"

definition adapter_card_entry :: "('x, 'z) platform_scheme \<Rightarrow> 'x \<Rightarrow> string \<Rightarrow> card_entry option" where
  "adapter_card_entry p x address =
     (case getCardEntry p address x of
        Inl e \<Rightarrow> None
      | Inr entry \<Rightarrow>
          if \<not> rc_exists entry then None
          else Some \<lparr>ce_log_head_cid = cidBytesToString p (rc_log_head_cid entry),
                 ce_policy_address = rc_policy_address entry,
                 ce_last_press_address = rc_last_press_address entry,
                 ce_forward_to = (if rc_forward_to entry = zero_bytes32 then None else Some (rc_forward_to entry)),
                 ce_exists = rc_exists entry\<rparr>)"

definition adapter_policy_authorizer :: "('x, 'z) platform_scheme \<Rightarrow> 'x world \<Rightarrow> string \<Rightarrow> bool" where
  "adapter_policy_authorizer p w address =
     (isPolicyAuthorizer p address (ext w) = Inr True \<or>
      kv_get (trustedRootKey (to_lower address)) (kv w) = Bool True)"

definition adapter_press_authorization ::
    "('x, 'z) platform_scheme \<Rightarrow> 'x \<Rightarrow> string \<Rightarrow> string \<Rightarrow> press_auth_entry option" where
  "adapter_press_authorization p x policyAddress pressAddress =
     (case getPressAuthorization p policyAddress pressAddress x of
        Inl e \<Rightarrow> None
      | Inr entry \<Rightarrow>
          if \<not> ra_active entry then None
          else Some \<lparr>pa_press_public_key = toBase64url (ra_press_public_key entry),
                 pa_mldsa44_key_hash = ra_mldsa44_key_hash entry, pa_active = ra_active entry,
                 pa_authorized_at = int_str (ra_authorized_at entry),
                 pa_revoked_at = (if ra_revoked_at entry = 0 then None else Some (int_str (ra_revoked_at entry)))\<rparr>)"

definition adapter_sub_card_entry :: "('x, 'z) platform_scheme \<Rightarrow> 'x \<Rightarrow> string \<Rightarrow> sub_card_entry option" where
  "adapter_sub_card_entry p x subCardAddress =
     (case getSubCardEntry p subCardAddress x of
        Inl e \<Rightarrow> None
      | Inr entry \<Rightarrow>
          Some \<lparr>sc_master_card_address = rs_master_card_address entry,
             sc_registration_log_head = cidBytesToString p (rs_registration_log_head entry),
             sc_sub_card_doc_cid = cidBytesToString p (rs_sub_card_doc_cid entry),
             sc_active = rs_active entry, sc_registered_at = int_str (rs_registered_at entry),
             sc_deregistered_at =
               (if rs_deregistered_at entry = 0 then None else Some (int_str (rs_deregistered_at entry)))\<rparr>)"

definition adapter_event_log :: "('x, 'z) platform_scheme \<Rightarrow> 'x \<Rightarrow> string \<Rightarrow> card_chain_event list res" where
  "adapter_event_log p x cardAddress =
     bindE (getCardEventLog p cardAddress x) (mapE (\<lambda>(cid, timestamp).
       case time_clip (timestamp * 1000) of
         Fin ms \<Rightarrow> Inr \<lparr>ev_cid = cidBytesToString p cid, ev_timestamp = iso_of_ms p ms\<rparr>
       | _ \<Rightarrow> Inl (JsError ''RangeError: Invalid time value'')))"

definition createRpcProvider :: "('x, 'z) platform_scheme \<Rightarrow> 'x world \<Rightarrow> rpc_provider" where
  "createRpcProvider p w =
     \<lparr>get_card_entry = (\<lambda>a. Inr (adapter_card_entry p (ext w) a)),
      is_policy_authorizer = (\<lambda>a. Inr (adapter_policy_authorizer p w a)),
      get_press_authorization = (\<lambda>a b. Inr (adapter_press_authorization p (ext w) a b)),
      get_sub_card_entry = (\<lambda>a. Inr (adapter_sub_card_entry p (ext w) a)),
      get_card_event_log = adapter_event_log p (ext w),
      get_eas_annotations = (\<lambda>a as. Inr [])\<rparr>"

definition createIpfsProviderAdapter :: "('x, 'z) platform_scheme \<Rightarrow> press_config \<Rightarrow> 'x world \<Rightarrow> ipfs_provider" where
  "createIpfsProviderAdapter p cfg w = \<lparr>ipfs_fetch = (\<lambda>cid. fetchFromIPFS p cfg cid w)\<rparr>"

section \<open>The verifier of the press\<close>

definition press_verifier_config :: "('x, 'z) platform_scheme \<Rightarrow> press_config \<Rightarrow> 'x world \<Rightarrow> verifier_config" where
  "press_verifier_config p cfg w =
     \<lparr>vc_rpc = Some (createRpcProvider p w), vc_ipfs = Some (createIpfsProviderAdapter p cfg w),
      vc_appCertificationRoot = None, vc_trustedRoots = Some (PRESS_POLICY_CIDS cfg),
      vc_revocationFreshnessWindowSeconds = Some (STALENESS_WINDOW_SECONDS cfg),
      vc_rejectStaleRevocation = Some True, vc_maxChainDepth = None, vc_registryEndpoint = None,
      vc_fetchAnnotations = Some False, vc_additionalAnnotators = None, vc_returnChain = None,
      vc_conditions = None\<rparr>"

definition buildCardVerifier :: "('x, 'z) platform_scheme \<Rightarrow> press_config \<Rightarrow> 'x world \<Rightarrow> config res" where
  "buildCardVerifier p cfg w = new_card_verifier (press_verifier_config p cfg w)"

text \<open>The platform with the clock readings of a verification that runs now.\<close>

definition clocked :: "('x, 'z) platform_scheme \<Rightarrow> 'x \<Rightarrow> ('x, 'z) platform_scheme" where
  "clocked p x = (case verify_clock p x of (f, c, t) \<Rightarrow>
     p\<lparr>fetched_at := f, checked_at := c, now_iso := t\<rparr>)"

text \<open>
  \<open>verifier.verifyCard(address)\<close> of a value read from a request: an address that is not a
  string makes every registry call throw, which the adapter answers as a missing card.
\<close>

definition press_verifyCard :: "('x, 'z) platform_scheme \<Rightarrow> press_config \<Rightarrow> js \<Rightarrow> ('x, card_result) act" where
  "press_verifyCard p cfg address = (\<lambda>w.
     (bindE (buildCardVerifier p cfg w) (\<lambda>vc. case address of
        Str a \<Rightarrow> verifyCard (clocked p (ext w)) vc a None
      | _ \<Rightarrow> skippedResult (clocked p (ext w)) vc (literal p address)
               [verr 2 ''CARD_NOT_FOUND'' (''Card not found: '' @ literal p address)]), w))"

section \<open>What a keyless verification answers\<close>

lemma buildCardVerifier_Inr:
  "\<exists>vc. buildCardVerifier p cfg w = Inr vc \<and> rpc vc = createRpcProvider p w \<and>
     trustedRoots vc = PRESS_POLICY_CIDS cfg \<and> conditions vc = None \<and> fetchAnnotations vc = False"
  by (simp add: buildCardVerifier_def new_card_verifier_def press_verifier_config_def default_to_def)

text \<open>A card the press trusts: it exists and its address is a configured or registered root.\<close>

definition press_root :: "('x, 'z) platform_scheme \<Rightarrow> press_config \<Rightarrow> 'x world \<Rightarrow> string \<Rightarrow> bool" where
  "press_root p cfg w a \<longleftrightarrow>
     adapter_card_entry p (ext w) a \<noteq> None \<and> (a \<in> set (PRESS_POLICY_CIDS cfg) \<or> adapter_policy_authorizer p w a)"

lemma keeps_press_verifyCard [keeps_intros]: "keeps f (press_verifyCard p cfg v)"
  by (simp add: keeps_def press_verifyCard_def)

lemma press_verifyCard_Inr:
  assumes "press_verifyCard p cfg v w = (Inr r, w')"
  shows "w' = w \<and> sr_is_currently_valid r = Skipped \<and>
     (sr_chain_reaches_trusted_root r = Flag True \<longrightarrow>
        (\<exists>a. v = Str a \<and> press_root p cfg w a) \<and>
        rs_data_freshness_seconds (sr_revocation r) =
          (checked_at (clocked p (ext w)) - fetched_at (clocked p (ext w))) div 1000)"
proof -
  obtain vc where vc: "buildCardVerifier p cfg w = Inr vc" "rpc vc = createRpcProvider p w"
    "trustedRoots vc = PRESS_POLICY_CIDS cfg" using buildCardVerifier_Inr by blast
  show ?thesis
  proof (cases "\<exists>a. v = Str a")
    case True
    then obtain a where a: "v = Str a" by blast
    with assms vc have "verifyCard (clocked p (ext w)) vc a None = Inr r" "w' = w"
      by (auto simp: press_verifyCard_def)
    from verifyCard_keyless [OF this(1)] this(2) a vc show ?thesis
      by (auto simp: createRpcProvider_def trusted_root_def press_root_def live_entry_def split: if_splits option.splits)
  next
    case False
    with assms vc show ?thesis
      by (cases v) (auto simp: press_verifyCard_def skippedResult_def bindE_eq_Inr)
  qed
qed

end
