(* ===== verification/Press_Predicates.thy ===== *)
theory Press_Predicates
  imports Press_Context
begin

text \<open>
  \<open>press/src/functions/predicates.ts\<close>: the predicates on requester and recipient, and the
  rate limits with their counters in the key-value store. The lemmas say what a passed check
  means, what a recorded write changes, and when the granting agency is alerted.
\<close>

section \<open>Predicates\<close>

definition evaluatePredicate :: "js \<Rightarrow> card_result \<Rightarrow> bool res" where
  "evaluatePredicate predicate result =
     bindE (js_prop predicate ''type'') (\<lambda>ty.
       if ty = Str ''chain_valid''
       then Inr (sr_chain_reaches_trusted_root result = Flag True \<and> sr_is_currently_valid result \<noteq> Flag False)
       else Inr True)"

text \<open>The three checks on one card, with the code and the name of its role.\<close>

definition check_card ::
    "('x, 'z) platform_scheme \<Rightarrow> press_config \<Rightarrow> js_number \<Rightarrow> string \<Rightarrow> string \<Rightarrow> js \<Rightarrow> ('x, card_result) act" where
  "check_card p cfg stalenessWindowSeconds code role address =
     bindA (press_verifyCard p cfg address) (\<lambda>result.
     bindA (guardA (sr_chain_reaches_trusted_root result = Flag True)
              (press_error code (code @ '': '' @ role @ '' card chain does not reach a trusted root''))) (\<lambda>_.
     bindA (guardA (sr_is_currently_valid result \<noteq> Flag False)
              (press_error ''P-04'' (''P-04: '' @ role @ '' card is revoked''))) (\<lambda>_.
     bindA (guardA (\<not> num_less stalenessWindowSeconds (Fin (rs_data_freshness_seconds (sr_revocation result))))
              (press_error ''P-17'' (''P-17: Revocation data is stale for '' @ to_lower role))) (\<lambda>_.
       retA result))))"

definition check_predicate :: "js \<Rightarrow> string \<Rightarrow> string \<Rightarrow> string \<Rightarrow> card_result \<Rightarrow> ('x, unit) act" where
  "check_predicate policy name code role result =
     bindA (liftA (js_prop policy name)) (\<lambda>predicate.
       if truthy predicate then
         bindA (liftA (evaluatePredicate predicate result)) (\<lambda>passed.
           guardA passed (press_error code (code @ '': '' @ role @ '' predicate not satisfied'')))
       else retA ())"

definition evaluatePredicates ::
    "('x, 'z) platform_scheme \<Rightarrow> press_config \<Rightarrow> js \<Rightarrow> js \<Rightarrow> js \<Rightarrow> js_number \<Rightarrow> ('x, card_result \<times> card_result) act" where
  "evaluatePredicates p cfg policy requesterCardAddress recipientCardAddress stalenessWindowSeconds =
     bindA (check_card p cfg stalenessWindowSeconds ''P-02'' ''Requester'' requesterCardAddress) (\<lambda>requesterResult.
     bindA (check_card p cfg stalenessWindowSeconds ''P-03'' ''Recipient'' recipientCardAddress) (\<lambda>recipientResult.
     bindA (check_predicate policy ''requester_predicate'' ''P-02'' ''Requester'' requesterResult) (\<lambda>_.
     bindA (check_predicate policy ''recipient_predicate'' ''P-03'' ''Recipient'' recipientResult) (\<lambda>_.
       retA (requesterResult, recipientResult)))))"

section \<open>Rate limits\<close>

definition RATE_LIMITS :: "string \<Rightarrow> int option" where
  "RATE_LIMITS = map_of [(''register_card'', 1000), (''update_card_head'', 20), (''register_sub_card'', 10),
     (''register_sub_card_app'', 500), (''deregister_sub_card'', 10), (''policy_total'', 1000)]"

definition rate_limit :: "string \<Rightarrow> int" where
  "rate_limit operation = (case RATE_LIMITS operation of None \<Rightarrow> 100 | Some l \<Rightarrow> l)"

definition policy_limit :: int where
  "policy_limit = (case RATE_LIMITS ''policy_total'' of None \<Rightarrow> 1000 | Some l \<Rightarrow> l)"

definition WINDOW_MS :: int where
  "WINDOW_MS = 7 * 24 * 60 * 60 * 1000"

definition windowStart :: "int \<Rightarrow> int" where
  "windowStart now = now div WINDOW_MS * WINDOW_MS"

definition checkRateLimits ::
    "('x, 'z) platform_scheme \<Rightarrow> string \<Rightarrow> string \<Rightarrow> string \<Rightarrow> string \<Rightarrow> ('x, unit) act" where
  "checkRateLimits p operation entityAddress entityType policyAddress =
     bindA (nowA p) (\<lambda>now.
     let ws = windowStart now in
     bindA (getItem (rateEntityKey entityAddress entityType operation policyAddress ws)) (\<lambda>stored.
     let entityCount = nullish stored (Num (Fin 0)); entityLimit = rate_limit operation in
     bindA (guardA (\<not> num_ge (to_number p entityCount) entityLimit)
              (press_error ''P-18'' (''P-18: Rate limit reached for '' @ operation @ '' ('' @
                 literal p entityCount @ ''/'' @ int_str entityLimit @ '')''))) (\<lambda>_.
     bindA (getItem (policyWritesKey policyAddress ws)) (\<lambda>storedTotal.
     let policyCount = nullish storedTotal (Num (Fin 0)) in
       guardA (\<not> num_ge (to_number p policyCount) policy_limit)
         (press_error ''P-19'' (''P-19: Per-policy write limit reached ('' @ literal p policyCount @ ''/'' @
            int_str policy_limit @ '')''))))))"

text \<open>\<open>ALERT_THRESHOLD\<close> is 0.8, and the alert is raised from \<open>Math.floor(limit * 0.8)\<close> on.\<close>

definition alert_from :: "int \<Rightarrow> int" where
  "alert_from limit = limit * 4 div 5"

definition sendSuspiciousActivityAlert ::
    "('x, 'z) platform_scheme \<Rightarrow> string \<Rightarrow> string \<Rightarrow> string \<Rightarrow> js \<Rightarrow> int \<Rightarrow> js \<Rightarrow> ('x, unit) act" where
  "sendSuspiciousActivityAlert p entityAddress entityType operation currentCount limit policyCard =
     bindA (liftA (js_prop policyCard ''admin_wallet_service_url'')) (\<lambda>endpoint.
       if \<not> truthy endpoint then retA ()
       else bindA (nowA p) (\<lambda>now1. bindA (nowA p) (\<lambda>now2.
         let payload = Obj [(''entity_card'', Str entityAddress), (''entity_type'', Str entityType),
               (''operation'', Str operation), (''current_count'', currentCount), (''limit'', Num (Fin limit)),
               (''window_start'', Str (iso_of_ms p (windowStart now1))), (''timestamp'', Str (iso_of_ms p now2))] in
         catchA (bindA (outA (http_post p (literal p endpoint) payload)) (\<lambda>_. retA ())) (\<lambda>err. retA ()))))"

definition recordWrite ::
    "('x, 'z) platform_scheme \<Rightarrow> string \<Rightarrow> string \<Rightarrow> string \<Rightarrow> string \<Rightarrow> js \<Rightarrow> ('x, unit) act" where
  "recordWrite p operation entityAddress entityType policyAddress policyCard =
     bindA (nowA p) (\<lambda>now.
     let ws = windowStart now in
     bindA (incrementItem p (rateEntityKey entityAddress entityType operation policyAddress ws)) (\<lambda>entityCount.
     bindA (incrementItem p (policyWritesKey policyAddress ws)) (\<lambda>_.
       if num_ge (to_number p entityCount) (alert_from (rate_limit operation))
       then sendSuspiciousActivityAlert p entityAddress entityType operation entityCount (rate_limit operation) policyCard
       else retA ())))"

section \<open>What passed checks mean\<close>

lemma keeps_check_card [keeps_intros]: "keeps f (check_card p cfg s c r a)"
  unfolding check_card_def by (intro keeps_intros)

lemma keeps_evaluatePredicates [keeps_intros]: "keeps f (evaluatePredicates p cfg pol a b s)"
  unfolding evaluatePredicates_def check_predicate_def by (intro keeps_intros)

lemma check_card_Inr:
  assumes "check_card p cfg s code role v w = (Inr r, w')"
  shows "w' = w \<and> (\<exists>a. v = Str a \<and> press_root p cfg w a) \<and>
     \<not> num_less s (Fin ((checked_at (clocked p (ext w)) - fetched_at (clocked p (ext w))) div 1000))"
proof -
  from assms have "press_verifyCard p cfg v w = (Inr r, w')" "sr_chain_reaches_trusted_root r = Flag True"
    "\<not> num_less s (Fin (rs_data_freshness_seconds (sr_revocation r)))"
    using keepsD [OF keeps_press_verifyCard [of id]] unfolding check_card_def
    by (auto simp: bindA_Inr act_simps split: if_splits)
  with press_verifyCard_Inr show ?thesis by metis
qed

text \<open>Neither card can ever be found revoked: the verdict without a key leaves that open.\<close>

lemma check_card_never_P04:
  "check_card p cfg s code role v w = (Inl e, w') \<Longrightarrow> code \<noteq> ''P-04'' \<Longrightarrow> press_code e = Some ''P-04'' \<Longrightarrow>
     press_verifyCard p cfg v w = (Inl e, w')"
  unfolding check_card_def
  by (auto simp: bindA_eq act_simps dest!: press_verifyCard_Inr split: if_splits)

lemma evaluatePredicates_Inr:
  assumes "evaluatePredicates p cfg policy a b s w = (Inr r, w')"
  shows "w' = w \<and> (\<exists>ra rb. a = Str ra \<and> b = Str rb \<and> press_root p cfg w ra \<and> press_root p cfg w rb)"
proof -
  from assms obtain w1 r1 r2 w2 where 1: "check_card p cfg s ''P-02'' ''Requester'' a w = (Inr r1, w1)"
    and 2: "check_card p cfg s ''P-03'' ''Recipient'' b w1 = (Inr r2, w2)"
    unfolding evaluatePredicates_def by (auto simp: bindA_Inr)
  moreover have "w' = w"
    using keepsD [OF keeps_evaluatePredicates [of id] assms] by simp
  ultimately show ?thesis
    using check_card_Inr [OF 1] check_card_Inr [OF 2] by auto
qed

section \<open>What limits and records do\<close>

lemma keeps_checkRateLimits [keeps_intros]:
  "keeps kv (checkRateLimits p opn e ty pol)" "keeps pins (checkRateLimits p opn e ty pol)"
  unfolding checkRateLimits_def nowA_def Let_def by (intro keeps_intros)+

definition clock_only :: "('x, 'z) platform_scheme \<Rightarrow> 'x world \<Rightarrow> 'x world" where
  "clock_only p w = w\<lparr>ext := snd (clock_now p (ext w))\<rparr>"

abbreviation now_of :: "('x, 'z) platform_scheme \<Rightarrow> 'x world \<Rightarrow> int" where
  "now_of p w \<equiv> fst (clock_now p (ext w))"

lemma nowA_run [act_simps]: "nowA p w = (Inr (now_of p w), clock_only p w)"
  by (simp add: nowA_def outA_run clock_only_def split: prod.split)

lemma clock_only_sel [simp]: "kv (clock_only p w) = kv w" "pins (clock_only p w) = pins w"
  by (simp_all add: clock_only_def)

text \<open>The number of writes counted under a key.\<close>

definition counted :: "('x, 'z) platform_scheme \<Rightarrow> 'x world \<Rightarrow> string \<Rightarrow> js_number" where
  "counted p w k = to_number p (nullish (kv_get k (kv w)) (Num (Fin 0)))"

lemma checkRateLimits_run:
  "checkRateLimits p opn e ty pol w =
     (let ws = windowStart (now_of p w); n = counted p w (rateEntityKey e ty opn pol ws);
          m = counted p w (policyWritesKey pol ws) in
      (if num_ge n (rate_limit opn) then Inl (press_error ''P-18'' (''P-18: Rate limit reached for '' @ opn @ '' ('' @
            literal p (nullish (kv_get (rateEntityKey e ty opn pol ws) (kv w)) (Num (Fin 0))) @ ''/'' @
            int_str (rate_limit opn) @ '')''))
       else if num_ge m policy_limit then Inl (press_error ''P-19'' (''P-19: Per-policy write limit reached ('' @
            literal p (nullish (kv_get (policyWritesKey pol ws) (kv w)) (Num (Fin 0))) @ ''/'' @
            int_str policy_limit @ '')''))
       else Inr (), clock_only p w))"
  by (simp add: checkRateLimits_def bindA_def nowA_run getItem_run guardA_run counted_def Let_def)

lemma keeps_alert [keeps_intros]: "keeps kv (sendSuspiciousActivityAlert p e ty opn n l pol)"
  unfolding sendSuspiciousActivityAlert_def nowA_def Let_def by (intro keeps_intros)

lemma recordWrite_keeps:
  assumes "recordWrite p opn e ty pol doc w = (r, w')"
    "\<And>ws. k \<noteq> rateEntityKey e ty opn pol ws" "\<And>ws. k \<noteq> policyWritesKey pol ws"
  shows "kv w' k = kv w k"
proof -
  have "keeps (\<lambda>w. kv w k) (recordWrite p opn e ty pol doc)"
    unfolding recordWrite_def Let_def
    by (intro keeps_intros keeps_kv_at keeps_alert keeps_setItem assms(2,3)) (auto simp: nowA_def intro!: keeps_intros)
  with assms(1) show ?thesis by (simp add: keeps_def)
qed

end
