(* ===== verification/Press_Issuance.thy ===== *)
theory Press_Issuance
  imports Press_Predicates
begin

text \<open>
  \<open>press/src/functions/issuance.ts\<close>: the checks on an issuance request, the assembly, the
  signature and the publication of a card document, the inclusion proof, and the two
  signature checks. The main lemmas say what an accepted issuer or holder signature binds and
  that a published card can be fetched and opened with the recipient's key.
\<close>

section \<open>Requests\<close>

definition fetchPolicyCard :: "('x, 'z) platform_scheme \<Rightarrow> press_config \<Rightarrow> js \<Rightarrow> ('x, js) act" where
  "fetchPolicyCard p cfg policyCid =
     bindA (readA (fetch_js p cfg policyCid)) (\<lambda>bs. liftA (json_parse p bs))"

text \<open>The address under which a policy is registered: the hash of its identifier.\<close>

definition policy_address :: "('x, 'z) platform_scheme \<Rightarrow> js \<Rightarrow> string" where
  "policy_address p policyCid = ''0x'' @ address_of p (utf8_encode (literal p policyCid))"

definition policy_expired :: "('x, 'z) platform_scheme \<Rightarrow> js \<Rightarrow> js \<Rightarrow> ('x, unit) act" where
  "policy_expired p policyCid policy =
     bindA (liftA (js_prop policy ''valid_until'')) (\<lambda>valid_until.
       if truthy valid_until then
         bindA (nowA p) (\<lambda>now. guardA (\<not> num_le (date_ms p valid_until) now)
           (press_error ''P-21'' (''P-21: Policy '' @ literal p policyCid @ '' has expired (valid_until: '' @
              literal p valid_until @ '')'')))
       else retA ())"

definition validateIssuanceRequest :: "('x, 'z) platform_scheme \<Rightarrow> press_config \<Rightarrow> js \<Rightarrow> ('x, js \<times> string) act" where
  "validateIssuanceRequest p cfg request =
     bindA (liftA (js_prop request ''policy_cid'')) (\<lambda>policy_cid.
     bindA (liftA (js_prop request ''requester_card_address'')) (\<lambda>requester.
     bindA (liftA (js_prop request ''offer'')) (\<lambda>offer.
     bindA (guardA (truthy policy_cid \<and> truthy requester \<and> truthy offer)
              (press_error ''P-01'' ''P-01: Missing required fields: policy_cid, requester_card_address, offer'')) (\<lambda>_.
     bindA (fetchPolicyCard p cfg policy_cid) (\<lambda>policy.
     bindA (policy_expired p policy_cid policy) (\<lambda>_.
     bindA (liftA (bindE (js_prop policy ''approved_presses'') (\<lambda>ps. js_includes ps (PRESS_CARD_CID cfg)))) (\<lambda>approved.
     bindA (guardA approved (press_error ''P-01''
              (''P-01: This press ('' @ PRESS_CARD_CID cfg @ '') is not in the policy's approved_presses''))) (\<lambda>_.
     bindA (liftA (js_prop request ''recipient_card_address'')) (\<lambda>recipient.
     bindA (if truthy (nullish recipient (Str []))
            then bindA (evaluatePredicates p cfg policy requester recipient (STALENESS_WINDOW_SECONDS cfg)) (\<lambda>_. retA ())
            else retA ()) (\<lambda>_.
     bindA (checkRateLimits p ''register_card'' (literal p requester) ''holder'' (literal p policy_cid)) (\<lambda>_.
       retA (policy, policy_address p policy_cid))))))))))))"

section \<open>The card document\<close>

definition assembleCardDocument ::
    "('x, 'z) platform_scheme \<Rightarrow> press_config \<Rightarrow> js \<Rightarrow> js \<Rightarrow> js \<Rightarrow> js \<Rightarrow> string \<Rightarrow> js \<Rightarrow> js" where
  "assembleCardDocument p cfg offer recipientPubkey holderSignature ancestryPubkeys protocolVersion pastKeys =
     (let doc = js_spread offer [(''press_card'', Str (PRESS_CARD_CID cfg)), (''protocol_version'', Str protocolVersion),
            (''recipient_pubkey'', recipientPubkey), (''holder_signature'', holderSignature),
            (''ancestry_pubkeys'', ancestryPubkeys)] in
      if truthy pastKeys \<and>
         (case js_prop pastKeys ''length'' of Inl e \<Rightarrow> False | Inr n \<Rightarrow> num_less (Fin 0) (to_number p n))
      then js_spread doc [(''past_keys'', pastKeys)] else doc)"

definition signCardDocument :: "('x, 'z) platform_scheme \<Rightarrow> press_config \<Rightarrow> js \<Rightarrow> js res" where
  "signCardDocument p cfg cardDocument =
     bindE (canonicalize_excluding cardDocument [''press_signature'']) (\<lambda>toSign.
       Inr (js_spread cardDocument [(''press_signature'',
              Str (toBase64url (mlDsa44Sign p (PRESS_MLDSA44_PRIVATE_KEY cfg) toSign)))]))"

definition publishCard :: "('x, 'z) platform_scheme \<Rightarrow> press_config \<Rightarrow> js \<Rightarrow> ('x, string) act" where
  "publishCard p cfg signedCardDocument =
     bindA (liftA (js_prop signedCardDocument ''recipient_pubkey'')) (\<lambda>recipientPubkeyB64.
     bindA (liftA (fromBase64url p recipientPubkeyB64)) (\<lambda>recipientPubkey.
     bindA (liftA (canonicalize signedCardDocument)) (\<lambda>plaintext.
     bindA (aes256gcmEncrypt p (deriveContentKey p recipientPubkey) plaintext) (\<lambda>ciphertext.
       pinToIPFS p cfg ciphertext))))"

section \<open>The inclusion proof\<close>

definition deliverScip :: "('x, 'z) platform_scheme \<Rightarrow> js \<Rightarrow> js \<Rightarrow> ('x, unit) act" where
  "deliverScip p scip url =
     bindA (outA (http_post p (literal p url) scip)) (\<lambda>st.
       guardA (http_ok st) (JsError (''Error: SCIP delivery failed to '' @ literal p url @ '': HTTP '' @ int_str st)))"

definition issueScip ::
    "('x, 'z) platform_scheme \<Rightarrow> press_config \<Rightarrow> string \<Rightarrow> int \<Rightarrow> string \<Rightarrow> js \<Rightarrow> js \<Rightarrow> js \<Rightarrow> ('x, js) act" where
  "issueScip p cfg cardCid policyLogEntryIndex policyLogRootCid issuedAt recipientWalletServiceUrl adminWalletServiceUrl =
     bindA (liftA (mlDsa44PublicKeyFromPrivate p (PRESS_MLDSA44_PRIVATE_KEY cfg))) (\<lambda>pubKey.
     let scipBase = [(''card_cid'', Str cardCid), (''policy_log_entry_index'', Num (Fin policyLogEntryIndex)),
           (''policy_log_root_at_inclusion'', Str policyLogRootCid), (''issued_at'', issuedAt)] in
     bindA (liftA (canonicalize (Obj scipBase))) (\<lambda>toSign.
     let sig = mlDsa44Sign p (PRESS_MLDSA44_PRIVATE_KEY cfg) toSign;
         scip = Obj (scipBase @ [(''press_signature'',
           Obj [(''public_key'', Str (toBase64url pubKey)), (''signature'', Str (toBase64url sig))])]) in
     bindA (if truthy recipientWalletServiceUrl then deliverScip p scip recipientWalletServiceUrl else retA ()) (\<lambda>_.
     bindA (if truthy adminWalletServiceUrl
            then catchA (deliverScip p scip adminWalletServiceUrl) (\<lambda>err. retA ()) else retA ()) (\<lambda>_.
       retA scip))))"

section \<open>Signatures\<close>

fun opt_index0 :: "js \<Rightarrow> js" where
  "opt_index0 Undef = Undef"
| "opt_index0 Null = Undef"
| "opt_index0 v = js_index0 v"

definition verifyIssuerSignature :: "('x, 'z) platform_scheme \<Rightarrow> js \<Rightarrow> bool res" where
  "verifyIssuerSignature p offer =
     bindE (js_prop offer ''ancestry_pubkeys'') (\<lambda>ancestry.
     if \<not> truthy (opt_index0 ancestry) then Inr False
     else bindE (fromBase64url p (opt_index0 ancestry)) (\<lambda>pubKey.
     bindE (bindE (js_prop offer ''issuer_card'') (js_string ''toLowerCase'')) (\<lambda>issuer_card.
     if to_lower (address_of p pubKey) \<noteq> to_lower issuer_card then Inr False
     else bindE (js_prop offer ''issuer_signature'') (\<lambda>sig.
          bindE (canonicalize_excluding (js_omit ''issuer_signature'' offer) [''issuer_signature'']) (\<lambda>toVerify.
          bindE (fromBase64url p sig) (\<lambda>signature.
            mlDsa44Verify p pubKey toVerify signature))))))"

definition verifyHolderSignature :: "('x, 'z) platform_scheme \<Rightarrow> js \<Rightarrow> js \<Rightarrow> bool res" where
  "verifyHolderSignature p cardDocument holderSig =
     bindE (js_prop cardDocument ''recipient_pubkey'') (\<lambda>b64.
     case b64 of
       Str s \<Rightarrow>
         bindE (canonicalize_excluding cardDocument [''holder_signature'', ''press_signature'']) (\<lambda>toVerify.
         bindE (fromBase64url p b64) (\<lambda>pubKey.
         bindE (fromBase64url p holderSig) (\<lambda>signature.
           mlDsa44Verify p pubKey toVerify signature)))
     | _ \<Rightarrow> Inr False)"

section \<open>What accepted signatures bind\<close>

text \<open>A key that hashes to the address a field of a document names signed the given bytes.\<close>

definition signed_by ::
    "('x, 'z) platform_scheme \<Rightarrow> string \<Rightarrow> bytes \<Rightarrow> js \<Rightarrow> bool" where
  "signed_by p address message sig \<longleftrightarrow>
     (\<exists>pubKey signature. to_lower (keccak256 p pubKey) = to_lower address \<and>
        fromBase64url p sig = Inr signature \<and> mlDsa44Verify p pubKey message signature = Inr True)"

definition issuer_signed :: "('x, 'z) platform_scheme \<Rightarrow> js \<Rightarrow> bool" where
  "issuer_signed p offer \<longleftrightarrow>
     (\<exists>issuer sig message. js_prop offer ''issuer_card'' = Inr (Str issuer) \<and>
        js_prop offer ''issuer_signature'' = Inr sig \<and>
        canonicalize_excluding (js_omit ''issuer_signature'' offer) [''issuer_signature''] = Inr message \<and>
        signed_by p issuer message sig)"

lemma js_string_Inr [simp]: "js_string m v = Inr s \<longleftrightarrow> v = Str s"
  by (cases v) auto

lemma case_Str_eq:
  "(case v of Str s \<Rightarrow> f s | _ \<Rightarrow> d) = r \<longleftrightarrow> (\<exists>s. v = Str s \<and> f s = r) \<or> (\<forall>s. v \<noteq> Str s) \<and> d = r"
  by (cases v) auto

lemma verifyIssuerSignature_True: "verifyIssuerSignature p offer = Inr True \<Longrightarrow> issuer_signed p offer"
  unfolding verifyIssuerSignature_def issuer_signed_def signed_by_def address_of_keccak256
  by (auto simp: bindE_eq_Inr split: if_splits)

text \<open>The holder signed the document under the key it names.\<close>

definition holder_signed :: "('x, 'z) platform_scheme \<Rightarrow> js \<Rightarrow> js \<Rightarrow> bool" where
  "holder_signed p doc holderSig \<longleftrightarrow>
     (\<exists>b64 message signature. js_prop doc ''recipient_pubkey'' = Inr (Str b64) \<and>
        canonicalize_excluding doc [''holder_signature'', ''press_signature''] = Inr message \<and>
        fromBase64url p holderSig = Inr signature \<and>
        mlDsa44Verify p (base64url_to_bytes b64) message signature = Inr True)"

lemma verifyHolderSignature_True: "verifyHolderSignature p doc sig = Inr True \<Longrightarrow> holder_signed p doc sig"
  unfolding verifyHolderSignature_def holder_signed_def
  by (auto simp: bindE_eq_Inr case_Str_eq)

section \<open>Publication\<close>

text \<open>
  The published object opens under the recipient's content key to the canonical bytes of the
  document: with the reader of the verifier and with the press's own.
\<close>

definition nonces_ok :: "('x, 'z) platform_scheme \<Rightarrow> bool" where
  "nonces_ok p \<longleftrightarrow> (\<forall>x. length (fst (random_nonce p x)) = 12)"

lemma publishCard_Inr:
  assumes "publishCard p cfg doc w = (Inr cid, w')"
  shows "\<exists>b64 key plaintext nonce. js_prop doc ''recipient_pubkey'' = Inr b64 \<and> fromBase64url p b64 = Inr key \<and>
     canonicalize doc = Inr plaintext \<and> nonce = fst (random_nonce p (ext w)) \<and>
     fetchFromIPFS p cfg cid w' = Inr (sealed p (deriveContentKey p key) nonce plaintext)"
  using assms unfolding publishCard_def
  by (auto simp: bindA_Inr act_simps aes256gcmEncrypt_run intro: ipfs.pin_fetch)

lemma sealed_opens:
  assumes "gcm_ok p" "nonces_ok p"
  shows "aes256gcmDecrypt p k (sealed p k (fst (random_nonce p x)) m) = Inr m"
    and "press_aes256gcmDecrypt p k (sealed p k (fst (random_nonce p x)) m) = Inr m"
  using assms by (auto simp: nonces_ok_def intro: verifier_sealing.opens press_sealing.opens)

lemma keeps_publishCard [keeps_intros]: "keeps (\<lambda>w. kv w k) (publishCard p cfg doc)"
  unfolding publishCard_def by (intro keeps_intros)

lemma keeps_fetchPolicyCard [keeps_intros]: "keeps f (fetchPolicyCard p cfg v)"
  unfolding fetchPolicyCard_def by (intro keeps_intros)

lemma keeps_issueScip [keeps_intros]: "keeps (\<lambda>w. kv w k) (issueScip p cfg a i b c d e)"
  unfolding issueScip_def deliverScip_def Let_def by (intro keeps_intros)

lemma keeps_validateIssuanceRequest [keeps_intros]: "keeps (\<lambda>w. kv w k) (validateIssuanceRequest p cfg r)"
  unfolding validateIssuanceRequest_def policy_expired_def
  by (intro keeps_intros keeps_kv_at keeps_checkRateLimits)

end
