(* ===== verification/Press_Log.thy ===== *)
theory Press_Log
  imports Press_Issuance
begin

text \<open>
  \<open>press/src/functions/log.ts\<close>: the log head of a policy, the log entry of a card update
  (assembled, signed, pinned, and made the card's head on chain), and the notification of a
  policy's auditors.
\<close>

section \<open>The log head of a policy\<close>

definition getLogHead :: "('x, 'z) platform_scheme \<Rightarrow> string \<Rightarrow> string \<Rightarrow> ('x, js \<times> js) act" where
  "getLogHead p policyCid policyAddress =
     bindA (getItem (logHeadKey policyCid)) (\<lambda>cached.
       if truthy cached then retA (field cached ''log_head_cid'', field cached ''seq'')
       else bindA (askA (getCardEntry p policyAddress)) (\<lambda>entry.
              retA (Str (utf8_decode p (rc_log_head_cid entry)), Num (Fin 0))))"

definition setLogHead :: "('x, 'z) platform_scheme \<Rightarrow> string \<Rightarrow> string \<Rightarrow> int \<Rightarrow> ('x, unit) act" where
  "setLogHead p policyCid logHeadCid seqno =
     bindA (nowA p) (\<lambda>now.
       setItem (logHeadKey policyCid) (Obj [(''log_head_cid'', Str logHeadCid), (''seq'', Num (Fin seqno)),
         (''updated_at'', Num (Fin (now div 1000)))]))"

lemma getLogHead_setLogHead:
  assumes "setLogHead p policyCid cid n w = (Inr (), w')"
  shows "getLogHead p policyCid policyAddress w' = (Inr (Str cid, Num (Fin n)), w')"
  using assms
  by (auto simp: setLogHead_def getLogHead_def act_simps kvs.get_set_if field_def lookup_key_def bindA_def)

section \<open>Log entries\<close>

definition is_revocation :: "('x, 'z) platform_scheme \<Rightarrow> js \<Rightarrow> bool" where
  "is_revocation p updateIntent \<longleftrightarrow> num_ge (to_number p (field updateIntent ''code'')) 800"

definition log_entry :: "('x, 'z) platform_scheme \<Rightarrow> string \<Rightarrow> js \<Rightarrow> js \<Rightarrow> js" where
  "log_entry p prevLogCid updateIntent intentSignature =
     Obj ([(''version'', Num (Fin 1)), (''code'', field updateIntent ''code''),
           (''entry_type'', Str (if is_revocation p updateIntent then ''revocation'' else ''field_update'')),
           (''prev_log_root'', Str prevLogCid),
           (''notify_holder'', nullish (field updateIntent ''notify_holder'') (Bool False)),
           (''intent_signature'', intentSignature)] @
          (if \<not> is_revocation p updateIntent \<and> truthy (field updateIntent ''field_updates'')
           then [(''field_updates'', field updateIntent ''field_updates'')] else []) @
          (if is_revocation p updateIntent \<and> truthy (field updateIntent ''revocation'')
           then [(''revocation'', field updateIntent ''revocation'')] else []) @
          (if truthy (field updateIntent ''updater_message'')
           then [(''updater_message'', field updateIntent ''updater_message'')] else []))"

definition sign_log_entry :: "('x, 'z) platform_scheme \<Rightarrow> press_config \<Rightarrow> js \<Rightarrow> js res" where
  "sign_log_entry p cfg logEntry =
     bindE (canonicalize_excluding logEntry [''press_signature'']) (\<lambda>toSign.
     bindE (mlDsa44PublicKeyFromPrivate p (PRESS_MLDSA44_PRIVATE_KEY cfg)) (\<lambda>pubKey.
       Inr (js_spread logEntry [(''press_signature'',
              Obj [(''public_key'', Str (toBase64url pubKey)),
                   (''signature'', Str (toBase64url (mlDsa44Sign p (PRESS_MLDSA44_PRIVATE_KEY cfg) toSign)))])])))"

record log_entry_result =
  le_log_entry_cid :: string
  le_new_log_head_cid :: string

definition appendLogEntry ::
    "('x, 'z) platform_scheme \<Rightarrow> press_config \<Rightarrow> string \<Rightarrow> js \<Rightarrow> js \<Rightarrow> ('x, log_entry_result) act" where
  "appendLogEntry p cfg targetCardAddress updateIntent intentSignature =
     bindA (askA (getCardEntry p targetCardAddress)) (\<lambda>cardEntry.
     bindA (liftA (js_prop updateIntent ''code'')) (\<lambda>_.
     bindA (liftA (sign_log_entry p cfg
              (log_entry p (utf8_decode p (rc_log_head_cid cardEntry)) updateIntent intentSignature))) (\<lambda>signedEntry.
     bindA (liftA (canonicalize signedEntry)) (\<lambda>logBytes.
     bindA (pinToIPFS p cfg logBytes) (\<lambda>logEntryCid.
     bindA (updateCardHead p cfg targetCardAddress (rc_log_head_cid cardEntry) (utf8_encode logEntryCid)) (\<lambda>_.
       retA \<lparr>le_log_entry_cid = logEntryCid, le_new_log_head_cid = logEntryCid\<rparr>))))))"

section \<open>What a log entry contains\<close>

lemma put_key_absent: "k \<notin> fst ` set kvs \<Longrightarrow> put_key k x kvs = kvs @ [(k, x)]"
  by (induction kvs) auto

lemma sign_log_entry_Inr:
  assumes "sign_log_entry p cfg (log_entry p prev ui sig) = Inr entry"
  shows "\<exists>kvs ps. entry = Obj (kvs @ [(''press_signature'', ps)]) \<and> log_entry p prev ui sig = Obj kvs"
proof -
  obtain kvs where kvs: "log_entry p prev ui sig = Obj kvs"
    by (simp add: log_entry_def)
  then have "''press_signature'' \<notin> fst ` set kvs"
    by (auto simp: log_entry_def split: if_splits)
  with assms kvs show ?thesis
    by (auto simp: sign_log_entry_def bindE_eq_Inr js_spread_def put_key_absent)
qed

text \<open>It has the fields of an entry and none of a card document.\<close>

lemma log_entry_fields:
  assumes "sign_log_entry p cfg (log_entry p prev ui sig) = Inr entry"
  shows "field entry ''prev_log_root'' = Str prev" "field entry ''code'' = field ui ''code''"
    "field entry ''entry_type'' = Str (if is_revocation p ui then ''revocation'' else ''field_update'')"
    "field entry ''ancestry_pubkeys'' = Undef" "field entry ''history'' = Undef"
    "\<exists>kvs. entry = Obj kvs"
  using sign_log_entry_Inr [OF assms]
  by (auto simp: log_entry_def field_def lookup_key_def)

lemma log_entry_unreadable:
  "sign_log_entry p cfg (log_entry p prev ui sig) = Inr entry \<Longrightarrow>
     first_ancestor entry = Inl (JsError ''TypeError: Cannot read properties of undefined (reading length)'')"
  using log_entry_fields(4,6) by (fastforce simp: first_ancestor_def field_def)

section \<open>Auditors\<close>

record issuance_record_result =
  ir_confirmed_auditors :: "js list"
  ir_timed_out_auditors :: "js list"

text \<open>
  The notification of one auditor: true when confirmed. The requests run concurrently in the
  code and share nothing but the lists of outcomes; here they are made in order.
\<close>

definition notify_auditor :: "('x, 'z) platform_scheme \<Rightarrow> js \<Rightarrow> js \<Rightarrow> ('x, js \<times> bool) act" where
  "notify_auditor p issuanceRecord auditorAddress =
     catchA (bindA (outA (http_post p (literal p auditorAddress @ ''/notify-issuance'') issuanceRecord)) (\<lambda>st.
               retA (auditorAddress, http_ok st)))
       (\<lambda>err. retA (auditorAddress, False))"

fun auditor_list :: "js \<Rightarrow> js list res" where
  "auditor_list (Arr xs) = Inr xs"
| "auditor_list v =
     (if \<not> truthy v \<or> field v ''length'' = Num (Fin 0) then Inr []
      else Inl (JsError ''TypeError: policy.auditors.map is not a function''))"

definition appendIssuanceRecord ::
    "('x, 'z) platform_scheme \<Rightarrow> press_config \<Rightarrow> js \<Rightarrow> string \<Rightarrow> js \<Rightarrow> string \<Rightarrow> string \<Rightarrow> ('x, issuance_record_result) act" where
  "appendIssuanceRecord p cfg policyCid cardCid recipientPubkey scipCid offerType =
     bindA (readA (\<lambda>w. Inr (fetch_js p cfg policyCid w))) (\<lambda>fetched. case fetched of
       Inl e \<Rightarrow> retA \<lparr>ir_confirmed_auditors = [], ir_timed_out_auditors = []\<rparr>
     | Inr policyBytes \<Rightarrow>
         bindA (liftA (bindE (json_parse p policyBytes) (\<lambda>policy.
                       bindE (js_prop policy ''auditors'') auditor_list))) (\<lambda>auditors.
         if auditors = [] then retA \<lparr>ir_confirmed_auditors = [], ir_timed_out_auditors = []\<rparr>
         else bindA (nowA p) (\<lambda>now.
           let issuanceRecord = Obj [(''card_cid'', Str cardCid), (''recipient_pubkey'', recipientPubkey),
                 (''scip_cid'', Str scipCid), (''issued_at'', Str (iso_of_ms p now)), (''offer_type'', Str offerType)] in
           bindA (mapA (notify_auditor p issuanceRecord) auditors) (\<lambda>outcomes.
             retA \<lparr>ir_confirmed_auditors = map fst (filter snd outcomes),
                   ir_timed_out_auditors = map fst (filter (\<lambda>r. \<not> snd r) outcomes)\<rparr>))))"

lemma keeps_notify_auditor [keeps_intros]: "keeps (\<lambda>w. kv w k) (notify_auditor p r a)"
  unfolding notify_auditor_def by (intro keeps_intros)

lemma keeps_appendIssuanceRecord [keeps_intros]: "keeps (\<lambda>w. kv w k) (appendIssuanceRecord p cfg a b c d e)"
  unfolding appendIssuanceRecord_def nowA_def Let_def by (intro keeps_intros)

lemma keeps_appendLogEntry [keeps_intros]: "keeps (\<lambda>w. kv w k) (appendLogEntry p cfg t ui s)"
  unfolding appendLogEntry_def by (intro keeps_intros keeps_kv_at keeps_writes)

end
