(* ===== verification/Press_Notifications.thy ===== *)
theory Press_Notifications
  imports Press_Log
begin

text \<open>
  \<open>press/src/functions/notifications.ts\<close>: the difference between two directories of
  sub-cards and the messages to the sub-cards that remain. The lemmas specify the difference:
  what it names is exactly what changed.
\<close>

section \<open>Messages\<close>

definition buildSubcardSiblingAddedContent :: "string \<Rightarrow> js \<Rightarrow> string \<Rightarrow> string \<Rightarrow> js" where
  "buildSubcardSiblingAddedContent masterCardPointer newPubkey logEntryCid timestamp =
     Obj [(''master_card'', Str masterCardPointer), (''new_pubkey'', newPubkey),
       (''log_entry_cid'', Str logEntryCid), (''timestamp'', Str timestamp)]"

definition buildSubcardSiblingRemovedContent :: "string \<Rightarrow> js \<Rightarrow> string \<Rightarrow> string \<Rightarrow> js" where
  "buildSubcardSiblingRemovedContent masterCardPointer removedPubkey logEntryCid timestamp =
     Obj [(''master_card'', Str masterCardPointer), (''removed_pubkey'', removedPubkey),
       (''log_entry_cid'', Str logEntryCid), (''timestamp'', Str timestamp)]"

definition buildSubcardSiblingRotatedContent :: "string \<Rightarrow> js \<Rightarrow> js \<Rightarrow> string \<Rightarrow> string \<Rightarrow> js" where
  "buildSubcardSiblingRotatedContent masterCardPointer oldPubkey newPubkey logEntryCid timestamp =
     Obj [(''master_card'', Str masterCardPointer), (''old_pubkey'', oldPubkey), (''new_pubkey'', newPubkey),
       (''log_entry_cid'', Str logEntryCid), (''timestamp'', Str timestamp)]"

section \<open>The difference of two directories\<close>

datatype subcards_diff =
    Diff_Added js "js list"
  | Diff_Removed js "js list"
  | Diff_Rotated js js "js list"

fun diff_recipients :: "subcards_diff \<Rightarrow> js list" where
  "diff_recipients (Diff_Added n rs) = rs"
| "diff_recipients (Diff_Removed o' rs) = rs"
| "diff_recipients (Diff_Rotated o' n rs) = rs"

text \<open>
  Membership in a \<open>Set\<close>: primitive values compare by value; objects of two documents that
  were parsed separately are never the same.
\<close>

fun same_value :: "js \<Rightarrow> js \<Rightarrow> bool" where
  "same_value (Arr xs) v = False"
| "same_value (Obj kvs) v = False"
| "same_value u v = (u = v)"

definition set_has :: "js list \<Rightarrow> js \<Rightarrow> bool" where
  "set_has vs v \<longleftrightarrow> list_ex (same_value v) vs"

definition diffActiveSubcards :: "int \<Rightarrow> js list \<Rightarrow> js list \<Rightarrow> subcards_diff option" where
  "diffActiveSubcards code before after =
     (let added = filter (\<lambda>pk. \<not> set_has before pk) after;
          removed = filter (\<lambda>pk. \<not> set_has after pk) before in
      if code = 510 then
        if length added \<noteq> 1 \<or> length removed \<noteq> 0 then None else Some (Diff_Added (added ! 0) before)
      else if code = 511 then
        if length removed \<noteq> 1 \<or> length added \<noteq> 0 then None else Some (Diff_Removed (removed ! 0) after)
      else if length added \<noteq> 1 \<or> length removed \<noteq> 1 then None
      else Some (Diff_Rotated (removed ! 0) (added ! 0) after))"

text \<open>Directories as the protocol has them: distinct texts.\<close>

definition directory :: "js list \<Rightarrow> bool" where
  "directory vs \<longleftrightarrow> distinct vs \<and> list_all (\<lambda>v. \<exists>s. v = Str s) vs"

lemma set_has_directory: "directory vs \<Longrightarrow> (\<exists>s. v = Str s) \<Longrightarrow> set_has vs v \<longleftrightarrow> v \<in> set vs"
  by (auto simp: set_has_def list_ex_iff)

lemma added_directory:
  assumes "directory before" "directory after"
  shows "filter (\<lambda>pk. \<not> set_has before pk) after = filter (\<lambda>pk. pk \<notin> set before) after"
  using assms by (intro filter_cong) (auto simp: set_has_directory directory_def list_all_iff)

lemma filter_one:
  assumes "distinct xs"
  shows "length (filter P xs) = 1 \<and> filter P xs ! 0 = n \<longleftrightarrow> {x \<in> set xs. P x} = {n}"
proof -
  have "distinct (filter P xs)" "set (filter P xs) = {x \<in> set xs. P x}"
    using assms by auto
  then show ?thesis
    by (cases "filter P xs"; cases "tl (filter P xs)") auto
qed

lemma filter_none: "length (filter P xs) = 0 \<longleftrightarrow> {x \<in> set xs. P x} = {}"
  by (auto simp: filter_empty_conv)

lemmas diff_unfold = diffActiveSubcards_def Let_def added_directory

text \<open>
  For two directories the difference is defined exactly when the change has the shape the code
  names, and it names the changed key and the sub-cards that stay.
\<close>

lemma diff_510:
  assumes "directory before" "directory after"
  shows "diffActiveSubcards 510 before after = Some d \<longleftrightarrow>
     (\<exists>n. d = Diff_Added n before \<and> n \<notin> set before \<and> set after = insert n (set before))"
proof -
  have "distinct after" using assms by (simp add: directory_def)
  note one = filter_one [OF this, of "\<lambda>pk. pk \<notin> set before"]
  have "diffActiveSubcards 510 before after = Some d \<longleftrightarrow> (\<exists>n. d = Diff_Added n before \<and>
      {x \<in> set after. x \<notin> set before} = {n} \<and> {x \<in> set before. x \<notin> set after} = {})"
    using assms one by (simp add: diff_unfold filter_none [simplified]) blast
  then show ?thesis by auto
qed

lemma diff_511:
  assumes "directory before" "directory after"
  shows "diffActiveSubcards 511 before after = Some d \<longleftrightarrow>
     (\<exists>r. d = Diff_Removed r after \<and> r \<notin> set after \<and> set before = insert r (set after))"
proof -
  have "distinct before" using assms by (simp add: directory_def)
  note one = filter_one [OF this, of "\<lambda>pk. pk \<notin> set after"]
  have "diffActiveSubcards 511 before after = Some d \<longleftrightarrow> (\<exists>r. d = Diff_Removed r after \<and>
      {x \<in> set before. x \<notin> set after} = {r} \<and> {x \<in> set after. x \<notin> set before} = {})"
    using assms one by (simp add: diff_unfold filter_none [simplified]) blast
  then show ?thesis by auto
qed

lemma diff_512:
  assumes "directory before" "directory after"
  shows "diffActiveSubcards 512 before after = Some d \<longleftrightarrow>
     (\<exists>r n. d = Diff_Rotated r n after \<and> r \<in> set before \<and> n \<notin> set before \<and>
        set after = insert n (set before - {r}))"
proof -
  have "distinct before" "distinct after" using assms by (auto simp: directory_def)
  note one = filter_one [OF this(1), of "\<lambda>pk. pk \<notin> set after"] filter_one [OF this(2), of "\<lambda>pk. pk \<notin> set before"]
  have "diffActiveSubcards 512 before after = Some d \<longleftrightarrow> (\<exists>r n. d = Diff_Rotated r n after \<and>
      {x \<in> set before. x \<notin> set after} = {r} \<and> {x \<in> set after. x \<notin> set before} = {n})"
    using assms one by (simp add: diff_unfold) blast
  then show ?thesis by auto
qed

section \<open>Dispatch\<close>

text \<open>
  A recipient that cannot be decoded is skipped; for the others the outcome is recorded. The
  requests run concurrently in the code and share only the lists of outcomes.
\<close>

definition notify_sibling :: "('x, 'z) platform_scheme \<Rightarrow> string \<Rightarrow> js \<Rightarrow> js \<Rightarrow> ('x, (string \<times> bool) option) act" where
  "notify_sibling p ty content pubkeyB64 =
     (case fromBase64url p pubkeyB64 of
        Inl e \<Rightarrow> retA None
      | Inr pubkey \<Rightarrow>
          let address = ''0x'' @ address_of p pubkey in
          catchA (bindA (outA (http_post p (address @ ''/notify'')
                           (Obj [(''type'', Str ty), (''content'', content)]))) (\<lambda>st.
                    retA (Some (address, http_ok st))))
            (\<lambda>err. retA (Some (address, False))))"

definition notifySubcardSiblings ::
    "('x, 'z) platform_scheme \<Rightarrow> string \<Rightarrow> js list \<Rightarrow> js \<Rightarrow> ('x, string list \<times> string list) act" where
  "notifySubcardSiblings p ty recipientPubkeysB64 content =
     bindA (mapA (notify_sibling p ty content) recipientPubkeysB64) (\<lambda>outcomes.
       retA (map fst (filter snd (List.map_filter id outcomes)),
             map fst (filter (\<lambda>r. \<not> snd r) (List.map_filter id outcomes))))"

lemma keeps_notifySubcardSiblings [keeps_intros]: "keeps (\<lambda>w. kv w k) (notifySubcardSiblings p ty rs c)"
  unfolding notifySubcardSiblings_def notify_sibling_def Let_def by (intro keeps_intros)

text \<open>Dispatch never throws.\<close>

lemma notify_sibling_total: "\<exists>r w'. notify_sibling p ty c v w = (Inr r, w')"
proof (cases "fromBase64url p v")
  case (Inr k)
  then show ?thesis
    by (cases "http_post p (''0x'' @ address_of p k @ ''/notify'') (Obj [(''type'', Str ty), (''content'', c)]) (ext w)";
        cases "fst (http_post p (''0x'' @ address_of p k @ ''/notify'') (Obj [(''type'', Str ty), (''content'', c)]) (ext w))")
      (auto simp: notify_sibling_def Let_def catchA_def bindA_def outA_def retA_def)
qed (simp add: notify_sibling_def retA_def)

lemma mapA_total: "(\<And>a w. \<exists>r w'. f a w = (Inr r, w')) \<Longrightarrow> \<exists>rs w'. mapA f as w = (Inr rs, w')"
proof (induction as arbitrary: w)
  case (Cons a as)
  then obtain r w1 where 1: "f a w = (Inr r, w1)" by blast
  from Cons obtain rs w2 where "mapA f as w1 = (Inr rs, w2)" by blast
  with 1 show ?case by (simp add: bindA_def retA_def)
qed (simp add: retA_def)

lemma notifySubcardSiblings_total: "\<exists>r w'. notifySubcardSiblings p ty rs c w = (Inr r, w')"
proof -
  obtain os w1 where "mapA (notify_sibling p ty c) rs w = (Inr os, w1)"
    using mapA_total [of "notify_sibling p ty c"] notify_sibling_total by blast
  then show ?thesis by (simp add: notifySubcardSiblings_def bindA_def retA_def)
qed

end
