(* ===== verification/Press_Issue.thy ===== *)
theory Press_Issue
  imports Press_Notifications
begin

text \<open>
  The handlers of targeted issuance, \<open>press/src/handlers/issue.ts\<close>: an offer is checked and
  stored, and later finalized once with the holder's signature. The state of an offer is its
  record in the key-value store; the lemmas follow that record through both handlers.
\<close>

section \<open>POST /issue\<close>

definition offer_body_key :: "string \<Rightarrow> string" where
  "offer_body_key offerCid = offerKey offerCid @ '':body''"

definition offer_record :: "js \<Rightarrow> int \<Rightarrow> js" where
  "offer_record policy_cid created =
     Obj [(''policy_cid'', policy_cid), (''created_at'', Num (Fin created)), (''finalized'', Bool False),
       (''expires_at'', Null)]"

definition offer_cid_of :: "('e) env_scheme \<Rightarrow> bytes \<Rightarrow> string" where
  "offer_cid_of e offerBytes = toBase64url (keccak256_digest e offerBytes)"

text \<open>A signed message is stale when it is older than the configured window.\<close>

definition stale_at :: "('x, 'z) platform_scheme \<Rightarrow> press_config \<Rightarrow> int \<Rightarrow> js \<Rightarrow> bool" where
  "stale_at p cfg now signed_at \<longleftrightarrow>
     num_less (times_num 1000 (STALENESS_WINDOW_SECONDS cfg)) (minus_num now (date_ms p signed_at))"

definition handleIssue :: "('x, 'z) platform_scheme \<Rightarrow> press_config \<Rightarrow> js \<Rightarrow> ('x, string) act" where
  "handleIssue p cfg body =
     bindA (validateIssuanceRequest p cfg body) (\<lambda>_.
     let offer = field body ''offer'' in
     bindA (liftA (verifyIssuerSignature p offer)) (\<lambda>valid.
     bindA (guardA valid (press_error ''P-05'' ''P-05: Invalid issuer_signature on offer'')) (\<lambda>_.
     bindA (nowA p) (\<lambda>now.
     bindA (guardA (\<not> stale_at p cfg now (field offer ''issued_at''))
              (press_error ''P-22'' ''P-22: Offer timestamp is stale'')) (\<lambda>_.
     bindA (liftA (canonicalize offer)) (\<lambda>offerBytes.
     let offerCid = offer_cid_of p offerBytes in
     bindA (nowA p) (\<lambda>created.
     bindA (setItem (offerKey offerCid) (offer_record (field body ''policy_cid'') (created div 1000))) (\<lambda>_.
     bindA (setItem (offer_body_key offerCid) offer) (\<lambda>_.
       retA offerCid)))))))))"

section \<open>POST /issue/finalize\<close>

record finalize_response =
  fr_card_cid :: string
  fr_scip :: js

text \<open>The stored offer, if there is one to finalize.\<close>

definition open_offer_record :: "string \<Rightarrow> ('x, js \<times> js) act" where
  "open_offer_record offerCid =
     bindA (getItem (offerKey offerCid)) (\<lambda>offerRecord.
     bindA (guardA (truthy offerRecord) (press_error ''P-01'' ''Offer not found or expired'')) (\<lambda>_.
     bindA (guardA (\<not> truthy (field offerRecord ''finalized'')) (press_error ''P-01'' ''Offer already finalized'')) (\<lambda>_.
     bindA (getItem (offer_body_key offerCid)) (\<lambda>offer.
     bindA (guardA (truthy offer) (press_error ''P-01'' ''Offer body missing'')) (\<lambda>_.
       retA (offerRecord, offer))))))"

text \<open>What the holder signs.\<close>

definition partial_doc :: "press_config \<Rightarrow> js \<Rightarrow> js \<Rightarrow> js" where
  "partial_doc cfg offer recipient_pubkey =
     js_spread offer [(''press_card'', Str (PRESS_CARD_CID cfg)), (''recipient_pubkey'', recipient_pubkey)]"

text \<open>Assemble, sign and publish; also used for open offers.\<close>

definition publish_signed_card ::
    "('x, 'z) platform_scheme \<Rightarrow> press_config \<Rightarrow> js \<Rightarrow> js \<Rightarrow> js \<Rightarrow> js \<Rightarrow> js \<Rightarrow> ('x, string) act" where
  "publish_signed_card p cfg offer recipient_pubkey holder_signature ancestry past_keys =
     bindA (askA (getProtocolVersion p)) (\<lambda>protocolVersion.
     bindA (liftA (signCardDocument p cfg
              (assembleCardDocument p cfg offer recipient_pubkey holder_signature ancestry protocolVersion past_keys))) (\<lambda>signed.
       publishCard p cfg signed))"

text \<open>The address of a card: the hash of its holder's key.\<close>

definition card_address :: "('x, 'z) platform_scheme \<Rightarrow> js \<Rightarrow> string res" where
  "card_address p recipient_pubkey =
     bindE (fromBase64url p recipient_pubkey) (\<lambda>key. Inr (''0x'' @ address_of p key))"

text \<open>Everything up to the inclusion proof: the card is published and registered.\<close>

definition issue_offered_card ::
    "('x, 'z) platform_scheme \<Rightarrow> press_config \<Rightarrow> js \<Rightarrow> ('x, (js \<times> js \<times> js) \<times> finalize_response) act" where
  "issue_offered_card p cfg body =
     bindA (liftA (js_prop body ''offer_cid'')) (\<lambda>offer_cid.
     let recipient_pubkey = field body ''recipient_pubkey''; holder_signature = field body ''holder_signature'' in
     bindA (open_offer_record (literal p offer_cid)) (\<lambda>(offerRecord, offer).
     bindA (liftA (verifyHolderSignature p (partial_doc cfg offer recipient_pubkey) holder_signature)) (\<lambda>valid.
     bindA (guardA valid (press_error ''P-05'' ''P-05: Invalid holder_signature'')) (\<lambda>_.
     let policy_cid = field offerRecord ''policy_cid'' in
     bindA (fetchPolicyCard p cfg policy_cid) (\<lambda>policy.
     bindA (publish_signed_card p cfg offer recipient_pubkey holder_signature
              (nullish (field offer ''ancestry_pubkeys'') (Arr [])) (field body ''past_keys'')) (\<lambda>cardCid.
     bindA (liftA (card_address p recipient_pubkey)) (\<lambda>cardAddress.
     bindA (checkGasBalance p ''RegisterCard'') (\<lambda>_.
     bindA (registerCard p cfg cardAddress (utf8_encode cardCid) (policy_address p policy_cid)) (\<lambda>_.
     bindA (appendIssuanceRecord p cfg policy_cid cardCid recipient_pubkey [] ''targeted'') (\<lambda>_.
     bindA (if nullish (field offer ''issued_at'') Undef = Undef
            then bindA (nowA p) (\<lambda>now. retA (Str (iso_of_ms p now)))
            else retA (field offer ''issued_at'')) (\<lambda>issuedAt.
     bindA (liftA (js_prop policy ''admin_wallet_service_url'')) (\<lambda>adminUrl.
     bindA (issueScip p cfg cardCid 0 cardCid issuedAt Undef adminUrl) (\<lambda>scip.
       retA ((offerRecord, offer, policy), \<lparr>fr_card_cid = cardCid, fr_scip = scip\<rparr>))))))))))))))"

definition handleIssueFinalize :: "('x, 'z) platform_scheme \<Rightarrow> press_config \<Rightarrow> js \<Rightarrow> ('x, finalize_response) act" where
  "handleIssueFinalize p cfg body =
     bindA (issue_offered_card p cfg body) (\<lambda>((offerRecord, offer, policy), response).
     bindA (setItem (offerKey (literal p (field body ''offer_cid''))) (js_spread offerRecord [(''finalized'', Bool True)])) (\<lambda>_.
     bindA (recordWrite p ''register_card'' (literal p (nullish (field offer ''issuer_card'') (Str []))) ''holder''
              (literal p (field offerRecord ''policy_cid'')) policy) (\<lambda>_.
       retA response)))"

section \<open>The record of an offer\<close>

lemma offer_keys [simp]:
  "offer_body_key a \<noteq> offerKey a" "offerKey a \<noteq> offer_body_key a"
  by (simp_all add: offer_body_key_def)

lemma offer_body_key_other [simp]:
  "offer_body_key a \<noteq> rateEntityKey b c d e f" "offer_body_key a \<noteq> policyWritesKey b f"
  by (simp_all add: offer_body_key_def)

lemma nullish_truthy [simp]: "truthy v \<Longrightarrow> nullish v d = v"
  by (cases v) auto

definition open_record :: "js \<Rightarrow> bool" where
  "open_record rec \<longleftrightarrow> truthy rec \<and> \<not> truthy (field rec ''finalized'')"

lemma open_record_offer_record [simp]: "open_record (offer_record pc t)"
  by (simp add: open_record_def offer_record_def field_def lookup_key_def)

lemma open_offer_record_Inr:
  "open_offer_record c w = (Inr (rec, offer), w') \<longleftrightarrow>
     w' = w \<and> rec = kv_get (offerKey c) (kv w) \<and> offer = kv_get (offer_body_key c) (kv w) \<and>
     open_record rec \<and> truthy offer"
  unfolding open_offer_record_def open_record_def by (auto simp: bindA_Inr act_simps split: if_splits)

lemma lookup_put_key: "lookup_key (put_key k x kvs) k' = (if k' = k then x else lookup_key kvs k')"
  by (induction kvs) (auto simp: lookup_key_def)

lemma field_finalized [simp]: "field (js_spread rec [(''finalized'', Bool True)]) ''finalized'' = Bool True"
  by (simp add: js_spread_def field_def lookup_put_key)

lemma finalized_refused:
  assumes "truthy (kv_get (offerKey c) (kv w))" "truthy (field (kv_get (offerKey c) (kv w)) ''finalized'')"
  shows "open_offer_record c w = (Inl (press_error ''P-01'' ''Offer already finalized''), w)"
  using assms by (simp add: open_offer_record_def bindA_def act_simps)

section \<open>What an accepted request has passed\<close>

text \<open>The state after the check of the policy's date, which reads the clock when there is a date.\<close>

definition after_expiry_check :: "('x, 'z) platform_scheme \<Rightarrow> js \<Rightarrow> 'x world \<Rightarrow> 'x world" where
  "after_expiry_check p policy w = (if truthy (field policy ''valid_until'') then clock_only p w else w)"

lemma kv_after_expiry_check [simp]: "kv (after_expiry_check p policy w) = kv w"
  by (simp add: after_expiry_check_def)

lemma policy_expired_Inr:
  assumes "policy_expired p c policy w = (Inr u, w')"
  shows "w' = after_expiry_check p policy w \<and> (truthy (field policy ''valid_until'') \<longrightarrow>
     \<not> num_le (date_ms p (field policy ''valid_until'')) (now_of p w))"
  using assms unfolding policy_expired_def after_expiry_check_def
  by (auto simp: bindA_Inr act_simps field_def split: if_splits)

text \<open>Below the limits of the window the clock shows in the state the check runs in.\<close>

definition within_limits :: "('x, 'z) platform_scheme \<Rightarrow> 'x world \<Rightarrow> string \<Rightarrow> string \<Rightarrow> string \<Rightarrow> string \<Rightarrow> bool" where
  "within_limits p w operation entityAddress entityType policyAddress \<longleftrightarrow>
     \<not> num_ge (counted p w (rateEntityKey entityAddress entityType operation policyAddress (windowStart (now_of p w))))
         (rate_limit operation) \<and>
     \<not> num_ge (counted p w (policyWritesKey policyAddress (windowStart (now_of p w)))) policy_limit"

lemma checkRateLimits_Inr:
  "checkRateLimits p opn e ty pol w = (Inr u, w') \<Longrightarrow> w' = clock_only p w \<and> within_limits p w opn e ty pol"
  by (auto simp: checkRateLimits_run Let_def within_limits_def split: if_splits)

lemma fetchPolicyCard_Inr:
  "fetchPolicyCard p cfg v w = (Inr policy, w') \<longleftrightarrow>
     w' = w \<and> (\<exists>bs. fetch_js p cfg v w = Inr bs \<and> json_parse p bs = Inr policy)"
  by (auto simp: fetchPolicyCard_def bindA_Inr act_simps)

text \<open>
  A request accepted in the state \<open>w\<close>, whose limits were checked in the state \<open>wl\<close>: the policy it names is
  fetched, has not expired by the clock of \<open>w\<close> and approves this press, and the requester and the policy
  are below their limits by the clock of \<open>wl\<close>.
\<close>

definition request_accepted :: "('x, 'z) platform_scheme \<Rightarrow> press_config \<Rightarrow> js \<Rightarrow> 'x world \<Rightarrow> 'x world \<Rightarrow> bool" where
  "request_accepted p cfg body w wl \<longleftrightarrow>
     (\<exists>bs policy presses. truthy (field body ''offer'') \<and>
        fetch_js p cfg (field body ''policy_cid'') w = Inr bs \<and> json_parse p bs = Inr policy \<and>
        js_prop policy ''approved_presses'' = Inr presses \<and> js_includes presses (PRESS_CARD_CID cfg) = Inr True \<and>
        (truthy (field policy ''valid_until'') \<longrightarrow> \<not> num_le (date_ms p (field policy ''valid_until'')) (now_of p w)) \<and>
        wl = after_expiry_check p policy w) \<and>
     within_limits p wl ''register_card'' (literal p (field body ''requester_card_address'')) ''holder''
       (literal p (field body ''policy_cid''))"

lemma validateIssuanceRequest_Inr:
  assumes "validateIssuanceRequest p cfg body w = (Inr r, w')"
  shows "\<exists>wl. w' = clock_only p wl \<and> kv wl = kv w \<and> request_accepted p cfg body w wl"
proof -
  from assms obtain pc req offer recip policy w1 w2 presses u where
    props: "js_prop body ''policy_cid'' = Inr pc" "js_prop body ''requester_card_address'' = Inr req"
      "js_prop body ''offer'' = Inr offer" "truthy offer"
    and policy: "fetchPolicyCard p cfg pc w = (Inr policy, w)"
    and expiry: "policy_expired p pc policy w = (Inr u, w1)"
    and presses: "js_prop policy ''approved_presses'' = Inr presses" "js_includes presses (PRESS_CARD_CID cfg) = Inr True"
    and preds: "(if truthy (nullish recip (Str []))
        then bindA (evaluatePredicates p cfg policy req recip (STALENESS_WINDOW_SECONDS cfg)) (\<lambda>_. retA ())
        else retA ()) w1 = (Inr (), w2)"
    and limits: "checkRateLimits p ''register_card'' (literal p req) ''holder'' (literal p pc) w2 = (Inr (), w')"
    unfolding validateIssuanceRequest_def
    by (auto simp: run_Inr bindE_eq_Inr fetchPolicyCard_Inr)
  from props have fields: "field body ''policy_cid'' = pc" "field body ''requester_card_address'' = req"
      "field body ''offer'' = offer"
    by (simp_all add: field_def)
  from preds have "w2 = w1"
    by (auto simp: bindA_Inr act_simps dest: evaluatePredicates_Inr split: if_splits)
  with policy_expired_Inr [OF expiry] checkRateLimits_Inr [OF limits]
  have "w1 = after_expiry_check p policy w" "w' = clock_only p w1"
      "within_limits p w1 ''register_card'' (literal p req) ''holder'' (literal p pc)"
      "truthy (field policy ''valid_until'') \<longrightarrow> \<not> num_le (date_ms p (field policy ''valid_until'')) (now_of p w)"
    by auto
  with props(4) policy presses show ?thesis
    by (intro exI [of _ w1]) (auto simp: request_accepted_def fetchPolicyCard_Inr fields)
qed

text \<open>Every successful \<open>/issue\<close>.\<close>

lemma handleIssue_Inr:
  assumes "handleIssue p cfg body w = (Inr cid, w')"
  shows "\<exists>bytes t wl. request_accepted p cfg body w wl \<and> issuer_signed p (field body ''offer'') \<and>
     \<not> stale_at p cfg (now_of p (clock_only p wl)) (field (field body ''offer'') ''issued_at'') \<and>
     canonicalize (field body ''offer'') = Inr bytes \<and> cid = offer_cid_of p bytes \<and>
     kv w' = (kv w)(offerKey cid \<mapsto> offer_record (field body ''policy_cid'') t,
                    offer_body_key cid \<mapsto> field body ''offer'')"
proof -
  from assms obtain r w1 bytes t where
    valid: "validateIssuanceRequest p cfg body w = (Inr r, w1)"
    and sig: "verifyIssuerSignature p (field body ''offer'') = Inr True"
    and fresh: "\<not> stale_at p cfg (now_of p w1) (field (field body ''offer'') ''issued_at'')"
    and bytes: "canonicalize (field body ''offer'') = Inr bytes" "cid = offer_cid_of p bytes"
    and store: "kv w' = kv_set (offer_body_key cid) (field body ''offer'')
        (kv_set (offerKey cid) (offer_record (field body ''policy_cid'') t) (kv w1))"
    unfolding handleIssue_def Let_def
    by (auto simp: bindA_Inr act_simps split: if_splits)
  from validateIssuanceRequest_Inr [OF valid] obtain wl where
    wl: "w1 = clock_only p wl" "kv wl = kv w" "request_accepted p cfg body w wl" by blast
  from fresh bytes store wl verifyIssuerSignature_True [OF sig] show ?thesis
    by (intro exI [of _ bytes] exI [of _ t] exI [of _ wl]) (simp add: kv_set_def)
qed

section \<open>What finalization does\<close>

lemma field_js_spread:
  "field (js_spread v kvs) k = (case map_of (rev kvs) k of Some x \<Rightarrow> x | None \<Rightarrow> lookup_key (js_entries v) k)"
proof -
  have "lookup_key (foldl (\<lambda>acc (k, x). put_key k x acc) es kvs) k =
      (case map_of (rev kvs) k of Some x \<Rightarrow> x | None \<Rightarrow> lookup_key es k)" for es
    by (induction kvs arbitrary: es)
      (auto simp: lookup_put_key map_of_append map_add_def split: option.splits prod.splits)
  then show ?thesis by (simp add: js_spread_def field_def)
qed

lemma js_prop_js_spread: "js_prop (js_spread v kvs) k = Inr (field (js_spread v kvs) k)"
  by (simp add: js_spread_def field_def)

lemma entries_js_spread: "lookup_key (js_entries (js_spread v kvs)) k = field (js_spread v kvs) k"
  by (simp add: js_spread_def field_def)

text \<open>A document made by \<open>assembleCardDocument\<close> and \<open>signCardDocument\<close> names its recipient.\<close>

lemma signed_card_recipient:
  assumes "signCardDocument p cfg (assembleCardDocument p cfg offer rcp hs anc ver past) = Inr sdoc"
  shows "js_prop sdoc ''recipient_pubkey'' = Inr rcp"
  using assms
  by (auto simp: signCardDocument_def bindE_eq_Inr js_prop_js_spread)
    (auto simp: assembleCardDocument_def Let_def field_js_spread entries_js_spread split: if_splits)

text \<open>A card as it is on IPFS: sealed under the recipient's content key.\<close>

definition card_published ::
    "('x, 'z) platform_scheme \<Rightarrow> press_config \<Rightarrow> js \<Rightarrow> js \<Rightarrow> string \<Rightarrow> bool" where
  "card_published p cfg recipient_pubkey sdoc cid \<longleftrightarrow>
     (\<exists>key plaintext x w. fromBase64url p recipient_pubkey = Inr key \<and> canonicalize sdoc = Inr plaintext \<and>
        fetchFromIPFS p cfg cid w = Inr (sealed p (deriveContentKey p key) (fst (random_nonce p x)) plaintext))"

lemma publish_signed_card_Inr:
  assumes "publish_signed_card p cfg offer rcp hs anc past w = (Inr cid, w')"
  shows "\<exists>ver sdoc. signCardDocument p cfg (assembleCardDocument p cfg offer rcp hs anc ver past) = Inr sdoc \<and>
     card_published p cfg rcp sdoc cid"
proof -
  from assms obtain ver sdoc w1 where
    sdoc: "signCardDocument p cfg (assembleCardDocument p cfg offer rcp hs anc ver past) = Inr sdoc"
    and pub: "publishCard p cfg sdoc w1 = (Inr cid, w')"
    unfolding publish_signed_card_def by (auto simp: run_Inr)
  from publishCard_Inr [OF pub] signed_card_recipient [OF sdoc] have "card_published p cfg rcp sdoc cid"
    by (auto simp: card_published_def)
  with sdoc show ?thesis by blast
qed

definition card_fields :: "string \<Rightarrow> bytes \<Rightarrow> string \<Rightarrow> (string \<times> js) list" where
  "card_fields cardAddress cid policyAddress =
     [(''card_address'', address_field (normalizeHex cardAddress)), (''initial_log_cid'', bytes_field cid),
      (''policy_address'', address_field (normalizeHex policyAddress))]"

text \<open>The registration of a card was confirmed by the chain.\<close>

definition card_registered ::
    "('x, 'z) platform_scheme \<Rightarrow> press_config \<Rightarrow> string \<Rightarrow> string \<Rightarrow> string \<Rightarrow> bool" where
  "card_registered p cfg cardAddress cid policyAddress \<longleftrightarrow>
     (\<exists>x0 x1 hash. submitted p cfg ''registerCard'' ''register_card''
        (card_fields cardAddress (utf8_encode cid) policyAddress)
        (\<lambda>payload sig. [Word_Arg (normalizeHex cardAddress), Bytes_Arg (utf8_encode cid),
           Word_Arg (normalizeHex policyAddress), Word_Arg (gas_address p cfg), Bytes_Arg payload, Bytes_Arg sig])
        (normalizeHex policyAddress) x0 hash x1)"

lemma registerCard_Inr:
  "registerCard p cfg a (utf8_encode cid) b w = (Inr hash, w') \<Longrightarrow> card_registered p cfg a cid b"
  unfolding registerCard_def card_registered_def card_fields_def Let_def
  by (drule signed_write_Inr) blast

lemma issue_offered_card_Inr:
  assumes "issue_offered_card p cfg body w = (Inr ((rec, offer, policy), r), w')"
  shows "open_offer_record (literal p (field body ''offer_cid'')) w = (Inr (rec, offer), w) \<and>
     holder_signed p (partial_doc cfg offer (field body ''recipient_pubkey'')) (field body ''holder_signature'') \<and>
     (\<exists>ver sdoc. signCardDocument p cfg (assembleCardDocument p cfg offer (field body ''recipient_pubkey'')
          (field body ''holder_signature'') (nullish (field offer ''ancestry_pubkeys'') (Arr [])) ver (field body ''past_keys'')) = Inr sdoc \<and>
        card_published p cfg (field body ''recipient_pubkey'') sdoc (fr_card_cid r)) \<and>
     (\<exists>addr. card_address p (field body ''recipient_pubkey'') = Inr addr \<and>
        card_registered p cfg addr (fr_card_cid r) (policy_address p (field rec ''policy_cid''))) \<and>
     (\<exists>u. js_prop policy ''admin_wallet_service_url'' = Inr u)"
proof -
  from assms obtain w1 w2 w3 w4 hash cid addr where
    start: "open_offer_record (literal p (field body ''offer_cid'')) w = (Inr (rec, offer), w1)"
    and sig: "verifyHolderSignature p (partial_doc cfg offer (field body ''recipient_pubkey'')) (field body ''holder_signature'') = Inr True"
    and pub: "publish_signed_card p cfg offer (field body ''recipient_pubkey'') (field body ''holder_signature'')
        (nullish (field offer ''ancestry_pubkeys'') (Arr [])) (field body ''past_keys'') w1 = (Inr cid, w2)"
    and addr: "card_address p (field body ''recipient_pubkey'') = Inr addr"
    and reg: "registerCard p cfg addr (utf8_encode cid) (policy_address p (field rec ''policy_cid'')) w3 = (Inr hash, w4)"
    and cid: "fr_card_cid r = cid"
    and url: "\<exists>u. js_prop policy ''admin_wallet_service_url'' = Inr u"
    unfolding issue_offered_card_def Let_def
    by (auto simp: run_Inr fetchPolicyCard_Inr field_def split: prod.splits)
  from start have "w1 = w" by (simp add: open_offer_record_Inr)
  with start sig pub addr reg cid url show ?thesis
    by (auto dest: verifyHolderSignature_True publish_signed_card_Inr registerCard_Inr)
qed

lemma keeps_checkGasBalance [keeps_intros]: "keeps f (checkGasBalance p opn)"
  unfolding checkGasBalance_def by (intro keeps_intros)

lemma keeps_issue_offered_card: "keeps (\<lambda>w. kv w k) (issue_offered_card p cfg body)"
  unfolding issue_offered_card_def publish_signed_card_def open_offer_record_def nowA_def Let_def
  by (auto intro!: keeps_intros keeps_kv_at [OF keeps_writes(1)] split: prod.split)

end
