(* ===== verification/Press_Update.thy ===== *)
theory Press_Update
  imports Press_Issue
begin

text \<open>
  The handler of card updates and revocations, \<open>press/src/handlers/update.ts\<close>. The lemmas
  say what every accepted update has passed, and for which codes the identity of the signer
  is checked at all.
\<close>

section \<open>Codes and fields\<close>

definition ACTIVE_SUBCARDS_DIRECTORY_CODES :: "js_number set" where
  "ACTIVE_SUBCARDS_DIRECTORY_CODES = {Fin 510, Fin 511, Fin 512}"

definition SUCCESSOR_CODES :: "js_number set" where
  "SUCCESSOR_CODES = {Fin 100, Fin 101, Fin 102}"

text \<open>\<open>set.has(v)\<close>: only a number can be a member.\<close>

fun has_code :: "js_number set \<Rightarrow> js \<Rightarrow> bool" where
  "has_code codes (Num n) = (n \<in> codes)"
| "has_code codes v = False"

abbreviation directory_code :: "js \<Rightarrow> bool" where
  "directory_code code \<equiv> has_code ACTIVE_SUBCARDS_DIRECTORY_CODES code"

definition IMMUTABLE_FIELDS :: "string set" where
  "IMMUTABLE_FIELDS = {''policy_id'', ''issuer_card'', ''press_card'', ''recipient_pubkey'', ''issued_at'',
     ''issuer_signature'', ''holder_signature'', ''press_signature'', ''ancestry_pubkeys'', ''past_keys'',
     ''protocol_version'', ''active_subcards'', ''successor'', ''supersedes'', ''supersession_note''}"

definition isImmutableFieldUpdateAllowed :: "string \<Rightarrow> js \<Rightarrow> bool" where
  "isImmutableFieldUpdateAllowed fld code =
     (if fld = ''active_subcards'' then directory_code code
      else if fld = ''successor'' then has_code SUCCESSOR_CODES code
      else False)"

definition forbidden_field :: "js \<Rightarrow> js \<Rightarrow> bool" where
  "forbidden_field code fld \<longleftrightarrow>
     (case fld of Str f \<Rightarrow> f \<in> IMMUTABLE_FIELDS \<and> \<not> isImmutableFieldUpdateAllowed f code | _ \<Rightarrow> False)"

definition check_field :: "('x, 'z) platform_scheme \<Rightarrow> js \<Rightarrow> js \<Rightarrow> unit res" where
  "check_field p code update =
     bindE (js_prop update ''field'') (\<lambda>fld.
       if forbidden_field code fld
       then Inl (press_error ''P-25'' (''P-25: field_updates targets protocol-required immutable field '' @
              [CHR 0x27] @ literal p fld @ [CHR 0x27]))
       else Inr ())"

definition check_fields :: "('x, 'z) platform_scheme \<Rightarrow> js \<Rightarrow> unit res" where
  "check_fields p intent =
     bindE (js_iterate (nullish (field intent ''field_updates'') (Arr []))) (\<lambda>updates.
     bindE (mapE (check_field p (field intent ''code'')) updates) (\<lambda>_. Inr ()))"

section \<open>The handler\<close>

text \<open>Steps 1 and 2: the signature of the intent under the key it comes with, and its age.\<close>

definition verify_intent :: "('x, 'z) platform_scheme \<Rightarrow> press_config \<Rightarrow> js \<Rightarrow> js \<Rightarrow> ('x, bytes) act" where
  "verify_intent p cfg intent intentSignature =
     bindA (liftA (canonicalize intent)) (\<lambda>toVerify.
     bindA (liftA (bindE (js_prop intentSignature ''public_key'') (fromBase64url p))) (\<lambda>updaterPubkey.
     bindA (liftA (bindE (js_prop intentSignature ''signature'') (fromBase64url p))) (\<lambda>signature.
     bindA (liftA (mlDsa44Verify p updaterPubkey toVerify signature)) (\<lambda>sigValid.
     bindA (guardA sigValid (press_error ''P-09'' ''P-09: Invalid intent_signature on UpdateIntentPayload'')) (\<lambda>_.
     bindA (nowA p) (\<lambda>now.
     bindA (liftA (js_prop intent ''timestamp'')) (\<lambda>timestamp.
     bindA (guardA (\<not> stale_at p cfg now timestamp) (press_error ''P-22'' ''P-22: UpdateIntent timestamp is stale'')) (\<lambda>_.
       retA updaterPubkey))))))))"

text \<open>Step 3: the target card and the policy the press uses for its alerts.\<close>

definition default_policy :: "press_config \<Rightarrow> js" where
  "default_policy cfg = Obj [(''field_definitions'', Obj []), (''approved_presses'', Arr [Str (PRESS_CARD_CID cfg)])]"

definition first_policy_cid :: "press_config \<Rightarrow> string" where
  "first_policy_cid cfg = (case PRESS_POLICY_CIDS cfg of [] \<Rightarrow> [] | c # cs \<Rightarrow> c)"

definition update_target :: "('x, 'z) platform_scheme \<Rightarrow> press_config \<Rightarrow> js \<Rightarrow> ('x, string \<times> reg_card_entry \<times> js) act" where
  "update_target p cfg intent =
     bindA (liftA (js_string ''hex.startsWith'' (field intent ''target_card_address''))) (\<lambda>targetAddress.
     bindA (askA (getCardEntry p targetAddress)) (\<lambda>cardEntry.
     bindA (guardA (rc_exists cardEntry) (press_error ''P-01'' ''Target card not found'')) (\<lambda>_.
     bindA (catchA (fetchPolicyCard p cfg (Str (first_policy_cid cfg))) (\<lambda>err. retA (default_policy cfg))) (\<lambda>policy.
       retA (targetAddress, cardEntry, policy)))))"

text \<open>Step 4.\<close>

definition below_800 :: "('x, 'z) platform_scheme \<Rightarrow> js \<Rightarrow> bool" where
  "below_800 p intent \<longleftrightarrow> num_lt (to_number p (field intent ''code'')) 800"

definition authorize_update ::
    "('x, 'z) platform_scheme \<Rightarrow> press_config \<Rightarrow> js \<Rightarrow> bytes \<Rightarrow> string \<Rightarrow> string \<Rightarrow> ('x, unit) act" where
  "authorize_update p cfg intent updaterPubkey targetAddress policyAddress =
     (let code = field intent ''code''; updater = field intent ''updater_card_address'' in
      if directory_code code then
        bindA (guardA (updater = Str targetAddress) (press_error ''P-23''
          ''P-23: Codes 510/511/512 (active_subcards directory updates) must be self-updates - updater_card_address must equal target_card_address'')) (\<lambda>_.
        guardA (to_lower (address_of p updaterPubkey) = to_lower targetAddress)
          (press_error ''P-13'' ''P-13: intent_signature public_key does not bind to target_card_address''))
      else if below_800 p intent then
        bindA (press_verifyCard p cfg updater) (\<lambda>updaterResult.
        bindA (guardA (sr_chain_reaches_trusted_root updaterResult = Flag True)
                 (press_error ''P-11'' ''P-11: Updater card chain does not satisfy the update_policy predicate'')) (\<lambda>_.
          if num_lt (to_number p code) 200
          then checkRateLimits p ''update_card_head'' (literal p updater) ''holder'' policyAddress
          else retA ()))
      else retA ())"

text \<open>Step 4b: the directory before the update; whatever goes wrong gives an empty one.\<close>

definition pre_update_subcards ::
    "('x, 'z) platform_scheme \<Rightarrow> press_config \<Rightarrow> bytes \<Rightarrow> reg_card_entry \<Rightarrow> 'x world \<Rightarrow> js res" where
  "pre_update_subcards p cfg updaterPubkey cardEntry w =
     bindE (fetchFromIPFS p cfg (utf8_decode p (rc_log_head_cid cardEntry)) w) (\<lambda>encrypted.
     bindE (press_aes256gcmDecrypt p (deriveContentKey p updaterPubkey) encrypted) (\<lambda>decrypted.
     bindE (json_parse p decrypted) (\<lambda>doc.
     bindE (js_prop doc ''active_subcards'') (\<lambda>subcards.
       Inr (nullish subcards (Arr []))))))"

definition snapshot_subcards ::
    "('x, 'z) platform_scheme \<Rightarrow> press_config \<Rightarrow> js \<Rightarrow> bytes \<Rightarrow> reg_card_entry \<Rightarrow> ('x, js) act" where
  "snapshot_subcards p cfg intent updaterPubkey cardEntry =
     (if directory_code (field intent ''code'')
      then catchA (readA (pre_update_subcards p cfg updaterPubkey cardEntry)) (\<lambda>err. retA (Arr []))
      else retA (Arr []))"

text \<open>Step 7: the siblings hear of a change of the directory; failures are logged only.\<close>

definition post_update_subcards :: "js \<Rightarrow> js res" where
  "post_update_subcards intent =
     (case field intent ''field_updates'' of
        Undef \<Rightarrow> Inr (Arr [])
      | Null \<Rightarrow> Inr (Arr [])
      | Arr us \<Rightarrow>
          bindE (mapE (\<lambda>u. js_prop u ''field'') (takeWhile (\<lambda>u. field u ''field'' \<noteq> Str ''active_subcards'') us)) (\<lambda>_.
            case List.find (\<lambda>u. field u ''field'' = Str ''active_subcards'') us of
              None \<Rightarrow> Inr (Arr [])
            | Some u \<Rightarrow> Inr (nullish (field u ''value'') (Arr [])))
      | v \<Rightarrow> Inl (JsError ''TypeError: update_intent.field_updates.find is not a function''))"

fun js_array :: "js \<Rightarrow> js list res" where
  "js_array (Arr xs) = Inr xs"
| "js_array v = Inl (JsError ''TypeError: filter is not a function'')"

fun code_number :: "js \<Rightarrow> int" where
  "code_number (Num (Fin i)) = i"
| "code_number v = 0"

definition sibling_content :: "string \<Rightarrow> string \<Rightarrow> string \<Rightarrow> subcards_diff \<Rightarrow> string \<times> js" where
  "sibling_content targetAddress logEntryCid timestamp d = (case d of
     Diff_Added newPubkey rs \<Rightarrow>
       (''subcard_sibling_added'', buildSubcardSiblingAddedContent targetAddress newPubkey logEntryCid timestamp)
   | Diff_Removed removedPubkey rs \<Rightarrow>
       (''subcard_sibling_removed'', buildSubcardSiblingRemovedContent targetAddress removedPubkey logEntryCid timestamp)
   | Diff_Rotated oldPubkey newPubkey rs \<Rightarrow>
       (''subcard_sibling_rotated'', buildSubcardSiblingRotatedContent targetAddress oldPubkey newPubkey logEntryCid timestamp))"

definition notify_siblings ::
    "('x, 'z) platform_scheme \<Rightarrow> js \<Rightarrow> string \<Rightarrow> js \<Rightarrow> string \<Rightarrow> ('x, unit) act" where
  "notify_siblings p intent targetAddress before logEntryCid =
     (if directory_code (field intent ''code'') then
        catchA
          (bindA (liftA (post_update_subcards intent)) (\<lambda>after.
           bindA (liftA (bindE (js_array before) (\<lambda>b. bindE (js_array after) (\<lambda>a. Inr (b, a))))) (\<lambda>(b, a).
             case diffActiveSubcards (code_number (field intent ''code'')) b a of
               None \<Rightarrow> retA ()
             | Some d \<Rightarrow>
                 bindA (nowA p) (\<lambda>now.
                 bindA (case sibling_content targetAddress logEntryCid (iso_of_ms p now) d of (ty, content) \<Rightarrow>
                          notifySubcardSiblings p ty (diff_recipients d) content) (\<lambda>_. retA ())))))
          (\<lambda>err. retA ())
      else retA ())"

definition handleUpdate :: "('x, 'z) platform_scheme \<Rightarrow> press_config \<Rightarrow> js \<Rightarrow> ('x, log_entry_result) act" where
  "handleUpdate p cfg body =
     bindA (liftA (js_prop body ''update_intent'')) (\<lambda>intent.
     bindA (liftA (js_prop body ''intent_signature'')) (\<lambda>intentSignature.
     bindA (verify_intent p cfg intent intentSignature) (\<lambda>updaterPubkey.
     bindA (liftA (check_fields p intent)) (\<lambda>_.
     bindA (update_target p cfg intent) (\<lambda>(targetAddress, cardEntry, policy).
     let policyAddress = rc_policy_address cardEntry in
     bindA (authorize_update p cfg intent updaterPubkey targetAddress policyAddress) (\<lambda>_.
     bindA (snapshot_subcards p cfg intent updaterPubkey cardEntry) (\<lambda>before.
     bindA (appendLogEntry p cfg targetAddress intent intentSignature) (\<lambda>result.
     bindA (if below_800 p intent
            then recordWrite p ''update_card_head'' (literal p (field intent ''updater_card_address'')) ''holder''
                   policyAddress policy
            else retA ()) (\<lambda>_.
     bindA (notify_siblings p intent targetAddress before (le_log_entry_cid result)) (\<lambda>_.
       retA result))))))))))"

section \<open>What an accepted update has passed\<close>

definition intent_signed :: "('x, 'z) platform_scheme \<Rightarrow> js \<Rightarrow> js \<Rightarrow> bytes \<Rightarrow> bool" where
  "intent_signed p intent intentSignature key \<longleftrightarrow>
     (\<exists>pk sg message signature. js_prop intentSignature ''public_key'' = Inr pk \<and> fromBase64url p pk = Inr key \<and>
        js_prop intentSignature ''signature'' = Inr sg \<and> fromBase64url p sg = Inr signature \<and>
        canonicalize intent = Inr message \<and> mlDsa44Verify p key message signature = Inr True)"

lemma verify_intent_Inr:
  assumes "verify_intent p cfg intent sig w = (Inr key, w')"
  shows "w' = clock_only p w \<and> intent_signed p intent sig key \<and>
     \<not> stale_at p cfg (now_of p w) (field intent ''timestamp'')"
  using assms unfolding verify_intent_def intent_signed_def
  by (auto simp: run_Inr nowA_run bindE_eq_Inr field_def)

lemma check_fields_Inr:
  assumes "check_fields p intent = Inr u" "field intent ''field_updates'' = Arr us" "v \<in> set us"
  shows "\<not> forbidden_field (field intent ''code'') (field v ''field'')"
proof -
  from assms obtain rs where "mapE (check_field p (field intent ''code'')) us = Inr rs"
    by (auto simp: check_fields_def bindE_eq_Inr)
  then obtain r where "check_field p (field intent ''code'') v = Inr r"
    using assms(3) by (metis in_set_conv_nth mapE_nth)
  then show ?thesis
    by (auto simp: check_field_def bindE_eq_Inr field_def split: if_splits)
qed

lemma update_target_Inr:
  "update_target p cfg intent w = (Inr (target, entry, policy), w') \<Longrightarrow>
     w' = w \<and> field intent ''target_card_address'' = Str target \<and> getCardEntry p target (ext w) = Inr entry \<and>
     rc_exists entry"
  unfolding update_target_def
  by (auto simp: run_Inr catchA_eq fetchPolicyCard_def bindA_eq)

lemma authorize_update_Inr:
  assumes "authorize_update p cfg intent key target policy w = (Inr u, w')"
  shows "kv w' = kv w \<and>
     (directory_code (field intent ''code'') \<longrightarrow>
        field intent ''updater_card_address'' = Str target \<and> to_lower (keccak256 p key) = to_lower target) \<and>
     (\<not> directory_code (field intent ''code'') \<and> below_800 p intent \<longrightarrow>
        (\<exists>a. field intent ''updater_card_address'' = Str a \<and> press_root p cfg w a))"
  using assms unfolding authorize_update_def Let_def address_of_keccak256
  by (auto simp: run_Inr dest!: press_verifyCard_Inr checkRateLimits_Inr split: if_splits)

end
