(* ===== verification/Press_SubCard.thy ===== *)
theory Press_SubCard
  imports Press_Update
begin

text \<open>
  The handlers of sub-card registration and deregistration,
  \<open>press/src/handlers/sub-card.ts\<close>, and what an accepted request has passed.
\<close>

section \<open>POST /sub-card/register\<close>

text \<open>Steps 1 to 4: both signatures and both bindings of a sub-card document.\<close>

definition binding_check :: "('x, 'z) platform_scheme \<Rightarrow> js \<Rightarrow> bytes \<Rightarrow> string \<Rightarrow> exn \<Rightarrow> ('x, unit) act" where
  "binding_check p doc key name err =
     bindA (liftA (bindE (js_prop doc name) (js_string ''toLowerCase''))) (\<lambda>address.
       guardA (to_lower (address_of p key) = to_lower address) err)"

definition verify_subcard_document ::
    "('x, 'z) platform_scheme \<Rightarrow> js \<Rightarrow> js \<Rightarrow> ('x, unit) act" where
  "verify_subcard_document p doc holder_signature =
     bindA (liftA (canonicalize (js_omit ''holder_signature'' (js_omit ''app_signature'' (Obj (js_entries doc)))))) (\<lambda>appSigBytes.
     bindA (liftA (bindE (js_prop doc ''app_card_pubkey'') (fromBase64url p))) (\<lambda>appPubkey.
     bindA (liftA (bindE (js_prop doc ''app_signature'') (fromBase64url p))) (\<lambda>appSignature.
     bindA (liftA (mlDsa44Verify p appPubkey appSigBytes appSignature)) (\<lambda>appSigValid.
     bindA (guardA appSigValid (press_error ''P-13'' ''P-13: Invalid app_signature on SubCardDocument'')) (\<lambda>_.
     bindA (liftA (bindE (js_prop doc ''holder_primary_card_pubkey'') (fromBase64url p))) (\<lambda>holderPubBytes.
     bindA (binding_check p doc holderPubBytes ''holder_primary_card''
              (press_error ''P-13'' ''P-13: holder_primary_card_pubkey binding check failed'')) (\<lambda>_.
     bindA (binding_check p doc appPubkey ''app_card''
              (press_error ''P-13'' ''P-13: app_card_pubkey binding check failed'')) (\<lambda>_.
     bindA (liftA (canonicalize (js_omit ''holder_signature'' (Obj (js_entries doc))))) (\<lambda>holderSigBytes.
     bindA (liftA (fromBase64url p holder_signature)) (\<lambda>holderSignature.
     bindA (liftA (mlDsa44Verify p holderPubBytes holderSigBytes holderSignature)) (\<lambda>holderSigValid.
       guardA holderSigValid (press_error ''P-14'' ''P-14: Invalid holder_signature on SubCardDocument''))))))))))))"

record register_response =
  rr_sub_card_doc_cid :: string
  rr_tx_hash :: string

definition policy_or_default :: "('x, 'z) platform_scheme \<Rightarrow> press_config \<Rightarrow> string \<Rightarrow> ('x, js) act" where
  "policy_or_default p cfg policyCid =
     catchA (fetchPolicyCard p cfg (Str policyCid)) (\<lambda>err. retA (Obj [(''policy_id'', Str policyCid),
       (''field_definitions'', Obj []), (''approved_presses'', Arr [])]))"

definition text_bytes :: "('x, 'z) platform_scheme \<Rightarrow> js \<Rightarrow> bytes" where
  "text_bytes p v = utf8_encode (literal p v)"

text \<open>Steps 9 and 10: pin the document and register the sub-card under the master's head.\<close>

definition register_subcard_document ::
    "('x, 'z) platform_scheme \<Rightarrow> press_config \<Rightarrow> js \<Rightarrow> js \<Rightarrow> ('x, register_response) act" where
  "register_subcard_document p cfg body doc =
     bindA (liftA (canonicalize (js_spread doc [(''holder_signature'', field body ''holder_signature'')]))) (\<lambda>docBytes.
     bindA (pinToIPFS p cfg docBytes) (\<lambda>subCardDocCid.
     bindA (liftA (js_string ''hex.startsWith'' (field doc ''holder_primary_card''))) (\<lambda>masterCardAddress.
     bindA (askA (getCardEntry p masterCardAddress)) (\<lambda>masterEntry.
     bindA (liftA (card_address p (field doc ''recipient_pubkey''))) (\<lambda>subCardAddress.
     bindA (liftA (if truthy (field body ''admin_secp_signature'') then fromBase64url p (field body ''admin_secp_signature'')
                   else Inr (replicate 64 0))) (\<lambda>adminSignature.
     bindA (registerSubCard p cfg subCardAddress masterCardAddress (rc_log_head_cid masterEntry)
              (utf8_encode subCardDocCid)
              (Some (if truthy (field body ''admin_secp_payload'') then text_bytes p (field body ''admin_secp_payload'') else []))
              (Some adminSignature)) (\<lambda>txHash.
       retA \<lparr>rr_sub_card_doc_cid = subCardDocCid, rr_tx_hash = txHash\<rparr>)))))))"

definition handleSubCardRegister :: "('x, 'z) platform_scheme \<Rightarrow> press_config \<Rightarrow> js \<Rightarrow> ('x, register_response) act" where
  "handleSubCardRegister p cfg body =
     bindA (liftA (js_prop body ''sub_card_document'')) (\<lambda>doc.
     bindA (verify_subcard_document p doc (field body ''holder_signature'')) (\<lambda>_.
     bindA (press_verifyCard p cfg (field doc ''app_card'')) (\<lambda>appResult.
     bindA (guardA (sr_chain_reaches_trusted_root appResult = Flag True \<and> sr_is_currently_valid appResult \<noteq> Flag False)
              (press_error ''P-15'' ''P-15: App card chain does not reach governance app-certification policy root'')) (\<lambda>_.
     let holderAddress = literal p (field doc ''holder_primary_card''); appCardAddress = literal p (field doc ''app_card'');
         policyCid = first_policy_cid cfg in
     bindA (checkRateLimits p ''register_sub_card'' holderAddress ''holder'' policyCid) (\<lambda>_.
     bindA (checkRateLimits p ''register_sub_card_app'' appCardAddress ''app_card'' policyCid) (\<lambda>_.
     bindA (checkAppGasBalance p appCardAddress ''RegisterSubCard'') (\<lambda>gasCheck.
     bindA (guardA (sufficient gasCheck)
              (press_error ''P-16'' ''P-16: App gas account balance insufficient for RegisterSubCard'')) (\<lambda>_.
     bindA (register_subcard_document p cfg body doc) (\<lambda>response.
     bindA (policy_or_default p cfg policyCid) (\<lambda>policy.
     bindA (recordWrite p ''register_sub_card'' holderAddress ''holder'' policyCid policy) (\<lambda>_.
     bindA (recordWrite p ''register_sub_card_app'' appCardAddress ''app_card'' policyCid policy) (\<lambda>_.
       retA response))))))))))))"

section \<open>POST /sub-card/deregister\<close>

text \<open>Steps 1 to 3: an active sub-card and the signature of its master over the payload.\<close>

definition verify_deregistration ::
    "('x, 'z) platform_scheme \<Rightarrow> press_config \<Rightarrow> js \<Rightarrow> string \<Rightarrow> ('x, bytes \<times> bytes) act" where
  "verify_deregistration p cfg body subCardAddress =
     bindA (askA (getSubCardEntry p subCardAddress)) (\<lambda>subEntry.
     bindA (guardA (rs_active subEntry) (press_error ''P-01'' ''Sub-card is not active or does not exist'')) (\<lambda>_.
     bindA (askA (getCardEntry p (rs_master_card_address subEntry))) (\<lambda>_.
     bindA (readA (fetchFromIPFS p cfg (utf8_decode p (rs_sub_card_doc_cid subEntry)))) (\<lambda>subDocBytes.
     bindA (liftA (json_parse p subDocBytes)) (\<lambda>subDoc.
     bindA (liftA (bindE (js_prop subDoc ''holder_primary_card_pubkey'') (fromBase64url p))) (\<lambda>masterPubkey.
     bindA (liftA (canonicalize (field body ''sig_payload''))) (\<lambda>sigPayloadBytes.
     bindA (liftA (fromBase64url p (field body ''master_signature''))) (\<lambda>masterSignature.
     bindA (liftA (mlDsa44Verify p masterPubkey sigPayloadBytes masterSignature)) (\<lambda>sigValid.
     bindA (guardA sigValid (press_error ''P-14'' ''P-14: Invalid master_signature on deregistration request'')) (\<lambda>_.
       retA (sigPayloadBytes, masterSignature)))))))))))"

definition handleSubCardDeregister :: "('x, 'z) platform_scheme \<Rightarrow> press_config \<Rightarrow> js \<Rightarrow> ('x, string) act" where
  "handleSubCardDeregister p cfg body =
     bindA (liftA (bindE (js_prop body ''sub_card_address'') (js_string ''hex.startsWith''))) (\<lambda>subCardAddress.
     bindA (verify_deregistration p cfg body subCardAddress) (\<lambda>(sigPayloadBytes, masterSignature).
     bindA (checkAppGasBalance p subCardAddress ''DeregisterSubCard'') (\<lambda>gasCheck.
     bindA (guardA (sufficient gasCheck \<or> sponsor gasCheck) (press_error ''P-20'' ''Gas check failed'')) (\<lambda>_.
     bindA (if sponsor gasCheck then checkGasBalance p ''DeregisterSubCard'' else retA ()) (\<lambda>_.
       deregisterSubCard p cfg subCardAddress sigPayloadBytes masterSignature)))))"

section \<open>What accepted requests have passed\<close>

text \<open>Both parties signed, and both keys belong to the cards the document names.\<close>

definition subcard_document_signed :: "('x, 'z) platform_scheme \<Rightarrow> js \<Rightarrow> js \<Rightarrow> bool" where
  "subcard_document_signed p doc holder_signature \<longleftrightarrow>
     (\<exists>appKey holderKey appAddr holderAddr appMsg holderMsg appSig holderSig.
        bindE (js_prop doc ''app_card_pubkey'') (fromBase64url p) = Inr appKey \<and>
        bindE (js_prop doc ''holder_primary_card_pubkey'') (fromBase64url p) = Inr holderKey \<and>
        field doc ''app_card'' = Str appAddr \<and> to_lower (keccak256 p appKey) = to_lower appAddr \<and>
        field doc ''holder_primary_card'' = Str holderAddr \<and> to_lower (keccak256 p holderKey) = to_lower holderAddr \<and>
        canonicalize (js_omit ''holder_signature'' (js_omit ''app_signature'' (Obj (js_entries doc)))) = Inr appMsg \<and>
        bindE (js_prop doc ''app_signature'') (fromBase64url p) = Inr appSig \<and>
        mlDsa44Verify p appKey appMsg appSig = Inr True \<and>
        canonicalize (js_omit ''holder_signature'' (Obj (js_entries doc))) = Inr holderMsg \<and>
        fromBase64url p holder_signature = Inr holderSig \<and>
        mlDsa44Verify p holderKey holderMsg holderSig = Inr True)"

lemma verify_subcard_document_Inr:
  assumes "verify_subcard_document p doc hs w = (Inr u, w')"
  shows "w' = w \<and> subcard_document_signed p doc hs"
  using assms unfolding verify_subcard_document_def binding_check_def subcard_document_signed_def address_of_keccak256
  by (auto simp: run_Inr bindE_eq_Inr field_def)

lemma checkAppGasBalance_Inr:
  assumes "checkAppGasBalance p a opn w = (Inr g, w')"
  shows "w' = w \<and> (\<exists>b. app_balance p w a = Inr b \<and>
     (sponsor g \<longleftrightarrow> opn = ''DeregisterSubCard'' \<and> b = 0) \<and>
     (sufficient g \<longrightarrow> (\<exists>c. estimatedCostWei p opn (ext w) = Inr c \<and> c \<le> b)))"
  using assms unfolding checkAppGasBalance_def app_balance_def
  by (auto simp: run_Inr split: if_splits)

end
