(* ===== verification/Press_OpenOffer.thy ===== *)
theory Press_OpenOffer
  imports Press_SubCard
begin

text \<open>
  The handler of open offers, \<open>press/src/handlers/open-offer.ts\<close>: an offer signed by its
  issuer is claimed by whoever signs the claim, within the offer's time and capacity.
\<close>

definition UINT64_MAX :: int where
  "UINT64_MAX = 18446744073709551615"

text \<open>Steps 1 to 5: this press, an open policy, the issuer's binding and both signatures.\<close>

definition check_open_policy :: "('x, 'z) platform_scheme \<Rightarrow> press_config \<Rightarrow> js \<Rightarrow> ('x, js) act" where
  "check_open_policy p cfg offer =
     bindA (liftA (js_prop offer ''press_card'')) (\<lambda>press_card.
     bindA (guardA (press_card = Str (PRESS_CARD_CID cfg))
              (press_error ''P-01'' ''P-01: offer.press_card does not match this press'')) (\<lambda>_.
     bindA (fetchPolicyCard p cfg (field offer ''policy_id'')) (\<lambda>policy.
     bindA (liftA (js_prop policy ''allow_open_offers'')) (\<lambda>allowed.
     bindA (guardA (truthy allowed) (press_error ''P-01'' ''P-01: Policy does not allow open offers'')) (\<lambda>_.
       retA policy)))))"

definition check_open_issuer :: "('x, 'z) platform_scheme \<Rightarrow> js \<Rightarrow> ('x, unit) act" where
  "check_open_issuer p offer =
     bindA (liftA (fromBase64url p (field offer ''issuer_pubkey''))) (\<lambda>issuerPubkeyBytes.
     bindA (binding_check p offer issuerPubkeyBytes ''issuer_card''
              (press_error ''P-05'' ''P-05: issuer_pubkey binding check failed'')) (\<lambda>_.
     bindA (liftA (canonicalize_excluding (js_omit ''issuer_signature'' offer) [''issuer_signature''])) (\<lambda>toVerifyIssuer.
     bindA (liftA (fromBase64url p (field offer ''issuer_signature''))) (\<lambda>sig.
     bindA (liftA (mlDsa44Verify p issuerPubkeyBytes toVerifyIssuer sig)) (\<lambda>issuerSigValid.
       guardA issuerSigValid (press_error ''P-05'' ''P-05: Invalid issuer_signature''))))))"

definition check_claim_signature :: "('x, 'z) platform_scheme \<Rightarrow> js \<Rightarrow> js \<Rightarrow> js \<Rightarrow> ('x, unit) act" where
  "check_claim_signature p claim_payload recipient_pubkey recipient_signature =
     bindA (liftA (canonicalize claim_payload)) (\<lambda>claimBytes.
     bindA (liftA (fromBase64url p recipient_pubkey)) (\<lambda>recipientPubkeyBytes.
     bindA (liftA (fromBase64url p recipient_signature)) (\<lambda>signature.
     bindA (liftA (mlDsa44Verify p recipientPubkeyBytes claimBytes signature)) (\<lambda>recipientSigValid.
       guardA recipientSigValid (press_error ''P-06'' ''P-06: Invalid recipient_signature'')))))"

text \<open>Step 7: capacity and expiry.\<close>

definition max_acceptances :: "('x, 'z) platform_scheme \<Rightarrow> js \<Rightarrow> int res" where
  "max_acceptances p offer =
     (let v = field offer ''max_acceptances'' in
      if v = Undef \<or> v = Null then Inr UINT64_MAX else to_bigint p v)"

definition offer_expiry :: "('x, 'z) platform_scheme \<Rightarrow> js \<Rightarrow> int res" where
  "offer_expiry p offer =
     (let v = field offer ''expires_at'' in
      if truthy v then (case date_ms p v of
          Fin ms \<Rightarrow> Inr (ms div 1000)
        | _ \<Rightarrow> Inl (JsError ''RangeError: The number NaN cannot be converted to a BigInt''))
      else Inr 0)"

definition check_capacity :: "('x, 'z) platform_scheme \<Rightarrow> js \<Rightarrow> string \<Rightarrow> ('x, int \<times> int) act" where
  "check_capacity p offer offerId =
     bindA (askA (getOpenOfferUseCount p offerId)) (\<lambda>useCount.
     bindA (liftA (max_acceptances p offer)) (\<lambda>maxAcceptances.
     bindA (liftA (offer_expiry p offer)) (\<lambda>expiresAt.
     bindA (if expiresAt > 0
            then bindA (nowA p) (\<lambda>now. guardA (\<not> now div 1000 \<ge> expiresAt)
                   (press_error ''P-07'' ''P-07: Open offer has expired''))
            else retA ()) (\<lambda>_.
     bindA (guardA (\<not> (maxAcceptances \<noteq> UINT64_MAX \<and> useCount \<ge> maxAcceptances))
              (press_error ''P-08'' ''P-08: Open offer is at capacity'')) (\<lambda>_.
       retA (maxAcceptances, expiresAt))))))"

definition offer_id :: "('x, 'z) platform_scheme \<Rightarrow> js \<Rightarrow> string res" where
  "offer_id p offer = bindE (canonicalize offer) (\<lambda>bs. Inr (''0x'' @ address_of p bs))"

text \<open>Steps 1 to 7 together.\<close>

definition validate_claim ::
    "('x, 'z) platform_scheme \<Rightarrow> press_config \<Rightarrow> js \<Rightarrow> ('x, (js \<times> js \<times> js) \<times> string \<times> int \<times> int) act" where
  "validate_claim p cfg body =
     bindA (liftA (js_prop body ''claim_payload'')) (\<lambda>claim_payload.
     bindA (liftA (js_prop claim_payload ''offer'')) (\<lambda>offer.
     bindA (check_open_policy p cfg offer) (\<lambda>policy.
     bindA (check_open_issuer p offer) (\<lambda>_.
     bindA (check_claim_signature p claim_payload (field claim_payload ''recipient_pubkey'')
              (field body ''recipient_signature'')) (\<lambda>_.
     bindA (evaluatePredicates p cfg policy (field offer ''issuer_card'') (field offer ''issuer_card'')
              (STALENESS_WINDOW_SECONDS cfg)) (\<lambda>_.
     bindA (liftA (offer_id p offer)) (\<lambda>offerId.
     bindA (check_capacity p offer offerId) (\<lambda>(maxAcceptances, expiresAt).
       retA ((claim_payload, offer, policy), offerId, maxAcceptances, expiresAt)))))))))"

definition handleOpenOfferClaim :: "('x, 'z) platform_scheme \<Rightarrow> press_config \<Rightarrow> js \<Rightarrow> ('x, finalize_response) act" where
  "handleOpenOfferClaim p cfg body =
     bindA (validate_claim p cfg body) (\<lambda>((claim_payload, offer, policy), offerId, maxAcceptances, expiresAt).
     let recipient_pubkey = field claim_payload ''recipient_pubkey'';
         recipient_signature = field body ''recipient_signature''; policy_id = field offer ''policy_id'' in
     bindA (publish_signed_card p cfg offer recipient_pubkey recipient_signature
              (Arr [field offer ''issuer_pubkey'']) Undef) (\<lambda>cardCid.
     bindA (liftA (card_address p recipient_pubkey)) (\<lambda>cardAddress.
     bindA (checkGasBalance p ''ClaimOpenOffer'') (\<lambda>_.
     bindA (claimOpenOffer p cfg offerId maxAcceptances expiresAt cardAddress (utf8_encode cardCid)
              (policy_address p policy_id)) (\<lambda>_.
     bindA (appendIssuanceRecord p cfg policy_id cardCid recipient_pubkey [] ''open'') (\<lambda>_.
     bindA (liftA (js_prop policy ''admin_wallet_service_url'')) (\<lambda>adminUrl.
     bindA (issueScip p cfg cardCid 0 cardCid (field offer ''issued_at'') Undef adminUrl) (\<lambda>scip.
     bindA (recordWrite p ''register_card'' (literal p (field offer ''issuer_card'')) ''holder''
              (literal p policy_id) policy) (\<lambda>_.
       retA \<lparr>fr_card_cid = cardCid, fr_scip = scip\<rparr>)))))))))"

section \<open>What an accepted claim has passed\<close>

lemma check_open_policy_Inr:
  "check_open_policy p cfg offer w = (Inr policy, w') \<Longrightarrow>
     w' = w \<and> field offer ''press_card'' = Str (PRESS_CARD_CID cfg) \<and>
     fetchPolicyCard p cfg (field offer ''policy_id'') w = (Inr policy, w) \<and>
     truthy (field policy ''allow_open_offers'')"
  unfolding check_open_policy_def by (auto simp: run_Inr fetchPolicyCard_Inr field_def)

lemma check_open_issuer_Inr:
  "check_open_issuer p offer w = (Inr u, w') \<Longrightarrow> js_prop offer k = Inr v \<Longrightarrow> w' = w \<and> issuer_signed p offer"
  unfolding check_open_issuer_def binding_check_def issuer_signed_def signed_by_def address_of_keccak256
  by (cases offer) (auto simp: run_Inr bindE_eq_Inr field_def)

definition claim_signed :: "('x, 'z) platform_scheme \<Rightarrow> js \<Rightarrow> js \<Rightarrow> js \<Rightarrow> bool" where
  "claim_signed p claim_payload recipient_pubkey recipient_signature \<longleftrightarrow>
     (\<exists>message key signature. canonicalize claim_payload = Inr message \<and> fromBase64url p recipient_pubkey = Inr key \<and>
        fromBase64url p recipient_signature = Inr signature \<and> mlDsa44Verify p key message signature = Inr True)"

lemma check_claim_signature_Inr:
  "check_claim_signature p cp pk sg w = (Inr u, w') \<Longrightarrow> w' = w \<and> claim_signed p cp pk sg"
  unfolding check_claim_signature_def claim_signed_def by (auto simp: run_Inr)

text \<open>Seats are left, and the offer has not expired.\<close>

lemma check_capacity_Inr:
  assumes "check_capacity p offer oid w = (Inr (m, t), w')"
  shows "kv w' = kv w \<and> max_acceptances p offer = Inr m \<and> offer_expiry p offer = Inr t \<and>
     (\<exists>n. getOpenOfferUseCount p oid (ext w) = Inr n \<and> (m \<noteq> UINT64_MAX \<longrightarrow> n < m)) \<and>
     (0 < t \<longrightarrow> now_of p w div 1000 < t)"
  using assms unfolding check_capacity_def
  by (auto simp: run_Inr nowA_run split: if_splits)

lemma validate_claim_Inr:
  assumes "validate_claim p cfg body w = (Inr ((claim, offer, policy), oid, m, t), w')"
  shows "js_prop body ''claim_payload'' = Inr claim \<and> js_prop claim ''offer'' = Inr offer \<and>
     field offer ''press_card'' = Str (PRESS_CARD_CID cfg) \<and>
     fetchPolicyCard p cfg (field offer ''policy_id'') w = (Inr policy, w) \<and> truthy (field policy ''allow_open_offers'') \<and>
     issuer_signed p offer \<and>
     claim_signed p claim (field claim ''recipient_pubkey'') (field body ''recipient_signature'') \<and>
     (\<exists>a. field offer ''issuer_card'' = Str a \<and> press_root p cfg w a) \<and>
     offer_id p offer = Inr oid \<and> check_capacity p offer oid w = (Inr (m, t), w')"
proof -
  from assms obtain w1 w2 w3 w4 preds where
    props: "js_prop body ''claim_payload'' = Inr claim" "js_prop claim ''offer'' = Inr offer"
    and 1: "check_open_policy p cfg offer w = (Inr policy, w1)"
    and 2: "check_open_issuer p offer w1 = (Inr (), w2)"
    and 3: "check_claim_signature p claim (field claim ''recipient_pubkey'') (field body ''recipient_signature'') w2 = (Inr (), w3)"
    and 4: "evaluatePredicates p cfg policy (field offer ''issuer_card'') (field offer ''issuer_card'')
        (STALENESS_WINDOW_SECONDS cfg) w3 = (Inr preds, w4)"
    and 5: "offer_id p offer = Inr oid" "check_capacity p offer oid w4 = (Inr (m, t), w')"
    unfolding validate_claim_def by (auto simp: run_Inr split: prod.splits)
  from 1 obtain k v where "js_prop offer k = Inr v"
    unfolding check_open_policy_def by (auto simp: run_Inr)
  from check_open_policy_Inr [OF 1] check_open_issuer_Inr [OF 2 this] check_claim_signature_Inr [OF 3]
    evaluatePredicates_Inr [OF 4] props 5
  show ?thesis by auto

qed

end
