(* ===== verification/Press_World.thy ===== *)
theory Press_World
  imports Example_World Press_OpenOffer
begin

text \<open>
  A small concrete press for the witnesses: the toy primitives of \<open>Example_World\<close> with an
  AES-GCM that satisfies its law, the in-memory pinning provider, a chain whose state is a
  number (0: the next write is refused as stale, 1: the write after it is accepted, 2 and more:
  every write is accepted), roots \<open>03\<close> and \<open>05\<close>, and a policy under the identifier \<open>pol\<close>.
\<close>

definition ex_press_crypto :: crypto where
  "ex_press_crypto = ex_crypto\<lparr>aes_gcm_open := (\<lambda>key nonce ct.
     if take 16 ct = replicate 16 0 then Inr (drop 16 ct) else Inl (JsError ''OperationError''))\<rparr>"

definition ex_policy :: js where
  "ex_policy = Obj [(''approved_presses'', Arr [Str ''press'']), (''allow_open_offers'', Bool True)]"

definition ex_pinned_subcard :: js where
  "ex_pinned_subcard = Obj [(''holder_primary_card_pubkey'', Str (ex_b64 2))]"

definition ex_press_doc :: "bytes \<Rightarrow> js" where
  "ex_press_doc bs = (if take 1 bs = [7] then ex_policy else ex_pinned_subcard)"

definition ex_card :: "nat \<Rightarrow> reg_card_entry" where
  "ex_card x = \<lparr>rc_log_head_cid = [if x = 0 then 1 else 2], rc_policy_address = ''0x07'',
     rc_last_press_address = ''0x09'', rc_forward_to = zero_bytes32, rc_exists = True\<rparr>"

definition ex_write :: "nat \<Rightarrow> string res \<times> nat" where
  "ex_write x = (if x = 0 then (Inl (JsError ''reverted: STALE_PREV_CID''), 1) else (Inr ''0xhash'', x))"

definition ex_platform :: "nat platform" where
  "ex_platform = \<lparr>json_parse = (\<lambda>bs. Inr (ex_press_doc bs)),
     regex_test = (\<lambda>r s. Some (r = s)), number_of_text = (\<lambda>v. NaN), date_time = (\<lambda>s. Fin 1000),
     iso_of_ms = int_str, crypto_ops = ex_press_crypto, fetched_at = 0, checked_at = 0, now_iso = ''2026'',
     http_post_report = (\<lambda>u r. Inr \<lparr>ok = True, status = 200, body_json = Inr []\<rparr>),
     http_get = (\<lambda>u. Inr \<lparr>ok = False, status = 404, body_json = Inr []\<rparr>),
     ml_dsa44_sign = (\<lambda>m k. [5]), ml_dsa44_public_key = (\<lambda>k. [6]),
     aes_gcm_seal = (\<lambda>k n m. replicate 16 0 @ m),
     utf8_decode = (\<lambda>bs. map (\<lambda>b. if b = 1 then CHR ''a'' else CHR ''b'') bs), text_of = (\<lambda>v. ''?''),
     bigint_of_literal = (\<lambda>s. Inl (JsError ''SyntaxError'')),
     buffer_from_object = (\<lambda>kvs. Inl (JsError ''TypeError'')),
     p256_sign = (\<lambda>k m. [8]), p256_public_key = (\<lambda>k. [4, 9]), eth_address = (\<lambda>k. ''0xpress''),
     clock_now = (\<lambda>x. (1000, x)), random_nonce = (\<lambda>x. (replicate 12 0, x)), verify_clock = (\<lambda>x. (0, 0, ''2026'')),
     http_post = (\<lambda>u b x. (Inr 200, x)),
     kubo_add = (\<lambda>u c x. (Inl (JsError ''no node''), x)), s3_request = (\<lambda>m u c x. (Inl (JsError ''no bucket''), x)),
     gateway_get = (\<lambda>u x. Inl (JsError ''no gateway'')),
     read_card_entry = (\<lambda>a x. Inr (ex_card x)),
     read_press_auth = (\<lambda>a b x. Inr \<lparr>ra_press_public_key = [], ra_mldsa44_key_hash = '''', ra_key_scheme = 1,
        ra_active = True, ra_next_sequence = 7, ra_authorized_at = 1, ra_revoked_at = 0\<rparr>),
     read_sub_card_entry = (\<lambda>a x. Inr \<lparr>rs_master_card_address = ''02'', rs_registration_log_head = [2],
        rs_sub_card_doc_cid = [2], rs_active = True, rs_registered_at = 1, rs_deregistered_at = 0\<rparr>),
     read_open_offer_count = (\<lambda>a x. Inr 0),
     read_policy_exists = (\<lambda>a x. Inr (a = ''0x05'' \<or> a = ''0x03'')),
     read_protocol_version = (\<lambda>x. Inr ''0.1''),
     read_registered_logs = (\<lambda>a x. Inr []), read_head_updated_logs = (\<lambda>a x. Inr []),
     write_contract = (\<lambda>f as x. ex_write x), wait_receipt = (\<lambda>h x. (Inr (), x)),
     gas_price = (\<lambda>x. Inr 1), wallet_balance = (\<lambda>x. Inr 1000000), block_number = (\<lambda>x. Inr 3),
     block_transactions = (\<lambda>n x. if n = 2 then Inl (JsError ''timeout'')
        else Inr [\<lparr>tx_to = Some ''0xPRESS'', tx_value = 5, tx_input = ''0x'' @ replicate 64 (CHR ''A'')\<rparr>])\<rparr>"

definition ex_press_config :: press_config where
  "ex_press_config = \<lparr>PRESS_CARD_CID = ''press'', PRESS_POLICY_CIDS = [''pol''],
     PRESS_MLDSA44_PRIVATE_KEY = replicate 2560 0, PRESS_SECP256R1_PRIVATE_KEY = replicate 64 (CHR ''1''),
     PRESS_GAS_WALLET_PRIVATE_KEY = replicate 64 (CHR ''2''), PRESS_OHTTP_PRIVATE_KEY = replicate 32 0,
     ARBITRUM_RPC_URL = ''rpc'', EXPECTED_CHAIN_ID = Fin 42161, REGISTRY_CONTRACT_ADDRESS = ''0x1'',
     STORAGE_CONTRACT_ADDRESS = ''0x2'', IPFS_PROVIDER = Mock, FILEBASE_KEY = '''', FILEBASE_SECRET = '''',
     FILEBASE_GATEWAY_URL = '''', FILEBASE_ENDPOINT = '''', FILEBASE_REGION = '''', FILEBASE_BUCKET = '''',
     KUBO_API_URL = '''', KUBO_GATEWAY_URL = '''', EXTERNAL_KV_URL = '''', PORT = Fin 3000, LOG_LEVEL = ''info'',
     MAX_BATCH_SIZE = Fin 100, STALENESS_WINDOW_SECONDS = Fin 300, PRESS_ADMIN_API_KEY = ''k''\<rparr>"

definition ex_world :: "nat \<Rightarrow> (string \<Rightarrow> js option) \<Rightarrow> nat world" where
  "ex_world x s = \<lparr>kv = s, pins = [''pol'' \<mapsto> [7], ''b'' \<mapsto> [1]], ext = x\<rparr>"

section \<open>Evaluation rules\<close>

lemma ex_platform_sel [simp]:
  "json_parse ex_platform bs = Inr (ex_press_doc bs)" "crypto_ops ex_platform = ex_press_crypto"
  "date_time ex_platform s = Fin 1000" "number_of_text ex_platform v = NaN"
  "clock_now ex_platform x = (1000, x)" "random_nonce ex_platform x = (replicate 12 0, x)"
  "verify_clock ex_platform x = (0, 0, ''2026'')" "http_post ex_platform u b x = (Inr 200, x)"
  "read_card_entry ex_platform a x = Inr (ex_card x)" "read_open_offer_count ex_platform a x = Inr 0"
  "read_policy_exists ex_platform a x = Inr (a = ''0x05'' \<or> a = ''0x03'')"
  "read_protocol_version ex_platform x = Inr ''0.1''" "write_contract ex_platform f as x = ex_write x"
  "wait_receipt ex_platform h x = (Inr (), x)" "gas_price ex_platform x = Inr 1"
  "wallet_balance ex_platform x = Inr 1000000" "block_number ex_platform x = Inr 3"
  "utf8_decode ex_platform bs = map (\<lambda>b. if b = 1 then CHR ''a'' else CHR ''b'') bs"
  by (simp_all add: ex_platform_def)

lemma ex_sequence [simp]: "getNextSequence ex_platform cfg a x = Inr 7"
  by (simp add: getNextSequence_def getPressAuthorization_def ex_platform_def)

lemma ex_sub_entry [simp]:
  "getSubCardEntry ex_platform a x = Inr \<lparr>rs_master_card_address = ''02'', rs_registration_log_head = [2],
     rs_sub_card_doc_cid = [2], rs_active = True, rs_registered_at = 1, rs_deregistered_at = 0\<rparr>"
  by (simp add: getSubCardEntry_def ex_platform_def)

lemma ex_press_config_sel [simp]:
  "PRESS_CARD_CID ex_press_config = ''press''" "PRESS_POLICY_CIDS ex_press_config = [''pol'']"
  "PRESS_MLDSA44_PRIVATE_KEY ex_press_config = replicate 2560 0" "IPFS_PROVIDER ex_press_config = Mock"
  "STALENESS_WINDOW_SECONDS ex_press_config = Fin 300" "MAX_BATCH_SIZE ex_press_config = Fin 100"
  by (simp_all add: ex_press_config_def)

lemma ex_world_sel [simp]:
  "kv (ex_world x s) = s" "ext (ex_world x s) = x" "pins (ex_world x s) = [''pol'' \<mapsto> [7], ''b'' \<mapsto> [1]]"
  by (simp_all add: ex_world_def)

lemma ex_address [simp]: "keccak256 ex_platform bs = bytes_hex (take 1 bs)" "address_of ex_platform bs = bytes_hex (take 1 bs)"
  by (simp_all add: address_of_keccak256 keccak256_def ex_press_crypto_def ex_crypto_def)

lemma ex_press_verify [simp]: "mlDsa44Verify ex_platform pk m s = Inr True"
  by (simp add: mlDsa44Verify_def ex_press_crypto_def ex_crypto_def)

lemma ex_press_key [simp]: "mlDsa44PublicKeyFromPrivate ex_platform (PRESS_MLDSA44_PRIVATE_KEY ex_press_config) = Inr [6]"
  by (simp add: mlDsa44PublicKeyFromPrivate_def ex_platform_def)

lemma ex_gcm [simp]: "gcm_ok ex_platform" "nonces_ok ex_platform"
  by (simp_all add: gcm_ok_def nonces_ok_def ex_press_crypto_def, simp add: ex_platform_def)

lemma ex_clock_only [simp]: "clock_only ex_platform w = w"
  by (simp add: clock_only_def)

lemma ex_post [simp]: "outA (http_post ex_platform u b) w = (Inr 200, w)"
  by (simp add: outA_run)

text \<open>Writes of JSON fields succeed and leave the world as it is.\<close>

lemma ex_signed_write:
  assumes "list_all (\<lambda>kv. json_value (snd kv)) flds" "ext w \<noteq> 0"
  shows "signed_write ex_platform cfg fn opn flds args pol w = (Inr ''0xhash'', w)"
proof -
  have "json_value (signed_payload ex_platform cfg opn flds 7 1000)"
    using assms(1) by (auto simp: signed_payload_def address_field_def list_all_iff)
  then obtain b where "canonicalize (signed_payload ex_platform cfg opn flds 7 1000) = Inr b"
    using canonicalize_json by blast
  then show ?thesis
    using assms(2)
    by (simp add: signed_write_def submitWithRetry_def submit_once_def buildAndSignPayload_def nowA_run
        bindA_def catchA_def liftA_run askA_run outA_run retA_run ex_write_def)
qed

end
