(* ===== verification/Press_Runs.thy ===== *)
theory Press_Runs
  imports Press_World
begin

text \<open>
  Runs of the press's handlers on concrete requests in the world of \<open>Press_World\<close>: the
  evaluations the witnesses of the press's properties rest on.
\<close>

section \<open>Programs that cannot throw\<close>

definition returns :: "('x, 'a) act \<Rightarrow> bool" where
  "returns m \<longleftrightarrow> (\<forall>w. \<exists>a w'. m w = (Inr a, w'))"

named_theorems returns_intros "programs that cannot throw"

lemma returnsE: "returns m \<Longrightarrow> (\<And>a w'. m w = (Inr a, w') \<Longrightarrow> thesis) \<Longrightarrow> thesis"
  by (auto simp: returns_def)

lemma returns_basic [returns_intros]:
  "returns (retA a)" "returns (getItem k)" "returns (setItem k v)" "returns (incrementItem p k)"
  "returns (nowA p)" "returns (liftA (Inr b))"
  by (auto simp: returns_def act_simps)

lemma returns_bindA [returns_intros]: "returns m \<Longrightarrow> (\<And>a. returns (f a)) \<Longrightarrow> returns (bindA m f)"
  unfolding returns_def bindA_Inr by metis

lemma returns_catchA [returns_intros]: "(\<And>e. returns (h e)) \<Longrightarrow> returns (catchA m h)"
  unfolding returns_def catchA_eq by (metis surj_pair sum.exhaust)

lemma returns_if [returns_intros]: "returns m \<Longrightarrow> returns m' \<Longrightarrow> returns (if b then m else m')"
  by simp

lemma returns_recordWrite:
  assumes "js_prop policy ''admin_wallet_service_url'' = Inr u"
  shows "returns (recordWrite p opn e ty pol policy)"
  unfolding recordWrite_def sendSuspiciousActivityAlert_def Let_def assms
  by (intro returns_intros)

section \<open>Canonical bytes\<close>

definition ex_bytes :: "js \<Rightarrow> bytes" where
  "ex_bytes v = (case canonicalize v of Inl e \<Rightarrow> [] | Inr bs \<Rightarrow> bs)"

lemma ex_canonical [simp]: "json_value v \<Longrightarrow> canonicalize v = Inr (ex_bytes v)"
  using canonicalize_json [of v] by (auto simp: ex_bytes_def)

lemma ex_excluding [simp]:
  "canonicalize_excluding (Obj kvs) ks = canonicalize (Obj (filter (\<lambda>(k, x). k \<notin> set ks) kvs))"
  by (simp add: canonicalize_excluding_def canonicalize_def)

section \<open>Requests\<close>

definition ex_offer :: js where
  "ex_offer = Obj [(''issuer_card'', Str ''05''), (''issuer_signature'', Str ''''),
     (''ancestry_pubkeys'', Arr [Str (ex_b64 5)]), (''issued_at'', Str ''t'')]"

definition ex_issue_body :: js where
  "ex_issue_body = Obj [(''policy_cid'', Str ''pol''), (''requester_card_address'', Str ''05''), (''offer'', ex_offer)]"

definition ex_offer_cid :: string where
  "ex_offer_cid = offer_cid_of ex_platform (ex_bytes ex_offer)"

definition ex_finalize_body :: js where
  "ex_finalize_body = Obj [(''offer_cid'', Str ex_offer_cid), (''recipient_pubkey'', Str (ex_b64 1)), (''holder_signature'', Str '''')]"

text \<open>A store with no rate counters.\<close>

definition uncounted :: "(string \<Rightarrow> js option) \<Rightarrow> bool" where
  "uncounted s \<longleftrightarrow> (\<forall>a b c d e. s (rateEntityKey a b c d e) = None) \<and> (\<forall>a b. s (policyWritesKey a b) = None)"

lemma uncounted_kv_get [simp]:
  "uncounted s \<Longrightarrow> kv_get (rateEntityKey a b c d e) s = Null" "uncounted s \<Longrightarrow> kv_get (policyWritesKey a e) s = Null"
  by (simp_all add: uncounted_def kv_get_def)

lemma ex_limits:
  "uncounted (kv w) \<Longrightarrow> checkRateLimits ex_platform opn e ty pol w = (Inr (), w)" if "0 < rate_limit opn"
  using that by (simp add: checkRateLimits_run counted_def Let_def policy_limit_def RATE_LIMITS_def)

lemma ex_fetch_policy:
  "pins w ''pol'' = Some [7] \<Longrightarrow> fetchPolicyCard ex_platform ex_press_config (Str ''pol'') w = (Inr ex_policy, w)"
  by (simp add: fetchPolicyCard_def fetchFromIPFS_def mock_fetchFromIPFS_def ex_press_doc_def bindA_def readA_run liftA_run)

lemma ex_offer_json [simp]: "json_value ex_offer"
  by (simp add: ex_offer_def)

section \<open>Issuance\<close>

lemma ex_issue:
  assumes "uncounted s" "x \<noteq> 0"
  shows "\<exists>w'. handleIssue ex_platform ex_press_config ex_issue_body (ex_world x s) = (Inr ex_offer_cid, w')"
proof -
  have valid: "validateIssuanceRequest ex_platform ex_press_config ex_issue_body (ex_world x s) =
      (Inr (ex_policy, policy_address ex_platform (Str ''pol'')), ex_world x s)"
    using assms(1)
    by (simp add: validateIssuanceRequest_def ex_issue_body_def bindA_step liftA_run guardA_run lookup_key_def
        ex_offer_def ex_fetch_policy policy_expired_def ex_policy_def ex_limits rate_limit_def RATE_LIMITS_def retA_run)
  have "field ex_issue_body ''offer'' = ex_offer" "field ex_issue_body ''policy_cid'' = Str ''pol''"
      "field ex_offer ''issued_at'' = Str ''t''"
    by (simp_all add: field_def ex_issue_body_def ex_offer_def lookup_key_def)
  moreover have "verifyIssuerSignature ex_platform ex_offer = Inr True"
    by (simp add: verifyIssuerSignature_def ex_offer_def lookup_key_def)
  ultimately show ?thesis
    using valid by (simp add: handleIssue_def bindA_step liftA_run guardA_run nowA_run setItem_run retA_run
        stale_at_def Let_def ex_offer_cid_def)
qed

definition ex_open_store :: "string \<Rightarrow> js option" where
  "ex_open_store = [offerKey ex_offer_cid \<mapsto> offer_record (Str ''pol'') 1, offer_body_key ex_offer_cid \<mapsto> ex_offer]"

lemma ex_card_address: "card_address ex_platform (Str (ex_b64 1)) = Inr ''0x01''"
  by (simp add: card_address_def)

lemma ex_gas [simp]: "0 < opn_cost \<Longrightarrow> GAS_ESTIMATES opn = Some opn_cost \<Longrightarrow> opn_cost \<le> 1000000 \<Longrightarrow>
    checkGasBalance ex_platform opn w = (Inr (), w)"
  by (simp add: checkGasBalance_def bindA_step askA_run getPressEthBalance_def estimatedCostWei_def retA_run)

lemma json_put_key:
  "\<forall>kv \<in> set kvs. json_value (snd kv) \<Longrightarrow> json_value x \<Longrightarrow> \<forall>kv \<in> set (put_key k x kvs). json_value (snd kv)"
  by (induction kvs) (fastforce split: if_splits)+

lemma ex_own_key [simp]: "mlDsa44PublicKeyFromPrivate ex_platform (replicate 2560 0) = Inr [6]"
  using ex_press_key by simp

lemma json_js_spread:
  assumes "json_value (Obj es)" "json_value (Obj kvs)"
  shows "json_value (js_spread (Obj es) kvs)"
proof -
  have "\<forall>kv \<in> set (foldl (\<lambda>acc (k, x). put_key k x acc) es kvs). json_value (snd kv)"
    if "\<forall>kv \<in> set es. json_value (snd kv)" "\<forall>kv \<in> set kvs. json_value (snd kv)" for es
    using that
  proof (induction kvs arbitrary: es)
    case (Cons kv kvs)
    then show ?case
      using json_put_key [of es "snd kv" "fst kv"] by (cases kv) simp
  qed simp
  with assms show ?thesis by (simp add: js_spread_def)
qed

lemma json_filter: "json_value (Obj kvs) \<Longrightarrow> json_value (Obj (filter P kvs))"
  by simp

lemma spread_object: "\<exists>kvs. js_spread v us = Obj kvs"
  by (simp add: js_spread_def)

lemma ex_publish:
  assumes offer: "offer = Obj es" "json_value offer" and anc: "json_value anc" and sig: "json_value sig"
  shows "\<exists>cid w'. publish_signed_card ex_platform ex_press_config offer (Str (ex_b64 1)) sig anc Undef w = (Inr cid, w') \<and>
     kv w' = kv w \<and> ext w' = ext w \<and> pins w' ''pol'' = pins w ''pol''"
proof -
  let ?doc = "assembleCardDocument ex_platform ex_press_config offer (Str (ex_b64 1)) sig anc ''0.1'' Undef"
  obtain kvs where doc: "?doc = Obj kvs"
    by (simp add: assembleCardDocument_def js_spread_def)
  have json: "json_value ?doc"
    using assms json_js_spread [of es] unfolding assembleCardDocument_def by simp
  obtain sdoc where s: "signCardDocument ex_platform ex_press_config ?doc = Inr sdoc" "json_value sdoc"
    using json json_js_spread [of kvs] unfolding doc by (simp add: signCardDocument_def)
  have "js_prop sdoc ''recipient_pubkey'' = Inr (Str (ex_b64 1))"
    using s(1) by (rule signed_card_recipient)
  with s show ?thesis
    by (simp add: publish_signed_card_def bindA_step askA_run getProtocolVersion_def liftA_run publishCard_def
        aes256gcmEncrypt_run pinToIPFS_def mock_pinToIPFS_def) (simp add: mock_cid_def)
qed

lemma ex_register:
  assumes "ext w \<noteq> 0"
  shows "registerCard ex_platform ex_press_config a cid pol w = (Inr ''0xhash'', w)"
  unfolding registerCard_def Let_def
  using assms by (intro ex_signed_write) (simp_all add: address_field_def bytes_field_def)

lemma ex_no_auditors:
  assumes "pins w ''pol'' = Some [7]"
  shows "appendIssuanceRecord ex_platform ex_press_config (Str ''pol'') cid pk sc ty w =
    (Inr \<lparr>ir_confirmed_auditors = [], ir_timed_out_auditors = []\<rparr>, w)"
  using assms
  by (simp add: appendIssuanceRecord_def bindA_step readA_run liftA_run retA_run fetchFromIPFS_def
      mock_fetchFromIPFS_def ex_press_doc_def ex_policy_def lookup_key_def)

lemma ex_scip: "json_value issued \<Longrightarrow> \<exists>scip. issueScip ex_platform ex_press_config cid i root issued Undef Undef w = (Inr scip, w)"
  by (simp add: issueScip_def bindA_step liftA_run retA_run Let_def)

lemma ex_issue_offered:
  assumes "kv w = ex_open_store" "ext w = x" "x \<noteq> 0" "pins w ''pol'' = Some [7]"
  shows "\<exists>r w'. issue_offered_card ex_platform ex_press_config ex_finalize_body w =
    (Inr ((offer_record (Str ''pol'') 1, ex_offer, ex_policy), r), w')"
proof -
  have flds: "field ex_finalize_body ''offer_cid'' = Str ex_offer_cid"
      "field ex_finalize_body ''recipient_pubkey'' = Str (ex_b64 1)"
      "field ex_finalize_body ''holder_signature'' = Str []" "field ex_finalize_body ''past_keys'' = Undef"
      "js_prop ex_finalize_body ''offer_cid'' = Inr (Str ex_offer_cid)"
      "field (offer_record (Str ''pol'') 1) ''policy_cid'' = Str ''pol''"
      "field ex_offer ''ancestry_pubkeys'' = Arr [Str (ex_b64 5)]" "field ex_offer ''issued_at'' = Str ''t''"
      "js_prop ex_policy ''admin_wallet_service_url'' = Inr Undef"
    by (simp_all add: field_def ex_finalize_body_def lookup_key_def offer_record_def ex_offer_def ex_policy_def)
  have 1: "open_offer_record ex_offer_cid w = (Inr (offer_record (Str ''pol'') 1, ex_offer), w)"
    using assms(1) by (simp add: open_offer_record_Inr ex_open_store_def kv_get_def) (simp add: offer_record_def ex_offer_def)
  have 2: "verifyHolderSignature ex_platform (partial_doc ex_press_config ex_offer (Str (ex_b64 1))) (Str []) = Inr True"
    by (simp add: verifyHolderSignature_def partial_doc_def js_spread_def ex_offer_def lookup_key_def)
  obtain cid w1 where 3: "publish_signed_card ex_platform ex_press_config ex_offer (Str (ex_b64 1)) (Str [])
      (Arr [Str (ex_b64 5)]) Undef w = (Inr cid, w1)" "ext w1 = ext w" "pins w1 ''pol'' = pins w ''pol''"
    using ex_publish [of ex_offer _ "Arr [Str (ex_b64 5)]" "Str []" w, OF ex_offer_def] by auto
  obtain scip where 4: "issueScip ex_platform ex_press_config cid 0 cid (Str ''t'') Undef Undef w1 = (Inr scip, w1)"
    using ex_scip by fastforce
  have 5: "checkGasBalance ex_platform ''RegisterCard'' w1 = (Inr (), w1)"
    by (rule ex_gas [of 200000]) (simp_all add: GAS_ESTIMATES_def)
  from assms 3 have "ext w1 \<noteq> 0" "pins w1 ''pol'' = Some [7]" by simp_all
  with 1 2 3(1) 4 5 assms(4) show ?thesis
    by (simp add: issue_offered_card_def flds bindA_step liftA_run guardA_run ex_fetch_policy ex_card_address
        ex_register ex_no_auditors retA_run Let_def)
qed

lemma ex_finalize:
  assumes "x \<noteq> 0"
  shows "\<exists>r w'. handleIssueFinalize ex_platform ex_press_config ex_finalize_body (ex_world x ex_open_store) = (Inr r, w')"
proof -
  obtain r w1 where run: "issue_offered_card ex_platform ex_press_config ex_finalize_body (ex_world x ex_open_store) =
      (Inr ((offer_record (Str ''pol'') 1, ex_offer, ex_policy), r), w1)"
    using ex_issue_offered [of "ex_world x ex_open_store" x] assms by auto
  have "returns (bindA (setItem k v) (\<lambda>_. bindA (recordWrite ex_platform opn e ty pol ex_policy) (\<lambda>_. retA r)))" for k v opn e ty pol
    by (intro returns_intros returns_recordWrite [where u = Undef]) (simp add: ex_policy_def lookup_key_def)
  with run show ?thesis
    by (simp add: handleIssueFinalize_def bindA_step returns_def)
qed

section \<open>Predicates\<close>

lemma ex_card_entry [simp]: "rc_exists (ex_card x)"
  by (simp add: ex_card_def)

lemma ex_verifyCard:
  assumes "a = ''05'' \<or> a = ''03''"
  shows "\<exists>r. press_verifyCard ex_platform ex_press_config (Str a) w = (Inr r, w) \<and>
     sr_chain_reaches_trusted_root r = Flag True \<and> sr_is_currently_valid r = Skipped \<and>
     rs_data_freshness_seconds (sr_revocation r) = 0"
proof -
  let ?e = "clocked ex_platform (ext w)"
  obtain vc where vc: "buildCardVerifier ex_platform ex_press_config w = Inr vc" "rpc vc = createRpcProvider ex_platform w"
    "trustedRoots vc = [''pol'']" "fetchAnnotations vc = False" "conditions vc = None"
    using buildCardVerifier_Inr [of ex_platform ex_press_config w] by auto
  have root: "isPolicyAuthorizer ex_platform a (ext w) = Inr True"
    using assms by (auto simp: isPolicyAuthorizer_def normalizeHex_def starts_with_0x_def)
  have entry: "\<exists>ce. adapter_card_entry ex_platform (ext w) a = Some ce \<and> live_entry (Some ce) = Some ce"
    by (simp add: adapter_card_entry_def getCardEntry_def live_entry_def)
  have log: "adapter_event_log ex_platform (ext w) a = Inr []"
    by (simp add: adapter_event_log_def getCardEventLog_def ex_platform_def sort_events_def)
  from entry obtain ce where ce: "get_card_entry (rpc vc) a = Inr (Some ce)" "live_entry (Some ce) = Some ce"
    using vc(2) by (auto simp: createRpcProvider_def)
  have "trusted_root (rpc vc) (trustedRoots vc) a = Inr True"
    using root vc(2,3) assms by (auto simp: trusted_root_def createRpcProvider_def adapter_policy_authorizer_def)
  moreover obtain s4 where "verifyStage4 ?e [\<lparr>cl_card_address = a, cl_public_key = [], cl_card_content = Obj []\<rparr>]
      (Str (now_iso ?e)) (rpc vc) (revocationFreshnessWindowSeconds vc) (rejectStaleRevocation vc) = Inr s4"
    using vc(2) log ce by (auto simp: verifyStage4_def stage4_queries_def createRpcProvider_def)
  moreover have "verifyStage6 ?e [a] (rpc vc) (ipfs vc) (fetchAnnotations vc) (additionalAnnotators vc) (trustedRoots vc) =
      Inr \<lparr>s6_annotations = [], s6_errors = []\<rparr>"
    using vc(4) by (simp add: verifyStage6_def)
  ultimately obtain r where r: "verifyCard ?e vc a None = Inr r" "sr_chain_reaches_trusted_root r = Flag True"
    using ce vc(5) by (auto simp: verifyCard_def card_chain_def Let_def default_to_def)
  then have "press_verifyCard ex_platform ex_press_config (Str a) w = (Inr r, w)"
    using vc(1) by (simp add: press_verifyCard_def)
  moreover have "checked_at ?e = 0" "fetched_at ?e = 0"
    by (simp_all add: clocked_def)
  ultimately show ?thesis
    using r(2) press_verifyCard_Inr [of ex_platform ex_press_config "Str a" w r w] by auto
qed

lemma ex_check_card:
  assumes "a = ''05'' \<or> a = ''03''"
  shows "\<exists>r. check_card ex_platform ex_press_config (Fin 300) code role (Str a) w = (Inr r, w)"
  using ex_verifyCard [OF assms, of w] by (auto simp: check_card_def bindA_step guardA_run retA_run)

lemma ex_predicates:
  "\<exists>r. evaluatePredicates ex_platform ex_press_config ex_policy (Str ''05'') (Str ''03'') (Fin 300) w = (Inr r, w)"
proof -
  obtain r1 r2 where "check_card ex_platform ex_press_config (Fin 300) ''P-02'' ''Requester'' (Str ''05'') w = (Inr r1, w)"
    "check_card ex_platform ex_press_config (Fin 300) ''P-03'' ''Recipient'' (Str ''03'') w = (Inr r2, w)"
    using ex_check_card by (metis (no_types))
  then show ?thesis
    by (simp add: evaluatePredicates_def check_predicate_def bindA_step liftA_run retA_run ex_policy_def lookup_key_def)
qed

section \<open>Updates\<close>

definition ex_intent :: "int \<Rightarrow> js" where
  "ex_intent c = Obj [(''code'', Num (Fin c)), (''updater_card_address'', Str ''05''),
     (''target_card_address'', Str ''09''), (''timestamp'', Str ''t'')]"

definition ex_intent_signature :: js where
  "ex_intent_signature = Obj [(''public_key'', Str (ex_b64 1)), (''signature'', Str '''')]"

definition ex_update_body :: "int \<Rightarrow> js" where
  "ex_update_body c = Obj [(''update_intent'', ex_intent c), (''intent_signature'', ex_intent_signature)]"

lemma ex_intent_fields [simp]:
  "field (ex_intent c) ''code'' = Num (Fin c)" "field (ex_intent c) ''updater_card_address'' = Str ''05''"
  "field (ex_intent c) ''target_card_address'' = Str ''09''" "field (ex_intent c) ''timestamp'' = Str ''t''"
  "field (ex_intent c) ''field_updates'' = Undef" "field (ex_intent c) ''notify_holder'' = Undef"
  "field (ex_intent c) ''revocation'' = Undef" "field (ex_intent c) ''updater_message'' = Undef"
  "js_prop (ex_intent c) ''code'' = Inr (Num (Fin c))" "js_prop (ex_intent c) ''timestamp'' = Inr (Str ''t'')"
  "json_value (ex_intent c)" "json_value ex_intent_signature"
  by (simp_all add: ex_intent_def ex_intent_signature_def field_def lookup_key_def)

lemma ex_body_props [simp]:
  "js_prop (ex_update_body c) ''update_intent'' = Inr (ex_intent c)"
  "js_prop (ex_update_body c) ''intent_signature'' = Inr ex_intent_signature"
  by (simp_all add: ex_update_body_def lookup_key_def)

lemma ex_getCardEntry [simp]: "getCardEntry ex_platform a x = Inr (ex_card x)"
  by (simp add: getCardEntry_def)

lemma ex_intent_signed: "intent_signed ex_platform (ex_intent c) ex_intent_signature (ex_key 1)"
  by (simp add: intent_signed_def ex_intent_signature_def lookup_key_def)

lemma ex_log_entry_signed:
  "\<exists>entry. sign_log_entry ex_platform ex_press_config (log_entry ex_platform prev (ex_intent c) ex_intent_signature) = Inr entry \<and>
     json_value entry"
proof -
  obtain kvs where kvs: "log_entry ex_platform prev (ex_intent c) ex_intent_signature = Obj kvs" "json_value (Obj kvs)"
    by (simp add: log_entry_def)
  with json_js_spread [of kvs] show ?thesis
    by (simp add: sign_log_entry_def)
qed

lemma ex_submit_head:
  "ext w \<noteq> 0 \<Longrightarrow> submit_head ex_platform ex_press_config a new pol prev w = (Inr ''0xhash'', w)"
  unfolding submit_head_def by (rule ex_signed_write) (simp_all add: address_field_def bytes_field_def)

lemma ex_append:
  assumes "ext w \<noteq> 0"
  shows "\<exists>r w'. appendLogEntry ex_platform ex_press_config t (ex_intent c) ex_intent_signature w = (Inr r, w') \<and> kv w' = kv w"
proof -
  obtain entry where entry: "sign_log_entry ex_platform ex_press_config (log_entry ex_platform
      (utf8_decode ex_platform (rc_log_head_cid (ex_card (ext w)))) (ex_intent c) ex_intent_signature) = Inr entry" "json_value entry"
    using ex_log_entry_signed by blast
  let ?w = "snd (mock_pinToIPFS ex_platform (ex_bytes entry) w)"
  have "updateCardHead ex_platform ex_press_config t prev new ?w = (Inr ''0xhash'', ?w)" for prev new
    using assms ex_submit_head [of ?w]
    by (simp add: updateCardHead_def bindA_step askA_run Let_def catchA_step mock_pinToIPFS_def)
  with entry show ?thesis
    by (simp add: appendLogEntry_def bindA_step askA_run liftA_run pinToIPFS_def mock_pinToIPFS_def retA_run)
qed

lemma ex_update:
  assumes "uncounted s" "x \<noteq> 0"
  shows "\<exists>r w'. handleUpdate ex_platform ex_press_config (ex_update_body 100) (ex_world x s) = (Inr r, w')"
proof -
  let ?w = "ex_world x s" and ?i = "ex_intent 100"
  have 1: "verify_intent ex_platform ex_press_config ?i ex_intent_signature ?w = (Inr (ex_key 1), ?w)"
    by (simp add: verify_intent_def ex_intent_signature_def lookup_key_def bindA_step liftA_run guardA_run nowA_run
        stale_at_def retA_run)
  have 2: "check_fields ex_platform ?i = Inr ()"
    by (simp add: check_fields_def)
  have 3: "update_target ex_platform ex_press_config ?i ?w = (Inr (''09'', ex_card x, ex_policy), ?w)"
    by (simp add: update_target_def bindA_step liftA_run askA_run guardA_run catchA_step first_policy_cid_def
        ex_fetch_policy retA_run)
  have code: "\<not> directory_code (Num (Fin 100))" "below_800 ex_platform ?i"
    by (simp_all add: ACTIVE_SUBCARDS_DIRECTORY_CODES_def below_800_def)
  obtain v where v: "press_verifyCard ex_platform ex_press_config (Str ''05'') ?w = (Inr v, ?w)"
    "sr_chain_reaches_trusted_root v = Flag True" using ex_verifyCard by blast
  have 4: "authorize_update ex_platform ex_press_config ?i (ex_key 1) ''09'' pol ?w = (Inr (), ?w)" for pol
    using code v assms(1) by (simp add: authorize_update_def bindA_step guardA_run ex_limits rate_limit_def RATE_LIMITS_def)
  obtain r w' where 5: "appendLogEntry ex_platform ex_press_config ''09'' ?i ex_intent_signature ?w = (Inr r, w')"
    using ex_append [of ?w "''09''" 100] assms by auto
  have "returns (recordWrite ex_platform ''update_card_head'' ''05'' ''holder'' (rc_policy_address (ex_card x)) ex_policy)"
    by (rule returns_recordWrite [where u = Undef]) (simp add: ex_policy_def lookup_key_def)
  then obtain w'' where "recordWrite ex_platform ''update_card_head'' ''05'' ''holder'' (rc_policy_address (ex_card x)) ex_policy w' = (Inr (), w'')"
    by (auto simp: returns_def)
  with 1 2 3 4 5 code show ?thesis
    by (simp add: handleUpdate_def bindA_step liftA_run snapshot_subcards_def notify_siblings_def retA_run returns_def Let_def)
qed

text \<open>A write that finds the head moved.\<close>

lemma ex_submit_stale:
  "ext w = 0 \<Longrightarrow> submit_head ex_platform ex_press_config a new pol prev w =
     (Inl (JsError ''reverted: STALE_PREV_CID''), w\<lparr>ext := 1\<rparr>)"
proof -
  let ?flds = "[(''card_address'', address_field a), (''prev_log_cid'', bytes_field prev), (''new_log_cid'', bytes_field new)]"
  assume "ext w = 0"
  moreover have "json_value (signed_payload ex_platform ex_press_config ''update_card_head'' ?flds 7 1000)"
    by (simp add: signed_payload_def address_field_def bytes_field_def)
  ultimately show ?thesis
    by (simp add: submit_head_def signed_write_def submitWithRetry_def submit_once_def buildAndSignPayload_def nowA_run
        bindA_def catchA_def liftA_run askA_run outA_run retA_run throwA_run ex_write_def mentions_def E07_SEQUENCE_MISMATCH_def)
qed

section \<open>Open offers\<close>

definition ex_open_offer :: js where
  "ex_open_offer = Obj [(''press_card'', Str ''press''), (''policy_id'', Str ''pol''), (''issuer_pubkey'', Str (ex_b64 5)),
     (''issuer_card'', Str ''05''), (''issuer_signature'', Str ''''), (''issued_at'', Str ''t''), (''max_acceptances'', Num (Fin 3))]"

definition ex_claim :: js where
  "ex_claim = Obj [(''offer'', ex_open_offer), (''recipient_pubkey'', Str (ex_b64 1))]"

definition ex_claim_body :: js where
  "ex_claim_body = Obj [(''claim_payload'', ex_claim), (''recipient_signature'', Str '''')]"

lemma ex_claim_fields [simp]:
  "field ex_open_offer ''policy_id'' = Str ''pol''" "field ex_open_offer ''issuer_pubkey'' = Str (ex_b64 5)"
  "field ex_open_offer ''issuer_card'' = Str ''05''" "field ex_open_offer ''issuer_signature'' = Str ''''"
  "field ex_open_offer ''issued_at'' = Str ''t''" "field ex_open_offer ''max_acceptances'' = Num (Fin 3)"
  "field ex_open_offer ''expires_at'' = Undef" "js_prop ex_open_offer ''press_card'' = Inr (Str ''press'')"
  "js_prop ex_open_offer ''issuer_card'' = Inr (Str ''05'')"
  "field ex_claim ''recipient_pubkey'' = Str (ex_b64 1)" "js_prop ex_claim ''offer'' = Inr ex_open_offer"
  "js_prop ex_claim_body ''claim_payload'' = Inr ex_claim" "field ex_claim_body ''recipient_signature'' = Str ''''"
  "json_value ex_open_offer" "json_value ex_claim"
  by (simp_all add: ex_open_offer_def ex_claim_def ex_claim_body_def field_def lookup_key_def)

lemma ex_validate_claim:
  assumes "pins w ''pol'' = Some [7]"
  shows "\<exists>oid. validate_claim ex_platform ex_press_config ex_claim_body w =
     (Inr ((ex_claim, ex_open_offer, ex_policy), oid, 3, 0), w)"
proof -
  obtain r1 r2 where cards: "check_card ex_platform ex_press_config (Fin 300) ''P-02'' ''Requester'' (Str ''05'') w = (Inr r1, w)"
    "check_card ex_platform ex_press_config (Fin 300) ''P-03'' ''Recipient'' (Str ''05'') w = (Inr r2, w)"
    using ex_check_card by (metis (no_types))
  have 1: "check_open_policy ex_platform ex_press_config ex_open_offer w = (Inr ex_policy, w)"
    using assms by (simp add: check_open_policy_def bindA_step liftA_run guardA_run ex_fetch_policy ex_policy_def lookup_key_def retA_run)
  have 2: "check_open_issuer ex_platform ex_open_offer w = (Inr (), w)"
    by (simp add: check_open_issuer_def binding_check_def bindA_step liftA_run guardA_run) (simp add: ex_open_offer_def bindA_step liftA_run guardA_run)
  have 3: "check_claim_signature ex_platform ex_claim (Str (ex_b64 1)) (Str '''') w = (Inr (), w)"
    by (simp add: check_claim_signature_def bindA_step liftA_run guardA_run)
  have 4: "check_capacity ex_platform ex_open_offer oid w = (Inr (3, 0), w)" for oid
    by (simp add: check_capacity_def bindA_step askA_run liftA_run guardA_run retA_run getOpenOfferUseCount_def
        max_acceptances_def offer_expiry_def)
  from cards have 5: "evaluatePredicates ex_platform ex_press_config ex_policy (Str ''05'') (Str ''05'') (Fin 300) w = (Inr (r1, r2), w)"
    by (simp add: evaluatePredicates_def check_predicate_def bindA_step liftA_run retA_run ex_policy_def lookup_key_def)
  from 1 2 3 4 5 show ?thesis
    by (simp add: validate_claim_def bindA_step liftA_run offer_id_def retA_run)
qed

lemma ex_claim_run:
  assumes "x \<noteq> 0"
  shows "\<exists>r w'. handleOpenOfferClaim ex_platform ex_press_config ex_claim_body (ex_world x s) = (Inr r, w')"
proof -
  let ?w = "ex_world x s"
  obtain oid where 1: "validate_claim ex_platform ex_press_config ex_claim_body ?w = (Inr ((ex_claim, ex_open_offer, ex_policy), oid, 3, 0), ?w)"
    using ex_validate_claim [of ?w] by auto
  obtain cid w1 where 2: "publish_signed_card ex_platform ex_press_config ex_open_offer (Str (ex_b64 1)) (Str [])
      (Arr [Str (ex_b64 5)]) Undef ?w = (Inr cid, w1)" "ext w1 = x" "pins w1 ''pol'' = Some [7]"
    using ex_publish [of ex_open_offer _ "Arr [Str (ex_b64 5)]" "Str []" ?w, OF ex_open_offer_def] by auto
  have 3: "checkGasBalance ex_platform ''ClaimOpenOffer'' w1 = (Inr (), w1)"
    by (rule ex_gas [of 220000]) (simp_all add: GAS_ESTIMATES_def)
  have 4: "claimOpenOffer ex_platform ex_press_config oid 3 0 a (utf8_encode cid) pol w1 = (Inr ''0xhash'', w1)" for a pol
    unfolding claimOpenOffer_def Let_def
    using assms 2 by (intro ex_signed_write) (simp_all add: address_field_def bytes_field_def)
  have 5: "js_prop ex_policy ''admin_wallet_service_url'' = Inr Undef"
    by (simp add: ex_policy_def lookup_key_def)
  obtain scip where 6: "issueScip ex_platform ex_press_config cid 0 cid (Str ''t'') Undef Undef w1 = (Inr scip, w1)"
    using ex_scip by fastforce
  obtain w2 where 7: "recordWrite ex_platform ''register_card'' ''05'' ''holder'' ''pol'' ex_policy w1 = (Inr (), w2)"
    using returns_recordWrite [OF 5, of ex_platform "''register_card''" "''05''" "''holder''" "''pol''"] by (auto simp: returns_def)
  from 1 2 3 4 5 6 7 show ?thesis
    by (simp add: handleOpenOfferClaim_def bindA_step liftA_run Let_def ex_card_address ex_no_auditors retA_run)
qed

section \<open>Sub-cards\<close>

definition ex_register_doc :: js where
  "ex_register_doc = Obj [(''app_card'', Str ''03''), (''app_card_pubkey'', Str (ex_b64 3)), (''app_signature'', Str ''''),
     (''holder_primary_card'', Str ''02''), (''holder_primary_card_pubkey'', Str (ex_b64 2)),
     (''recipient_pubkey'', Str (ex_b64 1))]"

definition ex_register_body :: js where
  "ex_register_body = Obj [(''sub_card_document'', ex_register_doc), (''holder_signature'', Str '''')]"

definition ex_funded :: "string \<Rightarrow> js option" where
  "ex_funded = [appGasKey ''03'' \<mapsto> gas_record 1000000 Null Null]"

lemma ex_register_fields [simp]:
  "field ex_register_doc ''app_card'' = Str ''03''" "field ex_register_doc ''holder_primary_card'' = Str ''02''"
  "field ex_register_doc ''recipient_pubkey'' = Str (ex_b64 1)"
  "js_prop ex_register_doc ''app_card'' = Inr (Str ''03'')" "js_prop ex_register_doc ''holder_primary_card'' = Inr (Str ''02'')"
  "js_prop ex_register_doc ''app_card_pubkey'' = Inr (Str (ex_b64 3))"
  "js_prop ex_register_doc ''holder_primary_card_pubkey'' = Inr (Str (ex_b64 2))"
  "js_prop ex_register_doc ''app_signature'' = Inr (Str '''')"
  "js_prop ex_register_body ''sub_card_document'' = Inr ex_register_doc"
  "field ex_register_body ''holder_signature'' = Str ''''" "field ex_register_body ''admin_secp_signature'' = Undef"
  "field ex_register_body ''admin_secp_payload'' = Undef" "json_value ex_register_doc"
  by (simp_all add: ex_register_doc_def ex_register_body_def field_def lookup_key_def)

lemma ex_subcard_document: "verify_subcard_document ex_platform ex_register_doc (Str '''') w = (Inr (), w)"
proof -
  obtain kvs where kvs: "ex_register_doc = Obj kvs" by (simp add: ex_register_doc_def)
  then have "\<forall>kv \<in> set kvs. json_value (snd kv)"
    using ex_register_fields(13) unfolding kvs by simp
  then have "json_value (js_omit ''holder_signature'' (js_omit ''app_signature'' (Obj (js_entries ex_register_doc))))"
      "json_value (js_omit ''holder_signature'' (Obj (js_entries ex_register_doc)))"
    unfolding kvs by auto
  then show ?thesis
    by (simp add: verify_subcard_document_def binding_check_def bindA_step liftA_run guardA_run del: js_omit.simps)
qed

lemma ex_subcard_signed: "subcard_document_signed ex_platform ex_register_doc (Str '''')"
  using verify_subcard_document_Inr [OF ex_subcard_document] by blast

lemma ex_register_subcard:
  assumes "ext w \<noteq> 0"
  shows "\<exists>r w'. register_subcard_document ex_platform ex_press_config ex_register_body ex_register_doc w = (Inr r, w')"
proof -
  let ?b = "ex_bytes (js_spread ex_register_doc [(''holder_signature'', Str '''')])"
  let ?w = "snd (mock_pinToIPFS ex_platform ?b w)"
  have "json_value (js_spread ex_register_doc [(''holder_signature'', Str '''')])"
    unfolding ex_register_doc_def by (rule json_js_spread) simp_all
  moreover have "registerSubCard ex_platform ex_press_config a m h c pl sg ?w = (Inr ''0xhash'', ?w)" for a m h c pl sg
    unfolding registerSubCard_def Let_def using assms
    by (simp add: bindA_step askA_run mock_pinToIPFS_def, intro ex_signed_write) (simp_all add: address_field_def bytes_field_def)
  ultimately show ?thesis
    by (simp add: register_subcard_document_def bindA_step liftA_run askA_run pinToIPFS_def mock_pinToIPFS_def
        ex_card_address retA_run)
qed

lemma ex_subcard_run:
  assumes "x \<noteq> 0"
  shows "\<exists>r w'. handleSubCardRegister ex_platform ex_press_config ex_register_body (ex_world x ex_funded) = (Inr r, w')"
proof -
  let ?w = "ex_world x ex_funded"
  obtain v where v: "press_verifyCard ex_platform ex_press_config (Str ''03'') ?w = (Inr v, ?w)"
    "sr_chain_reaches_trusted_root v = Flag True" "sr_is_currently_valid v = Skipped" using ex_verifyCard by blast
  have u: "uncounted (kv ?w)" by (auto simp: uncounted_def ex_funded_def dest: sym)
  have g: "checkAppGasBalance ex_platform ''03'' ''RegisterSubCard'' ?w = (Inr \<lparr>sufficient = True, sponsor = False\<rparr>, ?w)"
    by (simp add: checkAppGasBalance_def bindA_step getItem_run liftA_run askA_run retA_run ex_funded_def kv_get_def
        estimatedCostWei_def GAS_ESTIMATES_def)
  obtain r w1 where r: "register_subcard_document ex_platform ex_press_config ex_register_body ex_register_doc ?w = (Inr r, w1)"
    using ex_register_subcard [of ?w] assms by auto
  have "\<exists>pol. policy_or_default ex_platform ex_press_config ''pol'' w1 = (Inr pol, w1) \<and> (\<exists>kvs. pol = Obj kvs)"
    by (cases "fetchFromIPFS ex_platform ex_press_config ''pol'' w1")
      (auto simp: policy_or_default_def fetchPolicyCard_def catchA_def bindA_def readA_run liftA_run retA_run
        ex_press_doc_def ex_policy_def ex_pinned_subcard_def)
  then obtain kvs where pol: "policy_or_default ex_platform ex_press_config ''pol'' w1 = (Inr (Obj kvs), w1)" by blast
  have "returns (recordWrite ex_platform opn e ty pl (Obj kvs))" for opn e ty pl
    by (rule returns_recordWrite) simp
  then obtain w2 w3 where
    "recordWrite ex_platform ''register_sub_card'' ''02'' ''holder'' ''pol'' (Obj kvs) w1 = (Inr (), w2)"
    "recordWrite ex_platform ''register_sub_card_app'' ''03'' ''app_card'' ''pol'' (Obj kvs) w2 = (Inr (), w3)"
    by (metis (full_types) returns_def old.unit.exhaust)
  with v u g r pol ex_subcard_document [of ?w] show ?thesis
    by (simp add: handleSubCardRegister_def bindA_step liftA_run guardA_run ex_limits rate_limit_def RATE_LIMITS_def
        first_policy_cid_def Let_def retA_run)
qed

text \<open>Two active sub-cards of one master.\<close>

definition ex_deregister_body :: js where
  "ex_deregister_body = Obj [(''sig_payload'', Str ''01''), (''master_signature'', Str '''')]"

lemma ex_deregistration:
  "pins w ''b'' = Some [1] \<Longrightarrow> verify_deregistration ex_platform ex_press_config ex_deregister_body sub w =
     (Inr (ex_bytes (Str ''01''), []), w)"
  by (simp add: verify_deregistration_def bindA_step askA_run guardA_run readA_run liftA_run retA_run
      fetchFromIPFS_def mock_fetchFromIPFS_def ex_press_doc_def ex_pinned_subcard_def ex_deregister_body_def
      lookup_key_def field_def base64url_to_bytes_def)

end
