(* ===== verification/Press_Properties.thy ===== *)
theory Press_Properties
  imports Press_Runs
begin

text \<open>
  Properties of the press's handlers: what an accepted request has passed and done, what a
  refused one leaves alone, and what the handlers do not check. The witnesses run the handlers
  in the world of \<open>Press_World\<close>.
\<close>

lemma field_Str_prop: "field v k = Str s \<Longrightarrow> js_prop v k' = Inr (field v k')"
  by (cases v) (auto simp: field_def)

section \<open>Targeted issuance\<close>

lemma stored_offer_open:
  assumes "kv w = s(offerKey cid \<mapsto> offer_record pc t, offer_body_key cid \<mapsto> offer)" "truthy offer"
  shows "open_offer_record cid w = (Inr (offer_record pc t, offer), w)"
proof -
  have "nullish (offer_record pc t) d = offer_record pc t" for d
    by (simp add: offer_record_def)
  with assms show ?thesis
    by (simp add: open_offer_record_Inr kv_get_def)
qed

text \<open>
  C30. An offer accepted by \<open>/issue\<close> was signed by the key of the card it names as issuer. Its policy had
  not expired and approves this press, the requester and the policy were below their limits in the
  window of the clock at that check (the state \<open>wl\<close>, which differs from the state of the request at
  most by the reading for the expiry), and the offer was not older than the window by the very next
  reading of the clock. The offer is then stored open under the hash of its canonical bytes, ready
  to be finalized.
\<close>

theorem issue_accepts_signed_offers:
  assumes "handleIssue p cfg body w = (Inr cid, w')"
  shows "issuer_signed p (field body ''offer'') \<and>
     (\<exists>wl. request_accepted p cfg body w wl \<and>
        \<not> stale_at p cfg (now_of p (clock_only p wl)) (field (field body ''offer'') ''issued_at'')) \<and>
     (\<exists>bytes. canonicalize (field body ''offer'') = Inr bytes \<and> cid = toBase64url (keccak256_digest p bytes)) \<and>
     (\<exists>created. open_offer_record cid w' =
        (Inr (offer_record (field body ''policy_cid'') created, field body ''offer''), w'))"
proof -
  from handleIssue_Inr [OF assms] obtain bytes t wl where
    facts: "request_accepted p cfg body w wl" "issuer_signed p (field body ''offer'')"
      "\<not> stale_at p cfg (now_of p (clock_only p wl)) (field (field body ''offer'') ''issued_at'')"
      "canonicalize (field body ''offer'') = Inr bytes" "cid = offer_cid_of p bytes"
    and store: "kv w' = (kv w)(offerKey cid \<mapsto> offer_record (field body ''policy_cid'') t,
        offer_body_key cid \<mapsto> field body ''offer'')"
    by blast
  have "truthy (field body ''offer'')"
    using facts(1) by (auto simp: request_accepted_def)
  with store have "open_offer_record cid w' = (Inr (offer_record (field body ''policy_cid'') t, field body ''offer''), w')"
    by (rule stored_offer_open)
  with facts show ?thesis
    by (auto simp: offer_cid_of_def)
qed

theorem issue_accepts_signed_offers_witness:
  "\<exists>w'. handleIssue ex_platform ex_press_config ex_issue_body (ex_world 1 Map.empty) = (Inr ex_offer_cid, w') \<and>
     issuer_signed ex_platform (field ex_issue_body ''offer'') \<and>
     (\<exists>created. open_offer_record ex_offer_cid w' =
        (Inr (offer_record (field ex_issue_body ''policy_cid'') created, field ex_issue_body ''offer''), w'))"
proof -
  have "uncounted Map.empty" by (simp add: uncounted_def)
  from ex_issue [OF this, of 1] obtain w' where
    run: "handleIssue ex_platform ex_press_config ex_issue_body (ex_world 1 Map.empty) = (Inr ex_offer_cid, w')" by auto
  from issue_accepts_signed_offers [OF run] run show ?thesis by blast
qed

lemma js_spread_object [simp]: "truthy (js_spread v kvs)" "nullish (js_spread v kvs) d = js_spread v kvs"
  by (simp_all add: js_spread_def)

lemma handleIssueFinalize_Inr:
  assumes "handleIssueFinalize p cfg body w = (Inr r, w')"
  obtains rec offer policy w1 where
    "issue_offered_card p cfg body w = (Inr ((rec, offer, policy), r), w1)"
    "kv w' (offerKey (literal p (field body ''offer_cid''))) = Some (js_spread rec [(''finalized'', Bool True)])"
proof -
  from assms obtain rec offer policy w1 w2 where
    run: "issue_offered_card p cfg body w = (Inr ((rec, offer, policy), r), w1)"
    and w2: "w2 = w1\<lparr>kv := kv_set (offerKey (literal p (field body ''offer_cid''))) (js_spread rec [(''finalized'', Bool True)]) (kv w1)\<rparr>"
    and counter: "recordWrite p ''register_card'' (literal p (nullish (field offer ''issuer_card'') (Str []))) ''holder''
        (literal p (field rec ''policy_cid'')) policy w2 = (Inr (), w')"
    unfolding handleIssueFinalize_def by (auto simp: run_Inr split: prod.splits)
  from recordWrite_keeps [OF counter] w2 show thesis
    by (intro that [OF run]) (simp add: kv_set_def)
qed

text \<open>
  C6. A finalized offer was stored and open; the holder of the recipient key signed the
  document; the document was sealed to that key and published under the identifier of the
  response, and the chain confirmed its registration at the address of that key. From then on
  every request to finalize the offer is refused, and changes nothing.
\<close>

theorem finalize_issues_once:
  assumes run: "handleIssueFinalize p cfg body w = (Inr r, w')"
  shows "\<exists>rec offer ver sdoc addr.
     open_offer_record (literal p (field body ''offer_cid'')) w = (Inr (rec, offer), w) \<and>
     holder_signed p (partial_doc cfg offer (field body ''recipient_pubkey'')) (field body ''holder_signature'') \<and>
     signCardDocument p cfg (assembleCardDocument p cfg offer (field body ''recipient_pubkey'')
        (field body ''holder_signature'') (nullish (field offer ''ancestry_pubkeys'') (Arr [])) ver
        (field body ''past_keys'')) = Inr sdoc \<and>
     card_published p cfg (field body ''recipient_pubkey'') sdoc (fr_card_cid r) \<and>
     card_address p (field body ''recipient_pubkey'') = Inr addr \<and>
     card_registered p cfg addr (fr_card_cid r) (policy_address p (field rec ''policy_cid'')) \<and>
     (\<forall>body' c. js_prop body' ''offer_cid'' = Inr c \<and> literal p c = literal p (field body ''offer_cid'') \<longrightarrow>
        handleIssueFinalize p cfg body' w' = (Inl (press_error ''P-01'' ''Offer already finalized''), w'))"
proof -
  let ?c = "literal p (field body ''offer_cid'')"
  from handleIssueFinalize_Inr [OF run] obtain rec offer policy w1 where
    issued: "issue_offered_card p cfg body w = (Inr ((rec, offer, policy), r), w1)"
    and store: "kv w' (offerKey ?c) = Some (js_spread rec [(''finalized'', Bool True)])" .
  have refused: "open_offer_record ?c w' = (Inl (press_error ''P-01'' ''Offer already finalized''), w')"
    using store by (intro finalized_refused) (simp_all add: kv_get_def)
  have "handleIssueFinalize p cfg body' w' = (Inl (press_error ''P-01'' ''Offer already finalized''), w')"
    if "js_prop body' ''offer_cid'' = Inr c" "literal p c = ?c" for body' c
    using that refused
    by (simp add: handleIssueFinalize_def issue_offered_card_def bindA_def liftA_run Let_def)
  with issue_offered_card_Inr [OF issued] show ?thesis by blast
qed

theorem finalize_issues_once_witness:
  "\<exists>r w'. handleIssueFinalize ex_platform ex_press_config ex_finalize_body (ex_world 1 ex_open_store) = (Inr r, w') \<and>
     handleIssueFinalize ex_platform ex_press_config ex_finalize_body w' =
       (Inl (press_error ''P-01'' ''Offer already finalized''), w')"
proof -
  from ex_finalize [of 1] obtain r w' where
    run: "handleIssueFinalize ex_platform ex_press_config ex_finalize_body (ex_world 1 ex_open_store) = (Inr r, w')" by auto
  have "js_prop ex_finalize_body ''offer_cid'' = Inr (field ex_finalize_body ''offer_cid'')"
    by (simp add: ex_finalize_body_def field_def)
  with finalize_issues_once [OF run] run show ?thesis by blast
qed

text \<open>
  A finalization that fails, at whatever step, leaves the offer as it was: the holder can
  try again.
\<close>

theorem failed_finalize_keeps_offer:
  assumes "handleIssueFinalize p cfg body w = (Inl err, w')"
  shows "kv w' (offerKey c) = kv w (offerKey c) \<and> kv w' (offer_body_key c) = kv w (offer_body_key c)"
proof (cases "issue_offered_card p cfg body w")
  case (Pair res w1)
  show ?thesis
  proof (cases res)
    case (Inl e)
    with assms Pair have "w' = w1"
      by (simp add: handleIssueFinalize_def bindA_def)
    with keepsD [OF keeps_issue_offered_card Pair] show ?thesis by simp
  next
    case (Inr a)
    obtain rec offer policy r where a: "a = ((rec, offer, policy), r)" by (cases a) auto
    from issue_offered_card_Inr [of p cfg body w rec offer policy r w1] Pair Inr a
    obtain u where "js_prop policy ''admin_wallet_service_url'' = Inr u" by blast
    then have "returns (bindA (setItem k v) (\<lambda>_. bindA (recordWrite p opn e ty pol policy) (\<lambda>_. retA r)))" for k v opn e ty pol
      by (intro returns_intros returns_recordWrite)
    then have "\<exists>b w'. handleIssueFinalize p cfg body w = (Inr b, w')"
      unfolding handleIssueFinalize_def using Pair Inr a by (auto simp: bindA_step returns_def)
    with assms show ?thesis by simp
  qed
qed

theorem failed_finalize_keeps_offer_witness:
  "\<exists>err w'. handleIssueFinalize ex_platform ex_press_config ex_finalize_body (ex_world 1 Map.empty) = (Inl err, w') \<and>
     kv w' (offerKey ex_offer_cid) = None"
proof -
  have run: "handleIssueFinalize ex_platform ex_press_config ex_finalize_body (ex_world 1 Map.empty) =
      (Inl (press_error ''P-01'' ''Offer not found or expired''), ex_world 1 Map.empty)"
    by (simp add: handleIssueFinalize_def issue_offered_card_def ex_finalize_body_def field_def lookup_key_def
        bindA_def liftA_run Let_def open_offer_record_def getItem_run guardA_run kv_get_def)
  from failed_finalize_keeps_offer [OF run, of ex_offer_cid] run show ?thesis by auto
qed

text \<open>
  The record that keeps an offer from being finalized twice is overwritten when the same
  signed offer is submitted again: an offer that was refused as finalized is open afterwards.
\<close>

theorem reissue_reopens_finalized_offer:
  assumes run: "handleIssue p cfg body w = (Inr cid, w')"
    and fin: "truthy (field (kv_get (offerKey cid) (kv w)) ''finalized'')"
  shows "open_offer_record cid w = (Inl (press_error ''P-01'' ''Offer already finalized''), w) \<and>
     (\<exists>rec. open_offer_record cid w' = (Inr (rec, field body ''offer''), w'))"
proof
  have "truthy (kv_get (offerKey cid) (kv w))"
    using fin by (cases "kv_get (offerKey cid) (kv w)") (auto simp: field_def)
  with fin show "open_offer_record cid w = (Inl (press_error ''P-01'' ''Offer already finalized''), w)"
    by (intro finalized_refused)
  from handleIssue_Inr [OF run] obtain t where
    "kv w' = (kv w)(offerKey cid \<mapsto> offer_record (field body ''policy_cid'') t, offer_body_key cid \<mapsto> field body ''offer'')"
    "truthy (field body ''offer'')"
    by (auto simp: request_accepted_def)
  then show "\<exists>rec. open_offer_record cid w' = (Inr (rec, field body ''offer''), w')"
    by (blast intro: stored_offer_open)
qed

theorem reissue_reopens_finalized_offer_witness:
  "\<exists>s w'. handleIssue ex_platform ex_press_config ex_issue_body (ex_world 1 s) = (Inr ex_offer_cid, w') \<and>
     open_offer_record ex_offer_cid (ex_world 1 s) =
       (Inl (press_error ''P-01'' ''Offer already finalized''), ex_world 1 s) \<and>
     (\<exists>rec. open_offer_record ex_offer_cid w' = (Inr (rec, field ex_issue_body ''offer''), w'))"
proof -
  let ?s = "[offerKey ex_offer_cid \<mapsto> Obj [(''finalized'', Bool True)]]"
  have "uncounted ?s" by (simp add: uncounted_def)
  from ex_issue [OF this, of 1] obtain w' where
    run: "handleIssue ex_platform ex_press_config ex_issue_body (ex_world 1 ?s) = (Inr ex_offer_cid, w')" by auto
  have "truthy (field (kv_get (offerKey ex_offer_cid) (kv (ex_world 1 ?s))) ''finalized'')"
    by (simp add: kv_get_def field_def lookup_key_def)
  from reissue_reopens_finalized_offer [OF run this] run show ?thesis by blast
qed

text \<open>
  C33. What finalization publishes is readable: the verifier, fetching the identifier of the
  response, opens the signed document under the key derived from the recipient's public key.
\<close>

theorem issued_card_opens_for_verifier:
  assumes run: "handleIssueFinalize p cfg body w = (Inr r, w')"
    and crypto: "gcm_ok p" "nonces_ok p"
  shows "\<exists>key plaintext sdoc w1. fromBase64url p (field body ''recipient_pubkey'') = Inr key \<and>
     canonicalize sdoc = Inr plaintext \<and> field sdoc ''recipient_pubkey'' = field body ''recipient_pubkey'' \<and>
     field sdoc ''holder_signature'' = field body ''holder_signature'' \<and>
     open_document p (createIpfsProviderAdapter p cfg w1) (content_key p key) (fr_card_cid r) = json_parse p plaintext"
proof -
  from handleIssueFinalize_Inr [OF run] obtain rec offer policy w2 where
    issued: "issue_offered_card p cfg body w = (Inr ((rec, offer, policy), r), w2)" .
  from issue_offered_card_Inr [OF issued] obtain ver sdoc where
    sdoc: "signCardDocument p cfg (assembleCardDocument p cfg offer (field body ''recipient_pubkey'')
        (field body ''holder_signature'') (nullish (field offer ''ancestry_pubkeys'') (Arr [])) ver
        (field body ''past_keys'')) = Inr sdoc"
    and pub: "card_published p cfg (field body ''recipient_pubkey'') sdoc (fr_card_cid r)"
    by blast
  from pub obtain key plaintext x w1 where
    opens: "fromBase64url p (field body ''recipient_pubkey'') = Inr key" "canonicalize sdoc = Inr plaintext"
      "fetchFromIPFS p cfg (fr_card_cid r) w1 = Inr (sealed p (deriveContentKey p key) (fst (random_nonce p x)) plaintext)"
    by (auto simp: card_published_def)
  moreover have "field sdoc ''recipient_pubkey'' = field body ''recipient_pubkey'' \<and>
      field sdoc ''holder_signature'' = field body ''holder_signature''"
    using sdoc by (auto simp: signCardDocument_def bindE_eq_Inr field_js_spread entries_js_spread
        assembleCardDocument_def Let_def split: if_splits)
  ultimately show ?thesis
    using sealed_opens(1) [OF crypto]
    by (intro exI [of _ key] exI [of _ plaintext] exI [of _ sdoc] exI [of _ w1])
      (simp add: open_document_def createIpfsProviderAdapter_def content_key_def deriveContentKey_def)
qed

theorem issued_card_opens_for_verifier_witness:
  "\<exists>r w' key plaintext w1. handleIssueFinalize ex_platform ex_press_config ex_finalize_body (ex_world 1 ex_open_store) = (Inr r, w') \<and>
     open_document ex_platform (createIpfsProviderAdapter ex_platform ex_press_config w1) (content_key ex_platform key)
       (fr_card_cid r) = json_parse ex_platform plaintext"
proof -
  from ex_finalize [of 1] obtain r w' where
    run: "handleIssueFinalize ex_platform ex_press_config ex_finalize_body (ex_world 1 ex_open_store) = (Inr r, w')" by auto
  from issued_card_opens_for_verifier [OF run ex_gcm] run show ?thesis by blast
qed

section \<open>Updates\<close>

lemma appendLogEntry_Inr:
  assumes "appendLogEntry p cfg target intent sig w = (Inr r, w')"
  obtains card entry bytes w1 hash where "getCardEntry p target (ext w) = Inr card"
    "sign_log_entry p cfg (log_entry p (utf8_decode p (rc_log_head_cid card)) intent sig) = Inr entry"
    "canonicalize entry = Inr bytes" "fetchFromIPFS p cfg (le_log_entry_cid r) w1 = Inr bytes"
    "updateCardHead p cfg target (rc_log_head_cid card) (utf8_encode (le_log_entry_cid r)) w1 = (Inr hash, w')"
proof -
  from assms obtain card entry bytes w1 hash cid where
    run: "getCardEntry p target (ext w) = Inr card"
      "sign_log_entry p cfg (log_entry p (utf8_decode p (rc_log_head_cid card)) intent sig) = Inr entry"
      "canonicalize entry = Inr bytes" "pinToIPFS p cfg bytes w = (Inr cid, w1)"
      "updateCardHead p cfg target (rc_log_head_cid card) (utf8_encode cid) w1 = (Inr hash, w')"
      "cid = le_log_entry_cid r"
    unfolding appendLogEntry_def by (auto simp: run_Inr)
  with ipfs.pin_fetch show thesis
    by (intro that [of card entry bytes w1 hash]) auto
qed

text \<open>
  C9. An accepted update was signed, under the key it came with, over the whole intent, and is
  not older than the window; it changes no protected field; the target card exists. A change
  of the sub-card directory was signed by the target's own key; for every other code below 800
  the updater names a card this press trusts. The signed log entry was pinned under the
  identifier of the response.
\<close>

theorem accepted_update_is_authorized:
  assumes "handleUpdate p cfg body w = (Inr r, w')"
  shows "\<exists>intent sig key target card.
     js_prop body ''update_intent'' = Inr intent \<and> js_prop body ''intent_signature'' = Inr sig \<and>
     intent_signed p intent sig key \<and> \<not> stale_at p cfg (now_of p w) (field intent ''timestamp'') \<and>
     (\<forall>us v. field intent ''field_updates'' = Arr us \<and> v \<in> set us \<longrightarrow>
        \<not> forbidden_field (field intent ''code'') (field v ''field'')) \<and>
     field intent ''target_card_address'' = Str target \<and>
     getCardEntry p target (ext (clock_only p w)) = Inr card \<and> rc_exists card \<and>
     (directory_code (field intent ''code'') \<longrightarrow>
        field intent ''updater_card_address'' = Str target \<and> to_lower (keccak256 p key) = to_lower target) \<and>
     (\<not> directory_code (field intent ''code'') \<and> below_800 p intent \<longrightarrow>
        (\<exists>a. field intent ''updater_card_address'' = Str a \<and> press_root p cfg (clock_only p w) a)) \<and>
     (\<exists>prev entry bytes w1.
        sign_log_entry p cfg (log_entry p prev intent sig) = Inr entry \<and>
        canonicalize entry = Inr bytes \<and> fetchFromIPFS p cfg (le_log_entry_cid r) w1 = Inr bytes)"
proof -
  from assms obtain intent sig key target card policy w1 w2 w3 w4 w5 u where
    props: "js_prop body ''update_intent'' = Inr intent" "js_prop body ''intent_signature'' = Inr sig"
    and verified: "verify_intent p cfg intent sig w = (Inr key, w1)"
    and fields_ok: "check_fields p intent = Inr u"
    and found: "update_target p cfg intent w1 = (Inr (target, card, policy), w2)"
    and auth: "authorize_update p cfg intent key target (rc_policy_address card) w2 = (Inr (), w3)"
    and logged: "appendLogEntry p cfg target intent sig w4 = (Inr r, w5)"
    unfolding handleUpdate_def Let_def by (auto simp: run_Inr split: prod.splits)
  have "w1 = clock_only p w" "w2 = w1" and facts: "intent_signed p intent sig key"
      "\<not> stale_at p cfg (now_of p w) (field intent ''timestamp'')" "field intent ''target_card_address'' = Str target"
      "getCardEntry p target (ext w1) = Inr card" "rc_exists card"
    using verify_intent_Inr [OF verified] update_target_Inr [OF found] by auto
  moreover have "\<exists>prev entry bytes w1.
      sign_log_entry p cfg (log_entry p prev intent sig) = Inr entry \<and>
      canonicalize entry = Inr bytes \<and> fetchFromIPFS p cfg (le_log_entry_cid r) w1 = Inr bytes"
    by (rule appendLogEntry_Inr [OF logged]) blast
  ultimately show ?thesis
    using props authorize_update_Inr [OF auth] check_fields_Inr [OF fields_ok] by blast
qed

theorem accepted_update_is_authorized_witness:
  "\<exists>r w'. handleUpdate ex_platform ex_press_config (ex_update_body 100) (ex_world 1 Map.empty) = (Inr r, w') \<and>
     press_root ex_platform ex_press_config (ex_world 1 Map.empty) ''05''"
proof -
  have "uncounted Map.empty" by (simp add: uncounted_def)
  from ex_update [OF this, of 1] obtain r w' where
    run: "handleUpdate ex_platform ex_press_config (ex_update_body 100) (ex_world 1 Map.empty) = (Inr r, w')" by auto
  have "\<not> directory_code (Num (Fin 100))" "below_800 ex_platform (ex_intent 100)"
    by (simp_all add: ACTIVE_SUBCARDS_DIRECTORY_CODES_def below_800_def)
  with accepted_update_is_authorized [OF run] run show ?thesis by auto
qed

text \<open>
  A code that is not below 800 (a revocation, or no number at all) needs no authority over
  the card: whoever signs a fresh intent with a key of his own choice, whatever updater it
  names, has its entry appended to the log of any existing card.
\<close>

theorem revocations_are_not_authorized:
  assumes request: "js_prop body ''update_intent'' = Inr intent" "js_prop body ''intent_signature'' = Inr sig"
    and own_key: "intent_signed p intent sig key" "\<not> stale_at p cfg (now_of p w) (field intent ''timestamp'')"
    and code: "\<not> directory_code (field intent ''code'')" "\<not> below_800 p intent"
    and updates: "check_fields p intent = Inr ()"
    and target: "field intent ''target_card_address'' = Str target"
      "getCardEntry p target (ext (clock_only p w)) = Inr ce" "rc_exists ce"
  shows "handleUpdate p cfg body w = appendLogEntry p cfg target intent sig (clock_only p w)"
proof -
  let ?w = "clock_only p w"
  have "js_prop intent ''timestamp'' = Inr (field intent ''timestamp'')"
    using target(1) by (rule field_Str_prop)
  then have "verify_intent p cfg intent sig w = (Inr key, ?w)"
    using own_key unfolding verify_intent_def intent_signed_def
    by (auto simp: bindA_def act_simps nowA_run bindE_def)
  moreover have "\<exists>policy. update_target p cfg intent ?w = (Inr (target, ce, policy), ?w)"
    using target unfolding update_target_def fetchPolicyCard_def
    by (cases "bindE (fetch_js p cfg (Str (first_policy_cid cfg)) ?w) (json_parse p)")
      (auto simp: bindA_def catchA_def act_simps bindE_def split: sum.splits)
  moreover have "authorize_update p cfg intent key target (rc_policy_address ce) = retA ()"
    using code by (simp add: authorize_update_def Let_def)
  moreover have "snapshot_subcards p cfg intent key ce = retA (Arr [])"
      "\<And>before cid. notify_siblings p intent target before cid = retA ()"
    using code by (simp_all add: snapshot_subcards_def notify_siblings_def)
  ultimately show ?thesis
    using request updates code(2) unfolding handleUpdate_def
    by (auto simp: bindA_step liftA_run Let_def)
qed

theorem revocations_are_not_authorized_witness:
  "\<exists>r w'. handleUpdate ex_platform ex_press_config (ex_update_body 850) (ex_world 1 Map.empty) = (Inr r, w')"
proof -
  have "handleUpdate ex_platform ex_press_config (ex_update_body 850) (ex_world 1 Map.empty) =
      appendLogEntry ex_platform ex_press_config ''09'' (ex_intent 850) ex_intent_signature (clock_only ex_platform (ex_world 1 Map.empty))"
    by (rule revocations_are_not_authorized [where key = "ex_key 1" and ce = "ex_card 1"])
      (simp_all add: ex_intent_signed stale_at_def check_fields_def ACTIVE_SUBCARDS_DIRECTORY_CODES_def below_800_def)
  with ex_append [of "ex_world 1 Map.empty" "''09''" 850] show ?thesis by auto
qed

lemma updateCardHead_retried:
  assumes run: "updateCardHead p cfg target prev new w = (Inr hash, w')"
    and card: "getCardEntry p target (ext w) = Inr c0"
    and stale: "submit_head p cfg (normalizeHex target) new (rc_policy_address c0) prev w = (Inl err, w1)"
      "mentions E08_STALE_PREV_CID err"
    and moved: "getCardEntry p target (ext w1) = Inr c1"
  shows "submit_head p cfg (normalizeHex target) new (rc_policy_address c0) (rc_log_head_cid c1) w1 = (Inr hash, w')"
proof -
  have hex: "normalizeHex (normalizeHex target) = normalizeHex target"
    by (simp add: normalizeHex_def starts_with_0x_def)
  then have same: "getCardEntry p (normalizeHex target) = getCardEntry p target"
    by (simp add: getCardEntry_def fun_eq_iff)
  let ?refresh = "askA (\<lambda>x. bindE (getCardEntry p target x) (\<lambda>refreshed. Inr (rc_log_head_cid refreshed)))"
  let ?attempt = "submit_head p cfg (normalizeHex target) new (rc_policy_address c0)"
  let ?final = "\<lambda>err. if mentions E08_STALE_PREV_CID err then stale_head_error else err"
  have "retrying (mentions E08_STALE_PREV_CID) ?final ?refresh ?attempt 1 prev w = (Inr hash, w')"
    using run card unfolding updateCardHead_def Let_def same by (simp add: bindA_def askA_run)
  moreover have "?refresh w1 = (Inr (rc_log_head_cid c1), w1)"
    using moved by (simp add: askA_run)
  ultimately have "retrying (mentions E08_STALE_PREV_CID) ?final ?refresh ?attempt 0 (rc_log_head_cid c1) w1 = (Inr hash, w')"
    using stale by (simp add: catchA_throw bindA_step)
  then show ?thesis
    by (auto simp: catchA_eq throwA_run)
qed

text \<open>
  When the head of a card moves while it is updated, the update is accepted on top of the
  new head, but the log entry it appends still names the old head as its predecessor: the
  entries in between are not reachable from the card's history.
\<close>

theorem stale_retry_forks_history:
  assumes run: "appendLogEntry p cfg target intent sig w = (Inr r, w')"
    and head: "getCardEntry p target (ext w) = Inr c0"
    and entry: "sign_log_entry p cfg (log_entry p (utf8_decode p (rc_log_head_cid c0)) intent sig) = Inr entry"
      "canonicalize entry = Inr bytes" "pinToIPFS p cfg bytes w = (Inr cid, w1)"
    and still: "getCardEntry p target (ext w1) = Inr c0"
    and stale: "submit_head p cfg (normalizeHex target) (utf8_encode cid) (rc_policy_address c0) (rc_log_head_cid c0) w1 = (Inl err, w2)"
      "mentions E08_STALE_PREV_CID err"
    and moved: "getCardEntry p target (ext w2) = Inr c1"
  shows "fetchFromIPFS p cfg cid w1 = Inr bytes \<and>
     field entry ''prev_log_root'' = Str (utf8_decode p (rc_log_head_cid c0)) \<and>
     (\<exists>x0 hash. submitted p cfg ''updateCardHead'' ''update_card_head''
        [(''card_address'', address_field (normalizeHex target)), (''prev_log_cid'', bytes_field (rc_log_head_cid c1)),
         (''new_log_cid'', bytes_field (utf8_encode cid))]
        (\<lambda>payload psig. [Word_Arg (normalizeHex target), Bytes_Arg (utf8_encode cid), Bytes_Arg (rc_log_head_cid c1),
           Word_Arg (gas_address p cfg), Bytes_Arg payload, Bytes_Arg psig])
        (rc_policy_address c0) x0 hash (ext w'))"
proof -
  from run head entry obtain hash where
    "updateCardHead p cfg target (rc_log_head_cid c0) (utf8_encode cid) w1 = (Inr hash, w')"
    by (auto simp: appendLogEntry_def run_Inr)
  from updateCardHead_retried [OF this still stale moved]
  have "submit_head p cfg (normalizeHex target) (utf8_encode cid) (rc_policy_address c0) (rc_log_head_cid c1) w2 = (Inr hash, w')" .
  with ipfs.pin_fetch [OF entry(3)] log_entry_fields(1) [OF entry(1)] show ?thesis
    by (auto simp: submit_head_def dest!: signed_write_Inr)
qed

theorem stale_retry_forks_history_witness:
  "\<exists>r w' entry. appendLogEntry ex_platform ex_press_config ''09'' (ex_intent 100) ex_intent_signature (ex_world 0 Map.empty) = (Inr r, w') \<and>
     field entry ''prev_log_root'' = Str (utf8_decode ex_platform [1]) \<and>
     (\<exists>x0 hash. submitted ex_platform ex_press_config ''updateCardHead'' ''update_card_head''
        [(''card_address'', address_field ''0x09''), (''prev_log_cid'', bytes_field [2]),
         (''new_log_cid'', bytes_field (utf8_encode (le_log_entry_cid r)))]
        (\<lambda>payload psig. [Word_Arg ''0x09'', Bytes_Arg (utf8_encode (le_log_entry_cid r)), Bytes_Arg [2],
           Word_Arg (gas_address ex_platform ex_press_config), Bytes_Arg payload, Bytes_Arg psig]) ''0x07'' x0 hash (ext w'))"
proof -
  let ?w = "ex_world 0 Map.empty"
  have hex: "normalizeHex ''09'' = ''0x09''" by (simp add: normalizeHex_def starts_with_0x_def)
  obtain entry where entry: "sign_log_entry ex_platform ex_press_config (log_entry ex_platform
      (utf8_decode ex_platform (rc_log_head_cid (ex_card 0))) (ex_intent 100) ex_intent_signature) = Inr entry" "json_value entry"
    using ex_log_entry_signed by blast
  let ?cid = "mock_cid ex_platform (ex_bytes entry)" and ?w1 = "snd (mock_pinToIPFS ex_platform (ex_bytes entry) ?w)"
  have pin: "pinToIPFS ex_platform ex_press_config (ex_bytes entry) ?w = (Inr ?cid, ?w1)" "ext ?w1 = 0"
    by (simp_all add: pinToIPFS_def mock_pinToIPFS_def)
  have "updateCardHead ex_platform ex_press_config ''09'' (rc_log_head_cid (ex_card 0)) new ?w1 = (Inr ''0xhash'', ?w1\<lparr>ext := 1\<rparr>)" for new
    using pin(2) ex_submit_stale [of ?w1] ex_submit_head [of "?w1\<lparr>ext := 1\<rparr>"]
    by (simp add: updateCardHead_def bindA_step askA_run Let_def catchA_throw catchA_step mentions_def E08_STALE_PREV_CID_def)
  with entry pin have run: "appendLogEntry ex_platform ex_press_config ''09'' (ex_intent 100) ex_intent_signature ?w =
      (Inr \<lparr>le_log_entry_cid = ?cid, le_new_log_head_cid = ?cid\<rparr>, ?w1\<lparr>ext := 1\<rparr>)"
    by (simp add: appendLogEntry_def bindA_step askA_run liftA_run retA_run)
  have "mentions E08_STALE_PREV_CID (JsError ''reverted: STALE_PREV_CID'')"
    by (simp add: mentions_def E08_STALE_PREV_CID_def)
  moreover have "getCardEntry ex_platform ''09'' (ext ?w) = Inr (ex_card 0)" "getCardEntry ex_platform ''09'' (ext ?w1) = Inr (ex_card 0)"
      "getCardEntry ex_platform ''09'' (ext (?w1\<lparr>ext := 1\<rparr>)) = Inr (ex_card 1)"
    using pin(2) by simp_all
  ultimately have "field entry ''prev_log_root'' = Str (utf8_decode ex_platform (rc_log_head_cid (ex_card 0))) \<and>
      (\<exists>x0 hash. submitted ex_platform ex_press_config ''updateCardHead'' ''update_card_head''
        [(''card_address'', address_field (normalizeHex ''09'')), (''prev_log_cid'', bytes_field (rc_log_head_cid (ex_card 1))),
         (''new_log_cid'', bytes_field (utf8_encode ?cid))]
        (\<lambda>payload psig. [Word_Arg (normalizeHex ''09''), Bytes_Arg (utf8_encode ?cid), Bytes_Arg (rc_log_head_cid (ex_card 1)),
           Word_Arg (gas_address ex_platform ex_press_config), Bytes_Arg payload, Bytes_Arg psig])
        (rc_policy_address (ex_card 0)) x0 hash (ext (?w1\<lparr>ext := 1\<rparr>)))"
    using stale_retry_forks_history [OF run _ entry(1) ex_canonical [OF entry(2)] pin(1) _ ex_submit_stale [OF pin(2)]] by blast
  with run show ?thesis
    by (intro exI [of _ "\<lparr>le_log_entry_cid = ?cid, le_new_log_head_cid = ?cid\<rparr>"] exI [of _ "?w1\<lparr>ext := 1\<rparr>"] exI [of _ entry])
      (auto simp: hex pin(2) ex_card_def)
qed

text \<open>
  What the code relies on of AES-GCM beyond \<open>gcm_ok\<close>: only what was sealed opens.
\<close>

definition gcm_authentic :: "('x, 'z) platform_scheme \<Rightarrow> bool" where
  "gcm_authentic p \<longleftrightarrow> (\<forall>k n c m. aes_gcm_open (crypto_ops p) k n c = Inr m \<longrightarrow> c = aes_gcm_seal p k n m)"

text \<open>
  The head of a card after an update is the plain log entry. The verifier looks for the
  card's sealed document there and finds none under any key: unless the bytes of the entry
  happen to be an object sealed under that key, opening the head ends with
  \<open>DECRYPTION_FAILED\<close>. And the entry has no ancestry a chain walk could follow.
\<close>

theorem updated_card_does_not_open:
  assumes run: "appendLogEntry p cfg target intent sig w = (Inr r, w')"
    and authentic: "gcm_authentic p"
  shows "\<exists>entry bytes w1. canonicalize entry = Inr bytes \<and>
     fetchFromIPFS p cfg (le_log_entry_cid r) w1 = Inr bytes \<and>
     first_ancestor entry = Inl (JsError ''TypeError: Cannot read properties of undefined (reading length)'') \<and>
     (\<forall>key. (\<forall>n m. bytes \<noteq> sealed p (content_key p key) n m) \<longrightarrow>
        (\<exists>msg. open_document p (createIpfsProviderAdapter p cfg w1) (content_key p key) (le_log_entry_cid r) =
           Inl (CardProtocolError ''DECRYPTION_FAILED'' msg)))"
proof (rule appendLogEntry_Inr [OF run])
  fix c0 entry bytes w1 hash
  assume entry: "sign_log_entry p cfg (log_entry p (utf8_decode p (rc_log_head_cid c0)) intent sig) = Inr entry"
    "canonicalize entry = Inr bytes" "fetchFromIPFS p cfg (le_log_entry_cid r) w1 = Inr bytes"
  have "\<exists>msg. open_document p (createIpfsProviderAdapter p cfg w1) k (le_log_entry_cid r) =
      Inl (CardProtocolError ''DECRYPTION_FAILED'' msg)" if "\<forall>n m. bytes \<noteq> sealed p k n m" for k
  proof (cases "aes_gcm_open (crypto_ops p) k (take 12 bytes) (drop 12 bytes)")
    case (Inr m)
    with authentic have "bytes = sealed p k (take 12 bytes) m"
      by (metis append_take_drop_id gcm_authentic_def sealed_def)
    with that show ?thesis by blast
  qed (use entry(3) in \<open>simp add: open_document_def createIpfsProviderAdapter_def aes256gcmDecrypt_def\<close>)
  with entry log_entry_unreadable [OF entry(1)] show ?thesis by blast
qed

theorem updated_card_does_not_open_witness:
  "\<exists>r w' entry. appendLogEntry ex_platform ex_press_config ''09'' (ex_intent 100) ex_intent_signature (ex_world 1 Map.empty) = (Inr r, w') \<and>
     first_ancestor entry = Inl (JsError ''TypeError: Cannot read properties of undefined (reading length)'')"
proof -
  have "gcm_authentic ex_platform"
    unfolding gcm_authentic_def by (auto simp: ex_press_crypto_def split: if_splits)
      (simp add: ex_platform_def, metis append_take_drop_id)
  moreover obtain r w' where run: "appendLogEntry ex_platform ex_press_config ''09'' (ex_intent 100) ex_intent_signature
      (ex_world 1 Map.empty) = (Inr r, w')"
    using ex_append [of "ex_world 1 Map.empty" "''09''" 100] by auto
  ultimately show ?thesis
    using updated_card_does_not_open [OF run] run by blast
qed

end
