(* ===== verification/Press_Limits.thy ===== *)
theory Press_Limits
  imports Press_Runs
begin

text \<open>
  Properties of the press beyond issuance and updates: open offers, sub-cards, gas accounts,
  predicates, rate limits and the event log.
\<close>

section \<open>Open offers\<close>

text \<open>
  C27. A successful claim of an open offer was made on this press under a policy that allows
  open offers; the issuer's key, bound to the issuer's address, signed the offer, and the
  issuer is a card this press trusts; the recipient's key signed the claim; seats were left
  on chain and the offer had not expired. The card is published under the recipient's key.
\<close>

theorem open_claim_is_authorized:
  assumes "handleOpenOfferClaim p cfg body w = (Inr r, w')"
  shows "\<exists>claim offer policy oid m t.
     js_prop body ''claim_payload'' = Inr claim \<and> js_prop claim ''offer'' = Inr offer \<and>
     field offer ''press_card'' = Str (PRESS_CARD_CID cfg) \<and>
     fetchPolicyCard p cfg (field offer ''policy_id'') w = (Inr policy, w) \<and> truthy (field policy ''allow_open_offers'') \<and>
     issuer_signed p offer \<and> (\<exists>a. field offer ''issuer_card'' = Str a \<and> press_root p cfg w a) \<and>
     claim_signed p claim (field claim ''recipient_pubkey'') (field body ''recipient_signature'') \<and>
     offer_id p offer = Inr oid \<and> max_acceptances p offer = Inr m \<and> offer_expiry p offer = Inr t \<and>
     (\<exists>n. getOpenOfferUseCount p oid (ext w) = Inr n \<and> (m \<noteq> UINT64_MAX \<longrightarrow> n < m)) \<and>
     (0 < t \<longrightarrow> now_of p w div 1000 < t) \<and>
     (\<exists>sdoc. field sdoc ''recipient_pubkey'' = field claim ''recipient_pubkey'' \<and>
        card_published p cfg (field claim ''recipient_pubkey'') sdoc (fr_card_cid r))"
proof -
  from assms obtain claim offer policy oid m t w1 cid w2 where
    valid: "validate_claim p cfg body w = (Inr ((claim, offer, policy), oid, m, t), w1)"
    and pub: "publish_signed_card p cfg offer (field claim ''recipient_pubkey'') (field body ''recipient_signature'')
        (Arr [field offer ''issuer_pubkey'']) Undef w1 = (Inr cid, w2)"
    and cid: "fr_card_cid r = cid"
    unfolding handleOpenOfferClaim_def Let_def by (auto simp: run_Inr split: prod.splits)
  from validate_claim_Inr [OF valid] have capacity: "check_capacity p offer oid w = (Inr (m, t), w1)" by blast
  from publish_signed_card_Inr [OF pub] obtain ver sdoc where
    sdoc: "signCardDocument p cfg (assembleCardDocument p cfg offer (field claim ''recipient_pubkey'')
        (field body ''recipient_signature'') (Arr [field offer ''issuer_pubkey'']) ver Undef) = Inr sdoc"
    "card_published p cfg (field claim ''recipient_pubkey'') sdoc cid" by blast
  from signed_card_recipient [OF sdoc(1)] have "field sdoc ''recipient_pubkey'' = field claim ''recipient_pubkey''"
    by (simp add: field_def)
  with validate_claim_Inr [OF valid] check_capacity_Inr [OF capacity] sdoc(2) cid show ?thesis
    by blast
qed

theorem open_claim_is_authorized_witness:
  "\<exists>r w' claim offer. handleOpenOfferClaim ex_platform ex_press_config ex_claim_body (ex_world 1 Map.empty) = (Inr r, w') \<and>
     js_prop claim ''offer'' = Inr offer \<and> issuer_signed ex_platform offer"
proof -
  from ex_claim_run [of 1 Map.empty] obtain r w' where
    run: "handleOpenOfferClaim ex_platform ex_press_config ex_claim_body (ex_world 1 Map.empty) = (Inr r, w')" by auto
  from open_claim_is_authorized [OF run] run show ?thesis by blast
qed

section \<open>Sub-cards\<close>

text \<open>
  C28. A registered sub-card has a document signed by the app and by the holder, each with the
  key of the card the document names, and an app card this press trusts. The holder was below its
  limits in the window of the clock when the request came in, the app in that of the next reading of
  the clock, and the app's account covered the cost at the gas price the node gave right after;
  the document is pinned with the holder's signature in it.
\<close>

theorem registered_subcard_is_authorized:
  assumes "handleSubCardRegister p cfg body w = (Inr r, w')"
  shows "\<exists>doc. js_prop body ''sub_card_document'' = Inr doc \<and>
     subcard_document_signed p doc (field body ''holder_signature'') \<and>
     (\<exists>a. field doc ''app_card'' = Str a \<and> press_root p cfg w a) \<and>
     within_limits p w ''register_sub_card'' (literal p (field doc ''holder_primary_card'')) ''holder'' (first_policy_cid cfg) \<and>
     within_limits p (clock_only p w) ''register_sub_card_app'' (literal p (field doc ''app_card'')) ''app_card'' (first_policy_cid cfg) \<and>
     (\<exists>balance cost. app_balance p w (literal p (field doc ''app_card'')) = Inr balance \<and>
        estimatedCostWei p ''RegisterSubCard'' (ext (clock_only p (clock_only p w))) = Inr cost \<and> cost \<le> balance) \<and>
     (\<exists>bytes w1. canonicalize (js_spread doc [(''holder_signature'', field body ''holder_signature'')]) = Inr bytes \<and>
        fetchFromIPFS p cfg (rr_sub_card_doc_cid r) w1 = Inr bytes)"
proof -
  let ?pol = "first_policy_cid cfg"
  from assms obtain doc res w1 w2 w3 w4 g w5 w6 where
    doc: "js_prop body ''sub_card_document'' = Inr doc"
    and signed_: "verify_subcard_document p doc (field body ''holder_signature'') w = (Inr (), w1)"
    and app: "press_verifyCard p cfg (field doc ''app_card'') w1 = (Inr res, w2)" "sr_chain_reaches_trusted_root res = Flag True"
    and lim1: "checkRateLimits p ''register_sub_card'' (literal p (field doc ''holder_primary_card'')) ''holder'' ?pol w2 = (Inr (), w3)"
    and lim2: "checkRateLimits p ''register_sub_card_app'' (literal p (field doc ''app_card'')) ''app_card'' ?pol w3 = (Inr (), w4)"
    and gas: "checkAppGasBalance p (literal p (field doc ''app_card'')) ''RegisterSubCard'' w4 = (Inr g, w5)" "sufficient g"
    and reg: "register_subcard_document p cfg body doc w5 = (Inr r, w6)"
    unfolding handleSubCardRegister_def Let_def by (auto simp: run_Inr)
  from verify_subcard_document_Inr [OF signed_] press_verifyCard_Inr [OF app(1)] app(2)
  have 1: "subcard_document_signed p doc (field body ''holder_signature'')" "w2 = w"
    "\<exists>a. field doc ''app_card'' = Str a \<and> press_root p cfg w a" by auto
  from checkRateLimits_Inr [OF lim1] checkRateLimits_Inr [OF lim2] 1(2)
  have 2: "w4 = clock_only p (clock_only p w)"
    "within_limits p w ''register_sub_card'' (literal p (field doc ''holder_primary_card'')) ''holder'' ?pol"
    "within_limits p (clock_only p w) ''register_sub_card_app'' (literal p (field doc ''app_card'')) ''app_card'' ?pol"
    by simp_all
  from checkAppGasBalance_Inr [OF gas(1)] gas(2) 2(1)
  have 3: "\<exists>balance cost. app_balance p w (literal p (field doc ''app_card'')) = Inr balance \<and>
      estimatedCostWei p ''RegisterSubCard'' (ext (clock_only p (clock_only p w))) = Inr cost \<and> cost \<le> balance"
    by (auto simp: app_balance_def)
  from reg have "\<exists>bytes w1. canonicalize (js_spread doc [(''holder_signature'', field body ''holder_signature'')]) = Inr bytes \<and>
      fetchFromIPFS p cfg (rr_sub_card_doc_cid r) w1 = Inr bytes"
    unfolding register_subcard_document_def by (auto simp: run_Inr) (blast dest: ipfs.pin_fetch)
  with doc 1 2 3 show ?thesis by blast
qed

theorem registered_subcard_is_authorized_witness:
  "\<exists>r w' doc. handleSubCardRegister ex_platform ex_press_config ex_register_body (ex_world 1 ex_funded) = (Inr r, w') \<and>
     subcard_document_signed ex_platform doc (field ex_register_body ''holder_signature'')"
proof -
  from ex_subcard_run [of 1] obtain r w' where
    run: "handleSubCardRegister ex_platform ex_press_config ex_register_body (ex_world 1 ex_funded) = (Inr r, w')" by auto
  from registered_subcard_is_authorized [OF run] run show ?thesis by blast
qed

text \<open>
  The payload of a deregistration is not compared with the sub-card it is sent for: a
  request the master signed for one sub-card passes the same checks for every other active
  sub-card whose document names the same master key.
\<close>

theorem deregistration_can_be_replayed:
  assumes first: "verify_deregistration p cfg body sub w = (Inr (payload, sig), w)"
    and doc: "getSubCardEntry p sub (ext w) = Inr s1"
      "bindE (fetchFromIPFS p cfg (utf8_decode p (rs_sub_card_doc_cid s1)) w) (json_parse p) = Inr d1"
    and other: "getSubCardEntry p sub' (ext w) = Inr s2" "rs_active s2"
      "getCardEntry p (rs_master_card_address s2) (ext w) = Inr m2"
      "bindE (fetchFromIPFS p cfg (utf8_decode p (rs_sub_card_doc_cid s2)) w) (json_parse p) = Inr d2"
    and master: "js_prop d2 ''holder_primary_card_pubkey'' = js_prop d1 ''holder_primary_card_pubkey''"
  shows "verify_deregistration p cfg body sub' w = (Inr (payload, sig), w)"
proof -
  from other(4) obtain b2 where "fetchFromIPFS p cfg (utf8_decode p (rs_sub_card_doc_cid s2)) w = Inr b2" "json_parse p b2 = Inr d2"
    by (auto simp: bindE_eq_Inr)
  with first doc other(1-3) master show ?thesis
    unfolding verify_deregistration_def by (auto simp: run_Inr bindE_eq_Inr)
qed

theorem deregistration_can_be_replayed_witness:
  "verify_deregistration ex_platform ex_press_config ex_deregister_body ''0a'' (ex_world 1 Map.empty) =
     (Inr (ex_bytes (Str ''01''), []), ex_world 1 Map.empty)"
proof -
  let ?w = "ex_world 1 Map.empty"
  have 1: "verify_deregistration ex_platform ex_press_config ex_deregister_body ''01'' ?w = (Inr (ex_bytes (Str ''01''), []), ?w)"
    by (rule ex_deregistration) simp
  have 2: "bindE (fetchFromIPFS ex_platform ex_press_config (utf8_decode ex_platform [2]) ?w) (json_parse ex_platform) =
      Inr ex_pinned_subcard"
    by (simp add: fetchFromIPFS_def mock_fetchFromIPFS_def ex_press_doc_def)
  show ?thesis
    by (rule deregistration_can_be_replayed [OF 1 ex_sub_entry _ ex_sub_entry, where ?d1.0 = ex_pinned_subcard and ?d2.0 = ex_pinned_subcard])
      (use 2 in simp_all)
qed

section \<open>Gas accounts\<close>

lemma bytes_hex_chars:
  assumes "\<And>n. n < 16 \<Longrightarrow> P (hex_char n)" "c \<in> set (bytes_hex bs)"
  shows "P c"
proof -
  have "unat (b :: byte) < 2 ^ LENGTH(8)" for b by (rule unsigned_less)
  then have "unat (b :: byte) div 16 < 16" "unat b mod 16 < 16" for b
    by (simp_all add: less_mult_imp_div_less)
  with assms show ?thesis by (auto simp: bytes_hex_def)
qed

lemma of_hex_char: "n < 16 \<Longrightarrow> (of_char (hex_char n) :: nat) = (if n < 10 then 48 + n else 87 + n)"
  by (simp add: hex_char_def)

lemma bytes_hex_no_x: "CHR ''x'' \<notin> set (bytes_hex bs)"
proof
  have "hex_char n \<noteq> CHR ''x''" if "n < 16" for n
    using of_hex_char [OF that] that by (cases "hex_char n = CHR ''x''") (auto split: if_splits)
  moreover assume "CHR ''x'' \<in> set (bytes_hex bs)"
  ultimately show False
    using bytes_hex_chars [of "\<lambda>c. c \<noteq> CHR ''x''" "CHR ''x''" bs] by blast
qed

lemma to_lower_bytes_hex [simp]: "to_lower (bytes_hex bs) = bytes_hex bs"
proof -
  have "lower_char (hex_char n) = hex_char n" if "n < 16" for n
    using that by (simp add: lower_char_def of_hex_char Let_def)
  then have "lower_char c = c" if "c \<in> set (bytes_hex bs)" for c
    using bytes_hex_chars [OF _ that, of "\<lambda>c. lower_char c = c"] by blast
  then show ?thesis by (simp add: to_lower_def map_idI)
qed

lemma prefix_not_hex:
  assumes "to_lower s = bytes_hex bs" shows "\<not> starts_with_0x s"
proof
  assume "starts_with_0x s"
  then have "CHR ''x'' \<in> set (take 2 s)" by (simp add: starts_with_0x_def)
  then have "lower_char (CHR ''x'') \<in> set (to_lower s)"
    by (auto simp: to_lower_def dest: in_set_takeD)
  with assms bytes_hex_no_x show False by (simp add: lower_char_def)
qed

text \<open>
  C15. Scanning for transfers credits every account with exactly the value of the transfers to
  this press that name it, in every block of the range that can be read, and answers the last
  block: each block is visited once, and nothing but the accounts changes.
\<close>

theorem scan_credits_transfers:
  assumes "blocks_immutable p" and "block_number p (ext w) = Inr latest"
    and "\<And>app. app_balance p w app = Inr (b app)"
  shows "\<exists>w'. pollEthTransfers p cfg fromBlock w = (Inr latest, w') \<and>
     (\<forall>app. app_balance p w' app =
        Inr (b app + credited p cfg app (seen_transactions p (ext w) [fromBlock .. latest]))) \<and>
     (\<forall>k. (\<forall>app. k \<noteq> appGasKey app) \<longrightarrow> kv w' k = kv w k)"
proof -
  from poll_blocks_run [OF assms(1,3), of cfg "[fromBlock .. latest]"] obtain w1 where
    w1: "forA (poll_block p cfg) [fromBlock .. latest] w = (Inr (), w1)"
      "\<And>app. app_balance p w1 app = Inr (b app + credited p cfg app (seen_transactions p (ext w) [fromBlock .. latest]))"
      "\<And>k. (\<forall>app. k \<noteq> appGasKey app) \<Longrightarrow> kv w1 k = kv w k" by blast
  have "pollEthTransfers p cfg fromBlock w = (Inr latest, w1)"
    using assms(2) w1(1)
    by (cases "latest < fromBlock") (auto simp: pollEthTransfers_def bindA_def askA_run retA_run poll_batches_all)
  with w1 show ?thesis by blast
qed

theorem scan_credits_transfers_witness:
  "\<exists>w'. pollEthTransfers ex_platform ex_press_config 1 (ex_world 1 Map.empty) = (Inr 3, w') \<and>
     (\<forall>app. app_balance ex_platform w' app =
        Inr (0 + credited ex_platform ex_press_config app (seen_transactions ex_platform 1 [1 .. 3])))"
proof -
  have "blocks_immutable ex_platform" by (simp add: blocks_immutable_def)
  moreover have "block_number ex_platform (ext (ex_world 1 Map.empty)) = Inr 3" by simp
  moreover have "app_balance ex_platform (ex_world 1 Map.empty) app = Inr ((\<lambda>_. 0) app)" for app
    by (simp add: app_balance_def kv_get_def record_balance_def)
  ultimately have "\<exists>w'. pollEthTransfers ex_platform ex_press_config 1 (ex_world 1 Map.empty) = (Inr 3, w') \<and>
     (\<forall>app. app_balance ex_platform w' app =
        Inr ((\<lambda>_. 0) app + credited ex_platform ex_press_config app (seen_transactions ex_platform (ext (ex_world 1 Map.empty)) [1 .. 3]))) \<and>
     (\<forall>k. (\<forall>app. k \<noteq> appGasKey app) \<longrightarrow> kv w' k = kv (ex_world 1 Map.empty) k)"
    by (rule scan_credits_transfers)
  then show ?thesis by auto
qed

text \<open>
  The account those transfers fund is filed under an address with the prefix \<open>0x\<close>; the
  account a sub-card registration is charged to is filed under the address as the accepted
  document has it, the bare hash of the app's key. No transfer ever funds the account that is
  looked at.
\<close>

theorem transfers_never_fund_checked_account:
  assumes "subcard_document_signed p doc hs"
  shows "credited p cfg (literal p (field doc ''app_card'')) txs = 0"
proof -
  from assms obtain appAddr appKey where app: "field doc ''app_card'' = Str appAddr"
      "to_lower (keccak256 p appKey) = to_lower appAddr"
    by (auto simp: subcard_document_signed_def)
  have "\<not> starts_with_0x appAddr"
    using app(2) by (intro prefix_not_hex [of _ "keccak_256 (crypto_ops p) appKey"]) (simp add: keccak256_def)
  moreover have "funded_account p cfg tx = Some a \<Longrightarrow> starts_with_0x a" for tx a
    by (auto simp: funded_account_def extractAppCardFromCalldata_def starts_with_0x_def Let_def split: if_splits)
  ultimately have "filter (\<lambda>tx. funded_account p cfg tx = Some appAddr) txs = []"
    by (auto simp: filter_empty_conv)
  with app show ?thesis by (simp add: credited_def)
qed

theorem transfers_never_fund_checked_account_witness:
  "\<forall>txs. credited ex_platform ex_press_config ''03'' txs = 0"
  using transfers_never_fund_checked_account [OF ex_subcard_signed, of ex_press_config] by simp

section \<open>Predicates\<close>

text \<open>
  The check of requester and recipient accepts only cards whose own address is a
  configured or registered root: a card below a root, whose chain the check cannot walk
  without its key, is refused whatever its ancestry.
\<close>

theorem predicates_accept_only_roots:
  assumes "evaluatePredicates p cfg policy requester recipient window w = (Inr r, w')"
  shows "w' = w \<and> (\<exists>a b. requester = Str a \<and> recipient = Str b \<and>
     (\<forall>c \<in> {a, b}. adapter_card_entry p (ext w) c \<noteq> None \<and>
        (c \<in> set (PRESS_POLICY_CIDS cfg) \<or> adapter_policy_authorizer p w c)))"
  using evaluatePredicates_Inr [OF assms] by (auto simp: press_root_def)

theorem predicates_accept_only_roots_witness:
  "\<exists>r. evaluatePredicates ex_platform ex_press_config ex_policy (Str ''05'') (Str ''03'') (Fin 300) (ex_world 1 Map.empty) =
       (Inr r, ex_world 1 Map.empty) \<and>
     adapter_policy_authorizer ex_platform (ex_world 1 Map.empty) ''05''"
proof -
  from ex_predicates obtain r where
    run: "evaluatePredicates ex_platform ex_press_config ex_policy (Str ''05'') (Str ''03'') (Fin 300) (ex_world 1 Map.empty) =
      (Inr r, ex_world 1 Map.empty)" by blast
  from predicates_accept_only_roots [OF run] run show ?thesis by auto
qed

section \<open>The event log\<close>

text \<open>
  The event log of a card holds the registration events and the head updates the chain
  reported, each once, in chain order: by block, and inside a block by log index.
\<close>

theorem event_log_in_chain_order:
  assumes "getCardEventLog p cardAddress x = Inr log"
  shows "\<exists>registered updated events. read_registered_logs p (normalizeHex cardAddress) x = Inr registered \<and>
     read_head_updated_logs p (normalizeHex cardAddress) x = Inr updated \<and>
     log = map (\<lambda>ev. (ce_cid ev, ce_timestamp ev)) events \<and> sorted_wrt in_chain_order events \<and>
     mset events = mset (map chain_event_of (registered @ updated))"
proof -
  from assms obtain registered updated where
    "read_registered_logs p (normalizeHex cardAddress) x = Inr registered"
    "read_head_updated_logs p (normalizeHex cardAddress) x = Inr updated"
    "log = map (\<lambda>ev. (ce_cid ev, ce_timestamp ev)) (sort_events (map chain_event_of (registered @ updated)))"
    by (auto simp: getCardEventLog_def bindE_eq_Inr)
  then show ?thesis
    using sort_events_sorted sort_events_mset by blast
qed

theorem event_log_in_chain_order_witness:
  "\<exists>events. ([] :: (bytes \<times> int) list) = map (\<lambda>ev. (ce_cid ev, ce_timestamp ev)) events \<and> sorted_wrt in_chain_order events"
proof -
  have "getCardEventLog ex_platform ''01'' 0 = Inr []"
    by (simp add: getCardEventLog_def ex_platform_def sort_events_def)
  from event_log_in_chain_order [OF this] show ?thesis by blast
qed

section \<open>Rate limits\<close>

text \<open>A write to be recorded, and the keys it counts under in the window that starts at \<open>ws\<close>.\<close>

record press_write =
  wr_operation :: string
  wr_entity :: string
  wr_type :: string
  wr_policy :: string

definition entity_key :: "int \<Rightarrow> press_write \<Rightarrow> string" where
  "entity_key ws x = rateEntityKey (wr_entity x) (wr_type x) (wr_operation x) (wr_policy x) ws"

definition policy_key :: "int \<Rightarrow> press_write \<Rightarrow> string" where
  "policy_key ws x = policyWritesKey (wr_policy x) ws"

definition record_write :: "('x, 'z) platform_scheme \<Rightarrow> js \<Rightarrow> press_write \<Rightarrow> ('x, unit) act" where
  "record_write p doc x = recordWrite p (wr_operation x) (wr_entity x) (wr_type x) (wr_policy x) doc"

definition check_write :: "('x, 'z) platform_scheme \<Rightarrow> press_write \<Rightarrow> ('x, unit) act" where
  "check_write p x = checkRateLimits p (wr_operation x) (wr_entity x) (wr_type x) (wr_policy x)"

definition clock_in :: "('x, 'z) platform_scheme \<Rightarrow> int \<Rightarrow> bool" where
  "clock_in p ws \<longleftrightarrow> (\<forall>x. windowStart (fst (clock_now p x)) = ws)"

text \<open>A counter: absent before the first write.\<close>

definition counter :: "'x world \<Rightarrow> string \<Rightarrow> nat \<Rightarrow> bool" where
  "counter w k n \<longleftrightarrow> kv_get k (kv w) = (if n = 0 then Null else Num (Fin (int n)))"

lemma counted_counter: "counter w k n \<Longrightarrow> counted p w k = Fin (int n)"
  by (auto simp: counter_def counted_def)

lemma counter_increment:
  assumes "counter w k n" "kv w' = snd (kv_increment p k' 1 (kv w))"
  shows "counter w' k (n + (if k = k' then 1 else 0))"
proof (cases "n = 0")
  case True
  with assms show ?thesis
    by (auto simp: counter_def kvs.get_set_if kv_increment_count(2)) (simp add: kv_increment_def Let_def kvs.get_set_if)
next
  case False
  with assms show ?thesis
    by (auto simp: counter_def kvs.get_set_if kv_increment_count(1)) (simp add: kv_increment_def Let_def kvs.get_set_if)
qed

lemma record_write_counts:
  assumes run: "record_write p doc x w = (r, w')" and "clock_in p ws" and "counter w k n"
  shows "counter w' k (n + (if k = entity_key ws x then 1 else 0) + (if k = policy_key ws x then 1 else 0))"
proof -
  let ?k1 = "entity_key ws x" and ?k2 = "policy_key ws x"
  let ?s1 = "snd (kv_increment p ?k1 1 (kv w))"
  have now: "windowStart (now_of p w) = ws"
    using assms(2) by (simp add: clock_in_def)
  have "kv w' = snd (kv_increment p ?k2 1 ?s1)"
    using run keepsD [OF keeps_alert [of p]]
    by (auto simp: record_write_def recordWrite_def bindA_def act_simps nowA_run now Let_def entity_key_def
        policy_key_def split: if_splits)
  moreover have "counter (w\<lparr>kv := ?s1\<rparr>) k (n + (if k = ?k1 then 1 else 0))"
    using assms(3) by (rule counter_increment) simp
  ultimately show ?thesis
    using counter_increment [of "w\<lparr>kv := ?s1\<rparr>" k _ w' p ?k2] by simp
qed

lemma record_writes_count:
  assumes "clock_in p ws" "k = entity_key ws y \<or> k = policy_key ws y"
  shows "forA (record_write p doc) xs w = (r, w') \<Longrightarrow> r = Inr () \<Longrightarrow> counter w k n \<Longrightarrow>
     counter w' k (n + length (filter (\<lambda>x. entity_key ws x = k) xs) + length (filter (\<lambda>x. policy_key ws x = k) xs))"
proof (induction xs arbitrary: w n)
  case (Cons x xs)
  then obtain w1 where "record_write p doc x w = (Inr (), w1)" "forA (record_write p doc) xs w1 = (r, w')"
    by (auto simp: bindA_Inr)
  with Cons.IH [OF this(2) Cons.prems(2) record_write_counts [OF this(1) assms(1) Cons.prems(3)]] show ?case
    by (auto simp: algebra_simps split: if_splits)
qed (simp add: retA_run)

lemma window_keys_disjoint [simp]: "entity_key ws x \<noteq> policy_key ws y" "policy_key ws y \<noteq> entity_key ws x"
  by (simp_all add: entity_key_def policy_key_def)

text \<open>
  C32. Inside one window, the limits mean what they say: after any sequence of recorded writes,
  a write is refused with P-18 exactly when as many writes as its operation allows were
  recorded for its entity, with P-19 exactly when that is not so but the policy's total is
  used up, and otherwise it passes.
\<close>

theorem limits_count_recorded_writes:
  assumes clock: "clock_in p ws"
    and run: "forA (record_write p doc) xs w = (Inr (), w')"
    and fresh: "counter w (entity_key ws y) 0" "counter w (policy_key ws y) 0"
    and n: "n = int (length (filter (\<lambda>x. entity_key ws x = entity_key ws y) xs))"
    and m: "m = int (length (filter (\<lambda>x. policy_key ws x = policy_key ws y) xs))"
  shows "((\<exists>msg. fst (check_write p y w') = Inl (press_error ''P-18'' msg)) \<longleftrightarrow> rate_limit (wr_operation y) \<le> n) \<and>
     ((\<exists>msg. fst (check_write p y w') = Inl (press_error ''P-19'' msg)) \<longleftrightarrow>
       n < rate_limit (wr_operation y) \<and> policy_limit \<le> m) \<and>
     (fst (check_write p y w') = Inr () \<longleftrightarrow> n < rate_limit (wr_operation y) \<and> m < policy_limit)"
proof -
  have "counter w' (entity_key ws y) (nat n)" "counter w' (policy_key ws y) (nat m)"
    using record_writes_count [OF clock _ run, of "entity_key ws y" y 0] fresh
      record_writes_count [OF clock _ run, of "policy_key ws y" y 0] n m by simp_all
  then have "counted p w' (entity_key ws y) = Fin n" "counted p w' (policy_key ws y) = Fin m"
    using n m by (auto dest: counted_counter)
  moreover have "windowStart (now_of p w') = ws"
    using clock by (simp add: clock_in_def)
  ultimately have run: "fst (check_write p y w') =
      (if rate_limit (wr_operation y) \<le> n then fst (check_write p y w')
       else if policy_limit \<le> m then fst (check_write p y w') else Inr ())"
      "rate_limit (wr_operation y) \<le> n \<Longrightarrow> \<exists>msg. fst (check_write p y w') = Inl (press_error ''P-18'' msg)"
      "\<not> rate_limit (wr_operation y) \<le> n \<Longrightarrow> policy_limit \<le> m \<Longrightarrow>
         \<exists>msg. fst (check_write p y w') = Inl (press_error ''P-19'' msg)"
    by (auto simp: check_write_def checkRateLimits_run Let_def entity_key_def policy_key_def)
  then show ?thesis
    by (cases "rate_limit (wr_operation y) \<le> n"; cases "policy_limit \<le> m"; force)
qed

definition ex_press_write :: press_write where
  "ex_press_write = \<lparr>wr_operation = ''update_card_head'', wr_entity = ''05'', wr_type = ''holder'', wr_policy = ''pol''\<rparr>"

theorem limits_count_recorded_writes_witness:
  "\<exists>w' msg. forA (record_write ex_platform ex_policy) (replicate 20 ex_press_write) (ex_world 1 Map.empty) = (Inr (), w') \<and>
     fst (check_write ex_platform ex_press_write w') = Inl (press_error ''P-18'' msg)"
proof -
  have "returns (record_write ex_platform ex_policy x)" for x
    unfolding record_write_def by (rule returns_recordWrite [where u = Undef]) (simp add: ex_policy_def lookup_key_def)
  then have "returns (forA (record_write ex_platform ex_policy) xs)" for xs
    by (induction xs) (auto intro: returns_intros)
  then obtain w' where run: "forA (record_write ex_platform ex_policy) (replicate 20 ex_press_write) (ex_world 1 Map.empty) = (Inr (), w')"
    by (metis (full_types) returns_def old.unit.exhaust)
  have "clock_in ex_platform 0" by (simp add: clock_in_def windowStart_def WINDOW_MS_def)
  moreover have "counter (ex_world 1 Map.empty) k 0" for k by (simp add: counter_def kv_get_def)
  moreover have "20 = int (length (filter (\<lambda>x. K x = K ex_press_write) (replicate 20 ex_press_write)))" for K :: "press_write \<Rightarrow> string"
    by simp
  ultimately have "(\<exists>msg. fst (check_write ex_platform ex_press_write w') = Inl (press_error ''P-18'' msg)) \<longleftrightarrow>
      rate_limit (wr_operation ex_press_write) \<le> 20"
    using limits_count_recorded_writes [OF _ run, of 0 ex_press_write 20 20] by blast
  moreover have "rate_limit (wr_operation ex_press_write) = 20"
    by (simp add: ex_press_write_def rate_limit_def RATE_LIMITS_def)
  ultimately show ?thesis using run by auto
qed

end
