(* ===== verification/Wallet_Db.thy ===== *)
theory Wallet_Db
  imports Programs Js_Runtime
begin

text \<open>
  The database of the wallet service (\<open>wallet-service/server/db\<close>): one record per row type,
  one list per table, and one function per SQL statement of the repositories. A statement
  gets the transaction time \<open>now()\<close> (microseconds) and is atomic; a violated constraint is
  an error that carries its SQLSTATE and changes nothing. Rows are listed in the order of
  insertion; where a statement asks for no order the model answers in that order. Times the
  JavaScript side sees are \<open>Date\<close> values, that is, milliseconds.
\<close>

section \<open>Rows\<close>

record account_row =
  ha_id :: string
  ha_card_hash :: string
  ha_master_pubkey :: string
  ha_keyring_id :: string
  ha_service_secret_enc :: string
  ha_service_secret_dek_enc :: string
  ha_webauthn_credential_id :: "string option"
  ha_webauthn_public_key :: "string option"
  ha_webauthn_sign_count :: int
  ha_created_at :: int

datatype challenge_purpose = Account_Creation | Passkey_Login | Keyring_Rotation

record challenge_row =
  ac_purpose :: challenge_purpose
  ac_card_hash :: "string option"
  ac_challenge :: string
  ac_expires_at :: int
  ac_consumed :: bool

datatype backup_type = Synced_Passkey | Yubikey

record backup_row =
  br_id :: string
  br_holder_id :: string
  br_type :: backup_type
  br_wrapped_blob :: string
  br_keyring_id :: string
  br_notification_channels :: js
  br_cancellation_pubkey :: string
  br_created_at :: int

datatype recovery_status = Pending | Cancelled | Released

record recovery_row =
  rw_id :: string
  rw_backup_reg_id :: string
  rw_initiated_at :: int
  rw_expires_at :: int
  rw_status :: recovery_status
  rw_cancelled_at :: "int option"
  rw_released_at :: "int option"

datatype notification_channel = Email | Sms | Webhook | Secondary_Email | Secondary_Sms

datatype job_status = Job_Pending | Job_Sent | Job_Failed

record job_row =
  nj_id :: string
  nj_recovery_id :: string
  nj_channel :: notification_channel
  nj_payload :: js
  nj_status :: job_status
  nj_attempts :: int
  nj_next_attempt_at :: int
  nj_sent_at :: "int option"
  nj_created_at :: int

datatype binding_type = Card_Registration | Card_Migration

record routing_row =
  rt_card_hash :: string
  rt_wallet_service_id :: string
  rt_endpoint :: string
  rt_type :: binding_type
  rt_announced_at :: int
  rt_nonce :: string
  rt_signatures :: js

record keyring_row =
  kb_keyring_id :: string
  kb_card_hash :: string
  kb_encrypted_blob :: string
  kb_received_at :: int

record message_row =
  mq_id :: string
  mq_card_hash :: string
  mq_subcard_hash :: "string option"
  mq_payload :: string
  mq_received_at :: int
  mq_cleared :: bool
  mq_cleared_at :: "int option"
  mq_delivery_uuid :: "string option"

record uuid_row =
  up_uuid :: string
  up_card_hash :: string
  up_subcard_hash :: string
  up_consumed :: bool
  up_registered_at :: int
  up_expires_at :: int

datatype subcard_action = Register | Deregister

record action_nonce_row =
  an_subcard_hash :: string
  an_action :: subcard_action
  an_nonce :: string
  an_seen_at :: int

record room_row =
  mr_room_id :: string
  mr_policy_id :: string
  mr_created_at :: int

record credential_row =
  mc_credential_name :: string
  mc_ciphertext :: string
  mc_dek_enc :: string
  mc_key_file_path :: string
  mc_description :: string
  mc_created_at :: int
  mc_rotated_at :: "int option"

record kv_row =
  ks_key :: string
  ks_value :: js
  ks_expires_at :: "int option"

record database =
  holder_accounts :: "account_row list"
  auth_challenges :: "challenge_row list"
  backup_registrations :: "backup_row list"
  recovery_windows :: "recovery_row list"
  notification_jobs :: "job_row list"
  routing_table :: "routing_row list"
  routing_nonces :: "(string \<times> int) list"
  keyring_blobs :: "keyring_row list"
  message_queue :: "message_row list"
  uuid_pools :: "uuid_row list"
  subcard_action_nonces :: "action_nonce_row list"
  matrix_room_index :: "room_row list"
  matrix_credentials :: "credential_row list"
  kv_store :: "kv_row list"

section \<open>Statements\<close>

text \<open>The parts SQL is made of: the first row that matches, \<open>UPDATE\<close>, and constraint errors.\<close>

definition update_where :: "('r \<Rightarrow> bool) \<Rightarrow> ('r \<Rightarrow> 'r) \<Rightarrow> 'r list \<Rightarrow> 'r list" where
  "update_where P f rows = map (\<lambda>r. if P r then f r else r) rows"

definition unique_violation :: exn where
  "unique_violation = DbError ''23505'' ''duplicate key value violates unique constraint''"

definition foreign_key_violation :: exn where
  "foreign_key_violation = DbError ''23503'' ''insert or update violates foreign key constraint''"

definition check_violation :: exn where
  "check_violation = DbError ''23514'' ''new row violates check constraint''"

text \<open>Microseconds, and the \<open>Date\<close> the driver makes of a timestamp.\<close>

definition seconds :: "int \<Rightarrow> int" where
  "seconds n = n * 1000000"

definition hours :: "int \<Rightarrow> int" where
  "hours n = seconds (n * 3600)"

definition get_time :: "int \<Rightarrow> int" where
  "get_time t = t div 1000"

type_synonym 'a stmt = "int \<Rightarrow> database \<Rightarrow> 'a res \<times> database"

subsection \<open>\<open>accounts.ts\<close>\<close>

record create_account_input =
  ca_cardHash :: string
  ca_masterPubkey :: string
  ca_keyringId :: string
  ca_serviceSecretEnc :: string
  ca_serviceSecretDekEnc :: string
  ca_webauthnCredentialId :: string
  ca_webauthnPublicKey :: string

definition findAccountByCardHash :: "string \<Rightarrow> account_row option stmt" where
  "findAccountByCardHash cardHash now d = (Inr (find (\<lambda>r. ha_card_hash r = cardHash) (holder_accounts d)), d)"

definition createAccount :: "string \<Rightarrow> create_account_input \<Rightarrow> account_row stmt" where
  "createAccount rid inp now d =
     (if list_ex (\<lambda>r. ha_id r = rid \<or> ha_card_hash r = ca_cardHash inp \<or>
           ha_webauthn_credential_id r = Some (ca_webauthnCredentialId inp)) (holder_accounts d)
      then (Inl unique_violation, d)
      else let row = \<lparr>ha_id = rid, ha_card_hash = ca_cardHash inp, ha_master_pubkey = ca_masterPubkey inp,
             ha_keyring_id = ca_keyringId inp, ha_service_secret_enc = ca_serviceSecretEnc inp,
             ha_service_secret_dek_enc = ca_serviceSecretDekEnc inp,
             ha_webauthn_credential_id = Some (ca_webauthnCredentialId inp),
             ha_webauthn_public_key = Some (ca_webauthnPublicKey inp), ha_webauthn_sign_count = 0,
             ha_created_at = now\<rparr>
        in (Inr row, d\<lparr>holder_accounts := holder_accounts d @ [row]\<rparr>))"

definition updateWebAuthnSignCount :: "string \<Rightarrow> int \<Rightarrow> unit stmt" where
  "updateWebAuthnSignCount cardHash newCounter now d =
     (Inr (), d\<lparr>holder_accounts := update_where (\<lambda>r. ha_card_hash r = cardHash)
        (\<lambda>r. r\<lparr>ha_webauthn_sign_count := newCounter\<rparr>) (holder_accounts d)\<rparr>)"

definition updateServiceSecretAndKeyring :: "string \<Rightarrow> string \<Rightarrow> string \<Rightarrow> string \<Rightarrow> unit stmt" where
  "updateServiceSecretAndKeyring cardHash keyringId serviceSecretEnc serviceSecretDekEnc now d =
     (Inr (), d\<lparr>holder_accounts := update_where (\<lambda>r. ha_card_hash r = cardHash)
        (\<lambda>r. r\<lparr>ha_keyring_id := keyringId, ha_service_secret_enc := serviceSecretEnc,
             ha_service_secret_dek_enc := serviceSecretDekEnc\<rparr>) (holder_accounts d)\<rparr>)"

definition updateKeyringOnly :: "string \<Rightarrow> string \<Rightarrow> unit stmt" where
  "updateKeyringOnly cardHash keyringId now d =
     (Inr (), d\<lparr>holder_accounts := update_where (\<lambda>r. ha_card_hash r = cardHash)
        (\<lambda>r. r\<lparr>ha_keyring_id := keyringId\<rparr>) (holder_accounts d)\<rparr>)"

subsection \<open>\<open>challenges.ts\<close>\<close>

definition insert_challenge :: "challenge_purpose \<Rightarrow> string option \<Rightarrow> string \<Rightarrow> int \<Rightarrow> unit stmt" where
  "insert_challenge purpose cardHash ch expiresAt now d =
     (Inr (), d\<lparr>auth_challenges := auth_challenges d @
        [\<lparr>ac_purpose = purpose, ac_card_hash = cardHash, ac_challenge = ch, ac_expires_at = expiresAt,
          ac_consumed = False\<rparr>]\<rparr>)"

definition open_challenge :: "challenge_purpose \<Rightarrow> string option \<Rightarrow> string \<Rightarrow> int \<Rightarrow> challenge_row \<Rightarrow> bool" where
  "open_challenge purpose cardHash ch now r \<longleftrightarrow>
     ac_purpose r = purpose \<and> ac_challenge r = ch \<and> \<not> ac_consumed r \<and> now < ac_expires_at r \<and>
     ac_card_hash r = cardHash"

definition consume_challenges :: "challenge_purpose \<Rightarrow> string option \<Rightarrow> string \<Rightarrow> bool stmt" where
  "consume_challenges purpose cardHash ch now d =
     (Inr (list_ex (open_challenge purpose cardHash ch now) (auth_challenges d)),
      d\<lparr>auth_challenges := update_where (open_challenge purpose cardHash ch now)
           (\<lambda>r. r\<lparr>ac_consumed := True\<rparr>) (auth_challenges d)\<rparr>)"

subsection \<open>\<open>backups.ts\<close>\<close>

definition createBackupRegistration ::
    "(js \<Rightarrow> js) \<Rightarrow> string \<Rightarrow> string \<Rightarrow> backup_type \<Rightarrow> string \<Rightarrow> string \<Rightarrow> js \<Rightarrow> string \<Rightarrow> backup_row stmt" where
  "createBackupRegistration jsonb rid holderId ty wrappedBlob keyringId channels pubkey now d =
     (if list_ex (\<lambda>r. br_id r = rid) (backup_registrations d) then (Inl unique_violation, d)
      else if \<not> list_ex (\<lambda>r. ha_id r = holderId) (holder_accounts d) then (Inl foreign_key_violation, d)
      else let row = \<lparr>br_id = rid, br_holder_id = holderId, br_type = ty, br_wrapped_blob = wrappedBlob,
             br_keyring_id = keyringId, br_notification_channels = jsonb channels,
             br_cancellation_pubkey = pubkey, br_created_at = now\<rparr>
        in (Inr row, d\<lparr>backup_registrations := backup_registrations d @ [row]\<rparr>))"

definition findBackupRegistrationById :: "string \<Rightarrow> backup_row option stmt" where
  "findBackupRegistrationById rid now d = (Inr (find (\<lambda>r. br_id r = rid) (backup_registrations d)), d)"

subsection \<open>\<open>recovery.ts\<close>\<close>

definition RECOVERY_WINDOW_HOURS :: int where
  "RECOVERY_WINDOW_HOURS = 72"

definition findActiveRecoveryWindow :: "string \<Rightarrow> recovery_row option stmt" where
  "findActiveRecoveryWindow backupRegId now d =
     (Inr (find (\<lambda>r. rw_backup_reg_id r = backupRegId \<and> rw_status r = Pending) (recovery_windows d)), d)"

definition createRecoveryWindow :: "string \<Rightarrow> string \<Rightarrow> recovery_row stmt" where
  "createRecoveryWindow rid backupRegId now d =
     (if list_ex (\<lambda>r. rw_id r = rid) (recovery_windows d) then (Inl unique_violation, d)
      else if \<not> list_ex (\<lambda>r. br_id r = backupRegId) (backup_registrations d) then (Inl foreign_key_violation, d)
      else let row = \<lparr>rw_id = rid, rw_backup_reg_id = backupRegId, rw_initiated_at = now,
             rw_expires_at = now + hours RECOVERY_WINDOW_HOURS, rw_status = Pending,
             rw_cancelled_at = None, rw_released_at = None\<rparr>
        in (Inr row, d\<lparr>recovery_windows := recovery_windows d @ [row]\<rparr>))"

definition findRecoveryWindowById :: "string \<Rightarrow> recovery_row option stmt" where
  "findRecoveryWindowById rid now d = (Inr (find (\<lambda>r. rw_id r = rid) (recovery_windows d)), d)"

text \<open>Both transitions are one conditional \<open>UPDATE \<dots> RETURNING *\<close>.\<close>

definition move_window ::
    "(int \<Rightarrow> recovery_row \<Rightarrow> bool) \<Rightarrow> (int \<Rightarrow> recovery_row \<Rightarrow> recovery_row) \<Rightarrow> string \<Rightarrow> recovery_row option stmt" where
  "move_window P f rid now d =
     (let hit = (\<lambda>r. rw_id r = rid \<and> P now r) in
       (Inr (map_option (f now) (find hit (recovery_windows d))),
        d\<lparr>recovery_windows := update_where hit (f now) (recovery_windows d)\<rparr>))"

definition cancellable :: "int \<Rightarrow> recovery_row \<Rightarrow> bool" where
  "cancellable now r \<longleftrightarrow> rw_status r = Pending \<and> now < rw_expires_at r"

definition cancelRecoveryWindow :: "string \<Rightarrow> recovery_row option stmt" where
  "cancelRecoveryWindow = move_window cancellable (\<lambda>now r. r\<lparr>rw_status := Cancelled, rw_cancelled_at := Some now\<rparr>)"

definition releasable :: "int \<Rightarrow> recovery_row \<Rightarrow> bool" where
  "releasable now r \<longleftrightarrow> rw_status r = Pending \<and> rw_expires_at r < now"

definition releaseRecoveryWindow :: "string \<Rightarrow> recovery_row option stmt" where
  "releaseRecoveryWindow = move_window releasable (\<lambda>now r. r\<lparr>rw_status := Released, rw_released_at := Some now\<rparr>)"

definition listPendingRecoveryWindows :: "recovery_row list stmt" where
  "listPendingRecoveryWindows now d =
     (Inr (sort_key rw_expires_at (filter (\<lambda>r. rw_status r = Pending) (recovery_windows d))), d)"

subsection \<open>\<open>notification-jobs.ts\<close>\<close>

definition enqueueNotificationJob ::
    "(js \<Rightarrow> js) \<Rightarrow> string \<Rightarrow> string \<Rightarrow> notification_channel \<Rightarrow> js \<Rightarrow> job_row stmt" where
  "enqueueNotificationJob jsonb rid recoveryId channel payload now d =
     (if list_ex (\<lambda>r. nj_id r = rid) (notification_jobs d) then (Inl unique_violation, d)
      else if \<not> list_ex (\<lambda>r. rw_id r = recoveryId) (recovery_windows d) then (Inl foreign_key_violation, d)
      else let row = \<lparr>nj_id = rid, nj_recovery_id = recoveryId, nj_channel = channel, nj_payload = jsonb payload,
             nj_status = Job_Pending, nj_attempts = 0, nj_next_attempt_at = now, nj_sent_at = None,
             nj_created_at = now\<rparr>
        in (Inr row, d\<lparr>notification_jobs := notification_jobs d @ [row]\<rparr>))"

definition findJobsForRecovery :: "string \<Rightarrow> job_row list stmt" where
  "findJobsForRecovery recoveryId now d =
     (Inr (sort_key nj_created_at (filter (\<lambda>r. nj_recovery_id r = recoveryId) (notification_jobs d))), d)"

definition findDueJobs :: "nat \<Rightarrow> job_row list stmt" where
  "findDueJobs limit now d =
     (Inr (take limit (sort_key nj_next_attempt_at
        (filter (\<lambda>r. nj_status r = Job_Pending \<and> nj_next_attempt_at r \<le> now) (notification_jobs d)))), d)"

definition markJobSent :: "string \<Rightarrow> unit stmt" where
  "markJobSent rid now d =
     (Inr (), d\<lparr>notification_jobs := update_where (\<lambda>r. nj_id r = rid)
        (\<lambda>r. r\<lparr>nj_status := Job_Sent, nj_sent_at := Some now, nj_attempts := nj_attempts r + 1\<rparr>)
        (notification_jobs d)\<rparr>)"

definition MAX_ATTEMPTS :: int where
  "MAX_ATTEMPTS = 5"

definition BASE_BACKOFF_SECONDS :: int where
  "BASE_BACKOFF_SECONDS = 30"

definition markJobFailed :: "string \<Rightarrow> int \<Rightarrow> unit stmt" where
  "markJobFailed rid attempts now d =
     (let nextAttempts = attempts + 1 in
      (Inr (), d\<lparr>notification_jobs := update_where (\<lambda>r. nj_id r = rid)
        (if nextAttempts \<ge> MAX_ATTEMPTS
         then (\<lambda>r. r\<lparr>nj_status := Job_Failed, nj_attempts := nextAttempts\<rparr>)
         else (\<lambda>r. r\<lparr>nj_attempts := nextAttempts,
                nj_next_attempt_at := now + seconds (BASE_BACKOFF_SECONDS * 2 ^ nat attempts)\<rparr>))
        (notification_jobs d)\<rparr>))"

subsection \<open>\<open>routing.ts\<close>\<close>

definition findRoutingEntry :: "string \<Rightarrow> routing_row option stmt" where
  "findRoutingEntry cardHash now d = (Inr (find (\<lambda>r. rt_card_hash r = cardHash) (routing_table d)), d)"

definition listRoutingTable :: "routing_row list stmt" where
  "listRoutingTable now d = (Inr (sort_key rt_card_hash (routing_table d)), d)"

definition upsertRoutingEntry :: "routing_row \<Rightarrow> unit stmt" where
  "upsertRoutingEntry row now d =
     (if list_ex (\<lambda>r. rt_card_hash r \<noteq> rt_card_hash row \<and> rt_nonce r = rt_nonce row) (routing_table d)
      then (Inl unique_violation, d)
      else (Inr (), d\<lparr>routing_table :=
        (if list_ex (\<lambda>r. rt_card_hash r = rt_card_hash row) (routing_table d)
         then update_where (\<lambda>r. rt_card_hash r = rt_card_hash row) (\<lambda>r. row) (routing_table d)
         else routing_table d @ [row])\<rparr>))"

definition recordNonceIfNew :: "string \<Rightarrow> bool stmt" where
  "recordNonceIfNew nonce now d =
     (if nonce \<in> fst ` set (routing_nonces d) then (Inr False, d)
      else (Inr True, d\<lparr>routing_nonces := routing_nonces d @ [(nonce, now)]\<rparr>))"

definition NONCE_RETENTION_HOURS :: int where
  "NONCE_RETENTION_HOURS = 24"

definition pruneOldNonces :: "nat stmt" where
  "pruneOldNonces now d =
     (let keep = (\<lambda>(nonce, seen). \<not> seen < now - hours NONCE_RETENTION_HOURS) in
       (Inr (length (filter (\<lambda>r. \<not> keep r) (routing_nonces d))),
        d\<lparr>routing_nonces := filter keep (routing_nonces d)\<rparr>))"

subsection \<open>\<open>keyrings.ts\<close>\<close>

definition insertKeyringBlob :: "string \<Rightarrow> string \<Rightarrow> string \<Rightarrow> unit stmt" where
  "insertKeyringBlob keyringId cardHash encryptedBlob now d =
     (Inr (), if list_ex (\<lambda>r. kb_keyring_id r = keyringId) (keyring_blobs d) then d
      else d\<lparr>keyring_blobs := keyring_blobs d @ [\<lparr>kb_keyring_id = keyringId, kb_card_hash = cardHash,
             kb_encrypted_blob = encryptedBlob, kb_received_at = now\<rparr>]\<rparr>)"

definition findKeyringBlob :: "string \<Rightarrow> keyring_row option stmt" where
  "findKeyringBlob keyringId now d = (Inr (find (\<lambda>r. kb_keyring_id r = keyringId) (keyring_blobs d)), d)"

definition deleteKeyringBlob :: "string \<Rightarrow> unit stmt" where
  "deleteKeyringBlob keyringId now d =
     (Inr (), d\<lparr>keyring_blobs := filter (\<lambda>r. kb_keyring_id r \<noteq> keyringId) (keyring_blobs d)\<rparr>)"

subsection \<open>\<open>messages.ts\<close>\<close>

definition enqueueMessage :: "string \<Rightarrow> string \<Rightarrow> string \<Rightarrow> string \<Rightarrow> message_row stmt" where
  "enqueueMessage rid cardHash subcardHash payload now d =
     (if list_ex (\<lambda>r. mq_id r = rid) (message_queue d) then (Inl unique_violation, d)
      else let row = \<lparr>mq_id = rid, mq_card_hash = cardHash, mq_subcard_hash = Some subcardHash, mq_payload = payload,
             mq_received_at = now, mq_cleared = False, mq_cleared_at = None, mq_delivery_uuid = None\<rparr>
        in (Inr row, d\<lparr>message_queue := message_queue d @ [row]\<rparr>))"

definition findUnclearedMessagesForSubcard :: "string \<Rightarrow> string \<Rightarrow> message_row list stmt" where
  "findUnclearedMessagesForSubcard cardHash subcardHash now d =
     (Inr (sort_key mq_received_at (filter (\<lambda>r. mq_card_hash r = cardHash \<and> mq_subcard_hash r = Some subcardHash \<and>
        \<not> mq_cleared r) (message_queue d))), d)"

definition setDeliveryUuid :: "string \<Rightarrow> string \<Rightarrow> unit stmt" where
  "setDeliveryUuid messageId uuid now d =
     (Inr (), d\<lparr>message_queue := update_where (\<lambda>r. mq_id r = messageId)
        (\<lambda>r. r\<lparr>mq_delivery_uuid := Some uuid\<rparr>) (message_queue d)\<rparr>)"

definition clearMessageByDeliveryUuid :: "string \<Rightarrow> bool stmt" where
  "clearMessageByDeliveryUuid uuid now d =
     (let hit = (\<lambda>r. mq_delivery_uuid r = Some uuid \<and> \<not> mq_cleared r) in
       (Inr (list_ex hit (message_queue d)),
        d\<lparr>message_queue := update_where hit (\<lambda>r. r\<lparr>mq_cleared := True, mq_cleared_at := Some now\<rparr>) (message_queue d)\<rparr>))"

definition countHeldMessagesPerCard :: "(string \<times> nat) list stmt" where
  "countHeldMessagesPerCard now d =
     (let held = filter (\<lambda>r. \<not> mq_cleared r) (message_queue d) in
       (Inr (map (\<lambda>c. (c, length (filter (\<lambda>r. mq_card_hash r = c) held)))
          (sort (remdups (map mq_card_hash held)))), d))"

subsection \<open>\<open>uuid-pools.ts\<close>\<close>

text \<open>\<open>UPDATE \<dots> WHERE uuid = (SELECT \<dots> ORDER BY registered_at LIMIT 1 FOR UPDATE SKIP LOCKED)\<close>.\<close>

definition claimable :: "string \<Rightarrow> string \<Rightarrow> int \<Rightarrow> uuid_row \<Rightarrow> bool" where
  "claimable cardHash subcardHash now r \<longleftrightarrow>
     up_card_hash r = cardHash \<and> up_subcard_hash r = subcardHash \<and> \<not> up_consumed r \<and> now < up_expires_at r"

definition claimNextUuid :: "string \<Rightarrow> string \<Rightarrow> string option stmt" where
  "claimNextUuid cardHash subcardHash now d =
     (case sort_key up_registered_at (filter (claimable cardHash subcardHash now) (uuid_pools d)) of
        [] \<Rightarrow> (Inr None, d)
      | r # rs \<Rightarrow> (Inr (Some (up_uuid r)),
          d\<lparr>uuid_pools := update_where (\<lambda>x. up_uuid x = up_uuid r) (\<lambda>x. x\<lparr>up_consumed := True\<rparr>) (uuid_pools d)\<rparr>))"

definition UUID_EXPIRY_DAYS :: int where
  "UUID_EXPIRY_DAYS = 30"

definition insert_uuid :: "string \<Rightarrow> string \<Rightarrow> int \<Rightarrow> string \<Rightarrow> uuid_row list \<Rightarrow> uuid_row list" where
  "insert_uuid cardHash subcardHash now u rows =
     (if list_ex (\<lambda>r. up_uuid r = u) rows then rows
      else rows @ [\<lparr>up_uuid = u, up_card_hash = cardHash, up_subcard_hash = subcardHash, up_consumed = False,
             up_registered_at = now, up_expires_at = now + hours (24 * UUID_EXPIRY_DAYS)\<rparr>])"

definition registerUuids :: "string \<Rightarrow> string \<Rightarrow> string list \<Rightarrow> unit stmt" where
  "registerUuids cardHash subcardHash uuids now d =
     (Inr (), d\<lparr>uuid_pools := fold (insert_uuid cardHash subcardHash now) uuids (uuid_pools d)\<rparr>)"

definition subcardHasAnyHistory :: "string \<Rightarrow> string \<Rightarrow> bool stmt" where
  "subcardHasAnyHistory cardHash subcardHash now d =
     (Inr (list_ex (\<lambda>r. up_card_hash r = cardHash \<and> up_subcard_hash r = subcardHash) (uuid_pools d)), d)"

definition consumeAllForSubcard :: "string \<Rightarrow> string \<Rightarrow> nat stmt" where
  "consumeAllForSubcard cardHash subcardHash now d =
     (let hit = (\<lambda>r. up_card_hash r = cardHash \<and> up_subcard_hash r = subcardHash \<and> \<not> up_consumed r) in
       (Inr (length (filter hit (uuid_pools d))),
        d\<lparr>uuid_pools := update_where hit (\<lambda>r. r\<lparr>up_consumed := True\<rparr>) (uuid_pools d)\<rparr>))"

definition pruneExpiredConsumedUuids :: "nat stmt" where
  "pruneExpiredConsumedUuids now d =
     (let gone = (\<lambda>r. up_expires_at r < now \<and> up_consumed r) in
       (Inr (length (filter gone (uuid_pools d))),
        d\<lparr>uuid_pools := filter (\<lambda>r. \<not> gone r) (uuid_pools d)\<rparr>))"

definition listUuidPoolSizes :: "(string \<times> string \<times> nat) list stmt" where
  "listUuidPoolSizes now d =
     (let live = filter (\<lambda>r. \<not> up_consumed r \<and> now < up_expires_at r) (uuid_pools d);
          subcard = (\<lambda>r. (up_card_hash r, up_subcard_hash r)) in
       (Inr (map (\<lambda>(c, s). (c, s, length (filter (\<lambda>r. subcard r = (c, s)) live)))
          (sort_key fst (sort_key snd (remdups (map subcard live))))), d))"

subsection \<open>\<open>subcard-action-nonces.ts\<close>\<close>

definition recordSubcardActionNonceIfNew :: "string \<Rightarrow> subcard_action \<Rightarrow> string \<Rightarrow> bool stmt" where
  "recordSubcardActionNonceIfNew subcardHash action nonce now d =
     (if list_ex (\<lambda>r. an_subcard_hash r = subcardHash \<and> an_action r = action \<and> an_nonce r = nonce)
           (subcard_action_nonces d)
      then (Inr False, d)
      else (Inr True, d\<lparr>subcard_action_nonces := subcard_action_nonces d @
             [\<lparr>an_subcard_hash = subcardHash, an_action = action, an_nonce = nonce, an_seen_at = now\<rparr>]\<rparr>))"

definition ACTION_NONCE_RETENTION_HOURS :: int where
  "ACTION_NONCE_RETENTION_HOURS = 1"

definition pruneOldSubcardActionNonces :: "nat stmt" where
  "pruneOldSubcardActionNonces now d =
     (let old = (\<lambda>r. an_seen_at r < now - hours ACTION_NONCE_RETENTION_HOURS) in
       (Inr (length (filter old (subcard_action_nonces d))),
        d\<lparr>subcard_action_nonces := filter (\<lambda>r. \<not> old r) (subcard_action_nonces d)\<rparr>))"

subsection \<open>\<open>matrix-rooms.ts\<close> and \<open>matrix-credentials.ts\<close>\<close>

definition insertRoomIndexEntry :: "string \<Rightarrow> string \<Rightarrow> int \<Rightarrow> unit stmt" where
  "insertRoomIndexEntry roomId policyId createdAt now d =
     (Inr (), if list_ex (\<lambda>r. mr_room_id r = roomId) (matrix_room_index d) then d
      else d\<lparr>matrix_room_index := matrix_room_index d @
             [\<lparr>mr_room_id = roomId, mr_policy_id = policyId, mr_created_at = createdAt\<rparr>]\<rparr>)"

definition listRoomIndex :: "room_row list stmt" where
  "listRoomIndex now d = (Inr (sort_key mr_created_at (matrix_room_index d)), d)"

definition upsert_credential :: "string \<Rightarrow> string \<Rightarrow> string \<Rightarrow> string \<Rightarrow> string \<Rightarrow> unit stmt" where
  "upsert_credential name ciphertext dekEnc path description now d =
     (Inr (), d\<lparr>matrix_credentials :=
        (if list_ex (\<lambda>r. mc_credential_name r = name) (matrix_credentials d)
         then update_where (\<lambda>r. mc_credential_name r = name)
                (\<lambda>r. r\<lparr>mc_ciphertext := ciphertext, mc_dek_enc := dekEnc, mc_key_file_path := path,
                      mc_description := description, mc_rotated_at := Some now\<rparr>) (matrix_credentials d)
         else matrix_credentials d @ [\<lparr>mc_credential_name = name, mc_ciphertext = ciphertext, mc_dek_enc = dekEnc,
                mc_key_file_path = path, mc_description = description, mc_created_at = now, mc_rotated_at = None\<rparr>])\<rparr>)"

definition list_credentials :: "credential_row list stmt" where
  "list_credentials now d = (Inr (sort_key mc_credential_name (matrix_credentials d)), d)"

definition find_credential :: "string \<Rightarrow> credential_row option stmt" where
  "find_credential name now d = (Inr (find (\<lambda>r. mc_credential_name r = name) (matrix_credentials d)), d)"

subsection \<open>The table behind \<open>kv-postgres.ts\<close>\<close>

definition select_kv :: "string \<Rightarrow> kv_row option stmt" where
  "select_kv k now d = (Inr (find (\<lambda>r. ks_key r = k) (kv_store d)), d)"

definition upsert_kv :: "string \<Rightarrow> js \<Rightarrow> int option \<Rightarrow> unit stmt" where
  "upsert_kv k v expiresAt now d =
     (let row = \<lparr>ks_key = k, ks_value = v, ks_expires_at = expiresAt\<rparr> in
       (Inr (), d\<lparr>kv_store :=
          (if list_ex (\<lambda>r. ks_key r = k) (kv_store d)
           then update_where (\<lambda>r. ks_key r = k) (\<lambda>r. row) (kv_store d) else kv_store d @ [row])\<rparr>))"

definition delete_kv :: "string \<Rightarrow> unit stmt" where
  "delete_kv k now d = (Inr (), d\<lparr>kv_store := filter (\<lambda>r. ks_key r \<noteq> k) (kv_store d)\<rparr>)"

end
