(* ===== verification/Js_Double.thy ===== *)
theory Js_Double
  imports Complex_Main "HOL-Library.Log_Nat"
begin

text \<open>
  Arithmetic on IEEE 754 doubles, for the fractions the services compute: every operation is
  the exact operation on rationals followed by rounding to 53 significant bits, ties to even.
  (Overflow and subnormal numbers are out of reach of the fractions computed here.) The
  lemmas say what the arguments about rate limits need: rounding is monotone, changes no
  integer up to \<open>2 ^ 53\<close>, and keeps the sign.
\<close>

section \<open>Rounding to an integer\<close>

definition round_even :: "rat \<Rightarrow> int" where
  "round_even q = (let f = floor q; d = q - of_int f in
     if d < 1 / 2 then f else if 1 / 2 < d then f + 1 else if even f then f else f + 1)"

lemma round_even_of_int [simp]: "round_even (of_int i) = i"
  by (simp add: round_even_def)

lemma round_even_bounds: "floor q \<le> round_even q" "round_even q \<le> floor q + 1"
  by (auto simp: round_even_def Let_def)

lemma round_even_mono:
  assumes "p \<le> q" shows "round_even p \<le> round_even q"
proof (cases "floor p = floor q")
  case True
  with assms show ?thesis by (auto simp: round_even_def Let_def)
next
  case False
  with floor_mono [OF assms] have "floor p + 1 \<le> floor q" by simp
  with round_even_bounds(2) [of p] round_even_bounds(1) [of q] show ?thesis by linarith
qed

section \<open>The binade of a positive number\<close>

definition two_to :: "int \<Rightarrow> rat" where
  "two_to k = (if 0 \<le> k then 2 ^ nat k else 1 / 2 ^ nat (- k))"

lemma two_to_powi: "two_to k = 2 powi k"
  by (simp add: two_to_def power_int_def divide_simps)

lemma two_to_pos [simp]: "0 < two_to k"
  by (simp add: two_to_powi)

lemma two_to_nonzero [simp]: "two_to k \<noteq> 0"
  by (simp add: two_to_powi)

lemma two_to_add: "two_to (j + k) = two_to j * two_to k"
  by (simp add: two_to_powi power_int_add)

lemma two_to_mono: "j \<le> k \<Longrightarrow> two_to j \<le> two_to k"
  by (simp add: two_to_powi power_int_increasing)

text \<open>The \<open>k\<close> with \<open>2 ^ k \<le> x < 2 ^ (k + 1)\<close>.\<close>

definition binade :: "rat \<Rightarrow> int" where
  "binade x = (let (a, b) = quotient_of x; k = int (floorlog 2 (nat a)) - int (floorlog 2 (nat b)) in
     if two_to k \<le> x then k else k - 1)"

lemma floorlog_two:
  assumes "0 < n" shows "two_to (int (floorlog 2 n) - 1) \<le> of_nat n" "of_nat n < two_to (int (floorlog 2 n))"
proof -
  from floorlog_bounds [of n 2] assms
  have "2 ^ (floorlog 2 n - 1) \<le> n" "n < 2 ^ floorlog 2 n" "0 < floorlog 2 n"
    by (auto simp: floorlog_def)
  then have "of_nat (2 ^ (floorlog 2 n - 1)) \<le> (of_nat n :: rat)" "of_nat n < (of_nat (2 ^ floorlog 2 n) :: rat)"
    by (simp_all only: of_nat_le_iff of_nat_less_iff)
  moreover have "nat (int (floorlog 2 n) - 1) = floorlog 2 n - 1" by simp
  ultimately show "two_to (int (floorlog 2 n) - 1) \<le> of_nat n" "of_nat n < two_to (int (floorlog 2 n))"
    using \<open>0 < floorlog 2 n\<close> by (simp_all add: two_to_def)
qed

lemma binade_bounds:
  assumes "0 < x" shows "two_to (binade x) \<le> x" "x < two_to (binade x + 1)"
proof -
  obtain a b where q: "quotient_of x = (a, b)" by fastforce
  then have x: "x = of_int a / of_int b" and b: "0 < b" by (auto simp: quotient_of_div quotient_of_denom_pos)
  with assms have a: "0 < a" by (simp add: zero_less_divide_iff)
  let ?i = "int (floorlog 2 (nat a))" and ?j = "int (floorlog 2 (nat b))"
  have A: "two_to (?i - 1) \<le> of_int a" "of_int a < two_to ?i"
    using floorlog_two [of "nat a"] a by auto
  have B: "two_to (?j - 1) \<le> of_int b" "of_int b < two_to ?j"
    using floorlog_two [of "nat b"] b by auto
  have hi: "x < two_to (?i - ?j + 1)"
  proof -
    have "of_int a < two_to (?i - ?j + 1) * two_to (?j - 1)"
      using A(2) by (simp flip: two_to_add)
    also have "\<dots> \<le> two_to (?i - ?j + 1) * of_int b"
      using B(1) by (simp add: less_imp_le)
    finally show ?thesis using b by (simp add: x divide_less_eq)
  qed
  have lo: "two_to (?i - ?j - 1) \<le> x"
  proof -
    have "two_to (?i - ?j - 1) * of_int b \<le> two_to (?i - ?j - 1) * two_to ?j"
      using B(2) by (simp add: less_imp_le)
    also have "\<dots> \<le> of_int a" using A(1) by (simp flip: two_to_add)
    finally show ?thesis using b by (simp add: x le_divide_eq)
  qed
  show "two_to (binade x) \<le> x" "x < two_to (binade x + 1)"
    using lo hi by (auto simp: binade_def q Let_def)
qed

lemma binade_unique:
  assumes "two_to k \<le> x" "x < two_to (k + 1)" shows "binade x = k"
proof -
  from assms(1) have "0 < x" by (rule less_le_trans [OF two_to_pos])
  note b = binade_bounds [OF this]
  have "\<not> binade x + 1 \<le> k" using two_to_mono [of "binade x + 1" k] b assms by linarith
  moreover have "\<not> k + 1 \<le> binade x" using two_to_mono [of "k + 1" "binade x"] b assms by linarith
  ultimately show ?thesis by simp
qed

section \<open>Rounding to a double\<close>

definition round_positive :: "rat \<Rightarrow> rat" where
  "round_positive x = (let u = two_to (binade x - 52) in of_int (round_even (x / u)) * u)"

definition round_double :: "rat \<Rightarrow> rat" where
  "round_double x = (if x = 0 then 0 else if x < 0 then - round_positive (- x) else round_positive x)"

lemma round_positive_bounds:
  assumes "0 < x" shows "two_to (binade x) \<le> round_positive x" "round_positive x \<le> two_to (binade x + 1)"
proof -
  let ?u = "two_to (binade x - 52)"
  have lo: "two_to (binade x) = of_int (2 ^ 52) * ?u" and hi: "two_to (binade x + 1) = of_int (2 ^ 53) * ?u"
    using two_to_add [of 52 "binade x - 52"] two_to_add [of 53 "binade x - 52"]
    by (simp_all add: two_to_def [of 52] two_to_def [of 53] add.commute)
  from binade_bounds [OF assms] have "of_int (2 ^ 52) \<le> x / ?u" "x / ?u \<le> of_int (2 ^ 53)"
    unfolding lo hi by (simp_all add: le_divide_eq divide_le_eq less_imp_le)
  then have "2 ^ 52 \<le> round_even (x / ?u)" "round_even (x / ?u) \<le> 2 ^ 53"
    by (metis round_even_mono round_even_of_int)+
  then have "of_int (2 ^ 52) * ?u \<le> of_int (round_even (x / ?u)) * ?u"
    "of_int (round_even (x / ?u)) * ?u \<le> of_int (2 ^ 53) * ?u"
    by (metis of_int_le_iff mult_right_mono two_to_pos less_imp_le)+
  then show "two_to (binade x) \<le> round_positive x" "round_positive x \<le> two_to (binade x + 1)"
    unfolding round_positive_def Let_def lo hi by auto
qed

lemma round_positive_mono:
  assumes "0 < x" "x \<le> y" shows "round_positive x \<le> round_positive y"
proof (cases "binade x = binade y")
  case True
  with assms show ?thesis
    by (auto simp: round_positive_def Let_def less_imp_le intro!: mult_right_mono round_even_mono divide_right_mono)
next
  case False
  have "binade x < binade y + 1"
  proof (rule ccontr)
    assume "\<not> binade x < binade y + 1"
    then have "two_to (binade y + 1) \<le> two_to (binade x)" by (simp add: two_to_mono)
    with binade_bounds(1) [of x] binade_bounds(2) [of y] assms show False by linarith
  qed
  with False have "two_to (binade x + 1) \<le> two_to (binade y)" by (simp add: two_to_mono)
  with round_positive_bounds [of x] round_positive_bounds [of y] assms show ?thesis by linarith
qed

lemma round_positive_pos: "0 < x \<Longrightarrow> 0 < round_positive x"
  using round_positive_bounds(1) [of x] by (simp add: less_le_trans [OF two_to_pos])

lemma round_double_mono:
  assumes "x \<le> y" shows "round_double x \<le> round_double y"
  using assms round_positive_mono [of x y] round_positive_mono [of "- y" "- x"]
    round_positive_pos [of "- x"] round_positive_pos [of y]
  by (auto simp: round_double_def)

lemma round_positive_of_int:
  assumes "0 < i" "i \<le> 2 ^ 53" shows "round_positive (of_int i) = of_int i"
proof (cases "i = 2 ^ 53")
  case True
  have "binade (2 ^ 53) = 53" by (rule binade_unique) (simp_all add: two_to_def)
  moreover have "round_even (2 ^ 53 / 2) = 2 ^ 52" using round_even_of_int [of "2 ^ 52"] by simp
  ultimately show ?thesis using True by (simp add: round_positive_def two_to_def)
next
  case False
  let ?k = "binade (of_int i)"
  have "?k < 53"
  proof (rule ccontr)
    assume "\<not> ?k < 53"
    then have "two_to 53 \<le> two_to ?k" by (simp add: two_to_mono)
    also have "\<dots> \<le> of_int i" using binade_bounds(1) [of "of_int i"] assms by simp
    finally have "(2 :: rat) ^ 53 \<le> of_int i" by (simp add: two_to_def)
    then have "2 ^ 53 \<le> i" by (metis of_int_le_iff of_int_numeral of_int_power)
    with False assms show False by simp
  qed
  then have u: "two_to (?k - 52) * 2 ^ nat (52 - ?k) = 1"
    by (cases "?k = 52") (simp_all add: two_to_def)
  then have "of_int i / two_to (?k - 52) = of_int (i * 2 ^ nat (52 - ?k))"
    by (simp add: divide_eq_eq mult.assoc mult.commute [of "two_to (?k - 52)"])
  then have "round_even (of_int i / two_to (?k - 52)) = i * 2 ^ nat (52 - ?k)"
    by (metis round_even_of_int)
  then have "round_positive (of_int i) = of_int i * (two_to (?k - 52) * 2 ^ nat (52 - ?k))"
    by (simp add: round_positive_def Let_def)
  with u show ?thesis by simp
qed

lemma round_double_of_int: "\<bar>i\<bar> \<le> 2 ^ 53 \<Longrightarrow> round_double (of_int i) = of_int i"
  using round_positive_of_int [of i] round_positive_of_int [of "- i"]
  by (auto simp: round_double_def)

lemma round_double_int_le: "\<bar>i\<bar> \<le> 2 ^ 53 \<Longrightarrow> of_int i \<le> x \<Longrightarrow> of_int i \<le> round_double x"
  using round_double_mono [of "of_int i" x] by (simp add: round_double_of_int)

lemma round_double_le_int: "\<bar>i\<bar> \<le> 2 ^ 53 \<Longrightarrow> x \<le> of_int i \<Longrightarrow> round_double x \<le> of_int i"
  using round_double_mono [of x "of_int i"] by (simp add: round_double_of_int)

end
