(* ===== verification/Wallet_Base.thy ===== *)
theory Wallet_Base
  imports Wallet_Db Js_Double
begin

text \<open>
  The ground the wallet service (\<open>wallet-service\<close>) stands on: its state (the database, the
  key-value namespace of the platform, the cache of unwrapped keys, the gateway's key pair), what it calls but does
  not define, how a statement runs, the two key-value backends of \<open>src/kv-postgres.ts\<close> and
  \<open>server/utils/kv.ts\<close>, and the sliding-window rate limiter of \<open>server/utils/rate-limit.ts\<close>.
  Everything outside (clocks, random numbers, other services) has a state of an arbitrary
  type \<open>'y\<close>.
\<close>

section \<open>State and surroundings\<close>

record wrapped_item =
  wi_value :: js
  wi_expiresAt :: "int option"

record dek_entry =
  de_dek :: bytes
  de_expiresAt :: int

record 'y wallet =
  db :: database
  nitro_kv :: "string \<Rightarrow> wrapped_item option"
  dek_cache :: "string \<Rightarrow> dek_entry option"
  ohttp_keypair :: "(bytes \<times> bytes) res option"
  outer :: 'y

type_synonym ('y, 'a) wact = "('y wallet, 'a) prog"

text \<open>A request to another server, and its response.\<close>

record fetch_request =
  fr_method :: string
  fr_url :: string
  fr_headers :: "(string \<times> string) list"
  fr_body :: js

record fetch_response =
  fe_status :: int
  fe_json :: "js res"

definition res_ok :: "fetch_response \<Rightarrow> bool" where
  "res_ok r \<longleftrightarrow> 200 \<le> fe_status r \<and> fe_status r \<le> 299"

text \<open>
  What the wallet service calls but does not define: the database server (the time of the
  next transaction in microseconds, or the error of a statement that was not executed;
  \<open>gen_random_uuid()\<close>; how the driver writes a value that is not a string as a text
  parameter; the input syntax of type \<open>uuid\<close>, to the canonical form; what reading back an
  array or object stored as \<open>jsonb\<close> gives), the clock \<open>Date.now()\<close>, random bytes, HMAC,
  requests to other servers, the on-chain read of a sub-card's document CID, AWS KMS, files,
  HPKE (a fresh key pair; opening a ciphertext gives the plaintext and the exported response
  key), and the WebAuthn library (whether the assertion verifies, and its new counter).
\<close>

record 'y services = runtime +
  db_begin :: "'y \<Rightarrow> int res \<times> 'y"
  gen_uuid :: "'y \<Rightarrow> string \<times> 'y"
  pg_text :: "js \<Rightarrow> string res"
  pg_uuid :: "string \<Rightarrow> string option"
  pg_jsonb :: "js \<Rightarrow> js"
  date_now :: "'y \<Rightarrow> int \<times> 'y"
  random_bytes :: "nat \<Rightarrow> 'y \<Rightarrow> bytes \<times> 'y"
  hmac_sha256 :: "bytes \<Rightarrow> bytes \<Rightarrow> bytes"
  http_fetch :: "fetch_request \<Rightarrow> 'y \<Rightarrow> fetch_response res \<times> 'y"
  sub_card_doc_cid :: "string \<Rightarrow> 'y \<Rightarrow> bytes res"
  kms_encrypt :: "string \<Rightarrow> string option \<Rightarrow> bytes \<Rightarrow> 'y \<Rightarrow> bytes option res \<times> 'y"
  kms_decrypt :: "string \<Rightarrow> string option \<Rightarrow> bytes \<Rightarrow> 'y \<Rightarrow> bytes option res \<times> 'y"
  read_file :: "string \<Rightarrow> 'y \<Rightarrow> string res"
  hpke_generate :: "'y \<Rightarrow> (bytes \<times> bytes) \<times> 'y"
  hpke_open :: "bytes \<Rightarrow> bytes \<Rightarrow> bytes \<Rightarrow> (bytes \<times> bytes) res"
  webauthn_verify :: "js \<Rightarrow> js \<Rightarrow> string \<Rightarrow> string \<Rightarrow> string \<times> bytes \<times> int \<Rightarrow> (bool \<times> int) res"

section \<open>Steps\<close>

text \<open>Act on, and look at, the outside.\<close>

definition outY :: "('y \<Rightarrow> 'a res \<times> 'y) \<Rightarrow> ('y, 'a) wact" where
  "outY f = (\<lambda>w. case f (outer w) of (r, y) \<Rightarrow> (r, w\<lparr>outer := y\<rparr>))"

definition nowY :: "('y, 'z) services_scheme \<Rightarrow> ('y, int) wact" where
  "nowY p = outY (\<lambda>y. case date_now p y of (t, y') \<Rightarrow> (Inr t, y'))"

definition randomY :: "('y, 'z) services_scheme \<Rightarrow> nat \<Rightarrow> ('y, bytes) wact" where
  "randomY p n = outY (\<lambda>y. case random_bytes p n y of (bs, y') \<Rightarrow> (Inr bs, y'))"

definition uuidY :: "('y, 'z) services_scheme \<Rightarrow> ('y, string) wact" where
  "uuidY p = outY (\<lambda>y. case gen_uuid p y of (u, y') \<Rightarrow> (Inr u, y'))"

definition fetchY :: "('y, 'z) services_scheme \<Rightarrow> fetch_request \<Rightarrow> ('y, fetch_response) wact" where
  "fetchY p req = outY (http_fetch p req)"

text \<open>\<open>pool.query\<close> of one statement.\<close>

definition query :: "('y, 'z) services_scheme \<Rightarrow> 'a stmt \<Rightarrow> ('y, 'a) wact" where
  "query p q = (\<lambda>w. case db_begin p (outer w) of
       (Inl e, y) \<Rightarrow> (Inl e, w\<lparr>outer := y\<rparr>)
     | (Inr t, y) \<Rightarrow> (case q t (db w) of (r, d) \<Rightarrow> (r, w\<lparr>db := d, outer := y\<rparr>)))"

text \<open>
  Parameters of a statement: text for a column that is not nullable (it cannot hold the code
  unit 0), \<open>uuid\<close>, \<open>timestamptz\<close>, \<open>jsonb\<close>.
\<close>

definition sql_string :: "string \<Rightarrow> string res" where
  "sql_string s = (if CHR 0x00 \<in> set s
     then Inl (DbError ''22021'' ''invalid byte sequence for encoding UTF8'') else Inr s)"

fun sql_text :: "('y, 'z) services_scheme \<Rightarrow> js \<Rightarrow> string res" where
  "sql_text p (Str s) = sql_string s"
| "sql_text p Null = Inl (DbError ''23502'' ''null value violates not-null constraint'')"
| "sql_text p Undef = Inl (DbError ''23502'' ''null value violates not-null constraint'')"
| "sql_text p v = pg_text p v"

definition sql_uuid :: "('y, 'z) services_scheme \<Rightarrow> js \<Rightarrow> string res" where
  "sql_uuid p v = bindE (sql_text p v) (\<lambda>s. case pg_uuid p s of
     None \<Rightarrow> Inl (DbError ''22P02'' ''invalid input syntax for type uuid'') | Some u \<Rightarrow> Inr u)"

fun sql_date :: "js_number \<Rightarrow> int res" where
  "sql_date (Fin ms) = (if ms < -210866803200000
     then Inl (DbError ''22008'' ''timestamp out of range'') else Inr (ms * 1000))"
| "sql_date n = Inl (DbError ''22007'' ''invalid input syntax for type timestamp with time zone'')"

fun sql_jsonb :: "('y, 'z) services_scheme \<Rightarrow> js \<Rightarrow> js" where
  "sql_jsonb p (Arr xs) = pg_jsonb p (Arr xs)"
| "sql_jsonb p (Obj kvs) = pg_jsonb p (Obj kvs)"
| "sql_jsonb p v = v"

lemma outY_run [act_simps]: "outY f w = (fst (f (outer w)), w\<lparr>outer := snd (f (outer w))\<rparr>)"
  by (simp add: outY_def split: prod.split)

section \<open>Key-value backends\<close>

text \<open>\<open>createPostgresKvStore\<close>.\<close>

definition expiry :: "int \<Rightarrow> int option \<Rightarrow> int option" where
  "expiry now ttlSeconds = (case ttlSeconds of None \<Rightarrow> None
     | Some s \<Rightarrow> if s = 0 then None else Some (now + s * 1000))"

definition pg_getItem :: "('y, 'z) services_scheme \<Rightarrow> string \<Rightarrow> ('y, js) wact" where
  "pg_getItem p k =
     bindA (liftA (sql_string k)) (\<lambda>k.
     bindA (query p (select_kv k)) (\<lambda>row.
       case row of None \<Rightarrow> retA Null
       | Some r \<Rightarrow> (case ks_expires_at r of None \<Rightarrow> retA (ks_value r)
           | Some t \<Rightarrow> bindA (nowY p) (\<lambda>now.
               if get_time t < now then bindA (query p (delete_kv k)) (\<lambda>_. retA Null)
               else retA (ks_value r)))))"

definition pg_setItem :: "('y, 'z) services_scheme \<Rightarrow> string \<Rightarrow> js \<Rightarrow> int option \<Rightarrow> ('y, unit) wact" where
  "pg_setItem p k v ttlSeconds =
     bindA (if ttlSeconds = None \<or> ttlSeconds = Some 0 then retA None
            else bindA (nowY p) (\<lambda>now. retA (map_option (\<lambda>ms. ms * 1000) (expiry now ttlSeconds)))) (\<lambda>expiresAt.
     bindA (liftA (sql_string k)) (\<lambda>k.
       query p (upsert_kv k (sql_jsonb p v) expiresAt)))"

definition pg_removeItem :: "('y, 'z) services_scheme \<Rightarrow> string \<Rightarrow> ('y, unit) wact" where
  "pg_removeItem p k = bindA (liftA (sql_string k)) (\<lambda>k. query p (delete_kv k))"

definition pg_increment :: "('y, 'z) services_scheme \<Rightarrow> string \<Rightarrow> int \<Rightarrow> ('y, js) wact" where
  "pg_increment p k delta =
     bindA (liftA (sql_string k)) (\<lambda>k.
     bindA (query p (select_kv k)) (\<lambda>row.
     bindA (case row of None \<Rightarrow> retA (Num (Fin 0), None)
            | Some r \<Rightarrow> (case ks_expires_at r of None \<Rightarrow> retA (ks_value r, None)
                | Some t \<Rightarrow> bindA (nowY p) (\<lambda>now. retA (if get_time t < now then (Num (Fin 0), None)
                     else (ks_value r, Some t))))) (\<lambda>(current, expiresAt).
     let next = js_plus p current delta in
     bindA (query p (upsert_kv k (sql_jsonb p next) expiresAt)) (\<lambda>_. retA next))))"

text \<open>\<open>createNitroKvStore\<close>: items wrapped with their expiry in the platform's storage.\<close>

definition nitro_set :: "string \<Rightarrow> wrapped_item option \<Rightarrow> ('y, unit) wact" where
  "nitro_set k v = (\<lambda>w. (Inr (), w\<lparr>nitro_kv := (nitro_kv w)(k := v)\<rparr>))"

definition nitro_getItem :: "('y, 'z) services_scheme \<Rightarrow> string \<Rightarrow> ('y, js) wact" where
  "nitro_getItem p k =
     bindA (readA (\<lambda>w. Inr (nitro_kv w k))) (\<lambda>item.
       case item of None \<Rightarrow> retA Null
       | Some it \<Rightarrow> (case wi_expiresAt it of None \<Rightarrow> retA (wi_value it)
           | Some t \<Rightarrow> bindA (nowY p) (\<lambda>now.
               if t < now then bindA (nitro_set k None) (\<lambda>_. retA Null) else retA (wi_value it))))"

definition nitro_setItem :: "('y, 'z) services_scheme \<Rightarrow> string \<Rightarrow> js \<Rightarrow> int option \<Rightarrow> ('y, unit) wact" where
  "nitro_setItem p k v ttlSeconds =
     bindA (if ttlSeconds = None \<or> ttlSeconds = Some 0 then retA None
            else bindA (nowY p) (\<lambda>now. retA (expiry now ttlSeconds))) (\<lambda>expiresAt.
       nitro_set k (Some \<lparr>wi_value = v, wi_expiresAt = expiresAt\<rparr>))"

definition nitro_removeItem :: "string \<Rightarrow> ('y, unit) wact" where
  "nitro_removeItem k = nitro_set k None"

definition nitro_increment :: "('y, 'z) services_scheme \<Rightarrow> string \<Rightarrow> int \<Rightarrow> ('y, js) wact" where
  "nitro_increment p k delta =
     bindA (readA (\<lambda>w. Inr (nitro_kv w k))) (\<lambda>item.
     bindA (case item of None \<Rightarrow> retA (Num (Fin 0), None)
            | Some it \<Rightarrow> (case wi_expiresAt it of None \<Rightarrow> retA (wi_value it, None)
                | Some t \<Rightarrow> bindA (nowY p) (\<lambda>now. retA (if t < now then (Num (Fin 0), None)
                     else (wi_value it, Some t))))) (\<lambda>(current, expiresAt).
     let next = js_plus p current delta in
     bindA (nitro_set k (Some \<lparr>wi_value = next, wi_expiresAt = expiresAt\<rparr>)) (\<lambda>_. retA next)))"

text \<open>\<open>createKvStore\<close>: the backend is a setting.\<close>

datatype kv_backend = Cloudflare_Kv | Postgres

definition kv_getItem :: "('y, 'z) services_scheme \<Rightarrow> kv_backend \<Rightarrow> string \<Rightarrow> ('y, js) wact" where
  "kv_getItem p b k = (case b of Cloudflare_Kv \<Rightarrow> nitro_getItem p k | Postgres \<Rightarrow> pg_getItem p k)"

definition kv_setItem :: "('y, 'z) services_scheme \<Rightarrow> kv_backend \<Rightarrow> string \<Rightarrow> js \<Rightarrow> int option \<Rightarrow> ('y, unit) wact" where
  "kv_setItem p b k v ttl = (case b of Cloudflare_Kv \<Rightarrow> nitro_setItem p k v ttl | Postgres \<Rightarrow> pg_setItem p k v ttl)"

section \<open>Keys\<close>

definition sessionRevokedKey :: "string \<Rightarrow> string" where
  "sessionRevokedKey sessionTokenId = ''wallet:session:revoked:'' @ sessionTokenId"

definition sessionMinIssuedAtKey :: "string \<Rightarrow> string" where
  "sessionMinIssuedAtKey cardHash = ''wallet:session:min-issued-at:'' @ cardHash"

definition serviceSecretCallsKey :: "string \<Rightarrow> string" where
  "serviceSecretCallsKey sessionTokenId = ''wallet:rate:service-secret:'' @ sessionTokenId"

definition challengeRateKey :: "string \<Rightarrow> string \<Rightarrow> string" where
  "challengeRateKey purpose k = ''wallet:rate:challenge:'' @ purpose @ '':'' @ k"

definition accountCreationRateKey :: "string \<Rightarrow> string" where
  "accountCreationRateKey hashedIp = ''wallet:rate:account-creation:'' @ hashedIp"

definition recoveryInitiationRateKey :: "string \<Rightarrow> string" where
  "recoveryInitiationRateKey cardHash = ''wallet:rate:recovery-initiation:'' @ cardHash"

definition bindingAnnounceRateKey :: "string \<Rightarrow> string" where
  "bindingAnnounceRateKey walletServiceId = ''wallet:rate:binding-announce:'' @ walletServiceId"

definition matrixAccessTokenKey :: "string \<Rightarrow> string" where
  "matrixAccessTokenKey matrixUserId = ''wallet:matrix:access-token:'' @ matrixUserId"

definition discoverRoomsRateKey :: "string \<Rightarrow> string" where
  "discoverRoomsRateKey cardHash = ''wallet:rate:discover-rooms:'' @ cardHash"

section \<open>The sliding window\<close>

text \<open>
  \<open>checkSlidingWindow\<close>: a counter per fixed window, of which the previous one counts in
  proportion to the part of it that the trailing window still covers. The fractions are
  doubles. No other function writes these keys, so a count that is stored is a number (for
  any other value the model answers as for \<open>NaN\<close>, where every comparison is false).
\<close>

definition window_index :: "int \<Rightarrow> int \<Rightarrow> int" where
  "window_index windowSeconds now =
     floor (round_double (round_double (of_int now / 1000) / of_int windowSeconds))"

definition rest_of_window :: "int \<Rightarrow> int \<Rightarrow> rat" where
  "rest_of_window windowSeconds now =
     (let elapsed = now - window_index windowSeconds now * windowSeconds * 1000 in
       round_double (1 - round_double (of_int elapsed / of_int (windowSeconds * 1000))))"

definition count_number :: "js \<Rightarrow> rat option" where
  "count_number v = (case nullish v (Num (Fin 0)) of Num (Fin i) \<Rightarrow> Some (of_int i) | _ \<Rightarrow> None)"

definition weighted_count :: "rat \<Rightarrow> rat \<Rightarrow> rat \<Rightarrow> rat" where
  "weighted_count previous rest current = round_double (round_double (previous * rest) + current)"

definition over_limit :: "js \<Rightarrow> js \<Rightarrow> rat \<Rightarrow> int \<Rightarrow> int \<Rightarrow> bool" where
  "over_limit previousCount currentCount rest weight limit =
     (case (count_number previousCount, count_number currentCount) of
        (Some prev, Some cur) \<Rightarrow> of_int limit < round_double (weighted_count prev rest cur + of_int weight)
      | _ \<Rightarrow> False)"

record rate_limit_result =
  rl_allowed :: bool
  rl_retryAfterSeconds :: int

definition window_key :: "string \<Rightarrow> int \<Rightarrow> string" where
  "window_key k i = k @ '':'' @ int_str i"

definition checkSlidingWindow ::
    "('y, 'z) services_scheme \<Rightarrow> kv_backend \<Rightarrow> string \<Rightarrow> int \<Rightarrow> int \<Rightarrow> int \<Rightarrow> ('y, rate_limit_result) wact" where
  "checkSlidingWindow p b k limit windowSeconds weight =
     bindA (nowY p) (\<lambda>now.
     let i = window_index windowSeconds now; rest = rest_of_window windowSeconds now in
     bindA (kv_getItem p b (window_key k i)) (\<lambda>currentCount.
     bindA (kv_getItem p b (window_key k (i - 1))) (\<lambda>previousCount.
     let retry = ceiling (round_double (of_int windowSeconds * rest)) in
       if over_limit previousCount currentCount rest weight limit
       then retA \<lparr>rl_allowed = False, rl_retryAfterSeconds = retry\<rparr>
       else bindA (kv_setItem p b (window_key k i) (js_plus p (nullish currentCount (Num (Fin 0))) weight)
                    (Some (windowSeconds * 2)))
              (\<lambda>_. retA \<lparr>rl_allowed = True, rl_retryAfterSeconds = retry\<rparr>))))"

text \<open>\<open>enforceRateLimit\<close>.\<close>

definition too_many :: exn where
  "too_many = HttpError 429 ''Too Many Requests''"

definition enforceRateLimit ::
    "('y, 'z) services_scheme \<Rightarrow> kv_backend \<Rightarrow> string \<Rightarrow> int \<Rightarrow> int \<Rightarrow> ('y, unit) wact" where
  "enforceRateLimit p b k limit windowSeconds =
     bindA (checkSlidingWindow p b k limit windowSeconds 1) (\<lambda>result. guardA (rl_allowed result) too_many)"

end
