(* ===== verification/Wallet_Config.thy ===== *)
theory Wallet_Config
  imports Wallet_Base
begin

text \<open>
  The wallet service's configuration: \<open>loadConfig\<close> of \<open>wallet-service/src/config.ts\<close> on a map
  of environment variables. A diagnostic with \<open>process.exit(1)\<close> is the error result.
\<close>

datatype secrets_kind = Webcrypto | Kms_Kind

record peer_config =
  pc_wallet_service_id :: string
  pc_endpoint :: string
  pc_pubkey_hash :: string

record wallet_config =
  DATABASE_URL :: string
  SECRETS_BACKEND :: secrets_kind
  WEBCRYPTO_MASTER_KEY :: "string option"
  KMS_KEY_ID :: "string option"
  AWS_REGION :: "string option"
  SESSION_TOKEN_SECRET :: string
  KV_BACKEND :: kv_backend
  WEBAUTHN_RP_ID :: string
  WEBAUTHN_ORIGIN :: string
  WALLET_PORT :: js_number
  WALLET_LOG_LEVEL :: string
  SENDGRID_API_KEY :: "string option"
  SENDGRID_FROM_EMAIL :: "string option"
  TWILIO_ACCOUNT_SID :: "string option"
  TWILIO_AUTH_TOKEN :: "string option"
  TWILIO_FROM_NUMBER :: "string option"
  WALLET_SERVICE_ID :: string
  WALLET_SERVICE_ENDPOINT :: string
  WALLET_SERVICE_PRIVATE_KEY :: string
  PEER_LIST :: "peer_config list"
  RELAY_BASE_URL :: string
  ADMIN_API_KEY :: string
  WALLET_RPC_URL :: string
  WALLET_REGISTRY_ADDRESS :: string
  IPFS_GATEWAY_URL :: string
  MATRIX_SERVER_NAME :: string
  MATRIX_SYNAPSE_URL :: string
  MATRIX_ENFORCEMENT_USER_ID :: string

definition wallet_startup_error :: "string \<Rightarrow> exn" where
  "wallet_startup_error msg = JsError (''Wallet service startup error: '' @ msg)"

definition wallet_requireEnv :: "(string \<Rightarrow> string option) \<Rightarrow> string \<Rightarrow> string res" where
  "wallet_requireEnv pe name = (case pe name of
     None \<Rightarrow> Inl (wallet_startup_error (''required environment variable '' @ name @ '' is missing or empty.''))
   | Some val \<Rightarrow>
       if val = [] then Inl (wallet_startup_error (''required environment variable '' @ name @ '' is missing or empty.''))
       else Inr val)"

definition wallet_optionalEnv :: "(string \<Rightarrow> string option) \<Rightarrow> string \<Rightarrow> string \<Rightarrow> string" where
  "wallet_optionalEnv pe name defaultValue = (case pe name of None \<Rightarrow> defaultValue | Some val \<Rightarrow> val)"

text \<open>\<open>!value\<close> of an optional string.\<close>

definition truthy_text :: "string option \<Rightarrow> bool" where
  "truthy_text v \<longleftrightarrow> v \<noteq> None \<and> v \<noteq> Some []"

definition parse_peer :: "js \<Rightarrow> peer_config res" where
  "parse_peer entry =
     (case entry of Obj _ \<Rightarrow>
        (case (field entry ''wallet_service_id'', field entry ''endpoint'', field entry ''pubkey_hash'') of
           (Str i, Str e, Str h) \<Rightarrow> Inr \<lparr>pc_wallet_service_id = i, pc_endpoint = e, pc_pubkey_hash = h\<rparr>
         | _ \<Rightarrow> Inl (wallet_startup_error ''each PEER_LIST entry must have wallet_service_id, endpoint, and pubkey_hash strings.''))
      | _ \<Rightarrow> Inl (wallet_startup_error ''each PEER_LIST entry must have wallet_service_id, endpoint, and pubkey_hash strings.''))"

definition parsePeerList :: "('h) host_scheme \<Rightarrow> string \<Rightarrow> peer_config list res" where
  "parsePeerList h raw =
     (case json_parse h (utf8_encode raw) of
        Inl e \<Rightarrow> Inl (wallet_startup_error ''PEER_LIST is not valid JSON.'')
      | Inr (Arr entries) \<Rightarrow> mapE parse_peer entries
      | Inr v \<Rightarrow> Inl (wallet_startup_error ''PEER_LIST must be a JSON array.''))"

definition parse_kv_backend :: "string \<Rightarrow> kv_backend res" where
  "parse_kv_backend s =
     (if s = ''cloudflare-kv'' then Inr Cloudflare_Kv else if s = ''postgres'' then Inr Postgres
      else Inl (wallet_startup_error (''KV_BACKEND must be cloudflare-kv or postgres, got '' @ s @ ''.'')))"

definition parse_secrets_kind :: "string \<Rightarrow> secrets_kind res" where
  "parse_secrets_kind s =
     (if s = ''webcrypto'' then Inr Webcrypto else if s = ''kms'' then Inr Kms_Kind
      else Inl (wallet_startup_error (''SECRETS_BACKEND must be webcrypto or kms, got '' @ s @ ''.'')))"

definition wallet_loadConfig :: "('h) host_scheme \<Rightarrow> (string \<Rightarrow> string option) \<Rightarrow> wallet_config res" where
  "wallet_loadConfig h pe =
     bindE (parse_secrets_kind (wallet_optionalEnv pe ''SECRETS_BACKEND'' ''webcrypto'')) (\<lambda>secretsBackend.
     bindE (wallet_requireEnv pe ''DATABASE_URL'') (\<lambda>databaseUrl.
     bindE (wallet_requireEnv pe ''SESSION_TOKEN_SECRET'') (\<lambda>sessionSecret.
     bindE (wallet_requireEnv pe ''WEBAUTHN_RP_ID'') (\<lambda>rpId.
     bindE (wallet_requireEnv pe ''WEBAUTHN_ORIGIN'') (\<lambda>origin.
     bindE (wallet_requireEnv pe ''WALLET_SERVICE_ID'') (\<lambda>serviceId.
     bindE (wallet_requireEnv pe ''WALLET_SERVICE_ENDPOINT'') (\<lambda>serviceEndpoint.
     bindE (wallet_requireEnv pe ''WALLET_SERVICE_PRIVATE_KEY'') (\<lambda>servicePrivateKey.
     bindE (parsePeerList h (wallet_optionalEnv pe ''PEER_LIST'' ''[]'')) (\<lambda>peers.
     bindE (wallet_requireEnv pe ''RELAY_BASE_URL'') (\<lambda>relay.
     bindE (wallet_requireEnv pe ''ADMIN_API_KEY'') (\<lambda>adminKey.
     bindE (wallet_requireEnv pe ''ARBITRUM_RPC_URL'') (\<lambda>rpcUrl.
     bindE (wallet_requireEnv pe ''REGISTRY_CONTRACT_ADDRESS'') (\<lambda>registryAddress.
     if secretsBackend = Webcrypto \<and> \<not> truthy_text (pe ''WEBCRYPTO_MASTER_KEY'')
     then Inl (wallet_startup_error ''WEBCRYPTO_MASTER_KEY is required when SECRETS_BACKEND=webcrypto.'')
     else if secretsBackend = Kms_Kind \<and> \<not> truthy_text (pe ''KMS_KEY_ID'')
     then Inl (wallet_startup_error ''KMS_KEY_ID is required when SECRETS_BACKEND=kms.'')
     else bindE (parse_kv_backend (wallet_optionalEnv pe ''KV_BACKEND'' ''postgres'')) (\<lambda>kvBackend.
       Inr \<lparr>DATABASE_URL = databaseUrl, SECRETS_BACKEND = secretsBackend,
            WEBCRYPTO_MASTER_KEY = pe ''WEBCRYPTO_MASTER_KEY'', KMS_KEY_ID = pe ''KMS_KEY_ID'',
            AWS_REGION = pe ''AWS_REGION'', SESSION_TOKEN_SECRET = sessionSecret, KV_BACKEND = kvBackend,
            WEBAUTHN_RP_ID = rpId, WEBAUTHN_ORIGIN = origin,
            WALLET_PORT = number_of_text h (Str (wallet_optionalEnv pe ''PORT'' ''3000'')),
            WALLET_LOG_LEVEL = wallet_optionalEnv pe ''LOG_LEVEL'' ''info'',
            SENDGRID_API_KEY = pe ''SENDGRID_API_KEY'', SENDGRID_FROM_EMAIL = pe ''SENDGRID_FROM_EMAIL'',
            TWILIO_ACCOUNT_SID = pe ''TWILIO_ACCOUNT_SID'', TWILIO_AUTH_TOKEN = pe ''TWILIO_AUTH_TOKEN'',
            TWILIO_FROM_NUMBER = pe ''TWILIO_FROM_NUMBER'', WALLET_SERVICE_ID = serviceId,
            WALLET_SERVICE_ENDPOINT = serviceEndpoint, WALLET_SERVICE_PRIVATE_KEY = servicePrivateKey,
            PEER_LIST = peers, RELAY_BASE_URL = relay, ADMIN_API_KEY = adminKey, WALLET_RPC_URL = rpcUrl,
            WALLET_REGISTRY_ADDRESS = registryAddress,
            IPFS_GATEWAY_URL = wallet_optionalEnv pe ''IPFS_GATEWAY_URL'' ''https://ipfs.filebase.io'',
            MATRIX_SERVER_NAME = wallet_optionalEnv pe ''MATRIX_SERVER_NAME'' ''matrix.internal'',
            MATRIX_SYNAPSE_URL = wallet_optionalEnv pe ''MATRIX_SYNAPSE_URL'' ''http://synapse:8008'',
            MATRIX_ENFORCEMENT_USER_ID = wallet_optionalEnv pe ''MATRIX_ENFORCEMENT_USER_ID''
              ''@matrix-policy-bot:matrix.internal''\<rparr>))))))))))))))"

section \<open>Secrets\<close>

text \<open>
  Envelope encryption of service secrets (\<open>wallet-service/src/secrets\<close>): the two backends that
  wrap a data key, the service that encrypts under a fresh data key, and its cache of
  unwrapped data keys, which is part of the state. AES-GCM and KMS are parameters.
\<close>

section \<open>Web Crypto\<close>

definition IV_BYTES :: nat where
  "IV_BYTES = 12"

definition DEK_BYTES :: nat where
  "DEK_BYTES = 32"

definition DEK_CACHE_TTL_MS :: int where
  "DEK_CACHE_TTL_MS = 10 * 60 * 1000"

text \<open>\<open>crypto.subtle.importKey('raw', \<dots>, 'AES-GCM')\<close>.\<close>

definition import_key :: "bytes \<Rightarrow> bytes res" where
  "import_key raw = (if length raw \<in> {16, 24, 32} then Inr raw
     else Inl (JsError ''DataError: Invalid key length''))"

definition gcm_encrypt :: "('y, 'z) services_scheme \<Rightarrow> bytes \<Rightarrow> bytes \<Rightarrow> ('y, bytes) wact" where
  "gcm_encrypt p key plaintext =
     bindA (randomY p IV_BYTES) (\<lambda>iv. retA (iv @ aes_gcm_seal p key iv plaintext))"

definition gcm_decrypt :: "('y, 'z) services_scheme \<Rightarrow> string \<Rightarrow> bytes \<Rightarrow> bytes \<Rightarrow> bytes res" where
  "gcm_decrypt p owner key combined =
     (if length combined \<le> IV_BYTES then Inl (JsError (''Error: '' @ owner @ '': ciphertext too short.''))
      else aes_gcm_open (crypto_ops p) key (take IV_BYTES combined) (drop IV_BYTES combined))"

section \<open>Backends\<close>

datatype secrets_backend = Web_Crypto_Backend bytes | Kms_Backend string "string option"

definition web_crypto_backend :: "string \<Rightarrow> secrets_backend res" where
  "web_crypto_backend masterKeyBase64Url =
     (let raw = base64url_to_bytes masterKeyBase64Url in
      if length raw \<noteq> 32
      then Inl (JsError (''Error: WebCryptoBackend: master key must be 32 bytes, got '' @ nat_str (length raw) @ ''.''))
      else Inr (Web_Crypto_Backend raw))"

fun wrapDek :: "('y, 'z) services_scheme \<Rightarrow> secrets_backend \<Rightarrow> bytes \<Rightarrow> ('y, string) wact" where
  "wrapDek p (Web_Crypto_Backend master) dek =
     bindA (gcm_encrypt p master dek) (\<lambda>combined. retA (bytes_to_base64url combined))"
| "wrapDek p (Kms_Backend keyId region) dek =
     bindA (outY (kms_encrypt p keyId region dek)) (\<lambda>blob. case blob of
       None \<Rightarrow> throwA (JsError ''Error: KmsBackend: Encrypt returned no CiphertextBlob.'')
     | Some b \<Rightarrow> retA (bytes_to_base64url b))"

fun unwrapDek :: "('y, 'z) services_scheme \<Rightarrow> secrets_backend \<Rightarrow> string \<Rightarrow> ('y, bytes) wact" where
  "unwrapDek p (Web_Crypto_Backend master) dekEnc =
     liftA (gcm_decrypt p ''WebCryptoBackend'' master (base64url_to_bytes dekEnc))"
| "unwrapDek p (Kms_Backend keyId region) dekEnc =
     bindA (outY (kms_decrypt p keyId region (base64url_to_bytes dekEnc))) (\<lambda>plain. case plain of
       None \<Rightarrow> throwA (JsError ''Error: KmsBackend: Decrypt returned no Plaintext.'')
     | Some b \<Rightarrow> retA b)"

definition createSecretsService :: "wallet_config \<Rightarrow> secrets_backend res" where
  "createSecretsService cfg =
     (if SECRETS_BACKEND cfg = Kms_Kind then
        (if \<not> truthy_text (KMS_KEY_ID cfg)
         then Inl (JsError ''Error: createSecretsService: KMS_KEY_ID is required when SECRETS_BACKEND=kms.'')
         else Inr (Kms_Backend (the (KMS_KEY_ID cfg)) (AWS_REGION cfg)))
      else if \<not> truthy_text (WEBCRYPTO_MASTER_KEY cfg)
      then Inl (JsError ''Error: createSecretsService: WEBCRYPTO_MASTER_KEY is required when SECRETS_BACKEND=webcrypto.'')
      else web_crypto_backend (the (WEBCRYPTO_MASTER_KEY cfg)))"

section \<open>The service\<close>

definition encryptSecret ::
    "('y, 'z) services_scheme \<Rightarrow> secrets_backend \<Rightarrow> bytes \<Rightarrow> ('y, string \<times> string) wact" where
  "encryptSecret p backend plaintext =
     bindA (randomY p DEK_BYTES) (\<lambda>dek.
     bindA (gcm_encrypt p dek plaintext) (\<lambda>combined.
     bindA (wrapDek p backend dek) (\<lambda>dekEnc.
       retA (bytes_to_base64url combined, dekEnc))))"

definition cache_dek :: "string \<Rightarrow> dek_entry \<Rightarrow> ('y, unit) wact" where
  "cache_dek dekEnc entry = (\<lambda>w. (Inr (), w\<lparr>dek_cache := (dek_cache w)(dekEnc \<mapsto> entry)\<rparr>))"

definition getDek :: "('y, 'z) services_scheme \<Rightarrow> secrets_backend \<Rightarrow> string \<Rightarrow> ('y, bytes) wact" where
  "getDek p backend dekEnc =
     bindA (readA (\<lambda>w. Inr (dek_cache w dekEnc))) (\<lambda>cached.
     bindA (nowY p) (\<lambda>now.
     let fresh = bindA (unwrapDek p backend dekEnc) (\<lambda>dek.
                 bindA (cache_dek dekEnc \<lparr>de_dek = dek, de_expiresAt = now + DEK_CACHE_TTL_MS\<rparr>) (\<lambda>_. retA dek))
     in case cached of None \<Rightarrow> fresh
        | Some c \<Rightarrow> if now < de_expiresAt c then retA (de_dek c) else fresh))"

definition decrypt_under :: "('y, 'z) services_scheme \<Rightarrow> bytes \<Rightarrow> string \<Rightarrow> bytes res" where
  "decrypt_under p dek ciphertext =
     bindE (import_key dek) (\<lambda>key. gcm_decrypt p ''SecretsService'' key (base64url_to_bytes ciphertext))"

definition decryptSecret ::
    "('y, 'z) services_scheme \<Rightarrow> secrets_backend \<Rightarrow> string \<Rightarrow> string \<Rightarrow> ('y, bytes) wact" where
  "decryptSecret p backend ciphertext dekEnc =
     bindA (getDek p backend dekEnc) (\<lambda>dek. liftA (decrypt_under p dek ciphertext))"

section \<open>Round trip\<close>

text \<open>Opening undoes sealing, as the AES-GCM primitives promise.\<close>

definition gcm_correct :: "('y, 'z) services_scheme \<Rightarrow> bool" where
  "gcm_correct p \<longleftrightarrow> (\<forall>key iv m. aes_gcm_open (crypto_ops p) key iv (aes_gcm_seal p key iv m) = Inr m) \<and>
     (\<forall>key iv m. aes_gcm_seal p key iv m \<noteq> [])"

text \<open>Random bytes come in the length that is asked for.\<close>

definition random_sized :: "('y, 'z) services_scheme \<Rightarrow> bool" where
  "random_sized p \<longleftrightarrow> (\<forall>n y. length (fst (random_bytes p n y)) = n)"

lemma randomY_Inr:
  "randomY p n w = (Inr bs, w') \<longleftrightarrow>
     bs = fst (random_bytes p n (outer w)) \<and> w' = w\<lparr>outer := snd (random_bytes p n (outer w))\<rparr>"
  by (auto simp: randomY_def outY_run split: prod.splits)

lemma gcm_encrypt_Inr:
  assumes "gcm_encrypt p key m w = (Inr combined, w')" "gcm_correct p" "random_sized p"
  shows "gcm_decrypt p owner key combined = Inr m" "dek_cache w' = dek_cache w" "db w' = db w"
  using assms by (auto simp: gcm_encrypt_def bindA_Inr randomY_Inr retA_run gcm_decrypt_def gcm_correct_def random_sized_def)

end
