(* ===== verification/Wallet_Auth.thy ===== *)
theory Wallet_Auth
  imports Wallet_Config Js_Runtime
begin

text \<open>
  Authentication in the wallet service (\<open>wallet-service/src/auth\<close>, \<open>server/utils/auth.ts\<close>,
  \<open>admin-auth.ts\<close>, \<open>src/crypto.ts\<close>, \<open>server/db/challenges.ts\<close>): master-card and peer
  signatures, session tokens and their revocation, passkey logins, the signed envelopes of
  sub-cards, and single-use challenges.
\<close>

section \<open>Hashes\<close>

definition keccak256OfBase64Url :: "('y, 'z) services_scheme \<Rightarrow> js \<Rightarrow> string res" where
  "keccak256OfBase64Url p v = bindE (fromBase64url p v) (\<lambda>bs. Inr (keccak256 p bs))"

definition hashIp :: "('y, 'z) services_scheme \<Rightarrow> string \<Rightarrow> string" where
  "hashIp p ip = bytes_hex (sha_256 (crypto_ops p) (utf8_encode ip))"

section \<open>Signatures\<close>

text \<open>A \<open>try\<close> block that answers \<open>false\<close> when anything throws.\<close>

definition true_or_throw :: "bool res \<Rightarrow> bool" where
  "true_or_throw r = (case r of Inr b \<Rightarrow> b | Inl e \<Rightarrow> False)"

definition verifyMasterCardSignature :: "('y, 'z) services_scheme \<Rightarrow> bytes \<Rightarrow> js \<Rightarrow> js \<Rightarrow> bool" where
  "verifyMasterCardSignature p ch signatureB64 masterPubkeyB64 = true_or_throw
     (bindE (fromBase64url p signatureB64) (\<lambda>signature.
      bindE (fromBase64url p masterPubkeyB64) (\<lambda>publicKey.
        ml_dsa44_verify (crypto_ops p) signature ch publicKey)))"

definition generateChallenge :: "('y, 'z) services_scheme \<Rightarrow> ('y, bytes) wact" where
  "generateChallenge p = randomY p 32"

definition peer_id :: "('y, 'z) services_scheme \<Rightarrow> bytes \<Rightarrow> string" where
  "peer_id p publicKey = ''0x'' @ bytes_hex (keccak_256 (crypto_ops p) publicKey)"

definition verifyPeerWalletSignature :: "('y, 'z) services_scheme \<Rightarrow> bytes \<Rightarrow> js \<Rightarrow> js \<Rightarrow> js \<Rightarrow> bool" where
  "verifyPeerWalletSignature p message signatureB64 peerPublicKeyB64 claimedWalletServiceId = true_or_throw
     (bindE (fromBase64url p peerPublicKeyB64) (\<lambda>publicKey.
      bindE (js_string ''claimedWalletServiceId.toLowerCase'' claimedWalletServiceId) (\<lambda>claimed.
        if to_lower (peer_id p publicKey) \<noteq> to_lower claimed then Inr False
        else bindE (fromBase64url p signatureB64) (\<lambda>signature.
          ml_dsa44_verify (crypto_ops p) signature message publicKey))))"

section \<open>Session tokens\<close>

definition SESSION_TTL_SECONDS :: int where
  "SESSION_TTL_SECONDS = 15 * 60"

definition sign_payload :: "('y, 'z) services_scheme \<Rightarrow> string \<Rightarrow> string \<Rightarrow> string" where
  "sign_payload p payloadB64 secret = bytes_to_base64url (hmac_sha256 p (utf8_encode secret) (utf8_encode payloadB64))"

definition sessionTokenId :: "('y, 'z) services_scheme \<Rightarrow> string \<Rightarrow> string" where
  "sessionTokenId p token = bytes_hex (sha_256 (crypto_ops p) (utf8_encode token))"

definition session_payload :: "js \<Rightarrow> int \<Rightarrow> js" where
  "session_payload cardHash issuedAt = Obj [(''card_hash'', cardHash), (''issued_at'', Num (Fin issuedAt)),
     (''expires_at'', Num (Fin (issuedAt + SESSION_TTL_SECONDS * 1000)))]"

definition encode_payload :: "js \<Rightarrow> string" where
  "encode_payload payload = bytes_to_base64url (utf8_encode (json_stringify payload))"

definition session_token :: "('y, 'z) services_scheme \<Rightarrow> string \<Rightarrow> js \<Rightarrow> string" where
  "session_token p secret payload =
     (let payloadB64 = encode_payload payload in payloadB64 @ ''.'' @ sign_payload p payloadB64 secret)"

text \<open>The token and the time it expires.\<close>

definition issueSessionToken :: "('y, 'z) services_scheme \<Rightarrow> js \<Rightarrow> string \<Rightarrow> ('y, string \<times> int) wact" where
  "issueSessionToken p cardHash secret =
     bindA (nowY p) (\<lambda>issuedAt.
       retA (session_token p secret (session_payload cardHash issuedAt), issuedAt + SESSION_TTL_SECONDS * 1000))"

fun split_dot :: "string \<Rightarrow> string list" where
  "split_dot [] = [[]]"
| "split_dot (c # s) =
     (if c = CHR ''.'' then [] # split_dot s else case split_dot s of [] \<Rightarrow> [[c]] | w # ws \<Rightarrow> (c # w) # ws)"

text \<open>A payload, or the reason for refusing the token.\<close>

type_synonym 'a verdict = "string + 'a"

definition check_revoked ::
    "('y, 'z) services_scheme \<Rightarrow> kv_backend \<Rightarrow> string \<Rightarrow> string \<Rightarrow> js \<Rightarrow> ('y, js verdict) wact" where
  "check_revoked p b token cardHash payload =
     bindA (kv_getItem p b (sessionRevokedKey (sessionTokenId p token))) (\<lambda>revoked.
       if truthy revoked then retA (Inl ''revoked'')
       else bindA (kv_getItem p b (sessionMinIssuedAtKey cardHash)) (\<lambda>cutoff.
         if cutoff \<noteq> Null \<and> js_less p (field payload ''issued_at'') cutoff then retA (Inl ''revoked'')
         else retA (Inr payload)))"

definition verifySessionToken ::
    "('y, 'z) services_scheme \<Rightarrow> kv_backend \<Rightarrow> string \<Rightarrow> string \<Rightarrow> ('y, js verdict) wact" where
  "verifySessionToken p b token secret =
     (case split_dot token of
        [payloadB64, sig] \<Rightarrow>
          if sig \<noteq> sign_payload p payloadB64 secret then retA (Inl ''bad_signature'')
          else (case json_parse p (base64url_to_bytes payloadB64) of
            Inl e \<Rightarrow> retA (Inl ''malformed'')
          | Inr payload \<Rightarrow>
              bindA (liftA (js_prop payload ''card_hash'')) (\<lambda>cardHash.
              case (cardHash, field payload ''expires_at'') of
                (Str cardText, Num expiresAt) \<Rightarrow>
                  bindA (nowY p) (\<lambda>now.
                    if num_lt expiresAt now then retA (Inl ''expired'')
                    else check_revoked p b token cardText payload)
              | _ \<Rightarrow> retA (Inl ''malformed'')))
      | _ \<Rightarrow> retA (Inl ''malformed''))"

definition revokeSessionToken :: "('y, 'z) services_scheme \<Rightarrow> kv_backend \<Rightarrow> string \<Rightarrow> ('y, unit) wact" where
  "revokeSessionToken p b token =
     kv_setItem p b (sessionRevokedKey (sessionTokenId p token)) (Bool True) (Some SESSION_TTL_SECONDS)"

definition invalidateSessionsForCard :: "('y, 'z) services_scheme \<Rightarrow> kv_backend \<Rightarrow> string \<Rightarrow> ('y, unit) wact" where
  "invalidateSessionsForCard p b cardHash =
     bindA (nowY p) (\<lambda>now. kv_setItem p b (sessionMinIssuedAtKey cardHash) (Num (Fin now)) (Some SESSION_TTL_SECONDS))"

text \<open>
  \<open>requireSessionTokenRaw\<close>: the \<open>AuthError\<close> it throws carries a status, with which every
  route that calls it answers; it is the HTTP error here.
\<close>

definition bearer :: "string option \<Rightarrow> string option" where
  "bearer header = (case header of None \<Rightarrow> None
     | Some h \<Rightarrow> if take 7 h = ''Bearer '' then Some (drop 7 h) else None)"

definition requireSessionTokenRaw ::
    "('y, 'z) services_scheme \<Rightarrow> wallet_config \<Rightarrow> string option \<Rightarrow> ('y, string \<times> js) wact" where
  "requireSessionTokenRaw p cfg header =
     (case bearer header of
        None \<Rightarrow> throwA (HttpError 401 ''Missing bearer token.'')
      | Some token \<Rightarrow> bindA (verifySessionToken p (KV_BACKEND cfg) token (SESSION_TOKEN_SECRET cfg)) (\<lambda>result.
          case result of
            Inl reason \<Rightarrow> throwA (HttpError 401 (''Invalid session token: '' @ reason @ ''.''))
          | Inr payload \<Rightarrow> retA (token, payload)))"

definition requireSessionToken ::
    "('y, 'z) services_scheme \<Rightarrow> wallet_config \<Rightarrow> string option \<Rightarrow> ('y, js) wact" where
  "requireSessionToken p cfg header = bindA (requireSessionTokenRaw p cfg header) (\<lambda>(token, payload). retA payload)"

definition requireAdminAuth :: "wallet_config \<Rightarrow> string option \<Rightarrow> ('y, unit) wact" where
  "requireAdminAuth cfg header =
     (case bearer header of
        None \<Rightarrow> throwA (HttpError 401 ''Missing bearer token.'')
      | Some provided \<Rightarrow> guardA (provided = ADMIN_API_KEY cfg) (HttpError 401 ''Invalid admin API key.''))"

section \<open>Passkeys\<close>

definition verifyWebAuthnLogin ::
    "('y, 'z) services_scheme \<Rightarrow> js \<Rightarrow> js \<Rightarrow> string \<Rightarrow> string \<Rightarrow> string \<times> bytes \<times> int \<Rightarrow> int verdict" where
  "verifyWebAuthnLogin p response expectedChallenge rpId origin credential =
     (case webauthn_verify p response expectedChallenge rpId origin credential of
        Inl e \<Rightarrow> Inl ''error''
      | Inr (verified, newCounter) \<Rightarrow>
          (let counter = snd (snd credential) in
           if \<not> verified then Inl ''verification_failed''
           else if newCounter \<le> counter \<and> counter \<noteq> 0 then Inl ''counter_reused''
           else Inr newCounter))"

section \<open>Challenges\<close>

definition CHALLENGE_BYTES :: nat where
  "CHALLENGE_BYTES = 32"

definition CHALLENGE_TTL_SECONDS :: int where
  "CHALLENGE_TTL_SECONDS = 5 * 60"

text \<open>A nullable text parameter.\<close>

fun sql_optional :: "('y, 'z) services_scheme \<Rightarrow> js option \<Rightarrow> string option res" where
  "sql_optional p None = Inr None"
| "sql_optional p (Some v) = bindE (sql_text p v) (\<lambda>s. Inr (Some s))"

definition issueChallenge ::
    "('y, 'z) services_scheme \<Rightarrow> challenge_purpose \<Rightarrow> js option \<Rightarrow> ('y, string \<times> int) wact" where
  "issueChallenge p purpose cardHash =
     bindA (randomY p CHALLENGE_BYTES) (\<lambda>bs.
     bindA (nowY p) (\<lambda>now.
     let ch = bytes_to_base64url bs; expiresAt = now + CHALLENGE_TTL_SECONDS * 1000 in
     bindA (liftA (sql_optional p cardHash)) (\<lambda>cardText.
     bindA (query p (insert_challenge purpose cardText ch (expiresAt * 1000))) (\<lambda>_.
       retA (ch, expiresAt)))))"

definition consumeChallenge ::
    "('y, 'z) services_scheme \<Rightarrow> challenge_purpose \<Rightarrow> js option \<Rightarrow> js \<Rightarrow> ('y, bool) wact" where
  "consumeChallenge p purpose cardHash ch =
     bindA (liftA (sql_text p ch)) (\<lambda>text.
     bindA (liftA (sql_optional p cardHash)) (\<lambda>cardText.
       query p (consume_challenges purpose cardText text)))"

section \<open>Signed envelopes of sub-cards\<close>

text \<open>\<open>fetchSubCardDocument\<close>: the key in the document at a CID.\<close>

definition get_request :: "string \<Rightarrow> fetch_request" where
  "get_request url = \<lparr>fr_method = ''GET'', fr_url = url, fr_headers = [], fr_body = Undef\<rparr>"

definition fetchSubCardDocument :: "('y, 'z) services_scheme \<Rightarrow> wallet_config \<Rightarrow> string \<Rightarrow> ('y, js) wact" where
  "fetchSubCardDocument p cfg cid =
     bindA (fetchY p (get_request (IPFS_GATEWAY_URL cfg @ ''/ipfs/'' @ cid))) (\<lambda>res.
     bindA (guardA (res_ok res) (JsError (''Error: IPFS gateway fetch failed: '' @ cid @ '' -> HTTP '' @ int_str (fe_status res)))) (\<lambda>_.
     bindA (liftA (fe_json res)) (\<lambda>parsed.
       case parsed of
         Obj _ \<Rightarrow> (case field parsed ''recipient_pubkey'' of
             Str k \<Rightarrow> retA parsed
           | _ \<Rightarrow> throwA (JsError (''Error: SubCardDocument at CID '' @ cid @ '' is missing a string recipient_pubkey field.'')))
       | _ \<Rightarrow> throwA (JsError (''Error: SubCardDocument at CID '' @ cid @ '' is missing a string recipient_pubkey field.'')))))"

definition resolveSubcardPubkey ::
    "('y, 'z) services_scheme \<Rightarrow> wallet_config \<Rightarrow> string \<Rightarrow> ('y, js verdict) wact" where
  "resolveSubcardPubkey p cfg subcardHash =
     bindA (readA (\<lambda>w. Inr (sub_card_doc_cid p subcardHash (outer w)))) (\<lambda>looked.
       case looked of
         Inl e \<Rightarrow> retA (Inl (''on-chain lookup failed: '' @ exn_string e))
       | Inr cidBytes \<Rightarrow>
           (let cid = utf8_decode p cidBytes in
            if cid = [] then retA (Inl ''SubCardEntry has no sub_card_doc_cid (sub-card not found on-chain)'')
            else bindA (caught (fetchSubCardDocument p cfg cid)) (\<lambda>fetched.
              case fetched of
                Inl e \<Rightarrow> retA (Inl (''IPFS fetch failed: '' @ exn_string e))
              | Inr doc \<Rightarrow> retA (Inr (field doc ''recipient_pubkey'')))))"

text \<open>
  The part that \<open>verifyUuidRegistrationEnvelope\<close> and \<open>verifySubcardDeregistrationEnvelope\<close>
  share word for word: the key must hash to the claimed sub-card and verify the payload.
\<close>

definition claimed_hash :: "string \<Rightarrow> string" where
  "claimed_hash subcardHash = strip_0x (to_lower subcardHash)"

definition verify_subcard_payload ::
    "('y, 'z) services_scheme \<Rightarrow> js \<Rightarrow> js \<Rightarrow> string \<Rightarrow> string \<Rightarrow> unit verdict res" where
  "verify_subcard_payload p pubkeyB64 payload subcardHash signature =
     (case keccak256OfBase64Url p pubkeyB64 of
        Inl e \<Rightarrow> Inr (Inl ''resolved recipient_pubkey is not valid base64url'')
      | Inr derivedHash \<Rightarrow>
          if to_lower derivedHash \<noteq> claimed_hash subcardHash
          then Inr (Inl ''keccak256(subcard_pubkey) does not match subcard_hash'')
          else (case fromBase64url p pubkeyB64 of
            Inl e \<Rightarrow> Inr (Inl ''malformed public key or signature encoding'')
          | Inr publicKey \<Rightarrow>
              bindE (canonicalize payload) (\<lambda>message.
                if true_or_throw (ml_dsa44_verify (crypto_ops p) (base64url_to_bytes signature) message publicKey)
                then Inr (Inr ()) else Inr (Inl ''invalid signature''))))"

definition verify_subcard_envelope ::
    "('y, 'z) services_scheme \<Rightarrow> wallet_config \<Rightarrow> js \<Rightarrow> string \<Rightarrow> string \<Rightarrow> ('y, unit verdict) wact" where
  "verify_subcard_envelope p cfg payload subcardHash signature =
     bindA (resolveSubcardPubkey p cfg subcardHash) (\<lambda>resolved.
       case resolved of
         Inl reason \<Rightarrow> retA (Inl (''could not resolve sub-card public key: '' @ reason))
       | Inr pubkeyB64 \<Rightarrow> liftA (verify_subcard_payload p pubkeyB64 payload subcardHash signature))"

record registration_payload =
  rp_card_hash :: string
  rp_subcard_hash :: string
  rp_uuids :: "string list"
  rp_timestamp :: string
  rp_nonce :: string

record deregistration_payload =
  dp_card_hash :: string
  dp_subcard_hash :: string
  dp_timestamp :: string
  dp_nonce :: string

definition registration_js :: "registration_payload \<Rightarrow> js" where
  "registration_js r = Obj [(''card_hash'', Str (rp_card_hash r)), (''subcard_hash'', Str (rp_subcard_hash r)),
     (''uuids'', Arr (map Str (rp_uuids r))), (''timestamp'', Str (rp_timestamp r)), (''nonce'', Str (rp_nonce r))]"

definition deregistration_js :: "deregistration_payload \<Rightarrow> js" where
  "deregistration_js r = Obj [(''card_hash'', Str (dp_card_hash r)), (''subcard_hash'', Str (dp_subcard_hash r)),
     (''timestamp'', Str (dp_timestamp r)), (''nonce'', Str (dp_nonce r))]"

definition verifyUuidRegistrationEnvelope ::
    "('y, 'z) services_scheme \<Rightarrow> wallet_config \<Rightarrow> registration_payload \<times> string \<Rightarrow> ('y, unit verdict) wact" where
  "verifyUuidRegistrationEnvelope p cfg envelope =
     (case envelope of (payload, signature) \<Rightarrow>
       verify_subcard_envelope p cfg (registration_js payload) (rp_subcard_hash payload) signature)"

definition verifySubcardDeregistrationEnvelope ::
    "('y, 'z) services_scheme \<Rightarrow> wallet_config \<Rightarrow> deregistration_payload \<times> string \<Rightarrow> ('y, unit verdict) wact" where
  "verifySubcardDeregistrationEnvelope p cfg envelope =
     (case envelope of (payload, signature) \<Rightarrow>
       verify_subcard_envelope p cfg (deregistration_js payload) (dp_subcard_hash payload) signature)"

end
