(* ===== verification/Wallet_Federation.thy ===== *)
theory Wallet_Federation
  imports Wallet_Auth
begin

text \<open>
  The federation of wallet services (\<open>wallet-service/src/federation\<close>,
  \<open>server/utils/federation-self.ts\<close>, \<open>federation-broadcast.ts\<close>, \<open>server/routes/bindings\<close>,
  \<open>server/routes/federation\<close>): signed announcements of where a card is served, the rule that
  decides which announcement wins, and the replication of keyring blobs. Messages to peers
  are sent in the order of the peer list; the source sends them concurrently.
\<close>

section \<open>Signing\<close>

text \<open>\<open>ml_dsa44.sign\<close> and \<open>getPublicKey\<close> throw on a secret key of the wrong length.\<close>

definition wallet_sign :: "('y, 'z) services_scheme \<Rightarrow> js \<Rightarrow> bytes \<Rightarrow> (string \<times> string) res" where
  "wallet_sign p payload key =
     bindE (canonicalize payload) (\<lambda>message.
       if length key \<noteq> 2560 then Inl (JsError ''Error: secret key of wrong length'')
       else Inr (bytes_to_base64url (ml_dsa44_public_key p key), bytes_to_base64url (ml_dsa44_sign p message key)))"

definition privateKeyBytes :: "wallet_config \<Rightarrow> bytes" where
  "privateKeyBytes cfg = base64url_to_bytes (WALLET_SERVICE_PRIVATE_KEY cfg)"

section \<open>Announcements\<close>

definition announcement_payload :: "string \<Rightarrow> js \<Rightarrow> string \<Rightarrow> string \<Rightarrow> string \<Rightarrow> string \<Rightarrow> js" where
  "announcement_payload ty cardHash walletServiceId endpoint timestamp nonce =
     Obj [(''type'', Str ty), (''card_hash'', cardHash), (''wallet_service_id'', Str walletServiceId),
          (''endpoint'', Str endpoint), (''timestamp'', Str timestamp), (''nonce'', Str nonce)]"

definition buildRegistrationAnnouncement ::
    "('y, 'z) services_scheme \<Rightarrow> js \<Rightarrow> string \<Rightarrow> string \<Rightarrow> bytes \<Rightarrow> ('y, js) wact" where
  "buildRegistrationAnnouncement p cardHash walletServiceId endpoint key =
     bindA (nowY p) (\<lambda>now.
     bindA (randomY p 32) (\<lambda>nonce.
     let payload = announcement_payload ''card_registration'' cardHash walletServiceId endpoint (iso_of_ms p now)
           (bytes_to_base64url nonce) in
     bindA (liftA (wallet_sign p payload key)) (\<lambda>(publicKey, signature).
       retA (Obj [(''payload'', payload),
         (''signatures'', Arr [Obj [(''public_key'', Str publicKey), (''role'', Str ''wallet_service''),
            (''signature'', Str signature)]])]))))"

text \<open>\<open>signatures.find((s) => s.role === role)\<close>.\<close>

fun find_role :: "string \<Rightarrow> js list \<Rightarrow> js option res" where
  "find_role role [] = Inr None"
| "find_role role (s # ss) =
     bindE (js_prop s ''role'') (\<lambda>r. if r = Str role then Inr (Some s) else find_role role ss)"

definition verify_cardholder :: "('y, 'z) services_scheme \<Rightarrow> js \<Rightarrow> bytes \<Rightarrow> js option \<Rightarrow> unit verdict res" where
  "verify_cardholder p payload message cardholderSig =
     (case cardholderSig of
        None \<Rightarrow> Inr (Inl ''card_migration requires a cardholder signature'')
      | Some s \<Rightarrow>
          bindE (js_string ''toLowerCase'' (field payload ''card_hash'')) (\<lambda>cardHash.
          bindE (keccak256OfBase64Url p (field s ''public_key'')) (\<lambda>derived.
            if to_lower derived \<noteq> claimed_hash cardHash then Inr (Inl ''cardholder public key does not match card_hash'')
            else if \<not> verifyMasterCardSignature p message (field s ''signature'') (field s ''public_key'')
            then Inr (Inl ''invalid cardholder signature'') else Inr (Inr ()))))"

definition verifyAnnouncementEnvelope :: "('y, 'z) services_scheme \<Rightarrow> js \<Rightarrow> js list \<Rightarrow> unit verdict res" where
  "verifyAnnouncementEnvelope p payload signatures =
     bindE (find_role ''wallet_service'' signatures) (\<lambda>found.
       case found of
         None \<Rightarrow> Inr (Inl ''missing wallet_service signature'')
       | Some s \<Rightarrow>
           bindE (canonicalize payload) (\<lambda>message.
             if \<not> verifyPeerWalletSignature p message (field s ''signature'') (field s ''public_key'')
                   (field payload ''wallet_service_id'')
             then Inr (Inl ''invalid wallet_service signature'')
             else if field payload ''type'' = Str ''card_migration''
             then bindE (find_role ''cardholder'' signatures) (verify_cardholder p payload message)
             else Inr (Inr ())))"

definition shouldAcceptAnnouncement :: "('y, 'z) services_scheme \<Rightarrow> routing_row option \<Rightarrow> js \<Rightarrow> bool" where
  "shouldAcceptAnnouncement p existing incoming =
     (case existing of None \<Rightarrow> True
      | Some e \<Rightarrow>
          let ty = field incoming ''type'' in
          if rt_type e = Card_Migration \<and> ty = Str ''card_registration'' then False
          else if rt_type e = Card_Registration \<and> ty = Str ''card_migration'' then True
          else num_less (Fin (get_time (rt_announced_at e))) (date_ms p (field incoming ''timestamp'')))"

text \<open>The row \<open>upsertRoutingEntry\<close> is called with; the type is checked by the table.\<close>

definition binding_type_of :: "string \<Rightarrow> binding_type res" where
  "binding_type_of s = (if s = ''card_registration'' then Inr Card_Registration
     else if s = ''card_migration'' then Inr Card_Migration else Inl check_violation)"

definition routing_row_of :: "('y, 'z) services_scheme \<Rightarrow> js \<Rightarrow> js \<Rightarrow> routing_row res" where
  "routing_row_of p payload signatures =
     bindE (sql_text p (field payload ''card_hash'')) (\<lambda>cardHash.
     bindE (sql_text p (field payload ''wallet_service_id'')) (\<lambda>serviceId.
     bindE (sql_text p (field payload ''endpoint'')) (\<lambda>endpoint.
     bindE (sql_text p (field payload ''type'')) (\<lambda>ty.
     bindE (sql_date (date_ms p (field payload ''timestamp''))) (\<lambda>announcedAt.
     bindE (sql_text p (field payload ''nonce'')) (\<lambda>nonce.
     bindE (binding_type_of ty) (\<lambda>bt.
       Inr \<lparr>rt_card_hash = cardHash, rt_wallet_service_id = serviceId, rt_endpoint = endpoint, rt_type = bt,
            rt_announced_at = announcedAt, rt_nonce = nonce, rt_signatures = sql_jsonb p signatures\<rparr>)))))))"

definition store_binding :: "('y, 'z) services_scheme \<Rightarrow> js \<Rightarrow> js \<Rightarrow> ('y, unit) wact" where
  "store_binding p payload signatures =
     bindA (liftA (routing_row_of p payload signatures)) (\<lambda>row. query p (upsertRoutingEntry row))"

text \<open>\<open>findRoutingEntry\<close> of a value that may be missing: \<open>card_hash = NULL\<close> holds for no row.\<close>

definition find_routing :: "('y, 'z) services_scheme \<Rightarrow> js \<Rightarrow> ('y, routing_row option) wact" where
  "find_routing p cardHash =
     (if cardHash = Null \<or> cardHash = Undef then query p (\<lambda>now d. (Inr None, d))
      else bindA (liftA (sql_text p cardHash)) (\<lambda>c. query p (findRoutingEntry c)))"

definition record_nonce :: "('y, 'z) services_scheme \<Rightarrow> js \<Rightarrow> ('y, bool) wact" where
  "record_nonce p nonce = bindA (liftA (sql_text p nonce)) (\<lambda>n. query p (recordNonceIfNew n))"

definition ANNOUNCE_RATE_LIMIT :: int where
  "ANNOUNCE_RATE_LIMIT = 100"

definition apply_announcement :: "('y, 'z) services_scheme \<Rightarrow> js \<Rightarrow> js \<Rightarrow> ('y, bool) wact" where
  "apply_announcement p payload signatures =
     bindA (find_routing p (field payload ''card_hash'')) (\<lambda>existing.
       if shouldAcceptAnnouncement p existing payload
       then bindA (store_binding p payload signatures) (\<lambda>_. retA True) else retA False)"

text \<open>\<open>POST /bindings/announce\<close>: the answer is \<open>applied\<close>.\<close>

definition announce_route :: "('y, 'z) services_scheme \<Rightarrow> wallet_config \<Rightarrow> js \<Rightarrow> ('y, bool) wact" where
  "announce_route p cfg body =
     bindA (liftA (opt_prop body ''payload'')) (\<lambda>payload.
       case (truthy payload, field body ''signatures'') of
         (True, Arr signatures) \<Rightarrow>
           bindA (liftA (verifyAnnouncementEnvelope p payload signatures)) (\<lambda>verification.
             case verification of
               Inl reason \<Rightarrow> throwA (HttpError 401 (''Invalid announcement: '' @ reason @ ''.''))
             | Inr _ \<Rightarrow>
                 bindA (enforceRateLimit p (KV_BACKEND cfg)
                          (bindingAnnounceRateKey (literal p (field payload ''wallet_service_id''))) ANNOUNCE_RATE_LIMIT 60) (\<lambda>_.
                 bindA (record_nonce p (field payload ''nonce'')) (\<lambda>isNew.
                 bindA (guardA isNew (HttpError 409 ''Nonce already seen - possible replay.'')) (\<lambda>_.
                   apply_announcement p payload (Arr signatures)))))
       | _ \<Rightarrow> throwA (HttpError 400 ''payload and signatures are required.''))"

text \<open>\<open>GET /bindings\<close>.\<close>

definition binding_type_text :: "binding_type \<Rightarrow> string" where
  "binding_type_text ty = (case ty of Card_Registration \<Rightarrow> ''card_registration'' | Card_Migration \<Rightarrow> ''card_migration'')"

definition binding_envelope :: "('y, 'z) services_scheme \<Rightarrow> routing_row \<Rightarrow> js" where
  "binding_envelope p row =
     Obj [(''payload'', announcement_payload (binding_type_text (rt_type row)) (Str (rt_card_hash row))
            (rt_wallet_service_id row) (rt_endpoint row) (iso_of_ms p (get_time (rt_announced_at row))) (rt_nonce row)),
          (''signatures'', rt_signatures row)]"

definition bindings_route :: "('y, 'z) services_scheme \<Rightarrow> ('y, js) wact" where
  "bindings_route p = bindA (query p listRoutingTable) (\<lambda>rows.
     retA (Obj [(''bindings'', Arr (map (binding_envelope p) rows))]))"

section \<open>Keyring replication\<close>

definition signed_keyring_message :: "('y, 'z) services_scheme \<Rightarrow> wallet_config \<Rightarrow> js \<Rightarrow> js res" where
  "signed_keyring_message p cfg payload =
     bindE (wallet_sign p payload (privateKeyBytes cfg)) (\<lambda>(publicKey, signature).
       Inr (Obj [(''payload'', payload), (''wallet_service_id'', Str (WALLET_SERVICE_ID cfg)),
                 (''public_key'', Str publicKey), (''signature'', Str signature)]))"

definition buildSignedKeyringMessage ::
    "('y, 'z) services_scheme \<Rightarrow> wallet_config \<Rightarrow> string \<Rightarrow> js \<Rightarrow> js \<Rightarrow> js res" where
  "buildSignedKeyringMessage p cfg keyringId cardHash encryptedBlob =
     signed_keyring_message p cfg
       (Obj [(''keyring_id'', Str keyringId), (''card_hash'', cardHash), (''encrypted_blob'', encryptedBlob)])"

definition buildSignedKeyringDeleteMessage ::
    "('y, 'z) services_scheme \<Rightarrow> wallet_config \<Rightarrow> string \<Rightarrow> js res" where
  "buildSignedKeyringDeleteMessage p cfg keyringId =
     signed_keyring_message p cfg (Obj [(''keyring_id'', Str keyringId)])"

definition verifySignedKeyringMessage :: "('y, 'z) services_scheme \<Rightarrow> js \<Rightarrow> bool res" where
  "verifySignedKeyringMessage p message =
     bindE (canonicalize (field message ''payload'')) (\<lambda>bytes.
       Inr (verifyPeerWalletSignature p bytes (field message ''signature'') (field message ''public_key'')
              (field message ''wallet_service_id'')))"

definition bad_signature :: exn where
  "bad_signature = HttpError 401 ''Invalid signature.''"

text \<open>\<open>POST /federation/keyrings\<close> and \<open>POST /federation/keyrings/delete\<close>.\<close>

definition keyring_replica_route :: "('y, 'z) services_scheme \<Rightarrow> js \<Rightarrow> ('y, unit) wact" where
  "keyring_replica_route p message =
     bindA (liftA (bindE (opt_prop message ''payload'') (\<lambda>pl. opt_prop pl ''keyring_id''))) (\<lambda>keyringId.
     let payload = field message ''payload'' in
     bindA (guardA (truthy keyringId \<and> truthy (field payload ''card_hash'') \<and> truthy (field payload ''encrypted_blob''))
              (HttpError 400 ''payload.keyring_id, card_hash, and encrypted_blob are required.'')) (\<lambda>_.
     bindA (liftA (verifySignedKeyringMessage p message)) (\<lambda>valid.
     bindA (guardA valid bad_signature) (\<lambda>_.
     bindA (liftA (sql_text p keyringId)) (\<lambda>k.
     bindA (liftA (sql_text p (field payload ''card_hash''))) (\<lambda>c.
     bindA (liftA (sql_text p (field payload ''encrypted_blob''))) (\<lambda>b.
       query p (insertKeyringBlob k c b))))))))"

definition keyring_delete_route :: "('y, 'z) services_scheme \<Rightarrow> js \<Rightarrow> ('y, unit) wact" where
  "keyring_delete_route p message =
     bindA (liftA (bindE (opt_prop message ''payload'') (\<lambda>pl. opt_prop pl ''keyring_id''))) (\<lambda>keyringId.
     bindA (guardA (truthy keyringId) (HttpError 400 ''payload.keyring_id is required.'')) (\<lambda>_.
     bindA (liftA (verifySignedKeyringMessage p message)) (\<lambda>valid.
     bindA (guardA valid bad_signature) (\<lambda>_.
     bindA (liftA (sql_text p keyringId)) (\<lambda>k. query p (deleteKeyringBlob k))))))"

section \<open>Telling the peers\<close>

definition post_request :: "string \<Rightarrow> js \<Rightarrow> fetch_request" where
  "post_request url body = \<lparr>fr_method = ''POST'', fr_url = url,
     fr_headers = [(''Content-Type'', ''application/json'')], fr_body = body\<rparr>"

definition postToAllPeers :: "('y, 'z) services_scheme \<Rightarrow> wallet_config \<Rightarrow> string \<Rightarrow> js \<Rightarrow> ('y, unit) wact" where
  "postToAllPeers p cfg path body =
     forA (\<lambda>peer. bindA (caught (fetchY p (post_request (pc_endpoint peer @ path) body))) (\<lambda>_. retA ())) (PEER_LIST cfg)"

definition broadcastAnnouncement :: "('y, 'z) services_scheme \<Rightarrow> wallet_config \<Rightarrow> js \<Rightarrow> ('y, unit) wact" where
  "broadcastAnnouncement p cfg envelope = postToAllPeers p cfg ''/bindings/announce'' envelope"

definition broadcastKeyring :: "('y, 'z) services_scheme \<Rightarrow> wallet_config \<Rightarrow> js \<Rightarrow> ('y, unit) wact" where
  "broadcastKeyring p cfg message = postToAllPeers p cfg ''/federation/keyrings'' message"

definition broadcastKeyringDelete :: "('y, 'z) services_scheme \<Rightarrow> wallet_config \<Rightarrow> js \<Rightarrow> ('y, unit) wact" where
  "broadcastKeyringDelete p cfg message = postToAllPeers p cfg ''/federation/keyrings/delete'' message"

definition announceOwnCardRegistration :: "('y, 'z) services_scheme \<Rightarrow> wallet_config \<Rightarrow> js \<Rightarrow> ('y, unit) wact" where
  "announceOwnCardRegistration p cfg cardHash =
     bindA (buildRegistrationAnnouncement p cardHash (WALLET_SERVICE_ID cfg) (WALLET_SERVICE_ENDPOINT cfg)
              (privateKeyBytes cfg)) (\<lambda>envelope.
     let payload = field envelope ''payload'' in
     bindA (record_nonce p (field payload ''nonce'')) (\<lambda>isNew.
     bindA (if isNew then
              bindA (find_routing p cardHash) (\<lambda>existing.
                if existing = None \<or> rt_wallet_service_id (the existing) \<noteq> WALLET_SERVICE_ID cfg
                then store_binding p payload (field envelope ''signatures'') else retA ())
            else retA ()) (\<lambda>_.
       broadcastAnnouncement p cfg envelope)))"

definition replicateKeyringBlob ::
    "('y, 'z) services_scheme \<Rightarrow> wallet_config \<Rightarrow> string \<Rightarrow> js \<Rightarrow> js \<Rightarrow> ('y, unit) wact" where
  "replicateKeyringBlob p cfg keyringId cardHash encryptedBlob =
     bindA (liftA (buildSignedKeyringMessage p cfg keyringId cardHash encryptedBlob)) (broadcastKeyring p cfg)"

definition replicateKeyringDelete :: "('y, 'z) services_scheme \<Rightarrow> wallet_config \<Rightarrow> string \<Rightarrow> ('y, unit) wact" where
  "replicateKeyringDelete p cfg keyringId =
     bindA (liftA (buildSignedKeyringDeleteMessage p cfg keyringId)) (broadcastKeyringDelete p cfg)"

end
