(* ===== verification/Wallet_Accounts.thy ===== *)
theory Wallet_Accounts
  imports Wallet_Federation
begin

text \<open>
  Accounts, keyrings and passkey logins (\<open>wallet-service/src/routes/accounts-*.ts\<close>,
  \<open>keyring-*.ts\<close>, \<open>keyrings-get.ts\<close>, \<open>create-backup.ts\<close>, \<open>server/routes/accounts\<close>,
  \<open>server/routes/auth\<close>). Request bodies are arbitrary JSON values. A handler that returns
  \<open>{ ok: false, statusCode, statusMessage }\<close> ends in the HTTP error of that status, which
  is what its route makes of it.
\<close>

section \<open>Shared steps\<close>

definition refuse :: "int \<Rightarrow> string \<Rightarrow> ('y, 'a) wact" where
  "refuse code msg = throwA (HttpError code msg)"

definition need :: "bool \<Rightarrow> int \<Rightarrow> string \<Rightarrow> ('y, unit) wact" where
  "need c code msg = guardA c (HttpError code msg)"

definition find_account :: "('y, 'z) services_scheme \<Rightarrow> js \<Rightarrow> ('y, account_row option) wact" where
  "find_account p cardHash = bindA (liftA (sql_text p cardHash)) (\<lambda>c. query p (findAccountByCardHash c))"

definition no_account :: string where
  "no_account = ''No account found for this card_hash.''"

definition existing_account :: "('y, 'z) services_scheme \<Rightarrow> js \<Rightarrow> ('y, account_row) wact" where
  "existing_account p cardHash = bindA (find_account p cardHash) (\<lambda>account.
     case account of None \<Rightarrow> refuse 404 no_account | Some a \<Rightarrow> retA a)"

definition store_blob :: "('y, 'z) services_scheme \<Rightarrow> string \<Rightarrow> js \<Rightarrow> js \<Rightarrow> ('y, unit) wact" where
  "store_blob p keyringId cardHash encryptedBlob =
     bindA (liftA (sql_text p cardHash)) (\<lambda>c.
     bindA (liftA (sql_text p encryptedBlob)) (\<lambda>b.
       query p (insertKeyringBlob keyringId c b)))"

text \<open>\<open>Promise.all([a, b])\<close>: both run, and the first failure is the failure of the whole.\<close>

definition bothA :: "('y, unit) wact \<Rightarrow> ('y, unit) wact \<Rightarrow> ('y, unit) wact" where
  "bothA m n = bindA (caught m) (\<lambda>a. bindA (caught n) (\<lambda>b. bindA (liftA a) (\<lambda>_. liftA b)))"

definition fresh_secret :: "('y, 'z) services_scheme \<Rightarrow> secrets_backend \<Rightarrow> ('y, bytes \<times> string \<times> string) wact" where
  "fresh_secret p backend =
     bindA (randomY p 32) (\<lambda>plain.
     bindA (encryptSecret p backend plain) (\<lambda>(ciphertext, dekEnc). retA (plain, ciphertext, dekEnc)))"

section \<open>Account creation\<close>

definition ACCOUNT_RATE_LIMIT :: int where
  "ACCOUNT_RATE_LIMIT = 5"

definition account_rate :: "('y, 'z) services_scheme \<Rightarrow> wallet_config \<Rightarrow> string \<Rightarrow> ('y, unit) wact" where
  "account_rate p cfg ip =
     enforceRateLimit p (KV_BACKEND cfg) (accountCreationRateKey (hashIp p ip)) ACCOUNT_RATE_LIMIT (60 * 60)"

definition handleAccountsChallenge ::
    "('y, 'z) services_scheme \<Rightarrow> wallet_config \<Rightarrow> string \<Rightarrow> ('y, string \<times> string) wact" where
  "handleAccountsChallenge p cfg ip =
     bindA (account_rate p cfg ip) (\<lambda>_.
     bindA (issueChallenge p Account_Creation None) (\<lambda>(ch, expiresAt). retA (ch, iso_of_ms p expiresAt)))"

definition create_input :: "('y, 'z) services_scheme \<Rightarrow> js \<Rightarrow> string \<Rightarrow> string \<Rightarrow> string \<Rightarrow> create_account_input res" where
  "create_input p body keyringId ciphertext dekEnc =
     bindE (sql_text p (field body ''card_hash'')) (\<lambda>cardHash.
     bindE (sql_text p (field body ''master_pubkey'')) (\<lambda>masterPubkey.
     bindE (sql_text p (field body ''webauthn_credential_id'')) (\<lambda>credentialId.
     bindE (sql_text p (field body ''webauthn_public_key'')) (\<lambda>publicKey.
       Inr \<lparr>ca_cardHash = cardHash, ca_masterPubkey = masterPubkey, ca_keyringId = keyringId,
            ca_serviceSecretEnc = ciphertext, ca_serviceSecretDekEnc = dekEnc,
            ca_webauthnCredentialId = credentialId, ca_webauthnPublicKey = publicKey\<rparr>))))"

definition insert_account ::
    "('y, 'z) services_scheme \<Rightarrow> js \<Rightarrow> string \<Rightarrow> string \<Rightarrow> string \<Rightarrow> ('y, account_row) wact" where
  "insert_account p body keyringId ciphertext dekEnc =
     catchA (bindA (liftA (create_input p body keyringId ciphertext dekEnc)) (\<lambda>inp.
             bindA (uuidY p) (\<lambda>rid. query p (createAccount rid inp))))
       (\<lambda>err. case err of
          DbError state msg \<Rightarrow> if state = ''23505'' then refuse 409 ''Account or credential already registered.'' else throwA err
        | _ \<Rightarrow> throwA err)"

definition verify_challenge_signature ::
    "('y, 'z) services_scheme \<Rightarrow> js \<Rightarrow> js \<Rightarrow> js \<Rightarrow> ('y, unit) wact" where
  "verify_challenge_signature p ch signature masterPubkey =
     bindA (liftA (fromBase64url p ch)) (\<lambda>challengeBytes.
       need (verifyMasterCardSignature p challengeBytes signature masterPubkey) 401 ''Invalid master card key signature.'')"

record account_created =
  cr_service_secret :: string
  cr_account_id :: string
  cr_keyring_id :: string
  cr_session_token :: string
  cr_expires_at :: string

definition handleAccountsCreate ::
    "('y, 'z) services_scheme \<Rightarrow> wallet_config \<Rightarrow> string \<Rightarrow> js \<Rightarrow> ('y, account_created) wact" where
  "handleAccountsCreate p cfg ip body =
     bindA (account_rate p cfg ip) (\<lambda>_.
     let ch = field body ''challenge''; signature = field body ''signature''; cardHash = field body ''card_hash'';
         masterPubkey = field body ''master_pubkey''; blob = field body ''encrypted_keyring_blob'' in
     bindA (need (truthy ch \<and> truthy signature \<and> truthy cardHash \<and> truthy masterPubkey \<and>
                  truthy (field body ''webauthn_credential_id'') \<and> truthy (field body ''webauthn_public_key'') \<and> truthy blob) 400
              ''challenge, signature, card_hash, master_pubkey, webauthn_credential_id, webauthn_public_key, and encrypted_keyring_blob are all required.'') (\<lambda>_.
     bindA (consumeChallenge p Account_Creation None ch) (\<lambda>consumed.
     bindA (need consumed 401 ''Invalid or expired challenge.'') (\<lambda>_.
     bindA (verify_challenge_signature p ch signature masterPubkey) (\<lambda>_.
     bindA (find_account p cardHash) (\<lambda>existing.
     bindA (need (existing = None) 409 ''An account already exists for this card_hash.'') (\<lambda>_.
     bindA (liftA (keccak256OfBase64Url p blob)) (\<lambda>keyringId.
     bindA (liftA (createSecretsService cfg)) (\<lambda>backend.
     bindA (fresh_secret p backend) (\<lambda>(plain, ciphertext, dekEnc).
     bindA (insert_account p body keyringId ciphertext dekEnc) (\<lambda>account.
     bindA (store_blob p keyringId cardHash blob) (\<lambda>_.
     bindA (bothA (announceOwnCardRegistration p cfg cardHash) (replicateKeyringBlob p cfg keyringId cardHash blob)) (\<lambda>_.
     bindA (issueSessionToken p cardHash (SESSION_TOKEN_SECRET cfg)) (\<lambda>(token, expiresAt).
       retA \<lparr>cr_service_secret = bytes_to_base64url plain, cr_account_id = ha_id account, cr_keyring_id = keyringId,
             cr_session_token = token, cr_expires_at = iso_of_ms p expiresAt\<rparr>))))))))))))))"

section \<open>Keyrings\<close>

definition handleKeyringChallenge ::
    "('y, 'z) services_scheme \<Rightarrow> string \<Rightarrow> ('y, string \<times> string) wact" where
  "handleKeyringChallenge p cardHash =
     bindA (need (cardHash \<noteq> []) 400 ''card_hash is required.'') (\<lambda>_.
     bindA (existing_account p (Str cardHash)) (\<lambda>_.
     bindA (issueChallenge p Keyring_Rotation (Some (Str cardHash))) (\<lambda>(ch, expiresAt).
       retA (ch, iso_of_ms p expiresAt))))"

definition rotate_keyring ::
    "('y, 'z) services_scheme \<Rightarrow> secrets_backend \<Rightarrow> string \<Rightarrow> string \<Rightarrow> js \<Rightarrow> ('y, bytes) wact" where
  "rotate_keyring p backend cardHash newKeyringId blob =
     bindA (fresh_secret p backend) (\<lambda>(plain, ciphertext, dekEnc).
     bindA (store_blob p newKeyringId (Str cardHash) blob) (\<lambda>_.
     bindA (query p (updateServiceSecretAndKeyring cardHash newKeyringId ciphertext dekEnc)) (\<lambda>_.
       retA plain)))"

definition replace_keyring ::
    "('y, 'z) services_scheme \<Rightarrow> secrets_backend \<Rightarrow> account_row \<Rightarrow> string \<Rightarrow> string \<Rightarrow> js \<Rightarrow> ('y, bytes) wact" where
  "replace_keyring p backend account cardHash newKeyringId blob =
     bindA (store_blob p newKeyringId (Str cardHash) blob) (\<lambda>_.
     bindA (query p (updateKeyringOnly cardHash newKeyringId)) (\<lambda>_.
       decryptSecret p backend (ha_service_secret_enc account) (ha_service_secret_dek_enc account)))"

text \<open>The service secret and the new keyring id.\<close>

definition handleKeyringUpdate ::
    "('y, 'z) services_scheme \<Rightarrow> wallet_config \<Rightarrow> string \<Rightarrow> js \<Rightarrow> ('y, string \<times> string) wact" where
  "handleKeyringUpdate p cfg cardHash body =
     bindA (need (cardHash \<noteq> []) 400 ''card_hash is required.'') (\<lambda>_.
     let ch = field body ''challenge''; signature = field body ''signature'';
         blob = field body ''new_encrypted_keyring_blob'';
         rotate = (field body ''rotate_service_secret'' = Undef \<or> truthy (field body ''rotate_service_secret'')) in
     bindA (need (truthy ch \<and> truthy signature \<and> truthy blob) 400
              ''challenge, signature, and new_encrypted_keyring_blob are all required.'') (\<lambda>_.
     bindA (existing_account p (Str cardHash)) (\<lambda>account.
     bindA (consumeChallenge p Keyring_Rotation (Some (Str cardHash)) ch) (\<lambda>consumed.
     bindA (need consumed 401 ''Invalid or expired challenge.'') (\<lambda>_.
     bindA (verify_challenge_signature p ch signature (Str (ha_master_pubkey account))) (\<lambda>_.
     bindA (liftA (keccak256OfBase64Url p blob)) (\<lambda>newKeyringId.
     bindA (liftA (createSecretsService cfg)) (\<lambda>backend.
     bindA (if rotate then rotate_keyring p backend cardHash newKeyringId blob
            else replace_keyring p backend account cardHash newKeyringId blob) (\<lambda>plain.
     bindA (bothA (replicateKeyringBlob p cfg newKeyringId (Str cardHash) blob)
                  (replicateKeyringDelete p cfg (ha_keyring_id account))) (\<lambda>_.
     bindA (if rotate then invalidateSessionsForCard p (KV_BACKEND cfg) cardHash else retA ()) (\<lambda>_.
       retA (bytes_to_base64url plain, newKeyringId))))))))))))"

definition handleKeyringsGet :: "('y, 'z) services_scheme \<Rightarrow> string \<Rightarrow> ('y, string) wact" where
  "handleKeyringsGet p keyringId =
     bindA (need (keyringId \<noteq> []) 400 ''keyring_id is required.'') (\<lambda>_.
     bindA (liftA (sql_string keyringId)) (\<lambda>k.
     bindA (query p (findKeyringBlob k)) (\<lambda>blob.
       case blob of None \<Rightarrow> refuse 404 ''No replica of this keyring_id held locally.''
       | Some b \<Rightarrow> retA (kb_encrypted_blob b))))"

section \<open>The service secret\<close>

definition forbidden :: string where
  "forbidden = ''Session token does not authorize this card_hash.''"

definition CALLS_PER_SESSION :: int where
  "CALLS_PER_SESSION = 10"

text \<open>\<open>GET /accounts/{card_hash}/service-secret\<close>.\<close>

definition service_secret_route ::
    "('y, 'z) services_scheme \<Rightarrow> wallet_config \<Rightarrow> string \<Rightarrow> string option \<Rightarrow> ('y, string) wact" where
  "service_secret_route p cfg cardHash header =
     bindA (need (cardHash \<noteq> []) 400 ''card_hash is required.'') (\<lambda>_.
     bindA (requireSessionTokenRaw p cfg header) (\<lambda>(token, payload).
     bindA (need (field payload ''card_hash'' = Str cardHash) 403 forbidden) (\<lambda>_.
     bindA (enforceRateLimit p (KV_BACKEND cfg) (serviceSecretCallsKey (sessionTokenId p token)) CALLS_PER_SESSION
              SESSION_TTL_SECONDS) (\<lambda>_.
     bindA (existing_account p (Str cardHash)) (\<lambda>account.
     bindA (liftA (createSecretsService cfg)) (\<lambda>backend.
     bindA (decryptSecret p backend (ha_service_secret_enc account) (ha_service_secret_dek_enc account)) (\<lambda>plain.
       retA (bytes_to_base64url plain))))))))"

section \<open>Backups\<close>

definition backup_type_of :: "js \<Rightarrow> backup_type option" where
  "backup_type_of v = (if v = Str ''synced_passkey'' then Some Synced_Passkey
     else if v = Str ''yubikey'' then Some Yubikey else None)"

definition insert_backup ::
    "('y, 'z) services_scheme \<Rightarrow> string \<Rightarrow> backup_type \<Rightarrow> js \<Rightarrow> ('y, backup_row) wact" where
  "insert_backup p holderId ty body =
     bindA (liftA (sql_text p (field body ''wrapped_blob''))) (\<lambda>wrapped.
     bindA (liftA (sql_text p (field body ''keyring_id''))) (\<lambda>keyringId.
     bindA (liftA (sql_text p (field body ''cancellation_pubkey''))) (\<lambda>pubkey.
     bindA (uuidY p) (\<lambda>rid.
       query p (createBackupRegistration (sql_jsonb p) rid holderId ty wrapped keyringId
                  (field body ''notification_channels'') pubkey)))))"

definition has_channel :: "js \<Rightarrow> bool" where
  "has_channel channels \<longleftrightarrow> truthy (field channels ''email'') \<or> truthy (field channels ''sms'') \<or>
     truthy (field channels ''webhook'') \<or> truthy (field channels ''secondary_contact'')"

definition handleCreateBackup ::
    "('y, 'z) services_scheme \<Rightarrow> wallet_config \<Rightarrow> string \<Rightarrow> string option \<Rightarrow> js \<Rightarrow> ('y, string) wact" where
  "handleCreateBackup p cfg cardHash header body =
     bindA (need (cardHash \<noteq> []) 400 ''card_hash is required.'') (\<lambda>_.
     bindA (requireSessionTokenRaw p cfg header) (\<lambda>(token, payload).
     bindA (need (field payload ''card_hash'' = Str cardHash) 403 forbidden) (\<lambda>_.
     let channels = field body ''notification_channels'' in
     case backup_type_of (field body ''type'') of
       None \<Rightarrow> refuse 400 ''type must be synced_passkey or yubikey.''
     | Some ty \<Rightarrow>
         bindA (need (truthy (field body ''wrapped_blob'') \<and> truthy (field body ''keyring_id'') \<and> truthy channels \<and>
                      truthy (field body ''cancellation_pubkey'')) 400
                  ''wrapped_blob, keyring_id, notification_channels, and cancellation_pubkey are all required.'') (\<lambda>_.
         bindA (need (has_channel channels) 400 ''At least one notification channel is required.'') (\<lambda>_.
         bindA (existing_account p (Str cardHash)) (\<lambda>account.
         bindA (insert_backup p (ha_id account) ty body) (\<lambda>backup. retA (br_id backup))))))))"

definition find_backup :: "('y, 'z) services_scheme \<Rightarrow> js \<Rightarrow> ('y, backup_row option) wact" where
  "find_backup p backupId = bindA (liftA (sql_uuid p backupId)) (\<lambda>u. query p (findBackupRegistrationById u))"

definition backup_of :: "('y, 'z) services_scheme \<Rightarrow> account_row \<Rightarrow> js \<Rightarrow> ('y, backup_row) wact" where
  "backup_of p account backupId = bindA (find_backup p backupId) (\<lambda>found.
     case found of None \<Rightarrow> refuse 404 ''No backup registration found.''
     | Some b \<Rightarrow> if br_holder_id b = ha_id account then retA b else refuse 404 ''No backup registration found.'')"

text \<open>\<open>GET /accounts/{card_hash}/backups/{backup_id}\<close>: everything but the wrapped blob.\<close>

definition backup_type_text :: "backup_type \<Rightarrow> string" where
  "backup_type_text ty = (case ty of Synced_Passkey \<Rightarrow> ''synced_passkey'' | Yubikey \<Rightarrow> ''yubikey'')"

definition backup_view :: "('y, 'z) services_scheme \<Rightarrow> backup_row \<Rightarrow> js" where
  "backup_view p b = Obj [(''backup_id'', Str (br_id b)), (''type'', Str (backup_type_text (br_type b))),
     (''keyring_id'', Str (br_keyring_id b)), (''notification_channels'', br_notification_channels b),
     (''cancellation_pubkey'', Str (br_cancellation_pubkey b)),
     (''created_at'', Str (iso_of_ms p (get_time (br_created_at b))))]"

definition backup_get_route ::
    "('y, 'z) services_scheme \<Rightarrow> wallet_config \<Rightarrow> string \<Rightarrow> string \<Rightarrow> string option \<Rightarrow> ('y, js) wact" where
  "backup_get_route p cfg cardHash backupId header =
     bindA (need (cardHash \<noteq> [] \<and> backupId \<noteq> []) 400 ''card_hash and backup_id are required.'') (\<lambda>_.
     bindA (requireSessionTokenRaw p cfg header) (\<lambda>(token, payload).
     bindA (need (field payload ''card_hash'' = Str cardHash) 403 forbidden) (\<lambda>_.
     bindA (existing_account p (Str cardHash)) (\<lambda>account.
     bindA (backup_of p account (Str backupId)) (\<lambda>backup. retA (backup_view p backup))))))"

section \<open>Passkey login\<close>

definition PASSKEY_RATE_LIMIT :: int where
  "PASSKEY_RATE_LIMIT = 20"

text \<open>\<open>POST /auth/passkey/challenge\<close>: challenge, credential id and expiry.\<close>

definition passkey_challenge_route ::
    "('y, 'z) services_scheme \<Rightarrow> wallet_config \<Rightarrow> js \<Rightarrow> ('y, string \<times> string \<times> string) wact" where
  "passkey_challenge_route p cfg body =
     (let cardHash = field body ''card_hash'' in
      bindA (need (truthy cardHash) 400 ''card_hash is required.'') (\<lambda>_.
      bindA (enforceRateLimit p (KV_BACKEND cfg) (challengeRateKey ''passkey_login'' (literal p cardHash))
               PASSKEY_RATE_LIMIT (60 * 60)) (\<lambda>_.
      bindA (existing_account p cardHash) (\<lambda>account.
      bindA (need (truthy_text (ha_webauthn_credential_id account)) 404 no_account) (\<lambda>_.
      bindA (issueChallenge p Passkey_Login (Some cardHash)) (\<lambda>(ch, expiresAt).
        retA (ch, the (ha_webauthn_credential_id account), iso_of_ms p expiresAt)))))))"

text \<open>\<open>POST /auth/passkey/login\<close>: the session token and its expiry.\<close>

definition passkey_login_route ::
    "('y, 'z) services_scheme \<Rightarrow> wallet_config \<Rightarrow> js \<Rightarrow> ('y, string \<times> string) wact" where
  "passkey_login_route p cfg body =
     (let cardHash = field body ''card_hash''; ch = field body ''challenge''; assertion = field body ''assertion'' in
      bindA (need (truthy cardHash \<and> truthy ch \<and> truthy assertion) 400
               ''card_hash, challenge, and assertion are required.'') (\<lambda>_.
      bindA (existing_account p cardHash) (\<lambda>account.
      bindA (need (truthy_text (ha_webauthn_credential_id account) \<and> truthy_text (ha_webauthn_public_key account))
               404 no_account) (\<lambda>_.
      bindA (consumeChallenge p Passkey_Login (Some cardHash) ch) (\<lambda>consumed.
      bindA (need consumed 401 ''Invalid or expired challenge.'') (\<lambda>_.
      case verifyWebAuthnLogin p assertion ch (WEBAUTHN_RP_ID cfg) (WEBAUTHN_ORIGIN cfg)
             (the (ha_webauthn_credential_id account), base64url_to_bytes (the (ha_webauthn_public_key account)),
              ha_webauthn_sign_count account) of
        Inl reason \<Rightarrow> refuse 401 (''WebAuthn verification failed: '' @ reason @ ''.'')
      | Inr newCounter \<Rightarrow>
          bindA (liftA (sql_text p cardHash)) (\<lambda>c.
          bindA (query p (updateWebAuthnSignCount c newCounter)) (\<lambda>_.
          bindA (issueSessionToken p cardHash (SESSION_TOKEN_SECRET cfg)) (\<lambda>(token, expiresAt).
            retA (token, iso_of_ms p expiresAt))))))))))"

end
