(* ===== verification/Wallet_Recovery.thy ===== *)
theory Wallet_Recovery
  imports Wallet_Accounts
begin

text \<open>
  Recovery windows and their notifications (\<open>wallet-service/server/routes/recovery\<close>,
  \<open>accounts/[card_hash]/recovery.post.ts\<close>, \<open>server/utils/notification-*.ts\<close>,
  \<open>src/notifications\<close>, \<open>server/tasks/sweep-notification-retries.ts\<close>). Requests that the source
  sends concurrently are sent in order; the dash of the mail subject is written as a hyphen.
\<close>

section \<open>Templates\<close>

record notification_context =
  nc_recoveryId :: string
  nc_method :: string
  nc_initiatedAt :: js_number
  nc_cancellationCode :: string

definition method_label :: "string \<Rightarrow> string" where
  "method_label m = (if m = ''synced_passkey'' then ''synced passkey'' else ''YubiKey'')"

text \<open>\<open>date.toISOString()\<close>.\<close>

definition to_iso :: "('h) host_scheme \<Rightarrow> js_number \<Rightarrow> string res" where
  "to_iso h t = (case t of Fin ms \<Rightarrow> Inr (iso_of_ms h ms) | _ \<Rightarrow> Inl (JsError ''RangeError: Invalid time value''))"

definition initiated :: js where
  "initiated = Str ''recovery_initiated''"

definition newline :: string where
  "newline = [char_of (10 :: nat)]"

text \<open>Subject and body.\<close>

definition emailContent :: "('h) host_scheme \<Rightarrow> js \<Rightarrow> notification_context \<Rightarrow> (string \<times> string) res" where
  "emailContent h kind ctx =
     bindE (to_iso h (nc_initiatedAt ctx)) (\<lambda>start.
       if kind = initiated then
         Inr (''Wallet recovery initiated - action required if this was not you'',
           ''A wallet recovery was initiated at '' @ start @ '' using your '' @ method_label (nc_method ctx) @ ''.'' @ newline @
           ''If you did not initiate this, cancel it within 72 hours using this code: '' @ nc_cancellationCode ctx @ newline @
           ''If you do not cancel, your wallet will be released for recovery after the 72-hour window.'')
       else
         Inr (''Wallet recovery cancelled'',
           ''The wallet recovery initiated at '' @ start @ '' has been cancelled.'' @ newline @
           ''If you did not request this cancellation, your account credentials may be compromised.''))"

definition smsContent :: "js \<Rightarrow> notification_context \<Rightarrow> string" where
  "smsContent kind ctx =
     (if kind = initiated
      then ''Wallet recovery started via '' @ nc_method ctx @ ''. Not you? Cancel within 72h: '' @ nc_cancellationCode ctx
      else ''Wallet recovery cancelled. If this wasn't you, your account may be compromised.'')"

definition secondaryContactContent ::
    "('h) host_scheme \<Rightarrow> js \<Rightarrow> string \<Rightarrow> notification_context \<Rightarrow> (string \<times> string) res" where
  "secondaryContactContent h kind contactName ctx =
     bindE (to_iso h (nc_initiatedAt ctx)) (\<lambda>start.
       if kind = initiated then
         Inr (''Wallet recovery alert'',
           contactName @ '', you're registered as a secondary contact. A wallet recovery using '' @
           method_label (nc_method ctx) @ '' was initiated at '' @ start @ ''. No action is required from you.'')
       else
         Inr (''Wallet recovery cancelled'',
           contactName @ '', the wallet recovery initiated at '' @ start @ '' has been cancelled.''))"

section \<open>Providers\<close>

text \<open>\<open>toString('base64')\<close> and \<open>URLSearchParams\<close>.\<close>

definition base64_standard :: "bytes \<Rightarrow> string" where
  "base64_standard bs =
     map (\<lambda>c. if c = CHR ''-'' then CHR ''+'' else if c = CHR ''_'' then CHR ''/'' else c) (bytes_to_base64url bs) @
     replicate ((3 - length bs mod 3) mod 3) (CHR ''='')"

definition form_hex :: "nat \<Rightarrow> char" where
  "form_hex n = (if n < 10 then char_of (48 + n) else char_of (55 + n))"

definition form_char :: "byte \<Rightarrow> string" where
  "form_char b = (let n = unat b in
     if 48 \<le> n \<and> n \<le> 57 \<or> 65 \<le> n \<and> n \<le> 90 \<or> 97 \<le> n \<and> n \<le> 122 \<or> n \<in> {42, 45, 46, 95} then [char_of n]
     else if n = 32 then ''+'' else [CHR ''%'', form_hex (n div 16), form_hex (n mod 16)])"

definition form_text :: "string \<Rightarrow> string" where
  "form_text s = concat (map form_char (utf8_encode s))"

definition form_encode :: "(string \<times> string) list \<Rightarrow> string" where
  "form_encode kvs = join_with ''&'' (map (\<lambda>(k, v). form_text k @ ''='' @ form_text v) kvs)"

datatype email_provider = Send_Grid string string | Console_Email
datatype sms_provider = Twilio string string string | Console_Sms

definition getDispatchDeps :: "wallet_config \<Rightarrow> email_provider \<times> sms_provider" where
  "getDispatchDeps cfg =
     ((if truthy_text (SENDGRID_API_KEY cfg) \<and> truthy_text (SENDGRID_FROM_EMAIL cfg)
       then Send_Grid (the (SENDGRID_API_KEY cfg)) (the (SENDGRID_FROM_EMAIL cfg)) else Console_Email),
      (if truthy_text (TWILIO_ACCOUNT_SID cfg) \<and> truthy_text (TWILIO_AUTH_TOKEN cfg) \<and> truthy_text (TWILIO_FROM_NUMBER cfg)
       then Twilio (the (TWILIO_ACCOUNT_SID cfg)) (the (TWILIO_AUTH_TOKEN cfg)) (the (TWILIO_FROM_NUMBER cfg))
       else Console_Sms))"

definition http_failed :: "string \<Rightarrow> fetch_response \<Rightarrow> exn" where
  "http_failed what res = JsError (''Error: '' @ what @ '' failed: HTTP '' @ int_str (fe_status res))"

fun send_email :: "('y, 'z) services_scheme \<Rightarrow> email_provider \<Rightarrow> js \<Rightarrow> string \<Rightarrow> string \<Rightarrow> ('y, unit) wact" where
  "send_email p (Send_Grid apiKey fromEmail) addressee subject body =
     bindA (fetchY p \<lparr>fr_method = ''POST'', fr_url = ''https://api.sendgrid.com/v3/mail/send'',
         fr_headers = [(''Authorization'', ''Bearer '' @ apiKey), (''Content-Type'', ''application/json'')],
         fr_body = Obj [(''personalizations'', Arr [Obj [(''to'', Arr [Obj [(''email'', addressee)]])]]),
           (''from'', Obj [(''email'', Str fromEmail)]), (''subject'', Str subject),
           (''content'', Arr [Obj [(''type'', Str ''text/plain''), (''value'', Str body)]])]\<rparr>)
       (\<lambda>res. guardA (res_ok res) (http_failed ''SendGrid send'' res))"
| "send_email p Console_Email addressee subject body = retA ()"

fun send_sms :: "('y, 'z) services_scheme \<Rightarrow> sms_provider \<Rightarrow> js \<Rightarrow> string \<Rightarrow> ('y, unit) wact" where
  "send_sms p (Twilio accountSid authToken fromNumber) addressee body =
     bindA (fetchY p \<lparr>fr_method = ''POST'',
         fr_url = ''https://api.twilio.com/2010-04-01/Accounts/'' @ accountSid @ ''/Messages.json'',
         fr_headers = [(''Authorization'', ''Basic '' @ base64_standard (utf8_encode (accountSid @ '':'' @ authToken))),
           (''Content-Type'', ''application/x-www-form-urlencoded'')],
         fr_body = Str (form_encode [(''To'', literal p addressee), (''From'', fromNumber), (''Body'', body)])\<rparr>)
       (\<lambda>res. guardA (res_ok res) (http_failed ''Twilio send'' res))"
| "send_sms p Console_Sms addressee body = retA ()"

section \<open>Dispatch\<close>

definition toContext :: "('y, 'z) services_scheme \<Rightarrow> js \<Rightarrow> notification_context" where
  "toContext p payload = \<lparr>nc_recoveryId = literal p (field payload ''recovery_id''),
     nc_method = literal p (field payload ''method''), nc_initiatedAt = date_ms p (field payload ''initiated_at''),
     nc_cancellationCode = literal p (field payload ''cancellation_code'')\<rparr>"

definition channel_text :: "notification_channel \<Rightarrow> string" where
  "channel_text c = (case c of Email \<Rightarrow> ''email'' | Sms \<Rightarrow> ''sms'' | Webhook \<Rightarrow> ''webhook''
     | Secondary_Email \<Rightarrow> ''secondary_contact_email'' | Secondary_Sms \<Rightarrow> ''secondary_contact_sms'')"

definition contact_name :: "('y, 'z) services_scheme \<Rightarrow> js \<Rightarrow> string" where
  "contact_name p payload = literal p (nullish (field payload ''name'') (Str ''Contact''))"

definition dispatchNotificationJob ::
    "('y, 'z) services_scheme \<Rightarrow> email_provider \<times> sms_provider \<Rightarrow> notification_channel \<Rightarrow> js \<Rightarrow> ('y, unit) wact" where
  "dispatchNotificationJob p deps channel payload =
     (case deps of (emailProvider, smsProvider) \<Rightarrow>
       (let ctx = toContext p payload; kind = field payload ''kind''; addressee = field payload ''to'' in
        bindA (guardA (truthy addressee) (JsError (''Error: '' @ channel_text channel @ '' job missing to.''))) (\<lambda>_.
        case channel of
          Email \<Rightarrow> bindA (liftA (emailContent p kind ctx)) (\<lambda>(subject, body). send_email p emailProvider addressee subject body)
        | Sms \<Rightarrow> send_sms p smsProvider addressee (smsContent kind ctx)
        | Webhook \<Rightarrow>
            bindA (fetchY p (post_request (literal p addressee) (Obj [(''kind'', kind),
                (''recovery_id'', field payload ''recovery_id''), (''method'', field payload ''method''),
                (''initiated_at'', field payload ''initiated_at'')])))
              (\<lambda>res. guardA (res_ok res) (http_failed ''webhook dispatch'' res))
        | Secondary_Email \<Rightarrow>
            bindA (liftA (secondaryContactContent p kind (contact_name p payload) ctx))
              (\<lambda>(subject, body). send_email p emailProvider addressee subject body)
        | Secondary_Sms \<Rightarrow>
            bindA (liftA (secondaryContactContent p kind (contact_name p payload) ctx))
              (\<lambda>(subject, body). send_sms p smsProvider addressee body))))"

section \<open>Fan-out\<close>

definition job_base :: "('y, 'z) services_scheme \<Rightarrow> recovery_row \<Rightarrow> backup_row \<Rightarrow> string \<Rightarrow> (string \<times> js) list" where
  "job_base p rec backup kind = [(''kind'', Str kind), (''recovery_id'', Str (rw_id rec)),
     (''method'', Str (backup_type_text (br_type backup))),
     (''initiated_at'', Str (iso_of_ms p (get_time (rw_initiated_at rec)))), (''cancellation_code'', Str (rw_id rec))]"

definition planJobs ::
    "('y, 'z) services_scheme \<Rightarrow> recovery_row \<Rightarrow> backup_row \<Rightarrow> string \<Rightarrow> (notification_channel \<times> js) list res" where
  "planJobs p rec backup kind =
     (let base = job_base p rec backup kind; channels = br_notification_channels backup;
          contact = field channels ''secondary_contact'';
          job = (\<lambda>channel addressee extra. if truthy addressee
                   then [(channel, Obj (base @ [(''to'', addressee)] @ extra))] else []);
          name = [(''name'', field contact ''name'')] in
      bindE (js_prop channels ''email'') (\<lambda>email.
        Inr (job Email email [] @ job Sms (field channels ''sms'') [] @ job Webhook (field channels ''webhook'') [] @
             job Secondary_Email (field contact ''email'') name @ job Secondary_Sms (field contact ''sms'') name)))"

definition enqueue_job ::
    "('y, 'z) services_scheme \<Rightarrow> string \<Rightarrow> notification_channel \<times> js \<Rightarrow> ('y, job_row) wact" where
  "enqueue_job p recoveryId planned =
     bindA (uuidY p) (\<lambda>rid. query p (enqueueNotificationJob (sql_jsonb p) rid recoveryId (fst planned) (snd planned)))"

text \<open>One attempt; a failure is written back for the sweep to retry. The answer: was it sent?\<close>

definition attempt_job :: "('y, 'z) services_scheme \<Rightarrow> wallet_config \<Rightarrow> job_row \<Rightarrow> ('y, bool) wact" where
  "attempt_job p cfg job =
     catchA (bindA (dispatchNotificationJob p (getDispatchDeps cfg) (nj_channel job) (nj_payload job)) (\<lambda>_.
             bindA (query p (markJobSent (nj_id job))) (\<lambda>_. retA True)))
       (\<lambda>err. bindA (query p (markJobFailed (nj_id job) (nj_attempts job))) (\<lambda>_. retA False))"

definition fanOutRecoveryNotifications ::
    "('y, 'z) services_scheme \<Rightarrow> wallet_config \<Rightarrow> recovery_row \<Rightarrow> backup_row \<Rightarrow> string \<Rightarrow> ('y, notification_channel list) wact" where
  "fanOutRecoveryNotifications p cfg rec backup kind =
     bindA (liftA (planJobs p rec backup kind)) (\<lambda>planned.
     bindA (mapA (enqueue_job p (rw_id rec)) planned) (\<lambda>rows.
     bindA (forA (\<lambda>job. bindA (attempt_job p cfg job) (\<lambda>_. retA ())) rows) (\<lambda>_.
       retA (map fst planned))))"

text \<open>The retry sweep: how many jobs were due, sent and failed.\<close>

definition sweep_notification_retries ::
    "('y, 'z) services_scheme \<Rightarrow> wallet_config \<Rightarrow> ('y, nat \<times> nat \<times> nat) wact" where
  "sweep_notification_retries p cfg =
     bindA (query p (findDueJobs 100)) (\<lambda>due.
     bindA (mapA (attempt_job p cfg) due) (\<lambda>results.
       retA (length due, length (filter id results), length (filter Not results))))"

section \<open>Initiating a recovery\<close>

datatype recovery_answer = Already_Active string string | Initiated string string "notification_channel list"

definition initiate_window ::
    "('y, 'z) services_scheme \<Rightarrow> wallet_config \<Rightarrow> backup_row \<Rightarrow> ('y, recovery_answer) wact" where
  "initiate_window p cfg backup =
     bindA (uuidY p) (\<lambda>rid.
     bindA (query p (createRecoveryWindow rid (br_id backup))) (\<lambda>rec.
     bindA (fanOutRecoveryNotifications p cfg rec backup ''recovery_initiated'') (\<lambda>channels.
       retA (Initiated (rw_id rec) (iso_of_ms p (get_time (rw_expires_at rec))) channels))))"

definition RECOVERY_RATE_LIMIT :: int where
  "RECOVERY_RATE_LIMIT = 3"

text \<open>\<open>POST /accounts/{card_hash}/recovery\<close>.\<close>

definition recovery_route ::
    "('y, 'z) services_scheme \<Rightarrow> wallet_config \<Rightarrow> string \<Rightarrow> js \<Rightarrow> ('y, recovery_answer) wact" where
  "recovery_route p cfg cardHash body =
     bindA (need (cardHash \<noteq> []) 400 ''card_hash is required.'') (\<lambda>_.
     let backupId = field body ''backup_id'' in
     bindA (need (truthy backupId) 400 ''backup_id is required.'') (\<lambda>_.
     bindA (enforceRateLimit p (KV_BACKEND cfg) (recoveryInitiationRateKey cardHash) RECOVERY_RATE_LIMIT (24 * 60 * 60)) (\<lambda>_.
     bindA (existing_account p (Str cardHash)) (\<lambda>account.
     bindA (backup_of p account backupId) (\<lambda>backup.
     bindA (query p (findActiveRecoveryWindow (br_id backup))) (\<lambda>active.
       case active of
         Some r \<Rightarrow> retA (Already_Active (rw_id r) (iso_of_ms p (get_time (rw_expires_at r))))
       | None \<Rightarrow> initiate_window p cfg backup))))))"

section \<open>Cancelling\<close>

definition find_window :: "('y, 'z) services_scheme \<Rightarrow> string \<Rightarrow> ('y, recovery_row option) wact" where
  "find_window p recoveryId = bindA (liftA (sql_uuid p (Str recoveryId))) (\<lambda>u. query p (findRecoveryWindowById u))"

definition window_and_backup :: "('y, 'z) services_scheme \<Rightarrow> string \<Rightarrow> ('y, recovery_row \<times> backup_row) wact" where
  "window_and_backup p recoveryId =
     bindA (find_window p recoveryId) (\<lambda>found. case found of
       None \<Rightarrow> refuse 404 ''No recovery window found.''
     | Some r \<Rightarrow> bindA (query p (findBackupRegistrationById (rw_backup_reg_id r))) (\<lambda>b. case b of
         None \<Rightarrow> refuse 404 ''No backup registration found.'' | Some backup \<Rightarrow> retA (r, backup)))"

definition update_window ::
    "('y, 'z) services_scheme \<Rightarrow> (string \<Rightarrow> recovery_row option stmt) \<Rightarrow> string \<Rightarrow> ('y, recovery_row option) wact" where
  "update_window p q recoveryId = bindA (liftA (sql_uuid p (Str recoveryId))) (\<lambda>u. query p (q u))"

definition status_is :: "recovery_status \<Rightarrow> recovery_row option \<Rightarrow> bool" where
  "status_is s current = (case current of None \<Rightarrow> False | Some r \<Rightarrow> rw_status r = s)"

text \<open>\<open>POST /recovery/{recovery_id}/cancel\<close>.\<close>

definition cancel_route ::
    "('y, 'z) services_scheme \<Rightarrow> wallet_config \<Rightarrow> string \<Rightarrow> js \<Rightarrow> ('y, unit) wact" where
  "cancel_route p cfg recoveryId body =
     bindA (need (recoveryId \<noteq> []) 400 ''recovery_id is required.'') (\<lambda>_.
     let ch = field body ''challenge''; signature = field body ''signature'' in
     bindA (need (truthy ch \<and> truthy signature) 400 ''challenge and signature are required.'') (\<lambda>_.
     case fromBase64url p ch of
       Inl e \<Rightarrow> refuse 400 ''challenge is not valid base64url.''
     | Inr challengeBytes \<Rightarrow>
         bindA (need (utf8_decode p challengeBytes = recoveryId) 401 ''challenge does not match recovery_id.'') (\<lambda>_.
         bindA (window_and_backup p recoveryId) (\<lambda>(rec, backup).
         bindA (need (verifyMasterCardSignature p challengeBytes signature (Str (br_cancellation_pubkey backup))) 401
                  ''Invalid cancellation signature.'') (\<lambda>_.
         bindA (update_window p cancelRecoveryWindow recoveryId) (\<lambda>cancelled.
           case cancelled of
             None \<Rightarrow> bindA (find_window p recoveryId) (\<lambda>current.
               need (status_is Cancelled current) 410 ''Recovery window can no longer be cancelled.'')
           | Some r \<Rightarrow> bindA (fanOutRecoveryNotifications p cfg r backup ''cancellation_confirmed'') (\<lambda>_. retA ())))))))"

section \<open>Releasing\<close>

datatype release_answer = Key_Released string string | Too_Early int

definition release_key :: "backup_row \<Rightarrow> release_answer" where
  "release_key backup = Key_Released (br_wrapped_blob backup) (br_keyring_id backup)"

definition retry_after :: "int \<Rightarrow> int \<Rightarrow> int" where
  "retry_after expiresAt now = - ((now - expiresAt) div 1000)"

text \<open>\<open>GET /recovery/{recovery_id}/release\<close>.\<close>

definition release_route :: "('y, 'z) services_scheme \<Rightarrow> string \<Rightarrow> ('y, release_answer) wact" where
  "release_route p recoveryId =
     bindA (need (recoveryId \<noteq> []) 400 ''recovery_id is required.'') (\<lambda>_.
     bindA (window_and_backup p recoveryId) (\<lambda>(rec, backup).
       if rw_status rec = Released then retA (release_key backup)
       else bindA (need (rw_status rec \<noteq> Cancelled) 410 ''Recovery was cancelled.'') (\<lambda>_.
         bindA (nowY p) (\<lambda>now.
           if now < get_time (rw_expires_at rec)
           then bindA (nowY p) (\<lambda>now'. retA (Too_Early (retry_after (get_time (rw_expires_at rec)) now')))
           else bindA (update_window p releaseRecoveryWindow recoveryId) (\<lambda>released.
             case released of
               Some r \<Rightarrow> retA (release_key backup)
             | None \<Rightarrow> bindA (find_window p recoveryId) (\<lambda>current.
                 if status_is Released current then retA (release_key backup)
                 else refuse 410 ''Recovery was cancelled.''))))))"

section \<open>Operators\<close>

text \<open>\<open>GET /admin/recovery-windows\<close>: id, start, end, and the seconds that remain.\<close>

definition pending_view :: "('y, 'z) services_scheme \<Rightarrow> recovery_row \<Rightarrow> ('y, string \<times> string \<times> string \<times> int) wact" where
  "pending_view p r = bindA (nowY p) (\<lambda>now.
     retA (rw_id r, iso_of_ms p (get_time (rw_initiated_at r)), iso_of_ms p (get_time (rw_expires_at r)),
           max 0 ((get_time (rw_expires_at r) - now) div 1000)))"

definition admin_recovery_route ::
    "('y, 'z) services_scheme \<Rightarrow> wallet_config \<Rightarrow> string option \<Rightarrow> ('y, (string \<times> string \<times> string \<times> int) list) wact" where
  "admin_recovery_route p cfg header =
     bindA (requireAdminAuth cfg header) (\<lambda>_.
     bindA (query p listPendingRecoveryWindows) (\<lambda>windows. mapA (pending_view p) windows))"

end
