(* ===== verification/Wallet_Messages.thy ===== *)
theory Wallet_Messages
  imports Wallet_Recovery Js_Runtime
begin

text \<open>
  Message delivery (\<open>wallet-service/src/routes/messages-create.ts\<close>, \<open>subcard-uuid-registration.ts\<close>,
  \<open>subcard-deregistration.ts\<close>, \<open>src/relay-client.ts\<close>, \<open>server/utils/message-delivery.ts\<close>,
  \<open>server/routes/messages\<close>, \<open>server/routes/cards\<close>, the admin counters and the pruning tasks):
  messages are queued per sub-card and handed to the relay against single-use UUIDs that the
  sub-card registers in signed envelopes.
\<close>

section \<open>The relay\<close>

datatype deliver_result = Delivered | Uuid_Invalid | Server_Error

definition deliverToRelay :: "('y, 'z) services_scheme \<Rightarrow> string \<Rightarrow> string \<Rightarrow> string \<Rightarrow> ('y, deliver_result) wact" where
  "deliverToRelay p relayBaseUrl uuid blob =
     bindA (caught (fetchY p (post_request (relayBaseUrl @ ''/deliver/'' @ uuid) (Obj [(''blob'', Str blob)])))) (\<lambda>r.
       case r of
         Inl e \<Rightarrow> retA Server_Error
       | Inr res \<Rightarrow> retA (if res_ok res then Delivered
            else if fe_status res = 404 \<or> fe_status res = 410 then Uuid_Invalid else Server_Error))"

definition MAX_UUID_ATTEMPTS :: nat where
  "MAX_UUID_ATTEMPTS = 5"

fun deliver_attempts :: "('y, 'z) services_scheme \<Rightarrow> wallet_config \<Rightarrow> message_row \<Rightarrow> string \<Rightarrow> nat \<Rightarrow> ('y, unit) wact" where
  "deliver_attempts p cfg message subcardHash 0 = retA ()"
| "deliver_attempts p cfg message subcardHash (Suc n) =
     bindA (query p (claimNextUuid (mq_card_hash message) subcardHash)) (\<lambda>claimed. case claimed of
       None \<Rightarrow> retA ()
     | Some uuid \<Rightarrow>
         bindA (deliverToRelay p (RELAY_BASE_URL cfg) uuid (mq_payload message)) (\<lambda>result.
           if result = Delivered then query p (setDeliveryUuid (mq_id message) uuid)
           else deliver_attempts p cfg message subcardHash n))"

definition deliverMessage :: "('y, 'z) services_scheme \<Rightarrow> wallet_config \<Rightarrow> message_row \<Rightarrow> ('y, unit) wact" where
  "deliverMessage p cfg message =
     (if truthy_text (mq_subcard_hash message)
      then deliver_attempts p cfg message (the (mq_subcard_hash message)) MAX_UUID_ATTEMPTS else retA ())"

section \<open>Accepting messages\<close>

datatype message_answer = Accepted | Card_Migrated string string

definition handleMessagesCreate ::
    "('y, 'z) services_scheme \<Rightarrow> wallet_config \<Rightarrow> js \<Rightarrow> ('y, message_answer) wact" where
  "handleMessagesCreate p cfg body =
     (let recipient = field body ''to''; subcardHash = field body ''subcard_hash''; payload = field body ''payload'' in
      bindA (need (truthy recipient \<and> truthy subcardHash \<and> truthy payload) 400 ''to, subcard_hash, and payload are required.'') (\<lambda>_.
      bindA (find_routing p recipient) (\<lambda>routing. case routing of
        None \<Rightarrow> refuse 404 ''Unknown card_hash.''
      | Some r \<Rightarrow>
          if rt_wallet_service_id r \<noteq> WALLET_SERVICE_ID cfg
          then retA (Card_Migrated (rt_wallet_service_id r) (rt_endpoint r))
          else
            bindA (liftA (sql_text p recipient)) (\<lambda>c.
            bindA (liftA (sql_text p subcardHash)) (\<lambda>s.
            bindA (liftA (sql_text p payload)) (\<lambda>blob.
            bindA (uuidY p) (\<lambda>rid.
            bindA (query p (enqueueMessage rid c s blob)) (\<lambda>message.
            bindA (deliverMessage p cfg message) (\<lambda>_. retA Accepted)))))))))"

text \<open>\<open>DELETE /messages/{uuid}\<close>.\<close>

definition message_delete_route :: "('y, 'z) services_scheme \<Rightarrow> string \<Rightarrow> ('y, unit) wact" where
  "message_delete_route p uuid =
     bindA (need (uuid \<noteq> []) 400 ''uuid is required.'') (\<lambda>_.
     bindA (liftA (sql_uuid p (Str uuid))) (\<lambda>u.
     bindA (query p (clearMessageByDeliveryUuid u)) (\<lambda>cleared.
       need cleared 404 ''Unknown UUID, or message already cleared.'')))"

section \<open>Signed sub-card requests\<close>

text \<open>\<open>/^0x[0-9a-fA-F]{64}$/\<close>.\<close>

definition is_hex32 :: "string \<Rightarrow> bool" where
  "is_hex32 s \<longleftrightarrow> take 2 s = ''0x'' \<and> length s = 66 \<and> list_all hex_digit (drop 2 s)"

definition TIMESTAMP_WINDOW_MS :: int where
  "TIMESTAMP_WINDOW_MS = 5 * 60 * 1000"

text \<open>A value of \<open>typeof\<close> object that is not null, and a string that is not empty.\<close>

definition is_object :: "js \<Rightarrow> bool" where
  "is_object v = (case v of Obj _ \<Rightarrow> True | Arr _ \<Rightarrow> True | _ \<Rightarrow> False)"

definition text_field :: "js \<Rightarrow> string \<Rightarrow> string option" where
  "text_field v k = (case field v k of Str s \<Rightarrow> if s = [] then None else Some s | _ \<Rightarrow> None)"

definition uuid_list :: "js \<Rightarrow> string list option" where
  "uuid_list v = (case v of Arr us \<Rightarrow>
       if us = [] \<or> 100 < length us then None
       else if list_all (\<lambda>u. case u of Str s \<Rightarrow> is_uuid_v4 s | _ \<Rightarrow> False) us
       then Some (map (\<lambda>u. case u of Str s \<Rightarrow> s | _ \<Rightarrow> []) us) else None
     | _ \<Rightarrow> None)"

definition signed_parts :: "js \<Rightarrow> (js \<times> string) option" where
  "signed_parts body =
     (if \<not> is_object body then None
      else let payload = field body ''payload'' in
        (case text_field body ''signature'' of
           Some signature \<Rightarrow> if is_object payload then Some (payload, signature) else None
         | None \<Rightarrow> None))"

definition parseUuidRegistrationEnvelope :: "js \<Rightarrow> (registration_payload \<times> string) option" where
  "parseUuidRegistrationEnvelope body =
     (case signed_parts body of None \<Rightarrow> None
      | Some (payload, signature) \<Rightarrow>
          (case (text_field payload ''card_hash'', text_field payload ''subcard_hash'', text_field payload ''timestamp'',
                 text_field payload ''nonce'', uuid_list (field payload ''uuids'')) of
             (Some c, Some s, Some t, Some n, Some us) \<Rightarrow>
               Some (\<lparr>rp_card_hash = c, rp_subcard_hash = s, rp_uuids = us, rp_timestamp = t, rp_nonce = n\<rparr>, signature)
           | _ \<Rightarrow> None))"

definition parseSubcardDeregistrationEnvelope :: "js \<Rightarrow> (deregistration_payload \<times> string) option" where
  "parseSubcardDeregistrationEnvelope body =
     (case signed_parts body of None \<Rightarrow> None
      | Some (payload, signature) \<Rightarrow>
          (case (text_field payload ''card_hash'', text_field payload ''subcard_hash'', text_field payload ''timestamp'',
                 text_field payload ''nonce'') of
             (Some c, Some s, Some t, Some n) \<Rightarrow>
               Some (\<lparr>dp_card_hash = c, dp_subcard_hash = s, dp_timestamp = t, dp_nonce = n\<rparr>, signature)
           | _ \<Rightarrow> None))"

text \<open>The checks both handlers make before they verify the signature.\<close>

definition check_path :: "string \<Rightarrow> string \<Rightarrow> string \<Rightarrow> string \<Rightarrow> ('y, unit) wact" where
  "check_path cardHash subcardHash cardHashParam subcardHashParam =
     bindA (need (to_lower cardHash = to_lower cardHashParam) 403 ''payload.card_hash does not match the request path.'') (\<lambda>_.
       need (to_lower subcardHash = to_lower subcardHashParam) 403 ''payload.subcard_hash does not match the request path.'')"

definition stale_timestamp :: exn where
  "stale_timestamp = HttpError 401 ''timestamp is missing, invalid, or outside the allowed window.''"

definition check_timestamp :: "('y, 'z) services_scheme \<Rightarrow> string \<Rightarrow> ('y, unit) wact" where
  "check_timestamp p timestamp =
     (case date_time p timestamp of
        Fin t \<Rightarrow> bindA (nowY p) (\<lambda>now. guardA (\<not> \<bar>now - t\<bar> > TIMESTAMP_WINDOW_MS) stale_timestamp)
      | _ \<Rightarrow> throwA stale_timestamp)"

definition accept_signature :: "unit verdict \<Rightarrow> ('y, unit) wact" where
  "accept_signature v = (case v of Inl reason \<Rightarrow> refuse 401 (''Invalid signed envelope: '' @ reason @ ''.'')
     | Inr _ \<Rightarrow> retA ())"

definition fresh_action_nonce :: "('y, 'z) services_scheme \<Rightarrow> string \<Rightarrow> subcard_action \<Rightarrow> string \<Rightarrow> ('y, unit) wact" where
  "fresh_action_nonce p subcardHashParam action nonce =
     bindA (liftA (sql_string subcardHashParam)) (\<lambda>s.
     bindA (liftA (sql_string nonce)) (\<lambda>n.
     bindA (query p (recordSubcardActionNonceIfNew s action n)) (\<lambda>isNew.
       need isNew 401 ''nonce has already been used for this sub-card.'')))"

definition check_params :: "string \<Rightarrow> string \<Rightarrow> ('y, unit) wact" where
  "check_params cardHashParam subcardHashParam =
     bindA (need (cardHashParam \<noteq> [] \<and> subcardHashParam \<noteq> []) 400 ''card_hash and subcard_hash are required.'') (\<lambda>_.
       need (is_hex32 subcardHashParam) 400 ''subcard_hash must be a 0x-prefixed 32-byte hex string.'')"

definition register_and_retransmit ::
    "('y, 'z) services_scheme \<Rightarrow> wallet_config \<Rightarrow> string \<Rightarrow> string \<Rightarrow> string list \<Rightarrow> ('y, nat \<times> nat) wact" where
  "register_and_retransmit p cfg cardHashParam subcardHashParam uuids =
     bindA (liftA (sql_string cardHashParam)) (\<lambda>c.
     bindA (liftA (mapE (\<lambda>u. sql_uuid p (Str u)) uuids)) (\<lambda>us.
     bindA (query p (registerUuids c subcardHashParam us)) (\<lambda>_.
     bindA (query p (findUnclearedMessagesForSubcard c subcardHashParam)) (\<lambda>uncleared.
     bindA (forA (deliverMessage p cfg) uncleared) (\<lambda>_.
       retA (length uuids, length uncleared))))))"

text \<open>How many UUIDs were registered, and how many messages sent again.\<close>

definition handleUuidRegistration ::
    "('y, 'z) services_scheme \<Rightarrow> wallet_config \<Rightarrow> string \<Rightarrow> string \<Rightarrow> js \<Rightarrow> ('y, nat \<times> nat) wact" where
  "handleUuidRegistration p cfg cardHashParam subcardHashParam body =
     bindA (check_params cardHashParam subcardHashParam) (\<lambda>_.
     case parseUuidRegistrationEnvelope body of
       None \<Rightarrow> refuse 400 ''Request body must be a signed envelope: { payload: { card_hash, subcard_hash, uuids, timestamp, nonce }, signature }.''
     | Some (payload, signature) \<Rightarrow>
         bindA (check_path (rp_card_hash payload) (rp_subcard_hash payload) cardHashParam subcardHashParam) (\<lambda>_.
         bindA (check_timestamp p (rp_timestamp payload)) (\<lambda>_.
         bindA (bindA (verifyUuidRegistrationEnvelope p cfg (payload, signature)) accept_signature) (\<lambda>_.
         bindA (fresh_action_nonce p subcardHashParam Register (rp_nonce payload)) (\<lambda>_.
           register_and_retransmit p cfg cardHashParam subcardHashParam (rp_uuids payload))))))"

definition handleSubcardDeregistration ::
    "('y, 'z) services_scheme \<Rightarrow> wallet_config \<Rightarrow> string \<Rightarrow> string \<Rightarrow> js \<Rightarrow> ('y, unit) wact" where
  "handleSubcardDeregistration p cfg cardHashParam subcardHashParam body =
     bindA (check_params cardHashParam subcardHashParam) (\<lambda>_.
     case parseSubcardDeregistrationEnvelope body of
       None \<Rightarrow> refuse 400 ''Request body must be a signed envelope: { payload: { card_hash, subcard_hash, timestamp, nonce }, signature }.''
     | Some (payload, signature) \<Rightarrow>
         bindA (check_path (dp_card_hash payload) (dp_subcard_hash payload) cardHashParam subcardHashParam) (\<lambda>_.
         bindA (check_timestamp p (dp_timestamp payload)) (\<lambda>_.
         bindA (bindA (verifySubcardDeregistrationEnvelope p cfg (payload, signature)) accept_signature) (\<lambda>_.
         bindA (fresh_action_nonce p subcardHashParam Deregister (dp_nonce payload)) (\<lambda>_.
         bindA (liftA (sql_string cardHashParam)) (\<lambda>c.
         bindA (query p (subcardHasAnyHistory c subcardHashParam)) (\<lambda>everRegistered.
         bindA (need everRegistered 404 ''Subcard not registered.'') (\<lambda>_.
         bindA (query p (consumeAllForSubcard c subcardHashParam)) (\<lambda>_. retA ())))))))))"

section \<open>Operators and tasks\<close>

text \<open>\<open>GET /admin/message-counts\<close>, \<open>GET /admin/uuid-pool-sizes\<close>, and the pruning tasks.\<close>

definition admin_message_counts_route ::
    "('y, 'z) services_scheme \<Rightarrow> wallet_config \<Rightarrow> string option \<Rightarrow> ('y, (string \<times> nat) list) wact" where
  "admin_message_counts_route p cfg header =
     bindA (requireAdminAuth cfg header) (\<lambda>_. query p countHeldMessagesPerCard)"

definition admin_uuid_pools_route ::
    "('y, 'z) services_scheme \<Rightarrow> wallet_config \<Rightarrow> string option \<Rightarrow> ('y, (string \<times> string \<times> nat) list) wact" where
  "admin_uuid_pools_route p cfg header =
     bindA (requireAdminAuth cfg header) (\<lambda>_. query p listUuidPoolSizes)"

definition prune_expired_uuids :: "('y, 'z) services_scheme \<Rightarrow> ('y, nat) wact" where
  "prune_expired_uuids p = query p pruneExpiredConsumedUuids"

definition prune_routing_nonces :: "('y, 'z) services_scheme \<Rightarrow> ('y, nat) wact" where
  "prune_routing_nonces p = query p pruneOldNonces"

definition prune_subcard_uuid_registration_nonces :: "('y, 'z) services_scheme \<Rightarrow> ('y, nat) wact" where
  "prune_subcard_uuid_registration_nonces p = query p pruneOldSubcardActionNonces"

text \<open>\<open>GET /health\<close>: does the database answer, and does a probe survive encryption?\<close>

definition checkDatabaseHealth :: "('y, 'z) services_scheme \<Rightarrow> ('y, bool) wact" where
  "checkDatabaseHealth p = bindA (caught (query p (\<lambda>now d. (Inr (), d)))) (\<lambda>r. retA (r = Inr ()))"

definition probe :: bytes where
  "probe = utf8_encode ''health-check-probe-32-bytes!!!!!''"

definition checkSecretsHealth :: "('y, 'z) services_scheme \<Rightarrow> wallet_config \<Rightarrow> ('y, bool) wact" where
  "checkSecretsHealth p cfg =
     bindA (caught (
       bindA (liftA (createSecretsService cfg)) (\<lambda>backend.
       bindA (encryptSecret p backend probe) (\<lambda>(ciphertext, dekEnc).
       bindA (unwrapDek p backend dekEnc) (\<lambda>dek.
         liftA (decrypt_under p dek ciphertext)))))) (\<lambda>r. retA (r = Inr probe))"

definition health_route :: "('y, 'z) services_scheme \<Rightarrow> wallet_config \<Rightarrow> ('y, bool \<times> bool) wact" where
  "health_route p cfg =
     bindA (checkDatabaseHealth p) (\<lambda>postgresOk. bindA (checkSecretsHealth p cfg) (\<lambda>secretsOk. retA (postgresOk, secretsOk)))"

end
