(* ===== verification/Wallet_Matrix.thy ===== *)
theory Wallet_Matrix
  imports Wallet_Messages Policy_Match
begin

text \<open>
  The Matrix part of the wallet service (\<open>wallet-service/src/matrix\<close>,
  \<open>src/matrix-credentials.ts\<close>, \<open>server/routes/matrix\<close>, \<open>server/db/matrix-rooms.ts\<close>): shadow
  accounts derived from a card, access tokens minted for them, card-gated rooms, and the
  discovery of the rooms a card may join. Synapse is reached by requests; the two token files
  are read through \<open>read_file\<close>.
\<close>

section \<open>Shadow accounts\<close>

definition hex_value :: "char \<Rightarrow> nat option" where
  "hex_value c = (let n = of_char c in
     if 48 \<le> n \<and> n \<le> 57 then Some (n - 48) else if 97 \<le> n \<and> n \<le> 102 then Some (n - 87)
     else if 65 \<le> n \<and> n \<le> 70 then Some (n - 55) else None)"

text \<open>\<open>Buffer.from(s, 'hex')\<close>: pairs of digits up to the first pair that is none.\<close>

fun buffer_from_hex :: "string \<Rightarrow> bytes" where
  "buffer_from_hex (c # d # s) =
     (case (hex_value c, hex_value d) of (Some a, Some b) \<Rightarrow> of_nat (16 * a + b) # buffer_from_hex s | _ \<Rightarrow> [])"
| "buffer_from_hex s = []"

definition matrix_hexToBytes :: "string \<Rightarrow> bytes" where
  "matrix_hexToBytes s = buffer_from_hex (if take 2 s = ''0x'' \<or> take 2 s = ''0X'' then drop 2 s else s)"

definition SHADOW_ACCOUNT_DOMAIN_TAG :: string where
  "SHADOW_ACCOUNT_DOMAIN_TAG = ''matrix-shadow-account-v1''"

definition shadowAccountCommitment :: "('e) env_scheme \<Rightarrow> string \<Rightarrow> string \<Rightarrow> string" where
  "shadowAccountCommitment e cardHash serverName =
     ''0x'' @ bytes_hex (keccak_256 (crypto_ops e)
       (matrix_hexToBytes cardHash @ utf8_encode SHADOW_ACCOUNT_DOMAIN_TAG @ utf8_encode serverName))"

definition deriveMatrixUserId :: "('e) env_scheme \<Rightarrow> string \<Rightarrow> string \<Rightarrow> string" where
  "deriveMatrixUserId e cardHash serverName =
     ''@card_'' @ to_lower (strip_0x (shadowAccountCommitment e cardHash serverName)) @ '':'' @ serverName"

definition verifyMatrixUserIdBinding :: "('e) env_scheme \<Rightarrow> string \<Rightarrow> string \<Rightarrow> string \<Rightarrow> bool" where
  "verifyMatrixUserIdBinding e candidate matrixUserId serverName \<longleftrightarrow>
     deriveMatrixUserId e candidate serverName = matrixUserId"

definition localpart :: "string \<Rightarrow> string" where
  "localpart matrixUserId =
     takeWhile (\<lambda>c. c \<noteq> CHR '':'') (if take 1 matrixUserId = ''@'' then drop 1 matrixUserId else matrixUserId)"

section \<open>The application service\<close>

definition readAppServiceAsToken :: "('y, 'z) services_scheme \<Rightarrow> ('y, string) wact" where
  "readAppServiceAsToken p =
     bindA (readA (\<lambda>w. read_file p ''matrix/secrets/appservice-as-token.txt'' (outer w))) (\<lambda>s. retA (trim s))"

definition readAppServiceHsToken :: "('y, 'z) services_scheme \<Rightarrow> ('y, string) wact" where
  "readAppServiceHsToken p =
     bindA (readA (\<lambda>w. read_file p ''matrix/secrets/appservice-hs-token.txt'' (outer w))) (\<lambda>s. retA (trim s))"

definition verifyHomeserverToken :: "string option \<Rightarrow> string \<Rightarrow> bool" where
  "verifyHomeserverToken provided expected =
     (case provided of None \<Rightarrow> False
      | Some t \<Rightarrow> t \<noteq> [] \<and> length (utf8_encode t) = length (utf8_encode expected) \<and> utf8_encode t = utf8_encode expected)"

text \<open>\<open>PUT /matrix/transactions/{txnId}\<close>: the token is in a header or, failing that, in the query.\<close>

definition transactions_route ::
    "('y, 'z) services_scheme \<Rightarrow> string option \<Rightarrow> string option \<Rightarrow> ('y, unit) wact" where
  "transactions_route p header queryToken =
     bindA (readAppServiceHsToken p) (\<lambda>expected.
       need (verifyHomeserverToken (case bearer header of Some t \<Rightarrow> Some t | None \<Rightarrow> queryToken) expected) 401 ''Unauthorized'')"

definition synapse_post :: "wallet_config \<Rightarrow> string \<Rightarrow> string \<Rightarrow> js \<Rightarrow> fetch_request" where
  "synapse_post cfg path token body = \<lparr>fr_method = ''POST'', fr_url = MATRIX_SYNAPSE_URL cfg @ path,
     fr_headers = [(''Content-Type'', ''application/json''), (''Authorization'', ''Bearer '' @ token)], fr_body = body\<rparr>"

text \<open>The user id, and whether it was created now.\<close>

definition provisionShadowAccount ::
    "('y, 'z) services_scheme \<Rightarrow> wallet_config \<Rightarrow> string \<Rightarrow> ('y, string \<times> bool) wact" where
  "provisionShadowAccount p cfg cardHash =
     bindA (readAppServiceAsToken p) (\<lambda>asToken.
     let userId = deriveMatrixUserId p cardHash (MATRIX_SERVER_NAME cfg) in
     bindA (fetchY p (synapse_post cfg ''/_matrix/client/v3/register'' asToken
              (Obj [(''type'', Str ''m.login.application_service''), (''username'', Str (localpart userId))]))) (\<lambda>res.
       if res_ok res then retA (userId, True)
       else if fe_status res = 400 \<and>
               (case fe_json res of Inl e \<Rightarrow> False | Inr body \<Rightarrow> opt_prop body ''errcode'' = Inr (Str ''M_USER_IN_USE''))
       then retA (userId, False)
       else throwA (JsError (''Error: provisionShadowAccount: Synapse /register failed for '' @ userId @
              '' (status '' @ int_str (fe_status res) @ '').''))))"

definition CACHE_TTL_SECONDS :: int where
  "CACHE_TTL_SECONDS = 12 * 60 * 60"

definition mint_token :: "('y, 'z) services_scheme \<Rightarrow> wallet_config \<Rightarrow> string \<Rightarrow> string \<Rightarrow> ('y, js) wact" where
  "mint_token p cfg asToken userId =
     bindA (fetchY p (synapse_post cfg ''/_matrix/client/v3/login'' asToken
              (Obj [(''type'', Str ''m.login.application_service''),
                    (''identifier'', Obj [(''type'', Str ''m.id.user''), (''user'', Str userId)])]))) (\<lambda>res.
     bindA (guardA (res_ok res) (JsError (''Error: mintMatrixAccessToken: Synapse /login failed for '' @ userId @
              '' (status '' @ int_str (fe_status res) @ '').''))) (\<lambda>_.
     bindA (liftA (fe_json res)) (\<lambda>body.
     bindA (liftA (js_prop body ''access_token'')) (\<lambda>token.
     bindA (guardA (truthy token) (JsError (''Error: mintMatrixAccessToken: Synapse /login response for '' @ userId @
              '' missing access_token.''))) (\<lambda>_.
     bindA (kv_setItem p (KV_BACKEND cfg) (matrixAccessTokenKey userId) token (Some CACHE_TTL_SECONDS)) (\<lambda>_.
       retA token))))))"

definition mintMatrixAccessToken ::
    "('y, 'z) services_scheme \<Rightarrow> wallet_config \<Rightarrow> string \<Rightarrow> ('y, js) wact" where
  "mintMatrixAccessToken p cfg userId =
     bindA (readAppServiceAsToken p) (\<lambda>asToken.
     bindA (kv_getItem p (KV_BACKEND cfg) (matrixAccessTokenKey userId)) (\<lambda>cached.
       if truthy cached then retA cached else mint_token p cfg asToken userId))"

text \<open>\<open>POST /matrix/token\<close>: the token and the user id.\<close>

definition session_card :: "js \<Rightarrow> string" where
  "session_card session = (case field session ''card_hash'' of Str s \<Rightarrow> s | _ \<Rightarrow> [])"

definition matrix_token_route ::
    "('y, 'z) services_scheme \<Rightarrow> wallet_config \<Rightarrow> string option \<Rightarrow> ('y, js \<times> string) wact" where
  "matrix_token_route p cfg header =
     bindA (requireSessionToken p cfg header) (\<lambda>session.
     bindA (provisionShadowAccount p cfg (session_card session)) (\<lambda>(userId, created).
     bindA (mintMatrixAccessToken p cfg userId) (\<lambda>token. retA (token, userId))))"

section \<open>Rooms\<close>

definition ROOM_KICK_POWER_LEVEL :: int where
  "ROOM_KICK_POWER_LEVEL = 50"

definition ROOM_CREATOR_POWER_LEVEL :: int where
  "ROOM_CREATOR_POWER_LEVEL = 100"

definition assertCardHashBelongsToSession :: "string \<Rightarrow> js \<Rightarrow> unit res" where
  "assertCardHashBelongsToSession sessionCardHash requested =
     (if requested \<noteq> Str sessionCardHash
      then Inl (HttpError 403 ''card_hash does not belong to the authenticated session.'') else Inr ())"

definition state_event :: "string \<Rightarrow> (string \<times> js) list \<Rightarrow> js" where
  "state_event ty content = Obj [(''type'', Str ty), (''state_key'', Str []), (''content'', Obj content)]"

definition room_power_levels :: "string \<Rightarrow> string \<Rightarrow> js" where
  "room_power_levels creator enforcement =
     Obj (put_key enforcement (Num (Fin ROOM_KICK_POWER_LEVEL)) [(creator, Num (Fin ROOM_CREATOR_POWER_LEVEL))])"

definition room_initial_state :: "string \<Rightarrow> string \<Rightarrow> js \<Rightarrow> js list" where
  "room_initial_state creator enforcement policyId =
     [state_event ''m.room.join_rules'' [(''join_rule'', Str ''public'')],
      state_event ''m.room.encryption'' [(''algorithm'', Str ''m.megolm.v1.aes-sha2'')],
      state_event ''m.card.policy'' [(''policy_id'', policyId)],
      state_event ''m.room.power_levels'' [(''users'', room_power_levels creator enforcement)]]"

definition room_body :: "string \<Rightarrow> string \<Rightarrow> js \<Rightarrow> js \<Rightarrow> js \<Rightarrow> js" where
  "room_body creator enforcement policyId name topic =
     Obj ([(''preset'', Str ''private_chat''), (''initial_state'', Arr (room_initial_state creator enforcement policyId))] @
          (if name \<noteq> Undef then [(''name'', name)] else []) @ (if topic \<noteq> Undef then [(''topic'', topic)] else []))"

text \<open>The room id and the alias of the answer.\<close>

definition createMatrixRoomViaSynapse ::
    "('y, 'z) services_scheme \<Rightarrow> wallet_config \<Rightarrow> string \<Rightarrow> js \<Rightarrow> js \<Rightarrow> js \<Rightarrow> js \<Rightarrow> ('y, js \<times> js) wact" where
  "createMatrixRoomViaSynapse p cfg creator token policyId name topic =
     bindA (fetchY p (synapse_post cfg ''/_matrix/client/v3/createRoom'' (literal p token)
              (room_body creator (MATRIX_ENFORCEMENT_USER_ID cfg) policyId name topic))) (\<lambda>res.
     bindA (guardA (res_ok res) (JsError (''Error: createMatrixRoomViaSynapse: Synapse /createRoom failed for '' @ creator @
              '' (status '' @ int_str (fe_status res) @ '').''))) (\<lambda>_.
     bindA (liftA (fe_json res)) (\<lambda>body.
     bindA (liftA (js_prop body ''room_id'')) (\<lambda>roomId.
     bindA (guardA (truthy roomId) (JsError (''Error: createMatrixRoomViaSynapse: Synapse /createRoom response for '' @ creator @
              '' missing room_id.''))) (\<lambda>_.
       retA (roomId, field body ''room_alias''))))))"

definition index_room :: "('y, 'z) services_scheme \<Rightarrow> js \<Rightarrow> js \<Rightarrow> ('y, unit) wact" where
  "index_room p roomId policyId =
     bindA (nowY p) (\<lambda>now.
     bindA (liftA (sql_text p roomId)) (\<lambda>r.
     bindA (liftA (sql_text p policyId)) (\<lambda>c.
       query p (insertRoomIndexEntry r c (now * 1000)))))"

text \<open>\<open>POST /matrix/rooms\<close>.\<close>

definition rooms_route ::
    "('y, 'z) services_scheme \<Rightarrow> wallet_config \<Rightarrow> string option \<Rightarrow> js \<Rightarrow> ('y, js \<times> js) wact" where
  "rooms_route p cfg header body =
     bindA (requireSessionToken p cfg header) (\<lambda>session.
     let policyId = field body ''policy_id'' in
     bindA (need (truthy (field body ''card_hash'') \<and> truthy policyId) 400 ''card_hash and policy_id are required.'') (\<lambda>_.
     bindA (liftA (assertCardHashBelongsToSession (session_card session) (field body ''card_hash''))) (\<lambda>_.
     bindA (provisionShadowAccount p cfg (session_card session)) (\<lambda>(userId, created).
     bindA (mintMatrixAccessToken p cfg userId) (\<lambda>token.
     bindA (createMatrixRoomViaSynapse p cfg userId token policyId (field body ''name'') (field body ''topic'')) (\<lambda>(roomId, alias).
     bindA (index_room p roomId policyId) (\<lambda>_.
       retA (roomId, alias))))))))"

text \<open>\<open>GET /matrix/room-index\<close>.\<close>

definition getRoomIndexResponse :: "('y, 'z) services_scheme \<Rightarrow> ('y, js) wact" where
  "getRoomIndexResponse p =
     bindA (query p listRoomIndex) (\<lambda>rows.
     bindA (nowY p) (\<lambda>now.
       retA (Obj [(''rooms'', Arr (map (\<lambda>r. Obj [(''room_id'', Str (mr_room_id r)), (''policy_id'', Str (mr_policy_id r)),
                     (''created_at'', Str (iso_of_ms p (get_time (mr_created_at r))))]) rows)),
                  (''updated_at'', Str (iso_of_ms p now))])))"

section \<open>Discovery\<close>

text \<open>
  A room predicate document is whatever JSON the gateway answers. \<open>===\<close> between values of
  two documents: objects and arrays are never the same, and \<open>NaN\<close> equals nothing.
\<close>

fun strict_equal :: "js \<Rightarrow> js \<Rightarrow> bool" where
  "strict_equal (Arr xs) w = False"
| "strict_equal (Obj kvs) w = False"
| "strict_equal (Num NaN) w = False"
| "strict_equal v w = (v = w)"

text \<open>\<open>new RegExp(v)\<close>.\<close>

fun regex_source :: "('r) runtime_scheme \<Rightarrow> js \<Rightarrow> string" where
  "regex_source p Undef = []"
| "regex_source p v = literal p v"

record room_conditions =
  rc_policy_id :: js
  rc_field_match :: "(string \<times> js) option"

definition entryConditions :: "('r) runtime_scheme \<Rightarrow> js \<Rightarrow> room_conditions res" where
  "entryConditions p entry =
     bindE (js_prop entry ''resolved_ref'') (\<lambda>resolved.
       let fm = field entry ''field_match'' in
       Inr \<lparr>rc_policy_id = nullish resolved (field entry ''ref''),
            rc_field_match = (if truthy fm then Some (literal p (field fm ''field''), field fm ''regex'') else None)\<rparr>)"

text \<open>
  The verifier's \<open>evaluatePolicyMatch\<close> at these conditions, of which the code only asks
  whether they matched.
\<close>

fun conditions_match :: "('r) runtime_scheme \<Rightarrow> room_conditions \<Rightarrow> chain_link list \<Rightarrow> bool res" where
  "conditions_match p c [] = Inr False"
| "conditions_match p c (link # links) =
     bindE (js_prop (cl_card_content link) ''policy_id'') (\<lambda>pid.
       if \<not> strict_equal pid (rc_policy_id c) then conditions_match p c links
       else case rc_field_match c of None \<Rightarrow> Inr True
       | Some (name, regex) \<Rightarrow>
           if fieldValueMatches p (field (cl_card_content link) name) (Regex (regex_source p regex)) then Inr True
           else conditions_match p c links)"

fun any_policy :: "('r) runtime_scheme \<Rightarrow> chain_link list \<Rightarrow> js list \<Rightarrow> bool res" where
  "any_policy p chain [] = Inr False"
| "any_policy p chain (entry # entries) =
     bindE (entryConditions p entry) (\<lambda>c.
     bindE (conditions_match p c chain) (\<lambda>matched.
       if matched then Inr True else any_policy p chain entries))"

definition evaluateRoomPredicate :: "('r) runtime_scheme \<Rightarrow> js \<Rightarrow> chain_link list \<Rightarrow> bool res" where
  "evaluateRoomPredicate p predicateDocument chain =
     bindE (js_prop predicateDocument ''policies'') (\<lambda>policies.
     bindE (js_iterate (nullish policies (Arr []))) (any_policy p chain))"

definition strip_slashes :: "string \<Rightarrow> string" where
  "strip_slashes s = rev (dropWhile (\<lambda>c. c = CHR ''/'') (rev s))"

definition joinUrl :: "string \<Rightarrow> string \<Rightarrow> string" where
  "joinUrl base cid = strip_slashes base @ ''/'' @ cid"

definition fetchPredicateDocument :: "('y, 'z) services_scheme \<Rightarrow> string \<Rightarrow> string \<Rightarrow> ('y, js) wact" where
  "fetchPredicateDocument p policyId gateway =
     catchA (bindA (fetchY p (get_request (joinUrl gateway policyId))) (\<lambda>res.
             if res_ok res then liftA (fe_json res) else retA Null))
       (\<lambda>err. retA Null)"

definition room_eligible :: "('y, 'z) services_scheme \<Rightarrow> wallet_config \<Rightarrow> chain_link list \<Rightarrow> room_row \<Rightarrow> ('y, string list) wact" where
  "room_eligible p cfg chain room =
     bindA (fetchPredicateDocument p (mr_policy_id room) (IPFS_GATEWAY_URL cfg)) (\<lambda>doc.
       if doc = Null then retA []
       else bindA (liftA (evaluateRoomPredicate p doc chain)) (\<lambda>eligible.
         retA (if eligible then [mr_room_id room] else [])))"

text \<open>
  The chain verifier is an argument. An envelope the verifier does not accept for this card
  is the error that the route answers with status 403.
\<close>

definition discovery_chain :: "envelope_result \<Rightarrow> string \<Rightarrow> chain_link list res" where
  "discovery_chain verification expectedCardHash =
     (case er_signatures verification of
        [] \<Rightarrow> Inl (HttpError 403 ''room-discovery envelope signature did not verify.'')
      | s # ss \<Rightarrow>
          if sr_signature_valid s \<noteq> Some True
          then Inl (HttpError 403 ''room-discovery envelope signature did not verify.'')
          else if sr_signer_card s \<noteq> expectedCardHash
          then Inl (HttpError 403 ''room-discovery envelope's signer_card does not match the authenticated session's card_hash.'')
          else Inr (case sr_chain s of None \<Rightarrow> [] | Some chain \<Rightarrow> chain))"

definition discoverEligibleRooms ::
    "('y, 'z) services_scheme \<Rightarrow> wallet_config \<Rightarrow> (js \<Rightarrow> ('y, envelope_result) wact) \<Rightarrow> js \<Rightarrow> string \<Rightarrow> room_row list
      \<Rightarrow> ('y, string list) wact" where
  "discoverEligibleRooms p cfg verifyEnvelopeOf env expectedCardHash roomIndex =
     bindA (verifyEnvelopeOf env) (\<lambda>verification.
     bindA (liftA (discovery_chain verification expectedCardHash)) (\<lambda>chain.
     bindA (mapA (room_eligible p cfg chain) roomIndex) (\<lambda>found. retA (concat found))))"

definition createCardChainVerifier :: "wallet_config \<Rightarrow> js \<Rightarrow> ('y, envelope_result) wact" where
  "createCardChainVerifier cfg env =
     throwA (JsError ''Error: No production CardChainVerifier is wired up yet.'')"

definition DISCOVER_ROOMS_LIMIT :: int where
  "DISCOVER_ROOMS_LIMIT = 30"

text \<open>\<open>POST /matrix/discover-rooms\<close>.\<close>

definition discover_rooms_route ::
    "('y, 'z) services_scheme \<Rightarrow> wallet_config \<Rightarrow> string option \<Rightarrow> js \<Rightarrow> ('y, string list) wact" where
  "discover_rooms_route p cfg header body =
     bindA (requireSessionToken p cfg header) (\<lambda>session.
     bindA (enforceRateLimit p (KV_BACKEND cfg) (discoverRoomsRateKey (session_card session)) DISCOVER_ROOMS_LIMIT 60) (\<lambda>_.
     bindA (need (truthy (field body ''envelope'')) 400 ''envelope is required.'') (\<lambda>_.
     bindA (query p listRoomIndex) (\<lambda>roomIndex.
       discoverEligibleRooms p cfg (createCardChainVerifier cfg) (field body ''envelope'') (session_card session) roomIndex))))"

section \<open>Credentials\<close>

definition recordMatrixCredential ::
    "('y, 'z) services_scheme \<Rightarrow> secrets_backend \<Rightarrow> string \<Rightarrow> bytes \<Rightarrow> string \<Rightarrow> string \<Rightarrow> ('y, unit) wact" where
  "recordMatrixCredential p backend name plaintext path description =
     bindA (encryptSecret p backend plaintext) (\<lambda>(ciphertext, dekEnc).
       query p (upsert_credential name ciphertext dekEnc path description))"

definition listMatrixCredentials :: "('y, 'z) services_scheme \<Rightarrow> ('y, (string \<times> string \<times> string \<times> int \<times> int option) list) wact" where
  "listMatrixCredentials p = bindA (query p list_credentials) (\<lambda>rows.
     retA (map (\<lambda>r. (mc_credential_name r, mc_key_file_path r, mc_description r, mc_created_at r, mc_rotated_at r)) rows))"

definition decryptMatrixCredential ::
    "('y, 'z) services_scheme \<Rightarrow> secrets_backend \<Rightarrow> string \<Rightarrow> ('y, bytes option) wact" where
  "decryptMatrixCredential p backend name =
     bindA (query p (find_credential name)) (\<lambda>row. case row of None \<Rightarrow> retA None
       | Some r \<Rightarrow> bindA (decryptSecret p backend (mc_ciphertext r) (mc_dek_enc r)) (\<lambda>plain. retA (Some plain)))"

end
