(* ===== verification/Wallet_Ohttp.thy ===== *)
theory Wallet_Ohttp
  imports Wallet_Messages
begin

text \<open>
  The oblivious gateway of the wallet service (\<open>wallet-service/src/ohttp-gateway.ts\<close>,
  \<open>src/ohttp-router.ts\<close>, \<open>server/routes/ohttp\<close>): one HPKE key pair per process, requests
  opened under it, and a dispatcher that calls the handlers of the plain routes.
\<close>

section \<open>The key pair\<close>

definition KV_KEY :: string where
  "KV_KEY = ''wallet:ohttp:keypair''"

definition stored_text :: "js \<Rightarrow> string \<Rightarrow> string res" where
  "stored_text stored k = (case field stored k of Str s \<Rightarrow> Inr s
     | _ \<Rightarrow> Inl (JsError ''TypeError: The first argument must be of type string''))"

definition stored_keypair ::
    "('y, 'z) services_scheme \<Rightarrow> secrets_backend \<Rightarrow> js \<Rightarrow> ('y, bytes \<times> bytes) wact" where
  "stored_keypair p backend stored =
     bindA (liftA (stored_text stored ''ciphertext'')) (\<lambda>ciphertext.
     bindA (liftA (stored_text stored ''dekEnc'')) (\<lambda>dekEnc.
     bindA (decryptSecret p backend ciphertext dekEnc) (\<lambda>secretKey.
     bindA (liftA (stored_text stored ''publicKey'')) (\<lambda>publicKey.
       retA (base64url_to_bytes publicKey, secretKey)))))"

definition new_keypair ::
    "('y, 'z) services_scheme \<Rightarrow> wallet_config \<Rightarrow> secrets_backend \<Rightarrow> ('y, bytes \<times> bytes) wact" where
  "new_keypair p cfg backend =
     bindA (outY (\<lambda>y. case hpke_generate p y of (kp, y') \<Rightarrow> (Inr kp, y'))) (\<lambda>(publicKey, secretKey).
     bindA (encryptSecret p backend secretKey) (\<lambda>(ciphertext, dekEnc).
     bindA (kv_setItem p (KV_BACKEND cfg) KV_KEY
              (Obj [(''publicKey'', Str (bytes_to_base64url publicKey)), (''ciphertext'', Str ciphertext),
                    (''dekEnc'', Str dekEnc)]) None) (\<lambda>_.
       retA (publicKey, secretKey))))"

definition load_keypair :: "('y, 'z) services_scheme \<Rightarrow> wallet_config \<Rightarrow> ('y, bytes \<times> bytes) wact" where
  "load_keypair p cfg =
     bindA (kv_getItem p (KV_BACKEND cfg) KV_KEY) (\<lambda>stored.
     bindA (liftA (createSecretsService cfg)) (\<lambda>backend.
       if truthy stored then stored_keypair p backend stored else new_keypair p cfg backend))"

text \<open>
  \<open>getOrCreateKeypair\<close>: the promise of the first call is kept for the life of the process,
  whether it was fulfilled or rejected.
\<close>

definition remember_keypair :: "(bytes \<times> bytes) res \<Rightarrow> ('y, unit) wact" where
  "remember_keypair r = (\<lambda>w. (Inr (), w\<lparr>ohttp_keypair := Some r\<rparr>))"

definition getOrCreateKeypair :: "('y, 'z) services_scheme \<Rightarrow> wallet_config \<Rightarrow> ('y, bytes \<times> bytes) wact" where
  "getOrCreateKeypair p cfg =
     bindA (readA (\<lambda>w. Inr (ohttp_keypair w))) (\<lambda>cached. case cached of
       Some r \<Rightarrow> liftA r
     | None \<Rightarrow> bindA (caught (load_keypair p cfg)) (\<lambda>r. bindA (remember_keypair r) (\<lambda>_. liftA r)))"

definition getKeyConfig :: "('y, 'z) services_scheme \<Rightarrow> wallet_config \<Rightarrow> string \<Rightarrow> ('y, js) wact" where
  "getKeyConfig p cfg targetId =
     bindA (getOrCreateKeypair p cfg) (\<lambda>(publicKey, secretKey).
       retA (Obj [(''kemId'', Num (Fin 32)), (''kdfId'', Num (Fin 1)), (''aeadId'', Num (Fin 2)),
                  (''publicKey'', Str (bytes_to_base64url publicKey)), (''targetId'', Str targetId)]))"

text \<open>\<open>GET /ohttp/key-config\<close>.\<close>

definition key_config_route :: "('y, 'z) services_scheme \<Rightarrow> wallet_config \<Rightarrow> ('y, js) wact" where
  "key_config_route p cfg = getKeyConfig p cfg (WALLET_SERVICE_ID cfg)"

section \<open>Envelopes\<close>

text \<open>The opened request and the key under which the response is sealed.\<close>

definition decapsulate ::
    "('y, 'z) services_scheme \<Rightarrow> wallet_config \<Rightarrow> js \<Rightarrow> js \<Rightarrow> ('y, js \<times> bytes) wact" where
  "decapsulate p cfg enc ciphertext =
     bindA (getOrCreateKeypair p cfg) (\<lambda>(publicKey, secretKey).
     bindA (liftA (fromBase64url p enc)) (\<lambda>encBytes.
     bindA (liftA (fromBase64url p ciphertext)) (\<lambda>sealed.
     bindA (liftA (hpke_open p secretKey encBytes sealed)) (\<lambda>(plaintext, responseKey).
     bindA (liftA (json_parse p plaintext)) (\<lambda>env. retA (env, responseKey))))))"

record ohttp_response =
  or_status :: int
  or_body :: "string option"

definition response_js :: "ohttp_response \<Rightarrow> js" where
  "response_js r = Obj ([(''status'', Num (Fin (or_status r))), (''headers'', Obj [])] @
     (case or_body r of None \<Rightarrow> [] | Some b \<Rightarrow> [(''body'', Str b)]))"

definition encapsulateResponse ::
    "('y, 'z) services_scheme \<Rightarrow> bytes \<Rightarrow> ohttp_response \<Rightarrow> ('y, string \<times> string) wact" where
  "encapsulateResponse p responseKey response =
     bindA (randomY p 12) (\<lambda>nonce.
       retA (bytes_to_base64url nonce,
             bytes_to_base64url (aes_gcm_seal p responseKey nonce (utf8_encode (json_stringify (response_js response))))))"

definition decodeBody :: "('y, 'z) services_scheme \<Rightarrow> js \<Rightarrow> js res" where
  "decodeBody p body = (if \<not> truthy body then Inr Undef else bindE (fromBase64url p body) (json_parse p))"

definition encodeBody :: "js \<Rightarrow> string option" where
  "encodeBody body = (if body = Null \<or> body = Undef then None
     else Some (bytes_to_base64url (utf8_encode (json_stringify body))))"

definition ohttp_ok :: "int \<Rightarrow> js \<Rightarrow> ohttp_response" where
  "ohttp_ok code body = \<lparr>or_status = code, or_body = encodeBody body\<rparr>"

definition ohttp_fail :: "int \<Rightarrow> string \<Rightarrow> ohttp_response" where
  "ohttp_fail code msg = ohttp_ok code (Obj [(''error'', Str msg)])"

section \<open>Paths\<close>

definition matchSubcardPath :: "string \<Rightarrow> (string \<times> string \<times> bool) option" where
  "matchSubcardPath path =
     (case path_segments path of
        [a, c, b, s] \<Rightarrow> if a = ''cards'' \<and> b = ''subcards'' \<and> c \<noteq> [] \<and> s \<noteq> [] then Some (c, s, False) else None
      | [a, c, b, s, u] \<Rightarrow>
          if a = ''cards'' \<and> b = ''subcards'' \<and> u = ''uuids'' \<and> c \<noteq> [] \<and> s \<noteq> [] then Some (c, s, True) else None
      | _ \<Rightarrow> None)"

definition matchKeyringPath :: "string \<Rightarrow> string option" where
  "matchKeyringPath path = (case path_segments path of
     [a, k] \<Rightarrow> if a = ''keyrings'' \<and> k \<noteq> [] then Some k else None | _ \<Rightarrow> None)"

definition matchKeyringChallengePath :: "string \<Rightarrow> string option" where
  "matchKeyringChallengePath path = (case path_segments path of
     [a, c, k, d] \<Rightarrow> if a = ''accounts'' \<and> k = ''keyring'' \<and> d = ''challenge'' \<and> c \<noteq> [] then Some c else None
   | _ \<Rightarrow> None)"

definition matchAccountKeyringPath :: "string \<Rightarrow> string option" where
  "matchAccountKeyringPath path = (case path_segments path of
     [a, c, k] \<Rightarrow> if a = ''accounts'' \<and> k = ''keyring'' \<and> c \<noteq> [] then Some c else None | _ \<Rightarrow> None)"

definition matchBackupsPath :: "string \<Rightarrow> string option" where
  "matchBackupsPath path = (case path_segments path of
     [a, c, k] \<Rightarrow> if a = ''accounts'' \<and> k = ''backups'' \<and> c \<noteq> [] then Some c else None | _ \<Rightarrow> None)"

section \<open>Dispatch\<close>

text \<open>
  A handler's outcome becomes a response; an \<open>{ ok: false }\<close> outcome is an HTTP error here.
  Any other exception ends the request.
\<close>

definition respond :: "int \<Rightarrow> ('a \<Rightarrow> js) \<Rightarrow> ('y, 'a) wact \<Rightarrow> ('y, ohttp_response) wact" where
  "respond code body m =
     catchA (bindA m (\<lambda>a. retA (ohttp_ok code (body a))))
       (\<lambda>err. case err of HttpError c msg \<Rightarrow> retA (ohttp_fail c msg) | _ \<Rightarrow> throwA err)"

definition challenge_body :: "string \<times> string \<Rightarrow> js" where
  "challenge_body r = Obj [(''challenge'', Str (fst r)), (''expires_at'', Str (snd r))]"

definition account_body :: "account_created \<Rightarrow> js" where
  "account_body a = Obj [(''service_secret'', Str (cr_service_secret a)), (''account_id'', Str (cr_account_id a)),
     (''keyring_id'', Str (cr_keyring_id a)), (''session_token'', Str (cr_session_token a)),
     (''expires_at'', Str (cr_expires_at a))]"

definition message_response :: "message_answer \<Rightarrow> ohttp_response" where
  "message_response a = (case a of Accepted \<Rightarrow> ohttp_ok 202 Null
     | Card_Migrated serviceId endpoint \<Rightarrow> ohttp_ok 410 (Obj [(''error'', Str ''card_migrated''),
         (''wallet_service_id'', Str serviceId), (''endpoint'', Str endpoint)]))"

definition dispatch_messages :: "('y, 'z) services_scheme \<Rightarrow> wallet_config \<Rightarrow> js \<Rightarrow> ('y, ohttp_response) wact" where
  "dispatch_messages p cfg body =
     catchA (bindA (handleMessagesCreate p cfg body) (\<lambda>a. retA (message_response a)))
       (\<lambda>err. case err of HttpError c msg \<Rightarrow> retA (ohttp_fail c msg) | _ \<Rightarrow> throwA err)"

text \<open>\<open>envelope.headers?.authorization\<close> with \<open>startsWith\<close> called on it.\<close>

definition authorization_of :: "js \<Rightarrow> string option res" where
  "authorization_of env =
     bindE (opt_prop (field env ''headers'') ''authorization'') (\<lambda>v. case v of
       Str s \<Rightarrow> Inr (Some s) | Undef \<Rightarrow> Inr None | Null \<Rightarrow> Inr None
     | _ \<Rightarrow> Inl (JsError ''TypeError: startsWith is not a function''))"

definition dispatch_subcard ::
    "('y, 'z) services_scheme \<Rightarrow> wallet_config \<Rightarrow> js \<Rightarrow> string \<Rightarrow> ('y, ohttp_response) wact" where
  "dispatch_subcard p cfg env path =
     (let meth = field env ''method'';
          unreachable = retA (ohttp_fail 404 (''Not reachable through the OHTTP gateway: '' @ literal p meth @ '' '' @ path)) in
      case matchSubcardPath path of
        None \<Rightarrow> unreachable
      | Some (c, s, uuids) \<Rightarrow>
          if uuids \<and> meth = Str ''POST''
          then bindA (liftA (decodeBody p (field env ''body''))) (\<lambda>body.
                 respond 204 (\<lambda>_. Null) (handleUuidRegistration p cfg c s body))
          else if \<not> uuids \<and> meth = Str ''DELETE''
          then bindA (liftA (decodeBody p (field env ''body''))) (\<lambda>body.
                 respond 204 (\<lambda>_. Null) (handleSubcardDeregistration p cfg c s body))
          else unreachable)"

definition dispatch_post ::
    "('y, 'z) services_scheme \<Rightarrow> wallet_config \<Rightarrow> js \<Rightarrow> string \<Rightarrow> ('y, ohttp_response) wact" where
  "dispatch_post p cfg env path =
     (case (matchKeyringChallengePath path, matchBackupsPath path) of
        (Some c, _) \<Rightarrow> respond 200 challenge_body (handleKeyringChallenge p c)
      | (None, Some c) \<Rightarrow>
          bindA (liftA (decodeBody p (field env ''body''))) (\<lambda>body.
          bindA (liftA (authorization_of env)) (\<lambda>header.
            respond 200 (\<lambda>b. Obj [(''backup_id'', Str b)]) (handleCreateBackup p cfg c header body)))
      | (None, None) \<Rightarrow>
          if field env ''path'' = Str ''/messages''
          then bindA (liftA (decodeBody p (field env ''body''))) (dispatch_messages p cfg)
          else dispatch_subcard p cfg env path)"

definition dispatch ::
    "('y, 'z) services_scheme \<Rightarrow> wallet_config \<Rightarrow> string \<Rightarrow> js \<Rightarrow> ('y, ohttp_response) wact" where
  "dispatch p cfg ip env =
     bindA (liftA (js_prop env ''method'')) (\<lambda>meth.
     let path = literal p (field env ''path'') in
       if meth = Str ''POST'' \<and> field env ''path'' = Str ''/accounts/challenge''
       then respond 200 challenge_body (handleAccountsChallenge p cfg ip)
       else if meth = Str ''POST'' \<and> field env ''path'' = Str ''/accounts''
       then bindA (liftA (decodeBody p (field env ''body''))) (\<lambda>body.
              respond 200 account_body (handleAccountsCreate p cfg ip body))
       else if meth = Str ''GET'' \<and> matchKeyringPath path \<noteq> None
       then respond 200 (\<lambda>b. Obj [(''encrypted_blob'', Str b)]) (handleKeyringsGet p (the (matchKeyringPath path)))
       else if meth = Str ''PUT'' \<and> matchAccountKeyringPath path \<noteq> None
       then bindA (liftA (decodeBody p (field env ''body''))) (\<lambda>body.
              respond 200 (\<lambda>(s, k). Obj [(''service_secret'', Str s), (''keyring_id'', Str k)])
                (handleKeyringUpdate p cfg (the (matchAccountKeyringPath path)) body))
       else if meth = Str ''POST'' then dispatch_post p cfg env path
       else dispatch_subcard p cfg env path)"

text \<open>\<open>POST /ohttp/gateway\<close>: the nonce and the sealed response.\<close>

definition gateway_route ::
    "('y, 'z) services_scheme \<Rightarrow> wallet_config \<Rightarrow> string \<Rightarrow> js \<Rightarrow> ('y, string \<times> string) wact" where
  "gateway_route p cfg ip body =
     (let enc = field body ''enc''; ciphertext = field body ''ciphertext'' in
      bindA (need (truthy enc \<and> truthy ciphertext) 400 ''enc and ciphertext are required.'') (\<lambda>_.
      bindA (decapsulate p cfg enc ciphertext) (\<lambda>(env, responseKey).
      bindA (dispatch p cfg ip env) (\<lambda>response.
        encapsulateResponse p responseKey response))))"

end
