(* ===== verification/Wallet_Steps.thy ===== *)
theory Wallet_Steps
  imports Wallet_Matrix Wallet_Ohttp
begin

text \<open>
  What the wallet service can do to its database. The state machine \<open>sql_step\<close> has one
  transition per statement of the repositories; whatever a handler does, and however it ends,
  its effect on the database is a sequence of such transitions. Since the server runs
  handlers concurrently and only statements are atomic, an invariant of \<open>sql_step\<close> holds for
  every interleaving of handlers.
\<close>

section \<open>The statements that write\<close>

inductive sql_step :: "database \<Rightarrow> database \<Rightarrow> bool" where
  account: "sql_step d (snd (createAccount rid inp now d))"
| sign_count: "sql_step d (snd (updateWebAuthnSignCount c n now d))"
| secret_and_keyring: "sql_step d (snd (updateServiceSecretAndKeyring c k s e now d))"
| keyring_only: "sql_step d (snd (updateKeyringOnly c k now d))"
| challenge: "sql_step d (snd (insert_challenge purpose card_hash ch expires now d))"
| consume: "sql_step d (snd (consume_challenges purpose card_hash ch now d))"
| backup: "sql_step d (snd (createBackupRegistration f rid holder ty b k channels pubkey now d))"
| window: "sql_step d (snd (createRecoveryWindow rid b now d))"
| cancel: "sql_step d (snd (cancelRecoveryWindow rid now d))"
| release: "sql_step d (snd (releaseRecoveryWindow rid now d))"
| job: "sql_step d (snd (enqueueNotificationJob f rid r channel payload now d))"
| sent: "sql_step d (snd (markJobSent rid now d))"
| failed: "sql_step d (snd (markJobFailed rid n now d))"
| routing: "sql_step d (snd (upsertRoutingEntry row now d))"
| nonce: "sql_step d (snd (recordNonceIfNew n' now d))"
| prune_nonces: "sql_step d (snd (pruneOldNonces now d))"
| blob: "sql_step d (snd (insertKeyringBlob k c b' now d))"
| delete_blob: "sql_step d (snd (deleteKeyringBlob k now d))"
| message: "sql_step d (snd (enqueueMessage rid c s payload' now d))"
| delivery: "sql_step d (snd (setDeliveryUuid m u now d))"
| clear: "sql_step d (snd (clearMessageByDeliveryUuid u now d))"
| claim: "sql_step d (snd (claimNextUuid c s now d))"
| uuids: "sql_step d (snd (registerUuids c s us now d))"
| consume_all: "sql_step d (snd (consumeAllForSubcard c s now d))"
| prune_uuids: "sql_step d (snd (pruneExpiredConsumedUuids now d))"
| action_nonce: "sql_step d (snd (recordSubcardActionNonceIfNew s action n' now d))"
| prune_action_nonces: "sql_step d (snd (pruneOldSubcardActionNonces now d))"
| room: "sql_step d (snd (insertRoomIndexEntry r c created now d))"
| credential: "sql_step d (snd (upsert_credential name c e path text now d))"
| put: "sql_step d (snd (upsert_kv k v expiry_time now d))"
| remove: "sql_step d (snd (delete_kv k now d))"

section \<open>Programs that only execute statements\<close>

definition on_db :: "(database \<Rightarrow> database \<Rightarrow> bool) \<Rightarrow> 'y wallet \<Rightarrow> 'y wallet \<Rightarrow> bool" where
  "on_db R w w' \<longleftrightarrow> R (db w) (db w')"

abbreviation statements :: "('y, 'a) wact \<Rightarrow> bool" where
  "statements m \<equiv> obeys (on_db sql_step\<^sup>*\<^sup>*) m"

interpretation sql: step_order "on_db sql_step\<^sup>*\<^sup>*"
  by unfold_locales (auto simp: on_db_def)

named_theorems statements_intros "programs that only execute statements"

lemmas sql_combinators [statements_intros] =
  sql.obeys_basic sql.obeys_bindA sql.obeys_catchA sql.obeys_mapA sql.obeys_forA obeys_cases

lemma obeys_case_js [statements_intros]:
  "obeys R a \<Longrightarrow> obeys R b \<Longrightarrow> (\<And>x. obeys R (c x)) \<Longrightarrow> (\<And>n. obeys R (d n)) \<Longrightarrow> (\<And>s. obeys R (e s)) \<Longrightarrow>
     (\<And>xs. obeys R (f xs)) \<Longrightarrow> (\<And>kvs. obeys R (g kvs)) \<Longrightarrow>
     obeys R (case v of Undef \<Rightarrow> a | Null \<Rightarrow> b | Bool x \<Rightarrow> c x | Num n \<Rightarrow> d n | Str s \<Rightarrow> e s | Arr xs \<Rightarrow> f xs | Obj kvs \<Rightarrow> g kvs)"
  by (cases v) auto

lemma obeys_case_list [statements_intros]:
  "obeys R a \<Longrightarrow> (\<And>x xs. obeys R (f x xs)) \<Longrightarrow> obeys R (case l of [] \<Rightarrow> a | x # xs \<Rightarrow> f x xs)"
  by (cases l) auto

lemma obeys_case_bool [statements_intros]: "obeys R a \<Longrightarrow> obeys R b \<Longrightarrow> obeys R (case c of True \<Rightarrow> a | False \<Rightarrow> b)"
  by (cases c) auto

lemma obeys_case_number [statements_intros]:
  "(\<And>i. obeys R (a i)) \<Longrightarrow> (\<And>b. obeys R (f b)) \<Longrightarrow> obeys R c \<Longrightarrow>
     obeys R (case n of Fin i \<Rightarrow> a i | Infinite b \<Rightarrow> f b | NaN \<Rightarrow> c)"
  by (cases n) auto

lemma obeys_case_exn [statements_intros]:
  "(\<And>x y. obeys R (a x y)) \<Longrightarrow> (\<And>x y. obeys R (b x y)) \<Longrightarrow> (\<And>x y. obeys R (c x y)) \<Longrightarrow> (\<And>x y. obeys R (d x y)) \<Longrightarrow>
     (\<And>x. obeys R (e x)) \<Longrightarrow>
     obeys R (case v of CardProtocolError x y \<Rightarrow> a x y | PressFailure x y \<Rightarrow> b x y | HttpError i y \<Rightarrow> c i y
        | DbError x y \<Rightarrow> d x y | JsError x \<Rightarrow> e x)"
  by (cases v) auto

lemma obeys_case_channel [statements_intros]:
  "obeys R a \<Longrightarrow> obeys R b \<Longrightarrow> obeys R c \<Longrightarrow> obeys R d \<Longrightarrow> obeys R e \<Longrightarrow>
     obeys R (case v of Email \<Rightarrow> a | Sms \<Rightarrow> b | Webhook \<Rightarrow> c | Secondary_Email \<Rightarrow> d | Secondary_Sms \<Rightarrow> e)"
  by (cases v) auto

lemma statements_unchanged: "(\<And>w r w'. m w = (r, w') \<Longrightarrow> db w' = db w) \<Longrightarrow> statements m"
  by (auto simp: obeys_def on_db_def)

lemma statements_outside [statements_intros]:
  "statements (outY f)" "statements (nowY p)" "statements (randomY p n)" "statements (uuidY p)" "statements (fetchY p req)"
  "statements (nitro_set k v)" "statements (cache_dek k entry)" "statements (remember_keypair kp)"
  by (rule statements_unchanged, auto simp: nowY_def randomY_def uuidY_def fetchY_def outY_run nitro_set_def
      cache_dek_def remember_keypair_def)+

lemma statements_query:
  assumes "\<And>now d. sql_step\<^sup>*\<^sup>* d (snd (q now d))"
  shows "statements (query p q)"
  unfolding obeys_def on_db_def query_def
  using assms by (auto split: prod.splits sum.splits) (metis snd_conv)

lemma statements_write [statements_intros]:
  assumes "\<And>now d. sql_step d (snd (q now d))" shows "statements (query p q)"
  using assms by (intro statements_query) blast

lemma statements_read: "(\<And>now d. snd (q now d) = d) \<Longrightarrow> statements (query p q)"
  by (rule statements_query) simp

lemma statements_reads [statements_intros]:
  "statements (query p (findAccountByCardHash c))" "statements (query p (findBackupRegistrationById b))"
  "statements (query p (findActiveRecoveryWindow b))" "statements (query p (findRecoveryWindowById b))"
  "statements (query p listPendingRecoveryWindows)" "statements (query p (findDueJobs n))"
  "statements (query p (findRoutingEntry c))" "statements (query p listRoutingTable)"
  "statements (query p (findKeyringBlob c))" "statements (query p (findUnclearedMessagesForSubcard c b))"
  "statements (query p countHeldMessagesPerCard)" "statements (query p (subcardHasAnyHistory c b))"
  "statements (query p listUuidPoolSizes)" "statements (query p listRoomIndex)"
  "statements (query p (find_credential c))" "statements (query p list_credentials)" "statements (query p (select_kv c))"
  "statements (query p (\<lambda>now d. (Inr x, d)))"
  by (rule statements_read; simp add: findAccountByCardHash_def findBackupRegistrationById_def
      findActiveRecoveryWindow_def findRecoveryWindowById_def listPendingRecoveryWindows_def findDueJobs_def
      findRoutingEntry_def listRoutingTable_def findKeyringBlob_def findUnclearedMessagesForSubcard_def
      countHeldMessagesPerCard_def subcardHasAnyHistory_def listUuidPoolSizes_def listRoomIndex_def
      find_credential_def list_credentials_def select_kv_def Let_def)+

lemmas sql_writes [statements_intros] = sql_step.intros

section \<open>Stores, limits and secrets\<close>

lemma statements_pg_getItem [statements_intros]: "statements (pg_getItem a1 a2)"
  unfolding pg_getItem_def Let_def by (intro statements_intros)

lemma statements_pg_setItem [statements_intros]: "statements (pg_setItem a1 a2 a3 a4)"
  unfolding pg_setItem_def Let_def by (intro statements_intros)

lemma statements_pg_removeItem [statements_intros]: "statements (pg_removeItem a1 a2)"
  unfolding pg_removeItem_def Let_def by (intro statements_intros)

lemma statements_pg_increment [statements_intros]: "statements (pg_increment a1 a2 a3)"
  unfolding pg_increment_def Let_def by (intro statements_intros)

lemma statements_nitro_getItem [statements_intros]: "statements (nitro_getItem a1 a2)"
  unfolding nitro_getItem_def Let_def by (intro statements_intros)

lemma statements_nitro_setItem [statements_intros]: "statements (nitro_setItem a1 a2 a3 a4)"
  unfolding nitro_setItem_def Let_def by (intro statements_intros)

lemma statements_nitro_removeItem [statements_intros]: "statements (nitro_removeItem a1)"
  unfolding nitro_removeItem_def Let_def by (intro statements_intros)

lemma statements_nitro_increment [statements_intros]: "statements (nitro_increment a1 a2 a3)"
  unfolding nitro_increment_def Let_def by (intro statements_intros)

lemma statements_kv_getItem [statements_intros]: "statements (kv_getItem a1 a2 a3)"
  unfolding kv_getItem_def by (cases a2; simp; intro statements_intros)

lemma statements_kv_setItem [statements_intros]: "statements (kv_setItem a1 a2 a3 a4 a5)"
  unfolding kv_setItem_def by (cases a2; simp; intro statements_intros)

lemma statements_checkSlidingWindow [statements_intros]: "statements (checkSlidingWindow a1 a2 a3 a4 a5 a6)"
  unfolding checkSlidingWindow_def Let_def by (intro statements_intros)

lemma statements_enforceRateLimit [statements_intros]: "statements (enforceRateLimit a1 a2 a3 a4 a5)"
  unfolding enforceRateLimit_def Let_def by (intro statements_intros)

lemma statements_gcm_encrypt [statements_intros]: "statements (gcm_encrypt a1 a2 a3)"
  unfolding gcm_encrypt_def Let_def by (intro statements_intros)

lemma statements_wrapDek [statements_intros]: "statements (wrapDek a1 a2 a3)"
  by (cases a2; simp; intro statements_intros)

lemma statements_unwrapDek [statements_intros]: "statements (unwrapDek a1 a2 a3)"
  by (cases a2; simp; intro statements_intros)

lemma statements_encryptSecret [statements_intros]: "statements (encryptSecret a1 a2 a3)"
  unfolding encryptSecret_def Let_def by (intro statements_intros)

lemma statements_getDek [statements_intros]: "statements (getDek a1 a2 a3)"
  unfolding getDek_def Let_def by (intro statements_intros)

lemma statements_decryptSecret [statements_intros]: "statements (decryptSecret a1 a2 a3 a4)"
  unfolding decryptSecret_def Let_def by (intro statements_intros)

section \<open>Authentication\<close>

lemma statements_generateChallenge [statements_intros]: "statements (generateChallenge a1)"
  unfolding generateChallenge_def Let_def by (intro statements_intros)

lemma statements_issueSessionToken [statements_intros]: "statements (issueSessionToken a1 a2 a3)"
  unfolding issueSessionToken_def Let_def by (intro statements_intros)

lemma statements_check_revoked [statements_intros]: "statements (check_revoked a1 a2 a3 a4 a5)"
  unfolding check_revoked_def Let_def by (intro statements_intros)

lemma statements_verifySessionToken [statements_intros]: "statements (verifySessionToken a1 a2 a3 a4)"
  unfolding verifySessionToken_def Let_def by (intro statements_intros)

lemma statements_revokeSessionToken [statements_intros]: "statements (revokeSessionToken a1 a2 a3)"
  unfolding revokeSessionToken_def Let_def by (intro statements_intros)

lemma statements_invalidateSessionsForCard [statements_intros]: "statements (invalidateSessionsForCard a1 a2 a3)"
  unfolding invalidateSessionsForCard_def Let_def by (intro statements_intros)

lemma statements_requireSessionTokenRaw [statements_intros]: "statements (requireSessionTokenRaw a1 a2 a3)"
  unfolding requireSessionTokenRaw_def Let_def by (intro statements_intros)

lemma statements_requireSessionToken [statements_intros]: "statements (requireSessionToken a1 a2 a3)"
  unfolding requireSessionToken_def Let_def by (intro statements_intros)

lemma statements_requireAdminAuth [statements_intros]: "statements (requireAdminAuth a1 a2)"
  unfolding requireAdminAuth_def Let_def by (intro statements_intros)

lemma statements_issueChallenge [statements_intros]: "statements (issueChallenge a1 a2 a3)"
  unfolding issueChallenge_def Let_def by (intro statements_intros)

lemma statements_consumeChallenge [statements_intros]: "statements (consumeChallenge a1 a2 a3 a4)"
  unfolding consumeChallenge_def Let_def by (intro statements_intros)

lemma statements_fetchSubCardDocument [statements_intros]: "statements (fetchSubCardDocument a1 a2 a3)"
  unfolding fetchSubCardDocument_def Let_def by (intro statements_intros)

lemma statements_caught [statements_intros]: "statements m \<Longrightarrow> statements (caught m)"
  unfolding caught_def by (intro statements_intros)

lemma statements_resolveSubcardPubkey [statements_intros]: "statements (resolveSubcardPubkey a1 a2 a3)"
  unfolding resolveSubcardPubkey_def Let_def by (intro statements_intros)

lemma statements_verify_subcard_envelope [statements_intros]: "statements (verify_subcard_envelope a1 a2 a3 a4 a5)"
  unfolding verify_subcard_envelope_def Let_def by (intro statements_intros)

lemma statements_verifyUuidRegistrationEnvelope [statements_intros]: "statements (verifyUuidRegistrationEnvelope a1 a2 a3)"
  unfolding verifyUuidRegistrationEnvelope_def Let_def by (intro statements_intros)

lemma statements_verifySubcardDeregistrationEnvelope [statements_intros]: "statements (verifySubcardDeregistrationEnvelope a1 a2 a3)"
  unfolding verifySubcardDeregistrationEnvelope_def Let_def by (intro statements_intros)

section \<open>Federation\<close>

lemma statements_buildRegistrationAnnouncement [statements_intros]: "statements (buildRegistrationAnnouncement a1 a2 a3 a4 a5)"
  unfolding buildRegistrationAnnouncement_def Let_def by (intro statements_intros)

lemma statements_store_binding [statements_intros]: "statements (store_binding a1 a2 a3)"
  unfolding store_binding_def Let_def by (intro statements_intros)

lemma statements_find_routing [statements_intros]: "statements (find_routing a1 a2)"
  unfolding find_routing_def Let_def by (intro statements_intros)

lemma statements_record_nonce [statements_intros]: "statements (record_nonce a1 a2)"
  unfolding record_nonce_def Let_def by (intro statements_intros)

lemma statements_apply_announcement [statements_intros]: "statements (apply_announcement a1 a2 a3)"
  unfolding apply_announcement_def Let_def by (intro statements_intros)

lemma statements_announce_route [statements_intros]: "statements (announce_route a1 a2 a3)"
  unfolding announce_route_def Let_def by (intro statements_intros)

lemma statements_bindings_route [statements_intros]: "statements (bindings_route a1)"
  unfolding bindings_route_def Let_def by (intro statements_intros)

lemma statements_keyring_replica_route [statements_intros]: "statements (keyring_replica_route a1 a2)"
  unfolding keyring_replica_route_def Let_def by (intro statements_intros)

lemma statements_keyring_delete_route [statements_intros]: "statements (keyring_delete_route a1 a2)"
  unfolding keyring_delete_route_def Let_def by (intro statements_intros)

lemma statements_postToAllPeers [statements_intros]: "statements (postToAllPeers a1 a2 a3 a4)"
  unfolding postToAllPeers_def Let_def by (intro statements_intros)

lemma statements_broadcastAnnouncement [statements_intros]: "statements (broadcastAnnouncement a1 a2 a3)"
  unfolding broadcastAnnouncement_def Let_def by (intro statements_intros)

lemma statements_broadcastKeyring [statements_intros]: "statements (broadcastKeyring a1 a2 a3)"
  unfolding broadcastKeyring_def Let_def by (intro statements_intros)

lemma statements_broadcastKeyringDelete [statements_intros]: "statements (broadcastKeyringDelete a1 a2 a3)"
  unfolding broadcastKeyringDelete_def Let_def by (intro statements_intros)

lemma statements_announceOwnCardRegistration [statements_intros]: "statements (announceOwnCardRegistration a1 a2 a3)"
  unfolding announceOwnCardRegistration_def Let_def by (intro statements_intros)

lemma statements_replicateKeyringBlob [statements_intros]: "statements (replicateKeyringBlob a1 a2 a3 a4 a5)"
  unfolding replicateKeyringBlob_def Let_def by (intro statements_intros)

lemma statements_replicateKeyringDelete [statements_intros]: "statements (replicateKeyringDelete a1 a2 a3)"
  unfolding replicateKeyringDelete_def Let_def by (intro statements_intros)

section \<open>Accounts\<close>

lemma statements_refuse [statements_intros]: "statements (refuse a1 a2)"
  unfolding refuse_def Let_def by (intro statements_intros)

lemma statements_need [statements_intros]: "statements (need a1 a2 a3)"
  unfolding need_def Let_def by (intro statements_intros)

lemma statements_find_account [statements_intros]: "statements (find_account a1 a2)"
  unfolding find_account_def Let_def by (intro statements_intros)

lemma statements_existing_account [statements_intros]: "statements (existing_account a1 a2)"
  unfolding existing_account_def Let_def by (intro statements_intros)

lemma statements_store_blob [statements_intros]: "statements (store_blob a1 a2 a3 a4)"
  unfolding store_blob_def Let_def by (intro statements_intros)

lemma statements_bothA [statements_intros]: "statements m \<Longrightarrow> statements n \<Longrightarrow> statements (bothA m n)"
  unfolding bothA_def by (intro statements_intros)

lemma statements_fresh_secret [statements_intros]: "statements (fresh_secret a1 a2)"
  unfolding fresh_secret_def Let_def by (intro statements_intros)

lemma statements_account_rate [statements_intros]: "statements (account_rate a1 a2 a3)"
  unfolding account_rate_def Let_def by (intro statements_intros)

lemma statements_handleAccountsChallenge [statements_intros]: "statements (handleAccountsChallenge a1 a2 a3)"
  unfolding handleAccountsChallenge_def Let_def by (intro statements_intros)

lemma statements_insert_account [statements_intros]: "statements (insert_account a1 a2 a3 a4 a5)"
  unfolding insert_account_def Let_def by (intro statements_intros)

lemma statements_verify_challenge_signature [statements_intros]: "statements (verify_challenge_signature a1 a2 a3 a4)"
  unfolding verify_challenge_signature_def Let_def by (intro statements_intros)

lemma statements_handleAccountsCreate [statements_intros]: "statements (handleAccountsCreate a1 a2 a3 a4)"
  unfolding handleAccountsCreate_def Let_def by (intro statements_intros)

lemma statements_handleKeyringChallenge [statements_intros]: "statements (handleKeyringChallenge a1 a2)"
  unfolding handleKeyringChallenge_def Let_def by (intro statements_intros)

lemma statements_rotate_keyring [statements_intros]: "statements (rotate_keyring a1 a2 a3 a4 a5)"
  unfolding rotate_keyring_def Let_def by (intro statements_intros)

lemma statements_replace_keyring [statements_intros]: "statements (replace_keyring a1 a2 a3 a4 a5 a6)"
  unfolding replace_keyring_def Let_def by (intro statements_intros)

lemma statements_handleKeyringUpdate [statements_intros]: "statements (handleKeyringUpdate a1 a2 a3 a4)"
  unfolding handleKeyringUpdate_def Let_def by (intro statements_intros)

lemma statements_handleKeyringsGet [statements_intros]: "statements (handleKeyringsGet a1 a2)"
  unfolding handleKeyringsGet_def Let_def by (intro statements_intros)

lemma statements_service_secret_route [statements_intros]: "statements (service_secret_route a1 a2 a3 a4)"
  unfolding service_secret_route_def Let_def by (intro statements_intros)

lemma statements_insert_backup [statements_intros]: "statements (insert_backup a1 a2 a3 a4)"
  unfolding insert_backup_def Let_def by (intro statements_intros)

lemma statements_handleCreateBackup [statements_intros]: "statements (handleCreateBackup a1 a2 a3 a4 a5)"
  unfolding handleCreateBackup_def Let_def by (intro statements_intros)

lemma statements_find_backup [statements_intros]: "statements (find_backup a1 a2)"
  unfolding find_backup_def Let_def by (intro statements_intros)

lemma statements_backup_of [statements_intros]: "statements (backup_of a1 a2 a3)"
  unfolding backup_of_def Let_def by (intro statements_intros)

lemma statements_backup_get_route [statements_intros]: "statements (backup_get_route a1 a2 a3 a4 a5)"
  unfolding backup_get_route_def Let_def by (intro statements_intros)

lemma statements_passkey_challenge_route [statements_intros]: "statements (passkey_challenge_route a1 a2 a3)"
  unfolding passkey_challenge_route_def Let_def by (intro statements_intros)

lemma statements_passkey_login_route [statements_intros]: "statements (passkey_login_route a1 a2 a3)"
  unfolding passkey_login_route_def Let_def by (intro statements_intros)

section \<open>Recovery\<close>

lemma statements_send_email [statements_intros]: "statements (send_email a1 a2 a3 a4 a5)"
  by (cases a2; simp; intro statements_intros)

lemma statements_send_sms [statements_intros]: "statements (send_sms a1 a2 a3 a4)"
  by (cases a2; simp; intro statements_intros)

lemma statements_dispatchNotificationJob [statements_intros]: "statements (dispatchNotificationJob a1 a2 a3 a4)"
  unfolding dispatchNotificationJob_def Let_def by (intro statements_intros)

lemma statements_enqueue_job [statements_intros]: "statements (enqueue_job a1 a2 a3)"
  unfolding enqueue_job_def Let_def by (intro statements_intros)

lemma statements_attempt_job [statements_intros]: "statements (attempt_job a1 a2 a3)"
  unfolding attempt_job_def Let_def by (intro statements_intros)

lemma statements_fanOutRecoveryNotifications [statements_intros]: "statements (fanOutRecoveryNotifications a1 a2 a3 a4 a5)"
  unfolding fanOutRecoveryNotifications_def Let_def by (intro statements_intros)

lemma statements_sweep_notification_retries [statements_intros]: "statements (sweep_notification_retries a1 a2)"
  unfolding sweep_notification_retries_def Let_def by (intro statements_intros)

lemma statements_initiate_window [statements_intros]: "statements (initiate_window a1 a2 a3)"
  unfolding initiate_window_def Let_def by (intro statements_intros)

lemma statements_recovery_route [statements_intros]: "statements (recovery_route a1 a2 a3 a4)"
  unfolding recovery_route_def Let_def by (intro statements_intros)

lemma statements_find_window [statements_intros]: "statements (find_window a1 a2)"
  unfolding find_window_def Let_def by (intro statements_intros)

lemma statements_window_and_backup [statements_intros]: "statements (window_and_backup a1 a2)"
  unfolding window_and_backup_def Let_def by (intro statements_intros)

lemma statements_update_window [statements_intros]: "(\<And>u now d. sql_step d (snd (q u now d))) \<Longrightarrow> statements (update_window p q r)"
  unfolding update_window_def by (intro statements_intros)

lemma statements_cancel_route [statements_intros]: "statements (cancel_route a1 a2 a3 a4)"
  unfolding cancel_route_def Let_def by (intro statements_intros)

lemma statements_release_route [statements_intros]: "statements (release_route a1 a2)"
  unfolding release_route_def Let_def by (intro statements_intros)

lemma statements_pending_view [statements_intros]: "statements (pending_view a1 a2)"
  unfolding pending_view_def Let_def by (intro statements_intros)

lemma statements_admin_recovery_route [statements_intros]: "statements (admin_recovery_route a1 a2 a3)"
  unfolding admin_recovery_route_def Let_def by (intro statements_intros)

section \<open>Messages\<close>

lemma statements_deliverToRelay [statements_intros]: "statements (deliverToRelay a1 a2 a3 a4)"
  unfolding deliverToRelay_def Let_def by (intro statements_intros)

lemma statements_deliver_attempts [statements_intros]: "statements (deliver_attempts a1 a2 a3 a4 a5)"
  by (induction a5) (simp_all, (intro statements_intros)+)

lemma statements_deliverMessage [statements_intros]: "statements (deliverMessage a1 a2 a3)"
  unfolding deliverMessage_def Let_def by (intro statements_intros)

lemma statements_handleMessagesCreate [statements_intros]: "statements (handleMessagesCreate a1 a2 a3)"
  unfolding handleMessagesCreate_def Let_def by (intro statements_intros)

lemma statements_message_delete_route [statements_intros]: "statements (message_delete_route a1 a2)"
  unfolding message_delete_route_def Let_def by (intro statements_intros)

lemma statements_check_path [statements_intros]: "statements (check_path a1 a2 a3 a4)"
  unfolding check_path_def Let_def by (intro statements_intros)

lemma statements_check_timestamp [statements_intros]: "statements (check_timestamp a1 a2)"
  unfolding check_timestamp_def Let_def by (intro statements_intros)

lemma statements_accept_signature [statements_intros]: "statements (accept_signature a1)"
  unfolding accept_signature_def Let_def by (intro statements_intros)

lemma statements_fresh_action_nonce [statements_intros]: "statements (fresh_action_nonce a1 a2 a3 a4)"
  unfolding fresh_action_nonce_def Let_def by (intro statements_intros)

lemma statements_check_params [statements_intros]: "statements (check_params a1 a2)"
  unfolding check_params_def Let_def by (intro statements_intros)

lemma statements_register_and_retransmit [statements_intros]: "statements (register_and_retransmit a1 a2 a3 a4 a5)"
  unfolding register_and_retransmit_def Let_def by (intro statements_intros)

lemma statements_handleUuidRegistration [statements_intros]: "statements (handleUuidRegistration a1 a2 a3 a4 a5)"
  unfolding handleUuidRegistration_def Let_def by (intro statements_intros)

lemma statements_handleSubcardDeregistration [statements_intros]: "statements (handleSubcardDeregistration a1 a2 a3 a4 a5)"
  unfolding handleSubcardDeregistration_def Let_def by (intro statements_intros)

lemma statements_admin_message_counts_route [statements_intros]: "statements (admin_message_counts_route a1 a2 a3)"
  unfolding admin_message_counts_route_def Let_def by (intro statements_intros)

lemma statements_admin_uuid_pools_route [statements_intros]: "statements (admin_uuid_pools_route a1 a2 a3)"
  unfolding admin_uuid_pools_route_def Let_def by (intro statements_intros)

lemma statements_prune_expired_uuids [statements_intros]: "statements (prune_expired_uuids a1)"
  unfolding prune_expired_uuids_def Let_def by (intro statements_intros)

lemma statements_prune_routing_nonces [statements_intros]: "statements (prune_routing_nonces a1)"
  unfolding prune_routing_nonces_def Let_def by (intro statements_intros)

lemma statements_prune_subcard_uuid_registration_nonces [statements_intros]: "statements (prune_subcard_uuid_registration_nonces a1)"
  unfolding prune_subcard_uuid_registration_nonces_def Let_def by (intro statements_intros)

lemma statements_checkDatabaseHealth [statements_intros]: "statements (checkDatabaseHealth a1)"
  unfolding checkDatabaseHealth_def Let_def by (intro statements_intros)

lemma statements_checkSecretsHealth [statements_intros]: "statements (checkSecretsHealth a1 a2)"
  unfolding checkSecretsHealth_def Let_def by (intro statements_intros)

lemma statements_health_route [statements_intros]: "statements (health_route a1 a2)"
  unfolding health_route_def Let_def by (intro statements_intros)

section \<open>Matrix\<close>

lemma statements_readAppServiceAsToken [statements_intros]: "statements (readAppServiceAsToken a1)"
  unfolding readAppServiceAsToken_def Let_def by (intro statements_intros)

lemma statements_readAppServiceHsToken [statements_intros]: "statements (readAppServiceHsToken a1)"
  unfolding readAppServiceHsToken_def Let_def by (intro statements_intros)

lemma statements_transactions_route [statements_intros]: "statements (transactions_route a1 a2 a3)"
  unfolding transactions_route_def Let_def by (intro statements_intros)

lemma statements_provisionShadowAccount [statements_intros]: "statements (provisionShadowAccount a1 a2 a3)"
  unfolding provisionShadowAccount_def Let_def by (intro statements_intros)

lemma statements_mint_token [statements_intros]: "statements (mint_token a1 a2 a3 a4)"
  unfolding mint_token_def Let_def by (intro statements_intros)

lemma statements_mintMatrixAccessToken [statements_intros]: "statements (mintMatrixAccessToken a1 a2 a3)"
  unfolding mintMatrixAccessToken_def Let_def by (intro statements_intros)

lemma statements_matrix_token_route [statements_intros]: "statements (matrix_token_route a1 a2 a3)"
  unfolding matrix_token_route_def Let_def by (intro statements_intros)

lemma statements_createMatrixRoomViaSynapse [statements_intros]: "statements (createMatrixRoomViaSynapse a1 a2 a3 a4 a5 a6 a7)"
  unfolding createMatrixRoomViaSynapse_def Let_def by (intro statements_intros)

lemma statements_index_room [statements_intros]: "statements (index_room a1 a2 a3)"
  unfolding index_room_def Let_def by (intro statements_intros)

lemma statements_rooms_route [statements_intros]: "statements (rooms_route a1 a2 a3 a4)"
  unfolding rooms_route_def Let_def by (intro statements_intros)

lemma statements_getRoomIndexResponse [statements_intros]: "statements (getRoomIndexResponse a1)"
  unfolding getRoomIndexResponse_def Let_def by (intro statements_intros)

lemma statements_fetchPredicateDocument [statements_intros]: "statements (fetchPredicateDocument a1 a2 a3)"
  unfolding fetchPredicateDocument_def Let_def by (intro statements_intros)

lemma statements_room_eligible [statements_intros]: "statements (room_eligible a1 a2 a3 a4)"
  unfolding room_eligible_def Let_def by (intro statements_intros)

lemma statements_discoverEligibleRooms [statements_intros]: "(\<And>v. statements (f v)) \<Longrightarrow> statements (discoverEligibleRooms p cfg f env c rooms)"
  unfolding discoverEligibleRooms_def by (intro statements_intros)

lemma statements_createCardChainVerifier [statements_intros]: "statements (createCardChainVerifier a1 a2)"
  unfolding createCardChainVerifier_def Let_def by (intro statements_intros)

lemma statements_discover_rooms_route [statements_intros]: "statements (discover_rooms_route a1 a2 a3 a4)"
  unfolding discover_rooms_route_def Let_def by (intro statements_intros)

lemma statements_recordMatrixCredential [statements_intros]: "statements (recordMatrixCredential a1 a2 a3 a4 a5 a6)"
  unfolding recordMatrixCredential_def Let_def by (intro statements_intros)

lemma statements_listMatrixCredentials [statements_intros]: "statements (listMatrixCredentials a1)"
  unfolding listMatrixCredentials_def Let_def by (intro statements_intros)

lemma statements_decryptMatrixCredential [statements_intros]: "statements (decryptMatrixCredential a1 a2 a3)"
  unfolding decryptMatrixCredential_def Let_def by (intro statements_intros)

section \<open>The gateway\<close>

lemma statements_stored_keypair [statements_intros]: "statements (stored_keypair a1 a2 a3)"
  unfolding stored_keypair_def Let_def by (intro statements_intros)

lemma statements_new_keypair [statements_intros]: "statements (new_keypair a1 a2 a3)"
  unfolding new_keypair_def Let_def by (intro statements_intros)

lemma statements_load_keypair [statements_intros]: "statements (load_keypair a1 a2)"
  unfolding load_keypair_def Let_def by (intro statements_intros)

lemma statements_getOrCreateKeypair [statements_intros]: "statements (getOrCreateKeypair a1 a2)"
  unfolding getOrCreateKeypair_def Let_def by (intro statements_intros)

lemma statements_getKeyConfig [statements_intros]: "statements (getKeyConfig a1 a2 a3)"
  unfolding getKeyConfig_def Let_def by (intro statements_intros)

lemma statements_key_config_route [statements_intros]: "statements (key_config_route a1 a2)"
  unfolding key_config_route_def Let_def by (intro statements_intros)

lemma statements_decapsulate [statements_intros]: "statements (decapsulate a1 a2 a3 a4)"
  unfolding decapsulate_def Let_def by (intro statements_intros)

lemma statements_encapsulateResponse [statements_intros]: "statements (encapsulateResponse a1 a2 a3)"
  unfolding encapsulateResponse_def Let_def by (intro statements_intros)

lemma statements_respond [statements_intros]: "statements m \<Longrightarrow> statements (respond c f m)"
  unfolding respond_def by (intro statements_intros)

lemma statements_dispatch_messages [statements_intros]: "statements (dispatch_messages a1 a2 a3)"
  unfolding dispatch_messages_def Let_def by (intro statements_intros)

lemma statements_dispatch_subcard [statements_intros]: "statements (dispatch_subcard a1 a2 a3 a4)"
  unfolding dispatch_subcard_def Let_def by (intro statements_intros)

lemma statements_dispatch_post [statements_intros]: "statements (dispatch_post a1 a2 a3 a4)"
  unfolding dispatch_post_def Let_def by (intro statements_intros)

lemma statements_dispatch [statements_intros]: "statements (dispatch a1 a2 a3 a4)"
  unfolding dispatch_def Let_def by (intro statements_intros)

lemma statements_gateway_route [statements_intros]: "statements (gateway_route a1 a2 a3 a4)"
  unfolding gateway_route_def Let_def by (intro statements_intros)

section \<open>The service\<close>

text \<open>
  One step of the service: a request to any of its routes or a run of one of its tasks, the
  world outside moving on, or a restart of the process, which forgets what it cached.
\<close>

inductive service_step :: "('y, 'z) services_scheme \<Rightarrow> wallet_config \<Rightarrow> 'y wallet \<Rightarrow> 'y wallet \<Rightarrow> bool"
  for p :: "('y, 'z) services_scheme" and cfg :: wallet_config where
  outside_moves: "service_step p cfg w (w\<lparr>outer := y\<rparr>)"
| restart: "service_step p cfg w (w\<lparr>dek_cache := Map.empty, ohttp_keypair := None\<rparr>)"
| accounts_challenge: "handleAccountsChallenge p cfg ip w = (r1, w') \<Longrightarrow> service_step p cfg w w'"
| accounts_create: "handleAccountsCreate p cfg ip body w = (r2, w') \<Longrightarrow> service_step p cfg w w'"
| keyring_challenge: "handleKeyringChallenge p c w = (r3, w') \<Longrightarrow> service_step p cfg w w'"
| keyring_update: "handleKeyringUpdate p cfg c body w = (r4, w') \<Longrightarrow> service_step p cfg w w'"
| keyrings_get: "handleKeyringsGet p c w = (r5, w') \<Longrightarrow> service_step p cfg w w'"
| service_secret: "service_secret_route p cfg c header w = (r6, w') \<Longrightarrow> service_step p cfg w w'"
| create_backup: "handleCreateBackup p cfg c header body w = (r7, w') \<Longrightarrow> service_step p cfg w w'"
| backup_get: "backup_get_route p cfg c b header w = (r8, w') \<Longrightarrow> service_step p cfg w w'"
| passkey_challenge: "passkey_challenge_route p cfg body w = (r9, w') \<Longrightarrow> service_step p cfg w w'"
| passkey_login: "passkey_login_route p cfg body w = (r10, w') \<Longrightarrow> service_step p cfg w w'"
| recovery: "recovery_route p cfg c body w = (r11, w') \<Longrightarrow> service_step p cfg w w'"
| cancel_recovery: "cancel_route p cfg c body w = (r12, w') \<Longrightarrow> service_step p cfg w w'"
| release_recovery: "release_route p c w = (r13, w') \<Longrightarrow> service_step p cfg w w'"
| admin_recovery: "admin_recovery_route p cfg header w = (r14, w') \<Longrightarrow> service_step p cfg w w'"
| announce: "announce_route p cfg body w = (r15, w') \<Longrightarrow> service_step p cfg w w'"
| bindings: "bindings_route p w = (r16, w') \<Longrightarrow> service_step p cfg w w'"
| keyring_replica: "keyring_replica_route p body w = (r17, w') \<Longrightarrow> service_step p cfg w w'"
| keyring_delete: "keyring_delete_route p body w = (r18, w') \<Longrightarrow> service_step p cfg w w'"
| messages: "handleMessagesCreate p cfg body w = (r19, w') \<Longrightarrow> service_step p cfg w w'"
| message_delete: "message_delete_route p c w = (r20, w') \<Longrightarrow> service_step p cfg w w'"
| uuid_registration: "handleUuidRegistration p cfg c s body w = (r21, w') \<Longrightarrow> service_step p cfg w w'"
| subcard_deregistration: "handleSubcardDeregistration p cfg c s body w = (r22, w') \<Longrightarrow> service_step p cfg w w'"
| admin_messages: "admin_message_counts_route p cfg header w = (r23, w') \<Longrightarrow> service_step p cfg w w'"
| admin_uuids: "admin_uuid_pools_route p cfg header w = (r24, w') \<Longrightarrow> service_step p cfg w w'"
| task_uuids: "prune_expired_uuids p w = (r25, w') \<Longrightarrow> service_step p cfg w w'"
| task_nonces: "prune_routing_nonces p w = (r26, w') \<Longrightarrow> service_step p cfg w w'"
| task_action_nonces: "prune_subcard_uuid_registration_nonces p w = (r27, w') \<Longrightarrow> service_step p cfg w w'"
| task_retries: "sweep_notification_retries p cfg w = (r28, w') \<Longrightarrow> service_step p cfg w w'"
| health: "health_route p cfg w = (r29, w') \<Longrightarrow> service_step p cfg w w'"
| transactions: "transactions_route p header token w = (r30, w') \<Longrightarrow> service_step p cfg w w'"
| matrix_token: "matrix_token_route p cfg header w = (r31, w') \<Longrightarrow> service_step p cfg w w'"
| rooms: "rooms_route p cfg header body w = (r32, w') \<Longrightarrow> service_step p cfg w w'"
| room_index: "getRoomIndexResponse p w = (r33, w') \<Longrightarrow> service_step p cfg w w'"
| discover: "discover_rooms_route p cfg header body w = (r34, w') \<Longrightarrow> service_step p cfg w w'"
| key_config: "key_config_route p cfg w = (r35, w') \<Longrightarrow> service_step p cfg w w'"
| gateway: "gateway_route p cfg ip body w = (r36, w') \<Longrightarrow> service_step p cfg w w'"

lemma statements_run: "m w = (r, w') \<Longrightarrow> statements m \<Longrightarrow> sql_step\<^sup>*\<^sup>* (db w) (db w')"
  by (auto dest: obeysD simp: on_db_def)

lemma service_step_statements: "service_step p cfg w w' \<Longrightarrow> sql_step\<^sup>*\<^sup>* (db w) (db w')"
  by (erule service_step.cases; (hypsubst, simp)?; (erule statements_run, intro statements_intros)?)

lemma service_run_statements: "(service_step p cfg)\<^sup>*\<^sup>* w w' \<Longrightarrow> sql_step\<^sup>*\<^sup>* (db w) (db w')"
  by (induction rule: rtranclp_induct) (auto dest: service_step_statements)

end
