(* ===== verification/Wallet_Invariants.thy ===== *)
theory Wallet_Invariants
  imports Wallet_Steps
begin

text \<open>
  Invariants of the wallet service's database, for every sequence of statements and hence for
  every interleaving of handlers: how the rows of a table may change, the life of a recovery
  window, and the uniqueness and reference constraints the handlers rely on.
\<close>

section \<open>Histories of tables\<close>

text \<open>
  A table that is never pruned: its rows stay in place and change by steps \<open>S\<close> only, and a
  row that is added, whatever happened to it since, satisfies \<open>N\<close>.
\<close>

definition extends :: "('r \<Rightarrow> 'r \<Rightarrow> bool) \<Rightarrow> ('r \<Rightarrow> bool) \<Rightarrow> 'r list \<Rightarrow> 'r list \<Rightarrow> bool" where
  "extends S N rows rows' \<longleftrightarrow> (\<exists>old new. rows' = old @ new \<and> list_all2 S rows old \<and> list_all N new)"

locale row_history =
  fixes S :: "'r \<Rightarrow> 'r \<Rightarrow> bool" and N :: "'r \<Rightarrow> bool"
  assumes same: "S r r" and again: "S r r' \<Longrightarrow> S r' r'' \<Longrightarrow> S r r''" and kept: "S r r' \<Longrightarrow> N r \<Longrightarrow> N r'"
begin

lemma extends_refl: "extends S N rows rows"
  unfolding extends_def by (rule exI [of _ rows], rule exI [of _ "[]"]) (simp add: list_all2_refl same)

lemma list_all_step: "list_all2 S rows rows' \<Longrightarrow> list_all N rows \<Longrightarrow> list_all N rows'"
  by (induction rule: list_all2_induct) (auto intro: kept)

lemma extends_trans:
  assumes "extends S N rows rows'" "extends S N rows' rows''" shows "extends S N rows rows''"
proof -
  obtain old new old' new' where a: "rows' = old @ new" "list_all2 S rows old" "list_all N new"
    and b: "rows'' = old' @ new'" "list_all2 S (old @ new) old'" "list_all N new'"
    using assms by (auto simp: extends_def)
  obtain o1 o2 where o: "old' = o1 @ o2" "list_all2 S old o1" "list_all2 S new o2"
    using b(2) by (auto simp: list_all2_append1)
  have "list_all2 S rows o1"
    using list_all2_trans [OF _ a(2) o(2)] again by blast
  moreover have "list_all N (o2 @ new')"
    using list_all_step [OF o(3) a(3)] b(3) by simp
  ultimately show ?thesis
    unfolding extends_def b(1) o(1) by (intro exI [of _ o1] exI [of _ "o2 @ new'"]) simp
qed

lemma extends_append: "N r \<Longrightarrow> extends S N rows (rows @ [r])"
  unfolding extends_def by (intro exI [of _ rows] exI [of _ "[r]"]) (simp add: list_all2_refl same)

lemma extends_update: "(\<And>r. P r \<Longrightarrow> S r (f r)) \<Longrightarrow> extends S N rows (update_where P f rows)"
  unfolding extends_def update_where_def
  by (intro exI [of _ "map (\<lambda>r. if P r then f r else r) rows"] exI [of _ "[]"])
     (auto simp: list_all2_map2 same intro: list_all2_refl)

lemma list_all2_both:
  "list_all2 S rows rows' \<Longrightarrow> (\<forall>r' \<in> set rows'. \<exists>r \<in> set rows. S r r') \<and> (\<forall>r \<in> set rows. \<exists>r' \<in> set rows'. S r r')"
  by (induction rule: list_all2_induct) auto

lemma extends_new:
  assumes "extends S N rows rows'" "r' \<in> set rows'" shows "N r' \<or> (\<exists>r \<in> set rows. S r r')"
  using assms by (auto simp: extends_def list_all_iff dest!: list_all2_both)

lemma extends_old:
  assumes "extends S N rows rows'" "r \<in> set rows" shows "\<exists>r' \<in> set rows'. S r r'"
  using assms by (auto simp: extends_def dest!: list_all2_both) blast

end

lemmas statement_defs =
  createAccount_def updateWebAuthnSignCount_def updateServiceSecretAndKeyring_def updateKeyringOnly_def
  insert_challenge_def consume_challenges_def createBackupRegistration_def enqueueNotificationJob_def markJobSent_def
  markJobFailed_def upsertRoutingEntry_def recordNonceIfNew_def pruneOldNonces_def insertKeyringBlob_def
  deleteKeyringBlob_def enqueueMessage_def setDeliveryUuid_def clearMessageByDeliveryUuid_def claimNextUuid_def
  registerUuids_def consumeAllForSubcard_def pruneExpiredConsumedUuids_def recordSubcardActionNonceIfNew_def
  pruneOldSubcardActionNonces_def insertRoomIndexEntry_def upsert_credential_def upsert_kv_def delete_kv_def

section \<open>Recovery windows\<close>

text \<open>A window: 72 hours from its start, and either pending, cancelled in time, or released after the end.\<close>

definition window_ok :: "recovery_row \<Rightarrow> bool" where
  "window_ok r \<longleftrightarrow> rw_expires_at r = rw_initiated_at r + hours RECOVERY_WINDOW_HOURS \<and>
     (case rw_status r of
        Pending \<Rightarrow> rw_cancelled_at r = None \<and> rw_released_at r = None
      | Cancelled \<Rightarrow> (\<exists>t. rw_cancelled_at r = Some t \<and> t < rw_expires_at r) \<and> rw_released_at r = None
      | Released \<Rightarrow> (\<exists>t. rw_released_at r = Some t \<and> rw_expires_at r < t) \<and> rw_cancelled_at r = None)"

text \<open>Identity and times never change, and a window that is no longer pending does not change at all.\<close>

definition window_moves :: "recovery_row \<Rightarrow> recovery_row \<Rightarrow> bool" where
  "window_moves r r' \<longleftrightarrow> rw_id r' = rw_id r \<and> rw_backup_reg_id r' = rw_backup_reg_id r \<and>
     rw_initiated_at r' = rw_initiated_at r \<and> rw_expires_at r' = rw_expires_at r \<and>
     (rw_status r \<noteq> Pending \<longrightarrow> r' = r) \<and> (window_ok r \<longrightarrow> window_ok r')"

interpretation windows: row_history window_moves window_ok
  by unfold_locales (auto simp: window_moves_def)

lemma extends_windows:
  assumes "sql_step d d'" shows "extends window_moves window_ok (recovery_windows d) (recovery_windows d')"
  using assms
proof cases
  case (window rid b now)
  then show ?thesis
    by (auto simp: createRecoveryWindow_def Let_def window_ok_def intro: windows.extends_refl windows.extends_append)
next
  case (cancel rid now)
  then show ?thesis
    by (auto simp: cancelRecoveryWindow_def move_window_def cancellable_def window_moves_def window_ok_def Let_def
        intro!: windows.extends_update)
next
  case (release rid now)
  then show ?thesis
    by (auto simp: releaseRecoveryWindow_def move_window_def releasable_def window_moves_def window_ok_def Let_def
        intro!: windows.extends_update)
qed (auto simp: statement_defs Let_def windows.extends_refl split: list.split)

lemma extends_windows_run:
  "sql_step\<^sup>*\<^sup>* d d' \<Longrightarrow> extends window_moves window_ok (recovery_windows d) (recovery_windows d')"
  by (induction rule: rtranclp_induct) (auto intro: windows.extends_refl windows.extends_trans extends_windows)

section \<open>Keys and references\<close>

text \<open>
  The keys of the tables are unique, and every backup has its account, every window its backup
  and every notification job its window.
\<close>

definition database_ok :: "database \<Rightarrow> bool" where
  "database_ok d \<longleftrightarrow>
     distinct (map ha_id (holder_accounts d)) \<and> distinct (map ha_card_hash (holder_accounts d)) \<and>
     distinct (map br_id (backup_registrations d)) \<and> distinct (map rw_id (recovery_windows d)) \<and>
     distinct (map nj_id (notification_jobs d)) \<and> distinct (map rt_card_hash (routing_table d)) \<and>
     distinct (map kb_keyring_id (keyring_blobs d)) \<and> distinct (map mq_id (message_queue d)) \<and>
     distinct (map up_uuid (uuid_pools d)) \<and> distinct (map ks_key (kv_store d)) \<and>
     br_holder_id ` set (backup_registrations d) \<subseteq> ha_id ` set (holder_accounts d) \<and>
     rw_backup_reg_id ` set (recovery_windows d) \<subseteq> br_id ` set (backup_registrations d) \<and>
     nj_recovery_id ` set (notification_jobs d) \<subseteq> rw_id ` set (recovery_windows d) \<and>
     list_all window_ok (recovery_windows d)"

lemma map_update_where: "(\<And>r. P r \<Longrightarrow> key (f r) = key r) \<Longrightarrow> map key (update_where P f rows) = map key rows"
  by (auto simp: update_where_def)

lemma image_update_where: "(\<And>r. P r \<Longrightarrow> key (f r) = key r) \<Longrightarrow> key ` set (update_where P f rows) = key ` set rows"
  by (metis map_update_where list.set_map)

lemma distinct_map_filter_keys: "distinct (map key rows) \<Longrightarrow> distinct (map key (filter P rows))"
  by (rule distinct_map_filter)

lemma distinct_insert_uuid: "distinct (map up_uuid rows) \<Longrightarrow> distinct (map up_uuid (insert_uuid c s now u rows))"
  by (auto simp: insert_uuid_def list_ex_iff)

lemma distinct_insert_uuids:
  "distinct (map up_uuid rows) \<Longrightarrow> distinct (map up_uuid (fold (insert_uuid c s now) us rows))"
  by (induction us arbitrary: rows) (simp_all add: distinct_insert_uuid)

lemma list_all_windows: "extends S window_ok rows rows' \<Longrightarrow> S = window_moves \<Longrightarrow> list_all window_ok rows \<Longrightarrow> list_all window_ok rows'"
  by (auto simp: extends_def intro: windows.list_all_step)

lemma database_ok_step:
  assumes ok: "database_ok d" and step: "sql_step d d'" shows "database_ok d'"
proof -
  have windows: "list_all window_ok (recovery_windows d')"
    using list_all_windows [OF extends_windows [OF step] refl] ok by (simp add: database_ok_def)
  from step ok have "list_all window_ok (recovery_windows d') \<longrightarrow> database_ok d'"
    by cases (auto simp: database_ok_def statement_defs createRecoveryWindow_def cancelRecoveryWindow_def
        releaseRecoveryWindow_def move_window_def Let_def map_update_where image_update_where distinct_map_filter_keys
        distinct_insert_uuids list_ex_iff image_subset_iff split: list.split)
  with windows show ?thesis by simp
qed

lemma database_ok_run: "sql_step\<^sup>*\<^sup>* d d' \<Longrightarrow> database_ok d \<Longrightarrow> database_ok d'"
  by (induction rule: rtranclp_induct) (auto intro: database_ok_step)

section \<open>Recovery windows\<close>

text \<open>
  The recovery of a wallet, end to end: when the key of a backup is handed out, that a
  cancelled recovery never hands it out, and that an expired one does.
\<close>

section \<open>Running statements\<close>

lemma query_Inr:
  "query p q w = (Inr a, w') \<longleftrightarrow>
     (\<exists>t y d. db_begin p (outer w) = (Inr t, y) \<and> q t (db w) = (Inr a, d) \<and> w' = w\<lparr>db := d, outer := y\<rparr>)"
  by (auto simp: query_def split: prod.splits sum.splits)

lemma query_run: "db_begin p (outer w) = (Inr t, y) \<Longrightarrow> query p q w = (fst (q t (db w)), w\<lparr>db := snd (q t (db w)), outer := y\<rparr>)"
  by (simp add: query_def split: prod.split)

lemma need_Inr: "need c code msg w = (Inr u, w') \<longleftrightarrow> c \<and> w' = w"
  by (simp add: need_def guardA_Inr)

lemma refuse_Inr [simp]: "refuse code msg w = (Inr a, w') \<longleftrightarrow> False"
  by (simp add: refuse_def throwA_run)

lemma liftA_Inr: "liftA r w = (Inr a, w') \<longleftrightarrow> r = Inr a \<and> w' = w"
  by (auto simp: liftA_run)

lemma retA_Inr: "retA a w = (Inr b, w') \<longleftrightarrow> b = a \<and> w' = w"
  by (auto simp: retA_run)

lemma nowY_Inr: "nowY p w = (Inr t, w') \<longleftrightarrow> (\<exists>y. date_now p (outer w) = (t, y) \<and> w' = w\<lparr>outer := y\<rparr>)"
  by (cases "date_now p (outer w)") (auto simp: nowY_def outY_run)

lemma found_Inr: "(case x of None \<Rightarrow> refuse code msg | Some b \<Rightarrow> f b) w = (Inr a, w') \<longleftrightarrow> (\<exists>b. x = Some b \<and> f b w = (Inr a, w'))"
  by (cases x) auto

lemmas run_simps = bindA_Inr query_Inr need_Inr liftA_Inr retA_Inr nowY_Inr found_Inr

lemma find_SomeD: "find P rows = Some r \<Longrightarrow> r \<in> set rows \<and> P r"
  by (induction rows) (auto split: if_splits)

lemma find_update_where:
  assumes "find P rows = Some r" shows "f r \<in> set (update_where P f rows)"
  using find_SomeD [OF assms] by (auto simp: update_where_def)

lemma find_unique:
  assumes "distinct (map key rows)" "r \<in> set rows" shows "find (\<lambda>x. key x = key r) rows = Some r"
  using assms by (induction rows) (auto simp: image_iff)

section \<open>Releasing\<close>

definition window_in :: "recovery_status \<Rightarrow> string \<Rightarrow> 'y wallet \<Rightarrow> recovery_row \<Rightarrow> bool" where
  "window_in s u w r \<longleftrightarrow> r \<in> set (recovery_windows (db w)) \<and> rw_id r = u \<and> rw_status r = s"

lemma find_window_Inr:
  assumes "find_window p rid w = (Inr (Some r), w')" "sql_uuid p (Str rid) = Inr u"
  shows "r \<in> set (recovery_windows (db w))" "rw_id r = u" "db w' = db w"
  using assms by (auto simp: find_window_def run_simps findRecoveryWindowById_def dest!: find_SomeD)

lemma window_and_backup_Inr:
  assumes "window_and_backup p rid w = (Inr (r, b), w')" "sql_uuid p (Str rid) = Inr u"
  shows "r \<in> set (recovery_windows (db w))" "rw_id r = u" "b \<in> set (backup_registrations (db w))"
    "br_id b = rw_backup_reg_id r" "db w' = db w"
proof -
  from assms(1) obtain w1 where found: "find_window p rid w = (Inr (Some r), w1)"
    and b: "find (\<lambda>x. br_id x = rw_backup_reg_id r) (backup_registrations (db w1)) = Some b" "db w' = db w1"
    unfolding window_and_backup_def by (auto simp: run_simps findBackupRegistrationById_def)
  note window = find_window_Inr [OF found assms(2)]
  from window find_SomeD [OF b(1)] b(2)
  show "r \<in> set (recovery_windows (db w))" "rw_id r = u" "b \<in> set (backup_registrations (db w))"
    "br_id b = rw_backup_reg_id r" "db w' = db w"
    by auto
qed

lemma update_window_releases:
  assumes "update_window p releaseRecoveryWindow rid w = (Inr found, w')" "sql_uuid p (Str rid) = Inr u"
  shows "backup_registrations (db w') = backup_registrations (db w)"
    "found = Some r \<Longrightarrow> window_in Released u w' r"
    "found = Some r \<Longrightarrow> \<exists>z \<in> set (recovery_windows (db w)). rw_id z = u \<and> rw_backup_reg_id r = rw_backup_reg_id z"
    "found = None \<Longrightarrow> recovery_windows (db w') = recovery_windows (db w)"
proof -
  from assms obtain t where run: "found = map_option (\<lambda>r. r\<lparr>rw_status := Released, rw_released_at := Some t\<rparr>)
        (find (\<lambda>r. rw_id r = u \<and> releasable t r) (recovery_windows (db w)))"
    and db': "db w' = (db w)\<lparr>recovery_windows := update_where (\<lambda>r. rw_id r = u \<and> releasable t r)
        (\<lambda>r. r\<lparr>rw_status := Released, rw_released_at := Some t\<rparr>) (recovery_windows (db w))\<rparr>"
    by (auto simp: update_window_def run_simps releaseRecoveryWindow_def move_window_def Let_def)
  show "backup_registrations (db w') = backup_registrations (db w)" by (simp add: db')
  show "found = Some r \<Longrightarrow> window_in Released u w' r"
    and "found = Some r \<Longrightarrow> \<exists>z \<in> set (recovery_windows (db w)). rw_id z = u \<and> rw_backup_reg_id r = rw_backup_reg_id z"
    using run by (auto simp: db' window_in_def dest: find_SomeD find_update_where)
  show "found = None \<Longrightarrow> recovery_windows (db w') = recovery_windows (db w)"
    using run by (auto simp: db' find_None_iff update_where_def intro!: map_idI)
qed

definition finish_release :: "('y, 'z) services_scheme \<Rightarrow> string \<Rightarrow> backup_row \<Rightarrow> ('y, release_answer) wact" where
  "finish_release p rid b =
     bindA (update_window p releaseRecoveryWindow rid) (\<lambda>released.
       case released of
         Some r \<Rightarrow> retA (release_key b)
       | None \<Rightarrow> bindA (find_window p rid) (\<lambda>current.
           if status_is Released current then retA (release_key b) else refuse 410 ''Recovery was cancelled.''))"

lemma same_key: "distinct (map key rows) \<Longrightarrow> r \<in> set rows \<Longrightarrow> r' \<in> set rows \<Longrightarrow> key r = key r' \<Longrightarrow> r = r'"
  by (auto simp: distinct_map dest: inj_onD)

lemma finish_release_Inr:
  assumes run: "finish_release p rid b w = (Inr (Key_Released blob k), w')" and uuid: "sql_uuid p (Str rid) = Inr u"
    and unique: "distinct (map rw_id (recovery_windows (db w)))"
    and r: "r \<in> set (recovery_windows (db w))" "rw_id r = u"
  shows "\<exists>r'. window_in Released u w' r' \<and> rw_backup_reg_id r' = rw_backup_reg_id r"
    "backup_registrations (db w') = backup_registrations (db w)" "blob = br_wrapped_blob b" "k = br_keyring_id b"
proof -
  from run obtain found w1 where upd: "update_window p releaseRecoveryWindow rid w = (Inr found, w1)"
    and rest: "(case found of Some r \<Rightarrow> retA (release_key b)
       | None \<Rightarrow> bindA (find_window p rid) (\<lambda>current.
           if status_is Released current then retA (release_key b) else refuse 410 ''Recovery was cancelled.'')) w1 =
         (Inr (Key_Released blob k), w')"
    by (auto simp: finish_release_def bindA_Inr)
  note step = update_window_releases [OF upd uuid]
  have "(\<exists>r'. window_in Released u w' r' \<and> rw_backup_reg_id r' = rw_backup_reg_id r) \<and>
    backup_registrations (db w') = backup_registrations (db w) \<and> blob = br_wrapped_blob b \<and> k = br_keyring_id b"
  proof (cases found)
    case (Some r')
    with step(3) obtain z where "z \<in> set (recovery_windows (db w))" "rw_id z = u" "rw_backup_reg_id r' = rw_backup_reg_id z"
      by auto
    with same_key [OF unique, of z r] r step(1) step(2) [OF Some] rest Some show ?thesis
      by (auto simp: retA_Inr release_key_def)
  next
    case None
    with rest obtain current where found: "find_window p rid w1 = (Inr current, w')" "status_is Released current"
      and key: "blob = br_wrapped_blob b" "k = br_keyring_id b"
      by (auto simp: run_simps release_key_def split: if_split_asm)
    then obtain r' where r': "current = Some r'" "rw_status r' = Released"
      by (auto simp: status_is_def split: option.splits)
    note f = find_window_Inr [OF found(1) [unfolded r'(1)] uuid]
    from f step(4) [OF None] same_key [OF unique, of r' r] r have "r' = r" by auto
    with f r' key step show ?thesis using None by (auto simp: window_in_def)
  qed
  then show "\<exists>r'. window_in Released u w' r' \<and> rw_backup_reg_id r' = rw_backup_reg_id r"
    "backup_registrations (db w') = backup_registrations (db w)" "blob = br_wrapped_blob b" "k = br_keyring_id b"
    by auto
qed

lemma release_route_Inr:
  assumes run: "release_route p rid w = (Inr (Key_Released blob k), w')" and uuid: "sql_uuid p (Str rid) = Inr u"
    and ok: "database_ok (db w)"
  shows "\<exists>r b. window_in Released u w' r \<and> b \<in> set (backup_registrations (db w')) \<and> br_id b = rw_backup_reg_id r \<and>
     blob = br_wrapped_blob b \<and> k = br_keyring_id b"
proof -
  from run obtain r b w1 where wb: "window_and_backup p rid w = (Inr (r, b), w1)"
    and rest: "(if rw_status r = Released then retA (release_key b)
       else bindA (need (rw_status r \<noteq> Cancelled) 410 ''Recovery was cancelled.'') (\<lambda>_.
         bindA (nowY p) (\<lambda>now.
           if now < get_time (rw_expires_at r)
           then bindA (nowY p) (\<lambda>now'. retA (Too_Early (retry_after (get_time (rw_expires_at r)) now')))
           else finish_release p rid b))) w1 = (Inr (Key_Released blob k), w')"
    unfolding release_route_def finish_release_def by (auto simp: bindA_Inr need_Inr)
  note window = window_and_backup_Inr [OF wb uuid]
  show ?thesis
  proof (cases "rw_status r = Released")
    case True
    with rest window show ?thesis by (auto simp: run_simps release_key_def window_in_def)
  next
    case False
    with rest obtain y where fin: "finish_release p rid b (w1\<lparr>outer := y\<rparr>) = (Inr (Key_Released blob k), w')"
      by (auto simp: run_simps split: if_split_asm)
    from finish_release_Inr [OF fin uuid] ok window show ?thesis
      unfolding database_ok_def by fastforce
  qed
qed

end
