(* ===== verification/Wallet_Frames.thy ===== *)
theory Wallet_Frames
  imports Wallet_Invariants
begin

text \<open>
  What programs of the wallet service leave alone: \<open>leaves f m\<close> says that \<open>m\<close> does not change
  the part \<open>f\<close> of the database, however it ends. The lemmas are stated once for every part
  that does not look at the tables a program writes.
\<close>

definition same_part :: "(database \<Rightarrow> 'c) \<Rightarrow> 'y wallet \<Rightarrow> 'y wallet \<Rightarrow> bool" where
  "same_part f = on_db (\<lambda>d d'. f d' = f d)"

interpretation parts: step_order "same_part f" for f
  by unfold_locales (auto simp: same_part_def on_db_def)

abbreviation leaves :: "(database \<Rightarrow> 'c) \<Rightarrow> ('y, 'a) wact \<Rightarrow> bool" where
  "leaves f m \<equiv> obeys (same_part f) m"

lemma leavesD: "leaves f m \<Longrightarrow> m w = (r, w') \<Longrightarrow> f (db w') = f (db w)"
  by (auto dest: obeysD simp: same_part_def on_db_def)

named_theorems leaves_intros "programs that leave a part of the database alone"

lemmas leaves_combinators [leaves_intros] =
  parts.obeys_basic parts.obeys_bindA parts.obeys_catchA parts.obeys_mapA parts.obeys_forA obeys_cases
  obeys_case_js obeys_case_list obeys_case_bool obeys_case_number obeys_case_exn obeys_case_channel

lemma leaves_unchanged: "(\<And>w r w'. m w = (r, w') \<Longrightarrow> db w' = db w) \<Longrightarrow> leaves f m"
  by (auto simp: obeys_def same_part_def on_db_def)

lemma leaves_outside [leaves_intros]:
  "leaves f (outY g)" "leaves f (nowY p)" "leaves f (randomY p n)" "leaves f (uuidY p)" "leaves f (fetchY p req)"
  "leaves f (nitro_set k v)" "leaves f (cache_dek k entry)" "leaves f (remember_keypair kp)"
  by (rule leaves_unchanged, auto simp: nowY_def randomY_def uuidY_def fetchY_def outY_run nitro_set_def
      cache_dek_def remember_keypair_def)+

lemma leaves_query:
  assumes "\<And>now d. f (snd (q now d)) = f d" shows "leaves f (query p q)"
  unfolding obeys_def same_part_def on_db_def query_def
  using assms by (auto split: prod.splits sum.splits) (metis snd_conv)

lemma leaves_reads [leaves_intros]:
  "leaves f (query p (findAccountByCardHash c))" "leaves f (query p (findBackupRegistrationById b))"
  "leaves f (query p (findActiveRecoveryWindow b))" "leaves f (query p (findRecoveryWindowById b))"
  "leaves f (query p (findRoutingEntry c))" "leaves f (query p (select_kv c))"
  "leaves f (query p (findKeyringBlob c))" "leaves f (query p (findUnclearedMessagesForSubcard c b))"
  "leaves f (query p (\<lambda>now d. (Inr x, d)))"
  by (rule leaves_query; simp add: findAccountByCardHash_def findBackupRegistrationById_def findActiveRecoveryWindow_def
      findRecoveryWindowById_def findRoutingEntry_def select_kv_def findKeyringBlob_def findUnclearedMessagesForSubcard_def)+

section \<open>Tables that are not looked at\<close>

definition skips_kv :: "(database \<Rightarrow> 'c) \<Rightarrow> bool" where
  "skips_kv f \<longleftrightarrow> (\<forall>d x. f (d\<lparr>kv_store := x\<rparr>) = f d)"

definition skips_jobs :: "(database \<Rightarrow> 'c) \<Rightarrow> bool" where
  "skips_jobs f \<longleftrightarrow> (\<forall>d x. f (d\<lparr>notification_jobs := x\<rparr>) = f d)"

definition skips_bindings :: "(database \<Rightarrow> 'c) \<Rightarrow> bool" where
  "skips_bindings f \<longleftrightarrow> (\<forall>d x y. f (d\<lparr>routing_table := x\<rparr>) = f d \<and> f (d\<lparr>routing_nonces := y\<rparr>) = f d)"

lemma skips_simps [simp]:
  "skips_kv holder_accounts" "skips_kv auth_challenges" "skips_kv keyring_blobs" "skips_kv routing_table"
  "skips_kv routing_nonces" "skips_kv recovery_windows" "skips_kv uuid_pools"
  "skips_bindings holder_accounts" "skips_bindings auth_challenges" "skips_bindings keyring_blobs"
  "skips_jobs recovery_windows" "skips_jobs backup_registrations"
  by (simp_all add: skips_kv_def skips_bindings_def skips_jobs_def)

lemma leaves_kv_writes [leaves_intros]:
  "skips_kv f \<Longrightarrow> leaves f (query p (upsert_kv k v e))" "skips_kv f \<Longrightarrow> leaves f (query p (delete_kv k))"
  by (rule leaves_query; simp add: skips_kv_def upsert_kv_def delete_kv_def Let_def)+

lemma obeys_case_backend [leaves_intros]:
  "obeys R m \<Longrightarrow> obeys R m' \<Longrightarrow> obeys R (case b of Cloudflare_Kv \<Rightarrow> m | Postgres \<Rightarrow> m')"
  by (cases b) auto

lemma leaves_kv [leaves_intros]:
  assumes "skips_kv f"
  shows "leaves f (kv_getItem p b k)" "leaves f (kv_setItem p b k v ttl)"
    "leaves f (checkSlidingWindow p b k limit n weight)" "leaves f (enforceRateLimit p b k limit n)"
proof -
  show getItem: "leaves f (kv_getItem p b k)" for k
    unfolding kv_getItem_def pg_getItem_def nitro_getItem_def by (intro leaves_intros assms)
  show setItem: "leaves f (kv_setItem p b k v ttl)" for k v ttl
    unfolding kv_setItem_def pg_setItem_def nitro_setItem_def by (intro leaves_intros assms)
  show window: "leaves f (checkSlidingWindow p b k limit n weight)" for weight
    unfolding checkSlidingWindow_def Let_def by (intro leaves_intros getItem setItem)
  show "leaves f (enforceRateLimit p b k limit n)"
    unfolding enforceRateLimit_def by (intro leaves_intros window)
qed

section \<open>Handlers' parts\<close>

lemma leaves_secrets [leaves_intros]:
  "leaves f (gcm_encrypt p key m)" "leaves f (wrapDek p backend dek)" "leaves f (unwrapDek p backend dekEnc)"
  "leaves f (encryptSecret p backend m)" "leaves f (getDek p backend dekEnc)" "leaves f (decryptSecret p backend c dekEnc)"
  "leaves f (fresh_secret p backend)"
proof -
  show gcm: "leaves f (gcm_encrypt p key m)" for key m
    unfolding gcm_encrypt_def by (intro leaves_intros)
  show wrap: "leaves f (wrapDek p backend dek)" for dek
    by (cases backend; simp; intro leaves_intros gcm)
  show unwrap: "leaves f (unwrapDek p backend dekEnc)"
    by (cases backend; simp; intro leaves_intros)
  show encrypt: "leaves f (encryptSecret p backend m)" for m
    unfolding encryptSecret_def by (intro leaves_intros gcm wrap)
  show dek: "leaves f (getDek p backend dekEnc)"
    unfolding getDek_def Let_def by (intro leaves_intros unwrap)
  show "leaves f (decryptSecret p backend c dekEnc)"
    unfolding decryptSecret_def by (intro leaves_intros dek)
  show "leaves f (fresh_secret p backend)"
    unfolding fresh_secret_def by (intro leaves_intros encrypt)
qed

lemma leaves_steps [leaves_intros]:
  "leaves f m' \<Longrightarrow> leaves f (caught m')" "leaves f m \<Longrightarrow> leaves f n \<Longrightarrow> leaves f (bothA m n)"
  "leaves f (refuse code msg)" "leaves f (need c code msg)" "leaves f (find_account p v)" "leaves f (existing_account p v)"
  "leaves f (issueSessionToken p v secret)" "leaves f (verify_challenge_signature p ch sig key)"
  "leaves f (postToAllPeers p cfg path envelope)" "leaves f (replicateKeyringBlob p cfg k v v')"
  "leaves f (replicateKeyringDelete p cfg k)"
proof -
  show caught: "leaves f m' \<Longrightarrow> leaves f (caught m')" for m'
    unfolding caught_def by (intro leaves_intros)
  show "leaves f m \<Longrightarrow> leaves f n \<Longrightarrow> leaves f (bothA m n)" for m n :: "('y, unit) wact"
    unfolding bothA_def caught_def by (intro leaves_intros)
  show "leaves f (refuse code msg)" "leaves f (need c code msg)" "leaves f (issueSessionToken p v secret)"
    unfolding refuse_def need_def issueSessionToken_def by (intro leaves_intros)+
  then show "leaves f (verify_challenge_signature p ch sig key)"
    unfolding verify_challenge_signature_def need_def by (intro leaves_intros)
  show account: "leaves f (find_account p v)" for v
    unfolding find_account_def by (intro leaves_intros)
  show "leaves f (existing_account p v)"
    unfolding existing_account_def refuse_def by (intro leaves_intros account)
  show peers: "leaves f (postToAllPeers p cfg path envelope)" for path envelope
    unfolding postToAllPeers_def caught_def by (intro leaves_intros)
  show "leaves f (replicateKeyringBlob p cfg k v v')" "leaves f (replicateKeyringDelete p cfg k)"
    unfolding replicateKeyringBlob_def replicateKeyringDelete_def broadcastKeyring_def broadcastKeyringDelete_def
    by (intro leaves_intros peers)+
qed

lemma leaves_account_rate [leaves_intros]: "skips_kv f \<Longrightarrow> leaves f (account_rate p cfg ip)"
  unfolding account_rate_def by (rule leaves_kv)

lemma leaves_announce [leaves_intros]:
  assumes "skips_bindings f" shows "leaves f (announceOwnCardRegistration p cfg v)"
proof -
  have "leaves f (query p (upsertRoutingEntry row))" "leaves f (query p (recordNonceIfNew n))" for row n
    using assms by (auto intro!: leaves_query simp: skips_bindings_def upsertRoutingEntry_def recordNonceIfNew_def)
  then show ?thesis
    unfolding announceOwnCardRegistration_def buildRegistrationAnnouncement_def Let_def record_nonce_def find_routing_def
      store_binding_def broadcastAnnouncement_def
    by (intro leaves_intros)
qed

lemma leaves_dispatch [leaves_intros]: "leaves f (dispatchNotificationJob p deps channel msg)"
proof -
  have email: "leaves f (send_email p provider addressee subject content)" for provider addressee subject content
    by (cases provider; simp; intro leaves_intros)
  have sms: "leaves f (send_sms p provider addressee content)" for provider addressee content
    by (cases provider; simp; intro leaves_intros)
  show ?thesis
    unfolding dispatchNotificationJob_def Let_def by (intro leaves_intros email sms)
qed

lemma leaves_notifications [leaves_intros]:
  assumes "skips_jobs f" shows "leaves f (attempt_job p cfg job)" "leaves f (fanOutRecoveryNotifications p cfg r b kind)"
proof -
  have jobs: "leaves f (query p (enqueueNotificationJob g rid recoveryId channel msg))" "leaves f (query p (markJobSent rid))"
    "leaves f (query p (markJobFailed rid n))" for g rid recoveryId channel msg n
    using assms by (auto intro!: leaves_query simp: skips_jobs_def enqueueNotificationJob_def markJobSent_def markJobFailed_def Let_def)
  show job: "leaves f (attempt_job p cfg job)" for job
    unfolding attempt_job_def by (intro leaves_intros jobs)
  show "leaves f (fanOutRecoveryNotifications p cfg r b kind)"
    unfolding fanOutRecoveryNotifications_def enqueue_job_def by (intro leaves_intros job jobs)
qed

end
