(* ===== verification/Wallet_World.thy ===== *)
theory Wallet_World
  imports Wallet_Frames Press_World
begin

text \<open>
  A small concrete wallet service for the witnesses: the toy primitives of the press world, a
  clock that is the outer state (microseconds; below zero the database does not answer), peers
  and other servers that answer 200 with an empty object, one account with a backup, and one
  recovery window.
\<close>

definition ex_fetch_ok :: fetch_response where
  "ex_fetch_ok = \<lparr>fe_status = 200, fe_json = Inr (Obj [])\<rparr>"

definition ex_services :: "int services" where
  "ex_services = \<lparr>json_parse = (\<lambda>bs. Inr (session_payload (Str ''n'') 0)),
     regex_test = (\<lambda>r s. Some (r = s)), number_of_text = (\<lambda>v. NaN), date_time = (\<lambda>s. Fin 1000),
     iso_of_ms = int_str, crypto_ops = ex_press_crypto, fetched_at = 0, checked_at = 0, now_iso = ''2026'',
     http_post_report = (\<lambda>u r. Inr \<lparr>ok = True, status = 200, body_json = Inr []\<rparr>),
     http_get = (\<lambda>u. Inr \<lparr>ok = False, status = 404, body_json = Inr []\<rparr>),
     ml_dsa44_sign = (\<lambda>m k. [5]), ml_dsa44_public_key = (\<lambda>k. [6]),
     aes_gcm_seal = (\<lambda>k n m. replicate 16 0 @ m),
     utf8_decode = map (\<lambda>b. char_of (unat b)), text_of = (\<lambda>v. ''?''),
     bigint_of_literal = (\<lambda>s. Inl (JsError ''SyntaxError'')),
     buffer_from_object = (\<lambda>kvs. Inl (JsError ''TypeError'')),
     db_begin = (\<lambda>y. (if y < 0 then Inl (DbError ''57P01'' ''terminating connection'') else Inr y, y)),
     gen_uuid = (\<lambda>y. (int_str y, y + 1)),
     pg_text = (\<lambda>v. Inr ''?''), pg_uuid = Some, pg_jsonb = id,
     date_now = (\<lambda>y. (y div 1000, y)), random_bytes = (\<lambda>n y. (replicate n 0, y)),
     hmac_sha256 = (\<lambda>k m. [7]), http_fetch = (\<lambda>req y. (Inr ex_fetch_ok, y)),
     sub_card_doc_cid = (\<lambda>s y. Inr []),
     kms_encrypt = (\<lambda>k r b y. (Inr (Some b), y)), kms_decrypt = (\<lambda>k r b y. (Inr (Some b), y)),
     read_file = (\<lambda>f y. Inr ''token''), hpke_generate = (\<lambda>y. (([1], [2]), y)),
     hpke_open = (\<lambda>k e c. Inr (c, [3])), webauthn_verify = (\<lambda>a c i orig cred. Inr (True, 1))\<rparr>"

definition ex_wallet_config :: wallet_config where
  "ex_wallet_config = \<lparr>DATABASE_URL = ''db'', SECRETS_BACKEND = Webcrypto,
     WEBCRYPTO_MASTER_KEY = Some (bytes_to_base64url (replicate 32 0)), KMS_KEY_ID = None, AWS_REGION = None,
     SESSION_TOKEN_SECRET = ''secret'', KV_BACKEND = Postgres, WEBAUTHN_RP_ID = ''rp'', WEBAUTHN_ORIGIN = ''origin'',
     WALLET_PORT = Fin 3000, WALLET_LOG_LEVEL = ''info'', SENDGRID_API_KEY = None, SENDGRID_FROM_EMAIL = None,
     TWILIO_ACCOUNT_SID = None, TWILIO_AUTH_TOKEN = None, TWILIO_FROM_NUMBER = None, WALLET_SERVICE_ID = ''0x06'',
     WALLET_SERVICE_ENDPOINT = ''here'', WALLET_SERVICE_PRIVATE_KEY = bytes_to_base64url (replicate 2560 0),
     PEER_LIST = [\<lparr>pc_wallet_service_id = ''0x08'', pc_endpoint = ''there'', pc_pubkey_hash = ''08''\<rparr>],
     RELAY_BASE_URL = ''relay'', ADMIN_API_KEY = ''admin'', WALLET_RPC_URL = ''rpc'', WALLET_REGISTRY_ADDRESS = ''0x01'',
     IPFS_GATEWAY_URL = ''gw'', MATRIX_SERVER_NAME = ''m'', MATRIX_SYNAPSE_URL = ''synapse'',
     MATRIX_ENFORCEMENT_USER_ID = ''@bot:m''\<rparr>"

section \<open>A database\<close>

definition ex_account :: account_row where
  "ex_account = \<lparr>ha_id = ''a'', ha_card_hash = ''c'', ha_master_pubkey = ''AQ'', ha_keyring_id = ''k'',
     ha_service_secret_enc = ''s'', ha_service_secret_dek_enc = ''d'', ha_webauthn_credential_id = Some ''cred'',
     ha_webauthn_public_key = Some ''AQ'', ha_webauthn_sign_count = 0, ha_created_at = 0\<rparr>"

definition ex_backup :: backup_row where
  "ex_backup = \<lparr>br_id = ''b'', br_holder_id = ''a'', br_type = Yubikey, br_wrapped_blob = ''blob'',
     br_keyring_id = ''k'', br_notification_channels = Obj [(''email'', Str ''x@y'')], br_cancellation_pubkey = ''AQ'',
     br_created_at = 0\<rparr>"

definition ex_window :: recovery_row where
  "ex_window = \<lparr>rw_id = ''w'', rw_backup_reg_id = ''b'', rw_initiated_at = 0, rw_expires_at = 259200000000,
     rw_status = Pending, rw_cancelled_at = None, rw_released_at = None\<rparr>"

definition ex_cancelled_window :: recovery_row where
  "ex_cancelled_window = ex_window\<lparr>rw_status := Cancelled, rw_cancelled_at := Some 5\<rparr>"

definition ex_database :: "recovery_row list \<Rightarrow> database" where
  "ex_database rs = \<lparr>holder_accounts = [ex_account], auth_challenges = [], backup_registrations = [ex_backup],
     recovery_windows = rs, notification_jobs = [], routing_table = [], routing_nonces = [], keyring_blobs = [],
     message_queue = [], uuid_pools = [], subcard_action_nonces = [], matrix_room_index = [],
     matrix_credentials = [], kv_store = []\<rparr>"

definition ex_wallet :: "database \<Rightarrow> int \<Rightarrow> int wallet" where
  "ex_wallet d y = \<lparr>db = d, nitro_kv = Map.empty, dek_cache = Map.empty, ohttp_keypair = None, outer = y\<rparr>"

section \<open>Evaluation rules\<close>

lemma ex_services_sel [simp]:
  "json_parse ex_services bs = Inr (session_payload (Str ''n'') 0)" "crypto_ops ex_services = ex_press_crypto"
  "date_time ex_services s = Fin 1000" "number_of_text ex_services v = NaN" "iso_of_ms ex_services i = int_str i"
  "db_begin ex_services y = (if y < 0 then Inl (DbError ''57P01'' ''terminating connection'') else Inr y, y)"
  "gen_uuid ex_services y = (int_str y, y + 1)" "pg_uuid ex_services = Some" "pg_jsonb ex_services = id"
  "date_now ex_services y = (y div 1000, y)" "random_bytes ex_services n y = (replicate n 0, y)"
  "http_fetch ex_services req y = (Inr ex_fetch_ok, y)" "hmac_sha256 ex_services k m = [7]"
  "utf8_decode ex_services bs = map (\<lambda>b. char_of (unat b)) bs"
  "aes_gcm_seal ex_services k iv m = replicate 16 0 @ m" "ml_dsa44_sign ex_services m k = [5]"
  "ml_dsa44_public_key ex_services k = [6]" "hpke_open ex_services k e c = Inr (c, [3])"
  "webauthn_verify ex_services v chal rp orig cred = Inr (True, 1)" "pg_text ex_services v = Inr ''?''"
  by (simp_all add: ex_services_def)

lemma ex_wallet_config_sel [simp]:
  "KV_BACKEND ex_wallet_config = Postgres" "SECRETS_BACKEND ex_wallet_config = Webcrypto"
  "WEBCRYPTO_MASTER_KEY ex_wallet_config = Some (bytes_to_base64url (replicate 32 0))"
  "SESSION_TOKEN_SECRET ex_wallet_config = ''secret''" "WALLET_SERVICE_ID ex_wallet_config = ''0x06''"
  "WALLET_SERVICE_ENDPOINT ex_wallet_config = ''here''" "RELAY_BASE_URL ex_wallet_config = ''relay''"
  "WALLET_SERVICE_PRIVATE_KEY ex_wallet_config = bytes_to_base64url (replicate 2560 0)"
  "PEER_LIST ex_wallet_config = [\<lparr>pc_wallet_service_id = ''0x08'', pc_endpoint = ''there'', pc_pubkey_hash = ''08''\<rparr>]"
  "SENDGRID_API_KEY ex_wallet_config = None" "TWILIO_ACCOUNT_SID ex_wallet_config = None"
  "IPFS_GATEWAY_URL ex_wallet_config = ''gw''"
  by (simp_all add: ex_wallet_config_def)

lemma ex_wallet_sel [simp]:
  "db (ex_wallet d y) = d" "outer (ex_wallet d y) = y" "dek_cache (ex_wallet d y) = Map.empty"
  "ohttp_keypair (ex_wallet d y) = None" "nitro_kv (ex_wallet d y) = Map.empty"
  "(ex_wallet d y)\<lparr>db := d'\<rparr> = ex_wallet d' y" "(ex_wallet d y)\<lparr>outer := y'\<rparr> = ex_wallet d y'"
  by (simp_all add: ex_wallet_def)

lemma ex_database_sel [simp]:
  "(ex_database rs)\<lparr>recovery_windows := rs'\<rparr> = ex_database rs'"
  "holder_accounts (ex_database rs) = [ex_account]" "backup_registrations (ex_database rs) = [ex_backup]"
  "recovery_windows (ex_database rs) = rs" "auth_challenges (ex_database rs) = []"
  "notification_jobs (ex_database rs) = []" "routing_table (ex_database rs) = []" "routing_nonces (ex_database rs) = []"
  "keyring_blobs (ex_database rs) = []" "message_queue (ex_database rs) = []" "uuid_pools (ex_database rs) = []"
  "database.kv_store (ex_database rs) = []" "subcard_action_nonces (ex_database rs) = []"
  by (simp_all add: ex_database_def)

lemma ex_rows_sel [simp]:
  "ha_id ex_account = ''a''" "ha_card_hash ex_account = ''c''"
  "br_id ex_backup = ''b''" "br_holder_id ex_backup = ''a''" "br_wrapped_blob ex_backup = ''blob''"
  "br_keyring_id ex_backup = ''k''" "br_cancellation_pubkey ex_backup = ''AQ''" "br_type ex_backup = Yubikey"
  "br_notification_channels ex_backup = Obj [(''email'', Str ''x@y'')]"
  "rw_id ex_window = ''w''" "rw_backup_reg_id ex_window = ''b''" "rw_expires_at ex_window = 259200000000"
  "rw_status ex_window = Pending" "rw_initiated_at ex_window = 0"
  "rw_id ex_cancelled_window = ''w''" "rw_backup_reg_id ex_cancelled_window = ''b''" "rw_status ex_cancelled_window = Cancelled"
  unfolding ex_account_def ex_backup_def ex_cancelled_window_def ex_window_def by simp_all

lemma ex_window_ok [simp]: "window_ok ex_window" "window_ok ex_cancelled_window"
  unfolding ex_cancelled_window_def ex_window_def
  by (simp_all add: window_ok_def hours_def seconds_def RECOVERY_WINDOW_HOURS_def)

lemma ex_database_ok [simp]:
  "database_ok (ex_database [])" "database_ok (ex_database [ex_window])" "database_ok (ex_database [ex_cancelled_window])"
  by (simp_all add: database_ok_def)

lemma ex_gcm_correct [simp]: "gcm_correct ex_services" "random_sized ex_services"
  by (simp_all add: gcm_correct_def random_sized_def ex_press_crypto_def)

lemma ex_wallet_verify [simp]: "ml_dsa44_verify ex_press_crypto s m k = Inr True"
  by (simp add: ex_press_crypto_def ex_crypto_def)

lemma ex_query: "0 \<le> y \<Longrightarrow> query ex_services q (ex_wallet d y) = (fst (q y d), ex_wallet (snd (q y d)) y)"
  by (simp add: query_run)

text \<open>Equations that run a program on this world.\<close>

lemmas ex_runs = bindA_def catchA_def caught_def retA_run liftA_run throwA_run guardA_run readA_run need_def refuse_def
  nowY_def outY_run uuidY_def randomY_def fetchY_def field_def lookup_key_def Let_def ex_query

end
