(* ===== verification/Wallet_Recovery_Properties.thy ===== *)
theory Wallet_Recovery_Properties
  imports Wallet_World
begin

text \<open>
  The properties of the wallet service's database and of the recovery of a wallet: what holds
  in every reachable state, when the key of a backup is handed out, who can stop it, and what
  two concurrent initiations leave behind.
\<close>

section \<open>Reachable states\<close>

text \<open>
  Whole handlers and tasks, restarts, changes outside, and, between them, single statements of
  handlers that are still running.
\<close>

definition reaches :: "('y, 'z) services_scheme \<Rightarrow> wallet_config \<Rightarrow> 'y wallet \<Rightarrow> 'y wallet \<Rightarrow> bool" where
  "reaches p cfg = (\<lambda>w w'. service_step p cfg w w' \<or> on_db sql_step w w')\<^sup>*\<^sup>*"

lemma reaches_statements: "reaches p cfg w w' \<Longrightarrow> sql_step\<^sup>*\<^sup>* (db w) (db w')"
  unfolding reaches_def
  by (induction rule: rtranclp_induct) (auto simp: on_db_def dest: service_step_statements)

lemma reaches_refl [simp]: "reaches p cfg w w"
  by (simp add: reaches_def)

lemma reaches_step: "service_step p cfg w w' \<Longrightarrow> reaches p cfg w w'"
  by (auto simp: reaches_def)

lemma reaches_ok: "reaches p cfg w w' \<Longrightarrow> database_ok (db w) \<Longrightarrow> database_ok (db w')"
  by (blast dest: reaches_statements intro: database_ok_run)

lemma reaches_windows: "reaches p cfg w w' \<Longrightarrow> extends window_moves window_ok (recovery_windows (db w)) (recovery_windows (db w'))"
  by (blast dest: reaches_statements intro: extends_windows_run)

lemma reaches_trans: "reaches p cfg u v \<Longrightarrow> reaches p cfg v w \<Longrightarrow> reaches p cfg u w"
  unfolding reaches_def by (rule rtranclp_trans)

section \<open>Running the routes\<close>

lemma query_answers:
  assumes "\<exists>s. fst (db_begin p (outer w)) = Inr s \<and> P s"
  shows "\<exists>s y. P s \<and> query p q w = (fst (q s (db w)), w\<lparr>db := snd (q s (db w)), outer := y\<rparr>)"
proof -
  from assms obtain s y where "db_begin p (outer w) = (Inr s, y)" "P s"
    by (metis prod.collapse)
  then show ?thesis
    by (intro exI [of _ s] exI [of _ y]) (simp add: query_run)
qed

lemma window_and_backup_runs:
  assumes answers: "\<forall>y. \<exists>s. fst (db_begin p y) = Inr s" and uuid: "sql_uuid p (Str rid) = Inr u"
    and unique: "database_ok (db w)" and r: "r \<in> set (recovery_windows (db w))" "rw_id r = u"
    and b: "b \<in> set (backup_registrations (db w))" "br_id b = rw_backup_reg_id r"
  shows "\<exists>y. window_and_backup p rid w = (Inr (r, b), w\<lparr>outer := y\<rparr>)"
proof -
  have found: "find (\<lambda>x. rw_id x = u) (recovery_windows (db w)) = Some r"
    "find (\<lambda>x. br_id x = rw_backup_reg_id r) (backup_registrations (db w)) = Some b"
    using find_unique [of rw_id _ r] find_unique [of br_id _ b] unique r b by (auto simp: database_ok_def)
  obtain y where "find_window p rid w = (Inr (Some r), w\<lparr>outer := y\<rparr>)"
    using query_answers [of p w "\<lambda>_. True" "findRecoveryWindowById u"] answers uuid found(1)
    by (auto simp: find_window_def bindA_def liftA_run findRecoveryWindowById_def)
  moreover obtain y' where
    "query p (findBackupRegistrationById (rw_backup_reg_id r)) (w\<lparr>outer := y\<rparr>) = (Inr (Some b), w\<lparr>outer := y'\<rparr>)"
    using query_answers [of p "w\<lparr>outer := y\<rparr>" "\<lambda>_. True" "findBackupRegistrationById (rw_backup_reg_id r)"] answers found(2)
    by (auto simp: findBackupRegistrationById_def)
  ultimately show ?thesis
    by (auto simp: window_and_backup_def bindA_def retA_run)
qed

lemma backup_of_window:
  "database_ok d \<Longrightarrow> r \<in> set (recovery_windows d) \<Longrightarrow> \<exists>b \<in> set (backup_registrations d). br_id b = rw_backup_reg_id r"
  by (force simp: database_ok_def)

lemma update_window_runs:
  assumes answers: "\<exists>s. fst (db_begin p (outer w)) = Inr s \<and> P s r" and uuid: "sql_uuid p (Str rid) = Inr u"
    and unique: "database_ok (db w)" and r: "r \<in> set (recovery_windows (db w))" "rw_id r = u"
  shows "\<exists>s y. P s r \<and> update_window p (move_window P f) rid w = (Inr (Some (f s r)),
     w\<lparr>db := (db w)\<lparr>recovery_windows := update_where (\<lambda>r. rw_id r = u \<and> P s r) (f s) (recovery_windows (db w))\<rparr>, outer := y\<rparr>)"
proof -
  obtain s y where s: "P s r" and run: "query p (move_window P f u) w =
      (fst (move_window P f u s (db w)), w\<lparr>db := snd (move_window P f u s (db w)), outer := y\<rparr>)"
    using query_answers [of p w "\<lambda>s. P s r" "move_window P f u"] answers by auto
  have "find (\<lambda>x. rw_id x = u) rows = Some r \<Longrightarrow> find (\<lambda>x. rw_id x = u \<and> P s x) rows = Some r" for rows
    using s by (induction rows) (auto split: if_splits)
  then have "find (\<lambda>x. rw_id x = u \<and> P s x) (recovery_windows (db w)) = Some r"
    using find_unique [of rw_id "recovery_windows (db w)" r] unique r by (simp add: database_ok_def)
  with run uuid s show ?thesis
    by (intro exI [of _ s] exI [of _ y]) (simp add: update_window_def bindA_def liftA_run move_window_def Let_def)
qed

section \<open>The invariant\<close>

text \<open>
  C8. The database stays consistent: in every state the service reaches, whatever handlers,
  tasks, restarts and single statements of concurrent handlers were executed and however they
  ended, keys are unique, every backup belongs to an account, every recovery window to a backup
  and every notification job to a window, and every window lasts 72 hours and is pending,
  cancelled before its end or released after it.
\<close>

theorem database_stays_consistent:
  assumes "database_ok (db w)" and "reaches p cfg w w'"
  shows "database_ok (db w')"
  using assms by (rule reaches_ok [rotated])

lemma ex_release_step:
  "service_step ex_services ex_wallet_config (ex_wallet (ex_database [ex_window]) 300000000000)
     (snd (release_route ex_services ''w'' (ex_wallet (ex_database [ex_window]) 300000000000)))"
  by (rule service_step.release_recovery [OF prod.collapse [symmetric]])

theorem database_stays_consistent_witness:
  "database_ok (db (snd (release_route ex_services ''w'' (ex_wallet (ex_database [ex_window]) 300000000000))))"
  by (rule database_stays_consistent [OF _ reaches_step [OF ex_release_step]]) simp

section \<open>Releasing\<close>

text \<open>
  C7. A key is released only after its window: if, in any state reached from a consistent
  database, \<open>GET /recovery/{id}/release\<close> answers with a wrapped key, then that key is the one
  of the backup for which this window was opened, more than 72 hours have passed on the
  database's clock between its start and its release, and it was never cancelled.
\<close>

theorem released_key_waited_out_its_window:
  assumes "database_ok (db w0)" and "reaches p cfg w0 w"
    and "release_route p rid w = (Inr (Key_Released blob k), w')" and "sql_uuid p (Str rid) = Inr u"
  shows "\<exists>r b t. r \<in> set (recovery_windows (db w')) \<and> rw_id r = u \<and> rw_status r = Released \<and>
     rw_released_at r = Some t \<and> rw_initiated_at r + hours 72 < t \<and> rw_cancelled_at r = None \<and>
     b \<in> set (backup_registrations (db w')) \<and> br_id b = rw_backup_reg_id r \<and>
     blob = br_wrapped_blob b \<and> k = br_keyring_id b"
proof -
  have ok: "database_ok (db w)" by (rule reaches_ok [OF assms(2,1)])
  have "service_step p cfg w w'" by (rule service_step.release_recovery [OF assms(3)])
  then have ok': "database_ok (db w')" by (rule reaches_ok [OF reaches_step ok])
  from release_route_Inr [OF assms(3,4) ok] obtain r b where r: "window_in Released u w' r"
    and b: "b \<in> set (backup_registrations (db w'))" "br_id b = rw_backup_reg_id r" "blob = br_wrapped_blob b" "k = br_keyring_id b"
    by blast
  from r ok' have "window_ok r" by (auto simp: window_in_def database_ok_def list_all_iff)
  with r obtain t where "rw_released_at r = Some t" "rw_initiated_at r + hours 72 < t" "rw_cancelled_at r = None"
    by (auto simp: window_ok_def window_in_def RECOVERY_WINDOW_HOURS_def)
  with r b show ?thesis unfolding window_in_def by blast
qed

lemma ex_uuid: "sql_uuid ex_services (Str ''w'') = Inr ''w''"
  by (simp add: sql_uuid_def sql_string_def)

definition ex_released_window :: recovery_row where
  "ex_released_window = ex_window\<lparr>rw_status := Released, rw_released_at := Some 300000000000\<rparr>"

lemma ex_release:
  "release_route ex_services ''w'' (ex_wallet (ex_database [ex_window]) 300000000000) =
     (Inr (Key_Released ''blob'' ''k''), ex_wallet (ex_database [ex_released_window]) 300000000000)"
  by (simp add: release_route_def window_and_backup_def find_window_def update_window_def bindA_def liftA_run need_def
      guardA_run ex_uuid ex_query findRecoveryWindowById_def findBackupRegistrationById_def retA_run nowY_def outY_run
      get_time_def releaseRecoveryWindow_def move_window_def Let_def releasable_def release_key_def update_where_def
      ex_released_window_def)

theorem released_key_waited_out_its_window_witness:
  "\<exists>r t. r \<in> {ex_released_window} \<and> rw_released_at r = Some t \<and> rw_initiated_at r + hours 72 < t"
  using released_key_waited_out_its_window [OF _ reaches_refl ex_release ex_uuid] by auto

text \<open>
  A cancelled recovery stays cancelled: once the window of an id is cancelled, no later
  request for its release is answered with a key, whatever the service did in between and
  whatever the clocks say.
\<close>

theorem cancelled_recovery_never_releases:
  assumes "database_ok (db w)" and "r \<in> set (recovery_windows (db w))" and "rw_status r = Cancelled"
    and "sql_uuid p (Str rid) = Inr (rw_id r)" and "reaches p cfg w w'"
    and "release_route p rid w' = (res, w'')"
  shows "res \<noteq> Inr (Key_Released blob k)"
proof
  assume res: "res = Inr (Key_Released blob k)"
  have step: "service_step p cfg w' w''" by (rule service_step.release_recovery [OF assms(6)])
  have run: "reaches p cfg w w''" by (rule reaches_trans [OF assms(5) reaches_step [OF step]])
  obtain r' where "r' \<in> set (recovery_windows (db w''))" "window_moves r r'"
    using windows.extends_old [OF reaches_windows [OF run] assms(2)] by blast
  then have r: "r \<in> set (recovery_windows (db w''))"
    using assms(3) by (simp add: window_moves_def)
  obtain s where s: "window_in Released (rw_id r) w'' s"
    using release_route_Inr [OF assms(6) [unfolded res] assms(4) reaches_ok [OF assms(5,1)]] by blast
  then have "s = r"
    using same_key [of rw_id "recovery_windows (db w'')" s r] reaches_ok [OF run assms(1)] r
    by (auto simp: window_in_def database_ok_def)
  with s assms(3) show False by (simp add: window_in_def)
qed

theorem cancelled_recovery_never_releases_witness:
  "fst (release_route ex_services ''w'' (ex_wallet (ex_database [ex_cancelled_window]) 300000000000)) \<noteq>
     Inr (Key_Released ''blob'' ''k'')"
  by (rule cancelled_recovery_never_releases
      [of "ex_wallet (ex_database [ex_cancelled_window]) 300000000000" ex_cancelled_window ex_services "''w''" ex_wallet_config,
       OF _ _ _ _ reaches_refl prod.collapse [symmetric]])
     (simp_all add: ex_uuid)

text \<open>
  The database answers, and by its clock and the server's the time \<open>t\<close> has passed.
\<close>

definition clocks_past :: "('y, 'z) services_scheme \<Rightarrow> int \<Rightarrow> bool" where
  "clocks_past p t \<longleftrightarrow> (\<forall>y. (\<exists>s. fst (db_begin p y) = Inr s \<and> t < s) \<and> get_time t \<le> fst (date_now p y))"

lemma clocks_past_answers: "clocks_past p t \<Longrightarrow> \<forall>y. \<exists>s. fst (db_begin p y) = Inr s"
  by (auto simp: clocks_past_def)

text \<open>
  C18. An expired recovery is released: if a window was not cancelled and its end has passed on
  the clocks of the database and the server, the request for its release is answered with the
  wrapped key of its backup, and the window is then released for good.
\<close>

theorem expired_recovery_is_released:
  assumes "database_ok (db w)" and "r \<in> set (recovery_windows (db w))" and "rw_status r \<noteq> Cancelled"
    and "sql_uuid p (Str rid) = Inr (rw_id r)" and "rid \<noteq> []" and "clocks_past p (rw_expires_at r)"
  shows "\<exists>b w' r'. release_route p rid w = (Inr (Key_Released (br_wrapped_blob b) (br_keyring_id b)), w') \<and>
     b \<in> set (backup_registrations (db w)) \<and> br_id b = rw_backup_reg_id r \<and> window_in Released (rw_id r) w' r'"
proof -
  note answers = clocks_past_answers [OF assms(6)]
  obtain b where b: "b \<in> set (backup_registrations (db w))" "br_id b = rw_backup_reg_id r"
    using backup_of_window [OF assms(1,2)] by auto
  obtain y where wb: "window_and_backup p rid w = (Inr (r, b), w\<lparr>outer := y\<rparr>)"
    using window_and_backup_runs [OF answers assms(4,1,2) refl b] by auto
  show ?thesis
  proof (cases "rw_status r = Released")
    case True
    then have "release_route p rid w = (Inr (release_key b), w\<lparr>outer := y\<rparr>)"
      using assms(5) wb by (simp add: release_route_def bindA_def need_def guardA_run retA_run)
    with True assms(2) b show ?thesis by (auto simp: release_key_def window_in_def)
  next
    case False
    with assms(3) have pending: "rw_status r = Pending" by (cases "rw_status r") auto
    obtain now y' where now: "date_now p y = (now, y')" "get_time (rw_expires_at r) \<le> now"
      using assms(6) by (auto simp: clocks_past_def) (metis fst_conv surj_pair)
    have "\<exists>s. fst (db_begin p (outer (w\<lparr>outer := y'\<rparr>))) = Inr s \<and> releasable s r"
      using assms(6) pending by (auto simp: clocks_past_def releasable_def)
    from update_window_runs [of p "w\<lparr>outer := y'\<rparr>" releasable r rid "rw_id r"
        "\<lambda>now r. r\<lparr>rw_status := Released, rw_released_at := Some now\<rparr>"] this assms(1,2,4)
    obtain s y'' where upd: "update_window p releaseRecoveryWindow rid (w\<lparr>outer := y'\<rparr>) =
        (Inr (Some (r\<lparr>rw_status := Released, rw_released_at := Some s\<rparr>)), w\<lparr>db := (db w)\<lparr>recovery_windows :=
           update_where (\<lambda>x. rw_id x = rw_id r \<and> releasable s x) (\<lambda>r. r\<lparr>rw_status := Released, rw_released_at := Some s\<rparr>)
             (recovery_windows (db w))\<rparr>, outer := y''\<rparr>)"
      unfolding releaseRecoveryWindow_def by auto
    then have "window_in Released (rw_id r) (snd (update_window p releaseRecoveryWindow rid (w\<lparr>outer := y'\<rparr>)))
        (r\<lparr>rw_status := Released, rw_released_at := Some s\<rparr>)"
      using update_window_releases(2) [OF _ assms(4)] by fastforce
    moreover have "fst (release_route p rid w) = Inr (release_key b) \<and>
        snd (release_route p rid w) = snd (update_window p releaseRecoveryWindow rid (w\<lparr>outer := y'\<rparr>))"
      using assms(5) wb False pending now upd
      by (simp add: release_route_def bindA_def need_def guardA_run retA_run nowY_def outY_run)
    ultimately show ?thesis using b by (metis prod.collapse release_key_def)
  qed
qed

definition ex_late :: "int services" where
  "ex_late = ex_services\<lparr>db_begin := \<lambda>y. (Inr 300000000000, y), date_now := \<lambda>y. (300000000, y)\<rparr>"

theorem expired_recovery_is_released_witness:
  "\<exists>b. fst (release_route ex_late ''w'' (ex_wallet (ex_database [ex_window]) 0)) =
     Inr (Key_Released (br_wrapped_blob b) (br_keyring_id b)) \<and> b \<in> {ex_backup}"
proof -
  have "clocks_past ex_late (rw_expires_at ex_window)" "sql_uuid ex_late (Str ''w'') = Inr (rw_id ex_window)"
    by (simp_all add: clocks_past_def ex_late_def get_time_def sql_uuid_def sql_string_def)
  then show ?thesis
    using expired_recovery_is_released [of "ex_wallet (ex_database [ex_window]) 0" ex_window ex_late "''w''"] by auto
qed

section \<open>Cancelling\<close>

lemma statements_keep_cancelled:
  assumes "window_in Cancelled u w r" "m w = (res, w')" "statements m" shows "window_in Cancelled u w' r"
proof -
  have "r \<in> set (recovery_windows (db w))" using assms(1) by (simp add: window_in_def)
  from windows.extends_old [OF extends_windows_run [OF statements_run [OF assms(2,3)]] this] assms(1)
  show ?thesis by (auto simp: window_in_def window_moves_def)
qed

text \<open>
  C17. The holder can stop a recovery: while the window is pending and its end has not come on
  the database's clock, a cancellation that names the window and is signed with the key
  registered for it cancels the window, even if every notification about it fails.
\<close>

theorem holder_cancels_in_time:
  assumes "database_ok (db w)" and r: "r \<in> set (recovery_windows (db w))" "rw_status r = Pending"
    and "sql_uuid p (Str rid) = Inr (rw_id r)" and "rid \<noteq> []"
    and early: "\<forall>y. \<exists>s. fst (db_begin p y) = Inr s \<and> s < rw_expires_at r"
    and b: "b \<in> set (backup_registrations (db w))" "br_id b = rw_backup_reg_id r"
    and request: "truthy (field body ''challenge'')" "truthy (field body ''signature'')"
      "fromBase64url p (field body ''challenge'') = Inr ch" "utf8_decode p ch = rid"
      "verifyMasterCardSignature p ch (field body ''signature'') (Str (br_cancellation_pubkey b))"
  shows "\<exists>r'. window_in Cancelled (rw_id r) (snd (cancel_route p cfg rid body w)) r'"
proof -
  have answers: "\<forall>y. \<exists>s. fst (db_begin p y) = Inr s" using early by blast
  obtain y where wb: "window_and_backup p rid w = (Inr (r, b), w\<lparr>outer := y\<rparr>)"
    using window_and_backup_runs [OF answers assms(4,1) r(1) refl b] by auto
  have "\<exists>s. fst (db_begin p (outer (w\<lparr>outer := y\<rparr>))) = Inr s \<and> cancellable s r"
    using early r(2) by (auto simp: cancellable_def)
  from update_window_runs [of p "w\<lparr>outer := y\<rparr>" cancellable r rid "rw_id r"
      "\<lambda>now r. r\<lparr>rw_status := Cancelled, rw_cancelled_at := Some now\<rparr>"] this assms(1,4) r
  obtain s w1 where upd: "update_window p cancelRecoveryWindow rid (w\<lparr>outer := y\<rparr>) =
      (Inr (Some (r\<lparr>rw_status := Cancelled, rw_cancelled_at := Some s\<rparr>)), w1)" and s: "cancellable s r"
    and w1: "recovery_windows (db w1) = update_where (\<lambda>x. rw_id x = rw_id r \<and> cancellable s x)
      (\<lambda>r. r\<lparr>rw_status := Cancelled, rw_cancelled_at := Some s\<rparr>) (recovery_windows (db w))"
    unfolding cancelRecoveryWindow_def by auto
  let ?r = "r\<lparr>rw_status := Cancelled, rw_cancelled_at := Some s\<rparr>"
  have "window_in Cancelled (rw_id r) w1 ?r"
    using r s by (auto simp: window_in_def w1 update_where_def)
  moreover have "cancel_route p cfg rid body w =
      bindA (fanOutRecoveryNotifications p cfg ?r b ''cancellation_confirmed'') (\<lambda>_. retA ()) w1"
    using assms(5) request wb upd by (simp add: cancel_route_def bindA_def need_def guardA_run retA_run Let_def)
  moreover have "statements (bindA (fanOutRecoveryNotifications p cfg ?r b ''cancellation_confirmed'') (\<lambda>_. retA ()))"
    by (intro statements_intros)
  ultimately show ?thesis using statements_keep_cancelled by (metis prod.collapse)
qed

definition ex_early :: "int services" where
  "ex_early = ex_services\<lparr>db_begin := \<lambda>y. (Inr 5, y)\<rparr>"

definition ex_cancellation :: js where
  "ex_cancellation = Obj [(''challenge'', Str ''dw''), (''signature'', Str ''AQ'')]"

lemma ex_challenge: "base64url_to_bytes ''dw'' = [119]" "char_of (119 :: nat) = CHR ''w''"
  by code_simp+

theorem holder_cancels_in_time_witness:
  "\<exists>r. window_in Cancelled ''w'' (snd (cancel_route ex_early ex_wallet_config ''w'' ex_cancellation
     (ex_wallet (ex_database [ex_window]) 0))) r"
proof -
  have challenge: "fromBase64url ex_early (field ex_cancellation ''challenge'') = Inr [119]"
    "truthy (field ex_cancellation ''challenge'')" "truthy (field ex_cancellation ''signature'')"
    by (simp_all add: ex_cancellation_def ex_challenge ex_runs)
  have "verifyMasterCardSignature ex_early [119] (field ex_cancellation ''signature'') (Str ''AQ'')"
    by (simp add: verifyMasterCardSignature_def true_or_throw_def ex_cancellation_def ex_early_def ex_runs)
  with challenge show ?thesis
    using holder_cancels_in_time [of "ex_wallet (ex_database [ex_window]) 0" ex_window ex_early "''w''" ex_backup
        ex_cancellation "[119]" ex_wallet_config]
    by (simp add: ex_early_def sql_uuid_def sql_string_def ex_challenge)
qed

section \<open>Two initiations at once\<close>

lemma initiate_window_Inr:
  assumes "initiate_window p cfg b w = (Inr (Initiated i e channels), w')"
  shows "\<exists>r. window_in Pending i w' r \<and> rw_backup_reg_id r = br_id b"
    "set (recovery_windows (db w)) \<subseteq> set (recovery_windows (db w'))"
    "i \<notin> rw_id ` set (recovery_windows (db w))"
proof -
  obtain rid y r w2 where create: "query p (createRecoveryWindow rid (br_id b)) (w\<lparr>outer := y\<rparr>) = (Inr r, w2)"
    and fan: "fanOutRecoveryNotifications p cfg r b ''recovery_initiated'' w2 = (Inr channels, w')" and i: "i = rw_id r"
    using assms by (auto simp: initiate_window_def bindA_Inr retA_Inr uuidY_def outY_run split: prod.splits)
  from create have "recovery_windows (db w2) = recovery_windows (db w) @ [r]" "rw_status r = Pending"
    "rw_backup_reg_id r = br_id b" "rw_id r \<notin> rw_id ` set (recovery_windows (db w))"
    by (auto simp: query_Inr createRecoveryWindow_def Let_def list_ex_iff split: if_splits)
  moreover have "recovery_windows (db w') = recovery_windows (db w2)"
    by (rule leavesD [OF leaves_notifications(2) fan]) simp
  ultimately show "\<exists>r. window_in Pending i w' r \<and> rw_backup_reg_id r = br_id b"
    "set (recovery_windows (db w)) \<subseteq> set (recovery_windows (db w'))"
    "i \<notin> rw_id ` set (recovery_windows (db w))"
    by (auto simp: window_in_def i)
qed

text \<open>
  One backup can have two pending windows: the check for an active window and the insertion
  are separate statements, so two requests that both looked before either inserted both open a
  window. Cancelling one of them leaves the other pending, and once it has expired it is
  released.
\<close>

theorem racing_initiations_open_two_windows:
  assumes "query p (findActiveRecoveryWindow (br_id b)) w = (Inr None, w1)"
    and "query p (findActiveRecoveryWindow (br_id b)) w1 = (Inr None, w2)"
    and "initiate_window p cfg b w2 = (Inr (Initiated i e channels), w3)"
    and "initiate_window p cfg b w3 = (Inr (Initiated i' e' channels'), w4)"
  shows "i \<noteq> i' \<and> (\<exists>r r'. window_in Pending i w4 r \<and> window_in Pending i' w4 r' \<and>
     rw_backup_reg_id r = br_id b \<and> rw_backup_reg_id r' = br_id b)"
proof -
  obtain r where r: "window_in Pending i w3 r" "rw_backup_reg_id r = br_id b"
    using initiate_window_Inr(1) [OF assms(3)] by blast
  then have "window_in Pending i w4 r"
    using initiate_window_Inr(2) [OF assms(4)] by (auto simp: window_in_def)
  moreover obtain r' where "window_in Pending i' w4 r'" "rw_backup_reg_id r' = br_id b"
    using initiate_window_Inr(1) [OF assms(4)] by blast
  moreover have "i \<noteq> i'"
    using initiate_window_Inr(3) [OF assms(4)] r(1) by (auto simp: window_in_def)
  ultimately show ?thesis using r(2) by blast
qed

definition ex_new_window :: "string \<Rightarrow> int \<Rightarrow> recovery_row" where
  "ex_new_window i t = \<lparr>rw_id = i, rw_backup_reg_id = ''b'', rw_initiated_at = t,
     rw_expires_at = t + hours RECOVERY_WINDOW_HOURS, rw_status = Pending, rw_cancelled_at = None, rw_released_at = None\<rparr>"

lemma ex_dispatch:
  "dispatchNotificationJob ex_services (getDispatchDeps ex_wallet_config) Email
     (Obj [(''kind'', Str kind), (''recovery_id'', Str i), (''method'', Str m), (''initiated_at'', Str t),
           (''cancellation_code'', Str i'), (''to'', Str ''x@y'')]) w = (Inr (), w)"
  by (simp add: dispatchNotificationJob_def getDispatchDeps_def toContext_def truthy_text_def emailContent_def to_iso_def
      initiated_def ex_runs)

lemma list_ex_key: "list_ex (\<lambda>r. key r = k) rows \<longleftrightarrow> k \<in> key ` set rows"
  by (auto simp: list_ex_iff)

lemma ex_initiate:
  assumes "0 \<le> y" "int_str y \<notin> rw_id ` set ws" "int_str (y + 1) \<notin> nj_id ` set js"
  shows "\<exists>e js'. initiate_window ex_services ex_wallet_config ex_backup (ex_wallet ((ex_database ws)\<lparr>notification_jobs := js\<rparr>) y) =
     (Inr (Initiated (int_str y) e [Email]),
      ex_wallet ((ex_database (ws @ [ex_new_window (int_str y) (y + 1)]))\<lparr>notification_jobs := js'\<rparr>) (2 + y)) \<and>
     nj_id ` set js' = insert (int_str (y + 1)) (nj_id ` set js)"
  using assms
  by (simp add: initiate_window_def fanOutRecoveryNotifications_def ex_runs createRecoveryWindow_def list_ex_key ex_dispatch
      planJobs_def job_base_def enqueue_job_def enqueueNotificationJob_def attempt_job_def markJobSent_def ex_new_window_def)
    (rule exI, rule conjI, rule refl, simp add: image_update_where)

theorem racing_initiations_open_two_windows_witness:
  "\<exists>(w :: int wallet) r r'. window_in Pending (int_str 0) w r \<and> window_in Pending (int_str 2) w r' \<and> rw_backup_reg_id r = rw_backup_reg_id r'"
proof -
  let ?w = "ex_wallet ((ex_database [])\<lparr>notification_jobs := []\<rparr>) 0"
  have look: "query ex_services (findActiveRecoveryWindow (br_id ex_backup)) ?w = (Inr None, ?w)"
    by (simp add: ex_query findActiveRecoveryWindow_def)
  have other: "int_str 2 \<noteq> int_str 0" "int_str 3 \<noteq> int_str 1"
    by (auto dest: int_str_inject)
  obtain e js where first: "initiate_window ex_services ex_wallet_config ex_backup ?w = (Inr (Initiated (int_str 0) e [Email]),
      ex_wallet ((ex_database [ex_new_window (int_str 0) 1])\<lparr>notification_jobs := js\<rparr>) 2)" and js: "nj_id ` set js = {(int_str 1)}"
    using ex_initiate [of 0 "[]" "[]"] by auto
  obtain e' w where second: "initiate_window ex_services ex_wallet_config ex_backup
      (ex_wallet ((ex_database [ex_new_window (int_str 0) 1])\<lparr>notification_jobs := js\<rparr>) 2) = (Inr (Initiated (int_str 2) e' [Email]), w)"
    using ex_initiate [of 2 "[ex_new_window (int_str 0) 1]" js] js by (auto simp: other ex_new_window_def)
  show ?thesis
    using racing_initiations_open_two_windows [OF look look first second] by metis
qed

end
