(* ===== verification/Wallet_Account_Properties.thy ===== *)
theory Wallet_Account_Properties
  imports Wallet_World Verifier_Properties
begin

text \<open>
  The properties of accounts, secrets and sessions of the wallet service: what a created
  account has proven, that secrets survive encryption and are what the holder gets back, what
  a session token is worth, and the bound of the sliding window.
\<close>

section \<open>Secrets\<close>

text \<open>Every cached data key is the one its wrapping opens to.\<close>

definition cache_true :: "('y, 'z) services_scheme \<Rightarrow> bytes \<Rightarrow> 'y wallet \<Rightarrow> bool" where
  "cache_true p master w \<longleftrightarrow> (\<forall>dekEnc e. dek_cache w dekEnc = Some e \<longrightarrow>
     gcm_decrypt p ''WebCryptoBackend'' master (base64url_to_bytes dekEnc) = Inr (de_dek e))"

lemma getDek_runs:
  assumes "gcm_decrypt p ''WebCryptoBackend'' master (base64url_to_bytes dekEnc) = Inr dek" "cache_true p master w"
  shows "\<exists>w'. getDek p (Web_Crypto_Backend master) dekEnc w = (Inr dek, w') \<and> db w' = db w \<and> cache_true p master w'"
proof -
  obtain now y where now: "date_now p (outer w) = (now, y)" by fastforce
  show ?thesis
  proof (cases "\<exists>e. dek_cache w dekEnc = Some e \<and> now < de_expiresAt e")
    case True
    then obtain e where e: "dek_cache w dekEnc = Some e" "now < de_expiresAt e" by blast
    with assms have "de_dek e = dek" by (auto simp: cache_true_def)
    with e now assms(2) show ?thesis
      by (auto simp: getDek_def bindA_def readA_run nowY_def outY_run Let_def retA_run cache_true_def)
  next
    case False
    with assms now show ?thesis
      by (auto simp: getDek_def bindA_def readA_run nowY_def outY_run Let_def retA_run liftA_run cache_dek_def cache_true_def
          split: option.split)
  qed
qed

lemma encryptSecret_runs: "\<exists>c dekEnc w'. encryptSecret p (Web_Crypto_Backend master) plain w = (Inr (c, dekEnc), w')"
  by (simp add: encryptSecret_def gcm_encrypt_def randomY_def outY_run bindA_def retA_run split: prod.split)

lemma encryptSecret_Inr:
  assumes "encryptSecret p (Web_Crypto_Backend master) plain w = (Inr (c, dekEnc), w')" "gcm_correct p" "random_sized p"
  shows "\<exists>dek. gcm_decrypt p ''WebCryptoBackend'' master (base64url_to_bytes dekEnc) = Inr dek \<and>
     decrypt_under p dek c = Inr plain"
proof -
  from assms(1) obtain dek w1 combined w2 wrapped w3 where
    dek: "dek = fst (random_bytes p DEK_BYTES (outer w))" and
    seal: "gcm_encrypt p dek plain w1 = (Inr combined, w2)" "c = bytes_to_base64url combined" and
    wrap: "gcm_encrypt p master dek w2 = (Inr wrapped, w3)" "dekEnc = bytes_to_base64url wrapped"
    by (auto simp: encryptSecret_def bindA_Inr retA_Inr randomY_Inr)
  have "length dek = 32"
    using assms(3) dek by (simp add: random_sized_def DEK_BYTES_def)
  then show ?thesis
    using gcm_encrypt_Inr(1) [OF seal(1) assms(2,3)] gcm_encrypt_Inr(1) [OF wrap(1) assms(2,3)] seal(2) wrap(2)
    by (auto simp: decrypt_under_def import_key_def base64url_round_trip)
qed

lemma decrypt_encrypted:
  assumes "gcm_correct p" and "random_sized p"
    and "encryptSecret p (Web_Crypto_Backend master) plain w = (Inr (c, dekEnc), w')"
    and "cache_true p master w2"
  shows "\<exists>w3. decryptSecret p (Web_Crypto_Backend master) c dekEnc w2 = (Inr plain, w3) \<and>
     db w3 = db w2 \<and> cache_true p master w3"
proof -
  obtain dek where dek: "gcm_decrypt p ''WebCryptoBackend'' master (base64url_to_bytes dekEnc) = Inr dek"
    "decrypt_under p dek c = Inr plain"
    using encryptSecret_Inr [OF assms(3,1,2)] by blast
  then show ?thesis
    using getDek_runs [OF dek(1) assms(4)] by (auto simp: decryptSecret_def bindA_def liftA_run)
qed

text \<open>
  A secret survives envelope encryption: what \<open>encryptSecret\<close> stored is decrypted to the
  same bytes in every later state, whether the data key is still cached or has to be unwrapped
  again, and decrypting leaves the cache true and the database alone.
\<close>

theorem secrets_round_trip:
  assumes "gcm_correct p" and "random_sized p"
    and "encryptSecret p (Web_Crypto_Backend master) plain w = (Inr (c, dekEnc), w')"
    and "cache_true p master w2"
  shows "\<exists>w3. decryptSecret p (Web_Crypto_Backend master) c dekEnc w2 = (Inr plain, w3) \<and>
     db w3 = db w2 \<and> cache_true p master w3"
  using assms by (rule decrypt_encrypted)

theorem secrets_round_trip_witness:
  "\<exists>c dekEnc w. fst (decryptSecret ex_services (Web_Crypto_Backend [1]) c dekEnc w) = Inr [1, 2, 3]"
proof -
  have "cache_true ex_services [1] (ex_wallet (ex_database []) 0)"
    by (simp add: cache_true_def)
  moreover obtain c dekEnc w where
    "encryptSecret ex_services (Web_Crypto_Backend [1]) [1, 2, 3] (ex_wallet (ex_database []) 0) = (Inr (c, dekEnc), w)"
    using encryptSecret_runs by blast
  ultimately show ?thesis
    using secrets_round_trip [of ex_services "[1]" "[1, 2, 3]"] by (metis ex_gcm_correct fst_conv)
qed

section \<open>Creating an account\<close>

lemma consuming_closes:
  "t \<le> t' \<Longrightarrow> \<not> list_ex (open_challenge purpose c ch t')
     (update_where (open_challenge purpose c ch t) (\<lambda>r. r\<lparr>ac_consumed := True\<rparr>) rows)"
  by (induction rows) (auto simp: update_where_def open_challenge_def)

lemma consumed_challenge:
  assumes "consumeChallenge p purpose None ch w = (Inr True, w')"
  shows "\<exists>s t. sql_text p ch = Inr s \<and> list_ex (open_challenge purpose None s t) (auth_challenges (db w)) \<and>
     (\<forall>t' \<ge> t. \<not> list_ex (open_challenge purpose None s t') (auth_challenges (db w')))"
    "holder_accounts (db w') = holder_accounts (db w)" "keyring_blobs (db w') = keyring_blobs (db w)"
proof -
  from assms obtain s t y where s: "sql_text p ch = Inr s"
    and hit: "list_ex (open_challenge purpose None s t) (auth_challenges (db w))"
    and w': "w' = w\<lparr>db := snd (consume_challenges purpose None s t (db w)), outer := y\<rparr>"
    by (auto simp: consumeChallenge_def bindA_Inr liftA_Inr query_Inr consume_challenges_def)
  show "\<exists>s t. sql_text p ch = Inr s \<and> list_ex (open_challenge purpose None s t) (auth_challenges (db w)) \<and>
     (\<forall>t' \<ge> t. \<not> list_ex (open_challenge purpose None s t') (auth_challenges (db w')))"
    using s hit consuming_closes by (intro exI [of _ s] exI [of _ t]) (simp add: w' consume_challenges_def)
  show "holder_accounts (db w') = holder_accounts (db w)" "keyring_blobs (db w') = keyring_blobs (db w)"
    by (simp_all add: w' consume_challenges_def)
qed

lemma inserted_account:
  assumes "insert_account p body keyringId c dekEnc w = (Inr row, w')"
  shows "\<exists>cardHash pubkey. sql_text p (field body ''card_hash'') = Inr cardHash \<and> sql_text p (field body ''master_pubkey'') = Inr pubkey \<and>
     holder_accounts (db w') = holder_accounts (db w) @ [row] \<and> ha_card_hash row = cardHash \<and> ha_master_pubkey row = pubkey \<and>
     ha_keyring_id row = keyringId \<and> ha_service_secret_enc row = c \<and> ha_service_secret_dek_enc row = dekEnc \<and>
     cardHash \<notin> ha_card_hash ` set (holder_accounts (db w)) \<and>
     auth_challenges (db w') = auth_challenges (db w) \<and> keyring_blobs (db w') = keyring_blobs (db w)"
  using assms
  by (auto simp: insert_account_def catchA_eq bindA_Inr liftA_Inr query_Inr uuidY_def outY_run createAccount_def Let_def
      create_input_def bindE_eq_Inr list_ex_iff throwA_run split: if_split_asm exn.splits)

lemma store_blob_Inr:
  assumes "store_blob p keyringId v blob w = (Inr u, w')"
  shows "keyringId \<in> kb_keyring_id ` set (keyring_blobs (db w'))"
    "holder_accounts (db w') = holder_accounts (db w)" "auth_challenges (db w') = auth_challenges (db w)"
  using assms by (auto simp: store_blob_def bindA_Inr liftA_Inr query_Inr insertKeyringBlob_def list_ex_iff split: if_split_asm)

lemma fresh_secret_Inr:
  "fresh_secret p backend w = (Inr (plain, c, dekEnc), w') \<Longrightarrow> \<exists>w1. encryptSecret p backend plain w1 = (Inr (c, dekEnc), w')"
  by (auto simp: fresh_secret_def bindA_Inr retA_Inr)

definition proven :: "('y, 'z) services_scheme \<Rightarrow> js \<Rightarrow> bool" where
  "proven p body \<longleftrightarrow> (\<exists>ch. fromBase64url p (field body ''challenge'') = Inr ch \<and>
     verifyMasterCardSignature p ch (field body ''signature'') (field body ''master_pubkey''))"

lemma account_created:
  assumes run: "handleAccountsCreate p cfg ip body w = (Inr a, w')"
  shows "(\<exists>s t. sql_text p (field body ''challenge'') = Inr s \<and>
       list_ex (open_challenge Account_Creation None s t) (auth_challenges (db w)) \<and>
       (\<forall>t' \<ge> t. \<not> list_ex (open_challenge Account_Creation None s t') (auth_challenges (db w')))) \<and>
     proven p body \<and>
     (\<exists>row backend plain w1 w2. holder_accounts (db w') = holder_accounts (db w) @ [row] \<and>
       sql_text p (field body ''card_hash'') = Inr (ha_card_hash row) \<and>
       ha_card_hash row \<notin> ha_card_hash ` set (holder_accounts (db w)) \<and>
       sql_text p (field body ''master_pubkey'') = Inr (ha_master_pubkey row) \<and>
       keccak256OfBase64Url p (field body ''encrypted_keyring_blob'') = Inr (ha_keyring_id row) \<and>
       ha_keyring_id row \<in> kb_keyring_id ` set (keyring_blobs (db w')) \<and>
       cr_account_id a = ha_id row \<and> cr_keyring_id a = ha_keyring_id row \<and>
       cr_service_secret a = bytes_to_base64url plain \<and> createSecretsService cfg = Inr backend \<and>
       encryptSecret p backend plain w1 = (Inr (ha_service_secret_enc row, ha_service_secret_dek_enc row), w2))"
proof -
  let ?ch = "field body ''challenge''" and ?blob = "field body ''encrypted_keyring_blob''"
    and ?card = "field body ''card_hash''"
  from run obtain u1 w1 w2 u3 w3 w4 k backend plain c dekEnc w5 row w6 u7 w7 u8 w8 token e where
    rate: "account_rate p cfg ip w = (Inr u1, w1)" and
    consume: "consumeChallenge p Account_Creation None ?ch w1 = (Inr True, w2)" and
    verify: "verify_challenge_signature p ?ch (field body ''signature'') (field body ''master_pubkey'') w2 = (Inr u3, w3)" and
    look: "find_account p ?card w3 = (Inr None, w4)" and
    k: "keccak256OfBase64Url p ?blob = Inr k" and backend: "createSecretsService cfg = Inr backend" and
    secret: "fresh_secret p backend w4 = (Inr (plain, c, dekEnc), w5)" and
    row: "insert_account p body k c dekEnc w5 = (Inr row, w6)" and
    blob: "store_blob p k ?card ?blob w6 = (Inr u7, w7)" and
    peers: "bothA (announceOwnCardRegistration p cfg ?card) (replicateKeyringBlob p cfg k ?card ?blob) w7 = (Inr u8, w8)" and
    token: "issueSessionToken p ?card (SESSION_TOKEN_SECRET cfg) w8 = (Inr (token, e), w')" and
    a: "a = \<lparr>cr_service_secret = bytes_to_base64url plain, cr_account_id = ha_id row, cr_keyring_id = k,
             cr_session_token = token, cr_expires_at = iso_of_ms p e\<rparr>"
    by (auto simp: handleAccountsCreate_def Let_def bindA_Inr need_Inr liftA_Inr retA_Inr)
  have keep: "f (db w1) = f (db w)" "f (db w3) = f (db w2)" "f (db w4) = f (db w3)" "f (db w5) = f (db w4)"
      "f (db w8) = f (db w7)" "f (db w') = f (db w8)" if "skips_kv f" "skips_bindings f" for f :: "database \<Rightarrow> 'c"
    using leavesD [OF leaves_account_rate rate] leavesD [OF leaves_steps(8) verify] leavesD [OF leaves_steps(5) look]
      leavesD [OF leaves_secrets(7) secret] leavesD [OF leaves_steps(2) [OF leaves_announce leaves_steps(10)] peers]
      leavesD [OF leaves_steps(7) token] that by metis+
  note accounts = keep [of holder_accounts, simplified] and challenges = keep [of auth_challenges, simplified]
    and blobs = keep [of keyring_blobs, simplified] and stored = store_blob_Inr [OF blob] and new = inserted_account [OF row]
  have "proven p body"
    using verify by (auto simp: verify_challenge_signature_def bindA_Inr liftA_Inr need_Inr proven_def)
  moreover have "\<exists>s t. sql_text p ?ch = Inr s \<and>
       list_ex (open_challenge Account_Creation None s t) (auth_challenges (db w)) \<and>
       (\<forall>t' \<ge> t. \<not> list_ex (open_challenge Account_Creation None s t') (auth_challenges (db w')))"
    using consumed_challenge(1) [OF consume] challenges stored new by simp
  moreover obtain w9 where "encryptSecret p backend plain w9 = (Inr (c, dekEnc), w5)"
    using fresh_secret_Inr [OF secret] by blast
  ultimately show ?thesis
    using new accounts blobs stored consumed_challenge(2) [OF consume] k backend a
    by (intro conjI exI [of _ row] exI [of _ backend] exI [of _ plain] exI [of _ w9] exI [of _ w5]) auto
qed


section \<open>A run\<close>

definition ex_challenged :: database where
  "ex_challenged = (ex_database [])\<lparr>auth_challenges := [\<lparr>ac_purpose = Account_Creation, ac_card_hash = None,
     ac_challenge = ''dw'', ac_expires_at = 300000000, ac_consumed = False\<rparr>]\<rparr>"

definition ex_account_body :: js where
  "ex_account_body = Obj [(''challenge'', Str ''dw''), (''signature'', Str ''AQ''), (''card_hash'', Str ''n''),
     (''master_pubkey'', Str ''AQ''), (''webauthn_credential_id'', Str ''new''), (''webauthn_public_key'', Str ''AQ''),
     (''encrypted_keyring_blob'', Str ''dw'')]"

lemma ex_rest: "rest_of_window n 0 = 1" "window_index n 0 = 0"
proof -
  show "window_index n 0 = 0"
    by (simp add: window_index_def round_double_def)
  then show "rest_of_window n 0 = 1"
    using round_double_of_int [of 1] by (simp add: rest_of_window_def round_double_def [of 0] Let_def)
qed

lemma window_key_text: "CHR 0x00 \<in> set (window_key k i) \<longleftrightarrow> CHR 0x00 \<in> set k"
  using int_str_chars [of "CHR 0x00" i] by (auto simp: window_key_def is_digit_def)

lemma ex_rate:
  assumes "database.kv_store d = []" "1 \<le> limit"  "limit < 1000" "0 < n" "CHR 0x00 \<notin> set k"
  shows "enforceRateLimit ex_services Postgres k limit n (ex_wallet d 0) = (Inr (), ex_wallet (d\<lparr>kv_store :=
     [\<lparr>ks_key = window_key k 0, ks_value = Num (Fin 1), ks_expires_at = Some (n * 2 * 1000 * 1000)\<rparr>]\<rparr>) 0)"
  using assms round_double_of_int [of 1] round_double_of_int [of 0]
  by (simp add: enforceRateLimit_def checkSlidingWindow_def ex_runs kv_getItem_def kv_setItem_def pg_getItem_def pg_setItem_def
      ex_rest select_kv_def upsert_kv_def over_limit_def count_number_def weighted_count_def sql_string_def expiry_def
      window_key_text)

lemma ex_account_rate:
  assumes "database.kv_store d = []"
  shows "\<exists>x. account_rate ex_services ex_wallet_config [] (ex_wallet d 0) = (Inr (), ex_wallet (d\<lparr>kv_store := x\<rparr>) 0)"
proof -
  have "CHR 0x00 \<notin> set (accountCreationRateKey (hashIp ex_services []))"
    by (simp add: accountCreationRateKey_def hashIp_def ex_press_crypto_def ex_crypto_def utf8_encode_def bytes_hex_def)
  from ex_rate [OF assms _ _ _ this] show ?thesis
    unfolding account_rate_def by (intro exI) (simp add: ACCOUNT_RATE_LIMIT_def)
qed

lemma ex_backend: "createSecretsService ex_wallet_config = Inr (Web_Crypto_Backend (replicate 32 0))"
proof -
  have "bytes_to_base64url (replicate 32 0) \<noteq> []"
  proof
    assume "bytes_to_base64url (replicate 32 0) = []"
    then have "base64url_to_bytes [] = replicate 32 0" by (metis base64url_round_trip)
    then show False by (simp add: base64url_to_bytes_def)
  qed
  then show ?thesis
    by (simp add: createSecretsService_def truthy_text_def web_crypto_backend_def base64url_round_trip Let_def)
qed

lemma ex_fresh_secret:
  "\<exists>plain c dekEnc. fresh_secret ex_services (Web_Crypto_Backend m) (ex_wallet d y) = (Inr (plain, c, dekEnc), ex_wallet d y)"
  by (simp add: fresh_secret_def encryptSecret_def gcm_encrypt_def ex_runs)

lemma ex_sign: "json_value v \<Longrightarrow> \<exists>pk sig. wallet_sign ex_services v (privateKeyBytes ex_wallet_config) = Inr (pk, sig)"
  using canonicalize_json [of v] by (auto simp: wallet_sign_def privateKeyBytes_def base64url_round_trip)

lemma ex_peers: "postToAllPeers ex_services ex_wallet_config path v (ex_wallet d y) = (Inr (), ex_wallet d y)"
  by (simp add: postToAllPeers_def ex_runs)

lemma ex_replicate:
  "\<exists>w'. replicateKeyringBlob ex_services ex_wallet_config k (Str c) (Str b) (ex_wallet d y) = (Inr (), ex_wallet d y)"
  using ex_sign [of "Obj [(''keyring_id'', Str k), (''card_hash'', Str c), (''encrypted_blob'', Str b)]"]
  by (auto simp: replicateKeyringBlob_def buildSignedKeyringMessage_def signed_keyring_message_def broadcastKeyring_def
      bindA_def liftA_run ex_peers)

lemma base64_text: "CHR 0x00 \<notin> set (bytes_to_base64url bs)"
  using encoded_shape [of bs] by (auto simp: base64url_chars_def)

lemma ex_announce:
  assumes "list_all (\<lambda>r. rt_nonce r \<noteq> bytes_to_base64url (replicate 32 0) \<and> rt_wallet_service_id r \<noteq> ''0x06'') (routing_table d)"
    and "routing_nonces d = []" "CHR 0x00 \<notin> set c" "0 \<le> y"
  shows "\<exists>d'. announceOwnCardRegistration ex_services ex_wallet_config (Str c) (ex_wallet d y) = (Inr (), ex_wallet d' y)"
proof -
  let ?nonce = "bytes_to_base64url (replicate 32 0)"
  let ?payload = "announcement_payload ''card_registration'' (Str c) ''0x06'' ''here'' (int_str (y div 1000)) ?nonce"
  obtain pk sig where sign: "wallet_sign ex_services ?payload (privateKeyBytes ex_wallet_config) = Inr (pk, sig)"
    using ex_sign [of ?payload] by (auto simp: announcement_payload_def)
  have env: "buildRegistrationAnnouncement ex_services (Str c) (WALLET_SERVICE_ID ex_wallet_config)
      (WALLET_SERVICE_ENDPOINT ex_wallet_config) (privateKeyBytes ex_wallet_config) (ex_wallet d y) =
     (Inr (Obj [(''payload'', ?payload), (''signatures'', Arr [Obj [(''public_key'', Str pk), (''role'', Str ''wallet_service''),
            (''signature'', Str sig)]])]), ex_wallet d y)"
    using sign by (simp add: buildRegistrationAnnouncement_def ex_runs)
  have fields: "field ?payload ''nonce'' = Str ?nonce" "field ?payload ''card_hash'' = Str c" "field ?payload ''endpoint'' = Str ''here''"
    "field ?payload ''wallet_service_id'' = Str ''0x06''" "field ?payload ''type'' = Str ''card_registration''"
    "field ?payload ''timestamp'' = Str (int_str (y div 1000))"
    by (simp_all add: announcement_payload_def field_def lookup_key_def)
  have strings: "sql_string c = Inr c" "sql_string ?nonce = Inr ?nonce" "sql_string ''0x06'' = Inr ''0x06''"
     "sql_string ''here'' = Inr ''here''" "sql_string ''card_registration'' = Inr ''card_registration''"
    using assms(3) base64_text by (simp_all add: sql_string_def)
  have other: "find (\<lambda>r. rt_card_hash r = c) (routing_table d) = Some e \<Longrightarrow> rt_wallet_service_id e \<noteq> ''0x06''" for e
    using assms(1) by (auto simp: list_all_iff dest: find_SomeD)
  have fresh: "\<not> list_ex (\<lambda>r. rt_card_hash r \<noteq> c \<and> rt_nonce r = ?nonce) (routing_table d)"
    using assms(1) by (auto simp: list_all_iff list_ex_iff)
  show ?thesis
    using assms env other fresh
    by (cases "find (\<lambda>r. rt_card_hash r = c) (routing_table d)")
      (auto simp: announceOwnCardRegistration_def bindA_def record_nonce_def liftA_run fields strings ex_query recordNonceIfNew_def
        find_routing_def findRoutingEntry_def store_binding_def routing_row_of_def binding_type_of_def upsertRoutingEntry_def
        broadcastAnnouncement_def ex_peers Let_def field_def [of "Obj kvs" for kvs] lookup_key_def)
qed

lemma ex_created:
  "\<exists>a w'. handleAccountsCreate ex_services ex_wallet_config [] ex_account_body (ex_wallet ex_challenged 0) = (Inr a, w')"
proof -
  obtain x where rate: "account_rate ex_services ex_wallet_config [] (ex_wallet ex_challenged 0) =
      (Inr (), ex_wallet (ex_challenged\<lparr>kv_store := x\<rparr>) 0)"
    using ex_account_rate [of ex_challenged] by (auto simp: ex_challenged_def)
  define w1 where "w1 = ex_challenged\<lparr>kv_store := x\<rparr>"
  obtain x' where consume: "consumeChallenge ex_services Account_Creation None (Str ''dw'') (ex_wallet w1 0) =
      (Inr True, ex_wallet (w1\<lparr>auth_challenges := x'\<rparr>) 0)"
    by (simp add: consumeChallenge_def ex_runs sql_string_def consume_challenges_def w1_def ex_challenged_def open_challenge_def)
  define w2 where "w2 = w1\<lparr>auth_challenges := x'\<rparr>"
  have tables: "holder_accounts w2 = [ex_account]" "routing_table w2 = []" "routing_nonces w2 = []" "keyring_blobs w2 = []"
    by (simp_all add: w2_def w1_def ex_challenged_def)
  have verify: "verify_challenge_signature ex_services (Str ''dw'') (Str ''AQ'') (Str ''AQ'') (ex_wallet w2 0) = (Inr (), ex_wallet w2 0)"
    by (simp add: verify_challenge_signature_def ex_runs verifyMasterCardSignature_def true_or_throw_def)
  have look: "find_account ex_services (Str ''n'') (ex_wallet w2 0) = (Inr None, ex_wallet w2 0)"
    by (simp add: find_account_def ex_runs sql_string_def findAccountByCardHash_def tables)
  obtain k where k: "keccak256OfBase64Url ex_services (Str ''dw'') = Inr k"
    by (simp add: keccak256OfBase64Url_def)
  obtain plain c dekEnc where secret: "fresh_secret ex_services (Web_Crypto_Backend (replicate 32 0)) (ex_wallet w2 0) =
      (Inr (plain, c, dekEnc), ex_wallet w2 0)"
    using ex_fresh_secret by blast
  have fresh: "''a'' \<noteq> int_str 0"
  proof
    assume "''a'' = int_str 0"
    then have "CHR ''a'' \<in> set (int_str 0)" by (metis list.set_intros(1))
    then show False using int_str_chars [of "CHR ''a''" 0] by (simp add: is_digit_def)
  qed
  obtain row where row: "insert_account ex_services ex_account_body k c dekEnc (ex_wallet w2 0) =
      (Inr row, ex_wallet (w2\<lparr>holder_accounts := [ex_account, row]\<rparr>) 1)"
    using fresh by (simp add: insert_account_def ex_runs create_input_def ex_account_body_def sql_string_def createAccount_def tables
        ex_account_def list_ex_iff)
  define w3 where "w3 = w2\<lparr>holder_accounts := [ex_account, row]\<rparr>"
  obtain x'' where blob: "store_blob ex_services k (Str ''n'') (Str ''dw'') (ex_wallet w3 1) = (Inr (), ex_wallet (w3\<lparr>keyring_blobs := x''\<rparr>) 1)"
    by (simp add: store_blob_def ex_runs sql_string_def insertKeyringBlob_def w3_def tables)
  define w4 where "w4 = w3\<lparr>keyring_blobs := x''\<rparr>"
  obtain w5 where announce: "announceOwnCardRegistration ex_services ex_wallet_config (Str ''n'') (ex_wallet w4 1) = (Inr (), ex_wallet w5 1)"
    using ex_announce [of w4 "''n''" 1] by (auto simp: w4_def w3_def tables)
  have peers: "bothA (announceOwnCardRegistration ex_services ex_wallet_config (Str ''n''))
      (replicateKeyringBlob ex_services ex_wallet_config k (Str ''n'') (Str ''dw'')) (ex_wallet w4 1) = (Inr (), ex_wallet w5 1)"
    using announce ex_replicate [of k "''n''" "''dw''" w5 1] by (simp add: bothA_def ex_runs)
  obtain r where token: "issueSessionToken ex_services (Str ''n'') ''secret'' (ex_wallet w5 1) = (Inr r, ex_wallet w5 1)"
    by (simp add: issueSessionToken_def ex_runs)
  have fields: "field ex_account_body ''challenge'' = Str ''dw''" "field ex_account_body ''signature'' = Str ''AQ''"
    "field ex_account_body ''card_hash'' = Str ''n''" "field ex_account_body ''master_pubkey'' = Str ''AQ''"
    "field ex_account_body ''encrypted_keyring_blob'' = Str ''dw''" "field ex_account_body ''webauthn_credential_id'' = Str ''new''"
    "field ex_account_body ''webauthn_public_key'' = Str ''AQ''"
    by (simp_all add: ex_account_body_def field_def lookup_key_def)
  show ?thesis
    using rate [folded w1_def] consume [folded w2_def] verify look k ex_backend secret row [folded w3_def] blob [folded w4_def]
      peers token
    by (simp add: handleAccountsCreate_def Let_def fields bindA_step need_def guardA_run liftA_run retA_run split: prod.split)
qed


end
