(* ===== verification/Wallet_Session_Properties.thy ===== *)
theory Wallet_Session_Properties
  imports Wallet_Account_Properties Press_Limits
begin

text \<open>
  The properties of session tokens and of the rate limiter of the wallet service: which tokens
  are accepted, for how long, that a revoked one stays refused, and how many requests the
  sliding window lets through.
\<close>

section \<open>Tokens\<close>

lemma split_dot_plain: "CHR ''.'' \<notin> set s \<Longrightarrow> split_dot s = [s]"
  by (induction s) auto

lemma split_dot_two: "CHR ''.'' \<notin> set s \<Longrightarrow> CHR ''.'' \<notin> set t \<Longrightarrow> split_dot (s @ CHR ''.'' # t) = [s, t]"
  by (induction s) (auto simp: split_dot_plain)

lemma split_dot_nonempty [simp]: "split_dot s \<noteq> []"
  by (cases s) (auto split: list.splits)

lemma split_dot_parts: "split_dot s = [x, y] \<Longrightarrow> s = x @ CHR ''.'' # y"
proof -
  have one: "split_dot s = [x] \<Longrightarrow> s = x" for s x
    by (induction s arbitrary: x) (auto split: if_splits list.splits)
  show "split_dot s = [x, y] \<Longrightarrow> s = x @ CHR ''.'' # y"
    by (induction s arbitrary: x) (auto dest: one split: if_splits list.splits)
qed

lemma base64_no_dot: "CHR ''.'' \<notin> set (bytes_to_base64url bs)"
  using encoded_shape [of bs] by (auto simp: base64url_chars_def)

lemma verify_session_token:
  assumes "json_parse p (utf8_encode (json_stringify (session_payload (Str c) t))) = Inr (session_payload (Str c) t)"
  shows "verifySessionToken p b (session_token p secret (session_payload (Str c) t)) secret =
     bindA (nowY p) (\<lambda>now. if t + 15 * 60 * 1000 < now then retA (Inl ''expired'')
       else check_revoked p b (session_token p secret (session_payload (Str c) t)) c (session_payload (Str c) t))"
proof -
  let ?payload = "session_payload (Str c) t"
  have "split_dot (session_token p secret ?payload) = [encode_payload ?payload, sign_payload p (encode_payload ?payload) secret]"
    using base64_no_dot by (simp add: session_token_def Let_def split_dot_two encode_payload_def sign_payload_def)
  moreover have "js_prop ?payload ''card_hash'' = Inr (Str c)" "field ?payload ''expires_at'' = Num (Fin (t + 15 * 60 * 1000))"
    by (simp_all add: session_payload_def field_def lookup_key_def SESSION_TTL_SECONDS_def)
  moreover have "json_parse p (base64url_to_bytes (encode_payload ?payload)) = Inr ?payload"
    using assms by (simp add: encode_payload_def base64url_round_trip)
  ultimately show ?thesis
    by (simp add: verifySessionToken_def bindA_def liftA_def)
qed

text \<open>
  An issued session token is accepted until it expires or is revoked:
  provided \<open>JSON.parse\<close> reads back the payload that \<open>JSON.stringify\<close> wrote, verifying the token
  is exactly the expiry check on the clock followed by the look-up of revocations, and what it
  then yields is the payload it was issued with.
\<close>

theorem issued_token_is_accepted_until_expiry:
  assumes "json_parse p (utf8_encode (json_stringify (session_payload (Str c) t))) = Inr (session_payload (Str c) t)"
  shows "verifySessionToken p b (session_token p secret (session_payload (Str c) t)) secret =
     bindA (nowY p) (\<lambda>now. if t + 15 * 60 * 1000 < now then retA (Inl ''expired'')
       else check_revoked p b (session_token p secret (session_payload (Str c) t)) c (session_payload (Str c) t))"
  using assms by (rule verify_session_token)

theorem issued_token_is_accepted_until_expiry_witness:
  "fst (verifySessionToken ex_services Postgres (session_token ex_services ''secret'' (session_payload (Str ''n'') 0)) ''secret''
     (ex_wallet (ex_database []) 900001000)) = Inr (Inl ''expired'')"
  using issued_token_is_accepted_until_expiry [of ex_services "''n''" 0 Postgres "''secret''"]
  by (simp add: ex_runs)

text \<open>
  An accepted session was issued: if a request gets past the session check, its header
  carries a token whose second part is the HMAC of its first part under the service's secret,
  whose first part parses to the payload the handler is given, which names a card and has not
  expired at the time of the check, and no revocation of the token or of the card's sessions
  was found.
\<close>

theorem accepted_session_is_signed:
  assumes "requireSessionTokenRaw p cfg header w = (Inr (token, payload), w')"
  shows "header = Some (''Bearer '' @ token) \<and>
     (\<exists>payloadB64 c e w1. token = payloadB64 @ ''.'' @ sign_payload p payloadB64 (SESSION_TOKEN_SECRET cfg) \<and>
       json_parse p (base64url_to_bytes payloadB64) = Inr payload \<and> js_prop payload ''card_hash'' = Inr (Str c) \<and>
       field payload ''expires_at'' = Num e \<and> \<not> num_lt e (fst (date_now p (outer w))) \<and>
       check_revoked p (KV_BACKEND cfg) token c payload w1 = (Inr (Inr payload), w'))"
proof -
  from assms obtain h where h: "header = Some h" "bearer header = Some token" and
    verify: "verifySessionToken p (KV_BACKEND cfg) token (SESSION_TOKEN_SECRET cfg) w = (Inr (Inr payload), w')"
    by (auto simp: requireSessionTokenRaw_def bindA_Inr throwA_run retA_run bearer_def split: option.splits sum.splits if_split_asm)
  have "header = Some (''Bearer '' @ token)"
    using h by (auto simp: bearer_def split: if_splits) (metis append_take_drop_id append_Cons append_Nil)
  moreover from verify obtain x y where parts: "split_dot token = [x, y]" "y = sign_payload p x (SESSION_TOKEN_SECRET cfg)"
    by (auto simp: verifySessionToken_def retA_run split: list.splits if_splits)
  moreover obtain pl ch where pl: "json_parse p (base64url_to_bytes x) = Inr pl" "js_prop pl ''card_hash'' = Inr ch"
    and run: "(case (ch, field pl ''expires_at'') of
        (Str c, Num e) \<Rightarrow> bindA (nowY p) (\<lambda>now. if num_lt e now then retA (Inl ''expired'')
           else check_revoked p (KV_BACKEND cfg) token c pl)
      | _ \<Rightarrow> retA (Inl ''malformed'')) w = (Inr (Inr payload), w')"
    using verify parts by (auto simp: verifySessionToken_def retA_run bindA_Inr liftA_Inr split: sum.splits)
  moreover obtain c e where "ch = Str c" "field pl ''expires_at'' = Num e"
    and "bindA (nowY p) (\<lambda>now. if num_lt e now then retA (Inl ''expired'')
      else check_revoked p (KV_BACKEND cfg) token c pl) w = (Inr (Inr payload), w')"
    using run by (cases ch; cases "field pl ''expires_at''") (auto simp: retA_run)
  moreover from this(3) obtain w1 where "\<not> num_lt e (fst (date_now p (outer w)))"
    and checked: "check_revoked p (KV_BACKEND cfg) token c pl w1 = (Inr (Inr payload), w')"
    by (auto simp: bindA_Inr nowY_Inr retA_Inr split: if_splits)
  moreover have "pl = payload"
    using checked by (auto simp: check_revoked_def bindA_Inr retA_Inr split: if_splits)
  ultimately show ?thesis using split_dot_parts [of token x y] by auto
qed

lemma hex_text: "CHR 0x00 \<notin> set (bytes_hex bs)"
proof
  assume "CHR 0x00 \<in> set (bytes_hex bs)"
  moreover have "n < 16 \<Longrightarrow> hex_char n \<noteq> CHR 0x00" for n
    using of_hex_char [of n] by (auto split: if_splits)
  ultimately show False
    using bytes_hex_chars [of "\<lambda>c. c \<noteq> CHR 0x00"] by blast
qed

lemma ex_pg_getItem:
  assumes "database.kv_store d = []" "0 \<le> y" "CHR 0x00 \<notin> set k"
  shows "kv_getItem ex_services Postgres k (ex_wallet d y) = (Inr Null, ex_wallet d y)"
  using assms by (simp add: kv_getItem_def pg_getItem_def ex_runs sql_string_def select_kv_def)

lemma ex_unrevoked:
  assumes "database.kv_store d = []" "0 \<le> y" "CHR 0x00 \<notin> set c"
  shows "check_revoked ex_services Postgres token c payload (ex_wallet d y) = (Inr (Inr payload), ex_wallet d y)"
  using assms hex_text by (simp add: check_revoked_def ex_runs ex_pg_getItem sessionRevokedKey_def sessionTokenId_def sessionMinIssuedAtKey_def)

definition ex_token :: string where
  "ex_token = session_token ex_services ''secret'' (session_payload (Str ''n'') 0)"

lemma ex_session:
  assumes "database.kv_store d = []" "0 \<le> y" "y \<le> 900000000"
  shows "requireSessionTokenRaw ex_services ex_wallet_config (Some (''Bearer '' @ ex_token)) (ex_wallet d y) =
     (Inr (ex_token, session_payload (Str ''n'') 0), ex_wallet d y)"
proof -
  have "bearer (Some (''Bearer '' @ ex_token)) = Some ex_token"
    by (simp add: bearer_def)
  moreover have "y div 1000 \<le> 900000"
    using assms by simp
  then have "verifySessionToken ex_services Postgres ex_token ''secret'' (ex_wallet d y) =
      (Inr (Inr (session_payload (Str ''n'') 0)), ex_wallet d y)"
    using verify_session_token [of ex_services "''n''" 0 Postgres "''secret''"] ex_unrevoked [OF assms(1,2), of "''n''"]
    unfolding ex_token_def by (simp add: bindA_def nowY_def outY_run)
  ultimately show ?thesis
    by (simp add: requireSessionTokenRaw_def bindA_def retA_run)
qed

theorem accepted_session_is_signed_witness:
  "\<exists>payloadB64. ex_token = payloadB64 @ ''.'' @ sign_payload ex_services payloadB64 ''secret''"
  using accepted_session_is_signed [OF ex_session [of "ex_database []" 0]] by auto

section \<open>Revocation\<close>

text \<open>
  A request during which the clock shows only times with \<open>Q\<close>: its outer states stay in a set
  in which every reading of the clock is such a time.
\<close>

definition during :: "('y, 'z) services_scheme \<Rightarrow> (int \<Rightarrow> bool) \<Rightarrow> 'y set \<Rightarrow> bool" where
  "during p Q Y \<longleftrightarrow> (\<forall>y \<in> Y. Q (fst (date_now p y)) \<and> snd (date_now p y) \<in> Y \<and> snd (db_begin p y) \<in> Y)"

lemma find_upserted:
  "find (\<lambda>r. ks_key r = k) (database.kv_store (snd (upsert_kv k v e t d))) = Some \<lparr>ks_key = k, ks_value = v, ks_expires_at = e\<rparr>"
proof (cases "list_ex (\<lambda>r. ks_key r = k) (database.kv_store d)")
  case True
  have "list_ex (\<lambda>r. ks_key r = k) rows \<Longrightarrow> find (\<lambda>r. ks_key r = k)
      (update_where (\<lambda>r. ks_key r = k) (\<lambda>r. \<lparr>ks_key = k, ks_value = v, ks_expires_at = e\<rparr>) rows) =
    Some \<lparr>ks_key = k, ks_value = v, ks_expires_at = e\<rparr>" for rows
    by (induction rows) (auto simp: update_where_def)
  with True show ?thesis by (simp add: upsert_kv_def Let_def)
next
  case False
  have "\<not> list_ex (\<lambda>r. ks_key r = k) rows \<Longrightarrow> find (\<lambda>r. ks_key r = k) (rows @ [\<lparr>ks_key = k, ks_value = v, ks_expires_at = e\<rparr>]) =
    Some \<lparr>ks_key = k, ks_value = v, ks_expires_at = e\<rparr>" for rows
    by (induction rows) auto
  with False show ?thesis by (simp add: upsert_kv_def Let_def)
qed

lemma find_other_upserted:
  assumes "k' \<noteq> k"
  shows "find (\<lambda>r. ks_key r = k') (database.kv_store (snd (upsert_kv k v e t d))) = find (\<lambda>r. ks_key r = k') (database.kv_store d)"
proof -
  have "find (\<lambda>r. ks_key r = k') (update_where (\<lambda>r. ks_key r = k) (\<lambda>r. \<lparr>ks_key = k, ks_value = v, ks_expires_at = e\<rparr>) rows) =
      find (\<lambda>r. ks_key r = k') rows"
    "find (\<lambda>r. ks_key r = k') (rows @ [\<lparr>ks_key = k, ks_value = v, ks_expires_at = e\<rparr>]) = find (\<lambda>r. ks_key r = k') rows" for rows
    using assms by (induction rows) (auto simp: update_where_def)
  then show ?thesis by (simp add: upsert_kv_def Let_def)
qed

lemma pg_setItem_Inr:
  assumes "kv_setItem p Postgres k v (Some s) w = (Inr u, w')" "s \<noteq> 0"
  shows "\<exists>t y y'. date_now p (outer w) = (fst (date_now p (outer w)), y) \<and> db_begin p y = (Inr t, y') \<and>
     w' = w\<lparr>db := snd (upsert_kv k (sql_jsonb p v) (Some ((fst (date_now p (outer w)) + s * 1000) * 1000)) t (db w)), outer := y'\<rparr>"
  using assms
  by (auto simp: kv_setItem_def pg_setItem_def bindA_Inr nowY_Inr retA_Inr liftA_Inr query_Inr expiry_def sql_string_def
      split: if_split_asm)

lemma revoked_row:
  assumes "revokeSessionToken p Postgres token w = (Inr u, w')"
  shows "find (\<lambda>r. ks_key r = sessionRevokedKey (sessionTokenId p token)) (database.kv_store (db w')) =
     Some \<lparr>ks_key = sessionRevokedKey (sessionTokenId p token), ks_value = Bool True,
           ks_expires_at = Some ((fst (date_now p (outer w)) + 15 * 60 * 1000) * 1000)\<rparr>"
  using pg_setItem_Inr [OF assms [unfolded revokeSessionToken_def]] by (auto simp: SESSION_TTL_SECONDS_def find_upserted)

lemma during_query:
  assumes "query p q w = (r, w')" "during p Q Y" "outer w \<in> Y" shows "outer w' \<in> Y"
  using assms by (auto simp: query_def during_def split: prod.splits sum.splits)

lemma during_now:
  assumes "nowY p w = (Inr n, w')" "during p Q Y" "outer w \<in> Y" shows "Q n" "outer w' \<in> Y" "db w' = db w"
  using assms by (auto simp: nowY_def outY_run during_def split: prod.splits)

lemma live_item:
  assumes run: "kv_getItem p Postgres k w = (Inr x, w')" and during: "during p Q Y" "outer w \<in> Y"
    and row: "find (\<lambda>r. ks_key r = k) (database.kv_store (db w)) = Some \<lparr>ks_key = k, ks_value = v, ks_expires_at = Some e\<rparr>"
    and live: "\<And>n. Q n \<Longrightarrow> n \<le> get_time e"
  shows "x = v \<and> db w' = db w \<and> outer w' \<in> Y"
proof -
  from run row obtain w1 where select: "query p (select_kv k) w = (Inr (Some \<lparr>ks_key = k, ks_value = v, ks_expires_at = Some e\<rparr>), w1)"
    and w1: "db w1 = db w" and rest: "bindA (nowY p) (\<lambda>now. if get_time e < now
        then bindA (query p (delete_kv k)) (\<lambda>_. retA Null) else retA v) w1 = (Inr x, w')"
    by (auto simp: kv_getItem_def pg_getItem_def bindA_Inr liftA_Inr query_Inr select_kv_def sql_string_def split: if_split_asm)
  from rest obtain t w2 where "nowY p w1 = (Inr t, w2)"
    and fin: "(if get_time e < t then bindA (query p (delete_kv k)) (\<lambda>_. retA Null) else retA v) w2 = (Inr x, w')"
    by (auto simp: bindA_Inr)
  from during_now [OF this(1) during(1) during_query [OF select during]] w1 fin live [of t] show ?thesis
    by (auto simp: retA_run)
qed

text \<open>
  A revoked token stays refused: from its revocation on, as long as the record of the
  revocation is kept, no check of the token accepts it, at whatever time; the record expires no
  earlier than the token itself. (The time does not change during the check.)
\<close>

theorem revoked_token_stays_refused:
  assumes "json_parse p (utf8_encode (json_stringify (session_payload (Str c) t))) = Inr (session_payload (Str c) t)"
    and "token = session_token p secret (session_payload (Str c) t)"
    and "revokeSessionToken p Postgres token w = (Inr u, w1)" and "t \<le> fst (date_now p (outer w))"
    and "find (\<lambda>r. ks_key r = sessionRevokedKey (sessionTokenId p token)) (database.kv_store (db w2)) =
         find (\<lambda>r. ks_key r = sessionRevokedKey (sessionTokenId p token)) (database.kv_store (db w1))"
    and "during p (\<lambda>n. n = now) Y" and "outer w2 \<in> Y"
    and "verifySessionToken p Postgres token secret w2 = (Inr v, w3)"
  shows "v = Inl ''expired'' \<or> v = Inl ''revoked''"
proof -
  from assms(8) verify_session_token [OF assms(1), of Postgres secret] assms(2) obtain n w4 where now: "nowY p w2 = (Inr n, w4)"
    and rest: "(if t + 15 * 60 * 1000 < n then retA (Inl ''expired'')
       else check_revoked p Postgres token c (session_payload (Str c) t)) w4 = (Inr v, w3)"
    by (auto simp: bindA_Inr)
  note n = during_now [OF now assms(6,7)]
  show ?thesis
  proof (cases "t + 15 * 60 * 1000 < now")
    case True
    with rest n show ?thesis by (simp add: retA_run)
  next
    case False
    with rest n obtain x w5 where get: "kv_getItem p Postgres (sessionRevokedKey (sessionTokenId p token)) w4 = (Inr x, w5)"
      and fin: "(if truthy x then retA (Inl ''revoked'')
       else bindA (kv_getItem p Postgres (sessionMinIssuedAtKey c)) (\<lambda>cutoff.
         if cutoff \<noteq> Null \<and> js_less p (field (session_payload (Str c) t) ''issued_at'') cutoff then retA (Inl ''revoked'')
         else retA (Inr (session_payload (Str c) t)))) w5 = (Inr v, w3)"
      by (auto simp: check_revoked_def bindA_Inr)
    have "x = Bool True"
      using live_item [OF get assms(6) n(2)] revoked_row [OF assms(3)] assms(4,5) n(3) False by (simp add: get_time_def)
    with fin show ?thesis by (simp add: retA_run)
  qed
qed

theorem revoked_token_stays_refused_witness:
  "\<exists>v w. verifySessionToken ex_services Postgres ex_token ''secret''
     (snd (revokeSessionToken ex_services Postgres ex_token (ex_wallet (ex_database []) 5000))) = (Inr v, w) \<and>
     (v = Inl ''expired'' \<or> v = Inl ''revoked'')"
proof -
  have key: "CHR 0x00 \<notin> set (sessionRevokedKey (sessionTokenId ex_services ex_token))"
    using hex_text by (simp add: sessionRevokedKey_def sessionTokenId_def)
  obtain d where revoke: "revokeSessionToken ex_services Postgres ex_token (ex_wallet (ex_database []) 5000) = (Inr (), ex_wallet d 5000)"
    using key by (simp add: revokeSessionToken_def kv_setItem_def pg_setItem_def ex_runs sql_string_def upsert_kv_def
        SESSION_TTL_SECONDS_def)
  note row = revoked_row [OF revoke]
  obtain v where verify: "verifySessionToken ex_services Postgres ex_token ''secret'' (ex_wallet d 5000) = (Inr v, ex_wallet d 5000)"
    using verify_session_token [of ex_services "''n''" 0 Postgres "''secret''"] row key
    by (simp add: ex_token_def ex_runs check_revoked_def kv_getItem_def pg_getItem_def select_kv_def sql_string_def get_time_def)
  have steady: "during ex_services (\<lambda>n. n = 5) {5000}"
    by (simp add: during_def)
  have "v = Inl ''expired'' \<or> v = Inl ''revoked''"
    by (rule revoked_token_stays_refused [OF _ ex_token_def revoke _ refl steady _ verify]) simp_all
  with revoke verify show ?thesis by auto
qed

section \<open>The secret that is returned\<close>

definition same_cache :: "'y wallet \<Rightarrow> 'y wallet \<Rightarrow> bool" where
  "same_cache w w' \<longleftrightarrow> dek_cache w' = dek_cache w"

interpretation caches: step_order same_cache
  by unfold_locales (auto simp: same_cache_def)

lemmas cache_intros = caches.obeys_basic caches.obeys_bindA obeys_cases obeys_case_js obeys_case_list obeys_case_backend
  obeys_case_number

lemma same_cache_basic: "obeys same_cache (nowY p)" "obeys same_cache (query p q)" "obeys same_cache (nitro_set k v)"
  by (auto simp: obeys_def same_cache_def nowY_def outY_run query_def nitro_set_def split: prod.splits sum.splits)

lemma same_cache_kv: "obeys same_cache (kv_getItem p b k)" "obeys same_cache (kv_setItem p b k v ttl)"
  unfolding kv_getItem_def kv_setItem_def pg_getItem_def nitro_getItem_def pg_setItem_def nitro_setItem_def
  by (intro cache_intros same_cache_basic)+

lemma same_cache_steps:
  "obeys same_cache (requireSessionTokenRaw p cfg header)" "obeys same_cache (enforceRateLimit p b k limit n)"
  "obeys same_cache (existing_account p v)"
proof -
  have "obeys same_cache (verifySessionToken p b token secret)" for b token secret
    unfolding verifySessionToken_def check_revoked_def by (intro cache_intros same_cache_basic same_cache_kv)
  then show "obeys same_cache (requireSessionTokenRaw p cfg header)"
    unfolding requireSessionTokenRaw_def by (intro cache_intros)
  show "obeys same_cache (enforceRateLimit p b k limit n)"
    unfolding enforceRateLimit_def checkSlidingWindow_def Let_def by (intro cache_intros same_cache_basic same_cache_kv)
  show "obeys same_cache (existing_account p v)"
    unfolding existing_account_def find_account_def refuse_def by (intro cache_intros same_cache_basic)
qed

lemma leaves_session: "skips_kv f \<Longrightarrow> leaves f (requireSessionTokenRaw p cfg header)"
  unfolding requireSessionTokenRaw_def verifySessionToken_def check_revoked_def by (intro leaves_intros)

lemma service_secret_Inr:
  assumes "service_secret_route p cfg c header w = (Inr s, w')" "createSecretsService cfg = Inr backend"
  shows "\<exists>row plain w1. find (\<lambda>r. ha_card_hash r = c) (holder_accounts (db w)) = Some row \<and> dek_cache w1 = dek_cache w \<and>
     decryptSecret p backend (ha_service_secret_enc row) (ha_service_secret_dek_enc row) w1 = (Inr plain, w') \<and>
     s = bytes_to_base64url plain"
proof -
  from assms obtain token payload w1 u w2 row w3 plain where
    session: "requireSessionTokenRaw p cfg header w = (Inr (token, payload), w1)" and
    rate: "enforceRateLimit p (KV_BACKEND cfg) (serviceSecretCallsKey (sessionTokenId p token)) CALLS_PER_SESSION SESSION_TTL_SECONDS w1 =
      (Inr u, w2)" and
    account: "existing_account p (Str c) w2 = (Inr row, w3)" and
    secret: "decryptSecret p backend (ha_service_secret_enc row) (ha_service_secret_dek_enc row) w3 = (Inr plain, w')"
      "s = bytes_to_base64url plain"
    by (auto simp: service_secret_route_def bindA_Inr need_Inr liftA_Inr retA_Inr)
  have "holder_accounts (db w2) = holder_accounts (db w)"
    using leavesD [OF leaves_session session] leavesD [OF leaves_kv(4) rate] by (metis skips_simps(1))
  with account have "find (\<lambda>r. ha_card_hash r = c) (holder_accounts (db w)) = Some row"
    by (auto simp: existing_account_def find_account_def bindA_Inr liftA_Inr query_Inr findAccountByCardHash_def found_Inr
        retA_Inr sql_string_def split: if_splits)
  moreover have "dek_cache w3 = dek_cache w"
    using obeysD [OF same_cache_steps(1) session] obeysD [OF same_cache_steps(2) rate] obeysD [OF same_cache_steps(3) account]
    by (simp add: same_cache_def)
  ultimately show ?thesis using secret by blast
qed

lemma created_secret:
  assumes "handleAccountsCreate p cfg ip body w = (Inr a, w')" "createSecretsService cfg = Inr backend"
  shows "\<exists>row plain w1 w2. holder_accounts (db w') = holder_accounts (db w) @ [row] \<and> cr_service_secret a = bytes_to_base64url plain \<and>
     encryptSecret p backend plain w1 = (Inr (ha_service_secret_enc row, ha_service_secret_dek_enc row), w2)"
  using account_created [OF assms(1)] assms(2) by auto

text \<open>
  The secret a holder gets is the one the account was created with: as long as the account's
  row still holds the encryption made at its creation, whenever the service-secret route
  answers for that card it answers the secret that the creation returned.
\<close>

theorem created_secret_is_returned:
  assumes "gcm_correct p" and "random_sized p" and "createSecretsService cfg = Inr (Web_Crypto_Backend master)"
    and "handleAccountsCreate p cfg ip body w = (Inr a, w')"
    and "find (\<lambda>r. ha_card_hash r = c) (holder_accounts (db w2)) = Some row"
    and "ha_service_secret_enc row = ha_service_secret_enc (last (holder_accounts (db w')))"
    and "ha_service_secret_dek_enc row = ha_service_secret_dek_enc (last (holder_accounts (db w')))"
    and "cache_true p master w2" and "service_secret_route p cfg c header w2 = (Inr s, w3)"
  shows "s = cr_service_secret a"
proof -
  obtain plain v v' where secret: "cr_service_secret a = bytes_to_base64url plain"
    "encryptSecret p (Web_Crypto_Backend master) plain v = (Inr (ha_service_secret_enc row, ha_service_secret_dek_enc row), v')"
    using created_secret [OF assms(4,3)] assms(6,7) by auto
  obtain plain' v1 where route: "dek_cache v1 = dek_cache w2" "s = bytes_to_base64url plain'"
    "decryptSecret p (Web_Crypto_Backend master) (ha_service_secret_enc row) (ha_service_secret_dek_enc row) v1 = (Inr plain', w3)"
    using service_secret_Inr [OF assms(9,3)] assms(5) by auto
  have "cache_true p master v1"
    using assms(8) route(1) by (simp add: cache_true_def)
  from decrypt_encrypted [OF assms(1,2) secret(2) this] route secret(1) show ?thesis by auto
qed

theorem created_secret_is_returned_witness:
  "\<exists>a w s w2 w3. handleAccountsCreate ex_services ex_wallet_config [] ex_account_body (ex_wallet ex_challenged 0) = (Inr a, w) \<and>
     service_secret_route ex_services ex_wallet_config ''n'' (Some (''Bearer '' @ ex_token)) w2 = (Inr s, w3) \<and>
     s = cr_service_secret a"
proof -
  obtain a w where run: "handleAccountsCreate ex_services ex_wallet_config [] ex_account_body (ex_wallet ex_challenged 0) = (Inr a, w)"
    using ex_created by blast
  have card_text: "sql_text ex_services (field ex_account_body ''card_hash'') = Inr ''n''"
    by (simp add: ex_account_body_def field_def lookup_key_def sql_string_def)
  obtain row plain v v' where accounts: "holder_accounts (db w) = [ex_account, row]" "ha_card_hash row = ''n''"
    and secret: "encryptSecret ex_services (Web_Crypto_Backend (replicate 32 0)) plain v =
      (Inr (ha_service_secret_enc row, ha_service_secret_dek_enc row), v')"
    using account_created [OF run] card_text ex_backend by (auto simp: ex_challenged_def)
  define d where "d = (db w)\<lparr>kv_store := []\<rparr>"
  have "CHR 0x00 \<notin> set (serviceSecretCallsKey (sessionTokenId ex_services ex_token))"
    using hex_text by (simp add: serviceSecretCallsKey_def sessionTokenId_def)
  from ex_rate [OF _ _ _ _ this, of d 10 "15 * 60"] obtain x where rate: "enforceRateLimit ex_services Postgres
      (serviceSecretCallsKey (sessionTokenId ex_services ex_token)) 10 (15 * 60) (ex_wallet d 0) = (Inr (), ex_wallet (d\<lparr>kv_store := x\<rparr>) 0)"
    by (auto simp: d_def)
  have account: "existing_account ex_services (Str ''n'') (ex_wallet (d\<lparr>kv_store := x\<rparr>) 0) = (Inr row, ex_wallet (d\<lparr>kv_store := x\<rparr>) 0)"
    using accounts by (simp add: existing_account_def find_account_def ex_runs sql_string_def findAccountByCardHash_def d_def)
  have "cache_true ex_services (replicate 32 0) (ex_wallet (d\<lparr>kv_store := x\<rparr>) 0)"
    by (simp add: cache_true_def)
  from decrypt_encrypted [OF _ _ secret this] obtain w3 where
    decrypt: "decryptSecret ex_services (Web_Crypto_Backend (replicate 32 0)) (ha_service_secret_enc row) (ha_service_secret_dek_enc row)
      (ex_wallet (d\<lparr>kv_store := x\<rparr>) 0) = (Inr plain, w3)"
    by auto
  have session: "requireSessionTokenRaw ex_services ex_wallet_config (Some (''Bearer '' @ ex_token)) (ex_wallet d 0) =
      (Inr (ex_token, session_payload (Str ''n'') 0), ex_wallet d 0)"
    by (rule ex_session) (simp_all add: d_def)
  have payload: "field (session_payload (Str ''n'') 0) ''card_hash'' = Str ''n''"
    by (simp add: session_payload_def field_def lookup_key_def)
  have route: "service_secret_route ex_services ex_wallet_config ''n'' (Some (''Bearer '' @ ex_token)) (ex_wallet d 0) =
      (Inr (bytes_to_base64url plain), w3)"
    by (simp only: service_secret_route_def need_def guardA_def payload session rate account ex_backend decrypt bindA_step
        CALLS_PER_SESSION_def SESSION_TTL_SECONDS_def ex_wallet_config_sel prod.case liftA_run retA_run if_True simp_thms
        bindA_retA list.simps bindA_def sum.case)
  have "bytes_to_base64url plain = cr_service_secret a"
    by (rule created_secret_is_returned [OF _ _ ex_backend run _ _ _ _ route, of row])
       (simp_all add: d_def accounts cache_true_def)
  with run route show ?thesis by blast
qed

end
