(* ===== verification/Wallet_Limit_Properties.thy ===== *)
theory Wallet_Limit_Properties
  imports Wallet_Session_Properties
begin

text \<open>
  The bound of the wallet service's sliding window: in one window, no more requests are let
  through than the limit says, in spite of the rounding of the fractions.
\<close>

section \<open>Times of a window\<close>

definition window_sane :: "int \<Rightarrow> int \<Rightarrow> bool" where
  "window_sane n i \<longleftrightarrow> 0 < n \<and> \<bar>(i + 1) * n\<bar> \<le> 2 ^ 53 \<and> \<bar>(i - 1) * n\<bar> \<le> 2 ^ 53 \<and> \<bar>i + 1\<bar> \<le> 2 ^ 53 \<and> \<bar>i - 1\<bar> \<le> 2 ^ 53"

lemma window_times:
  assumes "window_index n now = i" "window_sane n i"
  shows "(i - 1) * n * 1000 < now" "now < (i + 1) * n * 1000"
proof -
  let ?x = "round_double (of_int now / 1000)" and ?q = "round_double (round_double (of_int now / 1000) / of_int n)"
  have n: "(0 :: rat) < of_int n" using assms(2) by (simp add: window_sane_def)
  have i: "of_int i \<le> ?q" "?q < of_int i + 1"
    using assms(1) by (simp_all add: window_index_def floor_eq_iff)
  show "now < (i + 1) * n * 1000"
  proof (rule ccontr)
    assume "\<not> now < (i + 1) * n * 1000"
    then have "of_int ((i + 1) * n * 1000) \<le> (of_int now :: rat)" by (simp only: of_int_le_iff)
    then have "of_int ((i + 1) * n) \<le> (of_int now / 1000 :: rat)" by simp
    then have "of_int ((i + 1) * n) \<le> ?x"
      using assms(2) by (intro round_double_int_le) (simp_all add: window_sane_def)
    then have "of_int (i + 1) \<le> ?x / of_int n" using n by (simp add: le_divide_eq)
    then have "of_int (i + 1) \<le> ?q"
      using assms(2) by (intro round_double_int_le) (simp_all add: window_sane_def)
    with i show False by simp
  qed
  show "(i - 1) * n * 1000 < now"
  proof (rule ccontr)
    assume "\<not> (i - 1) * n * 1000 < now"
    then have "(of_int now :: rat) \<le> of_int ((i - 1) * n * 1000)" by (simp only: of_int_le_iff)
    then have "(of_int now / 1000 :: rat) \<le> of_int ((i - 1) * n)" by simp
    then have "?x \<le> of_int ((i - 1) * n)"
      using assms(2) by (intro round_double_le_int) (simp_all add: window_sane_def)
    then have "?x / of_int n \<le> of_int (i - 1)" using n by (simp add: divide_le_eq)
    then have "?q \<le> of_int (i - 1)"
      using assms(2) by (intro round_double_le_int) (simp_all add: window_sane_def)
    with i show False by simp
  qed
qed

lemma rest_nonneg:
  assumes "window_index n now = i" "window_sane n i" shows "0 \<le> rest_of_window n now"
proof -
  have n: "0 < n" using assms(2) by (simp add: window_sane_def)
  have "now - i * n * 1000 \<le> n * 1000"
    using window_times(2) [OF assms] by (simp add: algebra_simps)
  then have "(of_int (now - i * n * 1000) :: rat) \<le> of_int (n * 1000)" by (simp only: of_int_le_iff)
  then have "(of_int (now - i * n * 1000) / of_int (n * 1000) :: rat) \<le> of_int 1"
    using n by (simp add: divide_le_eq)
  then have "round_double (of_int (now - i * n * 1000) / of_int (n * 1000)) \<le> of_int 1"
    by (intro round_double_le_int) simp_all
  then have "of_int 0 \<le> 1 - round_double (of_int (now - i * n * 1000) / of_int (n * 1000))" by simp
  then have "of_int 0 \<le> round_double (1 - round_double (of_int (now - i * n * 1000) / of_int (n * 1000)))"
    by (intro round_double_int_le) simp_all
  then show ?thesis by (simp add: rest_of_window_def assms(1) Let_def)
qed

lemma under_limit:
  assumes "\<not> over_limit previous (Num (Fin c)) rest 1 limit" "count_number previous = Some q" "0 \<le> q" "0 \<le> rest"
    and "0 \<le> c" "c < 2 ^ 53"
  shows "c + 1 \<le> limit"
proof -
  have "of_int 0 \<le> q * rest" using assms by simp
  then have "of_int 0 \<le> round_double (q * rest)" by (intro round_double_int_le) simp_all
  then have "of_int c \<le> round_double (q * rest) + of_int c" by simp
  then have "of_int c \<le> round_double (round_double (q * rest) + of_int c)"
    using assms by (intro round_double_int_le) simp_all
  then have "of_int (c + 1) \<le> round_double (round_double (q * rest) + of_int c) + 1" by simp
  then have "of_int (c + 1) \<le> round_double (round_double (round_double (q * rest) + of_int c) + 1)"
    using assms by (intro round_double_int_le) simp_all
  moreover have "round_double (round_double (round_double (q * rest) + of_int c) + 1) \<le> of_int limit"
    using assms(1,2) by (simp add: over_limit_def count_number_def weighted_count_def)
  ultimately have "(of_int (c + 1) :: rat) \<le> of_int limit" by linarith
  then show ?thesis by (simp only: of_int_le_iff)
qed

section \<open>Counting\<close>

text \<open>
  The counter of window \<open>i\<close> stands at \<open>c\<close> and does not expire within the window; the counter of
  the window before it, if there is one, is a number that is not negative.
\<close>

definition kv_row_of :: "string \<Rightarrow> 'y wallet \<Rightarrow> kv_row option" where
  "kv_row_of k w = find (\<lambda>r. ks_key r = k) (database.kv_store (db w))"

definition counted :: "string \<Rightarrow> int \<Rightarrow> int \<Rightarrow> int \<Rightarrow> 'y wallet \<Rightarrow> bool" where
  "counted k n i c w \<longleftrightarrow> 0 \<le> c \<and>
     (case kv_row_of (window_key k i) w of None \<Rightarrow> c = 0
      | Some r \<Rightarrow> ks_value r = Num (Fin c) \<and> (\<exists>e. ks_expires_at r = Some e \<and> (i + 1) * n * 1000 \<le> get_time e)) \<and>
     (case kv_row_of (window_key k (i - 1)) w of None \<Rightarrow> True | Some r \<Rightarrow> \<exists>q \<ge> 0. ks_value r = Num (Fin q))"

lemma counted_cong:
  "kv_row_of (window_key k i) w' = kv_row_of (window_key k i) w \<Longrightarrow>
   kv_row_of (window_key k (i - 1)) w' = kv_row_of (window_key k (i - 1)) w \<or> kv_row_of (window_key k (i - 1)) w' = None \<Longrightarrow>
   counted k n i c w \<Longrightarrow> counted k n i c w'"
  by (auto simp: counted_def)

lemma window_key_inject: "window_key k i = window_key k j \<longleftrightarrow> i = j"
  by (auto simp: window_key_def dest: int_str_inject)

lemma find_deleted:
  "find (\<lambda>r. ks_key r = k) (filter (\<lambda>r. ks_key r \<noteq> k) rows) = None"
  "k' \<noteq> k \<Longrightarrow> find (\<lambda>r. ks_key r = k') (filter (\<lambda>r. ks_key r \<noteq> k) rows) = find (\<lambda>r. ks_key r = k') rows"
  by (induction rows) auto

lemma get_item:
  assumes run: "kv_getItem p Postgres k w = (Inr x, w')" and during: "during p Q Y" "outer w \<in> Y"
  shows "outer w' \<in> Y \<and> (\<forall>k'. k' \<noteq> k \<longrightarrow> kv_row_of k' w' = kv_row_of k' w) \<and>
     (x = Null \<and> (kv_row_of k w = None \<and> kv_row_of k w' = None \<or> kv_row_of k w \<noteq> None \<and> kv_row_of k w' = None) \<or>
      kv_row_of k w' = kv_row_of k w \<and> (\<exists>r. kv_row_of k w = Some r \<and> x = ks_value r))"
proof -
  from run obtain w1 where select: "query p (select_kv k) w = (Inr (kv_row_of k w), w1)" and w1: "db w1 = db w"
    and rest: "(case kv_row_of k w of None \<Rightarrow> retA Null
       | Some r \<Rightarrow> (case ks_expires_at r of None \<Rightarrow> retA (ks_value r)
           | Some t \<Rightarrow> bindA (nowY p) (\<lambda>now.
               if get_time t < now then bindA (query p (delete_kv k)) (\<lambda>_. retA Null)
               else retA (ks_value r)))) w1 = (Inr x, w')"
    by (auto simp: kv_getItem_def pg_getItem_def bindA_Inr liftA_Inr query_Inr select_kv_def sql_string_def kv_row_of_def
        split: if_split_asm)
  have Y1: "outer w1 \<in> Y" by (rule during_query [OF select during])
  have same: "kv_row_of k' w1 = kv_row_of k' w" for k' using w1 by (simp add: kv_row_of_def)
  show ?thesis
  proof (cases "kv_row_of k w")
    case None
    with rest same Y1 show ?thesis by (auto simp: retA_run)
  next
    case (Some r)
    show ?thesis
    proof (cases "ks_expires_at r")
      case None
      with Some rest same Y1 show ?thesis by (auto simp: retA_run)
    next
      case (Some t)
      with \<open>kv_row_of k w = Some r\<close> rest obtain n w2 where now: "nowY p w1 = (Inr n, w2)"
        and fin: "(if get_time t < n then bindA (query p (delete_kv k)) (\<lambda>_. retA Null) else retA (ks_value r)) w2 = (Inr x, w')"
        by (auto simp: bindA_Inr)
      note n = during_now [OF now during(1) Y1]
      show ?thesis
      proof (cases "get_time t < n")
        case False
        with fin n same \<open>kv_row_of k w = Some r\<close> show ?thesis by (auto simp: retA_run kv_row_of_def)
      next
        case True
        with fin obtain u where del: "query p (delete_kv k) w2 = (Inr u, w')" "x = Null"
          by (auto simp: bindA_Inr retA_Inr)
        then have "database.kv_store (db w') = filter (\<lambda>r. ks_key r \<noteq> k) (database.kv_store (db w))"
          using n(3) w1 by (auto simp: query_Inr delete_kv_def)
        with del during_query [OF del(1) during(1) n(2)] \<open>kv_row_of k w = Some r\<close> show ?thesis
          by (auto simp: kv_row_of_def find_deleted)
      qed
    qed
  qed
qed

lemma counted_number:
  assumes run: "kv_getItem p Postgres (window_key k i) w = (Inr x, w')" and counted: "counted k n i c w"
    and during: "during p (\<lambda>now. window_index n now = i) Y" "outer w \<in> Y" and sane: "window_sane n i"
  shows "nullish x (Num (Fin 0)) = Num (Fin c) \<and> counted k n i c w' \<and> outer w' \<in> Y"
proof (cases "kv_row_of (window_key k i) w")
  case None
  with counted have c: "c = 0" by (simp add: counted_def)
  note g = get_item [OF run during]
  from g None have "x = Null" "kv_row_of (window_key k i) w' = kv_row_of (window_key k i) w" by auto
  moreover have "kv_row_of (window_key k (i - 1)) w' = kv_row_of (window_key k (i - 1)) w"
    using g by (simp add: window_key_inject)
  ultimately show ?thesis
    using g c counted_cong [OF _ _ counted, of w'] by simp
next
  case (Some r)
  with counted obtain e where e: "r = \<lparr>ks_key = window_key k i, ks_value = Num (Fin c), ks_expires_at = Some e\<rparr>"
    and late: "(i + 1) * n * 1000 \<le> get_time e"
    by (cases r) (auto simp: counted_def kv_row_of_def dest: find_SomeD)
  have "now \<le> get_time e" if "window_index n now = i" for now
    using window_times(2) [OF that sane] late by linarith
  from live_item [OF run during Some [unfolded kv_row_of_def e] this] counted show ?thesis
    by (auto simp: counted_def kv_row_of_def)
qed

lemma sliding_step:
  assumes run: "checkSlidingWindow p Postgres k limit n 1 w = (Inr r, w')" and counted: "counted k n i c w"
    and during: "during p (\<lambda>now. window_index n now = i) Y" "outer w \<in> Y" and sane: "window_sane n i" and "c < 2 ^ 53"
  shows "outer w' \<in> Y \<and> (if rl_allowed r then c + 1 \<le> limit \<and> counted k n i (c + 1) w' else counted k n i c w')"
proof -
  from run obtain now w1 x w2 y w3 where now: "nowY p w = (Inr now, w1)"
    and cur: "kv_getItem p Postgres (window_key k (window_index n now)) w1 = (Inr x, w2)"
    and prev: "kv_getItem p Postgres (window_key k (window_index n now - 1)) w2 = (Inr y, w3)"
    and rest: "(if over_limit y x (rest_of_window n now) 1 limit
       then retA \<lparr>rl_allowed = False, rl_retryAfterSeconds = ceiling (round_double (of_int n * rest_of_window n now))\<rparr>
       else bindA (kv_setItem p Postgres (window_key k (window_index n now)) (js_plus p (nullish x (Num (Fin 0))) 1) (Some (n * 2)))
              (\<lambda>_. retA \<lparr>rl_allowed = True, rl_retryAfterSeconds = ceiling (round_double (of_int n * rest_of_window n now))\<rparr>)) w3 =
       (Inr r, w')"
    by (auto simp: checkSlidingWindow_def bindA_Inr Let_def)
  note n = during_now [OF now during]
  have counted1: "counted k n i c w1"
    using counted n(3) by (simp add: counted_def kv_row_of_def)
  note c = counted_number [OF cur [unfolded n(1)] counted1 during(1) n(2) sane]
  note g = get_item [OF prev [unfolded n(1)] during(1)]
  have prev_count: "\<exists>q \<ge> 0. count_number y = Some q"
    using g c by (auto simp: counted_def count_number_def split: option.splits)
  have counted3: "counted k n i c w3"
    using c g by (intro counted_cong [of k i w3 w2]) (auto simp: window_key_inject)
  have Y3: "outer w3 \<in> Y" using c g by blast
  show ?thesis
  proof (cases "over_limit y x (rest_of_window n now) 1 limit")
    case True
    with rest counted3 Y3 show ?thesis by (auto simp: retA_run)
  next
    case False
    with rest n(1) c obtain u where set: "kv_setItem p Postgres (window_key k i) (Num (Fin (c + 1))) (Some (n * 2)) w3 = (Inr u, w')"
      and allowed: "rl_allowed r"
      by (auto simp: bindA_Inr retA_Inr)
    have "over_limit y (Num (Fin c)) rest 1 limit = over_limit y x rest 1 limit" for rest
      using c by (simp add: over_limit_def count_number_def split: option.splits)
    moreover obtain q where "count_number y = Some q" "0 \<le> q" using prev_count by blast
    ultimately have "c + 1 \<le> limit"
      using under_limit [of y c "rest_of_window n now" limit q] False rest_nonneg [OF n(1) sane] counted assms(6)
      by (simp add: counted_def)
    obtain t v v' where w': "date_now p (outer w3) = (fst (date_now p (outer w3)), v)" "db_begin p v = (Inr t, v')"
      "w' = w3\<lparr>db := snd (upsert_kv (window_key k i) (Num (Fin (c + 1)))
         (Some ((fst (date_now p (outer w3)) + n * 2 * 1000) * 1000)) t (db w3)), outer := v'\<rparr>"
      using pg_setItem_Inr [OF set] sane by (auto simp: window_sane_def)
    have "window_index n (fst (date_now p (outer w3))) = i" "v' \<in> Y"
      using during(1) Y3 w'(1,2) by (auto simp: during_def) (metis snd_conv)+
    moreover have "(i + 1) * n * 1000 \<le> fst (date_now p (outer w3)) + n * 2 * 1000"
      using window_times(1) [OF calculation(1) sane] by (simp add: algebra_simps)
    moreover have "kv_row_of (window_key k (i - 1)) w' = kv_row_of (window_key k (i - 1)) w3"
      by (simp add: w'(3) kv_row_of_def find_other_upserted window_key_inject)
    ultimately have "counted k n i (c + 1) w'"
      using counted3 by (auto simp: counted_def kv_row_of_def w'(3) find_upserted get_time_def split: option.splits)
    with allowed \<open>c + 1 \<le> limit\<close> \<open>v' \<in> Y\<close> w'(3) show ?thesis by simp
  qed
qed

lemma sliding_steps:
  assumes "mapA (\<lambda>_. checkSlidingWindow p Postgres k limit n 1) requests w = (Inr results, w')" "counted k n i c w"
    and "during p (\<lambda>now. window_index n now = i) Y" "outer w \<in> Y" "window_sane n i" "limit < 2 ^ 53" "c \<le> limit"
  shows "c + int (length (filter rl_allowed results)) \<le> limit"
  using assms
proof (induction requests arbitrary: w c results)
  case Nil
  then show ?case by (simp add: retA_run)
next
  case (Cons request requests)
  from Cons.prems(1) obtain r rs w1 where step: "checkSlidingWindow p Postgres k limit n 1 w = (Inr r, w1)"
    and rest: "mapA (\<lambda>_. checkSlidingWindow p Postgres k limit n 1) requests w1 = (Inr rs, w')" and results: "results = r # rs"
    by (auto simp: bindA_Inr retA_Inr)
  have s: "outer w1 \<in> Y \<and> (if rl_allowed r then c + 1 \<le> limit \<and> counted k n i (c + 1) w1 else counted k n i c w1)"
    by (rule sliding_step [OF step Cons.prems(2-5)]) (use Cons.prems(6,7) in linarith)
  show ?case
  proof (cases "rl_allowed r")
    case True
    with s have "c + 1 + int (length (filter rl_allowed rs)) \<le> limit"
      using Cons.IH [OF rest _ Cons.prems(3) _ Cons.prems(5,6)] by auto
    with True results show ?thesis by simp
  next
    case False
    with s have "c + int (length (filter rl_allowed rs)) \<le> limit"
      using Cons.IH [OF rest _ Cons.prems(3) _ Cons.prems(5-7)] by auto
    with False results show ?thesis by simp
  qed
qed

text \<open>
  C14. The sliding window bounds the requests: of any number of requests that are checked one
  after the other in one window, starting with a count of \<open>c\<close>, at most \<open>limit - c\<close> are let
  through, whatever the previous window counted and however the fractions are rounded.
  (Concurrent checks are not covered: the counter is read and written in two statements.)
\<close>

theorem sliding_window_bounds_requests:
  assumes "mapA (\<lambda>_. checkSlidingWindow p Postgres k limit n 1) requests w = (Inr results, w')"
    and "counted k n i c w" and "c \<le> limit" and "limit < 2 ^ 53"
    and "during p (\<lambda>now. window_index n now = i) Y" and "outer w \<in> Y" and "window_sane n i"
  shows "int (length (filter rl_allowed results)) \<le> limit - c"
  using sliding_steps [OF assms(1,2,5,6,7,4,3)] by simp

theorem sliding_window_bounds_requests_witness:
  "\<exists>results w. mapA (\<lambda>_. checkSlidingWindow ex_services Postgres ''k'' 1 60 1) [(), ()] (ex_wallet (ex_database []) 0) =
     (Inr results, w) \<and> int (length (filter rl_allowed results)) \<le> 1"
proof -
  have rounds: "round_double 1 = 1" "round_double 2 = 2" "round_double 0 = 0"
    using round_double_of_int [of 1] round_double_of_int [of 2] round_double_of_int [of 0] by simp_all
  have keys: "window_key ''k'' (- 1) \<noteq> window_key ''k'' 0" "window_key ''k'' 0 \<noteq> window_key ''k'' (- 1)" "CHR 0x00 \<notin> set (window_key ''k'' i)" for i
    by (simp_all add: window_key_inject window_key_text)
  obtain results w where run: "mapA (\<lambda>_. checkSlidingWindow ex_services Postgres ''k'' 1 60 1) [(), ()] (ex_wallet (ex_database []) 0) =
     (Inr results, w)"
    by (simp add: checkSlidingWindow_def ex_runs kv_getItem_def kv_setItem_def pg_getItem_def pg_setItem_def ex_rest select_kv_def
        upsert_kv_def over_limit_def count_number_def weighted_count_def sql_string_def expiry_def keys rounds get_time_def)
  have "int (length (filter rl_allowed results)) \<le> 1 - 0"
    by (rule sliding_window_bounds_requests [OF run, of 0 0 "{0}"])
       (simp_all add: counted_def kv_row_of_def during_def ex_rest window_sane_def)
  with run show ?thesis by auto
qed

end
