(* ===== verification/Wallet_Federation_Properties.thy ===== *)
theory Wallet_Federation_Properties
  imports Wallet_Account_Properties
begin

text \<open>
  The properties of the announcements wallet services exchange: what an applied announcement
  proves, that a migration is never undone by another server's registration, and that the
  server's own registration does undo it.
\<close>

section \<open>Announcements\<close>

lemma announce_route_Inr:
  assumes "announce_route p cfg body w = (Inr applied, w')"
  shows "\<exists>payload signatures w1 w2 u. opt_prop body ''payload'' = Inr payload \<and> field body ''signatures'' = Arr signatures \<and>
     verifyAnnouncementEnvelope p payload signatures = Inr (Inr u) \<and>
     routing_table (db w1) = routing_table (db w) \<and> routing_nonces (db w1) = routing_nonces (db w) \<and>
     record_nonce p (field payload ''nonce'') w1 = (Inr True, w2) \<and>
     apply_announcement p payload (Arr signatures) w2 = (Inr applied, w')"
proof -
  from assms obtain payload where payload: "opt_prop body ''payload'' = Inr payload"
    and rest: "(case (truthy payload, field body ''signatures'') of
         (True, Arr signatures) \<Rightarrow>
           bindA (liftA (verifyAnnouncementEnvelope p payload signatures)) (\<lambda>verification.
             case verification of
               Inl reason \<Rightarrow> throwA (HttpError 401 (''Invalid announcement: '' @ reason @ ''.''))
             | Inr _ \<Rightarrow>
                 bindA (enforceRateLimit p (KV_BACKEND cfg)
                          (bindingAnnounceRateKey (literal p (field payload ''wallet_service_id''))) ANNOUNCE_RATE_LIMIT 60) (\<lambda>_.
                 bindA (record_nonce p (field payload ''nonce'')) (\<lambda>isNew.
                 bindA (guardA isNew (HttpError 409 ''Nonce already seen - possible replay.'')) (\<lambda>_.
                   apply_announcement p payload (Arr signatures)))))
       | _ \<Rightarrow> throwA (HttpError 400 ''payload and signatures are required.'')) w = (Inr applied, w')"
    by (auto simp: announce_route_def bindA_Inr liftA_Inr)
  then obtain signatures u0 u w1 w2 where "field body ''signatures'' = Arr signatures"
    "verifyAnnouncementEnvelope p payload signatures = Inr (Inr u)"
    and rate: "enforceRateLimit p (KV_BACKEND cfg)
       (bindingAnnounceRateKey (literal p (field payload ''wallet_service_id''))) ANNOUNCE_RATE_LIMIT 60 w = (Inr u0, w1)"
    and "record_nonce p (field payload ''nonce'') w1 = (Inr True, w2)"
      "apply_announcement p payload (Arr signatures) w2 = (Inr applied, w')"
    by (cases "truthy payload"; cases "field body ''signatures''")
       (auto simp: bindA_Inr liftA_Inr throwA_run guardA_Inr split: sum.splits, metis old.unit.exhaust sum.exhaust)
  moreover have "routing_table (db w1) = routing_table (db w)" "routing_nonces (db w1) = routing_nonces (db w)"
    by (rule leavesD [OF leaves_kv(4) rate], simp)+
  ultimately show ?thesis using payload by blast
qed

lemma record_nonce_Inr:
  assumes "record_nonce p v w = (Inr True, w')"
  shows "\<exists>n. sql_text p v = Inr n \<and> n \<notin> fst ` set (routing_nonces (db w)) \<and> n \<in> fst ` set (routing_nonces (db w'))"
    "routing_table (db w') = routing_table (db w)"
  using assms by (auto simp: record_nonce_def bindA_Inr liftA_Inr query_Inr recordNonceIfNew_def split: if_splits)

lemma apply_announcement_Inr:
  assumes "apply_announcement p payload signatures w = (Inr applied, w')"
  shows "routing_nonces (db w') = routing_nonces (db w)"
    "\<not> applied \<Longrightarrow> routing_table (db w') = routing_table (db w)"
    "applied \<Longrightarrow> \<exists>row t. routing_row_of p payload signatures = Inr row \<and>
       shouldAcceptAnnouncement p (find (\<lambda>r. rt_card_hash r = rt_card_hash row) (routing_table (db w))) payload \<and>
       upsertRoutingEntry row t (db w) = (Inr (), db w')"
proof -
  from assms obtain existing w1 where look: "find_routing p (field payload ''card_hash'') w = (Inr existing, w1)"
    and w1: "db w1 = db w"
    and rest: "(if shouldAcceptAnnouncement p existing payload
       then bindA (store_binding p payload signatures) (\<lambda>_. retA True) else retA False) w1 = (Inr applied, w')"
    by (auto simp: apply_announcement_def bindA_Inr find_routing_def liftA_Inr query_Inr findRoutingEntry_def split: if_splits)
  show "\<not> applied \<Longrightarrow> routing_table (db w') = routing_table (db w)"
    using rest w1 by (auto simp: bindA_Inr retA_Inr split: if_splits)
  show "applied \<Longrightarrow> \<exists>row t. routing_row_of p payload signatures = Inr row \<and>
       shouldAcceptAnnouncement p (find (\<lambda>r. rt_card_hash r = rt_card_hash row) (routing_table (db w))) payload \<and>
       upsertRoutingEntry row t (db w) = (Inr (), db w')"
  proof -
    assume applied
    with rest w1 obtain row t d where row: "routing_row_of p payload signatures = Inr row"
      and accept: "shouldAcceptAnnouncement p existing payload" and upsert: "upsertRoutingEntry row t (db w) = (Inr (), db w')"
      by (auto simp: bindA_Inr retA_Inr store_binding_def liftA_Inr query_Inr split: if_splits)
    from row have "sql_text p (field payload ''card_hash'') = Inr (rt_card_hash row)"
      by (auto simp: routing_row_of_def bindE_eq_Inr)
    with look have "existing = find (\<lambda>r. rt_card_hash r = rt_card_hash row) (routing_table (db w))"
      by (auto simp: find_routing_def bindA_Inr liftA_Inr query_Inr findRoutingEntry_def split: if_splits)
    with row accept upsert show ?thesis by blast
  qed
  show "routing_nonces (db w') = routing_nonces (db w)"
    using rest w1 by (auto simp: bindA_Inr retA_Inr store_binding_def liftA_Inr query_Inr upsertRoutingEntry_def split: if_splits)
qed

text \<open>What the signatures of an announcement prove.\<close>

definition authentic :: "('y, 'z) services_scheme \<Rightarrow> js \<Rightarrow> js list \<Rightarrow> bool" where
  "authentic p payload signatures \<longleftrightarrow> (\<exists>s m. find_role ''wallet_service'' signatures = Inr (Some s) \<and> canonicalize payload = Inr m \<and>
     verifyPeerWalletSignature p m (field s ''signature'') (field s ''public_key'') (field payload ''wallet_service_id'') \<and>
     (field payload ''type'' = Str ''card_migration'' \<longrightarrow> (\<exists>t c k. find_role ''cardholder'' signatures = Inr (Some t) \<and>
        field payload ''card_hash'' = Str c \<and> keccak256OfBase64Url p (field t ''public_key'') = Inr k \<and>
        to_lower k = claimed_hash c \<and> verifyMasterCardSignature p m (field t ''signature'') (field t ''public_key''))))"

lemma authentic_envelope:
  assumes "verifyAnnouncementEnvelope p payload signatures = Inr (Inr u)" shows "authentic p payload signatures"
proof -
  from assms obtain s m where s: "find_role ''wallet_service'' signatures = Inr (Some s)" "canonicalize payload = Inr m"
    "verifyPeerWalletSignature p m (field s ''signature'') (field s ''public_key'') (field payload ''wallet_service_id'')"
    and holder: "field payload ''type'' = Str ''card_migration'' \<Longrightarrow>
      bindE (find_role ''cardholder'' signatures) (verify_cardholder p payload m) = Inr (Inr u)"
    by (auto simp: verifyAnnouncementEnvelope_def bindE_eq_Inr split: option.splits if_splits)
  have "\<exists>t c k. find_role ''cardholder'' signatures = Inr (Some t) \<and> field payload ''card_hash'' = Str c \<and>
      keccak256OfBase64Url p (field t ''public_key'') = Inr k \<and> to_lower k = claimed_hash c \<and>
      verifyMasterCardSignature p m (field t ''signature'') (field t ''public_key'')" if "field payload ''type'' = Str ''card_migration''"
    using holder [OF that]
    by (cases "field payload ''card_hash''") (auto simp: bindE_eq_Inr verify_cardholder_def split: option.splits if_splits)
  with s show ?thesis unfolding authentic_def by blast
qed

lemma upserted_routing:
  "upsertRoutingEntry row t d = (Inr (), d') \<Longrightarrow> routing_table d' =
     (if list_ex (\<lambda>r. rt_card_hash r = rt_card_hash row) (routing_table d)
      then update_where (\<lambda>r. rt_card_hash r = rt_card_hash row) (\<lambda>r. row) (routing_table d) else routing_table d @ [row])"
  by (auto simp: upsertRoutingEntry_def split: if_splits)

lemma upserted_row:
  assumes "upsertRoutingEntry row t d = (Inr (), d')" shows "row \<in> set (routing_table d')"
proof -
  have "list_ex (\<lambda>r. rt_card_hash r = rt_card_hash row) rows \<Longrightarrow>
      row \<in> set (update_where (\<lambda>r. rt_card_hash r = rt_card_hash row) (\<lambda>r. row) rows)" for rows
    by (induction rows) (auto simp: update_where_def)
  then show ?thesis using upserted_routing [OF assms] by simp
qed

text \<open>
  C13. An announcement that is answered without an error was authentic and new: it carries a
  signature of its payload by a key whose hash is the wallet service it names, for a migration
  also one by the key whose hash is the card, and its nonce had not been seen and is recorded.
  It is applied exactly by storing the row made of its payload, under the rule that decides
  between announcements; otherwise the routing table does not change.
\<close>

theorem applied_announcement_is_authentic:
  assumes "announce_route p cfg body w = (Inr applied, w')"
  shows "\<exists>payload signatures n. opt_prop body ''payload'' = Inr payload \<and> field body ''signatures'' = Arr signatures \<and>
     authentic p payload signatures \<and> sql_text p (field payload ''nonce'') = Inr n \<and>
     n \<notin> fst ` set (routing_nonces (db w)) \<and> n \<in> fst ` set (routing_nonces (db w')) \<and>
     (if applied then \<exists>row. routing_row_of p payload (Arr signatures) = Inr row \<and> row \<in> set (routing_table (db w')) \<and>
        shouldAcceptAnnouncement p (find (\<lambda>r. rt_card_hash r = rt_card_hash row) (routing_table (db w))) payload
      else routing_table (db w') = routing_table (db w))"
proof -
  from announce_route_Inr [OF assms] obtain payload signatures w1 w2 u where
    parts: "opt_prop body ''payload'' = Inr payload" "field body ''signatures'' = Arr signatures" and
    verified: "verifyAnnouncementEnvelope p payload signatures = Inr (Inr u)" and
    w1: "routing_table (db w1) = routing_table (db w)" "routing_nonces (db w1) = routing_nonces (db w)" and
    nonce: "record_nonce p (field payload ''nonce'') w1 = (Inr True, w2)" and
    app: "apply_announcement p payload (Arr signatures) w2 = (Inr applied, w')"
    by blast
  note n = record_nonce_Inr [OF nonce] and a = apply_announcement_Inr [OF app]
  have "if applied then \<exists>row. routing_row_of p payload (Arr signatures) = Inr row \<and> row \<in> set (routing_table (db w')) \<and>
        shouldAcceptAnnouncement p (find (\<lambda>r. rt_card_hash r = rt_card_hash row) (routing_table (db w))) payload
      else routing_table (db w') = routing_table (db w)"
    using a(2,3) n(2) w1 upserted_row by (auto split: if_splits)
  with n a(1) w1 parts authentic_envelope [OF verified] show ?thesis by auto
qed

text \<open>
  A migration is never undone by another server: whatever is announced, and whether or not
  it is applied, a card whose entry is a migration still has a migration as its
  entry afterwards. (The database driver never writes an object or array as the word
  \<open>card_registration\<close>.)
\<close>

theorem migration_survives_announcements:
  assumes "announce_route p cfg body w = (Inr applied, w')" and "database_ok (db w)"
    and "e \<in> set (routing_table (db w))" and "rt_type e = Card_Migration"
    and "\<forall>v. pg_text p v \<noteq> Inr ''card_registration''"
  shows "\<exists>e' \<in> set (routing_table (db w')). rt_card_hash e' = rt_card_hash e \<and> rt_type e' = Card_Migration"
proof -
  from announce_route_Inr [OF assms(1)] obtain payload signatures w1 w2 where
    w1: "routing_table (db w1) = routing_table (db w)" and
    nonce: "record_nonce p (field payload ''nonce'') w1 = (Inr True, w2)" and
    app: "apply_announcement p payload (Arr signatures) w2 = (Inr applied, w')"
    by blast
  have same: "routing_table (db w2) = routing_table (db w)"
    using record_nonce_Inr(2) [OF nonce] w1 by simp
  show ?thesis
  proof (cases applied)
    case False
    with apply_announcement_Inr(2) [OF app] same assms(3,4) show ?thesis by auto
  next
    case True
    with apply_announcement_Inr(3) [OF app] same obtain row t where
      row: "routing_row_of p payload (Arr signatures) = Inr row" and
      accept: "shouldAcceptAnnouncement p (find (\<lambda>r. rt_card_hash r = rt_card_hash row) (routing_table (db w))) payload" and
      upsert: "upsertRoutingEntry row t (db w2) = (Inr (), db w')"
      by auto
    show ?thesis
    proof (cases "rt_card_hash row = rt_card_hash e")
      case False
      then have "e \<in> set (routing_table (db w'))"
        using upserted_routing [OF upsert] same assms(3) by (auto simp: update_where_def)
      with assms(4) show ?thesis by blast
    next
      case True
      then have "find (\<lambda>r. rt_card_hash r = rt_card_hash row) (routing_table (db w)) = Some e"
        using find_unique [of rt_card_hash _ e] assms(2,3) by (auto simp: database_ok_def)
      with accept assms(4) have "field payload ''type'' \<noteq> Str ''card_registration''"
        by (auto simp: shouldAcceptAnnouncement_def Let_def)
      moreover obtain ty where "sql_text p (field payload ''type'') = Inr ty" "binding_type_of ty = Inr (rt_type row)"
        using row by (auto simp: routing_row_of_def bindE_eq_Inr)
      ultimately have "rt_type row = Card_Migration"
        using assms(5) by (cases "field payload ''type''") (auto simp: binding_type_of_def sql_string_def split: if_splits)
      with True upserted_row [OF upsert] show ?thesis by auto
    qed
  qed
qed

section \<open>A run\<close>

definition ex_migration :: routing_row where
  "ex_migration = \<lparr>rt_card_hash = ''c'', rt_wallet_service_id = ''0x08'', rt_endpoint = ''there'', rt_type = Card_Migration,
     rt_announced_at = 0, rt_nonce = ''m'', rt_signatures = Arr []\<rparr>"

definition ex_bound :: database where
  "ex_bound = (ex_database [])\<lparr>routing_table := [ex_migration]\<rparr>"

definition ex_announced :: "string \<Rightarrow> js" where
  "ex_announced c = announcement_payload ''card_registration'' (Str c) ''0x06'' ''e'' ''t'' ''n''"

definition ex_announcement :: "string \<Rightarrow> js" where
  "ex_announcement c = Obj [(''payload'', ex_announced c),
     (''signatures'', Arr [Obj [(''public_key'', Str ''Bg''), (''role'', Str ''wallet_service''),
        (''signature'', Str ''AQ'')]])]"

lemma ex_announced_fields:
  "field (ex_announced c) ''type'' = Str ''card_registration''" "field (ex_announced c) ''card_hash'' = Str c"
  "field (ex_announced c) ''wallet_service_id'' = Str ''0x06''" "field (ex_announced c) ''endpoint'' = Str ''e''"
  "field (ex_announced c) ''timestamp'' = Str ''t''" "field (ex_announced c) ''nonce'' = Str ''n''" "truthy (ex_announced c)"
  by (simp_all add: ex_announced_def announcement_payload_def field_def lookup_key_def)

lemma ex_peer: "to_lower (peer_id ex_services [6]) = to_lower ''0x06''"
proof -
  have "bytes_hex [6 :: byte] = ''06''" by code_simp
  then show ?thesis by (simp add: peer_id_def ex_press_crypto_def ex_crypto_def)
qed

lemma ex_peer_key: "base64url_to_bytes ''Bg'' = [6]"
  by code_simp

lemma ex_verified:
  "\<exists>ss. field (ex_announcement c) ''signatures'' = Arr ss \<and> verifyAnnouncementEnvelope ex_services (ex_announced c) ss = Inr (Inr ())"
proof -
  have "json_value (ex_announced c)"
    by (simp add: ex_announced_def announcement_payload_def)
  then obtain m where "canonicalize (ex_announced c) = Inr m" using canonicalize_json by blast
  then show ?thesis
    using ex_peer by (simp add: ex_announcement_def field_def lookup_key_def verifyAnnouncementEnvelope_def
        verifyPeerWalletSignature_def ex_peer_key true_or_throw_def ex_announced_fields [unfolded field_def])
qed

lemma ex_announce_route:
  assumes "c \<in> {''c'', ''d''}"
  shows "\<exists>w'. announce_route ex_services ex_wallet_config (ex_announcement c) (ex_wallet ex_bound 0) = (Inr (c \<noteq> ''c''), w')"
proof -
  obtain ss where ss: "field (ex_announcement c) ''signatures'' = Arr ss"
    "verifyAnnouncementEnvelope ex_services (ex_announced c) ss = Inr (Inr ())"
    using ex_verified by blast
  have payload: "opt_prop (ex_announcement c) ''payload'' = Inr (ex_announced c)"
    by (simp add: ex_announcement_def lookup_key_def)
  obtain x where rate: "enforceRateLimit ex_services Postgres (bindingAnnounceRateKey ''0x06'') 100 60 (ex_wallet ex_bound 0) =
      (Inr (), ex_wallet (ex_bound\<lparr>kv_store := x\<rparr>) 0)"
    using ex_rate [of ex_bound 100 60 "bindingAnnounceRateKey ''0x06''"] by (auto simp: ex_bound_def bindingAnnounceRateKey_def)
  have strings: "sql_string c = Inr c" "sql_string ''n'' = Inr ''n''" "sql_string ''0x06'' = Inr ''0x06''" "sql_string ''e'' = Inr ''e''"
    "sql_string ''card_registration'' = Inr ''card_registration''"
    using assms by (auto simp: sql_string_def)
  show ?thesis
    using assms ss payload rate
    by (auto simp: announce_route_def ex_announced_fields ANNOUNCE_RATE_LIMIT_def bindA_def liftA_run guardA_run record_nonce_def strings
        ex_query recordNonceIfNew_def ex_bound_def apply_announcement_def find_routing_def findRoutingEntry_def
        shouldAcceptAnnouncement_def ex_migration_def Let_def retA_run store_binding_def routing_row_of_def binding_type_of_def
        upsertRoutingEntry_def)
qed

theorem migration_survives_announcements_witness:
  "\<exists>w'. announce_route ex_services ex_wallet_config (ex_announcement ''c'') (ex_wallet ex_bound 0) = (Inr False, w') \<and>
     (\<exists>e' \<in> set (routing_table (db w')). rt_card_hash e' = ''c'' \<and> rt_type e' = Card_Migration)"
proof -
  obtain w' where run: "announce_route ex_services ex_wallet_config (ex_announcement ''c'') (ex_wallet ex_bound 0) = (Inr False, w')"
    using ex_announce_route [of "''c''"] by auto
  have "database_ok (db (ex_wallet ex_bound 0))"
    using ex_database_ok(1) by (simp add: ex_bound_def database_ok_def)
  from migration_survives_announcements [OF run this, of ex_migration] run show ?thesis
    by (auto simp: ex_bound_def ex_migration_def)
qed

theorem applied_announcement_is_authentic_witness:
  "\<exists>w' payload signatures. announce_route ex_services ex_wallet_config (ex_announcement ''d'') (ex_wallet ex_bound 0) = (Inr True, w') \<and>
     authentic ex_services payload signatures \<and>
     (\<exists>row. routing_row_of ex_services payload (Arr signatures) = Inr row \<and> row \<in> set (routing_table (db w')))"
proof -
  obtain w' where run: "announce_route ex_services ex_wallet_config (ex_announcement ''d'') (ex_wallet ex_bound 0) = (Inr True, w')"
    using ex_announce_route [of "''d''"] by auto
  from applied_announcement_is_authentic [OF run] run show ?thesis by auto
qed

section \<open>The server's own registrations\<close>

text \<open>
  The server's own registration undoes a migration: when it announces a card that is
  entered as migrated to another service, its own registration takes the place of the
  migration, which the rule between announcements forbids.
\<close>

theorem own_registration_overrides_migration:
  assumes "announceOwnCardRegistration p cfg (Str c) w = (Inr u, w')" and "database_ok (db w)"
    and "e \<in> set (routing_table (db w))" and "rt_card_hash e = c" and "rt_type e = Card_Migration"
    and "rt_wallet_service_id e \<noteq> WALLET_SERVICE_ID cfg"
    and "\<forall>y. bytes_to_base64url (fst (random_bytes p 32 y)) \<notin> fst ` set (routing_nonces (db w))"
  shows "\<exists>e' \<in> set (routing_table (db w')). rt_card_hash e' = c \<and> rt_type e' = Card_Registration \<and>
     rt_wallet_service_id e' = WALLET_SERVICE_ID cfg"
proof -
  from assms(1) obtain env w1 isNew w2 w3 where
    build: "buildRegistrationAnnouncement p (Str c) (WALLET_SERVICE_ID cfg) (WALLET_SERVICE_ENDPOINT cfg) (privateKeyBytes cfg) w = (Inr env, w1)" and
    nonce: "record_nonce p (field (field env ''payload'') ''nonce'') w1 = (Inr isNew, w2)" and
    store: "(if isNew then
              bindA (find_routing p (Str c)) (\<lambda>existing.
                if existing = None \<or> rt_wallet_service_id (the existing) \<noteq> WALLET_SERVICE_ID cfg
                then store_binding p (field env ''payload'') (field env ''signatures'') else retA ())
            else retA ()) w2 = (Inr (), w3)" and
    tell: "broadcastAnnouncement p cfg env w3 = (Inr u, w')"
    by (auto simp: announceOwnCardRegistration_def bindA_Inr Let_def)
  obtain now y bs where payload: "field env ''payload'' = announcement_payload ''card_registration'' (Str c) (WALLET_SERVICE_ID cfg)
      (WALLET_SERVICE_ENDPOINT cfg) (iso_of_ms p now) (bytes_to_base64url bs)" and bs: "bs = fst (random_bytes p 32 y)" and w1: "db w1 = db w"
    using build by (auto simp: buildRegistrationAnnouncement_def bindA_Inr nowY_Inr randomY_Inr liftA_Inr retA_Inr Let_def
        field_def [of "Obj kvs" for kvs] lookup_key_def)
  have fields: "field (field env ''payload'') ''nonce'' = Str (bytes_to_base64url bs)" "field (field env ''payload'') ''card_hash'' = Str c"
    "field (field env ''payload'') ''type'' = Str ''card_registration''"
    "field (field env ''payload'') ''wallet_service_id'' = Str (WALLET_SERVICE_ID cfg)"
    unfolding payload by (simp_all add: announcement_payload_def field_def lookup_key_def)
  have "isNew" and table: "routing_table (db w2) = routing_table (db w)"
    using nonce assms(7) bs w1 fields by (auto simp: record_nonce_def bindA_Inr liftA_Inr query_Inr recordNonceIfNew_def sql_string_def split: if_splits)
  moreover have "find (\<lambda>r. rt_card_hash r = c) (routing_table (db w)) = Some e"
    using find_unique [of rt_card_hash _ e] assms(2-4) by (auto simp: database_ok_def)
  ultimately obtain w4 where "store_binding p (field env ''payload'') (field env ''signatures'') w4 = (Inr (), w3)"
    using store assms(6) by (auto simp: bindA_Inr find_routing_def liftA_Inr query_Inr findRoutingEntry_def sql_string_def split: if_splits)
  then obtain row t d where row: "routing_row_of p (field env ''payload'') (field env ''signatures'') = Inr row"
    and upsert: "upsertRoutingEntry row t d = (Inr (), db w3)"
    by (auto simp: store_binding_def bindA_Inr liftA_Inr query_Inr)
  have "rt_card_hash row = c" "rt_type row = Card_Registration" "rt_wallet_service_id row = WALLET_SERVICE_ID cfg"
    using row fields by (auto simp: routing_row_of_def bindE_eq_Inr binding_type_of_def sql_string_def split: if_splits)
  moreover have "routing_table (db w') = routing_table (db w3)"
    using tell unfolding broadcastAnnouncement_def by (rule leavesD [OF leaves_steps(9)])
  ultimately show ?thesis using upserted_row [OF upsert] by auto
qed

theorem own_registration_overrides_migration_witness:
  "\<exists>w'. announceOwnCardRegistration ex_services ex_wallet_config (Str ''c'') (ex_wallet ex_bound 0) = (Inr (), w') \<and>
     (\<exists>e' \<in> set (routing_table (db w')). rt_card_hash e' = ''c'' \<and> rt_type e' = Card_Registration)"
proof -
  have nonce: "bytes_to_base64url (replicate 32 0) \<noteq> ''m''"
  proof
    assume "bytes_to_base64url (replicate 32 0) = ''m''"
    then have "(replicate 32 0 :: bytes) = base64url_to_bytes ''m''" by (metis base64url_round_trip)
    moreover have "base64url_to_bytes ''m'' = []" by code_simp
    ultimately show False by simp
  qed
  obtain w' where run: "announceOwnCardRegistration ex_services ex_wallet_config (Str ''c'') (ex_wallet ex_bound 0) = (Inr (), w')"
    using ex_announce [of ex_bound "''c''" 0] nonce by (auto simp: ex_bound_def ex_migration_def)
  have ok: "database_ok (db (ex_wallet ex_bound 0))"
    using ex_database_ok(1) by (simp add: ex_bound_def database_ok_def)
  show ?thesis
    using own_registration_overrides_migration [OF run ok, of ex_migration] run
    by (auto simp: ex_bound_def ex_migration_def)
qed

end
