(* ===== verification/Wallet_Delivery_Properties.thy ===== *)
theory Wallet_Delivery_Properties
  imports Wallet_Account_Properties
begin

text \<open>
  The properties of message delivery and of notifications in the wallet service: how many
  single-use UUIDs a delivery spends, and that every notification job is attempted only finitely
  often.
\<close>

section \<open>Deliveries\<close>

text \<open>The pool after the UUIDs \<open>us\<close> were spent.\<close>

definition spend :: "string set \<Rightarrow> uuid_row list \<Rightarrow> uuid_row list" where
  "spend us rows = update_where (\<lambda>r. up_uuid r \<in> us) (\<lambda>r. r\<lparr>up_consumed := True\<rparr>) rows"

lemma spend_simps: "spend {} rows = rows" "spend us (spend vs rows) = spend (us \<union> vs) rows"
  by (auto simp: spend_def update_where_def)

lemma claimed_uuid:
  assumes "query p (claimNextUuid c s) w = (Inr claimed, w')"
  shows "case claimed of None \<Rightarrow> uuid_pools (db w') = uuid_pools (db w)
     | Some u \<Rightarrow> uuid_pools (db w') = spend {u} (uuid_pools (db w)) \<and>
         (\<exists>r \<in> set (uuid_pools (db w)). up_uuid r = u \<and> up_card_hash r = c \<and> up_subcard_hash r = s \<and> \<not> up_consumed r)"
    "message_queue (db w') = message_queue (db w)"
proof -
  from assms obtain t where run: "claimNextUuid c s t (db w) = (Inr claimed, db w')"
    by (auto simp: query_Inr)
  let ?candidates = "sort_key up_registered_at (filter (claimable c s t) (uuid_pools (db w)))"
  have "(case claimed of None \<Rightarrow> uuid_pools (db w') = uuid_pools (db w)
     | Some u \<Rightarrow> uuid_pools (db w') = spend {u} (uuid_pools (db w)) \<and>
         (\<exists>r \<in> set (uuid_pools (db w)). up_uuid r = u \<and> up_card_hash r = c \<and> up_subcard_hash r = s \<and> \<not> up_consumed r)) \<and>
    message_queue (db w') = message_queue (db w)"
  proof (cases ?candidates)
    case Nil
    with run have "claimed = None" "db w' = db w" by (auto simp: claimNextUuid_def)
    then show ?thesis by simp
  next
    case (Cons r rs)
    with run have claimed: "claimed = Some (up_uuid r)"
      and w': "db w' = (db w)\<lparr>uuid_pools := spend {up_uuid r} (uuid_pools (db w))\<rparr>"
      by (auto simp: claimNextUuid_def spend_def)
    have "r \<in> set ?candidates" by (simp add: Cons)
    then have "r \<in> set (uuid_pools (db w))" "claimable c s t r" by auto
    with claimed w' show ?thesis by (auto simp: claimable_def)
  qed
  then show "case claimed of None \<Rightarrow> uuid_pools (db w') = uuid_pools (db w)
     | Some u \<Rightarrow> uuid_pools (db w') = spend {u} (uuid_pools (db w)) \<and>
         (\<exists>r \<in> set (uuid_pools (db w)). up_uuid r = u \<and> up_card_hash r = c \<and> up_subcard_hash r = s \<and> \<not> up_consumed r)"
    "message_queue (db w') = message_queue (db w)"
    by auto
qed

lemma relay_leaves: "leaves f (deliverToRelay p url uuid blob)"
  unfolding deliverToRelay_def by (intro leaves_intros)

lemma query_Inl_pools: "query p (claimNextUuid c s) w = (Inl e, w') \<Longrightarrow> db w' = db w"
  by (auto simp: query_def claimNextUuid_def split: prod.splits sum.splits list.splits)

text \<open>The UUIDs an attempt spends are of the sub-card and were not spent before.\<close>

definition unspent :: "string \<Rightarrow> string \<Rightarrow> uuid_row list \<Rightarrow> string set" where
  "unspent c s rows = {up_uuid r | r. r \<in> set rows \<and> up_card_hash r = c \<and> up_subcard_hash r = s \<and> \<not> up_consumed r}"

lemma unspent_spend: "u \<in> unspent c s (spend us rows) \<Longrightarrow> u \<in> unspent c s rows \<and> u \<notin> us"
  by (auto simp: unspent_def spend_def update_where_def split: if_splits)

lemma marked_message:
  assumes "query p (setDeliveryUuid m u) w = (r, w')"
  shows "uuid_pools (db w') = uuid_pools (db w)"
    "message_queue (db w') = message_queue (db w) \<or>
     message_queue (db w') = update_where (\<lambda>r. mq_id r = m) (\<lambda>r. r\<lparr>mq_delivery_uuid := Some u\<rparr>) (message_queue (db w))"
  using assms by (auto simp: query_def setDeliveryUuid_def split: prod.splits sum.splits)

definition assigned :: "string \<Rightarrow> string set \<Rightarrow> message_row list \<Rightarrow> message_row list \<Rightarrow> bool" where
  "assigned m us rows rows' \<longleftrightarrow> rows' = rows \<or>
     (\<exists>u \<in> us. rows' = update_where (\<lambda>r. mq_id r = m) (\<lambda>r. r\<lparr>mq_delivery_uuid := Some u\<rparr>) rows)"

text \<open>
  A delivery of \<open>m\<close> to the sub-card \<open>s\<close> took the database \<open>d\<close> to \<open>d'\<close> and spent the UUIDs \<open>us\<close>.
\<close>

definition spent_by :: "message_row \<Rightarrow> string \<Rightarrow> string list \<Rightarrow> database \<Rightarrow> database \<Rightarrow> bool" where
  "spent_by m s us d d' \<longleftrightarrow> distinct us \<and> set us \<subseteq> unspent (mq_card_hash m) s (uuid_pools d) \<and>
     uuid_pools d' = spend (set us) (uuid_pools d) \<and>
     assigned (mq_id m) (set us) (message_queue d) (message_queue d')"

lemma spent_nothing:
  "uuid_pools d' = uuid_pools d \<Longrightarrow> message_queue d' = message_queue d \<Longrightarrow>
    \<exists>us. length us \<le> n \<and> spent_by m s us d d'"
  by (intro exI [of _ "[]"]) (simp add: spent_by_def spend_simps assigned_def)

lemma spent_one:
  "u \<in> unspent (mq_card_hash m) s (uuid_pools d) \<Longrightarrow> uuid_pools d' = spend {u} (uuid_pools d) \<Longrightarrow>
    assigned (mq_id m) {u} (message_queue d) (message_queue d') \<Longrightarrow> \<exists>us. length us \<le> Suc n \<and> spent_by m s us d d'"
  by (intro exI [of _ "[u]"]) (simp add: spent_by_def)

lemma spent_more:
  assumes "u \<in> unspent (mq_card_hash m) s (uuid_pools d)" "uuid_pools d1 = spend {u} (uuid_pools d)"
    "message_queue d1 = message_queue d" "length us \<le> n" "spent_by m s us d1 d'"
  shows "\<exists>us. length us \<le> Suc n \<and> spent_by m s us d d'"
proof -
  have "u \<notin> set us" "set us \<subseteq> unspent (mq_card_hash m) s (uuid_pools d)"
    using assms unspent_spend unfolding spent_by_def by (metis insertI1 subset_eq)+
  with assms show ?thesis
    by (intro exI [of _ "u # us"]) (auto simp: spent_by_def spend_simps assigned_def)
qed

lemma deliver_attempts_spend:
  assumes "deliver_attempts p cfg m s n w = (r, w')"
  shows "\<exists>us. length us \<le> n \<and> spent_by m s us (db w) (db w')"
  using assms
proof (induction n arbitrary: w)
  case 0
  then show ?case by (intro spent_nothing) (auto simp: retA_run)
next
  case (Suc n)
  obtain claimed w1 where claim: "query p (claimNextUuid (mq_card_hash m) s) w = (claimed, w1)" by fastforce
  show ?case
  proof (cases claimed)
    case (Inl e)
    with claim Suc.prems have "db w' = db w" using query_Inl_pools by (auto simp: bindA_throw)
    then show ?thesis by (intro spent_nothing) simp_all
  next
    case (Inr a)
    show ?thesis
    proof (cases a)
      case None
      with Inr claim Suc.prems have "w' = w1" by (simp add: bindA_step retA_run)
      with claimed_uuid [OF claim [unfolded Inr]] None show ?thesis by (intro spent_nothing) simp_all
    next
      case (Some u)
      have pools: "uuid_pools (db w1) = spend {u} (uuid_pools (db w))" "message_queue (db w1) = message_queue (db w)"
        and u: "u \<in> unspent (mq_card_hash m) s (uuid_pools (db w))"
        using claimed_uuid [OF claim [unfolded Inr Some]] by (auto simp: unspent_def)
      obtain result w2 where relay: "deliverToRelay p (RELAY_BASE_URL cfg) u (mq_payload m) w1 = (result, w2)" by fastforce
      note same = leavesD [OF relay_leaves relay, of uuid_pools] leavesD [OF relay_leaves relay, of message_queue]
      show ?thesis
      proof (cases result)
        case (Inl e)
        with Suc.prems claim Some \<open>claimed = Inr a\<close> relay have "w' = w2" by (simp add: bindA_def)
        with pools same show ?thesis by (intro spent_one [OF u]) (simp_all add: assigned_def)
      next
        case (Inr d)
        show ?thesis
        proof (cases "d = Delivered")
          case True
          with Suc.prems claim Some \<open>claimed = Inr a\<close> relay Inr have "query p (setDeliveryUuid (mq_id m) u) w2 = (r, w')"
            by (simp add: bindA_def)
          from marked_message [OF this] pools same show ?thesis by (intro spent_one [OF u]) (auto simp: assigned_def)
        next
          case False
          with Suc.prems claim Some \<open>claimed = Inr a\<close> relay Inr have "deliver_attempts p cfg m s n w2 = (r, w')"
            by (simp add: bindA_def)
          from Suc.IH [OF this] obtain us where "length us \<le> n" "spent_by m s us (db w2) (db w')" by blast
          with u pools same show ?thesis by (intro spent_more) simp_all
        qed
      qed
    qed
  qed
qed

text \<open>C25. Delivering a message tries the relay with at most five UUIDs: whatever the relay answers and
  however the run ends, the UUIDs it spent are at most \<open>MAX_UUID_ATTEMPTS\<close>, all different, all of the
  pool of this card and sub-card and none of them spent before; exactly these are marked consumed, no
  row of the pools is otherwise changed, and the message either keeps its delivery UUID or gets one
  of those just spent.\<close>

theorem delivery_spends_few_fresh_uuids:
  assumes "deliverMessage p cfg m w = (r, w')" "mq_subcard_hash m = Some s"
  shows "\<exists>us. length us \<le> 5 \<and> distinct us \<and>
     (\<forall>u \<in> set us. \<exists>row \<in> set (uuid_pools (db w)). up_uuid row = u \<and> up_card_hash row = mq_card_hash m \<and>
        up_subcard_hash row = s \<and> \<not> up_consumed row) \<and>
     uuid_pools (db w') = map (\<lambda>row. if up_uuid row \<in> set us then row\<lparr>up_consumed := True\<rparr> else row) (uuid_pools (db w)) \<and>
     (message_queue (db w') = message_queue (db w) \<or> (\<exists>u \<in> set us. message_queue (db w') =
        map (\<lambda>row. if mq_id row = mq_id m then row\<lparr>mq_delivery_uuid := Some u\<rparr> else row) (message_queue (db w))))"
proof (cases "truthy_text (mq_subcard_hash m)")
  case True
  with assms have "deliver_attempts p cfg m s MAX_UUID_ATTEMPTS w = (r, w')" by (simp add: deliverMessage_def)
  from deliver_attempts_spend [OF this] obtain us where "length us \<le> 5" "spent_by m s us (db w) (db w')"
    by (auto simp: MAX_UUID_ATTEMPTS_def)
  then show ?thesis
    by (intro exI [of _ us]) (auto simp: spent_by_def unspent_def assigned_def spend_def update_where_def)
next
  case False
  with assms show ?thesis by (intro exI [of _ "[]"]) (simp add: deliverMessage_def retA_run)
qed

definition ex_pool_row :: "string \<Rightarrow> uuid_row" where
  "ex_pool_row u = \<lparr>up_uuid = u, up_card_hash = ''c'', up_subcard_hash = ''s'', up_consumed = False,
     up_registered_at = 0, up_expires_at = 100\<rparr>"

definition ex_message :: message_row where
  "ex_message = \<lparr>mq_id = ''m'', mq_card_hash = ''c'', mq_subcard_hash = Some ''s'', mq_payload = ''blob'',
     mq_received_at = 0, mq_cleared = False, mq_cleared_at = None, mq_delivery_uuid = None\<rparr>"

definition ex_delivery :: "int wallet" where
  "ex_delivery = ex_wallet ((ex_database [])\<lparr>message_queue := [ex_message],
     uuid_pools := [ex_pool_row ''u'', ex_pool_row ''v'']\<rparr>) 1"

theorem delivery_spends_few_fresh_uuids_witness:
  "\<exists>(w' :: int wallet) us. length us \<le> 5 \<and> us \<noteq> [] \<and>
     map up_consumed (uuid_pools (db w')) = [True, False] \<and> distinct us \<and> ''u'' \<in> set us"
proof -
  obtain w' where run: "deliverMessage ex_services ex_wallet_config ex_message ex_delivery = (Inr (), w')"
      and pools: "map up_consumed (uuid_pools (db w')) = [True, False]"
    by (simp add: deliverMessage_def MAX_UUID_ATTEMPTS_def eval_nat_numeral ex_message_def truthy_text_def ex_delivery_def
        ex_runs claimNextUuid_def claimable_def ex_pool_row_def update_where_def deliverToRelay_def ex_fetch_ok_def
        setDeliveryUuid_def res_ok_def)
  have "mq_subcard_hash ex_message = Some ''s''" by (simp add: ex_message_def)
  from delivery_spends_few_fresh_uuids [OF run this] obtain us where us: "length us \<le> 5" "distinct us"
      and after: "uuid_pools (db w') = map (\<lambda>row. if up_uuid row \<in> set us then row\<lparr>up_consumed := True\<rparr> else row)
        (uuid_pools (db ex_delivery))"
    by blast
  have "''u'' \<in> set us"
    using pools after by (simp add: ex_delivery_def ex_pool_row_def split: if_split_asm)
  with us pools show ?thesis
    by (intro exI [of _ w'] exI [of _ us]) auto
qed

section \<open>Notification attempts\<close>

text \<open>
  The invariant of the jobs: ids are unique and a pending job has at least one attempt left. A job moves
  when attempts are recorded in it: the count grows, for a pending job to at most five, and a job that is no
  longer pending stays as it is.
\<close>

definition jobs_ok :: "job_row list \<Rightarrow> bool" where
  "jobs_ok jobs \<longleftrightarrow> distinct (map nj_id jobs) \<and>
     (\<forall>j \<in> set jobs. nj_status j = Job_Pending \<longrightarrow> 0 \<le> nj_attempts j \<and> nj_attempts j < MAX_ATTEMPTS)"

definition job_moved :: "job_row \<Rightarrow> job_row \<Rightarrow> bool" where
  "job_moved j j' \<longleftrightarrow> nj_id j' = nj_id j \<and> nj_attempts j \<le> nj_attempts j' \<and>
     (if nj_status j = Job_Pending then nj_attempts j' \<le> MAX_ATTEMPTS else j' = j)"

text \<open>The attempts recorded in all jobs.\<close>

definition recorded :: "job_row list \<Rightarrow> int" where
  "recorded jobs = sum_list (map nj_attempts jobs)"

definition jobs_moved :: "job_row list \<Rightarrow> job_row list \<Rightarrow> bool" where
  "jobs_moved jobs jobs' \<longleftrightarrow> jobs_ok jobs' \<and> list_all2 job_moved jobs jobs'"

lemma job_moved_trans: "job_moved i j \<Longrightarrow> job_moved j k \<Longrightarrow> job_moved i k"
  by (auto simp: job_moved_def split: if_splits)

lemma jobs_moved_refl: "jobs_ok jobs \<Longrightarrow> jobs_moved jobs jobs"
  unfolding jobs_moved_def by (auto simp: jobs_ok_def job_moved_def intro!: list.rel_refl_strong)

lemma jobs_moved_trans: "jobs_moved a b \<Longrightarrow> jobs_moved b c \<Longrightarrow> jobs_moved a c"
  unfolding jobs_moved_def using list_all2_trans [of job_moved job_moved job_moved a b c] job_moved_trans by blast

lemma recorded_mono: "list_all2 job_moved jobs jobs' \<Longrightarrow> recorded jobs \<le> recorded jobs'"
  by (induction rule: list_all2_induct) (auto simp: recorded_def job_moved_def)

lemma one_job_moves:
  assumes "jobs_ok jobs" "j \<in> set jobs" "nj_status j = Job_Pending" "\<And>r. nj_id (f r) = nj_id r"
    and "nj_attempts (f j) = nj_attempts j + 1" "nj_status (f j) \<noteq> Job_Pending \<or> nj_attempts j + 1 < MAX_ATTEMPTS"
  shows "jobs_moved jobs (update_where (\<lambda>r. nj_id r = nj_id j) f jobs)"
    "recorded (update_where (\<lambda>r. nj_id r = nj_id j) f jobs) = recorded jobs + 1"
proof -
  have only: "r = j" if "r \<in> set jobs" "nj_id r = nj_id j" for r
    using assms(1,2) that by (auto simp: jobs_ok_def distinct_map dest: inj_onD)
  have upd: "update_where (\<lambda>r. nj_id r = nj_id j) f jobs = map (\<lambda>r. if r = j then f j else r) jobs"
    using only by (auto simp: update_where_def)
  have ids: "map nj_id (update_where (\<lambda>r. nj_id r = nj_id j) f jobs) = map nj_id jobs"
    using assms(4) by (auto simp: upd)
  have left: "0 \<le> nj_attempts j" "nj_attempts j < MAX_ATTEMPTS" using assms(1-3) by (auto simp: jobs_ok_def)
  have "jobs_ok (update_where (\<lambda>r. nj_id r = nj_id j) f jobs)"
    unfolding jobs_ok_def ids using assms by (auto simp: jobs_ok_def upd)
  moreover have "list_all2 job_moved jobs (map (\<lambda>r. if r = j then f j else r) jobs)"
    using assms left by (auto simp: list_all2_conv_all_nth job_moved_def jobs_ok_def)
  ultimately show "jobs_moved jobs (update_where (\<lambda>r. nj_id r = nj_id j) f jobs)"
    by (simp add: jobs_moved_def upd)
  obtain xs ys where jobs: "jobs = xs @ j # ys" using assms(2) by (auto simp: in_set_conv_decomp)
  with assms(1) have "j \<notin> set xs" "j \<notin> set ys" by (auto simp: jobs_ok_def)
  then have same: "map (\<lambda>r. if r = j then f j else r) jobs = xs @ f j # ys" by (auto simp: jobs intro!: map_idI)
  show "recorded (update_where (\<lambda>r. nj_id r = nj_id j) f jobs) = recorded jobs + 1"
    unfolding upd same using assms(5) by (simp add: recorded_def jobs)
qed

text \<open>One attempt: when it returns it is recorded in its own job, when it throws nothing is recorded.\<close>

lemma attempt_is_recorded:
  assumes run: "attempt_job p cfg j w = (r, w')"
  shows "(\<exists>e. r = Inl e) \<and> notification_jobs (db w') = notification_jobs (db w) \<or>
    (\<exists>b f. r = Inr b \<and> notification_jobs (db w') = update_where (\<lambda>r. nj_id r = nj_id j) f (notification_jobs (db w)) \<and>
      (\<forall>r. nj_id (f r) = nj_id r) \<and> nj_attempts (f j) = nj_attempts j + 1 \<and>
      (nj_status (f j) \<noteq> Job_Pending \<or> nj_attempts j + 1 < MAX_ATTEMPTS))"
proof -
  let ?attempt = "bindA (dispatchNotificationJob p (getDispatchDeps cfg) (nj_channel j) (nj_payload j))
    (\<lambda>_. bindA (query p (markJobSent (nj_id j))) (\<lambda>_. retA True))"
  obtain res w1 where t: "?attempt w = (res, w1)" by fastforce
  obtain d w2 where dispatch: "dispatchNotificationJob p (getDispatchDeps cfg) (nj_channel j) (nj_payload j) w = (d, w2)"
    by fastforce
  note same = leavesD [OF leaves_dispatch dispatch, of notification_jobs]
  show ?thesis
  proof (cases res)
    case (Inr b)
    with t dispatch obtain "query p (markJobSent (nj_id j)) w2 = (Inr (), w1)" by (auto simp: bindA_Inr retA_run)
    moreover have "w' = w1" "r = Inr b" using run t Inr by (simp_all add: attempt_job_def catchA_def)
    ultimately show ?thesis
      using same by (auto simp: query_Inr markJobSent_def)
  next
    case (Inl e)
    have kept: "notification_jobs (db w1) = notification_jobs (db w)"
    proof (cases d)
      case (Inl e')
      with t dispatch same show ?thesis by (auto simp: bindA_def)
    next
      case (Inr u)
      with t dispatch \<open>res = Inl e\<close> have "db w1 = db w2"
        by (auto simp: bindA_def retA_run query_def markJobSent_def split: prod.splits sum.splits)
      with same show ?thesis by simp
    qed
    have failed: "bindA (query p (markJobFailed (nj_id j) (nj_attempts j))) (\<lambda>_. retA False) w1 = (r, w')"
      using run t Inl by (auto simp: attempt_job_def catchA_def)
    show ?thesis
    proof (cases r)
      case (Inl e')
      with failed have "db w' = db w1"
        by (auto simp: bindA_def retA_run query_def markJobFailed_def Let_def split: prod.splits sum.splits)
      with kept Inl show ?thesis by simp
    next
      case (Inr b)
      with failed have "query p (markJobFailed (nj_id j) (nj_attempts j)) w1 = (Inr (), w')"
        by (auto simp: bindA_Inr retA_run)
      with kept Inr show ?thesis
        by (auto simp: query_Inr markJobFailed_def Let_def split: if_splits)
    qed
  qed
qed

lemma attempt_uses_one:
  assumes run: "attempt_job p cfg j w = (r, w')" and ok: "jobs_ok (notification_jobs (db w))"
    and j: "j \<in> set (notification_jobs (db w))" "nj_status j = Job_Pending"
  shows "jobs_moved (notification_jobs (db w)) (notification_jobs (db w'))"
    "recorded (notification_jobs (db w')) = recorded (notification_jobs (db w)) + (case r of Inl e \<Rightarrow> 0 | Inr b \<Rightarrow> 1)"
    "\<And>k. k \<in> set (notification_jobs (db w)) \<Longrightarrow> k \<noteq> j \<Longrightarrow> k \<in> set (notification_jobs (db w'))"
proof -
  have other: "nj_id k \<noteq> nj_id j" if "k \<in> set (notification_jobs (db w))" "k \<noteq> j" for k
    using ok j that by (auto simp: jobs_ok_def distinct_map dest: inj_onD)
  from attempt_is_recorded [OF run] consider
    (throws) e where "r = Inl e" "notification_jobs (db w') = notification_jobs (db w)"
  | (returns) b f where "r = Inr b"
      "notification_jobs (db w') = update_where (\<lambda>r. nj_id r = nj_id j) f (notification_jobs (db w))"
      "\<forall>r. nj_id (f r) = nj_id r" "nj_attempts (f j) = nj_attempts j + 1"
      "nj_status (f j) \<noteq> Job_Pending \<or> nj_attempts j + 1 < MAX_ATTEMPTS"
    by blast
  then have "jobs_moved (notification_jobs (db w)) (notification_jobs (db w')) \<and>
    recorded (notification_jobs (db w')) = recorded (notification_jobs (db w)) + (case r of Inl e \<Rightarrow> 0 | Inr b \<Rightarrow> 1) \<and>
    (\<forall>k \<in> set (notification_jobs (db w)). k \<noteq> j \<longrightarrow> k \<in> set (notification_jobs (db w')))"
  proof cases
    case throws
    with ok show ?thesis by (simp add: jobs_moved_refl)
  next
    case returns
    have "k \<in> set (notification_jobs (db w'))" if "k \<in> set (notification_jobs (db w))" "k \<noteq> j" for k
      using other [OF that] that by (force simp: returns(2) update_where_def)
    with returns one_job_moves [OF ok j, of f] show ?thesis by simp
  qed
  then show "jobs_moved (notification_jobs (db w)) (notification_jobs (db w'))"
    "recorded (notification_jobs (db w')) = recorded (notification_jobs (db w)) + (case r of Inl e \<Rightarrow> 0 | Inr b \<Rightarrow> 1)"
    "\<And>k. k \<in> set (notification_jobs (db w)) \<Longrightarrow> k \<noteq> j \<Longrightarrow> k \<in> set (notification_jobs (db w'))"
    by blast+
qed

lemma sweep_moves_jobs:
  assumes "mapA (attempt_job p cfg) js w = (r, w')" "jobs_ok (notification_jobs (db w))"
    and "distinct js" "\<And>j. j \<in> set js \<Longrightarrow> j \<in> set (notification_jobs (db w)) \<and> nj_status j = Job_Pending"
  shows "jobs_moved (notification_jobs (db w)) (notification_jobs (db w')) \<and>
    (\<forall>rs. r = Inr rs \<longrightarrow> length rs = length js \<and>
       recorded (notification_jobs (db w')) = recorded (notification_jobs (db w)) + int (length js))"
  using assms
proof (induction js arbitrary: w r w')
  case Nil
  then show ?case by (auto simp: retA_run jobs_moved_refl)
next
  case (Cons j js)
  obtain r1 w1 where first: "attempt_job p cfg j w = (r1, w1)" by fastforce
  have j: "j \<in> set (notification_jobs (db w))" "nj_status j = Job_Pending" using Cons.prems(4) by auto
  note one = attempt_uses_one [OF first Cons.prems(2) j]
  show ?case
  proof (cases r1)
    case (Inl e)
    with first Cons.prems(1) have "r = Inl e" "w' = w1" by (auto simp: bindA_def)
    with one(1) show ?thesis by simp
  next
    case (Inr b)
    obtain r2 w2 where rest: "mapA (attempt_job p cfg) js w1 = (r2, w2)" by fastforce
    have w2: "w' = w2" "\<And>rs. r = Inr rs \<Longrightarrow> \<exists>rs'. r2 = Inr rs' \<and> rs = b # rs'"
      using Cons.prems(1) first rest Inr by (auto simp: bindA_def retA_run split: sum.splits)
    have "k \<in> set (notification_jobs (db w1)) \<and> nj_status k = Job_Pending" if "k \<in> set js" for k
      using one(3) Cons.prems(3,4) that by auto
    moreover have "jobs_ok (notification_jobs (db w1))" using one(1) by (simp add: jobs_moved_def)
    ultimately have IH: "jobs_moved (notification_jobs (db w1)) (notification_jobs (db w2)) \<and>
      (\<forall>rs. r2 = Inr rs \<longrightarrow> length rs = length js \<and>
         recorded (notification_jobs (db w2)) = recorded (notification_jobs (db w1)) + int (length js))"
      using Cons.IH [OF rest] Cons.prems(3) by auto
    with one(1) have "jobs_moved (notification_jobs (db w)) (notification_jobs (db w2))" by (blast intro: jobs_moved_trans)
    with IH w2 one(2) Inr show ?thesis by fastforce
  qed
qed

lemma sweep_progress:
  assumes run: "sweep_notification_retries p cfg w = (r, w')" and ok: "jobs_ok (notification_jobs (db w))"
  shows "jobs_moved (notification_jobs (db w)) (notification_jobs (db w'))"
    "r = Inr (due, sent, failed) \<Longrightarrow> due \<le> 100 \<and> due = sent + failed \<and>
       recorded (notification_jobs (db w')) = recorded (notification_jobs (db w)) + int due"
proof -
  obtain q w1 where find: "query p (findDueJobs 100) w = (q, w1)" by fastforce
  have "jobs_moved (notification_jobs (db w)) (notification_jobs (db w')) \<and>
    (r = Inr (due, sent, failed) \<longrightarrow> due \<le> 100 \<and> due = sent + failed \<and>
       recorded (notification_jobs (db w')) = recorded (notification_jobs (db w)) + int due)"
  proof (cases q)
    case (Inl e)
    with find have "db w1 = db w" by (auto simp: query_def findDueJobs_def split: prod.splits sum.splits)
    moreover have "r = Inl e" "w' = w1" using run find Inl by (auto simp: sweep_notification_retries_def bindA_def)
    ultimately show ?thesis using ok by (simp add: jobs_moved_refl)
  next
    case (Inr js)
    with find obtain now where same: "db w1 = db w" and js: "js = take 100 (sort_key nj_next_attempt_at
        (filter (\<lambda>r. nj_status r = Job_Pending \<and> nj_next_attempt_at r \<le> now) (notification_jobs (db w))))"
      by (auto simp: query_Inr findDueJobs_def)
    obtain r2 where each: "mapA (attempt_job p cfg) js w1 = (r2, w')"
        and r: "r = Inr (due, sent, failed) \<Longrightarrow>
          \<exists>rs. r2 = Inr rs \<and> due = length js \<and> sent = length (filter id rs) \<and> failed = length (filter Not rs)"
      using run find Inr
      by (cases "mapA (attempt_job p cfg) js w1"; cases "fst (mapA (attempt_job p cfg) js w1)")
        (auto simp: sweep_notification_retries_def bindA_def retA_run)
    have "distinct (notification_jobs (db w))" using ok by (auto simp: jobs_ok_def distinct_map)
    then have "distinct js" by (simp add: js)
    moreover have "j \<in> set (notification_jobs (db w1)) \<and> nj_status j = Job_Pending" if "j \<in> set js" for j
      using that same by (auto simp: js dest!: in_set_takeD)
    ultimately have swept: "jobs_moved (notification_jobs (db w)) (notification_jobs (db w')) \<and>
      (\<forall>rs. r2 = Inr rs \<longrightarrow> length rs = length js \<and>
         recorded (notification_jobs (db w')) = recorded (notification_jobs (db w)) + int (length js))"
      using sweep_moves_jobs [OF each] ok same by auto
    have "length js \<le> 100" by (simp add: js)
    then show ?thesis
      using swept r sum_length_filter_compl [of id] by (fastforce simp: comp_def)
  qed
  then show "jobs_moved (notification_jobs (db w)) (notification_jobs (db w'))"
    "r = Inr (due, sent, failed) \<Longrightarrow> due \<le> 100 \<and> due = sent + failed \<and>
       recorded (notification_jobs (db w')) = recorded (notification_jobs (db w)) + int due"
    by blast+
qed

text \<open>The outcomes of \<open>n\<close> runs of the task one after the other, and the attempts of those that returned.\<close>

abbreviation sweeps ::
    "('y, 'z) services_scheme \<Rightarrow> wallet_config \<Rightarrow> nat \<Rightarrow> ('y, (nat \<times> nat \<times> nat) res list) wact" where
  "sweeps p cfg n \<equiv> mapA (\<lambda>_. caught (sweep_notification_retries p cfg)) (replicate n ())"

definition attempts_of :: "(nat \<times> nat \<times> nat) res list \<Rightarrow> int" where
  "attempts_of outcomes = sum_list (map (\<lambda>r. case r of Inl e \<Rightarrow> 0 | Inr (due, _) \<Rightarrow> int due) outcomes)"

lemma sweeps_progress:
  "jobs_ok (notification_jobs (db w)) \<Longrightarrow> \<exists>outcomes w'. sweeps p cfg n w = (Inr outcomes, w') \<and> length outcomes = n \<and>
    jobs_moved (notification_jobs (db w)) (notification_jobs (db w')) \<and>
    (\<forall>due sent failed. Inr (due, sent, failed) \<in> set outcomes \<longrightarrow> due \<le> 100 \<and> due = sent + failed) \<and>
    attempts_of outcomes \<le> recorded (notification_jobs (db w')) - recorded (notification_jobs (db w)) \<and>
    ((\<forall>r \<in> set outcomes. \<exists>a. r = Inr a) \<longrightarrow>
       attempts_of outcomes = recorded (notification_jobs (db w')) - recorded (notification_jobs (db w)))"
proof (induction n arbitrary: w)
  case 0
  then show ?case by (simp add: retA_run jobs_moved_refl attempts_of_def)
next
  case (Suc n)
  obtain r w1 where first: "sweep_notification_retries p cfg w = (r, w1)" by fastforce
  note one = sweep_progress [OF first Suc.prems]
  from one(1) have "jobs_ok (notification_jobs (db w1))" by (simp add: jobs_moved_def)
  from Suc.IH [OF this] obtain outcomes w' where rest: "sweeps p cfg n w1 = (Inr outcomes, w')" "length outcomes = n"
      "jobs_moved (notification_jobs (db w1)) (notification_jobs (db w'))"
      "\<forall>due sent failed. Inr (due, sent, failed) \<in> set outcomes \<longrightarrow> due \<le> 100 \<and> due = sent + failed"
      "attempts_of outcomes \<le> recorded (notification_jobs (db w')) - recorded (notification_jobs (db w1))"
      "(\<forall>r \<in> set outcomes. \<exists>a. r = Inr a) \<longrightarrow>
         attempts_of outcomes = recorded (notification_jobs (db w')) - recorded (notification_jobs (db w1))"
    by blast
  have run: "sweeps p cfg (Suc n) w = (Inr (r # outcomes), w')"
    using first rest(1) by (simp add: bindA_def caught_eq retA_run)
  have grows: "recorded (notification_jobs (db w)) \<le> recorded (notification_jobs (db w1))"
    using one(1) by (simp add: jobs_moved_def recorded_mono)
  have counts: "attempts_of (r # outcomes) = (case r of Inl e \<Rightarrow> 0 | Inr (due, _) \<Rightarrow> int due) + attempts_of outcomes"
    by (simp add: attempts_of_def)
  have this_run: "(case r of Inl e \<Rightarrow> 0 | Inr (due, _) \<Rightarrow> int due) \<le> recorded (notification_jobs (db w1)) - recorded (notification_jobs (db w))"
    "(\<exists>a. r = Inr a) \<longrightarrow> (case r of Inl e \<Rightarrow> 0 | Inr (due, _) \<Rightarrow> int due) = recorded (notification_jobs (db w1)) - recorded (notification_jobs (db w))"
    using one(2) grows by (auto split: sum.split)
  have moved: "jobs_moved (notification_jobs (db w)) (notification_jobs (db w'))"
    using one(1) rest(3) by (rule jobs_moved_trans)
  have shapes: "\<forall>due sent failed. Inr (due, sent, failed) \<in> set (r # outcomes) \<longrightarrow> due \<le> 100 \<and> due = sent + failed"
    using one(2) rest(4) by auto
  show ?case
    using run rest(2) moved shapes counts this_run rest(5,6) by (intro exI [of _ "r # outcomes"] exI [of _ w']) auto
qed

lemma job_attempts_bounded:
  assumes "jobs_ok jobs" "list_all2 job_moved jobs jobs'"
  shows "recorded jobs' - recorded jobs \<le> 5 * int (length (filter (\<lambda>j. nj_status j = Job_Pending) jobs))"
proof -
  from assms(1) have "\<forall>j \<in> set jobs. nj_status j = Job_Pending \<longrightarrow> 0 \<le> nj_attempts j" by (auto simp: jobs_ok_def)
  with assms(2) show ?thesis
    by (induction rule: list_all2_induct) (auto simp: recorded_def job_moved_def MAX_ATTEMPTS_def split: if_splits)
qed

text \<open>
  C26. Retries of notifications run out for each job by itself. However often the retry task runs, whatever
  the mail, SMS and webhook services answer and whether the runs return or throw, every job keeps its place
  and its id; a job that is no longer pending is left exactly as it is; and in a job that is pending
  the recorded attempts grow to at most five. A run that returns takes at most 100 jobs and counts each
  once, as sent or as failed; the attempts of the runs that return are among those recorded in the
  jobs, and are all of them when every run returns. So there are at most five for each job that was
  pending at the start, and the jobs keep their invariant (unique ids, a pending job has attempts left).
\<close>

theorem notification_retries_run_out:
  assumes "jobs_ok (notification_jobs (db w))"
  shows "\<exists>outcomes w'. mapA (\<lambda>_. caught (sweep_notification_retries p cfg)) (replicate n ()) w = (Inr outcomes, w') \<and>
     length outcomes = n \<and> jobs_ok (notification_jobs (db w')) \<and>
     list_all2 (\<lambda>j j'. nj_id j' = nj_id j \<and> nj_attempts j \<le> nj_attempts j' \<and>
         (if nj_status j = Job_Pending then nj_attempts j' \<le> 5 else j' = j))
       (notification_jobs (db w)) (notification_jobs (db w')) \<and>
     (\<forall>due sent failed. Inr (due, sent, failed) \<in> set outcomes \<longrightarrow> due \<le> 100 \<and> due = sent + failed) \<and>
     attempts_of outcomes \<le> recorded (notification_jobs (db w')) - recorded (notification_jobs (db w)) \<and>
     ((\<forall>r \<in> set outcomes. \<exists>a. r = Inr a) \<longrightarrow>
        attempts_of outcomes = recorded (notification_jobs (db w')) - recorded (notification_jobs (db w))) \<and>
     attempts_of outcomes \<le> 5 * int (length (filter (\<lambda>j. nj_status j = Job_Pending) (notification_jobs (db w))))"
proof -
  from sweeps_progress [OF assms, of p cfg n] obtain outcomes w' where
    run: "sweeps p cfg n w = (Inr outcomes, w')" "length outcomes = n"
      "jobs_moved (notification_jobs (db w)) (notification_jobs (db w'))"
      "\<forall>due sent failed. Inr (due, sent, failed) \<in> set outcomes \<longrightarrow> due \<le> 100 \<and> due = sent + failed"
      "attempts_of outcomes \<le> recorded (notification_jobs (db w')) - recorded (notification_jobs (db w))"
      "(\<forall>r \<in> set outcomes. \<exists>a. r = Inr a) \<longrightarrow>
         attempts_of outcomes = recorded (notification_jobs (db w')) - recorded (notification_jobs (db w))"
    by blast
  moreover from run(3) have "jobs_ok (notification_jobs (db w'))" "list_all2 job_moved (notification_jobs (db w)) (notification_jobs (db w'))"
    by (simp_all add: jobs_moved_def)
  moreover from job_attempts_bounded [OF assms this(2)] run(5)
  have "attempts_of outcomes \<le> 5 * int (length (filter (\<lambda>j. nj_status j = Job_Pending) (notification_jobs (db w))))" by simp
  moreover have "list_all2 (\<lambda>j j'. nj_id j' = nj_id j \<and> nj_attempts j \<le> nj_attempts j' \<and>
         (if nj_status j = Job_Pending then nj_attempts j' \<le> 5 else j' = j))
       (notification_jobs (db w)) (notification_jobs (db w'))"
    by (rule list_all2_mono [OF \<open>list_all2 job_moved (notification_jobs (db w)) (notification_jobs (db w'))\<close>])
      (simp add: job_moved_def MAX_ATTEMPTS_def split: if_splits)
  ultimately show ?thesis by blast
qed

definition ex_job :: job_row where
  "ex_job = \<lparr>nj_id = ''j'', nj_recovery_id = ''w'', nj_channel = Sms, nj_payload = Obj [(''kind'', Str ''recovery_initiated'')],
     nj_status = Job_Pending, nj_attempts = 4, nj_next_attempt_at = 0, nj_sent_at = None, nj_created_at = 0\<rparr>"

theorem notification_retries_run_out_witness:
  "\<exists>(w' :: int wallet) (outcomes :: (nat \<times> nat \<times> nat) res list). attempts_of outcomes = 1 \<and>
     map nj_status (notification_jobs (db w')) = [Job_Failed] \<and> map nj_attempts (notification_jobs (db w')) = [5]"
proof -
  let ?w = "ex_wallet ((ex_database [ex_window])\<lparr>notification_jobs := [ex_job]\<rparr>) 1"
  obtain w' where run: "mapA (\<lambda>_. caught (sweep_notification_retries ex_services ex_wallet_config)) (replicate 3 ()) ?w =
        (Inr [Inr (1, 0, 1), Inr (0, 0, 0), Inr (0, 0, 0)], w')"
      and failed: "map nj_status (notification_jobs (db w')) = [Job_Failed]"
    by (simp add: sweep_notification_retries_def caught_eq findDueJobs_def ex_runs numeral_3_eq_3 ex_job_def attempt_job_def
        dispatchNotificationJob_def getDispatchDeps_def truthy_text_def markJobFailed_def MAX_ATTEMPTS_def update_where_def)
  have "jobs_ok (notification_jobs (db ?w))" by (simp add: jobs_ok_def ex_job_def MAX_ATTEMPTS_def)
  from notification_retries_run_out [OF this, of ex_services ex_wallet_config 3] run
  have "attempts_of [Inr (1, 0, 1), Inr (0, 0, 0), Inr (0, 0, 0)] =
      recorded (notification_jobs (db w')) - recorded (notification_jobs (db ?w))" by auto
  with failed show ?thesis
    by (intro exI [of _ w'] exI [of _ "[Inr (1, 0, 1), Inr (0, 0, 0), Inr (0, 0, 0)]"])
      (auto simp: attempts_of_def recorded_def ex_job_def map_eq_Cons_conv)
qed

end
