(* ===== verification/Wallet_Matrix_Properties.thy ===== *)
theory Wallet_Matrix_Properties
  imports Wallet_Account_Properties
begin

text \<open>
  The properties of the Matrix part and of the oblivious gateway of the wallet service: the
  room predicate against the verifier's policy match, what a discovery answers, what a malformed
  predicate document does to it, and what a failed key pair does to the gateway.
\<close>

section \<open>Room predicates\<close>

text \<open>A well-formed entry of a predicate document, its JSON, and the conditions it stands for.\<close>

record room_entry =
  re_pointer :: bool
  re_ref :: string
  re_resolved_ref :: "string option"
  re_field_match :: "(string \<times> string) option"

definition entry_js :: "room_entry \<Rightarrow> js" where
  "entry_js e = Obj ([(''ref_type'', Str (if re_pointer e then ''pointer'' else ''cid'')), (''ref'', Str (re_ref e))] @
     (case re_resolved_ref e of None \<Rightarrow> [] | Some s \<Rightarrow> [(''resolved_ref'', Str s)]) @
     (case re_field_match e of None \<Rightarrow> []
      | Some (name, regex) \<Rightarrow> [(''field_match'', Obj [(''field'', Str name), (''regex'', Str regex)])]))"

definition predicate_document :: "room_entry list \<Rightarrow> js" where
  "predicate_document es = Obj [(''policies'', Arr (map entry_js es))]"

definition entry_policy :: "room_entry \<Rightarrow> policy_match_conditions" where
  "entry_policy e = \<lparr>pc_policy_id = (case re_resolved_ref e of None \<Rightarrow> re_ref e | Some s \<Rightarrow> s),
     pc_field_match = (case re_field_match e of None \<Rightarrow> None | Some (name, regex) \<Rightarrow> Some [(name, Regex regex)])\<rparr>"

text \<open>The contents of a chain are values that have properties.\<close>

definition readable :: "chain_link list \<Rightarrow> bool" where
  "readable chain \<longleftrightarrow> (\<forall>l \<in> set chain. cl_card_content l \<noteq> Undef \<and> cl_card_content l \<noteq> Null)"

lemma js_prop_readable: "v \<noteq> Undef \<Longrightarrow> v \<noteq> Null \<Longrightarrow> js_prop v k = Inr (field v k)"
  by (cases v) (auto simp: field_def)

lemma strict_equal_text: "strict_equal v (Str s) \<longleftrightarrow> v = Str s"
proof (cases v)
  case (Num n)
  then show ?thesis by (cases n) auto
qed auto

lemma entryConditions_typed:
  "entryConditions p (entry_js e) = Inr \<lparr>rc_policy_id = Str (pc_policy_id (entry_policy e)),
     rc_field_match = map_option (\<lambda>(name, regex). (name, Str regex)) (re_field_match e)\<rparr>"
  by (auto simp: entryConditions_def entry_js_def entry_policy_def lookup_key_def field_def Let_def
      split: option.splits)

lemma conditions_match_policy:
  assumes "readable chain"
  shows "conditions_match p \<lparr>rc_policy_id = Str (pc_policy_id (entry_policy e)),
     rc_field_match = map_option (\<lambda>(name, regex). (name, Str regex)) (re_field_match e)\<rparr> chain =
     Inr (\<exists>l \<in> set chain. satisfies p (entry_policy e) l)"
  using assms
  by (induction chain)
    (auto simp: readable_def js_prop_readable strict_equal_text satisfies_def issued_under_def entry_policy_def split: option.splits prod.splits)

lemma policy_loop_returns:
  "readable chain \<Longrightarrow> \<exists>r. policy_loop p (entry_policy e) saw chain = Inr r"
  by (induction chain arbitrary: saw)
    (auto simp: readable_def js_prop_readable entry_policy_def all_fields_match_def split: option.splits)

lemma evaluatePolicyMatch_typed:
  assumes "readable chain"
  shows "\<exists>r. evaluatePolicyMatch p chain (Some (entry_policy e)) = Inr (Some r) \<and>
     (pm_matched r \<longleftrightarrow> (\<exists>l \<in> set chain. satisfies p (entry_policy e) l))"
proof -
  obtain r where "policy_loop p (entry_policy e) False chain = Inr r" using policy_loop_returns [OF assms] by blast
  with policy_loop_spec [OF this] show ?thesis by (simp add: evaluatePolicyMatch_def)
qed

lemma any_policy_typed:
  assumes "readable chain"
  shows "any_policy p chain (map entry_js es) = Inr (\<exists>e \<in> set es. \<exists>l \<in> set chain. satisfies p (entry_policy e) l)"
  by (induction es) (auto simp: entryConditions_typed conditions_match_policy [OF assms])

text \<open>The predicate of a room, evaluated by the loop the service has ported into room discovery, is the
  disjunction of the shared verifier's policy matches: on a predicate document of well-formed entries
  and a chain whose contents have properties, \<open>evaluateRoomPredicate\<close> never throws and answers true
  exactly if for one of the entries \<open>evaluatePolicyMatch\<close>, asked with the resolved reference (or
  the reference, when there is none) and the entry's field pattern, returns a match.\<close>

theorem room_predicate_is_any_policy_match:
  assumes "readable chain"
  shows "evaluateRoomPredicate p (predicate_document es) chain =
     Inr (\<exists>e \<in> set es. \<exists>r. evaluatePolicyMatch p chain (Some (entry_policy e)) = Inr (Some r) \<and> pm_matched r)"
proof -
  have "evaluateRoomPredicate p (predicate_document es) chain = Inr (\<exists>e \<in> set es. \<exists>l \<in> set chain. satisfies p (entry_policy e) l)"
    by (simp add: evaluateRoomPredicate_def predicate_document_def lookup_key_def any_policy_typed [OF assms])
  moreover have "(\<exists>r. evaluatePolicyMatch p chain (Some (entry_policy e)) = Inr (Some r) \<and> pm_matched r) \<longleftrightarrow>
      (\<exists>l \<in> set chain. satisfies p (entry_policy e) l)" for e
    using evaluatePolicyMatch_typed [OF assms, of p e] by force
  ultimately show ?thesis by simp
qed

definition ex_entry :: room_entry where
  "ex_entry = \<lparr>re_pointer = True, re_ref = ''ptr'', re_resolved_ref = Some ''q'', re_field_match = Some (''level'', ''gold'')\<rparr>"

definition ex_link :: chain_link where
  "ex_link = \<lparr>cl_card_address = ''05'', cl_public_key = ''AQ'', cl_card_content = Obj [(''policy_id'', Str ''q''), (''level'', Str ''gold'')]\<rparr>"

theorem room_predicate_is_any_policy_match_witness:
  "evaluateRoomPredicate ex_services (predicate_document [ex_entry]) [ex_link] = Inr True"
proof -
  have "readable [ex_link]" by (simp add: readable_def ex_link_def)
  from room_predicate_is_any_policy_match [OF this, of ex_services "[ex_entry]"] show ?thesis
    by (simp add: evaluatePolicyMatch_def entry_policy_def ex_entry_def ex_link_def lookup_key_def all_fields_match_def ex_services_def)
qed

section \<open>Discovery\<close>

lemma fetched_document:
  assumes "\<And>y. http_fetch p (get_request (joinUrl gateway policy)) y = (Inr \<lparr>fe_status = 200, fe_json = Inr doc\<rparr>, y)"
  shows "fetchPredicateDocument p policy gateway w = (Inr doc, w)"
  by (simp add: fetchPredicateDocument_def catchA_def bindA_def fetchY_def outY_run assms res_ok_def liftA_run)

text \<open>The rooms found are rooms of the index whose document admits the chain.\<close>

lemma rooms_found:
  "mapA (room_eligible p cfg chain) rooms w = (Inr found, w') \<Longrightarrow> i \<in> set (concat found) \<Longrightarrow>
    \<exists>room \<in> set rooms. \<exists>doc w1 w2. mr_room_id room = i \<and>
      fetchPredicateDocument p (mr_policy_id room) (IPFS_GATEWAY_URL cfg) w1 = (Inr doc, w2) \<and>
      evaluateRoomPredicate p doc chain = Inr True"
proof (induction rooms arbitrary: w found)
  case (Cons room rooms)
  then obtain found1 w1 found2 where first: "room_eligible p cfg chain room w = (Inr found1, w1)"
      and rest: "mapA (room_eligible p cfg chain) rooms w1 = (Inr found2, w')" and found: "found = found1 # found2"
    by (auto simp: bindA_Inr retA_run)
  show ?case
  proof (cases "i \<in> set found1")
    case True
    with first show ?thesis
      by (fastforce simp: room_eligible_def bindA_Inr retA_run liftA_Inr split: if_split_asm)
  next
    case False
    with Cons.prems(2) found have "i \<in> set (concat found2)" by simp
    from Cons.IH [OF rest this] show ?thesis by auto
  qed
qed (simp add: retA_run)

lemma discovery_chain_Inr:
  "discovery_chain v c = Inr chain \<Longrightarrow> \<exists>s ss. er_signatures v = s # ss \<and> sr_signature_valid s = Some True \<and>
    sr_signer_card s = c \<and> chain = (case sr_chain s of None \<Rightarrow> [] | Some chain \<Rightarrow> chain)"
  by (auto simp: discovery_chain_def split: list.split_asm if_split_asm)

text \<open>What room discovery answers is earned: when \<open>discoverEligibleRooms\<close> returns, the verifier has
  accepted the submitted envelope, its first signature is cryptographically valid and made by the card
  of the session, and every room in the answer is a room of the index whose predicate document, as
  fetched from the gateway, admits the chain of exactly that signature.\<close>

theorem discovered_rooms_are_earned:
  assumes "discoverEligibleRooms p cfg verifier env card_hash rooms w = (Inr ids, w')"
  shows "\<exists>verification s ss w1. verifier env w = (Inr verification, w1) \<and> er_signatures verification = s # ss \<and>
     sr_signature_valid s = Some True \<and> sr_signer_card s = card_hash \<and>
     (\<forall>i \<in> set ids. \<exists>room \<in> set rooms. \<exists>doc w2 w3. mr_room_id room = i \<and>
        fetchPredicateDocument p (mr_policy_id room) (IPFS_GATEWAY_URL cfg) w2 = (Inr doc, w3) \<and>
        evaluateRoomPredicate p doc (case sr_chain s of None \<Rightarrow> [] | Some chain \<Rightarrow> chain) = Inr True)"
proof -
  obtain verification w1 chain found where v: "verifier env w = (Inr verification, w1)"
      and chain: "discovery_chain verification card_hash = Inr chain"
      and found: "mapA (room_eligible p cfg chain) rooms w1 = (Inr found, w')" "ids = concat found"
    using assms by (auto simp: discoverEligibleRooms_def bindA_Inr liftA_Inr retA_run)
  from discovery_chain_Inr [OF chain] rooms_found [OF found(1)] v found(2) show ?thesis by fastforce
qed

definition ex_signature :: signature_result where
  "ex_signature = \<lparr>sr_signer_card = ''c'', sr_signature_valid = Some True, sr_scope_clean = Flag True,
     sr_chain_reaches_trusted_root = Flag True, sr_chain_card_addresses = [''05''], sr_app_card_chain_valid = Flag True,
     sr_revocation = \<lparr>rs_status = Not_Revoked, rs_code = None, rs_effective_date = Null, rs_data_freshness_seconds = 0\<rparr>,
     sr_was_valid_at_signing_time = Flag True, sr_is_currently_valid = Flag True, sr_log_updates = [],
     sr_policy_compliant = Compliant True, sr_policy_match = None, sr_press_subsequently_revoked = False,
     sr_non_compliance_reported = False, sr_addressed_to_verifier = True, sr_errors = [], sr_annotations = [],
     sr_chain = Some [ex_link]\<rparr>"

definition ex_verification :: envelope_result where
  "ex_verification = \<lparr>er_envelope_id = ''e'', er_verified_at = ''t'', er_protocol_version = ''1'',
     er_signatures = [ex_signature], er_policy_match = None\<rparr>"

definition ex_discovery_services :: "js \<Rightarrow> int services" where
  "ex_discovery_services doc = ex_services\<lparr>http_fetch := (\<lambda>req y. (Inr \<lparr>fe_status = 200, fe_json = Inr doc\<rparr>, y))\<rparr>"

definition ex_room :: room_row where
  "ex_room = \<lparr>mr_room_id = ''r'', mr_policy_id = ''cid'', mr_created_at = 0\<rparr>"

lemma ex_fetched_document: "fetchPredicateDocument (ex_discovery_services doc) policy gateway w = (Inr doc, w)"
  by (rule fetched_document) (simp add: ex_discovery_services_def)

theorem discovered_rooms_are_earned_witness:
  "\<exists>room \<in> set [ex_room]. \<exists>doc (w2 :: int wallet) w3. mr_room_id room = ''r'' \<and>
     fetchPredicateDocument (ex_discovery_services (predicate_document [ex_entry])) (mr_policy_id room) (IPFS_GATEWAY_URL ex_wallet_config) w2 = (Inr doc, w3) \<and>
     evaluateRoomPredicate (ex_discovery_services (predicate_document [ex_entry])) doc [ex_link] = Inr True"
proof -
  let ?p = "ex_discovery_services (predicate_document [ex_entry])" and ?w = "ex_wallet (ex_database []) 1"
  have "evaluateRoomPredicate ?p (predicate_document [ex_entry]) [ex_link] = Inr True"
    by (simp add: evaluateRoomPredicate_def predicate_document_def lookup_key_def entryConditions_typed)
      (simp add: entry_policy_def ex_entry_def ex_link_def ex_discovery_services_def ex_services_def lookup_key_def field_def)
  then have "discoverEligibleRooms ?p ex_wallet_config (\<lambda>env. retA ex_verification) Null ''c'' [ex_room] ?w = (Inr [''r''], ?w)"
    by (simp add: discoverEligibleRooms_def bindA_def retA_run liftA_run discovery_chain_def ex_verification_def ex_signature_def
        room_eligible_def ex_fetched_document predicate_document_def ex_room_def)
  from discovered_rooms_are_earned [OF this] show ?thesis
    by (auto simp: retA_run ex_verification_def ex_signature_def)
qed

text \<open>One malformed predicate document in the room index stops room discovery for everyone: when the
  gateway serves for some room a document whose \<open>policies\<close> is present and cannot be iterated, then
  \<open>discoverEligibleRooms\<close> throws for every caller, every envelope and every chain, whatever the other
  rooms are and wherever the bad room stands, although the code says that a document that does not
  parse is skipped.\<close>

theorem bad_predicate_stops_discovery:
  assumes "room \<in> set rooms"
    and "\<And>y. http_fetch p (get_request (joinUrl (IPFS_GATEWAY_URL cfg) (mr_policy_id room))) y =
      (Inr \<lparr>fe_status = 200, fe_json = Inr (Obj [(''policies'', policies)])\<rparr>, y)"
    and "policies \<noteq> Undef" "policies \<noteq> Null" "js_iterate policies = Inl e"
  shows "\<exists>e'. fst (discoverEligibleRooms p cfg verifier env card_hash rooms w) = Inl e'"
proof -
  have bad: "room_eligible p cfg chain room v = (Inl e, v)" for chain v
  proof -
    have "nullish policies (Arr []) = policies" using assms(3,4) by (cases policies) auto
    with assms(5) show ?thesis
      using fetched_document [OF assms(2), of v]
      by (simp add: room_eligible_def bindA_def evaluateRoomPredicate_def lookup_key_def liftA_run)
  qed
  have all: "mapA (room_eligible p cfg chain) rooms v \<noteq> (Inr found, v')" for chain v found v'
    using assms(1)
  proof (induction rooms arbitrary: v found)
    case (Cons r rs)
    then show ?case by (cases "r = room") (auto simp: bindA_Inr bad retA_run)
  qed simp
  show ?thesis
  proof (cases "fst (discoverEligibleRooms p cfg verifier env card_hash rooms w)")
    case (Inr ids)
    then obtain w' where "discoverEligibleRooms p cfg verifier env card_hash rooms w = (Inr ids, w')" by (metis prod.collapse)
    with all show ?thesis by (auto simp: discoverEligibleRooms_def bindA_Inr)
  qed simp
qed

theorem bad_predicate_stops_discovery_witness:
  "\<exists>e'. fst (discoverEligibleRooms (ex_discovery_services (Obj [(''policies'', Num (Fin 1))])) ex_wallet_config
     (\<lambda>env. retA ex_verification) Null ''c'' [ex_room] (ex_wallet (ex_database []) 1)) = Inl e'"
  by (rule bad_predicate_stops_discovery [of ex_room _ _ _ "Num (Fin 1)"]) (simp_all add: ex_discovery_services_def)

section \<open>The key pair of the gateway\<close>

text \<open>A gateway that fails to load its key pair once stays broken: when the first load ends in an error,
  for instance because the database or the key service did not answer for a moment, the error is
  remembered in place of the key pair, and every later request for the key configuration and every
  later oblivious request of that process ends in that same error without trying again, whatever
  the database and the key service answer by then.\<close>

theorem failed_key_load_is_kept:
  assumes "ohttp_keypair w = None" "load_keypair p cfg w = (Inl e, w1)"
  shows "\<exists>w'. key_config_route p cfg w = (Inl e, w') \<and> ohttp_keypair w' = Some (Inl e) \<and>
     (\<forall>v. ohttp_keypair v = ohttp_keypair w' \<longrightarrow> key_config_route p cfg v = (Inl e, v) \<and>
        (\<forall>ip body. truthy (field body ''enc'') \<longrightarrow> truthy (field body ''ciphertext'') \<longrightarrow>
           gateway_route p cfg ip body v = (Inl e, v)))"
proof -
  have "key_config_route p cfg w = (Inl e, w1\<lparr>ohttp_keypair := Some (Inl e)\<rparr>)"
    using assms by (simp add: key_config_route_def getKeyConfig_def getOrCreateKeypair_def bindA_def readA_run caught_def
        catchA_def remember_keypair_def liftA_run retA_run)
  moreover have again: "getOrCreateKeypair p cfg v = (Inl e, v)" if "ohttp_keypair v = Some (Inl e)" for v
    using that by (simp add: getOrCreateKeypair_def bindA_def readA_run liftA_run)
  ultimately show ?thesis
    by (intro exI [of _ "w1\<lparr>ohttp_keypair := Some (Inl e)\<rparr>"])
      (simp add: key_config_route_def getKeyConfig_def gateway_route_def decapsulate_def need_def guardA_run bindA_def Let_def)
qed

theorem failed_key_load_is_kept_witness:
  "\<exists>w' :: int wallet. key_config_route ex_services ex_wallet_config w' = (Inl (DbError ''57P01'' ''terminating connection''), w')"
proof -
  let ?w = "ex_wallet (ex_database []) (- 1)"
  have "load_keypair ex_services ex_wallet_config ?w = (Inl (DbError ''57P01'' ''terminating connection''), ?w)"
    by (simp add: load_keypair_def kv_getItem_def pg_getItem_def bindA_def liftA_run query_def sql_string_def KV_KEY_def)
  from failed_key_load_is_kept [OF _ this] show ?thesis by auto
qed

end
