(* ===== verification/Relay_Store.thy ===== *)
theory Relay_Store
  imports Js_Runtime Js_Double Programs
begin

text \<open>
  The stores of the relay (\<open>relay/src/utils/storage\<close>): Redis keeps the UUIDs, the device
  credentials, the buffered messages and the pending deletes, SQLite keeps the registry of
  devices. A Redis command is a function of the server's time (milliseconds) and the keyspace;
  a Lua script is one command. A key whose time to live has passed is gone. Keys are modelled
  per prefix (\<open>uuid:\<close>, \<open>cred:\<close>, \<open>messages:\<close>), values by the records whose fields or JSON text
  they hold.
\<close>

section \<open>Data\<close>

datatype uuid_status = Unused | In_Flight | Active | Consumed

record relay_uuid =
  ru_app_id :: string
  ru_push_token :: string
  ru_wallet_base_url :: string
  ru_device_credential :: string
  ru_status :: uuid_status
  ru_created_at :: string

text \<open>A credential that was refreshed after it had expired consists of its push token only.\<close>

record credential_hash =
  ch_push_token :: string
  ch_app_id :: "string option"
  ch_created_at :: "string option"

record pending_message =
  pm_uuid :: string
  pm_blob :: string
  pm_wallet_url :: string
  pm_received_at :: string

record delete_job =
  dj_wallet_url :: string
  dj_uuid :: string
  dj_attempts :: int

text \<open>A value with the time at which it expires, if a time to live was set.\<close>

type_synonym 'v expiring = "'v \<times> int option"

record redis =
  rd_uuids :: "(string \<times> relay_uuid expiring) list"
  rd_credentials :: "string \<Rightarrow> credential_hash expiring option"
  rd_messages :: "string \<Rightarrow> pending_message list expiring option"
  rd_deletes :: "(delete_job \<times> int) list"

record device_row =
  dr_push_token :: string
  dr_app_id :: string
  dr_last_registered_at :: string

section \<open>Redis\<close>

type_synonym 'a command = "int \<Rightarrow> redis \<Rightarrow> 'a res \<times> redis"

definition live :: "int \<Rightarrow> 'v expiring \<Rightarrow> bool" where
  "live t v \<longleftrightarrow> (case snd v of None \<Rightarrow> True | Some e \<Rightarrow> t \<le> e)"

text \<open>The value of a key, and writing one.\<close>

definition look :: "int \<Rightarrow> 'v expiring option \<Rightarrow> 'v option" where
  "look t v = (case v of None \<Rightarrow> None | Some x \<Rightarrow> if live t x then Some (fst x) else None)"

definition uuid_at :: "int \<Rightarrow> redis \<Rightarrow> string \<Rightarrow> relay_uuid option" where
  "uuid_at t r u = look t (map_of (rd_uuids r) u)"

fun put_row :: "'k \<Rightarrow> 'v \<Rightarrow> ('k \<times> 'v) list \<Rightarrow> ('k \<times> 'v) list" where
  "put_row k v [] = [(k, v)]"
| "put_row k v ((k', v') # rows) = (if k' = k then (k, v) # rows else (k', v') # put_row k v rows)"

definition drop_row :: "'k \<Rightarrow> ('k \<times> 'v) list \<Rightarrow> ('k \<times> 'v) list" where
  "drop_row k rows = filter (\<lambda>(k', v). k' \<noteq> k) rows"

text \<open>\<open>HSET\<close> keeps the time to live of a key that exists.\<close>

definition ttl_of :: "int \<Rightarrow> 'v expiring option \<Rightarrow> int option" where
  "ttl_of t v = (case v of None \<Rightarrow> None | Some x \<Rightarrow> if live t x then snd x else None)"

text \<open>\<open>EXPIRE\<close> of a value: \<open>None\<close> if the key is deleted at once; \<open>NaN\<close> is refused.\<close>

definition not_an_integer :: exn where
  "not_an_integer = JsError ''ReplyError: ERR value is not an integer or out of range''"

definition expire_value :: "int \<Rightarrow> int \<Rightarrow> 'v expiring option \<Rightarrow> 'v expiring option" where
  "expire_value t secs v = (case v of None \<Rightarrow> None
     | Some x \<Rightarrow> if live t x \<and> 0 < secs then Some (fst x, Some (t + secs * 1000)) else None)"

definition expire_uuid :: "string \<Rightarrow> js_number \<Rightarrow> unit command" where
  "expire_uuid u ttlSeconds t r =
     (case ttlSeconds of Fin secs \<Rightarrow>
        (Inr (), case expire_value t secs (map_of (rd_uuids r) u) of
             None \<Rightarrow> r\<lparr>rd_uuids := drop_row u (rd_uuids r)\<rparr> | Some x \<Rightarrow> r\<lparr>rd_uuids := put_row u x (rd_uuids r)\<rparr>)
      | _ \<Rightarrow> (Inl not_an_integer, r))"

definition expire_credential :: "string \<Rightarrow> js_number \<Rightarrow> unit command" where
  "expire_credential c ttlSeconds t r =
     (case ttlSeconds of Fin secs \<Rightarrow>
        (Inr (), r\<lparr>rd_credentials := (rd_credentials r)(c := expire_value t secs (rd_credentials r c))\<rparr>)
      | _ \<Rightarrow> (Inl not_an_integer, r))"

definition expire_messages :: "string \<Rightarrow> js_number \<Rightarrow> unit command" where
  "expire_messages c ttlSeconds t r =
     (case ttlSeconds of Fin secs \<Rightarrow>
        (Inr (), r\<lparr>rd_messages := (rd_messages r)(c := expire_value t secs (rd_messages r c))\<rparr>)
      | _ \<Rightarrow> (Inl not_an_integer, r))"

subsection \<open>UUIDs\<close>

definition hgetall_uuid :: "string \<Rightarrow> relay_uuid option command" where
  "hgetall_uuid u t r = (Inr (uuid_at t r u), r)"

definition hset_uuid :: "string \<Rightarrow> relay_uuid \<Rightarrow> unit command" where
  "hset_uuid u rec t r =
     (Inr (), r\<lparr>rd_uuids := put_row u (rec, ttl_of t (map_of (rd_uuids r) u)) (rd_uuids r)\<rparr>)"

definition del_uuid :: "string \<Rightarrow> unit command" where
  "del_uuid u t r = (Inr (), r\<lparr>rd_uuids := drop_row u (rd_uuids r)\<rparr>)"

text \<open>\<open>TRANSITION_SCRIPT\<close>: check the status and set it, as one command.\<close>

datatype transition_result = Moved | Not_Found | Wrong_Status uuid_status

definition transition_script :: "string \<Rightarrow> uuid_status \<Rightarrow> uuid_status \<Rightarrow> transition_result command" where
  "transition_script u from to t r =
     (case map_of (rd_uuids r) u of
        None \<Rightarrow> (Inr Not_Found, r)
      | Some x \<Rightarrow>
          if \<not> live t x then (Inr Not_Found, r)
          else if ru_status (fst x) = Consumed then (Inr (Wrong_Status Consumed), r)
          else if ru_status (fst x) \<noteq> from then (Inr (Wrong_Status (ru_status (fst x))), r)
          else (Inr Moved, r\<lparr>rd_uuids := put_row u ((fst x)\<lparr>ru_status := to\<rparr>, snd x) (rd_uuids r)\<rparr>))"

definition hget_status :: "string \<Rightarrow> uuid_status option command" where
  "hget_status u t r = (Inr (map_option ru_status (uuid_at t r u)), r)"

subsection \<open>Credentials\<close>

definition credential_at :: "int \<Rightarrow> redis \<Rightarrow> string \<Rightarrow> credential_hash option" where
  "credential_at t r c = look t (rd_credentials r c)"

text \<open>\<open>getCredential\<close> takes a credential with an empty push token for missing.\<close>

definition hgetall_credential :: "string \<Rightarrow> credential_hash option command" where
  "hgetall_credential c t r =
     (Inr (case credential_at t r c of None \<Rightarrow> None | Some h \<Rightarrow> if ch_push_token h = [] then None else Some h), r)"

definition hset_credential :: "string \<Rightarrow> credential_hash \<Rightarrow> unit command" where
  "hset_credential c h t r =
     (Inr (), r\<lparr>rd_credentials := (rd_credentials r)(c \<mapsto> (h, ttl_of t (rd_credentials r c)))\<rparr>)"

definition exists_credential :: "string \<Rightarrow> bool command" where
  "exists_credential c t r = (Inr (credential_at t r c \<noteq> None), r)"

definition hset_push_token :: "string \<Rightarrow> string \<Rightarrow> unit command" where
  "hset_push_token c pushToken t r =
     (let h = (case credential_at t r c of
           None \<Rightarrow> \<lparr>ch_push_token = pushToken, ch_app_id = None, ch_created_at = None\<rparr>
         | Some h \<Rightarrow> h\<lparr>ch_push_token := pushToken\<rparr>)
      in (Inr (), r\<lparr>rd_credentials := (rd_credentials r)(c \<mapsto> (h, ttl_of t (rd_credentials r c)))\<rparr>))"

subsection \<open>Messages\<close>

definition messages_at :: "int \<Rightarrow> redis \<Rightarrow> string \<Rightarrow> pending_message list" where
  "messages_at t r c = (case look t (rd_messages r c) of None \<Rightarrow> [] | Some ms \<Rightarrow> ms)"

definition rpush_message :: "string \<Rightarrow> pending_message \<Rightarrow> unit command" where
  "rpush_message c m t r =
     (Inr (), r\<lparr>rd_messages := (rd_messages r)(c \<mapsto> (messages_at t r c @ [m], ttl_of t (rd_messages r c)))\<rparr>)"

text \<open>\<open>DRAIN_MESSAGES_SCRIPT\<close>: read the list and delete it, as one command.\<close>

definition drain_script :: "string \<Rightarrow> pending_message list command" where
  "drain_script c t r =
     (Inr (messages_at t r c),
      if messages_at t r c \<noteq> [] then r\<lparr>rd_messages := (rd_messages r)(c := None)\<rparr> else r)"

subsection \<open>Pending deletes\<close>

text \<open>\<open>ZADD\<close>: a member that is already in the set gets the new score.\<close>

definition zadd_delete :: "js_number \<Rightarrow> delete_job \<Rightarrow> unit command" where
  "zadd_delete score job t r =
     (case score of Fin s \<Rightarrow> (Inr (), r\<lparr>rd_deletes := put_row job s (rd_deletes r)\<rparr>)
      | _ \<Rightarrow> (Inl (JsError ''ReplyError: ERR value is not a valid float''), r))"

text \<open>\<open>DEQUEUE_DELETES_SCRIPT\<close>: take the jobs that are due at \<open>now\<close> out of the set.\<close>

definition dequeue_script :: "int \<Rightarrow> delete_job list command" where
  "dequeue_script now t r =
     (Inr (map fst (sort_key snd (filter (\<lambda>(j, s). s \<le> now) (rd_deletes r)))),
      r\<lparr>rd_deletes := filter (\<lambda>(j, s). \<not> s \<le> now) (rd_deletes r)\<rparr>)"

end
