(* ===== verification/Relay_Config.thy ===== *)
theory Relay_Config
  imports Js_Runtime Programs
begin

text \<open>
  The files the relay reads when it starts (\<open>relay/src/utils/apps.ts\<close>,
  \<open>relay/src/utils/oblivious_targets.ts\<close>): the apps it delivers for, and the gateways it forwards
  oblivious requests to. A file that is not accepted ends the process: here an error, whose text is what is logged.
\<close>

datatype push_platform = Apns | Fcm

text \<open>Of the APNs settings only the file name is known to be a text; the others are only checked to be there.\<close>

record apns_config =
  ap_key_file :: string
  ap_key_id :: js
  ap_team_id :: js
  ap_bundle_id :: js
  ap_sandbox :: js

record relay_app =
  ra_app_id :: string
  ra_platform :: push_platform
  ra_wallet_base_url :: string
  ra_apns :: "apns_config option"
  ra_service_account_file :: "string option"

definition fatal_unless :: "bool \<Rightarrow> string \<Rightarrow> unit res" where
  "fatal_unless b msg = (if b then Inr () else Inl (JsError msg))"

definition starts_https :: "js \<Rightarrow> bool res" where
  "starts_https v = (case v of Str s \<Rightarrow> Inr (take 8 s = ''https://'')
     | _ \<Rightarrow> Inl (JsError ''TypeError: startsWith is not a function''))"

text \<open>\<open>!v || !v.startsWith("https://")\<close> is fatal.\<close>

definition https_url :: "js \<Rightarrow> string \<Rightarrow> string res" where
  "https_url v msg =
     bindE (fatal_unless (truthy v) msg) (\<lambda>_.
     bindE (starts_https v) (\<lambda>b.
     bindE (fatal_unless b msg) (\<lambda>_. Inr (case v of Str s \<Rightarrow> s | _ \<Rightarrow> []))))"

definition required_id :: "js \<Rightarrow> string set \<Rightarrow> string \<Rightarrow> string \<Rightarrow> string res" where
  "required_id v seen missing dup =
     (case v of Str s \<Rightarrow>
        if s = [] then Inl (JsError missing) else if s \<in> seen then Inl (JsError (dup @ s)) else Inr s
      | _ \<Rightarrow> Inl (JsError missing))"

section \<open>Apps\<close>

definition existing_file :: "(string \<Rightarrow> bool) \<Rightarrow> js \<Rightarrow> string \<Rightarrow> string res" where
  "existing_file exists v msg = (case v of Str s \<Rightarrow> if exists s then Inr s else Inl (JsError msg) | _ \<Rightarrow> Inl (JsError msg))"

definition validate_apns :: "(string \<Rightarrow> bool) \<Rightarrow> js \<Rightarrow> apns_config res" where
  "validate_apns exists app =
     bindE (fatal_unless (\<not> truthy (field app ''fcm'')) ''apns app must not have fcm config'') (\<lambda>_.
     let c = field app ''apns'' in
     bindE (fatal_unless (truthy c) ''apns platform requires apns config'') (\<lambda>_.
     bindE (fatal_unless (truthy (field c ''key_file'')) ''apns.key_file is required'') (\<lambda>_.
     bindE (fatal_unless (truthy (field c ''key_id'')) ''apns.key_id is required'') (\<lambda>_.
     bindE (fatal_unless (truthy (field c ''team_id'')) ''apns.team_id is required'') (\<lambda>_.
     bindE (fatal_unless (truthy (field c ''bundle_id'')) ''apns.bundle_id is required'') (\<lambda>_.
     bindE (existing_file exists (field c ''key_file'') ''apns.key_file not found'') (\<lambda>keyFile.
       Inr \<lparr>ap_key_file = keyFile, ap_key_id = field c ''key_id'', ap_team_id = field c ''team_id'',
            ap_bundle_id = field c ''bundle_id'', ap_sandbox = nullish (field c ''sandbox'') (Bool True)\<rparr>)))))))"

definition validate_fcm :: "(string \<Rightarrow> bool) \<Rightarrow> js \<Rightarrow> string res" where
  "validate_fcm exists app =
     bindE (fatal_unless (\<not> truthy (field app ''apns'')) ''fcm app must not have apns config'') (\<lambda>_.
     let c = field app ''fcm'' in
     bindE (fatal_unless (truthy c) ''fcm platform requires fcm config'') (\<lambda>_.
     bindE (fatal_unless (truthy (field c ''service_account_file'')) ''fcm.service_account_file is required'') (\<lambda>_.
       existing_file exists (field c ''service_account_file'') ''fcm.service_account_file not found'')))"

definition validateApp :: "(string \<Rightarrow> bool) \<Rightarrow> js \<Rightarrow> string set \<Rightarrow> relay_app res" where
  "validateApp exists app seen =
     bindE (js_prop app ''app_id'') (\<lambda>v.
     bindE (required_id v seen ''app_id is required and must be a string'' ''Duplicate app_id: '') (\<lambda>appId.
     let platform = field app ''platform'' in
     bindE (fatal_unless (platform = Str ''apns'' \<or> platform = Str ''fcm'') ''platform must be apns or fcm'') (\<lambda>_.
     bindE (https_url (field app ''wallet_base_url'') ''wallet_base_url must be a valid https:// URL'') (\<lambda>url.
       if platform = Str ''apns''
       then bindE (validate_apns exists app) (\<lambda>c.
              Inr \<lparr>ra_app_id = appId, ra_platform = Apns, ra_wallet_base_url = url, ra_apns = Some c,
                   ra_service_account_file = None\<rparr>)
       else bindE (validate_fcm exists app) (\<lambda>f.
              Inr \<lparr>ra_app_id = appId, ra_platform = Fcm, ra_wallet_base_url = url, ra_apns = None,
                   ra_service_account_file = Some f\<rparr>)))))"

fun validate_apps :: "(string \<Rightarrow> bool) \<Rightarrow> string set \<Rightarrow> js list \<Rightarrow> relay_app list res" where
  "validate_apps exists seen [] = Inr []"
| "validate_apps exists seen (app # apps) =
     bindE (validateApp exists app seen) (\<lambda>a.
     bindE (validate_apps exists (insert (ra_app_id a) seen) apps) (\<lambda>as. Inr (a # as)))"

text \<open>The file, if it can be read, and what \<open>JSON.parse\<close> makes of it.\<close>

definition loadAppRegistry :: "('r) runtime_scheme \<Rightarrow> (string \<Rightarrow> bool) \<Rightarrow> bytes option \<Rightarrow> relay_app list res" where
  "loadAppRegistry p exists raw =
     (case raw of None \<Rightarrow> Inl (JsError ''Failed to read app registry'')
      | Some bs \<Rightarrow>
          bindE (json_parse p bs) (\<lambda>parsed.
          bindE (js_prop parsed ''apps'') (\<lambda>apps. case apps of
            Arr xs \<Rightarrow> validate_apps exists {} xs
          | _ \<Rightarrow> Inl (JsError ''App registry must have an apps array''))))"

definition relay_getApp :: "relay_app list \<Rightarrow> string \<Rightarrow> relay_app option" where
  "relay_getApp registry appId = find (\<lambda>a. ra_app_id a = appId) registry"

section \<open>Oblivious targets\<close>

definition validate_target :: "js \<Rightarrow> string set \<Rightarrow> (string \<times> string) res" where
  "validate_target target seen =
     bindE (js_prop target ''target_id'') (\<lambda>v.
     bindE (required_id v seen ''target_id is required and must be a string'' ''Duplicate target_id: '') (\<lambda>targetId.
     bindE (https_url (field target ''ohttp_gateway_url'') ''ohttp_gateway_url must be a valid https:// URL'') (\<lambda>url.
       Inr (targetId, url))))"

fun validate_targets :: "string set \<Rightarrow> js list \<Rightarrow> (string \<times> string) list res" where
  "validate_targets seen [] = Inr []"
| "validate_targets seen (target # targets) =
     bindE (validate_target target seen) (\<lambda>t.
     bindE (validate_targets (insert (fst t) seen) targets) (\<lambda>ts. Inr (t # ts)))"

text \<open>
  Without a path, or when the file does not exist, forwarding is disabled. \<open>raw\<close> is \<open>None\<close>
  for a file that exists and cannot be read.
\<close>

datatype target_file = No_File | Unreadable_File | File_Content bytes

definition loadObliviousTargets :: "('r) runtime_scheme \<Rightarrow> string option \<Rightarrow> target_file \<Rightarrow> (string \<times> string) list res" where
  "loadObliviousTargets p path file =
     (if path = None \<or> path = Some [] then Inr []
      else case file of
        No_File \<Rightarrow> Inr []
      | Unreadable_File \<Rightarrow> Inl (JsError ''Failed to read oblivious-targets registry'')
      | File_Content bs \<Rightarrow>
          bindE (json_parse p bs) (\<lambda>parsed.
          bindE (js_prop parsed ''targets'') (\<lambda>targets. case targets of
            Arr xs \<Rightarrow> validate_targets {} xs
          | _ \<Rightarrow> Inl (JsError ''Oblivious-targets registry must have a targets array''))))"

definition getObliviousTarget :: "(string \<times> string) list \<Rightarrow> string \<Rightarrow> string option" where
  "getObliviousTarget registry targetId = map_of registry targetId"

section \<open>Settings\<close>

record relay_config =
  rl_apps :: "relay_app list"
  rl_targets :: "(string \<times> string) list"
  rl_UUID_TTL_SECONDS :: "string option"
  rl_MAX_DELETE_DELAY_SECONDS :: "string option"
  rl_DEVICE_REGISTRY_RETENTION_DAYS :: "string option"
  rl_RELAY_ID :: "string option"
  rl_NODE_ENV :: "string option"

text \<open>\<open>parseInt(process.env.X ?? d, 10)\<close>.\<close>

definition env_int :: "string option \<Rightarrow> string \<Rightarrow> js_number" where
  "env_int v d = parse_int (case v of None \<Rightarrow> d | Some s \<Rightarrow> s)"

definition uuid_ttl :: "relay_config \<Rightarrow> js_number" where
  "uuid_ttl cfg = env_int (rl_UUID_TTL_SECONDS cfg) ''2592000''"

end
