(* ===== verification/Relay_Base.thy ===== *)
theory Relay_Base
  imports Relay_Store Relay_Config
begin

text \<open>
  The ground the relay (\<open>relay/src\<close>) stands on: its state, what it calls but does not define,
  how commands run, the functions of \<open>utils/storage/redis.ts\<close> and \<open>utils/storage/sqlite.ts\<close>, the
  push dispatch and the maps of open connections. Connections are numbers. Everything outside
  (clocks, random numbers, sockets, push services, wallets) has a state of an arbitrary
  type \<open>'y\<close>.
\<close>

section \<open>State and surroundings\<close>

record 'y relay =
  redis :: redis
  devices :: "device_row list"
  sse_connections :: "string \<Rightarrow> nat option"
  ws_connections :: "string \<Rightarrow> nat option"
  torn_down :: "nat set"
  beyond :: 'y

type_synonym ('y, 'a) ract = "('y relay, 'a) prog"

text \<open>A push as it is handed to APNs or to Firebase.\<close>

datatype push_request = Apns_Push apns_config string js | Fcm_Push string string "(string \<times> string) list"

text \<open>
  What the relay calls but does not define: the Redis server (the time of the next command, or
  the error of one that was not executed; the batches of keys of a complete \<open>SCAN\<close> for
  \<open>uuid:*\<close> with a given count), SQLite (whether the next statement is executed), the clock, random
  bytes, UUIDs and \<open>Math.random()\<close>, the push services, writing to an event stream, the state of a
  WebSocket and sending on it, and requests to wallets and to gateways (the status, or an error;
  for gateways with the content type and the bytes).
\<close>

record 'y relay_services = runtime +
  redis_begin :: "'y \<Rightarrow> int res \<times> 'y"
  redis_scan :: "nat \<Rightarrow> int \<Rightarrow> redis \<Rightarrow> string list list"
  sqlite_begin :: "'y \<Rightarrow> unit res \<times> 'y"
  clock_ms :: "'y \<Rightarrow> int \<times> 'y"
  random_uuid :: "'y \<Rightarrow> string \<times> 'y"
  random_values :: "nat \<Rightarrow> 'y \<Rightarrow> bytes \<times> 'y"
  math_random :: "'y \<Rightarrow> rat \<times> 'y"
  push_send :: "push_request \<Rightarrow> 'y \<Rightarrow> unit res \<times> 'y"
  sse_write :: "nat \<Rightarrow> string \<Rightarrow> 'y \<Rightarrow> unit res \<times> 'y"
  ws_is_open :: "nat \<Rightarrow> 'y \<Rightarrow> bool"
  ws_send :: "nat \<Rightarrow> string \<Rightarrow> 'y \<Rightarrow> unit res \<times> 'y"
  delete_request :: "string \<Rightarrow> 'y \<Rightarrow> int res \<times> 'y"
  gateway_post :: "string \<Rightarrow> string \<Rightarrow> bytes \<Rightarrow> 'y \<Rightarrow> (int \<times> string option \<times> bytes) res \<times> 'y"

definition outR :: "('y \<Rightarrow> 'a res \<times> 'y) \<Rightarrow> ('y, 'a) ract" where
  "outR f = (\<lambda>w. case f (beyond w) of (r, y) \<Rightarrow> (r, w\<lparr>beyond := y\<rparr>))"

definition sureR :: "('y \<Rightarrow> 'a \<times> 'y) \<Rightarrow> ('y, 'a) ract" where
  "sureR f = outR (\<lambda>y. case f y of (a, y') \<Rightarrow> (Inr a, y'))"

definition nowR :: "('y, 'z) relay_services_scheme \<Rightarrow> ('y, int) ract" where
  "nowR p = sureR (clock_ms p)"

definition isoR :: "('y, 'z) relay_services_scheme \<Rightarrow> ('y, string) ract" where
  "isoR p = bindA (nowR p) (\<lambda>t. retA (iso_of_ms p t))"

text \<open>One command, and one statement on the registry of devices.\<close>

definition command :: "('y, 'z) relay_services_scheme \<Rightarrow> 'a command \<Rightarrow> ('y, 'a) ract" where
  "command p q = (\<lambda>w. case redis_begin p (beyond w) of
       (Inl e, y) \<Rightarrow> (Inl e, w\<lparr>beyond := y\<rparr>)
     | (Inr t, y) \<Rightarrow> (case q t (redis w) of (r, d) \<Rightarrow> (r, w\<lparr>redis := d, beyond := y\<rparr>)))"

definition statement :: "('y, 'z) relay_services_scheme \<Rightarrow> (device_row list \<Rightarrow> 'a \<times> device_row list) \<Rightarrow> ('y, 'a) ract" where
  "statement p q = (\<lambda>w. case sqlite_begin p (beyond w) of
       (Inl e, y) \<Rightarrow> (Inl e, w\<lparr>beyond := y\<rparr>)
     | (Inr _, y) \<Rightarrow> (case q (devices w) of (a, d) \<Rightarrow> (Inr a, w\<lparr>devices := d, beyond := y\<rparr>)))"

section \<open>Redis functions\<close>

definition getUuid :: "('y, 'z) relay_services_scheme \<Rightarrow> string \<Rightarrow> ('y, relay_uuid option) ract" where
  "getUuid p u = command p (hgetall_uuid u)"

definition setUuid :: "('y, 'z) relay_services_scheme \<Rightarrow> string \<Rightarrow> relay_uuid \<Rightarrow> js_number \<Rightarrow> ('y, unit) ract" where
  "setUuid p u rec ttlSeconds = bindA (command p (hset_uuid u rec)) (\<lambda>_. command p (expire_uuid u ttlSeconds))"

definition deleteUuid :: "('y, 'z) relay_services_scheme \<Rightarrow> string \<Rightarrow> ('y, unit) ract" where
  "deleteUuid p u = command p (del_uuid u)"

definition transitionUuid ::
    "('y, 'z) relay_services_scheme \<Rightarrow> string \<Rightarrow> uuid_status \<Rightarrow> uuid_status \<Rightarrow> ('y, transition_result) ract" where
  "transitionUuid p u from to = command p (transition_script u from to)"

text \<open>A transition whose error is logged.\<close>

definition try_transition ::
    "('y, 'z) relay_services_scheme \<Rightarrow> string \<Rightarrow> uuid_status \<Rightarrow> uuid_status \<Rightarrow> ('y, unit) ract" where
  "try_transition p u from to = catchA (bindA (transitionUuid p u from to) (\<lambda>_. retA ())) (\<lambda>e. retA ())"

definition scan :: "('y, 'z) relay_services_scheme \<Rightarrow> nat \<Rightarrow> ('y, string list list) ract" where
  "scan p n = command p (\<lambda>t r. (Inr (redis_scan p n t r), r))"

text \<open>One call of \<open>SCAN\<close>: whether it came back to cursor 0, without a key.\<close>

definition isStoreEmpty :: "('y, 'z) relay_services_scheme \<Rightarrow> ('y, bool) ract" where
  "isStoreEmpty p = bindA (scan p 1) (\<lambda>batches. retA (batches = [[]]))"

definition busy_uuid :: "('y, 'z) relay_services_scheme \<Rightarrow> string \<Rightarrow> ('y, string list) ract" where
  "busy_uuid p u = bindA (command p (hget_status u)) (\<lambda>s.
     retA (if s = Some Active \<or> s = Some In_Flight then [u] else []))"

definition scanActiveUuids :: "('y, 'z) relay_services_scheme \<Rightarrow> ('y, string list) ract" where
  "scanActiveUuids p =
     bindA (scan p 100) (\<lambda>batches. bindA (mapA (busy_uuid p) (concat batches)) (\<lambda>found. retA (concat found)))"

definition setCredential ::
    "('y, 'z) relay_services_scheme \<Rightarrow> string \<Rightarrow> credential_hash \<Rightarrow> js_number \<Rightarrow> ('y, unit) ract" where
  "setCredential p c h ttlSeconds =
     bindA (command p (hset_credential c h)) (\<lambda>_. command p (expire_credential c ttlSeconds))"

definition getCredential :: "('y, 'z) relay_services_scheme \<Rightarrow> string \<Rightarrow> ('y, credential_hash option) ract" where
  "getCredential p c = command p (hgetall_credential c)"

definition refreshCredential ::
    "('y, 'z) relay_services_scheme \<Rightarrow> string \<Rightarrow> string \<Rightarrow> js_number \<Rightarrow> ('y, bool) ract" where
  "refreshCredential p c pushToken ttlSeconds =
     bindA (command p (exists_credential c)) (\<lambda>exists.
       if \<not> exists then retA False
       else bindA (command p (hset_push_token c pushToken)) (\<lambda>_.
            bindA (command p (expire_credential c ttlSeconds)) (\<lambda>_. retA True)))"

definition storeMessage ::
    "('y, 'z) relay_services_scheme \<Rightarrow> string \<Rightarrow> pending_message \<Rightarrow> js_number \<Rightarrow> ('y, unit) ract" where
  "storeMessage p c m ttlSeconds =
     bindA (command p (rpush_message c m)) (\<lambda>_. command p (expire_messages c ttlSeconds))"

definition drainMessages :: "('y, 'z) relay_services_scheme \<Rightarrow> string \<Rightarrow> ('y, pending_message list) ract" where
  "drainMessages p c = command p (drain_script c)"

definition enqueuePendingDelete ::
    "('y, 'z) relay_services_scheme \<Rightarrow> delete_job \<Rightarrow> js_number \<Rightarrow> ('y, unit) ract" where
  "enqueuePendingDelete p job executeAtMs = command p (zadd_delete executeAtMs job)"

definition dequeuePendingDeletes :: "('y, 'z) relay_services_scheme \<Rightarrow> ('y, delete_job list) ract" where
  "dequeuePendingDeletes p = bindA (nowR p) (\<lambda>now. command p (dequeue_script now))"

definition requeuePendingDelete ::
    "('y, 'z) relay_services_scheme \<Rightarrow> delete_job \<Rightarrow> js_number \<Rightarrow> ('y, unit) ract" where
  "requeuePendingDelete p job executeAtMs = command p (zadd_delete executeAtMs job)"

section \<open>The registry of devices\<close>

definition upsert_device_row :: "device_row \<Rightarrow> device_row list \<Rightarrow> device_row list" where
  "upsert_device_row d rows =
     (if list_ex (\<lambda>r. dr_push_token r = dr_push_token d) rows
      then map (\<lambda>r. if dr_push_token r = dr_push_token d then d else r) rows else rows @ [d])"

definition upsertDevice :: "('y, 'z) relay_services_scheme \<Rightarrow> string \<Rightarrow> string \<Rightarrow> ('y, unit) ract" where
  "upsertDevice p pushToken appId =
     bindA (isoR p) (\<lambda>now. statement p (\<lambda>rows.
       ((), upsert_device_row \<lparr>dr_push_token = pushToken, dr_app_id = appId, dr_last_registered_at = now\<rparr> rows)))"

definition getRecentDevices :: "('y, 'z) relay_services_scheme \<Rightarrow> string \<Rightarrow> ('y, device_row list) ract" where
  "getRecentDevices p since = statement p (\<lambda>rows. (filter (\<lambda>r. since \<le> dr_last_registered_at r) rows, rows))"

definition pruneOldDevices :: "('y, 'z) relay_services_scheme \<Rightarrow> string \<Rightarrow> ('y, nat) ract" where
  "pruneOldDevices p before = statement p (\<lambda>rows.
     (length (filter (\<lambda>r. dr_last_registered_at r < before) rows), filter (\<lambda>r. \<not> dr_last_registered_at r < before) rows))"

section \<open>Apps and pushes\<close>

definition push_uuid :: "string option \<Rightarrow> js" where
  "push_uuid u = (case u of None \<Rightarrow> Null | Some s \<Rightarrow> Str s)"

definition sendApnsPush ::
    "('y, 'z) relay_services_scheme \<Rightarrow> string \<Rightarrow> string option \<Rightarrow> relay_app \<Rightarrow> js option \<Rightarrow> ('y, unit) ract" where
  "sendApnsPush p pushToken u app payload =
     (case ra_apns app of
        None \<Rightarrow> throwA (JsError (''Error: Missing APNs config for app '' @ ra_app_id app))
      | Some c \<Rightarrow> outR (push_send p (Apns_Push c pushToken
            (case payload of None \<Rightarrow> Obj [(''uuid'', push_uuid u)] | Some v \<Rightarrow> v))))"

text \<open>\<open>String(v ?? "")\<close> of every entry.\<close>

definition push_data :: "('y, 'z) relay_services_scheme \<Rightarrow> js \<Rightarrow> (string \<times> string) list" where
  "push_data p source = (case source of Obj kvs \<Rightarrow> map (\<lambda>(k, v). (k, literal p (nullish v (Str [])))) kvs | _ \<Rightarrow> [])"

definition sendFcmPush ::
    "('y, 'z) relay_services_scheme \<Rightarrow> string \<Rightarrow> string option \<Rightarrow> relay_app \<Rightarrow> js option \<Rightarrow> ('y, unit) ract" where
  "sendFcmPush p pushToken u app payload =
     (case ra_service_account_file app of
        None \<Rightarrow> throwA (JsError (''Error: Missing FCM config for app '' @ ra_app_id app))
      | Some f \<Rightarrow> outR (push_send p (Fcm_Push f pushToken
            (push_data p (case payload of None \<Rightarrow> Obj [(''uuid'', push_uuid u)] | Some v \<Rightarrow> v)))))"

definition dispatchPush ::
    "('y, 'z) relay_services_scheme \<Rightarrow> relay_config \<Rightarrow> string \<Rightarrow> string option \<Rightarrow> relay_app \<Rightarrow> js option \<Rightarrow> ('y, unit) ract" where
  "dispatchPush p cfg pushToken u app payload =
     (if rl_NODE_ENV cfg = Some ''development'' then retA ()
      else if ra_platform app = Apns then sendApnsPush p pushToken u app payload
      else sendFcmPush p pushToken u app payload)"

section \<open>Open connections\<close>

definition registerSSEConnection :: "string \<Rightarrow> nat \<Rightarrow> ('y, unit) ract" where
  "registerSSEConnection c conn = (\<lambda>w. (Inr (), w\<lparr>sse_connections := (sse_connections w)(c \<mapsto> conn)\<rparr>))"

definition removeSSEConnection :: "string \<Rightarrow> ('y, unit) ract" where
  "removeSSEConnection c = (\<lambda>w. (Inr (), w\<lparr>sse_connections := (sse_connections w)(c := None)\<rparr>))"

definition registerWsConnection :: "string \<Rightarrow> nat \<Rightarrow> ('y, unit) ract" where
  "registerWsConnection c conn = (\<lambda>w. (Inr (), w\<lparr>ws_connections := (ws_connections w)(c \<mapsto> conn)\<rparr>))"

definition removeWsConnection :: "string \<Rightarrow> ('y, unit) ract" where
  "removeWsConnection c = (\<lambda>w. (Inr (), w\<lparr>ws_connections := (ws_connections w)(c := None)\<rparr>))"

end
