(* ===== verification/Relay_Routes.thy ===== *)
theory Relay_Routes
  imports Relay_Base
begin

text \<open>
  The HTTP and WebSocket surface of the relay (\<open>relay/src/router.ts\<close>, \<open>relay/src/routes\<close>):
  registration, delivery, the buffer of pending messages, acknowledgements, event streams,
  WebSockets and oblivious forwarding. A handler answers or throws; what it throws the router
  answers with status 500. The body of a request is what \<open>JSON.parse\<close> makes of it, or the error.
\<close>

section \<open>Answers\<close>

datatype relay_answer =
    Json_Answer int js
  | Moved_Answer string int js
  | Raw_Answer int "string option" bytes
  | Event_Stream

definition error_body :: "string \<Rightarrow> string \<Rightarrow> js" where
  "error_body code msg = Obj [(''error'', Str code), (''message'', Str msg)]"

definition sendError :: "int \<Rightarrow> string \<Rightarrow> string \<Rightarrow> relay_answer" where
  "sendError statusCode code msg = Json_Answer statusCode (error_body code msg)"

definition internal_error :: "string \<Rightarrow> relay_answer" where
  "internal_error msg = sendError 500 ''INTERNAL_ERROR'' msg"

text \<open>\<open>try { a = await m } catch { answer; return }\<close>.\<close>

definition or_answer :: "('y, 'a) ract \<Rightarrow> relay_answer \<Rightarrow> ('a \<Rightarrow> ('y, relay_answer) ract) \<Rightarrow> ('y, relay_answer) ract" where
  "or_answer m ans f = bindA (caught m) (\<lambda>r. case r of Inl e \<Rightarrow> retA ans | Inr a \<Rightarrow> f a)"

text \<open>A check with an early return.\<close>

definition check_else :: "bool \<Rightarrow> relay_answer \<Rightarrow> ('y, relay_answer) ract \<Rightarrow> ('y, relay_answer) ract" where
  "check_else b ans m = (if b then m else retA ans)"

definition extractBearerToken :: "string option \<Rightarrow> string option" where
  "extractBearerToken header = (case header of None \<Rightarrow> None
     | Some h \<Rightarrow> if take 7 h = ''Bearer '' then (let token = trim (drop 7 h) in if token = [] then None else Some token) else None)"

definition invalid_credential :: relay_answer where
  "invalid_credential = sendError 401 ''INVALID_CREDENTIAL'' ''Device credential is unknown or has expired''"

text \<open>The check \<open>/pending\<close>, \<open>/ack\<close> and \<open>/sse\<close> begin with.\<close>

definition with_credential ::
    "('y, 'z) relay_services_scheme \<Rightarrow> string option \<Rightarrow> (string \<Rightarrow> ('y, relay_answer) ract) \<Rightarrow> ('y, relay_answer) ract" where
  "with_credential p header f =
     (case extractBearerToken header of
        None \<Rightarrow> retA (sendError 401 ''MISSING_CREDENTIAL'' ''Authorization header with Bearer token is required'')
      | Some credential \<Rightarrow>
          or_answer (getCredential p credential) (internal_error ''Failed to validate credential'') (\<lambda>h.
            check_else (h \<noteq> None) invalid_credential (f credential)))"

definition not_json :: relay_answer where
  "not_json = sendError 400 ''MISSING_FIELD'' ''Request body must be valid JSON''"

fun is_text :: "js \<Rightarrow> bool" where
  "is_text (Str (c # s)) = True"
| "is_text v = False"

definition text_value :: "js \<Rightarrow> string" where
  "text_value v = (case v of Str s \<Rightarrow> s | _ \<Rightarrow> [])"

section \<open>Registration\<close>

definition register_count :: "js \<Rightarrow> nat option" where
  "register_count rawCount = (case rawCount of
     Undef \<Rightarrow> Some 10
   | Num (Fin n) \<Rightarrow> if 1 \<le> n \<and> n \<le> 100 then Some (nat n) else None
   | _ \<Rightarrow> None)"

definition register_uuid ::
    "('y, 'z) relay_services_scheme \<Rightarrow> relay_app \<Rightarrow> string \<Rightarrow> string \<Rightarrow> js_number \<Rightarrow> ('y, string) ract" where
  "register_uuid p app pushToken credential ttl =
     bindA (sureR (random_uuid p)) (\<lambda>u.
     bindA (isoR p) (\<lambda>now.
     bindA (setUuid p u \<lparr>ru_app_id = ra_app_id app, ru_push_token = pushToken, ru_wallet_base_url = ra_wallet_base_url app,
              ru_device_credential = credential, ru_status = Unused, ru_created_at = now\<rparr> ttl) (\<lambda>_.
       retA u)))"

text \<open>The end of a registration, under the credential that was checked or made.\<close>

definition finish_register ::
    "('y, 'z) relay_services_scheme \<Rightarrow> relay_config \<Rightarrow> relay_app \<Rightarrow> string \<Rightarrow> nat \<Rightarrow> bool \<Rightarrow> string \<Rightarrow> ('y, relay_answer) ract" where
  "finish_register p cfg app pushToken count isBootstrap credential =
     or_answer (mapA (\<lambda>i. register_uuid p app pushToken credential (uuid_ttl cfg)) [0..<count])
       (internal_error ''Failed to write UUID records'') (\<lambda>uuids.
     bindA (caught (upsertDevice p pushToken (ra_app_id app))) (\<lambda>_.
       retA (Json_Answer 200 (Obj ([(''uuids'', Arr (map Str uuids))] @
         (if isBootstrap then [(''device_credential'', Str credential)] else []))))))"

definition replenish ::
    "('y, 'z) relay_services_scheme \<Rightarrow> relay_config \<Rightarrow> relay_app \<Rightarrow> string \<Rightarrow> nat \<Rightarrow> string \<Rightarrow> ('y, relay_answer) ract" where
  "replenish p cfg app pushToken count credential =
     or_answer (getCredential p credential) (internal_error ''Failed to validate credential'') (\<lambda>h.
     check_else (h \<noteq> None) invalid_credential (
     or_answer (refreshCredential p credential pushToken (uuid_ttl cfg)) (internal_error ''Failed to refresh credential'') (\<lambda>_.
       finish_register p cfg app pushToken count False credential)))"

definition bootstrap ::
    "('y, 'z) relay_services_scheme \<Rightarrow> relay_config \<Rightarrow> relay_app \<Rightarrow> string \<Rightarrow> nat \<Rightarrow> ('y, relay_answer) ract" where
  "bootstrap p cfg app pushToken count =
     bindA (sureR (random_values p 32)) (\<lambda>bs.
     let credential = bytes_hex bs in
     or_answer (bindA (isoR p) (\<lambda>now. setCredential p credential
           \<lparr>ch_push_token = pushToken, ch_app_id = Some (ra_app_id app), ch_created_at = Some now\<rparr> (uuid_ttl cfg)))
       (internal_error ''Failed to create credential'') (\<lambda>_.
       finish_register p cfg app pushToken count True credential))"

text \<open>\<open>POST /register\<close>.\<close>

definition handleRegister ::
    "('y, 'z) relay_services_scheme \<Rightarrow> relay_config \<Rightarrow> string option \<Rightarrow> js res \<Rightarrow> ('y, relay_answer) ract" where
  "handleRegister p cfg header body =
     or_answer (liftA body) not_json (\<lambda>b.
     bindA (liftA (js_prop b ''app_id'')) (\<lambda>appId.
     let pushToken = field b ''push_token'' in
     check_else (is_text appId) (sendError 400 ''MISSING_FIELD'' ''app_id is required'') (
     check_else (is_text pushToken) (sendError 400 ''MISSING_FIELD'' ''push_token is required'') (
     case register_count (field b ''count'') of
       None \<Rightarrow> retA (sendError 400 ''INVALID_COUNT'' ''count must be an integer between 1 and 100'')
     | Some count \<Rightarrow>
         (case relay_getApp (rl_apps cfg) (text_value appId) of
            None \<Rightarrow> retA (sendError 404 ''UNKNOWN_APP'' (''Unknown app_id: '' @ text_value appId))
          | Some app \<Rightarrow>
              (case extractBearerToken header of
                 Some credential \<Rightarrow> replenish p cfg app (text_value pushToken) count credential
               | None \<Rightarrow> bootstrap p cfg app (text_value pushToken) count))))))"

section \<open>Delivery\<close>

definition uuid_consumed :: relay_answer where
  "uuid_consumed = sendError 410 ''UUID_CONSUMED'' ''UUID has already been used or is in use''"

definition message_frame :: "string \<Rightarrow> string \<Rightarrow> string" where
  "message_frame u blob = json_stringify (Obj [(''uuid'', Str u), (''blob'', Str blob)])"

definition sse_frame :: "string \<Rightarrow> string \<Rightarrow> string" where
  "sse_frame u blob = ''data: '' @ message_frame u blob @ [char_of (10 :: nat), char_of (10 :: nat)]"

text \<open>
  Once the blob is stored the request succeeds; the device is told by the first channel that
  works: its event stream, its WebSocket, a push.
\<close>

definition push_device ::
    "('y, 'z) relay_services_scheme \<Rightarrow> relay_config \<Rightarrow> relay_app \<Rightarrow> relay_uuid \<Rightarrow> string \<Rightarrow> ('y, unit) ract" where
  "push_device p cfg app rec u =
     catchA (dispatchPush p cfg (ru_push_token rec) (Some u) app None) (\<lambda>e. retA ())"

definition ws_or_push ::
    "('y, 'z) relay_services_scheme \<Rightarrow> relay_config \<Rightarrow> relay_app \<Rightarrow> relay_uuid \<Rightarrow> string \<Rightarrow> string \<Rightarrow> ('y, unit) ract" where
  "ws_or_push p cfg app rec u blob =
     bindA (readA (\<lambda>w. Inr (case ws_connections w (ru_device_credential rec) of
         Some conn \<Rightarrow> if ws_is_open p conn (beyond w) then Some conn else None | None \<Rightarrow> None))) (\<lambda>ws.
     case ws of
       Some conn \<Rightarrow> catchA (outR (ws_send p conn (message_frame u blob))) (\<lambda>e. push_device p cfg app rec u)
     | None \<Rightarrow> push_device p cfg app rec u)"

definition notify_device ::
    "('y, 'z) relay_services_scheme \<Rightarrow> relay_config \<Rightarrow> relay_app \<Rightarrow> relay_uuid \<Rightarrow> string \<Rightarrow> string \<Rightarrow> ('y, unit) ract" where
  "notify_device p cfg app rec u blob =
     bindA (readA (\<lambda>w. Inr (sse_connections w (ru_device_credential rec)))) (\<lambda>sse.
     case sse of
       Some conn \<Rightarrow> catchA (outR (sse_write p conn (sse_frame u blob))) (\<lambda>e. ws_or_push p cfg app rec u blob)
     | None \<Rightarrow> ws_or_push p cfg app rec u blob)"

text \<open>The part of a delivery that owns the UUID: it is in flight.\<close>

definition deliver_locked ::
    "('y, 'z) relay_services_scheme \<Rightarrow> relay_config \<Rightarrow> string \<Rightarrow> string \<Rightarrow> relay_uuid \<Rightarrow> ('y, relay_answer) ract" where
  "deliver_locked p cfg u blob rec =
     (case relay_getApp (rl_apps cfg) (ru_app_id rec) of
        None \<Rightarrow> bindA (try_transition p u In_Flight Unused) (\<lambda>_.
          retA (internal_error ''App config not found for this UUID''))
      | Some app \<Rightarrow>
          bindA (caught (bindA (isoR p) (\<lambda>now. storeMessage p (ru_device_credential rec)
              \<lparr>pm_uuid = u, pm_blob = blob, pm_wallet_url = ru_wallet_base_url rec, pm_received_at = now\<rparr> (uuid_ttl cfg)))) (\<lambda>stored.
          case stored of
            Inl e \<Rightarrow> bindA (try_transition p u In_Flight Unused) (\<lambda>_. retA (internal_error ''Failed to store message''))
          | Inr _ \<Rightarrow>
              bindA (try_transition p u In_Flight Consumed) (\<lambda>_.
              bindA (notify_device p cfg app rec u blob) (\<lambda>_.
                retA (Json_Answer 200 (Obj []))))))"

text \<open>\<open>POST /deliver/{uuid}\<close>.\<close>

definition handleDeliver ::
    "('y, 'z) relay_services_scheme \<Rightarrow> relay_config \<Rightarrow> string \<Rightarrow> js res \<Rightarrow> ('y, relay_answer) ract" where
  "handleDeliver p cfg u body =
     check_else (is_uuid_v4 u) (sendError 400 ''INVALID_UUID'' ''Path parameter is not a valid UUID v4'') (
     or_answer (liftA body) not_json (\<lambda>b.
     bindA (liftA (js_prop b ''blob'')) (\<lambda>blob.
     check_else (is_text blob) (sendError 400 ''MISSING_FIELD'' ''blob is required'') (
     or_answer (getUuid p u) (internal_error ''Failed to read UUID record'') (\<lambda>found. case found of
       None \<Rightarrow> retA (sendError 404 ''UNKNOWN_UUID'' ''UUID not found'')
     | Some rec \<Rightarrow>
         check_else (ru_status rec = Unused) uuid_consumed (
         or_answer (transitionUuid p u Unused In_Flight) (internal_error ''Failed to transition UUID state'') (\<lambda>moved.
         check_else (moved = Moved) uuid_consumed (deliver_locked p cfg u (text_value blob) rec))))))))"

text \<open>\<open>routes/notify.ts\<close>, which no route leads to any more.\<close>

definition handleNotify ::
    "('y, 'z) relay_services_scheme \<Rightarrow> relay_config \<Rightarrow> string \<Rightarrow> ('y, relay_answer) ract" where
  "handleNotify p cfg u =
     check_else (is_uuid_v4 u) (sendError 400 ''INVALID_UUID'' ''Path parameter is not a valid UUID v4'') (
     or_answer (getUuid p u) (internal_error ''Failed to read UUID record'') (\<lambda>found. case found of
       None \<Rightarrow> retA (sendError 404 ''UNKNOWN_UUID'' ''UUID not found'')
     | Some rec \<Rightarrow>
         check_else (ru_status rec = Unused) uuid_consumed (
         or_answer (transitionUuid p u Unused In_Flight) (internal_error ''Failed to transition UUID state'') (\<lambda>moved.
         check_else (moved = Moved) uuid_consumed (
         case relay_getApp (rl_apps cfg) (ru_app_id rec) of
           None \<Rightarrow> bindA (try_transition p u In_Flight Consumed) (\<lambda>_.
             retA (internal_error ''App config not found for this UUID''))
         | Some app \<Rightarrow>
             bindA (caught (dispatchPush p cfg (ru_push_token rec) (Some u) app None)) (\<lambda>pushed. case pushed of
               Inl e \<Rightarrow> bindA (try_transition p u In_Flight Unused) (\<lambda>_.
                 retA (sendError 502 ''PUSH_FAILED'' ''Failed to deliver push notification''))
             | Inr _ \<Rightarrow> bindA (try_transition p u In_Flight Consumed) (\<lambda>_. retA (Json_Answer 200 (Obj [])))))))))"

section \<open>The buffer of messages\<close>

text \<open>\<open>GET /pending\<close>.\<close>

definition handlePending :: "('y, 'z) relay_services_scheme \<Rightarrow> string option \<Rightarrow> ('y, relay_answer) ract" where
  "handlePending p header = with_credential p header (\<lambda>credential.
     or_answer (drainMessages p credential) (internal_error ''Failed to retrieve messages'') (\<lambda>messages.
       retA (Json_Answer 200 (Obj [(''messages'',
         Arr (map (\<lambda>m. Obj [(''uuid'', Str (pm_uuid m)), (''blob'', Str (pm_blob m))]) messages))]))))"

text \<open>\<open>Date.now() + Math.floor(Math.random() * max * 1000)\<close>.\<close>

definition jitter :: "rat \<Rightarrow> int \<Rightarrow> int" where
  "jitter r maxSeconds = floor (round_double (round_double (r * of_int maxSeconds) * 1000))"

definition delete_time :: "('y, 'z) relay_services_scheme \<Rightarrow> relay_config \<Rightarrow> ('y, js_number) ract" where
  "delete_time p cfg =
     bindA (sureR (math_random p)) (\<lambda>r.
     bindA (nowR p) (\<lambda>now.
       retA (case env_int (rl_MAX_DELETE_DELAY_SECONDS cfg) ''21600'' of
         Fin m \<Rightarrow> Fin (now + jitter r m) | n \<Rightarrow> n)))"

text \<open>One acknowledged UUID; an error of the store is logged and the next one is taken.\<close>

definition ack_uuid :: "('y, 'z) relay_services_scheme \<Rightarrow> relay_config \<Rightarrow> js \<Rightarrow> ('y, unit) ract" where
  "ack_uuid p cfg rawUuid = (case rawUuid of
     Str u \<Rightarrow>
       catchA (bindA (getUuid p u) (\<lambda>found. case found of
           None \<Rightarrow> retA ()
         | Some rec \<Rightarrow> bindA (delete_time p cfg) (\<lambda>executeAtMs.
             enqueuePendingDelete p \<lparr>dj_wallet_url = ru_wallet_base_url rec, dj_uuid = u, dj_attempts = 0\<rparr> executeAtMs)))
         (\<lambda>e. retA ())
   | _ \<Rightarrow> retA ())"

text \<open>\<open>POST /ack\<close>.\<close>

definition handleAck ::
    "('y, 'z) relay_services_scheme \<Rightarrow> relay_config \<Rightarrow> string option \<Rightarrow> js res \<Rightarrow> ('y, relay_answer) ract" where
  "handleAck p cfg header body = with_credential p header (\<lambda>credential.
     or_answer (liftA body) not_json (\<lambda>b.
     bindA (liftA (js_prop b ''uuids'')) (\<lambda>uuids.
       case uuids of
         Arr (x # xs) \<Rightarrow> bindA (forA (ack_uuid p cfg) (x # xs)) (\<lambda>_. retA (Json_Answer 200 (Obj [])))
       | _ \<Rightarrow> retA (sendError 400 ''MISSING_FIELD'' ''uuids must be a non-empty array''))))"

section \<open>Open connections\<close>

text \<open>\<open>GET /sse\<close> on the connection \<open>conn\<close>, and what happens when the connection closes or fails.\<close>

definition handleSSE :: "('y, 'z) relay_services_scheme \<Rightarrow> string option \<Rightarrow> nat \<Rightarrow> ('y, relay_answer) ract" where
  "handleSSE p header conn = with_credential p header (\<lambda>credential.
     bindA (registerSSEConnection credential conn) (\<lambda>_. retA Event_Stream))"

definition sse_cleanup :: "string \<Rightarrow> ('y, unit) ract" where
  "sse_cleanup credential = removeSSEConnection credential"

text \<open>
  A WebSocket connection for \<open>u\<close>: refused, or the code it is closed with, or the credential it
  is registered under.
\<close>

datatype ws_outcome = Ws_Refused | Ws_Close int | Ws_Registered string

definition ws_or_close :: "('y, 'a) ract \<Rightarrow> ('a \<Rightarrow> ('y, ws_outcome) ract) \<Rightarrow> ('y, ws_outcome) ract" where
  "ws_or_close m f = bindA (caught m) (\<lambda>r. case r of Inl e \<Rightarrow> retA (Ws_Close 1011) | Inr a \<Rightarrow> f a)"

definition ws_connection :: "('y, 'z) relay_services_scheme \<Rightarrow> string \<Rightarrow> nat \<Rightarrow> ('y, ws_outcome) ract" where
  "ws_connection p u conn =
     (if \<not> is_uuid_v4 u then retA (Ws_Close 4000)
      else ws_or_close (getUuid p u) (\<lambda>found. case found of
        None \<Rightarrow> retA (Ws_Close 4004)
      | Some rec \<Rightarrow>
          if ru_status rec \<noteq> Unused then retA (Ws_Close 4010)
          else ws_or_close (transitionUuid p u Unused Active) (\<lambda>moved.
            if moved \<noteq> Moved then retA (Ws_Close 4010)
            else bindA (registerWsConnection (ru_device_credential rec) conn) (\<lambda>_.
              retA (Ws_Registered (ru_device_credential rec))))))"

definition handleUpgrade :: "('y, 'z) relay_services_scheme \<Rightarrow> string \<Rightarrow> nat \<Rightarrow> ('y, ws_outcome) ract" where
  "handleUpgrade p path conn = (case path_segments path of
     [a, u] \<Rightarrow> if a = ''ws'' \<and> u \<noteq> [] then ws_connection p u conn else retA Ws_Refused
   | _ \<Rightarrow> retA Ws_Refused)"

text \<open>\<open>consumeUuid\<close>, called when the socket closes or fails, acts once per connection.\<close>

definition ws_teardown :: "('y, 'z) relay_services_scheme \<Rightarrow> string \<Rightarrow> string \<Rightarrow> nat \<Rightarrow> ('y, unit) ract" where
  "ws_teardown p u credential conn =
     bindA (readA (\<lambda>w. Inr (conn \<in> torn_down w))) (\<lambda>torn.
       if torn then retA ()
       else bindA (\<lambda>w. (Inr (), w\<lparr>torn_down := insert conn (torn_down w)\<rparr>)) (\<lambda>_.
            bindA (try_transition p u Active Consumed) (\<lambda>_.
              removeWsConnection credential)))"

section \<open>Oblivious forwarding\<close>

text \<open>\<open>POST /ohttp/{target_id}\<close>: body and answer pass through unread.\<close>

definition handleOhttpForward ::
    "('y, 'z) relay_services_scheme \<Rightarrow> relay_config \<Rightarrow> string \<Rightarrow> string option \<Rightarrow> bytes res \<Rightarrow> ('y, relay_answer) ract" where
  "handleOhttpForward p cfg targetId contentType body =
     check_else (targetId \<noteq> []) (sendError 404 ''NOT_FOUND'' ''target_id is required'') (
     case getObliviousTarget (rl_targets cfg) targetId of
       None \<Rightarrow> retA (sendError 404 ''NOT_FOUND'' (''Unknown target_id: '' @ targetId))
     | Some url \<Rightarrow>
         bindA (liftA body) (\<lambda>bs.
         or_answer (outR (gateway_post p url (case contentType of None \<Rightarrow> ''application/octet-stream'' | Some t \<Rightarrow> t) bs))
           (sendError 502 ''GATEWAY_UNREACHABLE'' ''Destination gateway unreachable'') (\<lambda>(upstreamStatus, ty, answer).
           retA (Raw_Answer upstreamStatus (if ty = Some [] then None else ty) answer))))"

section \<open>Health\<close>

text \<open>\<open>GET /health\<close>.\<close>

definition health_text :: "bool \<Rightarrow> js" where
  "health_text b = Str (if b then ''ok'' else ''error'')"

definition handleHealth :: "('y, 'z) relay_services_scheme \<Rightarrow> ('y, relay_answer) ract" where
  "handleHealth p =
     bindA (caught (command p (\<lambda>t r. (Inr (), r)))) (\<lambda>ping.
     bindA (caught (statement p (\<lambda>rows. ((), rows)))) (\<lambda>sel.
     let redisOk = (ping = Inr ()); sqliteOk = (sel = Inr ()) in
       retA (Json_Answer (if redisOk \<and> sqliteOk then 200 else 503)
         (Obj [(''status'', Str (if redisOk \<and> sqliteOk then ''ok'' else ''degraded'')),
               (''redis'', health_text redisOk), (''sqlite'', health_text sqliteOk)]))))"

section \<open>The router\<close>

record relay_request =
  rq_method :: string
  rq_path :: string
  rq_authorization :: "string option"
  rq_content_type :: "string option"
  rq_json :: "js res"
  rq_bytes :: "bytes res"
  rq_connection :: nat

definition not_found :: relay_answer where
  "not_found = sendError 404 ''NOT_FOUND'' ''Route not found''"

definition handleNotifyDeprecated :: "string \<Rightarrow> relay_answer" where
  "handleNotifyDeprecated u = Moved_Answer (''/deliver/'' @ u) 410
     (error_body ''ENDPOINT_DEPRECATED'' ''POST /notify/{uuid} has been replaced by POST /deliver/{uuid}'')"

definition route_post ::
    "('y, 'z) relay_services_scheme \<Rightarrow> relay_config \<Rightarrow> relay_request \<Rightarrow> ('y, relay_answer) ract" where
  "route_post p cfg req =
     (case path_segments (rq_path req) of
        [a] \<Rightarrow> if a = ''register'' then handleRegister p cfg (rq_authorization req) (rq_json req)
               else if a = ''ack'' then handleAck p cfg (rq_authorization req) (rq_json req) else retA not_found
      | [a, x] \<Rightarrow>
          if x = [] then retA not_found
          else if a = ''deliver'' then handleDeliver p cfg x (rq_json req)
          else if a = ''ohttp'' then handleOhttpForward p cfg x (rq_content_type req) (rq_bytes req)
          else if a = ''notify'' then retA (handleNotifyDeprecated x) else retA not_found
      | _ \<Rightarrow> retA not_found)"

definition route_get :: "('y, 'z) relay_services_scheme \<Rightarrow> relay_request \<Rightarrow> ('y, relay_answer) ract" where
  "route_get p req =
     (case path_segments (rq_path req) of
        [a] \<Rightarrow> if a = ''sse'' then handleSSE p (rq_authorization req) (rq_connection req)
               else if a = ''pending'' then handlePending p (rq_authorization req)
               else if a = ''health'' then handleHealth p else retA not_found
      | [a, x] \<Rightarrow>
          if a = ''ws'' \<and> x \<noteq> []
          then retA (sendError 426 ''UPGRADE_REQUIRED'' ''This endpoint requires a WebSocket upgrade'') else retA not_found
      | _ \<Rightarrow> retA not_found)"

definition router ::
    "('y, 'z) relay_services_scheme \<Rightarrow> relay_config \<Rightarrow> relay_request \<Rightarrow> ('y, relay_answer) ract" where
  "router p cfg req =
     catchA (if rq_method req = ''POST'' then route_post p cfg req
             else if rq_method req = ''GET'' then route_get p req else retA not_found)
       (\<lambda>e. retA (internal_error ''Unexpected error''))"

section \<open>Background work\<close>

text \<open>
  What the relay does on its own (\<open>relay/src/startup.ts\<close>, \<open>relay/src/utils/reregistration.ts\<close>,
  \<open>pruning.ts\<close>, \<open>wallet_clearance.ts\<close>): recovery from an unclean shutdown, the call to devices to
  register again, the pruning of the device registry, and the deletion of acknowledged messages
  at the wallets. Timers are not modelled: a task is what runs when its timer fires.
\<close>

section \<open>Startup\<close>

text \<open>A UUID that a crash left open is consumed.\<close>

definition consume_stuck :: "('y, 'z) relay_services_scheme \<Rightarrow> string \<Rightarrow> ('y, unit) ract" where
  "consume_stuck p u =
     bindA (transitionUuid p u Active Consumed) (\<lambda>r1.
       if r1 = Moved then retA () else bindA (transitionUuid p u In_Flight Consumed) (\<lambda>_. retA ()))"

definition consume_stuck_uuids :: "('y, 'z) relay_services_scheme \<Rightarrow> ('y, unit) ract" where
  "consume_stuck_uuids p = bindA (scanActiveUuids p) (\<lambda>stuckUuids. forA (consume_stuck p) stuckUuids)"

text \<open>\<open>new Date(Date.now() - retentionDays * 24 * 60 * 60 * 1000).toISOString()\<close>.\<close>

definition retention_cutoff :: "('y, 'z) relay_services_scheme \<Rightarrow> relay_config \<Rightarrow> ('y, string) ract" where
  "retention_cutoff p cfg =
     bindA (nowR p) (\<lambda>now.
       case minus_num now (times_num (24 * 60 * 60 * 1000) (env_int (rl_DEVICE_REGISTRY_RETENTION_DAYS cfg) ''90'')) of
         Fin t \<Rightarrow> if time_clip t = Fin t then retA (iso_of_ms p t) else throwA (JsError ''RangeError: Invalid time value'')
       | _ \<Rightarrow> throwA (JsError ''RangeError: Invalid time value''))"

text \<open>Whether the call was sent.\<close>

definition reregister_device :: "('y, 'z) relay_services_scheme \<Rightarrow> relay_config \<Rightarrow> device_row \<Rightarrow> ('y, bool) ract" where
  "reregister_device p cfg device =
     (case relay_getApp (rl_apps cfg) (dr_app_id device) of
        None \<Rightarrow> retA False
      | Some app \<Rightarrow>
          catchA (bindA (dispatchPush p cfg (dr_push_token device) None app
              (Some (Obj [(''type'', Str ''relay_reregistration_requested''),
                          (''relay_id'', Str (case rl_RELAY_ID cfg of None \<Rightarrow> ''unknown'' | Some s \<Rightarrow> s))]))) (\<lambda>_. retA True))
            (\<lambda>e. retA False))"

text \<open>The numbers of calls sent and failed.\<close>

definition runReregistrationCheck :: "('y, 'z) relay_services_scheme \<Rightarrow> relay_config \<Rightarrow> ('y, nat \<times> nat) ract" where
  "runReregistrationCheck p cfg =
     bindA (isStoreEmpty p) (\<lambda>empty.
       if \<not> empty then retA (0, 0)
       else bindA (retention_cutoff p cfg) (\<lambda>cutoff.
            bindA (getRecentDevices p cutoff) (\<lambda>recent.
            bindA (mapA (reregister_device p cfg) recent) (\<lambda>results.
              retA (length (filter id results), length (filter Not results))))))"

definition runStartupChecks :: "('y, 'z) relay_services_scheme \<Rightarrow> relay_config \<Rightarrow> ('y, nat \<times> nat) ract" where
  "runStartupChecks p cfg = bindA (consume_stuck_uuids p) (\<lambda>_. runReregistrationCheck p cfg)"

section \<open>Pruning\<close>

text \<open>Errors are logged, also that of a cut-off that is no date.\<close>

definition runPrune :: "('y, 'z) relay_services_scheme \<Rightarrow> relay_config \<Rightarrow> ('y, unit) ract" where
  "runPrune p cfg =
     catchA (bindA (retention_cutoff p cfg) (\<lambda>cutoff. bindA (pruneOldDevices p cutoff) (\<lambda>removed. retA ()))) (\<lambda>e. retA ())"

section \<open>Clearance at the wallets\<close>

definition BASE_BACKOFF_MS :: int where
  "BASE_BACKOFF_MS = 300000"

definition MAX_BACKOFF_MS :: int where
  "MAX_BACKOFF_MS = 86400000"

definition backoff_ms :: "int \<Rightarrow> int" where
  "backoff_ms attempts = min (BASE_BACKOFF_MS * 2 ^ nat attempts) MAX_BACKOFF_MS"

definition requeue_later :: "('y, 'z) relay_services_scheme \<Rightarrow> delete_job \<Rightarrow> ('y, unit) ract" where
  "requeue_later p job =
     bindA (nowR p) (\<lambda>now.
       requeuePendingDelete p (job\<lparr>dj_attempts := dj_attempts job + 1\<rparr>) (Fin (now + backoff_ms (dj_attempts job))))"

definition executeDelete :: "('y, 'z) relay_services_scheme \<Rightarrow> delete_job \<Rightarrow> ('y, unit) ract" where
  "executeDelete p job =
     bindA (outR (delete_request p (dj_wallet_url job @ ''/messages/'' @ dj_uuid job))) (\<lambda>code.
       if 200 \<le> code \<and> code \<le> 299 \<or> code = 404 then retA () else requeue_later p job)"

text \<open>One job of a poll: an unexpected error puts it back as well.\<close>

definition poll_job :: "('y, 'z) relay_services_scheme \<Rightarrow> delete_job \<Rightarrow> ('y, unit) ract" where
  "poll_job p job = catchA (executeDelete p job) (\<lambda>e. catchA (requeue_later p job) (\<lambda>e'. retA ()))"

definition poll :: "('y, 'z) relay_services_scheme \<Rightarrow> ('y, unit) ract" where
  "poll p = bindA (caught (dequeuePendingDeletes p)) (\<lambda>jobs. case jobs of
     Inl e \<Rightarrow> retA ()
   | Inr js \<Rightarrow> forA (poll_job p) js)"

text \<open>
  The flush when the relay stops: the jobs that are due are taken out and executed, an error
  ends a job. \<open>remaining\<close> says whether time was left once they had been taken out; that the
  jobs are not cut short by the time limit is assumed.
\<close>

definition stopWalletClearance :: "('y, 'z) relay_services_scheme \<Rightarrow> bool \<Rightarrow> ('y, unit) ract" where
  "stopWalletClearance p remaining =
     bindA (caught (dequeuePendingDeletes p)) (\<lambda>jobs. case jobs of
       Inl e \<Rightarrow> retA ()
     | Inr js \<Rightarrow> if remaining then forA (\<lambda>job. bindA (caught (executeDelete p job)) (\<lambda>_. retA ())) js else retA ())"

end
