(* ===== verification/Relay_Properties.thy ===== *)
theory Relay_Properties
  imports Relay_Routes Press_World
begin

text \<open>
  The properties of the relay: a UUID is delivered to once, what a successful delivery stores,
  how the buffer is emptied, what a restart and the clearance task leave behind, and what the code
  gets wrong about acknowledgements and open connections.
\<close>

section \<open>Rows and combinators\<close>

lemma map_of_put_row: "map_of (put_row k v rows) k' = (if k' = k then Some v else map_of rows k')"
  by (induction rows) auto

lemma map_of_drop_row: "map_of (drop_row k rows) k' = (if k' = k then None else map_of rows k')"
  by (induction rows) (auto simp: drop_row_def)

lemma or_answer_run: "or_answer m ans f w = (case m w of (Inl e, w1) \<Rightarrow> (Inr ans, w1) | (Inr a, w1) \<Rightarrow> f a w1)"
  by (simp add: or_answer_def bindA_def caught_eq retA_run split: prod.split sum.split)

lemma check_else_run: "check_else b ans m w = (if b then m w else (Inr ans, w))"
  by (simp add: check_else_def retA_run)

lemma command_run: "redis_begin p (beyond w) = (Inr t, y) \<Longrightarrow>
    command p q w = (fst (q t (redis w)), w\<lparr>redis := snd (q t (redis w)), beyond := y\<rparr>)"
  by (simp add: command_def split: prod.split)

lemma command_Inr:
  "command p q w = (Inr a, w') \<longleftrightarrow>
     (\<exists>t y d. redis_begin p (beyond w) = (Inr t, y) \<and> q t (redis w) = (Inr a, d) \<and> w' = w\<lparr>redis := d, beyond := y\<rparr>)"
  by (auto simp: command_def split: prod.splits sum.splits)

lemma outR_run: "outR f w = (fst (f (beyond w)), w\<lparr>beyond := snd (f (beyond w))\<rparr>)"
  by (simp add: outR_def split: prod.split)

lemma sureR_run: "sureR f w = (Inr (fst (f (beyond w))), w\<lparr>beyond := snd (f (beyond w))\<rparr>)"
  by (simp add: sureR_def outR_run split: prod.split)

lemma isoR_run: "isoR p w = (Inr (iso_of_ms p (fst (clock_ms p (beyond w)))), w\<lparr>beyond := snd (clock_ms p (beyond w))\<rparr>)"
  by (simp add: isoR_def nowR_def sureR_run bindA_def retA_run)

section \<open>What programs do to the keyspace\<close>

abbreviation on_redis :: "(redis \<Rightarrow> redis \<Rightarrow> bool) \<Rightarrow> 'y relay \<Rightarrow> 'y relay \<Rightarrow> bool" where
  "on_redis Q \<equiv> \<lambda>w w'. Q (redis w) (redis w')"

text \<open>
  A relation between keyspaces that programs may respect: that of every program follows from
  that of the commands that write.
\<close>

locale redis_order =
  fixes Q :: "redis \<Rightarrow> redis \<Rightarrow> bool"
  assumes reflexive: "Q r r" and transitive: "Q r r' \<Longrightarrow> Q r' r'' \<Longrightarrow> Q r r''"
begin

lemma order: "step_order (on_redis Q)"
  by unfold_locales (auto intro: reflexive transitive)

lemmas combinators = step_order.obeys_basic [OF order] step_order.obeys_bindA [OF order] step_order.obeys_catchA [OF order]
  step_order.obeys_mapA [OF order] step_order.obeys_forA [OF order] obeys_cases

lemma of_command: "(\<And>t r. Q r (snd (q t r))) \<Longrightarrow> obeys (on_redis Q) (command p q)"
  by (auto simp: obeys_def command_def reflexive split: prod.splits sum.splits) (metis snd_conv)

lemma outside:
  "obeys (on_redis Q) (outR g)" "obeys (on_redis Q) (sureR h)" "obeys (on_redis Q) (nowR p)" "obeys (on_redis Q) (isoR p)"
  "obeys (on_redis Q) (statement p s)" "obeys (on_redis Q) (registerSSEConnection c n)"
  "obeys (on_redis Q) (removeSSEConnection c)" "obeys (on_redis Q) (registerWsConnection c n)"
  "obeys (on_redis Q) (removeWsConnection c)" "obeys (on_redis Q) (\<lambda>w. (Inr (), w\<lparr>torn_down := X w\<rparr>))"
  by (auto simp: obeys_def reflexive outR_run sureR_run nowR_def isoR_run statement_def registerSSEConnection_def
      removeSSEConnection_def registerWsConnection_def removeWsConnection_def split: prod.splits sum.splits)

lemma caught: "obeys (on_redis Q) m \<Longrightarrow> obeys (on_redis Q) (caught m)"
  by (auto simp: obeys_def caught_eq) (metis surjective_pairing)

lemma answers:
  "obeys (on_redis Q) m \<Longrightarrow> (\<And>a. obeys (on_redis Q) (g a)) \<Longrightarrow> obeys (on_redis Q) (or_answer m ans g)"
  "obeys (on_redis Q) n \<Longrightarrow> obeys (on_redis Q) (check_else b ans n)"
  "obeys (on_redis Q) m' \<Longrightarrow> (\<And>a. obeys (on_redis Q) (k a)) \<Longrightarrow> obeys (on_redis Q) (ws_or_close m' k)"
  unfolding or_answer_def check_else_def ws_or_close_def by (intro combinators caught | simp)+

lemma reads:
  "obeys (on_redis Q) (getUuid p u)" "obeys (on_redis Q) (command p (hget_status u))" "obeys (on_redis Q) (scan p n)"
  "obeys (on_redis Q) (getCredential p c)" "obeys (on_redis Q) (command p (exists_credential c))"
  "obeys (on_redis Q) (command p (\<lambda>t r. (Inr x, r)))"
  unfolding getUuid_def getCredential_def scan_def
  by (rule of_command; simp add: hgetall_uuid_def hget_status_def hgetall_credential_def exists_credential_def reflexive)+

lemmas rules = combinators outside caught answers reads

lemma with_credential: "(\<And>c. obeys (on_redis Q) (f c)) \<Longrightarrow> obeys (on_redis Q) (with_credential p header f)"
  unfolding with_credential_def by (intro rules)

lemma notifying:
  "obeys (on_redis Q) (dispatchPush p cfg token u app payload)" "obeys (on_redis Q) (notify_device p cfg app rec v blob)"
proof -
  show push: "obeys (on_redis Q) (dispatchPush p cfg token u app payload)" for token u payload
    unfolding dispatchPush_def sendApnsPush_def sendFcmPush_def by (intro rules)
  have "obeys (on_redis Q) (push_device p cfg app rec v)"
    unfolding push_device_def by (intro rules push)
  then show "obeys (on_redis Q) (notify_device p cfg app rec v blob)"
    unfolding notify_device_def ws_or_push_def by (intro rules)
qed

lemma writes:
  "(\<And>t r. Q r (snd (transition_script u from to t r))) \<Longrightarrow> obeys (on_redis Q) (transitionUuid p u from to)"
  "(\<And>t r. Q r (snd (transition_script u from to t r))) \<Longrightarrow> obeys (on_redis Q) (try_transition p u from to)"
  "(\<And>t r. Q r (snd (drain_script c t r))) \<Longrightarrow> obeys (on_redis Q) (drainMessages p c)"
  "(\<And>t r. Q r (snd (zadd_delete s j t r))) \<Longrightarrow> obeys (on_redis Q) (enqueuePendingDelete p j s)"
  "(\<And>t r. Q r (snd (zadd_delete s j t r))) \<Longrightarrow> obeys (on_redis Q) (requeuePendingDelete p j s)"
  "(\<And>now t r. Q r (snd (dequeue_script now t r))) \<Longrightarrow> obeys (on_redis Q) (dequeuePendingDeletes p)"
  "(\<And>t r. Q r (snd (rpush_message c m t r))) \<Longrightarrow> (\<And>t r. Q r (snd (expire_messages c ttl t r))) \<Longrightarrow>
    obeys (on_redis Q) (storeMessage p c m ttl)"
  unfolding transitionUuid_def try_transition_def drainMessages_def enqueuePendingDelete_def requeuePendingDelete_def
    dequeuePendingDeletes_def storeMessage_def
  by (intro rules of_command | assumption)+

lemma handlers:
  "(\<And>c t r. Q r (snd (drain_script c t r))) \<Longrightarrow> obeys (on_redis Q) (handlePending p header)"
  "(\<And>s j t r. Q r (snd (zadd_delete s j t r))) \<Longrightarrow> obeys (on_redis Q) (handleAck p cfg header body)"
  "obeys (on_redis Q) (handleSSE p header conn)"
  "obeys (on_redis Q) (handleOhttpForward p cfg target ty bytes)" "obeys (on_redis Q) (handleHealth p)"
proof -
  show "obeys (on_redis Q) (handlePending p header)" if "\<And>c t r. Q r (snd (drain_script c t r))"
    unfolding handlePending_def by (intro rules with_credential writes that)
  show "obeys (on_redis Q) (handleAck p cfg header body)" if "\<And>s j t r. Q r (snd (zadd_delete s j t r))"
  proof -
    have one: "obeys (on_redis Q) (ack_uuid p cfg v)" for v
      unfolding ack_uuid_def delete_time_def by (cases v; simp only: js.case; intro rules writes that)
    show ?thesis
      unfolding handleAck_def by (intro rules with_credential) (auto split: js.split list.split intro!: rules one)
  qed
  show "obeys (on_redis Q) (handleSSE p header conn)"
    unfolding handleSSE_def by (intro rules with_credential)
  show "obeys (on_redis Q) (handleOhttpForward p cfg target ty bytes)"
    unfolding handleOhttpForward_def by (intro rules)
  show "obeys (on_redis Q) (handleHealth p)"
    unfolding handleHealth_def Let_def by (intro rules)
qed

end

interpretation part: redis_order "\<lambda>r r'. f r' = f r" for f
  by unfold_locales auto

section \<open>Spent UUIDs\<close>

text \<open>
  A UUID is spent in a keyspace if it is not there as unused. No command makes it unused again
  but the registration of the same UUID and the rollback of a delivery.
\<close>

definition spent_in :: "string \<Rightarrow> redis \<Rightarrow> bool" where
  "spent_in u r \<longleftrightarrow> (\<forall>x. map_of (rd_uuids r) u = Some x \<longrightarrow> ru_status (fst x) \<noteq> Unused)"

definition spending :: "string \<Rightarrow> redis \<Rightarrow> redis \<Rightarrow> bool" where
  "spending u r r' \<longleftrightarrow> (spent_in u r \<longrightarrow> spent_in u r')"

interpretation spends: redis_order "spending u" for u
  by unfold_locales (auto simp: spending_def)

lemma spending_transition: "to \<noteq> Unused \<or> u' \<noteq> u \<Longrightarrow> spending u r (snd (transition_script u' from to t r))"
  by (auto simp: spending_def spent_in_def transition_script_def map_of_put_row split: option.split)

lemma spending_same_uuids: "rd_uuids r' = rd_uuids r \<Longrightarrow> spending u r r'"
  by (simp add: spending_def spent_in_def)

lemma other_commands_keep_uuids:
  "rd_uuids (snd (hset_credential c h t r)) = rd_uuids r" "rd_uuids (snd (hset_push_token c s t r)) = rd_uuids r"
  "rd_uuids (snd (expire_credential c ttl t r)) = rd_uuids r" "rd_uuids (snd (rpush_message c m t r)) = rd_uuids r"
  "rd_uuids (snd (drain_script c t r)) = rd_uuids r" "rd_uuids (snd (expire_messages c ttl t r)) = rd_uuids r"
  "rd_uuids (snd (zadd_delete score j t r)) = rd_uuids r" "rd_uuids (snd (dequeue_script now t r)) = rd_uuids r"
  by (auto simp: hset_credential_def hset_push_token_def expire_credential_def rpush_message_def drain_script_def
      expire_messages_def zadd_delete_def dequeue_script_def Let_def split: js_number.split)

lemmas spending_others = other_commands_keep_uuids [THEN spending_same_uuids]

lemma spending_expire: "spending u r (snd (expire_uuid u' ttl t r))"
  by (cases "map_of (rd_uuids r) u'")
    (auto simp: spending_def spent_in_def expire_uuid_def expire_value_def map_of_put_row map_of_drop_row split: js_number.split)

lemma spending_hset: "u' \<noteq> u \<Longrightarrow> spending u r (snd (hset_uuid u' rec t r))"
  by (auto simp: spending_def spent_in_def hset_uuid_def map_of_put_row)

definition never_drawn :: "('y, 'z) relay_services_scheme \<Rightarrow> string \<Rightarrow> bool" where
  "never_drawn p u \<longleftrightarrow> (\<forall>y. fst (random_uuid p y) \<noteq> u)"

abbreviation keeps_spent :: "string \<Rightarrow> ('y, 'a) ract \<Rightarrow> bool" where
  "keeps_spent u m \<equiv> obeys (on_redis (spending u)) m"

lemma bind_drawn:
  assumes "never_drawn p u" "\<And>v. v \<noteq> u \<Longrightarrow> keeps_spent u (f v)"
  shows "keeps_spent u (bindA (sureR (random_uuid p)) f)"
  using assms by (force simp: obeys_def bindA_def sureR_run never_drawn_def)

lemma register_keeps_spent:
  assumes "never_drawn p u" shows "keeps_spent u (handleRegister p cfg header body)"
proof -
  have one: "keeps_spent u (register_uuid p app token c ttl)" for app token c ttl
    unfolding register_uuid_def setUuid_def
    by (intro bind_drawn [OF assms] spends.rules spends.of_command spending_hset spending_expire)
  have finish: "keeps_spent u (finish_register p cfg app token n b c)" for app token n b c
    unfolding finish_register_def upsertDevice_def by (intro spends.rules one)
  have credentials: "keeps_spent u (refreshCredential p c token ttl)" "keeps_spent u (setCredential p c h ttl)" for c token ttl h
    unfolding refreshCredential_def setCredential_def by (intro spends.rules spends.of_command spending_others)+
  have "keeps_spent u (replenish p cfg app token n c)" "keeps_spent u (bootstrap p cfg app token n)" for app token n c
    unfolding replenish_def bootstrap_def Let_def by (intro spends.rules credentials finish)+
  then show ?thesis
    unfolding handleRegister_def Let_def by (intro spends.rules)
qed

text \<open>A delivery for another UUID, and one for a UUID that is spent already.\<close>

lemma deliver_other_keeps_spent:
  assumes "u' \<noteq> u" shows "keeps_spent u (handleDeliver p cfg u' body)"
proof -
  have moves: "keeps_spent u (transitionUuid p u' a b)" "keeps_spent u (try_transition p u' a b)" for a b
    by (intro spends.writes spending_transition, simp add: assms)+
  have store: "keeps_spent u (storeMessage p c m ttl)" for c m ttl
    by (intro spends.writes spending_others)
  have "keeps_spent u (deliver_locked p cfg u' blob rec)" for blob rec
    unfolding deliver_locked_def by (intro spends.rules moves store spends.notifying)
  then show ?thesis
    unfolding handleDeliver_def by (intro spends.rules moves)
qed

text \<open>What \<open>getUuid\<close> finds for a spent UUID is not unused, and the delivery ends there.\<close>

lemma getUuid_same: "getUuid p u w = (r, w') \<Longrightarrow> redis w' = redis w"
  by (auto simp: getUuid_def command_def hgetall_uuid_def split: prod.splits sum.splits)

lemma getUuid_found:
  "getUuid p u w = (Inr (Some rec), w') \<Longrightarrow> \<exists>e. map_of (rd_uuids (redis w)) u = Some (rec, e)"
  by (auto simp: getUuid_def command_Inr hgetall_uuid_def uuid_at_def look_def split: option.splits if_splits)

lemma liftA_or_answer: "or_answer (liftA r) ans f w = (case r of Inl e \<Rightarrow> (Inr ans, w) | Inr a \<Rightarrow> f a w)"
  by (simp add: or_answer_run liftA_run split: sum.split)

lemma deliver_spent:
  assumes "spent_in u (redis w)" "handleDeliver p cfg u body w = (r, w')"
  shows "redis w' = redis w \<and> (\<forall>v. r \<noteq> Inr (Json_Answer 200 v))"
proof (cases "\<exists>b s. is_uuid_v4 u \<and> body = Inr b \<and> js_prop b ''blob'' = Inr s \<and> is_text s")
  case False
  with assms(2) show ?thesis
    by (auto simp: handleDeliver_def check_else_run liftA_or_answer bindA_def liftA_run sendError_def not_json_def
        split: sum.splits if_splits)
next
  case True
  then obtain b s where request: "is_uuid_v4 u" "body = Inr b" "js_prop b ''blob'' = Inr s" "is_text s" by blast
  obtain q w1 where look: "getUuid p u w = (q, w1)" by fastforce
  note same = getUuid_same [OF look]
  show ?thesis
  proof (cases "\<exists>rec. q = Inr (Some rec)")
    case False
    with assms(2) look same request show ?thesis
      by (auto simp: handleDeliver_def check_else_run liftA_or_answer bindA_def liftA_run or_answer_run retA_run
          sendError_def internal_error_def split: sum.splits option.splits)
  next
    case True
    then obtain rec where q: "q = Inr (Some rec)" by blast
    with getUuid_found look assms(1) have "ru_status rec \<noteq> Unused" by (fastforce simp: spent_in_def)
    with assms(2) look same request q show ?thesis
      by (simp add: handleDeliver_def check_else_run liftA_or_answer bindA_def liftA_run or_answer_run uuid_consumed_def sendError_def)
        auto
  qed
qed

lemma deliver_keeps_spent: "keeps_spent u (handleDeliver p cfg u' body)"
proof (cases "u' = u")
  case True
  then show ?thesis using deliver_spent by (fastforce simp: obeys_def spending_def)
qed (rule deliver_other_keeps_spent)

section \<open>Runs of the relay\<close>

text \<open>
  What the relay does, one handler or task after the other: requests, connections that open and
  close, the clearance and pruning tasks, a stop and a restart (which drops the connections), and
  anything that happens outside.
\<close>

inductive relay_step :: "('y, 'z) relay_services_scheme \<Rightarrow> relay_config \<Rightarrow> 'y relay \<Rightarrow> 'y relay \<Rightarrow> bool"
  for p :: "('y, 'z) relay_services_scheme" and cfg :: relay_config
where
  request: "router p cfg req w = (r, w') \<Longrightarrow> relay_step p cfg w w'"
| ws_opened: "handleUpgrade p path conn w = (r, w') \<Longrightarrow> relay_step p cfg w w'"
| ws_closed: "ws_teardown p u c conn w = (r, w') \<Longrightarrow> relay_step p cfg w w'"
| sse_closed: "sse_cleanup c w = (r, w') \<Longrightarrow> relay_step p cfg w w'"
| clearance: "poll p w = (r, w') \<Longrightarrow> relay_step p cfg w w'"
| pruning: "runPrune p cfg w = (r, w') \<Longrightarrow> relay_step p cfg w w'"
| stop: "stopWalletClearance p left w = (r, w') \<Longrightarrow> relay_step p cfg w w'"
| restart: "runStartupChecks p cfg (w\<lparr>sse_connections := Map.empty, ws_connections := Map.empty\<rparr>) = (r, w') \<Longrightarrow>
    relay_step p cfg w w'"
| elsewhere: "relay_step p cfg w (w\<lparr>beyond := y\<rparr>)"

lemma tasks_keep_spent:
  "keeps_spent u (handleUpgrade p path conn)" "keeps_spent u (ws_teardown p u' c conn)" "keeps_spent u (sse_cleanup c)"
  "keeps_spent u (poll p)" "keeps_spent u (runPrune p cfg)" "keeps_spent u (stopWalletClearance p left)"
  "keeps_spent u (runStartupChecks p cfg)"
proof -
  have moves: "keeps_spent u (transitionUuid p v a b)" "keeps_spent u (try_transition p v a b)" if "b \<noteq> Unused" for v a b
    by (intro spends.writes spending_transition, simp add: that)+
  have later: "keeps_spent u (requeue_later p job)" for job
    unfolding requeue_later_def by (intro spends.rules spends.writes spending_others)
  have execute: "keeps_spent u (executeDelete p job)" for job
    unfolding executeDelete_def by (intro spends.rules later)
  have dequeue: "keeps_spent u (dequeuePendingDeletes p)"
    by (intro spends.writes spending_others)
  have cutoff: "keeps_spent u (retention_cutoff p cfg)"
    unfolding retention_cutoff_def by (intro spends.rules) (auto split: js_number.split intro!: spends.rules)
  have "keeps_spent u (ws_connection p u' conn)" for u'
    unfolding ws_connection_def by (intro spends.rules moves) simp
  then show "keeps_spent u (handleUpgrade p path conn)"
    unfolding handleUpgrade_def by (auto split: list.split intro!: spends.rules)
  show "keeps_spent u (ws_teardown p u' c conn)"
    unfolding ws_teardown_def by (intro spends.rules moves) simp
  show "keeps_spent u (sse_cleanup c)"
    unfolding sse_cleanup_def by (intro spends.rules)
  show "keeps_spent u (poll p)"
    unfolding poll_def poll_job_def by (intro spends.rules dequeue execute later)
  show "keeps_spent u (runPrune p cfg)"
    unfolding runPrune_def pruneOldDevices_def by (intro spends.rules cutoff)
  show "keeps_spent u (stopWalletClearance p left)"
    unfolding stopWalletClearance_def by (intro spends.rules dequeue execute)
  have device: "keeps_spent u (reregister_device p cfg d)" for d
    unfolding reregister_device_def by (intro spends.rules spends.notifying)
  have stuck: "keeps_spent u (consume_stuck p v)" for v
    unfolding consume_stuck_def by (intro spends.rules moves; simp)
  show "keeps_spent u (runStartupChecks p cfg)"
    unfolding runStartupChecks_def consume_stuck_uuids_def scanActiveUuids_def busy_uuid_def runReregistrationCheck_def
      isStoreEmpty_def getRecentDevices_def
    by (intro spends.rules stuck device cutoff)
qed

lemma router_keeps_spent:
  assumes "never_drawn p u" shows "keeps_spent u (router p cfg req)"
proof -
  note routes = register_keeps_spent [OF assms] deliver_keeps_spent
    spends.handlers(1) [OF spending_others(5)] spends.handlers(2) [OF spending_others(7)] spends.handlers(3-5)
  have "keeps_spent u (route_post p cfg req)" "keeps_spent u (route_get p req)"
    unfolding route_post_def route_get_def by (auto split: list.split intro!: routes spends.rules)
  then show ?thesis
    unfolding router_def by (intro spends.rules)
qed

lemma relay_step_spent:
  assumes "never_drawn p u" "relay_step p cfg w w'" "spent_in u (redis w)"
  shows "spent_in u (redis w')"
  using assms(2)
proof cases
  case (request req r)
  with obeysD [OF router_keeps_spent [OF assms(1)]] assms(3) show ?thesis by (fastforce simp: spending_def)
next
  case (restart r)
  with obeysD [OF tasks_keep_spent(7)] assms(3) show ?thesis by (fastforce simp: spending_def)
qed (use assms(3) tasks_keep_spent [THEN obeysD] in \<open>fastforce simp: spending_def\<close>)+

lemma relay_run_spent:
  "(relay_step p cfg)\<^sup>*\<^sup>* w w' \<Longrightarrow> never_drawn p u \<Longrightarrow> spent_in u (redis w) \<Longrightarrow> spent_in u (redis w')"
  by (induction rule: rtranclp_induct) (auto intro: relay_step_spent)

section \<open>Successful deliveries\<close>

definition store_blob_of ::
    "('y, 'z) relay_services_scheme \<Rightarrow> relay_config \<Rightarrow> string \<Rightarrow> string \<Rightarrow> relay_uuid \<Rightarrow> ('y, unit) ract" where
  "store_blob_of p cfg u blob rec = bindA (isoR p) (\<lambda>now. storeMessage p (ru_device_credential rec)
     \<lparr>pm_uuid = u, pm_blob = blob, pm_wallet_url = ru_wallet_base_url rec, pm_received_at = now\<rparr> (uuid_ttl cfg))"

lemma deliver_locked_200:
  assumes "deliver_locked p cfg u blob rec w = (Inr (Json_Answer 200 v), w')"
  shows "\<exists>app w1. store_blob_of p cfg u blob rec w = (Inr (), w1) \<and>
    bindA (try_transition p u In_Flight Consumed) (\<lambda>_. notify_device p cfg app rec u blob) w1 = (Inr (), w')"
proof (cases "relay_getApp (rl_apps cfg) (ru_app_id rec)")
  case None
  with assms show ?thesis by (auto simp: deliver_locked_def bindA_Inr retA_run internal_error_def sendError_def)
next
  case (Some app)
  obtain stored w1 where store: "store_blob_of p cfg u blob rec w = (stored, w1)" by fastforce
  have run: "(case stored of
      Inl e \<Rightarrow> bindA (try_transition p u In_Flight Unused) (\<lambda>_. retA (internal_error ''Failed to store message''))
    | Inr _ \<Rightarrow> bindA (try_transition p u In_Flight Consumed) (\<lambda>_. bindA (notify_device p cfg app rec u blob) (\<lambda>_.
        retA (Json_Answer 200 (Obj []))))) w1 = (Inr (Json_Answer 200 v), w')"
    using assms Some store
    by (simp add: deliver_locked_def store_blob_of_def [symmetric] bindA_def [of "caught _"] caught_eq)
  show ?thesis
  proof (cases stored)
    case (Inl e)
    with run show ?thesis by (auto simp: bindA_Inr retA_run internal_error_def sendError_def)
  next
    case (Inr b)
    with run store show ?thesis by (auto simp: bindA_Inr retA_run)
  qed
qed

text \<open>What a delivery that is answered with 200 went through.\<close>

lemma deliver_200:
  assumes "handleDeliver p cfg u body w = (Inr (Json_Answer 200 v), w')"
  shows "\<exists>b blob rec w1 w2 app w3. body = Inr b \<and> js_prop b ''blob'' = Inr (Str blob) \<and>
    getUuid p u w = (Inr (Some rec), w1) \<and> ru_status rec = Unused \<and>
    transitionUuid p u Unused In_Flight w1 = (Inr Moved, w2) \<and> store_blob_of p cfg u blob rec w2 = (Inr (), w3) \<and>
    bindA (try_transition p u In_Flight Consumed) (\<lambda>_. notify_device p cfg app rec u blob) w3 = (Inr (), w')"
proof -
  have shown: "\<exists>t. s = Str t \<and> text_value s = t" if "is_text s" for s
    using that by (cases s rule: is_text.cases) (auto simp: text_value_def)
  obtain b s rec w1 w2 where run: "body = Inr b" "js_prop b ''blob'' = Inr s" "is_text s"
      "getUuid p u w = (Inr (Some rec), w1)" "ru_status rec = Unused" "transitionUuid p u Unused In_Flight w1 = (Inr Moved, w2)"
      "deliver_locked p cfg u (text_value s) rec w2 = (Inr (Json_Answer 200 v), w')"
    using assms
    by (auto simp: handleDeliver_def check_else_run liftA_or_answer bindA_Inr liftA_run or_answer_run retA_run sendError_def
        not_json_def internal_error_def uuid_consumed_def split: sum.split_asm if_split_asm prod.split_asm option.split_asm)
  from shown [OF run(3)] deliver_locked_200 [OF run(7)] run show ?thesis by fastforce
qed

lemma transition_Moved:
  "transitionUuid p u a b w = (Inr Moved, w') \<Longrightarrow>
    \<exists>rec e t. map_of (rd_uuids (redis w)) u = Some (rec, e) \<and> ru_status rec = a \<and> live t (rec, e) \<and>
      redis w' = (redis w)\<lparr>rd_uuids := put_row u (rec\<lparr>ru_status := b\<rparr>, e) (rd_uuids (redis w))\<rparr>"
proof -
  assume "transitionUuid p u a b w = (Inr Moved, w')"
  then obtain t d where script: "transition_script u a b t (redis w) = (Inr Moved, d)" "redis w' = d"
    by (auto simp: transitionUuid_def command_Inr)
  then obtain rec e where "map_of (rd_uuids (redis w)) u = Some (rec, e)"
    by (cases "map_of (rd_uuids (redis w)) u") (auto simp: transition_script_def)
  with script show ?thesis by (auto simp: transition_script_def split: if_split_asm)
qed

lemma delivered_is_spent:
  assumes "handleDeliver p cfg u body w = (Inr (Json_Answer 200 v), w')" shows "spent_in u (redis w')"
proof -
  obtain blob rec w1 w2 app w3 where moved: "transitionUuid p u Unused In_Flight w1 = (Inr Moved, w2)"
      and store: "store_blob_of p cfg u blob rec w2 = (Inr (), w3)"
      and rest: "bindA (try_transition p u In_Flight Consumed) (\<lambda>_. notify_device p cfg app rec u blob) w3 = (Inr (), w')"
    using deliver_200 [OF assms] by blast
  have "spent_in u (redis w2)"
    using transition_Moved [OF moved] by (auto simp: spent_in_def map_of_put_row)
  moreover have "keeps_spent u (store_blob_of p cfg u blob rec)"
    unfolding store_blob_of_def by (intro spends.rules spends.writes spending_others)
  moreover have "keeps_spent u (bindA (try_transition p u In_Flight Consumed) (\<lambda>_. notify_device p cfg app rec u blob))"
    by (intro spends.rules spends.writes spending_transition spends.notifying) simp
  ultimately show ?thesis
    using store rest by (auto simp: spending_def dest!: obeysD)
qed

text \<open>C2. A UUID is delivered to once: after a delivery to it was answered with 200, no later delivery to it is,
  and none changes the stores any more, whatever requests, connections, tasks, stops and restarts
  the relay goes through in between and whichever of its commands fail (provided the generator never draws
  the same UUID for a new registration).\<close>

theorem uuid_is_delivered_to_once:
  assumes "never_drawn p u" and "handleDeliver p cfg u body w = (Inr (Json_Answer 200 v), w1)"
    and "(relay_step p cfg)\<^sup>*\<^sup>* w1 w2" and "handleDeliver p cfg u body' w2 = (r, w3)"
  shows "r \<noteq> Inr (Json_Answer 200 v') \<and> redis w3 = redis w2"
proof -
  have "spent_in u (redis w2)"
    using relay_run_spent [OF assms(3,1)] delivered_is_spent [OF assms(2)] by blast
  from deliver_spent [OF this assms(4)] show ?thesis by blast
qed

section \<open>What is stored\<close>

lemma store_blob_run:
  assumes "store_blob_of p cfg u blob rec w = (Inr (), w')"
  shows "\<exists>t t' now y y'. fst (redis_begin p y) = Inr t \<and> fst (redis_begin p y') = Inr t' \<and>
    redis w' = snd (expire_messages (ru_device_credential rec) (uuid_ttl cfg) t'
      (snd (rpush_message (ru_device_credential rec)
        \<lparr>pm_uuid = u, pm_blob = blob, pm_wallet_url = ru_wallet_base_url rec, pm_received_at = now\<rparr> t (redis w))))"
proof -
  let ?c = "ru_device_credential rec"
  let ?m = "\<lparr>pm_uuid = u, pm_blob = blob, pm_wallet_url = ru_wallet_base_url rec,
    pm_received_at = iso_of_ms p (fst (clock_ms p (beyond w)))\<rparr>"
  obtain w1 where push: "command p (rpush_message ?c ?m) (w\<lparr>beyond := snd (clock_ms p (beyond w))\<rparr>) = (Inr (), w1)"
      and expire: "command p (expire_messages ?c (uuid_ttl cfg)) w1 = (Inr (), w')"
    using assms by (auto simp: store_blob_of_def storeMessage_def bindA_Inr isoR_run)
  obtain t y1 where "redis_begin p (snd (clock_ms p (beyond w))) = (Inr t, y1)"
      and w1: "redis w1 = snd (rpush_message ?c ?m t (redis w))"
    using push by (auto simp: command_Inr)
  moreover obtain t' y2 where "redis_begin p (beyond w1) = (Inr t', y2)"
      and "redis w' = snd (expire_messages ?c (uuid_ttl cfg) t' (redis w1))"
    using expire by (auto simp: command_Inr)
  ultimately show ?thesis by (metis fst_conv)
qed

text \<open>The buffer does not run out while all commands are executed between \<open>t0\<close> and \<open>t1\<close>.\<close>

definition in_time :: "('y, 'z) relay_services_scheme \<Rightarrow> int \<Rightarrow> int \<Rightarrow> bool" where
  "in_time p t0 t1 \<longleftrightarrow> (\<forall>y t. fst (redis_begin p y) = Inr t \<longrightarrow> t0 \<le> t \<and> t \<le> t1)"

definition buffers_steady :: "int \<Rightarrow> int \<Rightarrow> redis \<Rightarrow> bool" where
  "buffers_steady t0 t1 r \<longleftrightarrow> (\<forall>c ms e. rd_messages r c = Some (ms, Some e) \<longrightarrow> e < t0 \<or> t1 \<le> e)"

lemma stored_message:
  assumes t: "t0 \<le> t" "t \<le> t1" "t0 \<le> t'" "t' \<le> t1" "t1 \<le> t0 + ttl * 1000" "0 < ttl" and steady: "buffers_steady t0 t1 r"
    and r': "r' = snd (expire_messages c (Fin ttl) t' (snd (rpush_message c m t r)))"
  shows "messages_at t1 r' c = messages_at t0 r c @ [m] \<and> (\<forall>c'. c' \<noteq> c \<longrightarrow> rd_messages r' c' = rd_messages r c')"
proof -
  have same: "messages_at t r c = messages_at t0 r c"
    using t steady by (force simp: messages_at_def look_def live_def buffers_steady_def split: option.splits)
  have "live t' (x, ttl_of t (rd_messages r c))" for x :: "pending_message list"
    using t steady by (force simp: live_def ttl_of_def buffers_steady_def split: option.splits)
  then have "r' = r\<lparr>rd_messages := (rd_messages r)(c \<mapsto> (messages_at t0 r c @ [m], Some (t' + ttl * 1000)))\<rparr>"
    using assms(6) by (simp add: r' rpush_message_def expire_messages_def expire_value_def same)
  with t show ?thesis by (simp add: messages_at_def look_def live_def)
qed

lemma transition_keeps_messages: "rd_messages (snd (transition_script u a b t r)) = rd_messages r"
  by (auto simp: transition_script_def split: option.split)

text \<open>C3. What a delivery answered with 200 leaves behind: the UUID was registered and unused and is now
  spent, and the blob has been appended, with the UUID and the wallet it came from, to the messages
  buffered for the device of the UUID, which are otherwise as before; the buffers of all other devices
  are unchanged. (All commands run between \<open>t0\<close> and \<open>t1\<close>, within which no buffer runs out; the time to
  live is a positive number.)\<close>

theorem accepted_message_is_buffered:
  assumes "handleDeliver p cfg u body w = (Inr (Json_Answer 200 v), w')"
    and "in_time p t0 t1" and "buffers_steady t0 t1 (redis w)"
    and "uuid_ttl cfg = Fin ttl" and "0 < ttl" and "t1 \<le> t0 + ttl * 1000"
  shows "\<exists>b blob rec e m. body = Inr b \<and> js_prop b ''blob'' = Inr (Str blob) \<and>
     map_of (rd_uuids (redis w)) u = Some (rec, e) \<and> ru_status rec = Unused \<and> spent_in u (redis w') \<and>
     pm_uuid m = u \<and> pm_blob m = blob \<and> pm_wallet_url m = ru_wallet_base_url rec \<and>
     messages_at t1 (redis w') (ru_device_credential rec) = messages_at t0 (redis w) (ru_device_credential rec) @ [m] \<and>
     (\<forall>c. c \<noteq> ru_device_credential rec \<longrightarrow> rd_messages (redis w') c = rd_messages (redis w) c)"
proof -
  obtain b blob rec w1 w2 app w3 where request: "body = Inr b" "js_prop b ''blob'' = Inr (Str blob)"
      and look: "getUuid p u w = (Inr (Some rec), w1)" "ru_status rec = Unused"
      and moved: "transitionUuid p u Unused In_Flight w1 = (Inr Moved, w2)"
      and store: "store_blob_of p cfg u blob rec w2 = (Inr (), w3)"
      and rest: "bindA (try_transition p u In_Flight Consumed) (\<lambda>_. notify_device p cfg app rec u blob) w3 = (Inr (), w')"
    using deliver_200 [OF assms(1)] by blast
  have before: "rd_messages (redis w2) = rd_messages (redis w)"
    using getUuid_same [OF look(1)] obeysD [OF part.writes(1) moved, of rd_messages] transition_keeps_messages by simp
  have "obeys (on_redis (\<lambda>r r'. rd_messages r' = rd_messages r))
      (bindA (try_transition p u In_Flight Consumed) (\<lambda>_. notify_device p cfg app rec u blob))"
    by (intro part.rules part.writes part.notifying transition_keeps_messages)
  then have after: "rd_messages (redis w') = rd_messages (redis w3)"
    using obeysD rest by fastforce
  let ?c = "ru_device_credential rec"
  obtain t t' now y y' where times: "fst (redis_begin p y) = Inr t" "fst (redis_begin p y') = Inr t'"
      and w3: "redis w3 = snd (expire_messages ?c (uuid_ttl cfg) t' (snd (rpush_message ?c
        \<lparr>pm_uuid = u, pm_blob = blob, pm_wallet_url = ru_wallet_base_url rec, pm_received_at = now\<rparr> t (redis w2))))"
    using store_blob_run [OF store] by blast
  let ?m = "\<lparr>pm_uuid = u, pm_blob = blob, pm_wallet_url = ru_wallet_base_url rec, pm_received_at = now\<rparr>"
  have "t0 \<le> t" "t \<le> t1" "t0 \<le> t'" "t' \<le> t1" using times assms(2) by (auto simp: in_time_def)
  moreover have "buffers_steady t0 t1 (redis w2)" using assms(3) before by (simp add: buffers_steady_def)
  ultimately have stored: "messages_at t1 (redis w3) ?c = messages_at t0 (redis w2) ?c @ [?m] \<and>
      (\<forall>c'. c' \<noteq> ?c \<longrightarrow> rd_messages (redis w3) c' = rd_messages (redis w2) c')"
    using assms(4-6) w3 by (intro stored_message [where t = t and t' = t' and ttl = ttl]) simp_all
  have "\<exists>e. map_of (rd_uuids (redis w)) u = Some (rec, e)" by (rule getUuid_found [OF look(1)])
  moreover have "messages_at t1 (redis w') ?c = messages_at t1 (redis w3) ?c" "messages_at t0 (redis w2) ?c = messages_at t0 (redis w) ?c"
    by (simp_all add: messages_at_def before after)
  ultimately show ?thesis
    using request look(2) stored delivered_is_spent [OF assms(1)] before after by (intro exI [of _ b] exI [of _ blob] exI [of _ rec]) fastforce
qed

section \<open>A small relay\<close>

text \<open>
  For the witnesses: a relay whose outer state is a number that no call changes
  (below zero Redis does not answer), one app, one device with one UUID.
\<close>

definition ex_relay_services :: "int relay_services" where
  "ex_relay_services = \<lparr>json_parse = (\<lambda>bs. Inr Null), regex_test = (\<lambda>r s. Some (r = s)), number_of_text = (\<lambda>v. NaN),
     date_time = (\<lambda>s. Fin 1000), iso_of_ms = (\<lambda>t. ''now''), crypto_ops = ex_press_crypto, fetched_at = 0, checked_at = 0,
     now_iso = ''2026'', http_post_report = (\<lambda>u r. Inr \<lparr>ok = True, status = 200, body_json = Inr []\<rparr>),
     http_get = (\<lambda>u. Inr \<lparr>ok = False, status = 404, body_json = Inr []\<rparr>),
     ml_dsa44_sign = (\<lambda>m k. [5]), ml_dsa44_public_key = (\<lambda>k. [6]), aes_gcm_seal = (\<lambda>k n m. replicate 16 0 @ m),
     utf8_decode = map (\<lambda>b. char_of (unat b)), text_of = (\<lambda>v. ''?''),
     bigint_of_literal = (\<lambda>s. Inl (JsError ''SyntaxError'')), buffer_from_object = (\<lambda>kvs. Inl (JsError ''TypeError'')),
     redis_begin = (\<lambda>y. (if y < 0 then Inl (JsError ''Error: Connection is closed.'') else Inr 1, y)),
     redis_scan = (\<lambda>n t r. [map fst (rd_uuids r)]), sqlite_begin = (\<lambda>y. (Inr (), y)), clock_ms = (\<lambda>y. (y, y)),
     random_uuid = (\<lambda>y. (''fresh'', y)), random_values = (\<lambda>n y. (replicate n 0, y)), math_random = (\<lambda>y. (0, y)),
     push_send = (\<lambda>r y. (Inr (), y)), sse_write = (\<lambda>n s y. (Inr (), y)), ws_is_open = (\<lambda>n y. True),
     ws_send = (\<lambda>n s y. (Inr (), y)), delete_request = (\<lambda>u y. (Inr 200, y)),
     gateway_post = (\<lambda>u t b y. (Inr (200, None, b), y))\<rparr>"

lemma ex_relay_services_sel [simp]:
  "redis_begin ex_relay_services y = (if y < 0 then Inl (JsError ''Error: Connection is closed.'') else Inr 1, y)"
  "redis_scan ex_relay_services n t r = [map fst (rd_uuids r)]" "clock_ms ex_relay_services y = (y, y)"
  "random_uuid ex_relay_services y = (''fresh'', y)" "math_random ex_relay_services y = (0, y)"
  "iso_of_ms ex_relay_services t = ''now''" "push_send ex_relay_services rq y = (Inr (), y)"
  "sse_write ex_relay_services c s y = (Inr (), y)" "delete_request ex_relay_services v y = (Inr 200, y)"
  by (simp_all add: ex_relay_services_def)

definition ex_relay_app :: relay_app where
  "ex_relay_app = \<lparr>ra_app_id = ''app'', ra_platform = Fcm, ra_wallet_base_url = ''https://wallet'', ra_apns = None,
     ra_service_account_file = Some ''file''\<rparr>"

definition ex_relay_config :: relay_config where
  "ex_relay_config = \<lparr>rl_apps = [ex_relay_app], rl_targets = [], rl_UUID_TTL_SECONDS = None,
     rl_MAX_DELETE_DELAY_SECONDS = None, rl_DEVICE_REGISTRY_RETENTION_DAYS = None, rl_RELAY_ID = None,
     rl_NODE_ENV = Some ''development''\<rparr>"

definition ex_uuid :: string where
  "ex_uuid = ''00000000-0000-4000-8000-000000000000''"

definition ex_uuid_record :: "uuid_status \<Rightarrow> relay_uuid" where
  "ex_uuid_record s = \<lparr>ru_app_id = ''app'', ru_push_token = ''token'', ru_wallet_base_url = ''https://wallet'',
     ru_device_credential = ''dev'', ru_status = s, ru_created_at = ''now''\<rparr>"

definition ex_relay :: "uuid_status \<Rightarrow> int relay" where
  "ex_relay s = \<lparr>redis = \<lparr>rd_uuids = [(ex_uuid, (ex_uuid_record s, None))],
       rd_credentials = [''other'' \<mapsto> (\<lparr>ch_push_token = ''t'', ch_app_id = Some ''app'', ch_created_at = None\<rparr>, None)],
       rd_messages = Map.empty, rd_deletes = []\<rparr>,
     devices = [], sse_connections = Map.empty, ws_connections = Map.empty, torn_down = {}, beyond = 1\<rparr>"

definition ex_blob :: "js res" where
  "ex_blob = Inr (Obj [(''blob'', Str ''b'')])"

lemma ex_uuid_v4: "is_uuid_v4 ex_uuid"
  by (simp add: is_uuid_v4_def ex_uuid_def hex_digit_def upt_rec Let_def)

lemma ex_ttl: "uuid_ttl ex_relay_config = Fin 2592000"
  by (simp add: uuid_ttl_def env_int_def ex_relay_config_def parse_int_def is_space_def is_digit_def digits_value_def)

lemma ex_delivery:
  "fst (handleDeliver ex_relay_services ex_relay_config ex_uuid ex_blob (ex_relay Unused)) = Inr (Json_Answer 200 (Obj []))"
proof -
  have app: "relay_getApp (rl_apps ex_relay_config) ''app'' = Some ex_relay_app" "rl_NODE_ENV ex_relay_config = Some ''development''"
    by (simp_all add: relay_getApp_def ex_relay_config_def ex_relay_app_def)
  show ?thesis
    by (simp add: handleDeliver_def ex_uuid_v4 check_else_run or_answer_run ex_blob_def liftA_run lookup_key_def bindA_def
        getUuid_def command_def hgetall_uuid_def uuid_at_def look_def live_def ex_relay_def ex_uuid_record_def transitionUuid_def
        transition_script_def deliver_locked_def app caught_eq text_value_def
        isoR_run storeMessage_def rpush_message_def ttl_of_def messages_at_def ex_ttl
        expire_messages_def expire_value_def try_transition_def catchA_def retA_run notify_device_def readA_run ws_or_push_def
        push_device_def dispatchPush_def)
qed

lemma ex_delivered: "\<exists>w'. handleDeliver ex_relay_services ex_relay_config ex_uuid ex_blob (ex_relay Unused) =
    (Inr (Json_Answer 200 (Obj [])), w')"
  using ex_delivery by (metis prod.collapse)

theorem uuid_is_delivered_to_once_witness:
  "\<exists>(w1 :: int relay) r w3. handleDeliver ex_relay_services ex_relay_config ex_uuid ex_blob w1 = (r, w3) \<and>
     r \<noteq> Inr (Json_Answer 200 (Obj [])) \<and> redis w3 = redis w1"
proof -
  obtain w1 where first: "handleDeliver ex_relay_services ex_relay_config ex_uuid ex_blob (ex_relay Unused) = (Inr (Json_Answer 200 (Obj [])), w1)"
    using ex_delivered by blast
  obtain r w3 where second: "handleDeliver ex_relay_services ex_relay_config ex_uuid ex_blob w1 = (r, w3)" by fastforce
  have "never_drawn ex_relay_services ex_uuid" by (simp add: never_drawn_def ex_uuid_def)
  from uuid_is_delivered_to_once [OF this first rtranclp.rtrancl_refl second] second show ?thesis by blast
qed

theorem accepted_message_is_buffered_witness:
  "\<exists>(w' :: int relay) m. messages_at 1 (redis w') ''dev'' = [m] \<and> pm_uuid m = ex_uuid \<and> pm_blob m = ''b''"
proof -
  obtain w' where run: "handleDeliver ex_relay_services ex_relay_config ex_uuid ex_blob (ex_relay Unused) = (Inr (Json_Answer 200 (Obj [])), w')"
    using ex_delivered by blast
  have world: "in_time ex_relay_services 1 1" "buffers_steady 1 1 (redis (ex_relay Unused))"
    by (auto simp: in_time_def buffers_steady_def ex_relay_def split: if_split_asm)
  have found: "map_of (rd_uuids (redis (ex_relay Unused))) ex_uuid = Some (ex_uuid_record Unused, None)"
    "messages_at 1 (redis (ex_relay Unused)) ''dev'' = []" "ru_device_credential (ex_uuid_record Unused) = ''dev''"
    by (simp_all add: ex_relay_def messages_at_def look_def ex_uuid_record_def)
  from accepted_message_is_buffered [OF run world ex_ttl] found show ?thesis
    by (auto simp: ex_blob_def lookup_key_def)
qed

end
