(* ===== verification/Relay_Task_Properties.thy ===== *)
theory Relay_Task_Properties
  imports Relay_Properties
begin

text \<open>
  Further properties of the relay: how the buffer of a device is emptied and what an
  acknowledgement does, open connections, recovery after an unclean shutdown, and the deletes the
  relay owes the wallets.
\<close>

section \<open>Fetching and acknowledging\<close>

lemma getCredential_same: "getCredential p c w = (r, w') \<Longrightarrow> redis w' = redis w"
  by (auto simp: getCredential_def command_def hgetall_credential_def split: prod.splits sum.splits)

text \<open>What a request that is authenticated went through.\<close>

lemma with_credential_answer:
  assumes "with_credential p header f w = (Inr ans, w')"
    and "ans \<noteq> invalid_credential" "ans \<noteq> internal_error ''Failed to validate credential''"
    and "ans \<noteq> sendError 401 ''MISSING_CREDENTIAL'' ''Authorization header with Bearer token is required''"
  shows "\<exists>c h w1. extractBearerToken header = Some c \<and> getCredential p c w = (Inr (Some h), w1) \<and> redis w1 = redis w \<and>
    f c w1 = (Inr ans, w')"
proof (cases "extractBearerToken header")
  case None
  with assms show ?thesis by (simp add: with_credential_def retA_run)
next
  case (Some c)
  obtain q w1 where look: "getCredential p c w = (q, w1)" by fastforce
  from assms Some look getCredential_same [OF look] show ?thesis
    by (auto simp: with_credential_def or_answer_run check_else_run split: sum.split_asm if_split_asm)
qed

text \<open>A device gets every buffered message once, in order: an answer of \<open>GET /pending\<close> with status 200
  lists, for the device the credential names, the UUIDs and blobs of all its buffered messages in the
  order in which they were accepted; its buffer is empty afterwards, so that a second request lists
  nothing, and the buffers of other devices, the UUIDs and the pending deletes are unchanged. (So a
  message whose response is lost is gone, before it was acknowledged.)\<close>

theorem pending_hands_over_once:
  assumes "handlePending p header w = (Inr (Json_Answer 200 v), w')"
  shows "\<exists>c t. extractBearerToken header = Some c \<and>
     v = Obj [(''messages'', Arr (map (\<lambda>m. Obj [(''uuid'', Str (pm_uuid m)), (''blob'', Str (pm_blob m))]) (messages_at t (redis w) c)))] \<and>
     (\<exists>t'. messages_at t' (redis w') c = []) \<and> (messages_at t (redis w) c \<noteq> [] \<longrightarrow> rd_messages (redis w') c = None) \<and>
     (\<forall>c'. c' \<noteq> c \<longrightarrow> rd_messages (redis w') c' = rd_messages (redis w) c') \<and>
     rd_uuids (redis w') = rd_uuids (redis w) \<and> rd_deletes (redis w') = rd_deletes (redis w)"
proof -
  obtain c w1 where c: "extractBearerToken header = Some c" "redis w1 = redis w"
      and drain: "or_answer (drainMessages p c) (internal_error ''Failed to retrieve messages'') (\<lambda>messages.
       retA (Json_Answer 200 (Obj [(''messages'',
         Arr (map (\<lambda>m. Obj [(''uuid'', Str (pm_uuid m)), (''blob'', Str (pm_blob m))]) messages))]))) w1 = (Inr (Json_Answer 200 v), w')"
    using with_credential_answer [OF assms [unfolded handlePending_def]]
    by (auto simp: invalid_credential_def internal_error_def sendError_def)
  then obtain ms where run: "drainMessages p c w1 = (Inr ms, w')"
      and v: "v = Obj [(''messages'', Arr (map (\<lambda>m. Obj [(''uuid'', Str (pm_uuid m)), (''blob'', Str (pm_blob m))]) ms))]"
    by (auto simp: or_answer_run retA_run internal_error_def sendError_def split: prod.split_asm sum.split_asm)
  then obtain t where "ms = messages_at t (redis w) c"
      and w': "redis w' = (if messages_at t (redis w) c \<noteq> [] then (redis w)\<lparr>rd_messages := (rd_messages (redis w))(c := None)\<rparr> else redis w)"
    using c by (auto simp: drainMessages_def command_Inr drain_script_def)
  moreover from w' have "messages_at t (redis w') c = []" by (auto simp: messages_at_def look_def)
  ultimately show ?thesis using c v by (intro exI [of _ c] exI [of _ t]) auto
qed

text \<open>An acknowledgement does not empty the buffer: whatever \<open>POST /ack\<close> names and however it is answered,
  the messages of every device stay buffered as they are. A message delivered over an event stream
  and acknowledged is handed out again by the next \<open>GET /pending\<close>, although the code says that it remains in the store until
  it is acknowledged.\<close>

theorem acknowledged_messages_stay_buffered:
  "rd_messages (redis (snd (handleAck p cfg header body w))) = rd_messages (redis w)"
proof -
  have "obeys (on_redis (\<lambda>r r'. rd_messages r' = rd_messages r)) (handleAck p cfg header body)"
    by (intro part.handlers(2)) (auto simp: zadd_delete_def split: js_number.split)
  from obeysD [OF this surjective_pairing] show ?thesis .
qed

text \<open>An acknowledgement is not checked for ownership: a device with any valid credential that names the
  UUID of another device in \<open>POST /ack\<close> is answered with 200, and the relay schedules the delete of that
  message at the wallet, also when the message was never delivered.\<close>

theorem ack_is_not_checked_for_ownership:
  assumes "\<And>y. fst (redis_begin p y) = Inr t" and "extractBearerToken header = Some c"
    and "credential_at t (redis w) c = Some h" and "ch_push_token h \<noteq> []"
    and "uuid_at t (redis w) u = Some rec" and "ru_device_credential rec \<noteq> c"
    and "env_int (rl_MAX_DELETE_DELAY_SECONDS cfg) ''21600'' = Fin m"
  shows "\<exists>w' s. handleAck p cfg header (Inr (Obj [(''uuids'', Arr [Str u])])) w = (Inr (Json_Answer 200 (Obj [])), w') \<and>
     (\<lparr>dj_wallet_url = ru_wallet_base_url rec, dj_uuid = u, dj_attempts = 0\<rparr>, s) \<in> set (rd_deletes (redis w'))"
proof -
  have up: "command p q v = (fst (q t (redis v)), v\<lparr>redis := snd (q t (redis v)), beyond := snd (redis_begin p (beyond v))\<rparr>)" for q v
    using assms(1) [of "beyond v"] by (intro command_run) (metis prod.collapse)
  have member: "(job, s) \<in> set (put_row job s rows)" for job s and rows :: "(delete_job \<times> int) list"
    by (induction rows) auto
  show ?thesis
    using assms(2-5,7)
    by (simp add: handleAck_def with_credential_def or_answer_run check_else_run getCredential_def getUuid_def up hgetall_credential_def
        liftA_run bindA_def lookup_key_def ack_uuid_def catchA_def hgetall_uuid_def delete_time_def
        sureR_run nowR_def retA_run enqueuePendingDelete_def zadd_delete_def)
      (rule exI, rule member)
qed

section \<open>Connections\<close>

text \<open>A connection that closes late takes the place of the one that followed it: when a device opens a new
  event stream, the stream is entered for its credential; when an older stream of the same device is
  closed after that, the entry of the new one is removed, and deliveries to the device no longer use
  the stream although it is open.\<close>

theorem late_close_drops_new_stream:
  assumes "handleSSE p header conn w = (Inr Event_Stream, w1)" and "extractBearerToken header = Some c"
    and "sse_cleanup c w1 = (r, w2)" and "ru_device_credential rec = c"
  shows "sse_connections w1 c = Some conn \<and> sse_connections w2 c = None \<and>
     notify_device p cfg app rec u blob w2 = ws_or_push p cfg app rec u blob w2"
proof -
  have "sse_connections w1 c = Some conn"
    using with_credential_answer [OF assms(1) [unfolded handleSSE_def]] assms(2)
    by (auto simp: invalid_credential_def internal_error_def sendError_def bindA_def registerSSEConnection_def retA_run)
  moreover have "sse_connections w2 c = None"
    using assms(3) by (auto simp: sse_cleanup_def removeSSEConnection_def)
  ultimately show ?thesis
    using assms(4) by (simp add: notify_device_def bindA_def readA_run)
qed

section \<open>Recovery\<close>

text \<open>Every UUID that is there is listed by a complete iteration of \<open>SCAN\<close>.\<close>

definition scan_complete :: "('y, 'z) relay_services_scheme \<Rightarrow> bool" where
  "scan_complete p \<longleftrightarrow> (\<forall>n t r u x. map_of (rd_uuids r) u = Some x \<longrightarrow> live t x \<longrightarrow> u \<in> set (concat (redis_scan p n t r)))"

text \<open>The UUID is open, and its time to live does not end before \<open>t1\<close>.\<close>

definition open_until :: "int \<Rightarrow> string \<Rightarrow> redis \<Rightarrow> bool" where
  "open_until t1 u r \<longleftrightarrow>
     (\<exists>x. map_of (rd_uuids r) u = Some x \<and> live t1 x \<and> (ru_status (fst x) = In_Flight \<or> ru_status (fst x) = Active))"

interpretation closing: redis_order "\<lambda>r r'. \<not> open_until t1 u r \<longrightarrow> \<not> open_until t1 u r'" for t1 u
  by unfold_locales auto

lemma live_before: "live t1 x \<Longrightarrow> t \<le> t1 \<Longrightarrow> live t x"
  by (auto simp: live_def split: option.split)

lemma open_at:
  assumes "open_until t1 u r" "t \<le> t1"
  shows "\<exists>x. map_of (rd_uuids r) u = Some x \<and> live t x \<and> uuid_at t r u = Some (fst x) \<and>
    (ru_status (fst x) = In_Flight \<or> ru_status (fst x) = Active)"
proof -
  obtain x where "map_of (rd_uuids r) u = Some x" "live t1 x" "ru_status (fst x) = In_Flight \<or> ru_status (fst x) = Active"
    using assms(1) by (auto simp: open_until_def)
  with live_before [OF _ assms(2)] show ?thesis by (simp add: uuid_at_def look_def)
qed

lemma consume_closes: "\<not> open_until t1 u r \<Longrightarrow> \<not> open_until t1 u (snd (transition_script v a Consumed t r))"
  by (auto simp: open_until_def transition_script_def map_of_put_row live_def split: option.split)

lemma keeps_closed: "obeys (on_redis (\<lambda>r r'. \<not> open_until t1 u r \<longrightarrow> \<not> open_until t1 u r')) (forA (consume_stuck p) us)"
  unfolding consume_stuck_def by (intro closing.rules closing.writes impI consume_closes; assumption)

lemma command_in_time:
  assumes "command p q w = (Inr a, w')" "in_time p t0 t1" shows "\<exists>t \<le> t1. q t (redis w) = (Inr a, redis w')"
proof -
  obtain t y d where "redis_begin p (beyond w) = (Inr t, y)" "q t (redis w) = (Inr a, d)" "w' = w\<lparr>redis := d, beyond := y\<rparr>"
    using assms(1) by (auto simp: command_Inr)
  with assms(2) show ?thesis by (intro exI [of _ t]) (auto simp: in_time_def dest: spec [of _ "beyond w"])
qed

lemma stuck_is_consumed:
  assumes "consume_stuck p u w = (Inr (), w')" "in_time p t0 t1" shows "\<not> open_until t1 u (redis w')"
proof (cases "open_until t1 u (redis w)")
  case False
  have "obeys (on_redis (\<lambda>r r'. \<not> open_until t1 u r \<longrightarrow> \<not> open_until t1 u r')) (consume_stuck p u)"
    unfolding consume_stuck_def by (intro closing.rules closing.writes impI consume_closes; assumption)
  with False assms(1) show ?thesis by (auto dest: obeysD)
next
  case True
  then obtain x where x: "map_of (rd_uuids (redis w)) u = Some x" "live t1 x"
      "ru_status (fst x) = In_Flight \<or> ru_status (fst x) = Active" by (auto simp: open_until_def)
  obtain q w1 where first: "transitionUuid p u Active Consumed w = (Inr q, w1)"
      and rest: "q = Moved \<and> w' = w1 \<or> q \<noteq> Moved \<and> (\<exists>q'. transitionUuid p u In_Flight Consumed w1 = (Inr q', w'))"
    using assms(1) by (auto simp: consume_stuck_def bindA_Inr retA_run split: if_split_asm)
  have script: "\<exists>t \<le> t1. transition_script u a b t (redis v) = (Inr s, redis v')"
    if "transitionUuid p u a b v = (Inr s, v')" for a b s v v'
    using command_in_time [OF that [unfolded transitionUuid_def] assms(2)] .
  obtain t where t: "t \<le> t1" "transition_script u Active Consumed t (redis w) = (Inr q, redis w1)"
    using script [OF first] by blast
  show ?thesis
  proof (cases "ru_status (fst x) = Active")
    case True
    with t x live_before [OF x(2) t(1)] have "q = Moved" "redis w1 = (redis w)\<lparr>rd_uuids := put_row u ((fst x)\<lparr>ru_status := Consumed\<rparr>, snd x) (rd_uuids (redis w))\<rparr>"
      by (auto simp: transition_script_def)
    with rest show ?thesis by (auto simp: open_until_def map_of_put_row)
  next
    case False
    with t x live_before [OF x(2) t(1)] have "q \<noteq> Moved" "redis w1 = redis w"
      by (auto simp: transition_script_def)
    with rest obtain q' where "transitionUuid p u In_Flight Consumed w1 = (Inr q', w')" by auto
    then obtain t' where t': "t' \<le> t1" "transition_script u In_Flight Consumed t' (redis w1) = (Inr q', redis w')"
      using script by blast
    with False x live_before [OF x(2) t'(1)] \<open>redis w1 = redis w\<close>
    have "redis w' = (redis w)\<lparr>rd_uuids := put_row u ((fst x)\<lparr>ru_status := Consumed\<rparr>, snd x) (rd_uuids (redis w))\<rparr>"
      by (auto simp: transition_script_def)
    then show ?thesis by (auto simp: open_until_def map_of_put_row)
  qed
qed

lemma busy_is_found:
  assumes "mapA (busy_uuid p) us w = (Inr found, w')" "in_time p t0 t1"
  shows "redis w' = redis w \<and> (\<forall>u \<in> set us. open_until t1 u (redis w) \<longrightarrow> u \<in> set (concat found))"
  using assms
proof (induction us arbitrary: w found)
  case (Cons v us)
  then obtain b w1 found' where one: "busy_uuid p v w = (Inr b, w1)"
      and rest: "mapA (busy_uuid p) us w1 = (Inr found', w')" and found: "found = b # found'"
    by (auto simp: bindA_Inr retA_run)
  from one obtain s where first: "command p (hget_status v) w = (Inr s, w1)"
      and b: "b = (if s = Some Active \<or> s = Some In_Flight then [v] else [])"
    by (auto simp: busy_uuid_def bindA_Inr retA_run)
  obtain t where t1: "t \<le> t1" and "hget_status v t (redis w) = (Inr s, redis w1)"
    using command_in_time [OF first Cons.prems(2)] by blast
  then have t: "t \<le> t1" "s = map_option ru_status (uuid_at t (redis w) v)" "redis w1 = redis w"
    by (auto simp: hget_status_def)
  have "s = Some Active \<or> s = Some In_Flight" if "open_until t1 v (redis w)"
    using open_at [OF that t(1)] t(2) by auto
  with Cons.IH [OF rest Cons.prems(2)] found b t(3) show ?case by auto
qed (simp add: retA_run)

text \<open>C5. A restart leaves no UUID open: when the check for UUIDs that an unclean shutdown left in flight or active
  returns, every UUID that is still there is unused or consumed, wherever the relay had
  stopped. (\<open>SCAN\<close> lists every key that is there; all commands run between \<open>t0\<close> and \<open>t1\<close>.)\<close>

theorem restart_leaves_no_open_uuid:
  assumes "consume_stuck_uuids p w = (Inr (), w')" and "in_time p t0 t1" and "scan_complete p"
    and "uuid_at t1 (redis w') u = Some rec"
  shows "ru_status rec = Unused \<or> ru_status rec = Consumed"
proof -
  obtain batches w1 found w2 where scanned: "scan p 100 w = (Inr batches, w1)"
      and checked: "mapA (busy_uuid p) (concat batches) w1 = (Inr found, w2)"
      and consumed: "forA (consume_stuck p) (concat found) w2 = (Inr (), w')"
    using assms(1) by (auto simp: consume_stuck_uuids_def scanActiveUuids_def bindA_Inr retA_run)
  obtain t where "t \<le> t1" "(Inr (redis_scan p 100 t (redis w)), redis w) = (Inr batches :: string list list res, redis w1)"
    using command_in_time [OF scanned [unfolded scan_def] assms(2)] by blast
  then have t: "t \<le> t1" "batches = redis_scan p 100 t (redis w)" "redis w1 = redis w" by auto
  have listed: "u \<in> set (concat found)" if "open_until t1 u (redis w2)"
  proof -
    have same: "redis w2 = redis w1" and found: "open_until t1 u (redis w1) \<Longrightarrow> u \<in> set (concat batches) \<Longrightarrow> u \<in> set (concat found)"
      using busy_is_found [OF checked assms(2)] by auto
    from that same have "open_until t1 u (redis w)" using t(3) by simp
    then have "u \<in> set (concat batches)"
      unfolding t(2) using open_at [OF _ t(1)] assms(3) [unfolded scan_complete_def] by blast
    with found that same show ?thesis by simp
  qed
  have "\<not> open_until t1 u (redis w')"
  proof (cases "u \<in> set (concat found)")
    case False
    with listed keeps_closed [THEN obeysD, OF consumed] show ?thesis by blast
  next
    case True
    then obtain xs ys where "concat found = xs @ u # ys" by (meson split_list)
    with consumed obtain w3 w4 where "forA (consume_stuck p) xs w2 = (Inr (), w3)" "consume_stuck p u w3 = (Inr (), w4)"
        "forA (consume_stuck p) ys w4 = (Inr (), w')"
      by (auto simp: forA_append bindA_Inr)
    with stuck_is_consumed [OF _ assms(2)] keeps_closed [THEN obeysD] show ?thesis by blast
  qed
  moreover obtain e where "map_of (rd_uuids (redis w')) u = Some (rec, e)" "live t1 (rec, e)"
    using assms(4) by (auto simp: uuid_at_def look_def split: option.split_asm if_split_asm)
  ultimately show ?thesis
    by (cases "ru_status rec") (auto simp: open_until_def)
qed

section \<open>Deletes at the wallets\<close>

text \<open>A job and its next attempt are in the set, to be executed before \<open>limit\<close>.\<close>

definition answered :: "('y, 'z) relay_services_scheme \<Rightarrow> delete_job \<Rightarrow> bool" where
  "answered p job \<longleftrightarrow> (\<exists>y s. fst (delete_request p (dj_wallet_url job @ ''/messages/'' @ dj_uuid job) y) = Inr s \<and>
     (200 \<le> s \<and> s \<le> 299 \<or> s = 404))"

definition owed :: "delete_job \<Rightarrow> redis \<Rightarrow> bool" where
  "owed job r \<longleftrightarrow> job \<in> fst ` set (rd_deletes r)"

abbreviation retried :: "delete_job \<Rightarrow> delete_job" where
  "retried job \<equiv> job\<lparr>dj_attempts := dj_attempts job + 1\<rparr>"

lemma put_row_keys: "fst ` set (put_row k v rows) = insert k (fst ` set rows)"
  by (induction k v rows rule: put_row.induct) (simp_all add: insert_commute)

lemma requeue_run:
  assumes "\<And>y. \<exists>t y'. redis_begin p y = (Inr t, y')"
  shows "\<exists>w'. requeue_later p job w = (Inr (), w') \<and> fst ` set (rd_deletes (redis w')) = insert (retried job) (fst ` set (rd_deletes (redis w)))"
proof -
  let ?w = "w\<lparr>beyond := snd (clock_ms p (beyond w))\<rparr>"
  obtain t y where "redis_begin p (beyond ?w) = (Inr t, y)" using assms by blast
  note run = command_run [OF this]
  show ?thesis
    by (simp add: run requeue_later_def bindA_def nowR_def sureR_run requeuePendingDelete_def zadd_delete_def put_row_keys)
qed

text \<open>One job of a poll: it is answered for, or put back; all others stay.\<close>

lemma poll_job_keeps:
  assumes "\<And>y. \<exists>t y'. redis_begin p y = (Inr t, y')"
  shows "\<exists>w'. poll_job p job w = (Inr (), w') \<and> fst ` set (rd_deletes (redis w)) \<subseteq> fst ` set (rd_deletes (redis w')) \<and>
    (answered p job \<or> owed (retried job) (redis w'))"
proof -
  obtain q y where request: "delete_request p (dj_wallet_url job @ ''/messages/'' @ dj_uuid job) (beyond w) = (q, y)" by fastforce
  obtain w' where w': "requeue_later p job (w\<lparr>beyond := y\<rparr>) = (Inr (), w')"
      "fst ` set (rd_deletes (redis w')) = insert (retried job) (fst ` set (rd_deletes (redis w)))"
    using requeue_run [OF assms, of job "w\<lparr>beyond := y\<rparr>"] by auto
  show ?thesis
  proof (cases q)
    case (Inl e)
    with request w' show ?thesis
      by (simp add: poll_job_def executeDelete_def catchA_def bindA_def outR_run owed_def subset_insertI)
  next
    case (Inr s)
    show ?thesis
    proof (cases "200 \<le> s \<and> s \<le> 299 \<or> s = 404")
      case True
      with request Inr have "answered p job" by (metis answered_def fst_conv)
      moreover from True request Inr have "poll_job p job w = (Inr (), w\<lparr>beyond := y\<rparr>)"
        by (simp add: poll_job_def executeDelete_def catchA_def bindA_def outR_run retA_run)
      ultimately show ?thesis by simp
    next
      case False
      with request Inr have "executeDelete p job w = requeue_later p job (w\<lparr>beyond := y\<rparr>)"
        by (auto simp: executeDelete_def bindA_def outR_run)
      with w' show ?thesis
        by (simp add: poll_job_def catchA_def owed_def subset_insertI)
    qed
  qed
qed

lemma poll_jobs_keep:
  assumes "\<And>y. \<exists>t y'. redis_begin p y = (Inr t, y')"
  shows "\<exists>w'. forA (poll_job p) js w = (Inr (), w') \<and> fst ` set (rd_deletes (redis w)) \<subseteq> fst ` set (rd_deletes (redis w')) \<and>
    (\<forall>job \<in> set js. answered p job \<or> owed (retried job) (redis w'))"
proof (induction js arbitrary: w)
  case (Cons job js)
  obtain w1 where one: "poll_job p job w = (Inr (), w1)" "fst ` set (rd_deletes (redis w)) \<subseteq> fst ` set (rd_deletes (redis w1))"
      "answered p job \<or> owed (retried job) (redis w1)"
    using poll_job_keeps [OF assms] by blast
  obtain w' where rest: "forA (poll_job p) js w1 = (Inr (), w')" "fst ` set (rd_deletes (redis w1)) \<subseteq> fst ` set (rd_deletes (redis w'))"
      "\<forall>job \<in> set js. answered p job \<or> owed (retried job) (redis w')"
    using Cons.IH by blast
  from one rest have "forA (poll_job p) (job # js) w = (Inr (), w')" by (simp add: bindA_def)
  with one rest show ?case by (intro exI [of _ w']) (auto simp: owed_def)
qed (simp add: retA_run)

lemma dequeue_run:
  assumes "\<And>y. \<exists>t y'. redis_begin p y = (Inr t, y')"
  shows "\<exists>js w'. dequeuePendingDeletes p w = (Inr js, w') \<and>
    set js = fst ` {x \<in> set (rd_deletes (redis w)). snd x \<le> fst (clock_ms p (beyond w))} \<and>
    rd_deletes (redis w') = filter (\<lambda>(j, s). \<not> s \<le> fst (clock_ms p (beyond w))) (rd_deletes (redis w))"
proof -
  let ?w = "w\<lparr>beyond := snd (clock_ms p (beyond w))\<rparr>"
  obtain t y where "redis_begin p (beyond ?w) = (Inr t, y)" using assms by blast
  note run = command_run [OF this]
  show ?thesis
    by (simp add: run dequeuePendingDeletes_def bindA_def nowR_def sureR_run dequeue_script_def) (auto simp: case_prod_beta)
qed

text \<open>C4. The clearance task loses no delete: as long as Redis answers, a run of the task returns, and every
  job that was pending before it is still pending, or is pending with one more attempt, or the wallet
  has a reply to its DELETE request that says the message is gone (2xx or 404), whether the other requests
  fail, throw or succeed.\<close>

theorem clearance_loses_no_job:
  assumes "\<And>y. \<exists>t y'. redis_begin p y = (Inr t, y')"
  shows "\<exists>w'. poll p w = (Inr (), w') \<and> (\<forall>(job, s) \<in> set (rd_deletes (redis w)).
     owed job (redis w') \<or> owed (job\<lparr>dj_attempts := dj_attempts job + 1\<rparr>) (redis w') \<or> answered p job)"
proof -
  obtain js w1 where taken: "dequeuePendingDeletes p w = (Inr js, w1)"
      "set js = fst ` {x \<in> set (rd_deletes (redis w)). snd x \<le> fst (clock_ms p (beyond w))}"
      "rd_deletes (redis w1) = filter (\<lambda>(j, s). \<not> s \<le> fst (clock_ms p (beyond w))) (rd_deletes (redis w))"
    using dequeue_run [OF assms] by blast
  obtain w' where run: "forA (poll_job p) js w1 = (Inr (), w')" "fst ` set (rd_deletes (redis w1)) \<subseteq> fst ` set (rd_deletes (redis w'))"
      "\<forall>job \<in> set js. answered p job \<or> owed (retried job) (redis w')"
    using poll_jobs_keep [OF assms] by blast
  have "poll p w = (Inr (), w')" using taken(1) run(1) by (simp add: poll_def bindA_def caught_eq)
  moreover have "owed job (redis w') \<or> owed (retried job) (redis w') \<or> answered p job" if "(job, s) \<in> set (rd_deletes (redis w))" for job s
  proof (cases "s \<le> fst (clock_ms p (beyond w))")
    case True
    with that have "job \<in> set js" unfolding taken(2) by force
    with run(3) show ?thesis by blast
  next
    case False
    with that have "job \<in> fst ` set (rd_deletes (redis w1))" unfolding taken(3) by force
    with run(2) show ?thesis by (auto simp: owed_def)
  qed
  ultimately show ?thesis by blast
qed

text \<open>A stop loses deletes: when the wallets cannot be reached while the relay shuts down, the final flush takes every
  due job out of the set, the requests fail, and no job is put back: exactly the jobs that were not
  due are left.\<close>

theorem stop_loses_due_jobs:
  assumes "\<And>y. \<exists>t y'. redis_begin p y = (Inr t, y')" and "\<And>url y. \<exists>e. fst (delete_request p url y) = Inl e"
  shows "rd_deletes (redis (snd (stopWalletClearance p left w))) =
     filter (\<lambda>(job, s). fst (clock_ms p (beyond w)) < s) (rd_deletes (redis w))"
proof -
  obtain js w1 where taken: "dequeuePendingDeletes p w = (Inr js, w1)"
      "rd_deletes (redis w1) = filter (\<lambda>(j, s). \<not> s \<le> fst (clock_ms p (beyond w))) (rd_deletes (redis w))"
    using dequeue_run [OF assms(1)] by blast
  have one: "\<exists>y. bindA (caught (executeDelete p job)) (\<lambda>_. retA ()) v = (Inr (), v\<lparr>beyond := y\<rparr>)" for job v
  proof -
    obtain e y where "delete_request p (dj_wallet_url job @ ''/messages/'' @ dj_uuid job) (beyond v) = (Inl e, y)"
      using assms(2) by (metis prod.collapse)
    then have "executeDelete p job v = (Inl e, v\<lparr>beyond := y\<rparr>)" by (simp add: executeDelete_def bindA_def outR_run)
    then show ?thesis by (auto simp: bindA_def caught_eq retA_run)
  qed
  have "\<exists>y. forA (\<lambda>job. bindA (caught (executeDelete p job)) (\<lambda>_. retA ())) js v = (Inr (), v\<lparr>beyond := y\<rparr>)" for v
  proof (induction js arbitrary: v)
    case Nil
    show ?case by (intro exI [of _ "beyond v"]) (simp add: retA_run)
  next
    case (Cons job js)
    obtain y where first: "bindA (caught (executeDelete p job)) (\<lambda>_. retA ()) v = (Inr (), v\<lparr>beyond := y\<rparr>)" using one by blast
    obtain y' where "forA (\<lambda>job. bindA (caught (executeDelete p job)) (\<lambda>_. retA ())) js (v\<lparr>beyond := y\<rparr>) =
        (Inr (), v\<lparr>beyond := y\<rparr>\<lparr>beyond := y'\<rparr>)"
      using Cons.IH by blast
    moreover have "forA (\<lambda>job. bindA (caught (executeDelete p job)) (\<lambda>_. retA ())) (job # js) v =
        forA (\<lambda>job. bindA (caught (executeDelete p job)) (\<lambda>_. retA ())) js (v\<lparr>beyond := y\<rparr>)"
      unfolding forA.simps by (rule bindA_step) (rule first)
    ultimately show ?case by auto
  qed
  then obtain y where "forA (\<lambda>job. bindA (caught (executeDelete p job)) (\<lambda>_. retA ())) js w1 = (Inr (), w1\<lparr>beyond := y\<rparr>)" by blast
  with taken show ?thesis
    by (simp add: stopWalletClearance_def bindA_def [of "caught (dequeuePendingDeletes p)"] caught_eq retA_run not_le)
qed

section \<open>Examples\<close>

text \<open>The small relay with a message for the device \<open>other\<close> and a delete that is due, and Redis always answering.\<close>

definition ex_buffered :: pending_message where
  "ex_buffered = \<lparr>pm_uuid = ''m'', pm_blob = ''b'', pm_wallet_url = ''https://wallet'', pm_received_at = ''now''\<rparr>"

definition ex_delete :: delete_job where
  "ex_delete = \<lparr>dj_wallet_url = ''https://wallet'', dj_uuid = ''m'', dj_attempts = 0\<rparr>"

definition ex_busy_relay :: "uuid_status \<Rightarrow> int relay" where
  "ex_busy_relay s = (ex_relay s)\<lparr>redis := (redis (ex_relay s))\<lparr>rd_messages := [''other'' \<mapsto> ([ex_buffered], None)],
     rd_deletes := [(ex_delete, 0), (ex_delete\<lparr>dj_uuid := ''later''\<rparr>, 9)]\<rparr>\<rparr>"

definition ex_up :: "int relay_services" where
  "ex_up = ex_relay_services\<lparr>redis_begin := (\<lambda>y. (Inr 1, y))\<rparr>"

definition ex_unreachable :: "int relay_services" where
  "ex_unreachable = ex_up\<lparr>delete_request := (\<lambda>u y. (Inl (JsError ''TypeError: fetch failed''), y))\<rparr>"

lemma ex_up_sel [simp]:
  "redis_begin ex_up y = (Inr 1, y)" "clock_ms ex_up y = (y, y)" "math_random ex_up y = (0, y)"
  "redis_scan ex_up n t r = [map fst (rd_uuids r)]" "delete_request ex_up v y = (Inr 200, y)"
  "redis_begin ex_unreachable y = (Inr 1, y)" "clock_ms ex_unreachable y = (y, y)"
  "delete_request ex_unreachable v y = (Inl (JsError ''TypeError: fetch failed''), y)"
  by (simp_all add: ex_up_def ex_unreachable_def)

lemma ex_busy_relay_sel [simp]:
  "rd_uuids (redis (ex_busy_relay s)) = [(ex_uuid, (ex_uuid_record s, None))]"
  "rd_credentials (redis (ex_busy_relay s)) = [''other'' \<mapsto> (\<lparr>ch_push_token = ''t'', ch_app_id = Some ''app'', ch_created_at = None\<rparr>, None)]"
  "rd_messages (redis (ex_busy_relay s)) = [''other'' \<mapsto> ([ex_buffered], None)]"
  "rd_deletes (redis (ex_busy_relay s)) = [(ex_delete, 0), (ex_delete\<lparr>dj_uuid := ''later''\<rparr>, 9)]" "beyond (ex_busy_relay s) = 1"
  by (simp_all add: ex_busy_relay_def ex_relay_def)

lemma ex_bearer: "extractBearerToken (Some ''Bearer other'') = Some ''other''"
  by (simp add: extractBearerToken_def trim_def is_space_def)

lemma ex_up_command: "command ex_up q w = (fst (q 1 (redis w)), w\<lparr>redis := snd (q 1 (redis w))\<rparr>)"
  by (simp add: command_def split: prod.split)

lemma ex_credential: "credential_at 1 (redis (ex_busy_relay s)) ''other'' = Some \<lparr>ch_push_token = ''t'', ch_app_id = Some ''app'', ch_created_at = None\<rparr>"
  by (simp add: credential_at_def look_def live_def)

theorem pending_hands_over_once_witness:
  "\<exists>(w' :: int relay) c t. rd_messages (redis w') c = None \<and> messages_at t (redis (ex_busy_relay Unused)) c = [ex_buffered]"
proof -
  have "messages_at t (redis (ex_busy_relay Unused)) ''other'' = [ex_buffered]" for t
    by (simp add: messages_at_def look_def live_def)
  moreover obtain v w' where "handlePending ex_up (Some ''Bearer other'') (ex_busy_relay Unused) = (Inr (Json_Answer 200 v), w')"
    using calculation
    by (simp add: handlePending_def with_credential_def ex_bearer or_answer_run check_else_run getCredential_def ex_up_command
        hgetall_credential_def ex_credential drainMessages_def drain_script_def retA_run)
  from pending_hands_over_once [OF this] ex_bearer
  obtain t where "messages_at t (redis (ex_busy_relay Unused)) ''other'' \<noteq> [] \<longrightarrow> rd_messages (redis w') ''other'' = None"
    by auto
  ultimately show ?thesis by (metis list.distinct(1))
qed

theorem ack_is_not_checked_for_ownership_witness:
  "\<exists>(w' :: int relay) s. (\<lparr>dj_wallet_url = ''https://wallet'', dj_uuid = ex_uuid, dj_attempts = 0\<rparr>, s) \<in> set (rd_deletes (redis w'))"
proof -
  have up: "fst (redis_begin ex_up y) = Inr 1" for y by simp
  have found: "uuid_at 1 (redis (ex_busy_relay Unused)) ex_uuid = Some (ex_uuid_record Unused)"
    by (simp add: uuid_at_def look_def live_def)
  have delay: "env_int (rl_MAX_DELETE_DELAY_SECONDS ex_relay_config) ''21600'' = Fin 21600"
    by (simp add: env_int_def ex_relay_config_def parse_int_def is_space_def is_digit_def digits_value_def)
  have rec: "ru_device_credential (ex_uuid_record Unused) \<noteq> ''other''" "ru_wallet_base_url (ex_uuid_record Unused) = ''https://wallet''"
    by (simp_all add: ex_uuid_record_def)
  from ack_is_not_checked_for_ownership [OF up ex_bearer ex_credential _ found rec(1) delay] rec(2) show ?thesis by auto
qed

theorem late_close_drops_new_stream_witness:
  "\<exists>(w1 :: int relay) (w2 :: int relay). sse_connections w1 ''other'' = Some 2 \<and> sse_connections w2 ''other'' = None"
proof -
  obtain w1 where new: "handleSSE ex_up (Some ''Bearer other'') 2 (ex_busy_relay Unused) = (Inr Event_Stream, w1)"
    by (simp add: handleSSE_def with_credential_def ex_bearer or_answer_run check_else_run getCredential_def ex_up_command
        hgetall_credential_def ex_credential retA_run bindA_def registerSSEConnection_def)
  obtain r w2 where close: "sse_cleanup ''other'' w1 = (r, w2)" by fastforce
  have rec: "ru_device_credential ((ex_uuid_record Unused)\<lparr>ru_device_credential := ''other''\<rparr>) = ''other''" by simp
  from late_close_drops_new_stream [OF new ex_bearer close rec, of ex_relay_config ex_relay_app ex_uuid "''b''"]
  show ?thesis by blast
qed

theorem restart_leaves_no_open_uuid_witness:
  "\<exists>(w' :: int relay) rec. uuid_at 1 (redis w') ex_uuid = Some rec \<and> (ru_status rec = Unused \<or> ru_status rec = Consumed)"
proof -
  have world: "in_time ex_up 1 1" "scan_complete ex_up"
    by (auto simp: in_time_def scan_complete_def) (metis fst_conv image_eqI map_of_SomeD)
  obtain w' where run: "consume_stuck_uuids ex_up (ex_busy_relay In_Flight) = (Inr (), w')"
      and rec: "uuid_at 1 (redis w') ex_uuid = Some (ex_uuid_record Consumed)"
    by (simp add: consume_stuck_uuids_def scanActiveUuids_def scan_def bindA_def ex_up_command retA_run busy_uuid_def hget_status_def
        uuid_at_def look_def live_def consume_stuck_def transitionUuid_def transition_script_def ex_uuid_record_def)
  from restart_leaves_no_open_uuid [OF run world rec] rec show ?thesis by blast
qed

theorem clearance_loses_no_job_witness:
  "\<exists>w' :: int relay. owed ex_delete (redis w') \<or> owed (ex_delete\<lparr>dj_attempts := 1\<rparr>) (redis w') \<or> answered ex_up ex_delete"
proof -
  have "\<exists>t y'. redis_begin ex_up y = (Inr t, y')" for y by simp
  from clearance_loses_no_job [OF this, of "ex_busy_relay Unused"] show ?thesis
    by (auto simp: ex_delete_def)
qed

theorem stop_loses_due_jobs_witness:
  "rd_deletes (redis (snd (stopWalletClearance ex_unreachable True (ex_busy_relay Unused)))) = [(ex_delete\<lparr>dj_uuid := ''later''\<rparr>, 9)]"
proof -
  have "\<exists>t y'. redis_begin ex_unreachable y = (Inr t, y')" "\<exists>e. fst (delete_request ex_unreachable url y) = Inl e" for url y by simp_all
  from stop_loses_due_jobs [of ex_unreachable, OF this, of True "ex_busy_relay Unused"] show ?thesis by simp
qed

end
