(* ===== verification/Verifier_Providers.thy ===== *)
theory Verifier_Providers
  imports Programs Js_Runtime
begin

text \<open>
  The provider packages beside the verifier (\<open>membership_card_verifier/packages\<close>): the adapter
  from an ethers contract to the verifier's \<open>RpcProvider\<close>, the scan of the event log of a card
  in windows of blocks (\<open>verifier-rpc-provider/src\<close>), and the two IPFS gateways
  (\<open>verifier-ipfs-provider/src\<close>). The contract object and the gateways are parameters.
\<close>

section \<open>The contract adapter\<close>

record registry_contract =
  rc_getCardEntry :: "string \<Rightarrow> card_entry res"
  rc_isPolicyAuthorizer :: "string \<Rightarrow> bool res"
  rc_getPressAuthorization :: "string \<Rightarrow> string \<Rightarrow> press_auth_entry option res"
  rc_getSubCardEntry :: "string \<Rightarrow> sub_card_entry option res"
  rc_getCardEventLog :: "string \<Rightarrow> card_chain_event list res"
  rc_getEasAnnotations :: "string \<Rightarrow> string list \<Rightarrow> eas_attestation list res"

text \<open>Only a card entry is looked at; every other answer is handed through.\<close>

definition ethers_card_entry :: "registry_contract \<Rightarrow> string \<Rightarrow> card_entry option res" where
  "ethers_card_entry c address =
     bindE (rc_getCardEntry c address) (\<lambda>entry. Inr (if \<not> ce_exists entry then None else Some entry))"

definition ethersRpcProvider :: "registry_contract \<Rightarrow> rpc_provider" where
  "ethersRpcProvider c =
     \<lparr>get_card_entry = ethers_card_entry c,
      is_policy_authorizer = rc_isPolicyAuthorizer c,
      get_press_authorization = rc_getPressAuthorization c,
      get_sub_card_entry = rc_getSubCardEntry c,
      get_card_event_log = rc_getCardEventLog c,
      get_eas_annotations = rc_getEasAnnotations c\<rparr>"

section \<open>Networks\<close>

record network_config =
  rpcUrl :: string
  storageContractAddress :: string

definition network_dev :: "(string \<Rightarrow> string option) \<Rightarrow> network_config" where
  "network_dev pe =
     \<lparr>rpcUrl = (case pe ''ARBITRUM_SEPOLIA_RPC'' of None \<Rightarrow> ''https://sepolia-rollup.arbitrum.io/rpc'' | Some u \<Rightarrow> u),
      storageContractAddress = ''0xe497b4ba27dacaf92354bd34da253a0a88aa57d4''\<rparr>"

definition network_prod :: "(string \<Rightarrow> string option) \<Rightarrow> network_config" where
  "network_prod pe =
     \<lparr>rpcUrl = (case pe ''ARBITRUM_MAINNET_RPC'' of None \<Rightarrow> [] | Some u \<Rightarrow> u), storageContractAddress = []\<rparr>"

text \<open>
  \<open>getNetworkConfig\<close>: the addresses are read when the module is loaded (\<open>pe0\<close>), the name of the
  network when it is asked for (\<open>pe\<close>).
\<close>

definition getNetworkConfig ::
    "(string \<Rightarrow> string option) \<Rightarrow> (string \<Rightarrow> string option) \<Rightarrow> network_config res" where
  "getNetworkConfig pe0 pe =
     (case pe ''ENV'' of
        Some env \<Rightarrow>
          if env = ''dev'' then Inr (network_dev pe0)
          else if env = ''prod'' then
            (if storageContractAddress (network_prod pe0) = []
             then Inl (JsError (''Error: Mainnet deployment is not yet configured. '' @
                     ''Set storageContractAddress in networkConfig.ts.''))
             else Inr (network_prod pe0))
          else Inl (JsError (''Error: ENV must be \"dev\" or \"prod\", got: '' @ stringify_string env))
      | None \<Rightarrow> Inl (JsError (''Error: ENV must be \"dev\" or \"prod\", got: '' @ stringify_string ''(unset)'')))"

section \<open>The event log in windows\<close>

text \<open>What a decoder makes of an argument of an event.\<close>

datatype abi_value = Abi_Bytes bytes | Abi_Text string | Abi_Int int

text \<open>A log; an entry that was not decoded has no \<open>args\<close>.\<close>

record event_log =
  el_block :: int
  el_index :: int
  el_args :: "(string \<times> abi_value) list option"

text \<open>A log that \<open>toOrderedLog\<close> lets through.\<close>

record ordered_log =
  ol_block :: int
  ol_index :: int
  ol_args :: "(string \<times> abi_value) list"

datatype card_event = Card_Registered | Card_Head_Updated

text \<open>
  The contract: whether it has a provider, the number of the latest block, and \<open>queryFilter\<close> of
  an event of a card in a range of blocks.
\<close>

record 'y ethers_contract =
  has_provider :: bool
  latest_block :: "('y, int) prog"
  query_filter :: "card_event \<Rightarrow> string \<Rightarrow> int \<Rightarrow> int \<Rightarrow> ('y, event_log list) prog"

definition RANGE_LIMIT_ERROR_PATTERNS :: "string list" where
  "RANGE_LIMIT_ERROR_PATTERNS = [''block range'', ''range limit'', ''query returned more than'', ''exceeds range'',
     ''exceed maximum'', ''too many results'', ''limited to a'', ''-32005'']"

text \<open>The text of an error is its message, for errors that have one.\<close>

definition isRangeLimitError :: "exn \<Rightarrow> bool" where
  "isRangeLimitError e \<longleftrightarrow> list_ex (\<lambda>pattern. infix_of pattern (to_lower (exn_string e))) RANGE_LIMIT_ERROR_PATTERNS"

definition toOrderedLog :: "event_log \<Rightarrow> ordered_log option" where
  "toOrderedLog l = map_option (\<lambda>as. \<lparr>ol_block = el_block l, ol_index = el_index l, ol_args = as\<rparr>) (el_args l)"

definition ordered_logs :: "event_log list \<Rightarrow> ordered_log list" where
  "ordered_logs ls = List.map_filter toOrderedLog ls"

text \<open>The two queries of one window, which the code makes at once.\<close>

definition query_window ::
    "('y, 'z) ethers_contract_scheme \<Rightarrow> string \<Rightarrow> int \<Rightarrow> int \<Rightarrow> ('y, ordered_log list \<times> ordered_log list) prog" where
  "query_window c addr a b =
     bindA (query_filter c Card_Registered addr a b) (\<lambda>registered.
     bindA (query_filter c Card_Head_Updated addr a b) (\<lambda>updated.
       retA (ordered_logs registered, ordered_logs updated)))"

text \<open>
  The loop over the windows, with the logs found so far. It need not end; that it does not is
  the value \<open>None\<close>.
\<close>

partial_function (option) scan_windows ::
    "('y, 'z) ethers_contract_scheme \<Rightarrow> string \<Rightarrow> int \<Rightarrow> int \<Rightarrow> int \<Rightarrow> int \<Rightarrow> ordered_log list \<Rightarrow> ordered_log list \<Rightarrow>
       'y \<Rightarrow> ((ordered_log list \<times> ordered_log list) res \<times> 'y) option" where
  "scan_windows c addr minWindow latest a windowSize reg upd y =
     (if a \<le> latest
      then case query_window c addr a (min (a + windowSize - 1) latest) y of
             (Inr (r, u), y') \<Rightarrow>
               scan_windows c addr minWindow latest (min (a + windowSize - 1) latest + 1) windowSize (reg @ r) (upd @ u) y'
           | (Inl e, y') \<Rightarrow>
               if isRangeLimitError e \<and> minWindow < windowSize
               then scan_windows c addr minWindow latest a (max minWindow (windowSize div 2)) reg upd y'
               else Some (Inl e, y')
      else Some (Inr (reg, upd), y))"

definition sort_position :: "ordered_log \<Rightarrow> int" where
  "sort_position l = ol_block l * 1000000 + ol_index l"

text \<open>\<open>cidBytesToString\<close> and \<open>new Date(Number(t) * 1000).toISOString()\<close> of a field of the arguments.\<close>

definition event_cid :: "('r) runtime_scheme \<Rightarrow> abi_value option \<Rightarrow> string res" where
  "event_cid p v = (case v of
     None \<Rightarrow> Inl (JsError ''TypeError: Cannot read properties of undefined (reading 'length')'')
   | Some (Abi_Bytes bs) \<Rightarrow> Inr (if bs = [] then [] else utf8_decode p bs)
   | Some (Abi_Text s) \<Rightarrow>
       if s = [] then Inr [] else Inl (JsError ''TypeError: The list argument must be an instance of ArrayBuffer'')
   | Some (Abi_Int i) \<Rightarrow> Inl (JsError ''TypeError: The list argument must be an instance of ArrayBuffer''))"

definition event_time :: "('r) runtime_scheme \<Rightarrow> abi_value option \<Rightarrow> string res" where
  "event_time p v = (case v of
     Some (Abi_Int t) \<Rightarrow> (case time_clip (t * 1000) of
         Fin ms \<Rightarrow> Inr (iso_of_ms p ms) | _ \<Rightarrow> Inl (JsError ''RangeError: Invalid time value''))
   | _ \<Rightarrow> Inl (JsError ''RangeError: Invalid time value''))"

definition toEvent :: "('r) runtime_scheme \<Rightarrow> string \<Rightarrow> ordered_log \<Rightarrow> card_chain_event res" where
  "toEvent p cidField l =
     bindE (event_cid p (map_of (ol_args l) cidField)) (\<lambda>cid.
     bindE (event_time p (map_of (ol_args l) ''timestamp'')) (\<lambda>t.
       Inr \<lparr>ev_cid = cid, ev_timestamp = t\<rparr>))"

definition events_of ::
    "('r) runtime_scheme \<Rightarrow> ordered_log list \<times> ordered_log list \<Rightarrow> card_chain_event list res" where
  "events_of p = (\<lambda>(registeredLogs, headUpdatedLogs).
     bindE (mapE (toEvent p ''initial_log_cid'') (take 1 (sort_key sort_position registeredLogs))) (\<lambda>genesis.
     bindE (mapE (toEvent p ''new_log_cid'') (sort_key sort_position headUpdatedLogs)) (\<lambda>updates.
       Inr (genesis @ updates))))"

record chunk_options =
  co_fromBlock :: "int option"
  co_toBlock :: "int option"
  co_chunkSize :: "int option"
  co_minChunkSize :: "int option"

definition or_default :: "int \<Rightarrow> int option \<Rightarrow> int" where
  "or_default d v = (case v of None \<Rightarrow> d | Some i \<Rightarrow> i)"

text \<open>\<open>getCardEventLogChunked\<close>; \<open>None\<close> when it does not return.\<close>

definition getCardEventLogChunked ::
    "('r) runtime_scheme \<Rightarrow> ('y, 'z) ethers_contract_scheme \<Rightarrow> string \<Rightarrow> chunk_options \<Rightarrow> 'y \<Rightarrow>
       (card_chain_event list res \<times> 'y) option" where
  "getCardEventLogChunked p c addr opts y =
     (if \<not> has_provider c
      then Some (Inl (JsError ''Error: getCardEventLogChunked: contract has no connected provider''), y)
      else case (case co_toBlock opts of None \<Rightarrow> latest_block c y | Some b \<Rightarrow> (Inr b, y)) of
             (Inl e, y') \<Rightarrow> Some (Inl e, y')
           | (Inr latest, y') \<Rightarrow>
               map_option (\<lambda>(r, y''). (bindE r (events_of p), y''))
                 (scan_windows c addr (or_default 1 (co_minChunkSize opts)) latest
                    (or_default 0 (co_fromBlock opts)) (or_default 2000 (co_chunkSize opts)) [] [] y'))"

section \<open>IPFS gateways\<close>

text \<open>What a request ends in: it arrives, is aborted by its timer, or fails otherwise.\<close>

datatype 'a outcome = Arrived 'a | Aborted | Failed exn

definition FILEBASE_IPFS_GATEWAY :: string where
  "FILEBASE_IPFS_GATEWAY = ''https://ipfs.filebase.io/ipfs''"

definition timed_out :: "string \<Rightarrow> exn" where
  "timed_out cid = JsError (''Error: IPFS fetch timed out for CID: '' @ cid)"

definition cid_not_found :: "string \<Rightarrow> exn" where
  "cid_not_found cid = JsError (''Error: CID not found: '' @ cid)"

text \<open>
  \<open>FilebaseIpfsProvider\<close>: the response has a status and a body, which may still fail to arrive
  while the timer runs.
\<close>

definition filebase_ipfs_fetch ::
    "(string \<Rightarrow> int \<Rightarrow> (int \<times> bytes outcome) outcome) \<Rightarrow> string option \<Rightarrow> int option \<Rightarrow> string \<Rightarrow> bytes res" where
  "filebase_ipfs_fetch get gatewayUrl timeoutMs cid =
     (case get ((case gatewayUrl of None \<Rightarrow> FILEBASE_IPFS_GATEWAY | Some u \<Rightarrow> u) @ ''/'' @ cid) (or_default 30000 timeoutMs) of
        Aborted \<Rightarrow> Inl (timed_out cid)
      | Failed e \<Rightarrow> Inl e
      | Arrived (code, body) \<Rightarrow>
          if code = 404 then Inl (cid_not_found cid)
          else if \<not> (200 \<le> code \<and> code \<le> 299)
          then Inl (JsError (''Error: Filebase IPFS fetch failed ('' @ int_str code @ ''): '' @ cid))
          else (case body of Aborted \<Rightarrow> Inl (timed_out cid) | Failed e \<Rightarrow> Inl e | Arrived bs \<Rightarrow> Inr bs))"

definition filebaseIpfsProvider ::
    "(string \<Rightarrow> int \<Rightarrow> (int \<times> bytes outcome) outcome) \<Rightarrow> string option \<Rightarrow> int option \<Rightarrow> ipfs_provider" where
  "filebaseIpfsProvider get gatewayUrl timeoutMs = \<lparr>ipfs_fetch = filebase_ipfs_fetch get gatewayUrl timeoutMs\<rparr>"

text \<open>\<open>Web3StorageIpfsProvider\<close>: the timer runs against the request only, not against the body.\<close>

definition web3_ipfs_fetch ::
    "(string \<Rightarrow> int \<Rightarrow> bytes res option outcome) \<Rightarrow> int option \<Rightarrow> string \<Rightarrow> bytes res" where
  "web3_ipfs_fetch get timeoutMs cid =
     (case get cid (or_default 30000 timeoutMs) of
        Aborted \<Rightarrow> Inl (timed_out cid)
      | Failed e \<Rightarrow> Inl e
      | Arrived None \<Rightarrow> Inl (cid_not_found cid)
      | Arrived (Some body) \<Rightarrow> body)"

definition web3StorageIpfsProvider :: "(string \<Rightarrow> int \<Rightarrow> bytes res option outcome) \<Rightarrow> int option \<Rightarrow> ipfs_provider" where
  "web3StorageIpfsProvider get timeoutMs = \<lparr>ipfs_fetch = web3_ipfs_fetch get timeoutMs\<rparr>"

end
