(* ===== verification/Provider_Properties.thy ===== *)
theory Provider_Properties
  imports Verifier_Providers Press_World "HOL-Library.Multiset"
begin

text \<open>
  The properties of the scan of event logs in windows of blocks: it returns, it finds what one query over
  the whole range would find, and with an empty window it never returns.
\<close>

section \<open>What the node promises\<close>

text \<open>
  The logs of an event that lie in a range of blocks, and a node whose answers are complete: when
  it answers a query, it lists exactly the logs of the range.
\<close>

definition in_blocks :: "int \<Rightarrow> int \<Rightarrow> event_log list \<Rightarrow> event_log list" where
  "in_blocks a b ls = filter (\<lambda>l. a \<le> el_block l \<and> el_block l \<le> b) ls"

definition complete_queries ::
    "('y, 'z) ethers_contract_scheme \<Rightarrow> string \<Rightarrow> (card_event \<Rightarrow> event_log list) \<Rightarrow> bool" where
  "complete_queries c addr logs \<longleftrightarrow>
     (\<forall>event a b y ls y'. query_filter c event addr a b y = (Inr ls, y') \<longrightarrow> ls = in_blocks a b (logs event))"

text \<open>A node that only ever refuses ranges of more than \<open>k\<close> blocks, and says so.\<close>

definition refuses_only_long_ranges :: "('y, 'z) ethers_contract_scheme \<Rightarrow> string \<Rightarrow> int \<Rightarrow> bool" where
  "refuses_only_long_ranges c addr k \<longleftrightarrow>
     (\<forall>event a b y e y'. query_filter c event addr a b y = (Inl e, y') \<longrightarrow> isRangeLimitError e \<and> k \<le> b - a)"

section \<open>The scan\<close>

lemma ordered_logs_append: "ordered_logs (xs @ ys) = ordered_logs xs @ ordered_logs ys"
  by (induction xs) (auto simp: ordered_logs_def map_filter_simps split: option.splits)

lemma mset_ordered_logs: "mset xs = mset ys \<Longrightarrow> mset (ordered_logs xs) = mset (ordered_logs ys)"
  unfolding ordered_logs_def List.map_filter_def by simp

lemma in_blocks_split:
  assumes "a \<le> m + 1" "m \<le> b"
  shows "mset (in_blocks a b ls) = mset (in_blocks a m ls) + mset (in_blocks (m + 1) b ls)"
  using assms by (induction ls) (auto simp: in_blocks_def)

lemma in_blocks_empty: "b < a \<Longrightarrow> in_blocks a b ls = []"
  by (auto simp: in_blocks_def filter_empty_conv)

text \<open>Windows of at least one block: the scan returns whatever the node answers.\<close>

lemma scan_windows_returns:
  assumes "1 \<le> minWindow" "1 \<le> windowSize"
  shows "\<exists>r. scan_windows c addr minWindow latest a windowSize reg upd y = Some r"
  using assms(2)
proof (induction "(nat (latest - a + 1), nat windowSize)" arbitrary: a windowSize reg upd y
    rule: wf_induct_rule [OF wf_lex_prod [OF wf_less wf_less]])
  case (1 a windowSize reg upd y)
  show ?case
  proof (cases "a \<le> latest")
    case False
    then show ?thesis by (subst scan_windows.simps) simp
  next
    case inside: True
    obtain q y' where q: "query_window c addr a (min (a + windowSize - 1) latest) y = (q, y')"
      by (cases "query_window c addr a (min (a + windowSize - 1) latest) y")
    show ?thesis
    proof (cases q)
      case (Inr ru)
      have "\<exists>r. scan_windows c addr minWindow latest (min (a + windowSize - 1) latest + 1) windowSize
              (reg @ fst ru) (upd @ snd ru) y' = Some r"
        by (rule 1(1)) (use 1(2) inside in auto)
      with inside q Inr show ?thesis
        by (subst scan_windows.simps) (cases ru; simp)
    next
      case (Inl e)
      show ?thesis
      proof (cases "isRangeLimitError e \<and> minWindow < windowSize")
        case True
        have "\<exists>r. scan_windows c addr minWindow latest a (max minWindow (windowSize div 2)) reg upd y' = Some r"
          by (rule 1(1)) (use 1(2) assms(1) True in auto)
        with inside q Inl True show ?thesis by (subst scan_windows.simps) simp
      next
        case False
        with inside q Inl show ?thesis by (subst scan_windows.simps) auto
      qed
    qed
  qed
qed

text \<open>What one window contributes.\<close>

lemma query_window_Inr:
  assumes "complete_queries c addr logs" "query_window c addr a b y = (Inr (r, u), y')"
  shows "r = ordered_logs (in_blocks a b (logs Card_Registered))"
    "u = ordered_logs (in_blocks a b (logs Card_Head_Updated))"
proof -
  obtain ls us y1 where "query_filter c Card_Registered addr a b y = (Inr ls, y1)"
    "query_filter c Card_Head_Updated addr a b y1 = (Inr us, y')" "r = ordered_logs ls" "u = ordered_logs us"
    using assms(2) unfolding query_window_def act_simps by auto
  then show "r = ordered_logs (in_blocks a b (logs Card_Registered))"
    "u = ordered_logs (in_blocks a b (logs Card_Head_Updated))"
    using assms(1) unfolding complete_queries_def by blast+
qed

lemma query_window_Inl:
  assumes "refuses_only_long_ranges c addr k" "query_window c addr a b y = (Inl e, y')"
  shows "isRangeLimitError e \<and> k \<le> b - a"
  using assms(2) unfolding query_window_def act_simps
  by (simp, use assms(1) [unfolded refuses_only_long_ranges_def] in blast)

lemma scan_windows_complete:
  assumes node: "complete_queries c addr logs" "refuses_only_long_ranges c addr k"
    and "1 \<le> minWindow" "minWindow \<le> k" "1 \<le> windowSize"
  shows "\<exists>r u y'. scan_windows c addr minWindow latest a windowSize reg upd y = Some (Inr (reg @ r, upd @ u), y') \<and>
     mset r = mset (ordered_logs (in_blocks a latest (logs Card_Registered))) \<and>
     mset u = mset (ordered_logs (in_blocks a latest (logs Card_Head_Updated)))"
  using assms(5)
proof (induction "(nat (latest - a + 1), nat windowSize)" arbitrary: a windowSize reg upd y
    rule: wf_induct_rule [OF wf_lex_prod [OF wf_less wf_less]])
  case (1 a windowSize reg upd y)
  show ?case
  proof (cases "a \<le> latest")
    case False
    then show ?thesis
      by (subst scan_windows.simps) (simp add: in_blocks_empty ordered_logs_def map_filter_simps)
  next
    case inside: True
    define m where "m = min (a + windowSize - 1) latest"
    obtain q y' where q: "query_window c addr a m y = (q, y')" by (cases "query_window c addr a m y")
    show ?thesis
    proof (cases q)
      case (Inr ru)
      obtain r1 u1 where ru: "ru = (r1, u1)" by (cases ru)
      have "\<exists>r u y''. scan_windows c addr minWindow latest (m + 1) windowSize (reg @ r1) (upd @ u1) y' =
            Some (Inr ((reg @ r1) @ r, (upd @ u1) @ u), y'') \<and>
          mset r = mset (ordered_logs (in_blocks (m + 1) latest (logs Card_Registered))) \<and>
          mset u = mset (ordered_logs (in_blocks (m + 1) latest (logs Card_Head_Updated)))"
        by (rule 1(1)) (use 1(2) inside m_def in auto)
      then obtain r u y'' where rest: "scan_windows c addr minWindow latest (m + 1) windowSize (reg @ r1) (upd @ u1) y' =
            Some (Inr ((reg @ r1) @ r, (upd @ u1) @ u), y'')"
          "mset r = mset (ordered_logs (in_blocks (m + 1) latest (logs Card_Registered)))"
          "mset u = mset (ordered_logs (in_blocks (m + 1) latest (logs Card_Head_Updated)))" by blast
      have split: "mset (ordered_logs (in_blocks a latest ls)) =
          mset (ordered_logs (in_blocks a m ls)) + mset (ordered_logs (in_blocks (m + 1) latest ls))" for ls
        using mset_ordered_logs [of "in_blocks a latest ls" "in_blocks a m ls @ in_blocks (m + 1) latest ls"]
          in_blocks_split [of a m latest ls] inside 1(2)
        by (auto simp: m_def ordered_logs_append)
      have "scan_windows c addr minWindow latest a windowSize reg upd y =
          Some (Inr (reg @ (r1 @ r), upd @ (u1 @ u)), y'')"
        using inside q Inr ru rest(1) by (subst scan_windows.simps) (simp add: m_def)
      moreover have "mset (r1 @ r) = mset (ordered_logs (in_blocks a latest (logs Card_Registered)))"
        "mset (u1 @ u) = mset (ordered_logs (in_blocks a latest (logs Card_Head_Updated)))"
        using query_window_Inr [OF node(1) q [unfolded Inr ru]] rest(2,3) split by simp_all
      ultimately show ?thesis by blast
    next
      case (Inl e)
      then have e: "isRangeLimitError e" "k \<le> m - a" using query_window_Inl [OF node(2)] q by auto
      then have small: "minWindow < windowSize" using assms(4) by (auto simp: m_def)
      have "scan_windows c addr minWindow latest a windowSize reg upd y =
          scan_windows c addr minWindow latest a (max minWindow (windowSize div 2)) reg upd y'"
        using inside q Inl e(1) small by (subst scan_windows.simps) (simp add: m_def)
      moreover have "\<exists>r u y''. scan_windows c addr minWindow latest a (max minWindow (windowSize div 2)) reg upd y' =
            Some (Inr (reg @ r, upd @ u), y'') \<and>
          mset r = mset (ordered_logs (in_blocks a latest (logs Card_Registered))) \<and>
          mset u = mset (ordered_logs (in_blocks a latest (logs Card_Head_Updated)))"
        by (rule 1(1)) (use 1(2) assms(3) small in auto)
      ultimately show ?thesis by simp
    qed
  qed
qed

text \<open>A window without blocks: the scan makes no progress.\<close>

text \<open>A window without blocks: the scan makes no progress and does not return.\<close>

lemma empty_windows_loop:
  assumes node: "\<And>event a b y. b < a \<Longrightarrow> \<exists>y'. query_filter c event addr a b y = (Inr [], y')"
    and "windowSize \<le> 0" "a \<le> latest"
  shows "scan_windows c addr minWindow latest a windowSize reg upd y = None"
proof (rule ccontr)
  define empty where "empty d ad \<longleftrightarrow> (\<forall>event a b y. b < a \<longrightarrow> (\<exists>y'. query_filter d event ad a b y = (Inr [], y')))"
    for d :: "('a, 'b) ethers_contract_scheme" and ad
  assume "scan_windows c addr minWindow latest a windowSize reg upd y \<noteq> None"
  then obtain res where "scan_windows c addr minWindow latest a windowSize reg upd y = Some res" by blast
  then have "empty c addr \<longrightarrow> \<not> (windowSize \<le> 0 \<and> a \<le> latest)"
  proof (rule scan_windows.raw_induct [where P = "\<lambda>c addr minWindow latest a windowSize reg upd y res.
        empty c addr \<longrightarrow> \<not> (windowSize \<le> 0 \<and> a \<le> latest)", rotated])
    fix scan d ad mw lt b w r u z res
    assume IH: "\<And>d ad mw lt b w r u z res. scan d ad mw lt b w r u z = Some res \<Longrightarrow> empty d ad \<longrightarrow> \<not> (w \<le> 0 \<and> b \<le> lt)"
      and run: "(if b \<le> lt then case query_window d ad b (min (b + w - 1) lt) z of
          (Inl e, y') \<Rightarrow> if isRangeLimitError e \<and> mw < w then scan d ad mw lt b (max mw (w div 2)) r u y' else Some (Inl e, y')
        | (Inr (r', u'), y') \<Rightarrow> scan d ad mw lt (min (b + w - 1) lt + 1) w (r @ r') (u @ u') y'
       else Some (Inr (r, u), z)) = Some res"
    show "empty d ad \<longrightarrow> \<not> (w \<le> 0 \<and> b \<le> lt)"
    proof (intro impI notI)
      assume "empty d ad" and bad: "w \<le> 0 \<and> b \<le> lt"
      then have "min (b + w - 1) lt < b" by auto
      with \<open>empty d ad\<close> obtain y1 y2 where
          "query_filter d Card_Registered ad b (min (b + w - 1) lt) z = (Inr [], y1)"
          "query_filter d Card_Head_Updated ad b (min (b + w - 1) lt) y1 = (Inr [], y2)"
        unfolding empty_def by blast
      then have "query_window d ad b (min (b + w - 1) lt) z = (Inr ([], []), y2)"
        by (simp add: query_window_def act_simps bindA_def ordered_logs_def map_filter_simps retA_def)
      with run bad have "scan d ad mw lt (min (b + w - 1) lt + 1) w r u y2 = Some res" by simp
      from IH [OF this] \<open>empty d ad\<close> bad show False by auto
    qed
  qed
  with assms show False by (auto simp: empty_def)
qed

text \<open>The position of a log in the chain is its own, and its index in the block is below a million.\<close>

definition distinct_positions :: "event_log list \<Rightarrow> bool" where
  "distinct_positions ls \<longleftrightarrow>
     (\<forall>l \<in> set ls. 0 \<le> el_index l \<and> el_index l < 1000000) \<and>
     (\<forall>l \<in> set ls. \<forall>l' \<in> set ls. el_block l = el_block l' \<and> el_index l = el_index l' \<longrightarrow> el_args l = el_args l')"

lemma position_split:
  fixes b b' i i' :: int
  assumes "b * 1000000 + i = b' * 1000000 + i'" "0 \<le> i" "i < 1000000" "0 \<le> i'" "i' < 1000000"
  shows "b = b' \<and> i = i'"
proof -
  have "(b * 1000000 + i) div 1000000 = b" "(b' * 1000000 + i') div 1000000 = b'"
    using assms(2-5) by simp_all
  with assms(1) show ?thesis by simp
qed

lemma toOrderedLog_Some:
  "toOrderedLog l = Some k \<longleftrightarrow> el_args l = Some (ol_args k) \<and> ol_block k = el_block l \<and> ol_index k = el_index l"
  by (cases k) (auto simp: toOrderedLog_def)

lemma sort_position_inj:
  assumes "distinct_positions ls"
  shows "inj_on sort_position (set (ordered_logs (in_blocks a b ls)))"
proof (rule inj_onI)
  fix k k'
  assume "k \<in> set (ordered_logs (in_blocks a b ls))" "k' \<in> set (ordered_logs (in_blocks a b ls))"
    and same: "sort_position k = sort_position k'"
  then obtain l l' where l: "l \<in> set ls" "toOrderedLog l = Some k" "l' \<in> set ls" "toOrderedLog l' = Some k'"
    by (auto simp: ordered_logs_def List.map_filter_def in_blocks_def)
  have index: "0 \<le> el_index l" "el_index l < 1000000" "0 \<le> el_index l'" "el_index l' < 1000000"
    using l(1,3) assms unfolding distinct_positions_def by blast+
  have "el_block l * 1000000 + el_index l = el_block l' * 1000000 + el_index l'"
    using same l(2,4) by (simp add: sort_position_def toOrderedLog_Some)
  from position_split [OF this index] have place: "el_block l = el_block l' \<and> el_index l = el_index l'" .
  with l(1,3) assms have "el_args l = el_args l'" unfolding distinct_positions_def by blast
  with place l(2,4) show "k = k'" by (simp add: toOrderedLog_Some)
qed

lemma sort_position_unique:
  assumes "mset xs = mset ys" "inj_on sort_position (set ys)"
  shows "sort_key sort_position xs = sort_key sort_position ys"
proof (rule sort_key_inj_key_eq)
  show "mset xs = mset (sort_key sort_position ys)" using assms(1) by simp
  show "inj_on sort_position (set xs)" using assms(2) mset_eq_setD [OF assms(1)] by simp
qed simp

text \<open>What one query over the whole range gives.\<close>

definition whole_log ::
    "('r) runtime_scheme \<Rightarrow> (card_event \<Rightarrow> event_log list) \<Rightarrow> int \<Rightarrow> int \<Rightarrow> card_chain_event list res" where
  "whole_log p logs a b =
     events_of p (ordered_logs (in_blocks a b (logs Card_Registered)), ordered_logs (in_blocks a b (logs Card_Head_Updated)))"

section \<open>Properties\<close>

text \<open>
  C34. The scan in windows is equivalent to one query. On a node whose answers are complete and that
  refuses only ranges of more than \<open>k\<close> blocks, with a smallest window between 1 and \<open>k\<close>,
  \<open>getCardEventLogChunked\<close> returns for every size of the first window, and its result is what one query
  over the whole range would give: the genesis entry, then all updates in the order of the chain.
\<close>

theorem windowed_scan_equals_one_query:
  assumes "complete_queries c addr logs" "refuses_only_long_ranges c addr k"
    and "1 \<le> or_default 1 (co_minChunkSize opts)" "or_default 1 (co_minChunkSize opts) \<le> k"
    and "1 \<le> or_default 2000 (co_chunkSize opts)"
    and "distinct_positions (logs Card_Registered)" "distinct_positions (logs Card_Head_Updated)"
    and "has_provider c" "co_toBlock opts = Some latest \<or> co_toBlock opts = None \<and> latest_block c y = (Inr latest, y1)"
  shows "\<exists>y'. getCardEventLogChunked p c addr opts y = Some (whole_log p logs (or_default 0 (co_fromBlock opts)) latest, y')"
proof -
  let ?a = "or_default 0 (co_fromBlock opts)"
  obtain y0 where y0: "(case co_toBlock opts of None \<Rightarrow> latest_block c y | Some b \<Rightarrow> (Inr b, y)) = (Inr latest, y0)"
    using assms(9) by auto
  obtain r u y' where scan: "scan_windows c addr (or_default 1 (co_minChunkSize opts)) latest ?a
        (or_default 2000 (co_chunkSize opts)) [] [] y0 = Some (Inr (r, u), y')"
      "mset r = mset (ordered_logs (in_blocks ?a latest (logs Card_Registered)))"
      "mset u = mset (ordered_logs (in_blocks ?a latest (logs Card_Head_Updated)))"
    using scan_windows_complete [OF assms(1-5), of latest ?a "[]" "[]" y0] by auto
  have "events_of p (r, u) = whole_log p logs ?a latest"
    using sort_position_unique [OF scan(2) sort_position_inj [OF assms(6)]]
      sort_position_unique [OF scan(3) sort_position_inj [OF assms(7)]]
    by (simp add: whole_log_def events_of_def)
  with assms(8) y0 scan(1) show ?thesis by (simp add: getCardEventLogChunked_def)
qed

text \<open>
  The scan always returns when both sizes of a window are at least one block, whatever the node
  answers or refuses. With a first window of no blocks it never returns on a node that answers empty
  ranges: an option that is not checked makes the call hang.
\<close>

theorem windowed_scan_returns_iff_it_has_blocks:
  assumes "1 \<le> or_default 1 (co_minChunkSize opts)" "has_provider c" "co_toBlock opts = Some latest"
    and "or_default 0 (co_fromBlock opts) \<le> latest"
    and "\<And>event a b y. b < a \<Longrightarrow> \<exists>y'. query_filter c event addr a b y = (Inr [], y')"
  shows "(\<exists>r. getCardEventLogChunked p c addr opts y = Some r) \<longleftrightarrow> 1 \<le> or_default 2000 (co_chunkSize opts)"
proof -
  have "(\<exists>r. getCardEventLogChunked p c addr opts y = Some r) \<longleftrightarrow>
      (\<exists>r. scan_windows c addr (or_default 1 (co_minChunkSize opts)) latest (or_default 0 (co_fromBlock opts))
        (or_default 2000 (co_chunkSize opts)) [] [] y = Some r)"
    using assms(2,3) by (auto simp: getCardEventLogChunked_def)
  also have "\<dots> \<longleftrightarrow> 1 \<le> or_default 2000 (co_chunkSize opts)"
  proof (cases "1 \<le> or_default 2000 (co_chunkSize opts)")
    case True
    with scan_windows_returns [OF assms(1) True, of c addr latest "or_default 0 (co_fromBlock opts)" "[]" "[]" y]
    show ?thesis by simp
  next
    case False
    then have "or_default 2000 (co_chunkSize opts) \<le> 0" by simp
    from empty_windows_loop [OF assms(5) this assms(4)] False show ?thesis by simp
  qed
  finally show ?thesis .
qed

section \<open>A concrete node\<close>

text \<open>
  A node with five blocks and three logs of one card that refuses ranges of three blocks and more.
\<close>

definition ex_logs :: "card_event \<Rightarrow> event_log list" where
  "ex_logs event = (case event of
     Card_Registered \<Rightarrow> [\<lparr>el_block = 1, el_index = 0,
        el_args = Some [(''initial_log_cid'', Abi_Bytes [97]), (''timestamp'', Abi_Int 5)]\<rparr>]
   | Card_Head_Updated \<Rightarrow>
       [\<lparr>el_block = 4, el_index = 0, el_args = Some [(''new_log_cid'', Abi_Bytes [99]), (''timestamp'', Abi_Int 7)]\<rparr>,
        \<lparr>el_block = 2, el_index = 3, el_args = Some [(''new_log_cid'', Abi_Bytes [98]), (''timestamp'', Abi_Int 6)]\<rparr>])"

definition ex_node :: "unit ethers_contract" where
  "ex_node = \<lparr>has_provider = True, latest_block = retA 4,
     query_filter = (\<lambda>event addr a b y.
       (if 2 \<le> b - a then Inl (JsError ''Error: block range too large'') else Inr (in_blocks a b (ex_logs event)), y))\<rparr>"

definition ex_options :: "int \<Rightarrow> chunk_options" where
  "ex_options n = \<lparr>co_fromBlock = None, co_toBlock = Some 4, co_chunkSize = Some n, co_minChunkSize = None\<rparr>"

lemma ex_node_facts:
  "complete_queries ex_node addr ex_logs" "refuses_only_long_ranges ex_node addr 2"
  "distinct_positions (ex_logs Card_Registered)" "distinct_positions (ex_logs Card_Head_Updated)"
proof -
  have message: "isRangeLimitError (JsError ''Error: block range too large'')" by code_simp
  show "complete_queries ex_node addr ex_logs" "refuses_only_long_ranges ex_node addr 2"
    "distinct_positions (ex_logs Card_Registered)" "distinct_positions (ex_logs Card_Head_Updated)"
    by (auto simp: complete_queries_def refuses_only_long_ranges_def ex_node_def message distinct_positions_def ex_logs_def
        split: if_splits)
qed

theorem windowed_scan_equals_one_query_witness:
  "\<exists>y'. getCardEventLogChunked ex_platform ex_node ''0xc'' (ex_options 3) () =
     Some (Inr [\<lparr>ev_cid = utf8_decode ex_platform [97], ev_timestamp = iso_of_ms ex_platform 5000\<rparr>,
                \<lparr>ev_cid = utf8_decode ex_platform [98], ev_timestamp = iso_of_ms ex_platform 6000\<rparr>,
                \<lparr>ev_cid = utf8_decode ex_platform [99], ev_timestamp = iso_of_ms ex_platform 7000\<rparr>], y')"
proof -
  have "whole_log ex_platform ex_logs 0 4 =
     Inr [\<lparr>ev_cid = utf8_decode ex_platform [97], ev_timestamp = iso_of_ms ex_platform 5000\<rparr>,
          \<lparr>ev_cid = utf8_decode ex_platform [98], ev_timestamp = iso_of_ms ex_platform 6000\<rparr>,
          \<lparr>ev_cid = utf8_decode ex_platform [99], ev_timestamp = iso_of_ms ex_platform 7000\<rparr>]"
    by (simp add: whole_log_def events_of_def in_blocks_def ex_logs_def ordered_logs_def map_filter_simps toOrderedLog_def
        sort_position_def toEvent_def event_cid_def event_time_def time_clip_def)
  with windowed_scan_equals_one_query [of ex_node "''0xc''" ex_logs 2 "ex_options 3" 4 "()" "()" ex_platform]
  show ?thesis by (simp add: ex_node_facts ex_options_def or_default_def) (simp add: ex_node_def)
qed

theorem windowed_scan_returns_iff_it_has_blocks_witness:
  "(\<exists>r. getCardEventLogChunked ex_platform ex_node ''0xc'' (ex_options 3) () = Some r) \<and>
   getCardEventLogChunked ex_platform ex_node ''0xc'' (ex_options 0) () = None"
proof -
  have empty: "b < a \<Longrightarrow> \<exists>y'. query_filter ex_node event ''0xc'' a b y = (Inr [], y')" for event a b y
    by (auto simp: ex_node_def in_blocks_empty)
  have "(\<exists>r. getCardEventLogChunked ex_platform ex_node ''0xc'' (ex_options n) () = Some r) \<longleftrightarrow> 1 \<le> n" for n
    using windowed_scan_returns_iff_it_has_blocks [of "ex_options n" ex_node 4 "''0xc''" ex_platform "()", OF _ _ _ _ empty]
    by (simp add: ex_options_def or_default_def) (simp add: ex_node_def)
  from this [of 3] this [of 0] show ?thesis
    by (cases "getCardEventLogChunked ex_platform ex_node ''0xc'' (ex_options 0) ()") auto
qed

end
