(* ===== verification/Press_Server.thy ===== *)
theory Press_Server
  imports Press_Issue Press_Update Press_SubCard Press_OpenOffer Verifier_Providers Js_Runtime
begin

text \<open>
  The server around the handlers of the press (\<open>press/server\<close>, \<open>press/src/ohttp-gateway.ts\<close>,
  \<open>press/src/ohttp-router.ts\<close>): the start of the process, the HTTP routes, the operator's routes,
  the oblivious gateway with its dispatcher, and the task that pins what the contract has registered.
  Dashes of messages that are not ASCII are written as hyphens.
\<close>

section \<open>The server and what it calls\<close>

text \<open>
  Beside the world of the handlers: whether the startup has been begun, what it left behind (the
  configuration, the public key and the address of the press), and its error.
\<close>

record 'x server =
  sv_world :: "'x world"
  sv_started :: bool
  sv_ready :: "(press_config \<times> bytes \<times> string) option"
  sv_error :: "string option"

type_synonym ('x, 'a) sact = "('x server, 'a) prog"

text \<open>
  Calls outside of the repository: the chain identifier of the node, the logs of an event in a range
  of blocks with what the decoder makes of their identifier, the pinning API (authorization and body
  to a status), and HPKE.
\<close>

record 'x server_services =
  chain_id :: "'x \<Rightarrow> int res"
  get_logs :: "card_event \<Rightarrow> int \<Rightarrow> int \<Rightarrow> 'x \<Rightarrow> abi_value option res list res"
  pin_request :: "string \<Rightarrow> js \<Rightarrow> 'x \<Rightarrow> int res \<times> 'x"
  x25519_public_key :: "bytes \<Rightarrow> bytes"
  hpke_unseal :: "bytes \<Rightarrow> bytes \<Rightarrow> bytes \<Rightarrow> (bytes \<times> bytes) res"

definition inW :: "('x, 'a) act \<Rightarrow> ('x, 'a) sact" where
  "inW m = (\<lambda>s. case m (sv_world s) of (r, w) \<Rightarrow> (r, s\<lparr>sv_world := w\<rparr>))"

lemma inW_run [act_simps]: "inW m s = (fst (m (sv_world s)), s\<lparr>sv_world := snd (m (sv_world s))\<rparr>)"
  by (simp add: inW_def split: prod.split)

text \<open>A response: its status and its JSON body.\<close>

datatype http_answer = Answer int js

section \<open>Startup\<close>

definition set_startup_error :: "string \<Rightarrow> ('x, unit) sact" where
  "set_startup_error msg = (\<lambda>s. (Inr (), s\<lparr>sv_error := Some msg\<rparr>))"

definition set_ready :: "press_config \<times> bytes \<times> string \<Rightarrow> ('x, unit) sact" where
  "set_ready ctx = (\<lambda>s. (Inr (), s\<lparr>sv_ready := Some ctx\<rparr>))"

fun provider_name :: "ipfs_kind \<Rightarrow> string" where
  "provider_name Filebase = ''filebase''"
| "provider_name Kubo = ''kubo''"
| "provider_name Mock = ''mock''"

definition pressAddress_of :: "('x, 'z) platform_scheme \<Rightarrow> bytes \<Rightarrow> string" where
  "pressAddress_of p publicKey = ''0x'' @ bytes_hex (keccak256_digest p publicKey)"

text \<open>
  Step 4: the clients. The check whether the press is authorized under its policies only chooses what
  is logged.
\<close>

definition init_clients :: "('x, 'z) platform_scheme \<Rightarrow> press_config \<Rightarrow> ('x, unit) sact" where
  "init_clients p cfg =
     bindA (liftA (mlDsa44PublicKeyFromPrivate p (PRESS_MLDSA44_PRIVATE_KEY cfg))) (\<lambda>publicKey.
       set_ready (cfg, publicKey, pressAddress_of p publicKey))"

definition check_chain ::
    "('x, 'z) platform_scheme \<Rightarrow> ('x, 'q) server_services_scheme \<Rightarrow> press_config \<Rightarrow> ('x, unit) sact" where
  "check_chain p q cfg =
     bindA (caught (inW (askA (chain_id q)))) (\<lambda>r. case r of
       Inl e \<Rightarrow> set_startup_error (''ARBITRUM_RPC_URL: RPC not responding - '' @ exn_string e)
     | Inr chainId \<Rightarrow>
         if Fin chainId \<noteq> EXPECTED_CHAIN_ID cfg
         then set_startup_error (''ARBITRUM_RPC_URL: connected to chain '' @ int_str chainId @ '', expected '' @
                literal p (Num (EXPECTED_CHAIN_ID cfg)))
         else init_clients p cfg)"

definition runStartupSteps ::
    "('x, 'z) platform_scheme \<Rightarrow> ('x, 'q) server_services_scheme \<Rightarrow> process_env \<Rightarrow> ('x, unit) sact" where
  "runStartupSteps p q pe =
     (case loadConfig pe of
        Inl e \<Rightarrow> set_startup_error ''Config validation failed - see process logs.''
      | Inr cfg \<Rightarrow>
          bindA (caught (inW (checkHealth p cfg))) (\<lambda>r. case r of
            Inl e \<Rightarrow> set_startup_error (''IPFS provider ('' @ provider_name (IPFS_PROVIDER cfg) @ ''): '' @ exn_string e)
          | Inr u \<Rightarrow> check_chain p q cfg))"

definition runStartup ::
    "('x, 'z) platform_scheme \<Rightarrow> ('x, 'q) server_services_scheme \<Rightarrow> process_env \<Rightarrow> ('x, unit) sact" where
  "runStartup p q pe = catchA (runStartupSteps p q pe) (\<lambda>err. set_startup_error (''Unexpected startup error: '' @ exn_string err))"

text \<open>The hook before every request: the promise of the first startup is kept for good.\<close>

definition request_hook ::
    "('x, 'z) platform_scheme \<Rightarrow> ('x, 'q) server_services_scheme \<Rightarrow> process_env \<Rightarrow> ('x, unit) sact" where
  "request_hook p q pe = (\<lambda>s. if sv_started s then (Inr (), s) else runStartup p q pe (s\<lparr>sv_started := True\<rparr>))"

section \<open>Routes of the handlers\<close>

definition finalize_body :: "finalize_response \<Rightarrow> js" where
  "finalize_body r = Obj [(''card_cid'', Str (fr_card_cid r)), (''scip'', fr_scip r)]"

definition error_answer :: "string \<Rightarrow> string \<Rightarrow> js" where
  "error_answer code msg = Obj [(''error'', Str code), (''message'', Str msg)]"

text \<open>An error with a \<open>pressCode\<close> becomes a response; \<open>answer\<close> builds it.\<close>

definition press_coded :: "(string \<Rightarrow> string \<Rightarrow> 'a) \<Rightarrow> ('x, 'a) act \<Rightarrow> ('x, 'a) act" where
  "press_coded answer m = catchA m (\<lambda>err. case err of
     PressFailure code msg \<Rightarrow> if code \<noteq> [] then retA (answer code msg) else throwA err
   | _ \<Rightarrow> throwA err)"

text \<open>The \<open>try\<close> block of a route, around a handler that gives the object to answer with.\<close>

definition route_answer :: "('x, js) act \<Rightarrow> ('x, http_answer) act" where
  "route_answer handler =
     press_coded (\<lambda>code msg. Answer 400 (error_answer code msg)) (bindA handler (\<lambda>r. retA (Answer 200 r)))"

definition not_ready :: http_answer where
  "not_ready = Answer 503 (error_answer ''PRESS_NOT_READY'' ''Press is initializing'')"

definition when_ready :: "(press_config \<times> bytes \<times> string \<Rightarrow> ('x, http_answer) act) \<Rightarrow> ('x, http_answer) sact" where
  "when_ready f = bindA (readA (\<lambda>s. Inr (sv_ready s))) (\<lambda>ready. case ready of
     None \<Rightarrow> retA not_ready
   | Some ctx \<Rightarrow> inW (f ctx))"

definition handler_route :: "(press_config \<Rightarrow> ('x, js) act) \<Rightarrow> ('x, http_answer) sact" where
  "handler_route handler = when_ready (\<lambda>(cfg, _). route_answer (handler cfg))"

text \<open>The routes themselves, one per file.\<close>

definition issue_post :: "('x, 'z) platform_scheme \<Rightarrow> js \<Rightarrow> ('x, http_answer) sact" where
  "issue_post p body = handler_route (\<lambda>cfg. bindA (handleIssue p cfg body) (\<lambda>cid. retA (Obj [(''offer_cid'', Str cid)])))"

definition finalize_post :: "('x, 'z) platform_scheme \<Rightarrow> js \<Rightarrow> ('x, http_answer) sact" where
  "finalize_post p body = handler_route (\<lambda>cfg. bindA (handleIssueFinalize p cfg body) (\<lambda>r. retA (finalize_body r)))"

definition claim_post :: "('x, 'z) platform_scheme \<Rightarrow> js \<Rightarrow> ('x, http_answer) sact" where
  "claim_post p body = handler_route (\<lambda>cfg. bindA (handleOpenOfferClaim p cfg body) (\<lambda>r. retA (finalize_body r)))"

definition update_post :: "('x, 'z) platform_scheme \<Rightarrow> js \<Rightarrow> ('x, http_answer) sact" where
  "update_post p body = handler_route (\<lambda>cfg. bindA (handleUpdate p cfg body) (\<lambda>r. retA (Obj
     [(''log_entry_cid'', Str (le_log_entry_cid r)), (''new_log_head_cid'', Str (le_new_log_head_cid r))])))"

definition subcard_register_post :: "('x, 'z) platform_scheme \<Rightarrow> js \<Rightarrow> ('x, http_answer) sact" where
  "subcard_register_post p body = handler_route (\<lambda>cfg. bindA (handleSubCardRegister p cfg body) (\<lambda>r. retA (Obj
     [(''sub_card_doc_cid'', Str (rr_sub_card_doc_cid r)), (''tx_hash'', Str (rr_tx_hash r))])))"

definition subcard_deregister_post :: "('x, 'z) platform_scheme \<Rightarrow> js \<Rightarrow> ('x, http_answer) sact" where
  "subcard_deregister_post p body = handler_route (\<lambda>cfg. bindA (handleSubCardDeregister p cfg body)
     (\<lambda>h. retA (Obj [(''tx_hash'', Str h)])))"

section \<open>Reading routes\<close>

definition press_health_route :: "('x, http_answer) sact" where
  "press_health_route = (\<lambda>s. (Inr (case sv_ready s of
       Some ctx \<Rightarrow> Answer 200 (Obj [(''status'', Str ''ok'')])
     | None \<Rightarrow> Answer 503 (Obj [(''status'', Str ''starting''),
         (''error'', Str (case sv_error s of None \<Rightarrow> ''Press is initializing'' | Some e \<Rightarrow> e))])), s))"

definition log_head_of :: "string \<Rightarrow> ('x, js) act" where
  "log_head_of policyCid =
     bindA (getItem (logHeadKey policyCid)) (\<lambda>record.
     bindA (liftA (opt_prop record ''log_head_cid'')) (\<lambda>head. retA (nullish head Null)))"

definition press_info_route :: "('x, 'z) platform_scheme \<Rightarrow> ('x, http_answer) sact" where
  "press_info_route p = when_ready (\<lambda>(cfg, publicKey, addr).
     bindA (mapA (\<lambda>cid. bindA (log_head_of cid) (\<lambda>head. retA (cid, head))) (PRESS_POLICY_CIDS cfg)) (\<lambda>heads.
       retA (Answer 200 (Obj
         [(''press_card_cid'', Str (PRESS_CARD_CID cfg)), (''policy_cids'', Arr (map Str (PRESS_POLICY_CIDS cfg))),
          (''address'', Str addr), (''gas_address'', Str (gas_address p cfg)),
          (''log_heads'', Obj (foldl (\<lambda>acc (k, v). put_key k v acc) [] heads))]))))"

definition record_field :: "js \<Rightarrow> string \<Rightarrow> js \<Rightarrow> ('x, js) act" where
  "record_field record k d = bindA (liftA (opt_prop record k)) (\<lambda>v. retA (nullish v d))"

definition app_gas_route :: "string \<Rightarrow> ('x, http_answer) sact" where
  "app_gas_route addr = when_ready (\<lambda>_.
     if addr = [] then retA (Answer 400 (error_answer ''MISSING_ADDRESS'' ''Address parameter is required''))
     else
       bindA (getItem (appGasKey addr)) (\<lambda>record.
       bindA (record_field record ''balance_wei'' (Str ''0'')) (\<lambda>balance.
       bindA (record_field record ''last_funded_at'' Null) (\<lambda>funded.
       bindA (record_field record ''last_debited_at'' Null) (\<lambda>debited.
         retA (Answer 200 (Obj [(''app_card_address'', Str addr), (''balance_wei'', balance),
           (''last_funded_at'', funded), (''last_debited_at'', debited)])))))))"

section \<open>The operator's routes\<close>

text \<open>
  \<open>constantTimeEqual\<close>: the differences of all code units are collected; \<open>a.charCodeAt(i) || 0\<close>
  is zero beyond the end.
\<close>

definition char_code_or_zero :: "string \<Rightarrow> nat \<Rightarrow> int" where
  "char_code_or_zero s i = (if i < length s then of_char (s ! i) else 0)"

definition constantTimeEqual :: "string \<Rightarrow> string \<Rightarrow> bool" where
  "constantTimeEqual a b =
     (foldl (\<lambda>diff i. or diff (xor (char_code_or_zero a i) (char_code_or_zero b i)))
        (if length a = length b then 0 else 1) [0 ..< max (length a) (length b)] = (0 :: int))"

definition press_requireAdminAuth :: "process_env \<Rightarrow> string option \<Rightarrow> unit res" where
  "press_requireAdminAuth pe header =
     (case header of
        None \<Rightarrow> Inl (HttpError 401 ''Missing bearer token.'')
      | Some h \<Rightarrow>
          if take 7 h \<noteq> ''Bearer '' then Inl (HttpError 401 ''Missing bearer token.'')
          else bindE (loadConfig pe) (\<lambda>cfg.
            if constantTimeEqual (drop 7 h) (PRESS_ADMIN_API_KEY cfg) then Inr ()
            else Inl (HttpError 401 ''Invalid admin API key.'')))"

definition ok_answer :: http_answer where
  "ok_answer = Answer 200 (Obj [(''ok'', Bool True)])"

definition app_gas_credit_route ::
    "('x, 'z) platform_scheme \<Rightarrow> process_env \<Rightarrow> string option \<Rightarrow> js \<Rightarrow> ('x, http_answer) sact" where
  "app_gas_credit_route p pe header body = when_ready (\<lambda>_.
     bindA (liftA (press_requireAdminAuth pe header)) (\<lambda>_.
     bindA (liftA (opt_prop body ''app_card_address'')) (\<lambda>appCardAddress.
     bindA (liftA (opt_prop body ''wei_amount'')) (\<lambda>weiAmount.
       if \<not> truthy appCardAddress \<or> \<not> truthy weiAmount
       then retA (Answer 400 (error_answer ''MISSING_FIELD'' ''app_card_address and wei_amount are required.''))
       else
         bindA (liftA (to_bigint p weiAmount)) (\<lambda>amount.
         bindA (creditAppGasAccount p (literal p appCardAddress) amount) (\<lambda>_. retA ok_answer))))))"

definition trusted_roots_route ::
    "('x, 'z) platform_scheme \<Rightarrow> process_env \<Rightarrow> string option \<Rightarrow> js \<Rightarrow> ('x, http_answer) sact" where
  "trusted_roots_route p pe header body = when_ready (\<lambda>_.
     bindA (liftA (press_requireAdminAuth pe header)) (\<lambda>_.
     bindA (liftA (opt_prop body ''address'')) (\<lambda>addr.
       if \<not> truthy addr then retA (Answer 400 (error_answer ''MISSING_FIELD'' ''address is required.''))
       else (case addr of
           Str a \<Rightarrow> bindA (setItem (trustedRootKey (to_lower a)) (Bool True)) (\<lambda>_. retA ok_answer)
         | _ \<Rightarrow> throwA (JsError ''TypeError: address.toLowerCase is not a function'')))))"

section \<open>The paths of the routes that change something\<close>

text \<open>
  The server takes method and path of a route from the name of its file under \<open>server\<close>: \<open>api/issue.post.ts\<close>
  serves \<open>POST /api/issue\<close>, \<open>api/sub-card/register.post.ts\<close> serves \<open>POST /api/sub-card/register\<close>.
\<close>

definition post_routes ::
    "('x, 'z) platform_scheme \<Rightarrow> process_env \<Rightarrow> string option \<Rightarrow> js \<Rightarrow> string \<Rightarrow> ('x, http_answer) sact option" where
  "post_routes p pe header body = map_of
     [(''POST /api/issue'', issue_post p body), (''POST /api/issue/finalize'', finalize_post p body),
      (''POST /api/open-offer/claim'', claim_post p body), (''POST /api/update'', update_post p body),
      (''POST /api/sub-card/register'', subcard_register_post p body),
      (''POST /api/sub-card/deregister'', subcard_deregister_post p body),
      (''POST /api/admin/app-gas-credit'', app_gas_credit_route p pe header body),
      (''POST /api/admin/trusted-roots'', trusted_roots_route p pe header body)]"

section \<open>The oblivious gateway\<close>

definition press_getKeyConfig :: "('x, 'q) server_services_scheme \<Rightarrow> press_config \<Rightarrow> string \<Rightarrow> js" where
  "press_getKeyConfig q cfg targetId =
     Obj [(''kemId'', Num (Fin 32)), (''kdfId'', Num (Fin 1)), (''aeadId'', Num (Fin 2)),
          (''publicKey'', Str (toBase64url (x25519_public_key q (PRESS_OHTTP_PRIVATE_KEY cfg)))),
          (''targetId'', Str targetId)]"

definition press_key_config_route :: "('x, 'q) server_services_scheme \<Rightarrow> ('x, http_answer) sact" where
  "press_key_config_route q = when_ready (\<lambda>(cfg, publicKey, addr). retA (Answer 200 (press_getKeyConfig q cfg addr)))"

definition press_decapsulate ::
    "('x, 'z) platform_scheme \<Rightarrow> ('x, 'q) server_services_scheme \<Rightarrow> press_config \<Rightarrow> js \<Rightarrow> js \<Rightarrow> (js \<times> bytes) res" where
  "press_decapsulate p q cfg enc ciphertext =
     bindE (fromBase64url p enc) (\<lambda>encBytes.
     bindE (fromBase64url p ciphertext) (\<lambda>sealed.
     bindE (hpke_unseal q (PRESS_OHTTP_PRIVATE_KEY cfg) encBytes sealed) (\<lambda>(plaintext, responseKey).
     bindE (json_parse p plaintext) (\<lambda>env. Inr (env, responseKey)))))"

text \<open>A response envelope: the status and the encoded body, if there is one.\<close>

definition press_encodeBody :: "js \<Rightarrow> string option" where
  "press_encodeBody body = (if body = Null \<or> body = Undef then None
     else Some (toBase64url (utf8_encode (json_stringify body))))"

definition press_envelope_js :: "int \<times> string option \<Rightarrow> js" where
  "press_envelope_js r = Obj ([(''status'', Num (Fin (fst r))), (''headers'', Obj [])] @
     (case snd r of None \<Rightarrow> [] | Some b \<Rightarrow> [(''body'', Str b)]))"

definition press_encapsulateResponse ::
    "('x, 'z) platform_scheme \<Rightarrow> bytes \<Rightarrow> int \<times> string option \<Rightarrow> ('x, js) act" where
  "press_encapsulateResponse p responseKey response =
     bindA (outA (\<lambda>x. case random_nonce p x of (n, x') \<Rightarrow> (Inr n, x'))) (\<lambda>nonce.
       retA (Obj [(''nonce'', Str (toBase64url nonce)), (''ciphertext'', Str (toBase64url
         (aes_gcm_seal p responseKey nonce (utf8_encode (json_stringify (press_envelope_js response))))))]))"

definition press_decodeBody :: "('x, 'z) platform_scheme \<Rightarrow> js \<Rightarrow> js res" where
  "press_decodeBody p body = (if \<not> truthy body then Inr Undef else bindE (fromBase64url p body) (json_parse p))"

datatype press_route = Route_Issue | Route_Finalize | Route_Claim | Route_Update | Route_Register | Route_Deregister

text \<open>The handlers \<open>ROUTES\<close> names, with the object each answers with.\<close>

definition run_handler :: "('x, 'z) platform_scheme \<Rightarrow> press_config \<Rightarrow> press_route \<Rightarrow> js \<Rightarrow> ('x, js) act" where
  "run_handler p cfg route body = (case route of
     Route_Issue \<Rightarrow> bindA (handleIssue p cfg body) (\<lambda>cid. retA (Obj [(''offer_cid'', Str cid)]))
   | Route_Finalize \<Rightarrow> bindA (handleIssueFinalize p cfg body) (\<lambda>r. retA (finalize_body r))
   | Route_Claim \<Rightarrow> bindA (handleOpenOfferClaim p cfg body) (\<lambda>r. retA (finalize_body r))
   | Route_Update \<Rightarrow> bindA (handleUpdate p cfg body) (\<lambda>r. retA (Obj
       [(''log_entry_cid'', Str (le_log_entry_cid r)), (''new_log_head_cid'', Str (le_new_log_head_cid r))]))
   | Route_Register \<Rightarrow> bindA (handleSubCardRegister p cfg body) (\<lambda>r. retA (Obj
       [(''sub_card_doc_cid'', Str (rr_sub_card_doc_cid r)), (''tx_hash'', Str (rr_tx_hash r))]))
   | Route_Deregister \<Rightarrow> bindA (handleSubCardDeregister p cfg body) (\<lambda>h. retA (Obj [(''tx_hash'', Str h)])))"

text \<open>\<open>ROUTES\<close> by method and path.\<close>

definition press_routes :: "string \<Rightarrow> press_route option" where
  "press_routes = map_of
     [(''POST /api/issue'', Route_Issue), (''POST /api/issue/finalize'', Route_Finalize),
      (''POST /api/open-offer/claim'', Route_Claim), (''POST /api/update'', Route_Update),
      (''POST /api/sub-card/register'', Route_Register), (''POST /api/sub-card/deregister'', Route_Deregister)]"

definition press_dispatch :: "('x, 'z) platform_scheme \<Rightarrow> press_config \<Rightarrow> js \<Rightarrow> ('x, int \<times> string option) act" where
  "press_dispatch p cfg env =
     bindA (liftA (js_prop env ''method'')) (\<lambda>meth.
     let key = literal p meth @ '' '' @ literal p (field env ''path'') in
     case press_routes key of
       None \<Rightarrow> retA (404, press_encodeBody (error_answer ''NOT_REACHABLE''
                 (''Not reachable through the OHTTP gateway: '' @ key)))
     | Some route \<Rightarrow>
         press_coded (\<lambda>code msg. (400, press_encodeBody (error_answer code msg)))
           (bindA (liftA (press_decodeBody p (field env ''body''))) (\<lambda>body.
            bindA (run_handler p cfg route body) (\<lambda>r. retA (200, press_encodeBody r)))))"

definition press_gateway_route ::
    "('x, 'z) platform_scheme \<Rightarrow> ('x, 'q) server_services_scheme \<Rightarrow> js \<Rightarrow> ('x, http_answer) sact" where
  "press_gateway_route p q body = when_ready (\<lambda>(cfg, _).
     bindA (liftA (opt_prop body ''enc'')) (\<lambda>enc.
     bindA (liftA (opt_prop body ''ciphertext'')) (\<lambda>ciphertext.
       if \<not> truthy enc \<or> \<not> truthy ciphertext
       then retA (Answer 400 (error_answer ''MISSING_FIELD'' ''enc and ciphertext are required.''))
       else
         bindA (liftA (press_decapsulate p q cfg enc ciphertext)) (\<lambda>(env, responseKey).
         bindA (press_dispatch p cfg env) (\<lambda>response.
         bindA (press_encapsulateResponse p responseKey response) (\<lambda>sealed. retA (Answer 200 sealed)))))))"

section \<open>Pinning what the contract has registered\<close>

definition BLOCK_BATCH_SIZE :: int where
  "BLOCK_BATCH_SIZE = 2000"

text \<open>
  The identifier of one log: \<open>TextDecoder.decode\<close> takes bytes and nothing else, characters of code 0 are
  removed, and an empty or missing identifier is passed over.
\<close>

definition log_cid :: "('x, 'z) platform_scheme \<Rightarrow> abi_value option res \<Rightarrow> string option res" where
  "log_cid p decoded = bindE decoded (\<lambda>v. case v of
     None \<Rightarrow> Inr None
   | Some (Abi_Bytes bs) \<Rightarrow>
       (let cid = filter (\<lambda>c. of_char c \<noteq> (0 :: nat)) (utf8_decode p bs) in Inr (if cid = [] then None else Some cid))
   | Some (Abi_Text s) \<Rightarrow> if s = [] then Inr None else Inl (JsError ''TypeError: argument must be an ArrayBuffer'')
   | Some (Abi_Int i) \<Rightarrow> if i = 0 then Inr None else Inl (JsError ''TypeError: argument must be an ArrayBuffer''))"

text \<open>\<open>cids.add\<close>: a set keeps the order of insertion.\<close>

fun collect_cids :: "string list \<Rightarrow> string option list \<Rightarrow> string list" where
  "collect_cids cids [] = cids"
| "collect_cids cids (None # vs) = collect_cids cids vs"
| "collect_cids cids (Some c # vs) = collect_cids (if c \<in> set cids then cids else cids @ [c]) vs"

text \<open>Whether the pinning API has accepted an identifier or holds it already.\<close>

definition pin_cid :: "('x, 'q) server_services_scheme \<Rightarrow> string \<Rightarrow> string \<Rightarrow> ('x, bool) act" where
  "pin_cid q auth cid =
     bindA (caught (outA (pin_request q auth
              (Obj [(''cid'', Str cid), (''name'', Str (''card-protocol-'' @ take 16 cid))])))) (\<lambda>r. case r of
       Inl e \<Rightarrow> retA False
     | Inr code \<Rightarrow> retA (http_ok code \<or> code = 409))"

text \<open>One batch of blocks: its identifiers and which of them were pinned.\<close>

definition reconcile_batch ::
    "('x, 'z) platform_scheme \<Rightarrow> ('x, 'q) server_services_scheme \<Rightarrow> string \<Rightarrow> int \<Rightarrow> int \<Rightarrow> ('x, (string \<times> bool) list) act" where
  "reconcile_batch p q auth a b =
     bindA (askA (get_logs q Card_Registered a b)) (\<lambda>registered.
     bindA (askA (get_logs q Card_Head_Updated a b)) (\<lambda>updated.
     bindA (liftA (mapE (log_cid p) (registered @ updated))) (\<lambda>cids.
       mapA (\<lambda>cid. bindA (pin_cid q auth cid) (\<lambda>ok. retA (cid, ok))) (collect_cids [] cids))))"

function reconcile_batches ::
    "('x, 'z) platform_scheme \<Rightarrow> ('x, 'q) server_services_scheme \<Rightarrow> string \<Rightarrow> int \<Rightarrow> int \<Rightarrow> ('x, (string \<times> bool) list) act" where
  "reconcile_batches p q auth cursor latest =
     (if cursor \<le> latest then
        (let toBlock = min (cursor + BLOCK_BATCH_SIZE - 1) latest in
         bindA (reconcile_batch p q auth cursor toBlock) (\<lambda>done1.
         bindA (reconcile_batches p q auth (toBlock + 1) latest) (\<lambda>rest. retA (done1 @ rest))))
      else retA [])"
  by pat_completeness auto
termination
  by (relation "measure (\<lambda>(p, q, auth, cursor, latest). nat (latest + 1 - cursor))")
    (auto simp: BLOCK_BATCH_SIZE_def)

declare reconcile_batches.simps [simp del]

text \<open>\<open>Buffer.toString('base64')\<close>: the standard alphabet with padding.\<close>

definition base64_padded :: "bytes \<Rightarrow> string" where
  "base64_padded bs =
     (let s = map to_standard (bytes_to_base64url bs) in
      s @ replicate ((4 - length s mod 4) mod 4) (CHR ''=''))"

datatype reconcile_result = Skipped_Provider | Up_To_Date | Reconciled int nat nat

text \<open>
  \<open>reconcile-cids\<close>: blocks processed, identifiers pinned and failed. The checkpoint moves only when
  nothing failed.
\<close>

definition reconcile_from ::
    "('x, 'z) platform_scheme \<Rightarrow> ('x, 'q) server_services_scheme \<Rightarrow> press_config \<Rightarrow> int \<Rightarrow> int \<Rightarrow> ('x, reconcile_result) act" where
  "reconcile_from p q cfg fromBlock latest =
     bindA (reconcile_batches p q (base64_padded (utf8_encode (FILEBASE_KEY cfg @ '':'' @ FILEBASE_SECRET cfg))) fromBlock latest) (\<lambda>results.
     let pinned = filter snd results; failed = filter (\<lambda>r. \<not> snd r) results in
     bindA (if failed = [] then setItem reconcileLastBlockKey (Num (Fin latest)) else retA ()) (\<lambda>_.
       retA (Reconciled (latest - fromBlock + 1) (length pinned) (length failed))))"

definition reconcile_cids ::
    "('x, 'z) platform_scheme \<Rightarrow> ('x, 'q) server_services_scheme \<Rightarrow> process_env \<Rightarrow> ('x, reconcile_result) act" where
  "reconcile_cids p q pe =
     bindA (liftA (loadConfig pe)) (\<lambda>cfg.
       if IPFS_PROVIDER cfg \<noteq> Filebase then retA Skipped_Provider
       else
         bindA (askA (block_number p)) (\<lambda>latest.
         bindA (getItem reconcileLastBlockKey) (\<lambda>stored.
         bindA (if stored \<noteq> Null then bindA (liftA (to_bigint p stored)) (\<lambda>b. retA (b + 1)) else retA latest) (\<lambda>fromBlock.
           if latest < fromBlock then retA Up_To_Date else reconcile_from p q cfg fromBlock latest))))"

end
