(* ===== verification/Press_Server_Properties.thy ===== *)
theory Press_Server_Properties
  imports Press_Server Press_World
begin

text \<open>
  The properties of the server of the press: the comparison of the operator's key, who may use the
  operator's routes, what a failed startup means for all later requests, that the oblivious gateway
  answers what the plain routes answer, and what the pinning task does with the logs of the contract.
\<close>

section \<open>The comparison of keys\<close>

lemma or_zero: "or x y = 0 \<longleftrightarrow> x = 0 \<and> y = (0 :: int)"
  by (auto simp: bit_eq_iff bit_or_iff)

lemma xor_zero: "xor x y = 0 \<longleftrightarrow> x = (y :: int)"
  by (auto simp: bit_eq_iff bit_xor_iff)

lemma fold_or_zero: "foldl (\<lambda>d i. or d (f i)) d0 is = (0 :: int) \<longleftrightarrow> d0 = 0 \<and> (\<forall>i \<in> set is. f i = 0)"
  by (induction "is" arbitrary: d0) (auto simp: or_zero)

lemma constantTimeEqual_eq: "constantTimeEqual a b \<longleftrightarrow> a = b"
proof -
  have "(\<forall>i < length b. char_code_or_zero a i = char_code_or_zero b i) \<longleftrightarrow> a = b" if "length a = length b"
    using that by (auto simp: char_code_or_zero_def list_eq_iff_nth_eq)
  then show ?thesis
    by (auto simp: constantTimeEqual_def fold_or_zero xor_zero)
qed

lemma admin_auth_Inr:
  assumes "press_requireAdminAuth pe header = Inr u"
  shows "\<exists>cfg. loadConfig pe = Inr cfg \<and> header = Some (''Bearer '' @ PRESS_ADMIN_API_KEY cfg)"
proof -
  obtain h where h: "header = Some h" "take 7 h = ''Bearer ''"
    using assms by (auto simp: press_requireAdminAuth_def split: option.splits if_splits)
  then obtain cfg where "loadConfig pe = Inr cfg" "drop 7 h = PRESS_ADMIN_API_KEY cfg"
    using assms by (auto simp: press_requireAdminAuth_def constantTimeEqual_eq bindE_eq_Inr split: if_splits)
  with h show ?thesis using append_take_drop_id [of 7 h] by auto
qed

section \<open>Readiness\<close>

lemma when_ready_run:
  "when_ready f s = (case sv_ready s of None \<Rightarrow> (Inr not_ready, s)
     | Some ctx \<Rightarrow> (fst (f ctx (sv_world s)), s\<lparr>sv_world := snd (f ctx (sv_world s))\<rparr>))"
  by (simp add: when_ready_def bindA_def readA_run inW_def retA_run split: option.split prod.split)

section \<open>An environment\<close>

text \<open>A decoded run of the first character of the alphabet is a run of zero bytes.\<close>

lemma decode_A:
  "decode_char (0, b, out) (CHR ''A'') = (if 2 \<le> b then (0, b - 2, out @ [0]) else (0, b + 6, out))"
  by (auto simp: standard_alphabet_def)

lemma decode_As: "foldl decode_char (0, 0, out) (replicate (4 * k) (CHR ''A'')) = (0, 0, out @ replicate (3 * k) 0)"
proof (induction k arbitrary: out)
  case (Suc k)
  have "foldl decode_char (0, 0, out) (replicate 4 (CHR ''A'')) = (0, 0, out @ replicate 3 0)"
    by (simp add: numeral_eq_Suc decode_A del: decode_char.simps)
  with Suc show ?case by (simp add: replicate_add)
qed simp

lemma atob_As:
  assumes "j \<in> {2, 3}"
  shows "atob (map to_standard (replicate (4 * k + j) (CHR ''A''))) = Some (replicate (3 * k + (j - 1)) 0)"
proof -
  have tail: "replicate 2 (CHR ''A'') = ''AA''" "replicate 3 (CHR ''A'') = ''AAA''"
    by (simp_all add: numeral_eq_Suc)
  have zeros: "replicate 2 (0 :: byte) = [0, 0]" by (simp add: numeral_2_eq_2)
  have "snd (snd (foldl decode_char (0, 0, []) (replicate (4 * k + j) (CHR ''A'')))) = replicate (3 * k + (j - 1)) 0"
    unfolding replicate_add foldl_append decode_As
    using assms by (auto simp del: decode_char.simps simp add: tail decode_A zeros)
  then have "base64url_to_bytes (replicate (4 * k + j) (CHR ''A'')) = replicate (3 * k + (j - 1)) 0"
    by (simp add: base64url_to_bytes_def to_standard_def)
  then show ?thesis
    using assms by (auto simp: atob_def drop_padding_def to_standard_def Let_def list_all_iff standard_alphabet_def)
qed

definition ex_process_env :: process_env where
  "ex_process_env = map_of
     [(''PRESS_CARD_CID'', ''card''), (''PRESS_POLICY_CIDS'', ''pol''),
      (''PRESS_MLDSA44_PRIVATE_KEY'', replicate 3414 (CHR ''A'')),
      (''PRESS_SECP256R1_PRIVATE_KEY'', replicate 64 (CHR ''1'')),
      (''PRESS_GAS_WALLET_PRIVATE_KEY'', replicate 64 (CHR ''2'')),
      (''PRESS_OHTTP_PRIVATE_KEY'', replicate 43 (CHR ''A'')), (''ARBITRUM_RPC_URL'', ''rpc''),
      (''REGISTRY_CONTRACT_ADDRESS'', ''0x1''), (''STORAGE_CONTRACT_ADDRESS'', ''0x2''),
      (''FILEBASE_KEY'', ''k''), (''FILEBASE_SECRET'', ''s''), (''PRESS_ADMIN_API_KEY'', ''secret'')]"

lemma ex_process_env_loads:
  "\<exists>cfg. loadConfig ex_process_env = Inr cfg \<and> IPFS_PROVIDER cfg = Filebase \<and> PRESS_ADMIN_API_KEY cfg = ''secret'' \<and>
     PRESS_POLICY_CIDS cfg = [''pol'']"
proof -
  have "decodeBase64urlKey ex_process_env ''PRESS_MLDSA44_PRIVATE_KEY'' MLDSA44_PRIVATE_KEY_BYTES = Inr (replicate 2560 0)"
    using atob_As [of 2 853] by (simp add: decodeBase64urlKey_def requireEnv_def ex_process_env_def MLDSA44_PRIVATE_KEY_BYTES_def)
  moreover have "decodeBase64urlKey ex_process_env ''PRESS_OHTTP_PRIVATE_KEY'' 32 = Inr (replicate 32 0)"
    using atob_As [of 3 10] by (simp add: decodeBase64urlKey_def requireEnv_def ex_process_env_def)
  moreover have "require_policy_cids ex_process_env = Inr [''pol'']" by code_simp
  moreover have "require_hex_key ex_process_env ''PRESS_SECP256R1_PRIVATE_KEY'' = Inr (replicate 64 (CHR ''1''))"
    "require_hex_key ex_process_env ''PRESS_GAS_WALLET_PRIVATE_KEY'' = Inr (replicate 64 (CHR ''2''))"
    by (simp_all add: require_hex_key_def requireEnv_def ex_process_env_def is_hex_key_def hex64_def list_all_iff is_hex_char_def is_digit_def)
  ultimately show ?thesis
    by (simp add: loadConfig_def requireEnv_def ex_process_env_def optionalEnv_def validateIpfsProvider_def env_if_def
        validateLogLevel_def Let_def)
qed

section \<open>Properties\<close>

text \<open>
  The comparison of the operator's key, which collects the differences of all code units instead of
  stopping at the first one, is equality of texts, also for texts of different lengths.
\<close>

theorem constant_time_comparison_is_equality: "constantTimeEqual a b \<longleftrightarrow> a = b"
  by (rule constantTimeEqual_eq)

text \<open>
  Only the operator changes anything through the operator's routes: when crediting a gas account or
  registering a trusted root changes the state of the server, the press is ready and the request
  carries exactly the configured key as its bearer token.
\<close>

theorem operator_routes_need_the_key:
  assumes "app_gas_credit_route p pe header body s = (r, s') \<or> trusted_roots_route p pe header body s = (r, s')"
    and "s' \<noteq> s"
  shows "sv_ready s \<noteq> None \<and> (\<exists>cfg. loadConfig pe = Inr cfg \<and> header = Some (''Bearer '' @ PRESS_ADMIN_API_KEY cfg))"
proof -
  have guarded: "(\<exists>u. press_requireAdminAuth pe header = Inr u) \<and> sv_ready s \<noteq> None"
    if "when_ready (\<lambda>c. bindA (liftA (press_requireAdminAuth pe header)) (f c)) s = (r, s')" for f
    using that assms(2)
    by (cases "press_requireAdminAuth pe header") (auto simp: when_ready_run bindA_def liftA_run split: option.splits)
  from assms(1) have "(\<exists>u. press_requireAdminAuth pe header = Inr u) \<and> sv_ready s \<noteq> None"
    unfolding app_gas_credit_route_def trusted_roots_route_def by (elim disjE) (erule guarded)+
  with admin_auth_Inr show ?thesis by blast
qed

text \<open>
  A failed startup is final. When the IPFS provider does not answer the check of the first request, the
  press answers that request and every later one with 503, whatever the outside and the environment are
  like by then: the promise of the startup is kept and never run again.
\<close>

theorem failed_startup_is_final:
  assumes "\<not> sv_started s" "sv_ready s = None" "loadConfig pe = Inr cfg"
    and "checkHealth p cfg (sv_world s) = (Inl e, w)"
    and "request_hook p q pe s = (r, s1)"
  shows "bindA (request_hook p' q' pe') (\<lambda>_. handler_route handler) (s1\<lparr>sv_world := w'\<rparr>) =
      (Inr not_ready, s1\<lparr>sv_world := w'\<rparr>)"
proof -
  have "s1 = s\<lparr>sv_started := True, sv_world := w,
      sv_error := Some (''IPFS provider ('' @ provider_name (IPFS_PROVIDER cfg) @ ''): '' @ exn_string e)\<rparr>"
    using assms by (simp add: request_hook_def runStartup_def runStartupSteps_def catchA_def bindA_def caught_eq inW_def
        set_startup_error_def)
  with assms(2) show ?thesis
    by (simp add: bindA_def request_hook_def handler_route_def when_ready_run)
qed

text \<open>Dispatching what a handler gives is the plain answer with its body encoded.\<close>

definition sealed_answer :: "http_answer \<Rightarrow> int \<times> string option" where
  "sealed_answer a = (case a of Answer code b \<Rightarrow> (code, press_encodeBody b))"

lemma press_coded_run:
  "press_coded answer m w = (case m w of
     (Inl (PressFailure code msg), w') \<Rightarrow> if code \<noteq> [] then (Inr (answer code msg), w') else (Inl (PressFailure code msg), w')
   | (r, w') \<Rightarrow> (r, w'))"
  by (cases "m w"; cases "fst (m w)")
    (auto simp: press_coded_def catchA_def retA_def throwA_def split: exn.split)

lemma dispatched_handler:
  "press_coded (\<lambda>code msg. (400, press_encodeBody (error_answer code msg)))
     (bindA m (\<lambda>r. retA (200, press_encodeBody r))) w = bindA (route_answer m) (\<lambda>a. retA (sealed_answer a)) w"
  by (cases "m w"; cases "fst (m w)")
    (auto simp: route_answer_def press_coded_run bindA_def retA_def sealed_answer_def split: exn.split)

lemma dispatch_run:
  assumes "press_routes (literal p (field env ''method'') @ '' '' @ literal p (field env ''path'')) = Some route"
    and "js_prop env ''method'' = Inr meth" "press_decodeBody p (field env ''body'') = Inr body"
  shows "press_dispatch p cfg env w = bindA (route_answer (run_handler p cfg route body)) (\<lambda>a. retA (sealed_answer a)) w"
proof -
  have "field env ''method'' = meth" using assms(2) by (simp add: field_def)
  then have "press_dispatch p cfg env w = press_coded (\<lambda>code msg. (400, press_encodeBody (error_answer code msg)))
      (bindA (run_handler p cfg route body) (\<lambda>r. retA (200, press_encodeBody r))) w"
    using assms by (simp add: press_dispatch_def bindA_step liftA_run Let_def press_coded_run bindA_def)
  then show ?thesis by (simp only: dispatched_handler)
qed

lemmas plain_routes = issue_post_def finalize_post_def claim_post_def update_post_def subcard_register_post_def
  subcard_deregister_post_def

lemma reachable_route:
  assumes "press_routes key = Some route"
  shows "key \<notin> {''POST /api/admin/app-gas-credit'', ''POST /api/admin/trusted-roots''} \<and>
    post_routes p pe header body key = Some (handler_route (\<lambda>cfg. run_handler p cfg route body))"
  using assms by (auto simp: press_routes_def post_routes_def run_handler_def plain_routes split: if_splits)

lemma unreachable_route:
  assumes "press_routes key = None"
  shows "key \<in> {''POST /api/admin/app-gas-credit'', ''POST /api/admin/trusted-roots''} \<or>
    post_routes p pe header body key = None"
  using assms by (auto simp: press_routes_def post_routes_def split: if_splits)


section \<open>The pinning task\<close>

text \<open>
  How viem decodes an argument of type \<open>bytes\<close>: a text of hexadecimal digits, at least \<open>0x\<close>.
\<close>

definition decodes_to_text :: "('x, 'q) server_services_scheme \<Rightarrow> bool" where
  "decodes_to_text q \<longleftrightarrow>
     (\<forall>event a b x ls. get_logs q event a b x = Inr ls \<longrightarrow> (\<forall>l \<in> set ls. \<exists>c s. l = Inr (Some (Abi_Text (c # s)))))"

lemma mapE_log_cid_texts:
  assumes "\<forall>l \<in> set ls. \<exists>c s. l = Inr (Some (Abi_Text (c # s)))" "mapE (log_cid p) ls = Inr cids"
  shows "ls = [] \<and> cids = []"
  using assms by (cases ls) (auto simp: log_cid_def bindE_eq_Inr)

lemma reconcile_batch_texts:
  assumes "decodes_to_text q" "reconcile_batch p q auth a b w = (r, w')"
  shows "w' = w \<and> (r = Inr [] \<and> get_logs q Card_Registered a b (ext w) = Inr [] \<and>
      get_logs q Card_Head_Updated a b (ext w) = Inr [] \<or> (\<exists>e. r = Inl e))"
proof (cases "get_logs q Card_Registered a b (ext w)")
  case (Inl e)
  with assms(2) show ?thesis by (auto simp: reconcile_batch_def bindA_def askA_run)
next
  case registered: (Inr ls)
  show ?thesis
  proof (cases "get_logs q Card_Head_Updated a b (ext w)")
    case (Inl e)
    with registered assms(2) show ?thesis by (auto simp: reconcile_batch_def bindA_def askA_run)
  next
    case updated: (Inr us)
    have texts: "\<forall>l \<in> set (ls @ us). \<exists>c s. l = Inr (Some (Abi_Text (c # s)))"
      using assms(1) registered updated unfolding decodes_to_text_def by auto
    show ?thesis
    proof (cases "mapE (log_cid p) (ls @ us)")
      case (Inl e)
      with registered updated assms(2) show ?thesis by (auto simp: reconcile_batch_def bindA_def askA_run liftA_run)
    next
      case (Inr cids)
      with mapE_log_cid_texts [OF texts this] registered updated assms(2) show ?thesis
        by (simp add: reconcile_batch_def bindA_def askA_run liftA_run retA_run)
    qed
  qed
qed

lemma reconcile_batches_texts:
  assumes "decodes_to_text q" "reconcile_batches p q auth cursor latest w = (r, w')"
  shows "w' = w \<and> (r = Inr [] \<or> (\<exists>e. r = Inl e))"
  using assms
proof (induction p q auth cursor latest arbitrary: r w' rule: reconcile_batches.induct)
  case (1 p q auth cursor latest)
  show ?case
  proof (cases "cursor \<le> latest")
    case False
    with 1(3) show ?thesis by (simp add: reconcile_batches.simps [of p q auth cursor latest] retA_run)
  next
    case True
    define b where "b = min (cursor + BLOCK_BATCH_SIZE - 1) latest"
    obtain r1 w1 where batch: "reconcile_batch p q auth cursor b w = (r1, w1)" by (cases "reconcile_batch p q auth cursor b w")
    obtain r2 w2 where rest: "reconcile_batches p q auth (b + 1) latest w = (r2, w2)"
      by (cases "reconcile_batches p q auth (b + 1) latest w")
    have "(r, w') = (case r1 of Inl e \<Rightarrow> (Inl e, w) | Inr d \<Rightarrow> (case r2 of Inl e \<Rightarrow> (Inl e, w2) | Inr ds \<Rightarrow> (Inr (d @ ds), w2)))"
      using 1(3) True batch rest reconcile_batch_texts [OF 1(2) batch]
      by (auto simp: reconcile_batches.simps [of p q auth cursor latest] Let_def bindA_def retA_def b_def [symmetric]
          split: sum.splits)
    with reconcile_batch_texts [OF 1(2) batch] 1(1) [OF True b_def 1(2) rest] show ?thesis
      by (auto split: sum.splits)
  qed
qed

text \<open>
  The pinning task pins nothing. The node client of the press decodes the identifiers in events to
  texts of hexadecimal digits, which the task gives to a decoder of bytes: whatever happened on the
  chain, no identifier is ever pinned or counted, and the outside is left as it was; a block with an
  event makes the task end in an error, the checkpoint stays, and the next run fails at the same event.
\<close>

theorem pinning_task_pins_nothing:
  assumes "decodes_to_text q" "reconcile_cids p q pe w = (r, w')"
  shows "ext w' = ext w \<and> (\<forall>n k m. r = Inr (Reconciled n k m) \<longrightarrow> k = 0 \<and> m = 0) \<and>
     ((\<exists>e. r = Inl e) \<longrightarrow> w' = w)"
proof -
  have from_texts: "(\<exists>e. r = Inl e) \<and> w' = w \<or> ext w' = ext w \<and> (\<exists>n. r = Inr (Reconciled n 0 0))"
    if run: "reconcile_from p q cfg a latest w = (r, w')" for cfg a latest
  proof -
    let ?auth = "base64_padded (utf8_encode (FILEBASE_KEY cfg @ '':'' @ FILEBASE_SECRET cfg))"
    obtain r1 w1 where batches: "reconcile_batches p q ?auth a latest w = (r1, w1)"
      by (cases "reconcile_batches p q ?auth a latest w")
    from reconcile_batches_texts [OF assms(1) batches] run batches show ?thesis
      by (auto simp: reconcile_from_def bindA_def setItem_run retA_run Let_def)
  qed
  obtain rc where rc: "loadConfig pe = rc" by blast
  show ?thesis
  proof (cases rc)
    case (Inl e)
    with rc assms(2) show ?thesis by (auto simp: reconcile_cids_def bindA_def liftA_run)
  next
    case (Inr cfg)
    have "r = Inr Skipped_Provider \<and> w' = w \<or> r = Inr Up_To_Date \<and> w' = w \<or> (\<exists>e. r = Inl e) \<and> w' = w \<or>
        (\<exists>a latest. reconcile_from p q cfg a latest w = (r, w'))"
      using assms(2) rc Inr
      by (auto simp: reconcile_cids_def bindA_def liftA_run retA_run askA_run getItem_run split: if_splits sum.splits)
    with from_texts show ?thesis by auto
  qed
qed

section \<open>A concrete server\<close>

definition ex_services :: "nat server_services" where
  "ex_services = \<lparr>chain_id = (\<lambda>x. Inr 42161),
     get_logs = (\<lambda>event a b x. Inr (if event = Card_Registered then [Inr (Some (Abi_Text ''0x61''))] else [])),
     pin_request = (\<lambda>auth body x. (Inr 200, x + 1)), x25519_public_key = (\<lambda>k. k),
     hpke_unseal = (\<lambda>k e c. Inr (c, k))\<rparr>"

definition ex_server :: "nat server" where
  "ex_server = \<lparr>sv_world = ex_world 0 (\<lambda>k. None), sv_started = False, sv_ready = None, sv_error = None\<rparr>"

theorem operator_routes_need_the_key_witness:
  "\<exists>r s'. trusted_roots_route ex_platform ex_process_env (Some ''Bearer secret'') (Obj [(''address'', Str ''0xAB'')])
        (ex_server\<lparr>sv_ready := Some (ex_press_config, [], [])\<rparr>) = (r, s') \<and>
     kv (sv_world s') (trustedRootKey ''0xab'') = Some (Bool True) \<and>
     (\<exists>cfg. loadConfig ex_process_env = Inr cfg \<and> ''secret'' = PRESS_ADMIN_API_KEY cfg)"
proof -
  let ?s = "ex_server\<lparr>sv_ready := Some (ex_press_config, [], [])\<rparr>"
  let ?run = "trusted_roots_route ex_platform ex_process_env (Some ''Bearer secret'') (Obj [(''address'', Str ''0xAB'')]) ?s"
  obtain cfg where cfg: "loadConfig ex_process_env = Inr cfg" "PRESS_ADMIN_API_KEY cfg = ''secret''"
    using ex_process_env_loads by blast
  then have auth: "press_requireAdminAuth ex_process_env (Some ''Bearer secret'') = Inr ()"
    by (simp add: press_requireAdminAuth_def constantTimeEqual_eq)
  have low: "to_lower ''0xAB'' = ''0xab''" by code_simp
  obtain r s' where run: "?run = (r, s')" by (cases ?run)
  have kv: "kv (sv_world s') (trustedRootKey ''0xab'') = Some (Bool True)"
    using run by (auto simp: trusted_roots_route_def when_ready_run bindA_def liftA_run auth setItem_run kv_set_def lookup_key_def low retA_run)
  then have "s' \<noteq> ?s" by (auto simp: ex_server_def)
  from operator_routes_need_the_key [OF disjI2 [OF run] this] kv run show ?thesis by auto
qed

theorem failed_startup_is_final_witness:
  "\<exists>r s1. request_hook ex_platform ex_services ex_process_env ex_server = (r, s1) \<and>
     bindA (request_hook ex_platform ex_services ex_process_env) (\<lambda>_. issue_post ex_platform Null)
       (s1\<lparr>sv_world := ex_world 5 (\<lambda>k. None)\<rparr>) = (Inr not_ready, s1\<lparr>sv_world := ex_world 5 (\<lambda>k. None)\<rparr>)"
proof -
  obtain cfg where cfg: "loadConfig ex_process_env = Inr cfg" "IPFS_PROVIDER cfg = Filebase"
    using ex_process_env_loads by blast
  have "\<exists>e w. checkHealth ex_platform cfg (sv_world ex_server) = (Inl e, w)"
    using cfg(2) by (simp add: checkHealth_def filebase_checkHealth_def bindA_def catchA_def outA_run throwA_def ex_platform_def)
  then obtain e w where health: "checkHealth ex_platform cfg (sv_world ex_server) = (Inl e, w)" by blast
  obtain r s1 where run: "request_hook ex_platform ex_services ex_process_env ex_server = (r, s1)"
    by (cases "request_hook ex_platform ex_services ex_process_env ex_server")
  have "\<not> sv_started ex_server" "sv_ready ex_server = None" by (simp_all add: ex_server_def)
  from failed_startup_is_final [OF this cfg(1) health run] run show ?thesis
    by (auto simp: issue_post_def)
qed


theorem pinning_task_pins_nothing_witness:
  "\<exists>e w'. reconcile_cids ex_platform ex_services ex_process_env (ex_world 0 (\<lambda>k. None)) = (Inl e, w') \<and>
     ext w' = 0 \<and> w' = ex_world 0 (\<lambda>k. None)"
proof -
  let ?w = "ex_world 0 (\<lambda>k. None)"
  have texts: "decodes_to_text ex_services" by (auto simp: decodes_to_text_def ex_services_def)
  obtain cfg where cfg: "loadConfig ex_process_env = Inr cfg" "IPFS_PROVIDER cfg = Filebase"
    using ex_process_env_loads by blast
  have batch: "reconcile_batch ex_platform ex_services auth 3 3 ?w = (Inl (JsError ''TypeError: argument must be an ArrayBuffer''), ?w)" for auth
    by (simp add: reconcile_batch_def bindA_def askA_run ex_services_def liftA_run log_cid_def)
  have "reconcile_cids ex_platform ex_services ex_process_env ?w = (Inl (JsError ''TypeError: argument must be an ArrayBuffer''), ?w)"
    using cfg batch
    by (simp add: reconcile_cids_def bindA_def liftA_run askA_run getItem_run kv_get_def retA_run reconcile_from_def
        reconcile_batches.simps [of _ _ _ 3 3] BLOCK_BATCH_SIZE_def)
  with pinning_task_pins_nothing [OF texts this] show ?thesis by simp
qed

end
