(* ===== verification/Sdk_Base.thy ===== *)
theory Sdk_Base
  imports Programs Js_Runtime Card_Verifier
begin

text \<open>
  The ground the client libraries (\<open>app-sdk\<close>, \<open>wallet-sdk\<close>) stand on: the state of a device, the
  providers that are injected into them, storage, and the interface of the oblivious transport with the
  JSON helper of the wallet library. Everything outside (clock, random numbers, hardware keys, passkeys,
  servers) has a state of an arbitrary type \<open>'y\<close>.
\<close>

section \<open>State and surroundings\<close>

text \<open>A gateway's key configuration as the transport keeps it.\<close>

record key_config_entry =
  kg_kemId :: js
  kg_kdfId :: js
  kg_aeadId :: js
  kg_publicKey :: bytes
  kg_targetId :: js
  kg_fetchedAt :: int

record 'y device =
  dv_storage :: "string \<Rightarrow> bytes option"
  dv_key_configs :: "string \<Rightarrow> key_config_entry option"
  dv_outer :: 'y

type_synonym ('y, 'a) dact = "('y device, 'a) prog"

record web_request =
  wq_method :: string
  wq_url :: string
  wq_headers :: "(string \<times> string) list"
  wq_body :: "bytes option"

record web_response =
  ws_status :: int
  ws_headers :: js
  ws_body :: bytes

text \<open>What a passkey ceremony returns.\<close>

record passkey_result =
  pk_credentialId :: bytes
  pk_attestationObject :: bytes
  pk_prfOutput :: "bytes option"

text \<open>
  What the libraries call but do not define: the clock, random bytes, whether a storage operation goes
  through, fresh ML-DSA-44 key pairs (public and secret), ML-KEM (cipher text and shared secret), the
  sender's side of HPKE (encapsulated key, cipher text, exported key), HKDF with a salt, the hardware keys
  of \<open>SecureKeyProvider\<close>, passkeys, the key of a YubiKey, HTTP, and the clock readings of a verification.
\<close>

record 'y sdk = runtime +
  sdk_now :: "'y \<Rightarrow> int \<times> 'y"
  sdk_random :: "nat \<Rightarrow> 'y \<Rightarrow> bytes \<times> 'y"
  sdk_storage :: "'y \<Rightarrow> unit res \<times> 'y"
  sdk_keygen :: "'y \<Rightarrow> (bytes \<times> bytes) \<times> 'y"
  kem_encapsulate :: "bytes \<Rightarrow> 'y \<Rightarrow> (bytes \<times> bytes) res \<times> 'y"
  kem_decapsulate :: "bytes \<Rightarrow> bytes \<Rightarrow> bytes res"
  hpke_sender :: "bytes \<Rightarrow> bytes \<Rightarrow> bytes \<Rightarrow> nat \<Rightarrow> 'y \<Rightarrow> (bytes \<times> bytes \<times> bytes) res \<times> 'y"
  hkdf_salted :: "bytes \<Rightarrow> bytes \<Rightarrow> bytes \<Rightarrow> nat \<Rightarrow> bytes"
  key_generate :: "string \<Rightarrow> 'y \<Rightarrow> bytes res \<times> 'y"
  key_sign :: "string \<Rightarrow> bytes \<Rightarrow> 'y \<Rightarrow> bytes res \<times> 'y"
  passkey_register :: "bytes \<Rightarrow> 'y \<Rightarrow> passkey_result res \<times> 'y"
  passkey_assert :: "bytes \<Rightarrow> 'y \<Rightarrow> passkey_result res \<times> 'y"
  yubikey_key :: "string \<Rightarrow> 'y \<Rightarrow> bytes res \<times> 'y"
  sdk_fetch :: "web_request \<Rightarrow> 'y \<Rightarrow> web_response res \<times> 'y"
  sdk_verify_clock :: "'y \<Rightarrow> int \<times> int \<times> string"

section \<open>Steps\<close>

definition outD :: "('y \<Rightarrow> 'a res \<times> 'y) \<Rightarrow> ('y, 'a) dact" where
  "outD f = (\<lambda>d. case f (dv_outer d) of (r, y) \<Rightarrow> (r, d\<lparr>dv_outer := y\<rparr>))"

definition freshD :: "('y \<Rightarrow> 'a \<times> 'y) \<Rightarrow> ('y, 'a) dact" where
  "freshD f = outD (\<lambda>y. case f y of (a, y') \<Rightarrow> (Inr a, y'))"

lemma outD_run [act_simps]: "outD f d = (fst (f (dv_outer d)), d\<lparr>dv_outer := snd (f (dv_outer d))\<rparr>)"
  by (simp add: outD_def split: prod.split)

lemma freshD_run [act_simps]:
  "freshD f d = (Inr (fst (f (dv_outer d))), d\<lparr>dv_outer := snd (f (dv_outer d))\<rparr>)"
  by (simp add: freshD_def act_simps split: prod.split)

lemma keeps_outside [keeps_intros]:
  "keeps dv_storage (outD f)" "keeps dv_storage (freshD g)" "keeps dv_key_configs (outD f)" "keeps dv_key_configs (freshD g)"
  by (auto simp: keeps_def act_simps)

text \<open>\<open>new Date().toISOString()\<close>.\<close>

definition nowIso :: "('y, 'z) sdk_scheme \<Rightarrow> ('y, string) dact" where
  "nowIso p = bindA (freshD (sdk_now p)) (\<lambda>t. retA (iso_of_ms p t))"

definition given_or_now :: "('y, 'z) sdk_scheme \<Rightarrow> string option \<Rightarrow> ('y, string) dact" where
  "given_or_now p s = (case s of Some t \<Rightarrow> retA t | None \<Rightarrow> nowIso p)"

lemma keeps_nowIso [keeps_intros]: "keeps dv_storage (nowIso p)" "keeps dv_storage (given_or_now p s)"
  unfolding nowIso_def given_or_now_def by (auto intro!: keeps_intros split: option.split)

section \<open>Storage\<close>

text \<open>
  \<open>StorageProvider\<close>: an operation either throws without an effect or has the effect its contract
  states.
\<close>

definition storage_get :: "('y, 'z) sdk_scheme \<Rightarrow> string \<Rightarrow> ('y, bytes option) dact" where
  "storage_get p k = bindA (outD (sdk_storage p)) (\<lambda>_. readA (\<lambda>d. Inr (dv_storage d k)))"

definition storage_set :: "('y, 'z) sdk_scheme \<Rightarrow> string \<Rightarrow> bytes \<Rightarrow> ('y, unit) dact" where
  "storage_set p k v = bindA (outD (sdk_storage p)) (\<lambda>_ d. (Inr (), d\<lparr>dv_storage := (dv_storage d)(k \<mapsto> v)\<rparr>))"

definition storage_delete :: "('y, 'z) sdk_scheme \<Rightarrow> string \<Rightarrow> ('y, unit) dact" where
  "storage_delete p k = bindA (outD (sdk_storage p)) (\<lambda>_ d. (Inr (), d\<lparr>dv_storage := (dv_storage d)(k := None)\<rparr>))"

lemma storage_get_Inr:
  "storage_get p k d = (Inr v, d') \<Longrightarrow> v = dv_storage d k \<and> dv_storage d' = dv_storage d"
  by (auto simp: storage_get_def act_simps bindA_eq)

lemma storage_set_Inr:
  "storage_set p k v d = (Inr u, d') \<Longrightarrow> dv_storage d' = (dv_storage d)(k \<mapsto> v)"
  by (auto simp: storage_set_def act_simps bindA_eq)

lemma keeps_storage_get [keeps_intros]: "keeps dv_storage (storage_get p k)"
  unfolding storage_get_def by (intro keeps_intros)

section \<open>The oblivious transport\<close>

datatype destination = Wallet_Service | Press_Service string

record transport_request =
  tq_method :: string
  tq_path :: string
  tq_headers :: "(string \<times> string) list option"
  tq_body :: "bytes option"
  tq_bypass :: bool

record transport_response =
  tr_status :: js
  tr_headers :: js
  tr_body :: bytes

type_synonym 'y transport = "destination \<Rightarrow> transport_request \<Rightarrow> ('y, transport_response) dact"

definition plain_request :: "string \<Rightarrow> string \<Rightarrow> (string \<times> string) list option \<Rightarrow> bytes option \<Rightarrow> transport_request" where
  "plain_request meth path headers body =
     \<lparr>tq_method = meth, tq_path = path, tq_headers = headers, tq_body = body, tq_bypass = False\<rparr>"

definition json_header :: "string \<times> string" where
  "json_header = (''content-type'', ''application/json'')"

text \<open>A request with a JSON body and nothing else, as most of the library's calls are.\<close>

definition json_request :: "string \<Rightarrow> string \<Rightarrow> js \<Rightarrow> transport_request" where
  "json_request meth path body = plain_request meth path (Some [json_header]) (Some (utf8_encode (json_stringify body)))"

text \<open>\<open>status < 200 || status >= 300\<close>, and \<open>status >= 200 && status < 300\<close>.\<close>

definition status_refused :: "('y, 'z) sdk_scheme \<Rightarrow> js \<Rightarrow> bool" where
  "status_refused p s \<longleftrightarrow> num_less (to_number p s) (Fin 200) \<or> num_ge (to_number p s) 300"

definition status_success :: "('y, 'z) sdk_scheme \<Rightarrow> js \<Rightarrow> bool" where
  "status_success p s \<longleftrightarrow> num_ge (to_number p s) 200 \<and> num_less (to_number p s) (Fin 300)"

definition answered_json :: "('y, 'z) sdk_scheme \<Rightarrow> string \<Rightarrow> transport_response \<Rightarrow> js res" where
  "answered_json p prefix response =
     (if status_refused p (tr_status response)
      then Inl (JsError (prefix @ '' returned status '' @ literal p (tr_status response)))
      else json_parse p (tr_body response))"

text \<open>\<open>requestJson\<close> of \<open>wallet/httpJson.ts\<close>.\<close>

definition requestJson ::
    "('y, 'z) sdk_scheme \<Rightarrow> 'y transport \<Rightarrow> string \<Rightarrow> string \<Rightarrow> js option \<Rightarrow> ('y, js) dact" where
  "requestJson p tr meth path body =
     bindA (tr Wallet_Service (case body of
         Some b \<Rightarrow> json_request meth path b
       | None \<Rightarrow> plain_request meth path None None)) (\<lambda>response.
       liftA (answered_json p (''Error: '' @ path @ '': '' @ meth) response))"

lemma requestJson_Inr:
  "requestJson p tr meth path body d = (Inr v, d') \<longleftrightarrow>
     (\<exists>response. tr Wallet_Service (case body of Some b \<Rightarrow> json_request meth path b
         | None \<Rightarrow> plain_request meth path None None) d = (Inr response, d') \<and>
        \<not> status_refused p (tr_status response) \<and> json_parse p (tr_body response) = Inr v)"
  by (auto simp: requestJson_def act_simps answered_json_def split: if_splits)

section \<open>The shared verifier\<close>

text \<open>
  The one \<open>CardVerifier\<close> of the application: its configuration with what the chain and IPFS answer at
  the moment, and its clock.
\<close>

type_synonym 'y card_verifier = "'y \<Rightarrow> config"

definition verify_env :: "('y, 'z) sdk_scheme \<Rightarrow> 'y \<Rightarrow> ('y, 'z) sdk_scheme" where
  "verify_env p y = (case sdk_verify_clock p y of (a, b, t) \<Rightarrow> p\<lparr>fetched_at := a, checked_at := b, now_iso := t\<rparr>)"

definition verify_card_at :: "('y, 'z) sdk_scheme \<Rightarrow> 'y card_verifier \<Rightarrow> string \<Rightarrow> ('y, card_result) dact" where
  "verify_card_at p cv a = readA (\<lambda>d. verifyCard (verify_env p (dv_outer d)) (cv (dv_outer d)) a None)"

text \<open>\<open>createCardVerifier\<close> of \<open>verification/CardVerifier.ts\<close>: the IPFS provider has a default.\<close>

definition createCardVerifier :: "ipfs_provider \<Rightarrow> verifier_config \<Rightarrow> config res" where
  "createCardVerifier defaultIpfs options =
     new_card_verifier (options\<lparr>vc_ipfs := Some (case vc_ipfs options of Some i \<Rightarrow> i | None \<Rightarrow> defaultIpfs)\<rparr>)"

text \<open>An envelope as JSON, read into the shape the verifier works on.\<close>

definition entry_of_js :: "js \<Rightarrow> signature_entry option" where
  "entry_of_js v = (case (field v ''public_key'', field v ''signature'') of
     (Str k, Str s) \<Rightarrow> Some \<lparr>se_key_scheme = (case field v ''key_scheme'' of Undef \<Rightarrow> None | Null \<Rightarrow> None
         | Str scheme \<Rightarrow> Some scheme | _ \<Rightarrow> Some []), se_public_key = k, se_signature = s\<rparr>
   | _ \<Rightarrow> None)"

definition entries_of_js :: "js \<Rightarrow> signature_entry list option" where
  "entries_of_js v = (case v of
     Arr xs \<Rightarrow> (if list_all (\<lambda>x. entry_of_js x \<noteq> None) xs then Some (map (\<lambda>x. the (entry_of_js x)) xs) else None)
   | _ \<Rightarrow> None)"

text \<open>
  \<open>verifyEnvelope\<close> of an arbitrary JSON value: signatures of another shape make it throw, unless the
  version of the payload ends it before it reads them.
\<close>

definition verify_js_envelope :: "('e) env_scheme \<Rightarrow> config \<Rightarrow> js \<Rightarrow> envelope_result res" where
  "verify_js_envelope e cfg v =
     bindE (js_prop v ''payload'') (\<lambda>payload.
       case entries_of_js (field v ''signatures'') of
         Some entries \<Rightarrow> verifyEnvelope e cfg \<lparr>en_payload = payload, en_signatures = entries\<rparr>
       | None \<Rightarrow> (case extract_protocol_version payload of
           Inl (CardProtocolError code msg) \<Rightarrow> verifyEnvelope e cfg \<lparr>en_payload = payload, en_signatures = []\<rparr>
         | _ \<Rightarrow> Inl (JsError ''TypeError: malformed signatures'')))"

definition verify_envelope_at :: "('y, 'z) sdk_scheme \<Rightarrow> 'y card_verifier \<Rightarrow> js \<Rightarrow> ('y, envelope_result) dact" where
  "verify_envelope_at p cv v = readA (\<lambda>d. verify_js_envelope (verify_env p (dv_outer d)) (cv (dv_outer d)) v)"

section \<open>The transport of the app library\<close>

text \<open>
  The oblivious transport of the app library (\<open>app-sdk/src/crypto/hpke.ts\<close>,
  \<open>transport/ObliviousProtocolTransport.ts\<close>): a request is sealed for the key its destination
  publishes and posted to the relay, and the sealed response is opened under the exported key.
\<close>

section \<open>HPKE\<close>

definition RESPONSE_KEY_INFO :: bytes where
  "RESPONSE_KEY_INFO = utf8_encode ''card-protocol-ohttp-response-v1''"

definition RESPONSE_KEY_LENGTH :: nat where
  "RESPONSE_KEY_LENGTH = 32"

text \<open>The encapsulated key, the cipher text, and the key the response is opened with.\<close>

definition hpkeSeal :: "('y, 'z) sdk_scheme \<Rightarrow> bytes \<Rightarrow> bytes \<Rightarrow> ('y, bytes \<times> bytes \<times> bytes) dact" where
  "hpkeSeal p recipientPublicKey plaintext =
     outD (hpke_sender p recipientPublicKey plaintext RESPONSE_KEY_INFO RESPONSE_KEY_LENGTH)"

definition aesGcmOpen :: "('y, 'z) sdk_scheme \<Rightarrow> bytes \<Rightarrow> bytes \<Rightarrow> bytes \<Rightarrow> bytes res" where
  "aesGcmOpen p key nonce ciphertext = aes_gcm_open (crypto_ops p) key nonce ciphertext"

section \<open>The transport\<close>

definition DEFAULT_KEY_CONFIG_TTL_MS :: int where
  "DEFAULT_KEY_CONFIG_TTL_MS = 5 * 60 * 1000"

record oblivious_transport =
  ot_relayBaseUrl :: string
  ot_walletServiceBaseUrl :: string
  ot_keyConfigTtlMs :: int

definition without_slash :: "string \<Rightarrow> string" where
  "without_slash s = (if s \<noteq> [] \<and> last s = CHR ''/'' then butlast s else s)"

definition new_transport :: "string \<Rightarrow> string \<Rightarrow> int option \<Rightarrow> oblivious_transport" where
  "new_transport relay wallet ttl =
     \<lparr>ot_relayBaseUrl = without_slash relay, ot_walletServiceBaseUrl = without_slash wallet,
      ot_keyConfigTtlMs = (case ttl of Some t \<Rightarrow> t | None \<Rightarrow> DEFAULT_KEY_CONFIG_TTL_MS)\<rparr>"

definition resolveBaseUrl :: "oblivious_transport \<Rightarrow> destination \<Rightarrow> string" where
  "resolveBaseUrl t dest = (case dest of Wallet_Service \<Rightarrow> ot_walletServiceBaseUrl t | Press_Service u \<Rightarrow> without_slash u)"

definition web_ok :: "web_response \<Rightarrow> bool" where
  "web_ok r \<longleftrightarrow> 200 \<le> ws_status r \<and> ws_status r \<le> 299"

definition fetch_get :: "('y, 'z) sdk_scheme \<Rightarrow> string \<Rightarrow> ('y, web_response) dact" where
  "fetch_get p url = outD (sdk_fetch p \<lparr>wq_method = ''GET'', wq_url = url, wq_headers = [], wq_body = None\<rparr>)"

text \<open>\<open>#getKeyConfig\<close>: what was fetched is kept for the time to live.\<close>

definition key_config_of :: "('y, 'z) sdk_scheme \<Rightarrow> js \<Rightarrow> int \<Rightarrow> key_config_entry res" where
  "key_config_of p json now =
     bindE (js_prop json ''kemId'') (\<lambda>kem.
     bindE (js_base64 (field json ''publicKey'')) (\<lambda>publicKey.
       Inr \<lparr>kg_kemId = kem, kg_kdfId = field json ''kdfId'', kg_aeadId = field json ''aeadId'',
            kg_publicKey = publicKey, kg_targetId = field json ''targetId'', kg_fetchedAt = now\<rparr>))"

definition remember_config :: "string \<Rightarrow> key_config_entry \<Rightarrow> ('y, unit) dact" where
  "remember_config baseUrl entry = (\<lambda>d. (Inr (), d\<lparr>dv_key_configs := (dv_key_configs d)(baseUrl \<mapsto> entry)\<rparr>))"

definition fetch_key_config :: "('y, 'z) sdk_scheme \<Rightarrow> string \<Rightarrow> ('y, key_config_entry) dact" where
  "fetch_key_config p baseUrl =
     bindA (fetch_get p (baseUrl @ ''/ohttp/key-config'')) (\<lambda>response.
     bindA (guardA (web_ok response) (JsError (''Error: ObliviousProtocolTransport: failed to fetch OHTTP key config from '' @
              baseUrl @ '' ('' @ int_str (ws_status response) @ '')''))) (\<lambda>_.
     bindA (liftA (json_parse p (ws_body response))) (\<lambda>json.
     bindA (freshD (sdk_now p)) (\<lambda>now.
     bindA (liftA (key_config_of p json now)) (\<lambda>entry.
     bindA (remember_config baseUrl entry) (\<lambda>_. retA entry))))))"

definition cached_config :: "string \<Rightarrow> ('y, key_config_entry option) dact" where
  "cached_config baseUrl = readA (\<lambda>d. Inr (dv_key_configs d baseUrl))"

definition transport_key_config :: "('y, 'z) sdk_scheme \<Rightarrow> oblivious_transport \<Rightarrow> string \<Rightarrow> ('y, key_config_entry) dact" where
  "transport_key_config p t baseUrl =
     bindA (cached_config baseUrl) (\<lambda>cached. case cached of
       None \<Rightarrow> fetch_key_config p baseUrl
     | Some entry \<Rightarrow>
         bindA (freshD (sdk_now p)) (\<lambda>now.
           if now - kg_fetchedAt entry < ot_keyConfigTtlMs t then retA entry else fetch_key_config p baseUrl))"

definition headers_js :: "(string \<times> string) list \<Rightarrow> js" where
  "headers_js hs = Obj (foldl (\<lambda>acc (k, v). put_key k (Str v) acc) [] hs)"

definition sealed_envelope :: "transport_request \<Rightarrow> js" where
  "sealed_envelope rq = Obj ([(''path'', Str (tq_path rq)), (''method'', Str (tq_method rq)),
      (''headers'', headers_js (case tq_headers rq of Some hs \<Rightarrow> hs | None \<Rightarrow> []))] @
      (case tq_body rq of Some b \<Rightarrow> [(''body'', Str (bytes_to_base64url b))] | None \<Rightarrow> []))"

definition sealed_relay_request :: "('y, 'z) sdk_scheme \<Rightarrow> oblivious_transport \<Rightarrow> js \<Rightarrow> bytes \<Rightarrow> bytes \<Rightarrow> web_request" where
  "sealed_relay_request p t targetId enc ciphertext =
     \<lparr>wq_method = ''POST'', wq_url = ot_relayBaseUrl t @ ''/ohttp/'' @ literal p targetId, wq_headers = [json_header],
      wq_body = Some (utf8_encode (json_stringify (Obj [(''enc'', Str (bytes_to_base64url enc)),
        (''ciphertext'', Str (bytes_to_base64url ciphertext))])))\<rparr>"

text \<open>The response: its envelope is opened and read.\<close>

definition open_response :: "('y, 'z) sdk_scheme \<Rightarrow> bytes \<Rightarrow> js \<Rightarrow> transport_response res" where
  "open_response p responseKey relayBody =
     bindE (bindE (js_prop relayBody ''nonce'') js_base64) (\<lambda>nonce.
     bindE (js_base64 (field relayBody ''ciphertext'')) (\<lambda>ciphertext.
     bindE (aesGcmOpen p responseKey nonce ciphertext) (\<lambda>plaintext.
     bindE (json_parse p plaintext) (\<lambda>env.
     bindE (js_prop env ''status'') (\<lambda>st.
     bindE (if truthy (field env ''body'') then js_base64 (field env ''body'') else Inr []) (\<lambda>body.
       Inr \<lparr>tr_status = st, tr_headers = nullish (field env ''headers'') (Obj []), tr_body = body\<rparr>))))))"

definition direct_request :: "('y, 'z) sdk_scheme \<Rightarrow> string \<Rightarrow> transport_request \<Rightarrow> ('y, transport_response) dact" where
  "direct_request p baseUrl rq =
     bindA (outD (sdk_fetch p \<lparr>wq_method = tq_method rq, wq_url = baseUrl @ tq_path rq,
              wq_headers = (case tq_headers rq of Some hs \<Rightarrow> hs | None \<Rightarrow> []), wq_body = tq_body rq\<rparr>)) (\<lambda>response.
       retA \<lparr>tr_status = Num (Fin (ws_status response)), tr_headers = ws_headers response, tr_body = ws_body response\<rparr>)"

definition sealed_request ::
    "('y, 'z) sdk_scheme \<Rightarrow> oblivious_transport \<Rightarrow> string \<Rightarrow> transport_request \<Rightarrow> ('y, transport_response) dact" where
  "sealed_request p t baseUrl rq =
     bindA (transport_key_config p t baseUrl) (\<lambda>entry.
     bindA (hpkeSeal p (kg_publicKey entry) (utf8_encode (json_stringify (sealed_envelope rq)))) (\<lambda>(enc, ciphertext, responseKey).
     bindA (outD (sdk_fetch p (sealed_relay_request p t (kg_targetId entry) enc ciphertext))) (\<lambda>relayResponse.
     bindA (guardA (web_ok relayResponse)
              (JsError (''Error: ObliviousProtocolTransport: relay returned '' @ int_str (ws_status relayResponse)))) (\<lambda>_.
     bindA (liftA (json_parse p (ws_body relayResponse))) (\<lambda>relayBody.
       liftA (open_response p responseKey relayBody))))))"

definition oblivious_request :: "('y, 'z) sdk_scheme \<Rightarrow> oblivious_transport \<Rightarrow> 'y transport" where
  "oblivious_request p t dest rq =
     (let baseUrl = resolveBaseUrl t dest in
      if tq_bypass rq then direct_request p baseUrl rq else sealed_request p t baseUrl rq)"

end
