(* ===== verification/App_Messaging.thy ===== *)
theory App_Messaging
  imports Sdk_Base Js_Double
begin

text \<open>
  Messages of the app library (\<open>app-sdk/src/messaging\<close>): the envelope and its signatures, the copies
  sealed for every sub-card of the recipient, what a device does with a copy it receives, the root of an
  edit chain, the UUID pools at the wallet service, and the relay's delivery channels.
\<close>

section \<open>Envelopes\<close>

record message_options =
  mo_type :: string
  mo_content :: js
  mo_recipients :: "string list"
  mo_senders :: "string list"
  mo_protocolVersion :: string
  mo_timestamp :: "string option"
  mo_editOf :: "string option"
  mo_retracts :: "string option"
  mo_forwards :: "string option"
  mo_inReplyTo :: "string option"

definition optional_text :: "string \<Rightarrow> string option \<Rightarrow> (string \<times> js) list" where
  "optional_text k v = (case v of Some s \<Rightarrow> [(k, Str s)] | None \<Rightarrow> [])"

definition exclusive_fields :: "message_options \<Rightarrow> nat" where
  "exclusive_fields o' = length (filter (\<lambda>v. v \<noteq> None) [mo_editOf o', mo_retracts o', mo_forwards o'])"

definition check_message_options :: "message_options \<Rightarrow> unit res" where
  "check_message_options o' =
     (if 1 < exclusive_fields o' then
        Inl (JsError ''Error: buildMessagePayload: edit_of, retracts, and forwards are mutually exclusive; at most one may be set.'')
      else if mo_type o' = ''edit'' \<and> mo_editOf o' = None then
        Inl (JsError ''Error: buildMessagePayload: edit_of is required for type edit.'')
      else if mo_type o' = ''edit'' \<and> mo_retracts o' \<noteq> None then
        Inl (JsError ''Error: buildMessagePayload: type edit with retracts set is invalid'')
      else if mo_type o' = ''reply'' \<and> mo_inReplyTo o' = None then
        Inl (JsError ''Error: buildMessagePayload: in_reply_to is required for type reply.'')
      else Inr ())"

definition message_payload :: "message_options \<Rightarrow> string \<Rightarrow> js" where
  "message_payload o' timestamp = Obj
     ([(''type'', Str (mo_type o')), (''content'', mo_content o'), (''recipients'', Arr (map Str (mo_recipients o'))),
       (''senders'', Arr (map Str (mo_senders o'))), (''protocol_version'', Str (mo_protocolVersion o')),
       (''timestamp'', Str timestamp)] @
      optional_text ''edit_of'' (mo_editOf o') @ optional_text ''retracts'' (mo_retracts o') @
      optional_text ''forwards'' (mo_forwards o') @ optional_text ''in_reply_to'' (mo_inReplyTo o'))"

definition buildMessagePayload :: "('y, 'z) sdk_scheme \<Rightarrow> message_options \<Rightarrow> ('y, js) dact" where
  "buildMessagePayload p o' =
     bindA (liftA (check_message_options o')) (\<lambda>_.
     bindA (given_or_now p (mo_timestamp o')) (\<lambda>t. retA (message_payload o' t)))"

text \<open>A signer: its public key and its signing function.\<close>

type_synonym 'y signer = "bytes \<times> (bytes \<Rightarrow> ('y, bytes) dact)"

definition signature_js :: "bytes \<Rightarrow> bytes \<Rightarrow> js" where
  "signature_js publicKey signature =
     Obj [(''public_key'', Str (bytes_to_base64url publicKey)), (''signature'', Str (bytes_to_base64url signature))]"

definition message_envelope :: "js \<Rightarrow> js list \<Rightarrow> js" where
  "message_envelope payload signatures = Obj [(''payload'', payload), (''signatures'', Arr signatures)]"

definition signMessageEnvelope :: "js \<Rightarrow> 'y signer list \<Rightarrow> ('y, js) dact" where
  "signMessageEnvelope payload signers =
     (if signers = [] then throwA (JsError ''Error: signMessageEnvelope: at least one signer is required.'')
      else
        bindA (liftA (canonicalize payload)) (\<lambda>canonicalPayload.
        bindA (mapA (\<lambda>(publicKey, sign). bindA (sign canonicalPayload) (\<lambda>s. retA (signature_js publicKey s))) signers) (\<lambda>signatures.
          retA (message_envelope payload signatures))))"

definition assembleCardMessageEnvelope :: "('y, 'z) sdk_scheme \<Rightarrow> message_options \<Rightarrow> 'y signer \<Rightarrow> ('y, js) dact" where
  "assembleCardMessageEnvelope p o' signer =
     bindA (buildMessagePayload p o') (\<lambda>payload. signMessageEnvelope payload [signer])"

definition signMessageEnvelopeSync :: "('y, 'z) sdk_scheme \<Rightarrow> js \<Rightarrow> (bytes \<times> bytes) list \<Rightarrow> js res" where
  "signMessageEnvelopeSync p payload keypairs =
     bindE (canonicalize payload) (\<lambda>canonicalPayload.
       Inr (message_envelope payload
         (map (\<lambda>(publicKey, secretKey). signature_js publicKey (ml_dsa44_sign p canonicalPayload secretKey)) keypairs)))"

definition messageId :: "('e) env_scheme \<Rightarrow> js \<Rightarrow> string res" where
  "messageId e payload = bindE (canonicalize payload) (\<lambda>bs. Inr (keccak256 e bs))"

section \<open>Copies for the sub-cards of a recipient\<close>

definition FANOUT_KEY_INFO :: string where
  "FANOUT_KEY_INFO = ''card-protocol-message-fanout-v1''"

record sub_card_recipient =
  sb_subCardHash :: string
  sb_mlKemPublicKey :: bytes

record routing_envelope =
  re_to :: string
  re_subcard_hash :: string
  re_payload :: string

text \<open>\<open>setUint32\<close> and \<open>getUint32\<close>, most significant byte first.\<close>

definition be32 :: "nat \<Rightarrow> bytes" where
  "be32 n = map (\<lambda>i. of_nat (n div 256 ^ i)) [3, 2, 1, 0]"

definition be32_value :: "bytes \<Rightarrow> nat" where
  "be32_value bs = foldl (\<lambda>n b. 256 * n + unat b) 0 bs"

definition fanout_blob :: "bytes \<Rightarrow> bytes \<Rightarrow> bytes \<Rightarrow> bytes" where
  "fanout_blob cipherText nonce ciphertext = be32 (length cipherText) @ cipherText @ nonce @ ciphertext"

definition seal_copy :: "('y, 'z) sdk_scheme \<Rightarrow> string \<Rightarrow> bytes \<Rightarrow> sub_card_recipient \<Rightarrow> ('y, routing_envelope) dact" where
  "seal_copy p recipient plaintext subCard =
     bindA (outD (kem_encapsulate p (sb_mlKemPublicKey subCard))) (\<lambda>(cipherText, sharedSecret).
     bindA (freshD (sdk_random p 12)) (\<lambda>nonce.
       retA \<lparr>re_to = recipient, re_subcard_hash = sb_subCardHash subCard,
             re_payload = bytes_to_base64url (fanout_blob cipherText nonce
               (aes_gcm_seal p (hkdfSha3256 p sharedSecret FANOUT_KEY_INFO) nonce plaintext))\<rparr>))"

definition fanOutMessageToSubCards ::
    "('y, 'z) sdk_scheme \<Rightarrow> string \<Rightarrow> js \<Rightarrow> sub_card_recipient list \<Rightarrow> ('y, routing_envelope list) dact" where
  "fanOutMessageToSubCards p recipient env subCards =
     (if subCards = []
      then throwA (JsError ''Error: fanOutMessageToSubCards: recipient has no registered sub-cards to deliver to.'')
      else mapA (seal_copy p recipient (utf8_encode (json_stringify env))) subCards)"

definition open_blob :: "('y, 'z) sdk_scheme \<Rightarrow> bytes \<Rightarrow> bytes \<Rightarrow> js res" where
  "open_blob p secretKey blob =
     (let cipherTextEnd = 4 + be32_value (take 4 blob); nonceEnd = cipherTextEnd + 12 in
      if length blob < nonceEnd then
        Inl (JsError ''Error: decryptRoutingEnvelope: payload truncated (declared KEM ciphertext length exceeds blob).'')
      else
        bindE (kem_decapsulate p (drop 4 (take cipherTextEnd blob)) secretKey) (\<lambda>sharedSecret.
        bindE (aes_gcm_open (crypto_ops p) (hkdfSha3256 p sharedSecret FANOUT_KEY_INFO)
                 (drop cipherTextEnd (take nonceEnd blob)) (drop nonceEnd blob)) (json_parse p)))"

definition decryptRoutingEnvelope :: "('y, 'z) sdk_scheme \<Rightarrow> routing_envelope \<Rightarrow> bytes \<Rightarrow> js res" where
  "decryptRoutingEnvelope p re secretKey =
     (let blob = base64url_to_bytes (re_payload re) in
      if length blob < 4
      then Inl (JsError ''Error: decryptRoutingEnvelope: payload too short to contain a length prefix.'')
      else open_blob p secretKey blob)"

section \<open>Received copies\<close>

datatype inbound_result =
    Inbound_Rejected string string
  | Inbound_Message js string envelope_result bool

definition history_key :: "string option \<Rightarrow> string \<Rightarrow> string" where
  "history_key prefix i = (case prefix of Some s \<Rightarrow> s | None \<Rightarrow> ''message-history:'') @ i"

definition any_signature_valid :: "envelope_result \<Rightarrow> bool" where
  "any_signature_valid r \<longleftrightarrow> list_ex (\<lambda>s. sr_signature_valid s = Some True) (er_signatures r)"

text \<open>The last part: an accepted message is stored under its identifier unless it is there already.\<close>

definition store_message ::
    "('y, 'z) sdk_scheme \<Rightarrow> string option \<Rightarrow> js \<Rightarrow> envelope_result \<Rightarrow> ('y, inbound_result) dact" where
  "store_message p prefix env verification =
     bindA (liftA (bindE (js_prop env ''payload'') (messageId p))) (\<lambda>i.
     bindA (storage_get p (history_key prefix i)) (\<lambda>existing.
     bindA (if existing = None then storage_set p (history_key prefix i) (utf8_encode (json_stringify env)) else retA ()) (\<lambda>_.
       retA (Inbound_Message env i verification (existing \<noteq> None)))))"

definition handleInboundRoutingEnvelope ::
    "('y, 'z) sdk_scheme \<Rightarrow> 'y card_verifier \<Rightarrow> string option \<Rightarrow> routing_envelope \<Rightarrow> bytes \<Rightarrow> ('y, inbound_result) dact" where
  "handleInboundRoutingEnvelope p cv prefix re secretKey =
     (case decryptRoutingEnvelope p re secretKey of
        Inl err \<Rightarrow> retA (Inbound_Rejected ''decryption_failed'' (''failed to decrypt routing envelope: '' @ exn_string err))
      | Inr env \<Rightarrow>
          bindA (caught (verify_envelope_at p cv env)) (\<lambda>r. case r of
            Inl err \<Rightarrow> retA (Inbound_Rejected ''signature_invalid'' (''verifyEnvelope threw: '' @ exn_string err))
          | Inr verification \<Rightarrow>
              if \<not> any_signature_valid verification
              then retA (Inbound_Rejected ''no_valid_signature''
                     ''no signature in the recovered envelope verified successfully - envelope must not be displayed.'')
              else store_message p prefix env verification))"

definition editTarget :: "js \<Rightarrow> js res" where
  "editTarget payload = (if field payload ''edit_of'' = Undef
     then Inl (JsError ''Error: editTarget: payload.edit_of is required for type edit.'') else Inr (field payload ''edit_of''))"

definition retractionTarget :: "js \<Rightarrow> js" where
  "retractionTarget payload = field payload ''retracts''"

definition reactionTarget :: "js \<Rightarrow> js res" where
  "reactionTarget payload = js_prop (field payload ''content'') ''target''"

text \<open>
  \<open>resolveEditRoot\<close>: follows \<open>edit_of\<close> through the caller's store of messages; \<open>None\<close> is a loop that does
  not end.
\<close>

partial_function (option) resolveEditRoot :: "('e) env_scheme \<Rightarrow> (js \<Rightarrow> js option res) \<Rightarrow> js \<Rightarrow> js res option" where
  "resolveEditRoot e resolvePrior current =
     (case messageId e current of
        Inl err \<Rightarrow> Some (Inl err)
      | Inr currentId \<Rightarrow>
          if field current ''edit_of'' = Undef then Some (Inr (Str currentId))
          else (case resolvePrior (field current ''edit_of'') of
              Inl err \<Rightarrow> Some (Inl err)
            | Inr None \<Rightarrow> Some (Inr (field current ''edit_of''))
            | Inr (Some prior) \<Rightarrow> resolveEditRoot e resolvePrior prior))"

section \<open>UUID pools at the wallet service\<close>

record uuid_request =
  ur_cardHash :: string
  ur_subCardHash :: string
  ur_uuids :: "string list"
  ur_subCardPublicKey :: string

definition fresh_nonce :: "('y, 'z) sdk_scheme \<Rightarrow> ('y, string) dact" where
  "fresh_nonce p = bindA (freshD (sdk_random p 32)) (\<lambda>bs. retA (bytes_to_base64url bs))"

definition uuid_registration_payload :: "uuid_request \<Rightarrow> string \<Rightarrow> string \<Rightarrow> js" where
  "uuid_registration_payload r timestamp nonce = Obj
     [(''card_hash'', Str (ur_cardHash r)), (''subcard_hash'', Str (ur_subCardHash r)),
      (''uuids'', Arr (map Str (ur_uuids r))), (''timestamp'', Str timestamp), (''nonce'', Str nonce)]"

definition subcard_path :: "string \<Rightarrow> string \<Rightarrow> string" where
  "subcard_path cardHash subCardHash = ''/cards/'' @ cardHash @ ''/subcards/'' @ subCardHash"

definition registerCardUuids ::
    "('y, 'z) sdk_scheme \<Rightarrow> 'y transport \<Rightarrow> (bytes \<Rightarrow> ('y, bytes) dact) \<Rightarrow> uuid_request \<Rightarrow> ('y, bool) dact" where
  "registerCardUuids p tr sign r =
     bindA (nowIso p) (\<lambda>timestamp.
     bindA (fresh_nonce p) (\<lambda>nonce.
     let payload = uuid_registration_payload r timestamp nonce in
     bindA (liftA (canonicalize payload)) (\<lambda>bs.
     bindA (sign bs) (\<lambda>signature.
     bindA (tr Wallet_Service (json_request ''POST'' (subcard_path (ur_cardHash r) (ur_subCardHash r) @ ''/uuids'')
              (Obj [(''payload'', payload), (''signature'', Str (bytes_to_base64url signature)),
                    (''public_key'', Str (ur_subCardPublicKey r))]))) (\<lambda>response.
       retA (status_success p (tr_status response)))))))"

text \<open>
  \<open>registerMultipleCardsUuids\<close>: one session for each card, with a delay between two cards. The factory
  makes a transport for every card; \<open>delay\<close> waits.
\<close>

definition registered_card ::
    "('y, 'z) sdk_scheme \<Rightarrow> ('y, 'y transport) dact \<Rightarrow> uuid_request \<times> (bytes \<Rightarrow> ('y, bytes) dact) \<Rightarrow> ('y, string \<times> bool) dact" where
  "registered_card p factory c =
     bindA factory (\<lambda>tr.
     bindA (registerCardUuids p tr (snd c) (fst c)) (\<lambda>registered. retA (ur_cardHash (fst c), registered)))"

fun registerMultipleCardsUuids ::
    "('y, 'z) sdk_scheme \<Rightarrow> ('y, unit) dact \<Rightarrow> ('y, 'y transport) dact \<Rightarrow>
      (uuid_request \<times> (bytes \<Rightarrow> ('y, bytes) dact)) list \<Rightarrow> ('y, (string \<times> bool) list) dact" where
  "registerMultipleCardsUuids p delay factory [] = retA []"
| "registerMultipleCardsUuids p delay factory [c] = bindA (registered_card p factory c) (\<lambda>r. retA [r])"
| "registerMultipleCardsUuids p delay factory (c # d # cs) =
     bindA (registered_card p factory c) (\<lambda>r.
     bindA delay (\<lambda>_.
     bindA (registerMultipleCardsUuids p delay factory (d # cs)) (\<lambda>rs. retA (r # rs))))"

definition uuid_deregistration_payload :: "string \<Rightarrow> string \<Rightarrow> string \<Rightarrow> string \<Rightarrow> js" where
  "uuid_deregistration_payload cardHash subCardHash timestamp nonce = Obj
     [(''card_hash'', Str cardHash), (''subcard_hash'', Str subCardHash), (''timestamp'', Str timestamp), (''nonce'', Str nonce)]"

definition deregisterCardUuids ::
    "('y, 'z) sdk_scheme \<Rightarrow> 'y transport \<Rightarrow> (bytes \<Rightarrow> ('y, bytes) dact) \<Rightarrow> string \<Rightarrow> string \<Rightarrow> string option \<Rightarrow> ('y, bool) dact" where
  "deregisterCardUuids p tr sign cardHash subCardHash timestamp0 =
     bindA (given_or_now p timestamp0) (\<lambda>timestamp.
     bindA (fresh_nonce p) (\<lambda>nonce.
     let payload = uuid_deregistration_payload cardHash subCardHash timestamp nonce in
     bindA (liftA (canonicalize payload)) (\<lambda>bs.
     bindA (sign bs) (\<lambda>signature.
     bindA (tr Wallet_Service (json_request ''DELETE'' (subcard_path cardHash subCardHash)
              (Obj [(''payload'', payload), (''signature'', Str (bytes_to_base64url signature))]))) (\<lambda>response.
       retA (status_success p (tr_status response)))))))"

section \<open>Delivery\<close>

text \<open>One event of the stream or of the socket: what is handed to \<open>onDelivered\<close>, if anything.\<close>

definition delivered_event :: "('y, 'z) sdk_scheme \<Rightarrow> bytes \<Rightarrow> (string \<times> string) option res" where
  "delivered_event p data =
     (case json_parse p data of
        Inl err \<Rightarrow> Inr None
      | Inr event \<Rightarrow>
          bindE (js_prop event ''uuid'') (\<lambda>u. Inr (case (u, field event ''blob'') of
            (Str uuid, Str blob) \<Rightarrow> Some (uuid, blob) | _ \<Rightarrow> None)))"

text \<open>The relay's plain interface: method, path, headers and body to a status and a body.\<close>

type_synonym 'y relay_fetch = "string \<Rightarrow> string \<Rightarrow> (string \<times> string) list \<Rightarrow> js option \<Rightarrow> ('y, int \<times> js res) dact"

definition device_header :: "string \<Rightarrow> string \<times> string" where
  "device_header credential = (''authorization'', ''Bearer '' @ credential)"

definition http_success :: "int \<Rightarrow> bool" where
  "http_success code \<longleftrightarrow> 200 \<le> code \<and> code < 300"

definition fetchPending :: "'y relay_fetch \<Rightarrow> string \<Rightarrow> ('y, js) dact" where
  "fetchPending relayFetch credential =
     bindA (relayFetch ''GET'' ''/pending'' [device_header credential] None) (\<lambda>(code, json).
     bindA (guardA (http_success code) (JsError (''Error: fetchPending: GET /pending returned status '' @ int_str code))) (\<lambda>_.
     bindA (liftA json) (\<lambda>body. liftA (js_prop body ''messages''))))"

definition ack :: "'y relay_fetch \<Rightarrow> string \<Rightarrow> string list \<Rightarrow> ('y, unit) dact" where
  "ack relayFetch credential uuids =
     (if uuids = [] then retA ()
      else
        bindA (relayFetch ''POST'' ''/ack'' [device_header credential, json_header] (Some (Obj [(''uuids'', Arr (map Str uuids))]))) (\<lambda>(code, json).
        guardA (http_success code) (JsError (''Error: ack: POST /ack returned status '' @ int_str code))))"

section \<open>Replenishment\<close>

text \<open>
  \<open>ReplenishmentScheduler\<close>: the pending entries by sub-card, and the timers that are running, each with
  the sub-card it was set for. Every timer has an identifier of its own.
\<close>

record scheduler =
  sh_threshold :: int
  sh_minDelayMs :: int
  sh_maxDelayMs :: int
  sh_pending :: "string \<Rightarrow> nat option"
  sh_timers :: "(nat \<times> string \<times> rat) list"
  sh_next :: nat

definition new_scheduler :: "int option \<Rightarrow> int \<Rightarrow> int \<Rightarrow> scheduler" where
  "new_scheduler threshold minDelay maxDelay =
     \<lparr>sh_threshold = (case threshold of Some t \<Rightarrow> t | None \<Rightarrow> 3), sh_minDelayMs = minDelay, sh_maxDelayMs = maxDelay,
      sh_pending = (\<lambda>_. None), sh_timers = [], sh_next = 0\<rparr>"

text \<open>\<open>random\<close> is what \<open>Math.random()\<close> gives; the arithmetic is that of rational numbers.\<close>

definition replenish_delay :: "scheduler \<Rightarrow> rat \<Rightarrow> rat" where
  "replenish_delay s random = of_int (sh_minDelayMs s) + random * (of_int (sh_maxDelayMs s) - of_int (sh_minDelayMs s))"

definition reportPoolStatus :: "string \<Rightarrow> int \<Rightarrow> rat \<Rightarrow> scheduler \<Rightarrow> scheduler" where
  "reportPoolStatus subCardHash remaining random s =
     (if sh_threshold s < remaining then s
      else if sh_pending s subCardHash \<noteq> None then s
      else s\<lparr>sh_timers := sh_timers s @ [(sh_next s, subCardHash, replenish_delay s random)],
             sh_pending := (sh_pending s)(subCardHash \<mapsto> sh_next s), sh_next := Suc (sh_next s)\<rparr>)"

definition isScheduled :: "string \<Rightarrow> scheduler \<Rightarrow> bool" where
  "isScheduled subCardHash s \<longleftrightarrow> sh_pending s subCardHash \<noteq> None"

definition cancel_replenishment :: "string \<Rightarrow> scheduler \<Rightarrow> scheduler" where
  "cancel_replenishment subCardHash s =
     (case sh_pending s subCardHash of
        None \<Rightarrow> s
      | Some i \<Rightarrow> s\<lparr>sh_timers := filter (\<lambda>(j, r). j \<noteq> i) (sh_timers s), sh_pending := (sh_pending s)(subCardHash := None)\<rparr>)"

definition cancelAll :: "string list \<Rightarrow> scheduler \<Rightarrow> scheduler" where
  "cancelAll keys s = fold cancel_replenishment keys s"

text \<open>A timer runs off: its entry is forgotten and the sub-card is replenished.\<close>

definition timer_fires :: "nat \<Rightarrow> scheduler \<Rightarrow> (string \<times> scheduler) option" where
  "timer_fires i s =
     (case map_of (sh_timers s) i of
        None \<Rightarrow> None
      | Some (subCardHash, due) \<Rightarrow> Some (subCardHash,
          s\<lparr>sh_timers := filter (\<lambda>(j, r). j \<noteq> i) (sh_timers s), sh_pending := (sh_pending s)(subCardHash := None)\<rparr>))"

end
