(* ===== verification/App_Cards.thy ===== *)
theory App_Cards
  imports Sdk_Base Policy_Match
begin

text \<open>
  Offers, sub-card requests and the Matrix helpers of the app library (\<open>app-sdk/src/offers\<close>,
  \<open>src/subcards\<close>, \<open>src/matrix\<close>). Offers and sub-card documents are JSON values, as they are signed.
\<close>

section \<open>Targeted offers\<close>

record past_key =
  pq_pubkey :: bytes
  pq_validFrom :: string
  pq_rotatedAt :: string

record targeted_options =
  to_issuerSigningKeyId :: string
  to_policyId :: string
  to_issuerCard :: string
  to_pressCard :: string
  to_ancestryPubkeys :: "bytes list"
  to_fieldValues :: "(string \<times> js) list"
  to_pastKeys :: "past_key list option"
  to_issuedAt :: "string option"

definition RESERVED_FIELD_NAMES :: "string list" where
  "RESERVED_FIELD_NAMES = [''policy_id'', ''issuer_card'', ''press_card'', ''issued_at'', ''ancestry_pubkeys'',
     ''past_keys'', ''issuer_signature'', ''recipient_pubkey'', ''holder_signature'', ''press_signature'',
     ''protocol_version'', ''supersedes'', ''supersession_note'']"

definition past_key_js :: "past_key \<Rightarrow> js" where
  "past_key_js k = Obj [(''pubkey'', Str (bytes_to_base64url (pq_pubkey k))), (''valid_from'', Str (pq_validFrom k)),
     (''rotated_at'', Str (pq_rotatedAt k))]"

text \<open>\<open>{ ...fieldValues, policy_id, ... }\<close>.\<close>

definition unsigned_targeted_offer :: "targeted_options \<Rightarrow> string \<Rightarrow> js" where
  "unsigned_targeted_offer o' issuedAt = js_spread (Obj (to_fieldValues o'))
     ([(''policy_id'', Str (to_policyId o')), (''issuer_card'', Str (to_issuerCard o')),
       (''press_card'', Str (to_pressCard o')), (''issued_at'', Str issuedAt),
       (''ancestry_pubkeys'', Arr (map (\<lambda>k. Str (bytes_to_base64url k)) (to_ancestryPubkeys o')))] @
      (case to_pastKeys o' of Some ks \<Rightarrow> [(''past_keys'', Arr (map past_key_js ks))] | None \<Rightarrow> []))"

definition reserved_field :: "(string \<times> js) list \<Rightarrow> string option" where
  "reserved_field kvs = find (\<lambda>k. k \<in> set RESERVED_FIELD_NAMES) (map fst kvs)"

definition assembleAndSignTargetedOffer :: "('y, 'z) sdk_scheme \<Rightarrow> targeted_options \<Rightarrow> ('y, js) dact" where
  "assembleAndSignTargetedOffer p o' =
     (case reserved_field (to_fieldValues o') of
        Some k \<Rightarrow> throwA (JsError (''Error: assembleAndSignTargetedOffer: fieldValues must not use protocol-reserved field name '' @ k))
      | None \<Rightarrow>
          bindA (given_or_now p (to_issuedAt o')) (\<lambda>issuedAt.
          let unsigned = unsigned_targeted_offer o' issuedAt in
          bindA (liftA (canonicalize unsigned)) (\<lambda>bs.
          bindA (outD (key_sign p (to_issuerSigningKeyId o') bs)) (\<lambda>signature.
            retA (js_spread unsigned [(''issuer_signature'', Str (bytes_to_base64url signature))])))))"

datatype forward_result = Forwarded js js | Not_Forwarded string

text \<open>
  \<open>forwardCountersignedTargetedOffer\<close>: only the two fields of the recipient are taken from what came
  back.
\<close>

definition press_answer :: "('y, 'z) sdk_scheme \<Rightarrow> transport_response \<Rightarrow> (js \<times> js) res" where
  "press_answer p response =
     bindE (json_parse p (tr_body response)) (\<lambda>body.
     bindE (js_prop body ''card_cid'') (\<lambda>cid. Inr (cid, field body ''scip'')))"

definition finalize_outcome :: "('y, 'z) sdk_scheme \<Rightarrow> transport_response \<Rightarrow> ('y, forward_result) dact" where
  "finalize_outcome p response =
     (if status_refused p (tr_status response)
      then retA (Not_Forwarded (''press rejected the finalization: status '' @ literal p (tr_status response)))
      else bindA (liftA (press_answer p response)) (\<lambda>(cid, scip). retA (Forwarded cid scip)))"

definition forwardCountersignedTargetedOffer ::
    "('y, 'z) sdk_scheme \<Rightarrow> 'y transport \<Rightarrow> string \<Rightarrow> js \<Rightarrow> string \<Rightarrow> string \<Rightarrow> ('y, forward_result) dact" where
  "forwardCountersignedTargetedOffer p tr pressBaseUrl originalOffer recipient_pubkey holder_signature =
     (let recipientPubkey = base64url_to_bytes recipient_pubkey;
          expected = js_spread originalOffer [(''recipient_pubkey'', Str recipient_pubkey)] in
      bindA (liftA (bindE (canonicalize expected) (\<lambda>bs. mlDsa44Verify p recipientPubkey bs (base64url_to_bytes holder_signature)))) (\<lambda>valid.
        if \<not> valid
        then retA (Not_Forwarded ''holder_signature does not verify against recipient_pubkey and the originally issued offer.'')
        else
          bindA (tr (Press_Service pressBaseUrl) (json_request ''POST'' ''/issue/finalize''
                   (js_spread expected [(''holder_signature'', Str holder_signature)]))) (\<lambda>response.
            finalize_outcome p response)))"

section \<open>Open offers\<close>

record open_options =
  oo_issuerSigningKeyId :: string
  oo_policyId :: string
  oo_pressCard :: string
  oo_issuerCard :: string
  oo_issuerPubkey :: bytes
  oo_maxAcceptances :: "js_number option"
  oo_expiresAt :: "string option"
  oo_displayMessage :: string
  oo_redirectUrl :: string
  oo_proposedFields :: "(string \<times> js) list"
  oo_acknowledgeUnconstrained :: bool

text \<open>A text that is left out when it is empty or missing.\<close>

definition text_if_given :: "string \<Rightarrow> string \<Rightarrow> (string \<times> js) list" where
  "text_if_given k s = (if s = [] then [] else [(k, Str s)])"

definition or_null :: "('a \<Rightarrow> js) \<Rightarrow> 'a option \<Rightarrow> js" where
  "or_null f v = (case v of Some a \<Rightarrow> f a | None \<Rightarrow> Null)"

definition unsigned_open_offer :: "open_options \<Rightarrow> js" where
  "unsigned_open_offer o' = Obj
     ([(''offer_type'', Str ''open''), (''policy_id'', Str (oo_policyId o')), (''press_card'', Str (oo_pressCard o')),
       (''issuer_card'', Str (oo_issuerCard o')), (''issuer_pubkey'', Str (bytes_to_base64url (oo_issuerPubkey o'))),
       (''max_acceptances'', or_null Num (oo_maxAcceptances o')), (''expires_at'', or_null Str (oo_expiresAt o'))] @
      text_if_given ''display_message'' (oo_displayMessage o') @ text_if_given ''redirect_url'' (oo_redirectUrl o') @
      [(''proposed_fields'', Obj (oo_proposedFields o'))])"

definition check_expiry :: "('y, 'z) sdk_scheme \<Rightarrow> string option \<Rightarrow> ('y, unit) dact" where
  "check_expiry p expiresAt =
     (case expiresAt of
        None \<Rightarrow> retA ()
      | Some s \<Rightarrow> bindA (freshD (sdk_now p)) (\<lambda>now.
          guardA (\<not> num_le (date_ms p (Str s)) now)
            (JsError ''Error: assembleAndSignOpenOffer: expires_at must be in the future.'')))"

record open_offer_result =
  oo_offer :: js
  oo_offerId :: string
  oo_claimLink :: string

definition assembleAndSignOpenOffer :: "('y, 'z) sdk_scheme \<Rightarrow> open_options \<Rightarrow> ('y, open_offer_result) dact" where
  "assembleAndSignOpenOffer p o' =
     bindA (guardA (oo_maxAcceptances o' \<noteq> None \<or> oo_expiresAt o' \<noteq> None \<or> oo_acknowledgeUnconstrained o')
       (JsError ''Error: assembleAndSignOpenOffer: an offer with both max_acceptances and expires_at unconstrained requires acknowledgeUnconstrained: true.'')) (\<lambda>_.
     bindA (check_expiry p (oo_expiresAt o')) (\<lambda>_.
     bindA (liftA (canonicalize (unsigned_open_offer o'))) (\<lambda>bs.
     bindA (outD (key_sign p (oo_issuerSigningKeyId o') bs)) (\<lambda>signature.
     let offer = js_spread (unsigned_open_offer o') [(''issuer_signature'', Str (bytes_to_base64url signature))] in
     bindA (liftA (canonicalize offer)) (\<lambda>canonicalOfferBytes.
       retA \<lparr>oo_offer = offer, oo_offerId = keccak256 p canonicalOfferBytes,
             oo_claimLink = ''mcard://claim?o='' @ bytes_to_base64url canonicalOfferBytes\<rparr>)))))"

section \<open>Sub-card requests\<close>

text \<open>An app's own card: pointer, public key, and its signing function.\<close>

record 'y app_identity =
  ai_cardPointer :: string
  ai_publicKey :: bytes
  ai_sign :: "bytes \<Rightarrow> ('y, bytes) dact"

record subcard_options =
  so_subCardKeyId :: string
  so_holderPrimaryCard :: string
  so_holderPrimaryCardPubkey :: bytes
  so_capabilities :: "string list"
  so_attestationLevel :: string
  so_attestationProof :: "bytes option"
  so_validUntil :: string
  so_issuedAt :: "string option"

definition subcard_fields :: "'y app_identity \<Rightarrow> subcard_options \<Rightarrow> bytes \<Rightarrow> string \<Rightarrow> js" where
  "subcard_fields app o' subCardPublicKey issuedAt = Obj
     ([(''holder_primary_card'', Str (so_holderPrimaryCard o')),
       (''holder_primary_card_pubkey'', Str (bytes_to_base64url (so_holderPrimaryCardPubkey o'))),
       (''app_card'', Str (ai_cardPointer app)), (''app_card_pubkey'', Str (bytes_to_base64url (ai_publicKey app))),
       (''capabilities'', Arr (map Str (so_capabilities o'))),
       (''recipient_pubkey'', Str (bytes_to_base64url subCardPublicKey)), (''issued_at'', Str issuedAt),
       (''attestation_level'', Str (so_attestationLevel o'))] @
      text_if_given ''valid_until'' (so_validUntil o') @
      (case so_attestationProof o' of Some b \<Rightarrow> [(''attestation_proof'', Str (bytes_to_base64url b))] | None \<Rightarrow> []))"

text \<open>The public key of the new sub-card and the document the app has signed.\<close>

definition requestSubCard ::
    "('y, 'z) sdk_scheme \<Rightarrow> 'y app_identity \<Rightarrow> subcard_options \<Rightarrow> ('y, bytes \<times> js) dact" where
  "requestSubCard p app o' =
     bindA (guardA (\<not> (so_attestationLevel o' = ''T2'' \<and> so_attestationProof o' = None))
       (JsError ''Error: requestSubCard: attestationProof is required when attestationLevel is T2.'')) (\<lambda>_.
     bindA (outD (key_generate p (so_subCardKeyId o'))) (\<lambda>subCardPublicKey.
     bindA (given_or_now p (so_issuedAt o')) (\<lambda>issuedAt.
     let unsigned = subcard_fields app o' subCardPublicKey issuedAt in
     bindA (liftA (canonicalize unsigned)) (\<lambda>bs.
     bindA (ai_sign app bs) (\<lambda>appSignature.
       retA (subCardPublicKey, js_spread unsigned [(''app_signature'', Str (bytes_to_base64url appSignature))]))))))"

definition signWithSubCard :: "('y, 'z) sdk_scheme \<Rightarrow> string \<Rightarrow> bytes \<Rightarrow> ('y, bytes) dact" where
  "signWithSubCard p keyId message = outD (key_sign p keyId message)"

text \<open>The press takes the holder's signature beside the document.\<close>

definition toPressRequestBody :: "js \<Rightarrow> js" where
  "toPressRequestBody document = Obj [(''sub_card_document'', js_omit ''holder_signature'' document),
     (''holder_signature'', field document ''holder_signature'')]"

definition submitSubCardRegistration ::
    "('y, 'z) sdk_scheme \<Rightarrow> 'y transport \<Rightarrow> string \<Rightarrow> js \<Rightarrow> ('y, js \<times> js) dact" where
  "submitSubCardRegistration p tr pressBaseUrl document =
     bindA (tr (Press_Service pressBaseUrl) (json_request ''POST'' ''/api/sub-card/register'' (toPressRequestBody document))) (\<lambda>response.
     bindA (liftA (answered_json p ''Error: submitSubCardRegistration: POST /sub-card/register'' response)) (\<lambda>body.
     bindA (liftA (js_prop body ''sub_card_doc_cid'')) (\<lambda>cid. retA (cid, field body ''tx_hash''))))"

definition createPressSubCardRegistrar ::
    "('y, 'z) sdk_scheme \<Rightarrow> 'y transport \<Rightarrow> string \<Rightarrow> js \<Rightarrow> ('y, bool) dact" where
  "createPressSubCardRegistrar p tr pressBaseUrl document =
     catchA (bindA (submitSubCardRegistration p tr pressBaseUrl document) (\<lambda>_. retA True)) (\<lambda>_. retA False)"

section \<open>Matrix\<close>

text \<open>\<open>parseInt(s, 16)\<close> of at most two characters, stored in a byte: no digit gives 0.\<close>

definition sdk_hex_value :: "char \<Rightarrow> nat option" where
  "sdk_hex_value c = (let n = of_char c in
     if 48 \<le> n \<and> n \<le> 57 then Some (n - 48) else if 97 \<le> n \<and> n \<le> 102 then Some (n - 87)
     else if 65 \<le> n \<and> n \<le> 70 then Some (n - 55) else None)"

definition sdk_hex_byte :: "char \<Rightarrow> char \<Rightarrow> byte" where
  "sdk_hex_byte a b =
     (case (sdk_hex_value a, sdk_hex_value b) of
        (Some x, Some y) \<Rightarrow> of_nat (16 * x + y)
      | (Some x, None) \<Rightarrow> of_nat x
      | (None, Some y) \<Rightarrow> if is_space a \<or> a = CHR ''+'' then of_nat y else if a = CHR ''-'' then - of_nat y else 0
      | (None, None) \<Rightarrow> 0)"

fun sdk_hex_pairs :: "string \<Rightarrow> bytes" where
  "sdk_hex_pairs (a # b # s) = sdk_hex_byte a b # sdk_hex_pairs s"
| "sdk_hex_pairs s = []"

text \<open>\<open>new Uint8Array(hex.length / 2)\<close> rounds down: a last odd digit is dropped.\<close>

definition sdk_hexToBytes :: "string \<Rightarrow> bytes" where
  "sdk_hexToBytes s = sdk_hex_pairs (if take 2 s = ''0x'' \<or> take 2 s = ''0X'' then drop 2 s else s)"

definition sdk_shadowAccountCommitment :: "('e) env_scheme \<Rightarrow> string \<Rightarrow> string \<Rightarrow> string" where
  "sdk_shadowAccountCommitment e cardHash serverName =
     ''0x'' @ keccak256 e (sdk_hexToBytes cardHash @ utf8_encode ''matrix-shadow-account-v1'' @ utf8_encode serverName)"

definition sdk_deriveMatrixUserId :: "('e) env_scheme \<Rightarrow> string \<Rightarrow> string \<Rightarrow> string" where
  "sdk_deriveMatrixUserId e cardHash serverName =
     ''@card_'' @ to_lower (strip_0x (sdk_shadowAccountCommitment e cardHash serverName)) @ '':'' @ serverName"

definition sdk_verifyMatrixUserIdBinding :: "('e) env_scheme \<Rightarrow> string \<Rightarrow> string \<Rightarrow> string \<Rightarrow> bool" where
  "sdk_verifyMatrixUserIdBinding e candidate matrixUserId serverName \<longleftrightarrow>
     sdk_deriveMatrixUserId e candidate serverName = matrixUserId"

end
