(* ===== verification/Wallet_Cards.thy ===== *)
theory Wallet_Cards
  imports App_Cards
begin

text \<open>
  The wallet library's side of cards (\<open>wallet-sdk/src/offers\<close>, \<open>src/subcards\<close>,
  \<open>src/messaging\<close>): the review of an offer, acceptance with a key that is stored before it signs, the
  check and the countersignature of sub-card requests, and updates posted to a press.
\<close>

section \<open>The keyring\<close>

record keyring_entry =
  ke_cardAddress :: js
  ke_privateKey :: bytes

text \<open>\<open>Buffer.toString('base64')\<close>: the standard alphabet with padding.\<close>

definition bytesToBase64 :: "bytes \<Rightarrow> string" where
  "bytesToBase64 bs =
     (let s = map to_standard (bytes_to_base64url bs) in s @ replicate ((4 - length s mod 4) mod 4) (CHR ''=''))"

definition keyring_entry_js :: "keyring_entry \<Rightarrow> js" where
  "keyring_entry_js k = Obj [(''cardAddress'', ke_cardAddress k), (''privateKey'', Str (bytesToBase64 (ke_privateKey k)))]"

definition keyring_js :: "keyring_entry list \<Rightarrow> js" where
  "keyring_js entries = Obj [(''entries'', Arr (map keyring_entry_js entries))]"

definition encryptKeyring :: "('y, 'z) sdk_scheme \<Rightarrow> keyring_entry list \<Rightarrow> bytes \<Rightarrow> ('y, bytes) dact" where
  "encryptKeyring p entries decryptionKey =
     bindA (freshD (sdk_random p 12)) (\<lambda>nonce.
       retA (nonce @ aes_gcm_seal p decryptionKey nonce (utf8_encode (json_stringify (keyring_js entries)))))"

text \<open>\<open>JSON.parse(...) as SerializedKeyring\<close>: a card address is not looked at.\<close>

definition keyring_entry_of :: "('r) runtime_scheme \<Rightarrow> js \<Rightarrow> keyring_entry res" where
  "keyring_entry_of p v =
     bindE (js_prop v ''cardAddress'') (\<lambda>a.
     bindE (fromBase64url p (field v ''privateKey'')) (\<lambda>bs. Inr \<lparr>ke_cardAddress = a, ke_privateKey = bs\<rparr>))"

definition decryptKeyring :: "('r) runtime_scheme \<Rightarrow> bytes \<Rightarrow> bytes \<Rightarrow> keyring_entry list res" where
  "decryptKeyring p blob decryptionKey =
     bindE (aes_gcm_open (crypto_ops p) decryptionKey (take 12 blob) (drop 12 blob)) (\<lambda>plaintext.
     bindE (json_parse p plaintext) (\<lambda>parsed.
     bindE (js_prop parsed ''entries'') (\<lambda>entries. case entries of
         Arr xs \<Rightarrow> mapE (keyring_entry_of p) xs
       | _ \<Rightarrow> Inl (JsError ''TypeError: parsed.entries.map is not a function''))))"

definition computeKeyringId :: "('e) env_scheme \<Rightarrow> bytes \<Rightarrow> string" where
  "computeKeyringId e blob = keccak256 e blob"

section \<open>Review of an offer\<close>

datatype 'a offer_review = Approved js 'a "string option" | Rejected string string

record 'y chain_options =
  co_cardVerifier :: "'y card_verifier"
  co_rpc :: "'y \<Rightarrow> rpc_provider"
  co_policyAddress :: string
  co_pressAddress :: string
  co_policyApprovedPresses :: "string list option"

definition advisory_warning :: "'y chain_options \<Rightarrow> js \<Rightarrow> string option" where
  "advisory_warning o' pressCard =
     (case co_policyApprovedPresses o' of
        Some presses \<Rightarrow> if pressCard \<in> Str ` set presses then None
          else Some ''named press is on-chain authorized but does not appear in the policy's advisory approved_presses list.''
      | None \<Rightarrow> None)"

definition press_review ::
    "'y chain_options \<Rightarrow> js \<Rightarrow> js \<Rightarrow> card_result \<Rightarrow> ('y, card_result offer_review) dact" where
  "press_review o' offer pressCard issuerVerification =
     bindA (caught (readA (\<lambda>d. get_press_authorization (co_rpc o' (dv_outer d)) (co_policyAddress o') (co_pressAddress o')))) (\<lambda>r. case r of
       Inl err \<Rightarrow> retA (Rejected ''verification_error'' (''press authorization check failed: '' @ exn_string err))
     | Inr None \<Rightarrow> retA (Rejected ''press_not_authorized'' ''named press is not active in on-chain PressAuthorizations for this policy.'')
     | Inr (Some auth) \<Rightarrow>
         if \<not> pa_active auth
         then retA (Rejected ''press_not_authorized'' ''named press is not active in on-chain PressAuthorizations for this policy.'')
         else retA (Approved offer issuerVerification (advisory_warning o' pressCard)))"

definition verifyIssuerChainAndPress ::
    "('y, 'z) sdk_scheme \<Rightarrow> 'y chain_options \<Rightarrow> js \<Rightarrow> string \<Rightarrow> js \<Rightarrow> ('y, card_result offer_review) dact" where
  "verifyIssuerChainAndPress p o' offer issuerAddress pressCard =
     bindA (caught (verify_card_at p (co_cardVerifier o') issuerAddress)) (\<lambda>r. case r of
       Inl err \<Rightarrow> retA (Rejected ''verification_error'' (''issuer card verification failed: '' @ exn_string err))
     | Inr v \<Rightarrow>
         if sr_chain_reaches_trusted_root v \<noteq> Flag True
         then retA (Rejected ''issuer_chain_not_trusted'' ''issuer card chain does not reach a trusted root.'')
         else if sr_is_currently_valid v = Flag False
         then retA (Rejected ''issuer_card_not_currently_valid'' ''issuer card is revoked or not currently valid.'')
         else press_review o' offer pressCard v)"

text \<open>The part both reviews share: binding, signature, chain and press.\<close>

definition review_signed ::
    "('y, 'z) sdk_scheme \<Rightarrow> 'y chain_options \<Rightarrow> js \<Rightarrow> string \<Rightarrow> string \<Rightarrow> ('y, card_result offer_review) dact" where
  "review_signed p o' offer issuerPubkeyB64 bindingReason =
     (let issuerPubkey = base64url_to_bytes issuerPubkeyB64; issuerAddress = keccak256 p issuerPubkey in
      if field offer ''issuer_card'' \<noteq> Str issuerAddress
      then retA (Rejected ''issuer_binding_mismatch'' bindingReason)
      else
        bindA (liftA (bindE (canonicalize (js_omit ''issuer_signature'' offer)) (\<lambda>bs.
                      bindE (js_base64 (field offer ''issuer_signature'')) (mlDsa44Verify p issuerPubkey bs)))) (\<lambda>valid.
          if \<not> valid
          then retA (Rejected ''issuer_signature_invalid'' ''issuer_signature does not verify against the issuer's public key.'')
          else verifyIssuerChainAndPress p o' offer issuerAddress (field offer ''press_card'')))"

definition reviewTargetedOffer ::
    "('y, 'z) sdk_scheme \<Rightarrow> 'y chain_options \<Rightarrow> js \<Rightarrow> ('y, card_result offer_review) dact" where
  "reviewTargetedOffer p o' offer =
     bindA (liftA (js_prop offer ''ancestry_pubkeys'')) (\<lambda>ancestry.
     bindA (liftA (js_prop ancestry ''length'')) (\<lambda>_.
       if \<not> truthy (js_index0 ancestry)
       then retA (Rejected ''issuer_binding_mismatch'' ''ancestry_pubkeys is empty; cannot resolve the issuer public key from this offer.'')
       else
         bindA (liftA (js_string ''input.replace'' (js_index0 ancestry))) (\<lambda>b64.
           review_signed p o' offer b64 ''keccak256(ancestry_pubkeys[0]) does not match issuer_card.'')))"

definition reviewOpenOffer ::
    "('y, 'z) sdk_scheme \<Rightarrow> 'y chain_options \<Rightarrow> js \<Rightarrow> ('y, card_result offer_review) dact" where
  "reviewOpenOffer p o' offer =
     bindA (liftA (bindE (js_prop offer ''issuer_pubkey'') (js_string ''input.replace''))) (\<lambda>b64.
       review_signed p o' offer b64 ''keccak256(issuer_pubkey) does not match issuer_card.'')"

section \<open>Acceptance\<close>

record keyring_write =
  kw_decryptionKey :: bytes
  kw_storageKey :: "string option"

text \<open>\<open>...(k ? { k } : {})\<close> of an optional text: an empty one is left out.\<close>

definition given_text :: "string option \<Rightarrow> string option" where
  "given_text s = (if s = Some [] then None else s)"

definition given_slot :: "keyring_write \<Rightarrow> keyring_write" where
  "given_slot kw = kw\<lparr>kw_storageKey := given_text (kw_storageKey kw)\<rparr>"

definition keyring_slot :: "string option \<Rightarrow> string" where
  "keyring_slot k = (case k of Some s \<Rightarrow> s | None \<Rightarrow> ''keyring'')"

text \<open>
  \<open>generateAndPersistCardKey\<close>: a fresh key pair, public and secret, is handed out only after the keyring with
  its entry is stored.
\<close>

definition generateAndPersistCardKey :: "('y, 'z) sdk_scheme \<Rightarrow> keyring_write \<Rightarrow> ('y, bytes \<times> bytes) dact" where
  "generateAndPersistCardKey p kw =
     bindA (storage_get p (keyring_slot (kw_storageKey kw))) (\<lambda>currentBlob. case currentBlob of
       None \<Rightarrow> throwA (JsError ''Error: generateAndPersistCardKey: no keyring found in storage; cannot append a new card key.'')
     | Some blob \<Rightarrow>
         bindA (liftA (decryptKeyring p blob (kw_decryptionKey kw))) (\<lambda>existing.
         bindA (freshD (sdk_keygen p)) (\<lambda>(publicKey, secretKey).
         bindA (encryptKeyring p (existing @ [\<lparr>ke_cardAddress = Str (keccak256 p publicKey), ke_privateKey = secretKey\<rparr>])
                  (kw_decryptionKey kw)) (\<lambda>updatedBlob.
         bindA (storage_set p (keyring_slot (kw_storageKey kw)) updatedBlob) (\<lambda>_.
           retA (publicKey, secretKey))))))"

definition acceptTargetedOfferAndCountersign ::
    "('y, 'z) sdk_scheme \<Rightarrow> js \<Rightarrow> keyring_write \<Rightarrow> ('y, js \<times> bytes) dact" where
  "acceptTargetedOfferAndCountersign p offer kw =
     bindA (generateAndPersistCardKey p kw) (\<lambda>(publicKey, secretKey).
     let withRecipient = js_spread offer [(''recipient_pubkey'', Str (bytes_to_base64url publicKey))] in
     bindA (liftA (canonicalize withRecipient)) (\<lambda>bs.
       retA (js_spread withRecipient [(''holder_signature'', Str (bytes_to_base64url (ml_dsa44_sign p bs secretKey)))], publicKey)))"

definition acceptOpenOfferAndCountersign ::
    "('y, 'z) sdk_scheme \<Rightarrow> js \<Rightarrow> keyring_write \<Rightarrow> ('y, js \<times> bytes) dact" where
  "acceptOpenOfferAndCountersign p offer kw =
     bindA (generateAndPersistCardKey p kw) (\<lambda>(publicKey, secretKey).
     let claimPayload = Obj [(''offer'', offer), (''recipient_pubkey'', Str (bytes_to_base64url publicKey))] in
     bindA (liftA (canonicalize claimPayload)) (\<lambda>bs.
       retA (Obj [(''claim_payload'', claimPayload),
         (''recipient_signature'', Str (bytes_to_base64url (ml_dsa44_sign p bs secretKey)))], publicKey)))"

datatype 'a acceptance = Accepted_Offer 'a | Offer_Rejected string string

definition acceptTargetedOffer ::
    "('y, 'z) sdk_scheme \<Rightarrow> 'y chain_options \<Rightarrow> js \<Rightarrow> keyring_write \<Rightarrow> ('y, (js \<times> bytes) acceptance) dact" where
  "acceptTargetedOffer p o' offer kw =
     bindA (reviewTargetedOffer p o' offer) (\<lambda>review. case review of
       Rejected code reason \<Rightarrow> retA (Offer_Rejected code reason)
     | Approved approved _ _ \<Rightarrow>
         bindA (acceptTargetedOfferAndCountersign p approved (given_slot kw)) (\<lambda>r. retA (Accepted_Offer r)))"

definition submitOpenOfferClaim :: "('y, 'z) sdk_scheme \<Rightarrow> 'y transport \<Rightarrow> string \<Rightarrow> js \<Rightarrow> ('y, js \<times> js) dact" where
  "submitOpenOfferClaim p tr pressBaseUrl claimSubmission =
     bindA (tr (Press_Service pressBaseUrl) (json_request ''POST'' ''/open-offer/claim'' claimSubmission)) (\<lambda>response.
     bindA (liftA (answered_json p ''Error: submitOpenOfferClaim: POST /open-offer/claim'' response)) (\<lambda>body.
     bindA (liftA (js_prop body ''card_cid'')) (\<lambda>cid. retA (cid, field body ''scip''))))"

text \<open>Countersign and claim: the card's CID, its inclusion proof, and the new public key.\<close>

definition claim_open_offer ::
    "('y, 'z) sdk_scheme \<Rightarrow> 'y transport \<Rightarrow> string \<Rightarrow> js \<Rightarrow> keyring_write \<Rightarrow> ('y, js \<times> js \<times> bytes) dact" where
  "claim_open_offer p tr pressBaseUrl offer kw =
     bindA (acceptOpenOfferAndCountersign p offer (given_slot kw)) (\<lambda>(claimSubmission, newKey).
     bindA (submitOpenOfferClaim p tr pressBaseUrl claimSubmission) (\<lambda>(cid, scip). retA (cid, scip, newKey)))"

definition acceptOpenOfferForExistingWallet ::
    "('y, 'z) sdk_scheme \<Rightarrow> 'y transport \<Rightarrow> string \<Rightarrow> 'y chain_options \<Rightarrow> js \<Rightarrow> keyring_write
      \<Rightarrow> ('y, (js \<times> js \<times> bytes) acceptance) dact" where
  "acceptOpenOfferForExistingWallet p tr pressBaseUrl o' offer kw =
     bindA (reviewOpenOffer p o' offer) (\<lambda>review. case review of
       Rejected code reason \<Rightarrow> retA (Offer_Rejected code reason)
     | Approved approved _ _ \<Rightarrow>
         bindA (claim_open_offer p tr pressBaseUrl approved kw) (\<lambda>r. retA (Accepted_Offer r)))"

section \<open>Sub-card requests\<close>

datatype subcard_review = Valid_Request js card_result | Invalid_Request string string

text \<open>The chain of the app's card.\<close>

definition check_app_card ::
    "('y, 'z) sdk_scheme \<Rightarrow> 'y card_verifier \<Rightarrow> js \<Rightarrow> string \<Rightarrow> ('y, subcard_review) dact" where
  "check_app_card p cv request appCardAddress =
     bindA (caught (verify_card_at p cv appCardAddress)) (\<lambda>r. case r of
       Inl err \<Rightarrow> retA (Invalid_Request ''verification_error'' (''app card verification failed: '' @ exn_string err))
     | Inr v \<Rightarrow>
         if sr_chain_reaches_trusted_root v \<noteq> Flag True
         then retA (Invalid_Request ''app_card_chain_not_trusted'' ''app card chain does not reach the governance app-certification policy root.'')
         else if sr_is_currently_valid v = Flag False
         then retA (Invalid_Request ''app_card_not_currently_valid'' ''app card is revoked or not currently valid.'')
         else retA (Valid_Request request v))"

definition handleSubCardRequest ::
    "('y, 'z) sdk_scheme \<Rightarrow> 'y card_verifier \<Rightarrow> js \<Rightarrow> ('y, subcard_review) dact" where
  "handleSubCardRequest p cv request =
     bindA (liftA (bindE (js_prop request ''holder_primary_card_pubkey'') js_base64)) (\<lambda>holderPubkey.
       if field request ''holder_primary_card'' \<noteq> Str (keccak256 p holderPubkey)
       then retA (Invalid_Request ''holder_primary_card_binding_mismatch'' ''keccak256(holder_primary_card_pubkey) does not match holder_primary_card.'')
       else
         bindA (liftA (js_base64 (field request ''app_card_pubkey''))) (\<lambda>appCardPubkey.
         let appCardAddress = keccak256 p appCardPubkey in
           if field request ''app_card'' \<noteq> Str appCardAddress
           then retA (Invalid_Request ''app_card_binding_mismatch'' ''keccak256(app_card_pubkey) does not match app_card.'')
           else
             bindA (liftA (bindE (canonicalize (js_omit ''app_signature'' request)) (\<lambda>bs.
                           bindE (js_base64 (field request ''app_signature'')) (mlDsa44Verify p appCardPubkey bs)))) (\<lambda>valid.
               if \<not> valid
               then retA (Invalid_Request ''app_signature_invalid'' ''app_signature does not verify against app_card_pubkey.'')
               else check_app_card p cv request appCardAddress)))"

record consent_data =
  cd_requestedCapabilities :: js
  cd_grantableCapabilities :: "js list"
  cd_request :: js

text \<open>\<open>assembleSubCardConsent\<close>; the display texts of the caller are left out.\<close>

definition assembleSubCardConsent :: "js \<Rightarrow> string list \<Rightarrow> consent_data res" where
  "assembleSubCardConsent request walletGrantable =
     bindE (js_prop request ''capabilities'') (\<lambda>requested. case requested of
       Arr xs \<Rightarrow> Inr \<lparr>cd_requestedCapabilities = requested,
           cd_grantableCapabilities = filter (\<lambda>c. c \<in> Str ` set walletGrantable) xs, cd_request = request\<rparr>
     | _ \<Rightarrow> Inl (JsError ''TypeError: requestedCapabilities.filter is not a function''))"

datatype countersign_outcome = Countersigned js bool | Not_Countersigned string

definition exact_match :: "js list \<Rightarrow> js list \<Rightarrow> bool" where
  "exact_match requested approved \<longleftrightarrow> length requested = length approved \<and> list_all (\<lambda>c. c \<in> set approved) requested"

definition capability_list :: "js \<Rightarrow> js list" where
  "capability_list v = (case v of Arr xs \<Rightarrow> xs | _ \<Rightarrow> [])"

definition countersignSubCardRequest ::
    "('y, 'z) sdk_scheme \<Rightarrow> consent_data \<Rightarrow> bool \<Rightarrow> js list \<Rightarrow> bytes \<Rightarrow> (js \<Rightarrow> ('y, bool) dact) \<Rightarrow> ('y, countersign_outcome) dact" where
  "countersignSubCardRequest p consent decisionApproved approved masterSecretKey register =
     (if \<not> decisionApproved then retA (Not_Countersigned ''consent decision was not approved.'')
      else if \<not> exact_match (capability_list (cd_requestedCapabilities consent)) approved
      then retA (Not_Countersigned ''approvedCapabilities must exactly match the requested set'')
      else
        bindA (liftA (canonicalize (cd_request consent))) (\<lambda>bs.
        let document = js_spread (cd_request consent)
              [(''holder_signature'', Str (bytes_to_base64url (ml_dsa44_sign p bs masterSecretKey)))] in
        bindA (register document) (\<lambda>registered. retA (Countersigned document registered))))"

section \<open>Updates through a press\<close>

definition SUBCARD_REVOCATION_CODES :: "int list" where
  "SUBCARD_REVOCATION_CODES = [800, 801, 810, 811]"

text \<open>A signed intent posted to the press: the two CIDs of its answer.\<close>

definition post_update ::
    "('y, 'z) sdk_scheme \<Rightarrow> 'y transport \<Rightarrow> string \<Rightarrow> string \<Rightarrow> js \<Rightarrow> bytes \<Rightarrow> ('y, js \<times> js) dact" where
  "post_update p tr caller pressBaseUrl intent signature =
     bindA (tr (Press_Service pressBaseUrl) (json_request ''POST'' ''/update''
              (Obj [(''update_intent'', intent), (''intent_signature'', Str (bytes_to_base64url signature))]))) (\<lambda>response.
     bindA (liftA (answered_json p (''Error: '' @ caller @ '': POST /update'') response)) (\<lambda>body.
     bindA (liftA (js_prop body ''log_entry_cid'')) (\<lambda>cid. retA (cid, field body ''new_log_head_cid''))))"

record 'y revocation_options =
  ro_pressBaseUrl :: string
  ro_targetSubCard :: string
  ro_updaterPointer :: string
  ro_updaterSign :: "bytes \<Rightarrow> ('y, bytes) dact"
  ro_code :: int
  ro_effectiveDate :: "string option"
  ro_note :: string
  ro_notifyHolder :: "bool option"

definition revocation_intent :: "'y revocation_options \<Rightarrow> string \<Rightarrow> string \<Rightarrow> js" where
  "revocation_intent o' effective timestamp = Obj
     [(''target_card'', Str (ro_targetSubCard o')), (''updater_card'', Str (ro_updaterPointer o')),
      (''code'', Num (Fin (ro_code o'))),
      (''revocation'', Obj ((''effective_date'', Str effective) # text_if_given ''note'' (ro_note o'))),
      (''notify_holder'', Bool (ro_notifyHolder o' \<noteq> Some False)), (''timestamp'', Str timestamp)]"

definition revokeSubCard :: "('y, 'z) sdk_scheme \<Rightarrow> 'y transport \<Rightarrow> 'y revocation_options \<Rightarrow> ('y, js \<times> js) dact" where
  "revokeSubCard p tr o' =
     bindA (guardA (ro_code o' \<in> set SUBCARD_REVOCATION_CODES) (JsError (''Error: revokeSubCard: code '' @ int_str (ro_code o') @
       '' is not a valid sub-card 8xx revocation code (must be one of 800, 801, 810, 811).''))) (\<lambda>_.
     bindA (given_or_now p (ro_effectiveDate o')) (\<lambda>effective.
     bindA (nowIso p) (\<lambda>timestamp.
     let intent = revocation_intent o' effective timestamp in
     bindA (liftA (canonicalize intent)) (\<lambda>bs.
     bindA (ro_updaterSign o' bs) (\<lambda>signature.
       post_update p tr ''revokeSubCard'' (ro_pressBaseUrl o') intent signature)))))"

record directory_options =
  do_pressBaseUrl :: string
  do_masterCardPointer :: string
  do_masterSecretKey :: bytes
  do_timestamp :: "string option"
  do_notifyHolder :: bool
  do_note :: string

definition directory_intent :: "directory_options \<Rightarrow> int \<Rightarrow> string list \<Rightarrow> string \<Rightarrow> js" where
  "directory_intent o' code subcards timestamp = Obj
     ([(''target_card'', Str (do_masterCardPointer o')), (''updater_card'', Str (do_masterCardPointer o')),
       (''code'', Num (Fin code)),
       (''field_updates'', Arr [Obj [(''field'', Str ''active_subcards''), (''value'', Arr (map Str subcards))]]),
       (''timestamp'', Str timestamp), (''notify_holder'', Bool (do_notifyHolder o'))] @
      (if code = 511 then text_if_given ''note'' (do_note o') else []))"

definition post_directory ::
    "('y, 'z) sdk_scheme \<Rightarrow> 'y transport \<Rightarrow> string \<Rightarrow> directory_options \<Rightarrow> int \<Rightarrow> string list \<Rightarrow> ('y, js \<times> js) dact" where
  "post_directory p tr caller o' code subcards =
     bindA (given_or_now p (do_timestamp o')) (\<lambda>timestamp.
     let intent = directory_intent o' code subcards timestamp in
     bindA (liftA (canonicalize intent)) (\<lambda>bs.
       post_update p tr caller (do_pressBaseUrl o') intent (ml_dsa44_sign p bs (do_masterSecretKey o'))))"

definition directory_added :: "string list option \<Rightarrow> string \<Rightarrow> string list" where
  "directory_added current pubkey =
     (let xs = (case current of Some ys \<Rightarrow> ys | None \<Rightarrow> []) in if pubkey \<in> set xs then xs else xs @ [pubkey])"

definition directory_removed :: "string list \<Rightarrow> string \<Rightarrow> string list" where
  "directory_removed current pubkey = filter (\<lambda>k. k \<noteq> pubkey) current"

definition postSubCardAddedToDirectory ::
    "('y, 'z) sdk_scheme \<Rightarrow> 'y transport \<Rightarrow> directory_options \<Rightarrow> string list option \<Rightarrow> string \<Rightarrow> ('y, js \<times> js) dact" where
  "postSubCardAddedToDirectory p tr o' current pubkey =
     post_directory p tr ''postSubCardAddedToDirectory'' o' 510 (directory_added current pubkey)"

definition postSubCardRemovedFromDirectory ::
    "('y, 'z) sdk_scheme \<Rightarrow> 'y transport \<Rightarrow> directory_options \<Rightarrow> string list \<Rightarrow> string \<Rightarrow> ('y, js \<times> js) dact" where
  "postSubCardRemovedFromDirectory p tr o' current pubkey =
     post_directory p tr ''postSubCardRemovedFromDirectory'' o' 511 (directory_removed current pubkey)"

text \<open>\<open>resolveActiveSubCardTargets\<close>: public key and address of every entry that is text or bytes.\<close>

definition resolveActiveSubCardTargets :: "('r) runtime_scheme \<Rightarrow> js \<Rightarrow> (js \<times> string) list res" where
  "resolveActiveSubCardTargets p masterCard =
     bindE (js_prop masterCard ''active_subcards'') (\<lambda>v. case v of
       Arr xs \<Rightarrow> Inr (concat (map (\<lambda>x. case fromBase64url p x of Inl err \<Rightarrow> [] | Inr bs \<Rightarrow> [(x, keccak256 p bs)]) xs))
     | _ \<Rightarrow> Inr [])"

end
