(* ===== verification/Wallet_Custody.thy ===== *)
theory Wallet_Custody
  imports Wallet_Cards
begin

text \<open>
  Custody of the wallet library (\<open>wallet-sdk/src/wallet\<close>): the decryption key of two factors, backups
  of it, setting a wallet up, recovering it, and the sub-cards of the device. Secret keys that the code
  overwrites when a function ends are local variables here.
\<close>

section \<open>Keys\<close>

definition DECRYPTION_KEY_INFO :: bytes where
  "DECRYPTION_KEY_INFO = utf8_encode ''card-protocol-wallet-decryption-key-v1''"

definition deriveDecryptionKey :: "('y, 'z) sdk_scheme \<Rightarrow> bytes \<Rightarrow> bytes \<Rightarrow> bytes" where
  "deriveDecryptionKey p devicePasskeyOutput serviceSecret =
     hkdf_salted p devicePasskeyOutput serviceSecret DECRYPTION_KEY_INFO 32"

definition passkeyOutputFromPrf :: "('e) env_scheme \<Rightarrow> bytes \<Rightarrow> bytes" where
  "passkeyOutputFromPrf e prfOutput = keccak_256 (crypto_ops e) prfOutput"

definition wrapDecryptionKey :: "('y, 'z) sdk_scheme \<Rightarrow> bytes \<Rightarrow> bytes \<Rightarrow> ('y, bytes) dact" where
  "wrapDecryptionKey p decryptionKey wrappingKey =
     bindA (freshD (sdk_random p 12)) (\<lambda>nonce. retA (nonce @ aes_gcm_seal p wrappingKey nonce decryptionKey))"

definition unwrapDecryptionKey :: "('e) env_scheme \<Rightarrow> bytes \<Rightarrow> bytes \<Rightarrow> bytes res" where
  "unwrapDecryptionKey e blob wrappingKey = aes_gcm_open (crypto_ops e) wrappingKey (take 12 blob) (drop 12 blob)"

section \<open>Backups\<close>

record backup_options =
  bo_sessionToken :: js
  bo_cardHash :: string
  bo_type :: string
  bo_decryptionKey :: bytes
  bo_wrappingKey :: bytes
  bo_keyringId :: js
  bo_notificationChannels :: js
  bo_cancellationPubkey :: bytes

definition backup_body :: "backup_options \<Rightarrow> bytes \<Rightarrow> js" where
  "backup_body o' wrappedBlob = Obj
     [(''type'', Str (bo_type o')), (''wrapped_blob'', Str (bytes_to_base64url wrappedBlob)),
      (''keyring_id'', bo_keyringId o'), (''notification_channels'', bo_notificationChannels o'),
      (''cancellation_pubkey'', Str (bytes_to_base64url (bo_cancellationPubkey o')))]"

definition registerBackup :: "('y, 'z) sdk_scheme \<Rightarrow> 'y transport \<Rightarrow> backup_options \<Rightarrow> ('y, js) dact" where
  "registerBackup p tr o' =
     bindA (wrapDecryptionKey p (bo_decryptionKey o') (bo_wrappingKey o')) (\<lambda>wrappedBlob.
     let path = ''/accounts/'' @ bo_cardHash o' @ ''/backups'' in
     bindA (tr Wallet_Service (plain_request ''POST'' path
              (Some [json_header, (''authorization'', ''Bearer '' @ literal p (bo_sessionToken o'))])
              (Some (utf8_encode (json_stringify (backup_body o' wrappedBlob)))))) (\<lambda>response.
     bindA (liftA (answered_json p (''Error: registerBackup: POST '' @ path) response)) (\<lambda>body.
       liftA (js_prop body ''backup_id''))))"

section \<open>The sub-card of the device\<close>

record 'y device_subcard_options =
  dk_cardHash :: string
  dk_masterPublicKey :: bytes
  dk_walletAppCard :: "'y app_identity"
  dk_registerSubCard :: "js \<Rightarrow> ('y, bool) dact"
  dk_capabilities :: "string list"
  dk_subCardKeyId :: "string option"
  dk_validUntil :: string
  dk_cardVerifier :: "'y card_verifier"

record device_subcard =
  dr_subCardPublicKey :: bytes
  dr_subCardKeyId :: string
  dr_document :: js
  dr_registered :: bool

definition subcard_key_id :: "string option \<Rightarrow> string" where
  "subcard_key_id k = (case k of Some s \<Rightarrow> s | None \<Rightarrow> ''device-sub-card'')"

definition self_request :: "'y device_subcard_options \<Rightarrow> subcard_options" where
  "self_request o' = \<lparr>so_subCardKeyId = subcard_key_id (dk_subCardKeyId o'), so_holderPrimaryCard = dk_cardHash o',
     so_holderPrimaryCardPubkey = dk_masterPublicKey o', so_capabilities = dk_capabilities o', so_attestationLevel = ''T1'',
     so_attestationProof = None, so_validUntil = dk_validUntil o', so_issuedAt = None\<rparr>"

text \<open>Consent and countersignature of the wallet's own request.\<close>

definition self_authorize ::
    "('y, 'z) sdk_scheme \<Rightarrow> 'y device_subcard_options \<Rightarrow> bytes \<Rightarrow> js \<Rightarrow> ('y, js \<times> bool) dact" where
  "self_authorize p o' masterSecretKey request =
     bindA (liftA (assembleSubCardConsent request (dk_capabilities o'))) (\<lambda>consent.
     bindA (countersignSubCardRequest p consent True (capability_list (cd_requestedCapabilities consent))
              masterSecretKey (dk_registerSubCard o')) (\<lambda>outcome. case outcome of
       Not_Countersigned reason \<Rightarrow>
         throwA (JsError (''Error: registerDeviceSubCard: self-countersign unexpectedly failed: '' @ reason))
     | Countersigned document registered \<Rightarrow> retA (document, registered)))"

definition registerDeviceSubCard ::
    "('y, 'z) sdk_scheme \<Rightarrow> 'y device_subcard_options \<Rightarrow> bytes \<Rightarrow> ('y, device_subcard) dact" where
  "registerDeviceSubCard p o' masterSecretKey =
     bindA (requestSubCard p (dk_walletAppCard o') (self_request o')) (\<lambda>(subCardPublicKey, request).
     bindA (handleSubCardRequest p (dk_cardVerifier o') request) (\<lambda>validated. case validated of
       Invalid_Request code reason \<Rightarrow> throwA (JsError
         (''Error: registerDeviceSubCard: the wallet's own app-signed request failed validation ('' @ code @ ''): '' @ reason))
     | Valid_Request approved _ \<Rightarrow>
         bindA (self_authorize p o' masterSecretKey approved) (\<lambda>(document, registered).
           retA \<lparr>dr_subCardPublicKey = subCardPublicKey, dr_subCardKeyId = subcard_key_id (dk_subCardKeyId o'),
                 dr_document = document, dr_registered = registered\<rparr>)))"

section \<open>Challenges and the keyring at the wallet service\<close>

text \<open>The device passkey's output; without the PRF extension the flow ends.\<close>

definition prf_output :: "('y, 'z) sdk_scheme \<Rightarrow> string \<Rightarrow> passkey_result \<Rightarrow> bytes res" where
  "prf_output p msg r = (case pk_prfOutput r of None \<Rightarrow> Inl (JsError msg) | Some prf \<Rightarrow> Inr (passkeyOutputFromPrf p prf))"

definition signed_challenge :: "('y, 'z) sdk_scheme \<Rightarrow> js \<Rightarrow> bytes \<Rightarrow> (js \<times> bytes) res" where
  "signed_challenge p answer secretKey =
     bindE (js_prop answer ''challenge'') (\<lambda>c. bindE (js_base64 c) (\<lambda>bs. Inr (c, ml_dsa44_sign p bs secretKey)))"

definition replacement_body :: "js \<Rightarrow> bytes \<Rightarrow> bytes \<Rightarrow> bool \<Rightarrow> js" where
  "replacement_body challenge signature blob keepSecret = Obj
     ([(''challenge'', challenge), (''signature'', Str (bytes_to_base64url signature)),
       (''new_encrypted_keyring_blob'', Str (bytes_to_base64url blob))] @
      (if keepSecret then [(''rotate_service_secret'', Bool False)] else []))"

text \<open>
  A challenge of the keyring route, signed with the master key, and the replacement of the keyring: the
  body of the answer.
\<close>

definition put_keyring ::
    "('y, 'z) sdk_scheme \<Rightarrow> 'y transport \<Rightarrow> string \<Rightarrow> bytes \<Rightarrow> bytes \<Rightarrow> bool \<Rightarrow> ('y, js) dact" where
  "put_keyring p tr cardHash secretKey blob keepSecret =
     bindA (requestJson p tr ''POST'' (''/accounts/'' @ cardHash @ ''/keyring/challenge'') None) (\<lambda>answer.
     bindA (liftA (signed_challenge p answer secretKey)) (\<lambda>(challenge, signature).
       requestJson p tr ''PUT'' (''/accounts/'' @ cardHash @ ''/keyring'')
         (Some (replacement_body challenge signature blob keepSecret))))"

text \<open>The identifier the service answers with is that of the blob.\<close>

definition checked_keyring_id :: "('y, 'z) sdk_scheme \<Rightarrow> string \<Rightarrow> js \<Rightarrow> bytes \<Rightarrow> ('y, js) dact" where
  "checked_keyring_id p caller answer blob =
     bindA (liftA (js_prop answer ''keyring_id'')) (\<lambda>i.
     bindA (guardA (i = Str (computeKeyringId p blob))
              (JsError (''Error: '' @ caller @ '': server-reported keyring_id does not match locally computed keccak256(encrypted_blob).''))) (\<lambda>_.
       retA i))"

section \<open>Setup\<close>

record 'y setup_options =
  su_transport :: "'y transport"
  su_walletAppCard :: "'y app_identity"
  su_registerSubCard :: "js \<Rightarrow> ('y, bool) dact"
  su_cardVerifier :: "'y card_verifier"
  su_capabilities :: "string list"
  su_storageKey :: "string option"
  su_subCardKeyId :: "string option"
  su_notificationChannels :: js
  su_yubiKey :: bool
  su_yubiKeyPin :: string

record 'a setup_result =
  sx_cardHash :: string
  sx_masterPublicKey :: bytes
  sx_account :: js
  sx_keyringId :: js
  sx_passkeyCredentialId :: bytes
  sx_subCard :: device_subcard
  sx_syncedPasskeyBackupId :: js
  sx_yubiKeyBackupId :: js
  sx_hookResult :: 'a

text \<open>\<open>...(v ? { v } : {})\<close> of a value.\<close>

definition if_truthy :: "js \<Rightarrow> js" where
  "if_truthy v = (if truthy v then v else Undef)"

definition account_request :: "js \<Rightarrow> bytes \<Rightarrow> string \<Rightarrow> bytes \<Rightarrow> passkey_result \<Rightarrow> bytes \<Rightarrow> js" where
  "account_request challenge signature cardHash masterPublicKey registration blob = Obj
     [(''challenge'', challenge), (''signature'', Str (bytes_to_base64url signature)), (''card_hash'', Str cardHash),
      (''master_pubkey'', Str (bytes_to_base64url masterPublicKey)),
      (''webauthn_credential_id'', Str (bytes_to_base64url (pk_credentialId registration))),
      (''webauthn_public_key'', Str (bytes_to_base64url (pk_attestationObject registration))),
      (''encrypted_keyring_blob'', Str (bytes_to_base64url blob))]"

text \<open>
  The device passkey and the account: the passkey, its output, and the answer of the service. The
  keyring of this request is sealed under the passkey's output alone.
\<close>

definition open_account ::
    "('y, 'z) sdk_scheme \<Rightarrow> 'y setup_options \<Rightarrow> string \<Rightarrow> bytes \<Rightarrow> bytes \<Rightarrow> ('y, passkey_result \<times> bytes \<times> js) dact" where
  "open_account p o' cardHash publicKey secretKey =
     bindA (requestJson p (su_transport o') ''POST'' ''/accounts/challenge'' None) (\<lambda>answer.
     bindA (liftA (signed_challenge p answer secretKey)) (\<lambda>(challenge, signature).
     bindA (outD (passkey_register p (base64url_to_bytes (case challenge of Str s \<Rightarrow> s | _ \<Rightarrow> [])))) (\<lambda>registration.
     bindA (liftA (prf_output p ''Error: setupWallet: device-bound passkey registration did not return a PRF output'' registration)) (\<lambda>output.
     bindA (encryptKeyring p [\<lparr>ke_cardAddress = Str cardHash, ke_privateKey = secretKey\<rparr>] output) (\<lambda>blob.
     bindA (requestJson p (su_transport o') ''POST'' ''/accounts''
              (Some (account_request challenge signature cardHash publicKey registration blob))) (\<lambda>account.
       retA (registration, output, account)))))))"

text \<open>The keyring under the key of both factors, at the service and in storage.\<close>

definition seal_keyring ::
    "('y, 'z) sdk_scheme \<Rightarrow> string \<Rightarrow> 'y transport \<Rightarrow> string option \<Rightarrow> string \<Rightarrow> bytes \<Rightarrow> keyring_entry list \<Rightarrow> bytes \<Rightarrow> ('y, js) dact" where
  "seal_keyring p caller tr storageKey cardHash secretKey entries decryptionKey =
     bindA (encryptKeyring p entries decryptionKey) (\<lambda>blob.
     bindA (put_keyring p tr cardHash secretKey blob True) (\<lambda>answer.
     bindA (checked_keyring_id p caller answer blob) (\<lambda>keyringId.
     bindA (storage_set p (keyring_slot storageKey) blob) (\<lambda>_. retA keyringId))))"

definition service_secret_key :: "('y, 'z) sdk_scheme \<Rightarrow> bytes \<Rightarrow> js \<Rightarrow> bytes res" where
  "service_secret_key p output answer =
     bindE (js_prop answer ''service_secret'') (\<lambda>s. bindE (js_base64 s) (\<lambda>secret. Inr (deriveDecryptionKey p output secret)))"

definition setup_backup ::
    "'y setup_options \<Rightarrow> js \<Rightarrow> string \<Rightarrow> bytes \<Rightarrow> bytes \<Rightarrow> js \<Rightarrow> string \<Rightarrow> bytes \<Rightarrow> backup_options" where
  "setup_backup o' account cardHash publicKey decryptionKey keyringId kind wrappingKey =
     \<lparr>bo_sessionToken = field account ''session_token'', bo_cardHash = cardHash, bo_type = kind,
      bo_decryptionKey = decryptionKey, bo_wrappingKey = wrappingKey, bo_keyringId = keyringId,
      bo_notificationChannels = su_notificationChannels o', bo_cancellationPubkey = publicKey\<rparr>"

definition synced_backup ::
    "('y, 'z) sdk_scheme \<Rightarrow> 'y setup_options \<Rightarrow> (string \<Rightarrow> bytes \<Rightarrow> backup_options) \<Rightarrow> ('y, js) dact" where
  "synced_backup p o' backup =
     bindA (freshD (sdk_random p 32)) (\<lambda>challenge.
     bindA (outD (passkey_register p challenge)) (\<lambda>registration.
     bindA (liftA (prf_output p ''Error: setupWallet: synced-passkey registration did not return a PRF output'' registration)) (\<lambda>output.
       registerBackup p (su_transport o') (backup ''synced_passkey'' output))))"

text \<open>The opt-in backup; \<open>Undef\<close> when there is none.\<close>

definition yubikey_backup ::
    "('y, 'z) sdk_scheme \<Rightarrow> 'y setup_options \<Rightarrow> (string \<Rightarrow> bytes \<Rightarrow> backup_options) \<Rightarrow> ('y, js) dact" where
  "yubikey_backup p o' backup =
     (if \<not> su_yubiKey o' then retA Undef
      else
        bindA (guardA (su_yubiKeyPin o' \<noteq> []) (JsError ''Error: setupWallet: yubiKeyPin is required when yubiKeyProvider is supplied.'')) (\<lambda>_.
        bindA (outD (yubikey_key p (su_yubiKeyPin o'))) (\<lambda>wrappingKey.
          registerBackup p (su_transport o') (backup ''yubikey'' wrappingKey))))"

definition setup_subcard :: "'y setup_options \<Rightarrow> string \<Rightarrow> bytes \<Rightarrow> 'y device_subcard_options" where
  "setup_subcard o' cardHash publicKey = \<lparr>dk_cardHash = cardHash, dk_masterPublicKey = publicKey,
     dk_walletAppCard = su_walletAppCard o', dk_registerSubCard = su_registerSubCard o', dk_capabilities = su_capabilities o',
     dk_subCardKeyId = given_text (su_subCardKeyId o'), dk_validUntil = [], dk_cardVerifier = su_cardVerifier o'\<rparr>"

text \<open>The hook runs last, with the decryption key.\<close>

definition setupWallet ::
    "('y, 'z) sdk_scheme \<Rightarrow> 'y setup_options \<Rightarrow> (bytes \<Rightarrow> ('y, 'a) dact) \<Rightarrow> ('y, 'a setup_result) dact" where
  "setupWallet p o' hook =
     bindA (freshD (sdk_keygen p)) (\<lambda>(publicKey, secretKey).
     let cardHash = keccak256 p publicKey in
     bindA (open_account p o' cardHash publicKey secretKey) (\<lambda>(registration, output, account).
     bindA (liftA (service_secret_key p output account)) (\<lambda>decryptionKey.
     bindA (seal_keyring p ''setupWallet'' (su_transport o') (su_storageKey o') cardHash secretKey
              [\<lparr>ke_cardAddress = Str cardHash, ke_privateKey = secretKey\<rparr>] decryptionKey) (\<lambda>keyringId.
     bindA (registerDeviceSubCard p (setup_subcard o' cardHash publicKey) secretKey) (\<lambda>subCard.
     let backup = setup_backup o' account cardHash publicKey decryptionKey keyringId in
     bindA (synced_backup p o' backup) (\<lambda>synced.
     bindA (yubikey_backup p o' backup) (\<lambda>yubi.
     bindA (hook decryptionKey) (\<lambda>hookResult.
       retA \<lparr>sx_cardHash = cardHash, sx_masterPublicKey = publicKey, sx_account = account, sx_keyringId = keyringId,
             sx_passkeyCredentialId = pk_credentialId registration, sx_subCard = subCard,
             sx_syncedPasskeyBackupId = synced, sx_yubiKeyBackupId = if_truthy yubi, sx_hookResult = hookResult\<rparr>))))))))"

text \<open>\<open>acceptOpenOfferForNewWallet\<close>: the claim is the hook of the setup.\<close>

definition acceptOpenOfferForNewWallet ::
    "('y, 'z) sdk_scheme \<Rightarrow> 'y setup_options \<Rightarrow> string \<Rightarrow> 'y chain_options \<Rightarrow> js
      \<Rightarrow> ('y, (js \<times> js \<times> bytes) setup_result acceptance) dact" where
  "acceptOpenOfferForNewWallet p o' pressBaseUrl chain offer =
     bindA (reviewOpenOffer p chain offer) (\<lambda>review. case review of
       Rejected code reason \<Rightarrow> retA (Offer_Rejected code reason)
     | Approved approved _ _ \<Rightarrow>
         bindA (setupWallet p o' (\<lambda>decryptionKey. claim_open_offer p (su_transport o') pressBaseUrl approved
                  \<lparr>kw_decryptionKey = decryptionKey, kw_storageKey = su_storageKey o'\<rparr>)) (\<lambda>r. retA (Accepted_Offer r)))"

section \<open>Recovery windows\<close>

definition initiateRecovery :: "('y, 'z) sdk_scheme \<Rightarrow> 'y transport \<Rightarrow> string \<Rightarrow> string \<Rightarrow> ('y, js \<times> js \<times> js) dact" where
  "initiateRecovery p tr cardHash backupId =
     bindA (requestJson p tr ''POST'' (''/accounts/'' @ cardHash @ ''/recovery'') (Some (Obj [(''backup_id'', Str backupId)]))) (\<lambda>body.
     bindA (liftA (js_prop body ''recovery_id'')) (\<lambda>i. retA (i, field body ''expires_at'', if_truthy (field body ''notified_channels''))))"

definition cancelRecovery :: "('y, 'z) sdk_scheme \<Rightarrow> 'y transport \<Rightarrow> string \<Rightarrow> bytes \<Rightarrow> ('y, js) dact" where
  "cancelRecovery p tr recoveryId masterSecretKey =
     (let challengeBytes = utf8_encode recoveryId in
      bindA (requestJson p tr ''POST'' (''/recovery/'' @ recoveryId @ ''/cancel'')
        (Some (Obj [(''challenge'', Str (bytes_to_base64url challengeBytes)),
          (''signature'', Str (bytes_to_base64url (ml_dsa44_sign p challengeBytes masterSecretKey)))]))) (\<lambda>body.
      liftA (js_prop body ''cancelled'')))"

datatype release_outcome = Recovery_Released bytes js | Recovery_Too_Early js | Recovery_Cancelled

definition released_outcome :: "('y, 'z) sdk_scheme \<Rightarrow> string \<Rightarrow> js \<Rightarrow> js \<Rightarrow> release_outcome res" where
  "released_outcome p recoveryId st body =
     (let refused = Inl (JsError (''Error: releaseRecoveryKey: GET /recovery/'' @ recoveryId @ ''/release returned status '' @ literal p st)) in
      if st = Num (Fin 200) then
        bindE (js_prop body ''wrapped_blob'') (\<lambda>b.
          if truthy b \<and> truthy (field body ''keyring_id'')
          then bindE (js_base64 b) (\<lambda>bs. Inr (Recovery_Released bs (field body ''keyring_id''))) else refused)
      else if st = Num (Fin 425) then
        bindE (js_prop body ''retry_after'') (\<lambda>r. Inr (Recovery_Too_Early (nullish r (Num (Fin 0)))))
      else if st = Num (Fin 410) then Inr Recovery_Cancelled
      else refused)"

definition releaseRecoveryKey :: "('y, 'z) sdk_scheme \<Rightarrow> 'y transport \<Rightarrow> string \<Rightarrow> ('y, release_outcome) dact" where
  "releaseRecoveryKey p tr recoveryId =
     bindA (tr Wallet_Service (plain_request ''GET'' (''/recovery/'' @ recoveryId @ ''/release'') None None)) (\<lambda>response.
     bindA (liftA (json_parse p (tr_body response))) (\<lambda>body.
       liftA (released_outcome p recoveryId (tr_status response) body)))"

definition fetchKeyringBlob :: "('y, 'z) sdk_scheme \<Rightarrow> 'y transport \<Rightarrow> string \<Rightarrow> ('y, bytes) dact" where
  "fetchKeyringBlob p tr keyringId =
     bindA (requestJson p tr ''GET'' (''/keyrings/'' @ keyringId) None) (\<lambda>body.
       liftA (bindE (js_prop body ''encrypted_blob'') js_base64))"

section \<open>Sub-card deregistration\<close>

definition deregister_payload :: "string \<Rightarrow> string \<Rightarrow> js" where
  "deregister_payload subCardAddress timestamp = Obj [(''op'', Str ''deregister_sub_card''),
     (''sub_card_address'', Str subCardAddress), (''timestamp'', Str timestamp)]"

definition deregister_body :: "string \<Rightarrow> js \<Rightarrow> bytes \<Rightarrow> js" where
  "deregister_body subCardAddress sigPayload signature = Obj [(''sub_card_address'', Str subCardAddress),
     (''sig_payload'', sigPayload), (''master_signature'', Str (bytes_to_base64url signature))]"

definition wallet_deregisterSubCard ::
    "('y, 'z) sdk_scheme \<Rightarrow> 'y transport \<Rightarrow> string \<Rightarrow> bytes \<Rightarrow> bytes \<Rightarrow> ('y, js) dact" where
  "wallet_deregisterSubCard p tr pressBaseUrl subCardPublicKey masterSecretKey =
     (let subCardAddress = keccak256 p subCardPublicKey in
      bindA (nowIso p) (\<lambda>timestamp.
      let sigPayload = deregister_payload subCardAddress timestamp in
      bindA (liftA (canonicalize sigPayload)) (\<lambda>bs.
      bindA (tr (Press_Service pressBaseUrl) (json_request ''POST'' ''/api/sub-card/deregister''
               (deregister_body subCardAddress sigPayload (ml_dsa44_sign p bs masterSecretKey)))) (\<lambda>response.
      bindA (liftA (answered_json p ''Error: deregisterSubCard: POST /sub-card/deregister'' response)) (\<lambda>body.
        liftA (js_prop body ''tx_hash''))))))"

record deregistration_outcome =
  dx_subCardAddress :: string
  dx_result :: "js res"

text \<open>A failure of one sub-card does not end the batch.\<close>

definition deregister_one ::
    "('y, 'z) sdk_scheme \<Rightarrow> 'y transport \<Rightarrow> bytes \<Rightarrow> bytes \<times> string \<Rightarrow> ('y, deregistration_outcome) dact" where
  "deregister_one p tr masterSecretKey = (\<lambda>(subCardPublicKey, pressBaseUrl).
     bindA (caught (wallet_deregisterSubCard p tr pressBaseUrl subCardPublicKey masterSecretKey)) (\<lambda>r.
       retA \<lparr>dx_subCardAddress = keccak256 p subCardPublicKey, dx_result = r\<rparr>))"

definition deregisterSubCardsAfterRecovery ::
    "('y, 'z) sdk_scheme \<Rightarrow> 'y transport \<Rightarrow> bytes \<Rightarrow> (bytes \<times> string) list \<Rightarrow> ('y, deregistration_outcome list) dact" where
  "deregisterSubCardsAfterRecovery p tr masterSecretKey subCards = mapA (deregister_one p tr masterSecretKey) subCards"

section \<open>Recovery\<close>

datatype recovery_method = By_Synced_Passkey | By_Yubikey "string option"

record 'y recovery_options =
  rx_setup :: "'y setup_options"
  rx_cardHash :: string
  rx_method :: recovery_method
  rx_wrappedBlob :: bytes
  rx_keyringId :: string
  rx_previouslyActive :: "(bytes \<times> string) list"

record recovery_result =
  ry_masterPublicKey :: bytes
  ry_keyringId :: js
  ry_passkeyCredentialId :: bytes
  ry_subCard :: device_subcard
  ry_deregistrations :: "deregistration_outcome list"

definition wrapping_key :: "('y, 'z) sdk_scheme \<Rightarrow> recovery_method \<Rightarrow> ('y, bytes) dact" where
  "wrapping_key p m = (case m of
     By_Synced_Passkey \<Rightarrow>
       bindA (freshD (sdk_random p 32)) (\<lambda>challenge.
       bindA (outD (passkey_assert p challenge)) (\<lambda>assertion.
         liftA (prf_output p ''Error: recoverWallet: synced-passkey assertion did not return a PRF output; cannot reconstruct the wrapping key.'' assertion)))
   | By_Yubikey pin \<Rightarrow> (case pin of
       None \<Rightarrow> throwA (JsError ''Error: recoverWallet: yubiKeyProvider and yubiKeyPin are required when method is yubikey.'')
     | Some s \<Rightarrow> if s = [] then throwA (JsError ''Error: recoverWallet: yubiKeyProvider and yubiKeyPin are required when method is yubikey.'')
         else outD (yubikey_key p s)))"

text \<open>\<open>entries.find\<close>, and the check that the key belongs to the card.\<close>

definition master_key_of :: "('y, 'z) sdk_scheme \<Rightarrow> string \<Rightarrow> keyring_entry list \<Rightarrow> bytes res" where
  "master_key_of p cardHash entries =
     (case find (\<lambda>k. ke_cardAddress k = Str cardHash) entries of
        None \<Rightarrow> Inl (JsError (''Error: recoverWallet: decrypted keyring has no entry for card_hash '' @ cardHash @ ''.''))
      | Some k \<Rightarrow>
          if keccak256 p (ml_dsa44_public_key p (ke_privateKey k)) = cardHash then Inr (ke_privateKey k)
          else Inl (JsError ''Error: recoverWallet: recovered master key does not match the expected card_hash.''))"

text \<open>The keyring's entries and the master secret key.\<close>

definition recover_keyring :: "('y, 'z) sdk_scheme \<Rightarrow> 'y recovery_options \<Rightarrow> ('y, keyring_entry list \<times> bytes) dact" where
  "recover_keyring p o' =
     bindA (wrapping_key p (rx_method o')) (\<lambda>wrappingKey.
     bindA (liftA (unwrapDecryptionKey p (rx_wrappedBlob o') wrappingKey)) (\<lambda>decryptionKey.
     bindA (fetchKeyringBlob p (su_transport (rx_setup o')) (rx_keyringId o')) (\<lambda>blob.
     bindA (liftA (decryptKeyring p blob decryptionKey)) (\<lambda>entries.
     bindA (liftA (master_key_of p (rx_cardHash o') entries)) (\<lambda>secretKey. retA (entries, secretKey))))))"

text \<open>A new passkey and two replacements of the keyring: passkey and identifier of the keyring.\<close>

definition reregister ::
    "('y, 'z) sdk_scheme \<Rightarrow> 'y recovery_options \<Rightarrow> keyring_entry list \<Rightarrow> bytes \<Rightarrow> ('y, bytes \<times> js) dact" where
  "reregister p o' entries secretKey =
     (let tr = su_transport (rx_setup o') in
      bindA (freshD (sdk_random p 32)) (\<lambda>challenge.
      bindA (outD (passkey_register p challenge)) (\<lambda>registration.
      bindA (liftA (prf_output p ''Error: recoverWallet: new device-bound passkey registration did not return a PRF output'' registration)) (\<lambda>output.
      bindA (encryptKeyring p entries output) (\<lambda>provisional.
      bindA (put_keyring p tr (rx_cardHash o') secretKey provisional False) (\<lambda>answer.
      bindA (liftA (service_secret_key p output answer)) (\<lambda>decryptionKey.
      bindA (seal_keyring p ''recoverWallet'' tr (su_storageKey (rx_setup o')) (rx_cardHash o') secretKey entries decryptionKey) (\<lambda>keyringId.
        retA (pk_credentialId registration, keyringId)))))))))"

definition recoverWallet :: "('y, 'z) sdk_scheme \<Rightarrow> 'y recovery_options \<Rightarrow> ('y, recovery_result) dact" where
  "recoverWallet p o' =
     bindA (recover_keyring p o') (\<lambda>(entries, secretKey).
     let publicKey = ml_dsa44_public_key p secretKey in
     bindA (deregisterSubCardsAfterRecovery p (su_transport (rx_setup o')) secretKey (rx_previouslyActive o')) (\<lambda>outcomes.
     bindA (reregister p o' entries secretKey) (\<lambda>(credentialId, keyringId).
     bindA (registerDeviceSubCard p (setup_subcard (rx_setup o') (rx_cardHash o') publicKey) secretKey) (\<lambda>subCard.
       retA \<lparr>ry_masterPublicKey = publicKey, ry_keyringId = keyringId, ry_passkeyCredentialId = credentialId,
             ry_subCard = subCard, ry_deregistrations = outcomes\<rparr>))))"

end
