(* ===== verification/Sdk_Laws.thy ===== *)
theory Sdk_Laws
  imports App_Messaging Wallet_Custody Press_Crypto
begin

text \<open>
  What the client libraries rely on of the code they call (authenticated encryption, encapsulation,
  signatures, JSON, random bytes of the asked length), and the lemmas of the library on sealed blobs,
  keyrings and copies of messages.
\<close>

section \<open>Laws of the surroundings\<close>

definition gcm_law :: "('r) runtime_scheme \<Rightarrow> bool" where
  "gcm_law p \<longleftrightarrow> (\<forall>k n m. aes_gcm_open (crypto_ops p) k n (aes_gcm_seal p k n m) = Inr m)"

definition random_law :: "('y, 'z) sdk_scheme \<Rightarrow> bool" where
  "random_law p \<longleftrightarrow> (\<forall>n y. length (fst (sdk_random p n y)) = n)"

text \<open>\<open>JSON.parse\<close> of what \<open>JSON.stringify\<close> has written.\<close>

definition json_law :: "('h) runtime_scheme \<Rightarrow> js \<Rightarrow> bool" where
  "json_law p v \<longleftrightarrow> json_parse p (utf8_encode (json_stringify v)) = Inr v"

definition kem_pair :: "('y, 'z) sdk_scheme \<Rightarrow> bytes \<Rightarrow> bytes \<Rightarrow> bool" where
  "kem_pair p publicKey secretKey \<longleftrightarrow>
     (\<forall>y ct ss y'. kem_encapsulate p publicKey y = (Inr (ct, ss), y') \<longrightarrow>
        kem_decapsulate p ct secretKey = Inr ss \<and> length ct < 2 ^ 32)"

definition signature_law :: "('r) runtime_scheme \<Rightarrow> bool" where
  "signature_law p \<longleftrightarrow> (\<forall>sk m. ml_dsa44_verify (crypto_ops p) (ml_dsa44_sign p m sk) m (ml_dsa44_public_key p sk) = Inr True)"

definition keygen_law :: "('y, 'z) sdk_scheme \<Rightarrow> bool" where
  "keygen_law p \<longleftrightarrow> (\<forall>y. ml_dsa44_public_key p (snd (fst (sdk_keygen p y))) = fst (fst (sdk_keygen p y)))"

lemma signature_verifies:
  "signature_law p \<Longrightarrow> mlDsa44Verify p (ml_dsa44_public_key p sk) m (ml_dsa44_sign p m sk) = Inr True"
  by (simp add: signature_law_def mlDsa44Verify_def)

section \<open>Sealed blobs\<close>

definition sealed_blob :: "('r) runtime_scheme \<Rightarrow> bytes \<Rightarrow> bytes \<Rightarrow> bytes \<Rightarrow> bytes" where
  "sealed_blob p key nonce plaintext = nonce @ aes_gcm_seal p key nonce plaintext"

interpretation device_sealing: sealing "sealed_blob p" "\<lambda>k b. unwrapDecryptionKey p b k" "\<lambda>n. gcm_law p \<and> length n = 12"
  by unfold_locales (auto simp: sealed_blob_def unwrapDecryptionKey_def gcm_law_def)

lemma wrapDecryptionKey_run:
  "wrapDecryptionKey p k w d =
     (Inr (sealed_blob p w (fst (sdk_random p 12 (dv_outer d))) k), d\<lparr>dv_outer := snd (sdk_random p 12 (dv_outer d))\<rparr>)"
  by (simp add: wrapDecryptionKey_def bindA_def act_simps sealed_blob_def)

lemma wrapped_key_unwraps:
  assumes "gcm_law p" "random_law p" "wrapDecryptionKey p k w d = (Inr blob, d')"
  shows "unwrapDecryptionKey p blob w = Inr k"
  using assms device_sealing.opens [of p] by (auto simp: wrapDecryptionKey_run random_law_def)

section \<open>Keyrings\<close>

lemma encryptKeyring_run:
  "encryptKeyring p entries k d =
     (Inr (sealed_blob p k (fst (sdk_random p 12 (dv_outer d))) (utf8_encode (json_stringify (keyring_js entries)))),
      d\<lparr>dv_outer := snd (sdk_random p 12 (dv_outer d))\<rparr>)"
  by (simp add: encryptKeyring_def bindA_def act_simps sealed_blob_def)

lemma to_standard_idem [simp]: "to_standard (to_standard c) = to_standard c"
  by (auto simp: to_standard_def)

lemma base64_padding_ignored:
  "base64url_to_bytes (s @ replicate n (CHR ''='')) = base64url_to_bytes s"
proof -
  have "filter in_alphabet (replicate n (CHR ''='')) = []"
    by (auto simp: in_alphabet_def to_standard_def standard_alphabet_def)
  then have "filter in_alphabet (s @ replicate n (CHR ''='')) = filter in_alphabet s" by simp
  then show ?thesis by (metis base64url_to_bytes_filter)
qed

lemma base64_round_trip: "base64url_to_bytes (bytesToBase64 bs) = bs"
proof -
  have "base64url_to_bytes (map to_standard (bytes_to_base64url bs)) = base64url_to_bytes (bytes_to_base64url bs)"
    by (simp add: base64url_to_bytes_def comp_def)
  then show ?thesis
    by (simp add: bytesToBase64_def Let_def base64_padding_ignored base64url_round_trip)
qed

lemma keyring_entry_round_trip: "keyring_entry_of p (keyring_entry_js k) = Inr k"
  by (simp add: keyring_entry_of_def keyring_entry_js_def lookup_key_def field_def base64_round_trip)

lemma keyring_entries_round_trip: "mapE (keyring_entry_of p) (map keyring_entry_js ks) = Inr ks"
  by (induction ks) (simp_all add: keyring_entry_round_trip)

lemma decryptKeyring_sealed:
  assumes "gcm_law p" "length n = 12" "json_law p (keyring_js entries)"
  shows "decryptKeyring p (sealed_blob p k n (utf8_encode (json_stringify (keyring_js entries)))) k = Inr entries"
  using assms keyring_entries_round_trip
  by (simp add: decryptKeyring_def sealed_blob_def gcm_law_def json_law_def)
    (simp add: keyring_js_def lookup_key_def)

section \<open>Copies of a message\<close>

lemma be32_length [simp]: "length (be32 n) = 4"
  by (simp add: be32_def)

lemma be32_value_be32: "n < 2 ^ 32 \<Longrightarrow> be32_value (be32 n) = n"
proof -
  assume n: "n < 2 ^ 32"
  have byte: "unat (of_nat m :: byte) = m mod 256" for m
    by (simp add: unsigned_of_nat take_bit_eq_mod)
  have "n div 16777216 < 256" using n by (simp add: div_less_iff_less_mult)
  moreover have "n = 256 * (n div 256) + n mod 256" by simp
  moreover have "n div 256 = 256 * (n div 65536) + n div 256 mod 256"
    using div_mult_mod_eq [of "n div 256" 256] by (simp add: div_mult2_eq [symmetric])
  moreover have "n div 65536 = 256 * (n div 16777216) + n div 65536 mod 256"
    using div_mult_mod_eq [of "n div 65536" 256] by (simp add: div_mult2_eq [symmetric])
  ultimately have "16777216 * (n div 16777216) + 65536 * (n div 65536 mod 256) + 256 * (n div 256 mod 256) + n mod 256 = n"
    by linarith
  with \<open>n div 16777216 < 256\<close> show ?thesis
    by (simp add: be32_def be32_value_def byte)
qed

lemma open_fanout_blob:
  assumes "length ct < 2 ^ 32" "length nonce = 12" "kem_decapsulate p ct sk = Inr ss" "gcm_law p"
  shows "open_blob p sk (fanout_blob ct nonce (aes_gcm_seal p (hkdfSha3256 p ss FANOUT_KEY_INFO) nonce m)) = json_parse p m"
  using assms by (simp add: open_blob_def fanout_blob_def be32_value_be32 Let_def gcm_law_def)

lemma seal_copy_opens:
  assumes "gcm_law p" "random_law p" "kem_pair p (sb_mlKemPublicKey s) sk"
    and run: "seal_copy p r m s d = (Inr c, d')"
  shows "re_to c = r \<and> re_subcard_hash c = sb_subCardHash s \<and> decryptRoutingEnvelope p c sk = json_parse p m"
proof -
  from run obtain ct ss y n where kem: "kem_encapsulate p (sb_mlKemPublicKey s) (dv_outer d) = (Inr (ct, ss), y)"
    and n: "n = fst (sdk_random p 12 y)"
    and c: "c = \<lparr>re_to = r, re_subcard_hash = sb_subCardHash s, re_payload = bytes_to_base64url
       (fanout_blob ct n (aes_gcm_seal p (hkdfSha3256 p ss FANOUT_KEY_INFO) n m))\<rparr>"
    by (cases "kem_encapsulate p (sb_mlKemPublicKey s) (dv_outer d)") (auto simp: seal_copy_def act_simps)
  from assms(3) kem have "kem_decapsulate p ct sk = Inr ss \<and> length ct < 2 ^ 32"
    unfolding kem_pair_def by blast
  moreover from assms(2) have "length n = 12" by (simp add: random_law_def n)
  ultimately show ?thesis
    using assms(1) open_fanout_blob [of ct n p sk ss m]
    by (simp add: c decryptRoutingEnvelope_def base64url_round_trip Let_def)
      (simp add: fanout_blob_def)
qed

lemma mapA_nth:
  "mapA f xs d = (Inr ys, d') \<Longrightarrow>
     length ys = length xs \<and> (\<forall>i < length xs. \<exists>d1 d2. f (xs ! i) d1 = (Inr (ys ! i), d2))"
proof (induction xs arbitrary: ys d)
  case (Cons x xs)
  then obtain y ys' d1 where "f x d = (Inr y, d1)" "mapA f xs d1 = (Inr ys', d')" "ys = y # ys'"
    by (auto simp: act_simps)
  with Cons.IH [of d1 ys'] show ?case
    by (auto simp: nth_Cons split: nat.split)
qed (simp add: act_simps)

section \<open>A small device\<close>

text \<open>
  A small device for the witnesses: a secret key is its own public key and its own signature, a sealed text
  is the key in front of the text, a parser that knows one answer for the empty body and one value for
  every other text.
\<close>

definition ex_sdk_crypto :: crypto where
  "ex_sdk_crypto = \<lparr>keccak_256 = take 1, sha_256 = take 1, hkdf_sha3_256 = (\<lambda>ikm info n. take 1 ikm),
     aes_gcm_open = (\<lambda>k n ct. if take (length k) ct = k then Inr (drop (length k) ct) else Inl (JsError ''OperationError'')),
     ml_dsa44_verify = (\<lambda>sig msg pk. Inr (sig = pk)), p256_verify = (\<lambda>sig msg pk. Inr True)\<rparr>"

definition ex_sdk :: "js \<Rightarrow> js \<Rightarrow> unit sdk" where
  "ex_sdk v answer = \<lparr>json_parse = (\<lambda>bs. Inr (if bs = [] then answer else v)), regex_test = (\<lambda>r s. Some (r = s)),
     number_of_text = (\<lambda>v. NaN), date_time = (\<lambda>s. Fin 1000), iso_of_ms = (\<lambda>t. ''now''), crypto_ops = ex_sdk_crypto,
     fetched_at = 0, checked_at = 0, now_iso = ''2026'',
     http_post_report = (\<lambda>u r. Inr \<lparr>ok = True, status = 200, body_json = Inr []\<rparr>),
     http_get = (\<lambda>u. Inr \<lparr>ok = False, status = 404, body_json = Inr []\<rparr>),
     ml_dsa44_sign = (\<lambda>m k. k), ml_dsa44_public_key = (\<lambda>k. k), aes_gcm_seal = (\<lambda>k n m. k @ m),
     utf8_decode = map (\<lambda>b. char_of (unat b)), text_of = (\<lambda>v. ''?''),
     bigint_of_literal = (\<lambda>s. Inl (JsError ''SyntaxError'')), buffer_from_object = (\<lambda>kvs. Inl (JsError ''TypeError'')),
     sdk_now = (\<lambda>y. (1000, y)), sdk_random = (\<lambda>n y. (replicate n 0, y)), sdk_storage = (\<lambda>y. (Inr (), y)),
     sdk_keygen = (\<lambda>y. (([7], [7]), y)), kem_encapsulate = (\<lambda>pk y. (Inr (take 5 pk, [9]), y)),
     kem_decapsulate = (\<lambda>ct sk. if ct = take 5 sk then Inr [9] else Inl (JsError ''Error'')),
     hpke_sender = (\<lambda>pk info m n y. (Inr ([1], m, replicate n 2), y)), hkdf_salted = (\<lambda>ikm salt info n. take 1 ikm @ take 1 salt),
     key_generate = (\<lambda>i y. (Inr [8], y)), key_sign = (\<lambda>i m y. (Inr [8], y)),
     passkey_register = (\<lambda>c y. (Inr \<lparr>pk_credentialId = [1], pk_attestationObject = [2], pk_prfOutput = Some [4]\<rparr>, y)),
     passkey_assert = (\<lambda>c y. (Inr \<lparr>pk_credentialId = [1], pk_attestationObject = [2], pk_prfOutput = Some [4]\<rparr>, y)),
     yubikey_key = (\<lambda>pin y. (Inr [6], y)), sdk_fetch = (\<lambda>rq y. (Inr \<lparr>ws_status = 200, ws_headers = Obj [], ws_body = []\<rparr>, y)),
     sdk_verify_clock = (\<lambda>y. (0, 0, ''now''))\<rparr>"

lemma ex_sdk_sel [simp]:
  "json_parse (ex_sdk v a) bs = Inr (if bs = [] then a else v)" "crypto_ops (ex_sdk v a) = ex_sdk_crypto"
  "ml_dsa44_sign (ex_sdk v a) m k = k" "ml_dsa44_public_key (ex_sdk v a) k = k" "aes_gcm_seal (ex_sdk v a) k n m = k @ m"
  "sdk_random (ex_sdk v a) len y = (replicate len 0, y)" "sdk_storage (ex_sdk v a) y = (Inr (), y)"
  "sdk_keygen (ex_sdk v a) y = (([7], [7]), y)" "kem_encapsulate (ex_sdk v a) pk y = (Inr (take 5 pk, [9]), y)"
  "kem_decapsulate (ex_sdk v a) ct sk = (if ct = take 5 sk then Inr [9] else Inl (JsError ''Error''))"
  "iso_of_ms (ex_sdk v a) t = ''now''" "key_generate (ex_sdk v a) i y = (Inr [8], y)"
  "yubikey_key (ex_sdk v a) pin y = (Inr [6], y)"
  by (simp_all add: ex_sdk_def)

lemma ex_sdk_crypto_sel [simp]:
  "keccak_256 ex_sdk_crypto = take 1"
  "ml_dsa44_verify ex_sdk_crypto s m k = Inr (s = k)"
  by (simp_all add: ex_sdk_crypto_def)

lemma ex_sdk_gcm: "gcm_law (ex_sdk v a)" by (simp add: gcm_law_def ex_sdk_crypto_def)
lemma ex_sdk_random: "random_law (ex_sdk v a)" by (simp add: random_law_def)
lemma ex_sdk_signatures: "signature_law (ex_sdk v a)" by (simp add: signature_law_def)
lemma ex_sdk_kem: "kem_pair (ex_sdk v a) k k" by (auto simp: kem_pair_def min_def)

lemma utf8_nonempty: "s \<noteq> [] \<Longrightarrow> utf8_encode s \<noteq> []"
  by (cases s) (auto simp: utf8_encode_def utf8_char_def Let_def)

lemma ex_json_object: "json_law (ex_sdk (Obj kvs) a) (Obj kvs)"
  by (simp add: json_law_def utf8_nonempty)

lemma canonical_json: "json_value v \<Longrightarrow> \<exists>bs. canonicalize v = Inr bs"
  using canonicalize_iff by blast

definition ex_sdk_device :: "(string \<Rightarrow> bytes option) \<Rightarrow> unit device" where
  "ex_sdk_device s = \<lparr>dv_storage = s, dv_key_configs = Map.empty, dv_outer = ()\<rparr>"

lemma ex_sdk_device_sel [simp]: "dv_storage (ex_sdk_device s) = s" "dv_outer (ex_sdk_device s) = ()"
  by (simp_all add: ex_sdk_device_def)

end
