(* ===== verification/App_Properties.thy ===== *)
theory App_Properties
  imports Sdk_Laws
begin

text \<open>
  Properties of the app library's messaging: a copy sealed for a sub-card opens to the message, a message is
  new at most once, the search for the root of an edit chain ends exactly when the chain does, and a
  sub-card is never scheduled twice for replenishment.
\<close>

section \<open>Copies\<close>

text \<open>C36. Every copy of a message that is sealed for the sub-cards of a recipient is addressed to one of
  them and opens, with its secret key and with no other information, to the message itself.\<close>

theorem fanned_out_message_opens:
  assumes "gcm_law p" "random_law p" "json_law p env"
    and run: "fanOutMessageToSubCards p recipient env subCards d = (Inr copies, d')"
    and i: "i < length subCards" "kem_pair p (sb_mlKemPublicKey (subCards ! i)) sk"
  shows "length copies = length subCards \<and> re_to (copies ! i) = recipient \<and>
     re_subcard_hash (copies ! i) = sb_subCardHash (subCards ! i) \<and>
     decryptRoutingEnvelope p (copies ! i) sk = Inr env"
proof -
  from run i have all: "mapA (seal_copy p recipient (utf8_encode (json_stringify env))) subCards d = (Inr copies, d')"
    by (auto simp: fanOutMessageToSubCards_def act_simps split: if_splits)
  from mapA_nth [OF this] i obtain d1 d2 where len: "length copies = length subCards"
    and c: "seal_copy p recipient (utf8_encode (json_stringify env)) (subCards ! i) d1 = (Inr (copies ! i), d2)" by blast
  from seal_copy_opens [OF assms(1,2) i(2) c] len assms(3) show ?thesis
    by (simp add: json_law_def)
qed

definition ex_target :: sub_card_recipient where
  "ex_target = \<lparr>sb_subCardHash = ''s'', sb_mlKemPublicKey = [5]\<rparr>"

theorem fanned_out_message_opens_witness:
  "\<exists>copies d. fanOutMessageToSubCards (ex_sdk (Obj []) Null) ''r'' (Obj []) [ex_target, ex_target] (ex_sdk_device Map.empty) = (Inr copies, d) \<and>
     length copies = 2 \<and> re_to (copies ! 1) = ''r'' \<and>
     decryptRoutingEnvelope (ex_sdk (Obj []) Null) (copies ! 1) [5] = Inr (Obj [])"
proof -
  obtain copies d where run: "fanOutMessageToSubCards (ex_sdk (Obj []) Null) ''r'' (Obj []) [ex_target, ex_target] (ex_sdk_device Map.empty) = (Inr copies, d)"
    by (simp add: fanOutMessageToSubCards_def seal_copy_def act_simps bindA_def ex_target_def)
  from fanned_out_message_opens [OF ex_sdk_gcm ex_sdk_random ex_json_object run, of 1 "[5]"] show ?thesis
    using run by (auto simp: ex_target_def ex_sdk_kem)
qed

section \<open>Received copies\<close>

text \<open>Copies handled one after the other; a failure of one does not end the sequence.\<close>

fun inbound_run :: "('y, 'z) sdk_scheme \<Rightarrow> 'y card_verifier \<Rightarrow> string option \<Rightarrow> bytes \<Rightarrow> routing_envelope list
    \<Rightarrow> 'y device \<Rightarrow> inbound_result res list" where
  "inbound_run p cv prefix sk [] d = []"
| "inbound_run p cv prefix sk (c # cs) d =
     (case handleInboundRoutingEnvelope p cv prefix c sk d of (r, d') \<Rightarrow> r # inbound_run p cv prefix sk cs d')"

text \<open>The identifier of a message that is reported as new.\<close>

fun new_id :: "inbound_result res \<Rightarrow> string list" where
  "new_id (Inr (Inbound_Message env i v False)) = [i]"
| "new_id r = []"

fun well_signed :: "('y, 'z) sdk_scheme \<Rightarrow> inbound_result res \<Rightarrow> bool" where
  "well_signed p (Inr (Inbound_Message env i v dup)) =
     (any_signature_valid v \<and> bindE (js_prop env ''payload'') (messageId p) = Inr i)"
| "well_signed p r = True"

lemma storage_set_storage:
  "storage_set p k v d = (r, d') \<Longrightarrow> dv_storage d' = dv_storage d \<or> dv_storage d' = (dv_storage d)(k \<mapsto> v)"
  by (auto simp: storage_set_def act_simps bindA_eq)

lemma store_message_effect:
  assumes "store_message p prefix env v d = (r, d')"
  shows "(\<forall>k. dv_storage d k \<noteq> None \<longrightarrow> dv_storage d' k = dv_storage d k) \<and>
     (any_signature_valid v \<longrightarrow> well_signed p r) \<and>
     list_all (\<lambda>i. dv_storage d (history_key prefix i) = None \<and> dv_storage d' (history_key prefix i) \<noteq> None) (new_id r)"
proof (cases "bindE (js_prop env ''payload'') (messageId p)")
  case (Inl e)
  with assms show ?thesis by (auto simp: store_message_def act_simps)
next
  case (Inr i)
  let ?k = "history_key prefix i"
  show ?thesis
  proof (cases "storage_get p ?k d")
    case get: (Pair g d1)
    show ?thesis
    proof (cases g)
      case (Inl e)
      with get keepsD [OF keeps_storage_get get] assms Inr show ?thesis
        by (auto simp: store_message_def act_simps)
    next
      case g: (Inr existing)
      with get have ex: "existing = dv_storage d ?k" and d1: "dv_storage d1 = dv_storage d"
        using storage_get_Inr [of p ?k d existing d1] by auto
      show ?thesis
      proof (cases existing)
        case (Some b)
        with get g Inr have "store_message p prefix env v d = (Inr (Inbound_Message env i v True), d1)"
          by (simp add: store_message_def bindA_def act_simps)
        with assms d1 Inr show ?thesis by auto
      next
        case None
        let ?set = "storage_set p ?k (utf8_encode (json_stringify env)) d1"
        have run: "store_message p prefix env v d =
           bindA (storage_set p ?k (utf8_encode (json_stringify env))) (\<lambda>_. retA (Inbound_Message env i v False)) d1"
          using get g None Inr by (simp add: store_message_def bindA_def act_simps split: prod.split sum.split)
        obtain s d2 where s: "?set = (s, d2)" by (cases ?set)
        show ?thesis
        proof (cases s)
          case (Inl e)
          with s run assms d1 storage_set_storage [OF s] None ex show ?thesis
            by (auto simp: bindA_def fun_upd_def)
        next
          case s2: (Inr u)
          with s storage_set_Inr have "dv_storage d2 = (dv_storage d1)(?k \<mapsto> utf8_encode (json_stringify env))" by blast
          with s s2 run assms d1 None ex Inr show ?thesis
            by (auto simp: bindA_def retA_def)
        qed
      qed
    qed
  qed
qed

lemma caught_verify:
  "caught (verify_envelope_at p cv env) d = (Inr (verify_js_envelope (verify_env p (dv_outer d)) (cv (dv_outer d)) env), d)"
  by (simp add: caught_eq verify_envelope_at_def act_simps)

lemma handle_inbound_effect:
  assumes run: "handleInboundRoutingEnvelope p cv prefix c sk d = (r, d')"
  shows "(\<forall>k. dv_storage d k \<noteq> None \<longrightarrow> dv_storage d' k = dv_storage d k) \<and> well_signed p r \<and>
     list_all (\<lambda>i. dv_storage d (history_key prefix i) = None \<and> dv_storage d' (history_key prefix i) \<noteq> None) (new_id r)"
proof (cases "decryptRoutingEnvelope p c sk")
  case (Inl e)
  with run show ?thesis by (auto simp: handleInboundRoutingEnvelope_def act_simps)
next
  case (Inr env)
  let ?v = "verify_js_envelope (verify_env p (dv_outer d)) (cv (dv_outer d)) env"
  show ?thesis
  proof (cases ?v)
    case (Inl e)
    with Inr run show ?thesis
      by (auto simp: handleInboundRoutingEnvelope_def caught_verify bindA_def retA_def)
  next
    case v: (Inr v)
    show ?thesis
    proof (cases "any_signature_valid v")
      case True
      with Inr v run have "store_message p prefix env v d = (r, d')"
        by (simp add: handleInboundRoutingEnvelope_def caught_verify bindA_def)
      from store_message_effect [OF this] True show ?thesis by blast
    next
      case False
      with Inr v run show ?thesis
        by (auto simp: handleInboundRoutingEnvelope_def caught_verify bindA_def retA_def)
    qed
  qed
qed

lemma history_key_inject [simp]: "history_key prefix i = history_key prefix j \<longleftrightarrow> i = j"
  by (simp add: history_key_def)

lemma inbound_run_new:
  "i \<in> set (concat (map new_id (inbound_run p cv prefix sk cs d))) \<Longrightarrow> dv_storage d (history_key prefix i) = None"
proof (induction cs arbitrary: d)
  case (Cons c cs)
  obtain r d' where run: "handleInboundRoutingEnvelope p cv prefix c sk d = (r, d')" by fastforce
  from Cons.prems run consider "i \<in> set (new_id r)" | "i \<in> set (concat (map new_id (inbound_run p cv prefix sk cs d')))" by auto
  then show ?case
  proof cases
    case 1
    with handle_inbound_effect [OF run] show ?thesis by (auto simp: list_all_iff)
  next
    case 2
    from Cons.IH [OF this] handle_inbound_effect [OF run] show ?thesis by metis
  qed
qed simp

text \<open>C37. Whatever sequence of copies a device handles, each accepted message carries a valid signature and
  its own identifier, and no identifier is reported as new a second time.\<close>

theorem message_is_new_once:
  "list_all (well_signed p) (inbound_run p cv prefix sk copies d) \<and>
   distinct (concat (map new_id (inbound_run p cv prefix sk copies d)))"
proof (induction copies arbitrary: d)
  case (Cons c cs)
  obtain r d' where run: "handleInboundRoutingEnvelope p cv prefix c sk d = (r, d')" by fastforce
  have single: "distinct (new_id r)"
    by (induction r rule: new_id.induct) auto
  have "set (new_id r) \<inter> set (concat (map new_id (inbound_run p cv prefix sk cs d'))) = {}"
    using handle_inbound_effect [OF run] inbound_run_new [of _ p cv prefix sk cs d'] by (fastforce simp: list_all_iff)
  with Cons.IH [of d'] single handle_inbound_effect [OF run] run show ?case by simp
qed simp

section \<open>Edit chains\<close>

definition edit_step :: "('e) env_scheme \<Rightarrow> (js \<Rightarrow> js option res) \<Rightarrow> js \<Rightarrow> js \<Rightarrow> bool" where
  "edit_step e resolvePrior a b \<longleftrightarrow> (\<exists>i. messageId e a = Inr i) \<and> field a ''edit_of'' \<noteq> Undef \<and>
     resolvePrior (field a ''edit_of'') = Inr (Some b)"

lemma edit_root_next: "edit_step e rp a b \<Longrightarrow> resolveEditRoot e rp a = resolveEditRoot e rp b"
  by (subst resolveEditRoot.simps) (auto simp: edit_step_def)

lemma edit_root_none_step: "resolveEditRoot e rp a = None \<Longrightarrow> \<exists>b. edit_step e rp a b \<and> resolveEditRoot e rp b = None"
  by (subst (asm) resolveEditRoot.simps) (auto simp: edit_step_def split: sum.splits option.splits if_splits)

lemma edit_root_ends:
  assumes "resolveEditRoot e rp a = Some r" shows "\<not> (f 0 = a \<and> (\<forall>i. edit_step e rp (f i) (f (Suc i))))"
proof -
  have "\<forall>f. f 0 = a \<longrightarrow> \<not> (\<forall>i. edit_step e rp (f i) (f (Suc i)))"
    using assms
  proof (rule resolveEditRoot.raw_induct [where P = "\<lambda>e rp a r. \<forall>f. f 0 = a \<longrightarrow> \<not> (\<forall>i. edit_step e rp (f i) (f (Suc i)))", rotated])
    fix rec e' rp' b r'
    assume IH: "\<And>e rp a r. rec e rp a = Some r \<Longrightarrow> \<forall>f. f 0 = a \<longrightarrow> \<not> (\<forall>i. edit_step e rp (f i) (f (Suc i)))"
      and run: "(case messageId e' b of Inl err \<Rightarrow> Some (Inl err)
        | Inr currentId \<Rightarrow> if field b ''edit_of'' = Undef then Some (Inr (Str currentId))
            else (case rp' (field b ''edit_of'') of Inl err \<Rightarrow> Some (Inl err)
              | Inr None \<Rightarrow> Some (Inr (field b ''edit_of'')) | Inr (Some prior) \<Rightarrow> rec e' rp' prior)) = Some r'"
    show "\<forall>f. f 0 = b \<longrightarrow> \<not> (\<forall>i. edit_step e' rp' (f i) (f (Suc i)))"
    proof (intro allI impI notI)
      fix f :: "nat \<Rightarrow> js" assume f: "f 0 = b" and steps: "\<forall>i. edit_step e' rp' (f i) (f (Suc i))"
      from steps f have "edit_step e' rp' b (f 1)" by (metis One_nat_def)
      with run have "rec e' rp' (f 1) = Some r'" by (auto simp: edit_step_def)
      from IH [OF this] steps show False
        by (auto dest!: spec [of _ "\<lambda>i. f (Suc i)"])
    qed
  qed
  then show ?thesis by blast
qed

text \<open>C39. The search for the root of an edit chain runs for ever on exactly the chains that never end in the
  caller's store; on every other message it gives an answer, and a message that edits another has the
  root of the one it edits.\<close>

theorem edit_root_returns_unless_chain_is_endless:
  "(resolveEditRoot e resolvePrior payload = None \<longleftrightarrow>
     (\<exists>f. f 0 = payload \<and> (\<forall>i. edit_step e resolvePrior (f i) (f (Suc i))))) \<and>
   {b. edit_step e resolvePrior payload b} \<subseteq> {b. resolveEditRoot e resolvePrior payload = resolveEditRoot e resolvePrior b}"
proof (intro conjI)
  show "resolveEditRoot e resolvePrior payload = None \<longleftrightarrow>
     (\<exists>f. f 0 = payload \<and> (\<forall>i. edit_step e resolvePrior (f i) (f (Suc i))))"
  proof
    assume none: "resolveEditRoot e resolvePrior payload = None"
    define nxt where "nxt a = (SOME b. edit_step e resolvePrior a b \<and> resolveEditRoot e resolvePrior b = None)" for a
    define f where "f = rec_nat payload (\<lambda>_. nxt)"
    have "resolveEditRoot e resolvePrior (f i) = None \<and> edit_step e resolvePrior (f i) (f (Suc i))" for i
    proof (induction i)
      case 0
      from someI_ex [OF edit_root_none_step [OF none]] none show ?case by (simp add: f_def nxt_def)
    next
      case (Suc i)
      then have "resolveEditRoot e resolvePrior (f (Suc i)) = None" by (metis edit_root_next)
      from someI_ex [OF edit_root_none_step [OF this]] this show ?case by (simp add: f_def nxt_def)
    qed
    moreover have "f 0 = payload" by (simp add: f_def)
    ultimately show "\<exists>f. f 0 = payload \<and> (\<forall>i. edit_step e resolvePrior (f i) (f (Suc i)))" by blast
  next
    assume "\<exists>f. f 0 = payload \<and> (\<forall>i. edit_step e resolvePrior (f i) (f (Suc i)))"
    with edit_root_ends show "resolveEditRoot e resolvePrior payload = None" by (metis option.exhaust)
  qed
qed (auto dest: edit_root_next)

section \<open>Replenishment\<close>

datatype pool_event = Pool_Report string int rat | Timer_Runs_Off nat | Pool_Cancel string

fun pool_step :: "pool_event \<Rightarrow> scheduler \<Rightarrow> scheduler" where
  "pool_step (Pool_Report c n r) s = reportPoolStatus c n r s"
| "pool_step (Timer_Runs_Off i) s = (case timer_fires i s of None \<Rightarrow> s | Some (c, s') \<Rightarrow> s')"
| "pool_step (Pool_Cancel c) s = cancel_replenishment c s"

definition timers_match :: "scheduler \<Rightarrow> bool" where
  "timers_match s \<longleftrightarrow> distinct (map fst (sh_timers s)) \<and> (\<forall>(i, r) \<in> set (sh_timers s). i < sh_next s) \<and>
     (\<forall>c i. sh_pending s c = Some i \<longleftrightarrow> (\<exists>r. (i, c, r) \<in> set (sh_timers s)))"

lemma timers_match_remove:
  assumes "timers_match s" "sh_pending s c = Some i"
  shows "timers_match (s\<lparr>sh_timers := filter (\<lambda>(j, r). j \<noteq> i) (sh_timers s), sh_pending := (sh_pending s)(c := None)\<rparr>)"
proof -
  have other: "c' = c" if "(i, c', r) \<in> set (sh_timers s)" for c' r
  proof -
    from assms obtain r' where "(i, c, r') \<in> set (sh_timers s)" by (auto simp: timers_match_def)
    with that assms show ?thesis
      using map_of_eq_Some_iff [of "sh_timers s" i] by (fastforce simp: timers_match_def)
  qed
  have same: "j = i" if "(j, c, r) \<in> set (sh_timers s)" for j r
    using that assms by (metis (no_types, lifting) option.inject timers_match_def)
  from assms show ?thesis
    by (auto simp: timers_match_def distinct_map inj_on_def dest: other same)
qed

lemma timers_match_step: "timers_match s \<Longrightarrow> timers_match (pool_step e s)"
proof (cases e)
  case (Pool_Report c n r)
  then show "timers_match s \<Longrightarrow> timers_match (pool_step e s)"
    by (fastforce simp: timers_match_def reportPoolStatus_def)
next
  case (Timer_Runs_Off i)
  assume inv: "timers_match s"
  show ?thesis
  proof (cases "map_of (sh_timers s) i")
    case (Some cr)
    obtain c due where "cr = (c, due)" by (cases cr)
    with Some have "(i, c, due) \<in> set (sh_timers s)" by (auto dest: map_of_SomeD)
    with inv have "sh_pending s c = Some i" by (auto simp: timers_match_def)
    with timers_match_remove [OF inv this] Some \<open>cr = (c, due)\<close> Timer_Runs_Off show ?thesis
      by (simp add: timer_fires_def)
  qed (use inv Timer_Runs_Off in \<open>simp add: timer_fires_def\<close>)
next
  case (Pool_Cancel c)
  assume inv: "timers_match s"
  with Pool_Cancel timers_match_remove [OF inv] show ?thesis
    by (simp add: cancel_replenishment_def split: option.split)
qed

text \<open>Whatever pool levels are reported, timers run off and schedules are cancelled, in any order: a
  sub-card is scheduled exactly when one timer of its own is running, and never two.\<close>

theorem one_timer_for_a_scheduled_subcard:
  "let s = fold pool_step events (new_scheduler threshold minDelay maxDelay) in
     distinct (map (\<lambda>(i, c, due). c) (sh_timers s)) \<and>
     {c. isScheduled c s} = (\<lambda>(i, c, due). c) ` set (sh_timers s)"
proof -
  let ?s = "fold pool_step events (new_scheduler threshold minDelay maxDelay)"
  have "timers_match s \<Longrightarrow> timers_match (fold pool_step es s)" for es s
    by (induction es arbitrary: s) (auto simp: timers_match_step)
  moreover have "timers_match (new_scheduler threshold minDelay maxDelay)"
    by (simp add: timers_match_def new_scheduler_def)
  ultimately have inv: "timers_match ?s" by blast
  then have inj: "inj_on (\<lambda>(i, c, due). c) (set (sh_timers ?s))"
    by (auto simp: timers_match_def inj_on_def distinct_map) (metis option.inject, metis option.inject prod.inject fst_conv)
  moreover have "distinct (sh_timers ?s)"
    using inv by (auto simp: timers_match_def distinct_map)
  ultimately have "distinct (map (\<lambda>(i, c, due). c) (sh_timers ?s))"
    by (simp add: distinct_map)
  moreover have "{c. isScheduled c ?s} = (\<lambda>(i, c, due). c) ` set (sh_timers ?s)"
    using inv by (force simp: timers_match_def isScheduled_def)
  ultimately show ?thesis by (simp add: Let_def)
qed

end
