(* ===== verification/Wallet_Rooms.thy ===== *)
theory Wallet_Rooms
  imports App_Messaging Wallet_Cards Wallet_Matrix Press_Ipfs
begin

text \<open>
  The Matrix part of the wallet library (\<open>wallet-sdk/src/matrix\<close>): attestations for joining a room,
  messages signed with a card inside an encrypted room, and the discovery of rooms a card may join. The
  Megolm provider and the homeserver are arguments.
\<close>

section \<open>Joining\<close>

definition card_address_of_secret :: "('y, 'z) sdk_scheme \<Rightarrow> bytes \<Rightarrow> string" where
  "card_address_of_secret p secretKey = keccak256 p (ml_dsa44_public_key p secretKey)"

definition attestation_payload :: "('y, 'z) sdk_scheme \<Rightarrow> bytes \<Rightarrow> string \<Rightarrow> string \<Rightarrow> string \<Rightarrow> js" where
  "attestation_payload p secretKey roomId serverName timestamp =
     (let cardHashHex = card_address_of_secret p secretKey in
      Obj [(''type'', Str ''room_join_attestation''),
           (''card_hash'', Str (bytes_to_base64url (sdk_hexToBytes cardHashHex))),
           (''matrix_user_id'', Str (sdk_deriveMatrixUserId p (''0x'' @ cardHashHex) serverName)),
           (''room_id'', Str roomId), (''server_name'', Str serverName),
           (''protocol_version'', Str PROTOCOL_VERSION_0_1), (''timestamp'', Str timestamp)])"

text \<open>A payload signed with a card's secret key, as an envelope.\<close>

definition sign_with_card :: "('y, 'z) sdk_scheme \<Rightarrow> bytes \<Rightarrow> js \<Rightarrow> js res" where
  "sign_with_card p secretKey payload =
     bindE (canonicalize payload) (\<lambda>bs.
       Inr (message_envelope payload [signature_js (ml_dsa44_public_key p secretKey) (ml_dsa44_sign p bs secretKey)]))"

definition buildJoinAttestation :: "('y, 'z) sdk_scheme \<Rightarrow> bytes \<Rightarrow> string \<Rightarrow> string \<Rightarrow> ('y, js) dact" where
  "buildJoinAttestation p secretKey roomId serverName =
     bindA (nowIso p) (\<lambda>t. liftA (sign_with_card p secretKey (attestation_payload p secretKey roomId serverName t)))"

definition joinRoomWithAttestation ::
    "('y, 'z) sdk_scheme \<Rightarrow> bytes \<Rightarrow> string \<Rightarrow> string \<Rightarrow> string \<Rightarrow> string \<Rightarrow> (js \<Rightarrow> ('y, unit) dact) \<Rightarrow> ('y, js) dact" where
  "joinRoomWithAttestation p secretKey roomId homeserverUrl accessToken serverName ensureRoomSession =
     bindA (buildJoinAttestation p secretKey roomId serverName) (\<lambda>attestation.
     bindA (outD (sdk_fetch p \<lparr>wq_method = ''POST'',
              wq_url = strip_slashes homeserverUrl @ ''/_matrix/client/v3/join/'' @ encodeURIComponent roomId,
              wq_headers = [(''Authorization'', ''Bearer '' @ accessToken), (''Content-Type'', ''application/json'')],
              wq_body = Some (utf8_encode (json_stringify (Obj [(''io.cardprotocol.join_attestation'', attestation)])))\<rparr>)) (\<lambda>response.
     bindA (guardA (web_ok response) (JsError (''Error: joinRoomWithAttestation: /join failed for room '' @ roomId @ '' ('' @
              int_str (ws_status response) @ ''): '' @ utf8_decode p (ws_body response)))) (\<lambda>_.
     bindA (liftA (json_parse p (ws_body response))) (\<lambda>body.
     bindA (liftA (js_prop body ''room_id'')) (\<lambda>i.
     bindA (ensureRoomSession (nullish i (Str roomId))) (\<lambda>_. retA (nullish i (Str roomId))))))))"

section \<open>Signed messages in a room\<close>

definition room_payload :: "message_options \<Rightarrow> string option \<Rightarrow> string \<Rightarrow> js" where
  "room_payload o' matrixEventId timestamp = Obj
     ([(''type'', Str (mo_type o')), (''content'', mo_content o'), (''protocol_version'', Str PROTOCOL_VERSION_0_1),
       (''timestamp'', Str timestamp)] @ optional_text ''matrix_event_id'' matrixEventId @
      optional_text ''edit_of'' (mo_editOf o') @ optional_text ''retracts'' (mo_retracts o') @
      optional_text ''forwards'' (mo_forwards o') @ optional_text ''in_reply_to'' (mo_inReplyTo o'))"

definition session_mismatch :: "string \<Rightarrow> string \<Rightarrow> exn" where
  "session_mismatch derived active = JsError (''SigningCardSessionMismatchError: sendCardSignedRoomEvent: refusing to sign - the signing card derives Matrix user ID '' @
     derived @ '', which does not match the active session's own Matrix user ID '' @ active)"

text \<open>\<open>encrypt\<close> is the provider's \<open>encryptRoomEvent\<close> for the room and the type of the event.\<close>

definition sendCardSignedRoomEvent ::
    "('y, 'z) sdk_scheme \<Rightarrow> (js \<Rightarrow> ('y, js) dact) \<Rightarrow> message_options \<Rightarrow> string option \<Rightarrow> bytes \<Rightarrow> string \<Rightarrow> string \<Rightarrow> ('y, js) dact" where
  "sendCardSignedRoomEvent p encrypt o' matrixEventId secretKey activeUserId serverName =
     (let derived = sdk_deriveMatrixUserId p (''0x'' @ card_address_of_secret p secretKey) serverName in
      bindA (guardA (derived = activeUserId) (session_mismatch derived activeUserId)) (\<lambda>_.
      bindA (guardA (exclusive_fields o' \<le> 1)
        (JsError ''Error: sendCardSignedRoomEvent: edit_of, retracts, and forwards are mutually exclusive; at most one may be set.'')) (\<lambda>_.
      bindA (given_or_now p (mo_timestamp o')) (\<lambda>t.
      bindA (liftA (sign_with_card p secretKey (room_payload o' matrixEventId t))) encrypt))))"

text \<open>An event of the timeline: its sender and its identifier.\<close>

record room_event =
  rv_sender :: string
  rv_event_id :: string
  rv_content :: js

datatype receive_error = Malformed_Envelope | Invalid_Signature | Sender_Binding_Mismatch string

definition receive_exn :: "receive_error \<Rightarrow> room_event \<Rightarrow> exn" where
  "receive_exn err ev = JsError (case err of
     Malformed_Envelope \<Rightarrow> ''InvalidSignatureError: receiveCardSignedRoomEvent: decrypted content for event '' @ rv_event_id ev @
       '' is not a well-formed card-signature envelope (missing payload or signatures[0]).''
   | Invalid_Signature \<Rightarrow> ''InvalidSignatureError: receiveCardSignedRoomEvent: ML-DSA-44 signature verification failed for event '' @ rv_event_id ev
   | Sender_Binding_Mismatch signer \<Rightarrow> ''SenderBindingMismatchError: receiveCardSignedRoomEvent: sender-binding check failed for event '' @
       rv_event_id ev @ '' - the embedded signature is VALID but was produced by card_hash '' @ signer)"

definition well_formed_envelope :: "js \<Rightarrow> bool" where
  "well_formed_envelope env \<longleftrightarrow> truthy (field env ''payload'') \<and>
     (case field env ''signatures'' of
        Arr (s # ss) \<Rightarrow> truthy (field s ''public_key'') \<and> truthy (field s ''signature'') | _ \<Rightarrow> False)"

definition check_sender ::
    "('y, 'z) sdk_scheme \<Rightarrow> room_event \<Rightarrow> string \<Rightarrow> js \<Rightarrow> bytes \<Rightarrow> bytes \<Rightarrow> (js \<times> string) res" where
  "check_sender p ev serverName payload publicKey signature =
     bindE (canonicalize payload) (\<lambda>bs.
     bindE (mlDsa44Verify p publicKey bs signature) (\<lambda>valid.
       let signerCardHash = ''0x'' @ keccak256 p publicKey in
       if \<not> valid then Inl (receive_exn Invalid_Signature ev)
       else if \<not> sdk_verifyMatrixUserIdBinding p signerCardHash (rv_sender ev) serverName
       then Inl (receive_exn (Sender_Binding_Mismatch signerCardHash) ev)
       else Inr (payload, signerCardHash)))"

text \<open>The payload and the card that signed it.\<close>

definition receiveCardSignedRoomEvent ::
    "('y, 'z) sdk_scheme \<Rightarrow> (room_event \<Rightarrow> ('y, js) dact) \<Rightarrow> room_event \<Rightarrow> string \<Rightarrow> ('y, js \<times> string) dact" where
  "receiveCardSignedRoomEvent p decrypt ev serverName =
     bindA (decrypt ev) (\<lambda>env.
     bindA (guardA (well_formed_envelope env) (receive_exn Malformed_Envelope ev)) (\<lambda>_.
     let s = js_index0 (field env ''signatures'') in
     bindA (liftA (js_base64 (field s ''public_key''))) (\<lambda>publicKey.
     bindA (liftA (js_base64 (field s ''signature''))) (\<lambda>signature.
       liftA (check_sender p ev serverName (field env ''payload'') publicKey signature)))))"

section \<open>Discovery\<close>

definition buildRoomDiscoveryEnvelope :: "('y, 'z) sdk_scheme \<Rightarrow> bytes \<Rightarrow> string \<Rightarrow> js res" where
  "buildRoomDiscoveryEnvelope p secretKey timestamp = sign_with_card p secretKey
     (Obj [(''message'', Str ''room-discovery-chain-walk''), (''protocol_version'', Str PROTOCOL_VERSION_0_1),
           (''timestamp'', Str timestamp)])"

definition sdk_fetchPredicateDocument :: "('y, 'z) sdk_scheme \<Rightarrow> string \<Rightarrow> string \<Rightarrow> ('y, js) dact" where
  "sdk_fetchPredicateDocument p policyId gateway =
     catchA (bindA (fetch_get p (joinUrl gateway policyId)) (\<lambda>res.
             if web_ok res then liftA (json_parse p (ws_body res)) else retA Null))
       (\<lambda>err. retA Null)"

definition sdk_room_eligible :: "('y, 'z) sdk_scheme \<Rightarrow> string \<Rightarrow> chain_link list \<Rightarrow> js \<Rightarrow> ('y, js list) dact" where
  "sdk_room_eligible p gateway chain entry =
     bindA (liftA (js_prop entry ''policy_id'')) (\<lambda>policyId.
     bindA (sdk_fetchPredicateDocument p (literal p policyId) gateway) (\<lambda>doc.
       if doc = Null then retA []
       else bindA (liftA (evaluateRoomPredicate p doc chain)) (\<lambda>eligible.
         retA (if eligible then [field entry ''room_id''] else []))))"

definition first_chain :: "envelope_result \<Rightarrow> chain_link list" where
  "first_chain r = (case er_signatures r of [] \<Rightarrow> [] | s # ss \<Rightarrow> (case sr_chain s of None \<Rightarrow> [] | Some c \<Rightarrow> c))"

definition discoverRooms ::
    "('y, 'z) sdk_scheme \<Rightarrow> bytes \<Rightarrow> string \<Rightarrow> string \<Rightarrow> 'y card_verifier \<Rightarrow> ('y, js list) dact" where
  "discoverRooms p secretKey roomIndexUrl gateway cv =
     bindA (nowIso p) (\<lambda>t.
     bindA (liftA (buildRoomDiscoveryEnvelope p secretKey t)) (\<lambda>env.
     bindA (verify_envelope_at p cv env) (\<lambda>verification.
     bindA (fetch_get p roomIndexUrl) (\<lambda>indexResponse.
     bindA (guardA (web_ok indexResponse)
              (JsError (''Error: failed to fetch room index ('' @ int_str (ws_status indexResponse) @ ''): '' @ roomIndexUrl))) (\<lambda>_.
     bindA (liftA (bindE (json_parse p (ws_body indexResponse)) (\<lambda>index. bindE (js_prop index ''rooms'') js_iterate))) (\<lambda>rooms.
     bindA (mapA (sdk_room_eligible p gateway (first_chain verification)) rooms) (\<lambda>found. retA (concat found))))))))"

end
