(* ===== verification/Sdk_Properties.thy ===== *)
theory Sdk_Properties
  imports Sdk_Laws Wallet_Rooms Press_Runs Press_Server Wallet_Ohttp
begin

text \<open>
  Properties of what the wallet library makes: a backed-up keyring that comes back, a countersigned offer
  the issuer passes on, a sub-card document the press accepts, a room message bound to its sender, and the
  same Matrix account on both sides.
\<close>

section \<open>Backup and recovery\<close>

text \<open>C22. What a backup wraps and the keyring it belongs to come back: with the wrapping key of the
  backup, the recovery reads every entry of the keyring and the master key, whatever the nonces were.\<close>

theorem recovery_restores_the_keyring:
  assumes laws: "gcm_law p" "random_law p" "json_law p (keyring_js entries)"
    and backup: "wrapDecryptionKey p K W d1 = (Inr (rx_wrappedBlob o'), d2)"
    and cipher: "encryptKeyring p entries K d3 = (Inr blob, d4)"
    and key: "wrapping_key p (rx_method o') d = (Inr W, d5)"
    and fetched: "fetchKeyringBlob p (su_transport (rx_setup o')) (rx_keyringId o') d5 = (Inr blob, d6)"
    and own: "master_key_of p (rx_cardHash o') entries = Inr sk"
  shows "recover_keyring p o' d = (Inr (entries, sk), d6)"
proof -
  have "unwrapDecryptionKey p (rx_wrappedBlob o') W = Inr K"
    by (rule wrapped_key_unwraps [OF laws(1,2) backup])
  moreover have "decryptKeyring p blob K = Inr entries"
    using cipher decryptKeyring_sealed [OF laws(1) _ laws(3)] laws(2)
    by (auto simp: encryptKeyring_run random_law_def)
  ultimately show ?thesis
    by (simp add: recover_keyring_def bindA_def act_simps key fetched own)
qed

definition ex_entry_kept :: keyring_entry where
  "ex_entry_kept = \<lparr>ke_cardAddress = Str ''05'', ke_privateKey = [5]\<rparr>"

text \<open>A keyring sealed under the key 3, which a backup wraps under the key of the token, 6.\<close>

definition ex_keyring_blob :: bytes where
  "ex_keyring_blob = replicate 12 0 @ [3] @ utf8_encode (json_stringify (keyring_js [ex_entry_kept]))"

definition ex_recovery_sdk :: "unit sdk" where
  "ex_recovery_sdk = ex_sdk (keyring_js [ex_entry_kept]) (Obj [(''encrypted_blob'', Str (bytes_to_base64url ex_keyring_blob))])"

definition ex_setup :: "unit setup_options" where
  "ex_setup = \<lparr>su_transport = (\<lambda>dest rq. retA \<lparr>tr_status = Num (Fin 200), tr_headers = Obj [], tr_body = []\<rparr>),
     su_walletAppCard = \<lparr>ai_cardPointer = ''03'', ai_publicKey = [3], ai_sign = (\<lambda>bs. retA [3])\<rparr>,
     su_registerSubCard = (\<lambda>v. retA True), su_cardVerifier = (\<lambda>y. ex_config ex_entries), su_capabilities = [],
     su_storageKey = None, su_subCardKeyId = None, su_notificationChannels = Arr [], su_yubiKey = True, su_yubiKeyPin = ''1''\<rparr>"

definition ex_recovery :: "unit recovery_options" where
  "ex_recovery = \<lparr>rx_setup = ex_setup, rx_cardHash = ''05'', rx_method = By_Yubikey (Some ''1''),
     rx_wrappedBlob = replicate 12 0 @ [6, 3], rx_keyringId = ''k'', rx_previouslyActive = []\<rparr>"

lemma keyring_object: "\<exists>kvs. keyring_js entries = Obj kvs"
  by (simp add: keyring_js_def)

theorem recovery_restores_the_keyring_witness:
  "recover_keyring ex_recovery_sdk ex_recovery (ex_sdk_device Map.empty) = (Inr ([ex_entry_kept], [5]), ex_sdk_device Map.empty)"
proof (rule recovery_restores_the_keyring [where K = "[3]" and W = "[6]" and blob = ex_keyring_blob and ?d1.0 = "ex_sdk_device Map.empty"
      and ?d3.0 = "ex_sdk_device Map.empty"])
  show "gcm_law ex_recovery_sdk" "random_law ex_recovery_sdk" by (simp_all add: ex_recovery_sdk_def ex_sdk_gcm ex_sdk_random)
  show "json_law ex_recovery_sdk (keyring_js [ex_entry_kept])"
    unfolding ex_recovery_sdk_def keyring_js_def by (rule ex_json_object)
  show "wrapDecryptionKey ex_recovery_sdk [3] [6] (ex_sdk_device Map.empty) = (Inr (rx_wrappedBlob ex_recovery), ex_sdk_device Map.empty)"
    by (simp add: wrapDecryptionKey_run ex_recovery_sdk_def sealed_blob_def ex_recovery_def)
  show "encryptKeyring ex_recovery_sdk [ex_entry_kept] [3] (ex_sdk_device Map.empty) = (Inr ex_keyring_blob, ex_sdk_device Map.empty)"
    by (simp add: encryptKeyring_run ex_recovery_sdk_def sealed_blob_def ex_keyring_blob_def)
  show "wrapping_key ex_recovery_sdk (rx_method ex_recovery) (ex_sdk_device Map.empty) = (Inr [6], ex_sdk_device Map.empty)"
    by (simp add: wrapping_key_def ex_recovery_def ex_recovery_sdk_def act_simps)
  show "fetchKeyringBlob ex_recovery_sdk (su_transport (rx_setup ex_recovery)) (rx_keyringId ex_recovery) (ex_sdk_device Map.empty) =
      (Inr ex_keyring_blob, ex_sdk_device Map.empty)"
    by (simp add: fetchKeyringBlob_def requestJson_def bindA_def act_simps ex_recovery_def ex_setup_def ex_recovery_sdk_def answered_json_def
        status_refused_def lookup_key_def js_base64_def base64url_round_trip)
  show "master_key_of ex_recovery_sdk (rx_cardHash ex_recovery) [ex_entry_kept] = Inr [5]"
    by (simp add: master_key_of_def ex_recovery_def ex_entry_kept_def keccak256_def ex_recovery_sdk_def)
qed

section \<open>Accepted offers\<close>

definition holds_keyring :: "('y, 'z) sdk_scheme \<Rightarrow> bytes \<Rightarrow> keyring_entry list \<Rightarrow> bytes option \<Rightarrow> bool" where
  "holds_keyring p k entries stored \<longleftrightarrow>
     (\<exists>n. length n = 12 \<and> stored = Some (sealed_blob p k n (utf8_encode (json_stringify (keyring_js entries)))))"

lemma generateAndPersistCardKey_Inr:
  assumes "random_law p" "keygen_law p" "generateAndPersistCardKey p kw d = (Inr (pk, sk), d')"
  shows "\<exists>old entries. dv_storage d (keyring_slot (kw_storageKey kw)) = Some old \<and>
     decryptKeyring p old (kw_decryptionKey kw) = Inr entries \<and> ml_dsa44_public_key p sk = pk \<and>
     holds_keyring p (kw_decryptionKey kw) (entries @ [\<lparr>ke_cardAddress = Str (keccak256 p pk), ke_privateKey = sk\<rparr>])
       (dv_storage d' (keyring_slot (kw_storageKey kw)))"
proof -
  let ?slot = "keyring_slot (kw_storageKey kw)" and ?K = "kw_decryptionKey kw"
  from assms(3) obtain blob d1 where get: "storage_get p ?slot d = (Inr blob, d1)"
    and rest: "(case blob of
       None \<Rightarrow> throwA (JsError ''Error: generateAndPersistCardKey: no keyring found in storage; cannot append a new card key.'')
     | Some blob \<Rightarrow>
         bindA (liftA (decryptKeyring p blob ?K)) (\<lambda>existing.
         bindA (freshD (sdk_keygen p)) (\<lambda>(publicKey, secretKey).
         bindA (encryptKeyring p (existing @ [\<lparr>ke_cardAddress = Str (keccak256 p publicKey), ke_privateKey = secretKey\<rparr>]) ?K)
           (\<lambda>updatedBlob. bindA (storage_set p ?slot updatedBlob) (\<lambda>_. retA (publicKey, secretKey)))))) d1 = (Inr (pk, sk), d')"
    unfolding generateAndPersistCardKey_def bindA_Inr by blast
  then obtain old where blob: "blob = Some old" by (cases blob) (simp_all add: act_simps)
  with rest obtain entries where dec: "decryptKeyring p old ?K = Inr entries"
    by (cases "decryptKeyring p old ?K") (simp_all add: bindA_def act_simps)
  define d2 where "d2 = d1\<lparr>dv_outer := snd (sdk_keygen p (dv_outer d1))\<rparr>"
  obtain pk' sk' where kp': "fst (sdk_keygen p (dv_outer d1)) = (pk', sk')" by fastforce
  define bs where "bs = sealed_blob p ?K (fst (sdk_random p 12 (dv_outer d2)))
     (utf8_encode (json_stringify (keyring_js (entries @ [\<lparr>ke_cardAddress = Str (keccak256 p pk'), ke_privateKey = sk'\<rparr>]))))"
  from rest blob dec kp' have run: "bindA (storage_set p ?slot bs) (\<lambda>_. retA (pk', sk'))
      (d2\<lparr>dv_outer := snd (sdk_random p 12 (dv_outer d2))\<rparr>) = (Inr (pk, sk), d')"
    by (simp add: bindA_step act_simps encryptKeyring_run d2_def [symmetric] bs_def [symmetric])
  then have set_: "storage_set p ?slot bs (d2\<lparr>dv_outer := snd (sdk_random p 12 (dv_outer d2))\<rparr>) = (Inr (), d')"
    and kp: "fst (sdk_keygen p (dv_outer d1)) = (pk, sk)" "pk' = pk" "sk' = sk"
    using kp' by (auto simp: bindA_Inr act_simps)
  from get blob have get: "storage_get p ?slot d = (Inr (Some old), d1)" by simp
  from storage_get_Inr [OF get] have "dv_storage d ?slot = Some old" by simp
  moreover from assms(2) kp(1) have "ml_dsa44_public_key p sk = pk"
    unfolding keygen_law_def by (metis fst_conv snd_conv)
  moreover from storage_set_Inr [OF set_] assms(1) kp(2,3) have
    "holds_keyring p ?K (entries @ [\<lparr>ke_cardAddress = Str (keccak256 p pk), ke_privateKey = sk\<rparr>]) (dv_storage d' ?slot)"
    by (auto simp: holds_keyring_def random_law_def bs_def)
  ultimately show ?thesis using dec by blast
qed

text \<open>C23. A targeted offer the wallet has accepted is signed with a key that the stored keyring holds
  already, and the issuer, given the key and the signature alone, sends the press exactly the document
  the wallet made.\<close>

theorem accepted_offer_is_kept_and_forwarded:
  assumes "random_law p" "keygen_law p" "signature_law p"
    and run: "acceptTargetedOfferAndCountersign p offer kw d = (Inr (document, pk), d')"
  shows "\<exists>old entries sk sig.
     dv_storage d (keyring_slot (kw_storageKey kw)) = Some old \<and> decryptKeyring p old (kw_decryptionKey kw) = Inr entries \<and>
     holds_keyring p (kw_decryptionKey kw) (entries @ [\<lparr>ke_cardAddress = Str (keccak256 p pk), ke_privateKey = sk\<rparr>])
       (dv_storage d' (keyring_slot (kw_storageKey kw))) \<and>
     ml_dsa44_public_key p sk = pk \<and>
     forwardCountersignedTargetedOffer p tr url offer (bytes_to_base64url pk) (bytes_to_base64url sig) =
       bindA (tr (Press_Service url) (json_request ''POST'' ''/issue/finalize'' document)) (finalize_outcome p)"
proof -
  let ?with = "js_spread offer [(''recipient_pubkey'', Str (bytes_to_base64url pk))]"
  from run obtain sk bs where gen: "generateAndPersistCardKey p kw d = (Inr (pk, sk), d')"
    and bs: "canonicalize ?with = Inr bs"
    and document: "document = js_spread ?with [(''holder_signature'', Str (bytes_to_base64url (ml_dsa44_sign p bs sk)))]"
    unfolding acceptTargetedOfferAndCountersign_def Let_def
    by (auto simp: bindA_Inr act_simps split: prod.splits)
  from generateAndPersistCardKey_Inr [OF assms(1,2) gen] have pk: "ml_dsa44_public_key p sk = pk" by blast
  from signature_verifies [OF assms(3), of sk bs] have "mlDsa44Verify p pk bs (ml_dsa44_sign p bs sk) = Inr True"
    by (simp add: pk)
  with bs have "forwardCountersignedTargetedOffer p tr url offer (bytes_to_base64url pk)
      (bytes_to_base64url (ml_dsa44_sign p bs sk)) =
      bindA (tr (Press_Service url) (json_request ''POST'' ''/issue/finalize'' document)) (finalize_outcome p)"
    by (auto simp: forwardCountersignedTargetedOffer_def Let_def base64url_round_trip document bindA_def act_simps fun_eq_iff)
  with generateAndPersistCardKey_Inr [OF assms(1,2) gen] show ?thesis by blast
qed

definition ex_write :: keyring_write where
  "ex_write = \<lparr>kw_decryptionKey = [3], kw_storageKey = None\<rparr>"

definition ex_offer_sdk :: "unit sdk" where
  "ex_offer_sdk = ex_sdk (keyring_js []) Null"

definition ex_offer_device :: "unit device" where
  "ex_offer_device = ex_sdk_device [''keyring'' \<mapsto>
     sealed_blob ex_offer_sdk [3] (replicate 12 0) (utf8_encode (json_stringify (keyring_js [])))]"

lemma ex_accept:
  "\<exists>document d'. acceptTargetedOfferAndCountersign ex_offer_sdk (Obj []) ex_write ex_offer_device = (Inr (document, [7]), d')"
proof -
  have law: "gcm_law ex_offer_sdk" "json_law ex_offer_sdk (keyring_js [])"
    unfolding ex_offer_sdk_def keyring_js_def by (simp_all add: ex_sdk_gcm ex_json_object)
  have "decryptKeyring ex_offer_sdk (sealed_blob ex_offer_sdk [3] (replicate 12 0) (utf8_encode (json_stringify (keyring_js [])))) [3] = Inr []"
    by (rule decryptKeyring_sealed [OF law(1) _ law(2)]) simp
  then have "\<exists>d'. generateAndPersistCardKey ex_offer_sdk ex_write ex_offer_device = (Inr ([7], [7]), d')"
    by (simp add: generateAndPersistCardKey_def ex_write_def keyring_slot_def storage_get_def storage_set_def act_simps bindA_def
        ex_offer_device_def ex_offer_sdk_def encryptKeyring_run)
  moreover have "json_value (js_spread (Obj []) [(''recipient_pubkey'', Str (bytes_to_base64url [7]))])"
    by (rule json_js_spread) simp_all
  then obtain bs where "canonicalize (js_spread (Obj []) [(''recipient_pubkey'', Str (bytes_to_base64url [7]))]) = Inr bs"
    using canonical_json by blast
  ultimately show ?thesis
    by (auto simp: acceptTargetedOfferAndCountersign_def Let_def bindA_def act_simps)
qed

theorem accepted_offer_is_kept_and_forwarded_witness:
  "\<exists>document d' sig. acceptTargetedOfferAndCountersign ex_offer_sdk (Obj []) ex_write ex_offer_device = (Inr (document, [7]), d') \<and>
     forwardCountersignedTargetedOffer ex_offer_sdk (su_transport ex_setup) ''u'' (Obj []) (bytes_to_base64url [7]) (bytes_to_base64url sig) =
       bindA (su_transport ex_setup (Press_Service ''u'') (json_request ''POST'' ''/issue/finalize'' document)) (finalize_outcome ex_offer_sdk)"
proof -
  have laws: "random_law ex_offer_sdk" "keygen_law ex_offer_sdk" "signature_law ex_offer_sdk"
    unfolding ex_offer_sdk_def by (simp_all add: ex_sdk_random ex_sdk_signatures keygen_law_def)
  obtain document d' where run: "acceptTargetedOfferAndCountersign ex_offer_sdk (Obj []) ex_write ex_offer_device = (Inr (document, [7]), d')"
    using ex_accept by blast
  from accepted_offer_is_kept_and_forwarded [OF laws run] run show ?thesis by blast
qed

section \<open>Sub-card documents\<close>

lemma put_key_new: "k \<notin> fst ` set kvs \<Longrightarrow> put_key k x kvs = kvs @ [(k, x)]"
  by (induction kvs) auto

lemma js_spread_new: "k \<notin> fst ` set kvs \<Longrightarrow> js_spread (Obj kvs) [(k, x)] = Obj (kvs @ [(k, x)])"
  by (simp add: js_spread_def put_key_new)

lemma omit_new: "k \<notin> fst ` set kvs \<Longrightarrow> filter (\<lambda>(k', v). k' \<noteq> k) kvs = kvs"
  by (induction kvs) auto

lemma subcard_fields_object:
  obtains kvs where "subcard_fields app o' key t = Obj kvs" "''app_signature'' \<notin> fst ` set kvs" "''holder_signature'' \<notin> fst ` set kvs"
    "lookup_key kvs ''app_card_pubkey'' = Str (bytes_to_base64url (ai_publicKey app))" "lookup_key kvs ''app_card'' = Str (ai_cardPointer app)"
    "lookup_key kvs ''holder_primary_card_pubkey'' = Str (bytes_to_base64url (so_holderPrimaryCardPubkey o'))"
    "lookup_key kvs ''holder_primary_card'' = Str (so_holderPrimaryCard o')"
  by (rule that [OF subcard_fields_def])
    (auto simp: text_if_given_def lookup_key_def split: if_splits option.splits)

lemma lookup_key_append: "lookup_key kvs k \<noteq> Undef \<Longrightarrow> lookup_key (kvs @ us) k = lookup_key kvs k"
  by (auto simp: lookup_key_def map_add_def split: option.splits)

lemma requestSubCard_Inr:
  assumes "requestSubCard p app o' d = (Inr (key, request), d')"
  obtains t bs sig d1 d2 where "canonicalize (subcard_fields app o' key t) = Inr bs" "ai_sign app bs d1 = (Inr sig, d2)"
    "request = js_spread (subcard_fields app o' key t) [(''app_signature'', Str (bytes_to_base64url sig))]"
  using assms unfolding requestSubCard_def Let_def by (auto simp: bindA_Inr act_simps split: if_splits)

lemma assembleSubCardConsent_Inr:
  assumes "assembleSubCardConsent request grantable = Inr consent" shows "cd_request consent = request"
proof -
  from assms obtain v where "(case v of
      Arr xs \<Rightarrow> Inr \<lparr>cd_requestedCapabilities = v, cd_grantableCapabilities = filter (\<lambda>c. c \<in> Str ` set grantable) xs,
                  cd_request = request\<rparr>
    | _ \<Rightarrow> Inl (JsError ''TypeError: requestedCapabilities.filter is not a function'')) = Inr consent"
    unfolding assembleSubCardConsent_def bindE_eq_Inr by blast
  then show ?thesis by (cases v) auto
qed

lemma consent_of_capabilities:
  "js_prop request ''capabilities'' = Inr (Arr xs) \<Longrightarrow> \<exists>consent. assembleSubCardConsent request grantable = Inr consent \<and>
     cd_requestedCapabilities consent = Arr xs \<and> cd_request consent = request"
  by (simp add: assembleSubCardConsent_def)

lemma countersign_Inr:
  assumes "countersignSubCardRequest p consent True approved sk register d = (Inr (Countersigned document registered), d')"
  obtains bs where "canonicalize (cd_request consent) = Inr bs"
    "document = js_spread (cd_request consent) [(''holder_signature'', Str (bytes_to_base64url (ml_dsa44_sign p bs sk)))]"
  using assms unfolding countersignSubCardRequest_def Let_def by (auto simp: bindA_Inr act_simps split: if_splits)

text \<open>C24. A sub-card document that an app has requested and the wallet has countersigned, each with the
  library's own functions and its own key, passes the press's checks of signatures and bindings in the
  form in which the library submits it.\<close>

theorem library_subcard_document_passes_the_press:
  assumes law: "signature_law p" and same: "crypto_ops P = crypto_ops p"
    and app: "\<forall>bs d. ai_sign app bs d = (Inr (ml_dsa44_sign p bs appSecret), d)"
      "ai_publicKey app = ml_dsa44_public_key p appSecret" "ai_cardPointer app = keccak256 p (ai_publicKey app)"
    and holder: "so_holderPrimaryCardPubkey o' = ml_dsa44_public_key p sk"
      "so_holderPrimaryCard o' = keccak256 p (so_holderPrimaryCardPubkey o')"
    and requested: "requestSubCard p app o' d = (Inr (key, request), d1)"
    and consent: "assembleSubCardConsent request grantable = Inr consent"
    and signed_: "countersignSubCardRequest p consent True approved sk register d2 = (Inr (Countersigned document registered), d3)"
  shows "verify_subcard_document P (field (toPressRequestBody document) ''sub_card_document'')
     (field (toPressRequestBody document) ''holder_signature'') w = (Inr (), w)"
proof -
  from requestSubCard_Inr [OF requested] obtain t bs sig d4 d5 where bs: "canonicalize (subcard_fields app o' key t) = Inr bs"
    and sig: "ai_sign app bs d4 = (Inr sig, d5)"
    and request: "request = js_spread (subcard_fields app o' key t) [(''app_signature'', Str (bytes_to_base64url sig))]" .
  obtain kvs where kvs: "subcard_fields app o' key t = Obj kvs" "''app_signature'' \<notin> fst ` set kvs" "''holder_signature'' \<notin> fst ` set kvs"
    and look: "lookup_key kvs ''app_card_pubkey'' = Str (bytes_to_base64url (ai_publicKey app))" "lookup_key kvs ''app_card'' = Str (ai_cardPointer app)"
    "lookup_key kvs ''holder_primary_card_pubkey'' = Str (bytes_to_base64url (so_holderPrimaryCardPubkey o'))"
    "lookup_key kvs ''holder_primary_card'' = Str (so_holderPrimaryCard o')" by (rule subcard_fields_object)
  let ?req = "kvs @ [(''app_signature'', Str (bytes_to_base64url sig))]"
  have request': "request = Obj ?req" using kvs by (simp add: request js_spread_new)
  have c: "cd_request consent = request" by (rule assembleSubCardConsent_Inr [OF consent])
  from countersign_Inr [OF signed_] c obtain hs where hs: "canonicalize (Obj ?req) = Inr hs"
    and document: "document = js_spread (Obj ?req) [(''holder_signature'', Str (bytes_to_base64url (ml_dsa44_sign p hs sk)))]"
    by (auto simp: request')
  have no: "map_of kvs ''holder_signature'' = None" "map_of kvs ''app_signature'' = None"
    using kvs(2,3) by (simp_all add: map_of_eq_None_iff)
  have doc: "field (toPressRequestBody document) ''sub_card_document'' = Obj ?req"
    and hsig: "field (toPressRequestBody document) ''holder_signature'' = Str (bytes_to_base64url (ml_dsa44_sign p hs sk))"
    using kvs(2,3) no by (simp_all add: document js_spread_new toPressRequestBody_def field_def lookup_key_def omit_new map_add_def)
  have omitted: "js_omit ''holder_signature'' (Obj ?req) = Obj ?req"
    "js_omit ''holder_signature'' (js_omit ''app_signature'' (Obj ?req)) = Obj kvs"
    using kvs by (auto simp: omit_new)
  have lk: "lookup_key ?req k = lookup_key kvs k" if "lookup_key kvs k = Str s" for k s
    using that by (simp add: lookup_key_append)
  have asig: "lookup_key ?req ''app_signature'' = Str (bytes_to_base64url sig)"
    using no by (simp add: lookup_key_def map_add_def)
  have verified: "mlDsa44Verify P (ml_dsa44_public_key p k) m (ml_dsa44_sign p m k) = Inr True" for k m
    using signature_verifies [OF law, of k m] by (simp add: mlDsa44Verify_def same)
  from sig app have sig': "sig = ml_dsa44_sign p bs appSecret" by simp
  have "keccak256 P b = keccak256 p b" for b by (simp add: keccak256_def same)
  with look lk asig bs hs kvs(1) show ?thesis
    unfolding doc hsig verify_subcard_document_def binding_check_def address_of_keccak256
    by (simp add: bindA_step liftA_run guardA_run omitted [unfolded sig'] base64url_round_trip verified sig' app holder del: js_omit.simps)
qed

definition ex_app_identity :: "unit app_identity" where
  "ex_app_identity = \<lparr>ai_cardPointer = ''03'', ai_publicKey = [3], ai_sign = (\<lambda>bs. retA [3])\<rparr>"

definition ex_subcard_options :: subcard_options where
  "ex_subcard_options = \<lparr>so_subCardKeyId = ''s'', so_holderPrimaryCard = ''05'', so_holderPrimaryCardPubkey = [5],
     so_capabilities = [''sign''], so_attestationLevel = ''T1'', so_attestationProof = None, so_validUntil = [], so_issuedAt = Some ''t''\<rparr>"

definition ex_press_like :: "nat platform" where
  "ex_press_like = ex_platform\<lparr>crypto_ops := ex_sdk_crypto\<rparr>"

theorem library_subcard_document_passes_the_press_witness:
  "\<exists>request consent document d. requestSubCard ex_offer_sdk ex_app_identity ex_subcard_options ex_offer_device = (Inr ([8], request), d) \<and>
     assembleSubCardConsent request [''sign''] = Inr consent \<and>
     countersignSubCardRequest ex_offer_sdk consent True [Str ''sign''] [5] (\<lambda>v. retA True) ex_offer_device =
       (Inr (Countersigned document True), ex_offer_device) \<and>
     verify_subcard_document ex_press_like (field (toPressRequestBody document) ''sub_card_document'')
       (field (toPressRequestBody document) ''holder_signature'') (ex_world 1 Map.empty) = (Inr (), ex_world 1 Map.empty)"
proof -
  let ?f = "subcard_fields ex_app_identity ex_subcard_options [8] ''t''"
  obtain kvs where f: "?f = Obj kvs" and json: "json_value (Obj kvs)"
    by (simp add: subcard_fields_def ex_app_identity_def ex_subcard_options_def text_if_given_def)
  let ?request = "js_spread ?f [(''app_signature'', Str (bytes_to_base64url [3]))]"
  obtain bs where bs: "canonicalize ?f = Inr bs" using canonical_json [OF json] f by auto
  have "json_value ?request" unfolding f by (rule json_js_spread [OF json]) simp
  then obtain hs where hs: "canonicalize ?request = Inr hs" using canonical_json by blast
  have given: "given_or_now ex_offer_sdk (so_issuedAt ex_subcard_options) = retA ''t''"
    "outD (key_generate ex_offer_sdk (so_subCardKeyId ex_subcard_options)) = retA [8]"
    by (simp_all add: given_or_now_def ex_subcard_options_def fun_eq_iff act_simps ex_offer_sdk_def)
  have app: "ai_sign ex_app_identity m = retA [3]" for m by (simp add: ex_app_identity_def)
  have requested: "requestSubCard ex_offer_sdk ex_app_identity ex_subcard_options ex_offer_device = (Inr ([8], ?request), ex_offer_device)"
    unfolding requestSubCard_def Let_def
    by (simp add: bindA_def act_simps given bs app del: bytes_to_base64url.simps) (simp add: ex_offer_sdk_def ex_subcard_options_def)
  have caps: "js_prop ?request ''capabilities'' = Inr (Arr [Str ''sign''])"
    by (simp add: js_prop_js_spread field_js_spread) (simp add: subcard_fields_def ex_subcard_options_def lookup_key_def)
  obtain consent where consent: "assembleSubCardConsent ?request [''sign''] = Inr consent"
    and c: "cd_requestedCapabilities consent = Arr [Str ''sign'']" "cd_request consent = ?request"
    using consent_of_capabilities [OF caps, of "[''sign'']"] by fastforce
  let ?document = "js_spread ?request [(''holder_signature'', Str (bytes_to_base64url [5]))]"
  have signed_: "countersignSubCardRequest ex_offer_sdk consent True [Str ''sign''] [5] (\<lambda>v. retA True) ex_offer_device =
      (Inr (Countersigned ?document True), ex_offer_device)"
    by (simp add: countersignSubCardRequest_def c capability_list_def exact_match_def bindA_def act_simps hs Let_def
        del: bytes_to_base64url.simps) (simp add: ex_offer_sdk_def)
  have "signature_law ex_offer_sdk" "crypto_ops ex_press_like = crypto_ops ex_offer_sdk"
    "\<forall>bs d. ai_sign ex_app_identity bs d = (Inr (ml_dsa44_sign ex_offer_sdk bs [3]), d)"
    "ai_publicKey ex_app_identity = ml_dsa44_public_key ex_offer_sdk [3]"
    "ai_cardPointer ex_app_identity = keccak256 ex_offer_sdk (ai_publicKey ex_app_identity)"
    "so_holderPrimaryCardPubkey ex_subcard_options = ml_dsa44_public_key ex_offer_sdk [5]"
    "so_holderPrimaryCard ex_subcard_options = keccak256 ex_offer_sdk (so_holderPrimaryCardPubkey ex_subcard_options)"
    by (simp_all add: ex_offer_sdk_def ex_sdk_signatures ex_press_like_def ex_app_identity_def ex_subcard_options_def act_simps keccak256_def)
  from library_subcard_document_passes_the_press [OF this requested consent signed_, of "ex_world 1 Map.empty"]
  show ?thesis using requested consent signed_ by blast
qed

section \<open>Rooms\<close>

lemma encoded_nonempty: "bs \<noteq> [] \<Longrightarrow> bytes_to_base64url bs \<noteq> []"
proof
  assume "bs \<noteq> []" "bytes_to_base64url bs = []"
  then have "bs = base64url_to_bytes []" by (metis base64url_round_trip)
  with \<open>bs \<noteq> []\<close> show False by (simp add: base64url_to_bytes_def)
qed

lemma sign_with_card_fields:
  assumes "sign_with_card p sk payload = Inr env"
  shows "field env ''payload'' = payload \<and> (\<exists>bs. canonicalize payload = Inr bs \<and>
     field env ''signatures'' = Arr [signature_js (ml_dsa44_public_key p sk) (ml_dsa44_sign p bs sk)])"
  using assms by (auto simp: sign_with_card_def bindE_eq_Inr message_envelope_def field_def lookup_key_def)

text \<open>C38. A message that is sent in a room, decrypted as it was encrypted, is accepted by a recipient exactly
  when the homeserver names the account of the signing card as its sender, and it is then the payload
  that was signed; under the name of any other sender it is refused as a mismatch.\<close>

theorem room_message_is_bound_to_its_sender:
  assumes "signature_law p" "ml_dsa44_public_key p sk \<noteq> []" "\<forall>m. ml_dsa44_sign p m sk \<noteq> []"
    and run: "sendCardSignedRoomEvent p encrypt o' eventId sk user server d = (Inr cipher, d')"
    and megolm: "\<forall>env d0 d1. encrypt env d0 = (Inr cipher, d1) \<longrightarrow> decrypt (ev\<lparr>rv_content := cipher\<rparr>) d2 = (Inr env, d2)"
  shows "\<exists>t. receiveCardSignedRoomEvent p decrypt (ev\<lparr>rv_content := cipher\<rparr>) server d2 =
     (if rv_sender ev = user
      then Inr (room_payload o' eventId t, ''0x'' @ card_address_of_secret p sk)
      else Inl (receive_exn (Sender_Binding_Mismatch (''0x'' @ card_address_of_secret p sk)) ev), d2)"
proof -
  let ?signer = "''0x'' @ card_address_of_secret p sk" and ?ev = "ev\<lparr>rv_content := cipher\<rparr>"
  from run obtain t env d0 where user: "sdk_deriveMatrixUserId p ?signer server = user"
    and env: "sign_with_card p sk (room_payload o' eventId t) = Inr env" and enc: "encrypt env d0 = (Inr cipher, d')"
    unfolding sendCardSignedRoomEvent_def Let_def by (auto simp: bindA_Inr act_simps split: if_splits)
  from enc megolm have dec: "decrypt ?ev d2 = (Inr env, d2)" by blast
  from sign_with_card_fields [OF env] obtain bs where payload: "field env ''payload'' = room_payload o' eventId t"
    and bs: "canonicalize (room_payload o' eventId t) = Inr bs"
    and sigs: "field env ''signatures'' = Arr [signature_js (ml_dsa44_public_key p sk) (ml_dsa44_sign p bs sk)]" by blast
  let ?s = "signature_js (ml_dsa44_public_key p sk) (ml_dsa44_sign p bs sk)"
  have s: "field ?s ''public_key'' = Str (bytes_to_base64url (ml_dsa44_public_key p sk))"
    "field ?s ''signature'' = Str (bytes_to_base64url (ml_dsa44_sign p bs sk))"
    by (simp_all add: signature_js_def field_def lookup_key_def)
  then have "well_formed_envelope env"
    using assms(2,3) by (simp add: well_formed_envelope_def payload sigs encoded_nonempty) (simp add: room_payload_def)
  moreover have "check_sender p ?ev server (room_payload o' eventId t) (ml_dsa44_public_key p sk) (ml_dsa44_sign p bs sk) =
      (if rv_sender ev = user then Inr (room_payload o' eventId t, ?signer)
       else Inl (receive_exn (Sender_Binding_Mismatch ?signer) ev))"
    using user by (simp add: check_sender_def bs signature_verifies [OF assms(1)] card_address_of_secret_def
        sdk_verifyMatrixUserIdBinding_def receive_exn_def Let_def)
  ultimately show ?thesis
    using s by (intro exI [of _ t]) (simp add: receiveCardSignedRoomEvent_def bindA_def act_simps dec payload sigs
        js_base64_def base64url_round_trip Let_def)
qed

definition ex_message :: message_options where
  "ex_message = \<lparr>mo_type = ''text'', mo_content = Null, mo_recipients = [], mo_senders = [], mo_protocolVersion = ''0.1'',
     mo_timestamp = Some ''t'', mo_editOf = None, mo_retracts = None, mo_forwards = None, mo_inReplyTo = None\<rparr>"

definition ex_room_event :: room_event where
  "ex_room_event = \<lparr>rv_sender = ''@mallory:s'', rv_event_id = ''e'', rv_content = Null\<rparr>"

theorem room_message_is_bound_to_its_sender_witness:
  "\<exists>env d. sendCardSignedRoomEvent ex_offer_sdk retA ex_message None [5] (sdk_deriveMatrixUserId ex_offer_sdk ''0x05'' ''s'') ''s'' ex_offer_device = (Inr env, d) \<and>
     (\<exists>t. receiveCardSignedRoomEvent ex_offer_sdk (\<lambda>ev. retA (rv_content ev)) (ex_room_event\<lparr>rv_content := env\<rparr>) ''s'' d =
       (if rv_sender ex_room_event = sdk_deriveMatrixUserId ex_offer_sdk ''0x05'' ''s''
        then Inr (room_payload ex_message None t, ''0x05'')
        else Inl (receive_exn (Sender_Binding_Mismatch ''0x05'') ex_room_event), d))"
proof -
  have address: "card_address_of_secret ex_offer_sdk [5] = ''05''"
    by (simp add: card_address_of_secret_def keccak256_def ex_offer_sdk_def)
  have "json_value (room_payload ex_message None ''t'')"
    by (simp add: room_payload_def ex_message_def optional_text_def)
  then obtain bs where bs: "canonicalize (room_payload ex_message None ''t'') = Inr bs" using canonical_json by blast
  have "\<exists>env. sign_with_card ex_offer_sdk [5] (room_payload ex_message None ''t'') = Inr env"
    by (simp add: sign_with_card_def bs)
  then obtain env where run: "sendCardSignedRoomEvent ex_offer_sdk retA ex_message None [5]
      (sdk_deriveMatrixUserId ex_offer_sdk ''0x05'' ''s'') ''s'' ex_offer_device = (Inr env, ex_offer_device)"
    by (auto simp: sendCardSignedRoomEvent_def Let_def bindA_def act_simps address exclusive_fields_def given_or_now_def ex_message_def
        split: option.splits)
  have "signature_law ex_offer_sdk" "ml_dsa44_public_key ex_offer_sdk [5] \<noteq> []" "\<forall>m. ml_dsa44_sign ex_offer_sdk m [5] \<noteq> []"
    "\<forall>e d0 d1. retA e d0 = (Inr env, d1) \<longrightarrow> (\<lambda>ev. retA (rv_content ev)) (ex_room_event\<lparr>rv_content := env\<rparr>) ex_offer_device = (Inr e, ex_offer_device)"
    by (simp_all add: ex_offer_sdk_def ex_sdk_signatures act_simps)
  note accepted = room_message_is_bound_to_its_sender [where decrypt = "\<lambda>ev. retA (rv_content ev)" and ev = ex_room_event
      and ?d2.0 = ex_offer_device, OF this(1,2,3) run this(4)]
  from accepted run show ?thesis by (auto simp: address)
qed

section \<open>One account\<close>

lemma hex_digit_values: "sdk_hex_value = hex_value"
  by (simp add: fun_eq_iff sdk_hex_value_def hex_value_def)

lemma sdk_hex_pairs_of_digits: "list_all (\<lambda>c. hex_value c \<noteq> None) s \<Longrightarrow> sdk_hex_pairs s = buffer_from_hex s"
  by (induction s rule: buffer_from_hex.induct) (auto simp: sdk_hex_byte_def hex_digit_values)

text \<open>For an address in hexadecimal, with a prefix or without, the wallet library and the wallet service
  derive the same Matrix account, and each accepts the account the other derives.\<close>

theorem library_and_service_derive_one_account:
  assumes "list_all (\<lambda>c. hex_value c \<noteq> None) digits" "prefix \<in> {[], ''0x'', ''0X''}"
  shows "sdk_deriveMatrixUserId e (prefix @ digits) server = deriveMatrixUserId e (prefix @ digits) server \<and>
     sdk_verifyMatrixUserIdBinding e (prefix @ digits) (deriveMatrixUserId e digits server) server \<and>
     verifyMatrixUserIdBinding e digits (sdk_deriveMatrixUserId e (prefix @ digits) server) server"
proof -
  have no: "take 2 digits \<noteq> ''0x'' \<and> take 2 digits \<noteq> ''0X''"
  proof -
    have "hex_value (CHR ''x'') = None" "hex_value (CHR ''X'') = None" by (simp_all add: hex_value_def)
    with assms(1) show ?thesis by (cases digits rule: buffer_from_hex.cases) auto
  qed
  have same: "sdk_hexToBytes (prefix @ digits) = buffer_from_hex digits" "matrix_hexToBytes (prefix @ digits) = buffer_from_hex digits"
    "matrix_hexToBytes digits = buffer_from_hex digits"
    using assms(1,2) no sdk_hex_pairs_of_digits [OF assms(1)] by (auto simp: sdk_hexToBytes_def matrix_hexToBytes_def)
  then show ?thesis
    by (simp add: sdk_deriveMatrixUserId_def deriveMatrixUserId_def sdk_shadowAccountCommitment_def shadowAccountCommitment_def
        keccak256_def SHADOW_ACCOUNT_DOMAIN_TAG_def sdk_verifyMatrixUserIdBinding_def verifyMatrixUserIdBinding_def)
qed

theorem library_and_service_derive_one_account_witness:
  "sdk_deriveMatrixUserId ex_env ''0x0a'' ''s'' = deriveMatrixUserId ex_env ''0x0a'' ''s''"
  using library_and_service_derive_one_account [of "''0a''" "''0x''" ex_env "''s''"] by (simp add: hex_value_def)

section \<open>The libraries against the services\<close>

text \<open>
  The client libraries against the services: their requests as the dispatchers of the press and of the
  wallet service answer them behind the oblivious gateway, and their documents as the press checks them.
\<close>

section \<open>Services as transports\<close>

definition dispatched_response :: "int \<Rightarrow> string option \<Rightarrow> transport_response" where
  "dispatched_response code body = \<lparr>tr_status = Num (Fin code), tr_headers = Obj [],
     tr_body = (case body of None \<Rightarrow> [] | Some b \<Rightarrow> base64url_to_bytes b)\<rparr>"

text \<open>
  The state outside of the device is that of the service, and the envelope of a request reaches its
  dispatcher. An exception of the service is an error of the relay to the client.
\<close>

definition press_transport :: "('x, 'q) platform_scheme \<Rightarrow> press_config \<Rightarrow> 'x world transport" where
  "press_transport P cfg dest rq = (\<lambda>d. case press_dispatch P cfg (sealed_envelope rq) (dv_outer d) of
       (Inl err, w) \<Rightarrow> (Inl (JsError ''Error: ObliviousProtocolTransport: relay returned 500''), d\<lparr>dv_outer := w\<rparr>)
     | (Inr (code, body), w) \<Rightarrow> (Inr (dispatched_response code body), d\<lparr>dv_outer := w\<rparr>))"

definition wallet_transport :: "('s, 'q) services_scheme \<Rightarrow> wallet_config \<Rightarrow> string \<Rightarrow> 's wallet transport" where
  "wallet_transport P cfg ip dest rq = (\<lambda>d. case dispatch P cfg ip (sealed_envelope rq) (dv_outer d) of
       (Inl err, w) \<Rightarrow> (Inl (JsError ''Error: ObliviousProtocolTransport: relay returned 500''), d\<lparr>dv_outer := w\<rparr>)
     | (Inr r, w) \<Rightarrow> (Inr (dispatched_response (or_status r) (or_body r)), d\<lparr>dv_outer := w\<rparr>))"

lemma sealed_envelope_fields [simp]:
  "js_prop (sealed_envelope rq) ''method'' = Inr (Str (tq_method rq))"
  "field (sealed_envelope rq) ''path'' = Str (tq_path rq)" "field (sealed_envelope rq) ''method'' = Str (tq_method rq)"
  by (simp_all add: sealed_envelope_def field_def lookup_key_def)

lemma request_fields [simp]:
  "tq_method (json_request m path b) = m" "tq_path (json_request m path b) = path"
  "tq_method (plain_request m path h b') = m" "tq_path (plain_request m path h b') = path"
  by (simp_all add: json_request_def plain_request_def)

lemma refused_404: "status_refused p (Num (Fin 404))"
  by (simp add: status_refused_def)

lemma press_transport_unknown:
  assumes "press_routes (tq_method rq @ '' '' @ tq_path rq) = None"
  shows "\<exists>body. press_transport P cfg dest rq d = (Inr (dispatched_response 404 body), d)"
  using assms by (simp add: press_transport_def press_dispatch_def bindA_def act_simps Let_def) blast

lemma answered_404 [simp]:
  "answered_json p prefix (dispatched_response 404 body) = Inl (JsError (prefix @ '' returned status '' @ literal p (Num (Fin 404))))"
  by (simp add: answered_json_def dispatched_response_def refused_404)

section \<open>Paths the press does not have\<close>

lemma press_has_no_such_path:
  "press_routes (''POST'' @ '' '' @ ''/issue/finalize'') = None" "press_routes (''POST'' @ '' '' @ ''/open-offer/claim'') = None"
  "press_routes (''POST'' @ '' '' @ ''/update'') = None"
  by (simp_all add: press_routes_def)

lemma press_refuses_json:
  assumes "press_routes (''POST'' @ '' '' @ path) = None"
  obtains body where "press_transport P cfg dest (json_request ''POST'' path v) d = (Inr (dispatched_response 404 body), d)"
proof -
  from press_transport_unknown [of "json_request ''POST'' path v" P cfg dest d] assms
  have "\<exists>body. press_transport P cfg dest (json_request ''POST'' path v) d = (Inr (dispatched_response 404 body), d)" by simp
  then show ?thesis using that by blast
qed

lemma claim_unreachable: "\<exists>err. submitOpenOfferClaim p (press_transport P cfg) url claim d = (Inl err, d)"
proof -
  obtain body where "press_transport P cfg (Press_Service url) (json_request ''POST'' ''/open-offer/claim'' claim) d
      = (Inr (dispatched_response 404 body), d)"
    using press_refuses_json [OF press_has_no_such_path(2)] by blast
  then show ?thesis by (simp add: submitOpenOfferClaim_def bindA_def liftA_def)
qed

lemma update_unreachable: "\<exists>err. post_update p (press_transport P cfg) caller url intent s d = (Inl err, d)"
proof -
  let ?rq = "json_request ''POST'' ''/update'' (Obj [(''update_intent'', intent), (''intent_signature'', Str (bytes_to_base64url s))])"
  obtain body where "press_transport P cfg (Press_Service url) ?rq d = (Inr (dispatched_response 404 body), d)"
    using press_refuses_json [OF press_has_no_such_path(3)] by blast
  then show ?thesis by (simp add: post_update_def bindA_def liftA_def)
qed

text \<open>C40. Against the dispatcher of the press, the client libraries can neither finalize a targeted offer nor
  claim an open one nor post an update: the paths they use are not among the press's, every such call
  ends without a result, and the press is left as it was.\<close>

theorem client_paths_do_not_reach_the_press:
  "dv_outer (snd (forwardCountersignedTargetedOffer p (press_transport P cfg) url offer key signature d)) = dv_outer d \<and>
   fst (forwardCountersignedTargetedOffer p (press_transport P cfg) url offer key signature d) \<notin> {Inr (Forwarded cid scip) | cid scip. True} \<and>
   (\<exists>err. submitOpenOfferClaim p (press_transport P cfg) url claim d = (Inl err, d)) \<and>
   (\<exists>err. post_update p (press_transport P cfg) caller url intent intentSignature d = (Inl err, d))"
proof -
  let ?expected = "js_spread offer [(''recipient_pubkey'', Str key)]"
  let ?rq = "json_request ''POST'' ''/issue/finalize'' (js_spread ?expected [(''holder_signature'', Str signature)])"
  obtain body where tr: "press_transport P cfg (Press_Service url) ?rq d = (Inr (dispatched_response 404 body), d)"
    using press_refuses_json [OF press_has_no_such_path(1)] by blast
  have "\<exists>r. forwardCountersignedTargetedOffer p (press_transport P cfg) url offer key signature d = (r, d) \<and>
      (\<forall>cid scip. r \<noteq> Inr (Forwarded cid scip))"
    using tr by (auto simp: forwardCountersignedTargetedOffer_def finalize_outcome_def Let_def bindA_def act_simps dispatched_response_def
        refused_404 split: sum.split)
  then show ?thesis
    using claim_unreachable update_unreachable by auto
qed

section \<open>Paths the wallet service does not have\<close>

lemma wallet_transport_unknown:
  assumes "dispatch P cfg ip (sealed_envelope rq) (dv_outer d) = (Inr (ohttp_fail 404 msg), dv_outer d)"
  shows "\<exists>body. wallet_transport P cfg ip dest rq d = (Inr (dispatched_response 404 body), d)"
  using assms by (simp add: wallet_transport_def ohttp_fail_def ohttp_ok_def) blast

text \<open>A path of the shape of the three recovery routes.\<close>

lemma unreachable_get_post:
  assumes m: "tq_method rq = ''POST'' \<or> tq_method rq = ''GET''"
    and no: "tq_path rq \<noteq> ''/accounts/challenge''" "tq_path rq \<noteq> ''/accounts''" "tq_path rq \<noteq> ''/messages''"
      "matchKeyringPath (tq_path rq) = None" "matchKeyringChallengePath (tq_path rq) = None"
      "matchBackupsPath (tq_path rq) = None" "matchSubcardPath (tq_path rq) = None"
  shows "\<exists>msg. dispatch P cfg ip (sealed_envelope rq) w = (Inr (ohttp_fail 404 msg), w)"
  using m no by (auto simp: dispatch_def dispatch_post_def dispatch_subcard_def bindA_def act_simps Let_def)

lemma path_after_slash: "path_segments (CHR ''/'' # s) = split_slash s"
  by (simp add: path_segments_def)

text \<open>The recovery paths, whatever stands for the card or the window.\<close>

lemma split_slash_nonempty: "split_slash s \<noteq> []"
  by (induction s) (auto split: list.split)

lemma split_slash_append: "split_slash (s @ CHR ''/'' # t) = split_slash s @ split_slash t"
proof (induction s)
  case (Cons c s)
  then show ?case
    using split_slash_nonempty [of s] by (auto split: list.split)
qed simp

lemma recovery_segments_match_nothing:
  assumes "path_segments path = a # xs @ [z]" "a = ''accounts'' \<or> a = ''recovery''" "z = ''recovery'' \<or> z = ''cancel'' \<or> z = ''release''"
  shows "path \<noteq> ''/accounts/challenge''" "path \<noteq> ''/accounts''" "path \<noteq> ''/messages''"
    "matchKeyringPath path = None" "matchKeyringChallengePath path = None"
    "matchBackupsPath path = None" "matchSubcardPath path = None"
proof -
  have "path_segments ''/accounts/challenge'' = [''accounts'', ''challenge'']" "path_segments ''/accounts'' = [''accounts'']"
    "path_segments ''/messages'' = [''messages'']" by code_simp+
  with assms show "path \<noteq> ''/accounts/challenge''" "path \<noteq> ''/accounts''" "path \<noteq> ''/messages''"
    by (auto simp: append_eq_Cons_conv)
  from assms show "matchKeyringPath path = None" "matchBackupsPath path = None" "matchSubcardPath path = None"
    by (auto simp: matchKeyringPath_def matchBackupsPath_def matchSubcardPath_def append_eq_Cons_conv split: list.split)
  from assms show "matchKeyringChallengePath path = None"
    by (auto simp: matchKeyringChallengePath_def append_eq_Cons_conv split: list.split)
qed

lemma recovery_paths:
  "path_segments (''/accounts/'' @ c @ ''/recovery'') = ''accounts'' # split_slash c @ [''recovery'']"
  "path_segments (''/recovery/'' @ i @ ''/cancel'') = ''recovery'' # split_slash i @ [''cancel'']"
  "path_segments (''/recovery/'' @ i @ ''/release'') = ''recovery'' # split_slash i @ [''release'']"
proof -
  have split: "split_slash (a @ CHR ''/'' # s @ CHR ''/'' # z) = split_slash a @ split_slash s @ split_slash z" for a s z
    by (simp add: split_slash_append)
  have words: "split_slash ''accounts'' = [''accounts'']" "split_slash ''recovery'' = [''recovery'']"
    "split_slash ''cancel'' = [''cancel'']" "split_slash ''release'' = [''release'']" by code_simp+
  show "path_segments (''/accounts/'' @ c @ ''/recovery'') = ''accounts'' # split_slash c @ [''recovery'']"
    "path_segments (''/recovery/'' @ i @ ''/cancel'') = ''recovery'' # split_slash i @ [''cancel'']"
    "path_segments (''/recovery/'' @ i @ ''/release'') = ''recovery'' # split_slash i @ [''release'']"
    using split [of "''accounts''" c "''recovery''"] split [of "''recovery''" i "''cancel''"]
      split [of "''recovery''" i "''release''"] words
    by (simp_all add: path_after_slash del: split_slash.simps)
qed

lemma recovery_request_refused:
  assumes "path_segments (tq_path rq) = a # xs @ [z]" "a = ''accounts'' \<or> a = ''recovery''"
    "z = ''recovery'' \<or> z = ''cancel'' \<or> z = ''release''" "tq_method rq = ''POST'' \<or> tq_method rq = ''GET''"
  shows "\<exists>body. wallet_transport P cfg ip dest rq d = (Inr (dispatched_response 404 body), d)"
proof -
  from unreachable_get_post [OF assms(4) recovery_segments_match_nothing [OF assms(1-3)]] obtain msg where
    "dispatch P cfg ip (sealed_envelope rq) (dv_outer d) = (Inr (ohttp_fail 404 msg), dv_outer d)" by blast
  then show ?thesis by (rule wallet_transport_unknown)
qed

lemma requestJson_404:
  assumes "tr Wallet_Service (case b of Some v \<Rightarrow> json_request m path v | None \<Rightarrow> plain_request m path None None) d =
     (Inr (dispatched_response 404 body), d)"
  shows "\<exists>err. requestJson p tr m path b d = (Inl err, d)"
  using assms by (simp add: requestJson_def bindA_def liftA_def)

lemma bindA_failing: "\<exists>err. f d = (Inl err, d) \<Longrightarrow> \<exists>err. bindA f g d = (Inl err, d)"
  by (auto simp: bindA_def)

text \<open>Against the dispatcher of the wallet service's oblivious gateway no recovery can be started, stopped
  or finished: its three routes are not reachable there, so each of the three calls of the wallet
  library ends with an error, and the wallet service is left as it was.\<close>

theorem recovery_is_not_reachable:
  "(\<exists>err. initiateRecovery p (wallet_transport P cfg ip) cardHash backupId d = (Inl err, d)) \<and>
   (\<exists>err. cancelRecovery p (wallet_transport P cfg ip) recoveryId secretKey d = (Inl err, d)) \<and>
   (\<exists>err. releaseRecoveryKey p (wallet_transport P cfg ip) recoveryId d = (Inl err, d))"
proof (intro conjI)
  have refused: "\<exists>err. requestJson p (wallet_transport P cfg ip) ''POST'' path (Some b) d = (Inl err, d)"
    if "path_segments path = a # xs @ [z]" "a = ''accounts'' \<or> a = ''recovery''"
      "z = ''recovery'' \<or> z = ''cancel'' \<or> z = ''release''" for path a xs z b
  proof -
    from recovery_request_refused [of "json_request ''POST'' path b" a xs z P cfg ip Wallet_Service d] that obtain body where
      "wallet_transport P cfg ip Wallet_Service (json_request ''POST'' path b) d = (Inr (dispatched_response 404 body), d)" by auto
    then show ?thesis by (intro requestJson_404) simp
  qed
  show "\<exists>err. initiateRecovery p (wallet_transport P cfg ip) cardHash backupId d = (Inl err, d)"
    unfolding initiateRecovery_def by (intro bindA_failing refused [OF recovery_paths(1)]) simp_all
  show "\<exists>err. cancelRecovery p (wallet_transport P cfg ip) recoveryId secretKey d = (Inl err, d)"
    unfolding cancelRecovery_def Let_def by (intro bindA_failing refused [OF recovery_paths(2)]) simp_all
  let ?rq = "plain_request ''GET'' (''/recovery/'' @ recoveryId @ ''/release'') None None"
  from recovery_request_refused [of ?rq _ _ _ P cfg ip Wallet_Service d, unfolded request_fields, OF recovery_paths(3)] obtain body where
    "wallet_transport P cfg ip Wallet_Service ?rq d = (Inr (dispatched_response 404 body), d)" by auto
  then show "\<exists>err. releaseRecoveryKey p (wallet_transport P cfg ip) recoveryId d = (Inl err, d)"
    by (cases "json_parse p (tr_body (dispatched_response 404 body))")
      (simp_all add: releaseRecoveryKey_def bindA_def act_simps released_outcome_def, simp_all add: dispatched_response_def)
qed

end
