(* ===== verification/Sdk_Providers.thy ===== *)
theory Sdk_Providers
  imports Sdk_Laws
begin

text \<open>
  The providers the two platforms ship for the client libraries
  (\<open>sdk-providers-web/packages/sdk-providers-web/src\<close>, \<open>sdk-providers-rn/packages/sdk-providers-rn/src\<close>):
  storage, keys, passkeys and the lock between tabs, over IndexedDB in a browser and over AsyncStorage and
  the keychain on a phone. The streams and sockets of their transports are passed on as they come and are left out.
\<close>

section \<open>The platform\<close>

text \<open>A key of the web provider: the wrapping key is a handle that cannot be exported.\<close>

record stored_key =
  yk_publicKey :: bytes
  yk_wrappingKey :: bytes
  yk_iv :: bytes
  yk_wrappedSecretKey :: bytes

datatype idb_value = Idb_Bytes bytes | Idb_Key stored_key | Idb_Lock "string option"

text \<open>
  \<open>ho_db\<close> is the promise of the opened database (with the outcome it settles to), \<open>ho_idb\<close> the object
  stores, \<open>ho_async\<close> AsyncStorage, and \<open>ho_keychain\<close> the passwords of the keychain by service.
\<close>

record 'y host_state =
  ho_db :: "unit res option"
  ho_idb :: "string \<Rightarrow> string \<Rightarrow> idb_value option"
  ho_async :: "string \<Rightarrow> string option"
  ho_keychain :: "string \<Rightarrow> string option"
  ho_outer :: 'y

type_synonym ('y, 'a) hact = "('y host_state, 'a) prog"

text \<open>What a ceremony of the browser or of the passkey module gives back: the fields a client reads.\<close>

record ceremony =
  cy_rawId :: bytes
  cy_attestation :: bytes
  cy_prfFirst :: "bytes option"

record rn_ceremony =
  rc_rawId :: "string option"
  rc_id :: string
  rc_attestationObject :: string

text \<open>Whether opening the database and a request to it succeed, and so for AsyncStorage and the keychain.\<close>

record 'y host_api = "'y sdk" +
  idb_open :: "'y \<Rightarrow> unit res \<times> 'y"
  idb_request :: "'y \<Rightarrow> unit res \<times> 'y"
  async_call :: "'y \<Rightarrow> unit res \<times> 'y"
  keychain_call :: "'y \<Rightarrow> unit res \<times> 'y"
  credentials_create :: "bytes \<Rightarrow> bytes \<Rightarrow> bytes \<Rightarrow> 'y \<Rightarrow> ceremony res \<times> 'y"
  credentials_get :: "bytes \<Rightarrow> bytes \<Rightarrow> bytes option \<Rightarrow> 'y \<Rightarrow> ceremony res \<times> 'y"
  rn_passkey_create :: "string \<Rightarrow> string \<Rightarrow> 'y \<Rightarrow> rn_ceremony res \<times> 'y"
  rn_passkey_get :: "string \<Rightarrow> string option \<Rightarrow> 'y \<Rightarrow> rn_ceremony res \<times> 'y"

definition outH :: "('y \<Rightarrow> 'a res \<times> 'y) \<Rightarrow> ('y, 'a) hact" where
  "outH f = (\<lambda>s. case f (ho_outer s) of (r, y) \<Rightarrow> (r, s\<lparr>ho_outer := y\<rparr>))"

definition freshH :: "('y \<Rightarrow> 'a \<times> 'y) \<Rightarrow> ('y, 'a) hact" where
  "freshH f = outH (\<lambda>y. case f y of (a, y') \<Rightarrow> (Inr a, y'))"

lemma outH_run [act_simps]: "outH f s = (fst (f (ho_outer s)), s\<lparr>ho_outer := snd (f (ho_outer s))\<rparr>)"
  by (simp add: outH_def split: prod.split)

lemma freshH_run [act_simps]:
  "freshH f s = (Inr (fst (f (ho_outer s))), s\<lparr>ho_outer := snd (f (ho_outer s))\<rparr>)"
  by (simp add: freshH_def act_simps split: prod.split)

section \<open>IndexedDB\<close>

definition KV_STORE :: string where
  "KV_STORE = ''kv''"

definition SECURE_KEY_STORE :: string where
  "SECURE_KEY_STORE = ''secure-keys''"

definition LOCK_STORE :: string where
  "LOCK_STORE = ''multi-instance-locks''"

text \<open>The first call decides: the promise is kept, also when it is rejected.\<close>

definition openDb :: "('y, 'z) host_api_scheme \<Rightarrow> ('y, unit) hact" where
  "openDb p = (\<lambda>s. case ho_db s of
       Some r \<Rightarrow> (r, s)
     | None \<Rightarrow> (case idb_open p (ho_outer s) of (r, y) \<Rightarrow> (r, s\<lparr>ho_db := Some r, ho_outer := y\<rparr>)))"

definition put_value :: "string \<Rightarrow> string \<Rightarrow> idb_value option \<Rightarrow> ('y, unit) hact" where
  "put_value store key v = (\<lambda>s. (Inr (), s\<lparr>ho_idb := (ho_idb s)(store := (ho_idb s store)(key := v))\<rparr>))"

definition idbGet :: "('y, 'z) host_api_scheme \<Rightarrow> string \<Rightarrow> string \<Rightarrow> ('y, idb_value option) hact" where
  "idbGet p store key =
     bindA (openDb p) (\<lambda>_. bindA (outH (idb_request p)) (\<lambda>_. readA (\<lambda>s. Inr (ho_idb s store key))))"

definition idbPut :: "('y, 'z) host_api_scheme \<Rightarrow> string \<Rightarrow> string \<Rightarrow> idb_value \<Rightarrow> ('y, unit) hact" where
  "idbPut p store key v = bindA (openDb p) (\<lambda>_. bindA (outH (idb_request p)) (\<lambda>_. put_value store key (Some v)))"

definition idbDelete :: "('y, 'z) host_api_scheme \<Rightarrow> string \<Rightarrow> string \<Rightarrow> ('y, unit) hact" where
  "idbDelete p store key = bindA (openDb p) (\<lambda>_. bindA (outH (idb_request p)) (\<lambda>_. put_value store key None))"

section \<open>Storage\<close>

definition namespacedKey :: "string \<Rightarrow> string \<Rightarrow> string" where
  "namespacedKey ns key = ns @ '':'' @ key"

definition stored_bytes :: "idb_value option \<Rightarrow> bytes option" where
  "stored_bytes v = (case v of Some (Idb_Bytes b) \<Rightarrow> Some b | _ \<Rightarrow> None)"

definition web_get :: "('y, 'z) host_api_scheme \<Rightarrow> string \<Rightarrow> string \<Rightarrow> ('y, bytes option) hact" where
  "web_get p ns key = bindA (idbGet p KV_STORE (namespacedKey ns key)) (\<lambda>v. retA (stored_bytes v))"

definition web_set :: "('y, 'z) host_api_scheme \<Rightarrow> string \<Rightarrow> string \<Rightarrow> bytes \<Rightarrow> ('y, unit) hact" where
  "web_set p ns key value = idbPut p KV_STORE (namespacedKey ns key) (Idb_Bytes value)"

definition web_delete :: "('y, 'z) host_api_scheme \<Rightarrow> string \<Rightarrow> string \<Rightarrow> ('y, unit) hact" where
  "web_delete p ns key = idbDelete p KV_STORE (namespacedKey ns key)"

text \<open>On a phone the bytes are kept as base64url text.\<close>

definition put_async :: "string \<Rightarrow> string option \<Rightarrow> ('y, unit) hact" where
  "put_async key v = (\<lambda>s. (Inr (), s\<lparr>ho_async := (ho_async s)(key := v)\<rparr>))"

definition rn_get :: "('y, 'z) host_api_scheme \<Rightarrow> string \<Rightarrow> string \<Rightarrow> ('y, bytes option) hact" where
  "rn_get p ns key = bindA (outH (async_call p)) (\<lambda>_.
     readA (\<lambda>s. Inr (map_option base64url_to_bytes (ho_async s (namespacedKey ns key)))))"

definition rn_set :: "('y, 'z) host_api_scheme \<Rightarrow> string \<Rightarrow> string \<Rightarrow> bytes \<Rightarrow> ('y, unit) hact" where
  "rn_set p ns key value = bindA (outH (async_call p)) (\<lambda>_. put_async (namespacedKey ns key) (Some (bytes_to_base64url value)))"

definition rn_delete :: "('y, 'z) host_api_scheme \<Rightarrow> string \<Rightarrow> string \<Rightarrow> ('y, unit) hact" where
  "rn_delete p ns key = bindA (outH (async_call p)) (\<lambda>_. put_async (namespacedKey ns key) None)"

section \<open>Keys\<close>

definition quoted :: "string \<Rightarrow> string" where
  "quoted s = [CHR 0x22] @ s @ [CHR 0x22]"

text \<open>\<open>WebCryptoSecureKeyProvider\<close>: key pair, wrapping key and nonce are fresh; one write stores the record.\<close>

definition web_generateKey :: "('y, 'z) host_api_scheme \<Rightarrow> string \<Rightarrow> ('y, bytes) hact" where
  "web_generateKey p keyId =
     bindA (freshH (sdk_keygen p)) (\<lambda>(publicKey, secretKey).
     bindA (freshH (sdk_random p 32)) (\<lambda>wrappingKey.
     bindA (freshH (sdk_random p 12)) (\<lambda>iv.
     bindA (idbPut p SECURE_KEY_STORE keyId (Idb_Key \<lparr>yk_publicKey = publicKey, yk_wrappingKey = wrappingKey, yk_iv = iv,
              yk_wrappedSecretKey = aes_gcm_seal p wrappingKey iv secretKey\<rparr>)) (\<lambda>_. retA publicKey))))"

definition key_of :: "idb_value option \<Rightarrow> stored_key option" where
  "key_of v = (case v of Some (Idb_Key k) \<Rightarrow> Some k | _ \<Rightarrow> None)"

definition web_sign :: "('y, 'z) host_api_scheme \<Rightarrow> string \<Rightarrow> bytes \<Rightarrow> ('y, bytes) hact" where
  "web_sign p keyId message =
     bindA (idbGet p SECURE_KEY_STORE keyId) (\<lambda>v. case key_of v of
       None \<Rightarrow> throwA (JsError (''Error: WebCryptoSecureKeyProvider: no key found for keyId '' @ quoted keyId))
     | Some k \<Rightarrow> bindA (liftA (aes_gcm_open (crypto_ops p) (yk_wrappingKey k) (yk_iv k) (yk_wrappedSecretKey k))) (\<lambda>secretKey.
         retA (ml_dsa44_sign p message secretKey)))"

definition web_getPublicKey :: "('y, 'z) host_api_scheme \<Rightarrow> string \<Rightarrow> ('y, bytes option) hact" where
  "web_getPublicKey p keyId = bindA (idbGet p SECURE_KEY_STORE keyId) (\<lambda>v. retA (map_option yk_publicKey (key_of v)))"

definition web_deleteKey :: "('y, 'z) host_api_scheme \<Rightarrow> string \<Rightarrow> ('y, unit) hact" where
  "web_deleteKey p keyId = idbDelete p SECURE_KEY_STORE keyId"

text \<open>\<open>SecureEnclaveKeyProvider\<close>: the wrapping key goes to the keychain first, the wrapped key to storage second.\<close>

definition KEYCHAIN_SERVICE_PREFIX :: string where
  "KEYCHAIN_SERVICE_PREFIX = ''membership-card-protocol-client-sdk:wrapping-key:''"

definition WRAPPED_KEY_NAMESPACE :: string where
  "WRAPPED_KEY_NAMESPACE = ''secure-key-provider''"

definition keychainService :: "string \<Rightarrow> string" where
  "keychainService keyId = KEYCHAIN_SERVICE_PREFIX @ keyId"

definition put_keychain :: "('y, 'z) host_api_scheme \<Rightarrow> string \<Rightarrow> string option \<Rightarrow> ('y, unit) hact" where
  "put_keychain p service v = bindA (outH (keychain_call p)) (\<lambda>_ s. (Inr (), s\<lparr>ho_keychain := (ho_keychain s)(service := v)\<rparr>))"

definition get_keychain :: "('y, 'z) host_api_scheme \<Rightarrow> string \<Rightarrow> ('y, string option) hact" where
  "get_keychain p service = bindA (outH (keychain_call p)) (\<lambda>_. readA (\<lambda>s. Inr (ho_keychain s service)))"

definition wrapped_key_record :: "bytes \<Rightarrow> bytes \<Rightarrow> bytes \<Rightarrow> js" where
  "wrapped_key_record publicKey nonce wrapped = Obj [(''publicKey'', Str (bytes_to_base64url publicKey)),
     (''nonce'', Str (bytes_to_base64url nonce)), (''wrappedSecretKey'', Str (bytes_to_base64url wrapped))]"

definition rn_generateKey :: "('y, 'z) host_api_scheme \<Rightarrow> string \<Rightarrow> ('y, bytes) hact" where
  "rn_generateKey p keyId =
     bindA (freshH (sdk_keygen p)) (\<lambda>(publicKey, secretKey).
     bindA (freshH (sdk_random p 32)) (\<lambda>wrappingKey.
     bindA (freshH (sdk_random p 12)) (\<lambda>nonce.
     bindA (put_keychain p (keychainService keyId) (Some (bytes_to_base64url wrappingKey))) (\<lambda>_.
     bindA (rn_set p WRAPPED_KEY_NAMESPACE keyId (utf8_encode (json_stringify
              (wrapped_key_record publicKey nonce (aes_gcm_seal p wrappingKey nonce secretKey))))) (\<lambda>_. retA publicKey)))))"

definition rn_getRecord :: "('y, 'z) host_api_scheme \<Rightarrow> string \<Rightarrow> ('y, js option) hact" where
  "rn_getRecord p keyId = bindA (rn_get p WRAPPED_KEY_NAMESPACE keyId) (\<lambda>raw. case raw of
     None \<Rightarrow> retA None | Some bs \<Rightarrow> bindA (liftA (json_parse p bs)) (\<lambda>v. retA (if truthy v then Some v else None)))"

definition rn_unwrap :: "('y, 'z) host_api_scheme \<Rightarrow> js \<Rightarrow> string \<Rightarrow> bytes res" where
  "rn_unwrap p record' password =
     bindE (bindE (js_prop record' ''nonce'') js_base64) (\<lambda>nonce.
     bindE (js_base64 (field record' ''wrappedSecretKey'')) (\<lambda>wrapped.
       aes_gcm_open (crypto_ops p) (base64url_to_bytes password) nonce wrapped))"

definition rn_sign :: "('y, 'z) host_api_scheme \<Rightarrow> string \<Rightarrow> bytes \<Rightarrow> ('y, bytes) hact" where
  "rn_sign p keyId message =
     bindA (rn_getRecord p keyId) (\<lambda>r. case r of
       None \<Rightarrow> throwA (JsError (''Error: SecureEnclaveKeyProvider: no key found for keyId '' @ quoted keyId))
     | Some record' \<Rightarrow> bindA (get_keychain p (keychainService keyId)) (\<lambda>credentials. case credentials of
         None \<Rightarrow> throwA (JsError (''Error: SecureEnclaveKeyProvider: no wrapping key in keystore for keyId '' @ quoted keyId))
       | Some password \<Rightarrow> bindA (liftA (rn_unwrap p record' password)) (\<lambda>secretKey. retA (ml_dsa44_sign p message secretKey))))"

definition rn_getPublicKey :: "('y, 'z) host_api_scheme \<Rightarrow> string \<Rightarrow> ('y, bytes option) hact" where
  "rn_getPublicKey p keyId = bindA (rn_getRecord p keyId) (\<lambda>r. case r of
     None \<Rightarrow> retA None | Some v \<Rightarrow> bindA (liftA (bindE (js_prop v ''publicKey'') js_base64)) (\<lambda>k. retA (Some k)))"

definition rn_deleteKey :: "('y, 'z) host_api_scheme \<Rightarrow> string \<Rightarrow> ('y, unit) hact" where
  "rn_deleteKey p keyId = bindA (put_keychain p (keychainService keyId) None) (\<lambda>_. rn_delete p WRAPPED_KEY_NAMESPACE keyId)"

section \<open>Passkeys\<close>

text \<open>The salt of the PRF extension: the text, cut to 32 bytes and filled with zeros.\<close>

definition PRF_SALT :: bytes where
  "PRF_SALT = (let t = take 32 (utf8_encode ''card-protocol-passkey-prf-v1'') in t @ replicate (32 - length t) 0)"

definition web_passkey_result :: "ceremony \<Rightarrow> passkey_result" where
  "web_passkey_result c = \<lparr>pk_credentialId = cy_rawId c, pk_attestationObject = cy_attestation c, pk_prfOutput = cy_prfFirst c\<rparr>"

definition web_passkey_register :: "('y, 'z) host_api_scheme \<Rightarrow> bytes \<Rightarrow> 'y \<Rightarrow> passkey_result res \<times> 'y" where
  "web_passkey_register p challenge y = (case sdk_random p 16 y of (userId, y1) \<Rightarrow>
     (case credentials_create p challenge userId PRF_SALT y1 of (r, y2) \<Rightarrow> (map_sum id web_passkey_result r, y2)))"

text \<open>Of an assertion a client reads the identifier and the output; it has no attestation.\<close>

definition web_passkey_assert :: "('y, 'z) host_api_scheme \<Rightarrow> bytes \<Rightarrow> bytes option \<Rightarrow> 'y \<Rightarrow> passkey_result res \<times> 'y" where
  "web_passkey_assert p challenge credentialId y =
     (case credentials_get p challenge PRF_SALT credentialId y of
        (r, y1) \<Rightarrow> (map_sum id (\<lambda>c. (web_passkey_result c)\<lparr>pk_attestationObject := []\<rparr>) r, y1))"

text \<open>The module of React Native is asked for no extension, and no PRF output is handed on.\<close>

definition rn_passkey_register :: "('y, 'z) host_api_scheme \<Rightarrow> bytes \<Rightarrow> 'y \<Rightarrow> passkey_result res \<times> 'y" where
  "rn_passkey_register p challenge y = (case sdk_random p 16 y of (userId, y1) \<Rightarrow>
     (case rn_passkey_create p (bytes_to_base64url challenge) (bytes_to_base64url userId) y1 of (r, y2) \<Rightarrow>
       (bindE r (\<lambda>c. bindE (js_base64 (case rc_rawId c of Some s \<Rightarrow> Str s | None \<Rightarrow> Undef)) (\<lambda>i.
          Inr \<lparr>pk_credentialId = i, pk_attestationObject = base64url_to_bytes (rc_attestationObject c), pk_prfOutput = None\<rparr>)), y2)))"

definition rn_passkey_assert :: "('y, 'z) host_api_scheme \<Rightarrow> bytes \<Rightarrow> bytes option \<Rightarrow> 'y \<Rightarrow> passkey_result res \<times> 'y" where
  "rn_passkey_assert p challenge credentialId y =
     (case rn_passkey_get p (bytes_to_base64url challenge) (map_option bytes_to_base64url credentialId) y of (r, y1) \<Rightarrow>
       (map_sum id (\<lambda>c. \<lparr>pk_credentialId = base64url_to_bytes (case rc_rawId c of Some s \<Rightarrow> s | None \<Rightarrow> rc_id c),
          pk_attestationObject = [], pk_prfOutput = None\<rparr>) r, y1))"

section \<open>The lock between tabs\<close>

text \<open>
  \<open>BroadcastChannelMultiInstanceLock\<close>: the two transactions on the record of a lock, whose holder is a
  random identifier of the call, as what they answer and what they leave in the record.
\<close>

definition tryAcquire :: "string \<Rightarrow> string option \<Rightarrow> bool \<times> string option" where
  "tryAcquire i held = (if held \<noteq> None \<and> held \<noteq> Some [] then (False, held) else (True, Some i))"

definition release_lock :: "string \<Rightarrow> string option \<Rightarrow> string option" where
  "release_lock i held = (if held = Some i then None else held)"

definition held_by :: "idb_value option \<Rightarrow> string option" where
  "held_by v = (case v of Some (Idb_Lock h) \<Rightarrow> h | _ \<Rightarrow> None)"

text \<open>The same over the database: a read, and a write when there is something to write.\<close>

definition acquire_transaction :: "('y, 'z) host_api_scheme \<Rightarrow> string \<Rightarrow> string \<Rightarrow> ('y, bool) hact" where
  "acquire_transaction p name instanceId =
     bindA (openDb p) (\<lambda>_. bindA (outH (idb_request p)) (\<lambda>_.
     bindA (readA (\<lambda>s. Inr (held_by (ho_idb s LOCK_STORE name)))) (\<lambda>current.
       if current \<noteq> None \<and> current \<noteq> Some [] then retA False
       else bindA (outH (idb_request p)) (\<lambda>_. bindA (put_value LOCK_STORE name (Some (Idb_Lock (Some instanceId)))) (\<lambda>_. retA True)))))"

definition release_transaction :: "('y, 'z) host_api_scheme \<Rightarrow> string \<Rightarrow> string \<Rightarrow> ('y, unit) hact" where
  "release_transaction p name instanceId =
     bindA (openDb p) (\<lambda>_. bindA (outH (idb_request p)) (\<lambda>_.
     bindA (readA (\<lambda>s. Inr (held_by (ho_idb s LOCK_STORE name)))) (\<lambda>current.
       if current = Some instanceId
       then bindA (outH (idb_request p)) (\<lambda>_. put_value LOCK_STORE name (Some (Idb_Lock None))) else retA ())))"

text \<open>
  The calls of all tabs for one name: those that wait for the lock, those that hold it, those whose
  release has been called and whose transaction has not run yet, and the identifiers drawn so far.
\<close>

record lock_world =
  lw_held :: "string option"
  lw_waiting :: "string set"
  lw_holding :: "string set"
  lw_releasing :: "string set"
  lw_drawn :: "string set"

definition new_lock :: lock_world where
  "new_lock = \<lparr>lw_held = None, lw_waiting = {}, lw_holding = {}, lw_releasing = {}, lw_drawn = {}\<rparr>"

text \<open>
  One step: a call begins, the transaction of a waiting call gets it the lock, a release is called, its
  transaction runs, or a call is cut off, because its tab is closed or its transaction fails. An attempt that
  finds the lock taken changes nothing: the call goes on waiting.
\<close>

inductive lock_step :: "lock_world \<Rightarrow> lock_world \<Rightarrow> bool" where
  begins: "i \<notin> lw_drawn w \<Longrightarrow> i \<noteq> [] \<Longrightarrow>
     lock_step w (w\<lparr>lw_waiting := insert i (lw_waiting w), lw_drawn := insert i (lw_drawn w)\<rparr>)"
| acquires: "i \<in> lw_waiting w \<Longrightarrow> tryAcquire i (lw_held w) = (True, h) \<Longrightarrow>
     lock_step w (w\<lparr>lw_held := h, lw_waiting := lw_waiting w - {i}, lw_holding := insert i (lw_holding w)\<rparr>)"
| releases: "i \<in> lw_holding w \<Longrightarrow>
     lock_step w (w\<lparr>lw_holding := lw_holding w - {i}, lw_releasing := insert i (lw_releasing w)\<rparr>)"
| commits: "i \<in> lw_releasing w \<Longrightarrow>
     lock_step w (w\<lparr>lw_held := release_lock i (lw_held w), lw_releasing := lw_releasing w - {i}\<rparr>)"
| cut_off: "lock_step w (w\<lparr>lw_waiting := lw_waiting w - {i}, lw_holding := lw_holding w - {i}, lw_releasing := lw_releasing w - {i}\<rparr>)"

inductive_cases lock_step_cases: "lock_step w w'"

end
