(* ===== verification/Sdk_Provider_Properties.thy ===== *)
theory Sdk_Provider_Properties
  imports Sdk_Providers
begin

text \<open>
  What the providers of both platforms promise their callers, as two locales: a store of bytes under names
  (interpreted on the device of the libraries and on both platforms) and a keeper of signing keys
  (interpreted on both). Then the lock between tabs, over all its steps, and the passkeys.
\<close>

section \<open>A store of bytes\<close>

locale bytes_store =
  fixes get_at :: "string \<Rightarrow> ('w, bytes option) prog"
    and set_at :: "string \<Rightarrow> bytes \<Rightarrow> ('w, unit) prog"
    and drop_at :: "string \<Rightarrow> ('w, unit) prog"
    and contents :: "'w \<Rightarrow> string \<Rightarrow> bytes option"
  assumes got: "get_at k w = (Inr v, w') \<Longrightarrow> v = contents w k"
    and get_keeps: "get_at k w = (r, w') \<Longrightarrow> contents w' = contents w"
    and set_stores: "set_at k b w = (Inr u, w') \<Longrightarrow> contents w' = (contents w)(k \<mapsto> b)"
    and set_or_nothing: "set_at k b w = (Inl e, w') \<Longrightarrow> contents w' = contents w"
    and dropped: "drop_at k w = (Inr u, w') \<Longrightarrow> contents w' = (contents w)(k := None)"
    and drop_or_nothing: "drop_at k w = (Inl e, w') \<Longrightarrow> contents w' = contents w"
begin

lemma reads_back: "set_at k b w = (Inr u, w1) \<Longrightarrow> get_at k w1 = (Inr v, w2) \<Longrightarrow> v = Some b"
  using got [of k w1 v w2] set_stores [of k b w u w1] by simp

lemma others_kept:
  "set_at k b w = (r, w1) \<Longrightarrow> k' \<noteq> k \<Longrightarrow> get_at k' w1 = (Inr v, w2) \<Longrightarrow> v = contents w k'"
  using got [of k' w1 v w2] set_stores [of k b w _ w1] set_or_nothing [of k b w _ w1]
  by (cases r) auto

lemma gone_after_drop: "drop_at k w = (Inr u, w1) \<Longrightarrow> get_at k w1 = (Inr v, w2) \<Longrightarrow> v = None"
  using got [of k w1 v w2] dropped [of k w u w1] by simp

end

interpretation device_store: bytes_store "storage_get p" "storage_set p" "storage_delete p" dv_storage
  by unfold_locales (auto simp: storage_get_def storage_set_def storage_delete_def act_simps bindA_eq)

lemma openDb_keeps: "openDb p s = (r, s') \<Longrightarrow> ho_idb s' = ho_idb s \<and> ho_async s' = ho_async s \<and> ho_keychain s' = ho_keychain s"
  by (auto simp: openDb_def split: option.splits prod.splits)

lemma idbGet_run: "idbGet p st k s = (r, s') \<Longrightarrow> ho_idb s' = ho_idb s \<and> (\<forall>v. r = Inr v \<longrightarrow> v = ho_idb s st k)"
  by (auto simp: idbGet_def act_simps bindA_eq dest!: openDb_keeps)

lemma idbPut_Inr: "idbPut p st k v s = (Inr u, s') \<Longrightarrow> ho_idb s' = (ho_idb s)(st := (ho_idb s st)(k \<mapsto> v))"
  by (auto simp: idbPut_def put_value_def act_simps bindA_eq dest!: openDb_keeps)

lemma idbPut_Inl: "idbPut p st k v s = (Inl e, s') \<Longrightarrow> ho_idb s' = ho_idb s"
  by (auto simp: idbPut_def put_value_def act_simps bindA_eq dest!: openDb_keeps)

lemma idbDelete_Inr: "idbDelete p st k s = (Inr u, s') \<Longrightarrow> ho_idb s' = (ho_idb s)(st := (ho_idb s st)(k := None))"
  by (auto simp: idbDelete_def put_value_def act_simps bindA_eq dest!: openDb_keeps)

lemma idbDelete_Inl: "idbDelete p st k s = (Inl e, s') \<Longrightarrow> ho_idb s' = ho_idb s"
  by (auto simp: idbDelete_def put_value_def act_simps bindA_eq dest!: openDb_keeps)

lemmas idb_runs = idbGet_run idbPut_Inr idbPut_Inl idbDelete_Inr idbDelete_Inl

lemma namespacedKey_inj [simp]: "namespacedKey ns k = namespacedKey ns k' \<longleftrightarrow> k = k'"
  by (simp add: namespacedKey_def)

definition web_contents :: "string \<Rightarrow> 'y host_state \<Rightarrow> string \<Rightarrow> bytes option" where
  "web_contents ns s k = stored_bytes (ho_idb s KV_STORE (namespacedKey ns k))"

definition rn_contents :: "string \<Rightarrow> 'y host_state \<Rightarrow> string \<Rightarrow> bytes option" where
  "rn_contents ns s k = map_option base64url_to_bytes (ho_async s (namespacedKey ns k))"

interpretation web_store: bytes_store "web_get p ns" "web_set p ns" "web_delete p ns" "web_contents ns"
  by unfold_locales
    (auto simp: web_get_def web_set_def web_delete_def web_contents_def stored_bytes_def fun_eq_iff bindA_eq act_simps
      dest!: idb_runs)

interpretation rn_store: bytes_store "rn_get p ns" "rn_set p ns" "rn_delete p ns" "rn_contents ns"
  by unfold_locales
    (auto simp: rn_get_def rn_set_def rn_delete_def rn_contents_def put_async_def base64url_round_trip fun_eq_iff bindA_eq act_simps)

text \<open>Two namespaces without a colon never share a key of the platform.\<close>

lemma namespacedKey_apart:
  "CHR '':'' \<notin> set ns \<Longrightarrow> CHR '':'' \<notin> set ns' \<Longrightarrow> namespacedKey ns k = namespacedKey ns' k' \<longleftrightarrow> ns = ns' \<and> k = k'"
proof (induction ns arbitrary: ns')
  case Nil
  then show ?case by (cases ns') (auto simp: namespacedKey_def)
next
  case (Cons a ns)
  then show ?case by (cases ns') (auto simp: namespacedKey_def)
qed

lemma web_set_elsewhere:
  "namespacedKey ns k \<noteq> namespacedKey ns' k' \<Longrightarrow> web_contents ns' (snd (web_set p ns k b s)) k' = web_contents ns' s k'"
  by (cases "web_set p ns k b s"; cases "fst (web_set p ns k b s)")
    (auto simp: web_set_def web_contents_def dest!: idbPut_Inr idbPut_Inl)

lemma rn_set_elsewhere:
  "namespacedKey ns k \<noteq> namespacedKey ns' k' \<Longrightarrow> rn_contents ns' (snd (rn_set p ns k b s)) k' = rn_contents ns' s k'"
  by (auto simp: rn_set_def rn_contents_def put_async_def bindA_def act_simps split: sum.split prod.split)

section \<open>A keeper of signing keys\<close>

datatype key_op = Make_Key string | Sign_With string bytes | Show_Key string | Delete_Key string

primrec key_step ::
    "(string \<Rightarrow> ('w, bytes) prog) \<Rightarrow> (string \<Rightarrow> bytes \<Rightarrow> ('w, bytes) prog) \<Rightarrow> (string \<Rightarrow> ('w, bytes option) prog)
      \<Rightarrow> (string \<Rightarrow> ('w, unit) prog) \<Rightarrow> key_op \<Rightarrow> 'w \<Rightarrow> 'w" where
  "key_step mk sg sw del (Make_Key i) w = snd (mk i w)"
| "key_step mk sg sw del (Sign_With i m) w = snd (sg i m w)"
| "key_step mk sg sw del (Show_Key i) w = snd (sw i w)"
| "key_step mk sg sw del (Delete_Key i) w = snd (del i w)"

text \<open>Operations that neither make nor delete the key \<open>i\<close>.\<close>

definition spares :: "string \<Rightarrow> key_op list \<Rightarrow> bool" where
  "spares i ops \<longleftrightarrow> Make_Key i \<notin> set ops \<and> Delete_Key i \<notin> set ops"

locale key_keeper =
  fixes mk :: "string \<Rightarrow> ('w, bytes) prog"
    and sg :: "string \<Rightarrow> bytes \<Rightarrow> ('w, bytes) prog"
    and sw :: "string \<Rightarrow> ('w, bytes option) prog"
    and del :: "string \<Rightarrow> ('w, unit) prog"
    and ready :: "'w \<Rightarrow> bool"
    and holds :: "'w \<Rightarrow> string \<Rightarrow> bytes \<Rightarrow> bool"
    and accepts :: "bytes \<Rightarrow> bytes \<Rightarrow> bytes \<Rightarrow> bool"
  assumes made: "ready w \<Longrightarrow> \<exists>k w'. mk i w = (Inr k, w') \<and> holds w' i k"
    and signs: "ready w \<Longrightarrow> holds w i k \<Longrightarrow> \<exists>s w'. sg i m w = (Inr s, w') \<and> accepts k m s"
    and shown: "ready w \<Longrightarrow> holds w i k \<Longrightarrow> \<exists>w'. sw i w = (Inr (Some k), w')"
    and ready_kept: "ready w \<Longrightarrow> ready (key_step mk sg sw del op w)"
    and holds_kept: "holds w i k \<Longrightarrow> spares i [op] \<Longrightarrow> holds (key_step mk sg sw del op w) i k"
begin

lemma ops_keep:
  "ready w \<Longrightarrow> holds w i k \<Longrightarrow> spares i ops \<Longrightarrow>
    ready (fold (key_step mk sg sw del) ops w) \<and> holds (fold (key_step mk sg sw del) ops w) i k"
proof (induction ops arbitrary: w)
  case Nil
  then show ?case by simp
next
  case (Cons op ops)
  from Cons.prems(3) have "spares i [op]" "spares i ops" by (auto simp: spares_def)
  with Cons.IH [OF ready_kept [OF Cons.prems(1)]] holds_kept [OF Cons.prems(2)] show ?case by simp
qed

lemma keeps_signing:
  assumes "ready w" "spares i ops"
  shows "\<exists>k w1 s w2. mk i w = (Inr k, w1) \<and> sg i m (fold (key_step mk sg sw del) ops w1) = (Inr s, w2) \<and> accepts k m s \<and>
    (\<exists>w3. sw i (fold (key_step mk sg sw del) ops w1) = (Inr (Some k), w3))"
proof -
  from made [OF assms(1), of i] obtain k w1 where run: "mk i w = (Inr k, w1)" and "holds w1 i k" by blast
  moreover from ready_kept [OF assms(1), of "Make_Key i"] run have "ready w1" by simp
  ultimately have "ready (fold (key_step mk sg sw del) ops w1)" "holds (fold (key_step mk sg sw del) ops w1) i k"
    using ops_keep [of w1 i k ops] assms(2) by auto
  with run signs [of _ i k m] shown [of _ i k] show ?thesis by fastforce
qed

end

definition host_works :: "('y, 'z) host_api_scheme \<Rightarrow> bool" where
  "host_works p \<longleftrightarrow> (\<forall>y. fst (idb_open p y) = Inr () \<and> fst (idb_request p y) = Inr () \<and>
     fst (async_call p y) = Inr () \<and> fst (keychain_call p y) = Inr ())"

text \<open>\<open>JSON.parse\<close> reads back the records of the keys the platform can draw.\<close>

definition records_parse :: "('y, 'z) sdk_scheme \<Rightarrow> bool" where
  "records_parse p \<longleftrightarrow> (\<forall>y y1 y2. json_law p (wrapped_key_record (fst (fst (sdk_keygen p y))) (fst (sdk_random p 12 y2))
     (aes_gcm_seal p (fst (sdk_random p 32 y1)) (fst (sdk_random p 12 y2)) (snd (fst (sdk_keygen p y))))))"

definition provider_laws :: "('y, 'z) host_api_scheme \<Rightarrow> bool" where
  "provider_laws p \<longleftrightarrow> gcm_law p \<and> signature_law p \<and> keygen_law p \<and> host_works p \<and> records_parse p"

text \<open>The laws hold, and the database is not one whose opening has failed.\<close>

definition provider_ready :: "('y, 'z) host_api_scheme \<Rightarrow> 'y host_state \<Rightarrow> bool" where
  "provider_ready p s \<longleftrightarrow> provider_laws p \<and> (ho_db s = None \<or> ho_db s = Some (Inr ()))"

definition web_holds :: "('y, 'z) host_api_scheme \<Rightarrow> 'y host_state \<Rightarrow> string \<Rightarrow> bytes \<Rightarrow> bool" where
  "web_holds p s i k \<longleftrightarrow> (\<exists>w n sk. k = ml_dsa44_public_key p sk \<and> ho_idb s SECURE_KEY_STORE i =
     Some (Idb_Key \<lparr>yk_publicKey = k, yk_wrappingKey = w, yk_iv = n, yk_wrappedSecretKey = aes_gcm_seal p w n sk\<rparr>))"

definition rn_holds :: "('y, 'z) host_api_scheme \<Rightarrow> 'y host_state \<Rightarrow> string \<Rightarrow> bytes \<Rightarrow> bool" where
  "rn_holds p s i k \<longleftrightarrow> (\<exists>w n sk. k = ml_dsa44_public_key p sk \<and> ho_keychain s (keychainService i) = Some (bytes_to_base64url w) \<and>
     ho_async s (namespacedKey WRAPPED_KEY_NAMESPACE i) =
       Some (bytes_to_base64url (utf8_encode (json_stringify (wrapped_key_record k n (aes_gcm_seal p w n sk))))) \<and>
     json_law p (wrapped_key_record k n (aes_gcm_seal p w n sk)))"

lemma openDb_ready:
  assumes "provider_ready p s"
  shows "\<exists>s'. openDb p s = (Inr (), s') \<and> provider_ready p s' \<and> ho_idb s' = ho_idb s"
  using assms by (cases "idb_open p (ho_outer s)")
    (auto simp: provider_ready_def openDb_def provider_laws_def host_works_def dest: spec [of _ "ho_outer s"] split: option.split)

lemma provider_ready_more [simp]:
  "provider_ready p (s\<lparr>ho_outer := y\<rparr>) = provider_ready p s" "provider_ready p (s\<lparr>ho_idb := f\<rparr>) = provider_ready p s"
  "provider_ready p (s\<lparr>ho_async := g\<rparr>) = provider_ready p s" "provider_ready p (s\<lparr>ho_keychain := h\<rparr>) = provider_ready p s"
  by (simp_all add: provider_ready_def)

lemma host_ready: "provider_ready p s \<Longrightarrow> fst (idb_request p y) = Inr () \<and> fst (async_call p y) = Inr () \<and> fst (keychain_call p y) = Inr ()"
  by (simp add: provider_ready_def provider_laws_def host_works_def)

lemma idbPut_ready:
  assumes "provider_ready p s"
  shows "\<exists>s'. idbPut p st k v s = (Inr (), s') \<and> provider_ready p s' \<and> ho_idb s' = (ho_idb s)(st := (ho_idb s st)(k \<mapsto> v))"
  using openDb_ready [OF assms] by (auto simp: idbPut_def bindA_def act_simps put_value_def host_ready)

lemma idbGet_ready:
  assumes "provider_ready p s"
  shows "\<exists>s'. idbGet p st k s = (Inr (ho_idb s st k), s') \<and> provider_ready p s' \<and> ho_idb s' = ho_idb s"
  using openDb_ready [OF assms] by (auto simp: idbGet_def bindA_def act_simps host_ready)

lemma idbDelete_ready:
  assumes "provider_ready p s"
  shows "\<exists>s'. idbDelete p st k s = (Inr (), s') \<and> provider_ready p s'"
  using openDb_ready [OF assms] by (auto simp: idbDelete_def bindA_def act_simps put_value_def host_ready)

subsection \<open>In a browser\<close>

lemma web_generateKey_run:
  obtains k sk w n y where "fst (sdk_keygen p (ho_outer s)) = (k, sk)"
    "web_generateKey p i s = bindA (idbPut p SECURE_KEY_STORE i (Idb_Key \<lparr>yk_publicKey = k, yk_wrappingKey = w, yk_iv = n,
       yk_wrappedSecretKey = aes_gcm_seal p w n sk\<rparr>)) (\<lambda>_. retA k) (s\<lparr>ho_outer := y\<rparr>)"
  by (cases "fst (sdk_keygen p (ho_outer s))") (auto simp: web_generateKey_def bindA_step [OF freshH_run])

lemma keygen_pair: "provider_ready p s \<Longrightarrow> fst (sdk_keygen p y) = (k, sk) \<Longrightarrow> k = ml_dsa44_public_key p sk"
  by (simp add: provider_ready_def provider_laws_def keygen_law_def) (metis fst_conv snd_conv)

lemma web_generateKey_made:
  assumes "provider_ready p s"
  shows "\<exists>k s'. web_generateKey p i s = (Inr k, s') \<and> web_holds p s' i k \<and> provider_ready p s'"
proof -
  obtain k sk w n y where pair: "fst (sdk_keygen p (ho_outer s)) = (k, sk)"
    and run: "web_generateKey p i s = bindA (idbPut p SECURE_KEY_STORE i (Idb_Key \<lparr>yk_publicKey = k, yk_wrappingKey = w, yk_iv = n,
       yk_wrappedSecretKey = aes_gcm_seal p w n sk\<rparr>)) (\<lambda>_. retA k) (s\<lparr>ho_outer := y\<rparr>)"
    by (rule web_generateKey_run)
  from assms have "provider_ready p (s\<lparr>ho_outer := y\<rparr>)" by simp
  from idbPut_ready [OF this, of SECURE_KEY_STORE i "Idb_Key \<lparr>yk_publicKey = k, yk_wrappingKey = w, yk_iv = n,
       yk_wrappedSecretKey = aes_gcm_seal p w n sk\<rparr>"] keygen_pair [OF assms pair]
  show ?thesis by (auto simp: run bindA_def act_simps web_holds_def)
qed

lemma web_generateKey_elsewhere:
  assumes "j \<noteq> i"
  shows "ho_idb (snd (web_generateKey p j s)) SECURE_KEY_STORE i = ho_idb s SECURE_KEY_STORE i"
proof -
  obtain v k y where "web_generateKey p j s = bindA (idbPut p SECURE_KEY_STORE j v) (\<lambda>_. retA k) (s\<lparr>ho_outer := y\<rparr>)"
    by (rule web_generateKey_run)
  with assms show ?thesis
    by (cases "idbPut p SECURE_KEY_STORE j v (s\<lparr>ho_outer := y\<rparr>)"; cases "fst (idbPut p SECURE_KEY_STORE j v (s\<lparr>ho_outer := y\<rparr>))")
      (auto simp: bindA_def act_simps dest!: idb_runs)
qed

lemma web_sign_signs:
  assumes "provider_ready p s" "web_holds p s i k"
  shows "\<exists>t s'. web_sign p i m s = (Inr t, s') \<and> mlDsa44Verify p k m t = Inr True"
  using assms(2) idbGet_ready [OF assms(1), of SECURE_KEY_STORE i] assms(1)
  by (auto simp: web_holds_def web_sign_def bindA_def act_simps key_of_def provider_ready_def provider_laws_def gcm_law_def
      signature_verifies)

lemma web_keeps_ready:
  assumes "provider_ready p s"
  shows "provider_ready p (key_step (web_generateKey p) (web_sign p) (web_getPublicKey p) (web_deleteKey p) op s)"
proof (cases op)
  case (Make_Key i)
  with web_generateKey_made [OF assms, of i] show ?thesis by auto
next
  case (Sign_With i m)
  with idbGet_ready [OF assms, of SECURE_KEY_STORE i] show ?thesis
    by (auto simp: web_sign_def bindA_def act_simps split: option.split sum.split)
next
  case (Show_Key i)
  with idbGet_ready [OF assms, of SECURE_KEY_STORE i] show ?thesis
    by (auto simp: web_getPublicKey_def bindA_def act_simps)
next
  case (Delete_Key i)
  with idbDelete_ready [OF assms, of SECURE_KEY_STORE i] show ?thesis by (auto simp: web_deleteKey_def)
qed

lemma web_reads_keep:
  "ho_idb (snd (web_sign p i m s)) = ho_idb s" "ho_idb (snd (web_getPublicKey p i s)) = ho_idb s"
  by (cases "idbGet p SECURE_KEY_STORE i s"; cases "fst (idbGet p SECURE_KEY_STORE i s)";
      auto simp: web_sign_def web_getPublicKey_def bindA_def act_simps dest!: idb_runs split: option.split sum.split)+

lemma web_keeps_keys:
  assumes "web_holds p s i k" "spares i [op]"
  shows "web_holds p (key_step (web_generateKey p) (web_sign p) (web_getPublicKey p) (web_deleteKey p) op s) i k"
proof -
  have "ho_idb (snd (web_deleteKey p j s)) SECURE_KEY_STORE i = ho_idb s SECURE_KEY_STORE i" if "j \<noteq> i" for j
    using that by (cases "web_deleteKey p j s"; cases "fst (web_deleteKey p j s)") (auto simp: web_deleteKey_def dest!: idb_runs)
  with assms show ?thesis
    by (cases op) (auto simp: web_holds_def spares_def web_generateKey_elsewhere web_reads_keep)
qed

lemma web_shows:
  assumes "provider_ready p s" "web_holds p s i k"
  shows "\<exists>s'. web_getPublicKey p i s = (Inr (Some k), s')"
  using assms(2) idbGet_ready [OF assms(1), of SECURE_KEY_STORE i]
  by (auto simp: web_holds_def web_getPublicKey_def bindA_def act_simps key_of_def)

interpretation web_keys: key_keeper "web_generateKey p" "web_sign p" "web_getPublicKey p" "web_deleteKey p"
    "provider_ready p" "web_holds p" "\<lambda>k m t. mlDsa44Verify p k m t = Inr True"
  by unfold_locales (use web_generateKey_made in blast, erule (1) web_sign_signs, erule (1) web_shows,
      erule web_keeps_ready, erule (1) web_keeps_keys)

subsection \<open>On a phone\<close>

lemma keychainService_inj [simp]: "keychainService i = keychainService j \<longleftrightarrow> i = j"
  by (simp add: keychainService_def)

definition wrapped_text :: "('y, 'z) host_api_scheme \<Rightarrow> bytes \<Rightarrow> bytes \<Rightarrow> bytes \<Rightarrow> bytes \<Rightarrow> bytes" where
  "wrapped_text p k w n sk = utf8_encode (json_stringify (wrapped_key_record k n (aes_gcm_seal p w n sk)))"

lemma rn_generateKey_run:
  obtains k sk w n y y' where "fst (sdk_keygen p (ho_outer s)) = (k, sk)" "w = fst (sdk_random p 32 (snd (sdk_keygen p (ho_outer s))))"
    "n = fst (sdk_random p 12 y')"
    "rn_generateKey p i s = bindA (put_keychain p (keychainService i) (Some (bytes_to_base64url w))) (\<lambda>_.
       bindA (rn_set p WRAPPED_KEY_NAMESPACE i (wrapped_text p k w n sk)) (\<lambda>_. retA k)) (s\<lparr>ho_outer := y\<rparr>)"
  by (cases "fst (sdk_keygen p (ho_outer s))") (auto simp: rn_generateKey_def wrapped_text_def bindA_step [OF freshH_run])

lemma rn_generateKey_made:
  assumes "provider_ready p s"
  shows "\<exists>k s'. rn_generateKey p i s = (Inr k, s') \<and> rn_holds p s' i k \<and> provider_ready p s'"
proof -
  obtain k sk w n y y' where pair: "fst (sdk_keygen p (ho_outer s)) = (k, sk)"
    and drawn: "w = fst (sdk_random p 32 (snd (sdk_keygen p (ho_outer s))))" "n = fst (sdk_random p 12 y')"
    and run: "rn_generateKey p i s = bindA (put_keychain p (keychainService i) (Some (bytes_to_base64url w))) (\<lambda>_.
       bindA (rn_set p WRAPPED_KEY_NAMESPACE i (wrapped_text p k w n sk)) (\<lambda>_. retA k)) (s\<lparr>ho_outer := y\<rparr>)"
    by (rule rn_generateKey_run)
  from assms have "records_parse p" by (simp add: provider_ready_def provider_laws_def)
  then have "json_law p (wrapped_key_record (fst (fst (sdk_keygen p (ho_outer s)))) n
      (aes_gcm_seal p w n (snd (fst (sdk_keygen p (ho_outer s))))))"
    unfolding records_parse_def drawn by blast
  then have "json_law p (wrapped_key_record k n (aes_gcm_seal p w n sk))" by (simp add: pair)
  then show ?thesis
    using assms keygen_pair [OF assms pair]
    by (auto simp: run put_keychain_def rn_set_def put_async_def bindA_def act_simps host_ready [OF assms] rn_holds_def wrapped_text_def)
qed

lemma rn_generateKey_elsewhere:
  assumes "j \<noteq> i"
  shows "rn_holds p (snd (rn_generateKey p j s)) i k = rn_holds p s i k"
proof -
  obtain v b u y where "rn_generateKey p j s = bindA (put_keychain p (keychainService j) v) (\<lambda>_.
       bindA (rn_set p WRAPPED_KEY_NAMESPACE j b) (\<lambda>_. retA u)) (s\<lparr>ho_outer := y\<rparr>)"
    by (rule rn_generateKey_run)
  with assms show ?thesis
    by (auto simp: put_keychain_def rn_set_def put_async_def bindA_def act_simps rn_holds_def split: sum.split)
qed

lemma rn_getRecord_held:
  assumes "provider_ready p s" "rn_holds p s i k"
  obtains w n sk y where "k = ml_dsa44_public_key p sk" "ho_keychain s (keychainService i) = Some (bytes_to_base64url w)"
    "rn_getRecord p i s = (Inr (Some (wrapped_key_record k n (aes_gcm_seal p w n sk))), s\<lparr>ho_outer := y\<rparr>)"
proof -
  from assms(2) obtain w n sk where k: "k = ml_dsa44_public_key p sk" "ho_keychain s (keychainService i) = Some (bytes_to_base64url w)"
    and kept: "ho_async s (namespacedKey WRAPPED_KEY_NAMESPACE i) = Some (bytes_to_base64url (wrapped_text p k w n sk))"
    and "json_law p (wrapped_key_record k n (aes_gcm_seal p w n sk))"
    by (auto simp: rn_holds_def wrapped_text_def)
  with kept k show ?thesis
    by (intro that [OF k])
      (auto simp: rn_getRecord_def rn_get_def bindA_def act_simps host_ready [OF assms(1)] base64url_round_trip wrapped_text_def
        json_law_def wrapped_key_record_def)
qed

lemma js_base64_text [simp]: "js_base64 (Str (bytes_to_base64url b)) = Inr b"
  by (simp add: js_base64_def base64url_round_trip)

lemma rn_sign_signs:
  assumes "provider_ready p s" "rn_holds p s i k"
  shows "\<exists>t s'. rn_sign p i m s = (Inr t, s') \<and> mlDsa44Verify p k m t = Inr True"
proof -
  obtain w n sk y where k: "k = ml_dsa44_public_key p sk" and kc: "ho_keychain s (keychainService i) = Some (bytes_to_base64url w)"
    and rec: "rn_getRecord p i s = (Inr (Some (wrapped_key_record k n (aes_gcm_seal p w n sk))), s\<lparr>ho_outer := y\<rparr>)"
    by (rule rn_getRecord_held [OF assms])
  have "rn_unwrap p (wrapped_key_record k n (aes_gcm_seal p w n sk)) (bytes_to_base64url w) = Inr sk"
    using assms(1)
    by (simp add: rn_unwrap_def wrapped_key_record_def field_def lookup_key_def base64url_round_trip
        provider_ready_def provider_laws_def gcm_law_def)
  then show ?thesis
    using assms(1)
    by (auto simp: rn_sign_def bindA_def act_simps rec kc get_keychain_def host_ready [OF assms(1)] k signature_verifies
        provider_ready_def provider_laws_def)
qed

lemma rn_shows:
  assumes "provider_ready p s" "rn_holds p s i k"
  shows "\<exists>s'. rn_getPublicKey p i s = (Inr (Some k), s')"
proof -
  obtain w n sk y where rec: "rn_getRecord p i s = (Inr (Some (wrapped_key_record k n (aes_gcm_seal p w n sk))), s\<lparr>ho_outer := y\<rparr>)"
    by (rule rn_getRecord_held [OF assms])
  then show ?thesis
    by (auto simp: rn_getPublicKey_def bindA_def act_simps wrapped_key_record_def lookup_key_def base64url_round_trip)
qed

lemma rn_reads_keep:
  "ho_async (snd (rn_getRecord p i s)) = ho_async s \<and> ho_keychain (snd (rn_getRecord p i s)) = ho_keychain s \<and>
    ho_db (snd (rn_getRecord p i s)) = ho_db s"
  by (auto simp: rn_getRecord_def rn_get_def bindA_def act_simps split: sum.split option.split)

lemma rn_sign_keeps:
  "ho_async (snd (rn_sign p i m s)) = ho_async s \<and> ho_keychain (snd (rn_sign p i m s)) = ho_keychain s \<and>
    ho_db (snd (rn_sign p i m s)) = ho_db s"
  using rn_reads_keep [of p i s] by (cases "rn_getRecord p i s")
    (auto simp: rn_sign_def get_keychain_def bindA_def act_simps split: sum.split option.split)

lemma rn_show_keeps:
  "ho_async (snd (rn_getPublicKey p i s)) = ho_async s \<and> ho_keychain (snd (rn_getPublicKey p i s)) = ho_keychain s \<and>
    ho_db (snd (rn_getPublicKey p i s)) = ho_db s"
  using rn_reads_keep [of p i s] by (cases "rn_getRecord p i s")
    (auto simp: rn_getPublicKey_def bindA_def act_simps split: sum.split option.split)

lemma rn_holds_cong:
  "ho_async s' = ho_async s \<Longrightarrow> ho_keychain s' = ho_keychain s \<Longrightarrow> rn_holds p s' i k = rn_holds p s i k"
  by (simp add: rn_holds_def)

lemma rn_deleteKey_run:
  "j \<noteq> i \<Longrightarrow> rn_holds p (snd (rn_deleteKey p j s)) i k = rn_holds p s i k"
  "ho_db (snd (rn_deleteKey p j s)) = ho_db s"
  by (auto simp: rn_deleteKey_def put_keychain_def rn_delete_def put_async_def bindA_def act_simps rn_holds_def split: sum.split)

lemma rn_keeps_ready:
  assumes "provider_ready p s"
  shows "provider_ready p (key_step (rn_generateKey p) (rn_sign p) (rn_getPublicKey p) (rn_deleteKey p) op s)"
proof (cases op)
  case (Make_Key i)
  with rn_generateKey_made [OF assms, of i] show ?thesis by auto
qed (use assms in \<open>auto simp: provider_ready_def rn_sign_keeps rn_show_keeps rn_deleteKey_run\<close>)

lemma rn_keeps_keys:
  assumes "rn_holds p s i k" "spares i [op]"
  shows "rn_holds p (key_step (rn_generateKey p) (rn_sign p) (rn_getPublicKey p) (rn_deleteKey p) op s) i k"
proof (cases op)
  case (Sign_With j m)
  then show ?thesis using assms(1) rn_holds_cong [of "snd (rn_sign p j m s)" s p] by (simp add: rn_sign_keeps)
next
  case (Show_Key j)
  then show ?thesis using assms(1) rn_holds_cong [of "snd (rn_getPublicKey p j s)" s p] by (simp add: rn_show_keeps)
qed (use assms in \<open>auto simp: spares_def rn_generateKey_elsewhere rn_deleteKey_run\<close>)

interpretation rn_keys: key_keeper "rn_generateKey p" "rn_sign p" "rn_getPublicKey p" "rn_deleteKey p"
    "provider_ready p" "rn_holds p" "\<lambda>k m t. mlDsa44Verify p k m t = Inr True"
  by unfold_locales (use rn_generateKey_made in blast, erule (1) rn_sign_signs, erule (1) rn_shows,
      erule rn_keeps_ready, erule (1) rn_keeps_keys)

section \<open>The lock between tabs\<close>

text \<open>A transaction that returns has opened the database and read the record.\<close>

lemma read_lock_record:
  assumes "bindA (openDb p) (\<lambda>_. bindA (outH (idb_request p)) (\<lambda>_.
     bindA (readA (\<lambda>s. Inr (held_by (ho_idb s LOCK_STORE name)))) rest)) s = (Inr a, s')"
  obtains s2 where "ho_idb s2 = ho_idb s" "rest (held_by (ho_idb s LOCK_STORE name)) s2 = (Inr a, s')"
proof -
  from assms obtain s1 where "openDb p s = (Inr (), s1)"
    and "rest (held_by (ho_idb s1 LOCK_STORE name)) (s1\<lparr>ho_outer := snd (idb_request p (ho_outer s1))\<rparr>) = (Inr a, s')"
    by (auto simp: bindA_Inr act_simps)
  moreover from this(1) have "ho_idb s1 = ho_idb s" by (simp add: openDb_keeps)
  ultimately show ?thesis
    by (intro that [of "s1\<lparr>ho_outer := snd (idb_request p (ho_outer s1))\<rparr>"]) simp_all
qed

lemma acquire_transaction_is_tryAcquire:
  assumes "acquire_transaction p name i s = (Inr b, s')"
  shows "(b, held_by (ho_idb s' LOCK_STORE name)) = tryAcquire i (held_by (ho_idb s LOCK_STORE name))"
proof -
  let ?h = "held_by (ho_idb s LOCK_STORE name)"
  obtain s2 where s2: "ho_idb s2 = ho_idb s" and run: "(if ?h \<noteq> None \<and> ?h \<noteq> Some [] then retA False
      else bindA (outH (idb_request p)) (\<lambda>_. bindA (put_value LOCK_STORE name (Some (Idb_Lock (Some i)))) (\<lambda>_. retA True))) s2 = (Inr b, s')"
    using assms unfolding acquire_transaction_def by (rule read_lock_record)
  show ?thesis
  proof (cases "?h \<noteq> None \<and> ?h \<noteq> Some []")
    case True
    with run s2 show ?thesis by (auto simp: tryAcquire_def act_simps)
  next
    case False
    with run have "b \<and> held_by (ho_idb s' LOCK_STORE name) = Some i"
      by (simp only: if_False) (auto simp: bindA_Inr act_simps put_value_def held_by_def)
    with False show ?thesis by (simp add: tryAcquire_def)
  qed
qed

lemma release_transaction_is_release:
  assumes "release_transaction p name i s = (Inr u, s')"
  shows "held_by (ho_idb s' LOCK_STORE name) = release_lock i (held_by (ho_idb s LOCK_STORE name))"
proof -
  let ?h = "held_by (ho_idb s LOCK_STORE name)"
  obtain s2 where s2: "ho_idb s2 = ho_idb s" and run: "(if ?h = Some i
      then bindA (outH (idb_request p)) (\<lambda>_. put_value LOCK_STORE name (Some (Idb_Lock None))) else retA ()) s2 = (Inr u, s')"
    using assms unfolding release_transaction_def by (rule read_lock_record)
  show ?thesis
  proof (cases "?h = Some i")
    case True
    with run have "held_by (ho_idb s' LOCK_STORE name) = None"
      by (simp only: if_True) (auto simp: bindA_Inr act_simps put_value_def held_by_def)
    with True show ?thesis by (simp add: release_lock_def)
  next
    case False
    with run s2 show ?thesis by (auto simp: release_lock_def act_simps)
  qed
qed

text \<open>Whoever holds or is about to release is the recorded holder; every call has drawn its own identifier.\<close>

definition lock_inv :: "lock_world \<Rightarrow> bool" where
  "lock_inv w \<longleftrightarrow> lw_holding w \<union> lw_releasing w \<subseteq> set_option (lw_held w) \<and> lw_holding w \<inter> lw_releasing w = {} \<and>
     [] \<notin> lw_drawn w \<and> lw_waiting w \<union> lw_holding w \<union> lw_releasing w \<subseteq> lw_drawn w"

lemma lock_inv_free:
  assumes "lock_inv w" "tryAcquire i (lw_held w) = (True, h)"
  shows "h = Some i" "lw_holding w = {}" "lw_releasing w = {}"
proof -
  from assms(2) have "lw_held w = None \<or> lw_held w = Some []" and "h = Some i"
    by (auto simp: tryAcquire_def split: if_splits)
  have "x \<notin> lw_holding w \<union> lw_releasing w" for x
  proof
    assume x: "x \<in> lw_holding w \<union> lw_releasing w"
    with assms(1) have "lw_held w = Some x" "x \<in> lw_drawn w" "[] \<notin> lw_drawn w" by (auto simp: lock_inv_def)
    with \<open>lw_held w = None \<or> lw_held w = Some []\<close> show False by auto
  qed
  with \<open>h = Some i\<close> show "h = Some i" "lw_holding w = {}" "lw_releasing w = {}" by auto
qed

lemma lock_step_inv: "lock_step w w' \<Longrightarrow> lock_inv w \<Longrightarrow> lock_inv w'"
proof (induction rule: lock_step.induct)
  case (begins i w)
  then show ?case by (simp add: lock_inv_def) blast
next
  case (acquires i w h)
  note free = lock_inv_free [OF acquires.prems acquires.hyps(2)]
  from acquires.hyps(1) acquires.prems free(2,3) show ?case by (simp add: lock_inv_def free(1)) blast
next
  case (releases i w)
  then show ?case by (simp add: lock_inv_def) blast
next
  case (commits i w)
  then have "lw_held w = Some i" by (auto simp: lock_inv_def)
  with commits show ?case by (simp add: lock_inv_def release_lock_def) blast
next
  case (cut_off w i)
  then show ?case by (simp add: lock_inv_def) blast
qed

lemma lock_inv_reachable: "lock_step\<^sup>*\<^sup>* new_lock w \<Longrightarrow> lock_inv w"
  by (induction rule: rtranclp_induct) (auto dest: lock_step_inv, simp_all add: new_lock_def lock_inv_def)

lemma lock_inv_holder:
  assumes "lock_inv w" "i \<in> lw_holding w"
  shows "lw_held w = Some i" "i \<noteq> []" "lw_holding w = {i}" "lw_releasing w = {}"
proof -
  from assms show held: "lw_held w = Some i" by (auto simp: lock_inv_def)
  from assms show "i \<noteq> []" by (auto simp: lock_inv_def)
  from assms held show "lw_holding w = {i}" "lw_releasing w = {}" by (auto simp: lock_inv_def)
qed

lemma abandoned_step:
  "lock_step w w' \<Longrightarrow> lw_held w = Some i \<Longrightarrow> i \<noteq> [] \<Longrightarrow> lw_holding w = {} \<Longrightarrow> lw_releasing w = {} \<Longrightarrow>
    lw_held w' = Some i \<and> lw_holding w' = {} \<and> lw_releasing w' = {}"
  by (induction rule: lock_step.induct) (auto simp: tryAcquire_def split: if_splits)

section \<open>Claims\<close>

definition web_step :: "('y, 'z) host_api_scheme \<Rightarrow> key_op \<Rightarrow> 'y host_state \<Rightarrow> 'y host_state" where
  "web_step p = key_step (web_generateKey p) (web_sign p) (web_getPublicKey p) (web_deleteKey p)"

definition rn_step :: "('y, 'z) host_api_scheme \<Rightarrow> key_op \<Rightarrow> 'y host_state \<Rightarrow> 'y host_state" where
  "rn_step p = key_step (rn_generateKey p) (rn_sign p) (rn_getPublicKey p) (rn_deleteKey p)"

text \<open>
  C19. A key generated by the provider of either platform signs for its public key, after any further operations
  that neither generate nor delete a key under the same identifier: signing returns, and the signature verifies.
\<close>

theorem generated_keys_sign_on_both_platforms:
  assumes "provider_ready p s" "spares i ops"
  shows "(\<exists>k s1 t s2. web_generateKey p i s = (Inr k, s1) \<and> web_sign p i m (fold (web_step p) ops s1) = (Inr t, s2) \<and>
      mlDsa44Verify p k m t = Inr True) \<and>
    (\<exists>k s1 t s2. rn_generateKey p i s = (Inr k, s1) \<and> rn_sign p i m (fold (rn_step p) ops s1) = (Inr t, s2) \<and>
      mlDsa44Verify p k m t = Inr True)"
  using web_keys.keeps_signing [OF assms, of m] rn_keys.keeps_signing [OF assms, of m]
  unfolding web_step_def rn_step_def by blast

text \<open>
  C20. In every reachable state of the tabs at most one call holds the lock of a name, it is the one the record
  names, and a free lock goes to whichever waiting call runs its transaction next.
\<close>

theorem lock_is_exclusive:
  assumes "lock_step\<^sup>*\<^sup>* new_lock w"
  shows "(i \<in> lw_holding w \<and> j \<in> lw_holding w \<longrightarrow> i = j) \<and> (i \<in> lw_holding w \<longrightarrow> lw_held w = Some i) \<and>
    (lw_held w = None \<and> i \<in> lw_waiting w \<longrightarrow> (\<exists>w'. lock_step w w' \<and> lw_holding w' = {i}))"
proof -
  from lock_inv_reachable [OF assms] have inv: "lock_inv w" .
  have "\<exists>w'. lock_step w w' \<and> lw_holding w' = {i}" if free: "lw_held w = None" and "i \<in> lw_waiting w"
  proof -
    have "tryAcquire i (lw_held w) = (True, Some i)" by (simp add: tryAcquire_def free)
    with that lock_inv_free [OF inv this] lock_step.acquires [of i w "Some i"] show ?thesis by fastforce
  qed
  then show ?thesis using lock_inv_holder [OF inv, of i] lock_inv_holder [OF inv, of j] by auto
qed

definition taken_lock :: lock_world where
  "taken_lock = \<lparr>lw_held = Some ''a'', lw_waiting = {''b''}, lw_holding = {''a''}, lw_releasing = {}, lw_drawn = {''a'', ''b''}\<rparr>"

lemma taken_lock_reachable: "lock_step\<^sup>*\<^sup>* new_lock taken_lock"
proof -
  let ?one = "\<lparr>lw_held = None, lw_waiting = {''a''}, lw_holding = {}, lw_releasing = {}, lw_drawn = {''a''}\<rparr>"
  let ?two = "\<lparr>lw_held = None, lw_waiting = {''b'', ''a''}, lw_holding = {}, lw_releasing = {}, lw_drawn = {''b'', ''a''}\<rparr>"
  have "lock_step new_lock ?one" using lock_step.begins [of "''a''" new_lock] by (simp add: new_lock_def)
  moreover have "lock_step ?one ?two" using lock_step.begins [of "''b''" ?one] by simp
  moreover have "lock_step ?two taken_lock"
  proof -
    have "lw_waiting ?two - {''a''} = {''b''}" by auto
    with lock_step.acquires [of "''a''" ?two "Some ''a''"] show ?thesis
      by (simp add: tryAcquire_def taken_lock_def insert_commute)
  qed
  ultimately show ?thesis by (meson rtranclp.rtrancl_into_rtrancl rtranclp.rtrancl_refl)
qed

theorem lock_is_exclusive_witness:
  "lock_step\<^sup>*\<^sup>* new_lock taken_lock \<and> ''a'' \<in> lw_holding taken_lock \<and> lw_held taken_lock = Some ''a''"
  using taken_lock_reachable lock_is_exclusive [OF taken_lock_reachable, of "''a''" "''a''"]
  by (simp add: taken_lock_def)

text \<open>A tab that is closed while it holds the lock leaves the record behind: no call of any tab holds the lock again.\<close>

theorem cut_off_holder_blocks_for_ever:
  assumes "lock_step\<^sup>*\<^sup>* new_lock w" "i \<in> lw_holding w" "lock_step\<^sup>*\<^sup>* (w\<lparr>lw_holding := lw_holding w - {i}\<rparr>) w'"
  shows "lw_held w' = Some i \<and> lw_holding w' = {}"
proof -
  note start = lock_inv_holder [OF lock_inv_reachable [OF assms(1)] assms(2)]
  from assms(3) have "lw_held w' = Some i \<and> lw_holding w' = {} \<and> lw_releasing w' = {}"
  proof (induction rule: rtranclp_induct)
    case base
    show ?case by (simp add: start)
  next
    case (step v v')
    then show ?case using abandoned_step [of v v' i] start(2) by blast
  qed
  then show ?thesis by blast
qed

theorem cut_off_holder_blocks_for_ever_witness:
  "lw_held (taken_lock\<lparr>lw_holding := {}\<rparr>) = Some ''a'' \<and> ''b'' \<in> lw_waiting (taken_lock\<lparr>lw_holding := {}\<rparr>)"
  using cut_off_holder_blocks_for_ever [OF taken_lock_reachable, of "''a''" "taken_lock\<lparr>lw_holding := {}\<rparr>"]
  by (simp add: taken_lock_def)

definition never_returns :: "('w, 'a) prog \<Rightarrow> bool" where
  "never_returns m \<longleftrightarrow> (\<forall>w. \<exists>e. fst (m w) = Inl e)"

lemma never_returns_bind:
  "never_returns m \<Longrightarrow> never_returns (bindA m f)"
  "(\<And>a. never_returns (f a)) \<Longrightarrow> never_returns (bindA m f)"
proof -
  show "never_returns m \<Longrightarrow> never_returns (bindA m f)"
    by (auto simp: never_returns_def bindA_def split: prod.split sum.split) (metis fst_conv Inl_Inr_False)
  show "never_returns (bindA m f)" if f: "\<And>a. never_returns (f a)"
    unfolding never_returns_def
  proof
    fix w
    from f show "\<exists>e. fst (bindA m f w) = Inl e"
      by (cases "m w"; cases "fst (m w)") (auto simp: never_returns_def bindA_def)
  qed
qed

lemma never_returns_prod: "(\<And>a b. never_returns (f a b)) \<Longrightarrow> never_returns (case x of (a, b) \<Rightarrow> f a b)"
  by (cases x) simp

text \<open>The libraries over the passkeys of React Native.\<close>

definition rn_sdk :: "('y, 'z) host_api_scheme \<Rightarrow> ('y, 'z) host_api_scheme" where
  "rn_sdk p = p\<lparr>passkey_register := rn_passkey_register p, passkey_assert := (\<lambda>c. rn_passkey_assert p c None)\<rparr>"

lemma rn_register_no_output: "fst (rn_passkey_register p c y) = Inr r \<Longrightarrow> pk_prfOutput r = None"
  by (auto simp: rn_passkey_register_def bindE_eq_Inr split: prod.splits)

lemma rn_registration_ends:
  assumes "\<And>r. pk_prfOutput r = None \<Longrightarrow> never_returns (f r)"
  shows "never_returns (bindA (outD (passkey_register (rn_sdk p) c)) f)"
  unfolding never_returns_def
proof
  fix d
  show "\<exists>e. fst (bindA (outD (passkey_register (rn_sdk p) c)) f d) = Inl e"
    using assms rn_register_no_output [of p c "dv_outer d"]
    by (cases "fst (rn_passkey_register p c (dv_outer d))")
      (auto simp: bindA_def act_simps rn_sdk_def never_returns_def)
qed

lemma no_output_ends:
  "pk_prfOutput r = None \<Longrightarrow> never_returns (bindA (liftA (prf_output p msg r)) f)"
  by (simp add: never_returns_def bindA_def act_simps prf_output_def)

lemma rn_open_account: "never_returns (open_account (rn_sdk p) o' h k sk)"
  unfolding open_account_def
  by (intro never_returns_bind(2) never_returns_prod rn_registration_ends no_output_ends)

lemma rn_reregister: "never_returns (reregister (rn_sdk p) o' es sk)"
  unfolding reregister_def Let_def
  by (intro never_returns_bind(2) rn_registration_ends no_output_ends)

text \<open>
  C21. With the passkey provider of React Native, which hands on no PRF output, neither the setup nor the recovery of
  a wallet ever returns, whatever the services answer.
\<close>

theorem react_native_sets_up_no_wallet:
  "(\<exists>e. fst (setupWallet (rn_sdk p) o' hook d) = Inl e) \<and> (\<exists>e. fst (recoverWallet (rn_sdk p) o'' d) = Inl e)"
proof -
  have "never_returns (setupWallet (rn_sdk p) o' hook)"
    unfolding setupWallet_def Let_def
    by (rule never_returns_bind(2), rule never_returns_prod, rule never_returns_bind(1), rule rn_open_account)
  moreover have "never_returns (recoverWallet (rn_sdk p) o'')"
    unfolding recoverWallet_def Let_def
    by (rule never_returns_bind(2), rule never_returns_prod, rule never_returns_bind(2), rule never_returns_bind(1), rule rn_reregister)
  ultimately show ?thesis by (simp add: never_returns_def)
qed

text \<open>Namespaces without a colon never touch each other's values, and what was set is read back.\<close>

theorem platform_namespaces_are_apart:
  assumes "CHR '':'' \<notin> set ns" "CHR '':'' \<notin> set ns'" "(ns', k') \<noteq> (ns, k)"
  shows "web_contents ns' (snd (web_set p ns k b s)) k' = web_contents ns' s k' \<and>
    rn_contents ns' (snd (rn_set p ns k b s)) k' = rn_contents ns' s k' \<and>
    (\<forall>u s1 v s2. web_set p ns k b s = (Inr u, s1) \<and> web_get p ns k s1 = (Inr v, s2) \<longrightarrow> v = Some b) \<and>
    (\<forall>u s1 v s2. rn_set p ns k b s = (Inr u, s1) \<and> rn_get p ns k s1 = (Inr v, s2) \<longrightarrow> v = Some b)"
proof -
  from assms have "namespacedKey ns k \<noteq> namespacedKey ns' k'" by (auto simp: namespacedKey_apart)
  then show ?thesis
    using web_store.reads_back [of p ns k b] rn_store.reads_back [of p ns k b]
    by (simp add: web_set_elsewhere rn_set_elsewhere) blast
qed

lemma namespaces_with_colons_collide: "namespacedKey ''cards:1'' ''a'' = namespacedKey ''cards'' ''1:a''"
  by (simp add: namespacedKey_def)

text \<open>A database whose opening failed once stays closed: every operation throws, whatever the platform does next.\<close>

lemma failed_opening_is_final:
  assumes "ho_db s = Some (Inl e)"
  shows "web_get p ns k s = (Inl e, s)" "web_set p ns k b s = (Inl e, s)" "web_sign p i m s = (Inl e, s)"
    "acquire_transaction p n i s = (Inl e, s)"
  using assms by (simp_all add: web_get_def web_set_def web_sign_def acquire_transaction_def idbGet_def idbPut_def bindA_def openDb_def)

text \<open>Under any key but its own a sealed text does not open.\<close>

definition wrong_key_law :: "('r) runtime_scheme \<Rightarrow> bytes \<Rightarrow> bytes \<Rightarrow> bool" where
  "wrong_key_law p key other \<longleftrightarrow> (\<forall>n m. \<exists>e. aes_gcm_open (crypto_ops p) other n (aes_gcm_seal p key n m) = Inl e)"

lemma web_failed_generation_keeps:
  assumes "web_generateKey p i s = (Inl e, s')"
  shows "ho_idb s' = ho_idb s"
proof -
  obtain v k y where "web_generateKey p i s = bindA (idbPut p SECURE_KEY_STORE i v) (\<lambda>_. retA k) (s\<lparr>ho_outer := y\<rparr>)"
    by (rule web_generateKey_run)
  with assms show ?thesis by (auto simp: bindA_eq act_simps dest!: idb_runs)
qed

text \<open>On a phone a key is generated anew over an old one, the keychain takes the new wrapping key and the record
  is not stored: the old key never signs again.\<close>

theorem failed_regeneration_loses_the_phone_key:
  assumes held: "rn_holds p s i k" "ho_keychain s (keychainService i) = Some (bytes_to_base64url w)"
    and fails: "rn_generateKey p i s = (Inl e, s')" "ho_keychain s' \<noteq> ho_keychain s"
    and other: "wrong_key_law p w (fst (sdk_random p 32 (snd (sdk_keygen p (ho_outer s)))))"
    and later: "ho_async t = ho_async s'" "ho_keychain t = ho_keychain s'"
  shows "\<exists>e'. fst (rn_sign p i m t) = Inl e'"
proof -
  let ?w = "fst (sdk_random p 32 (snd (sdk_keygen p (ho_outer s))))"
  obtain b u w' y where "w' = ?w" and run: "rn_generateKey p i s = bindA (put_keychain p (keychainService i) (Some (bytes_to_base64url w'))) (\<lambda>_.
       bindA (rn_set p WRAPPED_KEY_NAMESPACE i b) (\<lambda>_. retA u)) (s\<lparr>ho_outer := y\<rparr>)"
    by (rule rn_generateKey_run)
  note runs = put_keychain_def rn_set_def put_async_def bindA_def act_simps
  have state: "ho_async s' = ho_async s \<and> ho_keychain s' (keychainService i) = Some (bytes_to_base64url w')"
  proof (cases "fst (keychain_call p y)")
    case (Inl x)
    then have "ho_keychain (snd (rn_generateKey p i s)) = ho_keychain s" by (simp add: run runs)
    with fails show ?thesis by simp
  next
    case (Inr x)
    then have "ho_async (snd (rn_generateKey p i s)) = ho_async s \<and>
        ho_keychain (snd (rn_generateKey p i s)) (keychainService i) = Some (bytes_to_base64url w')"
      if "fst (rn_generateKey p i s) = Inl e"
      using that by (cases "fst (async_call p (snd (keychain_call p y)))") (simp_all add: run runs)
    with fails(1) show ?thesis by simp
  qed
  from held(1) obtain v n sk where "ho_keychain s (keychainService i) = Some (bytes_to_base64url v)"
    and kept: "ho_async s (namespacedKey WRAPPED_KEY_NAMESPACE i) = Some (bytes_to_base64url (wrapped_text p k v n sk))"
    and json: "json_law p (wrapped_key_record k n (aes_gcm_seal p v n sk))"
    by (auto simp: rn_holds_def wrapped_text_def)
  with held(2) have "v = w" by (metis b64.enc_inject option.inject)
  with other obtain e' where "aes_gcm_open (crypto_ops p) ?w n (aes_gcm_seal p v n sk) = Inl e'" by (auto simp: wrong_key_law_def)
  then have "rn_unwrap p (wrapped_key_record k n (aes_gcm_seal p v n sk)) (bytes_to_base64url ?w) = Inl e'"
    by (simp add: rn_unwrap_def wrapped_key_record_def field_def lookup_key_def base64url_round_trip)
  with kept json state later \<open>w' = ?w\<close> show ?thesis
    by (auto simp: rn_sign_def rn_getRecord_def rn_get_def get_keychain_def bindA_def act_simps base64url_round_trip
        wrapped_text_def json_law_def wrapped_key_record_def split: sum.split)
qed

section \<open>An example\<close>

definition ex_host :: "unit res \<Rightarrow> js \<Rightarrow> unit host_api" where
  "ex_host r v = sdk.extend (ex_sdk v Undef) (host_api.fields (\<lambda>y. (Inr (), y)) (\<lambda>y. (Inr (), y)) (\<lambda>y. (r, y)) (\<lambda>y. (Inr (), y))
     (\<lambda>c u n y. (Inl (JsError ''NotAllowedError''), y)) (\<lambda>c n i y. (Inl (JsError ''NotAllowedError''), y))
     (\<lambda>c u y. (Inl (JsError ''Error''), y)) (\<lambda>c i y. (Inl (JsError ''Error''), y)))"

definition ex_host_state :: "unit host_state" where
  "ex_host_state = \<lparr>ho_db = None, ho_idb = (\<lambda>st k. None), ho_async = (\<lambda>k. None), ho_keychain = (\<lambda>k. None), ho_outer = ()\<rparr>"

lemmas ex_host_defs = ex_host_def sdk.extend_def host_api.fields_def

lemma ex_host_sel [simp]:
  "json_parse (ex_host r v) bs = Inr (if bs = [] then Undef else v)" "crypto_ops (ex_host r v) = ex_sdk_crypto"
  "ml_dsa44_sign (ex_host r v) m k = k" "ml_dsa44_public_key (ex_host r v) k = k" "aes_gcm_seal (ex_host r v) k n m = k @ m"
  "sdk_random (ex_host r v) len y = (replicate len 0, y)" "sdk_keygen (ex_host r v) y = (([7], [7]), y)"
  "idb_open (ex_host r v) y = (Inr (), y)" "idb_request (ex_host r v) y = (Inr (), y)"
  "async_call (ex_host r v) y = (r, y)" "keychain_call (ex_host r v) y = (Inr (), y)"
  by (simp_all add: ex_host_defs)

definition ex_key_record :: js where
  "ex_key_record = wrapped_key_record [7] (replicate 12 0) (replicate 32 0 @ [7])"

lemma ex_host_parses: "json_law (ex_host r (wrapped_key_record k n w)) (wrapped_key_record k n w)"
  by (simp add: json_law_def wrapped_key_record_def utf8_nonempty)

lemma ex_host_ready: "provider_ready (ex_host (Inr ()) ex_key_record) ex_host_state"
proof -
  have "gcm_law (ex_host r v)" for r v by (simp add: gcm_law_def ex_sdk_crypto_def)
  moreover have "signature_law (ex_host r v)" for r v by (simp add: signature_law_def)
  moreover have "records_parse (ex_host r ex_key_record)" for r
    using ex_host_parses [of r "[7]" "replicate 12 0" "replicate 32 0 @ [7]"]
    by (simp only: records_parse_def ex_host_sel fst_conv snd_conv ex_key_record_def) blast
  ultimately show ?thesis
    by (simp add: provider_ready_def provider_laws_def keygen_law_def host_works_def ex_host_state_def)
qed

theorem generated_keys_sign_on_both_platforms_witness:
  "\<exists>k s1 t s2. rn_generateKey (ex_host (Inr ()) ex_key_record) ''master'' ex_host_state = (Inr k, s1) \<and>
     rn_sign (ex_host (Inr ()) ex_key_record) ''master'' [1, 2]
       (fold (rn_step (ex_host (Inr ()) ex_key_record)) [Make_Key ''other'', Delete_Key ''other''] s1) = (Inr t, s2) \<and>
     mlDsa44Verify (ex_host (Inr ()) ex_key_record) k [1, 2] t = Inr True"
  using generated_keys_sign_on_both_platforms [OF ex_host_ready, of "''master''" "[Make_Key ''other'', Delete_Key ''other'']" "[1, 2]"]
  by (simp add: spares_def)

definition ex_phone :: "unit host_api" where
  "ex_phone = ex_host (Inl (JsError ''QuotaExceeded'')) (wrapped_key_record [7] (replicate 12 0) (replicate 32 1 @ [7]))"

definition ex_phone_state :: "unit host_state" where
  "ex_phone_state = ex_host_state\<lparr>ho_keychain := [keychainService ''master'' \<mapsto> bytes_to_base64url (replicate 32 1)],
     ho_async := [namespacedKey WRAPPED_KEY_NAMESPACE ''master'' \<mapsto>
       bytes_to_base64url (utf8_encode (json_stringify (wrapped_key_record [7] (replicate 12 0) (replicate 32 1 @ [7]))))]\<rparr>"

lemma ex_phone_holds: "rn_holds ex_phone ex_phone_state ''master'' [7]"
  unfolding rn_holds_def
  by (rule exI [of _ "replicate 32 1"], rule exI [of _ "replicate 12 0"], rule exI [of _ "[7]"])
    (simp add: ex_phone_def ex_phone_state_def ex_host_parses)

lemma ex_phone_other_key: "wrong_key_law ex_phone (replicate 32 1) (replicate 32 0)"
  by (simp add: wrong_key_law_def ex_phone_def ex_sdk_crypto_def eval_nat_numeral)

definition ex_phone_after :: "unit host_state" where
  "ex_phone_after = ex_phone_state\<lparr>ho_keychain := [keychainService ''master'' \<mapsto> bytes_to_base64url (replicate 32 0)]\<rparr>"

lemma ex_phone_regenerates:
  "rn_generateKey ex_phone ''master'' ex_phone_state = (Inl (JsError ''QuotaExceeded''), ex_phone_after)"
  by (simp add: rn_generateKey_def bindA_def act_simps put_keychain_def rn_set_def ex_phone_def ex_phone_after_def
      ex_phone_state_def ex_host_state_def del: bytes_to_base64url.simps)

theorem failed_regeneration_loses_the_phone_key_witness:
  "rn_generateKey ex_phone ''master'' ex_phone_state = (Inl (JsError ''QuotaExceeded''), ex_phone_after) \<and>
    (\<exists>e. fst (rn_sign ex_phone ''master'' [1] ex_phone_after) = Inl e)"
proof -
  have changed: "ho_keychain ex_phone_after \<noteq> ho_keychain ex_phone_state"
    by (auto simp: ex_phone_after_def ex_phone_state_def fun_eq_iff b64.enc_inject eval_nat_numeral simp del: bytes_to_base64url.simps)
  have old: "ho_keychain ex_phone_state (keychainService ''master'') = Some (bytes_to_base64url (replicate 32 1))"
    by (simp add: ex_phone_state_def)
  have "wrong_key_law ex_phone (replicate 32 1) (fst (sdk_random ex_phone 32 (snd (sdk_keygen ex_phone (ho_outer ex_phone_state)))))"
    using ex_phone_other_key by (simp add: ex_phone_def)
  from failed_regeneration_loses_the_phone_key [OF ex_phone_holds old ex_phone_regenerates changed this refl refl, of "[1]"]
  show ?thesis using ex_phone_regenerates by simp
qed

theorem platform_namespaces_are_apart_witness:
  "rn_contents ''keyring'' (snd (rn_set (ex_host (Inr ()) Undef) ''cards'' ''a'' [1] ex_host_state)) ''a'' = None"
  using platform_namespaces_are_apart [of "''cards''" "''keyring''" "''a''" "''a''" "ex_host (Inr ()) Undef" "[1]" ex_host_state]
  by (simp add: rn_contents_def ex_host_state_def)

end
