(* ===== verification/Spec2Isabelle.thy ===== *)
theory Spec2Isabelle
  imports Verdict_Properties Press_Properties Press_Limits Wallet_Recovery_Properties Wallet_Limit_Properties Wallet_Federation_Properties Wallet_Delivery_Properties Wallet_Matrix_Properties Relay_Task_Properties Provider_Properties Press_Server_Properties App_Properties Sdk_Properties Sdk_Provider_Properties
begin

text \<open>
  A verification development for the membership card protocol: the card verifier
  (\<open>membership_card_verifier/packages/verifier\<close>), the press (\<open>press\<close>), which issues and updates
  cards, the wallet service (\<open>wallet-service\<close>), which keeps accounts, encrypted key backups and
  messages, the relay (\<open>relay\<close>), which carries messages to devices, and the two libraries that
  applications and wallets call (\<open>app-sdk\<close>, \<open>wallet-sdk\<close>). Paths below are relative to \<open>src/\<close>.

  \<^bold>\<open>How the program works.\<close> A card is a key pair, an encrypted document on IPFS and an entry
  in a registry contract. A policy card says which cards may be made under it; a press, which
  holds a key listed by the policy, assembles a card, has the holder and the issuer sign it, pins
  the document and registers it. Later entries of the log of a card (updates, revocations) are
  signed documents that name their predecessor and form a chain in IPFS whose head the contract
  stores. Holders sign with sub-cards, keys of single apps that the press registers when the
  master key has signed them. A verifier, given an envelope (a payload with one signature entry
  per signer) or a card, walks from the sub-card to its master card, along the ancestors to a
  trusted root, collects revocations, checks the compliance with the policy and the annotations
  of third parties. The wallet service holds a keyring (an encrypted blob) and key backups for a
  card; a backup is handed out again only after a window of 72 hours in which the holder can
  cancel. Servers announce to each other which of them keeps a card. Messages are left at the
  wallet service of a recipient, which spends single-use UUIDs of its devices at their relay; the
  relay buffers the blob, wakes the device and owes the wallet a delete once the device
  has acknowledged.

  \<^bold>\<open>How the code is modelled.\<close> Pure functions are HOL functions on JSON values (\<open>js\<close>, with
  objects as ordered association lists, numbers as doubles that are finite integers, fractions
  where the code computes them, or not finite). An asynchronous function is a program of type
  \<open>'s \<Rightarrow> (exn + 'a) \<times> 's\<close> (theory \<open>Programs\<close>): it reads and changes an explicit state and may
  throw; \<open>bindA\<close> is \<open>await\<close>, \<open>catchA\<close> and \<open>caught\<close> are the handlers of the source. What is not in the
  repository (signature schemes, ciphers, hashes, the contract, IPFS gateways, other servers, push
  providers, the clock, random bytes) is a record of functions that every definition takes;
  theorems assume nothing about it unless a named hypothesis says so, and each hypothesis
  holds in a concrete world for which the witnesses evaluate the code.

  \<^bold>\<open>Shared theories.\<close> \<open>Prelude\<close> (errors, option and list lemmas), \<open>Js_Value\<close> and \<open>Js_Runtime\<close> (values,
  truthiness, property access, number parsing, templates, dates, UUIDs, paths, JSON texts),
  \<open>Js_Double\<close> (round-to-even arithmetic, with its monotonicity and exactness lemmas), \<open>Base64\<close> (the
  codec with its 32-bit accumulator), \<open>Canonical\<close> (injectivity of the canonical bytes), \<open>Programs\<close>.

  \<^bold>\<open>Verifier.\<close> \<open>Verifier_Types\<close> has the interfaces of \<open>types.ts\<close>, the primitives and the registry of an
  RPC provider; \<open>Policy_Match\<close> is \<open>policy-match.ts\<close>; \<open>Verifier_Stage1\<close> (stages 1 and 2) to \<open>Verifier_Stage5\<close> (5 and 6) are the six
  stages (the last two in one theory), each with its functional lemmas; \<open>Card_Verifier\<close> is the class of \<open>CardVerifier.ts\<close>.
  \<open>Verifier_Properties\<close>, \<open>Verdict_Properties\<close> and \<open>Envelope_Properties\<close> show that Stage 2 refines the
  specification of a genuine sub-card and Stage 3 that of a rooted chain of bounded length, what
  a positive result guarantees, which revocation decides, and how errors surface.
  \<open>Verifier_Providers\<close> has the RPC and IPFS provider packages; \<open>Provider_Properties\<close> shows that the
  event log scanned in windows is the log one query gives, and when the scan returns.
  \<open>Example_World\<close> is the world of the witnesses. The chain walks of the source are bounded by
  \<open>maxChainDepth\<close>, which is their fuel here.

  \<^bold>\<open>Press.\<close> \<open>Press_Base\<close> (state, key-value store, serializer), \<open>Press_Config\<close>, \<open>Press_Ipfs\<close>,
  \<open>Press_Crypto\<close>, \<open>Press_Registry\<close> (contract client with retries and the event log), \<open>Press_Gas\<close>,
  \<open>Press_Context\<close>, \<open>Press_Predicates\<close> (policies, limits), \<open>Press_Issuance\<close>, \<open>Press_Log\<close>,
  \<open>Press_Notifications\<close>, and the handlers \<open>Press_Issue\<close>, \<open>Press_Update\<close>, \<open>Press_SubCard\<close>,
  \<open>Press_OpenOffer\<close>. \<open>Press_Runs\<close> executes the handlers on concrete requests in the world of
  \<open>Press_World\<close>; \<open>Press_Properties\<close> and \<open>Press_Limits\<close> show what an accepted request has proven, that an
  offer is finalized once, that limits count what was written, and that gas is credited from
  transfers. \<open>Press_Server\<close> has startup, the routes, the oblivious gateway with its dispatcher and the
  pinning task; \<open>Press_Server_Properties\<close> shows that the gateway answers as the routes do and what a
  failed startup leaves behind. Polling loops of the source have a number of rounds, which is the fuel.

  \<^bold>\<open>Wallet service.\<close> \<open>Wallet_Db\<close> has one record per table and one function per SQL statement, each
  executed atomically; \<open>Wallet_Base\<close> the state (database, key-value store, caches) and the services;
  \<open>Wallet_Config\<close> (with the envelope encryption of secrets), \<open>Wallet_Auth\<close> (sessions, signatures),
  \<open>Wallet_Federation\<close>, \<open>Wallet_Accounts\<close>, \<open>Wallet_Recovery\<close>, \<open>Wallet_Messages\<close>, \<open>Wallet_Matrix\<close> and
  \<open>Wallet_Ohttp\<close> the components. \<open>Wallet_Steps\<close> defines \<open>sql_step\<close>, the step relation with one rule for
  every kind of statement, and proves that every handler and task is a sequence of such steps;
  \<open>Wallet_Invariants\<close> proves invariants for every sequence of steps, and hence for every
  interleaving of handlers, tasks and restarts at the level of statements, and follows a recovery
  window through its life; \<open>Wallet_Frames\<close> says what programs leave alone. The
  properties are in \<open>Wallet_Recovery_Properties\<close>, \<open>Wallet_Account_Properties\<close>,
  \<open>Wallet_Session_Properties\<close>, \<open>Wallet_Limit_Properties\<close>, \<open>Wallet_Federation_Properties\<close>,
  \<open>Wallet_Delivery_Properties\<close> and \<open>Wallet_Matrix_Properties\<close>, with their world in \<open>Wallet_World\<close>.

  \<^bold>\<open>Relay.\<close> \<open>Relay_Store\<close> has the Redis keyspace, its commands and the three Lua scripts with their
  times to live; \<open>Relay_Config\<close> the files read at the start; \<open>Relay_Base\<close> the state, the device
  registry, push dispatch and the maps of open connections; \<open>Relay_Routes\<close> every route, the
  WebSocket upgrade and its teardown, startup, re-registration, pruning and the
  clearance of deletes. \<open>Relay_Properties\<close> defines the step relation of the whole relay
  and shows, through the locale \<open>redis_order\<close> of programs that move UUIDs only forward, that a UUID
  is delivered to once; \<open>Relay_Task_Properties\<close> treats the buffer, acknowledgements, connections and the
  background tasks.

  \<^bold>\<open>Client libraries.\<close> \<open>Sdk_Base\<close> has the state of a device (storage, cached key configurations, the
  outside), the injected providers, the interface of the oblivious transport with the JSON helper, and
  the transport itself; \<open>App_Messaging\<close> envelopes, copies for sub-cards, received copies,
  edit chains, UUID pools and the replenishment scheduler; \<open>App_Cards\<close> offers, sub-card requests and
  Matrix accounts; \<open>Wallet_Cards\<close> the keyring, the review and acceptance of offers, the countersignature
  of sub-card requests and updates; \<open>Wallet_Custody\<close> setup, backups and recovery; \<open>Wallet_Rooms\<close> signed
  room events and discovery. \<open>Sdk_Laws\<close> names what the libraries rely on of ciphers, encapsulation,
  signatures and JSON, and interprets the locale of sealed texts; \<open>App_Properties\<close> and \<open>Sdk_Properties\<close>
  show round trips, what is stored before it is used, and that the documents of the libraries pass the
  press, and run the libraries against the dispatchers of the press and of the wallet service. The device
  of the witnesses is at the end of \<open>Sdk_Laws\<close>. \<open>Sdk_Providers\<close> has the providers the browser and the
  phone ship (IndexedDB, AsyncStorage, keys, passkeys, the lock between tabs); \<open>Sdk_Provider_Properties\<close>
  states a store of bytes and a keeper of keys as locales, interprets them on both platforms, and shows that the
  lock is exclusive and that the passkeys of the phone set up no wallet.

  \<^bold>\<open>Bounds.\<close> A loop over a list is recursion on the list. Loops of the source that retry or poll have a
  counter in the source, which is the fuel. The codec and the wire formats use 8 and 32 bit words;
  other numbers of the source are doubles, which the model keeps as integers of unbounded size
  wherever the code only adds and compares small ones, and rounds where it divides.

  \<^bold>\<open>Not modelled.\<close> Log lines, HTTP servers, timers and process signals; the
  streams and sockets of the client platforms; the contracts in Rust; the
  Python copy of the verifier and the superseded client SDK and relay, which repeat what is
  modelled; scripts of operators, tests, the landing page. Requests that the code runs
  concurrently with \<open>Promise.all\<close> are made in order. Statements that select
  rows without an order return them in the order of insertion. Strings are lists of characters below
  256; JSON numbers that are fractions are outside of the model of values. Two
  handlers of the press and of the relay are not interleaved with one another, except for the relay's
  recovery, tasks and socket events, which are steps of their own, and for the statements of the wallet service.
\<close>

end
